(* ===== verification/Control_Prelude.thy ===== *)
theory Control_Prelude
  imports Main "HOL-Library.Word" "HOL-Library.Char_ord" "HOL-Library.List_Lexorder"
begin

text \<open>
  Shared vocabulary of the development: Rust's \<open>Result\<close> as a sum, the early return
  \<open>?\<close> as a list of checks, \<open>u64\<close> arithmetic with its saturating and checked
  operations, \<open>str::trim().is_empty()\<close> on UTF-8 bytes, and the digest syntax check
  that several modules of m1nd-control repeat word for word.
\<close>

named_theorems ctl_defs \<open>unfolding equations of the small validator helpers\<close>

type_synonym u64 = "64 word"
type_synonym bytes = string

text \<open>A Rust \<open>Result<T, E>\<close> is \<open>E + T\<close>; \<open>Err\<close> is the left injection.\<close>

abbreviation Ok :: "'a \<Rightarrow> 'e + 'a" where "Ok \<equiv> Inr"
abbreviation Err :: "'e \<Rightarrow> 'e + 'a" where "Err \<equiv> Inl"

section \<open>Early return\<close>

text \<open>
  A Rust block \<open>a?; b?; c\<close> runs its statements in order and returns the first error.
  \<open>seq_checks\<close> is such a block of unit results, \<open>and_then\<close> binds the value of a
  fallible call, \<open>check c e\<close> is \<open>if !c { return Err(e) }\<close>.
\<close>

fun seq_checks :: "('e + unit) list \<Rightarrow> 'e + unit" where
  "seq_checks [] = Ok ()"
| "seq_checks (c # cs) = (case c of Inl e \<Rightarrow> Err e | Inr _ \<Rightarrow> seq_checks cs)"

definition and_then :: "'e + 'a \<Rightarrow> ('a \<Rightarrow> 'e + 'b) \<Rightarrow> 'e + 'b" where
  "and_then r f = (case r of Inl e \<Rightarrow> Err e | Inr x \<Rightarrow> f x)"

definition map_err :: "('d \<Rightarrow> 'e) \<Rightarrow> 'd + 'a \<Rightarrow> 'e + 'a" where
  "map_err g r = (case r of Inl e \<Rightarrow> Err (g e) | Inr x \<Rightarrow> Ok x)"

definition check :: "bool \<Rightarrow> 'e \<Rightarrow> 'e + unit" where
  "check ok e = (if ok then Ok () else Err e)"

definition ok_or :: "'a option \<Rightarrow> 'e \<Rightarrow> 'e + 'a" where
  "ok_or x e = (case x of None \<Rightarrow> Err e | Some v \<Rightarrow> Ok v)"

lemma check_simps [simp]:
  "check c e = Inr u \<longleftrightarrow> c" "check True e = Inr ()" "check False e = Inl e"
  "check c e = Inl d \<longleftrightarrow> \<not> c \<and> d = e"
  by (auto simp: check_def)

lemma seq_checks_append [simp]:
  "seq_checks (xs @ ys) = and_then (seq_checks xs) (\<lambda>_. seq_checks ys)"
  by (induction xs) (auto simp: and_then_def split: sum.splits)

lemma seq_checks_ok [simp]: "seq_checks cs = Inr u \<longleftrightarrow> (\<forall>c \<in> set cs. c = Inr ())"
  by (induction cs) (auto split: sum.splits)

lemma seq_checks_errD:
  "seq_checks cs = Inl e \<Longrightarrow>
     \<exists>pre post. cs = pre @ Inl e # post \<and> (\<forall>c \<in> set pre. c = Inr ())"
proof (induction cs)
  case Nil
  then show ?case by simp
next
  case (Cons c cs)
  show ?case
  proof (cases c)
    case (Inl d)
    with Cons.prems have "c # cs = [] @ Inl e # cs" by simp
    then show ?thesis by fastforce
  next
    case (Inr u)
    with Cons obtain pre post where "cs = pre @ Inl e # post" "\<forall>c \<in> set pre. c = Inr ()" by auto
    with Inr have "c # cs = (c # pre) @ Inl e # post" "\<forall>d \<in> set (c # pre). d = Inr ()" by auto
    then show ?thesis by blast
  qed
qed

lemma seq_checks_prefix:
  "\<forall>c \<in> set pre. c = Inr () \<Longrightarrow> seq_checks (pre @ Inl e # post) = Inl e"
  by (induction pre) (auto simp del: seq_checks_append)

declare seq_checks.simps(2) [simp del]

lemmas seq_checks_Cons = seq_checks.simps(2)

lemma and_then_ok [simp]: "and_then r f = Inr y \<longleftrightarrow> (\<exists>x. r = Inr x \<and> f x = Inr y)"
  by (cases r) (auto simp: and_then_def)

lemma and_then_simps [simp]: "and_then (Inr x) f = f x" "and_then (Inl e) f = Inl e"
  by (auto simp: and_then_def)

lemma and_then_err: "and_then r f = Inl e \<longleftrightarrow> r = Inl e \<or> (\<exists>x. r = Inr x \<and> f x = Inl e)"
  by (cases r) auto

lemma map_err_simps [simp]:
  "map_err g (Inr x) = Inr x" "map_err g (Inl e) = Inl (g e)"
  "map_err g r = Inr x \<longleftrightarrow> r = Inr x"
  by (auto simp: map_err_def split: sum.splits)

lemma ok_or_simps [simp]:
  "ok_or x e = Inr v \<longleftrightarrow> x = Some v" "ok_or (Some v) e = Inr v" "ok_or None e = Inl e"
  "ok_or x e = Inl d \<longleftrightarrow> x = None \<and> d = e"
  by (auto simp: ok_or_def split: option.splits)

lemma unit_sum_cases: "(r :: 'e + unit) = Inr () \<or> (\<exists>e. r = Inl e)"
  by (cases r) auto

section \<open>u64 arithmetic\<close>

definition saturating_add :: "u64 \<Rightarrow> u64 \<Rightarrow> u64" where
  "saturating_add a b = (if unat a + unat b < 2 ^ 64 then a + b else - 1)"

definition checked_add :: "u64 \<Rightarrow> u64 \<Rightarrow> u64 option" where
  "checked_add a b = (if unat a + unat b < 2 ^ 64 then Some (a + b) else None)"

lemma unat_saturating_add:
  "unat (saturating_add a b) = min (unat a + unat b) (2 ^ 64 - 1)"
  by (auto simp: saturating_add_def unat_word_ariths unsigned_minus_1_eq_mask mask_eq_exp_minus_1
      min_def)

lemma checked_add_Some:
  "checked_add a b = Some c \<longleftrightarrow> unat a + unat b < 2 ^ 64 \<and> unat c = unat a + unat b"
  by (auto simp: checked_add_def unat_word_ariths word_unat_eq_iff)

lemma checked_add_one_None: "checked_add a 1 = None \<longleftrightarrow> a = - 1"
proof -
  have "unat a < 2 ^ 64" using unsigned_less [of a] by simp
  then have "checked_add a 1 = None \<longleftrightarrow> unat a = unat (- 1 :: u64)"
    by (auto simp: checked_add_def unsigned_minus_1_eq_mask mask_eq_exp_minus_1)
  then show ?thesis by (simp add: word_unat_eq_iff)
qed

lemma saturating_succ: "n \<noteq> - 1 \<Longrightarrow> unat (saturating_add n 1) = Suc (unat n)"
proof -
  assume "n \<noteq> - 1"
  then have "checked_add n 1 \<noteq> None" by (simp add: checked_add_one_None)
  then have "unat n + 1 < 2 ^ 64" by (auto simp: checked_add_def split: if_splits)
  then show ?thesis by (simp add: unat_saturating_add)
qed

lemma saturating_add_succ: "n + 1 \<noteq> 0 \<Longrightarrow> saturating_add n 1 = n + 1"
proof -
  assume "n + 1 \<noteq> 0"
  then have "n \<noteq> - 1" by auto
  then have "checked_add n 1 \<noteq> None" by (simp add: checked_add_one_None)
  then have "unat n + unat (1 :: u64) < 2 ^ 64" by (auto simp: checked_add_def split: if_splits)
  then show ?thesis by (simp add: saturating_add_def)
qed

section \<open>Strings\<close>

text \<open>
  Rust strings are their UTF-8 bytes. \<open>char::is_whitespace\<close> (the Unicode property
  White\_Space, which \<open>str::trim\<close> removes) on those bytes: U+0009 to U+000D and U+0020
  in one byte, U+0085 and U+00A0 in two, U+1680, U+2000 to U+200A, U+2028, U+2029,
  U+202F, U+205F and U+3000 in three.
\<close>

definition white1 :: "char \<Rightarrow> bool" where
  "white1 a = (let n = of_char a :: nat in 9 \<le> n \<and> n \<le> 13 \<or> n = 32)"

definition white2 :: "char \<Rightarrow> char \<Rightarrow> bool" where
  "white2 a b = (let n = of_char b :: nat in (of_char a :: nat) = 0xC2 \<and> (n = 0x85 \<or> n = 0xA0))"

definition white3 :: "char \<Rightarrow> char \<Rightarrow> char \<Rightarrow> bool" where
  "white3 a b c =
     (let x = of_char a :: nat; y = of_char b :: nat; z = of_char c :: nat in
        x = 0xE1 \<and> y = 0x9A \<and> z = 0x80 \<or>
        x = 0xE2 \<and> y = 0x80 \<and> (0x80 \<le> z \<and> z \<le> 0x8A \<or> z = 0xA8 \<or> z = 0xA9 \<or> z = 0xAF) \<or>
        x = 0xE2 \<and> y = 0x81 \<and> z = 0x9F \<or>
        x = 0xE3 \<and> y = 0x80 \<and> z = 0x80)"

text \<open>\<open>trims_empty s\<close> is the test \<open>s.trim().is_empty()\<close>.\<close>

fun trims_empty :: "string \<Rightarrow> bool" where
  "trims_empty [] = True"
| "trims_empty [a] = white1 a"
| "trims_empty [a, b] = (if white1 a then trims_empty [b] else white2 a b)"
| "trims_empty (a # b # c # s) =
     (if white1 a then trims_empty (b # c # s)
      else if white2 a b then trims_empty (c # s)
      else white3 a b c \<and> trims_empty s)"

lemma trims_empty_nonempty: "\<not> trims_empty s \<Longrightarrow> s \<noteq> []"
  by auto

lemma trims_empty_ascii: "\<not> white1 a \<Longrightarrow> (of_char a :: nat) < 0x80 \<Longrightarrow> \<not> trims_empty (a # s)"
  by (cases s; cases "tl s") (auto simp: white2_def white3_def Let_def)

definition is_lower_hex :: "char \<Rightarrow> bool" where
  "is_lower_hex c =
     (let n = of_char c :: nat in 48 \<le> n \<and> n \<le> 57 \<or> 97 \<le> n \<and> n \<le> 102)"

text \<open>The test of every \<open>require_digest\<close>: 64 bytes, all of them in 0-9 or a-f.\<close>

definition digest_syntax :: "string \<Rightarrow> bool" where
  "digest_syntax v \<longleftrightarrow> length v = 64 \<and> list_all is_lower_hex v"

lemma digest_syntax_nonempty: "digest_syntax v \<Longrightarrow> v \<noteq> []"
  by (auto simp: digest_syntax_def)

lemma is_lower_hex_not_white: "is_lower_hex c \<Longrightarrow> \<not> white1 c"
  by (auto simp: is_lower_hex_def white1_def Let_def)

lemma digest_syntax_not_blank: "digest_syntax v \<Longrightarrow> \<not> trims_empty v"
proof -
  assume d: "digest_syntax v"
  then obtain a s where v: "v = a # s" by (cases v) (auto simp: digest_syntax_def)
  with d have "is_lower_hex a" by (simp add: digest_syntax_def)
  then have "\<not> white1 a" and "(of_char a :: nat) < 0x80"
    by (auto simp: is_lower_hex_not_white is_lower_hex_def Let_def)
  with v show ?thesis by (simp add: trims_empty_ascii)
qed

section \<open>Lists of named entries\<close>

lemma image_disjointI: "\<forall>y \<in> B. f y \<notin> f ` A \<Longrightarrow> f ` A \<inter> f ` B = {}"
proof (rule equals0I)
  fix z assume fresh: "\<forall>y \<in> B. f y \<notin> f ` A" and "z \<in> f ` A \<inter> f ` B"
  then obtain y where "y \<in> B" "f y \<in> f ` A" by (metis IntD1 IntD2 imageE)
  with fresh show False by blast
qed

lemma map_of_filter_key: "map_of (filter (\<lambda>(k, _). k \<noteq> x) kvs) y = (if y = x then None else map_of kvs y)"
  by (induction kvs) auto

end
