(* ===== verification/Canonical.thy ===== *)
theory Canonical
  imports Control_Prelude "HOL-Library.Multiset"
begin

text \<open>
  \<open>m1nd-control/src/canonical.rs\<close>: JSON values, the canonical writer that sorts object
  keys recursively, and the domain-separated SHA-256 digest.  The third-party parts are
  fields of the record \<open>platform\<close>: the hash of the sha2 crate and the two leaf writers
  of serde\_json (numbers and strings).  The lemmas show that the canonical bytes
  determine the value up to the order of object keys, that the hashed message determines
  the domain and the payload, and that a digest always passes the digest syntax check.
\<close>

section \<open>Third-party primitives\<close>

record platform =
  sha256 :: "bytes \<Rightarrow> bytes"
  write_number :: "int \<Rightarrow> bytes"
  write_string :: "string \<Rightarrow> bytes"

text \<open>
  \<open>serde_json::Value\<close>.  An object is kept as its list of entries; serde\_json's map has
  no duplicate key (\<open>wf_json\<close>).  No contract of the crate serialises a float, so a
  number is an integer.
\<close>

datatype json =
    JNull
  | JBool bool
  | JNumber int
  | JString string
  | JArray "json list"
  | JObject "(string \<times> json) list"

fun wf_json :: "json \<Rightarrow> bool" where
  "wf_json (JArray vs) = (\<forall>v \<in> set vs. wf_json v)"
| "wf_json (JObject kvs) = (distinct (map fst kvs) \<and> (\<forall>kv \<in> set kvs. wf_json (snd kv)))"
| "wf_json _ = True"

definition json_u64 :: "u64 \<Rightarrow> json" where "json_u64 n = JNumber (uint n)"

definition json_opt :: "('a \<Rightarrow> json) \<Rightarrow> 'a option \<Rightarrow> json" where
  "json_opt f x = (case x of None \<Rightarrow> JNull | Some v \<Rightarrow> f v)"

text \<open>\<open>serde_json::Map::remove\<close> on a value that is an object.\<close>

fun obj_remove :: "string \<Rightarrow> json \<Rightarrow> json" where
  "obj_remove k (JObject kvs) = JObject (filter (\<lambda>kv. fst kv \<noteq> k) kvs)"
| "obj_remove k v = v"

section \<open>The canonical writer\<close>

fun intersperse_concat :: "bytes \<Rightarrow> bytes list \<Rightarrow> bytes" where
  "intersperse_concat sep [] = []"
| "intersperse_concat sep [x] = x"
| "intersperse_concat sep (x # y # xs) = x @ sep @ intersperse_concat sep (y # xs)"

definition write_entry :: "platform \<Rightarrow> string \<times> bytes \<Rightarrow> bytes" where
  "write_entry E kb = write_string E (fst kb) @ '':'' @ snd kb"

text \<open>
  \<open>write_value\<close>: the keys of an object are sorted (\<open>sort_unstable\<close> on strings, which is
  the lexicographic order of the bytes) and the entries written in that order.
\<close>

primrec write_value :: "platform \<Rightarrow> json \<Rightarrow> bytes" where
  "write_value E JNull = ''null''"
| "write_value E (JBool b) = (if b then ''true'' else ''false'')"
| "write_value E (JNumber n) = write_number E n"
| "write_value E (JString s) = write_string E s"
| "write_value E (JArray vs) =
     ''['' @ intersperse_concat '','' (map (write_value E) vs) @ '']''"
| "write_value E (JObject kvs) =
     ''{'' @ intersperse_concat '',''
       (map (write_entry E) (sort_key fst (map (map_prod id (write_value E)) kvs))) @ ''}''"

definition canonical_json :: "platform \<Rightarrow> json \<Rightarrow> bytes" where
  "canonical_json E v = write_value E v"

section \<open>Domain-separated digests\<close>

text \<open>\<open>u64::to_be_bytes\<close>.\<close>

definition be_bytes :: "u64 \<Rightarrow> bytes" where
  "be_bytes w = map (\<lambda>i. char_of (unat (drop_bit (8 * i) w))) [7, 6, 5, 4, 3, 2, 1, 0]"

definition digest_prefix :: bytes where
  "digest_prefix = ''m1nd-domain-separated-sha256-v1'' @ [CHR 0x00]"

definition hex_digits :: string where
  "hex_digits = ''0123456789abcdef''"

text \<open>\<open>HEX[(byte >> 4) as usize]\<close> and \<open>HEX[(byte & 0x0f) as usize]\<close> of every byte.\<close>

definition hex_byte :: "char \<Rightarrow> string" where
  "hex_byte b = (let n = of_char b :: nat in [hex_digits ! (n div 16), hex_digits ! (n mod 16)])"

definition hex_lower :: "bytes \<Rightarrow> string" where
  "hex_lower bs = concat (map hex_byte bs)"

definition digest_message :: "string \<Rightarrow> bytes \<Rightarrow> bytes" where
  "digest_message domain payload =
     digest_prefix @ be_bytes (of_nat (length domain)) @ domain
       @ be_bytes (of_nat (length payload)) @ payload"

definition digest_domain_bytes :: "platform \<Rightarrow> string \<Rightarrow> bytes \<Rightarrow> string" where
  "digest_domain_bytes E domain payload = hex_lower (sha256 E (digest_message domain payload))"

definition digest_canonical :: "platform \<Rightarrow> string \<Rightarrow> json \<Rightarrow> string" where
  "digest_canonical E domain v = digest_domain_bytes E domain (canonical_json E v)"

text \<open>
  What the crate relies on in its dependencies: serde\_json writes a string between quotes,
  so that where it ends can be read off the bytes, escapes the newline, and writes an
  integer injectively in digits and a sign; SHA-256 returns 32 bytes.
\<close>

definition number_char :: "char \<Rightarrow> bool" where
  "number_char c \<longleftrightarrow> c \<in> set ''-0123456789''"

definition serde_writer :: "platform \<Rightarrow> bool" where
  "serde_writer E \<longleftrightarrow>
     (\<forall>s t r u. write_string E s @ r = write_string E t @ u \<longrightarrow> s = t \<and> r = u) \<and>
     (\<forall>s. take 1 (write_string E s) = [CHR 0x22]) \<and>
     (\<forall>s. CHR 0x0A \<notin> set (write_string E s)) \<and>
     inj (write_number E) \<and>
     (\<forall>n. write_number E n \<noteq> [] \<and> list_all number_char (write_number E n))"

definition sha256_width :: "platform \<Rightarrow> bool" where
  "sha256_width E \<longleftrightarrow> (\<forall>m. length (sha256 E m) = 32)"

text \<open>A concrete collision: two different messages with one hash value.\<close>

definition collides :: "platform \<Rightarrow> bytes \<Rightarrow> bytes \<Rightarrow> bool" where
  "collides E m n \<longleftrightarrow> m \<noteq> n \<and> sha256 E m = sha256 E n"

section \<open>Canonical form and unique decodability\<close>

text \<open>
  The abstract meaning of canonical bytes: \<open>canon\<close> sorts the keys of every object, and
  \<open>write_plain\<close> writes entries in the order they stand.  The canonical writer is the
  plain writer of the canonical form.
\<close>

primrec canon :: "json \<Rightarrow> json" where
  "canon JNull = JNull"
| "canon (JBool b) = JBool b"
| "canon (JNumber n) = JNumber n"
| "canon (JString s) = JString s"
| "canon (JArray vs) = JArray (map canon vs)"
| "canon (JObject kvs) = JObject (sort_key fst (map (map_prod id canon) kvs))"

primrec write_plain :: "platform \<Rightarrow> json \<Rightarrow> bytes" where
  "write_plain E JNull = ''null''"
| "write_plain E (JBool b) = (if b then ''true'' else ''false'')"
| "write_plain E (JNumber n) = write_number E n"
| "write_plain E (JString s) = write_string E s"
| "write_plain E (JArray vs) =
     ''['' @ intersperse_concat '','' (map (write_plain E) vs) @ '']''"
| "write_plain E (JObject kvs) =
     ''{'' @ intersperse_concat '',''
       (map (write_entry E) (map (map_prod id (write_plain E)) kvs)) @ ''}''"

lemma insort_key_map_prod:
  "insort_key fst (map_prod id f kv) (map (map_prod id f) kvs)
     = map (map_prod id f) (insort_key fst kv kvs)"
  by (induction kvs) (auto simp: map_prod_def split: prod.splits)

lemma sort_key_map_prod:
  "sort_key fst (map (map_prod id f) kvs) = map (map_prod id f) (sort_key fst kvs)"
  by (induction kvs) (simp_all add: insort_key_map_prod [unfolded id_def] id_def)

lemma write_value_plain: "write_value E v = write_plain E (canon v)"
proof (induction v)
  case (JArray vs)
  then have "map (write_value E) vs = map (write_plain E) (map canon vs)" by simp
  then show ?case unfolding write_value.simps write_plain.simps canon.simps by (rule arg_cong)
next
  case (JObject kvs)
  then have eq: "map (map_prod id (write_value E)) kvs
      = map (map_prod id (write_plain E)) (map (map_prod id canon) kvs)"
    by force
  show ?case unfolding write_value.simps write_plain.simps canon.simps
    by (simp only: eq sort_key_map_prod [of "write_plain E"])
qed auto

text \<open>What may follow a value: the end, a comma or a closing bracket.\<close>

definition delim :: "bytes \<Rightarrow> bool" where
  "delim r \<longleftrightarrow> r = [] \<or> hd r \<in> set '',]}''"

lemma delim_simps [simp]: "delim []" "delim (CHR '','' # r)" "delim (CHR '']'' # r)"
    "delim (CHR ''}'' # r)"
  by (auto simp: delim_def)

lemma delim_not_number: "delim (c # r) \<Longrightarrow> \<not> number_char c"
  by (auto simp: delim_def number_char_def)

text \<open>The first byte of a written value tells its constructor.\<close>

fun lead_chars :: "json \<Rightarrow> string" where
  "lead_chars JNull = ''n''"
| "lead_chars (JBool b) = ''tf''"
| "lead_chars (JNumber n) = ''-0123456789''"
| "lead_chars (JString s) = [CHR 0x22]"
| "lead_chars (JArray vs) = ''[''"
| "lead_chars (JObject kvs) = ''{''"

lemma write_string_unique:
  "serde_writer E \<Longrightarrow> write_string E s @ r = write_string E t @ u \<Longrightarrow> s = t \<and> r = u"
  unfolding serde_writer_def by blast

lemma write_string_no_newline: "serde_writer E \<Longrightarrow> CHR 0x0A \<notin> set (write_string E s)"
  unfolding serde_writer_def by blast

lemma write_number_chars:
  "serde_writer E \<Longrightarrow> write_number E n \<noteq> [] \<and> list_all number_char (write_number E n)"
  unfolding serde_writer_def by blast

lemma write_number_inj: "serde_writer E \<Longrightarrow> write_number E n = write_number E m \<Longrightarrow> n = m"
  unfolding serde_writer_def by (blast dest: injD)

lemma write_string_cons:
  assumes "serde_writer E"
  obtains u where "write_string E s = CHR 0x22 # u"
proof -
  from assms have "take 1 (write_string E s) = [CHR 0x22]" by (simp add: serde_writer_def)
  then show ?thesis using that by (cases "write_string E s") auto
qed

lemma write_plain_lead:
  assumes "serde_writer E"
  obtains c u where "write_plain E v = c # u" and "c \<in> set (lead_chars v)"
proof (cases v)
  case (JBool b)
  then show ?thesis using that by (cases b) auto
next
  case (JNumber n)
  from assms have "write_number E n \<noteq> []" "list_all number_char (write_number E n)"
    by (simp_all add: write_number_chars)
  then show ?thesis using that JNumber
    by (cases "write_number E n") (auto simp: number_char_def)
next
  case (JString s)
  obtain u where "write_string E s = CHR 0x22 # u" by (rule write_string_cons [OF assms])
  with JString show ?thesis by (intro that [of "CHR 0x22" u]) auto
qed (use that in auto)

lemma lead_chars_open: "c \<in> set (lead_chars v) \<Longrightarrow> c \<notin> set '',]}''"
  by (cases v) auto

lemma takeWhile_number:
  "list_all number_char xs \<Longrightarrow> delim r \<Longrightarrow> takeWhile number_char (xs @ r) = xs"
proof -
  assume xs: "list_all number_char xs" and r: "delim r"
  have "takeWhile number_char r = []"
  proof (cases r)
    case (Cons c u)
    with r have "\<not> number_char c" by (auto dest: delim_not_number)
    with Cons show ?thesis by simp
  qed simp
  with xs show ?thesis
    by (simp add: list_all_iff takeWhile_append)
qed

lemma write_number_unique:
  assumes E: "serde_writer E" and "delim r" "delim s"
    and eq: "write_number E n @ r = write_number E m @ s"
  shows "n = m \<and> r = s"
proof -
  from E have d: "list_all number_char (write_number E k)" for k by (simp add: write_number_chars)
  have "write_number E n = takeWhile number_char (write_number E n @ r)"
    using takeWhile_number [OF d \<open>delim r\<close>] by (rule sym)
  also have "\<dots> = write_number E m"
    unfolding eq using takeWhile_number [OF d \<open>delim s\<close>] .
  finally have "write_number E n = write_number E m" .
  then show ?thesis using eq write_number_inj [OF E] by auto
qed

lemma intersperse_concat_Cons:
  "intersperse_concat sep (x # xs) =
     x @ (if xs = [] then [] else sep @ intersperse_concat sep xs)"
  by (cases xs) auto

text \<open>A comma-separated sequence with a closing bracket is uniquely readable.\<close>

lemma sequence_unique:
  assumes c: "c \<in> set '']}''"
    and lead: "\<And>x. f x \<noteq> [] \<and> hd (f x) \<notin> set '',]}''"
  shows "\<lbrakk> \<And>x y r s. \<lbrakk> x \<in> set xs; delim r; delim s; f x @ r = f y @ s \<rbrakk> \<Longrightarrow> x = y \<and> r = s;
      intersperse_concat '','' (map f xs) @ c # r = intersperse_concat '','' (map f ys) @ c # s \<rbrakk>
    \<Longrightarrow> xs = ys \<and> r = s"
proof (induction xs arbitrary: ys)
  case Nil
  show ?case
  proof (cases ys)
    case (Cons y ys')
    with Nil.prems(2) have "c = hd (f y)"
      using lead [of y] by (cases "f y") (auto simp: intersperse_concat_Cons)
    with c lead [of y] show ?thesis by auto
  qed (use Nil in simp)
next
  case (Cons x xs)
  show ?case
  proof (cases ys)
    case Nil
    with Cons.prems(2) have "c = hd (f x)"
      using lead [of x] by (cases "f x") (auto simp: intersperse_concat_Cons)
    with c lead [of x] show ?thesis by auto
  next
    case (Cons y ys')
    let ?rest = "\<lambda>zs u. (if zs = [] then [] else CHR '','' # intersperse_concat '','' (map f zs)) @ c # u"
    have d: "delim (?rest zs u)" for zs u using c by auto
    from Cons.prems(2) Cons have "f x @ ?rest xs r = f y @ ?rest ys' s"
      by (cases "xs = []"; cases "ys' = []") (simp_all add: intersperse_concat_Cons)
    then have xy: "x = y" and rest: "?rest xs r = ?rest ys' s"
      using Cons.prems(1) [of x "?rest xs r" "?rest ys' s" y] d by auto
    show ?thesis
    proof (cases "xs = []")
      case True
      with rest c have "ys' = [] \<and> r = s" by (auto split: if_splits)
      with True xy Cons show ?thesis by simp
    next
      case False
      with rest c have "ys' \<noteq> []" by (auto split: if_splits)
      with False rest
      have "intersperse_concat '','' (map f xs) @ c # r = intersperse_concat '','' (map f ys') @ c # s"
        by simp
      then have "xs = ys' \<and> r = s" using Cons.IH Cons.prems(1) by (meson list.set_intros(2))
      with xy Cons show ?thesis by simp
    qed
  qed
qed

lemma write_entry_unique:
  assumes E: "serde_writer E"
    and v: "\<And>w r s. \<lbrakk> delim r; delim s; W v @ r = W w @ s \<rbrakk> \<Longrightarrow> v = w \<and> r = s"
    and "delim r" "delim s"
    and eq: "write_entry E (map_prod id W (k, v)) @ r = write_entry E (map_prod id W (l, w)) @ s"
  shows "(k, v) = (l, w) \<and> r = s"
proof -
  from eq have "write_string E k @ (CHR '':'' # W v @ r) = write_string E l @ (CHR '':'' # W w @ s)"
    by (simp add: write_entry_def)
  then have "k = l" and "CHR '':'' # W v @ r = CHR '':'' # W w @ s"
    using write_string_unique [OF E] by blast+
  with v [OF assms(3,4)] show ?thesis by simp
qed

lemma same_lead:
  assumes "serde_writer E" and eq: "write_plain E v @ r = write_plain E w @ s"
  obtains c where "c \<in> set (lead_chars v)" and "c \<in> set (lead_chars w)"
proof -
  obtain c u where v: "write_plain E v = c # u" "c \<in> set (lead_chars v)"
    by (rule write_plain_lead [OF assms(1)])
  obtain d t where w: "write_plain E w = d # t" "d \<in> set (lead_chars w)"
    by (rule write_plain_lead [OF assms(1)])
  from eq v(1) w(1) have "c = d" by simp
  with v w that show ?thesis by blast
qed

lemma write_plain_unique:
  assumes E: "serde_writer E"
  shows "\<lbrakk> delim r; delim s; write_plain E v @ r = write_plain E w @ s \<rbrakk> \<Longrightarrow> v = w \<and> r = s"
proof (induction v arbitrary: w r s)
  case (JNumber n)
  obtain c where "c \<in> set (lead_chars (JNumber n))" "c \<in> set (lead_chars w)"
    by (rule same_lead [OF E JNumber.prems(3)])
  then obtain m where "w = JNumber m" by (cases w) auto
  with JNumber write_number_unique [OF E] show ?case by auto
next
  case (JString t)
  obtain c where "c \<in> set (lead_chars (JString t))" "c \<in> set (lead_chars w)"
    by (rule same_lead [OF E JString.prems(3)])
  then obtain t' where w: "w = JString t'" by (cases w) auto
  with JString.prems(3) have "write_string E t @ r = write_string E t' @ s" by simp
  then have "t = t' \<and> r = s" by (rule write_string_unique [OF E])
  with w show ?case by simp
next
  case (JArray vs)
  obtain c where "c \<in> set (lead_chars (JArray vs))" "c \<in> set (lead_chars w)"
    by (rule same_lead [OF E JArray.prems(3)])
  then obtain ws where w: "w = JArray ws" by (cases w) auto
  have lead: "write_plain E x \<noteq> [] \<and> hd (write_plain E x) \<notin> set '',]}''" for x
    using write_plain_lead [OF E, of x] lead_chars_open by (metis list.distinct(1) list.sel(1))
  have elem: "x = y \<and> r = s"
    if "x \<in> set vs" "delim r" "delim s" "write_plain E x @ r = write_plain E y @ s" for x y r s
    using that by (rule JArray.IH)
  from JArray.prems(3) w
  have seq: "intersperse_concat '','' (map (write_plain E) vs) @ CHR '']'' # r
      = intersperse_concat '','' (map (write_plain E) ws) @ CHR '']'' # s" by simp
  have "vs = ws \<and> r = s"
    by (rule sequence_unique [OF _ lead elem seq]) simp_all
  with w show ?case by simp
next
  case (JObject kvs)
  let ?f = "\<lambda>kv. write_entry E (map_prod id (write_plain E) kv)"
  obtain c where "c \<in> set (lead_chars (JObject kvs))" "c \<in> set (lead_chars w)"
    by (rule same_lead [OF E JObject.prems(3)])
  then obtain lws where w: "w = JObject lws" by (cases w) auto
  have lead: "?f kv \<noteq> [] \<and> hd (?f kv) \<notin> set '',]}''" for kv
  proof -
    obtain u where "write_string E (fst kv) = CHR 0x22 # u" by (rule write_string_cons [OF E])
    then show ?thesis by (simp add: write_entry_def)
  qed
  have elem: "x = y \<and> r = s"
    if "x \<in> set kvs" "delim r" "delim s" "?f x @ r = ?f y @ s" for x y r s
  proof -
    obtain k v l u where xy: "x = (k, v)" "y = (l, u)" by (cases x; cases y) auto
    have "\<And>w r s. \<lbrakk> delim r; delim s; write_plain E v @ r = write_plain E w @ s \<rbrakk> \<Longrightarrow> v = w \<and> r = s"
      by (rule JObject.IH [of x v]) (use that(1) xy in auto)
    from write_entry_unique [OF E this that(2,3)] that(4) xy show ?thesis by blast
  qed
  from JObject.prems(3) w
  have seq: "intersperse_concat '','' (map ?f kvs) @ CHR ''}'' # r
      = intersperse_concat '','' (map ?f lws) @ CHR ''}'' # s" by (simp add: o_def)
  have "kvs = lws \<and> r = s"
    by (rule sequence_unique [OF _ lead elem seq]) simp_all
  with w show ?case by simp
next
  case JNull
  obtain c where "c \<in> set (lead_chars JNull)" "c \<in> set (lead_chars w)"
    by (rule same_lead [OF E JNull.prems(3)])
  with JNull show ?case by (cases w) auto
next
  case (JBool b)
  obtain c where "c \<in> set (lead_chars (JBool b))" "c \<in> set (lead_chars w)"
    by (rule same_lead [OF E JBool.prems(3)])
  with JBool show ?case by (cases w) (auto split: if_splits)
qed

text \<open>
  Canonical bytes characterise a value up to the order of the keys of its objects.
\<close>

lemma write_value_canon:
  assumes "serde_writer E"
  shows "write_value E v = write_value E w \<longleftrightarrow> canon v = canon w"
proof
  assume "write_value E v = write_value E w"
  then have "write_plain E (canon v) @ [] = write_plain E (canon w) @ []"
    by (simp add: write_value_plain)
  with assms show "canon v = canon w" using write_plain_unique delim_simps(1) by blast
qed (simp add: write_value_plain)

lemma distinct_sorted_entries_unique:
  assumes "mset kvs = mset lws" and "distinct (map fst kvs)"
  shows "sort_key fst kvs = sort_key (fst :: string \<times> 'a \<Rightarrow> string) lws"
proof -
  have "inj_on fst (set kvs)" using assms(2) by (simp add: distinct_map)
  with assms(1) show ?thesis by (rule sort_key_eq_sort_key)
qed

text \<open>
  The insertion order of keys is invisible: two maps with the same entries have the same
  canonical bytes.
\<close>

lemma canonical_json_reorder:
  assumes "mset kvs = mset lws" and "distinct (map fst kvs)"
  shows "canonical_json E (JObject kvs) = canonical_json E (JObject lws)"
proof -
  let ?m = "map (map_prod id canon)"
  have "mset (?m kvs) = mset (?m lws)" using assms(1) by simp
  moreover have "distinct (map fst (?m kvs))" using assms(2) by (simp add: o_def)
  ultimately have "sort_key fst (?m kvs) = sort_key fst (?m lws)"
    by (rule distinct_sorted_entries_unique)
  then show ?thesis by (simp add: canonical_json_def write_value_plain)
qed

text \<open>
  Two objects written by the same struct have the same keys in the same order, so equal
  canonical forms mean equal values field by field.
\<close>

lemma sort_key_same_keys:
  fixes kvs lws :: "(string \<times> 'a) list"
  assumes keys: "map fst kvs = map fst lws" and d: "distinct (map fst kvs)"
    and eq: "sort_key fst kvs = sort_key fst lws"
  shows "kvs = lws"
proof -
  from eq have "set kvs = set lws" by (metis set_sort)
  with d keys have "map_of kvs = map_of lws"
    by (intro ext) (metis map_of_eq_Some_iff option.exhaust)
  show ?thesis
  proof (rule nth_equalityI)
    show "length kvs = length lws" using keys by (metis length_map)
  next
    fix i assume i: "i < length kvs"
    moreover from keys have l: "length kvs = length lws" by (metis length_map)
    ultimately have f: "fst (kvs ! i) = fst (lws ! i)" using keys by (metis nth_map)
    have "map_of kvs (fst (kvs ! i)) = Some (snd (kvs ! i))" using d i by simp
    moreover have "map_of lws (fst (lws ! i)) = Some (snd (lws ! i))" using d keys i l by simp
    ultimately have "snd (kvs ! i) = snd (lws ! i)" using \<open>map_of kvs = map_of lws\<close> f by simp
    with f show "kvs ! i = lws ! i" by (simp add: prod_eq_iff)
  qed
qed

lemma canon_object_same_keys:
  assumes "canon (JObject kvs) = canon (JObject lws)"
    and "map fst kvs = map fst lws" and "distinct (map fst kvs)"
  shows "map (canon \<circ> snd) kvs = map (canon \<circ> snd) lws"
proof -
  let ?m = "map (map_prod id canon)"
  have "?m kvs = ?m lws"
    by (rule sort_key_same_keys) (use assms in \<open>simp_all add: o_def\<close>)
  then have "map snd (?m kvs) = map snd (?m lws)" by simp
  then show ?thesis by (simp add: o_def)
qed

lemma canon_json_u64 [simp]: "canon (json_u64 a) = canon (json_u64 b) \<longleftrightarrow> a = b"
  by (simp add: json_u64_def word_uint_eq_iff)

lemma canon_json_opt [simp]:
  assumes "\<And>v w. canon (f v) = canon (f w) \<longleftrightarrow> v = w" and "\<And>v. canon (f v) \<noteq> JNull"
  shows "canon (json_opt f x) = canon (json_opt f y) \<longleftrightarrow> x = y"
  using assms by (auto simp: json_opt_def dest: sym split: option.splits)

lemma canon_json_opt_string [simp]: "canon (json_opt JString x) = canon (json_opt JString y) \<longleftrightarrow> x = y"
  by (rule canon_json_opt) simp_all

lemma canon_json_array [simp]:
  assumes "\<And>v w. canon (f v) = canon (f w) \<longleftrightarrow> v = w"
  shows "canon (JArray (map f xs)) = canon (JArray (map f ys)) \<longleftrightarrow> xs = ys"
proof -
  have "inj (canon \<circ> f)" by (rule injI) (simp add: assms)
  then show ?thesis by (simp add: inj_map_eq_map o_def)
qed

section \<open>The hashed message determines domain and payload\<close>

lemma length_be_bytes [simp]: "length (be_bytes w) = 8"
  by (simp add: be_bytes_def)

lemma be_bytes_inj:
  assumes eq: "be_bytes a = be_bytes b"
  shows "a = b"
proof (rule bit_word_eqI)
  fix n assume "n < LENGTH(64)"
  then have i: "n div 8 \<in> set [7, 6, 5, 4, 3, 2, 1, 0]" by auto
  from eq have "\<forall>i \<in> set [7, 6, 5, 4, 3, 2, 1, 0].
      (char_of (unat (drop_bit (8 * i) a)) :: char) = char_of (unat (drop_bit (8 * i) b))"
    unfolding be_bytes_def by (simp add: list_eq_iff_zip_eq)
  with i have "(char_of (unat (drop_bit (8 * (n div 8)) a)) :: char)
      = char_of (unat (drop_bit (8 * (n div 8)) b))" by blast
  then have "take_bit 8 (unat (drop_bit (8 * (n div 8)) a))
      = take_bit 8 (unat (drop_bit (8 * (n div 8)) b))"
    by (simp add: char_of_eq_iff take_bit_eq_mod)
  then have "bit (take_bit 8 (unat (drop_bit (8 * (n div 8)) a))) (n mod 8)
      = bit (take_bit 8 (unat (drop_bit (8 * (n div 8)) b))) (n mod 8)" by simp
  then show "bit a n = bit b n"
    by (simp add: bit_take_bit_iff bit_unsigned_iff bit_drop_bit_eq)
qed

lemma digest_message_same_domain:
  "digest_message d p = digest_message d q \<longleftrightarrow> p = q"
  by (auto simp: digest_message_def)

lemma digest_message_inj:
  assumes "length d < 2 ^ 64" "length d' < 2 ^ 64"
    and "digest_message d p = digest_message d' p'"
  shows "d = d' \<and> p = p'"
proof -
  from assms(3) have "be_bytes (of_nat (length d)) = be_bytes (of_nat (length d'))"
    and rest: "d @ be_bytes (of_nat (length p)) @ p = d' @ be_bytes (of_nat (length p')) @ p'"
    by (auto simp: digest_message_def)
  then have "(of_nat (length d) :: u64) = of_nat (length d')" by (blast intro: be_bytes_inj)
  then have "unat (of_nat (length d) :: u64) = unat (of_nat (length d') :: u64)" by simp
  with assms(1,2) have "length d = length d'" by (simp add: unat_of_nat take_bit_eq_mod)
  with rest show ?thesis by auto
qed

section \<open>Hexadecimal digests\<close>

lemma hex_digit_nth: "n < 16 \<Longrightarrow> is_lower_hex (hex_digits ! n)"
proof -
  assume "n < 16"
  then have "hex_digits ! n \<in> set hex_digits" by (intro nth_mem) (simp add: hex_digits_def)
  then show ?thesis by (auto simp: hex_digits_def is_lower_hex_def)
qed

lemma hex_digit_inj: "n < 16 \<Longrightarrow> m < 16 \<Longrightarrow> hex_digits ! n = hex_digits ! m \<Longrightarrow> n = m"
proof -
  have d: "distinct hex_digits" and l: "length hex_digits = 16" by (simp_all add: hex_digits_def)
  assume "n < 16" "m < 16" "hex_digits ! n = hex_digits ! m"
  with nth_eq_iff_index_eq [OF d] l show ?thesis by simp
qed

lemma of_char_less_256: "(of_char c :: nat) < 256"
  by (simp add: of_char_def)

lemma of_char_div_16: "(of_char c :: nat) div 16 < 16"
  by (rule less_mult_imp_div_less) (simp add: of_char_less_256)

lemma length_hex_byte [simp]: "length (hex_byte b) = 2"
  by (simp add: hex_byte_def Let_def)

lemma hex_byte_lower: "list_all is_lower_hex (hex_byte b)"
  by (simp add: hex_byte_def Let_def hex_digit_nth of_char_div_16)

lemma hex_byte_inj: "hex_byte a = hex_byte b \<Longrightarrow> a = b"
proof -
  let ?n = "of_char a :: nat" and ?m = "of_char b :: nat"
  assume "hex_byte a = hex_byte b"
  then have "?n div 16 = ?m div 16" "?n mod 16 = ?m mod 16"
    by (auto simp: hex_byte_def Let_def intro: hex_digit_inj [OF of_char_div_16 of_char_div_16]
        hex_digit_inj [OF mod_less_divisor mod_less_divisor])
  then have "?n = ?m" by (metis div_mult_mod_eq)
  then show ?thesis by simp
qed

lemma length_hex_lower [simp]: "length (hex_lower bs) = 2 * length bs"
  by (induction bs) (auto simp: hex_lower_def)

lemma hex_lower_lower: "list_all is_lower_hex (hex_lower bs)"
  by (induction bs) (auto simp: hex_lower_def hex_byte_lower)

lemma hex_lower_inj: "hex_lower as = hex_lower bs \<longleftrightarrow> as = bs"
proof
  show "hex_lower as = hex_lower bs \<Longrightarrow> as = bs"
  proof (induction as arbitrary: bs)
    case Nil
    then have "length (hex_lower bs) = 0" by (metis length_hex_lower list.size(3) mult_0_right)
    then show ?case by simp
  next
    case (Cons a as)
    then have "length (hex_lower bs) = 2 * Suc (length as)"
      by (metis length_Cons length_hex_lower)
    then obtain b bs' where bs: "bs = b # bs'" by (cases bs) auto
    with Cons.prems have "hex_byte a = hex_byte b \<and> hex_lower as = hex_lower bs'"
      by (simp add: hex_lower_def)
    with Cons.IH bs show ?case by (auto dest: hex_byte_inj)
  qed
qed simp

lemma digest_domain_bytes_syntax:
  assumes "sha256_width E"
  shows "digest_syntax (digest_domain_bytes E d p)"
  using assms hex_lower_lower
  by (simp add: digest_syntax_def digest_domain_bytes_def sha256_width_def)

lemma digest_canonical_syntax: "sha256_width E \<Longrightarrow> digest_syntax (digest_canonical E d v)"
  by (simp add: digest_canonical_def digest_domain_bytes_syntax)

lemma digest_domain_bytes_eq:
  assumes "length d < 2 ^ 64" "length d' < 2 ^ 64"
    and "digest_domain_bytes E d p = digest_domain_bytes E d' p'"
  shows "d = d' \<and> p = p' \<or> collides E (digest_message d p) (digest_message d' p')"
  using assms digest_message_inj [of d d' p p']
  by (auto simp: digest_domain_bytes_def hex_lower_inj collides_def)

text \<open>
  The collision a forger of a canonical digest has to exhibit: the two hashed messages.
\<close>

definition canonical_collision :: "platform \<Rightarrow> string \<Rightarrow> json \<Rightarrow> json \<Rightarrow> bool" where
  "canonical_collision E domain v w \<longleftrightarrow>
     collides E (digest_message domain (canonical_json E v)) (digest_message domain (canonical_json E w))"

lemma digest_canonical_eq:
  assumes "serde_writer E" and "digest_canonical E d v = digest_canonical E d w"
  shows "canon v = canon w \<or> canonical_collision E d v w"
proof (cases "canonical_json E v = canonical_json E w")
  case True
  with assms(1) show ?thesis by (simp add: canonical_json_def write_value_canon)
next
  case False
  with assms(2) show ?thesis
    by (simp add: canonical_collision_def collides_def digest_canonical_def digest_domain_bytes_def
        hex_lower_inj digest_message_same_domain)
qed

section \<open>Canonical text has no line break\<close>

lemma intersperse_concat_avoids:
  "c \<notin> set sep \<Longrightarrow> \<forall>x \<in> set xs. c \<notin> set x \<Longrightarrow> c \<notin> set (intersperse_concat sep xs)"
  by (induction sep xs rule: intersperse_concat.induct) auto

lemma write_plain_no_newline:
  assumes E: "serde_writer E"
  shows "CHR 0x0A \<notin> set (write_plain E v)"
proof (induction v)
  case (JNumber n)
  have "list_all number_char (write_number E n)" using E by (simp add: write_number_chars)
  moreover have "\<not> number_char (CHR 0x0A)" by (simp add: number_char_def)
  ultimately have "CHR 0x0A \<notin> set (write_number E n)" unfolding list_all_iff by blast
  then show ?case by simp
next
  case (JString s)
  then show ?case using E by (simp add: write_string_no_newline)
next
  case (JArray vs)
  then have "CHR 0x0A \<notin> set (intersperse_concat '','' (map (write_plain E) vs))"
    by (intro intersperse_concat_avoids) simp_all
  then show ?case by simp
next
  case (JObject kvs)
  have "CHR 0x0A \<notin> set (write_entry E (map_prod id (write_plain E) kv))" if "kv \<in> set kvs" for kv
  proof -
    obtain k v where kv: "kv = (k, v)" by (cases kv)
    with JObject.IH [of kv v] that have "CHR 0x0A \<notin> set (write_plain E v)" by simp
    with kv write_string_no_newline [OF E] show ?thesis by (simp add: write_entry_def)
  qed
  then have "CHR 0x0A \<notin> set (intersperse_concat '',''
      (map (write_entry E) (map (map_prod id (write_plain E)) kvs)))"
    by (intro intersperse_concat_avoids) simp_all
  then show ?case by simp
qed auto

lemma canonical_json_no_newline: "serde_writer E \<Longrightarrow> CHR 0x0A \<notin> set (canonical_json E v)"
  by (simp add: canonical_json_def write_value_plain write_plain_no_newline)

end
