(* ===== verification/Reference_Platform.thy ===== *)
theory Reference_Platform
  imports Canonical
begin

text \<open>
  A concrete instance of the third-party primitives, used to show that the hypotheses the
  development makes about them can hold together: a decimal number writer, a JSON string
  writer that escapes the quote, the backslash and the line feed, and a 32-byte checksum
  in the place of SHA-256.
\<close>

definition ref_digit :: "nat \<Rightarrow> char" where
  "ref_digit d = ''0123456789'' ! d"

fun ref_decimal :: "nat \<Rightarrow> string" where
  "ref_decimal n = (if n < 10 then [ref_digit n] else ref_decimal (n div 10) @ [ref_digit (n mod 10)])"

declare ref_decimal.simps [simp del]

definition ref_number :: "int \<Rightarrow> bytes" where
  "ref_number n = (if n < 0 then CHR ''-'' # ref_decimal (nat (- n)) else ref_decimal (nat n))"

definition ref_escape :: "char \<Rightarrow> string" where
  "ref_escape c =
     (if c = CHR 0x22 then [CHR 0x5C, CHR 0x22]
      else if c = CHR 0x5C then [CHR 0x5C, CHR 0x5C]
      else if c = CHR 0x0A then [CHR 0x5C, CHR ''n'']
      else [c])"

definition ref_string :: "string \<Rightarrow> bytes" where
  "ref_string s = CHR 0x22 # concat (map ref_escape s) @ [CHR 0x22]"

definition ref_checksum :: "bytes \<Rightarrow> bytes" where
  "ref_checksum m =
     char_of (foldr (\<lambda>c n. (31 * n + of_char c) mod 256) m (7 :: nat)) # replicate 31 (CHR 0x00)"

definition reference_platform :: platform where
  "reference_platform =
     \<lparr>sha256 = ref_checksum, write_number = ref_number, write_string = ref_string\<rparr>"

lemma ref_digit_cases:
  "d < 10 \<Longrightarrow>
     number_char (ref_digit d) \<and> ref_digit d \<noteq> CHR ''-'' \<and> (of_char (ref_digit d) :: nat) = 48 + d"
proof -
  assume "d < 10"
  then have "d \<in> {0, 1, 2, 3, 4, 5, 6, 7, 8, 9}" by auto
  then show ?thesis by (auto simp: ref_digit_def number_char_def)
qed

definition ref_value :: "string \<Rightarrow> nat" where
  "ref_value s = foldl (\<lambda>n c. 10 * n + (of_char c - 48)) 0 s"

lemma ref_value_decimal: "ref_value (ref_decimal n) = n"
proof (induction n rule: ref_decimal.induct)
  case (1 n)
  then show ?case
    by (subst ref_decimal.simps) (simp add: ref_value_def ref_digit_cases)
qed

lemma ref_decimal_chars:
  "ref_decimal n \<noteq> [] \<and> list_all (\<lambda>c. number_char c \<and> c \<noteq> CHR ''-'') (ref_decimal n)"
proof (induction n rule: ref_decimal.induct)
  case (1 n)
  then show ?case by (subst (1 2) ref_decimal.simps) (simp add: ref_digit_cases)
qed

lemma ref_number_chars: "ref_number n \<noteq> [] \<and> list_all number_char (ref_number n)"
proof -
  have "number_char (CHR ''-'')" by (simp add: number_char_def)
  moreover have "ref_decimal k \<noteq> []" "list_all number_char (ref_decimal k)" for k
    using ref_decimal_chars [of k] unfolding list_all_iff by blast+
  ultimately show ?thesis by (simp add: ref_number_def)
qed

lemma ref_decimal_not_minus: "ref_decimal n \<noteq> CHR ''-'' # s"
  using ref_decimal_chars [of n] by auto

lemma ref_number_inj:
  assumes eq: "ref_number n = ref_number m"
  shows "n = m"
proof -
  have dec: "ref_decimal i = ref_decimal j \<Longrightarrow> i = j" for i j by (metis ref_value_decimal)
  consider "n < 0" "m < 0" | "\<not> n < 0" "\<not> m < 0" | "n < 0" "\<not> m < 0" | "\<not> n < 0" "m < 0"
    by blast
  then show ?thesis
  proof cases
    case 1
    with eq have "nat (- n) = nat (- m)" by (intro dec) (simp add: ref_number_def)
    with 1 show ?thesis by simp
  next
    case 2
    with eq have "nat n = nat m" by (intro dec) (simp add: ref_number_def)
    with 2 show ?thesis by simp
  next
    case 3
    with eq ref_decimal_not_minus [of "nat m"] show ?thesis by (metis ref_number_def)
  next
    case 4
    with eq ref_decimal_not_minus [of "nat n"] show ?thesis by (metis ref_number_def)
  qed
qed

lemma ref_escape_step:
  "ref_escape c @ x = ref_escape d @ y \<Longrightarrow> c = d \<and> x = y"
  by (auto simp: ref_escape_def split: if_splits)

lemma ref_escape_quote: "ref_escape c @ x \<noteq> CHR 0x22 # y"
  by (auto simp: ref_escape_def)

lemma ref_escape_unique:
  "concat (map ref_escape s) @ CHR 0x22 # r = concat (map ref_escape t) @ CHR 0x22 # u
     \<Longrightarrow> s = t \<and> r = u"
proof (induction s arbitrary: t)
  case Nil
  then show ?case by (cases t) (auto simp: ref_escape_quote dest: sym)
next
  case (Cons c s)
  show ?case
  proof (cases t)
    case Nil
    with Cons.prems show ?thesis by (simp add: ref_escape_quote)
  next
    case (Cons d t')
    with Cons.prems have "ref_escape c @ concat (map ref_escape s) @ CHR 0x22 # r
        = ref_escape d @ concat (map ref_escape t') @ CHR 0x22 # u" by simp
    then have "c = d" "concat (map ref_escape s) @ CHR 0x22 # r
        = concat (map ref_escape t') @ CHR 0x22 # u"
      using ref_escape_step by blast+
    with Cons.IH Cons show ?thesis by blast
  qed
qed

lemma ref_string_no_newline: "CHR 0x0A \<notin> set (ref_string s)"
  by (auto simp: ref_string_def ref_escape_def split: if_splits)

lemma serde_writer_reference: "serde_writer reference_platform"
proof -
  have "\<forall>s t r u. ref_string s @ r = ref_string t @ u \<longrightarrow> s = t \<and> r = u"
  proof (intro allI impI)
    fix s t r u assume "ref_string s @ r = ref_string t @ u"
    then show "s = t \<and> r = u" by (intro ref_escape_unique) (simp add: ref_string_def)
  qed
  moreover have "\<forall>s. take 1 (ref_string s) = [CHR 0x22]" by (simp add: ref_string_def)
  moreover have "inj ref_number" by (rule injI) (rule ref_number_inj)
  ultimately show ?thesis
    unfolding serde_writer_def reference_platform_def platform.simps
    using ref_string_no_newline ref_number_chars by blast
qed

lemma sha256_width_reference: "sha256_width reference_platform"
  by (simp add: sha256_width_def reference_platform_def ref_checksum_def)

text \<open>Two texts that pass the digest syntax check.\<close>

definition hex64 :: string where "hex64 = replicate 64 CHR ''a''"
definition hex64b :: string where "hex64b = replicate 64 CHR ''b''"

lemma hex64_syntax [simp]: "digest_syntax hex64" "digest_syntax hex64b" "hex64 \<noteq> hex64b"
  by (simp_all add: hex64_def hex64b_def digest_syntax_def is_lower_hex_def list_all_iff)


text \<open>
  What the modules of m1nd-control rely on in \<open>canonical.rs\<close>: canonical bytes are equal
  exactly when the values agree up to the order of object keys, the order in which a struct
  lists its fields never shows, and two equal digests come from one domain and one payload
  unless the hash itself collides on two messages that the statement names.
\<close>

text \<open>C22: The canonical bytes of two values are equal exactly when the two values have the
  same canonical form, that is, when they differ at most in the order of object keys (at any
  depth).  So the bytes that are hashed and signed determine the value.\<close>
theorem canonical_bytes_iff:
  assumes "serde_writer E"
  shows "canonical_json E v = canonical_json E w \<longleftrightarrow> canon v = canon w"
  unfolding canonical_json_def by (rule write_value_canon [OF assms])

lemma canonical_bytes_iff_witness:
  "canonical_json reference_platform (JObject [(''a'', JNull), (''b'', JBool True)]) \<noteq>
     canonical_json reference_platform (JObject [(''a'', JNull), (''b'', JBool False)])"
  unfolding canonical_bytes_iff [OF serde_writer_reference] by simp

text \<open>Permuting the entries of an object does not change its canonical bytes, so the
  digest of a contract does not depend on the order in which its fields are serialised.\<close>
lemma canonical_digest_order_free:
  assumes "mset kvs = mset lws" and "wf_json (JObject kvs)"
  shows "digest_canonical E domain (JObject kvs) = digest_canonical E domain (JObject lws)"
  using canonical_json_reorder [OF assms(1), of E] assms(2) by (simp add: digest_canonical_def)

text \<open>Domain separation.  If two domain-separated digests are equal, the domains are equal
  and the payloads have the same canonical form, or the two hashed messages are a collision of
  the hash.  The length prefixes are 64-bit, so this holds for domains shorter than
  \<open>2 ^ 64\<close> bytes.\<close>
theorem digest_separates_domains:
  assumes "serde_writer E" and "length d < 2 ^ 64" "length d' < 2 ^ 64"
    and "digest_canonical E d v = digest_canonical E d' w"
  shows "d = d' \<and> canon v = canon w \<or>
    collides E (digest_message d (canonical_json E v)) (digest_message d' (canonical_json E w))"
proof -
  from assms(2-4) have "d = d' \<and> canonical_json E v = canonical_json E w \<or>
      collides E (digest_message d (canonical_json E v)) (digest_message d' (canonical_json E w))"
    using digest_domain_bytes_eq unfolding digest_canonical_def by blast
  then show ?thesis by (simp add: canonical_json_def write_value_canon [OF assms(1)])
qed

lemma digest_separates_domains_witness:
  "canon (JObject [(''b'', JNull), (''a'', JNull)]) = canon (JObject [(''a'', JNull), (''b'', JNull)])
     \<or> collides reference_platform
        (digest_message ''d'' (canonical_json reference_platform (JObject [(''b'', JNull), (''a'', JNull)])))
        (digest_message ''d'' (canonical_json reference_platform (JObject [(''a'', JNull), (''b'', JNull)])))"
proof -
  have "digest_canonical reference_platform ''d'' (JObject [(''b'', JNull), (''a'', JNull)])
      = digest_canonical reference_platform ''d'' (JObject [(''a'', JNull), (''b'', JNull)])"
    by (simp add: digest_canonical_def canonical_json_def)
  from digest_separates_domains [OF serde_writer_reference _ _ this] show ?thesis by simp
qed

end
