(* ===== verification/Log_Bytes.thy ===== *)
theory Log_Bytes
  imports Control_Prelude
begin

text \<open>
  Files of newline-framed records, shared by the replay ledger, the authority WAL and the journal of
  the autonomy runtime: the
  bytes of a log are its lines, each ended by a line break.
\<close>

definition newline :: char where "newline = CHR 0x0A"

text \<open>
  \<open>good_lines ls\<close>: no line is empty or holds a line break.  \<open>log_bytes ls\<close> is the file
  with these lines, each ended by a line break.
\<close>

definition good_lines :: "bytes list \<Rightarrow> bool" where
  "good_lines ls \<longleftrightarrow> (\<forall>l \<in> set ls. l \<noteq> [] \<and> newline \<notin> set l)"

definition log_bytes :: "bytes list \<Rightarrow> bytes" where
  "log_bytes ls = concat (map (\<lambda>l. l @ [newline]) ls)"

lemma log_bytes_simps [simp]:
  "log_bytes [] = []" "log_bytes (ls @ [l]) = log_bytes ls @ l @ [newline]"
  by (simp_all add: log_bytes_def)

lemma log_bytes_last: "log_bytes ls \<noteq> [] \<Longrightarrow> last (log_bytes ls) = newline"
  by (cases ls rule: rev_cases) auto

lemma good_lines_nonempty: "good_lines ls \<Longrightarrow> [] \<notin> set ls"
  by (auto simp: good_lines_def)

text \<open>\<open>bytes.split(|byte| *byte == b'\\n')\<close>.\<close>

fun split_newline :: "bytes \<Rightarrow> bytes list" where
  "split_newline [] = [[]]"
| "split_newline (c # s) =
     (if c = newline then [] # split_newline s
      else case split_newline s of [] \<Rightarrow> [[c]] | l # ls \<Rightarrow> (c # l) # ls)"

lemma split_newline_line:
  "newline \<notin> set l \<Longrightarrow> split_newline (l @ newline # s) = l # split_newline s"
  by (induction l) auto

lemma split_newline_log: "good_lines ls \<Longrightarrow> split_newline (log_bytes ls) = ls @ [[]]"
  by (induction ls) (auto simp: good_lines_def log_bytes_def split_newline_line)

end
