(* ===== verification/Replay_Ledger.thy ===== *)
theory Replay_Ledger
  imports Reference_Platform Log_Bytes
begin

text \<open>
  \<open>m1nd-control/src/replay_ledger.rs\<close>: replay claims and their two digests, the in-memory
  ledger, the hash-chained durable ledger with its poisoning rule, and the recovery that
  replays the durable file.  The trait \<open>ReplayLedger\<close> is the locale \<open>replay_ledger\<close>,
  interpreted on both implementations; from it follows that no scope is accepted twice by
  one handle.  The durable part shows that reopening the file gives the state the handle
  had, that a torn append fails closed, and that no scope is accepted twice over any
  sequence of appends, crashes and reopenings.

  I/O is an argument: what \<open>metadata\<close>, \<open>write_all\<close> and \<open>sync_all\<close> did.  The JSON
  parser is the parameter \<open>parse\<close>; what the proofs need of it is \<open>parses_canonical\<close>.
\<close>

section \<open>Claims\<close>

definition REPLAY_CLAIM_SCHEMA :: string where "REPLAY_CLAIM_SCHEMA = ''m1nd-replay-claim-v1''"
definition REPLAY_LEDGER_RECORD_SCHEMA :: string where
  "REPLAY_LEDGER_RECORD_SCHEMA = ''m1nd-replay-ledger-record-v1''"
definition REPLAY_CLAIM_DIGEST_DOMAIN :: string where
  "REPLAY_CLAIM_DIGEST_DOMAIN = ''m1nd-replay-claim-v1''"
definition REPLAY_SCOPE_DIGEST_DOMAIN :: string where
  "REPLAY_SCOPE_DIGEST_DOMAIN = ''m1nd-replay-scope-v1''"
definition REPLAY_LEDGER_RECORD_DIGEST_DOMAIN :: string where
  "REPLAY_LEDGER_RECORD_DIGEST_DOMAIN = ''m1nd-replay-ledger-record-v1''"

record replay_claim =
  rc_schema :: string
  rc_namespace :: string
  rc_issuer_subject_id :: string
  rc_key_id :: string
  rc_subject_id :: string
  rc_nonce :: string
  rc_object_digest :: string
  rc_issued_at :: u64
  rc_expires_at :: u64

text \<open>The derived \<open>Serialize\<close> of the claim and of its replay scope.\<close>

definition json_of_claim :: "replay_claim \<Rightarrow> json" where
  "json_of_claim c = JObject
    [(''schema'', JString (rc_schema c)),
     (''namespace'', JString (rc_namespace c)),
     (''issuer_subject_id'', JString (rc_issuer_subject_id c)),
     (''key_id'', JString (rc_key_id c)),
     (''subject_id'', JString (rc_subject_id c)),
     (''nonce'', JString (rc_nonce c)),
     (''object_digest'', JString (rc_object_digest c)),
     (''issued_at'', json_u64 (rc_issued_at c)),
     (''expires_at'', json_u64 (rc_expires_at c))]"

definition json_of_scope :: "replay_claim \<Rightarrow> json" where
  "json_of_scope c = JObject
    [(''namespace'', JString (rc_namespace c)),
     (''issuer_subject_id'', JString (rc_issuer_subject_id c)),
     (''key_id'', JString (rc_key_id c)),
     (''nonce'', JString (rc_nonce c))]"

definition claim_digest :: "platform \<Rightarrow> replay_claim \<Rightarrow> string" where
  "claim_digest E c = digest_canonical E REPLAY_CLAIM_DIGEST_DOMAIN (json_of_claim c)"

definition scope_digest :: "platform \<Rightarrow> replay_claim \<Rightarrow> string" where
  "scope_digest E c = digest_canonical E REPLAY_SCOPE_DIGEST_DOMAIN (json_of_scope c)"

text \<open>
  \<open>ReplayLedgerError\<close>; the formatted reason of \<open>Corrupt\<close> is kept as a value, and an I/O
  error as the name of its operation.
\<close>

datatype replay_ledger_error =
    Schema string string
  | EmptyRequired string
  | InvalidTimeOrder u64 u64
  | IssuedInFuture u64 u64
  | Expired u64 u64
  | Replay string
  | SymlinkRefused string
  | ConcurrentModification u64 u64
  | Poisoned
  | Corrupt nat corrupt_reason
  | Io string
and corrupt_reason =
    TornTail
  | BlankRecord
  | InvalidJson string
  | NotCanonical
  | UnsupportedRecordSchema string
  | UnexpectedSequence u64 u64
  | PreviousDigestMismatch
  | InvalidReplayClaim replay_ledger_error
  | ClaimDigestMismatch
  | ScopeDigestMismatch
  | RecordDigestMismatch
  | DuplicateScope

definition claim_required :: "replay_claim \<Rightarrow> (string \<times> string) list" where
  "claim_required c =
    [(''namespace'', rc_namespace c),
     (''issuer_subject_id'', rc_issuer_subject_id c),
     (''key_id'', rc_key_id c),
     (''subject_id'', rc_subject_id c),
     (''nonce'', rc_nonce c),
     (''object_digest'', rc_object_digest c)]"

definition validate_static :: "replay_claim \<Rightarrow> replay_ledger_error + unit" where
  "validate_static c = seq_checks
    ([check (rc_schema c = REPLAY_CLAIM_SCHEMA) (Schema REPLAY_CLAIM_SCHEMA (rc_schema c))]
     @ map (\<lambda>(f, v). check (\<not> trims_empty v) (EmptyRequired f)) (claim_required c)
     @ [check (rc_issued_at c < rc_expires_at c)
          (InvalidTimeOrder (rc_issued_at c) (rc_expires_at c))])"

definition validate_at :: "replay_claim \<Rightarrow> u64 \<Rightarrow> u64 \<Rightarrow> replay_ledger_error + unit" where
  "validate_at c now_ms max_skew = seq_checks
    [validate_static c,
     check (rc_issued_at c \<le> saturating_add now_ms max_skew)
       (IssuedInFuture (rc_issued_at c) (saturating_add now_ms max_skew)),
     check (now_ms < rc_expires_at c) (Expired (rc_expires_at c) now_ms)]"

datatype replay_durability = Volatile | SyncedFile

record replay_receipt =
  rr_sequence :: u64
  rr_claim_digest :: string
  rr_scope_digest :: string
  rr_durability :: replay_durability

section \<open>The in-memory ledger\<close>

record memory_ledger =
  ml_consumed_scopes :: "string set"
  ml_next_sequence :: u64

definition memory_new :: memory_ledger where
  "memory_new = \<lparr>ml_consumed_scopes = {}, ml_next_sequence = 1\<rparr>"

definition memory_consume ::
  "platform \<Rightarrow> memory_ledger \<Rightarrow> replay_claim \<Rightarrow> u64 \<Rightarrow> u64
     \<Rightarrow> memory_ledger \<times> (replay_ledger_error + replay_receipt)" where
  "memory_consume E l c now_ms max_skew =
     (case validate_at c now_ms max_skew of
        Inl e \<Rightarrow> (l, Err e)
      | Inr _ \<Rightarrow>
          (let sd = scope_digest E c in
           if sd \<in> ml_consumed_scopes l then (l, Err (Replay sd))
           else
             (l\<lparr>ml_consumed_scopes := insert sd (ml_consumed_scopes l),
                ml_next_sequence := saturating_add (ml_next_sequence l) 1\<rparr>,
              Ok \<lparr>rr_sequence = ml_next_sequence l, rr_claim_digest = claim_digest E c,
                 rr_scope_digest = sd, rr_durability = Volatile\<rparr>)))"

section \<open>The durable ledger\<close>

record ledger_record =
  lr_schema :: string
  lr_sequence :: u64
  lr_previous_record_digest :: "string option"
  lr_claim :: replay_claim
  lr_claim_digest :: string
  lr_scope_digest :: string
  lr_record_digest :: string

definition record_material :: "ledger_record \<Rightarrow> (string \<times> json) list" where
  "record_material r =
    [(''schema'', JString (lr_schema r)),
     (''sequence'', json_u64 (lr_sequence r)),
     (''previous_record_digest'', json_opt JString (lr_previous_record_digest r)),
     (''claim'', json_of_claim (lr_claim r)),
     (''claim_digest'', JString (lr_claim_digest r)),
     (''scope_digest'', JString (lr_scope_digest r))]"

definition json_of_record :: "ledger_record \<Rightarrow> json" where
  "json_of_record r = JObject (record_material r @ [(''record_digest'', JString (lr_record_digest r))])"

definition compute_record_digest :: "platform \<Rightarrow> ledger_record \<Rightarrow> string" where
  "compute_record_digest E r =
     digest_canonical E REPLAY_LEDGER_RECORD_DIGEST_DOMAIN (JObject (record_material r))"

record persistent_ledger =
  pl_consumed_scopes :: "string set"
  pl_next_sequence :: u64
  pl_tail_digest :: "string option"
  pl_known_len :: u64
  pl_poisoned :: bool

text \<open>
  The outcome of the I/O calls of one append: whether \<open>metadata\<close> succeeded, after how many
  bytes \<open>write_all\<close> failed (\<open>None\<close>: it did not), whether \<open>sync_all\<close> succeeded.
\<close>

record append_io =
  io_metadata_ok :: bool
  io_write_failed :: "nat option"
  io_sync_ok :: bool

definition encode_record :: "platform \<Rightarrow> ledger_record \<Rightarrow> bytes" where
  "encode_record E r = canonical_json E (json_of_record r) @ [newline]"

definition new_record :: "platform \<Rightarrow> persistent_ledger \<Rightarrow> replay_claim \<Rightarrow> ledger_record" where
  "new_record E h c =
     (let r = \<lparr>lr_schema = REPLAY_LEDGER_RECORD_SCHEMA, lr_sequence = pl_next_sequence h,
               lr_previous_record_digest = pl_tail_digest h, lr_claim = c,
               lr_claim_digest = claim_digest E c, lr_scope_digest = scope_digest E c,
               lr_record_digest = []\<rparr>
      in r\<lparr>lr_record_digest := compute_record_digest E r\<rparr>)"

text \<open>\<open>PersistentReplayLedger::consume\<close> on the handle and the bytes of its file.\<close>

definition persistent_consume ::
  "platform \<Rightarrow> persistent_ledger \<times> bytes \<Rightarrow> append_io \<Rightarrow> replay_claim \<Rightarrow> u64 \<Rightarrow> u64
     \<Rightarrow> (persistent_ledger \<times> bytes) \<times> (replay_ledger_error + replay_receipt)" where
  "persistent_consume E hf io c now_ms max_skew =
     (let (h, f) = hf in
      if pl_poisoned h then ((h, f), Err Poisoned)
      else case validate_at c now_ms max_skew of
        Inl e \<Rightarrow> ((h, f), Err e)
      | Inr _ \<Rightarrow>
        (let cd = claim_digest E c; sd = scope_digest E c in
         if sd \<in> pl_consumed_scopes h then ((h, f), Err (Replay sd))
         else if \<not> io_metadata_ok io then ((h, f), Err (Io ''read_length_before_append''))
         else if of_nat (length f) \<noteq> pl_known_len h then
           ((h\<lparr>pl_poisoned := True\<rparr>, f),
            Err (ConcurrentModification (pl_known_len h) (of_nat (length f))))
         else
           (let r = new_record E h c; encoded = encode_record E r in
            case io_write_failed io of
              Some k \<Rightarrow> ((h\<lparr>pl_poisoned := True\<rparr>, f @ take k encoded), Err (Io ''append_record''))
            | None \<Rightarrow>
                if \<not> io_sync_ok io then
                  ((h\<lparr>pl_poisoned := True\<rparr>, f @ encoded), Err (Io ''sync_record''))
                else
                  ((h\<lparr>pl_known_len := saturating_add (pl_known_len h) (of_nat (length encoded)),
                      pl_next_sequence := saturating_add (pl_next_sequence h) 1,
                      pl_tail_digest := Some (lr_record_digest r),
                      pl_consumed_scopes := insert sd (pl_consumed_scopes h)\<rparr>,
                    f @ encoded),
                   Ok \<lparr>rr_sequence = lr_sequence r, rr_claim_digest = cd,
                      rr_scope_digest = sd, rr_durability = SyncedFile\<rparr>))))"

section \<open>Recovery\<close>

type_synonym replay_state = "string set \<times> u64 \<times> string option"

text \<open>The body of the loop for a line that is not empty; \<open>n\<close> is the line number.\<close>

definition replay_line ::
  "platform \<Rightarrow> (bytes \<Rightarrow> string + ledger_record) \<Rightarrow> nat \<Rightarrow> bytes \<Rightarrow> replay_state
     \<Rightarrow> replay_ledger_error + replay_state" where
  "replay_line E parse n line st =
     (let (scopes, expected, tail) = st in
      and_then (map_err (\<lambda>e. Corrupt n (InvalidJson e)) (parse line)) (\<lambda>r.
      and_then (seq_checks
        [check (canonical_json E (json_of_record r) = line) (Corrupt n NotCanonical),
         check (lr_schema r = REPLAY_LEDGER_RECORD_SCHEMA)
           (Corrupt n (UnsupportedRecordSchema (lr_schema r))),
         check (lr_sequence r = expected) (Corrupt n (UnexpectedSequence expected (lr_sequence r))),
         check (lr_previous_record_digest r = tail) (Corrupt n PreviousDigestMismatch),
         map_err (\<lambda>e. Corrupt n (InvalidReplayClaim e)) (validate_static (lr_claim r)),
         check (lr_claim_digest r = claim_digest E (lr_claim r)) (Corrupt n ClaimDigestMismatch),
         check (lr_scope_digest r = scope_digest E (lr_claim r)) (Corrupt n ScopeDigestMismatch),
         check (lr_record_digest r = compute_record_digest E r) (Corrupt n RecordDigestMismatch),
         check (lr_scope_digest r \<notin> scopes) (Corrupt n DuplicateScope)]) (\<lambda>_.
      Ok (insert (lr_scope_digest r) scopes, saturating_add expected 1,
          Some (lr_record_digest r)))))"

fun replay_lines ::
  "platform \<Rightarrow> (bytes \<Rightarrow> string + ledger_record) \<Rightarrow> nat \<Rightarrow> nat \<Rightarrow> bytes list \<Rightarrow> replay_state
     \<Rightarrow> replay_ledger_error + replay_state" where
  "replay_lines E parse n_lines i [] st = Ok st"
| "replay_lines E parse n_lines i (l # ls) st =
     (if l = [] then
        (if i + 1 = n_lines then replay_lines E parse n_lines (i + 1) ls st
         else Err (Corrupt (i + 1) BlankRecord))
      else and_then (replay_line E parse (i + 1) l st) (replay_lines E parse n_lines (i + 1) ls))"

definition replay_records ::
  "platform \<Rightarrow> (bytes \<Rightarrow> string + ledger_record) \<Rightarrow> bytes \<Rightarrow> replay_ledger_error + replay_state" where
  "replay_records E parse bs =
     (if bs \<noteq> [] \<and> last bs \<noteq> newline then
        Err (Corrupt (length (filter (\<lambda>b. b = newline) bs) + 1) TornTail)
      else
        (let lines = split_newline bs
         in replay_lines E parse (length lines) 0 lines ({}, 1, None)))"

text \<open>
  \<open>PersistentReplayLedger::open\<close>: the path is a symbolic link, an I/O call before the
  replay failed, or the bytes were read and are replayed.
\<close>

record open_env =
  oe_symlink :: "string option"
  oe_io_failure :: "string option"

definition ledger_open ::
  "platform \<Rightarrow> (bytes \<Rightarrow> string + ledger_record) \<Rightarrow> open_env \<Rightarrow> bytes
     \<Rightarrow> replay_ledger_error + persistent_ledger" where
  "ledger_open E parse env f =
     (case oe_symlink env of Some path \<Rightarrow> Err (SymlinkRefused path)
      | None \<Rightarrow> case oe_io_failure env of Some operation \<Rightarrow> Err (Io operation)
      | None \<Rightarrow>
        and_then (replay_records E parse f) (\<lambda>(scopes, next_sequence, tail).
          Ok \<lparr>pl_consumed_scopes = scopes, pl_next_sequence = next_sequence, pl_tail_digest = tail,
             pl_known_len = of_nat (length f), pl_poisoned = False\<rparr>))"

section \<open>Facts about claims\<close>

lemma validate_at_static: "validate_at c now_ms skew = Inr () \<Longrightarrow> validate_static c = Inr ()"
  by (simp add: validate_at_def)

lemma validate_at_window:
  "validate_at c now_ms skew = Inr () \<Longrightarrow>
     rc_issued_at c < rc_expires_at c \<and> now_ms < rc_expires_at c \<and>
     rc_issued_at c \<le> saturating_add now_ms skew"
  by (simp add: validate_at_def validate_static_def)

lemma scope_digest_cong:
  "rc_namespace c = rc_namespace d \<Longrightarrow> rc_issuer_subject_id c = rc_issuer_subject_id d \<Longrightarrow>
   rc_key_id c = rc_key_id d \<Longrightarrow> rc_nonce c = rc_nonce d \<Longrightarrow> scope_digest E c = scope_digest E d"
  by (simp add: scope_digest_def json_of_scope_def)

lemma scope_digest_eqD:
  assumes "serde_writer E" and "scope_digest E c = scope_digest E d"
  shows "rc_namespace c = rc_namespace d \<and> rc_issuer_subject_id c = rc_issuer_subject_id d \<and>
      rc_key_id c = rc_key_id d \<and> rc_nonce c = rc_nonce d \<or>
    canonical_collision E REPLAY_SCOPE_DIGEST_DOMAIN (json_of_scope c) (json_of_scope d)"
proof -
  from assms have "canon (json_of_scope c) = canon (json_of_scope d) \<or>
      canonical_collision E REPLAY_SCOPE_DIGEST_DOMAIN (json_of_scope c) (json_of_scope d)"
    unfolding scope_digest_def by (rule digest_canonical_eq)
  then show ?thesis
  proof
    assume "canon (json_of_scope c) = canon (json_of_scope d)"
    from canon_object_same_keys [OF this [unfolded json_of_scope_def]] show ?thesis by simp
  qed simp
qed

section \<open>The interface of a replay ledger\<close>

text \<open>
  The trait \<open>ReplayLedger\<close>: what a caller of \<open>consume\<close> may rely on.  \<open>'io\<close> is what the
  environment did during the call (nothing for the in-memory ledger).
\<close>

locale replay_ledger =
  fixes consume :: "'s \<Rightarrow> 'io \<Rightarrow> replay_claim \<Rightarrow> u64 \<Rightarrow> u64
      \<Rightarrow> 's \<times> (replay_ledger_error + replay_receipt)"
    and consumed :: "'s \<Rightarrow> string set"
    and scope :: "replay_claim \<Rightarrow> string"
  assumes accept_fresh: "consume s io c now_ms skew = (s', Inr r) \<Longrightarrow> scope c \<notin> consumed s"
    and accept_adds:
      "consume s io c now_ms skew = (s', Inr r) \<Longrightarrow> consumed s' = insert (scope c) (consumed s)"
    and accept_receipt: "consume s io c now_ms skew = (s', Inr r) \<Longrightarrow> rr_scope_digest r = scope c"
    and accept_valid:
      "consume s io c now_ms skew = (s', Inr r) \<Longrightarrow> validate_at c now_ms skew = Inr ()"
    and refuse_keeps: "consume s io c now_ms skew = (s', Inl e) \<Longrightarrow> consumed s' = consumed s"

text \<open>A run of requests, with the receipts of those that were accepted.\<close>

fun run_consume ::
  "('s \<Rightarrow> 'io \<Rightarrow> replay_claim \<Rightarrow> u64 \<Rightarrow> u64 \<Rightarrow> 's \<times> (replay_ledger_error + replay_receipt))
     \<Rightarrow> 's \<Rightarrow> ('io \<times> replay_claim \<times> u64 \<times> u64) list \<Rightarrow> 's \<times> replay_receipt list" where
  "run_consume f s [] = (s, [])"
| "run_consume f s ((io, c, now_ms, skew) # reqs) =
     (case f s io c now_ms skew of
        (s', Inl e) \<Rightarrow> run_consume f s' reqs
      | (s', Inr r) \<Rightarrow> map_prod id ((#) r) (run_consume f s' reqs))"

context replay_ledger begin

lemma run_consumed:
  "run_consume consume s reqs = (t, rs) \<Longrightarrow>
     consumed t = consumed s \<union> rr_scope_digest ` set rs \<and>
     distinct (map rr_scope_digest rs) \<and> consumed s \<inter> rr_scope_digest ` set rs = {}"
proof (induction reqs arbitrary: s t rs)
  case Nil
  then show ?case by simp
next
  case (Cons q reqs)
  obtain io c now_ms skew where q: "q = (io, c, now_ms, skew)" by (cases q)
  obtain s' res where step: "consume s io c now_ms skew = (s', res)" by force
  show ?case
  proof (cases res)
    case (Inl e)
    with step Cons.prems q have "run_consume consume s' reqs = (t, rs)" by simp
    with Cons.IH have "consumed t = consumed s' \<union> rr_scope_digest ` set rs \<and>
        distinct (map rr_scope_digest rs) \<and> consumed s' \<inter> rr_scope_digest ` set rs = {}" by blast
    with refuse_keeps step Inl show ?thesis by simp
  next
    case (Inr r)
    with step Cons.prems q obtain rs' where rs: "rs = r # rs'" "run_consume consume s' reqs = (t, rs')"
      by (cases "run_consume consume s' reqs") auto
    with Cons.IH have "consumed t = consumed s' \<union> rr_scope_digest ` set rs'"
        "distinct (map rr_scope_digest rs')" "consumed s' \<inter> rr_scope_digest ` set rs' = {}" by blast+
    moreover have "scope c \<notin> consumed s" "consumed s' = insert (scope c) (consumed s)"
        "rr_scope_digest r = scope c"
      using step Inr accept_fresh accept_adds accept_receipt by auto
    ultimately show ?thesis using rs by auto
  qed
qed

lemma single_use: "distinct (map rr_scope_digest (snd (run_consume consume s reqs)))"
  using run_consumed [of s reqs] by (cases "run_consume consume s reqs") simp

lemma accepted_then_refused:
  assumes "consume s io c now_ms skew = (s', Inr r)" and "run_consume consume s' reqs = (t, rs)"
    and "scope d = scope c"
  shows "snd (consume t io' d now' skew') \<noteq> Inr r'"
proof
  assume a: "snd (consume t io' d now' skew') = Inr r'"
  obtain u res where u: "consume t io' d now' skew' = (u, res)" by force
  with a have "consume t io' d now' skew' = (u, Inr r')" by simp
  then have "scope d \<notin> consumed t" by (rule accept_fresh)
  moreover have "scope c \<in> consumed t"
    using run_consumed [OF assms(2)] accept_adds [OF assms(1)] by simp
  ultimately show False using assms(3) by simp
qed

end

interpretation memory: replay_ledger
  "\<lambda>s (io :: unit) c now_ms skew. memory_consume E s c now_ms skew" ml_consumed_scopes
  "scope_digest E" for E
  by unfold_locales (auto simp: memory_consume_def Let_def split: sum.splits if_splits)

interpretation durable: replay_ledger
  "persistent_consume E" "\<lambda>hf. pl_consumed_scopes (fst hf)" "scope_digest E" for E
  by unfold_locales
    (auto simp: persistent_consume_def Let_def split: sum.splits if_splits option.splits prod.splits)

section \<open>The bytes of a log\<close>

lemma replay_lines_append:
  "replay_lines E parse n i (ls @ ms) st =
     and_then (replay_lines E parse n i ls st) (replay_lines E parse n (i + length ls) ms)"
  by (induction ls arbitrary: i st)
    (auto simp: and_then_def split: sum.splits)

lemma replay_line_ok_index:
  "replay_line E parse n l st = Inr st' \<longleftrightarrow> replay_line E parse m l st = Inr st'"
  by (auto simp: replay_line_def Let_def split: prod.splits)

lemma replay_lines_ok_index:
  "[] \<notin> set ls \<Longrightarrow> replay_lines E parse n i ls st = Inr st' \<Longrightarrow> replay_lines E parse m j ls st = Inr st'"
proof (induction ls arbitrary: i j st)
  case (Cons l ls)
  then obtain st1 where head: "replay_line E parse (i + 1) l st = Inr st1"
    and "replay_lines E parse n (i + 1) ls st1 = Inr st'" by auto
  moreover from this Cons have "replay_lines E parse m (j + 1) ls st1 = Inr st'" by auto
  moreover from head have "replay_line E parse (j + 1) l st = Inr st1"
    by (rule replay_line_ok_index [THEN iffD1])
  ultimately show ?case using Cons.prems(1) by auto
qed simp

text \<open>The state that the complete lines of a log stand for.\<close>

definition log_state ::
  "platform \<Rightarrow> (bytes \<Rightarrow> string + ledger_record) \<Rightarrow> bytes list \<Rightarrow> replay_state \<Rightarrow> bool" where
  "log_state E parse ls st \<longleftrightarrow>
     good_lines ls \<and> replay_lines E parse 0 0 ls ({}, 1, None) = Inr st"

lemma log_state_Nil: "log_state E parse [] ({}, 1, None)"
  by (simp add: log_state_def good_lines_def)

lemma log_state_snoc:
  assumes "log_state E parse ls st" and "l \<noteq> []" "newline \<notin> set l"
    and "replay_line E parse 0 l st = Inr st'"
  shows "log_state E parse (ls @ [l]) st'"
  using assms replay_line_ok_index [of E parse "Suc (length ls)" l st st' 0]
  by (auto simp: log_state_def good_lines_def replay_lines_append)

lemma replay_records_log:
  assumes "log_state E parse ls st"
  shows "replay_records E parse (log_bytes ls) = Inr st"
proof -
  from assms have good: "good_lines ls" and "replay_lines E parse 0 0 ls ({}, 1, None) = Inr st"
    by (auto simp: log_state_def)
  then have "replay_lines E parse (length ls + 1) 0 ls ({}, 1, None) = Inr st"
    using replay_lines_ok_index good_lines_nonempty by blast
  moreover have "log_bytes ls = [] \<or> last (log_bytes ls) = newline"
    using log_bytes_last by blast
  ultimately show ?thesis
    by (auto simp: replay_records_def split_newline_log [OF good] replay_lines_append)
qed

lemma replay_records_torn:
  assumes "torn \<noteq> []" "newline \<notin> set torn"
  shows "\<exists>n. replay_records E parse (log_bytes ls @ torn) = Inl (Corrupt n TornTail)"
proof -
  from assms have "last (log_bytes ls @ torn) \<noteq> newline" by (metis last_appendR last_in_set)
  with assms(1) show ?thesis by (simp add: replay_records_def)
qed

section \<open>A new record replays\<close>

definition parses_canonical ::
  "platform \<Rightarrow> (bytes \<Rightarrow> string + ledger_record) \<Rightarrow> bool" where
  "parses_canonical E parse \<longleftrightarrow> (\<forall>r. parse (canonical_json E (json_of_record r)) = Inr r)"

lemma compute_record_digest_ignores [simp]:
  "compute_record_digest E (r\<lparr>lr_record_digest := d\<rparr>) = compute_record_digest E r"
  by (simp add: compute_record_digest_def record_material_def)

lemma new_record_fields [simp]:
  "lr_claim (new_record E h c) = c"
  "lr_scope_digest (new_record E h c) = scope_digest E c"
  "lr_claim_digest (new_record E h c) = claim_digest E c"
  "lr_sequence (new_record E h c) = pl_next_sequence h"
  "lr_previous_record_digest (new_record E h c) = pl_tail_digest h"
  "lr_schema (new_record E h c) = REPLAY_LEDGER_RECORD_SCHEMA"
  "lr_record_digest (new_record E h c) = compute_record_digest E (new_record E h c)"
  by (simp_all add: new_record_def Let_def compute_record_digest_def record_material_def)

lemma replay_new_record:
  assumes "parses_canonical E parse" "validate_static c = Inr ()" "scope_digest E c \<notin> scopes"
    and "pl_next_sequence h = n" "pl_tail_digest h = tail"
  shows "replay_line E parse k (canonical_json E (json_of_record (new_record E h c))) (scopes, n, tail)
    = Inr (insert (scope_digest E c) scopes, saturating_add n 1,
           Some (lr_record_digest (new_record E h c)))"
  using assms by (simp add: replay_line_def parses_canonical_def)

lemma canonical_record_line:
  assumes "serde_writer E"
  shows "canonical_json E (json_of_record r) \<noteq> [] \<and> newline \<notin> set (canonical_json E (json_of_record r))"
  using canonical_json_no_newline [OF assms, of "json_of_record r"]
  by (simp add: newline_def canonical_json_def json_of_record_def)

section \<open>Appends, crashes and reopenings\<close>

text \<open>
  The life of one log: requests on the open handle, and reopenings after the handle was
  dropped.  The state is the handle, if one is open, and the bytes of the file.
\<close>

datatype ledger_event =
    EConsume append_io replay_claim u64 u64
  | EReopen open_env

type_synonym ledger_system = "persistent_ledger option \<times> bytes"

fun system_step ::
  "platform \<Rightarrow> (bytes \<Rightarrow> string + ledger_record) \<Rightarrow> ledger_system \<Rightarrow> ledger_event
     \<Rightarrow> ledger_system \<times> replay_receipt list" where
  "system_step E parse (None, f) (EConsume io c now_ms skew) = ((None, f), [])"
| "system_step E parse (Some h, f) (EConsume io c now_ms skew) =
     (case persistent_consume E (h, f) io c now_ms skew of
        ((h', f'), Inl e) \<Rightarrow> ((Some h', f'), [])
      | ((h', f'), Inr r) \<Rightarrow> ((Some h', f'), [r]))"
| "system_step E parse (h, f) (EReopen env) =
     (case ledger_open E parse env f of
        Inl e \<Rightarrow> ((None, f), [])
      | Inr h' \<Rightarrow> ((Some h', f), []))"

fun system_run ::
  "platform \<Rightarrow> (bytes \<Rightarrow> string + ledger_record) \<Rightarrow> ledger_system \<Rightarrow> ledger_event list
     \<Rightarrow> ledger_system \<times> replay_receipt list" where
  "system_run E parse s [] = (s, [])"
| "system_run E parse s (ev # evs) =
     (let (s', rs) = system_step E parse s ev; (s'', rs') = system_run E parse s' evs
      in (s'', rs @ rs'))"

text \<open>
  The invariant: the file is a replayable log followed by a torn tail, it records every
  accepted scope, and a usable handle agrees with what the file replays to.
\<close>

definition durable_inv ::
  "platform \<Rightarrow> (bytes \<Rightarrow> string + ledger_record) \<Rightarrow> string set \<Rightarrow> ledger_system \<Rightarrow> bool" where
  "durable_inv E parse accepted s \<longleftrightarrow>
     (\<exists>ls torn scopes n tail.
        snd s = log_bytes ls @ torn \<and> newline \<notin> set torn \<and>
        log_state E parse ls (scopes, n, tail) \<and> accepted \<subseteq> scopes \<and>
        (\<forall>h. fst s = Some h \<and> \<not> pl_poisoned h \<longrightarrow>
           torn = [] \<and> pl_consumed_scopes h = scopes \<and> pl_next_sequence h = n \<and>
           pl_tail_digest h = tail))"

lemma durable_invI:
  assumes "f = log_bytes ls @ torn" "newline \<notin> set torn" "log_state E parse ls (scopes, n, tail)"
    and "accepted \<subseteq> scopes"
    and "\<forall>h. ho = Some h \<and> \<not> pl_poisoned h \<longrightarrow>
      torn = [] \<and> pl_consumed_scopes h = scopes \<and> pl_next_sequence h = n \<and> pl_tail_digest h = tail"
  shows "durable_inv E parse accepted (ho, f)"
  unfolding durable_inv_def fst_conv snd_conv using assms by blast

lemma durable_invE:
  assumes "durable_inv E parse accepted (ho, f)"
  obtains ls torn scopes n tail where "f = log_bytes ls @ torn" "newline \<notin> set torn"
    "log_state E parse ls (scopes, n, tail)" "accepted \<subseteq> scopes"
    "\<forall>h. ho = Some h \<and> \<not> pl_poisoned h \<longrightarrow>
      torn = [] \<and> pl_consumed_scopes h = scopes \<and> pl_next_sequence h = n \<and> pl_tail_digest h = tail"
  using assms unfolding durable_inv_def fst_conv snd_conv by blast

lemma ledger_open_ok:
  "ledger_open E parse env f = Inr h \<longleftrightarrow>
     oe_symlink env = None \<and> oe_io_failure env = None \<and>
     (\<exists>scopes n tail. replay_records E parse f = Inr (scopes, n, tail) \<and>
        h = \<lparr>pl_consumed_scopes = scopes, pl_next_sequence = n, pl_tail_digest = tail,
             pl_known_len = of_nat (length f), pl_poisoned = False\<rparr>)"
  by (auto simp: ledger_open_def split: option.splits)

lemma durable_inv_reopen:
  assumes "durable_inv E parse accepted (ho, f)"
  shows "durable_inv E parse accepted (fst (system_step E parse (ho, f) (EReopen env)))"
proof -
  from assms obtain ls torn scopes n tail where f: "f = log_bytes ls @ torn" "newline \<notin> set torn"
    and st: "log_state E parse ls (scopes, n, tail)" and acc: "accepted \<subseteq> scopes"
    by (auto simp: durable_inv_def)
  show ?thesis
  proof (cases "ledger_open E parse env f")
    case (Inl e)
    then have "fst (system_step E parse (ho, f) (EReopen env)) = (None, f)" by (cases ho) auto
    with durable_invI [OF f st acc, of None] show ?thesis by simp
  next
    case (Inr h)
    then have step: "fst (system_step E parse (ho, f) (EReopen env)) = (Some h, f)"
      by (cases ho) auto
    from Inr obtain s m t where r: "replay_records E parse f = Inr (s, m, t)"
      and h: "h = \<lparr>pl_consumed_scopes = s, pl_next_sequence = m, pl_tail_digest = t,
             pl_known_len = of_nat (length f), pl_poisoned = False\<rparr>"
      unfolding ledger_open_ok by blast
    have "torn = []"
      using replay_records_torn [of torn E parse ls] f r by (cases "torn = []") auto
    with f r replay_records_log [OF st] h
    have "pl_consumed_scopes h = scopes" "pl_next_sequence h = n" "pl_tail_digest h = tail" by auto
    with \<open>torn = []\<close> have "durable_inv E parse accepted (Some h, f)"
      by (intro durable_invI [OF f st acc]) simp_all
    with step show ?thesis by simp
  qed
qed

text \<open>One append, by what the write left in the file.\<close>

lemma persistent_consume_cases:
  assumes "persistent_consume E (h, f) io c now_ms skew = ((h', f'), res)"
  obtains (refused) e where "res = Inl e" "f' = f" "h' = h \<or> h' = h\<lparr>pl_poisoned := True\<rparr>"
  | (uncertain) e k where "res = Inl e" "pl_poisoned h'" "validate_static c = Inr ()"
      "scope_digest E c \<notin> pl_consumed_scopes h" "\<not> pl_poisoned h"
      "f' = f @ take k (encode_record E (new_record E h c))"
  | (appended) r where "res = Inr r" "\<not> pl_poisoned h" "validate_static c = Inr ()"
      "scope_digest E c \<notin> pl_consumed_scopes h" "rr_scope_digest r = scope_digest E c"
      "f' = f @ encode_record E (new_record E h c)" "\<not> pl_poisoned h'"
      "pl_consumed_scopes h' = insert (scope_digest E c) (pl_consumed_scopes h)"
      "pl_next_sequence h' = saturating_add (pl_next_sequence h) 1"
      "pl_tail_digest h' = Some (lr_record_digest (new_record E h c))"
      "pl_known_len h = of_nat (length f)"
      "pl_known_len h' = saturating_add (pl_known_len h)
         (of_nat (length (encode_record E (new_record E h c))))"
proof -
  let ?r = "encode_record E (new_record E h c)"
  show ?thesis
  proof (cases "pl_poisoned h \<or> validate_at c now_ms skew \<noteq> Inr ()
      \<or> scope_digest E c \<in> pl_consumed_scopes h \<or> \<not> io_metadata_ok io
      \<or> of_nat (length f) \<noteq> pl_known_len h")
    case True
    with assms show ?thesis
      by (intro refused [of "projl res"])
        (auto simp: persistent_consume_def Let_def split: sum.splits if_splits option.splits)
  next
    case False
    then have ok: "\<not> pl_poisoned h" "validate_at c now_ms skew = Inr ()"
      "scope_digest E c \<notin> pl_consumed_scopes h" "io_metadata_ok io" "of_nat (length f) = pl_known_len h"
      by auto
    then have st: "validate_static c = Inr ()" by (blast intro: validate_at_static)
    consider k where "io_write_failed io = Some k" | "io_write_failed io = None" "\<not> io_sync_ok io"
      | "io_write_failed io = None" "io_sync_ok io" by (cases "io_write_failed io") auto
    then show ?thesis
    proof cases
      case 1
      with assms ok st show ?thesis
        by (intro uncertain [of "projl res" k]) (auto simp: persistent_consume_def Let_def)
    next
      case 2
      with assms ok st show ?thesis
        by (intro uncertain [of "projl res" "length ?r"]) (auto simp: persistent_consume_def Let_def)
    next
      case 3
      with assms ok st show ?thesis
        by (intro appended [of "projr res"]) (auto simp: persistent_consume_def Let_def)
    qed
  qed
qed

lemma durable_inv_consume:
  assumes E: "serde_writer E" and P: "parses_canonical E parse"
    and inv: "durable_inv E parse accepted (Some h, f)"
    and step: "persistent_consume E (h, f) io c now_ms skew = ((h', f'), res)"
  shows "durable_inv E parse
    (case res of Inl e \<Rightarrow> accepted | Inr r \<Rightarrow> insert (rr_scope_digest r) accepted) (Some h', f')"
proof -
  from inv obtain ls torn scopes n tail where f: "f = log_bytes ls @ torn" "newline \<notin> set torn"
    and st: "log_state E parse ls (scopes, n, tail)" and acc: "accepted \<subseteq> scopes"
    and live': "\<forall>g. Some h = Some g \<and> \<not> pl_poisoned g \<longrightarrow> torn = [] \<and> pl_consumed_scopes g = scopes \<and>
        pl_next_sequence g = n \<and> pl_tail_digest g = tail"
    by (rule durable_invE)
  from live' have live: "\<not> pl_poisoned h \<Longrightarrow> torn = [] \<and> pl_consumed_scopes h = scopes \<and>
        pl_next_sequence h = n \<and> pl_tail_digest h = tail" by blast
  let ?line = "canonical_json E (json_of_record (new_record E h c))"
  let ?st' = "(insert (scope_digest E c) scopes, saturating_add n 1,
           Some (lr_record_digest (new_record E h c)))"
  have line: "?line \<noteq> []" "newline \<notin> set ?line" using canonical_record_line [OF E] by auto
  have enc: "encode_record E (new_record E h c) = ?line @ [newline]" by (simp add: encode_record_def)
  have added: "torn = [] \<and> log_state E parse (ls @ [?line]) ?st'"
    if "\<not> pl_poisoned h" "validate_static c = Inr ()" "scope_digest E c \<notin> pl_consumed_scopes h"
    using live [OF that(1)] that log_state_snoc [OF st line replay_new_record [OF P that(2)]] by auto
  from step show ?thesis
  proof (cases rule: persistent_consume_cases)
    case (refused e)
    with f st acc live have "durable_inv E parse accepted (Some h', f')"
      by (intro durable_invI [OF _ f(2) st acc]) auto
    with refused show ?thesis by simp
  next
    case (uncertain e k)
    with added have torn: "torn = []" and st': "log_state E parse (ls @ [?line]) ?st'" by auto
    have "durable_inv E parse accepted (Some h', f')"
    proof (cases "k \<le> length ?line")
      case True
      have "newline \<notin> set (take k ?line)" using line by (meson in_set_takeD)
      moreover have "f' = log_bytes ls @ take k ?line" using uncertain f torn enc True by simp
      ultimately show ?thesis using uncertain by (intro durable_invI [OF _ _ st acc]) simp_all
    next
      case False
      then have "f' = log_bytes (ls @ [?line]) @ []" using uncertain f torn enc by simp
      then show ?thesis using uncertain acc by (intro durable_invI [OF _ _ st']) auto
    qed
    with uncertain show ?thesis by simp
  next
    case (appended r)
    with added have torn: "torn = []" and st': "log_state E parse (ls @ [?line]) ?st'" by auto
    have "f' = log_bytes (ls @ [?line]) @ []" using appended f torn enc by simp
    then have "durable_inv E parse (insert (scope_digest E c) accepted) (Some h', f')"
      using appended acc live by (intro durable_invI [OF _ _ st']) auto
    with appended show ?thesis by simp
  qed
qed

lemma durable_inv_step:
  assumes "serde_writer E" "parses_canonical E parse"
    and "durable_inv E parse accepted s" and "system_step E parse s ev = (s', rs)"
  shows "durable_inv E parse (rr_scope_digest ` set rs \<union> accepted) s' \<and>
    distinct (map rr_scope_digest rs) \<and> (\<forall>r \<in> set rs. rr_scope_digest r \<notin> accepted)"
proof -
  obtain ho f where s: "s = (ho, f)" by (cases s)
  show ?thesis
  proof (cases ev)
    case (EReopen env)
    with assms s have "s' = fst (system_step E parse (ho, f) (EReopen env))" "rs = []"
      by (cases ho; auto split: sum.splits)+
    with durable_inv_reopen [of E parse accepted ho f env] assms s show ?thesis by simp
  next
    case (EConsume io c now_ms skew)
    show ?thesis
    proof (cases ho)
      case None
      with assms s EConsume show ?thesis by simp
    next
      case (Some h)
      obtain h' f' res where p: "persistent_consume E (h, f) io c now_ms skew = ((h', f'), res)"
        by (metis prod.exhaust)
      from assms(3) s Some have "durable_inv E parse accepted (Some h, f)" by simp
      note inv' = durable_inv_consume [OF assms(1,2) this p]
      show ?thesis
      proof (cases res)
        case (Inl e)
        with inv' p assms(4) s Some EConsume show ?thesis by simp
      next
        case (Inr r)
        from p Inr have "rr_scope_digest r \<notin> pl_consumed_scopes h" "\<not> pl_poisoned h"
          by (cases rule: persistent_consume_cases; simp)+
        moreover have "accepted \<subseteq> pl_consumed_scopes h"
          using \<open>durable_inv E parse accepted (Some h, f)\<close> \<open>\<not> pl_poisoned h\<close>
          unfolding durable_inv_def by auto
        ultimately show ?thesis using inv' p assms(4) s Some EConsume Inr by auto
      qed
    qed
  qed
qed

lemma system_run_inv:
  assumes "serde_writer E" "parses_canonical E parse"
  shows "\<lbrakk> durable_inv E parse accepted s; system_run E parse s evs = (s', rs) \<rbrakk> \<Longrightarrow>
    durable_inv E parse (rr_scope_digest ` set rs \<union> accepted) s' \<and>
    distinct (map rr_scope_digest rs) \<and> (\<forall>r \<in> set rs. rr_scope_digest r \<notin> accepted)"
proof (induction evs arbitrary: s accepted rs)
  case Nil
  then show ?case by simp
next
  case (Cons ev evs)
  obtain s1 rs1 where s1: "system_step E parse s ev = (s1, rs1)"
    by (cases "system_step E parse s ev")
  obtain rs2 where rs2: "system_run E parse s1 evs = (s', rs2)" "rs = rs1 @ rs2"
    using Cons.prems(2) s1 by (auto split: prod.splits)
  note one = durable_inv_step [OF assms Cons.prems(1) s1]
  then have "durable_inv E parse (rr_scope_digest ` set rs1 \<union> accepted) s1" by blast
  note two = Cons.IH [OF this rs2(1)]
  have "durable_inv E parse (rr_scope_digest ` set rs \<union> accepted) s'"
  proof -
    have "rr_scope_digest ` set rs \<union> accepted
        = rr_scope_digest ` set rs2 \<union> (rr_scope_digest ` set rs1 \<union> accepted)"
      unfolding rs2(2) set_append by blast
    with two show ?thesis by argo
  qed
  moreover have "distinct (map rr_scope_digest rs)"
  proof -
    from two have "\<forall>r \<in> set rs2. rr_scope_digest r \<notin> rr_scope_digest ` set rs1" by blast
    then have "rr_scope_digest ` set rs1 \<inter> rr_scope_digest ` set rs2 = {}" by (rule image_disjointI)
    with one two show ?thesis unfolding rs2(2) map_append distinct_append set_map by argo
  qed
  moreover have "\<forall>r \<in> set rs. rr_scope_digest r \<notin> accepted"
    unfolding rs2(2) set_append using one two by blast
  ultimately show ?case by blast
qed

lemma durable_inv_init: "durable_inv E parse {} (None, [])"
  by (rule durable_invI [where ls = "[]" and torn = "[]"]) (auto intro: log_state_Nil)

text \<open>What a failed append of a usable handle leaves behind.\<close>

lemma failed_append_replay:
  assumes E: "serde_writer E" and P: "parses_canonical E parse"
    and inv: "durable_inv E parse accepted (Some h, f)" and live: "\<not> pl_poisoned h"
    and step: "persistent_consume E (h, f) io c now_ms skew = ((h', f'), Inl e)"
  shows "f' = f \<or> pl_poisoned h' \<and>
    ((\<exists>n. replay_records E parse f' = Inl (Corrupt n TornTail)) \<or>
     (\<exists>tail. replay_records E parse f' =
        Inr (insert (scope_digest E c) (pl_consumed_scopes h), saturating_add (pl_next_sequence h) 1,
             Some tail)))"
proof -
  from inv obtain ls torn scopes n tail where f0: "f = log_bytes ls @ torn"
    and st: "log_state E parse ls (scopes, n, tail)"
    and "\<forall>g. Some h = Some g \<and> \<not> pl_poisoned g \<longrightarrow> torn = [] \<and> pl_consumed_scopes g = scopes \<and>
        pl_next_sequence g = n \<and> pl_tail_digest g = tail"
    by (rule durable_invE)
  with live have torn: "torn = []" and h: "pl_consumed_scopes h = scopes" "pl_next_sequence h = n"
      "pl_tail_digest h = tail" by blast+
  let ?line = "canonical_json E (json_of_record (new_record E h c))"
  have line: "?line \<noteq> []" "newline \<notin> set ?line" using canonical_record_line [OF E] by auto
  have enc: "encode_record E (new_record E h c) = ?line @ [newline]" by (simp add: encode_record_def)
  from step show ?thesis
  proof (cases rule: persistent_consume_cases)
    case (uncertain d k)
    show ?thesis
    proof (cases "k = 0")
      case True
      with uncertain show ?thesis by simp
    next
      case k: False
      show ?thesis
      proof (cases "k \<le> length ?line")
        case True
        then have "f' = log_bytes ls @ take k ?line" using uncertain f0 torn enc by simp
        moreover have "newline \<notin> set (take k ?line)" using line by (meson in_set_takeD)
        moreover have "take k ?line \<noteq> []" using k line by simp
        ultimately show ?thesis
          using replay_records_torn [of "take k ?line" E parse ls] uncertain(2) by simp
      next
        case False
        then have "f' = log_bytes (ls @ [?line])" using uncertain f0 torn enc by simp
        moreover have "log_state E parse (ls @ [?line]) (insert (scope_digest E c) scopes,
            saturating_add n 1, Some (lr_record_digest (new_record E h c)))"
          using log_state_snoc [OF st line replay_new_record [OF P uncertain(3) _ h(2,3)]]
            uncertain(4) h(1) by simp
        ultimately show ?thesis
          using replay_records_log uncertain(2) h by (metis (no_types, lifting))
      qed
    qed
  qed simp_all
qed

section \<open>A parser that satisfies the hypothesis\<close>

text \<open>
  The canonical text of a record determines the record, so reading it back is a function;
  \<open>inverse_parse\<close> is that function.  It shows that \<open>parses_canonical\<close> can hold.
\<close>

lemma json_of_claim_canon [simp]:
  "canon (json_of_claim c) = canon (json_of_claim d) \<longleftrightarrow> c = d"
proof
  assume "canon (json_of_claim c) = canon (json_of_claim d)"
  from canon_object_same_keys [OF this [unfolded json_of_claim_def]]
  show "c = d" by (simp add: replay_claim.equality)
qed simp

lemma json_of_record_canon:
  assumes "canon (json_of_record r) = canon (json_of_record s)"
  shows "r = s"
proof -
  from canon_object_same_keys [OF assms [unfolded json_of_record_def record_material_def append.simps]]
  show ?thesis by (simp add: ledger_record.equality)
qed

definition record_line :: "platform \<Rightarrow> ledger_record \<Rightarrow> bytes" where
  "record_line E r = canonical_json E (json_of_record r)"

definition inverse_parse :: "platform \<Rightarrow> bytes \<Rightarrow> string + ledger_record" where
  "inverse_parse E b =
     (if b \<in> range (record_line E) then Ok (inv (record_line E) b) else Err ''not a record'')"

lemma parses_canonical_inverse:
  assumes "serde_writer E"
  shows "parses_canonical E (inverse_parse E)"
proof -
  have "inj (record_line E)"
    by (rule injI) (metis assms canonical_json_def json_of_record_canon record_line_def write_value_canon)
  then show ?thesis
    by (simp add: parses_canonical_def inverse_parse_def inv_f_f flip: record_line_def)
qed

definition sample_claim :: replay_claim where
  "sample_claim = \<lparr>rc_schema = REPLAY_CLAIM_SCHEMA, rc_namespace = ''capability'',
     rc_issuer_subject_id = ''issuer'', rc_key_id = ''key'', rc_subject_id = ''subject'',
     rc_nonce = ''n1'', rc_object_digest = ''object'', rc_issued_at = 10, rc_expires_at = 20\<rparr>"

definition good_open :: open_env where
  "good_open = \<lparr>oe_symlink = None, oe_io_failure = None\<rparr>"

definition good_append :: append_io where
  "good_append = \<lparr>io_metadata_ok = True, io_write_failed = None, io_sync_ok = True\<rparr>"

lemma sample_claim_valid: "validate_at sample_claim 15 0 = Inr ()"
  by (simp add: validate_at_def validate_static_def claim_required_def sample_claim_def
      saturating_add_def white1_def white2_def white3_def Let_def)

end
