(* ===== verification/Replay_Laws.thy ===== *)
theory Replay_Laws
  imports Replay_Ledger
begin

text \<open>
  The contract of \<open>replay_ledger.rs\<close>: a replay scope is consumed once, by one handle and
  over the whole life of a durable log; recovery gives back the handle's state; an append
  that fails half way poisons the handle and leaves a file that replays to the state before
  or after it, or is refused.
\<close>

section \<open>One handle\<close>

text \<open>Once the in-memory ledger accepted a claim, no later claim with the same
  namespace, issuer, key and nonce is accepted by it, whatever was requested in between and
  whatever its subject, object digest and time window are.\<close>
theorem memory_replay_refused:
  assumes "memory_consume E l c now_ms skew = (l', Inr r)"
    and "run_consume (\<lambda>s (io :: unit) c now_ms skew. memory_consume E s c now_ms skew) l' reqs
      = (l'', rs)"
    and "rc_namespace d = rc_namespace c" "rc_issuer_subject_id d = rc_issuer_subject_id c"
    and "rc_key_id d = rc_key_id c" "rc_nonce d = rc_nonce c"
  shows "\<exists>e. snd (memory_consume E l'' d now_ms' skew') = Inl e"
proof -
  have "snd (memory_consume E l'' d now_ms' skew') \<noteq> Inr r'" for r'
    by (rule memory.accepted_then_refused [OF assms(1,2) scope_digest_cong [OF assms(3-6)]])
  then show ?thesis by (cases "snd (memory_consume E l'' d now_ms' skew')") auto
qed

lemma memory_replay_refused_witness:
  "\<exists>e. snd (memory_consume reference_platform
      (fst (memory_consume reference_platform memory_new sample_claim 15 0))
      (sample_claim\<lparr>rc_object_digest := ''other''\<rparr>) 16 0) = Inl e"
proof -
  obtain l' r where "memory_consume reference_platform memory_new sample_claim 15 0 = (l', Inr r)"
    by (auto simp: memory_consume_def memory_new_def sample_claim_valid Let_def)
  from memory_replay_refused [OF this, of "[]" l' "[]" "sample_claim\<lparr>rc_object_digest := ''other''\<rparr>" 16 0]
  show ?thesis using \<open>memory_consume _ _ _ _ _ = _\<close> by simp
qed

text \<open>The replay scope is exactly the four fields namespace, issuer, key and nonce: two
  claims have one scope digest only if they agree on the four, unless the hash collides on the
  two scope messages.  A ledger entry therefore never blocks another issuer, key, namespace or
  nonce.\<close>
theorem scope_digest_binds_four_fields:
  assumes "serde_writer E"
  shows "(scope_digest E c = scope_digest E d \<longrightarrow>
      (rc_namespace c = rc_namespace d \<and> rc_issuer_subject_id c = rc_issuer_subject_id d \<and>
        rc_key_id c = rc_key_id d \<and> rc_nonce c = rc_nonce d) \<or>
      canonical_collision E REPLAY_SCOPE_DIGEST_DOMAIN (json_of_scope c) (json_of_scope d)) \<and>
    (rc_namespace c = rc_namespace d \<and> rc_issuer_subject_id c = rc_issuer_subject_id d \<and>
        rc_key_id c = rc_key_id d \<and> rc_nonce c = rc_nonce d \<longrightarrow>
      scope_digest E c = scope_digest E d)"
  using scope_digest_eqD [OF assms] scope_digest_cong by blast

lemma scope_digest_binds_four_fields_witness:
  "scope_digest reference_platform sample_claim =
     scope_digest reference_platform (sample_claim\<lparr>rc_subject_id := ''x'', rc_expires_at := 99\<rparr>)"
  by (rule scope_digest_binds_four_fields [OF serde_writer_reference, THEN conjunct2, rule_format])
    simp

section \<open>The durable log\<close>

text \<open>C23: Over any sequence of appends, failed appends, crashes and reopenings of one durable
  log that starts empty, no replay scope is accepted twice.\<close>
theorem durable_single_use:
  assumes "serde_writer E" and "parses_canonical E parse"
  shows "distinct (map rr_scope_digest (snd (system_run E parse (None, []) evs)))"
proof -
  obtain s rs where "system_run E parse (None, []) evs = (s, rs)" by fastforce
  with system_run_inv [OF assms durable_inv_init this] show ?thesis by simp
qed

lemma durable_single_use_witness:
  "let evs = [EReopen good_open, EConsume good_append sample_claim 15 0,
              EConsume good_append sample_claim 16 0];
       receipts = snd (system_run reference_platform (inverse_parse reference_platform) (None, []) evs)
   in length receipts = 1 \<and> distinct (map rr_scope_digest receipts)"
proof -
  let ?p = "inverse_parse reference_platform"
  let ?evs = "[EReopen good_open, EConsume good_append sample_claim 15 0,
              EConsume good_append sample_claim 16 0]"
  have v: "validate_at sample_claim 16 0 = Inr ()"
    using sample_claim_valid by (simp add: validate_at_def sample_claim_def saturating_add_def)
  have "length (snd (system_run reference_platform ?p (None, []) ?evs)) = 1"
    using sample_claim_valid v
    by (simp add: ledger_open_def good_open_def replay_records_def persistent_consume_def
        good_append_def Let_def)
  moreover have "distinct (map rr_scope_digest (snd (system_run reference_platform ?p (None, []) ?evs)))"
    by (rule durable_single_use [OF serde_writer_reference
          parses_canonical_inverse [OF serde_writer_reference]])
  ultimately show ?thesis unfolding Let_def by (rule conjI)
qed

text \<open>C24: Recovery is exact.  Whenever a run of the log ends with a usable handle, opening its
  file again succeeds and gives the same consumed scopes, the same next sequence and the same
  tail digest, so nothing accepted is forgotten and nothing else is blocked.\<close>
theorem recovery_exact:
  assumes "serde_writer E" and "parses_canonical E parse"
    and "fst (system_run E parse (None, []) evs) = (Some h, f)" and "\<not> pl_poisoned h"
    and "oe_symlink env = None" "oe_io_failure env = None"
  shows "\<exists>g. ledger_open E parse env f = Inr g \<and> \<not> pl_poisoned g \<and>
    pl_consumed_scopes g = pl_consumed_scopes h \<and> pl_next_sequence g = pl_next_sequence h \<and>
    pl_tail_digest g = pl_tail_digest h"
proof -
  obtain rs where "system_run E parse (None, []) evs = ((Some h, f), rs)"
    using assms(3) by (metis prod.collapse)
  with system_run_inv [OF assms(1,2) durable_inv_init]
  have "\<exists>acc. durable_inv E parse acc (Some h, f)" by blast
  then obtain acc where "durable_inv E parse acc (Some h, f)" by blast
  then obtain ls torn scopes n tail where f: "f = log_bytes ls @ torn"
    and st: "log_state E parse ls (scopes, n, tail)"
    and "\<forall>g. Some h = Some g \<and> \<not> pl_poisoned g \<longrightarrow> torn = [] \<and> pl_consumed_scopes g = scopes \<and>
        pl_next_sequence g = n \<and> pl_tail_digest g = tail"
    by (rule durable_invE)
  with assms(4) have live: "torn = []" "pl_consumed_scopes h = scopes" "pl_next_sequence h = n"
      "pl_tail_digest h = tail" by blast+
  with f replay_records_log [OF st] assms(5,6) show ?thesis by (simp add: ledger_open_def)
qed

lemma recovery_exact_witness:
  "let (hf, rs) = system_run reference_platform (inverse_parse reference_platform) (None, [])
        [EReopen good_open, EConsume good_append sample_claim 15 0]
   in \<exists>h g. fst hf = Some h \<and>
     ledger_open reference_platform (inverse_parse reference_platform) good_open (snd hf) = Inr g \<and>
     pl_consumed_scopes g = {scope_digest reference_platform sample_claim}"
proof -
  let ?p = "inverse_parse reference_platform"
  let ?evs = "[EReopen good_open, EConsume good_append sample_claim 15 0]"
  obtain h f where hf: "fst (system_run reference_platform ?p (None, []) ?evs) = (Some h, f)"
      "\<not> pl_poisoned h" "pl_consumed_scopes h = {scope_digest reference_platform sample_claim}"
    using sample_claim_valid
    by (simp add: ledger_open_def good_open_def replay_records_def persistent_consume_def
        good_append_def Let_def)
  have "\<exists>g. ledger_open reference_platform ?p good_open f = Inr g \<and> \<not> pl_poisoned g \<and>
    pl_consumed_scopes g = pl_consumed_scopes h \<and> pl_next_sequence g = pl_next_sequence h \<and>
    pl_tail_digest g = pl_tail_digest h"
    by (rule recovery_exact [OF serde_writer_reference
          parses_canonical_inverse [OF serde_writer_reference] hf(1,2)]) (simp_all add: good_open_def)
  with hf show ?thesis by (auto split: prod.splits)
qed

text \<open>An append that fails after bytes reached the file fails closed: the handle is
  poisoned and refuses every later request without touching the file, and opening the file
  finds either a torn tail, which is refused, or the complete new record, so the uncertain
  claim counts as consumed.\<close>
theorem failed_append_fails_closed:
  assumes "serde_writer E" and "parses_canonical E parse"
    and "fst (system_run E parse (None, []) evs) = (Some h, f)" and "\<not> pl_poisoned h"
    and "persistent_consume E (h, f) io c now_ms skew = ((h', f'), Inl e)" and "f' \<noteq> f"
  shows "(\<forall>io' d t s. persistent_consume E (h', f') io' d t s = ((h', f'), Inl Poisoned)) \<and>
    ((\<exists>n. replay_records E parse f' = Inl (Corrupt n TornTail)) \<or>
     (\<exists>tail. replay_records E parse f' =
        Inr (insert (scope_digest E c) (pl_consumed_scopes h), saturating_add (pl_next_sequence h) 1,
             Some tail)))"
proof -
  obtain rs where "system_run E parse (None, []) evs = ((Some h, f), rs)"
    using assms(3) by (metis prod.collapse)
  with system_run_inv [OF assms(1,2) durable_inv_init]
  obtain acc where "durable_inv E parse acc (Some h, f)" by blast
  from failed_append_replay [OF assms(1,2) this assms(4,5)] assms(6)
  show ?thesis by (auto simp: persistent_consume_def)
qed

lemma failed_append_fails_closed_witness:
  "\<exists>n. replay_records reference_platform (inverse_parse reference_platform)
      (snd (fst (persistent_consume reference_platform
        (\<lparr>pl_consumed_scopes = {}, pl_next_sequence = 1, pl_tail_digest = None, pl_known_len = 0,
          pl_poisoned = False\<rparr>, []) (good_append\<lparr>io_write_failed := Some 1\<rparr>) sample_claim 15 0)))
    = Inl (Corrupt n TornTail)"
proof -
  let ?E = reference_platform and ?p = "inverse_parse reference_platform"
  let ?h = "\<lparr>pl_consumed_scopes = {}, pl_next_sequence = 1, pl_tail_digest = None, pl_known_len = 0,
          pl_poisoned = False\<rparr>"
  let ?io = "good_append\<lparr>io_write_failed := Some 1\<rparr>"
  have run: "fst (system_run ?E ?p (None, []) [EReopen good_open]) = (Some ?h, [])"
    by (simp add: ledger_open_def good_open_def replay_records_def)
  have one: "take 1 (encode_record ?E r) = [CHR ''{'']" for r
    by (simp add: encode_record_def canonical_json_def json_of_record_def)
  have step: "persistent_consume ?E (?h, []) ?io sample_claim 15 0
      = ((?h\<lparr>pl_poisoned := True\<rparr>, [CHR ''{'']), Inl (Io ''append_record''))"
    using sample_claim_valid one by (simp add: persistent_consume_def good_append_def Let_def)
  from failed_append_fails_closed [OF serde_writer_reference
      parses_canonical_inverse [OF serde_writer_reference] run _ step]
  have "(\<exists>n. replay_records ?E ?p [CHR ''{''] = Inl (Corrupt n TornTail))
     \<or> (\<exists>x. replay_records ?E ?p [CHR ''{''] = Inr x)" by auto
  moreover have "last [CHR ''{''] \<noteq> newline" by (simp add: newline_def)
  ultimately show ?thesis unfolding step by (simp add: replay_records_def)
qed

end
