(* ===== verification/Action_Policy.thy ===== *)
theory Action_Policy
  imports Canonical "HOL-Library.Product_Lexorder" "HOL-Library.Option_ord"
begin

text \<open>
  \<open>m1nd-control/src/policy.rs\<close>: the vocabulary of action policies, the registry of
  reachable tuples, rules and effect floors, its self-digest, and \<open>validate\<close> with every
  error branch in the order of the code.  \<open>registry_ok\<close> is the abstract specification;
  \<open>validate_policy_ok\<close> shows that \<open>validate\<close> decides it.

  A \<open>BTreeSet\<close> is a set and is traversed in the order of its elements, which is the
  derived \<open>Ord\<close> of the code: the order of declaration for an enum, lexicographic for the
  tuple.
\<close>

section \<open>Vocabulary\<close>

definition ACTION_POLICY_REGISTRY_SCHEMA :: string where
  "ACTION_POLICY_REGISTRY_SCHEMA = ''m1nd-action-policy-registry-v1''"
definition ACTION_POLICY_DIGEST_DOMAIN :: string where
  "ACTION_POLICY_DIGEST_DOMAIN = ''m1nd-action-policy-registry-v1''"

datatype ingress = Mcp | Rest | Cli | Hook | BackgroundJob | Recovery | Migration

type_synonym action_id = string

datatype active_mode = HumanGated | PolicyAutonomous | FullAutonomy

datatype authority_variant = Ordinary | Human | Policy | AgentQuorum | SafetyKernel

definition is_positive_sovereign :: "authority_variant \<Rightarrow> bool" where
  "is_positive_sovereign v \<longleftrightarrow> v \<in> {Human, Policy, AgentQuorum}"

definition is_autonomous_positive :: "authority_variant \<Rightarrow> bool" where
  "is_autonomous_positive v \<longleftrightarrow> v \<in> {Policy, AgentQuorum}"

datatype risk_class = Low | Medium | High | Critical

datatype autonomy_tier =
    A0Observe | A1Propose | A2Execute | A3AutonomousLand | A4AutonomousGovern | A5FullAutonomy

datatype effect =
    Read | GraphMutation | RuntimeStoreWrite | SourceFilesystemWrite | HostFilesystemWrite
  | CoordinationRecord | MissionStateWrite | SovereignMutation | ProcessSpawn | ProcessSignal
  | ExecutableReplacement | NetworkAccess | NetworkExpose | FreezeIssuance | EpochFence
  | EpochBump | RevokeCapability | AbortPrepared | DemoteGrant | RollbackSignedCandidate

definition is_negative_safety :: "effect \<Rightarrow> bool" where
  "is_negative_safety e \<longleftrightarrow>
     e \<in> {FreezeIssuance, EpochFence, EpochBump, RevokeCapability, AbortPrepared, DemoteGrant,
          RollbackSignedCandidate}"

text \<open>The derived \<open>Ord\<close> of the enums: the position of the variant.\<close>

fun ingress_rank :: "ingress \<Rightarrow> nat" where
  "ingress_rank Mcp = 0" | "ingress_rank Rest = 1" | "ingress_rank Cli = 2"
| "ingress_rank Hook = 3" | "ingress_rank BackgroundJob = 4" | "ingress_rank Recovery = 5"
| "ingress_rank Migration = 6"

fun mode_rank :: "active_mode \<Rightarrow> nat" where
  "mode_rank HumanGated = 0" | "mode_rank PolicyAutonomous = 1" | "mode_rank FullAutonomy = 2"

fun variant_rank :: "authority_variant \<Rightarrow> nat" where
  "variant_rank Ordinary = 0" | "variant_rank Human = 1" | "variant_rank Policy = 2"
| "variant_rank AgentQuorum = 3" | "variant_rank SafetyKernel = 4"

fun risk_rank :: "risk_class \<Rightarrow> nat" where
  "risk_rank Low = 0" | "risk_rank Medium = 1" | "risk_rank High = 2" | "risk_rank Critical = 3"

fun tier_rank :: "autonomy_tier \<Rightarrow> nat" where
  "tier_rank A0Observe = 0" | "tier_rank A1Propose = 1" | "tier_rank A2Execute = 2"
| "tier_rank A3AutonomousLand = 3" | "tier_rank A4AutonomousGovern = 4"
| "tier_rank A5FullAutonomy = 5"

fun effect_rank :: "effect \<Rightarrow> nat" where
  "effect_rank Read = 0" | "effect_rank GraphMutation = 1" | "effect_rank RuntimeStoreWrite = 2"
| "effect_rank SourceFilesystemWrite = 3" | "effect_rank HostFilesystemWrite = 4"
| "effect_rank CoordinationRecord = 5" | "effect_rank MissionStateWrite = 6"
| "effect_rank SovereignMutation = 7" | "effect_rank ProcessSpawn = 8"
| "effect_rank ProcessSignal = 9" | "effect_rank ExecutableReplacement = 10"
| "effect_rank NetworkAccess = 11" | "effect_rank NetworkExpose = 12"
| "effect_rank FreezeIssuance = 13" | "effect_rank EpochFence = 14" | "effect_rank EpochBump = 15"
| "effect_rank RevokeCapability = 16" | "effect_rank AbortPrepared = 17"
| "effect_rank DemoteGrant = 18" | "effect_rank RollbackSignedCandidate = 19"

lemma effect_rank_inj: "effect_rank a = effect_rank b \<Longrightarrow> a = b"
  by (cases a; cases b; simp)

instantiation effect :: linorder
begin

definition less_eq_effect :: "effect \<Rightarrow> effect \<Rightarrow> bool" where
  "less_eq_effect a b \<longleftrightarrow> effect_rank a \<le> effect_rank b"

definition less_effect :: "effect \<Rightarrow> effect \<Rightarrow> bool" where
  "less_effect a b \<longleftrightarrow> effect_rank a < effect_rank b"

instance
  by standard (auto simp: less_eq_effect_def less_effect_def intro: effect_rank_inj)

end

lemma UNIV_effect:
  "(UNIV :: effect set) =
     {Read, GraphMutation, RuntimeStoreWrite, SourceFilesystemWrite, HostFilesystemWrite,
      CoordinationRecord, MissionStateWrite, SovereignMutation, ProcessSpawn, ProcessSignal,
      ExecutableReplacement, NetworkAccess, NetworkExpose, FreezeIssuance, EpochFence, EpochBump,
      RevokeCapability, AbortPrepared, DemoteGrant, RollbackSignedCandidate}"
proof -
  have "e \<in> {Read, GraphMutation, RuntimeStoreWrite, SourceFilesystemWrite, HostFilesystemWrite,
      CoordinationRecord, MissionStateWrite, SovereignMutation, ProcessSpawn, ProcessSignal,
      ExecutableReplacement, NetworkAccess, NetworkExpose, FreezeIssuance, EpochFence, EpochBump,
      RevokeCapability, AbortPrepared, DemoteGrant, RollbackSignedCandidate}" for e
    by (cases e) simp_all
  then show ?thesis by blast
qed

lemma finite_effects [simp]: "finite (es :: effect set)"
proof -
  have "finite (UNIV :: effect set)" unfolding UNIV_effect by simp
  then show ?thesis by (rule finite_subset [OF subset_UNIV])
qed

section \<open>The registry\<close>

record reachable_tuple =
  rt_ingress :: ingress
  rt_action :: action_id
  rt_active_mode :: active_mode
  rt_subject_id :: string
  rt_authority_variant :: authority_variant
  rt_applicable_grant_id :: "string option"
  rt_applicable_tier :: "autonomy_tier option"
  rt_risk_class :: risk_class

record action_policy_rule =
  ru_tuple :: reachable_tuple
  ru_effects :: "effect set"

record action_effect_floor =
  fl_action :: action_id
  fl_required_effects :: "effect set"

record action_policy_registry =
  reg_schema :: string
  reg_policy_version :: string
  reg_reachable_tuples :: "reachable_tuple list"
  reg_rules :: "action_policy_rule list"
  reg_action_effect_floors :: "action_effect_floor list"
  reg_policy_digest :: string

record policy_validation =
  pv_reachable_tuple_count :: nat
  pv_rule_count :: nat
  pv_action_count :: nat
  pv_computed_policy_digest :: string

datatype policy_error =
    Schema string
  | EmptyRequired string
  | NoReachableTuples
  | NoRules
  | NoEffectFloors
  | DuplicateReachableTuple reachable_tuple
  | DuplicateRule reachable_tuple
  | DuplicateEffectFloor action_id
  | EmptyRuleEffects action_id
  | EmptyEffectFloor action_id
  | MissingRule reachable_tuple
  | UnreachableRule reachable_tuple
  | MissingEffectFloor action_id
  | UnreachableEffectFloor action_id
  | MissingRequiredEffect action_id effect
  | HumanGrantOrTierForbidden
  | AutonomousGrantAndTierRequired
  | SafetyGrantOrTierForbidden
  | IncompleteGrantTier
  | AuthorityModeMismatch active_mode authority_variant
  | NonSafetyEffectInSafetyRule action_id effect
  | SafetyEffectOutsideSafetyRule action_id effect
  | SovereignEffectInOrdinaryRule action_id
  | MissingSovereignEffect action_id
  | PolicyDigestMismatch string string

text \<open>The derived \<open>Ord\<close> of the tuple, field by field.\<close>

definition tuple_key where
  "tuple_key t =
     (ingress_rank (rt_ingress t), rt_action t, mode_rank (rt_active_mode t), rt_subject_id t,
      variant_rank (rt_authority_variant t), rt_applicable_grant_id t,
      map_option tier_rank (rt_applicable_tier t), risk_rank (rt_risk_class t))"

section \<open>Serialisation\<close>

fun ingress_name :: "ingress \<Rightarrow> string" where
  "ingress_name Mcp = ''MCP''" | "ingress_name Rest = ''REST''" | "ingress_name Cli = ''CLI''"
| "ingress_name Hook = ''HOOK''" | "ingress_name BackgroundJob = ''BACKGROUND_JOB''"
| "ingress_name Recovery = ''RECOVERY''" | "ingress_name Migration = ''MIGRATION''"

fun mode_name :: "active_mode \<Rightarrow> string" where
  "mode_name HumanGated = ''HUMAN_GATED''"
| "mode_name PolicyAutonomous = ''POLICY_AUTONOMOUS''"
| "mode_name FullAutonomy = ''FULL_AUTONOMY''"

fun variant_name :: "authority_variant \<Rightarrow> string" where
  "variant_name Ordinary = ''ORDINARY''" | "variant_name Human = ''HUMAN''"
| "variant_name Policy = ''POLICY''" | "variant_name AgentQuorum = ''AGENT_QUORUM''"
| "variant_name SafetyKernel = ''SAFETY_KERNEL''"

fun risk_name :: "risk_class \<Rightarrow> string" where
  "risk_name Low = ''LOW''" | "risk_name Medium = ''MEDIUM''" | "risk_name High = ''HIGH''"
| "risk_name Critical = ''CRITICAL''"

fun tier_name :: "autonomy_tier \<Rightarrow> string" where
  "tier_name A0Observe = ''A0_OBSERVE''" | "tier_name A1Propose = ''A1_PROPOSE''"
| "tier_name A2Execute = ''A2_EXECUTE''" | "tier_name A3AutonomousLand = ''A3_AUTONOMOUS_LAND''"
| "tier_name A4AutonomousGovern = ''A4_AUTONOMOUS_GOVERN''"
| "tier_name A5FullAutonomy = ''A5_FULL_AUTONOMY''"

fun effect_name :: "effect \<Rightarrow> string" where
  "effect_name Read = ''READ''"
| "effect_name GraphMutation = ''GRAPH_MUTATION''"
| "effect_name RuntimeStoreWrite = ''RUNTIME_STORE_WRITE''"
| "effect_name SourceFilesystemWrite = ''SOURCE_FILESYSTEM_WRITE''"
| "effect_name HostFilesystemWrite = ''HOST_FILESYSTEM_WRITE''"
| "effect_name CoordinationRecord = ''COORDINATION_RECORD''"
| "effect_name MissionStateWrite = ''MISSION_STATE_WRITE''"
| "effect_name SovereignMutation = ''SOVEREIGN_MUTATION''"
| "effect_name ProcessSpawn = ''PROCESS_SPAWN''"
| "effect_name ProcessSignal = ''PROCESS_SIGNAL''"
| "effect_name ExecutableReplacement = ''EXECUTABLE_REPLACEMENT''"
| "effect_name NetworkAccess = ''NETWORK_ACCESS''"
| "effect_name NetworkExpose = ''NETWORK_EXPOSE''"
| "effect_name FreezeIssuance = ''FREEZE_ISSUANCE''"
| "effect_name EpochFence = ''EPOCH_FENCE''"
| "effect_name EpochBump = ''EPOCH_BUMP''"
| "effect_name RevokeCapability = ''REVOKE_CAPABILITY''"
| "effect_name AbortPrepared = ''ABORT_PREPARED''"
| "effect_name DemoteGrant = ''DEMOTE_GRANT''"
| "effect_name RollbackSignedCandidate = ''ROLLBACK_SIGNED_CANDIDATE''"

definition json_of_tuple :: "reachable_tuple \<Rightarrow> json" where
  "json_of_tuple t = JObject
    [(''ingress'', JString (ingress_name (rt_ingress t))),
     (''action'', JString (rt_action t)),
     (''active_mode'', JString (mode_name (rt_active_mode t))),
     (''subject_id'', JString (rt_subject_id t)),
     (''authority_variant'', JString (variant_name (rt_authority_variant t))),
     (''applicable_grant_id'', json_opt JString (rt_applicable_grant_id t)),
     (''applicable_tier'', json_opt (\<lambda>x. JString (tier_name x)) (rt_applicable_tier t)),
     (''risk_class'', JString (risk_name (rt_risk_class t)))]"

definition json_of_effects :: "effect set \<Rightarrow> json" where
  "json_of_effects es = JArray (map (\<lambda>e. JString (effect_name e)) (sorted_list_of_set es))"

definition json_of_rule :: "action_policy_rule \<Rightarrow> json" where
  "json_of_rule r = JObject
    [(''tuple'', json_of_tuple (ru_tuple r)), (''effects'', json_of_effects (ru_effects r))]"

definition json_of_floor :: "action_effect_floor \<Rightarrow> json" where
  "json_of_floor f = JObject
    [(''action'', JString (fl_action f)),
     (''required_effects'', json_of_effects (fl_required_effects f))]"

definition json_of_registry :: "action_policy_registry \<Rightarrow> json" where
  "json_of_registry r = JObject
    [(''schema'', JString (reg_schema r)),
     (''policy_version'', JString (reg_policy_version r)),
     (''reachable_tuples'', JArray (map json_of_tuple (reg_reachable_tuples r))),
     (''rules'', JArray (map json_of_rule (reg_rules r))),
     (''action_effect_floors'', JArray (map json_of_floor (reg_action_effect_floors r))),
     (''policy_digest'', JString (reg_policy_digest r))]"

definition compute_policy_digest :: "platform \<Rightarrow> action_policy_registry \<Rightarrow> string" where
  "compute_policy_digest E r =
     digest_canonical E ACTION_POLICY_DIGEST_DOMAIN (obj_remove ''policy_digest'' (json_of_registry r))"

definition seal_policy :: "platform \<Rightarrow> action_policy_registry \<Rightarrow> action_policy_registry" where
  "seal_policy E r = r\<lparr>reg_policy_digest := compute_policy_digest E r\<rparr>"

section \<open>Action identifiers\<close>

definition policy_require_non_empty :: "string \<Rightarrow> string \<Rightarrow> policy_error + unit" where
  "policy_require_non_empty field value = (if trims_empty value then Err (EmptyRequired field) else Ok ())"

definition policy_validate_optional_non_empty :: "string \<Rightarrow> string option \<Rightarrow> policy_error + unit" where
  "policy_validate_optional_non_empty field value =
     (case value of
        Some v \<Rightarrow> if trims_empty v then Err (EmptyRequired field) else Ok ()
      | None \<Rightarrow> Ok ())"

definition action_id_new :: "string \<Rightarrow> policy_error + action_id" where
  "action_id_new value = and_then (policy_require_non_empty ''action_id'' value) (\<lambda>_. Ok value)"

fun split_on :: "char \<Rightarrow> string \<Rightarrow> string list" where
  "split_on d [] = [[]]"
| "split_on d (c # s) =
     (if c = d then [] # split_on d s
      else case split_on d s of [] \<Rightarrow> [[c]] | w # ws \<Rightarrow> (c # w) # ws)"

definition catalog_char :: "char \<Rightarrow> bool" where
  "catalog_char c =
     (let n = of_char c :: nat in 97 \<le> n \<and> n \<le> 122 \<or> 48 \<le> n \<and> n \<le> 57 \<or> c = CHR ''_'')"

definition is_semantic_catalog_id :: "action_id \<Rightarrow> bool" where
  "is_semantic_catalog_id a \<longleftrightarrow>
     CHR ''.'' \<in> set a \<and>
     list_all (\<lambda>segment. segment \<noteq> [] \<and> list_all catalog_char segment) (split_on (CHR ''.'') a)"

section \<open>Validation\<close>

definition mode_matches :: "active_mode \<Rightarrow> authority_variant \<Rightarrow> bool" where
  "mode_matches m v =
     (case m of
        HumanGated \<Rightarrow> v \<in> {Ordinary, Human, SafetyKernel}
      | PolicyAutonomous \<Rightarrow> v \<in> {Ordinary, Human, Policy, SafetyKernel}
      | FullAutonomy \<Rightarrow> v \<in> {Ordinary, AgentQuorum, SafetyKernel})"

definition grant_tier_check :: "reachable_tuple \<Rightarrow> policy_error + unit" where
  "grant_tier_check t =
     (let grant = rt_applicable_grant_id t; tier = rt_applicable_tier t in
      case rt_authority_variant t of
        Human \<Rightarrow> check (\<not> (grant \<noteq> None \<or> tier \<noteq> None)) HumanGrantOrTierForbidden
      | Policy \<Rightarrow> check (\<not> (grant = None \<or> tier = None)) AutonomousGrantAndTierRequired
      | AgentQuorum \<Rightarrow> check (\<not> (grant = None \<or> tier = None)) AutonomousGrantAndTierRequired
      | SafetyKernel \<Rightarrow> check (\<not> (grant \<noteq> None \<or> tier \<noteq> None)) SafetyGrantOrTierForbidden
      | Ordinary \<Rightarrow> check (\<not> ((grant \<noteq> None) \<noteq> (tier \<noteq> None))) IncompleteGrantTier)"

definition validate_tuple :: "reachable_tuple \<Rightarrow> policy_error + unit" where
  "validate_tuple t = seq_checks
    [policy_require_non_empty ''reachable_tuples[].action'' (rt_action t),
     policy_require_non_empty ''reachable_tuples[].subject_id'' (rt_subject_id t),
     policy_validate_optional_non_empty ''reachable_tuples[].applicable_grant_id''
       (rt_applicable_grant_id t),
     grant_tier_check t,
     check (mode_matches (rt_active_mode t) (rt_authority_variant t))
       (AuthorityModeMismatch (rt_active_mode t) (rt_authority_variant t))]"

definition first_effect :: "(effect \<Rightarrow> bool) \<Rightarrow> effect set \<Rightarrow> effect option" where
  "first_effect p es = find p (sorted_list_of_set es)"

definition validate_effect_path :: "action_policy_rule \<Rightarrow> policy_error + unit" where
  "validate_effect_path r =
     (let action = rt_action (ru_tuple r); variant = rt_authority_variant (ru_tuple r);
          effects = ru_effects r in
      if variant = SafetyKernel then
        (case first_effect (\<lambda>e. \<not> is_negative_safety e) effects of
           Some e \<Rightarrow> Err (NonSafetyEffectInSafetyRule action e)
         | None \<Rightarrow> Ok ())
      else
        (case first_effect is_negative_safety effects of
           Some e \<Rightarrow> Err (SafetyEffectOutsideSafetyRule action e)
         | None \<Rightarrow>
             if variant = Ordinary \<and> SovereignMutation \<in> effects then
               Err (SovereignEffectInOrdinaryRule action)
             else if is_positive_sovereign variant \<and> SovereignMutation \<notin> effects then
               Err (MissingSovereignEffect action)
             else Ok ()))"

text \<open>The loop over the reachable tuples; the set is the local \<open>reachable\<close>.\<close>

fun reachable_loop ::
  "reachable_tuple list \<Rightarrow> reachable_tuple set \<Rightarrow> policy_error + reachable_tuple set" where
  "reachable_loop [] seen = Ok seen"
| "reachable_loop (t # ts) seen =
     and_then (validate_tuple t) (\<lambda>_.
       if t \<in> seen then Err (DuplicateReachableTuple t) else reachable_loop ts (insert t seen))"

text \<open>The loop over the floors; the association list is the local map \<open>floors\<close>.\<close>

fun floors_loop ::
  "action_effect_floor list \<Rightarrow> (action_id \<times> effect set) list
     \<Rightarrow> policy_error + (action_id \<times> effect set) list" where
  "floors_loop [] floors = Ok floors"
| "floors_loop (f # fs) floors =
     and_then (policy_require_non_empty ''action_effect_floors[].action'' (fl_action f)) (\<lambda>_.
       if fl_required_effects f = {} then Err (EmptyEffectFloor (fl_action f))
       else if fl_action f \<in> fst ` set floors then Err (DuplicateEffectFloor (fl_action f))
       else floors_loop fs ((fl_action f, fl_required_effects f) # floors))"

text \<open>The two loops that compare the reachable actions with the keys of \<open>floors\<close>.\<close>

definition action_checks ::
  "action_id list \<Rightarrow> (action_id \<times> effect set) list \<Rightarrow> policy_error + unit" where
  "action_checks reachable_actions floors = seq_checks
     (map (\<lambda>a. check (a \<in> fst ` set floors) (MissingEffectFloor a)) reachable_actions
      @ map (\<lambda>a. check (a \<in> set reachable_actions) (UnreachableEffectFloor a))
          (sort (map fst floors)))"

text \<open>
  The body of the loop over the rules.  The lookup of the floor cannot fail there, and the
  code says so with \<open>expect\<close>; the model reads a missing floor as the empty set.
\<close>

definition floor_of :: "(action_id \<times> effect set) list \<Rightarrow> action_id \<Rightarrow> effect set" where
  "floor_of floors a = (case map_of floors a of Some es \<Rightarrow> es | None \<Rightarrow> {})"

fun rules_loop ::
  "reachable_tuple set \<Rightarrow> (action_id \<times> effect set) list \<Rightarrow> action_policy_rule list
     \<Rightarrow> reachable_tuple set \<Rightarrow> policy_error + reachable_tuple set" where
  "rules_loop reachable floors [] covered = Ok covered"
| "rules_loop reachable floors (r # rs) covered =
     and_then (seq_checks
       [validate_tuple (ru_tuple r),
        check (ru_effects r \<noteq> {}) (EmptyRuleEffects (rt_action (ru_tuple r))),
        check (ru_tuple r \<notin> covered) (DuplicateRule (ru_tuple r)),
        check (ru_tuple r \<in> reachable) (UnreachableRule (ru_tuple r)),
        validate_effect_path r,
        (case first_effect (\<lambda>e. e \<notin> ru_effects r) (floor_of floors (rt_action (ru_tuple r))) of
           Some e \<Rightarrow> Err (MissingRequiredEffect (rt_action (ru_tuple r)) e)
         | None \<Rightarrow> Ok ())])
       (\<lambda>_. rules_loop reachable floors rs (insert (ru_tuple r) covered))"

definition validate_policy ::
  "platform \<Rightarrow> action_policy_registry \<Rightarrow> policy_error + policy_validation" where
  "validate_policy E r =
     and_then (seq_checks
       [check (reg_schema r = ACTION_POLICY_REGISTRY_SCHEMA) (Schema (reg_schema r)),
        policy_require_non_empty ''policy_version'' (reg_policy_version r),
        policy_require_non_empty ''policy_digest'' (reg_policy_digest r),
        check (reg_reachable_tuples r \<noteq> []) NoReachableTuples,
        check (reg_rules r \<noteq> []) NoRules,
        check (reg_action_effect_floors r \<noteq> []) NoEffectFloors]) (\<lambda>_.
     and_then (reachable_loop (reg_reachable_tuples r) {}) (\<lambda>reachable.
     (let reachable_actions = sort (remdups (map rt_action (reg_reachable_tuples r))) in
     and_then (floors_loop (reg_action_effect_floors r) []) (\<lambda>floors.
     and_then (action_checks reachable_actions floors) (\<lambda>_.
     and_then (rules_loop reachable floors (reg_rules r) {}) (\<lambda>covered.
     (case find (\<lambda>t. t \<notin> covered) (sort_key tuple_key (reg_reachable_tuples r)) of
        Some t \<Rightarrow> Err (MissingRule t)
      | None \<Rightarrow>
          (let computed = compute_policy_digest E r in
           if reg_policy_digest r \<noteq> computed then
             Err (PolicyDigestMismatch computed (reg_policy_digest r))
           else Ok \<lparr>pv_reachable_tuple_count = card reachable, pv_rule_count = card covered,
                   pv_action_count = length reachable_actions,
                   pv_computed_policy_digest = computed\<rparr>))))))))"

end
