(* ===== verification/Policy_Laws.thy ===== *)
theory Policy_Laws
  imports Action_Policy Reference_Platform
begin

text \<open>
  The contract of \<open>policy.rs\<close>: the specification \<open>registry_ok\<close> that \<open>validate\<close> decides,
  its consequence that ordinary, sovereign and safety paths stay apart and that every
  reachable tuple has exactly one rule, and the pinning of the registry by its digest.
\<close>

section \<open>Specification\<close>

definition tuple_ok :: "reachable_tuple \<Rightarrow> bool" where
  "tuple_ok t \<longleftrightarrow>
     \<not> trims_empty (rt_action t) \<and> \<not> trims_empty (rt_subject_id t) \<and>
     (\<forall>g. rt_applicable_grant_id t = Some g \<longrightarrow> \<not> trims_empty g) \<and>
     (is_autonomous_positive (rt_authority_variant t) \<longrightarrow>
        rt_applicable_grant_id t \<noteq> None \<and> rt_applicable_tier t \<noteq> None) \<and>
     (rt_authority_variant t \<in> {Human, SafetyKernel} \<longrightarrow>
        rt_applicable_grant_id t = None \<and> rt_applicable_tier t = None) \<and>
     (rt_authority_variant t = Ordinary \<longrightarrow>
        (rt_applicable_grant_id t = None \<longleftrightarrow> rt_applicable_tier t = None)) \<and>
     mode_matches (rt_active_mode t) (rt_authority_variant t)"

definition effect_path_ok :: "action_policy_rule \<Rightarrow> bool" where
  "effect_path_ok r \<longleftrightarrow>
     (let v = rt_authority_variant (ru_tuple r) in
      (v = SafetyKernel \<longleftrightarrow> (\<exists>e \<in> ru_effects r. is_negative_safety e)) \<and>
      (v = SafetyKernel \<longleftrightarrow> (\<forall>e \<in> ru_effects r. is_negative_safety e)) \<and>
      (SovereignMutation \<in> ru_effects r \<longleftrightarrow> is_positive_sovereign v))"

definition registry_ok :: "platform \<Rightarrow> action_policy_registry \<Rightarrow> bool" where
  "registry_ok E r \<longleftrightarrow>
     (let tuples = reg_reachable_tuples r; rules = reg_rules r; floors = reg_action_effect_floors r in
      reg_schema r = ACTION_POLICY_REGISTRY_SCHEMA \<and>
      \<not> trims_empty (reg_policy_version r) \<and> \<not> trims_empty (reg_policy_digest r) \<and>
      tuples \<noteq> [] \<and> distinct tuples \<and> (\<forall>t \<in> set tuples. tuple_ok t) \<and>
      distinct (map ru_tuple rules) \<and> ru_tuple ` set rules = set tuples \<and>
      distinct (map fl_action floors) \<and> fl_action ` set floors = rt_action ` set tuples \<and>
      (\<forall>f \<in> set floors. fl_required_effects f \<noteq> {}) \<and>
      (\<forall>r \<in> set rules. ru_effects r \<noteq> {} \<and> effect_path_ok r \<and>
         (\<forall>f \<in> set floors. fl_action f = rt_action (ru_tuple r) \<longrightarrow>
            fl_required_effects f \<subseteq> ru_effects r)) \<and>
      reg_policy_digest r = compute_policy_digest E r)"

section \<open>The loops\<close>

lemma policy_require_non_empty_ok [simp]: "policy_require_non_empty f v = Inr u \<longleftrightarrow> \<not> trims_empty v"
  by (simp add: policy_require_non_empty_def)

lemma policy_validate_optional_non_empty_ok [simp]:
  "policy_validate_optional_non_empty f v = Inr u \<longleftrightarrow> (\<forall>w. v = Some w \<longrightarrow> \<not> trims_empty w)"
  by (simp add: policy_validate_optional_non_empty_def split: option.splits)

lemma validate_tuple_ok: "validate_tuple t = Inr u \<longleftrightarrow> tuple_ok t"
  by (cases "rt_authority_variant t")
    (auto simp: validate_tuple_def tuple_ok_def grant_tier_check_def is_autonomous_positive_def Let_def)

lemma first_effect_None [simp]: "first_effect p es = None \<longleftrightarrow> (\<forall>e \<in> es. \<not> p e)"
  by (auto simp: first_effect_def find_None_iff)

lemma case_find_ok [simp]:
  "(case x of Some e \<Rightarrow> Inl (f e) | None \<Rightarrow> Inr ()) = Inr () \<longleftrightarrow> x = None"
  by (cases x) auto

lemma validate_effect_path_ok:
  "ru_effects r \<noteq> {} \<Longrightarrow> validate_effect_path r = Inr () \<longleftrightarrow> effect_path_ok r"
proof -
  assume ne: "ru_effects r \<noteq> {}"
  have sm: "\<not> is_negative_safety SovereignMutation" by (simp add: is_negative_safety_def)
  show ?thesis
  proof (cases "rt_authority_variant (ru_tuple r) = SafetyKernel")
    case True
    with ne sm show ?thesis
      by (auto simp: validate_effect_path_def effect_path_ok_def is_positive_sovereign_def Let_def)
  next
    case False
    with ne sm show ?thesis
      by (auto simp: validate_effect_path_def effect_path_ok_def Let_def is_positive_sovereign_def
          split: option.splits)
        (cases "rt_authority_variant (ru_tuple r)"; simp)+
  qed
qed

lemma reachable_loop_ok:
  "reachable_loop ts seen = Inr s \<longleftrightarrow>
     (\<forall>t \<in> set ts. tuple_ok t) \<and> distinct ts \<and> set ts \<inter> seen = {} \<and> s = set ts \<union> seen"
  by (induction ts arbitrary: seen) (auto simp: validate_tuple_ok)

lemma floors_loop_ok:
  "floors_loop fs acc = Inr m \<longleftrightarrow>
     (\<forall>f \<in> set fs. \<not> trims_empty (fl_action f) \<and> fl_required_effects f \<noteq> {}) \<and>
     distinct (map fl_action fs) \<and> fl_action ` set fs \<inter> fst ` set acc = {} \<and>
     m = rev (map (\<lambda>f. (fl_action f, fl_required_effects f)) fs) @ acc"
  by (induction fs arbitrary: acc) auto

lemma rules_loop_ok:
  "rules_loop reachable floors rs covered = Inr s \<longleftrightarrow>
     (\<forall>r \<in> set rs. tuple_ok (ru_tuple r) \<and> ru_effects r \<noteq> {} \<and> ru_tuple r \<in> reachable \<and>
        effect_path_ok r \<and> floor_of floors (rt_action (ru_tuple r)) \<subseteq> ru_effects r) \<and>
     distinct (map ru_tuple rs) \<and> ru_tuple ` set rs \<inter> covered = {} \<and> s = ru_tuple ` set rs \<union> covered"
proof (induction rs arbitrary: covered)
  case (Cons r rs)
  show ?case
  proof (cases "ru_effects r = {}")
    case False
    note path = validate_effect_path_ok [OF this]
    show ?thesis by (auto simp: Cons.IH validate_tuple_ok path)
  qed auto
qed auto

lemma floor_of_floors:
  assumes "distinct (map fl_action fs)"
  shows "floor_of (rev (map (\<lambda>f. (fl_action f, fl_required_effects f)) fs)) a \<subseteq> es \<longleftrightarrow>
     (\<forall>f \<in> set fs. fl_action f = a \<longrightarrow> fl_required_effects f \<subseteq> es)"
proof -
  let ?m = "rev (map (\<lambda>f. (fl_action f, fl_required_effects f)) fs)"
  have d: "distinct (map fst ?m)" using assms by (simp add: rev_map [symmetric] o_def)
  show ?thesis
  proof (cases "map_of ?m a")
    case None
    then have "a \<notin> fst ` set ?m" by (simp only: map_of_eq_None_iff not_False_eq_True)
    then show ?thesis unfolding floor_of_def None by (auto simp: image_image)
  next
    case (Some b)
    then have mem: "(a, b) \<in> set ?m" by (rule map_of_SomeD)
    then obtain f where "f \<in> set fs" "fl_action f = a" "fl_required_effects f = b" by auto
    moreover have "fl_required_effects g = b" if "g \<in> set fs" "fl_action g = a" for g
    proof -
      have "(a, fl_required_effects g) \<in> set ?m" using that by auto
      with d mem show ?thesis by (metis eq_key_imp_eq_value)
    qed
    ultimately show ?thesis unfolding floor_of_def Some by auto
  qed
qed

text \<open>\<open>validate\<close> decides the specification, and its counts are those of the registry.\<close>

lemma action_checks_ok:
  "action_checks acts floors = Inr () \<longleftrightarrow> fst ` set floors = set acts"
  by (auto simp: action_checks_def)

lemma find_uncovered: "find (\<lambda>t. t \<notin> s) (sort_key k ts) = None \<longleftrightarrow> set ts \<subseteq> s"
  by (auto simp: find_None_iff)

lemma case_some_err [simp]:
  "(case x of Some e \<Rightarrow> Inl (f e) | None \<Rightarrow> y) = Inr v \<longleftrightarrow> x = None \<and> y = Inr v"
  by (cases x) auto

lemma rev_floors_actions:
  "fst ` set (rev (map (\<lambda>f. (fl_action f, fl_required_effects f)) fs)) = fl_action ` set fs"
  by (simp add: image_image)

lemma mem_image_ball: "(\<forall>x \<in> f ` A. P x) \<longleftrightarrow> (\<forall>x \<in> A. P (f x))"
  by simp

lemma validate_policy_ok:
  "(\<exists>v. validate_policy E r = Inr v) \<longleftrightarrow> registry_ok E r"
proof -
  let ?ts = "reg_reachable_tuples r" and ?rs = "reg_rules r" and ?fs = "reg_action_effect_floors r"
  let ?m = "rev (map (\<lambda>f. (fl_action f, fl_required_effects f)) ?fs)"
  have "(\<exists>v. validate_policy E r = Inr v) \<longleftrightarrow>
     (reg_schema r = ACTION_POLICY_REGISTRY_SCHEMA \<and> \<not> trims_empty (reg_policy_version r) \<and>
      \<not> trims_empty (reg_policy_digest r) \<and> ?ts \<noteq> [] \<and> ?rs \<noteq> [] \<and> ?fs \<noteq> []) \<and>
     ((\<forall>t \<in> set ?ts. tuple_ok t) \<and> distinct ?ts) \<and>
     ((\<forall>f \<in> set ?fs. \<not> trims_empty (fl_action f) \<and> fl_required_effects f \<noteq> {}) \<and>
      distinct (map fl_action ?fs)) \<and>
     fl_action ` set ?fs = rt_action ` set ?ts \<and>
     ((\<forall>x \<in> set ?rs. tuple_ok (ru_tuple x) \<and> ru_effects x \<noteq> {} \<and> ru_tuple x \<in> set ?ts \<and>
        effect_path_ok x \<and> floor_of ?m (rt_action (ru_tuple x)) \<subseteq> ru_effects x) \<and>
      distinct (map ru_tuple ?rs)) \<and> set ?ts \<subseteq> ru_tuple ` set ?rs \<and>
     reg_policy_digest r = compute_policy_digest E r"
    unfolding validate_policy_def Let_def and_then_ok case_some_err find_uncovered
    by (simp add: action_checks_ok reachable_loop_ok floors_loop_ok rules_loop_ok image_image conj_assoc)
  also have "\<dots> \<longleftrightarrow> registry_ok E r" (is "?L \<longleftrightarrow> _")
  proof
    assume ?L
    then show "registry_ok E r"
      unfolding registry_ok_def Let_def using floor_of_floors [of ?fs] by blast
  next
    assume "registry_ok E r"
    then have ok: "reg_schema r = ACTION_POLICY_REGISTRY_SCHEMA" "\<not> trims_empty (reg_policy_version r)"
      "\<not> trims_empty (reg_policy_digest r)" "?ts \<noteq> []" "distinct ?ts" "\<forall>t \<in> set ?ts. tuple_ok t"
      "distinct (map ru_tuple ?rs)" "ru_tuple ` set ?rs = set ?ts" "distinct (map fl_action ?fs)"
      "fl_action ` set ?fs = rt_action ` set ?ts" "\<forall>f \<in> set ?fs. fl_required_effects f \<noteq> {}"
      "reg_policy_digest r = compute_policy_digest E r"
      and rules: "\<forall>x \<in> set ?rs. ru_effects x \<noteq> {} \<and> effect_path_ok x \<and>
         (\<forall>f \<in> set ?fs. fl_action f = rt_action (ru_tuple x) \<longrightarrow>
            fl_required_effects f \<subseteq> ru_effects x)"
      unfolding registry_ok_def Let_def by blast+
    from ok(4,8,10) have "?rs \<noteq> []" "?fs \<noteq> []" by auto
    moreover have "\<not> trims_empty (fl_action f)" if f: "f \<in> set ?fs" for f
    proof -
      from f ok(10) obtain t where "t \<in> set ?ts" "fl_action f = rt_action t" by blast
      with ok(6) show ?thesis by (simp add: tuple_ok_def)
    qed
    moreover have "tuple_ok (ru_tuple x) \<and> ru_tuple x \<in> set ?ts" if "x \<in> set ?rs" for x
      using that ok(6,8) by blast
    moreover have "set ?ts \<subseteq> ru_tuple ` set ?rs" using ok(8) by simp
    moreover have "floor_of ?m (rt_action (ru_tuple x)) \<subseteq> ru_effects x" if "x \<in> set ?rs" for x
      unfolding floor_of_floors [OF ok(9)] using that rules by blast
    ultimately show ?L
      by (intro conjI ballI ok(1-5,7,9,10,12)) (use ok(6,11) rules in blast)+
  qed
  finally show ?thesis .
qed

section \<open>The digest determines the registry\<close>

lemma name_inj:
  "ingress_name i = ingress_name i' \<longleftrightarrow> i = i'" "mode_name m = mode_name m' \<longleftrightarrow> m = m'"
  "variant_name v = variant_name v' \<longleftrightarrow> v = v'" "risk_name r = risk_name r' \<longleftrightarrow> r = r'"
  "tier_name t = tier_name t' \<longleftrightarrow> t = t'"
  subgoal by (cases i; cases i'; simp)
  subgoal by (cases m; cases m'; simp)
  subgoal by (cases v; cases v'; simp)
  subgoal by (cases r; cases r'; simp)
  subgoal by (cases t; cases t'; simp)
  done

lemma effect_name_inj: "effect_name e = effect_name f \<longleftrightarrow> e = f"
  by (cases e; simp; cases f; simp)

lemma json_of_effects_canon: "canon (json_of_effects es) = canon (json_of_effects fs) \<longleftrightarrow> es = fs"
proof -
  have "canon (json_of_effects es) = canon (json_of_effects fs) \<longleftrightarrow>
      sorted_list_of_set es = sorted_list_of_set fs"
    unfolding json_of_effects_def by (rule canon_json_array) (simp add: effect_name_inj)
  also have "\<dots> \<longleftrightarrow> es = fs"
    by (metis finite_effects sorted_list_of_set.set_sorted_key_list_of_set)
  finally show ?thesis .
qed

lemma json_of_tier_canon:
  "canon (json_opt (\<lambda>x. JString (tier_name x)) a) = canon (json_opt (\<lambda>x. JString (tier_name x)) b)
     \<longleftrightarrow> a = b"
  by (rule canon_json_opt) (simp_all add: name_inj)

lemma json_of_tuple_canon: "canon (json_of_tuple t) = canon (json_of_tuple u) \<longleftrightarrow> t = u"
proof
  assume "canon (json_of_tuple t) = canon (json_of_tuple u)"
  from canon_object_same_keys [OF this [unfolded json_of_tuple_def]]
  show "t = u" by (simp add: reachable_tuple.equality name_inj json_of_tier_canon)
qed simp

lemma json_of_rule_canon: "canon (json_of_rule t) = canon (json_of_rule u) \<longleftrightarrow> t = u"
proof
  assume "canon (json_of_rule t) = canon (json_of_rule u)"
  from canon_object_same_keys [OF this [unfolded json_of_rule_def]]
  show "t = u"
    by (simp add: action_policy_rule.equality json_of_tuple_canon json_of_effects_canon)
qed simp

lemma json_of_floor_canon: "canon (json_of_floor t) = canon (json_of_floor u) \<longleftrightarrow> t = u"
proof
  assume "canon (json_of_floor t) = canon (json_of_floor u)"
  from canon_object_same_keys [OF this [unfolded json_of_floor_def]]
  show "t = u" by (simp add: action_effect_floor.equality json_of_effects_canon)
qed simp

definition registry_material :: "action_policy_registry \<Rightarrow> json" where
  "registry_material r = obj_remove ''policy_digest'' (json_of_registry r)"

lemma registry_material_canon:
  assumes "canon (registry_material r) = canon (registry_material s)"
    and "reg_policy_digest r = reg_policy_digest s"
  shows "r = s"
proof -
  have m: "registry_material q = JObject
    [(''schema'', JString (reg_schema q)), (''policy_version'', JString (reg_policy_version q)),
     (''reachable_tuples'', JArray (map json_of_tuple (reg_reachable_tuples q))),
     (''rules'', JArray (map json_of_rule (reg_rules q))),
     (''action_effect_floors'', JArray (map json_of_floor (reg_action_effect_floors q)))]" for q
    by (simp add: registry_material_def json_of_registry_def)
  from canon_object_same_keys [OF assms(1) [unfolded m]] assms(2) show ?thesis
    by (simp add: canon_json_array json_of_tuple_canon json_of_rule_canon json_of_floor_canon
        action_policy_registry.equality del: canon.simps(5))
qed

section \<open>Properties\<close>

text \<open>C25: \<open>validate\<close> accepts a registry exactly when the specification holds: schema and
  self-digest, distinct well-formed reachable tuples, one rule for each of them and none for
  any other, one non-empty effect floor for each reachable action and none for any other, and
  rules whose effects cover the floor and stay on the path of their authority.\<close>
theorem policy_validate_decides:
  "(\<exists>v. validate_policy E r = Inr v) \<longleftrightarrow> registry_ok E r"
  by (rule validate_policy_ok)

text \<open>In a validated registry every reachable tuple has exactly one rule, and the paths
  are apart: a rule carries safety effects only if its authority is the safety kernel, and then
  nothing else; it carries \<open>SOVEREIGN_MUTATION\<close> exactly if its authority is positive and
  sovereign; human authority is unreachable in full autonomy, and autonomous authority is
  unreachable in the human-gated mode.\<close>
theorem policy_paths_separated:
  assumes "validate_policy E r = Inr v" and "t \<in> set (reg_reachable_tuples r)"
  shows "(\<exists>!ru. ru \<in> set (reg_rules r) \<and> ru_tuple ru = t) \<and>
    (\<forall>ru \<in> set (reg_rules r). ru_tuple ru = t \<longrightarrow>
      (\<forall>e \<in> ru_effects ru. is_negative_safety e \<longleftrightarrow> rt_authority_variant t = SafetyKernel) \<and>
      (SovereignMutation \<in> ru_effects ru \<longleftrightarrow> is_positive_sovereign (rt_authority_variant t))) \<and>
    (rt_active_mode t = FullAutonomy \<longrightarrow> rt_authority_variant t \<notin> {Human, Policy}) \<and>
    (rt_active_mode t = HumanGated \<longrightarrow> \<not> is_autonomous_positive (rt_authority_variant t))"
proof -
  from assms(1) have ok: "registry_ok E r" using validate_policy_ok by blast
  then have rules: "distinct (map ru_tuple (reg_rules r))"
      "set (reg_reachable_tuples r) = ru_tuple ` set (reg_rules r)"
    and path: "\<And>ru. ru \<in> set (reg_rules r) \<Longrightarrow> effect_path_ok ru"
    and t: "tuple_ok t" using assms(2) by (auto simp: registry_ok_def Let_def)
  have inj: "inj_on ru_tuple (set (reg_rules r))" using rules(1) by (simp only: distinct_map)
  obtain ru where ru: "ru \<in> set (reg_rules r)" "ru_tuple ru = t"
    using assms(2) unfolding rules(2) by (rule imageE) (rule that, simp_all)
  have "\<exists>!ru. ru \<in> set (reg_rules r) \<and> ru_tuple ru = t"
    by (rule ex1I [of _ ru]) (use ru in simp, metis inj inj_onD ru)
  moreover have "(\<forall>e \<in> ru_effects ru. is_negative_safety e \<longleftrightarrow> rt_authority_variant t = SafetyKernel) \<and>
      (SovereignMutation \<in> ru_effects ru \<longleftrightarrow> is_positive_sovereign (rt_authority_variant t))"
    if "ru \<in> set (reg_rules r)" "ru_tuple ru = t" for ru
    using path [OF that(1)] that(2) by (auto simp: effect_path_ok_def Let_def)
  moreover have "rt_active_mode t = FullAutonomy \<longrightarrow> rt_authority_variant t \<notin> {Human, Policy}"
    "rt_active_mode t = HumanGated \<longrightarrow> \<not> is_autonomous_positive (rt_authority_variant t)"
    using t by (auto simp: tuple_ok_def mode_matches_def is_autonomous_positive_def)
  ultimately show ?thesis by blast
qed

definition sample_tuple :: "authority_variant \<Rightarrow> reachable_tuple" where
  "sample_tuple v = \<lparr>rt_ingress = Cli, rt_action = ''mission.land'', rt_active_mode = HumanGated,
     rt_subject_id = ''owner'', rt_authority_variant = v, rt_applicable_grant_id = None,
     rt_applicable_tier = None, rt_risk_class = High\<rparr>"

definition sample_body :: action_policy_registry where
  "sample_body =
     \<lparr>reg_schema = ACTION_POLICY_REGISTRY_SCHEMA, reg_policy_version = ''1'',
      reg_reachable_tuples = [sample_tuple Human, (sample_tuple Ordinary)\<lparr>rt_action := ''graph.read''\<rparr>],
      reg_rules =
        [\<lparr>ru_tuple = (sample_tuple Ordinary)\<lparr>rt_action := ''graph.read''\<rparr>, ru_effects = {Read}\<rparr>,
         \<lparr>ru_tuple = sample_tuple Human, ru_effects = {SovereignMutation, MissionStateWrite}\<rparr>],
      reg_action_effect_floors =
        [\<lparr>fl_action = ''mission.land'', fl_required_effects = {MissionStateWrite}\<rparr>,
         \<lparr>fl_action = ''graph.read'', fl_required_effects = {Read}\<rparr>],
      reg_policy_digest = []\<rparr>"

definition sample_registry :: "platform \<Rightarrow> action_policy_registry" where
  "sample_registry E = seal_policy E sample_body"

lemma compute_policy_digest_ignores [simp]:
  "compute_policy_digest E (r\<lparr>reg_policy_digest := d\<rparr>) = compute_policy_digest E r"
  by (simp add: compute_policy_digest_def json_of_registry_def)

lemma compute_policy_digest_not_blank: "sha256_width E \<Longrightarrow> \<not> trims_empty (compute_policy_digest E r)"
  unfolding compute_policy_digest_def
  by (rule digest_syntax_not_blank [OF digest_canonical_syntax])

lemma sample_body_paths:
  "\<forall>t \<in> set (reg_reachable_tuples sample_body). tuple_ok t"
  "\<forall>ru \<in> set (reg_rules sample_body). ru_effects ru \<noteq> {} \<and> effect_path_ok ru \<and>
     (\<forall>f \<in> set (reg_action_effect_floors sample_body).
        fl_action f = rt_action (ru_tuple ru) \<longrightarrow> fl_required_effects f \<subseteq> ru_effects ru)"
  by (simp_all add: sample_body_def sample_tuple_def tuple_ok_def effect_path_ok_def
      is_negative_safety_def is_positive_sovereign_def is_autonomous_positive_def mode_matches_def
      white1_def white2_def white3_def Let_def)

lemma sample_body_shape:
  "reg_schema sample_body = ACTION_POLICY_REGISTRY_SCHEMA" "reg_policy_version sample_body = ''1''"
  "reg_reachable_tuples sample_body \<noteq> []" "distinct (reg_reachable_tuples sample_body)"
  "distinct (map ru_tuple (reg_rules sample_body))"
  "ru_tuple ` set (reg_rules sample_body) = set (reg_reachable_tuples sample_body)"
  "distinct (map fl_action (reg_action_effect_floors sample_body))"
  "fl_action ` set (reg_action_effect_floors sample_body) = rt_action ` set (reg_reachable_tuples sample_body)"
  "\<forall>f \<in> set (reg_action_effect_floors sample_body). fl_required_effects f \<noteq> {}"
  by (auto simp: sample_body_def sample_tuple_def)

lemma sample_registry_ok: "sha256_width E \<Longrightarrow> registry_ok E (sample_registry E)"
  using sample_body_paths sample_body_shape compute_policy_digest_not_blank [of E sample_body]
  by (simp add: registry_ok_def sample_registry_def seal_policy_def white1_def Let_def)

lemma policy_paths_separated_witness:
  "\<exists>!ru. ru \<in> set (reg_rules (sample_registry reference_platform)) \<and> ru_tuple ru = sample_tuple Human"
proof -
  obtain v where "validate_policy reference_platform (sample_registry reference_platform) = Inr v"
    using sample_registry_ok [OF sha256_width_reference] validate_policy_ok by blast
  moreover have "sample_tuple Human \<in> set (reg_reachable_tuples (sample_registry reference_platform))"
    by (simp add: sample_registry_def seal_policy_def sample_body_def)
  ultimately show ?thesis by (rule policy_paths_separated [THEN conjunct1])
qed

text \<open>The policy digest pins the registry: two validated registries with the same
  \<open>policy_digest\<close> are the same registry, unless the hash collides on their two messages.\<close>
theorem policy_digest_pins_registry:
  assumes "serde_writer E" and "validate_policy E r = Inr v" "validate_policy E s = Inr w"
    and "reg_policy_digest r = reg_policy_digest s"
  shows "r = s \<or>
    canonical_collision E ACTION_POLICY_DIGEST_DOMAIN (registry_material r) (registry_material s)"
proof -
  have "registry_ok E r" "registry_ok E s" using assms(2,3) validate_policy_ok by blast+
  with assms(4) have "compute_policy_digest E r = compute_policy_digest E s"
    by (simp add: registry_ok_def Let_def)
  with digest_canonical_eq [OF assms(1)]
  have "canon (registry_material r) = canon (registry_material s) \<or>
      canonical_collision E ACTION_POLICY_DIGEST_DOMAIN (registry_material r) (registry_material s)"
    unfolding compute_policy_digest_def registry_material_def by blast
  with registry_material_canon [OF _ assms(4)] show ?thesis by blast
qed

lemma policy_digest_pins_registry_witness:
  "let r = sample_registry reference_platform; s = r\<lparr>reg_rules := reg_rules r\<rparr>
   in r = s \<or> canonical_collision reference_platform ACTION_POLICY_DIGEST_DOMAIN
        (registry_material r) (registry_material s)"
proof -
  let ?r = "sample_registry reference_platform"
  obtain v where v: "validate_policy reference_platform ?r = Inr v"
    using sample_registry_ok [OF sha256_width_reference] validate_policy_ok by blast
  then have "validate_policy reference_platform (?r\<lparr>reg_rules := reg_rules ?r\<rparr>) = Inr v" by simp
  from policy_digest_pins_registry [OF serde_writer_reference v this] show ?thesis
    unfolding Let_def by simp
qed

end
