(* ===== verification/Envelope.thy ===== *)
theory Envelope
  imports Reference_Platform
begin

text \<open>
  \<open>m1nd-control/src/envelope.rs\<close>: the causal envelope, the requirement matrix of the event
  classes, validation in the order of the code, and the replay key.  The payload type \<open>T\<close>
  is modelled by the JSON value it serialises to.
\<close>

section \<open>Event classes\<close>

definition CAUSAL_ENVELOPE_SCHEMA :: string where
  "CAUSAL_ENVELOPE_SCHEMA = ''m1nd-causal-envelope-v1''"
definition PAYLOAD_DIGEST_DOMAIN :: string where
  "PAYLOAD_DIGEST_DOMAIN = ''m1nd-causal-payload-v1''"
definition REPLAY_KEY_DOMAIN :: string where
  "REPLAY_KEY_DOMAIN = ''m1nd-causal-replay-key-v1''"
definition DEFAULT_CLOCK_SKEW_MS :: u64 where
  "DEFAULT_CLOCK_SKEW_MS = 30000"

datatype event_class =
    Observation | Authenticated | AuthorizedMutation | MissionTransition
  | DelegatedMissionTransition | ReceiptMutation | InternalJournaled | InternalMissionTransition

record event_class_requirements =
  rq_signature :: bool
  rq_capability :: bool
  rq_mission_id :: bool
  rq_mission_head_id :: bool
  rq_delegation_id :: bool
  rq_block_id :: bool
  rq_receipt_id :: bool
  rq_expiry :: bool
  rq_journal_binding :: bool
  rq_forbid_signature :: bool
  rq_forbid_capability :: bool

definition requirements_none :: event_class_requirements where
  "requirements_none =
     \<lparr>rq_signature = False, rq_capability = False, rq_mission_id = False, rq_mission_head_id = False,
      rq_delegation_id = False, rq_block_id = False, rq_receipt_id = False, rq_expiry = False,
      rq_journal_binding = False, rq_forbid_signature = False, rq_forbid_capability = False\<rparr>"

fun requirements :: "event_class \<Rightarrow> event_class_requirements" where
  "requirements Observation = requirements_none"
| "requirements Authenticated = requirements_none\<lparr>rq_signature := True\<rparr>"
| "requirements AuthorizedMutation =
     requirements_none\<lparr>rq_signature := True, rq_capability := True, rq_expiry := True\<rparr>"
| "requirements MissionTransition =
     requirements_none\<lparr>rq_signature := True, rq_capability := True, rq_mission_id := True,
       rq_mission_head_id := True, rq_expiry := True\<rparr>"
| "requirements DelegatedMissionTransition =
     requirements_none\<lparr>rq_signature := True, rq_capability := True, rq_mission_id := True,
       rq_mission_head_id := True, rq_delegation_id := True, rq_expiry := True\<rparr>"
| "requirements ReceiptMutation =
     requirements_none\<lparr>rq_signature := True, rq_capability := True, rq_mission_id := True,
       rq_mission_head_id := True, rq_block_id := True, rq_receipt_id := True, rq_expiry := True\<rparr>"
| "requirements InternalJournaled =
     requirements_none\<lparr>rq_journal_binding := True, rq_forbid_signature := True,
       rq_forbid_capability := True\<rparr>"
| "requirements InternalMissionTransition =
     requirements_none\<lparr>rq_mission_id := True, rq_mission_head_id := True,
       rq_journal_binding := True, rq_forbid_signature := True, rq_forbid_capability := True\<rparr>"

section \<open>Envelopes\<close>

text \<open>\<open>OpaqueSignature\<close> is a transparent wrapper of a string.\<close>

record causal_envelope =
  ce_schema :: string
  ce_event_id :: string
  ce_organism_id :: string
  ce_brain_id :: string
  ce_actor_id :: string
  ce_actor_kind :: string
  ce_issuer :: string
  ce_key_id :: "string option"
  ce_algorithm :: "string option"
  ce_capability_id :: "string option"
  ce_mission_id :: "string option"
  ce_mission_head_id :: "string option"
  ce_delegation_id :: "string option"
  ce_block_id :: "string option"
  ce_receipt_id :: "string option"
  ce_presence_id :: "string option"
  ce_graph_generation :: u64
  ce_store_version :: "u64 option"
  ce_target_digest :: "string option"
  ce_causation_id :: "string option"
  ce_correlation_id :: string
  ce_issued_at :: u64
  ce_expires_at :: "u64 option"
  ce_payload_digest :: string
  ce_signature :: "bytes option"

datatype integrity_disposition =
    UnsignedObservation
  | OpaqueSignaturePresentUnverified
  | JournalOrCheckpointBindingUnverified

record envelope_validation_context =
  cx_now_ms :: u64
  cx_max_future_clock_skew_ms :: u64

definition context_at :: "u64 \<Rightarrow> envelope_validation_context" where
  "context_at now_ms =
     \<lparr>cx_now_ms = now_ms, cx_max_future_clock_skew_ms = DEFAULT_CLOCK_SKEW_MS\<rparr>"

record envelope_validation =
  ev_event_class :: event_class
  ev_replay_key :: string
  ev_integrity :: integrity_disposition

datatype envelope_error =
    Schema string
  | EmptyRequired string
  | MissingForClass event_class string
  | ForbiddenForClass event_class string
  | IncompleteMissionBinding
  | IncompleteSignatureBinding
  | UnsignedCapability
  | InvalidExpiryOrder u64 u64
  | Expired u64 u64
  | IssuedInFuture u64 u64
  | PayloadDigestMismatch string string

section \<open>The replay key\<close>

fun event_class_name :: "event_class \<Rightarrow> string" where
  "event_class_name Observation = ''OBSERVATION''"
| "event_class_name Authenticated = ''AUTHENTICATED''"
| "event_class_name AuthorizedMutation = ''AUTHORIZED_MUTATION''"
| "event_class_name MissionTransition = ''MISSION_TRANSITION''"
| "event_class_name DelegatedMissionTransition = ''DELEGATED_MISSION_TRANSITION''"
| "event_class_name ReceiptMutation = ''RECEIPT_MUTATION''"
| "event_class_name InternalJournaled = ''INTERNAL_JOURNALED''"
| "event_class_name InternalMissionTransition = ''INTERNAL_MISSION_TRANSITION''"

definition replay_key_material :: "event_class \<Rightarrow> causal_envelope \<Rightarrow> json" where
  "replay_key_material cl e = JObject
    [(''event_class'', JString (event_class_name cl)),
     (''event_id'', JString (ce_event_id e)),
     (''organism_id'', JString (ce_organism_id e)),
     (''brain_id'', JString (ce_brain_id e)),
     (''actor_id'', JString (ce_actor_id e)),
     (''issuer'', JString (ce_issuer e)),
     (''capability_id'', json_opt JString (ce_capability_id e)),
     (''mission_id'', json_opt JString (ce_mission_id e)),
     (''mission_head_id'', json_opt JString (ce_mission_head_id e)),
     (''delegation_id'', json_opt JString (ce_delegation_id e)),
     (''graph_generation'', json_u64 (ce_graph_generation e)),
     (''store_version'', json_opt json_u64 (ce_store_version e)),
     (''causation_id'', json_opt JString (ce_causation_id e)),
     (''correlation_id'', JString (ce_correlation_id e)),
     (''issued_at'', json_u64 (ce_issued_at e)),
     (''expires_at'', json_opt json_u64 (ce_expires_at e)),
     (''payload_digest'', JString (ce_payload_digest e))]"

definition replay_key :: "platform \<Rightarrow> causal_envelope \<Rightarrow> event_class \<Rightarrow> string" where
  "replay_key E e cl = digest_canonical E REPLAY_KEY_DOMAIN (replay_key_material cl e)"

definition payload_digest_for :: "platform \<Rightarrow> json \<Rightarrow> string" where
  "payload_digest_for E payload = digest_canonical E PAYLOAD_DIGEST_DOMAIN payload"

section \<open>Validation\<close>

definition envelope_validate_optional_non_empty :: "string \<Rightarrow> string option \<Rightarrow> envelope_error + unit" where
  "envelope_validate_optional_non_empty field value = check (value \<noteq> Some []) (EmptyRequired field)"

definition require :: "event_class \<Rightarrow> string \<Rightarrow> bool \<Rightarrow> bool \<Rightarrow> envelope_error + unit" where
  "require cl field required present =
     (if required \<and> \<not> present then Err (MissingForClass cl field) else Ok ())"

definition forbid :: "event_class \<Rightarrow> string \<Rightarrow> bool \<Rightarrow> bool \<Rightarrow> envelope_error + unit" where
  "forbid cl field forbidden present =
     (if forbidden \<and> present then Err (ForbiddenForClass cl field) else Ok ())"

definition envelope_required :: "causal_envelope \<Rightarrow> (string \<times> string) list" where
  "envelope_required e =
    [(''event_id'', ce_event_id e), (''organism_id'', ce_organism_id e),
     (''brain_id'', ce_brain_id e), (''actor_id'', ce_actor_id e),
     (''actor_kind'', ce_actor_kind e), (''issuer'', ce_issuer e),
     (''correlation_id'', ce_correlation_id e), (''payload_digest'', ce_payload_digest e)]"

definition envelope_optional :: "causal_envelope \<Rightarrow> (string \<times> string option) list" where
  "envelope_optional e =
    [(''key_id'', ce_key_id e), (''algorithm'', ce_algorithm e),
     (''capability_id'', ce_capability_id e), (''mission_id'', ce_mission_id e),
     (''mission_head_id'', ce_mission_head_id e), (''delegation_id'', ce_delegation_id e),
     (''block_id'', ce_block_id e), (''receipt_id'', ce_receipt_id e),
     (''presence_id'', ce_presence_id e), (''target_digest'', ce_target_digest e),
     (''causation_id'', ce_causation_id e)]"

text \<open>\<open>option.as_deref().unwrap_or_default().is_empty()\<close>.\<close>

definition default_empty :: "string option \<Rightarrow> bool" where
  "default_empty v = (case v of None \<Rightarrow> True | Some s \<Rightarrow> s = [])"

definition bindings_check :: "causal_envelope \<Rightarrow> envelope_error + unit" where
  "bindings_check e = seq_checks
    [check ((ce_mission_id e \<noteq> None) = (ce_mission_head_id e \<noteq> None)) IncompleteMissionBinding,
     check (\<not> (ce_signature e \<noteq> None \<and> (default_empty (ce_key_id e) \<or> default_empty (ce_algorithm e))))
       IncompleteSignatureBinding,
     check (\<not> (ce_capability_id e \<noteq> None \<and> ce_signature e = None)) UnsignedCapability,
     check (ce_signature e \<noteq> Some []) (EmptyRequired ''signature'')]"

definition class_checks :: "event_class \<Rightarrow> causal_envelope \<Rightarrow> envelope_error + unit" where
  "class_checks cl e =
     (let rq = requirements cl in seq_checks
       ([require cl ''signature'' (rq_signature rq) (ce_signature e \<noteq> None),
         require cl ''capability_id'' (rq_capability rq) (ce_capability_id e \<noteq> None),
         require cl ''mission_id'' (rq_mission_id rq) (ce_mission_id e \<noteq> None),
         require cl ''mission_head_id'' (rq_mission_head_id rq) (ce_mission_head_id e \<noteq> None),
         require cl ''delegation_id'' (rq_delegation_id rq) (ce_delegation_id e \<noteq> None),
         require cl ''block_id'' (rq_block_id rq) (ce_block_id e \<noteq> None),
         require cl ''receipt_id'' (rq_receipt_id rq) (ce_receipt_id e \<noteq> None),
         require cl ''expires_at'' (rq_expiry rq) (ce_expires_at e \<noteq> None)]
        @ (if rq_journal_binding rq then
             [require cl ''target_digest'' True (ce_target_digest e \<noteq> None),
              require cl ''causation_id'' True (ce_causation_id e \<noteq> None)]
           else [])
        @ [forbid cl ''signature'' (rq_forbid_signature rq) (ce_signature e \<noteq> None),
           forbid cl ''capability_id'' (rq_forbid_capability rq) (ce_capability_id e \<noteq> None)]))"

definition time_checks ::
  "envelope_validation_context \<Rightarrow> causal_envelope \<Rightarrow> envelope_error + unit" where
  "time_checks cx e =
     (let latest_allowed = saturating_add (cx_now_ms cx) (cx_max_future_clock_skew_ms cx) in
      seq_checks
        ([check (ce_issued_at e \<le> latest_allowed) (IssuedInFuture (ce_issued_at e) latest_allowed)]
         @ (case ce_expires_at e of
              None \<Rightarrow> []
            | Some expires_at \<Rightarrow>
                [check (\<not> expires_at \<le> ce_issued_at e)
                   (InvalidExpiryOrder (ce_issued_at e) expires_at),
                 check (\<not> expires_at \<le> cx_now_ms cx) (Expired expires_at (cx_now_ms cx))])))"

definition validate_with_context ::
  "platform \<Rightarrow> causal_envelope \<Rightarrow> event_class \<Rightarrow> json \<Rightarrow> envelope_validation_context
     \<Rightarrow> envelope_error + envelope_validation" where
  "validate_with_context E e cl payload cx =
     and_then (seq_checks
       ([check (ce_schema e = CAUSAL_ENVELOPE_SCHEMA) (Schema (ce_schema e))]
        @ map (\<lambda>(f, v). check (v \<noteq> []) (EmptyRequired f)) (envelope_required e)
        @ map (\<lambda>(f, v). envelope_validate_optional_non_empty f v) (envelope_optional e)
        @ [bindings_check e, class_checks cl e, time_checks cx e,
           check (ce_payload_digest e = payload_digest_for E payload)
             (PayloadDigestMismatch (payload_digest_for E payload) (ce_payload_digest e))])) (\<lambda>_.
     Ok \<lparr>ev_event_class = cl, ev_replay_key = replay_key E e cl,
        ev_integrity =
          (if rq_journal_binding (requirements cl) then JournalOrCheckpointBindingUnverified
           else if ce_signature e \<noteq> None then OpaqueSignaturePresentUnverified
           else UnsignedObservation)\<rparr>)"

definition validate_envelope ::
  "platform \<Rightarrow> causal_envelope \<Rightarrow> event_class \<Rightarrow> json \<Rightarrow> u64 \<Rightarrow> envelope_error + envelope_validation" where
  "validate_envelope E e cl payload now_ms = validate_with_context E e cl payload (context_at now_ms)"

section \<open>Facts about validation\<close>

lemma require_ok [simp]: "require cl f r p = Inr u \<longleftrightarrow> (r \<longrightarrow> p)"
  by (simp add: require_def)

lemma forbid_ok [simp]: "forbid cl f r p = Inr u \<longleftrightarrow> \<not> (r \<and> p)"
  by (simp add: forbid_def)

lemma optional_non_empty_ok [simp]:
  "envelope_validate_optional_non_empty f v = Inr u \<longleftrightarrow> v \<noteq> Some []"
  by (simp add: envelope_validate_optional_non_empty_def)

lemma default_empty_simps [simp]: "default_empty v \<longleftrightarrow> v = None \<or> v = Some []"
  by (simp add: default_empty_def split: option.splits)

text \<open>The parts of a successful validation.\<close>

lemma validate_with_context_parts:
  assumes "validate_with_context E e cl payload cx = Inr v"
  shows "bindings_check e = Inr ()" "class_checks cl e = Inr ()" "time_checks cx e = Inr ()"
    "ce_payload_digest e = payload_digest_for E payload"
    "\<forall>(f, x) \<in> set (envelope_required e). x \<noteq> []"
    "\<forall>(f, x) \<in> set (envelope_optional e). x \<noteq> Some []"
    "ev_replay_key v = replay_key E e cl"
  using assms unfolding validate_with_context_def
  by (auto simp: ball_Un case_prod_beta simp del: split_paired_All split_paired_Ball_Sigma)

lemma time_checks_ok:
  "time_checks cx e = Inr () \<longleftrightarrow>
     ce_issued_at e \<le> saturating_add (cx_now_ms cx) (cx_max_future_clock_skew_ms cx) \<and>
     (\<forall>x. ce_expires_at e = Some x \<longrightarrow> ce_issued_at e < x \<and> cx_now_ms cx < x)"
  by (cases "ce_expires_at e") (auto simp: time_checks_def Let_def)

lemma event_class_name_inj: "event_class_name a = event_class_name b \<longleftrightarrow> a = b"
  by (cases a; cases b; simp)

lemma canon_opt_u64 [simp]: "canon (json_opt json_u64 a) = canon (json_opt json_u64 b) \<longleftrightarrow> a = b"
  by (rule canon_json_opt) (simp_all add: json_u64_def word_uint_eq_iff)

section \<open>Properties\<close>

text \<open>The time window of an accepted envelope is half-open and holds at the validation
  time: an envelope with an expiry is accepted only strictly before it, its issue time is
  strictly before its expiry and at most the skew after the validation time (with the sum
  saturating at the largest \<open>u64\<close>), and an envelope whose expiry instant is now is refused.\<close>
theorem envelope_window_half_open:
  assumes "validate_with_context E e cl payload cx = Inr v"
  shows "unat (ce_issued_at e)
      \<le> min (unat (cx_now_ms cx) + unat (cx_max_future_clock_skew_ms cx)) (2 ^ 64 - 1) \<and>
    (\<forall>x. ce_expires_at e = Some x \<longrightarrow> ce_issued_at e < x \<and> cx_now_ms cx < x) \<and>
    (cl \<in> {AuthorizedMutation, MissionTransition, DelegatedMissionTransition, ReceiptMutation} \<longrightarrow>
      ce_expires_at e \<noteq> None)"
proof -
  note parts = validate_with_context_parts [OF assms]
  from parts(3) have "ce_issued_at e \<le> saturating_add (cx_now_ms cx) (cx_max_future_clock_skew_ms cx)"
    and "\<forall>x. ce_expires_at e = Some x \<longrightarrow> ce_issued_at e < x \<and> cx_now_ms cx < x"
    unfolding time_checks_ok by blast+
  moreover have "cl \<in> {AuthorizedMutation, MissionTransition, DelegatedMissionTransition, ReceiptMutation}
      \<longrightarrow> ce_expires_at e \<noteq> None"
    using parts(2) by (cases cl) (auto simp: class_checks_def)
  ultimately show ?thesis unfolding word_le_nat_alt unat_saturating_add by blast
qed

definition sample_envelope :: "platform \<Rightarrow> causal_envelope" where
  "sample_envelope E =
     \<lparr>ce_schema = CAUSAL_ENVELOPE_SCHEMA, ce_event_id = ''e'', ce_organism_id = ''o'',
      ce_brain_id = ''b'', ce_actor_id = ''a'', ce_actor_kind = ''k'', ce_issuer = ''i'',
      ce_key_id = Some ''key'', ce_algorithm = Some ''ed25519'', ce_capability_id = Some ''c'',
      ce_mission_id = None, ce_mission_head_id = None, ce_delegation_id = None, ce_block_id = None,
      ce_receipt_id = None, ce_presence_id = None, ce_graph_generation = 7, ce_store_version = None,
      ce_target_digest = None, ce_causation_id = None, ce_correlation_id = ''r'', ce_issued_at = 100,
      ce_expires_at = Some 200, ce_payload_digest = payload_digest_for E JNull,
      ce_signature = Some ''sig''\<rparr>"

lemma payload_digest_nonempty: "sha256_width E \<Longrightarrow> payload_digest_for E p \<noteq> []"
  unfolding payload_digest_for_def by (rule digest_syntax_nonempty [OF digest_canonical_syntax])

lemma sample_envelope_valid:
  assumes "sha256_width E"
  shows "\<exists>v. validate_with_context E (sample_envelope E) AuthorizedMutation JNull (context_at 199) = Inr v"
  using payload_digest_nonempty [OF assms]
  by (simp add: validate_with_context_def sample_envelope_def envelope_required_def envelope_optional_def
      bindings_check_def class_checks_def requirements_none_def time_checks_ok context_at_def
      saturating_add_def DEFAULT_CLOCK_SKEW_MS_def Let_def)

lemma envelope_window_half_open_witness:
  "(199 :: u64) < 200 \<and> validate_with_context reference_platform (sample_envelope reference_platform)
      AuthorizedMutation JNull (context_at 200) = Inl (Expired 200 200)"
proof
  obtain v where "validate_with_context reference_platform (sample_envelope reference_platform)
      AuthorizedMutation JNull (context_at 199) = Inr v"
    using sample_envelope_valid [OF sha256_width_reference] by blast
  from envelope_window_half_open [OF this] show "(199 :: u64) < 200"
    by (simp add: sample_envelope_def context_at_def)
  show "validate_with_context reference_platform (sample_envelope reference_platform)
      AuthorizedMutation JNull (context_at 200) = Inl (Expired 200 200)"
    using payload_digest_nonempty [OF sha256_width_reference]
    by (simp add: validate_with_context_def sample_envelope_def envelope_required_def
        envelope_optional_def bindings_check_def class_checks_def requirements_none_def
        time_checks_def context_at_def saturating_add_def DEFAULT_CLOCK_SKEW_MS_def Let_def
        seq_checks_Cons envelope_validate_optional_non_empty_def require_def forbid_def and_then_def)
qed

text \<open>The event-class matrix is enforced.  An accepted authenticated or authorising
  envelope carries a non-empty signature with a non-empty key and algorithm; an authorising one
  also a non-empty capability; a mission event both halves of the mission binding; a delegated
  one the delegation; a receipt the block and the receipt; an internal event names its journal
  target and cause and carries no signature and no capability.\<close>
theorem envelope_class_matrix:
  assumes "validate_with_context E e cl payload cx = Inr v"
  shows
    "(cl \<in> {Authenticated, AuthorizedMutation, MissionTransition, DelegatedMissionTransition,
            ReceiptMutation} \<longrightarrow>
        (\<exists>s k a. ce_signature e = Some s \<and> s \<noteq> [] \<and> ce_key_id e = Some k \<and> k \<noteq> [] \<and>
           ce_algorithm e = Some a \<and> a \<noteq> [])) \<and>
     (cl \<in> {AuthorizedMutation, MissionTransition, DelegatedMissionTransition, ReceiptMutation} \<longrightarrow>
        (\<exists>c. ce_capability_id e = Some c \<and> c \<noteq> [])) \<and>
     (cl \<in> {MissionTransition, DelegatedMissionTransition, ReceiptMutation,
            InternalMissionTransition} \<longrightarrow>
        (\<exists>m h. ce_mission_id e = Some m \<and> m \<noteq> [] \<and> ce_mission_head_id e = Some h \<and> h \<noteq> [])) \<and>
     (cl = DelegatedMissionTransition \<longrightarrow> (\<exists>d. ce_delegation_id e = Some d \<and> d \<noteq> [])) \<and>
     (cl = ReceiptMutation \<longrightarrow>
        (\<exists>b r. ce_block_id e = Some b \<and> b \<noteq> [] \<and> ce_receipt_id e = Some r \<and> r \<noteq> [])) \<and>
     (cl \<in> {InternalJournaled, InternalMissionTransition} \<longrightarrow>
        ce_signature e = None \<and> ce_capability_id e = None \<and>
        (\<exists>t c. ce_target_digest e = Some t \<and> t \<noteq> [] \<and> ce_causation_id e = Some c \<and> c \<noteq> []))"
proof -
  note parts = validate_with_context_parts [OF assms]
  from parts(1) have "ce_signature e \<noteq> None \<longrightarrow> ce_key_id e \<notin> {None, Some []} \<and> ce_algorithm e \<notin> {None, Some []}"
    "ce_signature e \<noteq> Some []" by (auto simp: bindings_check_def)
  moreover from parts(6) have "ce_capability_id e \<noteq> Some []" "ce_mission_id e \<noteq> Some []"
    "ce_mission_head_id e \<noteq> Some []" "ce_delegation_id e \<noteq> Some []" "ce_block_id e \<noteq> Some []"
    "ce_receipt_id e \<noteq> Some []" "ce_target_digest e \<noteq> Some []" "ce_causation_id e \<noteq> Some []"
    by (auto simp: envelope_optional_def)
  ultimately show ?thesis using parts(2)
    by (cases cl) (auto simp: class_checks_def requirements_none_def)
qed

lemma envelope_class_matrix_witness:
  "\<exists>c. ce_capability_id (sample_envelope reference_platform) = Some c \<and> c \<noteq> []"
proof -
  obtain v where "validate_with_context reference_platform (sample_envelope reference_platform)
      AuthorizedMutation JNull (context_at 199) = Inr v"
    using sample_envelope_valid [OF sha256_width_reference] by blast
  from envelope_class_matrix [OF this] show ?thesis by simp
qed

text \<open>The fields the replay key is meant to bind.\<close>

definition same_event :: "causal_envelope \<Rightarrow> causal_envelope \<Rightarrow> bool" where
  "same_event e f \<longleftrightarrow>
     ce_event_id e = ce_event_id f \<and> ce_organism_id e = ce_organism_id f \<and>
     ce_brain_id e = ce_brain_id f \<and> ce_actor_id e = ce_actor_id f \<and> ce_issuer e = ce_issuer f \<and>
     ce_capability_id e = ce_capability_id f \<and> ce_mission_id e = ce_mission_id f \<and>
     ce_mission_head_id e = ce_mission_head_id f \<and> ce_delegation_id e = ce_delegation_id f \<and>
     ce_graph_generation e = ce_graph_generation f \<and> ce_store_version e = ce_store_version f \<and>
     ce_causation_id e = ce_causation_id f \<and> ce_correlation_id e = ce_correlation_id f \<and>
     ce_issued_at e = ce_issued_at f \<and> ce_expires_at e = ce_expires_at f \<and>
     ce_payload_digest e = ce_payload_digest f"

lemma replay_key_material_canon:
  "canon (replay_key_material cl e) = canon (replay_key_material dl f) \<longleftrightarrow> cl = dl \<and> same_event e f"
proof
  assume "canon (replay_key_material cl e) = canon (replay_key_material dl f)"
  from canon_object_same_keys [OF this [unfolded replay_key_material_def]]
  show "cl = dl \<and> same_event e f" by (simp add: event_class_name_inj same_event_def)
qed (auto simp: replay_key_material_def same_event_def)

text \<open>The replay key of an accepted envelope binds the event class and sixteen fields, and
  through the payload digest the payload: two envelopes accepted with one replay key agree on
  all of them, or the hash collides on messages that are named.  The signature, its key and
  algorithm, the receipt, block, presence, target and actor-kind fields do not enter it, so
  re-signing an event does not make it a new one.\<close>
theorem replay_key_binds_event:
  assumes "serde_writer E"
    and "validate_with_context E e cl p cx = Inr v" "validate_with_context E f dl q dx = Inr w"
  shows "(ev_replay_key v = ev_replay_key w \<longrightarrow>
      cl = dl \<and> same_event e f \<and>
        (canon p = canon q \<or> canonical_collision E PAYLOAD_DIGEST_DOMAIN p q) \<or>
      canonical_collision E REPLAY_KEY_DOMAIN (replay_key_material cl e) (replay_key_material dl f)) \<and>
    replay_key E (e\<lparr>ce_signature := s, ce_key_id := k, ce_algorithm := a, ce_block_id := b,
      ce_receipt_id := r, ce_presence_id := x, ce_target_digest := t, ce_actor_kind := y\<rparr>) cl
      = ev_replay_key v"
proof (intro conjI impI)
  note e = validate_with_context_parts [OF assms(2)] and f = validate_with_context_parts [OF assms(3)]
  show "replay_key E (e\<lparr>ce_signature := s, ce_key_id := k, ce_algorithm := a, ce_block_id := b,
      ce_receipt_id := r, ce_presence_id := x, ce_target_digest := t, ce_actor_kind := y\<rparr>) cl
      = ev_replay_key v"
    unfolding e(7) by (simp add: replay_key_def replay_key_material_def)
  assume "ev_replay_key v = ev_replay_key w"
  then have "replay_key E e cl = replay_key E f dl" unfolding e(7) f(7) .
  then have "(cl = dl \<and> same_event e f) \<or>
      canonical_collision E REPLAY_KEY_DOMAIN (replay_key_material cl e) (replay_key_material dl f)"
    unfolding replay_key_def replay_key_material_canon [symmetric] by (rule digest_canonical_eq [OF assms(1)])
  moreover have "canon p = canon q \<or> canonical_collision E PAYLOAD_DIGEST_DOMAIN p q"
    if "same_event e f"
  proof -
    from that e(4) f(4) have "payload_digest_for E p = payload_digest_for E q"
      by (simp add: same_event_def)
    then show ?thesis unfolding payload_digest_for_def by (rule digest_canonical_eq [OF assms(1)])
  qed
  ultimately show "cl = dl \<and> same_event e f \<and>
        (canon p = canon q \<or> canonical_collision E PAYLOAD_DIGEST_DOMAIN p q) \<or>
      canonical_collision E REPLAY_KEY_DOMAIN (replay_key_material cl e) (replay_key_material dl f)"
    by blast
qed

lemma replay_key_binds_event_witness:
  "replay_key reference_platform ((sample_envelope reference_platform)\<lparr>ce_signature := Some ''other''\<rparr>)
     AuthorizedMutation = replay_key reference_platform (sample_envelope reference_platform) AuthorizedMutation"
proof -
  obtain v where v: "validate_with_context reference_platform (sample_envelope reference_platform)
      AuthorizedMutation JNull (context_at 199) = Inr v"
    using sample_envelope_valid [OF sha256_width_reference] by blast
  from replay_key_binds_event [OF serde_writer_reference v v,
      where s = "Some ''other''" and k = "Some ''key''" and a = "Some ''ed25519''" and b = None
        and r = None and x = None and t = None and y = "''k''", THEN conjunct2]
  show ?thesis
    unfolding validate_with_context_parts(7) [OF v] by (simp add: sample_envelope_def)
qed

end
