(* ===== verification/Sealed_Contract.thy ===== *)
theory Sealed_Contract
  imports Canonical
begin

text \<open>
  The interface that every sealed contract of m1nd-control follows: its digest is computed
  from the serialised struct without the digest field itself (and without the signature), and
  stored in it by \<open>seal\<close>.  The locale states the two laws such a contract needs; its lemmas
  are idempotence of sealing and tamper evidence.  Each contract's theory interprets it.
\<close>

text \<open>The hashed value of a contract: the struct without its digest and its signature.\<close>

definition sealed_material :: "string \<Rightarrow> json \<Rightarrow> json" where
  "sealed_material field v = obj_remove ''signature'' (obj_remove field v)"

text \<open>
  \<open>material\<close> is the value that is hashed, \<open>stored\<close> the digest field, \<open>put\<close> the assignment
  to that field, \<open>body\<close> the fields the digest is meant to protect.
\<close>

locale sealed_contract =
  fixes compute :: "platform \<Rightarrow> 'c \<Rightarrow> string"
    and domain :: string
    and material :: "'c \<Rightarrow> json"
    and stored :: "'c \<Rightarrow> string"
    and put :: "string \<Rightarrow> 'c \<Rightarrow> 'c"
    and body :: "'c \<Rightarrow> 'b"
  assumes compute_material: "compute E c = digest_canonical E domain (material c)"
    and material_put: "material (put d c) = material c"
    and stored_put: "stored (put d c) = d"
    and material_body: "canon (material c) = canon (material c') \<Longrightarrow> body c = body c'"

context sealed_contract begin

lemma compute_put: "compute E (put d c) = compute E c"
  by (simp add: compute_material material_put)

lemma seal_sealed: "stored (put (compute E c) c) = compute E (put (compute E c) c)"
  by (simp add: compute_put stored_put)

lemma compute_syntax: "sha256_width E \<Longrightarrow> digest_syntax (compute E c)"
  by (simp add: compute_material digest_canonical_syntax)

lemma compute_eq_body:
  assumes "serde_writer E" and "compute E c = compute E c'"
  shows "body c = body c' \<or> canonical_collision E domain (material c) (material c')"
  using digest_canonical_eq [OF assms(1)] material_body assms(2) unfolding compute_material by blast

lemma tamper_evident:
  assumes "serde_writer E" and "stored c = compute E c" "stored c' = compute E c'"
    and "stored c = stored c'"
  shows "body c = body c' \<or> canonical_collision E domain (material c) (material c')"
proof -
  from assms(2-4) have "compute E c = compute E c'" by simp
  with assms(1) show ?thesis by (rule compute_eq_body)
qed

end

end
