(* ===== verification/Mission.thy ===== *)
theory Mission
  imports Sealed_Contract Reference_Platform
begin

text \<open>
  \<open>m1nd-control/src/mission.rs\<close>: the mission state machine with its complete transition
  table, the five signed contracts (transition intent, dispatch, acknowledgement, execution
  result, review result), their digests, and their validators in the order of the code.
\<close>

section \<open>The state machine\<close>

definition MISSION_TRANSITION_INTENT_SCHEMA :: string where
  "MISSION_TRANSITION_INTENT_SCHEMA = ''m1nd-mission-transition-intent-v1''"
definition EXECUTION_DISPATCH_SCHEMA :: string where
  "EXECUTION_DISPATCH_SCHEMA = ''m1nd-execution-dispatch-v1''"
definition EXECUTION_DISPATCH_ACK_SCHEMA :: string where
  "EXECUTION_DISPATCH_ACK_SCHEMA = ''m1nd-execution-dispatch-ack-v1''"
definition EXECUTION_RESULT_SCHEMA :: string where
  "EXECUTION_RESULT_SCHEMA = ''m1nd-execution-result-v1''"
definition REVIEW_RESULT_SCHEMA :: string where
  "REVIEW_RESULT_SCHEMA = ''m1nd-review-result-v1''"
definition MISSION_TRANSITION_INTENT_DIGEST_DOMAIN :: string where
  "MISSION_TRANSITION_INTENT_DIGEST_DOMAIN = ''m1nd-mission-transition-intent-v1''"
definition MISSION_TRANSITION_PAYLOAD_DIGEST_DOMAIN :: string where
  "MISSION_TRANSITION_PAYLOAD_DIGEST_DOMAIN = ''m1nd-mission-transition-payload-v1''"
definition EXECUTION_DISPATCH_DIGEST_DOMAIN :: string where
  "EXECUTION_DISPATCH_DIGEST_DOMAIN = ''m1nd-execution-dispatch-v1''"
definition EXECUTION_DISPATCH_ACK_DIGEST_DOMAIN :: string where
  "EXECUTION_DISPATCH_ACK_DIGEST_DOMAIN = ''m1nd-execution-dispatch-ack-v1''"
definition EXECUTION_RESULT_DIGEST_DOMAIN :: string where
  "EXECUTION_RESULT_DIGEST_DOMAIN = ''m1nd-execution-result-v1''"
definition REVIEW_RESULT_DIGEST_DOMAIN :: string where
  "REVIEW_RESULT_DIGEST_DOMAIN = ''m1nd-review-result-v1''"
definition DEFAULT_MISSION_CLOCK_SKEW_MS :: u64 where
  "DEFAULT_MISSION_CLOCK_SKEW_MS = 30000"

datatype mission_state =
    Judging | Revising | Dispatching | Executing | Gate | Review | MergeWait | Landed | Failed | Archived

definition mission_state_ALL :: "mission_state list" where
  "mission_state_ALL =
     [Judging, Revising, Dispatching, Executing, Gate, Review, MergeWait, Landed, Failed, Archived]"

definition is_terminal :: "mission_state \<Rightarrow> bool" where
  "is_terminal s \<longleftrightarrow> s \<in> {Landed, Failed, Archived}"

datatype role = MissionService | Author | Reviewer | Runner

datatype transition_source =
    MissionServiceDecision | AuthorProposal | ReviewResult | ExecutionDispatchAck | ExecutionResult

datatype iteration_rule = Initialize | Preserve | Advance

record transition_rule =
  tr_from :: "mission_state option"
  tr_to :: mission_state
  tr_role :: role
  tr_source :: transition_source
  tr_iteration :: iteration_rule

definition mk_rule ::
  "mission_state option \<Rightarrow> mission_state \<Rightarrow> role \<Rightarrow> transition_source \<Rightarrow> iteration_rule
     \<Rightarrow> transition_rule" where
  "mk_rule f t r s i = \<lparr>tr_from = f, tr_to = t, tr_role = r, tr_source = s, tr_iteration = i\<rparr>"

definition MISSION_TRANSITION_RULES :: "transition_rule list" where
  "MISSION_TRANSITION_RULES =
    [mk_rule None Judging MissionService MissionServiceDecision Initialize,
     mk_rule None Dispatching MissionService MissionServiceDecision Initialize,
     mk_rule (Some Judging) Dispatching Reviewer ReviewResult Preserve,
     mk_rule (Some Judging) Revising Reviewer ReviewResult Preserve,
     mk_rule (Some Judging) Failed Reviewer ReviewResult Preserve,
     mk_rule (Some Revising) Judging Author AuthorProposal Advance,
     mk_rule (Some Revising) Dispatching Author AuthorProposal Advance,
     mk_rule (Some Dispatching) Executing Runner ExecutionDispatchAck Preserve,
     mk_rule (Some Dispatching) Failed MissionService MissionServiceDecision Preserve,
     mk_rule (Some Executing) Gate Runner ExecutionResult Preserve,
     mk_rule (Some Executing) Failed Runner ExecutionResult Preserve,
     mk_rule (Some Gate) Review MissionService MissionServiceDecision Preserve,
     mk_rule (Some Gate) MergeWait MissionService MissionServiceDecision Preserve,
     mk_rule (Some Gate) Failed MissionService MissionServiceDecision Preserve,
     mk_rule (Some Review) Revising Reviewer ReviewResult Preserve,
     mk_rule (Some Review) MergeWait Reviewer ReviewResult Preserve,
     mk_rule (Some Review) Failed Reviewer ReviewResult Preserve,
     mk_rule (Some MergeWait) Landed MissionService MissionServiceDecision Preserve,
     mk_rule (Some MergeWait) Archived MissionService MissionServiceDecision Preserve]"

definition mission_transition_rule ::
  "mission_state option \<Rightarrow> mission_state \<Rightarrow> transition_rule option" where
  "mission_transition_rule from to =
     find (\<lambda>candidate. tr_from candidate = from \<and> tr_to candidate = to) MISSION_TRANSITION_RULES"

section \<open>The contracts\<close>

datatype integrity = OpaqueSignaturePresentUnverified

record structural_validation =
  sv_canonical_digest :: string
  sv_integrity :: integrity

record transition_validation =
  tv_rule :: transition_rule
  tv_intent_digest :: string
  tv_integrity :: integrity

record head_snapshot =
  mh_head_id :: string
  mh_state :: mission_state
  mh_iteration_id :: u64
  mh_packet_digest :: string

record head_context =
  mc_brain_id :: string
  mc_mission_id :: string
  mc_head :: "head_snapshot option"

record transition_intent =
  ti_schema :: string
  ti_transition_id :: string
  ti_brain_id :: string
  ti_mission_id :: string
  ti_expected_head_id :: "string option"
  ti_from_state :: "mission_state option"
  ti_to_state :: mission_state
  ti_iteration_id :: u64
  ti_actor_id :: string
  ti_role :: role
  ti_source :: transition_source
  ti_source_digest :: string
  ti_capability_id :: string
  ti_packet_digest :: string
  ti_payload_digest :: string
  ti_idempotency_key :: string
  ti_causation_id :: "string option"
  ti_issued_at :: u64
  ti_expires_at :: u64
  ti_issuer :: string
  ti_key_id :: string
  ti_algorithm :: string
  ti_intent_digest :: string
  ti_signature :: string

datatype dispatch_state = Intent | Acked | Completed | DispatchFailed

definition dispatch_is_terminal :: "dispatch_state \<Rightarrow> bool" where
  "dispatch_is_terminal s \<longleftrightarrow> s \<in> {Completed, DispatchFailed}"

record execution_dispatch =
  ed_schema :: string
  ed_execution_id :: string
  ed_brain_id :: string
  ed_mission_id :: string
  ed_mission_head_id :: string
  ed_iteration_id :: u64
  ed_packet_digest :: string
  ed_runner_id :: string
  ed_idempotency_key :: string
  ed_issued_at :: u64
  ed_deadline_at :: u64
  ed_state :: dispatch_state
  ed_issuer :: string
  ed_key_id :: string
  ed_algorithm :: string
  ed_dispatch_digest :: string
  ed_signature :: string

record dispatch_ack =
  ak_schema :: string
  ak_ack_id :: string
  ak_execution_id :: string
  ak_dispatch_digest :: string
  ak_brain_id :: string
  ak_mission_id :: string
  ak_mission_head_id :: string
  ak_iteration_id :: u64
  ak_runner_id :: string
  ak_accepted_at :: u64
  ak_deduplicated :: bool
  ak_issuer :: string
  ak_key_id :: string
  ak_algorithm :: string
  ak_ack_digest :: string
  ak_signature :: string

datatype execution_outcome = Succeeded | OutcomeFailed

type_synonym i32 = "32 word"

record execution_result =
  er_schema :: string
  er_result_id :: string
  er_execution_id :: string
  er_dispatch_digest :: string
  er_brain_id :: string
  er_mission_id :: string
  er_mission_head_id :: string
  er_iteration_id :: u64
  er_runner_id :: string
  er_outcome :: execution_outcome
  er_command :: "string list"
  er_exit_status :: "i32 option"
  er_started_at :: u64
  er_ended_at :: u64
  er_log_digest :: string
  er_failure_artifact_digest :: "string option"
  er_issuer :: string
  er_key_id :: string
  er_algorithm :: string
  er_result_digest :: string
  er_signature :: string

datatype review_decision = Approve | Change | Reject

record review_result =
  rv_schema :: string
  rv_result_id :: string
  rv_brain_id :: string
  rv_mission_id :: string
  rv_mission_head_id :: string
  rv_iteration_id :: u64
  rv_reviewer_id :: string
  rv_reviewed_state :: mission_state
  rv_packet_digest :: string
  rv_decision :: review_decision
  rv_verdict_digest :: string
  rv_binding_changes_digest :: "string option"
  rv_gate_digest :: "string option"
  rv_candidate_digest :: "string option"
  rv_issued_at :: u64
  rv_issuer :: string
  rv_key_id :: string
  rv_algorithm :: string
  rv_result_digest :: string
  rv_signature :: string

datatype mission_contract_error =
    Schema string string
  | EmptyRequired string
  | EmptyCollection string
  | InvalidIteration
  | InvalidDigest string
  | EmptyOpaqueSignature
  | InvalidTimeOrder string u64 u64
  | IssuedInFuture string u64 u64
  | Expired string u64 u64
  | DigestMismatch string string string
  | IllegalTransition "mission_state option" mission_state
  | WrongRole role role
  | WrongSource transition_source transition_source
  | BrainMismatch string string
  | MissionMismatch string string
  | StaleHead "string option" "string option"
  | StateMismatch "mission_state option" "mission_state option"
  | StaleIteration u64 u64
  | IterationOverflow u64
  | PacketDigestMismatch
  | PacketDigestNotAdvanced
  | BindingMismatch string string
  | DispatchNotAccepting dispatch_state
  | EmptyExecutionCommand
  | InvalidSuccessfulExecution
  | InvalidFailedExecution
  | InvalidReviewedState mission_state
  | MissingReviewField string
  | ForbiddenReviewField string

section \<open>Serialisation and digests\<close>

fun mission_state_name :: "mission_state \<Rightarrow> string" where
  "mission_state_name Judging = ''judging''" | "mission_state_name Revising = ''revising''"
| "mission_state_name Dispatching = ''dispatching''" | "mission_state_name Executing = ''executing''"
| "mission_state_name Gate = ''gate''" | "mission_state_name Review = ''review''"
| "mission_state_name MergeWait = ''merge_wait''" | "mission_state_name Landed = ''landed''"
| "mission_state_name Failed = ''failed''" | "mission_state_name Archived = ''archived''"

fun role_name :: "role \<Rightarrow> string" where
  "role_name MissionService = ''mission_service''" | "role_name Author = ''author''"
| "role_name Reviewer = ''reviewer''" | "role_name Runner = ''runner''"

fun source_name :: "transition_source \<Rightarrow> string" where
  "source_name MissionServiceDecision = ''mission_service_decision''"
| "source_name AuthorProposal = ''author_proposal''"
| "source_name ReviewResult = ''review_result''"
| "source_name ExecutionDispatchAck = ''execution_dispatch_ack''"
| "source_name ExecutionResult = ''execution_result''"

fun dispatch_state_name :: "dispatch_state \<Rightarrow> string" where
  "dispatch_state_name Intent = ''INTENT''" | "dispatch_state_name Acked = ''ACKED''"
| "dispatch_state_name Completed = ''COMPLETED''" | "dispatch_state_name DispatchFailed = ''FAILED''"

fun outcome_name :: "execution_outcome \<Rightarrow> string" where
  "outcome_name Succeeded = ''SUCCEEDED''" | "outcome_name OutcomeFailed = ''FAILED''"

fun decision_name :: "review_decision \<Rightarrow> string" where
  "decision_name Approve = ''APPROVE''" | "decision_name Change = ''CHANGE''"
| "decision_name Reject = ''REJECT''"

definition json_i32 :: "i32 \<Rightarrow> json" where "json_i32 n = JNumber (sint n)"

definition json_of_intent :: "transition_intent \<Rightarrow> json" where
  "json_of_intent t = JObject
    [(''schema'', JString (ti_schema t)),
     (''transition_id'', JString (ti_transition_id t)),
     (''brain_id'', JString (ti_brain_id t)),
     (''mission_id'', JString (ti_mission_id t)),
     (''expected_head_id'', json_opt JString (ti_expected_head_id t)),
     (''from_state'', json_opt (\<lambda>s. JString (mission_state_name s)) (ti_from_state t)),
     (''to_state'', JString (mission_state_name (ti_to_state t))),
     (''iteration_id'', json_u64 (ti_iteration_id t)),
     (''actor_id'', JString (ti_actor_id t)),
     (''role'', JString (role_name (ti_role t))),
     (''source'', JString (source_name (ti_source t))),
     (''source_digest'', JString (ti_source_digest t)),
     (''capability_id'', JString (ti_capability_id t)),
     (''packet_digest'', JString (ti_packet_digest t)),
     (''payload_digest'', JString (ti_payload_digest t)),
     (''idempotency_key'', JString (ti_idempotency_key t)),
     (''causation_id'', json_opt JString (ti_causation_id t)),
     (''issued_at'', json_u64 (ti_issued_at t)),
     (''expires_at'', json_u64 (ti_expires_at t)),
     (''issuer'', JString (ti_issuer t)),
     (''key_id'', JString (ti_key_id t)),
     (''algorithm'', JString (ti_algorithm t)),
     (''intent_digest'', JString (ti_intent_digest t)),
     (''signature'', JString (ti_signature t))]"

definition json_of_dispatch :: "execution_dispatch \<Rightarrow> json" where
  "json_of_dispatch d = JObject
    [(''schema'', JString (ed_schema d)),
     (''execution_id'', JString (ed_execution_id d)),
     (''brain_id'', JString (ed_brain_id d)),
     (''mission_id'', JString (ed_mission_id d)),
     (''mission_head_id'', JString (ed_mission_head_id d)),
     (''iteration_id'', json_u64 (ed_iteration_id d)),
     (''packet_digest'', JString (ed_packet_digest d)),
     (''runner_id'', JString (ed_runner_id d)),
     (''idempotency_key'', JString (ed_idempotency_key d)),
     (''issued_at'', json_u64 (ed_issued_at d)),
     (''deadline_at'', json_u64 (ed_deadline_at d)),
     (''state'', JString (dispatch_state_name (ed_state d))),
     (''issuer'', JString (ed_issuer d)),
     (''key_id'', JString (ed_key_id d)),
     (''algorithm'', JString (ed_algorithm d)),
     (''dispatch_digest'', JString (ed_dispatch_digest d)),
     (''signature'', JString (ed_signature d))]"

definition json_of_ack :: "dispatch_ack \<Rightarrow> json" where
  "json_of_ack a = JObject
    [(''schema'', JString (ak_schema a)),
     (''ack_id'', JString (ak_ack_id a)),
     (''execution_id'', JString (ak_execution_id a)),
     (''dispatch_digest'', JString (ak_dispatch_digest a)),
     (''brain_id'', JString (ak_brain_id a)),
     (''mission_id'', JString (ak_mission_id a)),
     (''mission_head_id'', JString (ak_mission_head_id a)),
     (''iteration_id'', json_u64 (ak_iteration_id a)),
     (''runner_id'', JString (ak_runner_id a)),
     (''accepted_at'', json_u64 (ak_accepted_at a)),
     (''deduplicated'', JBool (ak_deduplicated a)),
     (''issuer'', JString (ak_issuer a)),
     (''key_id'', JString (ak_key_id a)),
     (''algorithm'', JString (ak_algorithm a)),
     (''ack_digest'', JString (ak_ack_digest a)),
     (''signature'', JString (ak_signature a))]"

definition json_of_execution_result :: "execution_result \<Rightarrow> json" where
  "json_of_execution_result r = JObject
    [(''schema'', JString (er_schema r)),
     (''result_id'', JString (er_result_id r)),
     (''execution_id'', JString (er_execution_id r)),
     (''dispatch_digest'', JString (er_dispatch_digest r)),
     (''brain_id'', JString (er_brain_id r)),
     (''mission_id'', JString (er_mission_id r)),
     (''mission_head_id'', JString (er_mission_head_id r)),
     (''iteration_id'', json_u64 (er_iteration_id r)),
     (''runner_id'', JString (er_runner_id r)),
     (''outcome'', JString (outcome_name (er_outcome r))),
     (''command'', JArray (map JString (er_command r))),
     (''exit_status'', json_opt json_i32 (er_exit_status r)),
     (''started_at'', json_u64 (er_started_at r)),
     (''ended_at'', json_u64 (er_ended_at r)),
     (''log_digest'', JString (er_log_digest r)),
     (''failure_artifact_digest'', json_opt JString (er_failure_artifact_digest r)),
     (''issuer'', JString (er_issuer r)),
     (''key_id'', JString (er_key_id r)),
     (''algorithm'', JString (er_algorithm r)),
     (''result_digest'', JString (er_result_digest r)),
     (''signature'', JString (er_signature r))]"

definition json_of_review :: "review_result \<Rightarrow> json" where
  "json_of_review r = JObject
    [(''schema'', JString (rv_schema r)),
     (''result_id'', JString (rv_result_id r)),
     (''brain_id'', JString (rv_brain_id r)),
     (''mission_id'', JString (rv_mission_id r)),
     (''mission_head_id'', JString (rv_mission_head_id r)),
     (''iteration_id'', json_u64 (rv_iteration_id r)),
     (''reviewer_id'', JString (rv_reviewer_id r)),
     (''reviewed_state'', JString (mission_state_name (rv_reviewed_state r))),
     (''packet_digest'', JString (rv_packet_digest r)),
     (''decision'', JString (decision_name (rv_decision r))),
     (''verdict_digest'', JString (rv_verdict_digest r)),
     (''binding_changes_digest'', json_opt JString (rv_binding_changes_digest r)),
     (''gate_digest'', json_opt JString (rv_gate_digest r)),
     (''candidate_digest'', json_opt JString (rv_candidate_digest r)),
     (''issued_at'', json_u64 (rv_issued_at r)),
     (''issuer'', JString (rv_issuer r)),
     (''key_id'', JString (rv_key_id r)),
     (''algorithm'', JString (rv_algorithm r)),
     (''result_digest'', JString (rv_result_digest r)),
     (''signature'', JString (rv_signature r))]"

definition digest_contract :: "platform \<Rightarrow> string \<Rightarrow> json \<Rightarrow> string \<Rightarrow> string" where
  "digest_contract E domain v digest_field =
     digest_canonical E domain (obj_remove ''signature'' (obj_remove digest_field v))"

definition canonical_signature_payload :: "platform \<Rightarrow> json \<Rightarrow> bytes" where
  "canonical_signature_payload E v = canonical_json E (obj_remove ''signature'' v)"

definition mission_payload_digest_for :: "platform \<Rightarrow> json \<Rightarrow> string" where
  "mission_payload_digest_for E payload =
     digest_canonical E MISSION_TRANSITION_PAYLOAD_DIGEST_DOMAIN payload"

definition compute_intent_digest :: "platform \<Rightarrow> transition_intent \<Rightarrow> string" where
  "compute_intent_digest E t =
     digest_contract E MISSION_TRANSITION_INTENT_DIGEST_DOMAIN (json_of_intent t) ''intent_digest''"

definition compute_dispatch_digest :: "platform \<Rightarrow> execution_dispatch \<Rightarrow> string" where
  "compute_dispatch_digest E d =
     digest_contract E EXECUTION_DISPATCH_DIGEST_DOMAIN (json_of_dispatch d) ''dispatch_digest''"

definition compute_ack_digest :: "platform \<Rightarrow> dispatch_ack \<Rightarrow> string" where
  "compute_ack_digest E a =
     digest_contract E EXECUTION_DISPATCH_ACK_DIGEST_DOMAIN (json_of_ack a) ''ack_digest''"

definition compute_execution_result_digest :: "platform \<Rightarrow> execution_result \<Rightarrow> string" where
  "compute_execution_result_digest E r =
     digest_contract E EXECUTION_RESULT_DIGEST_DOMAIN (json_of_execution_result r) ''result_digest''"

definition compute_review_result_digest :: "platform \<Rightarrow> review_result \<Rightarrow> string" where
  "compute_review_result_digest E r =
     digest_contract E REVIEW_RESULT_DIGEST_DOMAIN (json_of_review r) ''result_digest''"

definition seal_intent :: "platform \<Rightarrow> transition_intent \<Rightarrow> transition_intent" where
  "seal_intent E t = t\<lparr>ti_intent_digest := compute_intent_digest E t\<rparr>"

definition seal_dispatch :: "platform \<Rightarrow> execution_dispatch \<Rightarrow> execution_dispatch" where
  "seal_dispatch E d = d\<lparr>ed_dispatch_digest := compute_dispatch_digest E d\<rparr>"

definition seal_ack :: "platform \<Rightarrow> dispatch_ack \<Rightarrow> dispatch_ack" where
  "seal_ack E a = a\<lparr>ak_ack_digest := compute_ack_digest E a\<rparr>"

definition seal_execution_result :: "platform \<Rightarrow> execution_result \<Rightarrow> execution_result" where
  "seal_execution_result E r = r\<lparr>er_result_digest := compute_execution_result_digest E r\<rparr>"

definition seal_review :: "platform \<Rightarrow> review_result \<Rightarrow> review_result" where
  "seal_review E r = r\<lparr>rv_result_digest := compute_review_result_digest E r\<rparr>"

section \<open>Field checks\<close>

definition mission_require_schema ::
  "string \<Rightarrow> string \<Rightarrow> string \<Rightarrow> mission_contract_error + unit" where
  "mission_require_schema contract actual expected =
     (if actual = expected then Ok () else Err (Schema contract actual))"

definition mission_require_non_empty :: "string \<Rightarrow> string \<Rightarrow> mission_contract_error + unit" where
  "mission_require_non_empty field value = (if value = [] then Err (EmptyRequired field) else Ok ())"

definition mission_require_optional_non_empty ::
  "string \<Rightarrow> string option \<Rightarrow> mission_contract_error + unit" where
  "mission_require_optional_non_empty field value =
     (if value = Some [] then Err (EmptyRequired field) else Ok ())"

definition require_iteration :: "u64 \<Rightarrow> mission_contract_error + unit" where
  "require_iteration n = (if n = 0 then Err InvalidIteration else Ok ())"

definition mission_require_digest :: "string \<Rightarrow> string \<Rightarrow> mission_contract_error + unit" where
  "mission_require_digest field value =
     (if digest_syntax value then Ok () else Err (InvalidDigest field))"

definition mission_require_optional_digest ::
  "string \<Rightarrow> string option \<Rightarrow> mission_contract_error + unit" where
  "mission_require_optional_digest field value =
     (case value of Some v \<Rightarrow> mission_require_digest field v | None \<Rightarrow> Ok ())"

definition mission_validate_signature_binding ::
  "string \<Rightarrow> string \<Rightarrow> string \<Rightarrow> string \<Rightarrow> mission_contract_error + unit" where
  "mission_validate_signature_binding issuer key_id algorithm signature = seq_checks
    [mission_require_non_empty ''issuer'' issuer,
     mission_require_non_empty ''key_id'' key_id,
     mission_require_non_empty ''algorithm'' algorithm,
     check (signature \<noteq> []) EmptyOpaqueSignature]"

definition mission_validate_issued_at :: "string \<Rightarrow> u64 \<Rightarrow> u64 \<Rightarrow> mission_contract_error + unit" where
  "mission_validate_issued_at rec issued_at now_ms =
     (let latest_allowed = saturating_add now_ms DEFAULT_MISSION_CLOCK_SKEW_MS in
      if issued_at > latest_allowed then Err (IssuedInFuture rec issued_at latest_allowed) else Ok ())"

definition mission_validate_expiring_record ::
  "string \<Rightarrow> u64 \<Rightarrow> u64 \<Rightarrow> u64 \<Rightarrow> mission_contract_error + unit" where
  "mission_validate_expiring_record rec issued_at expires_at now_ms = seq_checks
    [check (\<not> expires_at \<le> issued_at) (InvalidTimeOrder rec issued_at expires_at),
     mission_validate_issued_at rec issued_at now_ms,
     check (\<not> now_ms \<ge> expires_at) (Expired rec expires_at now_ms)]"

definition ensure_digest :: "string \<Rightarrow> string \<Rightarrow> string \<Rightarrow> mission_contract_error + unit" where
  "ensure_digest field expected observed =
     (if expected = observed then Ok () else Err (DigestMismatch field expected observed))"

definition ensure_head :: "string option \<Rightarrow> string option \<Rightarrow> mission_contract_error + unit" where
  "ensure_head expected observed =
     (if expected = observed then Ok () else Err (StaleHead expected observed))"

definition unverified_validation :: "string \<Rightarrow> structural_validation" where
  "unverified_validation d =
     \<lparr>sv_canonical_digest = d, sv_integrity = OpaqueSignaturePresentUnverified\<rparr>"

section \<open>Transition intents\<close>

definition intent_field_checks :: "transition_intent \<Rightarrow> u64 \<Rightarrow> mission_contract_error + unit" where
  "intent_field_checks t now_ms = seq_checks
    [mission_require_schema ''mission transition intent'' (ti_schema t) MISSION_TRANSITION_INTENT_SCHEMA,
     mission_require_non_empty ''transition_id'' (ti_transition_id t),
     mission_require_non_empty ''brain_id'' (ti_brain_id t),
     mission_require_non_empty ''mission_id'' (ti_mission_id t),
     mission_require_optional_non_empty ''expected_head_id'' (ti_expected_head_id t),
     mission_require_non_empty ''actor_id'' (ti_actor_id t),
     mission_require_non_empty ''capability_id'' (ti_capability_id t),
     mission_require_non_empty ''idempotency_key'' (ti_idempotency_key t),
     mission_require_optional_non_empty ''causation_id'' (ti_causation_id t),
     mission_require_digest ''source_digest'' (ti_source_digest t),
     mission_require_digest ''packet_digest'' (ti_packet_digest t),
     mission_require_digest ''payload_digest'' (ti_payload_digest t),
     mission_require_digest ''intent_digest'' (ti_intent_digest t),
     require_iteration (ti_iteration_id t),
     mission_validate_signature_binding (ti_issuer t) (ti_key_id t) (ti_algorithm t) (ti_signature t),
     mission_validate_expiring_record ''mission transition intent'' (ti_issued_at t) (ti_expires_at t)
       now_ms]"

text \<open>The iteration a rule expects from the current head.\<close>

definition expected_iteration :: "iteration_rule \<Rightarrow> u64 \<Rightarrow> mission_contract_error + u64" where
  "expected_iteration ir current =
     (case ir of
        Initialize \<Rightarrow> Ok 1
      | Preserve \<Rightarrow> Ok current
      | Advance \<Rightarrow> ok_or (checked_add current 1) (IterationOverflow current))"

definition packet_rule_check ::
  "iteration_rule \<Rightarrow> string \<Rightarrow> string \<Rightarrow> mission_contract_error + unit" where
  "packet_rule_check ir packet head_packet =
     (case ir of
        Advance \<Rightarrow> check (packet \<noteq> head_packet) PacketDigestNotAdvanced
      | Preserve \<Rightarrow> check (packet = head_packet) PacketDigestMismatch
      | Initialize \<Rightarrow> Ok ())"

definition head_checks ::
  "transition_rule \<Rightarrow> transition_intent \<Rightarrow> head_snapshot option \<Rightarrow> mission_contract_error + unit" where
  "head_checks ru t ho =
     (case ho of
        None \<Rightarrow> seq_checks
          [ensure_head None (ti_expected_head_id t),
           check (ti_from_state t = None) (StateMismatch None (ti_from_state t)),
           check (ti_iteration_id t = 1) (StaleIteration 1 (ti_iteration_id t))]
      | Some h \<Rightarrow> and_then (seq_checks
          [mission_require_non_empty ''context.head_id'' (mh_head_id h),
           require_iteration (mh_iteration_id h),
           mission_require_digest ''context.packet_digest'' (mh_packet_digest h),
           ensure_head (Some (mh_head_id h)) (ti_expected_head_id t),
           check (ti_from_state t = Some (mh_state h))
             (StateMismatch (Some (mh_state h)) (ti_from_state t))]) (\<lambda>_.
          and_then (expected_iteration (tr_iteration ru) (mh_iteration_id h)) (\<lambda>expected.
          seq_checks
            [check (ti_iteration_id t = expected) (StaleIteration expected (ti_iteration_id t)),
             packet_rule_check (tr_iteration ru) (ti_packet_digest t) (mh_packet_digest h)])))"

definition validate_intent ::
  "platform \<Rightarrow> transition_intent \<Rightarrow> head_context \<Rightarrow> json \<Rightarrow> u64
     \<Rightarrow> mission_contract_error + transition_validation" where
  "validate_intent E t cx payload now_ms =
     and_then (seq_checks
       [intent_field_checks t now_ms,
        ensure_digest ''payload_digest'' (mission_payload_digest_for E payload) (ti_payload_digest t),
        ensure_digest ''intent_digest'' (compute_intent_digest E t) (ti_intent_digest t),
        check (ti_brain_id t = mc_brain_id cx) (BrainMismatch (mc_brain_id cx) (ti_brain_id t)),
        check (ti_mission_id t = mc_mission_id cx)
          (MissionMismatch (mc_mission_id cx) (ti_mission_id t))]) (\<lambda>_.
     and_then (ok_or (mission_transition_rule (ti_from_state t) (ti_to_state t))
        (IllegalTransition (ti_from_state t) (ti_to_state t))) (\<lambda>ru.
     and_then (seq_checks
       [check (ti_role t = tr_role ru) (WrongRole (tr_role ru) (ti_role t)),
        check (ti_source t = tr_source ru) (WrongSource (tr_source ru) (ti_source t)),
        head_checks ru t (mc_head cx)]) (\<lambda>_.
     Ok \<lparr>tv_rule = ru, tv_intent_digest = compute_intent_digest E t,
        tv_integrity = OpaqueSignaturePresentUnverified\<rparr>)))"

section \<open>Dispatch and acknowledgement\<close>

definition validate_dispatch ::
  "platform \<Rightarrow> execution_dispatch \<Rightarrow> u64 \<Rightarrow> mission_contract_error + structural_validation" where
  "validate_dispatch E d now_ms =
     and_then (seq_checks
       ([mission_require_schema ''execution dispatch'' (ed_schema d) EXECUTION_DISPATCH_SCHEMA]
        @ map (\<lambda>(f, v). mission_require_non_empty f v)
            [(''execution_id'', ed_execution_id d), (''brain_id'', ed_brain_id d),
             (''mission_id'', ed_mission_id d), (''mission_head_id'', ed_mission_head_id d),
             (''runner_id'', ed_runner_id d), (''idempotency_key'', ed_idempotency_key d)]
        @ [require_iteration (ed_iteration_id d),
           mission_require_digest ''packet_digest'' (ed_packet_digest d),
           mission_require_digest ''dispatch_digest'' (ed_dispatch_digest d),
           mission_validate_signature_binding (ed_issuer d) (ed_key_id d) (ed_algorithm d)
             (ed_signature d),
           mission_validate_expiring_record ''execution dispatch'' (ed_issued_at d) (ed_deadline_at d)
             now_ms,
           ensure_digest ''dispatch_digest'' (compute_dispatch_digest E d) (ed_dispatch_digest d)]))
     (\<lambda>_. Ok (unverified_validation (compute_dispatch_digest E d)))"

definition bind_dispatch_fields ::
  "string \<Rightarrow> string \<Rightarrow> string \<Rightarrow> string \<Rightarrow> string \<Rightarrow> u64 \<Rightarrow> string \<Rightarrow> execution_dispatch
     \<Rightarrow> mission_contract_error + unit" where
  "bind_dispatch_fields contract execution_id brain_id mission_id mission_head_id iteration_id
       runner_id d = seq_checks
     (map (\<lambda>(f, m). check m (BindingMismatch contract f))
       [(''execution_id'', execution_id = ed_execution_id d),
        (''brain_id'', brain_id = ed_brain_id d),
        (''mission_id'', mission_id = ed_mission_id d),
        (''mission_head_id'', mission_head_id = ed_mission_head_id d),
        (''iteration_id'', iteration_id = ed_iteration_id d),
        (''runner_id'', runner_id = ed_runner_id d)])"

definition bind_execution_dispatch_fields ::
  "string \<Rightarrow> string \<Rightarrow> string \<Rightarrow> string \<Rightarrow> u64 \<Rightarrow> string \<Rightarrow> execution_dispatch
     \<Rightarrow> mission_contract_error + unit" where
  "bind_execution_dispatch_fields contract execution_id brain_id mission_id iteration_id
       runner_id d = seq_checks
     (map (\<lambda>(f, m). check m (BindingMismatch contract f))
       [(''execution_id'', execution_id = ed_execution_id d),
        (''brain_id'', brain_id = ed_brain_id d),
        (''mission_id'', mission_id = ed_mission_id d),
        (''iteration_id'', iteration_id = ed_iteration_id d),
        (''runner_id'', runner_id = ed_runner_id d)])"

definition validate_ack_against ::
  "platform \<Rightarrow> dispatch_ack \<Rightarrow> execution_dispatch \<Rightarrow> mission_contract_error + structural_validation" where
  "validate_ack_against E a d =
     and_then (seq_checks
       ([mission_require_schema ''execution dispatch ACK'' (ak_schema a) EXECUTION_DISPATCH_ACK_SCHEMA]
        @ map (\<lambda>(f, v). mission_require_non_empty f v)
            [(''ack_id'', ak_ack_id a), (''execution_id'', ak_execution_id a),
             (''brain_id'', ak_brain_id a), (''mission_id'', ak_mission_id a),
             (''mission_head_id'', ak_mission_head_id a), (''runner_id'', ak_runner_id a)]
        @ [require_iteration (ak_iteration_id a),
           mission_require_digest ''dispatch_digest'' (ak_dispatch_digest a),
           mission_require_digest ''ack_digest'' (ak_ack_digest a),
           mission_validate_signature_binding (ak_issuer a) (ak_key_id a) (ak_algorithm a)
             (ak_signature a),
           check (ed_state d \<in> {Intent, Acked}) (DispatchNotAccepting (ed_state d)),
           check (\<not> (ak_accepted_at a < ed_issued_at d \<or> ak_accepted_at a \<ge> ed_deadline_at d))
             (InvalidTimeOrder ''execution dispatch ACK'' (ed_issued_at d) (ak_accepted_at a)),
           ensure_digest ''dispatch_digest'' (compute_dispatch_digest E d) (ak_dispatch_digest a),
           bind_dispatch_fields ''execution dispatch ACK'' (ak_execution_id a) (ak_brain_id a)
             (ak_mission_id a) (ak_mission_head_id a) (ak_iteration_id a) (ak_runner_id a) d,
           check (ak_issuer a = ak_runner_id a) (BindingMismatch ''execution dispatch ACK'' ''issuer''),
           ensure_digest ''ack_digest'' (compute_ack_digest E a) (ak_ack_digest a)]))
     (\<lambda>_. Ok (unverified_validation (compute_ack_digest E a)))"

section \<open>Execution results\<close>

fun execution_expected_transition :: "execution_outcome \<Rightarrow> mission_state" where
  "execution_expected_transition Succeeded = Gate"
| "execution_expected_transition OutcomeFailed = Failed"

definition outcome_check :: "execution_result \<Rightarrow> mission_contract_error + unit" where
  "outcome_check r =
     (case er_outcome r of
        Succeeded \<Rightarrow>
          check (\<not> (er_exit_status r \<noteq> Some 0 \<or> er_failure_artifact_digest r \<noteq> None))
            InvalidSuccessfulExecution
      | OutcomeFailed \<Rightarrow>
          check (\<not> (er_exit_status r = Some 0 \<or> er_failure_artifact_digest r = None))
            InvalidFailedExecution)"

text \<open>The checks of a result or a review against the current head; the first is \<open>ok_or\<close>.\<close>

definition bound_head ::
  "head_context \<Rightarrow> string \<Rightarrow> (head_snapshot \<Rightarrow> mission_contract_error + unit) \<Rightarrow> mission_contract_error + unit" where
  "bound_head cx head_id k =
     and_then (ok_or (mc_head cx) (StaleHead None (Some head_id))) (\<lambda>h.
       and_then (ensure_head (Some (mh_head_id h)) (Some head_id)) (\<lambda>_. k h))"

definition validate_execution_against ::
  "platform \<Rightarrow> execution_result \<Rightarrow> execution_dispatch \<Rightarrow> head_context
     \<Rightarrow> mission_contract_error + structural_validation" where
  "validate_execution_against E r d cx =
     and_then (seq_checks
       ([mission_require_schema ''execution result'' (er_schema r) EXECUTION_RESULT_SCHEMA]
        @ map (\<lambda>(f, v). mission_require_non_empty f v)
            [(''result_id'', er_result_id r), (''execution_id'', er_execution_id r),
             (''brain_id'', er_brain_id r), (''mission_id'', er_mission_id r),
             (''mission_head_id'', er_mission_head_id r), (''runner_id'', er_runner_id r)]
        @ [require_iteration (er_iteration_id r),
           mission_require_digest ''dispatch_digest'' (er_dispatch_digest r),
           mission_require_digest ''log_digest'' (er_log_digest r),
           mission_require_optional_digest ''failure_artifact_digest'' (er_failure_artifact_digest r),
           mission_require_digest ''result_digest'' (er_result_digest r),
           mission_validate_signature_binding (er_issuer r) (er_key_id r) (er_algorithm r)
             (er_signature r),
           check (er_command r \<noteq> [] \<and> hd (er_command r) \<noteq> []) EmptyExecutionCommand,
           check (\<not> er_ended_at r < er_started_at r)
             (InvalidTimeOrder ''execution result'' (er_started_at r) (er_ended_at r)),
           outcome_check r,
           ensure_digest ''dispatch_digest'' (compute_dispatch_digest E d) (er_dispatch_digest r),
           bind_execution_dispatch_fields ''execution result'' (er_execution_id r) (er_brain_id r)
             (er_mission_id r) (er_iteration_id r) (er_runner_id r) d,
           check (er_issuer r = er_runner_id r) (BindingMismatch ''execution result'' ''issuer''),
           check (er_brain_id r = mc_brain_id cx) (BrainMismatch (mc_brain_id cx) (er_brain_id r)),
           check (er_mission_id r = mc_mission_id cx)
             (MissionMismatch (mc_mission_id cx) (er_mission_id r)),
           bound_head cx (er_mission_head_id r) (\<lambda>h. seq_checks
             [check (mh_state h = Executing) (StateMismatch (Some Executing) (Some (mh_state h))),
              check (er_iteration_id r = mh_iteration_id h)
                (StaleIteration (mh_iteration_id h) (er_iteration_id r)),
              check (ed_packet_digest d = mh_packet_digest h) PacketDigestMismatch]),
           ensure_digest ''result_digest'' (compute_execution_result_digest E r) (er_result_digest r)]))
     (\<lambda>_. Ok (unverified_validation (compute_execution_result_digest E r)))"

section \<open>Review results\<close>

fun review_expected_transition ::
  "mission_state \<Rightarrow> review_decision \<Rightarrow> mission_contract_error + mission_state" where
  "review_expected_transition Judging Approve = Ok Dispatching"
| "review_expected_transition Judging Change = Ok Revising"
| "review_expected_transition Review Change = Ok Revising"
| "review_expected_transition Judging Reject = Ok Failed"
| "review_expected_transition Review Reject = Ok Failed"
| "review_expected_transition Review Approve = Ok MergeWait"
| "review_expected_transition state _ = Err (InvalidReviewedState state)"

definition review_require :: "string \<Rightarrow> string option \<Rightarrow> mission_contract_error + unit" where
  "review_require field v = check (v \<noteq> None) (MissingReviewField field)"

definition review_forbid :: "string \<Rightarrow> string option \<Rightarrow> mission_contract_error + unit" where
  "review_forbid field v = check (v = None) (ForbiddenReviewField field)"

definition validate_review_shape :: "review_result \<Rightarrow> mission_contract_error + unit" where
  "validate_review_shape r =
     (let changes = rv_binding_changes_digest r; gate = rv_gate_digest r;
          candidate = rv_candidate_digest r; s = rv_reviewed_state r; d = rv_decision r in
      if s = Judging \<and> d \<in> {Approve, Reject} then seq_checks
        [review_forbid ''binding_changes_digest'' changes, review_forbid ''gate_digest'' gate,
         review_forbid ''candidate_digest'' candidate]
      else if s = Review \<and> d = Approve then seq_checks
        [review_forbid ''binding_changes_digest'' changes, review_require ''gate_digest'' gate,
         review_require ''candidate_digest'' candidate]
      else if s = Review \<and> d = Reject then seq_checks
        [review_forbid ''binding_changes_digest'' changes, review_forbid ''gate_digest'' gate,
         review_forbid ''candidate_digest'' candidate]
      else if s \<in> {Judging, Review} \<and> d = Change then seq_checks
        [review_require ''binding_changes_digest'' changes, review_forbid ''gate_digest'' gate,
         review_forbid ''candidate_digest'' candidate]
      else Err (InvalidReviewedState s))"

definition validate_review_against_head ::
  "platform \<Rightarrow> review_result \<Rightarrow> head_context \<Rightarrow> u64 \<Rightarrow> mission_contract_error + structural_validation" where
  "validate_review_against_head E r cx now_ms =
     and_then (seq_checks
       ([mission_require_schema ''review result'' (rv_schema r) REVIEW_RESULT_SCHEMA]
        @ map (\<lambda>(f, v). mission_require_non_empty f v)
            [(''result_id'', rv_result_id r), (''brain_id'', rv_brain_id r),
             (''mission_id'', rv_mission_id r), (''mission_head_id'', rv_mission_head_id r),
             (''reviewer_id'', rv_reviewer_id r)]
        @ [require_iteration (rv_iteration_id r),
           mission_require_digest ''packet_digest'' (rv_packet_digest r),
           mission_require_digest ''verdict_digest'' (rv_verdict_digest r),
           mission_require_optional_digest ''binding_changes_digest'' (rv_binding_changes_digest r),
           mission_require_optional_digest ''gate_digest'' (rv_gate_digest r),
           mission_require_optional_digest ''candidate_digest'' (rv_candidate_digest r),
           mission_require_digest ''result_digest'' (rv_result_digest r),
           mission_validate_signature_binding (rv_issuer r) (rv_key_id r) (rv_algorithm r)
             (rv_signature r),
           check (rv_issuer r = rv_reviewer_id r) (BindingMismatch ''review result'' ''issuer''),
           mission_validate_issued_at ''review result'' (rv_issued_at r) now_ms,
           and_then (review_expected_transition (rv_reviewed_state r) (rv_decision r)) (\<lambda>_. Ok ()),
           validate_review_shape r,
           check (rv_brain_id r = mc_brain_id cx) (BrainMismatch (mc_brain_id cx) (rv_brain_id r)),
           check (rv_mission_id r = mc_mission_id cx)
             (MissionMismatch (mc_mission_id cx) (rv_mission_id r)),
           bound_head cx (rv_mission_head_id r) (\<lambda>h. seq_checks
             [check (rv_reviewed_state r = mh_state h)
                (StateMismatch (Some (mh_state h)) (Some (rv_reviewed_state r))),
              check (rv_iteration_id r = mh_iteration_id h)
                (StaleIteration (mh_iteration_id h) (rv_iteration_id r)),
              check (rv_packet_digest r = mh_packet_digest h) PacketDigestMismatch]),
           ensure_digest ''result_digest'' (compute_review_result_digest E r) (rv_result_digest r)]))
     (\<lambda>_. Ok (unverified_validation (compute_review_result_digest E r)))"

section \<open>The mission head\<close>

text \<open>
  The mission service of m1nd-mcp makes an accepted intent the new head of its mission; the
  identifier of the new head is the digest of the letter it writes, an argument here.  Its
  further checks (evidence, scope, idempotency) only refuse more.  Its second way to a new
  head is the landing transaction, which turns a head in \<open>merge_wait\<close> into a landed one.
\<close>

definition next_head :: "transition_intent \<Rightarrow> string \<Rightarrow> head_snapshot" where
  "next_head t head_id =
     \<lparr>mh_head_id = head_id, mh_state = ti_to_state t, mh_iteration_id = ti_iteration_id t,
      mh_packet_digest = ti_packet_digest t\<rparr>"

inductive mission_step ::
  "platform \<Rightarrow> head_snapshot option \<Rightarrow> transition_intent \<Rightarrow> head_snapshot \<Rightarrow> bool" for E where
  accept: "validate_intent E t \<lparr>mc_brain_id = brain, mc_mission_id = mission, mc_head = ho\<rparr> payload now_ms
     = Inr v \<Longrightarrow> mission_step E ho t (next_head t head_id)"

definition landed_head :: "head_snapshot \<Rightarrow> string \<Rightarrow> head_snapshot" where
  "landed_head g head_id =
     \<lparr>mh_head_id = head_id, mh_state = Landed, mh_iteration_id = mh_iteration_id g,
      mh_packet_digest = mh_packet_digest g\<rparr>"

text \<open>A run records the accepted intents; a landing transaction has none.\<close>

inductive mission_run ::
  "platform \<Rightarrow> transition_intent list \<Rightarrow> head_snapshot option \<Rightarrow> bool" for E where
  genesis: "mission_run E [] None"
| step: "mission_run E ts ho \<Longrightarrow> mission_step E ho t h \<Longrightarrow> mission_run E (ts @ [t]) (Some h)"
| land: "mission_run E ts (Some g) \<Longrightarrow> mh_state g = MergeWait \<Longrightarrow>
    mission_run E ts (Some (landed_head g head_id))"

inductive_cases mission_stepE: "mission_step E ho t h"

end
