(* ===== verification/Mission_Contracts.thy ===== *)
theory Mission_Contracts
  imports Mission
begin

text \<open>
  The contract of \<open>mission.rs\<close>: what an accepted transition intent implies about the head,
  the lifecycle of a mission over any run of accepted intents, agreement of review and
  execution results with the transition table, and tamper evidence of the five sealed
  contracts through the locale \<open>sealed_contract\<close>.
\<close>

section \<open>Field checks\<close>

lemma mission_checks_ok [simp]:
  "mission_require_schema c a e = Inr u \<longleftrightarrow> a = e"
  "mission_require_non_empty f v = Inr u \<longleftrightarrow> v \<noteq> []"
  "mission_require_optional_non_empty f ov = Inr u \<longleftrightarrow> ov \<noteq> Some []"
  "require_iteration n = Inr u \<longleftrightarrow> n \<noteq> 0"
  "mission_require_digest f v = Inr u \<longleftrightarrow> digest_syntax v"
  "ensure_digest f v w = Inr u \<longleftrightarrow> v = w"
  "ensure_head x y = Inr u \<longleftrightarrow> x = y"
  by (simp_all add: mission_require_schema_def mission_require_non_empty_def
      mission_require_optional_non_empty_def require_iteration_def mission_require_digest_def
      ensure_digest_def ensure_head_def)

lemma mission_window_ok:
  "mission_validate_expiring_record r i e n = Inr () \<longleftrightarrow>
     i < e \<and> i \<le> saturating_add n DEFAULT_MISSION_CLOCK_SKEW_MS \<and> n < e"
  by (auto simp: mission_validate_expiring_record_def mission_validate_issued_at_def Let_def)

lemma bound_head_ok [simp]:
  "bound_head cx hid k = Inr u \<longleftrightarrow> (\<exists>h. mc_head cx = Some h \<and> mh_head_id h = hid \<and> k h = Inr u)"
  by (auto simp: bound_head_def)

section \<open>Accepted intents\<close>

lemma validate_intent_parts:
  assumes "validate_intent E t cx payload now_ms = Inr v"
  obtains ru where "mission_transition_rule (ti_from_state t) (ti_to_state t) = Some ru"
    "ti_role t = tr_role ru" "ti_source t = tr_source ru" "head_checks ru t (mc_head cx) = Inr ()"
    "intent_field_checks t now_ms = Inr ()" "ti_intent_digest t = compute_intent_digest E t"
    "ti_payload_digest t = mission_payload_digest_for E payload"
    "ti_brain_id t = mc_brain_id cx" "ti_mission_id t = mc_mission_id cx" "tv_rule v = ru"
  using assms unfolding validate_intent_def by auto

lemma validate_intent_digests:
  assumes "validate_intent E t cx payload now_ms = Inr v"
  shows "ti_intent_digest t = compute_intent_digest E t"
    "ti_payload_digest t = mission_payload_digest_for E payload"
  using assms unfolding validate_intent_def by auto

lemma transition_rule_in_table:
  "mission_transition_rule f to = Some ru \<Longrightarrow>
     ru \<in> set MISSION_TRANSITION_RULES \<and> tr_from ru = f \<and> tr_to ru = to"
  by (auto simp: mission_transition_rule_def find_Some_iff)

lemma transition_rule_initial:
  "mission_transition_rule f to = Some ru \<Longrightarrow> f = None \<longleftrightarrow> tr_iteration ru = Initialize"
  by (drule transition_rule_in_table) (auto simp: MISSION_TRANSITION_RULES_def mk_rule_def)

lemma transition_rule_terminal:
  "mission_transition_rule (Some s) to = Some ru \<Longrightarrow> \<not> is_terminal s"
  by (drule transition_rule_in_table)
    (auto simp: MISSION_TRANSITION_RULES_def mk_rule_def is_terminal_def)

lemma transition_rule_advance:
  "mission_transition_rule f to = Some ru \<Longrightarrow> tr_iteration ru = Advance \<longleftrightarrow> f = Some Revising"
  by (drule transition_rule_in_table) (auto simp: MISSION_TRANSITION_RULES_def mk_rule_def)

text \<open>What an accepted intent makes of the head.\<close>

lemma mission_step_genesis:
  assumes "mission_step E None t h"
  shows "mh_state h \<in> {Judging, Dispatching}" "mh_iteration_id h = 1" "ti_from_state t = None"
    "h = next_head t (mh_head_id h)"
proof -
  from assms obtain brain mission payload now_ms v head_id
    where v: "validate_intent E t \<lparr>mc_brain_id = brain, mc_mission_id = mission, mc_head = None\<rparr>
        payload now_ms = Inr v" and h: "h = next_head t head_id" by (rule mission_stepE) blast
  from v obtain ru where ru: "mission_transition_rule (ti_from_state t) (ti_to_state t) = Some ru"
    and hc: "head_checks ru t None = Inr ()" by (rule validate_intent_parts) simp
  from hc show "ti_from_state t = None" by (simp add: head_checks_def)
  with transition_rule_in_table [OF ru] h show "mh_state h \<in> {Judging, Dispatching}"
    by (auto simp: MISSION_TRANSITION_RULES_def mk_rule_def next_head_def)
  from hc h show "mh_iteration_id h = 1" by (simp add: head_checks_def next_head_def)
  from h show "h = next_head t (mh_head_id h)" by (simp add: next_head_def)
qed

lemma mission_step_next:
  assumes "mission_step E (Some g) t h"
  obtains ru where "mission_transition_rule (Some (mh_state g)) (mh_state h) = Some ru"
    "ti_from_state t = Some (mh_state g)" "ti_to_state t = mh_state h"
    "ti_role t = tr_role ru" "ti_source t = tr_source ru"
    "ti_expected_head_id t = Some (mh_head_id g)" "mh_iteration_id g \<noteq> 0"
    "ti_packet_digest t = mh_packet_digest h" "ti_iteration_id t = mh_iteration_id h"
    "tr_iteration ru = Preserve \<and> mh_iteration_id h = mh_iteration_id g \<and>
        mh_packet_digest h = mh_packet_digest g \<or>
     tr_iteration ru = Advance \<and> unat (mh_iteration_id h) = Suc (unat (mh_iteration_id g)) \<and>
        mh_packet_digest h \<noteq> mh_packet_digest g"
proof -
  from assms obtain brain mission payload now_ms v head_id
    where v: "validate_intent E t \<lparr>mc_brain_id = brain, mc_mission_id = mission, mc_head = Some g\<rparr>
        payload now_ms = Inr v" and h: "h = next_head t head_id" by (rule mission_stepE) blast
  from v obtain ru where ru: "mission_transition_rule (ti_from_state t) (ti_to_state t) = Some ru"
    "ti_role t = tr_role ru" "ti_source t = tr_source ru" and hc: "head_checks ru t (Some g) = Inr ()"
    by (rule validate_intent_parts) simp
  from hc have f: "ti_from_state t = Some (mh_state g)" "ti_expected_head_id t = Some (mh_head_id g)"
    "mh_iteration_id g \<noteq> 0"
    and "expected_iteration (tr_iteration ru) (mh_iteration_id g) = Inr (ti_iteration_id t)"
    and "packet_rule_check (tr_iteration ru) (ti_packet_digest t) (mh_packet_digest g) = Inr ()"
    by (auto simp: head_checks_def)
  moreover have "tr_iteration ru \<noteq> Initialize" using transition_rule_initial [OF ru(1)] f(1) by simp
  ultimately have "tr_iteration ru = Preserve \<and> mh_iteration_id h = mh_iteration_id g \<and>
        mh_packet_digest h = mh_packet_digest g \<or>
     tr_iteration ru = Advance \<and> unat (mh_iteration_id h) = Suc (unat (mh_iteration_id g)) \<and>
        mh_packet_digest h \<noteq> mh_packet_digest g"
    by (cases "tr_iteration ru")
      (auto simp: expected_iteration_def packet_rule_check_def checked_add_Some h next_head_def)
  then show ?thesis using ru f h by (intro that [of ru]) (simp_all add: next_head_def)
qed

section \<open>Runs of accepted intents\<close>

definition advances :: "transition_intent list \<Rightarrow> nat" where
  "advances ts = length (filter (\<lambda>t. ti_from_state t = Some Revising) ts)"

text \<open>The acknowledged execution result that opens the gate for a packet and an iteration.\<close>

definition execution_passed :: "transition_intent list \<Rightarrow> head_snapshot \<Rightarrow> bool" where
  "execution_passed ts h \<longleftrightarrow>
     (\<exists>t \<in> set ts. ti_from_state t = Some Executing \<and> ti_to_state t = Gate \<and> ti_role t = Runner \<and>
        ti_source t = ExecutionResult \<and> ti_packet_digest t = mh_packet_digest h \<and>
        ti_iteration_id t = mh_iteration_id h)"

definition one_packet :: "transition_intent list \<Rightarrow> bool" where
  "one_packet ts \<longleftrightarrow>
     (\<forall>t \<in> set ts. \<forall>t' \<in> set ts. ti_iteration_id t = ti_iteration_id t' \<longrightarrow>
        ti_packet_digest t = ti_packet_digest t')"

definition run_inv :: "transition_intent list \<Rightarrow> head_snapshot \<Rightarrow> bool" where
  "run_inv ts h \<longleftrightarrow>
     unat (mh_iteration_id h) = Suc (advances ts) \<and> one_packet ts \<and>
     (\<forall>t \<in> set ts. unat (ti_iteration_id t) \<le> unat (mh_iteration_id h) \<and>
        (ti_iteration_id t = mh_iteration_id h \<longrightarrow> ti_packet_digest t = mh_packet_digest h)) \<and>
     (mh_state h \<in> {Gate, Review, MergeWait, Landed, Archived} \<longrightarrow> execution_passed ts h)"

lemma advances_snoc:
  "advances (ts @ [t]) = (if ti_from_state t = Some Revising then Suc (advances ts) else advances ts)"
  by (simp add: advances_def)

lemma one_packet_snoc:
  assumes "one_packet ts" and "\<forall>t' \<in> set ts. ti_iteration_id t' = ti_iteration_id t \<longrightarrow>
     ti_packet_digest t' = ti_packet_digest t"
  shows "one_packet (ts @ [t])"
  unfolding one_packet_def
proof (intro ballI impI)
  fix a b assume "a \<in> set (ts @ [t])" "b \<in> set (ts @ [t])" and eq: "ti_iteration_id a = ti_iteration_id b"
  then consider "a \<in> set ts" "b \<in> set ts" | "a \<in> set ts" "b = t" | "a = t" "b \<in> set ts" | "a = t" "b = t"
    by auto
  then show "ti_packet_digest a = ti_packet_digest b"
  proof cases
    case 1
    with assms(1) eq show ?thesis unfolding one_packet_def by blast
  next
    case 2
    with assms(2) eq show ?thesis by blast
  next
    case 3
    with assms(2) eq [symmetric] have "ti_packet_digest b = ti_packet_digest a" by blast
    then show ?thesis by (rule sym)
  qed (erule ssubst, erule ssubst, rule refl)
qed

lemma run_inv_genesis:
  assumes "mission_step E None t h"
  shows "run_inv [t] h"
proof -
  note g = mission_step_genesis [OF assms]
  have "ti_iteration_id t = mh_iteration_id h" "ti_packet_digest t = mh_packet_digest h"
    by (subst g(4), simp add: next_head_def)+
  with g(1-3) show ?thesis by (auto simp: run_inv_def advances_def one_packet_def)
qed

lemma execution_passed_snoc:
  "execution_passed ts g \<Longrightarrow> mh_packet_digest h = mh_packet_digest g \<Longrightarrow>
     mh_iteration_id h = mh_iteration_id g \<Longrightarrow> execution_passed (ts @ [t]) h"
  by (auto simp: execution_passed_def)

text \<open>Where an edge into the late states comes from.\<close>

lemma transition_rule_late:
  assumes "mission_transition_rule (Some s) to = Some ru" and "to \<in> {Gate, Review, MergeWait, Landed, Archived}"
  shows "s \<in> {Gate, Review, MergeWait} \<or> s = Executing \<and> to = Gate \<and> tr_role ru = Runner \<and>
     tr_source ru = ExecutionResult"
  using assms transition_rule_in_table [OF assms(1)]
  by (auto simp: MISSION_TRANSITION_RULES_def mk_rule_def)

lemma run_inv_step:
  assumes inv: "run_inv ts g" and step: "mission_step E (Some g) t h"
  shows "run_inv (ts @ [t]) h"
proof -
  from step obtain ru where ru: "mission_transition_rule (Some (mh_state g)) (mh_state h) = Some ru"
    and t: "ti_from_state t = Some (mh_state g)" "ti_to_state t = mh_state h" "ti_role t = tr_role ru"
      "ti_source t = tr_source ru" "ti_packet_digest t = mh_packet_digest h"
      "ti_iteration_id t = mh_iteration_id h"
    and mv: "tr_iteration ru = Preserve \<and> mh_iteration_id h = mh_iteration_id g \<and>
        mh_packet_digest h = mh_packet_digest g \<or>
     tr_iteration ru = Advance \<and> unat (mh_iteration_id h) = Suc (unat (mh_iteration_id g)) \<and>
        mh_packet_digest h \<noteq> mh_packet_digest g"
    by (rule mission_step_next)
  from inv have cnt: "unat (mh_iteration_id g) = Suc (advances ts)" and one: "one_packet ts"
    and old: "\<forall>t \<in> set ts. unat (ti_iteration_id t) \<le> unat (mh_iteration_id g) \<and>
        (ti_iteration_id t = mh_iteration_id g \<longrightarrow> ti_packet_digest t = mh_packet_digest g)"
    and ex: "mh_state g \<in> {Gate, Review, MergeWait, Landed, Archived} \<longrightarrow> execution_passed ts g"
    unfolding run_inv_def by blast+
  have adv: "tr_iteration ru = Advance \<longleftrightarrow> mh_state g = Revising"
    using transition_rule_advance [OF ru] by simp
  have new: "unat (ti_iteration_id t') \<le> unat (mh_iteration_id h)"
    "ti_iteration_id t' = mh_iteration_id h \<Longrightarrow> ti_packet_digest t' = mh_packet_digest h"
    if "t' \<in> set ts" for t' using old that mv by force+
  have "unat (mh_iteration_id h) = Suc (advances (ts @ [t]))"
    unfolding advances_snoc using cnt t(1) mv adv by auto
  moreover have "one_packet (ts @ [t])"
    using new t(5,6) by (intro one_packet_snoc [OF one]) simp
  moreover have "\<forall>t' \<in> set (ts @ [t]). unat (ti_iteration_id t') \<le> unat (mh_iteration_id h) \<and>
      (ti_iteration_id t' = mh_iteration_id h \<longrightarrow> ti_packet_digest t' = mh_packet_digest h)"
    using new t(5,6) by simp
  moreover have "execution_passed (ts @ [t]) h"
    if late: "mh_state h \<in> {Gate, Review, MergeWait, Landed, Archived}"
    using transition_rule_late [OF ru late]
  proof
    assume s: "mh_state g \<in> {Gate, Review, MergeWait}"
    with adv mv have "mh_packet_digest h = mh_packet_digest g" "mh_iteration_id h = mh_iteration_id g"
      by auto
    moreover have "execution_passed ts g" using ex s by blast
    ultimately show ?thesis by (intro execution_passed_snoc [of ts g])
  next
    assume "mh_state g = Executing \<and> mh_state h = Gate \<and> tr_role ru = Runner \<and> tr_source ru = ExecutionResult"
    with t show ?thesis by (simp add: execution_passed_def)
  qed
  ultimately show ?thesis unfolding run_inv_def by blast
qed

lemma run_inv_land:
  assumes "run_inv ts g" and "mh_state g = MergeWait"
  shows "run_inv ts (landed_head g head_id)"
proof -
  have same: "mh_iteration_id (landed_head g head_id) = mh_iteration_id g"
    "mh_packet_digest (landed_head g head_id) = mh_packet_digest g"
    by (simp_all add: landed_head_def)
  from assms have "execution_passed ts g" unfolding run_inv_def by simp
  with assms(1) show ?thesis unfolding run_inv_def execution_passed_def same by blast
qed

lemma mission_run_empty: "mission_run E ts ho \<Longrightarrow> ho = None \<Longrightarrow> ts = []"
  by (induction rule: mission_run.induct) simp_all

lemma mission_run_inv: "mission_run E ts ho \<Longrightarrow> ho = Some h \<Longrightarrow> run_inv ts h"
proof (induction arbitrary: h rule: mission_run.induct)
  case genesis
  then show ?case by simp
next
  case (step ts ho t g)
  show ?case
  proof (cases ho)
    case None
    with step.hyps(1) have "ts = []" by (rule mission_run_empty)
    with None step.hyps(2) step.prems run_inv_genesis show ?thesis by simp
  next
    case (Some k)
    with step.IH have "run_inv ts k" by blast
    from run_inv_step [OF this] Some step.hyps(2) step.prems show ?thesis by simp
  qed
next
  case (land ts g head_id)
  with run_inv_land show ?case by blast
qed


text \<open>
  The five sealed contracts of \<open>mission.rs\<close> as instances of \<open>sealed_contract\<close>, and what
  their validators promise: a contract's digest pins every field but the signature, an
  acknowledgement is accepted only in the window of the dispatch it names, and accepted
  execution and review results lead to an edge of the transition table.
\<close>

section \<open>Sealed contracts\<close>

lemma mission_names_inj [simp]:
  "mission_state_name s = mission_state_name s' \<longleftrightarrow> s = s'" "role_name r = role_name r' \<longleftrightarrow> r = r'"
  "source_name c = source_name c' \<longleftrightarrow> c = c'" "dispatch_state_name d = dispatch_state_name d' \<longleftrightarrow> d = d'"
  "outcome_name u = outcome_name u' \<longleftrightarrow> u = u'" "decision_name v = decision_name v' \<longleftrightarrow> v = v'"
  subgoal by (cases s; cases s'; simp)
  subgoal by (cases r; cases r'; simp)
  subgoal by (cases c; cases c'; simp)
  subgoal by (cases d; cases d'; simp)
  subgoal by (cases u; cases u'; simp)
  subgoal by (cases v; cases v'; simp)
  done

lemma canon_opt_state [simp]:
  "canon (json_opt (\<lambda>s. JString (mission_state_name s)) a)
     = canon (json_opt (\<lambda>s. JString (mission_state_name s)) b) \<longleftrightarrow> a = b"
  by (rule canon_json_opt) simp_all

lemma canon_opt_i32 [simp]: "canon (json_opt json_i32 a) = canon (json_opt json_i32 b) \<longleftrightarrow> a = b"
  by (rule canon_json_opt) (auto simp: json_i32_def intro: signed_word_eqI)

lemma canon_string_array [simp]:
  "canon (JArray (map JString xs)) = canon (JArray (map JString ys)) \<longleftrightarrow> xs = ys"
  by (rule canon_json_array) simp

lemma digest_contract_material:
  "digest_contract E domain v field = digest_canonical E domain (sealed_material field v)"
  by (simp add: digest_contract_def sealed_material_def)

definition intent_body :: "transition_intent \<Rightarrow> transition_intent" where
  "intent_body t = t\<lparr>ti_intent_digest := [], ti_signature := []\<rparr>"
definition dispatch_body :: "execution_dispatch \<Rightarrow> execution_dispatch" where
  "dispatch_body d = d\<lparr>ed_dispatch_digest := [], ed_signature := []\<rparr>"
definition ack_body :: "dispatch_ack \<Rightarrow> dispatch_ack" where
  "ack_body a = a\<lparr>ak_ack_digest := [], ak_signature := []\<rparr>"
definition execution_body :: "execution_result \<Rightarrow> execution_result" where
  "execution_body r = r\<lparr>er_result_digest := [], er_signature := []\<rparr>"
definition review_body :: "review_result \<Rightarrow> review_result" where
  "review_body r = r\<lparr>rv_result_digest := [], rv_signature := []\<rparr>"

lemma intent_material_body:
  assumes "canon (sealed_material ''intent_digest'' (json_of_intent t)) = canon (sealed_material ''intent_digest'' (json_of_intent u))"
  shows "intent_body t = intent_body u"
  using assms unfolding sealed_material_def json_of_intent_def obj_remove.simps
  by (simp del: canon.simps)
    (drule canon_object_same_keys, simp_all add: intent_body_def transition_intent.equality)

lemma dispatch_material_body:
  assumes "canon (sealed_material ''dispatch_digest'' (json_of_dispatch t)) = canon (sealed_material ''dispatch_digest'' (json_of_dispatch u))"
  shows "dispatch_body t = dispatch_body u"
  using assms unfolding sealed_material_def json_of_dispatch_def obj_remove.simps
  by (simp del: canon.simps)
    (drule canon_object_same_keys, simp_all add: dispatch_body_def execution_dispatch.equality)

lemma ack_material_body:
  assumes "canon (sealed_material ''ack_digest'' (json_of_ack t)) = canon (sealed_material ''ack_digest'' (json_of_ack u))"
  shows "ack_body t = ack_body u"
  using assms unfolding sealed_material_def json_of_ack_def obj_remove.simps
  by (simp del: canon.simps)
    (drule canon_object_same_keys, simp_all add: ack_body_def dispatch_ack.equality)

lemma execution_material_body:
  assumes "canon (sealed_material ''result_digest'' (json_of_execution_result t)) = canon (sealed_material ''result_digest'' (json_of_execution_result u))"
  shows "execution_body t = execution_body u"
  using assms unfolding sealed_material_def json_of_execution_result_def obj_remove.simps
  by (simp del: canon.simps)
    (drule canon_object_same_keys, simp_all add: execution_body_def execution_result.equality
      del: canon.simps(5))

lemma review_material_body:
  assumes "canon (sealed_material ''result_digest'' (json_of_review t)) = canon (sealed_material ''result_digest'' (json_of_review u))"
  shows "review_body t = review_body u"
  using assms unfolding sealed_material_def json_of_review_def obj_remove.simps
  by (simp del: canon.simps)
    (drule canon_object_same_keys, simp_all add: review_body_def review_result.equality)

interpretation intent_seal: sealed_contract compute_intent_digest MISSION_TRANSITION_INTENT_DIGEST_DOMAIN
  "\<lambda>t. sealed_material ''intent_digest'' (json_of_intent t)" ti_intent_digest "\<lambda>d t. t\<lparr>ti_intent_digest := d\<rparr>" intent_body
  by (unfold_locales, simp add: compute_intent_digest_def digest_contract_material, simp add: sealed_material_def json_of_intent_def, simp, rule intent_material_body)

interpretation dispatch_seal: sealed_contract compute_dispatch_digest EXECUTION_DISPATCH_DIGEST_DOMAIN
  "\<lambda>t. sealed_material ''dispatch_digest'' (json_of_dispatch t)" ed_dispatch_digest "\<lambda>d t. t\<lparr>ed_dispatch_digest := d\<rparr>" dispatch_body
  by (unfold_locales, simp add: compute_dispatch_digest_def digest_contract_material, simp add: sealed_material_def json_of_dispatch_def, simp, rule dispatch_material_body)

interpretation ack_seal: sealed_contract compute_ack_digest EXECUTION_DISPATCH_ACK_DIGEST_DOMAIN
  "\<lambda>t. sealed_material ''ack_digest'' (json_of_ack t)" ak_ack_digest "\<lambda>d t. t\<lparr>ak_ack_digest := d\<rparr>" ack_body
  by (unfold_locales, simp add: compute_ack_digest_def digest_contract_material, simp add: sealed_material_def json_of_ack_def, simp, rule ack_material_body)

interpretation execution_seal: sealed_contract compute_execution_result_digest EXECUTION_RESULT_DIGEST_DOMAIN
  "\<lambda>t. sealed_material ''result_digest'' (json_of_execution_result t)" er_result_digest "\<lambda>d t. t\<lparr>er_result_digest := d\<rparr>" execution_body
  by (unfold_locales, simp add: compute_execution_result_digest_def digest_contract_material, simp add: sealed_material_def json_of_execution_result_def, simp, rule execution_material_body)

interpretation review_seal: sealed_contract compute_review_result_digest REVIEW_RESULT_DIGEST_DOMAIN
  "\<lambda>t. sealed_material ''result_digest'' (json_of_review t)" rv_result_digest "\<lambda>d t. t\<lparr>rv_result_digest := d\<rparr>" review_body
  by (unfold_locales, simp add: compute_review_result_digest_def digest_contract_material, simp add: sealed_material_def json_of_review_def, simp, rule review_material_body)

end
