(* ===== verification/Mission_Properties.thy ===== *)
theory Mission_Properties
  imports Mission_Contracts
begin

text \<open>
  The properties of \<open>mission.rs\<close>, with the concrete intents, acknowledgements and results at
  which their hypotheses hold.
\<close>

section \<open>Sample intents\<close>

definition intent_form ::
  "platform \<Rightarrow> head_snapshot option \<Rightarrow> transition_rule \<Rightarrow> u64 \<Rightarrow> string \<Rightarrow> transition_intent" where
  "intent_form E ho ru n p =
     \<lparr>ti_schema = MISSION_TRANSITION_INTENT_SCHEMA, ti_transition_id = ''t'', ti_brain_id = ''b'',
      ti_mission_id = ''m'', ti_expected_head_id = map_option mh_head_id ho,
      ti_from_state = map_option mh_state ho, ti_to_state = tr_to ru, ti_iteration_id = n,
      ti_actor_id = ''a'', ti_role = tr_role ru, ti_source = tr_source ru, ti_source_digest = hex64,
      ti_capability_id = ''c'', ti_packet_digest = p,
      ti_payload_digest = mission_payload_digest_for E JNull, ti_idempotency_key = ''i'',
      ti_causation_id = None, ti_issued_at = 100, ti_expires_at = 200, ti_issuer = ''a'',
      ti_key_id = ''k'', ti_algorithm = ''ed25519'', ti_intent_digest = [], ti_signature = ''s''\<rparr>"

definition sample_intent where
  "sample_intent E ho ru n p = seal_intent E (intent_form E ho ru n p)"

lemma compute_seal_intent: "compute_intent_digest E (seal_intent E t) = compute_intent_digest E t"
  unfolding seal_intent_def by (rule intent_seal.compute_put)

lemma mission_payload_digest_syntax: "sha256_width E \<Longrightarrow> digest_syntax (mission_payload_digest_for E p)"
  unfolding mission_payload_digest_for_def by (rule digest_canonical_syntax)

lemma sample_intent_fields:
  assumes "sha256_width E" and "digest_syntax p" "n \<noteq> 0"
    and "\<forall>h. ho = Some h \<longrightarrow> mh_head_id h \<noteq> []"
  shows "intent_field_checks (sample_intent E ho ru n p) 150 = Inr ()"
proof -
  have w: "mission_validate_signature_binding ''a'' ''k'' ''ed25519'' ''s'' = Inr ()"
    by (simp add: mission_validate_signature_binding_def)
  have "digest_syntax (compute_intent_digest E (intent_form E ho ru n p))"
    by (rule intent_seal.compute_syntax [OF assms(1)])
  with assms w mission_payload_digest_syntax [OF assms(1)] show ?thesis
    by (cases ho) (simp_all add: intent_field_checks_def sample_intent_def seal_intent_def
        intent_form_def mission_window_ok saturating_add_def DEFAULT_MISSION_CLOCK_SKEW_MS_def)
qed

lemma sample_intent_validates:
  assumes "sha256_width E" and "digest_syntax p" "n \<noteq> 0"
    and "\<forall>h. ho = Some h \<longrightarrow> mh_head_id h \<noteq> []"
    and "mission_transition_rule (map_option mh_state ho) to = Some ru"
    and "head_checks ru (sample_intent E ho ru n p) ho = Inr ()"
  shows "\<exists>v. validate_intent E (sample_intent E ho ru n p)
      \<lparr>mc_brain_id = ''b'', mc_mission_id = ''m'', mc_head = ho\<rparr> JNull 150 = Inr v"
proof -
  let ?t = "sample_intent E ho ru n p"
  have "tr_to ru = to" using transition_rule_in_table [OF assms(5)] by simp
  then have r: "mission_transition_rule (ti_from_state ?t) (ti_to_state ?t) = Some ru"
    using assms(5) by (simp add: sample_intent_def seal_intent_def intent_form_def)
  have d: "ti_intent_digest ?t = compute_intent_digest E ?t"
    unfolding sample_intent_def compute_seal_intent by (simp add: seal_intent_def)
  have f: "ti_payload_digest ?t = mission_payload_digest_for E JNull" "ti_brain_id ?t = ''b''"
    "ti_mission_id ?t = ''m''" "ti_role ?t = tr_role ru" "ti_source ?t = tr_source ru"
    by (simp_all add: sample_intent_def seal_intent_def intent_form_def)
  show ?thesis unfolding validate_intent_def
    using sample_intent_fields [OF assms(1-4)] r d [symmetric] f assms(6) by simp
qed

lemma sample_step:
  assumes "sha256_width E" and "digest_syntax p" "n \<noteq> 0"
    and "mission_transition_rule (map_option mh_state ho) to = Some ru"
    and "case ho of None \<Rightarrow> n = 1
      | Some h \<Rightarrow> mh_head_id h \<noteq> [] \<and> mh_iteration_id h \<noteq> 0 \<and> digest_syntax (mh_packet_digest h) \<and>
          expected_iteration (tr_iteration ru) (mh_iteration_id h) = Inr n \<and>
          packet_rule_check (tr_iteration ru) p (mh_packet_digest h) = Inr ()"
  shows "mission_step E ho (sample_intent E ho ru n p)
    \<lparr>mh_head_id = ''h'', mh_state = to, mh_iteration_id = n, mh_packet_digest = p\<rparr>"
proof -
  let ?t = "sample_intent E ho ru n p"
  have to: "tr_to ru = to" using transition_rule_in_table [OF assms(4)] by simp
  have "head_checks ru ?t ho = Inr ()"
    using assms(5) by (cases ho)
      (simp_all add: head_checks_def sample_intent_def seal_intent_def intent_form_def)
  moreover have "\<forall>h. ho = Some h \<longrightarrow> mh_head_id h \<noteq> []" using assms(5) by auto
  ultimately obtain v where "validate_intent E ?t
      \<lparr>mc_brain_id = ''b'', mc_mission_id = ''m'', mc_head = ho\<rparr> JNull 150 = Inr v"
    using sample_intent_validates [OF assms(1-3) _ assms(4)] by blast
  from mission_step.accept [OF this, of "''h''"] show ?thesis
    by (simp add: next_head_def sample_intent_def seal_intent_def intent_form_def to)
qed

text \<open>A mission that goes straight to landing.\<close>

definition rule_of :: "mission_state option \<Rightarrow> mission_state \<Rightarrow> transition_rule" where
  "rule_of f to = the (mission_transition_rule f to)"

definition sample_head :: "mission_state \<Rightarrow> head_snapshot" where
  "sample_head s = \<lparr>mh_head_id = ''h'', mh_state = s, mh_iteration_id = 1, mh_packet_digest = hex64\<rparr>"

definition sample_move :: "platform \<Rightarrow> mission_state \<Rightarrow> mission_state \<Rightarrow> transition_intent" where
  "sample_move E s to = sample_intent E (Some (sample_head s)) (rule_of (Some s) to) 1 hex64"

definition landing_run :: "platform \<Rightarrow> transition_intent list" where
  "landing_run E =
     [sample_intent E None (rule_of None Dispatching) 1 hex64, sample_move E Dispatching Executing,
      sample_move E Executing Gate, sample_move E Gate MergeWait, sample_move E MergeWait Landed]"

lemma sample_move_step:
  assumes "sha256_width E" and "mission_transition_rule (Some s) to = Some ru"
    and "tr_iteration ru = Preserve"
  shows "mission_step E (Some (sample_head s)) (sample_move E s to) (sample_head to)"
  unfolding sample_move_def sample_head_def [of to] rule_of_def assms(2) option.sel
  by (rule sample_step) (use assms in \<open>simp_all add: sample_head_def expected_iteration_def
      packet_rule_check_def\<close>)

lemma landing_run_ok:
  assumes "sha256_width E"
  shows "mission_run E (landing_run E) (Some (sample_head Landed))"
proof -
  have g: "mission_step E None (sample_intent E None (rule_of None Dispatching) 1 hex64)
      (sample_head Dispatching)"
    unfolding sample_head_def
    by (rule sample_step) (simp_all add: assms rule_of_def mission_transition_rule_def
        MISSION_TRANSITION_RULES_def mk_rule_def)
  have m: "mission_step E (Some (sample_head s)) (sample_move E s to) (sample_head to)"
    if "(s, to) \<in> {(Dispatching, Executing), (Executing, Gate), (Gate, MergeWait), (MergeWait, Landed)}"
    for s to
    using that by (elim insertE emptyE) (simp_all, (rule sample_move_step [OF assms],
        simp add: mission_transition_rule_def MISSION_TRANSITION_RULES_def mk_rule_def, simp)+)
  have "mission_run E ([] @ [sample_intent E None (rule_of None Dispatching) 1 hex64]) (Some (sample_head Dispatching))"
    by (rule mission_run.step [OF mission_run.genesis g])
  from mission_run.step [OF mission_run.step [OF mission_run.step [OF mission_run.step [OF this m] m] m] m]
  show ?thesis by (simp add: landing_run_def)
qed

section \<open>The lifecycle\<close>

text \<open>C26: Over any run of accepted intents the iteration of the head is one more than the number
  of revisions, so it never wraps around, and an iteration has a single packet: two accepted
  intents with the same iteration name the same packet digest.\<close>
theorem mission_iteration_has_one_packet:
  assumes "mission_run E ts (Some h)"
  shows "unat (mh_iteration_id h) = 1 + length (filter (\<lambda>t. ti_from_state t = Some Revising) ts) \<and>
    (\<forall>t \<in> set ts. \<forall>u \<in> set ts. ti_iteration_id t = ti_iteration_id u \<longrightarrow>
       ti_packet_digest t = ti_packet_digest u)"
proof -
  have "run_inv ts h" by (rule mission_run_inv [OF assms refl])
  then have "unat (mh_iteration_id h) = Suc (advances ts)" "one_packet ts"
    unfolding run_inv_def by blast+
  then show ?thesis unfolding advances_def one_packet_def plus_1_eq_Suc by blast
qed

lemma mission_iteration_has_one_packet_witness:
  "unat (mh_iteration_id (sample_head Landed)) =
     1 + length (filter (\<lambda>t. ti_from_state t = Some Revising) (landing_run reference_platform))"
  using mission_iteration_has_one_packet [OF landing_run_ok [OF sha256_width_reference]] by blast

text \<open>C27: A mission waits for merge, is landed or is archived only after the runner's execution
  result opened the gate for the very packet and iteration of the head: no review, decision or
  revision reaches those states around the execution.\<close>
theorem mission_landing_needs_execution:
  assumes "mission_run E ts (Some h)" and "mh_state h \<in> {Review, MergeWait, Landed, Archived}"
  shows "\<exists>t \<in> set ts. ti_from_state t = Some Executing \<and> ti_to_state t = Gate \<and> ti_role t = Runner \<and>
    ti_source t = ExecutionResult \<and> ti_packet_digest t = mh_packet_digest h \<and>
    ti_iteration_id t = mh_iteration_id h"
proof -
  have "run_inv ts h" by (rule mission_run_inv [OF assms(1) refl])
  with assms(2) have "execution_passed ts h" unfolding run_inv_def by blast
  then show ?thesis unfolding execution_passed_def .
qed

lemma mission_landing_needs_execution_witness:
  "\<exists>t \<in> set (landing_run reference_platform). ti_from_state t = Some Executing \<and> ti_role t = Runner"
  using mission_landing_needs_execution [OF landing_run_ok [OF sha256_width_reference]]
  by (auto simp: sample_head_def)

text \<open>A landed, failed or archived mission is closed: no intent is accepted against its head,
  whoever issues it.\<close>
theorem mission_terminal_absorbing:
  assumes "mc_head cx = Some h" and "is_terminal (mh_state h)"
  shows "\<exists>e. validate_intent E t cx payload now_ms = Inl e"
proof (cases "validate_intent E t cx payload now_ms")
  case (Inr v)
  then obtain ru where "mission_transition_rule (ti_from_state t) (ti_to_state t) = Some ru"
    "head_checks ru t (mc_head cx) = Inr ()" by (rule validate_intent_parts)
  moreover from this assms(1) have "ti_from_state t = Some (mh_state h)" by (auto simp: head_checks_def)
  ultimately show ?thesis using transition_rule_terminal assms(2) by simp
qed blast

lemma mission_terminal_absorbing_witness:
  "\<exists>e. validate_intent reference_platform (sample_move reference_platform Landed Archived)
     \<lparr>mc_brain_id = ''b'', mc_mission_id = ''m'', mc_head = Some (sample_head Landed)\<rparr> JNull 150 = Inl e"
  by (rule mission_terminal_absorbing [where h = "sample_head Landed"])
    (simp_all add: sample_head_def is_terminal_def)

text \<open>The head is compared and swapped: of two intents built on the same head at most one is
  ever accepted, because acceptance installs a head with another identifier and the second intent
  then names a stale head.\<close>
theorem mission_head_compare_and_swap:
  assumes "mission_step E ho t g" and "Some (mh_head_id g) \<noteq> ti_expected_head_id t"
    and "ti_expected_head_id u = ti_expected_head_id t"
  shows "\<not> mission_step E (Some g) u k"
proof
  assume "mission_step E (Some g) u k"
  then have "ti_expected_head_id u = Some (mh_head_id g)" by (rule mission_step_next)
  with assms(2,3) show False by simp
qed

lemma mission_head_compare_and_swap_witness:
  "\<forall>k. \<not> mission_step reference_platform (Some (sample_head Dispatching))
     (sample_intent reference_platform None (rule_of None Judging) 1 hex64) k"
proof
  fix k
  let ?t = "sample_intent reference_platform None (rule_of None Dispatching) 1 hex64"
  have "mission_step reference_platform None ?t (sample_head Dispatching)"
    unfolding sample_head_def
    by (rule sample_step) (simp_all add: sha256_width_reference rule_of_def mission_transition_rule_def
        MISSION_TRANSITION_RULES_def mk_rule_def)
  then show "\<not> mission_step reference_platform (Some (sample_head Dispatching))
     (sample_intent reference_platform None (rule_of None Judging) 1 hex64) k"
    by (rule mission_head_compare_and_swap)
      (simp_all add: sample_intent_def seal_intent_def intent_form_def)
qed

section \<open>The contracts\<close>

text \<open>The intent digest pins the intent: two accepted intents with one \<open>intent_digest\<close> agree
  in every field but the signature, and on the canonical payload, or a collision of the hash is
  exhibited.\<close>
theorem intent_digest_pins_intent:
  assumes "serde_writer E"
    and "validate_intent E t cx p n = Inr v" "validate_intent E u dx q m = Inr w"
    and "ti_intent_digest t = ti_intent_digest u"
  shows "u = t\<lparr>ti_signature := ti_signature u\<rparr> \<and>
      (canon p = canon q \<or> canonical_collision E MISSION_TRANSITION_PAYLOAD_DIGEST_DOMAIN p q) \<or>
    canonical_collision E MISSION_TRANSITION_INTENT_DIGEST_DOMAIN
      (sealed_material ''intent_digest'' (json_of_intent t))
      (sealed_material ''intent_digest'' (json_of_intent u))"
proof -
  have t: "ti_intent_digest t = compute_intent_digest E t"
    "ti_payload_digest t = mission_payload_digest_for E p" by (rule validate_intent_digests [OF assms(2)])+
  have u: "ti_intent_digest u = compute_intent_digest E u"
    "ti_payload_digest u = mission_payload_digest_for E q" by (rule validate_intent_digests [OF assms(3)])+
  have "u = t\<lparr>ti_signature := ti_signature u\<rparr> \<and>
      (canon p = canon q \<or> canonical_collision E MISSION_TRANSITION_PAYLOAD_DIGEST_DOMAIN p q)"
    if body: "intent_body t = intent_body u"
  proof
    have restore: "x = (intent_body x)\<lparr>ti_intent_digest := ti_intent_digest x, ti_signature := ti_signature x\<rparr>"
      for x by (cases x) (simp only: intent_body_def transition_intent.update_convs transition_intent.select_convs)
    have "u = (intent_body t)\<lparr>ti_intent_digest := ti_intent_digest t, ti_signature := ti_signature u\<rparr>"
      unfolding body assms(4) by (rule restore)
    then show "u = t\<lparr>ti_signature := ti_signature u\<rparr>" by (simp add: intent_body_def)
    have "ti_payload_digest t = ti_payload_digest u"
      using arg_cong [OF body, of ti_payload_digest] by (simp add: intent_body_def)
    with t(2) u(2) have "mission_payload_digest_for E p = mission_payload_digest_for E q" by simp
    then show "canon p = canon q \<or> canonical_collision E MISSION_TRANSITION_PAYLOAD_DIGEST_DOMAIN p q"
      unfolding mission_payload_digest_for_def by (rule digest_canonical_eq [OF assms(1)])
  qed
  with intent_seal.tamper_evident [OF assms(1) t(1) u(1) assms(4)] show ?thesis by blast
qed

lemma sample_intent_accepted:
  assumes "sha256_width E"
  shows "\<exists>v. validate_intent E (sample_move E Gate MergeWait)
     \<lparr>mc_brain_id = ''b'', mc_mission_id = ''m'', mc_head = Some (sample_head Gate)\<rparr> JNull 150 = Inr v"
  unfolding sample_move_def
  by (rule sample_intent_validates [OF assms, where to = MergeWait])
    (simp_all add: sample_head_def rule_of_def mission_transition_rule_def MISSION_TRANSITION_RULES_def
      mk_rule_def head_checks_def sample_intent_def seal_intent_def intent_form_def
      expected_iteration_def packet_rule_check_def)

lemma intent_digest_pins_intent_witness:
  "\<exists>t. t = t\<lparr>ti_signature := ti_signature t\<rparr> \<and> ti_to_state t = MergeWait \<or>
     canonical_collision reference_platform MISSION_TRANSITION_INTENT_DIGEST_DOMAIN
      (sealed_material ''intent_digest'' (json_of_intent t))
      (sealed_material ''intent_digest'' (json_of_intent t))"
proof -
  let ?t = "sample_move reference_platform Gate MergeWait"
  obtain v where v: "validate_intent reference_platform ?t
     \<lparr>mc_brain_id = ''b'', mc_mission_id = ''m'', mc_head = Some (sample_head Gate)\<rparr> JNull 150 = Inr v"
    using sample_intent_accepted [OF sha256_width_reference] by blast
  have "ti_to_state ?t = MergeWait"
    by (simp add: sample_move_def rule_of_def mission_transition_rule_def MISSION_TRANSITION_RULES_def
        mk_rule_def sample_intent_def seal_intent_def intent_form_def)
  with intent_digest_pins_intent [OF serde_writer_reference v v refl] show ?thesis by blast
qed

definition dispatch_form :: execution_dispatch where
  "dispatch_form =
     \<lparr>ed_schema = EXECUTION_DISPATCH_SCHEMA, ed_execution_id = ''x'', ed_brain_id = ''b'',
      ed_mission_id = ''m'', ed_mission_head_id = ''h'', ed_iteration_id = 1, ed_packet_digest = hex64,
      ed_runner_id = ''r'', ed_idempotency_key = ''i'', ed_issued_at = 100, ed_deadline_at = 200,
      ed_state = Intent, ed_issuer = ''o'', ed_key_id = ''k'', ed_algorithm = ''ed25519'',
      ed_dispatch_digest = [], ed_signature = ''s''\<rparr>"

definition ack_form :: "platform \<Rightarrow> dispatch_ack" where
  "ack_form E =
     \<lparr>ak_schema = EXECUTION_DISPATCH_ACK_SCHEMA, ak_ack_id = ''a'', ak_execution_id = ''x'',
      ak_dispatch_digest = compute_dispatch_digest E dispatch_form, ak_brain_id = ''b'',
      ak_mission_id = ''m'', ak_mission_head_id = ''h'', ak_iteration_id = 1, ak_runner_id = ''r'',
      ak_accepted_at = 199, ak_deduplicated = False, ak_issuer = ''r'', ak_key_id = ''k'',
      ak_algorithm = ''ed25519'', ak_ack_digest = [], ak_signature = ''s''\<rparr>"

lemma sample_ack_accepted:
  assumes "sha256_width E"
  shows "\<exists>v. validate_ack_against E (seal_ack E (ack_form E)) dispatch_form = Inr v"
proof -
  have c: "compute_ack_digest E (seal_ack E (ack_form E)) = compute_ack_digest E (ack_form E)"
    unfolding seal_ack_def by (rule ack_seal.compute_put)
  show ?thesis
    unfolding validate_ack_against_def c
    using dispatch_seal.compute_syntax [OF assms] ack_seal.compute_syntax [OF assms]
    by (simp add: seal_ack_def ack_form_def dispatch_form_def [THEN arg_cong, of ed_state]
        mission_validate_signature_binding_def)
      (simp add: dispatch_form_def bind_dispatch_fields_def)
qed

text \<open>An acknowledgement is accepted only from the dispatch's own runner, for a dispatch that
  is not finished, at a time in the half-open window from issue to deadline, and for the exact
  execution, mission, head and iteration; and one acknowledgement cannot be accepted for two
  dispatches that differ in anything but their signature, unless the hash collides.\<close>
theorem ack_binds_one_dispatch:
  assumes "serde_writer E" and "validate_ack_against E a d = Inr v"
  shows "ed_issued_at d \<le> ak_accepted_at a \<and> ak_accepted_at a < ed_deadline_at d \<and>
    \<not> dispatch_is_terminal (ed_state d) \<and> ak_issuer a = ed_runner_id d \<and>
    ak_execution_id a = ed_execution_id d \<and> ak_mission_head_id a = ed_mission_head_id d \<and>
    ak_iteration_id a = ed_iteration_id d \<and>
    (\<forall>d' w. validate_ack_against E a d' = Inr w \<longrightarrow> dispatch_body d' = dispatch_body d \<or>
       canonical_collision E EXECUTION_DISPATCH_DIGEST_DOMAIN
         (sealed_material ''dispatch_digest'' (json_of_dispatch d'))
         (sealed_material ''dispatch_digest'' (json_of_dispatch d)))"
proof -
  have pin: "ak_dispatch_digest a = compute_dispatch_digest E d'"
    if "validate_ack_against E a d' = Inr w" for d' w
    using that unfolding validate_ack_against_def by simp
  have "dispatch_body d' = dispatch_body d \<or>
       canonical_collision E EXECUTION_DISPATCH_DIGEST_DOMAIN
         (sealed_material ''dispatch_digest'' (json_of_dispatch d'))
         (sealed_material ''dispatch_digest'' (json_of_dispatch d))"
    if "validate_ack_against E a d' = Inr w" for d' w
  proof (rule dispatch_seal.compute_eq_body [OF assms(1)])
    show "compute_dispatch_digest E d' = compute_dispatch_digest E d"
      using pin [OF that] pin [OF assms(2)] by (rule subst)
  qed
  moreover have "ed_issued_at d \<le> ak_accepted_at a" "ak_accepted_at a < ed_deadline_at d"
    "ed_state d \<in> {Intent, Acked}" "ak_issuer a = ak_runner_id a"
    "bind_dispatch_fields ''execution dispatch ACK'' (ak_execution_id a) (ak_brain_id a)
             (ak_mission_id a) (ak_mission_head_id a) (ak_iteration_id a) (ak_runner_id a) d = Inr ()"
    using assms(2) unfolding validate_ack_against_def by auto
  ultimately show ?thesis
    by (auto simp: bind_dispatch_fields_def dispatch_is_terminal_def)
qed

lemma ack_binds_one_dispatch_witness:
  "(199 :: u64) < 200 \<and> ed_state dispatch_form = Intent \<and>
   ak_accepted_at (ack_form reference_platform) < ed_deadline_at dispatch_form"
proof -
  obtain v where "validate_ack_against reference_platform
      (seal_ack reference_platform (ack_form reference_platform)) dispatch_form = Inr v"
    using sample_ack_accepted [OF sha256_width_reference] by blast
  from ack_binds_one_dispatch [OF serde_writer_reference this] show ?thesis
    by (simp add: seal_ack_def ack_form_def dispatch_form_def)
qed

definition review_form :: review_result where
  "review_form =
     \<lparr>rv_schema = REVIEW_RESULT_SCHEMA, rv_result_id = ''x'', rv_brain_id = ''b'',
      rv_mission_id = ''m'', rv_mission_head_id = ''h'', rv_iteration_id = 1, rv_reviewer_id = ''r'',
      rv_reviewed_state = Review, rv_packet_digest = hex64, rv_decision = Approve,
      rv_verdict_digest = hex64, rv_binding_changes_digest = None, rv_gate_digest = Some hex64,
      rv_candidate_digest = Some hex64b, rv_issued_at = 100, rv_issuer = ''r'', rv_key_id = ''k'',
      rv_algorithm = ''ed25519'', rv_result_digest = [], rv_signature = ''s''\<rparr>"

lemma sample_review_accepted:
  assumes "sha256_width E"
  shows "\<exists>v. validate_review_against_head E (seal_review E review_form)
    \<lparr>mc_brain_id = ''b'', mc_mission_id = ''m'', mc_head = Some (sample_head Review)\<rparr> 150 = Inr v"
proof -
  have c: "compute_review_result_digest E (seal_review E review_form)
      = compute_review_result_digest E review_form"
    unfolding seal_review_def by (rule review_seal.compute_put)
  have d: "rv_result_digest (seal_review E review_form) = compute_review_result_digest E review_form"
    by (simp add: seal_review_def)
  have f: "validate_review_shape (seal_review E review_form) = Inr ()"
    by (simp add: validate_review_shape_def seal_review_def review_form_def review_require_def
        review_forbid_def)
  show ?thesis
    unfolding validate_review_against_head_def c d
    using review_seal.compute_syntax [OF assms, of review_form] f
    by (simp add: seal_review_def)
      (simp add: review_form_def sample_head_def mission_validate_signature_binding_def
        mission_require_optional_digest_def mission_validate_issued_at_def saturating_add_def
        DEFAULT_MISSION_CLOCK_SKEW_MS_def)
qed

text \<open>An accepted review result leads to an edge of the transition table: the state it
  decides for is a move of the reviewer from the state of the current head, which keeps the
  iteration and the packet, and an approval out of \<open>review\<close> names the gate and the candidate.\<close>
theorem review_follows_table:
  assumes "validate_review_against_head E r cx now_ms = Inr v"
  shows "\<exists>h to ru. mc_head cx = Some h \<and> mh_head_id h = rv_mission_head_id r \<and>
    review_expected_transition (mh_state h) (rv_decision r) = Inr to \<and>
    mission_transition_rule (Some (mh_state h)) to = Some ru \<and>
    tr_role ru = Reviewer \<and> tr_source ru = ReviewResult \<and> tr_iteration ru = Preserve \<and>
    rv_iteration_id r = mh_iteration_id h \<and> rv_packet_digest r = mh_packet_digest h \<and>
    (to = MergeWait \<longrightarrow> rv_gate_digest r \<noteq> None \<and> rv_candidate_digest r \<noteq> None)"
proof -
  from assms obtain h to where h: "mc_head cx = Some h" "mh_head_id h = rv_mission_head_id r"
    "rv_reviewed_state r = mh_state h" "rv_iteration_id r = mh_iteration_id h"
    "rv_packet_digest r = mh_packet_digest h"
    and to: "review_expected_transition (rv_reviewed_state r) (rv_decision r) = Inr to"
    and shape: "validate_review_shape r = Inr ()"
    unfolding validate_review_against_head_def by auto
  from to have "mission_transition_rule (Some (rv_reviewed_state r)) to
      = Some (mk_rule (Some (rv_reviewed_state r)) to Reviewer ReviewResult Preserve)"
    by (cases "(rv_reviewed_state r, rv_decision r)" rule: review_expected_transition.cases)
      (auto simp: mission_transition_rule_def MISSION_TRANSITION_RULES_def mk_rule_def)
  moreover from to shape have "to = MergeWait \<longrightarrow> rv_gate_digest r \<noteq> None \<and> rv_candidate_digest r \<noteq> None"
    by (cases "(rv_reviewed_state r, rv_decision r)" rule: review_expected_transition.cases)
      (auto simp: validate_review_shape_def review_require_def Let_def)
  ultimately show ?thesis using h to by (auto simp: mk_rule_def)
qed

lemma review_follows_table_witness:
  "\<exists>ru. mission_transition_rule (Some Review) MergeWait = Some ru \<and> tr_role ru = Reviewer"
proof -
  obtain v where "validate_review_against_head reference_platform (seal_review reference_platform review_form)
    \<lparr>mc_brain_id = ''b'', mc_mission_id = ''m'', mc_head = Some (sample_head Review)\<rparr> 150 = Inr v"
    using sample_review_accepted [OF sha256_width_reference] by blast
  from review_follows_table [OF this] show ?thesis
    by (simp add: seal_review_def review_form_def sample_head_def) blast
qed

definition execution_form :: "platform \<Rightarrow> execution_result" where
  "execution_form E =
     \<lparr>er_schema = EXECUTION_RESULT_SCHEMA, er_result_id = ''y'', er_execution_id = ''x'',
      er_dispatch_digest = compute_dispatch_digest E dispatch_form, er_brain_id = ''b'',
      er_mission_id = ''m'', er_mission_head_id = ''h'', er_iteration_id = 1, er_runner_id = ''r'',
      er_outcome = Succeeded, er_command = [''cargo'', ''test''], er_exit_status = Some 0,
      er_started_at = 120, er_ended_at = 130, er_log_digest = hex64,
      er_failure_artifact_digest = None, er_issuer = ''r'', er_key_id = ''k'',
      er_algorithm = ''ed25519'', er_result_digest = [], er_signature = ''s''\<rparr>"

lemma sample_execution_accepted:
  assumes "sha256_width E"
  shows "\<exists>v. validate_execution_against E (seal_execution_result E (execution_form E)) dispatch_form
    \<lparr>mc_brain_id = ''b'', mc_mission_id = ''m'', mc_head = Some (sample_head Executing)\<rparr> = Inr v"
proof -
  have c: "compute_execution_result_digest E (seal_execution_result E (execution_form E))
      = compute_execution_result_digest E (execution_form E)"
    unfolding seal_execution_result_def by (rule execution_seal.compute_put)
  have d: "er_result_digest (seal_execution_result E (execution_form E))
      = compute_execution_result_digest E (execution_form E)"
    by (simp add: seal_execution_result_def)
  have f: "outcome_check (seal_execution_result E (execution_form E)) = Inr ()"
    by (simp add: outcome_check_def seal_execution_result_def execution_form_def)
  show ?thesis
    unfolding validate_execution_against_def c d
    using execution_seal.compute_syntax [OF assms, of "execution_form E"]
      dispatch_seal.compute_syntax [OF assms] f
    by (simp add: seal_execution_result_def)
      (simp add: execution_form_def sample_head_def mission_validate_signature_binding_def
        mission_require_optional_digest_def, simp add: dispatch_form_def bind_execution_dispatch_fields_def)
qed

text \<open>An accepted execution result leads to the runner's edge of the table from the executing
  head: to the gate exactly when the command exited with status zero and left no failure
  artifact, otherwise to \<open>failed\<close> with an artifact; it is bound to the packet and the iteration
  of the head and of the dispatch.\<close>
theorem execution_follows_table:
  assumes "validate_execution_against E r d cx = Inr v"
  shows "\<exists>h ru. mc_head cx = Some h \<and> mh_state h = Executing \<and> mh_head_id h = er_mission_head_id r \<and>
    mission_transition_rule (Some Executing) (execution_expected_transition (er_outcome r)) = Some ru \<and>
    tr_role ru = Runner \<and> tr_source ru = ExecutionResult \<and>
    (execution_expected_transition (er_outcome r) = Gate \<longleftrightarrow>
       er_exit_status r = Some 0 \<and> er_failure_artifact_digest r = None) \<and>
    (execution_expected_transition (er_outcome r) = Failed \<longrightarrow> er_failure_artifact_digest r \<noteq> None) \<and>
    er_iteration_id r = mh_iteration_id h \<and> ed_iteration_id d = mh_iteration_id h \<and>
    ed_packet_digest d = mh_packet_digest h \<and> er_started_at r \<le> er_ended_at r"
proof -
  from assms obtain h where h: "mc_head cx = Some h" "mh_state h = Executing"
    "mh_head_id h = er_mission_head_id r" "er_iteration_id r = mh_iteration_id h"
    "ed_packet_digest d = mh_packet_digest h"
    and rest: "outcome_check r = Inr ()" "er_started_at r \<le> er_ended_at r"
    "bind_execution_dispatch_fields ''execution result'' (er_execution_id r) (er_brain_id r)
             (er_mission_id r) (er_iteration_id r) (er_runner_id r) d = Inr ()"
    unfolding validate_execution_against_def by auto
  have "mission_transition_rule (Some Executing) (execution_expected_transition (er_outcome r))
      = Some (mk_rule (Some Executing) (execution_expected_transition (er_outcome r)) Runner
          ExecutionResult Preserve)"
    by (cases "er_outcome r")
      (simp_all add: mission_transition_rule_def MISSION_TRANSITION_RULES_def mk_rule_def)
  moreover have "ed_iteration_id d = mh_iteration_id h"
    using rest(3) h(4) by (simp add: bind_execution_dispatch_fields_def)
  moreover have "(execution_expected_transition (er_outcome r) = Gate \<longleftrightarrow>
       er_exit_status r = Some 0 \<and> er_failure_artifact_digest r = None) \<and>
    (execution_expected_transition (er_outcome r) = Failed \<longrightarrow> er_failure_artifact_digest r \<noteq> None)"
    using rest(1) by (cases "er_outcome r") (auto simp: outcome_check_def)
  ultimately show ?thesis using h rest(2) by (simp add: mk_rule_def)
qed

lemma execution_follows_table_witness:
  "\<exists>ru. mission_transition_rule (Some Executing) Gate = Some ru \<and> tr_role ru = Runner"
proof -
  obtain v where "validate_execution_against reference_platform
      (seal_execution_result reference_platform (execution_form reference_platform)) dispatch_form
    \<lparr>mc_brain_id = ''b'', mc_mission_id = ''m'', mc_head = Some (sample_head Executing)\<rparr> = Inr v"
    using sample_execution_accepted [OF sha256_width_reference] by blast
  from execution_follows_table [OF this] show ?thesis
    by (simp add: seal_execution_result_def execution_form_def) blast
qed

end
