(* ===== verification/Identity.thy ===== *)
theory Identity
  imports Action_Policy Reference_Platform
begin

text \<open>
  \<open>m1nd-control/src/identity.rs\<close>: enrollment evidence, client and owner identities, the
  registry of human keys, the owner challenge, the human approval and the human decision, with
  their validators in the order of the code.  A \<open>BTreeSet\<close> of strings and a \<open>BTreeMap\<close> are
  kept as the list of their elements in the order of traversal.
\<close>

section \<open>Contracts\<close>

definition ENROLLMENT_PUBLIC_KEY_DIGEST_DOMAIN :: string where
  "ENROLLMENT_PUBLIC_KEY_DIGEST_DOMAIN = ''m1nd-enrollment-public-key-v1''"
definition ENROLLMENT_SCOPES_DIGEST_DOMAIN :: string where
  "ENROLLMENT_SCOPES_DIGEST_DOMAIN = ''m1nd-enrollment-scopes-v1''"
definition OWNER_CHALLENGE_DIGEST_DOMAIN :: string where
  "OWNER_CHALLENGE_DIGEST_DOMAIN = ''m1nd-owner-challenge-v1''"
definition HUMAN_APPROVAL_DIGEST_DOMAIN :: string where
  "HUMAN_APPROVAL_DIGEST_DOMAIN = ''m1nd-human-approval-v1''"

datatype identity_status = Active | Revoked | Expired | Rotated

datatype identity_integrity = OpaqueSignaturePresentUnverified

record identity_validation =
  iv_integrity :: identity_integrity

definition opaque_signature_unverified :: identity_validation where
  "opaque_signature_unverified = \<lparr>iv_integrity = OpaqueSignaturePresentUnverified\<rparr>"

record enrollment_evidence =
  en_enrollment_id :: string
  en_issuer :: string
  en_issuer_key_id :: string
  en_algorithm :: string
  en_subject_id :: string
  en_key_id :: string
  en_public_key_digest :: string
  en_app_host_identity :: string
  en_scopes_digest :: string
  en_audience :: string
  en_nonce :: string
  en_session_context_digest :: string
  en_issued_at :: u64
  en_expires_at :: u64
  en_signature :: string

record client_identity =
  ci_subject_id :: string
  ci_key_id :: string
  ci_public_key :: string
  ci_app_host_identity :: string
  ci_enrollment_evidence :: enrollment_evidence
  ci_scopes :: "string list"
  ci_created_at :: u64
  ci_revoked_at :: "u64 option"
  ci_status :: identity_status

record owner_identity =
  oi_owner_id :: string
  oi_key_id :: string
  oi_non_exportable_public_key :: string
  oi_pinned_trust_anchor :: string
  oi_protected_latest_epoch :: u64

record human_key =
  hk_key_id :: string
  hk_subject_id :: string
  hk_platform :: string
  hk_public_key :: string
  hk_attestation_class :: string
  hk_created_at :: u64
  hk_rotated_at :: "u64 option"
  hk_revoked_at :: "u64 option"
  hk_status :: identity_status

record human_key_registry =
  hr_owner_id :: string
  hr_registry_epoch :: u64
  hr_keys :: "(string \<times> human_key) list"

record owner_challenge =
  oc_challenge_id :: string
  oc_intent_digest :: string
  oc_intent_core_ref :: string
  oc_intent_canonicalization_version :: string
  oc_organism_id :: string
  oc_repo_id :: string
  oc_issuer_subject_id :: string
  oc_decision_subject_id :: string
  oc_caller_subject_id :: string
  oc_proposer_subject_id :: string
  oc_executor_subject_id :: "string option"
  oc_delegation_grant_digest :: "string option"
  oc_audience :: string
  oc_session_context_digest :: string
  oc_action :: string
  oc_required_authority_variant :: authority_variant
  oc_action_policy_registry_digest :: string
  oc_classifier_decision_digest :: string
  oc_active_mode :: active_mode
  oc_constitution_digest :: string
  oc_constitution_epoch :: u64
  oc_autonomy_epoch :: u64
  oc_brain_id :: string
  oc_mission_id :: "string option"
  oc_mission_head_id :: "string option"
  oc_block_id :: "string option"
  oc_candidate_digest :: "string option"
  oc_risk_scope_digest :: string
  oc_expected_store_epoch :: u64
  oc_expected_store_version :: u64
  oc_expected_boundary_version :: u64
  oc_expected_contract_version :: u64
  oc_idempotency_key :: string
  oc_payload_digest :: string
  oc_canonical_summary :: string
  oc_nonce :: string
  oc_expires_at :: u64
  oc_owner_signature :: string

record human_approval =
  ha_challenge_id :: string
  ha_canonical_challenge_digest :: string
  ha_key_id :: string
  ha_subject_id :: string
  ha_user_presence_flags :: string
  ha_counter :: u64
  ha_signature :: string

record human_decision =
  hd_decision_id :: string
  hd_intent_digest :: string
  hd_intent_core_ref :: string
  hd_intent_canonicalization_version :: string
  hd_human_approval_digest :: string
  hd_issuer_subject_id :: string

datatype identity_error =
    EmptyRequired string
  | EmptyCollection string
  | EmptyCollectionValue string
  | IssuedInFuture string u64 u64
  | InvalidTimeOrder string u64 u64
  | ExpiredAt string u64 u64
  | ExpiredStatus string
  | RevokedRecord string
  | RotatedRecord string
  | InactiveStatus string identity_status
  | EnrollmentBindingMismatch string
  | HumanKeyMapMismatch string string
  | HumanKeyNotFound string
  | WrongOwner string string
  | WrongChallengeAuthority authority_variant
  | WrongChallengeMode active_mode
  | IncompleteMissionBinding
  | ChallengeExpired u64 u64
  | ChallengeIdMismatch
  | ChallengeDigestMismatch string string
  | ApprovalDecisionSubjectMismatch string string
  | ApprovalKeySubjectMismatch string string
  | DecisionChallengeMismatch string
  | ApprovalDigestMismatch string string

section \<open>Digests\<close>

definition json_of_challenge :: "owner_challenge \<Rightarrow> json" where
  "json_of_challenge c = JObject
    [(''challenge_id'', JString (oc_challenge_id c)),
     (''intent_digest'', JString (oc_intent_digest c)),
     (''intent_core_ref'', JString (oc_intent_core_ref c)),
     (''intent_canonicalization_version'', JString (oc_intent_canonicalization_version c)),
     (''organism_id'', JString (oc_organism_id c)),
     (''repo_id'', JString (oc_repo_id c)),
     (''issuer_subject_id'', JString (oc_issuer_subject_id c)),
     (''decision_subject_id'', JString (oc_decision_subject_id c)),
     (''caller_subject_id'', JString (oc_caller_subject_id c)),
     (''proposer_subject_id'', JString (oc_proposer_subject_id c)),
     (''executor_subject_id'', json_opt JString (oc_executor_subject_id c)),
     (''delegation_grant_digest'', json_opt JString (oc_delegation_grant_digest c)),
     (''audience'', JString (oc_audience c)),
     (''session_context_digest'', JString (oc_session_context_digest c)),
     (''action'', JString (oc_action c)),
     (''required_authority_variant'', JString (variant_name (oc_required_authority_variant c))),
     (''action_policy_registry_digest'', JString (oc_action_policy_registry_digest c)),
     (''classifier_decision_digest'', JString (oc_classifier_decision_digest c)),
     (''active_mode'', JString (mode_name (oc_active_mode c))),
     (''constitution_digest'', JString (oc_constitution_digest c)),
     (''constitution_epoch'', json_u64 (oc_constitution_epoch c)),
     (''autonomy_epoch'', json_u64 (oc_autonomy_epoch c)),
     (''brain_id'', JString (oc_brain_id c)),
     (''mission_id'', json_opt JString (oc_mission_id c)),
     (''mission_head_id'', json_opt JString (oc_mission_head_id c)),
     (''block_id'', json_opt JString (oc_block_id c)),
     (''candidate_digest'', json_opt JString (oc_candidate_digest c)),
     (''risk_scope_digest'', JString (oc_risk_scope_digest c)),
     (''expected_store_epoch'', json_u64 (oc_expected_store_epoch c)),
     (''expected_store_version'', json_u64 (oc_expected_store_version c)),
     (''expected_boundary_version'', json_u64 (oc_expected_boundary_version c)),
     (''expected_contract_version'', json_u64 (oc_expected_contract_version c)),
     (''idempotency_key'', JString (oc_idempotency_key c)),
     (''payload_digest'', JString (oc_payload_digest c)),
     (''canonical_summary'', JString (oc_canonical_summary c)),
     (''nonce'', JString (oc_nonce c)),
     (''expires_at'', json_u64 (oc_expires_at c)),
     (''owner_signature'', JString (oc_owner_signature c))]"

definition json_of_approval :: "human_approval \<Rightarrow> json" where
  "json_of_approval a = JObject
    [(''challenge_id'', JString (ha_challenge_id a)),
     (''canonical_challenge_digest'', JString (ha_canonical_challenge_digest a)),
     (''key_id'', JString (ha_key_id a)),
     (''subject_id'', JString (ha_subject_id a)),
     (''user_presence_flags'', JString (ha_user_presence_flags a)),
     (''counter'', json_u64 (ha_counter a)),
     (''signature'', JString (ha_signature a))]"

definition public_key_digest :: "platform \<Rightarrow> string \<Rightarrow> string" where
  "public_key_digest E public_key = digest_domain_bytes E ENROLLMENT_PUBLIC_KEY_DIGEST_DOMAIN public_key"

definition scopes_digest :: "platform \<Rightarrow> string list \<Rightarrow> string" where
  "scopes_digest E scopes = digest_canonical E ENROLLMENT_SCOPES_DIGEST_DOMAIN (JArray (map JString scopes))"

definition challenge_digest :: "platform \<Rightarrow> owner_challenge \<Rightarrow> string" where
  "challenge_digest E c = digest_canonical E OWNER_CHALLENGE_DIGEST_DOMAIN (json_of_challenge c)"

definition approval_digest :: "platform \<Rightarrow> human_approval \<Rightarrow> string" where
  "approval_digest E a = digest_canonical E HUMAN_APPROVAL_DIGEST_DOMAIN (json_of_approval a)"

section \<open>Field checks\<close>

definition identity_require_non_empty :: "string \<Rightarrow> string \<Rightarrow> identity_error + unit" where
  "identity_require_non_empty field value = (if trims_empty value then Err (EmptyRequired field) else Ok ())"

definition identity_validate_optional_non_empty :: "string \<Rightarrow> string option \<Rightarrow> identity_error + unit" where
  "identity_validate_optional_non_empty field value =
     (case value of
        Some v \<Rightarrow> if trims_empty v then Err (EmptyRequired field) else Ok ()
      | None \<Rightarrow> Ok ())"

definition require_signature :: "string \<Rightarrow> string \<Rightarrow> identity_error + unit" where
  "require_signature field signature =
     (if trims_empty signature then Err (EmptyRequired field) else Ok ())"

text \<open>A loop \<open>for (field, value) in [...] { require_non_empty(field, value)?; }\<close>.\<close>

definition identity_required :: "(string \<times> string) list \<Rightarrow> (identity_error + unit) list" where
  "identity_required fs = map (\<lambda>(f, v). identity_require_non_empty f v) fs"

section \<open>Enrollment and clients\<close>

definition validate_enrollment :: "enrollment_evidence \<Rightarrow> u64 \<Rightarrow> identity_error + identity_validation" where
  "validate_enrollment e now_ms =
     and_then (seq_checks
       (identity_required
          [(''enrollment_id'', en_enrollment_id e), (''issuer'', en_issuer e),
           (''issuer_key_id'', en_issuer_key_id e), (''algorithm'', en_algorithm e),
           (''subject_id'', en_subject_id e), (''key_id'', en_key_id e),
           (''public_key_digest'', en_public_key_digest e),
           (''app_host_identity'', en_app_host_identity e), (''scopes_digest'', en_scopes_digest e),
           (''audience'', en_audience e), (''nonce'', en_nonce e),
           (''session_context_digest'', en_session_context_digest e)]
        @ [require_signature ''signature'' (en_signature e),
           check (\<not> en_expires_at e \<le> en_issued_at e)
             (InvalidTimeOrder ''enrollment evidence'' (en_issued_at e) (en_expires_at e)),
           check (\<not> en_issued_at e > now_ms)
             (IssuedInFuture ''enrollment evidence'' (en_issued_at e) now_ms),
           check (\<not> now_ms \<ge> en_expires_at e)
             (ExpiredAt ''enrollment evidence'' (en_expires_at e) now_ms)]))
     (\<lambda>_. Ok opaque_signature_unverified)"

definition client_status_check :: "client_identity \<Rightarrow> identity_error + unit" where
  "client_status_check c =
     (case ci_status c of
        Active \<Rightarrow> if ci_revoked_at c = None then Ok () else Err (RevokedRecord ''client identity'')
      | Revoked \<Rightarrow> Err (RevokedRecord ''client identity'')
      | status \<Rightarrow> Err (InactiveStatus ''client identity'' status))"

definition validate_client ::
  "platform \<Rightarrow> client_identity \<Rightarrow> u64 \<Rightarrow> identity_error + identity_validation" where
  "validate_client E c now_ms =
     (let e = ci_enrollment_evidence c in
      and_then (seq_checks
        (identity_required
           [(''subject_id'', ci_subject_id c), (''key_id'', ci_key_id c),
            (''public_key'', ci_public_key c), (''app_host_identity'', ci_app_host_identity c)]
         @ [check (ci_scopes c \<noteq> []) (EmptyCollection ''scopes''),
            check (\<not> list_ex trims_empty (ci_scopes c)) (EmptyCollectionValue ''scopes''),
            check (\<not> ci_created_at c > now_ms) (IssuedInFuture ''client identity'' (ci_created_at c) now_ms),
            client_status_check c,
            and_then (validate_enrollment e now_ms) (\<lambda>_. Ok ())]
         @ map (\<lambda>(f, m). check m (EnrollmentBindingMismatch f))
             [(''subject_id'', en_subject_id e = ci_subject_id c),
              (''key_id'', en_key_id e = ci_key_id c),
              (''app_host_identity'', en_app_host_identity e = ci_app_host_identity c),
              (''public_key_digest'', en_public_key_digest e = public_key_digest E (ci_public_key c)),
              (''scopes_digest'', en_scopes_digest e = scopes_digest E (ci_scopes c))]
         @ [check (\<not> ci_created_at c < en_issued_at e)
              (InvalidTimeOrder ''client identity enrollment'' (en_issued_at e) (ci_created_at c))]))
      (\<lambda>_. Ok opaque_signature_unverified))"

definition validate_owner :: "owner_identity \<Rightarrow> identity_error + unit" where
  "validate_owner ow = seq_checks (identity_required
     [(''owner_id'', oi_owner_id ow), (''key_id'', oi_key_id ow),
      (''non_exportable_public_key'', oi_non_exportable_public_key ow),
      (''pinned_trust_anchor'', oi_pinned_trust_anchor ow)])"

definition validate_client_for_owner ::
  "platform \<Rightarrow> client_identity \<Rightarrow> owner_identity \<Rightarrow> u64 \<Rightarrow> identity_error + identity_validation" where
  "validate_client_for_owner E c ow now_ms =
     and_then (validate_client E c now_ms) (\<lambda>validation.
     and_then (seq_checks
       ([validate_owner ow]
        @ map (\<lambda>(f, m). check m (EnrollmentBindingMismatch f))
            [(''issuer'', en_issuer (ci_enrollment_evidence c) = oi_owner_id ow),
             (''issuer_key_id'', en_issuer_key_id (ci_enrollment_evidence c) = oi_key_id ow)]))
     (\<lambda>_. Ok validation))"

section \<open>Human keys\<close>

definition validate_key_record :: "human_key \<Rightarrow> u64 \<Rightarrow> identity_error + unit" where
  "validate_key_record k now_ms = seq_checks
     (identity_required
        [(''key_id'', hk_key_id k), (''subject_id'', hk_subject_id k), (''platform'', hk_platform k),
         (''public_key'', hk_public_key k), (''attestation_class'', hk_attestation_class k)]
      @ [check (\<not> hk_created_at k > now_ms) (IssuedInFuture ''human key'' (hk_created_at k) now_ms)]
      @ map (\<lambda>changed_at. check (\<not> changed_at < hk_created_at k)
              (InvalidTimeOrder ''human key lifecycle'' (hk_created_at k) changed_at))
          (List.map_filter id [hk_rotated_at k, hk_revoked_at k])
      @ [check (\<not> (hk_status k = Active \<and> (hk_rotated_at k \<noteq> None \<or> hk_revoked_at k \<noteq> None)))
           (InactiveStatus ''human key with terminal lifecycle timestamp'' (hk_status k)),
         check (\<not> (hk_status k = Revoked \<and> hk_revoked_at k = None))
           (InactiveStatus ''human key without revoked_at'' (hk_status k)),
         check (\<not> (hk_status k = Rotated \<and> hk_rotated_at k = None))
           (InactiveStatus ''human key without rotated_at'' (hk_status k))])"

definition validate_key_for_approval :: "human_key \<Rightarrow> u64 \<Rightarrow> identity_error + unit" where
  "validate_key_for_approval k now_ms =
     and_then (validate_key_record k now_ms) (\<lambda>_.
       case hk_status k of
         Active \<Rightarrow> Ok ()
       | Revoked \<Rightarrow> Err (RevokedRecord ''human key'')
       | Expired \<Rightarrow> Err (ExpiredStatus ''human key'')
       | Rotated \<Rightarrow> Err (RotatedRecord ''human key''))"

definition validate_key_registry :: "human_key_registry \<Rightarrow> u64 \<Rightarrow> identity_error + unit" where
  "validate_key_registry r now_ms = seq_checks
     ([identity_require_non_empty ''owner_id'' (hr_owner_id r),
       check (hr_keys r \<noteq> []) (EmptyCollection ''keys'')]
      @ concat (map (\<lambda>(map_key, k).
          [identity_require_non_empty ''keys map key'' map_key,
           validate_key_record k now_ms,
           check (map_key = hk_key_id k) (HumanKeyMapMismatch map_key (hk_key_id k))]) (hr_keys r)))"

definition active_key :: "human_key_registry \<Rightarrow> string \<Rightarrow> u64 \<Rightarrow> identity_error + human_key" where
  "active_key r key_id now_ms =
     and_then (ok_or (map_of (hr_keys r) key_id) (HumanKeyNotFound key_id)) (\<lambda>k.
     and_then (validate_key_for_approval k now_ms) (\<lambda>_. Ok k))"

section \<open>Challenge, approval and decision\<close>

definition challenge_required :: "owner_challenge \<Rightarrow> (string \<times> string) list" where
  "challenge_required c =
    [(''challenge_id'', oc_challenge_id c),
     (''intent_digest'', oc_intent_digest c),
     (''intent_core_ref'', oc_intent_core_ref c),
     (''intent_canonicalization_version'', oc_intent_canonicalization_version c),
     (''organism_id'', oc_organism_id c),
     (''repo_id'', oc_repo_id c),
     (''issuer_subject_id'', oc_issuer_subject_id c),
     (''decision_subject_id'', oc_decision_subject_id c),
     (''caller_subject_id'', oc_caller_subject_id c),
     (''proposer_subject_id'', oc_proposer_subject_id c),
     (''audience'', oc_audience c),
     (''session_context_digest'', oc_session_context_digest c),
     (''action'', oc_action c),
     (''action_policy_registry_digest'', oc_action_policy_registry_digest c),
     (''classifier_decision_digest'', oc_classifier_decision_digest c),
     (''constitution_digest'', oc_constitution_digest c),
     (''brain_id'', oc_brain_id c),
     (''risk_scope_digest'', oc_risk_scope_digest c),
     (''idempotency_key'', oc_idempotency_key c),
     (''payload_digest'', oc_payload_digest c),
     (''canonical_summary'', oc_canonical_summary c),
     (''nonce'', oc_nonce c)]"

definition challenge_optional :: "owner_challenge \<Rightarrow> (string \<times> string option) list" where
  "challenge_optional c =
    [(''executor_subject_id'', oc_executor_subject_id c),
     (''delegation_grant_digest'', oc_delegation_grant_digest c),
     (''mission_id'', oc_mission_id c),
     (''mission_head_id'', oc_mission_head_id c),
     (''block_id'', oc_block_id c),
     (''candidate_digest'', oc_candidate_digest c)]"

definition validate_challenge ::
  "owner_challenge \<Rightarrow> owner_identity \<Rightarrow> u64 \<Rightarrow> identity_error + identity_validation" where
  "validate_challenge c ow now_ms =
     and_then (seq_checks
       ([validate_owner ow]
        @ identity_required (challenge_required c)
        @ map (\<lambda>(f, v). identity_validate_optional_non_empty f v) (challenge_optional c)
        @ [require_signature ''owner_signature'' (oc_owner_signature c),
           check (oc_issuer_subject_id c = oi_owner_id ow)
             (WrongOwner (oc_issuer_subject_id c) (oi_owner_id ow)),
           check (oc_required_authority_variant c = Human)
             (WrongChallengeAuthority (oc_required_authority_variant c)),
           check (oc_active_mode c \<noteq> FullAutonomy) (WrongChallengeMode (oc_active_mode c)),
           check ((oc_mission_id c \<noteq> None) = (oc_mission_head_id c \<noteq> None)) IncompleteMissionBinding,
           check (\<not> now_ms \<ge> oc_expires_at c) (ChallengeExpired (oc_expires_at c) now_ms)]))
     (\<lambda>_. Ok opaque_signature_unverified)"

definition validate_approval ::
  "platform \<Rightarrow> human_approval \<Rightarrow> owner_challenge \<Rightarrow> owner_identity \<Rightarrow> human_key_registry \<Rightarrow> u64
     \<Rightarrow> identity_error + identity_validation" where
  "validate_approval E a c ow r now_ms =
     and_then (seq_checks
       (identity_required
          [(''challenge_id'', ha_challenge_id a),
           (''canonical_challenge_digest'', ha_canonical_challenge_digest a),
           (''key_id'', ha_key_id a), (''subject_id'', ha_subject_id a),
           (''user_presence_flags'', ha_user_presence_flags a)]
        @ [require_signature ''signature'' (ha_signature a),
           and_then (validate_challenge c ow now_ms) (\<lambda>_. Ok ()),
           validate_key_registry r now_ms,
           check (hr_owner_id r = oi_owner_id ow) (WrongOwner (hr_owner_id r) (oi_owner_id ow)),
           check (ha_challenge_id a = oc_challenge_id c) ChallengeIdMismatch,
           check (ha_canonical_challenge_digest a = challenge_digest E c)
             (ChallengeDigestMismatch (challenge_digest E c) (ha_canonical_challenge_digest a)),
           check (ha_subject_id a = oc_decision_subject_id c)
             (ApprovalDecisionSubjectMismatch (ha_subject_id a) (oc_decision_subject_id c))]))
     (\<lambda>_. and_then (active_key r (ha_key_id a) now_ms) (\<lambda>k.
        if ha_subject_id a \<noteq> hk_subject_id k then
          Err (ApprovalKeySubjectMismatch (ha_subject_id a) (hk_subject_id k))
        else Ok opaque_signature_unverified))"

definition validate_decision ::
  "platform \<Rightarrow> human_decision \<Rightarrow> owner_challenge \<Rightarrow> human_approval \<Rightarrow> owner_identity
     \<Rightarrow> human_key_registry \<Rightarrow> u64 \<Rightarrow> identity_error + identity_validation" where
  "validate_decision E d c a ow r now_ms =
     and_then (seq_checks
       (identity_required
          [(''decision_id'', hd_decision_id d), (''intent_digest'', hd_intent_digest d),
           (''intent_core_ref'', hd_intent_core_ref d),
           (''intent_canonicalization_version'', hd_intent_canonicalization_version d),
           (''human_approval_digest'', hd_human_approval_digest d),
           (''issuer_subject_id'', hd_issuer_subject_id d)]
        @ [and_then (validate_approval E a c ow r now_ms) (\<lambda>_. Ok ())]
        @ map (\<lambda>(f, m). check m (DecisionChallengeMismatch f))
            [(''intent_digest'', hd_intent_digest d = oc_intent_digest c),
             (''intent_core_ref'', hd_intent_core_ref d = oc_intent_core_ref c),
             (''intent_canonicalization_version'',
                hd_intent_canonicalization_version d = oc_intent_canonicalization_version c),
             (''issuer_subject_id'', hd_issuer_subject_id d = oc_issuer_subject_id c)]
        @ [check (hd_human_approval_digest d = approval_digest E a)
             (ApprovalDigestMismatch (approval_digest E a) (hd_human_approval_digest d))]))
     (\<lambda>_. Ok opaque_signature_unverified)"

end
