(* ===== verification/Identity_Laws.thy ===== *)
theory Identity_Laws
  imports Identity Policy_Laws
begin

text \<open>
  The contract of \<open>identity.rs\<close>: what an accepted human decision implies about the challenge,
  the approval and the key that approved it, that a decision belongs to one challenge and one
  approval, and that enrollment evidence belongs to one public key and one set of scopes.
\<close>

section \<open>Field checks\<close>

lemma identity_checks_ok [simp]:
  "identity_require_non_empty f v = Inr u \<longleftrightarrow> \<not> trims_empty v"
  "require_signature f v = Inr u \<longleftrightarrow> \<not> trims_empty v"
  by (simp_all add: identity_require_non_empty_def require_signature_def)

lemma identity_optional_ok [simp]:
  "identity_validate_optional_non_empty f ov = Inr u \<longleftrightarrow> (\<forall>w. ov = Some w \<longrightarrow> \<not> trims_empty w)"
  by (simp add: identity_validate_optional_non_empty_def split: option.splits)

lemma validate_challenge_parts:
  assumes "validate_challenge c ow now_ms = Inr v"
  shows "oc_issuer_subject_id c = oi_owner_id ow" "oc_required_authority_variant c = Human"
    "oc_active_mode c \<noteq> FullAutonomy" "(oc_mission_id c \<noteq> None) = (oc_mission_head_id c \<noteq> None)"
    "now_ms < oc_expires_at c"
  using assms unfolding validate_challenge_def by auto

lemma active_key_ok:
  "active_key r key_id now_ms = Inr k \<longleftrightarrow>
     map_of (hr_keys r) key_id = Some k \<and> validate_key_record k now_ms = Inr () \<and> hk_status k = Active"
  by (cases "map_of (hr_keys r) key_id")
    (auto simp: active_key_def validate_key_for_approval_def split: identity_status.splits)

lemma validate_key_record_active:
  "validate_key_record k now_ms = Inr () \<Longrightarrow> hk_status k = Active \<Longrightarrow>
     hk_rotated_at k = None \<and> hk_revoked_at k = None \<and> hk_created_at k \<le> now_ms"
  unfolding validate_key_record_def by auto

lemma validate_approval_parts:
  assumes "validate_approval E a c ow r now_ms = Inr v"
  obtains k w where "validate_challenge c ow now_ms = Inr w" "hr_owner_id r = oi_owner_id ow"
    "ha_challenge_id a = oc_challenge_id c" "ha_canonical_challenge_digest a = challenge_digest E c"
    "ha_subject_id a = oc_decision_subject_id c" "active_key r (ha_key_id a) now_ms = Inr k"
    "hk_subject_id k = ha_subject_id a"
proof -
  from assms obtain k where "active_key r (ha_key_id a) now_ms = Inr k" "hk_subject_id k = ha_subject_id a"
    unfolding validate_approval_def by (auto split: if_splits)
  moreover from assms obtain w where "validate_challenge c ow now_ms = Inr w"
      "hr_owner_id r = oi_owner_id ow" "ha_challenge_id a = oc_challenge_id c"
      "ha_canonical_challenge_digest a = challenge_digest E c"
      "ha_subject_id a = oc_decision_subject_id c"
    unfolding validate_approval_def by auto
  ultimately show ?thesis by (rule that [rotated 5])
qed

lemma validate_decision_parts:
  assumes "validate_decision E d c a ow r now_ms = Inr v"
  obtains w where "validate_approval E a c ow r now_ms = Inr w"
    "hd_intent_digest d = oc_intent_digest c" "hd_intent_core_ref d = oc_intent_core_ref c"
    "hd_intent_canonicalization_version d = oc_intent_canonicalization_version c"
    "hd_issuer_subject_id d = oc_issuer_subject_id c"
    "hd_human_approval_digest d = approval_digest E a"
  using assms unfolding validate_decision_def by auto

lemma validate_key_registry_keys:
  assumes "validate_key_registry r now_ms = Inr ()" and "(map_key, k) \<in> set (hr_keys r)"
  shows "map_key = hk_key_id k"
proof -
  let ?checks = "\<lambda>(map_key, k).
          [identity_require_non_empty ''keys map key'' map_key,
           validate_key_record k now_ms,
           check (map_key = hk_key_id k) (HumanKeyMapMismatch map_key (hk_key_id k))]"
  have "\<forall>x \<in> set (hr_keys r). \<forall>c \<in> set (?checks x). c = Inr ()"
    using assms(1) unfolding validate_key_registry_def
    by (simp only: seq_checks_ok set_append set_concat ball_Un set_map UN_ball_bex_simps ball_simps)
      (elim conjE, assumption)
  then have "\<forall>c \<in> set (?checks (map_key, k)). c = Inr ()" using assms(2) by blast
  then show ?thesis by simp
qed

section \<open>The digests determine the contracts\<close>

lemma json_of_challenge_canon:
  assumes "canon (json_of_challenge c) = canon (json_of_challenge d)"
  shows "c = d"
proof -
  from canon_object_same_keys [OF assms [unfolded json_of_challenge_def]]
  show ?thesis by (simp add: name_inj owner_challenge.equality)
qed

lemma json_of_approval_canon:
  assumes "canon (json_of_approval a) = canon (json_of_approval b)"
  shows "a = b"
proof -
  from canon_object_same_keys [OF assms [unfolded json_of_approval_def]]
  show ?thesis by (simp add: human_approval.equality)
qed

lemma challenge_digest_pins:
  assumes "serde_writer E" and "challenge_digest E c = challenge_digest E d"
  shows "c = d \<or> canonical_collision E OWNER_CHALLENGE_DIGEST_DOMAIN (json_of_challenge c) (json_of_challenge d)"
  using digest_canonical_eq [OF assms(1)] json_of_challenge_canon assms(2)
  unfolding challenge_digest_def by blast

lemma approval_digest_pins:
  assumes "serde_writer E" and "approval_digest E a = approval_digest E b"
  shows "a = b \<or> canonical_collision E HUMAN_APPROVAL_DIGEST_DOMAIN (json_of_approval a) (json_of_approval b)"
  using digest_canonical_eq [OF assms(1)] json_of_approval_canon assms(2)
  unfolding approval_digest_def by blast

section \<open>A sample chain\<close>

definition sample_owner :: owner_identity where
  "sample_owner = \<lparr>oi_owner_id = ''owner'', oi_key_id = ''ok'', oi_non_exportable_public_key = ''pk'',
     oi_pinned_trust_anchor = ''ta'', oi_protected_latest_epoch = 3\<rparr>"

definition sample_key :: human_key where
  "sample_key = \<lparr>hk_key_id = ''hk'', hk_subject_id = ''human'', hk_platform = ''p'',
     hk_public_key = ''hpk'', hk_attestation_class = ''ac'', hk_created_at = 5, hk_rotated_at = None,
     hk_revoked_at = None, hk_status = Active\<rparr>"

definition sample_keys :: human_key_registry where
  "sample_keys = \<lparr>hr_owner_id = ''owner'', hr_registry_epoch = 1, hr_keys = [(''hk'', sample_key)]\<rparr>"

definition sample_challenge :: owner_challenge where
  "sample_challenge = \<lparr>
     oc_challenge_id = ''ch'', oc_intent_digest = ''id'', oc_intent_core_ref = ''ic'',
     oc_intent_canonicalization_version = ''v1'', oc_organism_id = ''o'', oc_repo_id = ''r'',
     oc_issuer_subject_id = ''owner'', oc_decision_subject_id = ''human'',
     oc_caller_subject_id = ''caller'', oc_proposer_subject_id = ''p'',
     oc_executor_subject_id = None, oc_delegation_grant_digest = None, oc_audience = ''a'',
     oc_session_context_digest = ''s'', oc_action = ''mission.land'',
     oc_required_authority_variant = Human, oc_action_policy_registry_digest = ''d'',
     oc_classifier_decision_digest = ''d'', oc_active_mode = HumanGated,
     oc_constitution_digest = ''d'', oc_constitution_epoch = 1, oc_autonomy_epoch = 1,
     oc_brain_id = ''b'', oc_mission_id = None, oc_mission_head_id = None, oc_block_id = None,
     oc_candidate_digest = None, oc_risk_scope_digest = ''d'', oc_expected_store_epoch = 1,
     oc_expected_store_version = 1, oc_expected_boundary_version = 1,
     oc_expected_contract_version = 1, oc_idempotency_key = ''k'', oc_payload_digest = ''d'',
     oc_canonical_summary = ''cs'', oc_nonce = ''n'', oc_expires_at = 100,
     oc_owner_signature = ''sig''\<rparr>"

definition sample_approval :: "platform \<Rightarrow> human_approval" where
  "sample_approval E = \<lparr>ha_challenge_id = ''ch'',
     ha_canonical_challenge_digest = challenge_digest E sample_challenge, ha_key_id = ''hk'',
     ha_subject_id = ''human'', ha_user_presence_flags = ''up'', ha_counter = 1, ha_signature = ''sig''\<rparr>"

definition sample_decision :: "platform \<Rightarrow> human_decision" where
  "sample_decision E = \<lparr>hd_decision_id = ''dec'', hd_intent_digest = ''id'', hd_intent_core_ref = ''ic'',
     hd_intent_canonicalization_version = ''v1'',
     hd_human_approval_digest = approval_digest E (sample_approval E), hd_issuer_subject_id = ''owner''\<rparr>"

lemmas blank_checks = white1_def white2_def white3_def Let_def identity_required_def

lemma sample_owner_valid: "validate_owner sample_owner = Inr ()"
  by (simp add: validate_owner_def sample_owner_def blank_checks)

lemma sample_challenge_valid: "\<exists>v. validate_challenge sample_challenge sample_owner 50 = Inr v"
  unfolding validate_challenge_def
  by (simp add: sample_owner_valid)
    (simp add: sample_challenge_def challenge_required_def challenge_optional_def sample_owner_def
      blank_checks)

lemma sample_keys_valid:
  "validate_key_record sample_key 50 = Inr ()" "validate_key_registry sample_keys 50 = Inr ()"
  "active_key sample_keys ''hk'' 50 = Inr sample_key"
proof -
  show rec: "validate_key_record sample_key 50 = Inr ()"
    by (simp add: validate_key_record_def sample_key_def blank_checks map_filter_simps)
  then show "validate_key_registry sample_keys 50 = Inr ()"
    by (simp add: validate_key_registry_def sample_keys_def blank_checks)
      (simp add: sample_key_def)
  from rec show "active_key sample_keys ''hk'' 50 = Inr sample_key"
    by (simp add: active_key_ok sample_keys_def) (simp add: sample_key_def)
qed

lemma sample_approval_valid:
  assumes "sha256_width E"
  shows "\<exists>v. validate_approval E (sample_approval E) sample_challenge sample_owner sample_keys 50 = Inr v"
proof -
  have "\<not> trims_empty (challenge_digest E sample_challenge)"
    unfolding challenge_digest_def by (rule digest_syntax_not_blank [OF digest_canonical_syntax [OF assms]])
  then have "seq_checks (identity_required
          [(''challenge_id'', ha_challenge_id (sample_approval E)),
           (''canonical_challenge_digest'', ha_canonical_challenge_digest (sample_approval E)),
           (''key_id'', ha_key_id (sample_approval E)), (''subject_id'', ha_subject_id (sample_approval E)),
           (''user_presence_flags'', ha_user_presence_flags (sample_approval E))]) = Inr ()"
    "require_signature ''signature'' (ha_signature (sample_approval E)) = Inr ()"
    by (simp_all add: sample_approval_def blank_checks)
  moreover have "ha_subject_id (sample_approval E) = hk_subject_id sample_key"
    "ha_key_id (sample_approval E) = ''hk''" "hr_owner_id sample_keys = oi_owner_id sample_owner"
    "ha_challenge_id (sample_approval E) = oc_challenge_id sample_challenge"
    "ha_canonical_challenge_digest (sample_approval E) = challenge_digest E sample_challenge"
    "hk_subject_id sample_key = oc_decision_subject_id sample_challenge"
    by (simp_all add: sample_approval_def sample_key_def sample_keys_def sample_owner_def)
      (simp_all add: sample_challenge_def)
  moreover obtain v where "validate_challenge sample_challenge sample_owner 50 = Inr v"
    using sample_challenge_valid by blast
  ultimately show ?thesis
    using sample_keys_valid(2,3) unfolding validate_approval_def by simp
qed

lemma sample_decision_valid:
  assumes "sha256_width E"
  shows "\<exists>v. validate_decision E (sample_decision E) sample_challenge (sample_approval E) sample_owner
    sample_keys 50 = Inr v"
proof -
  have "\<not> trims_empty (approval_digest E (sample_approval E))"
    unfolding approval_digest_def by (rule digest_syntax_not_blank [OF digest_canonical_syntax [OF assms]])
  then show ?thesis
    using sample_approval_valid [OF assms] unfolding validate_decision_def
    by (simp add: sample_decision_def blank_checks) (simp add: sample_challenge_def)
qed

section \<open>Properties\<close>

text \<open>An accepted human decision comes from an enrolled human: the challenge was issued by the
  pinned owner, asks for human authority, is not expired and was not raised in full autonomy; the
  approving key is in the owner's registry under its own identifier, is active (so neither
  revoked nor rotated) and belongs to the subject the challenge names; and the decision copies
  the intent of the challenge.\<close>
theorem decision_needs_active_human_key:
  assumes "validate_decision E d c a ow r now_ms = Inr v"
  shows "oc_issuer_subject_id c = oi_owner_id ow \<and> oc_required_authority_variant c = Human \<and>
    oc_active_mode c \<noteq> FullAutonomy \<and> now_ms < oc_expires_at c \<and> hr_owner_id r = oi_owner_id ow \<and>
    hd_intent_digest d = oc_intent_digest c \<and> hd_issuer_subject_id d = oi_owner_id ow \<and>
    (\<exists>k. map_of (hr_keys r) (ha_key_id a) = Some k \<and> hk_key_id k = ha_key_id a \<and>
       hk_status k = Active \<and> hk_revoked_at k = None \<and> hk_rotated_at k = None \<and>
       hk_created_at k \<le> now_ms \<and> hk_subject_id k = oc_decision_subject_id c)"
proof -
  from assms obtain w where ap: "validate_approval E a c ow r now_ms = Inr w"
    and d: "hd_intent_digest d = oc_intent_digest c" "hd_issuer_subject_id d = oc_issuer_subject_id c"
    by (rule validate_decision_parts)
  from ap obtain k x where ch: "validate_challenge c ow now_ms = Inr x"
    and r: "hr_owner_id r = oi_owner_id ow" and s: "ha_subject_id a = oc_decision_subject_id c"
    and k: "active_key r (ha_key_id a) now_ms = Inr k" "hk_subject_id k = ha_subject_id a"
    by (rule validate_approval_parts)
  have "validate_key_registry r now_ms = Inr ()" using ap unfolding validate_approval_def by simp
  moreover have "(ha_key_id a, k) \<in> set (hr_keys r)"
    using k(1) unfolding active_key_ok by (blast intro: map_of_SomeD)
  ultimately have "hk_key_id k = ha_key_id a" by (rule validate_key_registry_keys [symmetric])
  then show ?thesis
    using validate_challenge_parts [OF ch] r s k d validate_key_record_active [of k now_ms]
    by (simp add: active_key_ok)
qed

lemma decision_needs_active_human_key_witness:
  "\<exists>k. map_of (hr_keys sample_keys) ''hk'' = Some k \<and> hk_status k = Active"
proof -
  obtain v where "validate_decision reference_platform (sample_decision reference_platform)
      sample_challenge (sample_approval reference_platform) sample_owner sample_keys 50 = Inr v"
    using sample_decision_valid [OF sha256_width_reference] by blast
  from decision_needs_active_human_key [OF this] show ?thesis
    by (simp add: sample_approval_def) blast
qed

text \<open>A human decision belongs to one approval, and an approval to one challenge: if the
  same decision is accepted for two approvals, they are the same in every field, the signature
  included, and so are the two challenges; otherwise the hash collides on messages that are
  named.\<close>
theorem decision_pins_approval_and_challenge:
  assumes "serde_writer E"
    and "validate_decision E d c a ow r n = Inr v" "validate_decision E d c' a' ow' r' n' = Inr v'"
  shows "a = a' \<and> c = c' \<or>
    canonical_collision E HUMAN_APPROVAL_DIGEST_DOMAIN (json_of_approval a) (json_of_approval a') \<or>
    canonical_collision E OWNER_CHALLENGE_DIGEST_DOMAIN (json_of_challenge c) (json_of_challenge c')"
proof -
  from assms(2) obtain w where w: "validate_approval E a c ow r n = Inr w"
    "hd_human_approval_digest d = approval_digest E a" by (rule validate_decision_parts)
  from assms(3) obtain w' where w': "validate_approval E a' c' ow' r' n' = Inr w'"
    "hd_human_approval_digest d = approval_digest E a'" by (rule validate_decision_parts)
  have c: "ha_canonical_challenge_digest a = challenge_digest E c"
    using w(1) by (rule validate_approval_parts)
  have c': "ha_canonical_challenge_digest a' = challenge_digest E c'"
    using w'(1) by (rule validate_approval_parts)
  from w(2) w'(2) have "approval_digest E a = approval_digest E a'" by simp
  with approval_digest_pins [OF assms(1)]
  consider "a = a'"
    | "canonical_collision E HUMAN_APPROVAL_DIGEST_DOMAIN (json_of_approval a) (json_of_approval a')"
    by blast
  then show ?thesis
  proof cases
    case 1
    with c c' have "challenge_digest E c = challenge_digest E c'" by simp
    with challenge_digest_pins [OF assms(1)] 1 show ?thesis by blast
  qed blast
qed

lemma decision_pins_approval_and_challenge_witness:
  "\<exists>c. c = sample_challenge \<or>
    canonical_collision reference_platform HUMAN_APPROVAL_DIGEST_DOMAIN
      (json_of_approval (sample_approval reference_platform)) (json_of_approval (sample_approval reference_platform)) \<or>
    canonical_collision reference_platform OWNER_CHALLENGE_DIGEST_DOMAIN
      (json_of_challenge sample_challenge) (json_of_challenge c)"
proof -
  obtain v where v: "validate_decision reference_platform (sample_decision reference_platform)
      sample_challenge (sample_approval reference_platform) sample_owner sample_keys 50 = Inr v"
    using sample_decision_valid [OF sha256_width_reference] by blast
  from decision_pins_approval_and_challenge [OF serde_writer_reference v v] show ?thesis by blast
qed

definition sample_client :: "platform \<Rightarrow> client_identity" where
  "sample_client E = \<lparr>ci_subject_id = ''s'', ci_key_id = ''k'', ci_public_key = ''pk'',
     ci_app_host_identity = ''h'', ci_enrollment_evidence = \<lparr>en_enrollment_id = ''e'',
       en_issuer = ''owner'', en_issuer_key_id = ''ok'', en_algorithm = ''ed25519'', en_subject_id = ''s'',
       en_key_id = ''k'', en_public_key_digest = public_key_digest E ''pk'', en_app_host_identity = ''h'',
       en_scopes_digest = scopes_digest E [''read''], en_audience = ''a'', en_nonce = ''n'',
       en_session_context_digest = ''d'', en_issued_at = 10, en_expires_at = 100, en_signature = ''sig''\<rparr>,
     ci_scopes = [''read''], ci_created_at = 20, ci_revoked_at = None, ci_status = Active\<rparr>"

lemma sample_client_valid:
  assumes "sha256_width E"
  shows "\<exists>v. validate_client_for_owner E (sample_client E) sample_owner 50 = Inr v"
proof -
  have "\<not> trims_empty (public_key_digest E ''pk'')" "\<not> trims_empty (scopes_digest E [''read''])"
    unfolding public_key_digest_def scopes_digest_def
    by (rule digest_syntax_not_blank [OF digest_domain_bytes_syntax [OF assms]])
      (rule digest_syntax_not_blank [OF digest_canonical_syntax [OF assms]])
  then have "validate_client E (sample_client E) 50 = Inr opaque_signature_unverified"
    by (simp add: validate_client_def validate_enrollment_def client_status_check_def sample_client_def
        blank_checks)
  then show ?thesis using sample_owner_valid unfolding validate_client_for_owner_def
    by (simp add: sample_client_def sample_owner_def)
qed

text \<open>Enrollment evidence belongs to one key: a client accepted for an owner carries evidence
  issued by that owner's key and inside its half-open window, and two clients accepted with the
  same evidence have the same public key and the same scopes, unless the hash collides.\<close>
theorem enrollment_pins_key_and_scopes:
  assumes "serde_writer E"
    and "validate_client_for_owner E c ow n = Inr v" "validate_client_for_owner E c' ow' n' = Inr v'"
    and "ci_enrollment_evidence c = ci_enrollment_evidence c'"
  shows "en_issuer (ci_enrollment_evidence c) = oi_owner_id ow \<and>
    en_issuer_key_id (ci_enrollment_evidence c) = oi_key_id ow \<and>
    en_issued_at (ci_enrollment_evidence c) \<le> n \<and> n < en_expires_at (ci_enrollment_evidence c) \<and>
    ci_status c = Active \<and> ci_subject_id c = ci_subject_id c' \<and> ci_key_id c = ci_key_id c' \<and>
    (ci_public_key c = ci_public_key c' \<or>
      collides E (digest_message ENROLLMENT_PUBLIC_KEY_DIGEST_DOMAIN (ci_public_key c))
        (digest_message ENROLLMENT_PUBLIC_KEY_DIGEST_DOMAIN (ci_public_key c'))) \<and>
    (ci_scopes c = ci_scopes c' \<or>
      canonical_collision E ENROLLMENT_SCOPES_DIGEST_DOMAIN
        (JArray (map JString (ci_scopes c))) (JArray (map JString (ci_scopes c'))))"
proof -
  let ?e = "ci_enrollment_evidence c"
  have parts: "en_subject_id (ci_enrollment_evidence x) = ci_subject_id x"
    "en_key_id (ci_enrollment_evidence x) = ci_key_id x"
    "en_public_key_digest (ci_enrollment_evidence x) = public_key_digest E (ci_public_key x)"
    "en_scopes_digest (ci_enrollment_evidence x) = scopes_digest E (ci_scopes x)"
    "client_status_check x = Inr ()"
    "\<exists>u. validate_enrollment (ci_enrollment_evidence x) m = Inr u"
    "en_issuer (ci_enrollment_evidence x) = oi_owner_id y"
    "en_issuer_key_id (ci_enrollment_evidence x) = oi_key_id y"
    if "validate_client_for_owner E x y m = Inr z" for x y m z
    using that unfolding validate_client_for_owner_def validate_client_def Let_def by auto
  note p = parts [OF assms(2)] and p' = parts [OF assms(3)]
  have window: "en_issued_at ?e \<le> n \<and> n < en_expires_at ?e"
    using p(6) unfolding validate_enrollment_def by auto
  have active: "ci_status c = Active"
    using p(5) unfolding client_status_check_def by (cases "ci_status c") (auto split: if_splits)
  have "public_key_digest E (ci_public_key c) = public_key_digest E (ci_public_key c')"
    using p(3) p'(3) assms(4) by simp
  then have key: "ci_public_key c = ci_public_key c' \<or>
      collides E (digest_message ENROLLMENT_PUBLIC_KEY_DIGEST_DOMAIN (ci_public_key c))
        (digest_message ENROLLMENT_PUBLIC_KEY_DIGEST_DOMAIN (ci_public_key c'))"
    by (auto simp: public_key_digest_def digest_domain_bytes_def hex_lower_inj collides_def
        digest_message_same_domain)
  have "scopes_digest E (ci_scopes c) = scopes_digest E (ci_scopes c')"
    using p(4) p'(4) assms(4) by simp
  then have "canon (JArray (map JString (ci_scopes c))) = canon (JArray (map JString (ci_scopes c'))) \<or>
      canonical_collision E ENROLLMENT_SCOPES_DIGEST_DOMAIN
        (JArray (map JString (ci_scopes c))) (JArray (map JString (ci_scopes c')))"
    unfolding scopes_digest_def by (rule digest_canonical_eq [OF assms(1)])
  moreover have "canon (JArray (map JString (ci_scopes c))) = canon (JArray (map JString (ci_scopes c')))
      \<longleftrightarrow> ci_scopes c = ci_scopes c'" by (rule canon_json_array) simp
  ultimately have scopes: "ci_scopes c = ci_scopes c' \<or>
      canonical_collision E ENROLLMENT_SCOPES_DIGEST_DOMAIN
        (JArray (map JString (ci_scopes c))) (JArray (map JString (ci_scopes c')))" by blast
  have ids: "ci_subject_id c = ci_subject_id c'" "ci_key_id c = ci_key_id c'"
    using p(1,2) p'(1,2) assms(4) by simp_all
  show ?thesis using p(7,8) window active ids key scopes by blast
qed

lemma enrollment_pins_key_and_scopes_witness:
  "en_issuer (ci_enrollment_evidence (sample_client reference_platform)) = oi_owner_id sample_owner"
proof -
  obtain v where v: "validate_client_for_owner reference_platform (sample_client reference_platform)
      sample_owner 50 = Inr v"
    using sample_client_valid [OF sha256_width_reference] by blast
  from enrollment_pins_key_and_scopes [OF serde_writer_reference v v refl] show ?thesis by blast
qed

end
