(* ===== verification/Authority_Wal.thy ===== *)
theory Authority_Wal
  imports Action_Policy Sealed_Contract Reference_Platform
begin

text \<open>
  \<open>m1nd-control/src/authority_wal.rs\<close>: the two variants of an authority transaction, the
  records PREPARE, PROVISIONAL, COMMIT and ABORT of the write-ahead log, their digests, the
  bytes that a WAL signer authenticates, and the validators in the order of the code.
  Signatures are opaque here, as in that module.
\<close>

section \<open>Data\<close>

definition POSITIVE_AUTHORITY_TRANSACTION_SCHEMA :: string where
  "POSITIVE_AUTHORITY_TRANSACTION_SCHEMA = ''m1nd-positive-authority-transaction-v1''"
definition SAFETY_KERNEL_TRANSACTION_SCHEMA :: string where
  "SAFETY_KERNEL_TRANSACTION_SCHEMA = ''m1nd-safety-kernel-transaction-v1''"
definition AUTHORITY_WAL_RECORD_SCHEMA :: string where
  "AUTHORITY_WAL_RECORD_SCHEMA = ''m1nd-authority-wal-record-v1''"
definition AUTHORITY_TRANSACTION_DIGEST_DOMAIN :: string where
  "AUTHORITY_TRANSACTION_DIGEST_DOMAIN = ''m1nd-authority-transaction-v1''"
definition AUTHORITY_WAL_PAYLOAD_DIGEST_DOMAIN :: string where
  "AUTHORITY_WAL_PAYLOAD_DIGEST_DOMAIN = ''m1nd-authority-wal-payload-v1''"
definition AUTHORITY_WAL_RECORD_DIGEST_DOMAIN :: string where
  "AUTHORITY_WAL_RECORD_DIGEST_DOMAIN = ''m1nd-authority-wal-record-v1''"
definition AUTHORITY_WAL_RECORD_SIGNATURE_DOMAIN :: string where
  "AUTHORITY_WAL_RECORD_SIGNATURE_DOMAIN = ''m1nd-authority-wal-record-signature-v1''"
definition AUTHORITY_WAL_SIGNATURE_PREFIX :: bytes where
  "AUTHORITY_WAL_SIGNATURE_PREFIX = ''m1nd-authority-wal-signature-message-v1'' @ [CHR 0x00]"

datatype capability_kind = HumanCapability | AutonomyCapability | SafetyCapability

record transaction_binding =
  tb_transaction_id :: string
  tb_organism_id :: string
  tb_brain_id :: string
  tb_subject_id :: string
  tb_action_id :: string
  tb_idempotency_key :: string
  tb_intent_core_ref :: string
  tb_intent_digest :: string
  tb_intent_canonicalization_version :: string
  tb_capability_id :: string
  tb_capability_kind :: capability_kind
  tb_nonce :: string
  tb_expected_head_id :: "string option"
  tb_expected_active_mode :: active_mode
  tb_expected_activation_receipt_id :: "string option"
  tb_expected_constitution_epoch :: u64
  tb_expected_autonomy_epoch :: u64
  tb_expected_store_epoch :: u64
  tb_sentinel_verdict_digest :: "string option"
  tb_authorization_snapshot_digest :: string
  tb_issued_at :: u64
  tb_expires_at :: u64

record positive_transaction =
  pt_schema :: string
  pt_binding :: transaction_binding
  pt_authority_decision_digest :: string
  pt_identity_role_binding_digest :: string
  pt_required_authority_variant :: authority_variant
  pt_action_policy_registry_digest :: string
  pt_classifier_decision_digest :: string
  pt_expected_pending_red_set_digest :: string
  pt_expected_red_latch_epoch :: u64
  pt_expected_store_version :: u64
  pt_expected_boundary_version :: u64
  pt_expected_contract_version :: u64
  pt_action_payload_digest :: string
  pt_issuer :: string
  pt_key_id :: string
  pt_algorithm :: string
  pt_transaction_digest :: string
  pt_signature :: string

record safety_transaction =
  st_schema :: string
  st_binding :: transaction_binding
  st_safety_intent_digest :: string
  st_safety_intent_core_ref :: string
  st_safety_intent_canonicalization_version :: string
  st_safety_attempt_id :: string
  st_sentinel_red_verdict_digest :: string
  st_red_latch_receipt_digest :: string
  st_actuator_identity_key_binary_policy_digest :: string
  st_allowed_negative_actions_digest :: string
  st_affected_grants_scope_digest :: string
  st_rollback_candidate_plan_digest :: string
  st_expected_next_autonomy_epoch :: u64
  st_positive_authority_decision_forbidden :: bool
  st_issuer :: string
  st_key_id :: string
  st_algorithm :: string
  st_transaction_digest :: string
  st_signature :: string

datatype wal_transaction =
    PositiveAuthority positive_transaction
  | SafetyKernelVariant safety_transaction

datatype wal_phase = Prepare | Provisional | Commit | Abort

definition phase_is_terminal :: "wal_phase \<Rightarrow> bool" where
  "phase_is_terminal p \<longleftrightarrow> p \<in> {Commit, Abort}"

record wal_commit =
  wc_committed_at :: u64
  wc_protected_time_evidence_digest :: string
  wc_authorization_snapshot_digest :: string
  wc_terminal_outcome_digest :: string

record wal_abort =
  wb_aborted_at :: u64
  wb_reason_digest :: string
  wb_terminal_outcome_digest :: string

text \<open>
  PREPARE carries the whole transaction and PROVISIONAL the digest of the provisional
  effects, each in a struct of one field.
\<close>

datatype wal_payload =
    PreparePayload wal_transaction
  | ProvisionalPayload string
  | CommitPayload wal_commit
  | AbortPayload wal_abort

fun payload_phase :: "wal_payload \<Rightarrow> wal_phase" where
  "payload_phase (PreparePayload t) = Prepare"
| "payload_phase (ProvisionalPayload d) = Provisional"
| "payload_phase (CommitPayload c) = Commit"
| "payload_phase (AbortPayload a) = Abort"

record wal_record =
  wr_schema :: string
  wr_sequence :: u64
  wr_phase :: wal_phase
  wr_transaction_id :: string
  wr_idempotency_key :: string
  wr_intent_core_ref :: string
  wr_intent_digest :: string
  wr_expected_head_id :: "string option"
  wr_expected_constitution_epoch :: u64
  wr_expected_autonomy_epoch :: u64
  wr_expected_store_epoch :: u64
  wr_transaction_digest :: string
  wr_authorization_snapshot_digest :: string
  wr_payload :: wal_payload
  wr_payload_digest :: string
  wr_previous_record_digest :: "string option"
  wr_recorded_at :: u64
  wr_issuer :: string
  wr_key_id :: string
  wr_algorithm :: string
  wr_record_digest :: string
  wr_signature :: string

datatype wal_integrity = OpaqueSignaturePresentUnverified

record transaction_structural_validation =
  tsv_transaction_digest :: string
  tsv_integrity :: wal_integrity

record record_structural_validation =
  rsv_payload_digest :: string
  rsv_record_digest :: string
  rsv_integrity :: wal_integrity

datatype wal_contract_error =
    Schema string string
  | EmptyRequired string
  | InvalidDigest string
  | InvalidLifetime u64 u64
  | NonPositiveAuthorityVariant authority_variant
  | CapabilityVariantMismatch capability_kind authority_variant
  | SafetyCapabilityRequired
  | PositiveAuthorityDecisionNotForbidden
  | SafetySentinelMismatch
  | InvalidNextAutonomyEpoch
  | TransactionDigestMismatch string string
  | InvalidSequence
  | PhasePayloadMismatch wal_phase wal_phase
  | PayloadDigestMismatch string string
  | RecordDigestMismatch string string
  | TransactionBindingMismatch string
  | InvalidCommitTime
  | TerminalAfterRecord u64 u64

fun tx_binding :: "wal_transaction \<Rightarrow> transaction_binding" where
  "tx_binding (PositiveAuthority p) = pt_binding p"
| "tx_binding (SafetyKernelVariant s) = st_binding s"

fun tx_digest :: "wal_transaction \<Rightarrow> string" where
  "tx_digest (PositiveAuthority p) = pt_transaction_digest p"
| "tx_digest (SafetyKernelVariant s) = st_transaction_digest s"

fun tx_signature :: "wal_transaction \<Rightarrow> string" where
  "tx_signature (PositiveAuthority p) = pt_signature p"
| "tx_signature (SafetyKernelVariant s) = st_signature s"

section \<open>Serialisation\<close>

fun capability_name :: "capability_kind \<Rightarrow> string" where
  "capability_name HumanCapability = ''HUMAN''"
| "capability_name AutonomyCapability = ''AUTONOMY''"
| "capability_name SafetyCapability = ''SAFETY''"

fun phase_name :: "wal_phase \<Rightarrow> string" where
  "phase_name Prepare = ''PREPARE''" | "phase_name Provisional = ''PROVISIONAL''"
| "phase_name Commit = ''COMMIT''" | "phase_name Abort = ''ABORT''"

definition json_of_binding :: "transaction_binding \<Rightarrow> json" where
  "json_of_binding b = JObject
    [(''transaction_id'', JString (tb_transaction_id b)),
     (''organism_id'', JString (tb_organism_id b)),
     (''brain_id'', JString (tb_brain_id b)),
     (''subject_id'', JString (tb_subject_id b)),
     (''action_id'', JString (tb_action_id b)),
     (''idempotency_key'', JString (tb_idempotency_key b)),
     (''intent_core_ref'', JString (tb_intent_core_ref b)),
     (''intent_digest'', JString (tb_intent_digest b)),
     (''intent_canonicalization_version'', JString (tb_intent_canonicalization_version b)),
     (''capability_id'', JString (tb_capability_id b)),
     (''capability_kind'', JString (capability_name (tb_capability_kind b))),
     (''nonce'', JString (tb_nonce b)),
     (''expected_head_id'', json_opt JString (tb_expected_head_id b)),
     (''expected_active_mode'', JString (mode_name (tb_expected_active_mode b))),
     (''expected_activation_receipt_id'', json_opt JString (tb_expected_activation_receipt_id b)),
     (''expected_constitution_epoch'', json_u64 (tb_expected_constitution_epoch b)),
     (''expected_autonomy_epoch'', json_u64 (tb_expected_autonomy_epoch b)),
     (''expected_store_epoch'', json_u64 (tb_expected_store_epoch b)),
     (''sentinel_verdict_digest'', json_opt JString (tb_sentinel_verdict_digest b)),
     (''authorization_snapshot_digest'', JString (tb_authorization_snapshot_digest b)),
     (''issued_at'', json_u64 (tb_issued_at b)),
     (''expires_at'', json_u64 (tb_expires_at b))]"

definition json_of_positive :: "positive_transaction \<Rightarrow> json" where
  "json_of_positive p = JObject
    [(''schema'', JString (pt_schema p)),
     (''binding'', json_of_binding (pt_binding p)),
     (''authority_decision_digest'', JString (pt_authority_decision_digest p)),
     (''identity_role_binding_digest'', JString (pt_identity_role_binding_digest p)),
     (''required_authority_variant'', JString (variant_name (pt_required_authority_variant p))),
     (''action_policy_registry_digest'', JString (pt_action_policy_registry_digest p)),
     (''classifier_decision_digest'', JString (pt_classifier_decision_digest p)),
     (''expected_pending_red_set_digest'', JString (pt_expected_pending_red_set_digest p)),
     (''expected_red_latch_epoch'', json_u64 (pt_expected_red_latch_epoch p)),
     (''expected_store_version'', json_u64 (pt_expected_store_version p)),
     (''expected_boundary_version'', json_u64 (pt_expected_boundary_version p)),
     (''expected_contract_version'', json_u64 (pt_expected_contract_version p)),
     (''action_payload_digest'', JString (pt_action_payload_digest p)),
     (''issuer'', JString (pt_issuer p)),
     (''key_id'', JString (pt_key_id p)),
     (''algorithm'', JString (pt_algorithm p)),
     (''transaction_digest'', JString (pt_transaction_digest p)),
     (''signature'', JString (pt_signature p))]"

definition json_of_safety :: "safety_transaction \<Rightarrow> json" where
  "json_of_safety s = JObject
    [(''schema'', JString (st_schema s)),
     (''binding'', json_of_binding (st_binding s)),
     (''safety_intent_digest'', JString (st_safety_intent_digest s)),
     (''safety_intent_core_ref'', JString (st_safety_intent_core_ref s)),
     (''safety_intent_canonicalization_version'',
        JString (st_safety_intent_canonicalization_version s)),
     (''safety_attempt_id'', JString (st_safety_attempt_id s)),
     (''sentinel_red_verdict_digest'', JString (st_sentinel_red_verdict_digest s)),
     (''red_latch_receipt_digest'', JString (st_red_latch_receipt_digest s)),
     (''actuator_identity_key_binary_policy_digest'',
        JString (st_actuator_identity_key_binary_policy_digest s)),
     (''allowed_negative_actions_digest'', JString (st_allowed_negative_actions_digest s)),
     (''affected_grants_scope_digest'', JString (st_affected_grants_scope_digest s)),
     (''rollback_candidate_plan_digest'', JString (st_rollback_candidate_plan_digest s)),
     (''expected_next_autonomy_epoch'', json_u64 (st_expected_next_autonomy_epoch s)),
     (''positive_authority_decision_forbidden'',
        JBool (st_positive_authority_decision_forbidden s)),
     (''issuer'', JString (st_issuer s)),
     (''key_id'', JString (st_key_id s)),
     (''algorithm'', JString (st_algorithm s)),
     (''transaction_digest'', JString (st_transaction_digest s)),
     (''signature'', JString (st_signature s))]"

text \<open>The adjacently tagged enums.\<close>

fun json_of_transaction :: "wal_transaction \<Rightarrow> json" where
  "json_of_transaction (PositiveAuthority p) = JObject
     [(''transaction_variant'', JString ''POSITIVE_AUTHORITY''), (''transaction'', json_of_positive p)]"
| "json_of_transaction (SafetyKernelVariant s) = JObject
     [(''transaction_variant'', JString ''SAFETY_KERNEL''), (''transaction'', json_of_safety s)]"

fun json_of_payload_content :: "wal_payload \<Rightarrow> json" where
  "json_of_payload_content (PreparePayload t) = JObject [(''transaction'', json_of_transaction t)]"
| "json_of_payload_content (ProvisionalPayload d) = JObject [(''provisional_effects_digest'', JString d)]"
| "json_of_payload_content (CommitPayload c) = JObject
     [(''committed_at'', json_u64 (wc_committed_at c)),
      (''protected_time_evidence_digest'', JString (wc_protected_time_evidence_digest c)),
      (''authorization_snapshot_digest'', JString (wc_authorization_snapshot_digest c)),
      (''terminal_outcome_digest'', JString (wc_terminal_outcome_digest c))]"
| "json_of_payload_content (AbortPayload a) = JObject
     [(''aborted_at'', json_u64 (wb_aborted_at a)),
      (''reason_digest'', JString (wb_reason_digest a)),
      (''terminal_outcome_digest'', JString (wb_terminal_outcome_digest a))]"

definition json_of_payload :: "wal_payload \<Rightarrow> json" where
  "json_of_payload p = JObject
     [(''payload_kind'', JString (phase_name (payload_phase p))),
      (''payload'', json_of_payload_content p)]"

definition json_of_wal_record :: "wal_record \<Rightarrow> json" where
  "json_of_wal_record r = JObject
    [(''schema'', JString (wr_schema r)),
     (''sequence'', json_u64 (wr_sequence r)),
     (''phase'', JString (phase_name (wr_phase r))),
     (''transaction_id'', JString (wr_transaction_id r)),
     (''idempotency_key'', JString (wr_idempotency_key r)),
     (''intent_core_ref'', JString (wr_intent_core_ref r)),
     (''intent_digest'', JString (wr_intent_digest r)),
     (''expected_head_id'', json_opt JString (wr_expected_head_id r)),
     (''expected_constitution_epoch'', json_u64 (wr_expected_constitution_epoch r)),
     (''expected_autonomy_epoch'', json_u64 (wr_expected_autonomy_epoch r)),
     (''expected_store_epoch'', json_u64 (wr_expected_store_epoch r)),
     (''transaction_digest'', JString (wr_transaction_digest r)),
     (''authorization_snapshot_digest'', JString (wr_authorization_snapshot_digest r)),
     (''payload'', json_of_payload (wr_payload r)),
     (''payload_digest'', JString (wr_payload_digest r)),
     (''previous_record_digest'', json_opt JString (wr_previous_record_digest r)),
     (''recorded_at'', json_u64 (wr_recorded_at r)),
     (''issuer'', JString (wr_issuer r)),
     (''key_id'', JString (wr_key_id r)),
     (''algorithm'', JString (wr_algorithm r)),
     (''record_digest'', JString (wr_record_digest r)),
     (''signature'', JString (wr_signature r))]"

section \<open>Digests and the signed message\<close>

text \<open>\<open>if let Some(v) = root.get_mut(key) { f(v) }\<close> on a value that is an object.\<close>

fun obj_update :: "string \<Rightarrow> (json \<Rightarrow> json) \<Rightarrow> json \<Rightarrow> json" where
  "obj_update k f (JObject kvs) = JObject (map (\<lambda>kv. if fst kv = k then (k, f (snd kv)) else kv) kvs)"
| "obj_update k f v = v"

definition transaction_material :: "wal_transaction \<Rightarrow> json" where
  "transaction_material t =
     obj_update ''transaction'' (sealed_material ''transaction_digest'') (json_of_transaction t)"

definition compute_transaction_digest :: "platform \<Rightarrow> wal_transaction \<Rightarrow> string" where
  "compute_transaction_digest E t =
     digest_canonical E AUTHORITY_TRANSACTION_DIGEST_DOMAIN (transaction_material t)"

fun put_transaction_digest :: "string \<Rightarrow> wal_transaction \<Rightarrow> wal_transaction" where
  "put_transaction_digest d (PositiveAuthority p) = PositiveAuthority (p\<lparr>pt_transaction_digest := d\<rparr>)"
| "put_transaction_digest d (SafetyKernelVariant s) = SafetyKernelVariant (s\<lparr>st_transaction_digest := d\<rparr>)"

definition seal_transaction :: "platform \<Rightarrow> wal_transaction \<Rightarrow> wal_transaction" where
  "seal_transaction E t = put_transaction_digest (compute_transaction_digest E t) t"

definition transaction_signature_payload :: "platform \<Rightarrow> wal_transaction \<Rightarrow> bytes" where
  "transaction_signature_payload E t =
     canonical_json E (obj_update ''transaction'' (obj_remove ''signature'') (json_of_transaction t))"

definition draft_record ::
  "wal_transaction \<Rightarrow> wal_payload \<Rightarrow> u64 \<Rightarrow> string \<Rightarrow> string \<Rightarrow> string \<Rightarrow> string \<Rightarrow> wal_record" where
  "draft_record t payload recorded_at issuer key_id algorithm signature =
     (let b = tx_binding t in
      \<lparr>wr_schema = AUTHORITY_WAL_RECORD_SCHEMA, wr_sequence = 0, wr_phase = payload_phase payload,
       wr_transaction_id = tb_transaction_id b, wr_idempotency_key = tb_idempotency_key b,
       wr_intent_core_ref = tb_intent_core_ref b, wr_intent_digest = tb_intent_digest b,
       wr_expected_head_id = tb_expected_head_id b,
       wr_expected_constitution_epoch = tb_expected_constitution_epoch b,
       wr_expected_autonomy_epoch = tb_expected_autonomy_epoch b,
       wr_expected_store_epoch = tb_expected_store_epoch b,
       wr_transaction_digest = tx_digest t,
       wr_authorization_snapshot_digest = tb_authorization_snapshot_digest b,
       wr_payload = payload, wr_payload_digest = [], wr_previous_record_digest = None,
       wr_recorded_at = recorded_at, wr_issuer = issuer, wr_key_id = key_id,
       wr_algorithm = algorithm, wr_record_digest = [], wr_signature = signature\<rparr>)"

definition compute_payload_digest :: "platform \<Rightarrow> wal_record \<Rightarrow> string" where
  "compute_payload_digest E r =
     digest_canonical E AUTHORITY_WAL_PAYLOAD_DIGEST_DOMAIN (json_of_payload (wr_payload r))"

definition compute_wal_record_digest :: "platform \<Rightarrow> wal_record \<Rightarrow> string" where
  "compute_wal_record_digest E r =
     digest_canonical E AUTHORITY_WAL_RECORD_DIGEST_DOMAIN
       (sealed_material ''record_digest'' (json_of_wal_record r))"

definition canonical_signature_message :: "platform \<Rightarrow> wal_record \<Rightarrow> bytes" where
  "canonical_signature_message E r =
     (let canonical = canonical_json E (obj_remove ''signature'' (json_of_wal_record r)) in
      AUTHORITY_WAL_SIGNATURE_PREFIX
        @ be_bytes (of_nat (length AUTHORITY_WAL_RECORD_SIGNATURE_DOMAIN))
        @ AUTHORITY_WAL_RECORD_SIGNATURE_DOMAIN
        @ be_bytes (of_nat (length canonical)) @ canonical)"

definition assign_chain_and_seal :: "platform \<Rightarrow> u64 \<Rightarrow> string option \<Rightarrow> wal_record \<Rightarrow> wal_record" where
  "assign_chain_and_seal E sequence previous_record_digest r =
     (let r1 = r\<lparr>wr_sequence := sequence, wr_previous_record_digest := previous_record_digest\<rparr>;
          r2 = r1\<lparr>wr_payload_digest := compute_payload_digest E r1\<rparr>
      in r2\<lparr>wr_record_digest := compute_wal_record_digest E r2\<rparr>)"

section \<open>Field checks\<close>

definition wal_require_schema :: "string \<Rightarrow> string \<Rightarrow> string \<Rightarrow> wal_contract_error + unit" where
  "wal_require_schema contract actual expected =
     (if actual \<noteq> expected then Err (Schema contract actual) else Ok ())"

definition wal_require_non_empty :: "string \<Rightarrow> string \<Rightarrow> wal_contract_error + unit" where
  "wal_require_non_empty field value = (if value = [] then Err (EmptyRequired field) else Ok ())"

definition wal_require_optional_non_empty :: "string \<Rightarrow> string option \<Rightarrow> wal_contract_error + unit" where
  "wal_require_optional_non_empty field value =
     (if value = Some [] then Err (EmptyRequired field) else Ok ())"

definition wal_require_digest :: "string \<Rightarrow> string \<Rightarrow> wal_contract_error + unit" where
  "wal_require_digest field value = (if digest_syntax value then Ok () else Err (InvalidDigest field))"

definition wal_require_optional_digest :: "string \<Rightarrow> string option \<Rightarrow> wal_contract_error + unit" where
  "wal_require_optional_digest field value =
     (case value of Some v \<Rightarrow> wal_require_digest field v | None \<Rightarrow> Ok ())"

definition ensure_binding :: "string \<Rightarrow> bool \<Rightarrow> wal_contract_error + unit" where
  "ensure_binding field equal = (if equal then Ok () else Err (TransactionBindingMismatch field))"

definition ensure_terminal_not_after_record :: "u64 \<Rightarrow> u64 \<Rightarrow> wal_contract_error + unit" where
  "ensure_terminal_not_after_record terminal_at recorded_at =
     (if terminal_at > recorded_at then Err (TerminalAfterRecord terminal_at recorded_at) else Ok ())"

section \<open>Transactions\<close>

definition validate_binding :: "transaction_binding \<Rightarrow> wal_contract_error + unit" where
  "validate_binding b = seq_checks
     (map (\<lambda>(f, v). wal_require_non_empty f v)
        [(''transaction_id'', tb_transaction_id b), (''organism_id'', tb_organism_id b),
         (''brain_id'', tb_brain_id b), (''subject_id'', tb_subject_id b),
         (''action_id'', tb_action_id b), (''idempotency_key'', tb_idempotency_key b),
         (''intent_core_ref'', tb_intent_core_ref b),
         (''intent_canonicalization_version'', tb_intent_canonicalization_version b),
         (''capability_id'', tb_capability_id b), (''nonce'', tb_nonce b)]
      @ [wal_require_optional_non_empty ''expected_head_id'' (tb_expected_head_id b),
         wal_require_optional_non_empty ''expected_activation_receipt_id''
           (tb_expected_activation_receipt_id b),
         wal_require_digest ''intent_digest'' (tb_intent_digest b),
         wal_require_optional_digest ''sentinel_verdict_digest'' (tb_sentinel_verdict_digest b),
         wal_require_digest ''authorization_snapshot_digest'' (tb_authorization_snapshot_digest b),
         check (\<not> tb_issued_at b \<ge> tb_expires_at b)
           (InvalidLifetime (tb_issued_at b) (tb_expires_at b))])"

fun capability_compatible :: "capability_kind \<Rightarrow> authority_variant \<Rightarrow> bool" where
  "capability_compatible HumanCapability Human = True"
| "capability_compatible AutonomyCapability Policy = True"
| "capability_compatible AutonomyCapability AgentQuorum = True"
| "capability_compatible _ _ = False"

definition validate_positive :: "positive_transaction \<Rightarrow> wal_contract_error + unit" where
  "validate_positive p =
     (let variant = pt_required_authority_variant p; kind = tb_capability_kind (pt_binding p) in
      seq_checks
        ([wal_require_schema ''positive authority transaction'' (pt_schema p)
            POSITIVE_AUTHORITY_TRANSACTION_SCHEMA,
          check (is_positive_sovereign variant) (NonPositiveAuthorityVariant variant),
          check (capability_compatible kind variant) (CapabilityVariantMismatch kind variant)]
         @ map (\<lambda>(f, d). wal_require_digest f d)
             [(''authority_decision_digest'', pt_authority_decision_digest p),
              (''identity_role_binding_digest'', pt_identity_role_binding_digest p),
              (''action_policy_registry_digest'', pt_action_policy_registry_digest p),
              (''classifier_decision_digest'', pt_classifier_decision_digest p),
              (''expected_pending_red_set_digest'', pt_expected_pending_red_set_digest p),
              (''action_payload_digest'', pt_action_payload_digest p)]))"

definition validate_safety :: "safety_transaction \<Rightarrow> wal_contract_error + unit" where
  "validate_safety s = seq_checks
     ([wal_require_schema ''safety kernel transaction'' (st_schema s) SAFETY_KERNEL_TRANSACTION_SCHEMA,
       check (tb_capability_kind (st_binding s) = SafetyCapability) SafetyCapabilityRequired,
       check (st_positive_authority_decision_forbidden s) PositiveAuthorityDecisionNotForbidden,
       check (tb_sentinel_verdict_digest (st_binding s) = Some (st_sentinel_red_verdict_digest s))
         SafetySentinelMismatch,
       check (checked_add (tb_expected_autonomy_epoch (st_binding s)) 1
                = Some (st_expected_next_autonomy_epoch s)) InvalidNextAutonomyEpoch]
      @ map (\<lambda>(f, v). wal_require_non_empty f v)
          [(''safety_intent_core_ref'', st_safety_intent_core_ref s),
           (''safety_intent_canonicalization_version'', st_safety_intent_canonicalization_version s),
           (''safety_attempt_id'', st_safety_attempt_id s)]
      @ map (\<lambda>(f, d). wal_require_digest f d)
          [(''safety_intent_digest'', st_safety_intent_digest s),
           (''sentinel_red_verdict_digest'', st_sentinel_red_verdict_digest s),
           (''red_latch_receipt_digest'', st_red_latch_receipt_digest s),
           (''actuator_identity_key_binary_policy_digest'',
              st_actuator_identity_key_binary_policy_digest s),
           (''allowed_negative_actions_digest'', st_allowed_negative_actions_digest s),
           (''affected_grants_scope_digest'', st_affected_grants_scope_digest s),
           (''rollback_candidate_plan_digest'', st_rollback_candidate_plan_digest s)])"

fun signature_fields :: "wal_transaction \<Rightarrow> string \<times> string \<times> string" where
  "signature_fields (PositiveAuthority p) = (pt_issuer p, pt_key_id p, pt_algorithm p)"
| "signature_fields (SafetyKernelVariant s) = (st_issuer s, st_key_id s, st_algorithm s)"

definition validate_signature_fields :: "wal_transaction \<Rightarrow> wal_contract_error + unit" where
  "validate_signature_fields t =
     (let (issuer, key_id, algorithm) = signature_fields t in
      seq_checks
        [wal_require_non_empty ''issuer'' issuer, wal_require_non_empty ''key_id'' key_id,
         wal_require_non_empty ''algorithm'' algorithm,
         check (tx_signature t \<noteq> []) (EmptyRequired ''signature'')])"

fun validate_variant :: "wal_transaction \<Rightarrow> wal_contract_error + unit" where
  "validate_variant (PositiveAuthority p) = validate_positive p"
| "validate_variant (SafetyKernelVariant s) = validate_safety s"

definition validate_transaction ::
  "platform \<Rightarrow> wal_transaction \<Rightarrow> wal_contract_error + transaction_structural_validation" where
  "validate_transaction E t =
     (let expected = compute_transaction_digest E t in
      and_then (seq_checks
        [validate_binding (tx_binding t), validate_variant t, validate_signature_fields t,
         wal_require_digest ''transaction_digest'' (tx_digest t),
         check (expected = tx_digest t) (TransactionDigestMismatch expected (tx_digest t))])
      (\<lambda>_. Ok \<lparr>tsv_transaction_digest = expected, tsv_integrity = OpaqueSignaturePresentUnverified\<rparr>))"

section \<open>Records\<close>

fun validate_payload_shape :: "platform \<Rightarrow> wal_payload \<Rightarrow> u64 \<Rightarrow> wal_contract_error + unit" where
  "validate_payload_shape E (PreparePayload t) recorded_at =
     and_then (validate_transaction E t) (\<lambda>_. Ok ())"
| "validate_payload_shape E (ProvisionalPayload d) recorded_at =
     wal_require_digest ''provisional_effects_digest'' d"
| "validate_payload_shape E (CommitPayload c) recorded_at = seq_checks
     [wal_require_digest ''protected_time_evidence_digest'' (wc_protected_time_evidence_digest c),
      wal_require_digest ''commit.authorization_snapshot_digest'' (wc_authorization_snapshot_digest c),
      wal_require_digest ''terminal_outcome_digest'' (wc_terminal_outcome_digest c),
      ensure_terminal_not_after_record (wc_committed_at c) recorded_at]"
| "validate_payload_shape E (AbortPayload a) recorded_at = seq_checks
     [wal_require_digest ''reason_digest'' (wb_reason_digest a),
      wal_require_digest ''terminal_outcome_digest'' (wb_terminal_outcome_digest a),
      ensure_terminal_not_after_record (wb_aborted_at a) recorded_at]"

definition validate_wal_record ::
  "platform \<Rightarrow> wal_record \<Rightarrow> wal_contract_error + record_structural_validation" where
  "validate_wal_record E r =
     (let payload_digest = compute_payload_digest E r; record_digest = compute_wal_record_digest E r in
      and_then (seq_checks
        ([wal_require_schema ''AuthorityWAL record'' (wr_schema r) AUTHORITY_WAL_RECORD_SCHEMA,
          check (wr_sequence r \<noteq> 0) InvalidSequence]
         @ map (\<lambda>(f, v). wal_require_non_empty f v)
             [(''transaction_id'', wr_transaction_id r), (''idempotency_key'', wr_idempotency_key r),
              (''intent_core_ref'', wr_intent_core_ref r), (''issuer'', wr_issuer r),
              (''key_id'', wr_key_id r), (''algorithm'', wr_algorithm r)]
         @ [wal_require_optional_non_empty ''expected_head_id'' (wr_expected_head_id r)]
         @ map (\<lambda>(f, d). wal_require_digest f d)
             [(''intent_digest'', wr_intent_digest r), (''transaction_digest'', wr_transaction_digest r),
              (''authorization_snapshot_digest'', wr_authorization_snapshot_digest r),
              (''payload_digest'', wr_payload_digest r), (''record_digest'', wr_record_digest r)]
         @ [wal_require_optional_digest ''previous_record_digest'' (wr_previous_record_digest r),
            check (wr_signature r \<noteq> []) (EmptyRequired ''signature''),
            check (payload_phase (wr_payload r) = wr_phase r)
              (PhasePayloadMismatch (wr_phase r) (payload_phase (wr_payload r))),
            validate_payload_shape E (wr_payload r) (wr_recorded_at r),
            check (payload_digest = wr_payload_digest r)
              (PayloadDigestMismatch payload_digest (wr_payload_digest r)),
            check (record_digest = wr_record_digest r)
              (RecordDigestMismatch record_digest (wr_record_digest r))]))
      (\<lambda>_. Ok \<lparr>rsv_payload_digest = payload_digest, rsv_record_digest = record_digest,
              rsv_integrity = OpaqueSignaturePresentUnverified\<rparr>))"

fun payload_binding :: "wal_payload \<Rightarrow> wal_transaction \<Rightarrow> wal_contract_error + unit" where
  "payload_binding (PreparePayload t') t = ensure_binding ''prepare.transaction'' (t' = t)"
| "payload_binding (CommitPayload c) t =
     (let b = tx_binding t in seq_checks
        [ensure_binding ''commit.authorization_snapshot_digest''
           (wc_authorization_snapshot_digest c = tb_authorization_snapshot_digest b),
         check (\<not> (wc_committed_at c < tb_issued_at b \<or> wc_committed_at c \<ge> tb_expires_at b))
           InvalidCommitTime])"
| "payload_binding _ t = Ok ()"

definition validate_against_transaction ::
  "platform \<Rightarrow> wal_record \<Rightarrow> wal_transaction \<Rightarrow> wal_contract_error + record_structural_validation" where
  "validate_against_transaction E r t =
     (let b = tx_binding t in
      and_then (validate_wal_record E r) (\<lambda>validation.
      and_then (validate_transaction E t) (\<lambda>_.
      and_then (seq_checks
        (map (\<lambda>(f, m). ensure_binding f m)
          [(''transaction_id'', wr_transaction_id r = tb_transaction_id b),
           (''idempotency_key'', wr_idempotency_key r = tb_idempotency_key b),
           (''intent_core_ref'', wr_intent_core_ref r = tb_intent_core_ref b),
           (''intent_digest'', wr_intent_digest r = tb_intent_digest b),
           (''expected_head_id'', wr_expected_head_id r = tb_expected_head_id b),
           (''expected_constitution_epoch'',
              wr_expected_constitution_epoch r = tb_expected_constitution_epoch b),
           (''expected_autonomy_epoch'', wr_expected_autonomy_epoch r = tb_expected_autonomy_epoch b),
           (''expected_store_epoch'', wr_expected_store_epoch r = tb_expected_store_epoch b),
           (''transaction_digest'', wr_transaction_digest r = tx_digest t),
           (''authorization_snapshot_digest'',
              wr_authorization_snapshot_digest r = tb_authorization_snapshot_digest b)]
         @ [payload_binding (wr_payload r) t]))
      (\<lambda>_. Ok validation))))"

end
