(* ===== verification/Wal_Contracts.thy ===== *)
theory Wal_Contracts
  imports Authority_Wal Policy_Laws
begin

text \<open>
  The contract of \<open>authority_wal.rs\<close>: transactions and records as sealed contracts, the
  separation of human, autonomous and safety authority, what the bytes that a WAL signer
  authenticates determine, and the facts about accepted records that the durable log uses.
\<close>

section \<open>Field checks\<close>

lemma wal_checks_ok [simp]:
  "wal_require_schema c a e = Inr u \<longleftrightarrow> a = e"
  "wal_require_non_empty f v = Inr u \<longleftrightarrow> v \<noteq> []"
  "wal_require_optional_non_empty f ov = Inr u \<longleftrightarrow> ov \<noteq> Some []"
  "wal_require_digest f v = Inr u \<longleftrightarrow> digest_syntax v"
  "ensure_binding f b = Inr u \<longleftrightarrow> b"
  "ensure_terminal_not_after_record x y = Inr u \<longleftrightarrow> x \<le> y"
  by (auto simp: wal_require_schema_def wal_require_non_empty_def wal_require_optional_non_empty_def
      wal_require_digest_def ensure_binding_def ensure_terminal_not_after_record_def)

lemma wal_optional_digest_ok [simp]:
  "wal_require_optional_digest f ov = Inr u \<longleftrightarrow> (\<forall>d. ov = Some d \<longrightarrow> digest_syntax d)"
  by (auto simp: wal_require_optional_digest_def split: option.splits)

lemma capability_compatible_iff:
  "capability_compatible k v \<longleftrightarrow>
     k = HumanCapability \<and> v = Human \<or> k = AutonomyCapability \<and> v \<in> {Policy, AgentQuorum}"
  by (cases "(k, v)" rule: capability_compatible.cases) auto

lemma validate_transaction_parts:
  assumes "validate_transaction E t = Inr v"
  shows "validate_binding (tx_binding t) = Inr ()" "validate_variant t = Inr ()"
    "tx_digest t = compute_transaction_digest E t" "tsv_transaction_digest v = tx_digest t"
  using assms by (auto simp: validate_transaction_def Let_def)

lemma validate_positive_parts:
  assumes "validate_positive p = Inr ()"
  shows "is_positive_sovereign (pt_required_authority_variant p)"
    "capability_compatible (tb_capability_kind (pt_binding p)) (pt_required_authority_variant p)"
  using assms by (auto simp: validate_positive_def Let_def)

lemma validate_safety_parts:
  assumes "validate_safety s = Inr ()"
  shows "tb_capability_kind (st_binding s) = SafetyCapability"
    "st_positive_authority_decision_forbidden s"
    "tb_sentinel_verdict_digest (st_binding s) = Some (st_sentinel_red_verdict_digest s)"
    "checked_add (tb_expected_autonomy_epoch (st_binding s)) 1 = Some (st_expected_next_autonomy_epoch s)"
    "digest_syntax (st_sentinel_red_verdict_digest s)"
  using assms by (simp_all add: validate_safety_def)

section \<open>Serialisation is injective\<close>

lemma wal_names_inj [simp]:
  "capability_name k = capability_name k' \<longleftrightarrow> k = k'" "phase_name p = phase_name p' \<longleftrightarrow> p = p'"
  subgoal by (cases k; cases k'; simp)
  subgoal by (cases p; cases p'; simp)
  done

lemma json_of_binding_canon [simp]: "canon (json_of_binding b) = canon (json_of_binding c) \<longleftrightarrow> b = c"
proof
  assume "canon (json_of_binding b) = canon (json_of_binding c)"
  from canon_object_same_keys [OF this [unfolded json_of_binding_def]]
  show "b = c" by (simp add: name_inj transaction_binding.equality)
qed simp

lemma json_of_positive_canon [simp]: "canon (json_of_positive p) = canon (json_of_positive q) \<longleftrightarrow> p = q"
proof
  assume "canon (json_of_positive p) = canon (json_of_positive q)"
  from canon_object_same_keys [OF this [unfolded json_of_positive_def]]
  show "p = q" by (simp add: name_inj positive_transaction.equality)
qed simp

lemma json_of_safety_canon [simp]: "canon (json_of_safety s) = canon (json_of_safety u) \<longleftrightarrow> s = u"
proof
  assume "canon (json_of_safety s) = canon (json_of_safety u)"
  from canon_object_same_keys [OF this [unfolded json_of_safety_def]]
  show "s = u" by (simp add: safety_transaction.equality)
qed simp

text \<open>Two tagged objects are equal if their tags and contents are.\<close>

lemma canon_tagged:
  assumes "k \<noteq> k'"
  shows "canon (JObject [(k, JString a), (k', v)]) = canon (JObject [(k, JString b), (k', w)])
    \<longleftrightarrow> a = b \<and> canon v = canon w"
proof
  assume "canon (JObject [(k, JString a), (k', v)]) = canon (JObject [(k, JString b), (k', w)])"
  from canon_object_same_keys [OF this] assms show "a = b \<and> canon v = canon w" by simp
qed simp

lemma json_of_transaction_canon [simp]:
  "canon (json_of_transaction t) = canon (json_of_transaction u) \<longleftrightarrow> t = u"
  by (cases t; cases u) (simp_all add: canon_tagged del: canon.simps)

lemma canon_singleton: "canon (JObject [(k, v)]) = canon (JObject [(k, w)]) \<longleftrightarrow> canon v = canon w"
  by simp

lemma json_of_commit_canon:
  "canon (json_of_payload_content (CommitPayload c)) = canon (json_of_payload_content (CommitPayload d))
     \<longleftrightarrow> c = d"
proof
  assume "canon (json_of_payload_content (CommitPayload c)) = canon (json_of_payload_content (CommitPayload d))"
  from canon_object_same_keys [OF this [unfolded json_of_payload_content.simps]]
  show "c = d" by (simp add: wal_commit.equality)
qed simp

lemma json_of_abort_canon:
  "canon (json_of_payload_content (AbortPayload a)) = canon (json_of_payload_content (AbortPayload b))
     \<longleftrightarrow> a = b"
proof
  assume "canon (json_of_payload_content (AbortPayload a)) = canon (json_of_payload_content (AbortPayload b))"
  from canon_object_same_keys [OF this [unfolded json_of_payload_content.simps]]
  show "a = b" by (simp add: wal_abort.equality)
qed simp

lemma json_of_content_canon:
  assumes "payload_phase p = payload_phase q"
    and "canon (json_of_payload_content p) = canon (json_of_payload_content q)"
  shows "p = q"
proof (cases p)
  case (PreparePayload t)
  with assms show ?thesis by (cases q) (simp_all add: canon_singleton del: canon.simps)
next
  case (ProvisionalPayload d)
  with assms show ?thesis by (cases q) simp_all
next
  case (CommitPayload c)
  with assms(1) obtain d where "q = CommitPayload d" by (cases q) auto
  with assms(2) CommitPayload show ?thesis by (simp only: json_of_commit_canon)
next
  case (AbortPayload a)
  with assms(1) obtain b where "q = AbortPayload b" by (cases q) auto
  with assms(2) AbortPayload show ?thesis by (simp only: json_of_abort_canon)
qed

lemma json_of_payload_canon [simp]: "canon (json_of_payload p) = canon (json_of_payload q) \<longleftrightarrow> p = q"
  using json_of_content_canon [of p q]
  unfolding json_of_payload_def by (auto simp: canon_tagged simp del: canon.simps)

lemma json_of_wal_record_canon:
  assumes "canon (json_of_wal_record r) = canon (json_of_wal_record s)"
  shows "r = s"
proof -
  from canon_object_same_keys [OF assms [unfolded json_of_wal_record_def]]
  show ?thesis by (simp add: wal_record.equality)
qed

section \<open>Sealed contracts\<close>

fun tx_body :: "wal_transaction \<Rightarrow> wal_transaction" where
  "tx_body (PositiveAuthority p) = PositiveAuthority (p\<lparr>pt_transaction_digest := [], pt_signature := []\<rparr>)"
| "tx_body (SafetyKernelVariant s) = SafetyKernelVariant (s\<lparr>st_transaction_digest := [], st_signature := []\<rparr>)"

definition record_body :: "wal_record \<Rightarrow> wal_record" where
  "record_body r = r\<lparr>wr_record_digest := [], wr_signature := []\<rparr>"

lemma tx_body_binding: "tx_body t = tx_body u \<Longrightarrow> tx_binding t = tx_binding u"
  by (cases t; cases u) (auto dest: arg_cong [where f = pt_binding] arg_cong [where f = st_binding])

lemma positive_material_body:
  assumes "canon (sealed_material ''transaction_digest'' (json_of_positive p))
    = canon (sealed_material ''transaction_digest'' (json_of_positive q))"
  shows "tx_body (PositiveAuthority p) = tx_body (PositiveAuthority q)"
  using assms unfolding sealed_material_def json_of_positive_def obj_remove.simps
  by (simp del: canon.simps)
    (drule canon_object_same_keys, simp_all add: name_inj positive_transaction.equality)

lemma safety_material_body:
  assumes "canon (sealed_material ''transaction_digest'' (json_of_safety p))
    = canon (sealed_material ''transaction_digest'' (json_of_safety q))"
  shows "tx_body (SafetyKernelVariant p) = tx_body (SafetyKernelVariant q)"
  using assms unfolding sealed_material_def json_of_safety_def obj_remove.simps
  by (simp del: canon.simps)
    (drule canon_object_same_keys, simp_all add: safety_transaction.equality)

lemma transaction_material_simps:
  "transaction_material (PositiveAuthority p) = JObject
     [(''transaction_variant'', JString ''POSITIVE_AUTHORITY''),
      (''transaction'', sealed_material ''transaction_digest'' (json_of_positive p))]"
  "transaction_material (SafetyKernelVariant s) = JObject
     [(''transaction_variant'', JString ''SAFETY_KERNEL''),
      (''transaction'', sealed_material ''transaction_digest'' (json_of_safety s))]"
  by (simp_all add: transaction_material_def)

lemma transaction_material_body:
  assumes "canon (transaction_material t) = canon (transaction_material u)"
  shows "tx_body t = tx_body u"
proof (cases t)
  case p: (PositiveAuthority p)
  from assms obtain q where q: "u = PositiveAuthority q"
    by (cases u) (simp_all add: p transaction_material_simps canon_tagged del: canon.simps)
  from assms have "canon (sealed_material ''transaction_digest'' (json_of_positive p))
      = canon (sealed_material ''transaction_digest'' (json_of_positive q))"
    unfolding p q transaction_material_simps by (subst (asm) canon_tagged) simp_all
  then show ?thesis unfolding p q by (rule positive_material_body)
next
  case p: (SafetyKernelVariant p)
  from assms obtain q where q: "u = SafetyKernelVariant q"
    by (cases u) (simp_all add: p transaction_material_simps canon_tagged del: canon.simps)
  from assms have "canon (sealed_material ''transaction_digest'' (json_of_safety p))
      = canon (sealed_material ''transaction_digest'' (json_of_safety q))"
    unfolding p q transaction_material_simps by (subst (asm) canon_tagged) simp_all
  then show ?thesis unfolding p q by (rule safety_material_body)
qed

lemma transaction_material_put: "transaction_material (put_transaction_digest d t) = transaction_material t"
  by (cases t)
    (simp_all add: transaction_material_simps sealed_material_def json_of_positive_def json_of_safety_def)

lemma tx_digest_put: "tx_digest (put_transaction_digest d t) = d"
  by (cases t) simp_all

interpretation transaction_seal: sealed_contract compute_transaction_digest
  AUTHORITY_TRANSACTION_DIGEST_DOMAIN transaction_material tx_digest put_transaction_digest tx_body
  by (unfold_locales, simp add: compute_transaction_digest_def, rule transaction_material_put,
      rule tx_digest_put, rule transaction_material_body)

lemma record_material_body:
  assumes "canon (sealed_material ''record_digest'' (json_of_wal_record r))
    = canon (sealed_material ''record_digest'' (json_of_wal_record s))"
  shows "record_body r = record_body s"
  using assms unfolding sealed_material_def json_of_wal_record_def obj_remove.simps
  by (simp del: canon.simps)
    (drule canon_object_same_keys, simp_all add: record_body_def wal_record.equality)

interpretation record_seal: sealed_contract compute_wal_record_digest AUTHORITY_WAL_RECORD_DIGEST_DOMAIN
  "\<lambda>r. sealed_material ''record_digest'' (json_of_wal_record r)" wr_record_digest
  "\<lambda>d r. r\<lparr>wr_record_digest := d\<rparr>" record_body
  by (unfold_locales, simp add: compute_wal_record_digest_def,
      simp add: sealed_material_def json_of_wal_record_def, simp, rule record_material_body)

text \<open>The signed message is the whole record but the signature.\<close>

definition unsigned :: "wal_record \<Rightarrow> wal_record" where
  "unsigned r = r\<lparr>wr_signature := []\<rparr>"

lemma unsigned_fields:
  "wr_sequence (unsigned r) = wr_sequence r" "wr_payload (unsigned r) = wr_payload r"
  "wr_previous_record_digest (unsigned r) = wr_previous_record_digest r"
  "wr_record_digest (unsigned r) = wr_record_digest r"
  by (simp_all add: unsigned_def)

lemma unsigned_material:
  assumes "canon (obj_remove ''signature'' (json_of_wal_record r))
    = canon (obj_remove ''signature'' (json_of_wal_record s))"
  shows "unsigned r = unsigned s"
  using assms unfolding json_of_wal_record_def obj_remove.simps
  by (simp del: canon.simps)
    (drule canon_object_same_keys, simp_all add: unsigned_def wal_record.equality)

lemma signature_message_put_signature [simp]:
  "canonical_signature_message E (r\<lparr>wr_signature := sg\<rparr>) = canonical_signature_message E r"
  by (simp add: canonical_signature_message_def json_of_wal_record_def)

section \<open>Sealing makes a valid transaction\<close>

lemma put_transaction_digest_keeps [simp]:
  "tx_binding (put_transaction_digest d t) = tx_binding t"
  "tx_signature (put_transaction_digest d t) = tx_signature t"
  "signature_fields (put_transaction_digest d t) = signature_fields t"
  "validate_variant (put_transaction_digest d t) = validate_variant t"
  "tx_body (put_transaction_digest d t) = tx_body t"
  by (cases t; simp add: validate_positive_def validate_safety_def Let_def)+

lemma seal_transaction_valid:
  assumes "sha256_width E" and "validate_binding (tx_binding t) = Inr ()" "validate_variant t = Inr ()"
    "validate_signature_fields t = Inr ()"
  shows "\<exists>v. validate_transaction E (seal_transaction E t) = Inr v"
proof -
  have "digest_syntax (tx_digest (seal_transaction E t))"
    unfolding seal_transaction_def tx_digest_put using assms(1) by (rule transaction_seal.compute_syntax)
  moreover have "tx_digest (seal_transaction E t) = compute_transaction_digest E (seal_transaction E t)"
    unfolding seal_transaction_def by (rule transaction_seal.seal_sealed)
  ultimately show ?thesis using assms(2-4)
    unfolding validate_transaction_def Let_def
    by (simp add: validate_signature_fields_def Let_def) (simp add: seal_transaction_def)
qed

section \<open>Accepted records\<close>

lemma validate_wal_record_parts:
  assumes "validate_wal_record E r = Inr v"
  shows "payload_phase (wr_payload r) = wr_phase r" "wr_record_digest r = compute_wal_record_digest E r"
    "wr_payload_digest r = compute_payload_digest E r"
    "validate_payload_shape E (wr_payload r) (wr_recorded_at r) = Inr ()" "wr_sequence r \<noteq> 0"
    "digest_syntax (wr_record_digest r)"
  using assms unfolding validate_wal_record_def Let_def by simp_all

lemma validate_against_parts:
  assumes "validate_against_transaction E r t = Inr v"
  shows "validate_wal_record E r = Inr v" "\<exists>w. validate_transaction E t = Inr w"
    "wr_transaction_id r = tb_transaction_id (tx_binding t)"
    "wr_idempotency_key r = tb_idempotency_key (tx_binding t)"
    "wr_intent_digest r = tb_intent_digest (tx_binding t)"
    "wr_transaction_digest r = tx_digest t"
    "wr_authorization_snapshot_digest r = tb_authorization_snapshot_digest (tx_binding t)"
    "payload_binding (wr_payload r) t = Inr ()"
  using assms by (auto simp: validate_against_transaction_def Let_def)

lemma payload_binding_commit:
  "payload_binding (CommitPayload c) t = Inr () \<longleftrightarrow>
     wc_authorization_snapshot_digest c = tb_authorization_snapshot_digest (tx_binding t) \<and>
     tb_issued_at (tx_binding t) \<le> wc_committed_at c \<and> wc_committed_at c < tb_expires_at (tx_binding t)"
  by (auto simp: Let_def)

section \<open>Sample transactions\<close>

definition sample_binding :: "capability_kind \<Rightarrow> transaction_binding" where
  "sample_binding k = \<lparr>tb_transaction_id = ''t'', tb_organism_id = ''o'', tb_brain_id = ''b'',
     tb_subject_id = ''s'', tb_action_id = ''mission.land'', tb_idempotency_key = ''k'',
     tb_intent_core_ref = ''c'', tb_intent_digest = hex64, tb_intent_canonicalization_version = ''v1'',
     tb_capability_id = ''cap'', tb_capability_kind = k, tb_nonce = ''n'', tb_expected_head_id = None,
     tb_expected_active_mode = HumanGated, tb_expected_activation_receipt_id = None,
     tb_expected_constitution_epoch = 1, tb_expected_autonomy_epoch = 7, tb_expected_store_epoch = 1,
     tb_sentinel_verdict_digest = Some hex64b, tb_authorization_snapshot_digest = hex64,
     tb_issued_at = 10, tb_expires_at = 100\<rparr>"

definition sample_positive :: "string \<Rightarrow> positive_transaction" where
  "sample_positive signature = \<lparr>pt_schema = POSITIVE_AUTHORITY_TRANSACTION_SCHEMA,
     pt_binding = sample_binding HumanCapability, pt_authority_decision_digest = hex64,
     pt_identity_role_binding_digest = hex64, pt_required_authority_variant = Human,
     pt_action_policy_registry_digest = hex64, pt_classifier_decision_digest = hex64,
     pt_expected_pending_red_set_digest = hex64, pt_expected_red_latch_epoch = 1,
     pt_expected_store_version = 1, pt_expected_boundary_version = 1, pt_expected_contract_version = 1,
     pt_action_payload_digest = hex64, pt_issuer = ''i'', pt_key_id = ''k'', pt_algorithm = ''a'',
     pt_transaction_digest = [], pt_signature = signature\<rparr>"

definition sample_safety :: safety_transaction where
  "sample_safety = \<lparr>st_schema = SAFETY_KERNEL_TRANSACTION_SCHEMA,
     st_binding = sample_binding SafetyCapability, st_safety_intent_digest = hex64,
     st_safety_intent_core_ref = ''c'', st_safety_intent_canonicalization_version = ''v1'',
     st_safety_attempt_id = ''at'', st_sentinel_red_verdict_digest = hex64b,
     st_red_latch_receipt_digest = hex64, st_actuator_identity_key_binary_policy_digest = hex64,
     st_allowed_negative_actions_digest = hex64, st_affected_grants_scope_digest = hex64,
     st_rollback_candidate_plan_digest = hex64, st_expected_next_autonomy_epoch = 8,
     st_positive_authority_decision_forbidden = True, st_issuer = ''i'', st_key_id = ''k'',
     st_algorithm = ''a'', st_transaction_digest = [], st_signature = ''sig''\<rparr>"

definition sample_positive_tx :: "platform \<Rightarrow> string \<Rightarrow> wal_transaction" where
  "sample_positive_tx E signature = seal_transaction E (PositiveAuthority (sample_positive signature))"

definition sample_safety_tx :: "platform \<Rightarrow> wal_transaction" where
  "sample_safety_tx E = seal_transaction E (SafetyKernelVariant sample_safety)"

lemma sample_binding_valid: "validate_binding (sample_binding k) = Inr ()"
  by (simp add: validate_binding_def sample_binding_def)

lemma sample_positive_valid:
  "sha256_width E \<Longrightarrow> signature \<noteq> [] \<Longrightarrow>
     \<exists>v. validate_transaction E (sample_positive_tx E signature) = Inr v"
  unfolding sample_positive_tx_def
  by (rule seal_transaction_valid)
    (simp_all add: sample_positive_def sample_binding_valid validate_positive_def Let_def
      validate_signature_fields_def is_positive_sovereign_def, simp add: sample_binding_def)

lemma sample_positive_same_digest:
  "tx_digest (sample_positive_tx E s) = tx_digest (sample_positive_tx E s')"
  by (simp add: sample_positive_tx_def seal_transaction_def compute_transaction_digest_def
      transaction_material_simps sealed_material_def json_of_positive_def)
    (simp add: sample_positive_def)

lemma sample_safety_valid:
  "sha256_width E \<Longrightarrow> \<exists>v. validate_transaction E (sample_safety_tx E) = Inr v"
  unfolding sample_safety_tx_def
  by (rule seal_transaction_valid)
    (simp_all add: sample_safety_def sample_binding_valid validate_safety_def
      validate_signature_fields_def, simp add: sample_binding_def checked_add_def)


text \<open>
  The properties of the transaction and record contracts of \<open>authority_wal.rs\<close>: which
  authority an accepted transaction may carry, what its digest pins, and what a WAL
  signature is a signature of.
\<close>

text \<open>A transaction digest names one authorisation: two accepted transactions with one digest
  are the same variant and agree in every field but the signature, or the hash collides on the
  two hashed messages.\<close>
theorem transaction_digest_pins_authorisation:
  assumes "serde_writer E"
    and "validate_transaction E t = Inr v" "validate_transaction E u = Inr w"
    and "tx_digest t = tx_digest u"
  shows "tx_body t = tx_body u \<and> tx_binding t = tx_binding u \<or>
    canonical_collision E AUTHORITY_TRANSACTION_DIGEST_DOMAIN (transaction_material t)
      (transaction_material u)"
proof -
  have "tx_body t = tx_body u \<or> canonical_collision E AUTHORITY_TRANSACTION_DIGEST_DOMAIN
      (transaction_material t) (transaction_material u)"
    using transaction_seal.tamper_evident [OF assms(1)] validate_transaction_parts(3) [OF assms(2)]
      validate_transaction_parts(3) [OF assms(3)] assms(4) by blast
  moreover have "tx_body t = tx_body u \<Longrightarrow> tx_binding t = tx_binding u" by (rule tx_body_binding)
  ultimately show ?thesis by blast
qed

lemma transaction_digest_pins_authorisation_witness:
  "tx_body (sample_positive_tx reference_platform ''s1'') = tx_body (sample_positive_tx reference_platform ''s2'') \<or>
   canonical_collision reference_platform AUTHORITY_TRANSACTION_DIGEST_DOMAIN
     (transaction_material (sample_positive_tx reference_platform ''s1''))
     (transaction_material (sample_positive_tx reference_platform ''s2''))"
proof -
  obtain v w where "validate_transaction reference_platform (sample_positive_tx reference_platform ''s1'') = Inr v"
    "validate_transaction reference_platform (sample_positive_tx reference_platform ''s2'') = Inr w"
    using sample_positive_valid [OF sha256_width_reference] by blast
  from transaction_digest_pins_authorisation [OF serde_writer_reference this sample_positive_same_digest]
  show ?thesis by blast
qed

lemma validate_binding_lifetime: "validate_binding b = Inr () \<Longrightarrow> tb_issued_at b < tb_expires_at b"
  by (simp add: validate_binding_def not_le)

text \<open>Human, autonomous and safety authority do not mix: an accepted positive transaction
  carries a human capability and requires the human variant, or carries an autonomy capability and
  requires a policy or a quorum; an accepted safety transaction carries a safety capability, forbids
  a positive decision, names the red verdict of the sentinel it is bound to and moves the autonomy
  epoch forward by exactly one, without wrapping.  Either has a lifetime that is not empty, and
  its digest stands for no other transaction: an accepted transaction with the same digest is of
  the same variant and agrees with it in every field but the signature, or the hash collides.\<close>
theorem transaction_authority_separated:
  assumes "serde_writer E" and "validate_transaction E t = Inr v"
  shows "(case t of
      PositiveAuthority p \<Rightarrow>
        (tb_capability_kind (pt_binding p), pt_required_authority_variant p)
          \<in> {(HumanCapability, Human), (AutonomyCapability, Policy), (AutonomyCapability, AgentQuorum)}
    | SafetyKernelVariant s \<Rightarrow>
        tb_capability_kind (st_binding s) = SafetyCapability \<and>
        st_positive_authority_decision_forbidden s \<and>
        tb_sentinel_verdict_digest (st_binding s) = Some (st_sentinel_red_verdict_digest s) \<and>
        unat (st_expected_next_autonomy_epoch s) = unat (tb_expected_autonomy_epoch (st_binding s)) + 1) \<and>
    tb_issued_at (tx_binding t) < tb_expires_at (tx_binding t) \<and>
    (\<forall>u w. validate_transaction E u = Inr w \<and> tx_digest u = tx_digest t \<longrightarrow>
       tx_body u = tx_body t \<or>
       canonical_collision E AUTHORITY_TRANSACTION_DIGEST_DOMAIN (transaction_material u) (transaction_material t))"
proof (intro conjI allI impI)
  show "case t of
      PositiveAuthority p \<Rightarrow>
        (tb_capability_kind (pt_binding p), pt_required_authority_variant p)
          \<in> {(HumanCapability, Human), (AutonomyCapability, Policy), (AutonomyCapability, AgentQuorum)}
    | SafetyKernelVariant s \<Rightarrow>
        tb_capability_kind (st_binding s) = SafetyCapability \<and>
        st_positive_authority_decision_forbidden s \<and>
        tb_sentinel_verdict_digest (st_binding s) = Some (st_sentinel_red_verdict_digest s) \<and>
        unat (st_expected_next_autonomy_epoch s) = unat (tb_expected_autonomy_epoch (st_binding s)) + 1"
  proof (cases t)
    case (PositiveAuthority p)
    with validate_transaction_parts(2) [OF assms(2)]
    have "capability_compatible (tb_capability_kind (pt_binding p)) (pt_required_authority_variant p)"
      by (simp add: validate_positive_parts)
    with PositiveAuthority show ?thesis by (auto simp: capability_compatible_iff)
  next
    case (SafetyKernelVariant s)
    with validate_transaction_parts(2) [OF assms(2)] have s: "validate_safety s = Inr ()" by simp
    then have "unat (st_expected_next_autonomy_epoch s) = unat (tb_expected_autonomy_epoch (st_binding s)) + 1"
      using validate_safety_parts(4) [OF s] unfolding checked_add_Some by simp
    with validate_safety_parts [OF s] SafetyKernelVariant show ?thesis by simp
  qed
  show "tb_issued_at (tx_binding t) < tb_expires_at (tx_binding t)"
    by (rule validate_binding_lifetime [OF validate_transaction_parts(1) [OF assms(2)]])
  fix u w assume "validate_transaction E u = Inr w \<and> tx_digest u = tx_digest t"
  with transaction_digest_pins_authorisation [OF assms(1) _ assms(2), of u w]
  show "tx_body u = tx_body t \<or>
      canonical_collision E AUTHORITY_TRANSACTION_DIGEST_DOMAIN (transaction_material u) (transaction_material t)" by blast
qed

text \<open>One accepted transaction of either variant.\<close>

lemma transaction_authority_separated_witness:
  "(tb_capability_kind (pt_binding (sample_positive ''sig'')), pt_required_authority_variant (sample_positive ''sig''))
       \<in> {(HumanCapability, Human), (AutonomyCapability, Policy), (AutonomyCapability, AgentQuorum)} \<and>
   tb_issued_at (pt_binding (sample_positive ''sig'')) < tb_expires_at (pt_binding (sample_positive ''sig'')) \<and>
   unat (st_expected_next_autonomy_epoch sample_safety)
     = unat (tb_expected_autonomy_epoch (st_binding sample_safety)) + 1"
proof -
  obtain v w where "validate_transaction reference_platform (sample_positive_tx reference_platform ''sig'') = Inr v"
    "validate_transaction reference_platform (sample_safety_tx reference_platform) = Inr w"
    using sample_positive_valid [OF sha256_width_reference] sample_safety_valid [OF sha256_width_reference] by blast
  from transaction_authority_separated [OF serde_writer_reference this(1)]
    transaction_authority_separated [OF serde_writer_reference this(2)] show ?thesis
    by (simp add: sample_positive_tx_def sample_safety_tx_def seal_transaction_def)
qed

text \<open>A WAL signature is over one record in one place of one log: the signed message
  determines every field of the record but the signature itself, so its sequence number, the
  digest of its predecessor, its phase and its payload, and it is not the message of any
  digest.\<close>
theorem wal_signature_binds_place:
  assumes "serde_writer E" and "canonical_signature_message E r = canonical_signature_message E s"
  shows "unsigned r = unsigned s \<and> wr_sequence r = wr_sequence s \<and>
    wr_previous_record_digest r = wr_previous_record_digest s \<and> wr_payload r = wr_payload s \<and>
    (\<forall>domain payload. canonical_signature_message E r \<noteq> digest_message domain payload)"
proof -
  from assms(2) have "canonical_json E (obj_remove ''signature'' (json_of_wal_record r))
      = canonical_json E (obj_remove ''signature'' (json_of_wal_record s))"
    by (simp add: canonical_signature_message_def Let_def)
  with assms(1) have "unsigned r = unsigned s"
    by (intro unsigned_material) (simp add: canonical_json_def write_value_canon)
  moreover from this have "wr_sequence r = wr_sequence s" "wr_payload r = wr_payload s"
    "wr_previous_record_digest r = wr_previous_record_digest s"
    using unsigned_fields [of r] unsigned_fields [of s] by argo+
  moreover have "canonical_signature_message E r \<noteq> digest_message domain payload" for domain payload
    by (simp add: canonical_signature_message_def digest_message_def digest_prefix_def
        AUTHORITY_WAL_SIGNATURE_PREFIX_def Let_def)
  ultimately show ?thesis by blast
qed

lemma wal_signature_binds_place_witness:
  "\<forall>t p n. unsigned ((draft_record t p n [] [] [] ''a'')\<lparr>wr_signature := ''b''\<rparr>)
     = unsigned (draft_record t p n [] [] [] ''a'')"
  using wal_signature_binds_place [OF serde_writer_reference signature_message_put_signature] by blast

end
