(* ===== verification/Protected_Head.thy ===== *)
theory Protected_Head
  imports Control_Prelude
begin

text \<open>
  \<open>m1nd-mcp/src/protected_journal_head.rs\<close>: the anti-rollback anchor of a journal.  An
  independent backend holds, per domain, the sequence and digest of the last record; a
  journal is opened only if it ends there, and every append moves the anchor by
  compare-and-swap.  The trait is the record \<open>head_backend\<close> of its two operations; the laws
  that the owners of a journal rely on are the locale \<open>protected_head\<close>, interpreted on the
  software backend of the source.
\<close>

definition AUTHORITY_WAL_HEAD_DOMAIN :: string where
  "AUTHORITY_WAL_HEAD_DOMAIN = ''m1nd-authority-wal-head-v1''"

record journal_head_snapshot =
  hs_domain :: string
  hs_record_sequence :: u64
  hs_head_digest :: "string option"

definition observed :: "string \<Rightarrow> u64 \<Rightarrow> string option \<Rightarrow> journal_head_snapshot" where
  "observed domain record_sequence head_digest =
     \<lparr>hs_domain = domain, hs_record_sequence = record_sequence, hs_head_digest = head_digest\<rparr>"

lemma observed_inject [simp]:
  "observed d n h = observed d' n' h' \<longleftrightarrow> d = d' \<and> n = n' \<and> h = h'"
  by (simp add: observed_def)

text \<open>The error strings of this module, the formatted ones with the values they show.\<close>

datatype head_error =
    BackendFailure string
  | DomainMismatch
  | CompareAndSwapMismatch
  | InitialHeadNotEmpty
  | NotOneRecord
  | DiffersFromJournal journal_head_snapshot journal_head_snapshot
  | NonEmptyWithoutHead
  | ChangedOutsideOwner

text \<open>The trait \<open>ProtectedJournalHeadBackendV1\<close> over a backend state \<open>'b\<close>.\<close>

record 'b head_backend =
  read_latest :: "'b \<Rightarrow> string \<Rightarrow> head_error + journal_head_snapshot option"
  compare_and_advance :: "'b \<Rightarrow> string \<Rightarrow> journal_head_snapshot option \<Rightarrow> journal_head_snapshot \<Rightarrow> 'b \<times> (head_error + unit)"

section \<open>The software backend\<close>

type_synonym software_heads = "string \<rightharpoonup> journal_head_snapshot"

definition software_compare_and_advance ::
  "software_heads \<Rightarrow> string \<Rightarrow> journal_head_snapshot option \<Rightarrow> journal_head_snapshot
     \<Rightarrow> software_heads \<times> (head_error + unit)" where
  "software_compare_and_advance state domain expected next_head =
     (if hs_domain next_head \<noteq> domain then (state, Err DomainMismatch)
      else if state domain \<noteq> expected then (state, Err CompareAndSwapMismatch)
      else case expected of
        None \<Rightarrow>
          if hs_record_sequence next_head \<noteq> 0 \<or> hs_head_digest next_head \<noteq> None
          then (state, Err InitialHeadNotEmpty)
          else (state(domain \<mapsto> next_head), Ok ())
      | Some previous \<Rightarrow>
          if hs_record_sequence next_head \<noteq> saturating_add (hs_record_sequence previous) 1
             \<or> hs_head_digest next_head = None
          then (state, Err NotOneRecord)
          else (state(domain \<mapsto> next_head), Ok ()))"

definition software_backend :: "software_heads head_backend" where
  "software_backend =
     \<lparr>read_latest = (\<lambda>state domain. Ok (state domain)),
      compare_and_advance = software_compare_and_advance\<rparr>"

section \<open>Use by the journals\<close>

definition verify_or_initialize_protected_head ::
  "'b head_backend \<Rightarrow> 'b \<Rightarrow> string \<Rightarrow> u64 \<Rightarrow> string option \<Rightarrow> 'b \<times> (head_error + journal_head_snapshot)" where
  "verify_or_initialize_protected_head B b domain observed_sequence observed_head_digest =
     (let obs = observed domain observed_sequence observed_head_digest in
      case read_latest B b domain of
        Inl e \<Rightarrow> (b, Err e)
      | Inr (Some protected) \<Rightarrow>
          if protected = obs then (b, Ok protected) else (b, Err (DiffersFromJournal protected obs))
      | Inr None \<Rightarrow>
          if hs_record_sequence obs = 0 \<and> hs_head_digest obs = None then
            (case compare_and_advance B b domain None obs of
               (b', Inl e) \<Rightarrow> (b', Err e)
             | (b', Inr _) \<Rightarrow> (b', Ok obs))
          else (b, Err NonEmptyWithoutHead))"

definition advance_protected_head ::
  "'b head_backend \<Rightarrow> 'b \<Rightarrow> string \<Rightarrow> journal_head_snapshot \<Rightarrow> u64 \<Rightarrow> string \<Rightarrow> 'b \<times> (head_error + journal_head_snapshot)" where
  "advance_protected_head B b domain expected next_sequence next_head_digest =
     (let next_head = observed domain next_sequence (Some next_head_digest) in
      case read_latest B b domain of
        Inl e \<Rightarrow> (b, Err e)
      | Inr current \<Rightarrow>
          if current \<noteq> Some expected then (b, Err ChangedOutsideOwner)
          else (case compare_and_advance B b domain (Some expected) next_head of
                  (b', Inl e) \<Rightarrow> (b', Err e)
                | (b', Inr _) \<Rightarrow> (b', Ok next_head)))"

section \<open>The contract of a backend\<close>

text \<open>
  A successful compare-and-swap moves the anchor from the expected to the next value, a
  refused one leaves it, and no other domain is touched.
\<close>

locale protected_head =
  fixes B :: "'b head_backend"
  assumes cas_done: "compare_and_advance B b d expected next_head = (b', Inr ()) \<Longrightarrow>
      read_latest B b d = Inr expected \<and> read_latest B b' d = Inr (Some next_head)"
    and cas_refused: "compare_and_advance B b d expected next_head = (b', Inl e) \<Longrightarrow>
      read_latest B b' d = read_latest B b d"
    and cas_frame: "compare_and_advance B b d expected next_head = (b', res) \<Longrightarrow> d' \<noteq> d \<Longrightarrow>
      read_latest B b' d' = read_latest B b d'"

context protected_head begin

lemma verify_ok:
  assumes "verify_or_initialize_protected_head B b d n h = (b', Inr s)"
  shows "s = observed d n h" "read_latest B b' d = Inr (Some s)"
    "read_latest B b d = Inr (Some s) \<or> read_latest B b d = Inr None \<and> n = 0 \<and> h = None"
  using assms cas_done
  by (auto simp: verify_or_initialize_protected_head_def Let_def observed_def
      split: sum.splits option.splits if_splits prod.splits)

lemma verify_keeps_anchor:
  assumes "verify_or_initialize_protected_head B b d n h = (b', res)"
    and "read_latest B b d = Inr (Some p)"
  shows "read_latest B b' d = Inr (Some p)" "res = (if p = observed d n h then Inr p else Inl (DiffersFromJournal p (observed d n h)))"
  using assms by (auto simp: verify_or_initialize_protected_head_def Let_def split: if_splits)

lemma head_advance_ok:
  assumes "advance_protected_head B b d expected n h = (b', Inr s)"
  shows "s = observed d n (Some h)" "read_latest B b d = Inr (Some expected)"
    "read_latest B b' d = Inr (Some s)"
  using assms cas_done
  by (auto simp: advance_protected_head_def Let_def split: sum.splits option.splits if_splits prod.splits)

lemma advance_refused:
  assumes "advance_protected_head B b d expected n h = (b', Inl e)"
  shows "read_latest B b' d = read_latest B b d"
  using assms cas_refused
  by (auto simp: advance_protected_head_def Let_def split: sum.splits option.splits if_splits prod.splits)

end

interpretation software_head: protected_head software_backend
  by unfold_locales
    (auto simp: software_backend_def software_compare_and_advance_def split: if_splits option.splits)

text \<open>The software backend moves an existing anchor by exactly one record.\<close>

lemma software_head_steps:
  assumes "software_compare_and_advance state d (Some p) next_head = (state', Inr ())"
  shows "hs_record_sequence next_head = saturating_add (hs_record_sequence p) 1 \<and> hs_head_digest next_head \<noteq> None"
  using assms by (auto simp: software_compare_and_advance_def split: if_splits)

end
