(* ===== verification/Durable_Wal.thy ===== *)
theory Durable_Wal
  imports Wal_Contracts Log_Bytes Protected_Head
begin

text \<open>
  \<open>m1nd-mcp/src/authority_wal.rs\<close>: the durable write-ahead log of authority transactions.
  The replay index with its phase machine and its idempotency scopes, the append that chains,
  signs, verifies, applies and writes a record and then moves the protected head, and the
  recovery that replays the file and cuts off a torn tail.

  The signer (\<open>AuthorityWalRecordCrypto\<close>), the backend of the protected head and the JSON
  parser are parameters; what the I/O calls did is an argument.  \<open>u64\<close> sequence numbers wrap
  here as in a release build; the wrapped sequence 0 is refused by the record validator.
\<close>

section \<open>Data\<close>

record commit_witness =
  cw_transaction_id :: string
  cw_phase :: wal_phase
  cw_transaction_digest :: string
  cw_authorization_snapshot_digest :: string
  cw_terminal_record_digest :: string
  cw_committed_at :: u64

record terminal_outcome =
  to_transaction_id :: string
  to_idempotency_key :: string
  to_phase :: wal_phase
  to_terminal_outcome_digest :: string
  to_terminal_record_digest :: string
  to_verified_commit_witness :: "commit_witness option"

text \<open>The tail length is a \<open>usize\<close> widened to \<open>u64\<close>, which loses nothing: a natural number.\<close>

record recovery_report =
  rp_record_count :: u64
  rp_recovered_torn_tail :: bool
  rp_truncated_tail_bytes :: nat

datatype crypto_assurance =
    UnavailableFailClosed | SoftwareTestOnlyNotProven | ProductionCryptographic

text \<open>The trait \<open>AuthorityWalRecordCrypto\<close>.\<close>

record record_crypto =
  rk_assurance :: crypto_assurance
  rk_issuer :: string
  rk_key_id :: string
  rk_algorithm :: string
  rk_sign :: "bytes \<Rightarrow> string + string"
  rk_verify :: "bytes \<Rightarrow> string \<Rightarrow> string + unit"

definition unavailable_crypto :: record_crypto where
  "unavailable_crypto = \<lparr>rk_assurance = UnavailableFailClosed, rk_issuer = ''unavailable'',
     rk_key_id = ''unavailable'', rk_algorithm = ''UNAVAILABLE_FAIL_CLOSED'',
     rk_sign = (\<lambda>_. Err ''no AuthorityWAL production signer is installed''),
     rk_verify = (\<lambda>_ _. Err ''no AuthorityWAL production verifier is installed'')\<rparr>"

definition software_signature :: "platform \<Rightarrow> bytes \<Rightarrow> bytes \<Rightarrow> string" where
  "software_signature E secret message = hex_lower (sha256 E
     (''m1nd-wal-software-test-only-not-proven-v1'' @ [CHR 0x00] @ be_bytes (of_nat (length secret))
        @ secret @ be_bytes (of_nat (length message)) @ message))"

definition software_crypto :: "platform \<Rightarrow> bytes \<Rightarrow> record_crypto" where
  "software_crypto E secret = \<lparr>rk_assurance = SoftwareTestOnlyNotProven,
     rk_issuer = ''software-test-owner-not-production'',
     rk_key_id = ''software-test-wal-key-not-production'',
     rk_algorithm = ''SOFTWARE_TEST_SHA256_NOT_CRYPTOGRAPHIC'',
     rk_sign = (\<lambda>m. Ok (software_signature E secret m)),
     rk_verify = (\<lambda>m sg. if software_signature E secret m = sg then Ok ()
                         else Err ''software-test WAL signature mismatch'')\<rparr>"

datatype append_outcome =
    Appended u64 wal_phase string "commit_witness option"
  | TerminalReplay terminal_outcome

text \<open>
  \<open>AuthorityWalError\<close>; the formatted detail of a corruption is kept as a value, and so is the
  refusal of a symbolic link.  \<open>Panic\<close> is a failed \<open>expect\<close>.
\<close>

datatype wal_error =
    Io string
  | Contract wal_contract_error
  | Crypto string string
  | WriterLock string
  | Corruption u64 corruption_detail
  | SequenceMismatch u64 u64
  | HashChainMismatch u64
  | IllegalPhase string "wal_phase option" wal_phase
  | DuplicateTransaction string
  | DuplicateIdempotency string
  | IdempotencyConflict string
  | ProtectedHead head_error
  | SymlinkRefused string
  | Poisoned
  | Panic string
and corruption_detail =
    EmptyFrame
  | InvalidJsonRecord string
  | CausedBy wal_error

record idempotency_scope =
  is_organism_id :: string
  is_brain_id :: string
  is_subject_id :: string
  is_action_id :: string
  is_idempotency_key :: string

definition scope_of :: "wal_transaction \<Rightarrow> idempotency_scope" where
  "scope_of t = (let b = tx_binding t in
     \<lparr>is_organism_id = tb_organism_id b, is_brain_id = tb_brain_id b,
      is_subject_id = tb_subject_id b, is_action_id = tb_action_id b,
      is_idempotency_key = tb_idempotency_key b\<rparr>)"

record replay_transaction =
  rx_transaction :: wal_transaction
  rx_phase :: wal_phase
  rx_terminal :: "terminal_outcome option"

record replay_index =
  ri_record_count :: u64
  ri_last_record_digest :: "string option"
  ri_transactions :: "string \<rightharpoonup> replay_transaction"
  ri_idempotency :: "idempotency_scope \<rightharpoonup> string"

definition empty_index :: replay_index where
  "empty_index = \<lparr>ri_record_count = 0, ri_last_record_digest = None, ri_transactions = Map.empty,
     ri_idempotency = Map.empty\<rparr>"

section \<open>The phase machine\<close>

definition validated :: "platform \<Rightarrow> wal_record \<Rightarrow> wal_transaction \<Rightarrow> wal_error + unit" where
  "validated E r t = and_then (map_err Contract (validate_against_transaction E r t)) (\<lambda>_. Ok ())"

definition previous_phase :: "replay_index \<Rightarrow> wal_record \<Rightarrow> wal_phase option" where
  "previous_phase ix r = map_option rx_phase (ri_transactions ix (wr_transaction_id r))"

definition put_transaction :: "replay_index \<Rightarrow> string \<Rightarrow> replay_transaction \<Rightarrow> replay_index" where
  "put_transaction ix tid x = ix\<lparr>ri_transactions := (ri_transactions ix)(tid \<mapsto> x)\<rparr>"

definition advance ::
  "platform \<Rightarrow> replay_index \<Rightarrow> wal_record \<Rightarrow> wal_phase \<Rightarrow> wal_error + replay_index" where
  "advance E ix r required_previous =
     (case ri_transactions ix (wr_transaction_id r) of
        Some x \<Rightarrow>
          if rx_phase x \<noteq> required_previous
          then Err (IllegalPhase (wr_transaction_id r) (Some (rx_phase x)) (wr_phase r))
          else and_then (validated E r (rx_transaction x)) (\<lambda>_.
            Ok (put_transaction ix (wr_transaction_id r) (x\<lparr>rx_phase := wr_phase r\<rparr>)))
      | None \<Rightarrow> Err (IllegalPhase (wr_transaction_id r) None (wr_phase r)))"

definition commit_outcome :: "wal_record \<Rightarrow> wal_commit \<Rightarrow> wal_transaction \<Rightarrow> terminal_outcome" where
  "commit_outcome r c t =
     \<lparr>to_transaction_id = wr_transaction_id r, to_idempotency_key = wr_idempotency_key r,
      to_phase = Commit, to_terminal_outcome_digest = wc_terminal_outcome_digest c,
      to_terminal_record_digest = wr_record_digest r,
      to_verified_commit_witness = Some
        \<lparr>cw_transaction_id = wr_transaction_id r, cw_phase = Commit,
         cw_transaction_digest = tx_digest t,
         cw_authorization_snapshot_digest = wc_authorization_snapshot_digest c,
         cw_terminal_record_digest = wr_record_digest r,
         cw_committed_at = wc_committed_at c\<rparr>\<rparr>"

definition abort_outcome :: "wal_record \<Rightarrow> wal_abort \<Rightarrow> terminal_outcome" where
  "abort_outcome r a =
     \<lparr>to_transaction_id = wr_transaction_id r, to_idempotency_key = wr_idempotency_key r,
      to_phase = Abort, to_terminal_outcome_digest = wb_terminal_outcome_digest a,
      to_terminal_record_digest = wr_record_digest r, to_verified_commit_witness = None\<rparr>"

definition apply_prepare ::
  "platform \<Rightarrow> replay_index \<Rightarrow> wal_record \<Rightarrow> wal_transaction \<Rightarrow> wal_error + replay_index" where
  "apply_prepare E ix r t =
     and_then (validated E r t) (\<lambda>_.
       if wr_transaction_id r \<in> dom (ri_transactions ix)
       then Err (DuplicateTransaction (wr_transaction_id r))
       else if scope_of t \<in> dom (ri_idempotency ix)
       then Err (DuplicateIdempotency (wr_idempotency_key r))
       else Ok (put_transaction
                  (ix\<lparr>ri_idempotency := (ri_idempotency ix)(scope_of t \<mapsto> wr_transaction_id r)\<rparr>)
                  (wr_transaction_id r)
                  \<lparr>rx_transaction = t, rx_phase = Prepare, rx_terminal = None\<rparr>))"

definition apply_abort ::
  "platform \<Rightarrow> replay_index \<Rightarrow> wal_record \<Rightarrow> wal_abort \<Rightarrow> wal_error + replay_index" where
  "apply_abort E ix r a =
     (case ri_transactions ix (wr_transaction_id r) of
        Some x \<Rightarrow>
          if rx_phase x \<in> {Prepare, Provisional} then
            and_then (validated E r (rx_transaction x)) (\<lambda>_.
              Ok (put_transaction ix (wr_transaction_id r)
                    (x\<lparr>rx_phase := Abort, rx_terminal := Some (abort_outcome r a)\<rparr>)))
          else Err (IllegalPhase (wr_transaction_id r) (Some (rx_phase x)) Abort)
      | None \<Rightarrow> Err (IllegalPhase (wr_transaction_id r) None Abort))"

definition apply_payload :: "platform \<Rightarrow> replay_index \<Rightarrow> wal_record \<Rightarrow> wal_error + replay_index" where
  "apply_payload E ix r =
     (case wr_payload r of
        PreparePayload t \<Rightarrow> apply_prepare E ix r t
      | ProvisionalPayload _ \<Rightarrow> advance E ix r Prepare
      | CommitPayload c \<Rightarrow>
          and_then (advance E ix r Provisional) (\<lambda>ix'.
          and_then (ok_or (ri_transactions ix' (wr_transaction_id r))
              (Panic ''advance proved transaction exists'')) (\<lambda>x.
            Ok (put_transaction ix' (wr_transaction_id r)
                  (x\<lparr>rx_terminal := Some (commit_outcome r c (rx_transaction x))\<rparr>))))
      | AbortPayload a \<Rightarrow> apply_abort E ix r a)"

definition apply_record :: "platform \<Rightarrow> replay_index \<Rightarrow> wal_record \<Rightarrow> wal_error + replay_index" where
  "apply_record E ix r =
     and_then (apply_payload E ix r) (\<lambda>ix'.
       Ok (ix'\<lparr>ri_record_count := wr_sequence r, ri_last_record_digest := Some (wr_record_digest r)\<rparr>))"

definition terminal_replay_for_prepare ::
  "replay_index \<Rightarrow> wal_record \<Rightarrow> wal_transaction \<Rightarrow> wal_error + terminal_outcome option" where
  "terminal_replay_for_prepare ix r t =
     (case ri_idempotency ix (scope_of t) of
        Some existing_id \<Rightarrow>
          (case ri_transactions ix existing_id of
             Some x \<Rightarrow>
               (case rx_terminal x of
                  Some outcome \<Rightarrow>
                    if tb_intent_digest (tx_binding (rx_transaction x)) = tb_intent_digest (tx_binding t)
                    then Ok (Some outcome)
                    else Err (IdempotencyConflict (wr_idempotency_key r))
                | None \<Rightarrow> Err (DuplicateIdempotency (wr_idempotency_key r)))
           | None \<Rightarrow> Err (Panic ''idempotency index references an existing transaction''))
      | None \<Rightarrow>
          if wr_transaction_id r \<in> dom (ri_transactions ix)
          then Err (DuplicateTransaction (wr_transaction_id r))
          else Ok None)"

section \<open>Signing and verification\<close>

definition verify_record_crypto :: "platform \<Rightarrow> record_crypto \<Rightarrow> wal_record \<Rightarrow> wal_error + unit" where
  "verify_record_crypto E C r = seq_checks
     [check (rk_assurance C \<noteq> UnavailableFailClosed)
        (Crypto ''verify'' ''no explicit AuthorityWAL verifier configured''),
      check (\<not> (wr_issuer r \<noteq> rk_issuer C \<or> wr_key_id r \<noteq> rk_key_id C \<or> wr_algorithm r \<noteq> rk_algorithm C))
        (Crypto ''verify'' ''record signer metadata does not match the pinned WAL verifier''),
      map_err (Crypto ''verify'') (rk_verify C (canonical_signature_message E r) (wr_signature r))]"

definition next_sequence :: "replay_index \<Rightarrow> u64" where
  "next_sequence ix = ri_record_count ix + 1"

text \<open>The record as the owner chains it, before it is signed.\<close>

definition owned_record :: "platform \<Rightarrow> record_crypto \<Rightarrow> replay_index \<Rightarrow> wal_record \<Rightarrow> wal_record" where
  "owned_record E C ix r = assign_chain_and_seal E (next_sequence ix) (ri_last_record_digest ix)
     (r\<lparr>wr_issuer := rk_issuer C, wr_key_id := rk_key_id C, wr_algorithm := rk_algorithm C,
        wr_signature := ''pending-owner-signature''\<rparr>)"

definition sign_wal_record :: "platform \<Rightarrow> record_crypto \<Rightarrow> replay_index \<Rightarrow> wal_record \<Rightarrow> wal_error + wal_record" where
  "sign_wal_record E C ix r =
     (let r1 = owned_record E C ix r in
      and_then (map_err (Crypto ''sign'') (rk_sign C (canonical_signature_message E r1))) (\<lambda>sg.
        Ok (r1\<lparr>wr_signature := sg\<rparr>)))"

text \<open>What happens to the record before it is written: its final form and the new index, or the
  outcome of an earlier transaction of the same idempotency scope.\<close>

definition terminal_replay_of :: "platform \<Rightarrow> replay_index \<Rightarrow> wal_record \<Rightarrow> wal_error + terminal_outcome option" where
  "terminal_replay_of E ix r =
     (case wr_payload r of
        PreparePayload t \<Rightarrow> and_then (validated E r t) (\<lambda>_. terminal_replay_for_prepare ix r t)
      | _ \<Rightarrow> Ok None)"

definition stage_record ::
  "platform \<Rightarrow> record_crypto \<Rightarrow> replay_index \<Rightarrow> wal_record
     \<Rightarrow> wal_error + (terminal_outcome + wal_record \<times> replay_index)" where
  "stage_record E C ix r0 =
     and_then (check (rk_assurance C \<noteq> UnavailableFailClosed)
        (Crypto ''sign'' ''no explicit AuthorityWAL signer configured'')) (\<lambda>_.
     and_then (sign_wal_record E C ix r0) (\<lambda>r.
     and_then (verify_record_crypto E C r) (\<lambda>_.
     and_then (map_err Contract (validate_wal_record E r)) (\<lambda>_.
     and_then (terminal_replay_of E ix r) (\<lambda>earlier.
       case earlier of
         Some outcome \<Rightarrow> Ok (Inl outcome)
       | None \<Rightarrow> and_then (apply_record E ix r) (\<lambda>ix'. Ok (Inr (r, ix'))))))))"

text \<open>\<open>serde_json::to_vec\<close> writes the fields in the order of the struct.\<close>

definition wal_line :: "platform \<Rightarrow> wal_record \<Rightarrow> bytes" where
  "wal_line E r = write_plain E (json_of_wal_record r)"

section \<open>The log\<close>

record durable_wal =
  dw_replay :: replay_index
  dw_recovery :: recovery_report
  dw_poisoned :: bool
  dw_protected_head :: "journal_head_snapshot option"

text \<open>What one append found: \<open>write_all\<close> failed after some bytes, or a later call did.\<close>

record wal_io =
  wi_write_failed :: "nat option"
  wi_sync_failed :: "string option"

definition wal_write :: "wal_io \<Rightarrow> bytes \<Rightarrow> bytes \<Rightarrow> bytes \<times> (string + unit)" where
  "wal_write io f bs =
     (case wi_write_failed io of
        Some k \<Rightarrow> (f @ take k bs, Err ''write'')
      | None \<Rightarrow> (case wi_sync_failed io of
          Some e \<Rightarrow> (f @ bs, Err e)
        | None \<Rightarrow> (f @ bs, Ok ())))"

text \<open>The head check at the start of an append; \<open>None\<close> in place of a backend is no backend.\<close>

definition head_check ::
  "'b head_backend \<Rightarrow> durable_wal \<Rightarrow> 'b option \<Rightarrow> durable_wal \<times> 'b option \<times> (wal_error + unit)" where
  "head_check B w bo =
     (case (bo, dw_protected_head w) of
        (Some b, Some expected) \<Rightarrow>
          (case verify_or_initialize_protected_head B b AUTHORITY_WAL_HEAD_DOMAIN
                  (ri_record_count (dw_replay w)) (ri_last_record_digest (dw_replay w)) of
             (b', Inl e) \<Rightarrow> (w, Some b', Err (ProtectedHead e))
           | (b', Inr obs) \<Rightarrow>
               if obs \<noteq> expected
               then (w\<lparr>dw_poisoned := True\<rparr>, Some b', Err (ProtectedHead ChangedOutsideOwner))
               else (w, Some b', Ok ()))
      | _ \<Rightarrow> (w, bo, Ok ()))"

definition head_advance ::
  "'b head_backend \<Rightarrow> durable_wal \<Rightarrow> 'b option \<Rightarrow> wal_record \<Rightarrow> durable_wal \<times> 'b option \<times> (wal_error + unit)" where
  "head_advance B w bo r =
     (case (bo, dw_protected_head w) of
        (Some b, Some expected) \<Rightarrow>
          (case advance_protected_head B b AUTHORITY_WAL_HEAD_DOMAIN expected (wr_sequence r)
                  (wr_record_digest r) of
             (b', Inl e) \<Rightarrow> (w\<lparr>dw_poisoned := True\<rparr>, Some b', Err (ProtectedHead e))
           | (b', Inr next_head) \<Rightarrow> (w\<lparr>dw_protected_head := Some next_head\<rparr>, Some b', Ok ()))
      | _ \<Rightarrow> (w, bo, Ok ()))"

definition commit_witness_of :: "replay_index \<Rightarrow> string \<Rightarrow> commit_witness option" where
  "commit_witness_of ix tid =
     Option.bind (Option.bind (ri_transactions ix tid) rx_terminal) to_verified_commit_witness"

type_synonym 'b wal_state = "durable_wal \<times> bytes \<times> 'b option"

definition wal_append ::
  "platform \<Rightarrow> record_crypto \<Rightarrow> 'b head_backend \<Rightarrow> 'b wal_state \<Rightarrow> wal_io \<Rightarrow> wal_record
     \<Rightarrow> 'b wal_state \<times> (wal_error + append_outcome)" where
  "wal_append E C B s io r0 =
     (let (w, f, bo) = s in
      if dw_poisoned w then (s, Err Poisoned)
      else case head_check B w bo of
        (w1, bo1, Inl e) \<Rightarrow> ((w1, f, bo1), Err e)
      | (w1, bo1, Inr _) \<Rightarrow>
        (case stage_record E C (dw_replay w1) r0 of
           Inl e \<Rightarrow> ((w1, f, bo1), Err e)
         | Inr (Inl outcome) \<Rightarrow> ((w1, f, bo1), Ok (TerminalReplay outcome))
         | Inr (Inr (r, ix')) \<Rightarrow>
           (case wal_write io f (wal_line E r @ [newline]) of
              (f', Inl e) \<Rightarrow> ((w1\<lparr>dw_poisoned := True\<rparr>, f', bo1), Err (Io e))
            | (f', Inr _) \<Rightarrow>
              (case head_advance B w1 bo1 r of
                 (w2, bo2, Inl e) \<Rightarrow> ((w2, f', bo2), Err e)
               | (w2, bo2, Inr _) \<Rightarrow>
                   ((w2\<lparr>dw_replay := ix',
                       dw_recovery := (dw_recovery w2)\<lparr>rp_record_count := ri_record_count ix'\<rparr>\<rparr>, f', bo2),
                    Ok (Appended (wr_sequence r) (wr_phase r) (wr_record_digest r)
                          (commit_witness_of ix' (wr_transaction_id r))))))))"

definition terminal_outcome_of :: "durable_wal \<Rightarrow> string \<Rightarrow> terminal_outcome option" where
  "terminal_outcome_of w tid = Option.bind (ri_transactions (dw_replay w) tid) rx_terminal"

definition committed_transaction :: "replay_index \<Rightarrow> string \<Rightarrow> wal_transaction option" where
  "committed_transaction ix tid =
     (case ri_transactions ix tid of
        Some x \<Rightarrow> if rx_phase x = Commit then Some (rx_transaction x) else None
      | None \<Rightarrow> None)"

section \<open>Recovery\<close>

text \<open>The end of the last complete record.\<close>

definition complete_len :: "bytes \<Rightarrow> nat" where
  "complete_len bs =
     (if bs \<noteq> [] \<and> last bs = newline then length bs
      else length (dropWhile (\<lambda>c. c \<noteq> newline) (rev bs)))"

fun split_inclusive :: "bytes \<Rightarrow> bytes list" where
  "split_inclusive [] = []"
| "split_inclusive (c # s) =
     (if c = newline then [c] # split_inclusive s
      else case split_inclusive s of [] \<Rightarrow> [[c]] | fr # frs \<Rightarrow> (c # fr) # frs)"

definition replay_record ::
  "platform \<Rightarrow> record_crypto \<Rightarrow> u64 \<Rightarrow> wal_record \<Rightarrow> replay_index \<Rightarrow> wal_error + replay_index" where
  "replay_record E C offset r ix =
     (let expected_sequence = next_sequence ix; corrupt = (\<lambda>e. Corruption offset (CausedBy e)) in
      and_then (seq_checks
        [check (wr_sequence r = expected_sequence) (corrupt (SequenceMismatch expected_sequence (wr_sequence r))),
         check (wr_previous_record_digest r = ri_last_record_digest ix)
           (corrupt (HashChainMismatch (wr_sequence r))),
         and_then (map_err (\<lambda>e. corrupt (Contract e)) (validate_wal_record E r)) (\<lambda>_. Ok ()),
         map_err corrupt (verify_record_crypto E C r)])
      (\<lambda>_. map_err corrupt (apply_record E ix r)))"

definition replay_frame ::
  "platform \<Rightarrow> record_crypto \<Rightarrow> (bytes \<Rightarrow> string + wal_record) \<Rightarrow> u64 \<Rightarrow> bytes \<Rightarrow> replay_index
     \<Rightarrow> wal_error + replay_index" where
  "replay_frame E C parse offset line ix =
     (if line = [] then Err (Corruption offset EmptyFrame)
      else and_then (map_err (\<lambda>e. Corruption offset (InvalidJsonRecord e)) (parse line)) (\<lambda>r.
        replay_record E C offset r ix))"

fun replay_frames ::
  "platform \<Rightarrow> record_crypto \<Rightarrow> (bytes \<Rightarrow> string + wal_record) \<Rightarrow> u64 \<Rightarrow> bytes list \<Rightarrow> replay_index
     \<Rightarrow> wal_error + replay_index" where
  "replay_frames E C parse offset [] ix = Ok ix"
| "replay_frames E C parse offset (fr # frs) ix =
     and_then (replay_frame E C parse offset (butlast fr) ix)
       (replay_frames E C parse (offset + of_nat (length fr)) frs)"

definition replay_file ::
  "platform \<Rightarrow> record_crypto \<Rightarrow> (bytes \<Rightarrow> string + wal_record) \<Rightarrow> bytes
     \<Rightarrow> wal_error + (replay_index \<times> recovery_report \<times> nat)" where
  "replay_file E C parse bs =
     (let n = complete_len bs; truncated = length bs - n; complete = take n bs in
      and_then (replay_frames E C parse 0 (split_inclusive complete) empty_index) (\<lambda>ix.
        Ok (ix,
            \<lparr>rp_record_count = of_nat (length (filter (\<lambda>c. c = newline) complete)),
             rp_recovered_torn_tail = truncated \<noteq> 0, rp_truncated_tail_bytes = truncated\<rparr>, n)))"

text \<open>
  \<open>open_internal\<close> on the bytes of the file (none if it did not exist).  \<open>wo_failed\<close>: a call
  before the replay failed with this error (symbolic link, directory, lock, open, first
  sync); \<open>wo_truncate_failed\<close>: cutting off the torn tail failed.
\<close>

record wal_open_env =
  wo_failed :: "wal_error option"
  wo_set_len_failed :: "string option"
  wo_sync_failed :: "string option"

definition wal_open ::
  "platform \<Rightarrow> record_crypto \<Rightarrow> 'b head_backend \<Rightarrow> (bytes \<Rightarrow> string + wal_record) \<Rightarrow> wal_open_env
     \<Rightarrow> bytes \<Rightarrow> 'b option \<Rightarrow> bytes \<times> 'b option \<times> (wal_error + durable_wal)" where
  "wal_open E C B parse env f bo =
     (case wo_failed env of Some e \<Rightarrow> (f, bo, Err e)
      | None \<Rightarrow>
      (case replay_file E C parse f of Inl e \<Rightarrow> (f, bo, Err e)
       | Inr (ix, report, n) \<Rightarrow>
         (let (bo', head) =
            (case bo of None \<Rightarrow> (None, Ok None)
             | Some b \<Rightarrow>
               (case verify_or_initialize_protected_head B b AUTHORITY_WAL_HEAD_DOMAIN
                       (ri_record_count ix) (ri_last_record_digest ix) of
                  (b', Inl e) \<Rightarrow> (Some b', Err (ProtectedHead e))
                | (b', Inr snapshot) \<Rightarrow> (Some b', Ok (Some snapshot)))) in
          case head of Inl e \<Rightarrow> (f, bo', Err e)
          | Inr protected \<Rightarrow>
            let w = \<lparr>dw_replay = ix, dw_recovery = report, dw_poisoned = False, dw_protected_head = protected\<rparr> in
            if rp_truncated_tail_bytes report \<noteq> 0 then
              (case (wo_set_len_failed env, wo_sync_failed env) of
                 (Some e, _) \<Rightarrow> (f, bo', Err (Io e))
               | (None, Some e) \<Rightarrow> (take n f, bo', Err (Io e))
               | (None, None) \<Rightarrow> (take n f, bo', Ok w))
            else (f, bo', Ok w))))"

end
