(* ===== verification/Durable_Wal_Laws.thy ===== *)
theory Durable_Wal_Laws
  imports Durable_Wal
begin

text \<open>
  The contract of the durable WAL: the lifecycle of every transaction over any replayed
  log, one transaction per idempotency scope, agreement of the file with the index of an
  open log, and the pinning of the whole history by the protected head.
\<close>

section \<open>One record\<close>

lemma validated_ok [simp]:
  "validated E r t = Inr u \<longleftrightarrow> (\<exists>v. validate_against_transaction E r t = Inr v)"
  by (simp add: validated_def)

lemma validated_phase:
  "validate_against_transaction E r t = Inr v \<Longrightarrow> payload_phase (wr_payload r) = wr_phase r"
  by (drule validate_against_parts(1)) (rule validate_wal_record_parts(1))

lemma put_transaction_simps [simp]:
  "ri_transactions (put_transaction ix tid x) = (ri_transactions ix)(tid \<mapsto> x)"
  "ri_idempotency (put_transaction ix tid x) = ri_idempotency ix"
  by (simp_all add: put_transaction_def)

lemma advance_ok:
  "advance E ix r p = Inr ix' \<longleftrightarrow>
     (\<exists>x v. ri_transactions ix (wr_transaction_id r) = Some x \<and> rx_phase x = p \<and>
        validate_against_transaction E r (rx_transaction x) = Inr v \<and>
        ix' = put_transaction ix (wr_transaction_id r) (x\<lparr>rx_phase := wr_phase r\<rparr>))"
  by (auto simp: advance_def split: option.splits)

text \<open>What an accepted record does to the index, by its payload.\<close>

lemma apply_record_cases:
  assumes "apply_record E ix r = Inr ix'"
  obtains (prepare) t v where "wr_payload r = PreparePayload t"
      "validate_against_transaction E r t = Inr v"
      "ri_transactions ix (wr_transaction_id r) = None" "ri_idempotency ix (scope_of t) = None"
      "ri_transactions ix' = (ri_transactions ix)(wr_transaction_id r \<mapsto>
         \<lparr>rx_transaction = t, rx_phase = Prepare, rx_terminal = None\<rparr>)"
      "ri_idempotency ix' = (ri_idempotency ix)(scope_of t \<mapsto> wr_transaction_id r)"
  | (provisional) d x v where "wr_payload r = ProvisionalPayload d"
      "ri_transactions ix (wr_transaction_id r) = Some x" "rx_phase x = Prepare"
      "validate_against_transaction E r (rx_transaction x) = Inr v"
      "ri_transactions ix' = (ri_transactions ix)(wr_transaction_id r \<mapsto> x\<lparr>rx_phase := Provisional\<rparr>)"
      "ri_idempotency ix' = ri_idempotency ix"
  | (commit) c x v where "wr_payload r = CommitPayload c"
      "ri_transactions ix (wr_transaction_id r) = Some x" "rx_phase x = Provisional"
      "validate_against_transaction E r (rx_transaction x) = Inr v"
      "ri_transactions ix' = (ri_transactions ix)(wr_transaction_id r \<mapsto>
         x\<lparr>rx_phase := Commit, rx_terminal := Some (commit_outcome r c (rx_transaction x))\<rparr>)"
      "ri_idempotency ix' = ri_idempotency ix"
  | (abort) a x v where "wr_payload r = AbortPayload a"
      "ri_transactions ix (wr_transaction_id r) = Some x" "rx_phase x \<in> {Prepare, Provisional}"
      "validate_against_transaction E r (rx_transaction x) = Inr v"
      "ri_transactions ix' = (ri_transactions ix)(wr_transaction_id r \<mapsto>
         x\<lparr>rx_phase := Abort, rx_terminal := Some (abort_outcome r a)\<rparr>)"
      "ri_idempotency ix' = ri_idempotency ix"
proof -
  from assms obtain ix1 where p: "apply_payload E ix r = Inr ix1"
    and ix': "ri_transactions ix' = ri_transactions ix1" "ri_idempotency ix' = ri_idempotency ix1"
    by (auto simp: apply_record_def)
  show ?thesis
  proof (cases "wr_payload r")
    case (PreparePayload t)
    with p obtain v where v: "validate_against_transaction E r t = Inr v"
      by (auto simp: apply_payload_def apply_prepare_def)
    from p PreparePayload ix' show ?thesis
      by (intro prepare [OF PreparePayload v])
        (auto simp: apply_payload_def apply_prepare_def domIff split: if_splits)
  next
    case (ProvisionalPayload d)
    with p obtain x v where x: "ri_transactions ix (wr_transaction_id r) = Some x" "rx_phase x = Prepare"
      and v: "validate_against_transaction E r (rx_transaction x) = Inr v"
      and ix1: "ix1 = put_transaction ix (wr_transaction_id r) (x\<lparr>rx_phase := wr_phase r\<rparr>)"
      by (auto simp: apply_payload_def advance_ok)
    have "wr_phase r = Provisional" using validated_phase [OF v] ProvisionalPayload by simp
    with ix1 ix' show ?thesis by (intro provisional [OF ProvisionalPayload x v]) simp_all
  next
    case (CommitPayload c)
    with p obtain x v where x: "ri_transactions ix (wr_transaction_id r) = Some x" "rx_phase x = Provisional"
      and v: "validate_against_transaction E r (rx_transaction x) = Inr v"
      and ix1: "ix1 = put_transaction (put_transaction ix (wr_transaction_id r) (x\<lparr>rx_phase := wr_phase r\<rparr>))
        (wr_transaction_id r) (x\<lparr>rx_phase := wr_phase r, rx_terminal := Some (commit_outcome r c (rx_transaction x))\<rparr>)"
      by (auto simp: apply_payload_def advance_ok)
    have "wr_phase r = Commit" using validated_phase [OF v] CommitPayload by simp
    with ix1 ix' show ?thesis by (intro commit [OF CommitPayload x v]) simp_all
  next
    case (AbortPayload a)
    with p obtain x v where x: "ri_transactions ix (wr_transaction_id r) = Some x"
      "rx_phase x \<in> {Prepare, Provisional}" and v: "validate_against_transaction E r (rx_transaction x) = Inr v"
      and "ix1 = put_transaction ix (wr_transaction_id r)
        (x\<lparr>rx_phase := Abort, rx_terminal := Some (abort_outcome r a)\<rparr>)"
      by (auto simp: apply_payload_def apply_abort_def split: option.splits if_splits)
    with ix' show ?thesis by (intro abort [OF AbortPayload x v]) simp_all
  qed
qed

lemma apply_record_head:
  assumes "apply_record E ix r = Inr ix'"
  shows "ri_record_count ix' = wr_sequence r" "ri_last_record_digest ix' = Some (wr_record_digest r)"
  using assms by (auto simp: apply_record_def)

lemma apply_record_phase:
  assumes "apply_record E ix r = Inr ix'"
  shows "payload_phase (wr_payload r) = wr_phase r"
  using assms by (cases rule: apply_record_cases) (auto dest: validated_phase)

section \<open>Logs of records\<close>

text \<open>The indexes that the records of a log lead to, in the order of the log.\<close>

inductive wal_log :: "platform \<Rightarrow> record_crypto \<Rightarrow> wal_record list \<Rightarrow> replay_index \<Rightarrow> bool" for E C where
  wal_log_Nil: "wal_log E C [] empty_index"
| wal_log_snoc: "wal_log E C rs ix \<Longrightarrow> replay_record E C 0 r ix = Inr ix' \<Longrightarrow> wal_log E C (rs @ [r]) ix'"

inductive_cases wal_log_NilE: "wal_log E C [] ix"
inductive_cases wal_log_snocE: "wal_log E C (rs @ [r]) ix"

lemma replay_record_ok:
  "replay_record E C n r ix = Inr ix' \<longleftrightarrow>
     wr_sequence r = next_sequence ix \<and> wr_previous_record_digest r = ri_last_record_digest ix \<and>
     (\<exists>v. validate_wal_record E r = Inr v) \<and> verify_record_crypto E C r = Inr () \<and>
     apply_record E ix r = Inr ix'"
  by (auto simp: replay_record_def Let_def)

lemma replay_record_offset:
  "replay_record E C n r ix = Inr ix' \<longleftrightarrow> replay_record E C m r ix = Inr ix'"
  by (simp add: replay_record_ok)

text \<open>The records of one transaction, and the entry of the index they stand for.\<close>

definition tx_history :: "string \<Rightarrow> wal_record list \<Rightarrow> wal_record list" where
  "tx_history tid rs = filter (\<lambda>r. wr_transaction_id r = tid) rs"

definition opens :: "wal_record \<Rightarrow> wal_transaction \<Rightarrow> bool" where
  "opens p t \<longleftrightarrow> wr_payload p = PreparePayload t \<and> wr_transaction_id p = tb_transaction_id (tx_binding t)"

definition commits :: "wal_record \<Rightarrow> wal_transaction \<Rightarrow> wal_commit \<Rightarrow> bool" where
  "commits c t k \<longleftrightarrow> wr_payload c = CommitPayload k \<and> payload_binding (CommitPayload k) t = Inr ()"

fun lifecycle :: "wal_record list \<Rightarrow> replay_transaction option \<Rightarrow> bool" where
  "lifecycle h None \<longleftrightarrow> h = []"
| "lifecycle h (Some x) \<longleftrightarrow>
     (\<exists>p. opens p (rx_transaction x) \<and> wr_phase p = Prepare \<and>
       (case rx_phase x of
          Prepare \<Rightarrow> h = [p] \<and> rx_terminal x = None
        | Provisional \<Rightarrow> (\<exists>v. h = [p, v] \<and> wr_phase v = Provisional) \<and> rx_terminal x = None
        | Commit \<Rightarrow> (\<exists>v c k. h = [p, v, c] \<and> wr_phase v = Provisional \<and> wr_phase c = Commit \<and>
            commits c (rx_transaction x) k \<and> rx_terminal x = Some (commit_outcome c k (rx_transaction x)))
        | Abort \<Rightarrow> (\<exists>vs a k. h = p # vs @ [a] \<and> (vs = [] \<or> (\<exists>v. vs = [v] \<and> wr_phase v = Provisional)) \<and>
            wr_phase a = Abort \<and> wr_payload a = AbortPayload k \<and> rx_terminal x = Some (abort_outcome a k))))"

definition scopes_agree :: "replay_index \<Rightarrow> bool" where
  "scopes_agree ix \<longleftrightarrow>
     (\<forall>sc tid. ri_idempotency ix sc = Some tid \<longleftrightarrow>
        (\<exists>x. ri_transactions ix tid = Some x \<and> scope_of (rx_transaction x) = sc))"

lemma lifecycle_step:
  assumes "lifecycle h (ri_transactions ix (wr_transaction_id r))" and "apply_record E ix r = Inr ix'"
  shows "lifecycle (h @ [r]) (ri_transactions ix' (wr_transaction_id r))"
  using assms(2)
proof (cases rule: apply_record_cases)
  case (prepare t v)
  with assms(1) have "h = []" by simp
  moreover have "opens r t" using prepare validate_against_parts(3) by (simp add: opens_def)
  moreover have "wr_phase r = Prepare" using prepare validated_phase by force
  ultimately show ?thesis using prepare by simp
next
  case (provisional d x v)
  with assms(1) obtain p where "opens p (rx_transaction x)" "wr_phase p = Prepare" "h = [p]" "rx_terminal x = None"
    by auto
  moreover have "wr_phase r = Provisional" using provisional validated_phase by force
  ultimately show ?thesis using provisional by simp
next
  case (commit c x v)
  with assms(1) obtain p q where "opens p (rx_transaction x)" "wr_phase p = Prepare" "h = [p, q]" "wr_phase q = Provisional"
    by auto
  moreover have "commits r (rx_transaction x) c"
    using commit validate_against_parts(8) unfolding commits_def by metis
  moreover have "wr_phase r = Commit" using commit validated_phase by force
  ultimately show ?thesis using commit by (auto simp: commits_def)
next
  case (abort a x v)
  from abort(2,3) assms(1) obtain p vs where "opens p (rx_transaction x)" "wr_phase p = Prepare" "h = p # vs"
    "vs = [] \<or> (\<exists>q. vs = [q] \<and> wr_phase q = Provisional)"
    by auto
  moreover have "wr_phase r = Abort" using abort validated_phase by force
  ultimately show ?thesis using abort by (auto simp del: append.simps simp: append_Cons)
qed

lemma apply_record_other:
  assumes "apply_record E ix r = Inr ix'" and "tid \<noteq> wr_transaction_id r"
  shows "ri_transactions ix' tid = ri_transactions ix tid"
  using assms(1) by (cases rule: apply_record_cases) (use assms(2) in simp_all)

lemma wal_log_lifecycle:
  "wal_log E C rs ix \<Longrightarrow> lifecycle (tx_history tid rs) (ri_transactions ix tid)"
proof (induction rule: wal_log.induct)
  case wal_log_Nil
  show ?case by (simp add: tx_history_def empty_index_def)
next
  case (wal_log_snoc rs ix r ix')
  then have ap: "apply_record E ix r = Inr ix'" by (simp add: replay_record_ok)
  show ?case
  proof (cases "tid = wr_transaction_id r")
    case True
    with lifecycle_step [OF _ ap] wal_log_snoc.IH show ?thesis by (simp add: tx_history_def)
  next
    case False
    with apply_record_other [OF ap] wal_log_snoc.IH show ?thesis by (simp add: tx_history_def)
  qed
qed

lemma scopes_agree_step:
  assumes "scopes_agree ix" and ap: "apply_record E ix r = Inr ix'"
  shows "scopes_agree ix'"
proof -
  have keep: ?thesis if "ri_transactions ix (wr_transaction_id r) = Some x"
    "ri_transactions ix' = (ri_transactions ix)(wr_transaction_id r \<mapsto> y)"
    "rx_transaction y = rx_transaction x" "ri_idempotency ix' = ri_idempotency ix" for x y
    using assms(1) that unfolding scopes_agree_def by simp
  from ap show ?thesis
  proof (cases rule: apply_record_cases)
    case (prepare t v)
    have old: "ri_idempotency ix sc = Some tid \<longleftrightarrow>
        (\<exists>x. ri_transactions ix tid = Some x \<and> scope_of (rx_transaction x) = sc)" for sc tid
      using assms(1) unfolding scopes_agree_def by blast
    show ?thesis
      unfolding scopes_agree_def
    proof (intro allI)
      fix sc tid
      show "ri_idempotency ix' sc = Some tid \<longleftrightarrow>
          (\<exists>x. ri_transactions ix' tid = Some x \<and> scope_of (rx_transaction x) = sc)"
        using old [of sc tid] prepare(3-6) by (cases "sc = scope_of t"; cases "tid = wr_transaction_id r") auto
    qed
  next
    case (provisional d x v)
    show ?thesis by (rule keep [OF provisional(2,5) _ provisional(6)]) simp
  next
    case (commit c x v)
    show ?thesis by (rule keep [OF commit(2,5) _ commit(6)]) simp
  next
    case (abort a x v)
    show ?thesis by (rule keep [OF abort(2,5) _ abort(6)]) simp
  qed
qed

lemma wal_log_scopes: "wal_log E C rs ix \<Longrightarrow> scopes_agree ix"
proof (induction rule: wal_log.induct)
  case wal_log_Nil
  show ?case by (simp add: scopes_agree_def empty_index_def)
next
  case (wal_log_snoc rs ix r ix')
  then have "apply_record E ix r = Inr ix'" by (simp add: replay_record_ok)
  with wal_log_snoc.IH show ?case by (rule scopes_agree_step)
qed

section \<open>At most one transaction per idempotency scope\<close>

definition prepared :: "wal_record list \<Rightarrow> wal_transaction list" where
  "prepared rs = concat (map (\<lambda>r. case wr_payload r of PreparePayload t \<Rightarrow> [t] | _ \<Rightarrow> []) rs)"

lemma prepared_simps [simp]:
  "prepared [] = []"
  "prepared (rs @ [r]) = prepared rs @ (case wr_payload r of PreparePayload t \<Rightarrow> [t] | _ \<Rightarrow> [])"
  by (simp_all add: prepared_def)

lemma wal_log_prepared:
  "wal_log E C rs ix \<Longrightarrow>
     distinct (map scope_of (prepared rs)) \<and> scope_of ` set (prepared rs) = dom (ri_idempotency ix)"
proof (induction rule: wal_log.induct)
  case wal_log_Nil
  show ?case by (simp add: empty_index_def)
next
  case (wal_log_snoc rs ix r ix')
  then have "apply_record E ix r = Inr ix'" by (simp add: replay_record_ok)
  then show ?case
    by (cases rule: apply_record_cases) (use wal_log_snoc.IH in \<open>auto simp: domIff\<close>)
qed

section \<open>The chain\<close>

lemma wal_log_head:
  "wal_log E C rs ix \<Longrightarrow> ri_record_count ix = of_nat (length rs) \<and>
     ri_last_record_digest ix = (if rs = [] then None else Some (wr_record_digest (last rs)))"
proof (induction rule: wal_log.induct)
  case wal_log_Nil
  show ?case by (simp add: empty_index_def)
next
  case (wal_log_snoc rs ix r ix')
  then have "apply_record E ix r = Inr ix'" "wr_sequence r = next_sequence ix" by (simp_all add: replay_record_ok)
  then show ?case using apply_record_head [of E ix r ix'] wal_log_snoc.IH by (simp add: next_sequence_def)
qed

lemma wal_log_valid: "wal_log E C rs ix \<Longrightarrow> r \<in> set rs \<Longrightarrow> \<exists>v. validate_wal_record E r = Inr v"
  by (induction rule: wal_log.induct) (auto simp: replay_record_ok)

lemma unsigned_form: "unsigned r = unsigned s \<Longrightarrow> s = r\<lparr>wr_signature := wr_signature s\<rparr>"
  by (cases r; cases s) (simp add: unsigned_def)

lemma unsigned_of_body:
  "record_body r = record_body s \<Longrightarrow> wr_record_digest r = wr_record_digest s \<Longrightarrow> unsigned r = unsigned s"
  by (cases r; cases s) (simp add: unsigned_def record_body_def)

lemma apply_record_signature:
  assumes "apply_record E ix r = Inr a" and "apply_record E ix (r\<lparr>wr_signature := sg\<rparr>) = Inr b"
  shows "a = b"
proof -
  have eq: "ri_record_count a = ri_record_count b" "ri_last_record_digest a = ri_last_record_digest b"
    using apply_record_head [OF assms(1)] apply_record_head [OF assms(2)] by simp_all
  have out: "commit_outcome (r\<lparr>wr_signature := sg\<rparr>) c t = commit_outcome r c t"
    "abort_outcome (r\<lparr>wr_signature := sg\<rparr>) k = abort_outcome r k" for c t k
    by (simp_all add: commit_outcome_def abort_outcome_def)
  from assms(1) have "ri_transactions a = ri_transactions b \<and> ri_idempotency a = ri_idempotency b"
  proof (cases rule: apply_record_cases)
    case prepare
    from assms(2) show ?thesis by (cases rule: apply_record_cases) (use prepare in simp_all)
  next
    case provisional
    from assms(2) show ?thesis by (cases rule: apply_record_cases) (use provisional in simp_all)
  next
    case commit
    from assms(2) show ?thesis by (cases rule: apply_record_cases) (use commit in \<open>simp_all add: out\<close>)
  next
    case abort
    from assms(2) show ?thesis by (cases rule: apply_record_cases) (use abort in \<open>simp_all add: out\<close>)
  qed
  with eq show ?thesis by (simp add: replay_index.equality)
qed

definition record_collision :: "platform \<Rightarrow> wal_record list \<Rightarrow> wal_record list \<Rightarrow> bool" where
  "record_collision E rs ss \<longleftrightarrow> (\<exists>r \<in> set rs. \<exists>s \<in> set ss.
     canonical_collision E AUTHORITY_WAL_RECORD_DIGEST_DOMAIN
       (sealed_material ''record_digest'' (json_of_wal_record r))
       (sealed_material ''record_digest'' (json_of_wal_record s)))"

text \<open>Two logs of one length that end in one digest have the same records up to signatures.\<close>

lemma chain_pins:
  assumes "serde_writer E"
  shows "\<lbrakk> length rs = length ss; wal_log E C rs ix; wal_log E D ss iy;
      ri_last_record_digest ix = ri_last_record_digest iy \<rbrakk> \<Longrightarrow>
    map unsigned rs = map unsigned ss \<and> ix = iy \<or> record_collision E rs ss"
proof (induction rs arbitrary: ss ix iy rule: rev_induct)
  case Nil
  then have "ss = []" by simp
  with Nil show ?case by (auto elim: wal_log_NilE)
next
  case (snoc r rs)
  then obtain ss' s where ss: "ss = ss' @ [s]" and len: "length rs = length ss'"
    by (cases ss rule: rev_cases) auto
  from snoc.prems(2) obtain ix0 where r: "wal_log E C rs ix0" "replay_record E C 0 r ix0 = Inr ix"
    by (rule wal_log_snocE) simp
  from snoc.prems(3)[unfolded ss] obtain iy0 where s: "wal_log E D ss' iy0" "replay_record E D 0 s iy0 = Inr iy"
    by (rule wal_log_snocE) simp
  have d: "wr_record_digest r = wr_record_digest s"
    using snoc.prems(4) wal_log_head [OF snoc.prems(2)] wal_log_head [OF snoc.prems(3)] ss by simp
  have "record_body r = record_body s \<or> record_collision E (rs @ [r]) ss"
  proof -
    have "wr_record_digest r = compute_wal_record_digest E r" "wr_record_digest s = compute_wal_record_digest E s"
      using r(2) s(2) validate_wal_record_parts(2) unfolding replay_record_ok by blast+
    with record_seal.tamper_evident [OF assms] d show ?thesis
      unfolding ss record_collision_def by fastforce
  qed
  then show ?case
  proof
    assume body: "record_body r = record_body s"
    then have u: "unsigned r = unsigned s" using d by (rule unsigned_of_body)
    then have "ri_last_record_digest ix0 = ri_last_record_digest iy0"
      using r(2) s(2) unsigned_fields(3) [of r] unsigned_fields(3) [of s] unfolding replay_record_ok by argo
    from snoc.IH [OF len r(1) s(1) this] show ?case
    proof
      assume same: "map unsigned rs = map unsigned ss' \<and> ix0 = iy0"
      obtain sg where sg: "s = r\<lparr>wr_signature := sg\<rparr>" using unsigned_form [OF u] by blast
      from r(2) s(2) same have "apply_record E ix0 r = Inr ix" "apply_record E ix0 (r\<lparr>wr_signature := sg\<rparr>) = Inr iy"
        unfolding replay_record_ok sg by blast+
      then have "ix = iy" by (rule apply_record_signature)
      with same u ss show ?case by simp
    next
      assume "record_collision E rs ss'"
      then show ?case unfolding record_collision_def ss by auto
    qed
  qed simp
qed

end
