(* ===== verification/Durable_Wal_System.thy ===== *)
theory Durable_Wal_System
  imports Durable_Wal_Laws
begin

text \<open>
  The durable WAL as a system of a handle, a file and a protected head: what the bytes of
  the file stand for, what one append and one reopening do to them, and the invariant over
  any sequence of appends, failed writes, crashes and reopenings.
\<close>

section \<open>Bytes and records\<close>

definition frame :: "bytes \<Rightarrow> bytes" where "frame l = l @ [newline]"

lemma frame_simps [simp]: "butlast (frame l) = l" "length (frame l) = Suc (length l)"
  by (simp_all add: frame_def)

lemma log_bytes_frames: "log_bytes ls = concat (map frame ls)"
  by (simp add: log_bytes_def frame_def [abs_def])

lemma split_inclusive_line: "newline \<notin> set l \<Longrightarrow> split_inclusive (l @ newline # s) = frame l # split_inclusive s"
  by (induction l) (auto simp: frame_def)

lemma split_inclusive_log:
  "\<forall>l \<in> set ls. newline \<notin> set l \<Longrightarrow> split_inclusive (log_bytes ls) = map frame ls"
  by (induction ls) (auto simp: log_bytes_def split_inclusive_line)

lemma complete_len_log:
  assumes "newline \<notin> set torn"
  shows "complete_len (log_bytes ls @ torn) = length (log_bytes ls)"
proof (cases "torn = []")
  case True
  show ?thesis
  proof (cases "log_bytes ls = []")
    case False
    with True show ?thesis using log_bytes_last [of ls] by (simp add: complete_len_def)
  qed (simp add: True complete_len_def)
next
  case False
  then have "last (log_bytes ls @ torn) \<noteq> newline" using assms by (metis last_appendR last_in_set)
  moreover have "dropWhile (\<lambda>c. c \<noteq> newline) (rev torn @ rev (log_bytes ls))
      = dropWhile (\<lambda>c. c \<noteq> newline) (rev (log_bytes ls))"
    using assms by (intro dropWhile_append2) auto
  moreover have "dropWhile (\<lambda>c. c \<noteq> newline) (rev (log_bytes ls)) = rev (log_bytes ls)"
    by (cases ls rule: rev_cases) simp_all
  ultimately show ?thesis using False by (simp add: complete_len_def)
qed

text \<open>Every file is a log and a torn tail.\<close>

lemma file_is_log:
  "\<exists>ls torn. f = log_bytes ls @ torn \<and> newline \<notin> set torn \<and> (\<forall>l \<in> set ls. newline \<notin> set l)"
proof (induction f)
  case Nil
  show ?case by (intro exI [of _ "[]"]) simp
next
  case (Cons c f)
  then obtain ls torn where f: "f = log_bytes ls @ torn" "newline \<notin> set torn" "\<forall>l \<in> set ls. newline \<notin> set l"
    by blast
  consider "c = newline" | "c \<noteq> newline" "ls = []" | l ls' where "c \<noteq> newline" "ls = l # ls'"
    by (cases ls) auto
  then show ?case
  proof cases
    case 1
    with f show ?thesis by (intro exI [of _ "[] # ls"] exI [of _ torn]) (simp add: log_bytes_def)
  next
    case 2
    with f show ?thesis by (intro exI [of _ "[]"] exI [of _ "c # torn"]) simp
  next
    case 3
    with f show ?thesis by (intro exI [of _ "(c # l) # ls'"] exI [of _ torn]) (auto simp: log_bytes_def)
  qed
qed

lemma replay_frames_append:
  "replay_frames E C parse n (xs @ ys) ix =
     and_then (replay_frames E C parse n xs ix)
       (replay_frames E C parse (n + of_nat (length (concat xs))) ys)"
proof (induction xs arbitrary: n ix)
  case (Cons x xs)
  show ?case
    by (cases "replay_frame E C parse n (butlast x) ix") (simp_all add: Cons.IH add.assoc)
qed simp

text \<open>The lines of a log hold the records \<open>rs\<close>, which lead to the index \<open>ix\<close>.\<close>

definition log_holds ::
  "platform \<Rightarrow> record_crypto \<Rightarrow> (bytes \<Rightarrow> string + wal_record) \<Rightarrow> bytes list \<Rightarrow> wal_record list
     \<Rightarrow> replay_index \<Rightarrow> bool" where
  "log_holds E C parse ls rs ix \<longleftrightarrow>
     good_lines ls \<and> map parse ls = map Inr rs \<and> wal_log E C rs ix"

lemma log_holds_Nil: "log_holds E C parse [] [] empty_index"
  by (simp add: log_holds_def good_lines_def wal_log_Nil)

lemma log_holds_snoc:
  assumes "log_holds E C parse ls rs ix" and "l \<noteq> []" "newline \<notin> set l" "parse l = Inr r"
    and "replay_record E C 0 r ix = Inr ix'"
  shows "log_holds E C parse (ls @ [l]) (rs @ [r]) ix'"
  using assms by (auto simp: log_holds_def good_lines_def intro: wal_log_snoc)

lemma replay_frame_ok:
  "replay_frame E C parse n l ix = Inr ix' \<longleftrightarrow>
     l \<noteq> [] \<and> (\<exists>r. parse l = Inr r \<and> replay_record E C 0 r ix = Inr ix')"
  using replay_record_offset [of E C n _ ix ix' 0] by (auto simp: replay_frame_def)

lemma replay_frames_log:
  assumes "\<forall>l \<in> set ls. newline \<notin> set l"
  shows "replay_frames E C parse 0 (map frame ls) empty_index = Inr ix \<longleftrightarrow>
    (\<exists>rs. log_holds E C parse ls rs ix)"
  using assms
proof (induction ls arbitrary: ix rule: rev_induct)
  case Nil
  show ?case
    by (auto simp: log_holds_def good_lines_def wal_log_Nil elim: wal_log_NilE)
next
  case (snoc l ls)
  let ?n = "of_nat (length (concat (map frame ls))) :: u64"
  have "replay_frames E C parse 0 (map frame (ls @ [l])) empty_index = Inr ix \<longleftrightarrow>
      (\<exists>ix0. (\<exists>rs. log_holds E C parse ls rs ix0) \<and> replay_frame E C parse ?n l ix0 = Inr ix)"
    using snoc by (simp add: replay_frames_append)
  also have "\<dots> \<longleftrightarrow> (\<exists>rs. log_holds E C parse (ls @ [l]) rs ix)"
  proof
    assume "\<exists>ix0. (\<exists>rs. log_holds E C parse ls rs ix0) \<and> replay_frame E C parse ?n l ix0 = Inr ix"
    then obtain ix0 rs r where "log_holds E C parse ls rs ix0" "l \<noteq> []" "parse l = Inr r"
      "replay_record E C 0 r ix0 = Inr ix" by (auto simp: replay_frame_ok)
    with snoc.prems show "\<exists>rs. log_holds E C parse (ls @ [l]) rs ix"
      by (intro exI [of _ "rs @ [r]"] log_holds_snoc) auto
  next
    assume "\<exists>rs. log_holds E C parse (ls @ [l]) rs ix"
    then obtain rs' where rs': "log_holds E C parse (ls @ [l]) rs' ix" ..
    then obtain rs r where rs: "rs' = rs @ [r]" by (cases rs' rule: rev_cases) (auto simp: log_holds_def)
    from rs' [unfolded rs log_holds_def] have "wal_log E C (rs @ [r]) ix" and p: "map parse ls = map Inr rs" "parse l = Inr r"
      and g: "good_lines ls" "l \<noteq> []" by (auto simp: good_lines_def)
    from this(1) obtain ix0 where "wal_log E C rs ix0" "replay_record E C 0 r ix0 = Inr ix"
      by (rule wal_log_snocE) simp
    with p g show "\<exists>ix0. (\<exists>rs. log_holds E C parse ls rs ix0) \<and> replay_frame E C parse ?n l ix0 = Inr ix"
      by (intro exI [of _ ix0]) (auto simp: replay_frame_ok log_holds_def)
  qed
  finally show ?case .
qed

lemma replay_file_log:
  assumes "log_holds E C parse ls rs ix" and "newline \<notin> set torn"
  shows "\<exists>rep. replay_file E C parse (log_bytes ls @ torn) = Inr (ix, rep, length (log_bytes ls)) \<and>
    rp_truncated_tail_bytes rep = length torn"
proof -
  have nl: "\<forall>l \<in> set ls. newline \<notin> set l" using assms(1) by (auto simp: log_holds_def good_lines_def)
  with assms(1) have "replay_frames E C parse 0 (split_inclusive (log_bytes ls)) empty_index = Inr ix"
    by (auto simp: split_inclusive_log replay_frames_log)
  then show ?thesis by (simp add: replay_file_def Let_def complete_len_log [OF assms(2)])
qed

lemma replay_file_inv:
  assumes "replay_file E C parse f = Inr (ix, rep, n)"
  obtains ls rs torn where "f = log_bytes ls @ torn" "newline \<notin> set torn" "log_holds E C parse ls rs ix"
    "n = length (log_bytes ls)" "rp_truncated_tail_bytes rep = length torn"
proof -
  obtain ls torn where f: "f = log_bytes ls @ torn" "newline \<notin> set torn" "\<forall>l \<in> set ls. newline \<notin> set l"
    using file_is_log [of f] by blast
  with assms have "replay_frames E C parse 0 (map frame ls) empty_index = Inr ix"
    by (auto simp: replay_file_def Let_def complete_len_log split_inclusive_log)
  then obtain rs where rs: "log_holds E C parse ls rs ix" using replay_frames_log [OF f(3)] by blast
  from replay_file_log [OF rs f(2)] assms f(1)
  have "n = length (log_bytes ls)" "rp_truncated_tail_bytes rep = length torn" by auto
  with that [OF f(1,2) rs] show ?thesis by blast
qed

section \<open>One append\<close>

definition parses_wal :: "platform \<Rightarrow> (bytes \<Rightarrow> string + wal_record) \<Rightarrow> bool" where
  "parses_wal E parse \<longleftrightarrow> (\<forall>r. parse (wal_line E r) = Inr r)"

lemma wal_line_good:
  assumes "serde_writer E"
  shows "wal_line E r \<noteq> [] \<and> newline \<notin> set (wal_line E r)"
  using write_plain_no_newline [OF assms, of "json_of_wal_record r"]
  by (simp add: newline_def wal_line_def json_of_wal_record_def)

lemma owned_record_fields [simp]:
  "wr_sequence (owned_record E C ix r) = next_sequence ix"
  "wr_previous_record_digest (owned_record E C ix r) = ri_last_record_digest ix"
  "wr_transaction_id (owned_record E C ix r) = wr_transaction_id r"
  "wr_payload (owned_record E C ix r) = wr_payload r"
  by (simp_all add: owned_record_def assign_chain_and_seal_def Let_def)

lemma sign_wal_record_fields:
  assumes "sign_wal_record E C ix r0 = Inr r"
  shows "wr_sequence r = next_sequence ix" "wr_previous_record_digest r = ri_last_record_digest ix"
    "wr_transaction_id r = wr_transaction_id r0" "wr_payload r = wr_payload r0"
  using assms by (auto simp: sign_wal_record_def Let_def)

lemma stage_record_staged:
  assumes "stage_record E C ix r0 = Inr (Inr (r, ix'))"
  shows "replay_record E C 0 r ix = Inr ix'" "wr_transaction_id r = wr_transaction_id r0"
    "wr_payload r = wr_payload r0" "terminal_replay_of E ix r = Inr None" "sign_wal_record E C ix r0 = Inr r"
proof -
  from assms have "sign_wal_record E C ix r0 = Inr r \<and> verify_record_crypto E C r = Inr () \<and>
      (\<exists>v. validate_wal_record E r = Inr v) \<and> terminal_replay_of E ix r = Inr None \<and> apply_record E ix r = Inr ix'"
    by (auto simp: stage_record_def split: option.splits)
  then show "replay_record E C 0 r ix = Inr ix'" "wr_transaction_id r = wr_transaction_id r0"
    "wr_payload r = wr_payload r0" "terminal_replay_of E ix r = Inr None" "sign_wal_record E C ix r0 = Inr r"
    using sign_wal_record_fields [of E C ix r0 r] by (auto simp: replay_record_ok)
qed

lemma stage_record_replay:
  assumes "stage_record E C ix r0 = Inr (Inl outcome)"
  obtains r t where "sign_wal_record E C ix r0 = Inr r" "wr_payload r0 = PreparePayload t"
    "terminal_replay_for_prepare ix r t = Inr (Some outcome)" "\<exists>v. validate_against_transaction E r t = Inr v"
proof -
  from assms obtain r where r: "sign_wal_record E C ix r0 = Inr r" "terminal_replay_of E ix r = Inr (Some outcome)"
    by (auto simp: stage_record_def split: option.splits)
  then show ?thesis using that sign_wal_record_fields(4) [OF r(1)]
    by (auto simp: terminal_replay_of_def split: wal_payload.splits)
qed

definition head_of :: "replay_index \<Rightarrow> journal_head_snapshot" where
  "head_of ix = observed AUTHORITY_WAL_HEAD_DOMAIN (ri_record_count ix) (ri_last_record_digest ix)"

context protected_head begin

text \<open>The backend, if there is one, holds the head \<open>a\<close>.\<close>

definition holds_head :: "'b option \<Rightarrow> journal_head_snapshot \<Rightarrow> bool" where
  "holds_head bo a \<longleftrightarrow> (\<forall>b. bo = Some b \<longrightarrow> read_latest B b AUTHORITY_WAL_HEAD_DOMAIN = Inr (Some a))"

definition anchored :: "durable_wal \<Rightarrow> 'b option \<Rightarrow> bool" where
  "anchored w bo \<longleftrightarrow> holds_head bo (head_of (dw_replay w)) \<and>
     (bo \<noteq> None \<longrightarrow> dw_protected_head w = Some (head_of (dw_replay w)))"

lemma head_check_anchored:
  assumes "anchored w bo"
  shows "\<exists>bo'. head_check B w bo = (w, bo', Inr ()) \<and> anchored w bo' \<and> (bo' = None \<longleftrightarrow> bo = None)"
proof (cases bo)
  case None
  with assms show ?thesis by (simp add: head_check_def)
next
  case (Some b)
  let ?h = "head_of (dw_replay w)"
  from assms Some have r: "read_latest B b AUTHORITY_WAL_HEAD_DOMAIN = Inr (Some ?h)"
    and p: "dw_protected_head w = Some ?h" by (auto simp: anchored_def holds_head_def)
  obtain b' res where v: "verify_or_initialize_protected_head B b AUTHORITY_WAL_HEAD_DOMAIN
      (ri_record_count (dw_replay w)) (ri_last_record_digest (dw_replay w)) = (b', res)" by fastforce
  from verify_keeps_anchor [OF v r] have "res = Inr ?h" "read_latest B b' AUTHORITY_WAL_HEAD_DOMAIN = Inr (Some ?h)"
    by (simp_all add: head_of_def)
  with v p Some show ?thesis by (simp add: head_check_def anchored_def holds_head_def)
qed

lemma head_advance_cases:
  assumes an: "anchored w bo" and adv: "head_advance B w bo r = (w', bo', res)"
  obtains (no_head) "bo = None" "res = Inr ()" "w' = w" "bo' = None"
  | (bad) e where "bo \<noteq> None" "res = Inl e" "w' = w\<lparr>dw_poisoned := True\<rparr>"
      "holds_head bo' (head_of (dw_replay w))"
  | (moved) "res = Inr ()" "w' = w\<lparr>dw_protected_head :=
        Some (observed AUTHORITY_WAL_HEAD_DOMAIN (wr_sequence r) (Some (wr_record_digest r)))\<rparr>"
      "holds_head bo' (observed AUTHORITY_WAL_HEAD_DOMAIN (wr_sequence r) (Some (wr_record_digest r)))"
proof (cases bo)
  case None
  with adv show ?thesis by (intro no_head) (simp_all add: head_advance_def)
next
  case (Some b)
  let ?h = "head_of (dw_replay w)"
  from an Some have p: "dw_protected_head w = Some ?h"
    and rd: "read_latest B b AUTHORITY_WAL_HEAD_DOMAIN = Inr (Some ?h)"
    by (auto simp: anchored_def holds_head_def)
  obtain b' ares where a: "advance_protected_head B b AUTHORITY_WAL_HEAD_DOMAIN ?h
      (wr_sequence r) (wr_record_digest r) = (b', ares)" by fastforce
  show ?thesis
  proof (cases ares)
    case (Inl e)
    with advance_refused a rd have "read_latest B b' AUTHORITY_WAL_HEAD_DOMAIN = Inr (Some ?h)" by metis
    with adv a p Some Inl show ?thesis by (intro bad) (auto simp: head_advance_def holds_head_def)
  next
    case (Inr sn)
    note ok = head_advance_ok(1,3) [OF a [unfolded Inr]]
    with adv a p Some Inr show ?thesis by (intro moved) (auto simp: head_advance_def holds_head_def)
  qed
qed

lemma wal_append_cases:
  assumes an: "anchored w bo" and live: "\<not> dw_poisoned w"
    and app: "wal_append E C B (w, f, bo) io r0 = ((w', f', bo'), res)"
  obtains (refused) e where "res = Inl e" "f' = f" "w' = w" "anchored w bo'"
      "stage_record E C (dw_replay w) r0 = Inl e"
  | (replayed) outcome where "res = Inr (TerminalReplay outcome)" "f' = f" "w' = w" "anchored w bo'"
      "stage_record E C (dw_replay w) r0 = Inr (Inl outcome)"
  | (uncertain) e r ix' k where "res = Inl e" "stage_record E C (dw_replay w) r0 = Inr (Inr (r, ix'))"
      "f' = f @ take k (frame (wal_line E r))" "dw_poisoned w'" "holds_head bo' (head_of (dw_replay w))"
      "wi_write_failed io \<noteq> None \<or> wi_sync_failed io \<noteq> None \<or> bo \<noteq> None"
  | (appended) r ix' where "res = Inr (Appended (wr_sequence r) (wr_phase r) (wr_record_digest r)
        (commit_witness_of ix' (wr_transaction_id r)))"
      "stage_record E C (dw_replay w) r0 = Inr (Inr (r, ix'))" "f' = f @ frame (wal_line E r)"
      "\<not> dw_poisoned w'" "dw_replay w' = ix'" "anchored w' bo'"
proof -
  from head_check_anchored [OF an] obtain b1 where hc: "head_check B w bo = (w, b1, Inr ())"
    and a1: "anchored w b1" and n1: "b1 = None \<longleftrightarrow> bo = None" by blast
  consider (e) e where "stage_record E C (dw_replay w) r0 = Inl e"
    | (o) outcome where "stage_record E C (dw_replay w) r0 = Inr (Inl outcome)"
    | (s) r ix' where "stage_record E C (dw_replay w) r0 = Inr (Inr (r, ix'))"
    by (metis obj_sumE prod.exhaust)
  then show ?thesis
  proof cases
    case e
    with app live hc a1 show ?thesis by (intro refused [of e]) (simp_all add: wal_append_def)
  next
    case o
    with app live hc a1 show ?thesis by (intro replayed [of outcome]) (simp_all add: wal_append_def)
  next
    case s
    obtain g wres where g: "wal_write io f (frame (wal_line E r)) = (g, wres)" by fastforce
    show ?thesis
    proof (cases wres)
      case (Inl e)
      with g obtain k where "g = f @ take k (frame (wal_line E r))"
        "wi_write_failed io \<noteq> None \<or> wi_sync_failed io \<noteq> None"
        by (auto simp: wal_write_def split: option.splits intro: that [of "Suc (length (wal_line E r))"])
      moreover have "w' = w\<lparr>dw_poisoned := True\<rparr>" "f' = g" "bo' = b1" "res = Inl (Io e)"
        using app live hc s g Inl by (simp_all add: wal_append_def frame_def)
      ultimately show ?thesis using s a1 by (intro uncertain [of "Io e" r ix' k]) (auto simp: anchored_def)
    next
      case (Inr u)
      with g have f: "g = f @ frame (wal_line E r)" by (auto simp: wal_write_def split: option.splits)
      obtain w2 b2 hres where h: "head_advance B w b1 r = (w2, b2, hres)" by (metis prod.exhaust)
      have app': "wal_append E C B (w, f, bo) io r0 = (case hres of
           Inl e \<Rightarrow> ((w2, g, b2), Inl e)
         | Inr _ \<Rightarrow> ((w2\<lparr>dw_replay := ix', dw_recovery := (dw_recovery w2)\<lparr>rp_record_count := ri_record_count ix'\<rparr>\<rparr>, g, b2),
             Inr (Appended (wr_sequence r) (wr_phase r) (wr_record_digest r) (commit_witness_of ix' (wr_transaction_id r)))))"
        using live hc s g Inr h by (simp add: wal_append_def frame_def)
      show ?thesis
        using a1 h
      proof (cases rule: head_advance_cases)
        case no_head
        with app' app live f s show ?thesis
          by (intro appended [of r ix']) (simp_all add: anchored_def holds_head_def)
      next
        case (bad e)
        with app' app f s n1 show ?thesis
          by (intro uncertain [of e r ix' "Suc (length (wal_line E r))"]) simp_all
      next
        case moved
        from stage_record_staged(1) [OF s] have "apply_record E (dw_replay w) r = Inr ix'"
          by (simp add: replay_record_ok)
        then have "head_of ix' = observed AUTHORITY_WAL_HEAD_DOMAIN (wr_sequence r) (Some (wr_record_digest r))"
          by (simp add: head_of_def apply_record_head)
        with moved app' app live f s show ?thesis
          by (intro appended [of r ix']) (simp_all add: anchored_def)
      qed
    qed
  qed
qed

end

section \<open>Appends, crashes and reopenings\<close>

datatype wal_event =
    WAppend wal_io wal_record
  | WReopen wal_open_env

type_synonym 'b wal_system = "durable_wal option \<times> bytes \<times> 'b option"

text \<open>The acknowledgement of an append: the transaction and what the caller was told.\<close>

type_synonym wal_ack = "string \<times> append_outcome"

fun wal_step ::
  "platform \<Rightarrow> record_crypto \<Rightarrow> 'b head_backend \<Rightarrow> (bytes \<Rightarrow> string + wal_record) \<Rightarrow> 'b wal_system
     \<Rightarrow> wal_event \<Rightarrow> 'b wal_system \<times> wal_ack list" where
  "wal_step E C B parse (None, f, bo) (WAppend io r) = ((None, f, bo), [])"
| "wal_step E C B parse (Some w, f, bo) (WAppend io r) =
     (case wal_append E C B (w, f, bo) io r of
        ((w', f', bo'), Inl e) \<Rightarrow> ((Some w', f', bo'), [])
      | ((w', f', bo'), Inr out) \<Rightarrow> ((Some w', f', bo'), [(wr_transaction_id r, out)]))"
| "wal_step E C B parse (wo, f, bo) (WReopen env) =
     (case wal_open E C B parse env f bo of
        (f', bo', Inl e) \<Rightarrow> ((None, f', bo'), [])
      | (f', bo', Inr w) \<Rightarrow> ((Some w, f', bo'), []))"

fun wal_run ::
  "platform \<Rightarrow> record_crypto \<Rightarrow> 'b head_backend \<Rightarrow> (bytes \<Rightarrow> string + wal_record) \<Rightarrow> 'b wal_system
     \<Rightarrow> wal_event list \<Rightarrow> 'b wal_system \<times> wal_ack list" where
  "wal_run E C B parse s [] = (s, [])"
| "wal_run E C B parse s (ev # evs) =
     (let (s', as) = wal_step E C B parse s ev; (s'', as') = wal_run E C B parse s' evs
      in (s'', as @ as'))"

text \<open>
  An acknowledgement is honoured by a log: the appended record is in it at its sequence
  number with its digest.
\<close>

definition honoured :: "wal_record list \<Rightarrow> wal_ack \<Rightarrow> bool" where
  "honoured rs a \<longleftrightarrow>
     (case a of
        (tid, Appended n phase d wit) \<Rightarrow>
          (\<exists>r \<in> set rs. wr_transaction_id r = tid \<and> wr_sequence r = n \<and> wr_phase r = phase \<and> wr_record_digest r = d)
      | (tid, TerminalReplay outcome) \<Rightarrow>
          (\<exists>r \<in> set rs. wr_phase r \<in> {Commit, Abort} \<and> wr_record_digest r = to_terminal_record_digest outcome \<and>
             wr_transaction_id r = to_transaction_id outcome \<and> wr_phase r = to_phase outcome))"

lemma honoured_append: "honoured rs a \<Longrightarrow> honoured (rs @ ss) a"
  by (auto simp: honoured_def split: prod.splits append_outcome.splits)

text \<open>A stored outcome is the outcome of a terminal record of the log.\<close>

lemma terminal_in_log:
  assumes "wal_log E C rs ix" and "ri_transactions ix tid = Some x" and "rx_terminal x = Some outcome"
  shows "\<exists>r \<in> set rs. wr_phase r \<in> {Commit, Abort} \<and> wr_record_digest r = to_terminal_record_digest outcome \<and>
    wr_transaction_id r = to_transaction_id outcome \<and> wr_phase r = to_phase outcome \<and>
    to_transaction_id outcome = tid"
proof -
  have lc: "lifecycle (tx_history tid rs) (Some x)" using wal_log_lifecycle [OF assms(1), of tid] assms(2) by simp
  have "\<exists>r \<in> set (tx_history tid rs). wr_phase r = to_phase outcome \<and> to_phase outcome \<in> {Commit, Abort} \<and>
      wr_record_digest r = to_terminal_record_digest outcome \<and> wr_transaction_id r = to_transaction_id outcome"
  proof (cases "rx_phase x")
    case Commit
    with lc assms(3) show ?thesis by (auto simp: commit_outcome_def)
  next
    case Abort
    with lc assms(3) show ?thesis by (auto simp: abort_outcome_def)
  qed (use lc assms(3) in auto)
  then show ?thesis unfolding tx_history_def by fastforce
qed

lemma terminal_replay_ok:
  assumes "terminal_replay_for_prepare ix r t = Inr (Some outcome)"
  obtains tid x where "ri_idempotency ix (scope_of t) = Some tid" "ri_transactions ix tid = Some x"
    "rx_terminal x = Some outcome"
    "tb_intent_digest (tx_binding (rx_transaction x)) = tb_intent_digest (tx_binding t)"
  using assms by (auto simp: terminal_replay_for_prepare_def split: option.splits if_splits)

lemma terminal_replay_acked:
  assumes "wal_log E C rs ix" and "stage_record E C ix r0 = Inr (Inl outcome)"
  shows "honoured rs (wr_transaction_id r0, TerminalReplay outcome)"
proof -
  from assms(2) obtain r t where "terminal_replay_for_prepare ix r t = Inr (Some outcome)"
    by (rule stage_record_replay)
  then obtain tid x where "ri_transactions ix tid = Some x" "rx_terminal x = Some outcome"
    by (rule terminal_replay_ok)
  from terminal_in_log [OF assms(1) this] show ?thesis by (auto simp: honoured_def)
qed

text \<open>A prefix of a frame is a torn tail or the whole frame.\<close>

lemma take_frame:
  "take k (frame l) = (if k \<le> length l then take k l else frame l)"
  by (simp add: frame_def)

lemma staged_log:
  assumes E: "serde_writer E" and P: "parses_wal E parse"
    and lh: "log_holds E C parse ls rs ix" and st: "stage_record E C ix r0 = Inr (Inr (r, ix'))"
  shows "log_holds E C parse (ls @ [wal_line E r]) (rs @ [r]) ix'"
  using wal_line_good [OF E, of r] P stage_record_staged(1) [OF st] lh
  by (intro log_holds_snoc) (auto simp: parses_wal_def)

context protected_head begin

text \<open>
  The invariant: the file is a log and a torn tail, every acknowledgement is honoured by
  it, and a usable handle has the index of the log, no torn tail behind it, and the head
  where the backend has it.
\<close>

definition wal_inv ::
  "platform \<Rightarrow> record_crypto \<Rightarrow> (bytes \<Rightarrow> string + wal_record) \<Rightarrow> wal_ack set \<Rightarrow> 'b wal_system \<Rightarrow> bool" where
  "wal_inv E C parse acks s \<longleftrightarrow> (case s of (wo, f, bo) \<Rightarrow>
     (\<exists>ls rs ix torn. f = log_bytes ls @ torn \<and> newline \<notin> set torn \<and> log_holds E C parse ls rs ix \<and>
        (\<forall>a \<in> acks. honoured rs a) \<and>
        (\<forall>w. wo = Some w \<and> \<not> dw_poisoned w \<longrightarrow> torn = [] \<and> dw_replay w = ix \<and> anchored w bo)))"

lemma wal_invI:
  assumes "f = log_bytes ls @ torn" "newline \<notin> set torn" "log_holds E C parse ls rs ix"
    "\<forall>a \<in> acks. honoured rs a"
    "\<And>w. wo = Some w \<Longrightarrow> \<not> dw_poisoned w \<Longrightarrow> torn = [] \<and> dw_replay w = ix \<and> anchored w bo"
  shows "wal_inv E C parse acks (wo, f, bo)"
  unfolding wal_inv_def prod.case using assms by blast

lemma wal_invE:
  assumes "wal_inv E C parse acks (wo, f, bo)"
  obtains ls rs ix torn where "f = log_bytes ls @ torn" "newline \<notin> set torn" "log_holds E C parse ls rs ix"
    "\<forall>a \<in> acks. honoured rs a"
    "\<forall>w. wo = Some w \<and> \<not> dw_poisoned w \<longrightarrow> torn = [] \<and> dw_replay w = ix \<and> anchored w bo"
  using assms unfolding wal_inv_def prod.case by blast

lemma wal_open_cases:
  assumes "wal_open E C B parse env f bo = (f', bo', res)"
  obtains (refused) e where "res = Inl e" "f' = f \<or> (\<exists>n ix rep. replay_file E C parse f = Inr (ix, rep, n) \<and> f' = take n f)"
  | (opened) ix rep n w where "res = Inr w" "replay_file E C parse f = Inr (ix, rep, n)" "dw_replay w = ix"
      "\<not> dw_poisoned w" "anchored w bo'" "f' = (if rp_truncated_tail_bytes rep = 0 then f else take n f)"
      "bo \<noteq> None \<Longrightarrow> dw_protected_head w = Some (head_of ix)"
      "\<forall>b a. bo = Some b \<and> read_latest B b AUTHORITY_WAL_HEAD_DOMAIN = Inr (Some a) \<longrightarrow> a = head_of ix"
proof -
  consider (env) e where "wo_failed env = Some e" | (rep) e where "wo_failed env = None" "replay_file E C parse f = Inl e"
    | (ok) ix rep n where "wo_failed env = None" "replay_file E C parse f = Inr (ix, rep, n)"
    by (metis obj_sumE option.exhaust prod.exhaust)
  then show ?thesis
  proof cases
    case env
    with assms show ?thesis by (intro refused [of e]) (auto simp: wal_open_def)
  next
    case rep
    with assms show ?thesis by (intro refused [of e]) (auto simp: wal_open_def)
  next
    case ok
    show ?thesis
    proof (cases bo)
      case None
      with assms ok show ?thesis
        by (cases res) (auto simp: wal_open_def anchored_def holds_head_def Let_def
            split: if_splits option.splits intro: refused opened)
    next
      case (Some b)
      obtain b' vres where v: "verify_or_initialize_protected_head B b AUTHORITY_WAL_HEAD_DOMAIN
          (ri_record_count ix) (ri_last_record_digest ix) = (b', vres)" by fastforce
      show ?thesis
      proof (cases vres)
        case (Inl e)
        with assms ok Some v show ?thesis by (intro refused) (auto simp: wal_open_def)
      next
        case (Inr sn)
        note vo = verify_ok [OF v [unfolded Inr]]
        with assms ok Some v Inr show ?thesis
          by (cases res) (auto simp: wal_open_def anchored_def holds_head_def head_of_def Let_def
              split: if_splits option.splits intro: refused opened)
      qed
    qed
  qed
qed

text \<open>A reopened file is the log without its torn tail.\<close>

lemma wal_inv_reopen:
  assumes inv: "wal_inv E C parse acks (wo, f, bo)"
    and step: "wal_step E C B parse (wo, f, bo) (WReopen env) = (s', as)"
  shows "wal_inv E C parse acks s' \<and> as = []"
proof -
  from inv obtain ls rs ix torn where f: "f = log_bytes ls @ torn" "newline \<notin> set torn"
    and lh: "log_holds E C parse ls rs ix" and ack: "\<forall>a \<in> acks. honoured rs a" by (rule wal_invE)
  from replay_file_log [OF lh f(2)] f(1) obtain rep0 where
    rf: "replay_file E C parse f = Inr (ix, rep0, length (log_bytes ls))"
      "rp_truncated_tail_bytes rep0 = length torn" by blast
  obtain f' bo' res where op: "wal_open E C B parse env f bo = (f', bo', res)" by (metis prod.exhaust)
  from op show ?thesis
  proof (cases rule: wal_open_cases)
    case (refused e)
    with step op have s': "s' = (None, f', bo')" "as = []" by (cases wo; simp)+
    from refused(2) rf have "f' = f \<or> f' = log_bytes ls @ []" by (auto simp: f(1))
    then have "wal_inv E C parse acks (None, f', bo')"
      using wal_invI [OF f lh ack, of None] wal_invI [OF _ _ lh ack, of f' "[]" None] by auto
    with s' show ?thesis by simp
  next
    case (opened iy rep n w)
    with step op have s': "s' = (Some w, f', bo')" "as = []" by (cases wo; simp)+
    from opened(2,6) rf f(1) have "iy = ix" "f' = log_bytes ls @ []" by (auto split: if_splits)
    with opened(3,5) have "wal_inv E C parse acks (Some w, f', bo')"
      by (intro wal_invI [OF _ _ lh ack, of f' "[]"]) auto
    with s' show ?thesis by simp
  qed
qed

lemma wal_inv_append:
  assumes E: "serde_writer E" and P: "parses_wal E parse"
    and inv: "wal_inv E C parse acks (Some w, f, bo)"
    and app: "wal_append E C B (w, f, bo) io r0 = ((w', f', bo'), res)"
  shows "wal_inv E C parse (case res of Inl e \<Rightarrow> acks | Inr out \<Rightarrow> insert (wr_transaction_id r0, out) acks)
    (Some w', f', bo')"
proof (cases "dw_poisoned w")
  case True
  with app have "res = Inl Poisoned" "w' = w" "f' = f" "bo' = bo" by (simp_all add: wal_append_def)
  with inv show ?thesis by simp
next
  case live: False
  from inv obtain ls rs ix torn where f0: "f = log_bytes ls @ torn" "newline \<notin> set torn"
    and lh: "log_holds E C parse ls rs ix" and ack: "\<forall>a \<in> acks. honoured rs a"
    and "\<forall>g. Some w = Some g \<and> \<not> dw_poisoned g \<longrightarrow> torn = [] \<and> dw_replay g = ix \<and> anchored g bo"
    by (rule wal_invE)
  with live have w: "torn = []" "dw_replay w = ix" and an: "anchored w bo" by blast+
  with f0 have f: "f = log_bytes ls" by simp
  from lh have wl: "wal_log E C rs ix" by (simp add: log_holds_def)
  from an live app show ?thesis
  proof (cases rule: wal_append_cases)
    case (refused e)
    with inv ack show ?thesis by (auto intro!: wal_invI [OF f0 lh ack] simp: w)
  next
    case (replayed outcome)
    with terminal_replay_acked [OF wl] w(2) ack
    have "\<forall>a \<in> insert (wr_transaction_id r0, TerminalReplay outcome) acks. honoured rs a" by simp
    then have "wal_inv E C parse (insert (wr_transaction_id r0, TerminalReplay outcome) acks) (Some w, f, bo')"
      by (rule wal_invI [OF f0 lh]) (use w replayed(4) in auto)
    with replayed show ?thesis by simp
  next
    case (uncertain e r ix' k)
    let ?l = "wal_line E r"
    show ?thesis
    proof (cases "k \<le> length ?l")
      case True
      with uncertain(3) f have "f' = log_bytes ls @ take k ?l" by (simp add: take_frame)
      moreover have "newline \<notin> set (take k ?l)" using wal_line_good [OF E] by (meson in_set_takeD)
      ultimately show ?thesis using uncertain(1,4) lh ack by (auto intro!: wal_invI)
    next
      case False
      with uncertain(3) f have "f' = log_bytes (ls @ [?l]) @ []" by (simp add: take_frame frame_def)
      moreover have "log_holds E C parse (ls @ [?l]) (rs @ [r]) ix'"
        by (rule staged_log [OF E P lh]) (use uncertain(2) w in simp)
      moreover have "\<forall>a \<in> acks. honoured (rs @ [r]) a" using ack honoured_append by blast
      ultimately have "wal_inv E C parse acks (Some w', f', bo')"
        by (intro wal_invI [where torn = "[]" and ls = "ls @ [?l]" and rs = "rs @ [r]" and ix = ix'])
          (use uncertain(4) in auto)
      with uncertain(1) show ?thesis by simp
    qed
  next
    case (appended r ix')
    let ?l = "wal_line E r"
    have st: "stage_record E C ix r0 = Inr (Inr (r, ix'))" using appended(2) w by simp
    have "f' = log_bytes (ls @ [?l]) @ []" using appended(3) f by (simp add: frame_def)
    moreover have "log_holds E C parse (ls @ [?l]) (rs @ [r]) ix'" by (rule staged_log [OF E P lh st])
    moreover have "honoured (rs @ [r]) (wr_transaction_id r0, Appended (wr_sequence r) (wr_phase r)
        (wr_record_digest r) wit)" for wit
      using stage_record_staged(2) [OF st] by (simp add: honoured_def)
    then have "\<forall>a \<in> (case res of Inl e \<Rightarrow> acks | Inr out \<Rightarrow> insert (wr_transaction_id r0, out) acks).
        honoured (rs @ [r]) a" using ack honoured_append appended(1) by auto
    ultimately show ?thesis
      by (intro wal_invI [where torn = "[]" and ls = "ls @ [?l]" and rs = "rs @ [r]" and ix = ix'])
        (use appended in auto)
  qed
qed

lemma wal_inv_step:
  assumes "serde_writer E" "parses_wal E parse" and inv: "wal_inv E C parse acks s"
    and step: "wal_step E C B parse s ev = (s', as)"
  shows "wal_inv E C parse (acks \<union> set as) s'"
proof -
  obtain wo f bo where s: "s = (wo, f, bo)" by (cases s)
  show ?thesis
  proof (cases ev)
    case (WReopen env)
    with wal_inv_reopen inv step s show ?thesis by fastforce
  next
    case (WAppend io r)
    show ?thesis
    proof (cases wo)
      case None
      with inv step s WAppend show ?thesis by simp
    next
      case (Some w)
      obtain w' f' bo' res where app: "wal_append E C B (w, f, bo) io r = ((w', f', bo'), res)"
        by (metis prod.exhaust)
      note kept = wal_inv_append [OF assms(1,2) inv [unfolded s Some] app]
      show ?thesis
      proof (cases res)
        case (Inl e)
        with kept app step s WAppend Some show ?thesis by simp
      next
        case (Inr out)
        with app step s WAppend Some have "s' = (Some w', f', bo')" "as = [(wr_transaction_id r, out)]" by auto
        with kept Inr show ?thesis by simp
      qed
    qed
  qed
qed

lemma wal_inv_run:
  assumes "serde_writer E" "parses_wal E parse"
  shows "\<lbrakk> wal_inv E C parse acks s; wal_run E C B parse s evs = (s', as) \<rbrakk> \<Longrightarrow>
    wal_inv E C parse (acks \<union> set as) s'"
proof (induction evs arbitrary: s acks as)
  case (Cons ev evs)
  obtain s1 as1 where s1: "wal_step E C B parse s ev = (s1, as1)" by fastforce
  obtain as2 where s2: "wal_run E C B parse s1 evs = (s', as2)" "as = as1 @ as2"
    using Cons.prems(2) s1 by (auto split: prod.splits)
  from Cons.IH [OF wal_inv_step [OF assms Cons.prems(1) s1] s2(1)] s2(2) show ?case by (simp add: Un_assoc)
qed simp

lemma wal_inv_init: "wal_inv E C parse {} (None, [], bo)"
  by (rule wal_invI [OF _ _ log_holds_Nil, of _ "[]"]) simp_all

end

end
