(* ===== verification/Durable_Wal_Properties.thy ===== *)
theory Durable_Wal_Properties
  imports Durable_Wal_System
begin

text \<open>
  The properties of the durable WAL: what any file that opens stands for, at most one
  transaction per idempotency scope, durability of acknowledged records, what a failed
  append leaves, the pinning of the history by the protected head, and that a transaction in
  flight can be closed.
\<close>

lemma lifecycle_phases:
  assumes "lifecycle h xo"
  shows "map wr_phase h \<in> {[], [Prepare], [Prepare, Provisional], [Prepare, Provisional, Commit],
    [Prepare, Abort], [Prepare, Provisional, Abort]}"
proof (cases xo)
  case (Some x)
  with assms show ?thesis by (cases "rx_phase x") auto
qed (use assms in simp)

lemma lifecycle_committed:
  assumes "lifecycle h (ri_transactions ix tid)"
  shows "committed_transaction ix tid = Some t \<longleftrightarrow>
    (\<exists>p v c k. h = [p, v, c] \<and> opens p t \<and> wr_phase v = Provisional \<and> commits c t k \<and> wr_phase c = Commit)"
proof (cases "ri_transactions ix tid")
  case None
  with assms show ?thesis by (simp add: committed_transaction_def)
next
  case (Some x)
  show ?thesis
  proof (cases "rx_phase x = Commit")
    case True
    with assms Some obtain p v c k where h: "h = [p, v, c]" "opens p (rx_transaction x)"
      "wr_phase v = Provisional" "wr_phase c = Commit" "commits c (rx_transaction x) k" by auto
    have "committed_transaction ix tid = Some t \<longleftrightarrow> t = rx_transaction x"
      using Some True by (auto simp: committed_transaction_def)
    also have "\<dots> \<longleftrightarrow> (\<exists>p v c k. h = [p, v, c] \<and> opens p t \<and> wr_phase v = Provisional \<and>
        commits c t k \<and> wr_phase c = Commit)"
      using h by (auto simp: opens_def)
    finally show ?thesis .
  next
    case False
    then have "committed_transaction ix tid = None" using Some by (simp add: committed_transaction_def)
    moreover from False assms Some have "\<nexists>p v c. h = [p, v, c] \<and> wr_phase c = Commit"
      by (cases "rx_phase x") auto
    ultimately show ?thesis by auto
  qed
qed

text \<open>Visible means committed.\<close>

lemma lifecycle_visible:
  assumes "lifecycle h (ri_transactions ix tid)"
  shows "(\<exists>t. committed_transaction ix tid = Some t) \<longleftrightarrow> map wr_phase h = [Prepare, Provisional, Commit]"
proof (cases "ri_transactions ix tid")
  case None
  with assms show ?thesis by (simp add: committed_transaction_def)
next
  case (Some x)
  with assms show ?thesis by (cases "rx_phase x") (auto simp: committed_transaction_def opens_def commits_def)
qed

text \<open>The records of a visible transaction, and what the WAL has checked of them.\<close>

lemma committed_records:
  assumes "lifecycle (tx_history tid rs) (ri_transactions ix tid)"
  shows "committed_transaction ix tid = Some t \<longleftrightarrow>
    (\<exists>p v c k. tx_history tid rs = [p, v, c] \<and> wr_payload p = PreparePayload t \<and>
       wr_phase v = Provisional \<and> wr_phase c = Commit \<and> wr_payload c = CommitPayload k \<and>
       tb_transaction_id (tx_binding t) = tid \<and>
       tb_issued_at (tx_binding t) \<le> wc_committed_at k \<and> wc_committed_at k < tb_expires_at (tx_binding t) \<and>
       wc_authorization_snapshot_digest k = tb_authorization_snapshot_digest (tx_binding t))"
    (is "?visible \<longleftrightarrow> ?records")
proof
  assume ?visible
  with lifecycle_committed [OF assms] obtain p v c k where h: "tx_history tid rs = [p, v, c]"
    "opens p t" "wr_phase v = Provisional" "commits c t k" "wr_phase c = Commit" by blast
  from h(1) have "p \<in> set (tx_history tid rs)" by simp
  then have "wr_transaction_id p = tid" by (simp add: tx_history_def)
  with h show ?records unfolding opens_def commits_def payload_binding_commit
    by (intro exI [of _ p] exI [of _ v] exI [of _ c] exI [of _ k]) simp
next
  assume ?records
  then obtain p v c where h: "tx_history tid rs = [p, v, c]" "wr_payload p = PreparePayload t" "wr_phase c = Commit" by blast
  with assms obtain x where x: "ri_transactions ix tid = Some x" by (cases "ri_transactions ix tid") auto
  with assms h have "opens p (rx_transaction x)" "rx_phase x = Commit" by (cases "rx_phase x"; auto)+
  with x h(2) show ?visible by (simp add: committed_transaction_def opens_def)
qed

text \<open>C28: Whatever file the WAL opens, each transaction in it went through PREPARE, PROVISIONAL and
  COMMIT, or was aborted before the commit, or is in flight, and has no record after its
  terminal one; a transaction is visible exactly if the file holds a PREPARE of it, a PROVISIONAL
  and a COMMIT, in this order and no other record of it, the commit inside its half-open lifetime
  and under the authorisation it was prepared with.\<close>
theorem wal_file_lifecycle:
  assumes "replay_file E C parse f = Inr (ix, rep, n)"
  shows "\<exists>ls rs. log_holds E C parse ls rs ix \<and> take n f = log_bytes ls \<and>
    (\<forall>tid. map wr_phase (tx_history tid rs) \<in> {[], [Prepare], [Prepare, Provisional],
        [Prepare, Provisional, Commit], [Prepare, Abort], [Prepare, Provisional, Abort]}) \<and>
    (\<forall>tid t. committed_transaction ix tid = Some t \<longleftrightarrow>
       (\<exists>p v c k. tx_history tid rs = [p, v, c] \<and> wr_payload p = PreparePayload t \<and>
          wr_phase v = Provisional \<and> wr_phase c = Commit \<and> wr_payload c = CommitPayload k \<and>
          tb_transaction_id (tx_binding t) = tid \<and>
          tb_issued_at (tx_binding t) \<le> wc_committed_at k \<and> wc_committed_at k < tb_expires_at (tx_binding t) \<and>
          wc_authorization_snapshot_digest k = tb_authorization_snapshot_digest (tx_binding t))) \<and>
    (\<forall>tid. (\<exists>t. committed_transaction ix tid = Some t)
       \<longleftrightarrow> map wr_phase (tx_history tid rs) = [Prepare, Provisional, Commit])"
proof -
  from assms obtain ls rs torn where f: "f = log_bytes ls @ torn" "n = length (log_bytes ls)"
    and lh: "log_holds E C parse ls rs ix" by (rule replay_file_inv)
  have lc: "lifecycle (tx_history tid rs) (ri_transactions ix tid)" for tid
    using lh wal_log_lifecycle unfolding log_holds_def by blast
  have "(\<exists>t. committed_transaction ix tid = Some t)
      \<longleftrightarrow> map wr_phase (tx_history tid rs) = [Prepare, Provisional, Commit]" for tid
    by (rule lifecycle_visible [OF lc])
  moreover have "take n f = log_bytes ls" using f by simp
  ultimately show ?thesis using lh lifecycle_phases [OF lc] committed_records [OF lc] by blast
qed

text \<open>An idempotency scope is used once: in any file that opens no two prepared transactions
  have one scope (organism, brain, subject, action and idempotency key).\<close>
theorem wal_scope_used_once:
  assumes "replay_file E C parse f = Inr (ix, rep, n)"
  shows "\<exists>ls rs. log_holds E C parse ls rs ix \<and> take n f = log_bytes ls \<and>
    distinct (map scope_of (prepared rs)) \<and>
    (\<forall>t \<in> set (prepared rs). \<exists>tid. ri_idempotency ix (scope_of t) = Some tid)"
proof -
  from assms obtain ls rs torn where f: "f = log_bytes ls @ torn" "n = length (log_bytes ls)"
    and lh: "log_holds E C parse ls rs ix" by (rule replay_file_inv)
  from lh have "wal_log E C rs ix" by (simp add: log_holds_def)
  then have d: "distinct (map scope_of (prepared rs))"
    and dom: "scope_of ` set (prepared rs) = dom (ri_idempotency ix)"
    by (simp_all add: wal_log_prepared)
  have "\<exists>tid. ri_idempotency ix (scope_of t) = Some tid" if "t \<in> set (prepared rs)" for t
  proof -
    from that have "scope_of t \<in> dom (ri_idempotency ix)" unfolding dom [symmetric] by (rule imageI)
    then show ?thesis by blast
  qed
  moreover have "take n f = log_bytes ls" using f by simp
  ultimately show ?thesis using lh d by blast
qed

section \<open>The life of one log\<close>

text \<open>\<open>quiet r\<close>: the call did not panic.  Every building block of a handler keeps it.\<close>

definition quiet :: "wal_error + 'a \<Rightarrow> bool" where
  "quiet r \<longleftrightarrow> (\<forall>msg. r \<noteq> Inl (Panic msg))"

lemma quiet_Inr [simp]: "quiet (Inr x)"
  by (simp add: quiet_def)

lemma quiet_and_then: "quiet r \<Longrightarrow> (\<And>x. r = Inr x \<Longrightarrow> quiet (f x)) \<Longrightarrow> quiet (and_then r f)"
  by (cases r) (simp_all add: quiet_def)

lemma quiet_check [simp]: "quiet (check c e) \<longleftrightarrow> c \<or> (\<forall>msg. e \<noteq> Panic msg)"
  by (auto simp: quiet_def)

lemma quiet_map_err [simp]:
  "quiet (map_err Contract r)" "quiet (map_err (Crypto op) d)"
  by (auto simp: quiet_def map_err_def split: sum.splits)

lemma quiet_validated [simp]: "quiet (validated E r t)"
  unfolding validated_def by (rule quiet_and_then) simp_all

lemma quiet_seq: "\<forall>c \<in> set cs. quiet c \<Longrightarrow> quiet (seq_checks cs)"
  unfolding quiet_def by (metis in_set_conv_decomp seq_checks_errD)

lemma quiet_Inl [simp]: "quiet (Inl e) \<longleftrightarrow> (\<forall>msg. e \<noteq> Panic msg)"
  by (simp add: quiet_def)

lemma quiet_advance: "quiet (advance E ix r p)"
  unfolding advance_def by (auto split: option.splits intro!: quiet_and_then)

lemma quiet_apply_record: "quiet (apply_record E ix r)"
proof -
  have "quiet (apply_payload E ix r)"
  proof (cases "wr_payload r")
    case (PreparePayload t)
    show ?thesis unfolding apply_payload_def PreparePayload wal_payload.case apply_prepare_def
      by (rule quiet_and_then) simp_all
  next
    case (ProvisionalPayload d)
    then show ?thesis by (simp add: apply_payload_def quiet_advance)
  next
    case (CommitPayload c)
    have "quiet (and_then (ok_or (ri_transactions ix' (wr_transaction_id r)) e) g)"
      if adv: "advance E ix r Provisional = Inr ix'" and g: "\<And>x. quiet (g x)"
      for ix' e and g :: "replay_transaction \<Rightarrow> wal_error + replay_index"
    proof -
      from adv obtain x where "ri_transactions ix' (wr_transaction_id r) = Some x" by (auto simp: advance_ok)
      with g show ?thesis by simp
    qed
    then show ?thesis unfolding apply_payload_def CommitPayload wal_payload.case
      by (intro quiet_and_then [OF quiet_advance]) simp
  next
    case (AbortPayload a)
    show ?thesis unfolding apply_payload_def AbortPayload wal_payload.case apply_abort_def
      by (cases "ri_transactions ix (wr_transaction_id r)") (simp_all add: quiet_and_then)
  qed
  then show ?thesis unfolding apply_record_def by (rule quiet_and_then) simp
qed

lemma quiet_terminal_replay:
  assumes "scopes_agree ix"
  shows "quiet (terminal_replay_of E ix r)"
proof -
  have known: "ri_idempotency ix sc = Some tid \<Longrightarrow> \<exists>x. ri_transactions ix tid = Some x" for sc tid
    using assms unfolding scopes_agree_def by blast
  have "quiet (terminal_replay_for_prepare ix r t)" for t
  proof (cases "ri_idempotency ix (scope_of t)")
    case (Some tid)
    with known [OF Some] show ?thesis by (auto simp: terminal_replay_for_prepare_def split: option.splits)
  qed (simp add: terminal_replay_for_prepare_def)
  then show ?thesis
    unfolding terminal_replay_of_def by (auto split: wal_payload.splits intro!: quiet_and_then)
qed

lemma stage_never_panics:
  assumes "scopes_agree ix"
  shows "stage_record E C ix r0 \<noteq> Inl (Panic msg)"
proof -
  have "quiet (verify_record_crypto E C r)" for r
    unfolding verify_record_crypto_def by (rule quiet_seq) simp
  moreover have "quiet (sign_wal_record E C ix r0)"
    unfolding sign_wal_record_def Let_def by (rule quiet_and_then) simp_all
  ultimately have "quiet (stage_record E C ix r0)"
    unfolding stage_record_def
    by (intro quiet_and_then) (auto split: option.splits
        intro!: quiet_and_then quiet_apply_record quiet_terminal_replay [OF assms])
  then show ?thesis by (simp add: quiet_def)
qed

lemma live_handle:
  assumes "serde_writer E" "parses_wal E parse" "protected_head B"
    and run: "wal_run E C B parse (None, [], bo) evs = ((Some w, f, bo'), acks)" and live: "\<not> dw_poisoned w"
  obtains ls rs where "f = log_bytes ls" "log_holds E C parse ls rs (dw_replay w)"
    "\<forall>a \<in> set acks. honoured rs a" "protected_head.anchored B w bo'"
proof -
  have "protected_head.wal_inv B E C parse ({} \<union> set acks) (Some w, f, bo')"
    using protected_head.wal_inv_run [OF assms(3,1,2) _ run] protected_head.wal_inv_init [OF assms(3)] by blast
  then obtain ls rs ix torn where f: "f = log_bytes ls @ torn" and lh: "log_holds E C parse ls rs ix"
    and ack: "\<forall>a \<in> {} \<union> set acks. honoured rs a"
    and "\<forall>g. Some w = Some g \<and> \<not> dw_poisoned g \<longrightarrow>
      torn = [] \<and> dw_replay g = ix \<and> protected_head.anchored B g bo'"
    by (rule protected_head.wal_invE [OF assms(3)])
  with live have w: "torn = []" "dw_replay w = ix" and an: "protected_head.anchored B w bo'" by blast+
  from f w have "f = log_bytes ls" by simp
  then show ?thesis by (rule that) (use lh w ack an in simp_all)
qed

text \<open>A retried PREPARE does nothing: on a log in use, a PREPARE whose idempotency scope was
  prepared before writes no byte and leaves the index as it is; it is answered with the stored
  outcome of the finished transaction of that scope if the intent is the same, and refused
  otherwise, without a panic.\<close>
theorem wal_retry_is_idempotent:
  assumes "serde_writer E" "parses_wal E parse" "protected_head B"
    and "wal_run E C B parse (None, [], bo) evs = ((Some w, f, bo'), acks)" "\<not> dw_poisoned w"
    and "wr_payload r0 = PreparePayload t" "ri_idempotency (dw_replay w) (scope_of t) = Some tid"
    and "wal_append E C B (w, f, bo') io r0 = ((w', f', bo''), res)"
  shows "f' = f \<and> dw_replay w' = dw_replay w \<and>
    (case res of
       Inr (TerminalReplay outcome) \<Rightarrow>
         (\<exists>x. ri_transactions (dw_replay w) tid = Some x \<and> rx_terminal x = Some outcome \<and>
            to_transaction_id outcome = tid \<and>
            tb_intent_digest (tx_binding (rx_transaction x)) = tb_intent_digest (tx_binding t))
     | Inr (Appended n phase d wit) \<Rightarrow> False
     | Inl e \<Rightarrow> (\<forall>msg. e \<noteq> Panic msg))"
proof -
  from live_handle [OF assms(1-5)] obtain ls rs where lh: "log_holds E C parse ls rs (dw_replay w)"
    and an: "protected_head.anchored B w bo'" by blast
  then have wl: "wal_log E C rs (dw_replay w)" by (simp add: log_holds_def)
  have blocked: "terminal_replay_of E (dw_replay w) r \<noteq> Inr None" if "wr_payload r = PreparePayload t" for r
    using that assms(7) by (auto simp: terminal_replay_of_def terminal_replay_for_prepare_def
        split: option.splits if_splits)
  have not_staged: "stage_record E C (dw_replay w) r0 \<noteq> Inr (Inr (r, ix'))" for r ix'
    using stage_record_staged(3,4) [of E C "dw_replay w" r0 r ix'] blocked assms(6) by metis
  show ?thesis
  proof (cases rule: protected_head.wal_append_cases [OF assms(3) an assms(5,8),
        consumes 0, case_names refused replayed uncertain appended])
    case (refused e)
    with stage_never_panics [OF wal_log_scopes [OF wl], of E C r0] show ?thesis by auto
  next
    case (replayed outcome)
    from replayed(5) obtain r t' where "terminal_replay_for_prepare (dw_replay w) r t' = Inr (Some outcome)"
      "wr_payload r0 = PreparePayload t'" by (rule stage_record_replay)
    with assms(6) have "terminal_replay_for_prepare (dw_replay w) r t = Inr (Some outcome)" by simp
    then obtain tid' x where "ri_idempotency (dw_replay w) (scope_of t) = Some tid'"
      and x: "ri_transactions (dw_replay w) tid' = Some x" "rx_terminal x = Some outcome"
        "tb_intent_digest (tx_binding (rx_transaction x)) = tb_intent_digest (tx_binding t)"
      by (rule terminal_replay_ok)
    with assms(7) have "tid' = tid" by simp
    with x terminal_in_log [OF wl x(1,2)] replayed show ?thesis by auto
  next
    case uncertain
    with not_staged show ?thesis by blast
  next
    case appended
    with not_staged show ?thesis by blast
  qed
qed

text \<open>C29: Reopening a log gives the state its handle had: over any sequence of appends, failed
  writes, failed syncs, crashes and reopenings, the file of a usable handle replays to exactly
  the index of the handle, with no torn tail, and the protected head names its last record.\<close>
theorem wal_recovery_exact:
  assumes "serde_writer E" "parses_wal E parse" "protected_head B"
    and "wal_run E C B parse (None, [], bo) evs = ((Some w, f, bo'), acks)" "\<not> dw_poisoned w"
  shows "\<exists>rep. replay_file E C parse f = Inr (dw_replay w, rep, length f) \<and>
      rp_truncated_tail_bytes rep = 0 \<and>
      (\<forall>b. bo' = Some b \<longrightarrow> read_latest B b AUTHORITY_WAL_HEAD_DOMAIN = Inr (Some (head_of (dw_replay w))))"
proof -
  from live_handle [OF assms] obtain ls rs where "f = log_bytes ls @ []"
    and lh: "log_holds E C parse ls rs (dw_replay w)" and an: "protected_head.anchored B w bo'"
    by (metis append_Nil2)
  then show ?thesis
    using replay_file_log [OF lh, of "[]"] an
    unfolding protected_head.anchored_def [OF assms(3)] protected_head.holds_head_def [OF assms(3)] by auto
qed

text \<open>C30: What was acknowledged is never lost: after any sequence of appends, torn writes, failed
  syncs, crashes and reopenings, whenever the file opens again, each transaction whose COMMIT was
  acknowledged is visible, and each whose ABORT was acknowledged is not.\<close>
theorem wal_acknowledged_survives:
  assumes "serde_writer E" "parses_wal E parse" "protected_head B"
    and "wal_run E C B parse (None, [], bo) evs = ((wo, f, bo'), acks)"
    and "wal_open E C B parse env f bo' = (f', bo'', Inr w)"
    and "(tid, Appended n phase d wit) \<in> set acks"
  shows "(phase = Commit \<longrightarrow> (\<exists>t. committed_transaction (dw_replay w) tid = Some t \<and> tb_transaction_id (tx_binding t) = tid)) \<and>
    (phase = Abort \<longrightarrow> committed_transaction (dw_replay w) tid = None)"
proof -
  have "protected_head.wal_inv B E C parse ({} \<union> set acks) (wo, f, bo')"
    using protected_head.wal_inv_run [OF assms(3,1,2) _ assms(4)] protected_head.wal_inv_init [OF assms(3)] by blast
  then obtain ls rs ix torn where f: "f = log_bytes ls @ torn" "newline \<notin> set torn"
    and lh: "log_holds E C parse ls rs ix" and ack: "\<forall>a \<in> {} \<union> set acks. honoured rs a"
    by (rule protected_head.wal_invE [OF assms(3)])
  from assms(3,5) obtain iy rep m where "replay_file E C parse f = Inr (iy, rep, m)" "dw_replay w = iy"
    by (cases rule: protected_head.wal_open_cases) auto
  with replay_file_log [OF lh f(2)] f(1) have ix: "dw_replay w = ix" by auto
  from ack assms(6) obtain r where r: "r \<in> set (tx_history tid rs)" "wr_phase r = phase"
    by (force simp: honoured_def tx_history_def)
  have lc: "lifecycle (tx_history tid rs) (ri_transactions ix tid)"
    using lh wal_log_lifecycle unfolding log_holds_def by blast
  then obtain x where x: "ri_transactions ix tid = Some x" using r by (cases "ri_transactions ix tid") auto
  have id: "wr_transaction_id q = tid" if "q \<in> set (tx_history tid rs)" for q
    using that by (simp add: tx_history_def)
  show ?thesis
    unfolding ix committed_transaction_def x
    using lc r x id by (cases "rx_phase x") (auto simp: opens_def)
qed

section \<open>Failed appends and replaced files\<close>

lemma opened_index:
  assumes "protected_head B" and "wal_open E C B parse env f bo = (f', bo', Inr w)"
  obtains rep n where "replay_file E C parse f = Inr (dw_replay w, rep, n)"
    "\<forall>b a. bo = Some b \<and> read_latest B b AUTHORITY_WAL_HEAD_DOMAIN = Inr (Some a) \<longrightarrow> a = head_of (dw_replay w)"
  using assms by (cases rule: protected_head.wal_open_cases) auto

lemma opened_log:
  assumes "protected_head B" and "wal_open E C B parse env (log_bytes ls @ torn) bo = (f', bo', Inr w)"
    and "newline \<notin> set torn" "log_holds E C parse ls rs ix"
  shows "dw_replay w = ix"
proof -
  from assms(1,2) obtain rep n where "replay_file E C parse (log_bytes ls @ torn) = Inr (dw_replay w, rep, n)"
    by (rule opened_index)
  with replay_file_log [OF assms(4,3)] show ?thesis by auto
qed

lemma head_of_next: "replay_record E C n r ix = Inr ix' \<Longrightarrow> head_of ix' \<noteq> head_of ix"
  by (auto simp: replay_record_ok head_of_def next_sequence_def apply_record_head)

text \<open>A failed append is not a maybe under a protected head: if an append on a log in use
  returned an error and the file opens again, the index is the one before the append.  Without a
  protected head it may instead be that index with exactly this record applied, never anything
  else.\<close>
theorem wal_failed_append_reopens:
  assumes "serde_writer E" "parses_wal E parse" "protected_head B"
    and "wal_run E C B parse (None, [], bo) evs = ((Some w, f, bo'), acks)" "\<not> dw_poisoned w"
    and "wal_append E C B (w, f, bo') io r0 = ((w', f', bo''), Inl e)"
    and "wal_open E C B parse env f' bo'' = (g, b, Inr u)"
  shows "dw_replay u = dw_replay w \<or>
    bo'' = None \<and> (\<exists>r. replay_record E C 0 r (dw_replay w) = Inr (dw_replay u) \<and> wr_payload r = wr_payload r0 \<and>
      wr_transaction_id r = wr_transaction_id r0)"
proof -
  from live_handle [OF assms(1-5)] obtain ls rs where f: "f = log_bytes ls"
    and lh: "log_holds E C parse ls rs (dw_replay w)" and an: "protected_head.anchored B w bo'" by blast
  show ?thesis
  proof (cases rule: protected_head.wal_append_cases [OF assms(3) an assms(5,6),
        consumes 0, case_names refused replayed uncertain appended])
    case (refused d)
    have "dw_replay u = dw_replay w"
      by (rule opened_log [OF assms(3) _ _ lh, of env "[]"]) (use assms(7) refused f in simp_all)
    then show ?thesis ..
  next
    case (uncertain d r ix' k)
    let ?l = "wal_line E r"
    show ?thesis
    proof (cases "k \<le> length ?l")
      case True
      have "newline \<notin> set (take k ?l)" using wal_line_good [OF assms(1)] by (meson in_set_takeD)
      moreover have "f' = log_bytes ls @ take k ?l" using True uncertain(3) f by (simp add: take_frame)
      ultimately have "dw_replay u = dw_replay w" using opened_log [OF assms(3) _ _ lh] assms(7) by blast
      then show ?thesis ..
    next
      case False
      then have f': "f' = log_bytes (ls @ [?l]) @ []" using uncertain(3) f by (simp add: take_frame frame_def)
      have u: "dw_replay u = ix'"
        by (rule opened_log [OF assms(3) _ _ staged_log [OF assms(1,2) lh uncertain(2)], of env "[]"])
          (use assms(7) f' in simp_all)
      note st = stage_record_staged [OF uncertain(2)]
      have "bo'' = None"
      proof (rule ccontr)
        assume "bo'' \<noteq> None"
        then obtain c where c: "bo'' = Some c" by blast
        with uncertain(5) have "read_latest B c AUTHORITY_WAL_HEAD_DOMAIN = Inr (Some (head_of (dw_replay w)))"
          by (simp add: protected_head.holds_head_def [OF assms(3)])
        moreover from assms(3,7) have "\<forall>b a. bo'' = Some b \<and>
            read_latest B b AUTHORITY_WAL_HEAD_DOMAIN = Inr (Some a) \<longrightarrow> a = head_of (dw_replay u)"
          by (rule opened_index)
        ultimately have "head_of (dw_replay w) = head_of ix'" using c u by blast
        with head_of_next [OF st(1)] show False by simp
      qed
      with st u show ?thesis by blast
    qed
  qed simp_all
qed

lemma log_holds_length: "log_holds E C parse ls rs ix \<Longrightarrow> length rs \<le> length (log_bytes ls)"
proof -
  assume "log_holds E C parse ls rs ix"
  then have "length rs = length ls" unfolding log_holds_def by (metis length_map)
  moreover have "length ls \<le> length (log_bytes ls)" by (induction ls) (auto simp: log_bytes_def)
  ultimately show ?thesis by simp
qed

text \<open>C31: The protected head pins the whole history: whatever two files open under the same
  protected head hold the same records up to their signatures and give the same index, or two
  records with a hash collision are exhibited.  So an older, shorter or edited log is refused.\<close>
theorem wal_head_pins_history:
  assumes "serde_writer E" "protected_head B" "read_latest B b AUTHORITY_WAL_HEAD_DOMAIN = Inr (Some a)"
    and "wal_open E C B parse env f (Some b) = (f', bo', Inr w)"
    and "wal_open E C B parse env' g (Some b) = (g', bo'', Inr u)"
    and "length f < 2 ^ 64" "length g < 2 ^ 64"
  shows "\<exists>ls rs ms ss. log_holds E C parse ls rs (dw_replay w) \<and> log_holds E C parse ms ss (dw_replay u) \<and>
    (map unsigned rs = map unsigned ss \<and> dw_replay w = dw_replay u \<or> record_collision E rs ss)"
proof -
  have opened: "\<exists>ls rs. log_holds E C parse ls rs (dw_replay v) \<and> length rs < 2 ^ 64 \<and> a = head_of (dw_replay v)"
    if op: "wal_open E C B parse en h (Some b) = (h', bo1, Inr v)" and len: "length h < 2 ^ 64" for en h h' bo1 v
  proof -
    from assms(2) op obtain rep n where rf: "replay_file E C parse h = Inr (dw_replay v, rep, n)"
      and hd: "\<forall>b' a. Some b = Some b' \<and> read_latest B b' AUTHORITY_WAL_HEAD_DOMAIN = Inr (Some a) \<longrightarrow>
        a = head_of (dw_replay v)"
      by (rule opened_index)
    from rf obtain ls rs torn where h: "h = log_bytes ls @ torn" and lh: "log_holds E C parse ls rs (dw_replay v)"
      by (rule replay_file_inv)
    from log_holds_length [OF lh] h len have "length rs < 2 ^ 64" by simp
    with lh hd assms(3) show ?thesis by blast
  qed
  from opened [OF assms(4,6)] obtain ls rs where r: "log_holds E C parse ls rs (dw_replay w)"
    "length rs < 2 ^ 64" "a = head_of (dw_replay w)" by blast
  from opened [OF assms(5,7)] obtain ms ss where s: "log_holds E C parse ms ss (dw_replay u)"
    "length ss < 2 ^ 64" "a = head_of (dw_replay u)" by blast
  from r(3) s(3) have hd: "ri_record_count (dw_replay w) = ri_record_count (dw_replay u)"
    "ri_last_record_digest (dw_replay w) = ri_last_record_digest (dw_replay u)"
    by (simp_all add: head_of_def)
  have wl: "wal_log E C rs (dw_replay w)" "wal_log E C ss (dw_replay u)"
    using r(1) s(1) by (simp_all add: log_holds_def)
  have "(of_nat (length rs) :: u64) = of_nat (length ss)"
    using hd(1) wal_log_head [OF wl(1)] wal_log_head [OF wl(2)] by simp
  then have "unat (of_nat (length rs) :: u64) = unat (of_nat (length ss) :: u64)" by simp
  with r(2) s(2) have "length rs = length ss" by (simp add: unat_of_nat take_bit_eq_mod)
  from chain_pins [OF assms(1) this wl hd(2)] r(1) s(1) show ?thesis by blast
qed

end
