(* ===== verification/Durable_Wal_Progress.thy ===== *)
theory Durable_Wal_Progress
  imports Durable_Wal_Properties
begin

text \<open>
  Progress of the durable WAL: a draft of a valid transaction is signed, verified and
  accepted by every validator, so a transaction can be prepared and, while it is in flight,
  be closed at any time.  The concrete runs that the witnesses of the WAL need are here too.
\<close>

section \<open>A draft is accepted\<close>

definition working_crypto :: "record_crypto \<Rightarrow> bool" where
  "working_crypto C \<longleftrightarrow> rk_assurance C \<noteq> UnavailableFailClosed \<and> rk_issuer C \<noteq> [] \<and> rk_key_id C \<noteq> [] \<and>
     rk_algorithm C \<noteq> [] \<and> (\<forall>m. \<exists>sg. rk_sign C m = Inr sg \<and> sg \<noteq> [] \<and> rk_verify C m sg = Inr ())"

lemma software_crypto_works:
  assumes "sha256_width E"
  shows "working_crypto (software_crypto E secret)"
proof -
  have "software_signature E secret m \<noteq> []" for m
  proof -
    have "length (software_signature E secret m) = 64"
      using assms by (simp add: software_signature_def sha256_width_def)
    then show ?thesis by auto
  qed
  then show ?thesis by (simp add: working_crypto_def software_crypto_def)
qed

lemma owned_record_signer:
  "wr_issuer (owned_record E C ix r) = rk_issuer C" "wr_key_id (owned_record E C ix r) = rk_key_id C"
  "wr_algorithm (owned_record E C ix r) = rk_algorithm C"
  by (simp_all add: owned_record_def assign_chain_and_seal_def Let_def)

lemma payload_digest_ignores:
  "compute_payload_digest E (r\<lparr>wr_payload_digest := d\<rparr>) = compute_payload_digest E r"
  "compute_payload_digest E (r\<lparr>wr_record_digest := d\<rparr>) = compute_payload_digest E r"
  "compute_payload_digest E (r\<lparr>wr_signature := d\<rparr>) = compute_payload_digest E r"
  by (simp_all add: compute_payload_digest_def)

lemma record_digest_ignores_signature:
  "compute_wal_record_digest E (r\<lparr>wr_signature := sg\<rparr>) = compute_wal_record_digest E r"
  by (simp add: compute_wal_record_digest_def sealed_material_def json_of_wal_record_def)

lemma owned_record_sealed:
  "wr_payload_digest (owned_record E C ix r) = compute_payload_digest E (owned_record E C ix r)"
  "wr_record_digest (owned_record E C ix r) = compute_wal_record_digest E (owned_record E C ix r)"
  unfolding owned_record_def assign_chain_and_seal_def Let_def
  by (simp add: compute_payload_digest_def, simp add: record_seal.compute_put)

lemma compute_payload_digest_syntax: "sha256_width E \<Longrightarrow> digest_syntax (compute_payload_digest E r)"
  unfolding compute_payload_digest_def by (rule digest_canonical_syntax)

definition good_tail :: "replay_index \<Rightarrow> bool" where
  "good_tail ix \<longleftrightarrow> next_sequence ix \<noteq> 0 \<and>
     (\<forall>d. ri_last_record_digest ix = Some d \<longrightarrow> digest_syntax d)"

text \<open>The fields of the signed draft that its validators look at.\<close>

lemma owned_draft_fields:
  fixes E C ix t payload at issuer key_id algorithm signature
  defines "r \<equiv> owned_record E C ix (draft_record t payload at issuer key_id algorithm signature)"
  shows "wr_schema r = AUTHORITY_WAL_RECORD_SCHEMA" "wr_phase r = payload_phase payload"
    "wr_transaction_id r = tb_transaction_id (tx_binding t)" "wr_idempotency_key r = tb_idempotency_key (tx_binding t)"
    "wr_intent_core_ref r = tb_intent_core_ref (tx_binding t)" "wr_intent_digest r = tb_intent_digest (tx_binding t)"
    "wr_expected_head_id r = tb_expected_head_id (tx_binding t)"
    "wr_expected_constitution_epoch r = tb_expected_constitution_epoch (tx_binding t)"
    "wr_expected_autonomy_epoch r = tb_expected_autonomy_epoch (tx_binding t)"
    "wr_expected_store_epoch r = tb_expected_store_epoch (tx_binding t)"
    "wr_transaction_digest r = tx_digest t"
    "wr_authorization_snapshot_digest r = tb_authorization_snapshot_digest (tx_binding t)"
    "wr_payload r = payload" "wr_recorded_at r = at"
  unfolding r_def by (simp_all add: owned_record_def assign_chain_and_seal_def draft_record_def Let_def)

lemma validate_binding_parts:
  assumes "validate_binding b = Inr ()"
  shows "tb_transaction_id b \<noteq> []" "tb_idempotency_key b \<noteq> []" "tb_intent_core_ref b \<noteq> []"
    "tb_expected_head_id b \<noteq> Some []" "digest_syntax (tb_intent_digest b)"
    "digest_syntax (tb_authorization_snapshot_digest b)" "tb_issued_at b < tb_expires_at b"
  using assms by (auto simp: validate_binding_def)

lemma signed_draft:
  assumes E: "sha256_width E" and C: "working_crypto C" and ix: "good_tail ix"
    and t: "validate_transaction E t = Inr v"
    and p: "validate_payload_shape E payload at = Inr ()" "payload_binding payload t = Inr ()"
  obtains r w where "sign_wal_record E C ix (draft_record t payload at iss kid alg sg0) = Inr r"
    "verify_record_crypto E C r = Inr ()" "validate_against_transaction E r t = Inr w"
    "wr_payload r = payload" "wr_transaction_id r = tb_transaction_id (tx_binding t)"
    "wr_phase r = payload_phase payload"
proof -
  define q where "q = owned_record E C ix (draft_record t payload at iss kid alg sg0)"
  note of = owned_draft_fields [where E = E and C = C and ix = ix, of t payload at iss kid alg sg0, folded q_def]
  from C obtain sg where sg: "rk_sign C (canonical_signature_message E q) = Inr sg" "sg \<noteq> []"
    "rk_verify C (canonical_signature_message E q) sg = Inr ()" by (auto simp: working_crypto_def)
  let ?r = "q\<lparr>wr_signature := sg\<rparr>"
  have sign: "sign_wal_record E C ix (draft_record t payload at iss kid alg sg0) = Inr ?r"
    using sg by (simp add: sign_wal_record_def Let_def flip: q_def)
  have os: "wr_sequence q = next_sequence ix" "wr_previous_record_digest q = ri_last_record_digest ix"
    "wr_issuer q = rk_issuer C" "wr_key_id q = rk_key_id C" "wr_algorithm q = rk_algorithm C"
    by (simp_all add: q_def owned_record_signer)
  have verify: "verify_record_crypto E C ?r = Inr ()"
    using C sg os by (simp add: verify_record_crypto_def working_crypto_def)
  have dg: "compute_payload_digest E ?r = wr_payload_digest ?r" "compute_wal_record_digest E ?r = wr_record_digest ?r"
    using owned_record_sealed by (simp_all add: q_def payload_digest_ignores record_digest_ignores_signature)
  have syn: "digest_syntax (wr_payload_digest ?r)" "digest_syntax (wr_record_digest ?r)"
    using compute_payload_digest_syntax [OF E, of ?r] record_seal.compute_syntax [OF E, of ?r] dg by simp_all
  have tx: "validate_binding (tx_binding t) = Inr ()" "digest_syntax (tx_digest t)"
    using validate_transaction_parts(1,3) [OF t] transaction_seal.compute_syntax [OF E, of t] by simp_all
  note b = validate_binding_parts [OF tx(1)]
  obtain x where valid: "validate_wal_record E ?r = Inr x"
    using C ix sg(2) p(1) syn dg tx(2) b os of
    by (auto simp: validate_wal_record_def Let_def working_crypto_def good_tail_def)
  have "validate_against_transaction E ?r t = Inr x"
    using valid t p(2) by (simp add: validate_against_transaction_def Let_def of)
  with that [OF sign verify] show ?thesis by (simp add: of)
qed

section \<open>Transactions in flight can be closed\<close>

lemma wal_log_transaction_valid:
  assumes wl: "wal_log E C rs ix" and x: "ri_transactions ix tid = Some x"
  shows "\<exists>v. validate_transaction E (rx_transaction x) = Inr v" "tb_transaction_id (tx_binding (rx_transaction x)) = tid"
proof -
  from wal_log_lifecycle [OF wl, of tid] x obtain p where p: "opens p (rx_transaction x)" "p \<in> set (tx_history tid rs)"
    by (cases "rx_phase x") auto
  then have "p \<in> set rs" "wr_transaction_id p = tid" by (simp_all add: tx_history_def)
  with p(1) show "tb_transaction_id (tx_binding (rx_transaction x)) = tid" by (simp add: opens_def)
  from wal_log_valid [OF wl \<open>p \<in> set rs\<close>] obtain v where "validate_wal_record E p = Inr v" ..
  from validate_wal_record_parts(4) [OF this] p(1) show "\<exists>v. validate_transaction E (rx_transaction x) = Inr v"
    by (simp add: opens_def)
qed

lemma wal_log_good_tail:
  assumes "wal_log E C rs ix" and "next_sequence ix \<noteq> 0"
  shows "good_tail ix"
proof -
  have "digest_syntax d" if d: "ri_last_record_digest ix = Some d" for d
  proof -
    from d wal_log_head [OF assms(1)] have "rs \<noteq> []" "d = wr_record_digest (last rs)" by (auto split: if_splits)
    moreover from this wal_log_valid [OF assms(1), of "last rs"] obtain v where
      "validate_wal_record E (last rs) = Inr v" by auto
    ultimately show ?thesis using validate_wal_record_parts(6) by blast
  qed
  with assms(2) show ?thesis by (simp add: good_tail_def)
qed

lemma stage_recordI:
  assumes "rk_assurance C \<noteq> UnavailableFailClosed" "sign_wal_record E C ix r0 = Inr r"
    "verify_record_crypto E C r = Inr ()" "validate_against_transaction E r t = Inr v"
    "terminal_replay_of E ix r = Inr None" "apply_record E ix r = Inr ix'"
  shows "stage_record E C ix r0 = Inr (Inr (r, ix'))"
  using assms validate_against_parts(1) [OF assms(4)] by (simp add: stage_record_def)

lemma abort_staged:
  assumes "sha256_width E" "working_crypto C" and wl: "wal_log E C rs ix" and ix: "next_sequence ix \<noteq> 0"
    and x: "ri_transactions ix tid = Some x" "rx_phase x \<in> {Prepare, Provisional}"
    and a: "digest_syntax (wb_reason_digest a)" "digest_syntax (wb_terminal_outcome_digest a)" "wb_aborted_at a \<le> at"
  obtains r ix' where "stage_record E C ix (draft_record (rx_transaction x) (AbortPayload a) at iss kid alg sg) = Inr (Inr (r, ix'))"
    "wr_phase r = Abort" "wr_transaction_id r = tid"
    "ri_transactions ix' tid = Some (x\<lparr>rx_phase := Abort, rx_terminal := Some (abort_outcome r a)\<rparr>)"
proof -
  from wal_log_transaction_valid [OF wl x(1)] obtain v where v: "validate_transaction E (rx_transaction x) = Inr v"
    and id: "tb_transaction_id (tx_binding (rx_transaction x)) = tid" by blast
  have "validate_payload_shape E (AbortPayload a) at = Inr ()" "payload_binding (AbortPayload a) (rx_transaction x) = Inr ()"
    using a by simp_all
  from signed_draft [OF assms(1,2) wal_log_good_tail [OF wl ix] v this] obtain r w where
    r: "sign_wal_record E C ix (draft_record (rx_transaction x) (AbortPayload a) at iss kid alg sg) = Inr r"
      "verify_record_crypto E C r = Inr ()" "validate_against_transaction E r (rx_transaction x) = Inr w"
      "wr_payload r = AbortPayload a" "wr_transaction_id r = tid" "wr_phase r = Abort"
    by (metis id payload_phase.simps(4))
  define ix' where "ix' = (put_transaction ix tid (x\<lparr>rx_phase := Abort, rx_terminal := Some (abort_outcome r a)\<rparr>))
      \<lparr>ri_record_count := wr_sequence r, ri_last_record_digest := Some (wr_record_digest r)\<rparr>"
  have "apply_record E ix r = Inr ix'"
    using r x by (simp add: apply_record_def apply_payload_def apply_abort_def ix'_def)
  moreover have "terminal_replay_of E ix r = Inr None" using r(4) by (simp add: terminal_replay_of_def)
  ultimately have "stage_record E C ix (draft_record (rx_transaction x) (AbortPayload a) at iss kid alg sg) = Inr (Inr (r, ix'))"
    using assms(2) r by (intro stage_recordI) (auto simp: working_crypto_def)
  then show ?thesis using that r by (simp add: ix'_def)
qed

text \<open>With working I/O and the software backend every staged record is appended.\<close>

definition io_ok :: wal_io where "io_ok = \<lparr>wi_write_failed = None, wi_sync_failed = None\<rparr>"

lemma read_software: "read_latest software_backend st d = Inr (st d)"
  by (simp add: software_backend_def)

lemma software_advance:
  assumes "st AUTHORITY_WAL_HEAD_DOMAIN = Some p" "hs_record_sequence p + 1 = n" "n \<noteq> 0"
  shows "advance_protected_head software_backend st AUTHORITY_WAL_HEAD_DOMAIN p n d
    = (st(AUTHORITY_WAL_HEAD_DOMAIN \<mapsto> observed AUTHORITY_WAL_HEAD_DOMAIN n (Some d)),
       Inr (observed AUTHORITY_WAL_HEAD_DOMAIN n (Some d)))"
proof -
  have "saturating_add (hs_record_sequence p) 1 = n" using assms(2,3) saturating_add_succ by metis
  then show ?thesis
    using assms(1) by (simp add: advance_protected_head_def software_backend_def
        software_compare_and_advance_def observed_def Let_def)
qed

lemma software_head_advance:
  assumes an: "software_head.anchored w bo" and seq: "wr_sequence r = next_sequence (dw_replay w)"
    "next_sequence (dw_replay w) \<noteq> 0"
  shows "\<exists>w' bo'. head_advance software_backend w bo r = (w', bo', Inr ())"
proof (cases bo)
  case None
  then show ?thesis by (simp add: head_advance_def)
next
  case (Some st)
  let ?h = "head_of (dw_replay w)"
  from an Some have "st AUTHORITY_WAL_HEAD_DOMAIN = Some ?h" and p: "dw_protected_head w = Some ?h"
    by (auto simp: software_head.anchored_def software_head.holds_head_def read_software)
  with software_advance [of st ?h "wr_sequence r" "wr_record_digest r"] seq
  have "snd (advance_protected_head software_backend st AUTHORITY_WAL_HEAD_DOMAIN ?h (wr_sequence r) (wr_record_digest r))
      = Inr (observed AUTHORITY_WAL_HEAD_DOMAIN (wr_sequence r) (Some (wr_record_digest r)))"
    by (simp add: head_of_def observed_def next_sequence_def)
  then show ?thesis using Some p by (auto simp: head_advance_def split: prod.splits)
qed

lemma append_staged:
  assumes an: "software_head.anchored w bo" and live: "\<not> dw_poisoned w"
    and st: "stage_record E C (dw_replay w) r0 = Inr (Inr (r, ix'))" and seq: "next_sequence (dw_replay w) \<noteq> 0"
  obtains w' f' bo' where "wal_append E C software_backend (w, f, bo) io_ok r0 = ((w', f', bo'),
      Inr (Appended (wr_sequence r) (wr_phase r) (wr_record_digest r) (commit_witness_of ix' (wr_transaction_id r))))"
    "\<not> dw_poisoned w'" "dw_replay w' = ix'" "f' = f @ frame (wal_line E r)" "software_head.anchored w' bo'"
proof -
  obtain w' f' bo' res where app: "wal_append E C software_backend (w, f, bo) io_ok r0 = ((w', f', bo'), res)"
    by (metis prod.exhaust)
  have sq: "wr_sequence r = next_sequence (dw_replay w)"
    using stage_record_staged(1) [OF st] by (simp add: replay_record_ok)
  from software_head.head_check_anchored [OF an] obtain b1 where
    hc: "head_check software_backend w bo = (w, b1, Inr ())" and a1: "software_head.anchored w b1" by blast
  from software_head_advance [OF a1 sq seq] obtain w2 b2 where
    "head_advance software_backend w b1 r = (w2, b2, Inr ())" by blast
  with app live st hc have "\<exists>out. res = Inr out"
    by (auto simp: wal_append_def wal_write_def io_ok_def)
  then obtain out where "res = Inr out" ..
  from an live app show ?thesis
  proof (cases rule: software_head.wal_append_cases)
    case (appended r' iy)
    with st have "r' = r" "iy = ix'" by simp_all
    with appended app that show ?thesis by simp
  qed (use st \<open>res = Inr out\<close> in simp_all)
qed

text \<open>C32: A transaction in flight never blocks its scope for good: on a log in use, at any time,
  expired or not, an ABORT of a prepared or provisional transaction is appended and
  acknowledged by working I/O, and the transaction then has a terminal outcome.\<close>
theorem wal_in_flight_can_be_closed:
  assumes "serde_writer E" "sha256_width E" "parses_wal E parse" "working_crypto C"
    and "wal_run E C software_backend parse (None, [], bo) evs = ((Some w, f, bo'), acks)" "\<not> dw_poisoned w"
    and "ri_transactions (dw_replay w) tid = Some x" "rx_phase x = Prepare \<or> rx_phase x = Provisional"
    and "digest_syntax (wb_reason_digest a)" "digest_syntax (wb_terminal_outcome_digest a)"
    and "wb_aborted_at a \<le> recorded_at" "next_sequence (dw_replay w) \<noteq> 0"
  shows "\<exists>w' f' bo'' d. wal_append E C software_backend (w, f, bo') io_ok
        (draft_record (rx_transaction x) (AbortPayload a) recorded_at iss kid alg sg)
      = ((w', f', bo''), Inr (Appended (next_sequence (dw_replay w)) Abort d None)) \<and>
    \<not> dw_poisoned w' \<and> map_option to_phase (terminal_outcome_of w' tid) = Some Abort"
proof -
  have ph: "protected_head software_backend" by (rule software_head.protected_head_axioms)
  from live_handle [OF assms(1,3) ph assms(5,6)] obtain ls rs where
    lh: "log_holds E C parse ls rs (dw_replay w)" and an: "software_head.anchored w bo'" by blast
  then have wl: "wal_log E C rs (dw_replay w)" by (simp add: log_holds_def)
  from abort_staged [OF assms(2,4) wl assms(12,7) _ assms(9-11)] assms(8) obtain r ix' where
    st: "stage_record E C (dw_replay w) (draft_record (rx_transaction x) (AbortPayload a) recorded_at iss kid alg sg)
        = Inr (Inr (r, ix'))" and r: "wr_phase r = Abort" "wr_transaction_id r = tid"
      "ri_transactions ix' tid = Some (x\<lparr>rx_phase := Abort, rx_terminal := Some (abort_outcome r a)\<rparr>)"
    by blast
  have sq: "wr_sequence r = next_sequence (dw_replay w)"
    using stage_record_staged(1) [OF st] by (simp add: replay_record_ok)
  have "commit_witness_of ix' tid = None" using r(3) by (simp add: commit_witness_of_def abort_outcome_def)
  with append_staged [OF an assms(6) st assms(12), of f] r sq obtain w' f' bo'' where
    "wal_append E C software_backend (w, f, bo') io_ok
        (draft_record (rx_transaction x) (AbortPayload a) recorded_at iss kid alg sg)
      = ((w', f', bo''), Inr (Appended (next_sequence (dw_replay w)) Abort (wr_record_digest r) None))"
    "\<not> dw_poisoned w'" "dw_replay w' = ix'" by metis
  moreover from this(3) r(3) have "map_option to_phase (terminal_outcome_of w' tid) = Some Abort"
    by (simp add: terminal_outcome_of_def abort_outcome_def)
  ultimately show ?thesis by blast
qed

end
