(* ===== verification/Durable_Wal_Witnesses.thy ===== *)
theory Durable_Wal_Witnesses
  imports Durable_Wal_Progress
begin

text \<open>
  A concrete life of the durable WAL on the reference platform with the software signer and
  the software head of the source: a file is opened, a transaction prepared, made
  provisional and committed.  The witnesses apply each property of the WAL to it.
\<close>

section \<open>A parser\<close>

definition inverse_parse_wal :: "platform \<Rightarrow> bytes \<Rightarrow> string + wal_record" where
  "inverse_parse_wal E b =
     (if b \<in> range (wal_line E) then Ok (inv (wal_line E) b) else Err ''not a record'')"

lemma parses_wal_inverse:
  assumes "serde_writer E"
  shows "parses_wal E (inverse_parse_wal E)"
proof -
  have "inj (wal_line E)"
  proof (rule injI)
    fix r s assume "wal_line E r = wal_line E s"
    then have "write_plain E (json_of_wal_record r) @ [] = write_plain E (json_of_wal_record s) @ []"
      by (simp add: wal_line_def)
    with assms have "json_of_wal_record r = json_of_wal_record s" using write_plain_unique delim_simps(1) by blast
    then show "r = s" by (intro json_of_wal_record_canon) simp
  qed
  then show ?thesis by (simp add: parses_wal_def inverse_parse_wal_def inv_f_f)
qed

section \<open>Runs\<close>

lemma wal_run_append:
  "wal_run E C B parse s (evs @ evs') =
     (let (s', as) = wal_run E C B parse s evs; (s'', as') = wal_run E C B parse s' evs' in (s'', as @ as'))"
  by (induction evs arbitrary: s) (simp_all add: Let_def split_beta)

lemma run_extended:
  assumes "wal_run E C software_backend parse s evs = ((Some w, f, bo), acks)" "\<not> dw_poisoned w"
    "software_head.anchored w bo" "next_sequence (dw_replay w) \<noteq> 0"
    and "stage_record E C (dw_replay w) r0 = Inr (Inr (r, ix'))"
  obtains w' f' bo' wit where "wal_run E C software_backend parse s (evs @ [WAppend io_ok r0])
      = ((Some w', f', bo'), acks @ [(wr_transaction_id r0, Appended (wr_sequence r) (wr_phase r) (wr_record_digest r) wit)])"
    "\<not> dw_poisoned w'" "dw_replay w' = ix'" "software_head.anchored w' bo'"
proof -
  from append_staged [OF assms(3,2,5,4), of f] obtain w' f' bo' where
    "wal_append E C software_backend (w, f, bo) io_ok r0 = ((w', f', bo'),
      Inr (Appended (wr_sequence r) (wr_phase r) (wr_record_digest r) (commit_witness_of ix' (wr_transaction_id r))))"
    "\<not> dw_poisoned w'" "dw_replay w' = ix'" "software_head.anchored w' bo'" by blast
  with that assms(1) show ?thesis by (simp add: wal_run_append)
qed

text \<open>The three records of a commit are staged one after the other.\<close>

lemma prepare_staged:
  assumes "sha256_width E" "working_crypto C" "good_tail ix" "validate_transaction E t = Inr v"
    and "ri_transactions ix (tb_transaction_id (tx_binding t)) = None" "ri_idempotency ix (scope_of t) = None"
  obtains r ix' where "stage_record E C ix (draft_record t (PreparePayload t) at iss kid alg sg) = Inr (Inr (r, ix'))"
    "wr_phase r = Prepare" "ri_idempotency ix' (scope_of t) = Some (tb_transaction_id (tx_binding t))"
    "ri_transactions ix' (tb_transaction_id (tx_binding t)) = Some \<lparr>rx_transaction = t, rx_phase = Prepare, rx_terminal = None\<rparr>"
    "ri_record_count ix' = next_sequence ix"
proof -
  have "validate_payload_shape E (PreparePayload t) at = Inr ()" "payload_binding (PreparePayload t) t = Inr ()"
    using assms(4) by simp_all
  from signed_draft [OF assms(1-4) this] obtain r w where
    r: "sign_wal_record E C ix (draft_record t (PreparePayload t) at iss kid alg sg) = Inr r"
      "verify_record_crypto E C r = Inr ()" "validate_against_transaction E r t = Inr w"
      "wr_payload r = PreparePayload t" "wr_transaction_id r = tb_transaction_id (tx_binding t)" "wr_phase r = Prepare"
    by (metis payload_phase.simps(1))
  have tr: "terminal_replay_of E ix r = Inr None"
    using r assms(5,6) by (simp add: terminal_replay_of_def terminal_replay_for_prepare_def domIff)
  obtain ix' where ap: "apply_record E ix r = Inr ix'"
    using r assms(5,6) by (simp add: apply_record_def apply_payload_def apply_prepare_def domIff)
  from stage_recordI [OF _ r(1-3) tr ap] assms(2)
  have st: "stage_record E C ix (draft_record t (PreparePayload t) at iss kid alg sg) = Inr (Inr (r, ix'))"
    by (simp add: working_crypto_def)
  from ap r(4,5) assms(5,6) have "ri_idempotency ix' (scope_of t) = Some (tb_transaction_id (tx_binding t))"
    "ri_transactions ix' (tb_transaction_id (tx_binding t)) = Some \<lparr>rx_transaction = t, rx_phase = Prepare, rx_terminal = None\<rparr>"
    by (cases rule: apply_record_cases; simp)+
  moreover have "ri_record_count ix' = next_sequence ix"
    using apply_record_head(1) [OF ap] sign_wal_record_fields(1) [OF r(1)] by simp
  ultimately show ?thesis using that st r(6) by blast
qed

lemma provisional_staged:
  assumes "sha256_width E" "working_crypto C" "good_tail ix" "validate_transaction E (rx_transaction x) = Inr v"
    and "tb_transaction_id (tx_binding (rx_transaction x)) = tid"
    and "ri_transactions ix tid = Some x" "rx_phase x = Prepare" "digest_syntax d"
  obtains r ix' where "stage_record E C ix (draft_record (rx_transaction x) (ProvisionalPayload d) at iss kid alg sg) = Inr (Inr (r, ix'))"
    "wr_phase r = Provisional" "ri_transactions ix' tid = Some (x\<lparr>rx_phase := Provisional\<rparr>)"
    "ri_record_count ix' = next_sequence ix"
proof -
  have "validate_payload_shape E (ProvisionalPayload d) at = Inr ()" "payload_binding (ProvisionalPayload d) (rx_transaction x) = Inr ()"
    using assms(8) by simp_all
  from signed_draft [OF assms(1-4) this] obtain r w where
    r: "sign_wal_record E C ix (draft_record (rx_transaction x) (ProvisionalPayload d) at iss kid alg sg) = Inr r"
      "verify_record_crypto E C r = Inr ()" "validate_against_transaction E r (rx_transaction x) = Inr w"
      "wr_payload r = ProvisionalPayload d" "wr_transaction_id r = tid" "wr_phase r = Provisional"
    by (metis payload_phase.simps(2) assms(5))
  have tr: "terminal_replay_of E ix r = Inr None" using r(4) by (simp add: terminal_replay_of_def)
  obtain ix' where ap: "apply_record E ix r = Inr ix'"
    using r assms(6,7) by (simp add: apply_record_def apply_payload_def advance_def)
  from stage_recordI [OF _ r(1-3) tr ap] assms(2)
  have st: "stage_record E C ix (draft_record (rx_transaction x) (ProvisionalPayload d) at iss kid alg sg) = Inr (Inr (r, ix'))"
    by (simp add: working_crypto_def)
  from ap r(4,5) assms(6) have "ri_transactions ix' tid = Some (x\<lparr>rx_phase := Provisional\<rparr>)"
    by (cases rule: apply_record_cases; simp)
  moreover have "ri_record_count ix' = next_sequence ix"
    using apply_record_head(1) [OF ap] sign_wal_record_fields(1) [OF r(1)] by simp
  ultimately show ?thesis using that st r(6) by blast
qed

lemma commit_staged:
  assumes "sha256_width E" "working_crypto C" "good_tail ix" "validate_transaction E (rx_transaction x) = Inr v"
    and "tb_transaction_id (tx_binding (rx_transaction x)) = tid"
    and "ri_transactions ix tid = Some x" "rx_phase x = Provisional"
    and "validate_payload_shape E (CommitPayload c) at = Inr ()" "payload_binding (CommitPayload c) (rx_transaction x) = Inr ()"
  obtains r ix' where "stage_record E C ix (draft_record (rx_transaction x) (CommitPayload c) at iss kid alg sg) = Inr (Inr (r, ix'))"
    "wr_phase r = Commit" "ri_record_count ix' = next_sequence ix"
    "committed_transaction ix' tid = Some (rx_transaction x)"
proof -
  from signed_draft [OF assms(1-4,8,9)] obtain r w where
    r: "sign_wal_record E C ix (draft_record (rx_transaction x) (CommitPayload c) at iss kid alg sg) = Inr r"
      "verify_record_crypto E C r = Inr ()" "validate_against_transaction E r (rx_transaction x) = Inr w"
      "wr_payload r = CommitPayload c" "wr_transaction_id r = tid" "wr_phase r = Commit"
    by (metis payload_phase.simps(3) assms(5))
  have tr: "terminal_replay_of E ix r = Inr None" using r(4) by (simp add: terminal_replay_of_def)
  obtain ix' where ap: "apply_record E ix r = Inr ix'"
    using r assms(6,7) by (simp add: apply_record_def apply_payload_def advance_def)
  from stage_recordI [OF _ r(1-3) tr ap] assms(2)
  have st: "stage_record E C ix (draft_record (rx_transaction x) (CommitPayload c) at iss kid alg sg) = Inr (Inr (r, ix'))"
    by (simp add: working_crypto_def)
  from ap r(4,5) assms(6) have "committed_transaction ix' tid = Some (rx_transaction x)"
    by (cases rule: apply_record_cases; simp add: committed_transaction_def)
  moreover have "ri_record_count ix' = next_sequence ix"
    using apply_record_head(1) [OF ap] sign_wal_record_fields(1) [OF r(1)] by simp
  ultimately show ?thesis using that st r(6) by blast
qed

section \<open>The sample life\<close>

definition open_ok :: wal_open_env where
  "open_ok = \<lparr>wo_failed = None, wo_set_len_failed = None, wo_sync_failed = None\<rparr>"

definition sample_crypto :: record_crypto where
  "sample_crypto = software_crypto reference_platform ''secret''"

definition sample_tx :: wal_transaction where
  "sample_tx = sample_positive_tx reference_platform ''sig''"

definition sample_prepare :: wal_record where
  "sample_prepare = draft_record sample_tx (PreparePayload sample_tx) 20 [] [] [] []"

definition sample_provisional :: wal_record where
  "sample_provisional = draft_record sample_tx (ProvisionalPayload hex64) 30 [] [] [] []"

definition sample_commit :: wal_record where
  "sample_commit = draft_record sample_tx (CommitPayload \<lparr>wc_committed_at = 40,
     wc_protected_time_evidence_digest = hex64, wc_authorization_snapshot_digest = hex64,
     wc_terminal_outcome_digest = hex64\<rparr>) 50 [] [] [] []"

abbreviation sample_parse :: "bytes \<Rightarrow> string + wal_record" where
  "sample_parse \<equiv> inverse_parse_wal reference_platform"

abbreviation sample_run :: "wal_event list \<Rightarrow> software_heads wal_system \<times> wal_ack list" where
  "sample_run \<equiv> wal_run reference_platform sample_crypto software_backend sample_parse (None, [], Some Map.empty)"

lemmas sample_hyps = serde_writer_reference parses_wal_inverse [OF serde_writer_reference]
  software_head.protected_head_axioms

lemma sample_crypto_works: "working_crypto sample_crypto"
  unfolding sample_crypto_def by (rule software_crypto_works [OF sha256_width_reference])

lemma sample_tx_binding: "tx_binding sample_tx = sample_binding HumanCapability"
  by (simp add: sample_tx_def sample_positive_tx_def seal_transaction_def sample_positive_def)

lemma sample_tx_id [simp]: "tb_transaction_id (tx_binding sample_tx) = ''t''"
  by (simp add: sample_tx_binding sample_binding_def)

lemma sample_tx_valid: "\<exists>v. validate_transaction reference_platform sample_tx = Inr v"
  unfolding sample_tx_def by (rule sample_positive_valid [OF sha256_width_reference]) simp

lemma good_tail_of_run:
  assumes "sample_run evs = ((Some w, f, bo), acks)" "\<not> dw_poisoned w" "next_sequence (dw_replay w) \<noteq> 0"
  shows "good_tail (dw_replay w)"
proof -
  from live_handle [OF sample_hyps assms(1,2)] obtain ls rs where
    "log_holds reference_platform sample_crypto sample_parse ls rs (dw_replay w)" by blast
  with assms(3) show ?thesis by (auto simp: log_holds_def intro: wal_log_good_tail)
qed

lemma sample_opened:
  obtains w st where "sample_run [WReopen open_ok] = ((Some w, [], Some st), [])" "\<not> dw_poisoned w"
    "dw_replay w = empty_index" "software_head.anchored w (Some st)"
proof -
  have rf: "replay_file reference_platform sample_crypto sample_parse []
      = Inr (empty_index, \<lparr>rp_record_count = 0, rp_recovered_torn_tail = False, rp_truncated_tail_bytes = 0\<rparr>, 0)"
    by (simp add: replay_file_def complete_len_def Let_def)
  obtain f' bo' res where op: "wal_open reference_platform sample_crypto software_backend sample_parse open_ok []
      (Some Map.empty) = (f', bo', res)" by (metis prod.exhaust)
  have "\<exists>st. bo' = Some st \<and> f' = [] \<and> res \<in> range Inr"
    using op rf by (auto simp: wal_open_def open_ok_def empty_index_def verify_or_initialize_protected_head_def
        software_backend_def software_compare_and_advance_def observed_def Let_def)
  then obtain st w where ok: "bo' = Some st" "f' = []" "res = Inr w" by blast
  from op [unfolded ok] have "dw_replay w = empty_index \<and> \<not> dw_poisoned w \<and> software_head.anchored w (Some st)"
    by (cases rule: software_head.wal_open_cases) (use rf in auto)
  with that [of w st] op ok show ?thesis by simp
qed

lemma sample_prepare_staged:
  obtains r ix' where "stage_record reference_platform sample_crypto empty_index sample_prepare = Inr (Inr (r, ix'))"
    "ri_idempotency ix' (scope_of sample_tx) = Some ''t''" "ri_record_count ix' = 1"
    "ri_transactions ix' ''t'' = Some \<lparr>rx_transaction = sample_tx, rx_phase = Prepare, rx_terminal = None\<rparr>"
proof -
  have seq: "next_sequence empty_index = 1" by (simp add: next_sequence_def empty_index_def)
  then have gt: "good_tail empty_index" by (simp add: good_tail_def empty_index_def)
  obtain v where v: "validate_transaction reference_platform sample_tx = Inr v" using sample_tx_valid by blast
  have free: "ri_transactions empty_index (tb_transaction_id (tx_binding sample_tx)) = None"
    "ri_idempotency empty_index (scope_of sample_tx) = None" by (simp_all add: empty_index_def)
  show ?thesis
    by (rule prepare_staged [OF sha256_width_reference sample_crypto_works gt v free, of 20 "[]" "[]" "[]" "[]"])
      (rule that, simp_all add: seq sample_prepare_def)
qed

lemma sample_prepared:
  obtains w f bo acks where "sample_run [WReopen open_ok, WAppend io_ok sample_prepare] = ((Some w, f, bo), acks)"
    "\<not> dw_poisoned w" "software_head.anchored w bo" "ri_record_count (dw_replay w) = 1"
    "ri_idempotency (dw_replay w) (scope_of sample_tx) = Some ''t''"
    "ri_transactions (dw_replay w) ''t'' = Some \<lparr>rx_transaction = sample_tx, rx_phase = Prepare, rx_terminal = None\<rparr>"
proof -
  obtain w st where run: "sample_run [WReopen open_ok] = ((Some w, [], Some st), [])" "\<not> dw_poisoned w"
    and ix: "dw_replay w = empty_index" and an: "software_head.anchored w (Some st)" by (rule sample_opened)
  obtain r ix' where r: "stage_record reference_platform sample_crypto empty_index sample_prepare = Inr (Inr (r, ix'))"
    "ri_idempotency ix' (scope_of sample_tx) = Some ''t''" "ri_record_count ix' = 1"
    "ri_transactions ix' ''t'' = Some \<lparr>rx_transaction = sample_tx, rx_phase = Prepare, rx_terminal = None\<rparr>"
    by (rule sample_prepare_staged)
  have "next_sequence (dw_replay w) \<noteq> 0" using ix by (simp add: next_sequence_def empty_index_def)
  then obtain w' f' bo' wit where
    "sample_run ([WReopen open_ok] @ [WAppend io_ok sample_prepare]) = ((Some w', f', bo'),
      [] @ [(wr_transaction_id sample_prepare, Appended (wr_sequence r) (wr_phase r) (wr_record_digest r) wit)])"
    "\<not> dw_poisoned w'" "dw_replay w' = ix'" "software_head.anchored w' bo'"
    by (rule run_extended [OF run an _ r(1) [folded ix]])
  with that [of w' f' bo'] r show ?thesis by (simp only: append_Cons append_Nil refl simp_thms)
qed

lemma sample_committed:
  obtains w f bo acks n d wit where
    "sample_run [WReopen open_ok, WAppend io_ok sample_prepare, WAppend io_ok sample_provisional,
        WAppend io_ok sample_commit] = ((Some w, f, bo), acks)"
    "\<not> dw_poisoned w" "software_head.anchored w bo" "(''t'', Appended n Commit d wit) \<in> set acks"
    "committed_transaction (dw_replay w) ''t'' = Some sample_tx"
proof -
  let ?x = "\<lparr>rx_transaction = sample_tx, rx_phase = Prepare, rx_terminal = None\<rparr>"
  obtain w f bo acks where run: "sample_run [WReopen open_ok, WAppend io_ok sample_prepare] = ((Some w, f, bo), acks)"
    "\<not> dw_poisoned w" and an: "software_head.anchored w bo" and c: "ri_record_count (dw_replay w) = 1"
    and x: "ri_transactions (dw_replay w) ''t'' = Some ?x" by (rule sample_prepared)
  have seq: "next_sequence (dw_replay w) = 2" by (simp add: next_sequence_def c)
  then have "next_sequence (dw_replay w) \<noteq> 0" by simp
  note gt = good_tail_of_run [OF run this]
  obtain v where v: "validate_transaction reference_platform sample_tx = Inr v" using sample_tx_valid by blast
  obtain r ix' where r: "stage_record reference_platform sample_crypto (dw_replay w) sample_provisional = Inr (Inr (r, ix'))"
    and ix': "ri_transactions ix' ''t'' = Some (?x\<lparr>rx_phase := Provisional\<rparr>)" "ri_record_count ix' = 2"
    by (rule provisional_staged [OF sha256_width_reference sample_crypto_works gt, of ?x v "''t''" hex64 30 "[]" "[]" "[]" "[]"])
      (simp_all add: v x seq sample_provisional_def)
  obtain w1 f1 bo1 acks1 where
    run1: "sample_run [WReopen open_ok, WAppend io_ok sample_prepare, WAppend io_ok sample_provisional]
      = ((Some w1, f1, bo1), acks1)" "\<not> dw_poisoned w1" and w1: "dw_replay w1 = ix'" "software_head.anchored w1 bo1"
    by (rule run_extended [OF run an \<open>next_sequence (dw_replay w) \<noteq> 0\<close> r, unfolded append_Cons append_Nil])
  have seq1: "next_sequence (dw_replay w1) \<noteq> 0" by (simp add: next_sequence_def w1 ix')
  note gt1 = good_tail_of_run [OF run1 seq1]
  let ?c = "\<lparr>wc_committed_at = 40, wc_protected_time_evidence_digest = hex64,
     wc_authorization_snapshot_digest = hex64, wc_terminal_outcome_digest = hex64\<rparr>"
  have shape: "validate_payload_shape reference_platform (CommitPayload ?c) 50 = Inr ()"
    "payload_binding (CommitPayload ?c) sample_tx = Inr ()"
    unfolding payload_binding_commit by (simp_all add: sample_tx_binding) (simp_all add: sample_binding_def)
  obtain q iy where q: "stage_record reference_platform sample_crypto (dw_replay w1) sample_commit = Inr (Inr (q, iy))"
    "wr_phase q = Commit" and visible: "committed_transaction iy ''t'' = Some sample_tx"
    by (rule commit_staged [OF sha256_width_reference sample_crypto_works gt1,
          of "?x\<lparr>rx_phase := Provisional\<rparr>" v "''t''" ?c 50 "[]" "[]" "[]" "[]"])
      (simp_all only: v shape ix' w1(1) sample_commit_def replay_transaction.simps sample_tx_id)
  obtain w2 f2 bo2 wit where
    run2: "sample_run [WReopen open_ok, WAppend io_ok sample_prepare, WAppend io_ok sample_provisional, WAppend io_ok sample_commit]
      = ((Some w2, f2, bo2), acks1 @ [(wr_transaction_id sample_commit, Appended (wr_sequence q) (wr_phase q) (wr_record_digest q) wit)])"
    "\<not> dw_poisoned w2" and w2: "dw_replay w2 = iy" "software_head.anchored w2 bo2"
    by (rule run_extended [OF run1 w1(2) seq1 q(1), unfolded append_Cons append_Nil])
  have "wr_transaction_id sample_commit = ''t''" by (simp add: sample_commit_def draft_record_def Let_def)
  with q(2) have "(''t'', Appended (wr_sequence q) Commit (wr_record_digest q) wit) \<in> set (acks1 @
      [(wr_transaction_id sample_commit, Appended (wr_sequence q) (wr_phase q) (wr_record_digest q) wit)])" by simp
  moreover have "committed_transaction (dw_replay w2) ''t'' = Some sample_tx" unfolding w2(1) by (rule visible)
  ultimately show ?thesis by (rule that [OF run2 w2(2)])
qed

section \<open>Witnesses\<close>

lemma sample_log:
  assumes "sample_run evs = ((Some w, f, bo), acks)" "\<not> dw_poisoned w"
  obtains ls rs rep where "f = log_bytes ls" "log_holds reference_platform sample_crypto sample_parse ls rs (dw_replay w)"
    "software_head.anchored w bo" "replay_file reference_platform sample_crypto sample_parse f = Inr (dw_replay w, rep, length f)"
proof -
  from live_handle [OF sample_hyps assms] obtain ls rs where f: "f = log_bytes ls"
    and lh: "log_holds reference_platform sample_crypto sample_parse ls rs (dw_replay w)"
    and an: "software_head.anchored w bo" by blast
  from replay_file_log [OF lh, of "[]"] f obtain rep where
    "replay_file reference_platform sample_crypto sample_parse f = Inr (dw_replay w, rep, length f)" by auto
  with that f lh an show ?thesis by blast
qed

lemma software_reopens:
  assumes "log_holds E C parse ls rs (dw_replay w)" "newline \<notin> set torn"
    and "software_head.holds_head bo (head_of (dw_replay w))"
  obtains f' bo' u where "wal_open E C software_backend parse open_ok (log_bytes ls @ torn) bo = (f', bo', Inr u)"
proof -
  from replay_file_log [OF assms(1,2)] obtain rep where
    rf: "replay_file E C parse (log_bytes ls @ torn) = Inr (dw_replay w, rep, length (log_bytes ls))" by blast
  have "\<exists>f' bo' u. wal_open E C software_backend parse open_ok (log_bytes ls @ torn) bo = (f', bo', Inr u)"
  proof (cases bo)
    case None
    with rf show ?thesis by (simp add: wal_open_def open_ok_def Let_def)
  next
    case (Some st)
    with assms(3) have "read_latest software_backend st AUTHORITY_WAL_HEAD_DOMAIN = Inr (Some (head_of (dw_replay w)))"
      by (simp add: software_head.holds_head_def)
    then have "verify_or_initialize_protected_head software_backend st AUTHORITY_WAL_HEAD_DOMAIN
        (ri_record_count (dw_replay w)) (ri_last_record_digest (dw_replay w)) = (st, Inr (head_of (dw_replay w)))"
      by (simp add: verify_or_initialize_protected_head_def head_of_def Let_def)
    with rf Some show ?thesis by (simp add: wal_open_def open_ok_def Let_def)
  qed
  with that show ?thesis by blast
qed

lemma wal_file_lifecycle_witness:
  "\<exists>f ls rs ix p v c k. take (length f) f = log_bytes ls \<and> log_holds reference_platform sample_crypto sample_parse ls rs ix \<and>
     committed_transaction ix ''t'' = Some sample_tx \<and> tx_history ''t'' rs = [p, v, c] \<and>
     map wr_phase [p, v, c] = [Prepare, Provisional, Commit] \<and> wr_payload p = PreparePayload sample_tx \<and>
     wr_payload c = CommitPayload k \<and> wc_committed_at k < tb_expires_at (tx_binding sample_tx)"
proof -
  obtain w f bo acks where run: "sample_run [WReopen open_ok, WAppend io_ok sample_prepare,
      WAppend io_ok sample_provisional, WAppend io_ok sample_commit] = ((Some w, f, bo), acks)" "\<not> dw_poisoned w"
    and c: "committed_transaction (dw_replay w) ''t'' = Some sample_tx" by (rule sample_committed)
  obtain rep where "replay_file reference_platform sample_crypto sample_parse f = Inr (dw_replay w, rep, length f)"
    using sample_log [OF run] by blast
  from wal_file_lifecycle [OF this] obtain ls rs where
    "log_holds reference_platform sample_crypto sample_parse ls rs (dw_replay w)" "take (length f) f = log_bytes ls"
    and phases: "map wr_phase (tx_history ''t'' rs) = [Prepare, Provisional, Commit]"
    and "\<exists>p v x k. tx_history ''t'' rs = [p, v, x] \<and> wr_payload p = PreparePayload sample_tx \<and>
       wr_payload x = CommitPayload k \<and> wc_committed_at k < tb_expires_at (tx_binding sample_tx)"
    using c by blast
  with c show ?thesis by metis
qed

lemma wal_scope_used_once_witness:
  "\<exists>ix rs tid. distinct (map scope_of (prepared rs)) \<and> ri_idempotency ix (scope_of sample_tx) = Some tid \<and>
     (\<exists>ls. log_holds reference_platform sample_crypto sample_parse ls rs ix)"
proof -
  obtain w f bo acks where run: "sample_run [WReopen open_ok, WAppend io_ok sample_prepare] = ((Some w, f, bo), acks)"
    "\<not> dw_poisoned w" and i: "ri_idempotency (dw_replay w) (scope_of sample_tx) = Some ''t''" by (rule sample_prepared)
  obtain rep where "replay_file reference_platform sample_crypto sample_parse f = Inr (dw_replay w, rep, length f)"
    using sample_log [OF run] by blast
  from wal_scope_used_once [OF this] i show ?thesis by blast
qed

lemma wal_retry_is_idempotent_witness:
  "\<exists>w f bo w' f' bo' res. wal_append reference_platform sample_crypto software_backend (w, f, bo) io_ok sample_prepare
       = ((w', f', bo'), res) \<and> f' = f \<and> dw_replay w' = dw_replay w \<and>
     ri_idempotency (dw_replay w) (scope_of sample_tx) = Some ''t''"
proof -
  obtain w f bo acks where run: "sample_run [WReopen open_ok, WAppend io_ok sample_prepare] = ((Some w, f, bo), acks)"
    "\<not> dw_poisoned w" and i: "ri_idempotency (dw_replay w) (scope_of sample_tx) = Some ''t''" by (rule sample_prepared)
  obtain w' f' bo' res where app: "wal_append reference_platform sample_crypto software_backend (w, f, bo) io_ok
      sample_prepare = ((w', f', bo'), res)" by (metis prod.exhaust)
  have "wr_payload sample_prepare = PreparePayload sample_tx"
    by (simp add: sample_prepare_def draft_record_def Let_def)
  from wal_retry_is_idempotent [OF sample_hyps run this i app] app i show ?thesis by blast
qed

lemma wal_recovery_exact_witness:
  "\<exists>w f bo acks rep. sample_run [WReopen open_ok, WAppend io_ok sample_prepare, WAppend io_ok sample_provisional,
       WAppend io_ok sample_commit] = ((Some w, f, bo), acks) \<and>
     replay_file reference_platform sample_crypto sample_parse f = Inr (dw_replay w, rep, length f)"
proof -
  obtain w f bo acks where run: "sample_run [WReopen open_ok, WAppend io_ok sample_prepare,
      WAppend io_ok sample_provisional, WAppend io_ok sample_commit] = ((Some w, f, bo), acks)" "\<not> dw_poisoned w"
    by (rule sample_committed)
  from wal_recovery_exact [OF sample_hyps run] run(1) show ?thesis by blast
qed

lemma wal_acknowledged_survives_witness:
  "\<exists>f bo f' bo' u t. wal_open reference_platform sample_crypto software_backend sample_parse open_ok f bo
       = (f', bo', Inr u) \<and> committed_transaction (dw_replay u) ''t'' = Some t"
proof -
  obtain w f bo acks n d wit where run: "sample_run [WReopen open_ok, WAppend io_ok sample_prepare,
      WAppend io_ok sample_provisional, WAppend io_ok sample_commit] = ((Some w, f, bo), acks)" "\<not> dw_poisoned w"
    and ack: "(''t'', Appended n Commit d wit) \<in> set acks" by (rule sample_committed)
  obtain ls rs where f: "f = log_bytes ls" and an: "software_head.anchored w bo"
    and lh: "log_holds reference_platform sample_crypto sample_parse ls rs (dw_replay w)" by (rule sample_log [OF run])
  have "software_head.holds_head bo (head_of (dw_replay w))" using an by (simp add: software_head.anchored_def)
  from software_reopens [OF lh _ this, of "[]"] f obtain f' bo' u where
    op: "wal_open reference_platform sample_crypto software_backend sample_parse open_ok f bo = (f', bo', Inr u)" by auto
  from wal_acknowledged_survives [OF sample_hyps run(1) op ack] op show ?thesis by blast
qed

definition io_torn :: wal_io where
  "io_torn = \<lparr>wi_write_failed = Some 1, wi_sync_failed = None\<rparr>"

lemma wal_failed_append_reopens_witness:
  "\<exists>w f bo w' f' bo' e g b u. wal_append reference_platform sample_crypto software_backend (w, f, bo) io_torn
        sample_prepare = ((w', f', bo'), Inl e) \<and> f' \<noteq> f \<and>
     wal_open reference_platform sample_crypto software_backend sample_parse open_ok f' bo' = (g, b, Inr u) \<and>
     (dw_replay u = dw_replay w \<or> bo' = None)"
proof -
  obtain w st where run: "sample_run [WReopen open_ok] = ((Some w, [], Some st), [])" "\<not> dw_poisoned w"
    and ix: "dw_replay w = empty_index" and an: "software_head.anchored w (Some st)" by (rule sample_opened)
  obtain r ix' where st: "stage_record reference_platform sample_crypto (dw_replay w) sample_prepare = Inr (Inr (r, ix'))"
    using sample_prepare_staged ix by metis
  let ?l = "wal_line reference_platform r"
  have l: "?l \<noteq> []" "newline \<notin> set ?l" using wal_line_good [OF serde_writer_reference] by blast+
  from software_head.head_check_anchored [OF an] obtain b1 where
    hc: "head_check software_backend w (Some st) = (w, b1, Inr ())" and a1: "software_head.anchored w b1" by blast
  have app: "wal_append reference_platform sample_crypto software_backend (w, [], Some st) io_torn sample_prepare
      = ((w\<lparr>dw_poisoned := True\<rparr>, take 1 ?l, b1), Inl (Io ''write''))"
    using run(2) hc st l by (simp add: wal_append_def wal_write_def io_torn_def Suc_leI)
  obtain ls rs where f: "[] = log_bytes ls"
    and lh: "log_holds reference_platform sample_crypto sample_parse ls rs (dw_replay w)" by (rule sample_log [OF run])
  have nl: "newline \<notin> set (take 1 ?l)" using l(2) by (meson in_set_takeD)
  have "software_head.holds_head b1 (head_of (dw_replay w))" using a1 by (simp add: software_head.anchored_def)
  from software_reopens [OF lh nl this] f obtain g b u where
    op: "wal_open reference_platform sample_crypto software_backend sample_parse open_ok (take 1 ?l) b1 = (g, b, Inr u)"
    by auto
  have "dw_replay u = dw_replay w \<or> b1 = None"
    using wal_failed_append_reopens [OF sample_hyps run app op] by blast
  moreover have "take 1 ?l \<noteq> []" using l(1) by simp
  ultimately show ?thesis using app op by blast
qed

lemma wal_head_pins_history_witness:
  "\<exists>st w u. wal_open reference_platform sample_crypto software_backend sample_parse open_ok [] (Some st) = ([], Some st, Inr w) \<and>
     wal_open reference_platform sample_crypto software_backend sample_parse open_ok ''x'' (Some st) = ([], Some st, Inr u) \<and>
     (dw_replay w = dw_replay u \<or> (\<exists>rs ss. record_collision reference_platform rs ss))"
proof -
  obtain w st where run: "sample_run [WReopen open_ok] = ((Some w, [], Some st), [])" "\<not> dw_poisoned w"
    and ix: "dw_replay w = empty_index" and an: "software_head.anchored w (Some st)" by (rule sample_opened)
  have rd: "read_latest software_backend st AUTHORITY_WAL_HEAD_DOMAIN = Inr (Some (head_of (dw_replay w)))"
    using an by (simp add: software_head.anchored_def software_head.holds_head_def)
  then have v: "verify_or_initialize_protected_head software_backend st AUTHORITY_WAL_HEAD_DOMAIN
      (ri_record_count empty_index) (ri_last_record_digest empty_index) = (st, Inr (head_of empty_index))"
    by (simp add: verify_or_initialize_protected_head_def head_of_def Let_def ix)
  have rf: "replay_file reference_platform sample_crypto sample_parse []
      = Inr (empty_index, \<lparr>rp_record_count = 0, rp_recovered_torn_tail = False, rp_truncated_tail_bytes = 0\<rparr>, 0)"
    "replay_file reference_platform sample_crypto sample_parse ''x''
      = Inr (empty_index, \<lparr>rp_record_count = 0, rp_recovered_torn_tail = True, rp_truncated_tail_bytes = 1\<rparr>, 0)"
    by (simp_all add: replay_file_def complete_len_def newline_def Let_def)
  obtain u v' where op: "wal_open reference_platform sample_crypto software_backend sample_parse open_ok [] (Some st) = ([], Some st, Inr u)"
    "wal_open reference_platform sample_crypto software_backend sample_parse open_ok ''x'' (Some st) = ([], Some st, Inr v')"
    using v rf by (simp add: wal_open_def open_ok_def Let_def)
  from wal_head_pins_history [OF serde_writer_reference software_head.protected_head_axioms rd op] op show ?thesis
    by (simp, blast)
qed

lemma wal_in_flight_can_be_closed_witness:
  "\<exists>w f bo w' f' bo' d. wal_append reference_platform sample_crypto software_backend (w, f, bo) io_ok
        (draft_record sample_tx (AbortPayload \<lparr>wb_aborted_at = 1000, wb_reason_digest = hex64,
           wb_terminal_outcome_digest = hex64\<rparr>) 1000 [] [] [] [])
      = ((w', f', bo'), Inr (Appended 2 Abort d None)) \<and>
    map_option to_phase (terminal_outcome_of w' ''t'') = Some Abort"
proof -
  let ?x = "\<lparr>rx_transaction = sample_tx, rx_phase = Prepare, rx_terminal = None\<rparr>"
  obtain w f bo acks where run: "sample_run [WReopen open_ok, WAppend io_ok sample_prepare] = ((Some w, f, bo), acks)"
    "\<not> dw_poisoned w" and c: "ri_record_count (dw_replay w) = 1"
    and x: "ri_transactions (dw_replay w) ''t'' = Some ?x" by (rule sample_prepared)
  have seq: "next_sequence (dw_replay w) = 2" by (simp add: next_sequence_def c)
  let ?a = "\<lparr>wb_aborted_at = 1000, wb_reason_digest = hex64, wb_terminal_outcome_digest = hex64\<rparr>"
  have "\<exists>w' f' bo' d. wal_append reference_platform sample_crypto software_backend (w, f, bo) io_ok
        (draft_record (rx_transaction ?x) (AbortPayload ?a) 1000 [] [] [] [])
      = ((w', f', bo'), Inr (Appended (next_sequence (dw_replay w)) Abort d None)) \<and>
    \<not> dw_poisoned w' \<and> map_option to_phase (terminal_outcome_of w' ''t'') = Some Abort"
    by (rule wal_in_flight_can_be_closed [OF sample_hyps(1) sha256_width_reference sample_hyps(2)
          sample_crypto_works run x]) (simp_all add: seq)
  then show ?thesis unfolding seq replay_transaction.simps by blast
qed

end
