(* ===== verification/Crypto_Authority.thy ===== *)
theory Crypto_Authority
  imports Identity Replay_Ledger
begin

text \<open>
  \<open>m1nd-control/src/crypto_authority.rs\<close>: verification keys and their rotation chains, the
  signature envelope, the signed authority capability, and the entry points that sign or verify
  an owner challenge, a human approval or a capability, once or against a replay ledger.  The
  curve arithmetic of the crates \<open>ed25519_dalek\<close> and \<open>p256\<close> is the record
  \<open>signature_library\<close>; a platform signer is the record \<open>authority_signer\<close> of its trait.
\<close>

section \<open>Constants and parameters\<close>

definition ED25519_ALGORITHM :: string where
  "ED25519_ALGORITHM = ''ED25519''"
definition ECDSA_P256_SHA256_X962_ALGORITHM :: string where
  "ECDSA_P256_SHA256_X962_ALGORITHM = ''ECDSA_P256_SHA256_X962''"
definition VERIFICATION_KEY_REGISTRY_SCHEMA :: string where
  "VERIFICATION_KEY_REGISTRY_SCHEMA = ''m1nd-verification-key-registry-v1''"
definition AUTHORITY_CAPABILITY_SCHEMA :: string where
  "AUTHORITY_CAPABILITY_SCHEMA = ''m1nd-authority-capability-v1''"
definition OWNER_CHALLENGE_SIGNED_SCHEMA :: string where
  "OWNER_CHALLENGE_SIGNED_SCHEMA = ''m1nd-owner-challenge-signed-v1''"
definition HUMAN_APPROVAL_SIGNED_SCHEMA :: string where
  "HUMAN_APPROVAL_SIGNED_SCHEMA = ''m1nd-human-approval-signed-v1''"
definition OWNER_CHALLENGE_SIGNATURE_DOMAIN :: string where
  "OWNER_CHALLENGE_SIGNATURE_DOMAIN = ''m1nd-owner-challenge-signature-v1''"
definition HUMAN_APPROVAL_SIGNATURE_DOMAIN :: string where
  "HUMAN_APPROVAL_SIGNATURE_DOMAIN = ''m1nd-human-approval-signature-v1''"
definition AUTHORITY_CAPABILITY_SIGNATURE_DOMAIN :: string where
  "AUTHORITY_CAPABILITY_SIGNATURE_DOMAIN = ''m1nd-authority-capability-signature-v1''"
definition SIGNED_BODY_DIGEST_DOMAIN :: string where
  "SIGNED_BODY_DIGEST_DOMAIN = ''m1nd-authority-signed-body-v1''"
definition SIGNATURE_MESSAGE_PREFIX :: bytes where
  "SIGNATURE_MESSAGE_PREFIX = ''m1nd-authority-signature-message-v1'' @ [CHR 0x00]"

text \<open>
  The calls into the two signature crates: keys \<open>'e\<close> of Ed25519, keys \<open>'p\<close> and parsed
  signatures \<open>'s\<close> of P-256.
\<close>

record ('e, 'p, 's) signature_library =
  ed_from_bytes :: "bytes \<Rightarrow> 'e option"
  ed_as_bytes :: "'e \<Rightarrow> bytes"
  ed_verify_strict :: "'e \<Rightarrow> bytes \<Rightarrow> bytes \<Rightarrow> bool"
  p256_from_sec1_bytes :: "bytes \<Rightarrow> 'p option"
  p256_to_sec1_point :: "'p \<Rightarrow> bytes"
  p256_signature_from_der :: "bytes \<Rightarrow> 's option"
  p256_normalize_s :: "'s \<Rightarrow> 's"
  p256_verify :: "'p \<Rightarrow> bytes \<Rightarrow> 's \<Rightarrow> bool"
  p256_to_der :: "'s \<Rightarrow> bytes"

record authority_signer =
  as_key_id :: string
  as_subject_id :: string
  as_algorithm :: string
  as_public_key_bytes :: "string + bytes"
  as_sign :: "bytes \<Rightarrow> string + bytes"

section \<open>Data\<close>

record verification_key =
  vk_key_id :: string
  vk_subject_id :: string
  vk_algorithm :: string
  vk_public_key :: string
  vk_created_at :: u64
  vk_activated_at :: u64
  vk_expires_at :: "u64 option"
  vk_revoked_at :: "u64 option"
  vk_rotated_at :: "u64 option"
  vk_replacement_key_id :: "string option"
  vk_status :: identity_status

text \<open>The \<open>BTreeMap\<close> of keys is the list of its entries in the order of traversal.\<close>

record verification_key_registry =
  vr_schema :: string
  vr_registry_epoch :: u64
  vr_keys :: "(string \<times> verification_key) list"

record authority_capability =
  ac_schema :: string
  ac_capability_id :: string
  ac_issuer_subject_id :: string
  ac_issuer_key_id :: string
  ac_algorithm :: string
  ac_subject_id :: string
  ac_audience :: string
  ac_organism_id :: string
  ac_brain_id :: string
  ac_mission_id :: "string option"
  ac_mission_head_id :: "string option"
  ac_action :: action_id
  ac_authority_variant :: authority_variant
  ac_active_mode :: active_mode
  ac_payload_digest :: string
  ac_policy_registry_digest :: string
  ac_constitution_digest :: string
  ac_key_registry_epoch :: u64
  ac_issued_at :: u64
  ac_expires_at :: u64
  ac_nonce :: string
  ac_signature :: string

record challenge_context =
  cc_now_ms :: u64
  cc_max_future_clock_skew_ms :: u64
  cc_expected_schema :: string
  cc_expected_audience :: string
  cc_expected_decision_subject_id :: string
  cc_expected_payload_digest :: string
  cc_expected_brain_id :: string
  cc_expected_mission_id :: "string option"
  cc_expected_mission_head_id :: "string option"
  cc_expected_active_mode :: active_mode

record capability_context =
  pc_now_ms :: u64
  pc_max_future_clock_skew_ms :: u64
  pc_expected_schema :: string
  pc_expected_audience :: string
  pc_expected_subject_id :: string
  pc_expected_payload_digest :: string
  pc_expected_organism_id :: string
  pc_expected_brain_id :: string
  pc_expected_mission_id :: "string option"
  pc_expected_mission_head_id :: "string option"
  pc_expected_action :: string
  pc_expected_authority_variant :: authority_variant
  pc_expected_active_mode :: active_mode

datatype verified_artifact = OwnerChallenge | HumanApproval | AuthorityCapability

datatype cryptographic_integrity = VerifiedEd25519 | VerifiedEcdsaP256Sha256X962

record verified_authority =
  va_artifact :: verified_artifact
  va_integrity :: cryptographic_integrity
  va_signed_schema :: string
  va_signing_domain :: string
  va_key_id :: string
  va_subject_id :: string
  va_signed_body_digest :: string

record verified_authority_once =
  vo_authority :: verified_authority
  vo_replay :: replay_receipt

text \<open>A value that an error formats: a string, or what \<open>{:?}\<close> or \<open>to_string\<close> shows.\<close>

datatype shown =
    Shown string
  | ShownOption "string option"
  | ShownVariant authority_variant
  | ShownMode active_mode
  | ShownEpoch u64

datatype authority_crypto_error =
    EmptyRequired string
  | EmptyRegistry
  | SchemaMismatch string string string
  | ContextMismatch string shown shown
  | KeyMapMismatch string string
  | KeyNotFound string
  | KeySubjectMismatch string string string
  | KeyRevoked string
  | KeyRotated string "string option"
  | KeyExpired string u64 u64
  | KeyNotYetActive string u64 u64
  | KeyCreatedInFuture string u64 u64
  | InvalidKeyLifecycle string string
  | RotationTargetNotFound string string
  | RotationSubjectMismatch string string
  | RotationCycle string
  | UnsupportedAlgorithm string
  | PublicKeyEncoding
  | SignatureEncoding
  | SignatureInvalid
  | SignerMismatch string string string
  | PinnedPublicKeyMismatch string
  | SignatureWireShape string
  | IncompleteMissionBinding
  | NonSovereignCapability authority_variant
  | InvalidTimeOrder string u64 u64
  | IssuedInFuture string u64 u64
  | Expired string u64 u64
  | StructuralIdentity identity_error
  | Signer string
  | Replay replay_ledger_error

section \<open>Field checks\<close>

definition crypto_require_non_empty :: "string \<Rightarrow> string \<Rightarrow> authority_crypto_error + unit" where
  "crypto_require_non_empty field value = (if trims_empty value then Err (EmptyRequired field) else Ok ())"

definition crypto_validate_optional_non_empty ::
  "string \<Rightarrow> string option \<Rightarrow> authority_crypto_error + unit" where
  "crypto_validate_optional_non_empty field value =
     (case value of
        Some v \<Rightarrow> if trims_empty v then Err (EmptyRequired field) else Ok ()
      | None \<Rightarrow> Ok ())"

definition expect :: "string \<Rightarrow> string \<Rightarrow> string \<Rightarrow> authority_crypto_error + unit" where
  "expect field expected observed =
     (if expected \<noteq> observed then Err (ContextMismatch field (Shown expected) (Shown observed)) else Ok ())"

definition expect_optional ::
  "string \<Rightarrow> string option \<Rightarrow> string option \<Rightarrow> authority_crypto_error + unit" where
  "expect_optional field expected observed =
     (if expected \<noteq> observed
      then Err (ContextMismatch field (ShownOption expected) (ShownOption observed)) else Ok ())"

definition expect_debug ::
  "('a \<Rightarrow> shown) \<Rightarrow> string \<Rightarrow> 'a \<Rightarrow> 'a \<Rightarrow> authority_crypto_error + unit" where
  "expect_debug show field expected observed =
     (if expected \<noteq> observed then Err (ContextMismatch field (show expected) (show observed)) else Ok ())"

definition expect_signer :: "string \<Rightarrow> string \<Rightarrow> string \<Rightarrow> authority_crypto_error + unit" where
  "expect_signer field expected observed =
     (if expected \<noteq> observed then Err (SignerMismatch field expected observed) else Ok ())"

section \<open>Hexadecimal\<close>

definition hex_nibble :: "char \<Rightarrow> nat option" where
  "hex_nibble c =
     (let b = of_char c :: nat in
      if 48 \<le> b \<and> b \<le> 57 then Some (b - 48)
      else if 97 \<le> b \<and> b \<le> 102 then Some (b - 97 + 10)
      else None)"

text \<open>The loop over the pairs; \<open>(high << 4) | low\<close> on bytes whose nibbles are below 16.\<close>

fun decode_pairs :: "string \<Rightarrow> bytes option" where
  "decode_pairs (a # b # s) =
     Option.bind (hex_nibble a) (\<lambda>high.
     Option.bind (hex_nibble b) (\<lambda>low.
     Option.bind (decode_pairs s) (\<lambda>output.
       Some (char_of (push_bit 4 high + low) # output))))"
| "decode_pairs _ = Some []"

definition decode_lower_hex :: "string \<Rightarrow> bytes option" where
  "decode_lower_hex value =
     (if odd (length value) \<or> list_ex (\<lambda>c. \<not> is_lower_hex c) value then None else decode_pairs value)"

definition decode_lower_hex_fixed :: "nat \<Rightarrow> string \<Rightarrow> bytes option" where
  "decode_lower_hex_fixed n value =
     Option.bind (decode_lower_hex value) (\<lambda>bs. if length bs = n then Some bs else None)"

section \<open>Public keys and signatures\<close>

datatype ('e, 'p) decoded_public_key = Ed25519Key 'e | P256Key 'p

fun canonical_key_bytes :: "('e, 'p, 's) signature_library \<Rightarrow> ('e, 'p) decoded_public_key \<Rightarrow> bytes" where
  "canonical_key_bytes L (Ed25519Key k) = ed_as_bytes L k"
| "canonical_key_bytes L (P256Key k) = p256_to_sec1_point L k"

definition decode_public_key ::
  "('e, 'p, 's) signature_library \<Rightarrow> string \<Rightarrow> string
     \<Rightarrow> authority_crypto_error + ('e, 'p) decoded_public_key" where
  "decode_public_key L algorithm value =
     (if algorithm = ED25519_ALGORITHM then
        and_then (ok_or (decode_lower_hex_fixed 32 value) PublicKeyEncoding) (\<lambda>bs.
        and_then (ok_or (ed_from_bytes L bs) PublicKeyEncoding) (\<lambda>k. Ok (Ed25519Key k)))
      else if algorithm = ECDSA_P256_SHA256_X962_ALGORITHM then
        and_then (ok_or (decode_lower_hex value) PublicKeyEncoding) (\<lambda>bs.
        if length bs \<noteq> 65 \<or> hd bs \<noteq> CHR 0x04 then Err PublicKeyEncoding
        else and_then (ok_or (p256_from_sec1_bytes L bs) PublicKeyEncoding) (\<lambda>k.
          if p256_to_sec1_point L k \<noteq> bs then Err PublicKeyEncoding else Ok (P256Key k)))
      else Err (UnsupportedAlgorithm algorithm))"

definition integrity_for_algorithm :: "string \<Rightarrow> authority_crypto_error + cryptographic_integrity" where
  "integrity_for_algorithm algorithm =
     (if algorithm = ED25519_ALGORITHM then Ok VerifiedEd25519
      else if algorithm = ECDSA_P256_SHA256_X962_ALGORITHM then Ok VerifiedEcdsaP256Sha256X962
      else Err (UnsupportedAlgorithm algorithm))"

fun canonicalize_and_verify_signature ::
  "('e, 'p, 's) signature_library \<Rightarrow> ('e, 'p) decoded_public_key \<Rightarrow> bytes \<Rightarrow> bytes
     \<Rightarrow> authority_crypto_error + bytes" where
  "canonicalize_and_verify_signature L (Ed25519Key k) message signature =
     (if length signature \<noteq> 64 then Err SignatureEncoding
      else if ed_verify_strict L k message signature then Ok signature
      else Err SignatureInvalid)"
| "canonicalize_and_verify_signature L (P256Key k) message signature =
     and_then (ok_or (p256_signature_from_der L signature) SignatureEncoding) (\<lambda>parsed.
       let normalized = p256_normalize_s L parsed in
       if p256_verify L k message normalized then Ok (p256_to_der L normalized)
       else Err SignatureInvalid)"

definition ensure_pinned_public_key ::
  "('e, 'p, 's) signature_library \<Rightarrow> string \<Rightarrow> string \<Rightarrow> verification_key
     \<Rightarrow> authority_crypto_error + unit" where
  "ensure_pinned_public_key L key_id pinned key =
     and_then (decode_public_key L (vk_algorithm key) pinned) (\<lambda>p.
     and_then (decode_public_key L (vk_algorithm key) (vk_public_key key)) (\<lambda>registered.
       if canonical_key_bytes L p \<noteq> canonical_key_bytes L registered
       then Err (PinnedPublicKeyMismatch key_id) else Ok ()))"

section \<open>The signed message\<close>

definition signature_message :: "string \<Rightarrow> bytes \<Rightarrow> bytes" where
  "signature_message domain canonical_payload =
     SIGNATURE_MESSAGE_PREFIX @ be_bytes (of_nat (length domain)) @ domain
       @ be_bytes (of_nat (length canonical_payload)) @ canonical_payload"

text \<open>A record of the code is here the JSON value that it serialises to.\<close>

definition canonical_without_signature ::
  "platform \<Rightarrow> string \<Rightarrow> json \<Rightarrow> authority_crypto_error + bytes" where
  "canonical_without_signature E signature_field record =
     (case record of
        JObject kvs \<Rightarrow>
          if map_of kvs signature_field = None then Err (SignatureWireShape signature_field)
          else Ok (canonical_json E (obj_remove signature_field record))
      | _ \<Rightarrow> Err (SignatureWireShape signature_field))"

definition signed_body_digest ::
  "platform \<Rightarrow> string \<Rightarrow> json \<Rightarrow> string \<Rightarrow> authority_crypto_error + string" where
  "signed_body_digest E domain record signature_field =
     and_then (canonical_without_signature E signature_field record) (\<lambda>canonical.
       Ok (digest_domain_bytes E SIGNED_BODY_DIGEST_DOMAIN (signature_message domain canonical)))"

definition verify_authority_message_signature ::
  "('e, 'p, 's) signature_library \<Rightarrow> bytes \<Rightarrow> string \<Rightarrow> verification_key
     \<Rightarrow> authority_crypto_error + cryptographic_integrity" where
  "verify_authority_message_signature L message signature key =
     and_then (decode_public_key L (vk_algorithm key) (vk_public_key key)) (\<lambda>verifying_key.
     and_then (ok_or (decode_lower_hex signature) SignatureEncoding) (\<lambda>signature_bytes.
     and_then (canonicalize_and_verify_signature L verifying_key message signature_bytes) (\<lambda>canonical.
       if canonical \<noteq> signature_bytes then Err SignatureEncoding
       else integrity_for_algorithm (vk_algorithm key))))"

definition verify_canonical_authority_payload_signature ::
  "('e, 'p, 's) signature_library \<Rightarrow> string \<Rightarrow> bytes \<Rightarrow> string \<Rightarrow> verification_key
     \<Rightarrow> authority_crypto_error + cryptographic_integrity" where
  "verify_canonical_authority_payload_signature L domain canonical_payload signature key =
     verify_authority_message_signature L (signature_message domain canonical_payload) signature key"

definition verify_record_signature ::
  "platform \<Rightarrow> ('e, 'p, 's) signature_library \<Rightarrow> json \<Rightarrow> string \<Rightarrow> string \<Rightarrow> string
     \<Rightarrow> verification_key \<Rightarrow> authority_crypto_error + unit" where
  "verify_record_signature E L record signature_field signature domain key =
     and_then (decode_public_key L (vk_algorithm key) (vk_public_key key)) (\<lambda>verifying_key.
     and_then (ok_or (decode_lower_hex signature) SignatureEncoding) (\<lambda>signature_bytes.
     and_then (canonical_without_signature E signature_field record) (\<lambda>canonical_body.
     and_then (canonicalize_and_verify_signature L verifying_key
         (signature_message domain canonical_body) signature_bytes) (\<lambda>canonical.
       if canonical \<noteq> signature_bytes then Err SignatureEncoding else Ok ()))))"

definition sign_authority_message ::
  "('e, 'p, 's) signature_library \<Rightarrow> bytes \<Rightarrow> verification_key \<Rightarrow> authority_signer
     \<Rightarrow> authority_crypto_error + string" where
  "sign_authority_message L message key signer =
     and_then (seq_checks
       [expect_signer ''key_id'' (vk_key_id key) (as_key_id signer),
        expect_signer ''subject_id'' (vk_subject_id key) (as_subject_id signer),
        expect_signer ''algorithm'' (vk_algorithm key) (as_algorithm signer)]) (\<lambda>_.
     and_then (decode_public_key L (vk_algorithm key) (vk_public_key key)) (\<lambda>pinned.
     and_then (map_err Signer (as_public_key_bytes signer)) (\<lambda>signer_public_key.
     if signer_public_key \<noteq> canonical_key_bytes L pinned
     then Err (PinnedPublicKeyMismatch (vk_key_id key))
     else and_then (map_err Signer (as_sign signer message)) (\<lambda>signature.
          and_then (canonicalize_and_verify_signature L pinned message signature) (\<lambda>canonical.
            Ok (hex_lower canonical))))))"

definition sign_canonical_authority_payload ::
  "('e, 'p, 's) signature_library \<Rightarrow> string \<Rightarrow> bytes \<Rightarrow> verification_key \<Rightarrow> authority_signer
     \<Rightarrow> authority_crypto_error + string" where
  "sign_canonical_authority_payload L domain canonical_payload key signer =
     sign_authority_message L (signature_message domain canonical_payload) key signer"

definition sign_record ::
  "platform \<Rightarrow> ('e, 'p, 's) signature_library \<Rightarrow> json \<Rightarrow> string \<Rightarrow> string \<Rightarrow> verification_key
     \<Rightarrow> authority_signer \<Rightarrow> authority_crypto_error + string" where
  "sign_record E L record signature_field domain key signer =
     and_then (seq_checks
       [expect_signer ''key_id'' (vk_key_id key) (as_key_id signer),
        expect_signer ''subject_id'' (vk_subject_id key) (as_subject_id signer),
        expect_signer ''algorithm'' (vk_algorithm key) (as_algorithm signer)]) (\<lambda>_.
     and_then (decode_public_key L (vk_algorithm key) (vk_public_key key)) (\<lambda>pinned.
     and_then (map_err Signer (as_public_key_bytes signer)) (\<lambda>signer_public_key.
     if signer_public_key \<noteq> canonical_key_bytes L pinned
     then Err (PinnedPublicKeyMismatch (vk_key_id key))
     else and_then (canonical_without_signature E signature_field record) (\<lambda>canonical_body.
          let message = signature_message domain canonical_body in
          and_then (map_err Signer (as_sign signer message)) (\<lambda>signature.
          and_then (canonicalize_and_verify_signature L pinned message signature) (\<lambda>canonical.
            Ok (hex_lower canonical)))))))"


text \<open>
  The key registry of \<open>crypto_authority.rs\<close>: the lifecycle rules of one key record, the walk
  along the rotation chains with its termination argument, the validation of a registry, and
  the resolution of an active key.
\<close>

section \<open>One key record\<close>

definition elapsed :: "u64 \<Rightarrow> u64 option \<Rightarrow> bool" where
  "elapsed now_ms t = (case t of Some expires_at \<Rightarrow> now_ms \<ge> expires_at | None \<Rightarrow> False)"

definition status_lifecycle_ok :: "verification_key \<Rightarrow> u64 \<Rightarrow> bool" where
  "status_lifecycle_ok k now_ms =
     (case vk_status k of
        Active \<Rightarrow> vk_revoked_at k = None \<and> vk_rotated_at k = None \<and> vk_replacement_key_id k = None
      | Revoked \<Rightarrow> vk_revoked_at k \<noteq> None \<and> vk_rotated_at k = None \<and> vk_replacement_key_id k = None
      | Rotated \<Rightarrow> vk_rotated_at k \<noteq> None \<and> vk_replacement_key_id k \<noteq> None \<and> vk_revoked_at k = None \<and>
          vk_replacement_key_id k \<noteq> Some (vk_key_id k)
      | identity_status.Expired \<Rightarrow> elapsed now_ms (vk_expires_at k) \<and> vk_revoked_at k = None \<and>
          vk_rotated_at k = None \<and> vk_replacement_key_id k = None)"

definition lifecycle_reason :: "identity_status \<Rightarrow> string" where
  "lifecycle_reason s =
     (case s of
        Active \<Rightarrow> ''ACTIVE key carries terminal lifecycle fields''
      | Revoked \<Rightarrow> ''REVOKED key requires only revoked_at''
      | Rotated \<Rightarrow> ''ROTATED key requires rotated_at and a different replacement key''
      | identity_status.Expired \<Rightarrow> ''EXPIRED key requires only an elapsed expires_at'')"

definition validate_record ::
  "('e, 'p, 's) signature_library \<Rightarrow> verification_key \<Rightarrow> u64 \<Rightarrow> u64 \<Rightarrow> authority_crypto_error + unit" where
  "validate_record L k now_ms max_future_clock_skew_ms =
     (let lifecycle = (\<lambda>ok reason. check ok (InvalidKeyLifecycle (vk_key_id k) reason));
          latest_allowed = saturating_add now_ms max_future_clock_skew_ms in
      seq_checks
       (map (\<lambda>(f, v). crypto_require_non_empty f v)
          [(''key_id'', vk_key_id k), (''subject_id'', vk_subject_id k),
           (''algorithm'', vk_algorithm k), (''public_key'', vk_public_key k)]
        @ [crypto_validate_optional_non_empty ''replacement_key_id'' (vk_replacement_key_id k),
           and_then (decode_public_key L (vk_algorithm k) (vk_public_key k)) (\<lambda>_. Ok ()),
           lifecycle (\<not> vk_activated_at k < vk_created_at k) ''activated_at precedes created_at'',
           check (\<not> vk_created_at k > latest_allowed)
             (KeyCreatedInFuture (vk_key_id k) (vk_created_at k) latest_allowed),
           (case vk_expires_at k of
              Some expires_at \<Rightarrow> lifecycle (\<not> expires_at \<le> vk_activated_at k)
                ''expires_at is not later than activated_at''
            | None \<Rightarrow> Ok ())]
        @ map (\<lambda>(reason, timestamp).
             (case timestamp of
                Some value \<Rightarrow> lifecycle (\<not> value < vk_activated_at k) reason
              | None \<Rightarrow> Ok ()))
            [(''revoked_at precedes activated_at'', vk_revoked_at k),
             (''rotated_at precedes activated_at'', vk_rotated_at k)]
        @ [lifecycle (status_lifecycle_ok k now_ms) (lifecycle_reason (vk_status k)),
           lifecycle (\<not> (vk_status k = Active \<and> elapsed now_ms (vk_expires_at k)))
             ''ACTIVE key is already expired'']))"

section \<open>Rotation chains\<close>

text \<open>The identifiers that the measure of the walk counts.\<close>

definition registry_ids :: "(string \<times> verification_key) list \<Rightarrow> string set" where
  "registry_ids keys = (\<lambda>(_, k). vk_key_id k) ` set keys"

lemma registry_ids_of: "map_of keys i = Some k \<Longrightarrow> vk_key_id k \<in> registry_ids keys"
  unfolding registry_ids_def by (drule map_of_SomeD) force

text \<open>
  The \<open>while\<close> loop of \<open>validate_rotation_chains\<close>.  It ends because \<open>seen\<close> grows by a key
  identifier in every round, and from the second round on these are identifiers of the registry.
\<close>

function rotation_walk ::
  "(string \<times> verification_key) list \<Rightarrow> string list \<Rightarrow> verification_key
     \<Rightarrow> authority_crypto_error + unit" where
  "rotation_walk keys seen current =
     (if vk_status current \<noteq> Rotated then Ok ()
      else if vk_key_id current \<in> set seen then Err (RotationCycle (vk_key_id current))
      else case vk_replacement_key_id current of
        None \<Rightarrow> Err (InvalidKeyLifecycle (vk_key_id current) ''ROTATED key has no replacement_key_id'')
      | Some replacement_key_id \<Rightarrow>
          (case map_of keys replacement_key_id of
             None \<Rightarrow> Err (RotationTargetNotFound (vk_key_id current) replacement_key_id)
           | Some replacement \<Rightarrow>
               if vk_subject_id replacement \<noteq> vk_subject_id current
               then Err (RotationSubjectMismatch (vk_key_id current) (vk_key_id replacement))
               else rotation_walk keys (vk_key_id current # seen) replacement))"
  by pat_completeness auto

termination
proof (relation "measure (\<lambda>(keys, seen, current).
    card (registry_ids keys - set seen) + (if vk_key_id current \<in> registry_ids keys then 0 else 1))")
  show "wf (measure (\<lambda>(keys, seen, current).
    card (registry_ids keys - set seen) + (if vk_key_id current \<in> registry_ids keys then 0 else 1)))"
    by simp
next
  fix keys :: "(string \<times> verification_key) list" and seen :: "string list"
    and current :: verification_key and i :: string and replacement :: verification_key
  let ?c = "vk_key_id current" and ?S = "registry_ids keys"
  assume fresh: "?c \<notin> set seen" and r: "map_of keys i = Some replacement"
  have fin: "finite (?S - set seen)" by (simp add: registry_ids_def)
  have "?S - set (?c # seen) = (?S - set seen) - {?c}" by auto
  moreover have "?c \<in> ?S \<Longrightarrow> card ((?S - set seen) - {?c}) < card (?S - set seen)"
    using fin fresh by (intro psubset_card_mono) auto
  moreover have "?c \<notin> ?S \<Longrightarrow> (?S - set seen) - {?c} = ?S - set seen" by auto
  ultimately show "((keys, ?c # seen, replacement), (keys, seen, current))
      \<in> measure (\<lambda>(keys, seen, current).
        card (registry_ids keys - set seen) + (if vk_key_id current \<in> registry_ids keys then 0 else 1))"
    using registry_ids_of [OF r] by auto
qed

declare rotation_walk.simps [simp del]

definition validate_rotation_chains :: "verification_key_registry \<Rightarrow> authority_crypto_error + unit" where
  "validate_rotation_chains r = seq_checks (map (\<lambda>(_, start).
     if vk_status start \<noteq> Rotated then Ok () else rotation_walk (vr_keys r) [] start) (vr_keys r))"

section \<open>The registry\<close>

definition validate_registry ::
  "('e, 'p, 's) signature_library \<Rightarrow> verification_key_registry \<Rightarrow> u64 \<Rightarrow> u64
     \<Rightarrow> authority_crypto_error + unit" where
  "validate_registry L r now_ms max_future_clock_skew_ms = seq_checks
     ([check (vr_schema r = VERIFICATION_KEY_REGISTRY_SCHEMA)
         (SchemaMismatch ''verification_key_registry.schema'' VERIFICATION_KEY_REGISTRY_SCHEMA (vr_schema r)),
       check (vr_keys r \<noteq> []) EmptyRegistry]
      @ concat (map (\<lambda>(map_key, key).
          [check (map_key = vk_key_id key) (KeyMapMismatch map_key (vk_key_id key)),
           validate_record L key now_ms max_future_clock_skew_ms]) (vr_keys r))
      @ [validate_rotation_chains r])"

definition resolve_active ::
  "('e, 'p, 's) signature_library \<Rightarrow> verification_key_registry \<Rightarrow> string \<Rightarrow> string \<Rightarrow> u64 \<Rightarrow> u64
     \<Rightarrow> authority_crypto_error + verification_key" where
  "resolve_active L r key_id expected_subject_id now_ms max_future_clock_skew_ms =
     and_then (validate_registry L r now_ms max_future_clock_skew_ms) (\<lambda>_.
     and_then (ok_or (map_of (vr_keys r) key_id) (KeyNotFound key_id)) (\<lambda>key.
     let latest_allowed = saturating_add now_ms max_future_clock_skew_ms in
     and_then (seq_checks
       [check (vk_subject_id key = expected_subject_id)
          (KeySubjectMismatch key_id expected_subject_id (vk_subject_id key)),
        (case vk_status key of
           Active \<Rightarrow> Ok ()
         | Revoked \<Rightarrow> Err (KeyRevoked key_id)
         | Rotated \<Rightarrow> Err (KeyRotated key_id (vk_replacement_key_id key))
         | identity_status.Expired \<Rightarrow> Err (KeyExpired key_id
             (case vk_expires_at key of Some t \<Rightarrow> t | None \<Rightarrow> 0) now_ms)),
        check (\<not> vk_activated_at key > latest_allowed)
          (KeyNotYetActive key_id (vk_activated_at key) latest_allowed),
        (case vk_expires_at key of
           Some expires_at \<Rightarrow> check (\<not> now_ms \<ge> expires_at) (KeyExpired key_id expires_at now_ms)
         | None \<Rightarrow> Ok ())]) (\<lambda>_. Ok key)))"

end
