(* ===== verification/Crypto_Entry.thy ===== *)
theory Crypto_Entry
  imports Crypto_Authority
begin

text \<open>
  The entry points of \<open>crypto_authority.rs\<close>: the structural validation of a capability, and
  signing and verifying a challenge, an approval or a capability; the \<open>_once\<close> entry points
  consume the scope of what they verified in a replay ledger, which is an argument with the
  interface of the trait.  Signing returns the record with its signature set.
\<close>

section \<open>Capabilities\<close>

definition json_of_capability :: "authority_capability \<Rightarrow> json" where
  "json_of_capability c = JObject
    [(''schema'', JString (ac_schema c)),
     (''capability_id'', JString (ac_capability_id c)),
     (''issuer_subject_id'', JString (ac_issuer_subject_id c)),
     (''issuer_key_id'', JString (ac_issuer_key_id c)),
     (''algorithm'', JString (ac_algorithm c)),
     (''subject_id'', JString (ac_subject_id c)),
     (''audience'', JString (ac_audience c)),
     (''organism_id'', JString (ac_organism_id c)),
     (''brain_id'', JString (ac_brain_id c)),
     (''mission_id'', json_opt JString (ac_mission_id c)),
     (''mission_head_id'', json_opt JString (ac_mission_head_id c)),
     (''action'', JString (ac_action c)),
     (''authority_variant'', JString (variant_name (ac_authority_variant c))),
     (''active_mode'', JString (mode_name (ac_active_mode c))),
     (''payload_digest'', JString (ac_payload_digest c)),
     (''policy_registry_digest'', JString (ac_policy_registry_digest c)),
     (''constitution_digest'', JString (ac_constitution_digest c)),
     (''key_registry_epoch'', json_u64 (ac_key_registry_epoch c)),
     (''issued_at'', json_u64 (ac_issued_at c)),
     (''expires_at'', json_u64 (ac_expires_at c)),
     (''nonce'', JString (ac_nonce c)),
     (''signature'', JString (ac_signature c))]"

definition capability_body_digest :: "platform \<Rightarrow> authority_capability \<Rightarrow> authority_crypto_error + string" where
  "capability_body_digest E c =
     signed_body_digest E AUTHORITY_CAPABILITY_SIGNATURE_DOMAIN (json_of_capability c) ''signature''"

definition validate_structural ::
  "authority_capability \<Rightarrow> u64 \<Rightarrow> u64 \<Rightarrow> authority_crypto_error + unit" where
  "validate_structural c now_ms max_future_clock_skew_ms =
     (let latest_allowed = saturating_add now_ms max_future_clock_skew_ms in
      seq_checks
       ([check (ac_schema c = AUTHORITY_CAPABILITY_SCHEMA)
           (SchemaMismatch ''capability.schema'' AUTHORITY_CAPABILITY_SCHEMA (ac_schema c))]
        @ map (\<lambda>(f, v). crypto_require_non_empty f v)
           [(''capability_id'', ac_capability_id c), (''issuer_subject_id'', ac_issuer_subject_id c),
            (''issuer_key_id'', ac_issuer_key_id c), (''algorithm'', ac_algorithm c),
            (''subject_id'', ac_subject_id c), (''audience'', ac_audience c),
            (''organism_id'', ac_organism_id c), (''brain_id'', ac_brain_id c),
            (''action'', ac_action c), (''payload_digest'', ac_payload_digest c),
            (''policy_registry_digest'', ac_policy_registry_digest c),
            (''constitution_digest'', ac_constitution_digest c), (''nonce'', ac_nonce c),
            (''signature'', ac_signature c)]
        @ [crypto_validate_optional_non_empty ''mission_id'' (ac_mission_id c),
           crypto_validate_optional_non_empty ''mission_head_id'' (ac_mission_head_id c),
           check ((ac_mission_id c \<noteq> None) = (ac_mission_head_id c \<noteq> None)) IncompleteMissionBinding,
           and_then (integrity_for_algorithm (ac_algorithm c)) (\<lambda>_. Ok ()),
           check (is_positive_sovereign (ac_authority_variant c))
             (NonSovereignCapability (ac_authority_variant c)),
           check (\<not> ac_expires_at c \<le> ac_issued_at c)
             (InvalidTimeOrder ''authority capability'' (ac_issued_at c) (ac_expires_at c)),
           check (\<not> ac_issued_at c > latest_allowed)
             (IssuedInFuture ''authority capability'' (ac_issued_at c) latest_allowed),
           check (\<not> now_ms \<ge> ac_expires_at c)
             (Expired ''authority capability'' (ac_expires_at c) now_ms)]))"

section \<open>Verification\<close>

definition verify_owner_challenge ::
  "platform \<Rightarrow> ('e, 'p, 's) signature_library \<Rightarrow> owner_challenge \<Rightarrow> owner_identity
     \<Rightarrow> verification_key_registry \<Rightarrow> challenge_context \<Rightarrow> authority_crypto_error + verified_authority" where
  "verify_owner_challenge E L c ow keys cx =
     and_then (map_err StructuralIdentity (validate_challenge c ow (cc_now_ms cx))) (\<lambda>_.
     and_then (seq_checks
       [expect ''challenge.signed_schema'' (cc_expected_schema cx) OWNER_CHALLENGE_SIGNED_SCHEMA,
        expect ''challenge.audience'' (cc_expected_audience cx) (oc_audience c),
        expect ''challenge.decision_subject_id'' (cc_expected_decision_subject_id cx) (oc_decision_subject_id c),
        expect ''challenge.payload_digest'' (cc_expected_payload_digest cx) (oc_payload_digest c),
        expect ''challenge.brain_id'' (cc_expected_brain_id cx) (oc_brain_id c),
        expect_optional ''challenge.mission_id'' (cc_expected_mission_id cx) (oc_mission_id c),
        expect_optional ''challenge.mission_head_id'' (cc_expected_mission_head_id cx) (oc_mission_head_id c),
        expect_debug ShownMode ''challenge.active_mode'' (cc_expected_active_mode cx) (oc_active_mode c)]) (\<lambda>_.
     and_then (resolve_active L keys (oi_key_id ow) (oi_owner_id ow) (cc_now_ms cx)
         (cc_max_future_clock_skew_ms cx)) (\<lambda>key.
     and_then (ensure_pinned_public_key L (oi_key_id ow) (oi_non_exportable_public_key ow) key) (\<lambda>_.
     and_then (verify_record_signature E L (json_of_challenge c) ''owner_signature'' (oc_owner_signature c)
         OWNER_CHALLENGE_SIGNATURE_DOMAIN key) (\<lambda>_.
     and_then (integrity_for_algorithm (vk_algorithm key)) (\<lambda>integrity.
     and_then (signed_body_digest E OWNER_CHALLENGE_SIGNATURE_DOMAIN (json_of_challenge c)
         ''owner_signature'') (\<lambda>body.
       Ok \<lparr>va_artifact = OwnerChallenge, va_integrity = integrity,
           va_signed_schema = OWNER_CHALLENGE_SIGNED_SCHEMA,
           va_signing_domain = OWNER_CHALLENGE_SIGNATURE_DOMAIN, va_key_id = vk_key_id key,
           va_subject_id = vk_subject_id key, va_signed_body_digest = body\<rparr>)))))))"

definition verify_human_approval ::
  "platform \<Rightarrow> ('e, 'p, 's) signature_library \<Rightarrow> human_approval \<Rightarrow> owner_challenge \<Rightarrow> owner_identity
     \<Rightarrow> human_key_registry \<Rightarrow> verification_key_registry \<Rightarrow> challenge_context
     \<Rightarrow> authority_crypto_error + verified_authority" where
  "verify_human_approval E L a c ow human_keys keys cx =
     and_then (verify_owner_challenge E L c ow keys cx) (\<lambda>_.
     and_then (map_err StructuralIdentity (validate_approval E a c ow human_keys (cc_now_ms cx))) (\<lambda>_.
     and_then (resolve_active L keys (ha_key_id a) (ha_subject_id a) (cc_now_ms cx)
         (cc_max_future_clock_skew_ms cx)) (\<lambda>key.
     and_then (ok_or (map_of (hr_keys human_keys) (ha_key_id a)) (KeyNotFound (ha_key_id a))) (\<lambda>enrolled.
     and_then (ensure_pinned_public_key L (ha_key_id a) (hk_public_key enrolled) key) (\<lambda>_.
     and_then (verify_record_signature E L (json_of_approval a) ''signature'' (ha_signature a)
         HUMAN_APPROVAL_SIGNATURE_DOMAIN key) (\<lambda>_.
     and_then (integrity_for_algorithm (vk_algorithm key)) (\<lambda>integrity.
     and_then (signed_body_digest E HUMAN_APPROVAL_SIGNATURE_DOMAIN (json_of_approval a)
         ''signature'') (\<lambda>body.
       Ok \<lparr>va_artifact = HumanApproval, va_integrity = integrity,
           va_signed_schema = HUMAN_APPROVAL_SIGNED_SCHEMA,
           va_signing_domain = HUMAN_APPROVAL_SIGNATURE_DOMAIN, va_key_id = vk_key_id key,
           va_subject_id = vk_subject_id key, va_signed_body_digest = body\<rparr>))))))))"

definition verify_capability ::
  "platform \<Rightarrow> ('e, 'p, 's) signature_library \<Rightarrow> authority_capability \<Rightarrow> verification_key_registry
     \<Rightarrow> capability_context \<Rightarrow> authority_crypto_error + verified_authority" where
  "verify_capability E L c keys cx =
     and_then (validate_structural c (pc_now_ms cx) (pc_max_future_clock_skew_ms cx)) (\<lambda>_.
     and_then (seq_checks
       [expect ''capability.schema'' (pc_expected_schema cx) (ac_schema c),
        expect ''capability.audience'' (pc_expected_audience cx) (ac_audience c),
        expect ''capability.subject_id'' (pc_expected_subject_id cx) (ac_subject_id c),
        expect ''capability.payload_digest'' (pc_expected_payload_digest cx) (ac_payload_digest c),
        expect ''capability.organism_id'' (pc_expected_organism_id cx) (ac_organism_id c),
        expect ''capability.brain_id'' (pc_expected_brain_id cx) (ac_brain_id c),
        expect_optional ''capability.mission_id'' (pc_expected_mission_id cx) (ac_mission_id c),
        expect_optional ''capability.mission_head_id'' (pc_expected_mission_head_id cx) (ac_mission_head_id c),
        expect ''capability.action'' (pc_expected_action cx) (ac_action c),
        expect_debug ShownVariant ''capability.authority_variant'' (pc_expected_authority_variant cx)
          (ac_authority_variant c),
        expect_debug ShownMode ''capability.active_mode'' (pc_expected_active_mode cx) (ac_active_mode c),
        check (ac_key_registry_epoch c = vr_registry_epoch keys)
          (ContextMismatch ''capability.key_registry_epoch'' (ShownEpoch (vr_registry_epoch keys))
            (ShownEpoch (ac_key_registry_epoch c)))]) (\<lambda>_.
     and_then (resolve_active L keys (ac_issuer_key_id c) (ac_issuer_subject_id c) (pc_now_ms cx)
         (pc_max_future_clock_skew_ms cx)) (\<lambda>key.
     and_then (check (ac_algorithm c = vk_algorithm key)
         (ContextMismatch ''capability.algorithm'' (Shown (vk_algorithm key)) (Shown (ac_algorithm c)))) (\<lambda>_.
     and_then (verify_record_signature E L (json_of_capability c) ''signature'' (ac_signature c)
         AUTHORITY_CAPABILITY_SIGNATURE_DOMAIN key) (\<lambda>_.
     and_then (integrity_for_algorithm (vk_algorithm key)) (\<lambda>integrity.
     and_then (capability_body_digest E c) (\<lambda>body.
       Ok \<lparr>va_artifact = AuthorityCapability, va_integrity = integrity,
           va_signed_schema = AUTHORITY_CAPABILITY_SCHEMA,
           va_signing_domain = AUTHORITY_CAPABILITY_SIGNATURE_DOMAIN, va_key_id = vk_key_id key,
           va_subject_id = ac_subject_id c, va_signed_body_digest = body\<rparr>)))))))"

section \<open>Signing\<close>

definition sign_owner_challenge ::
  "platform \<Rightarrow> ('e, 'p, 's) signature_library \<Rightarrow> owner_challenge \<Rightarrow> owner_identity
     \<Rightarrow> verification_key_registry \<Rightarrow> authority_signer \<Rightarrow> u64 \<Rightarrow> u64
     \<Rightarrow> authority_crypto_error + owner_challenge" where
  "sign_owner_challenge E L c ow keys signer now_ms max_future_clock_skew_ms =
     and_then (map_err StructuralIdentity
       (validate_challenge (c\<lparr>oc_owner_signature := ''pending-signature''\<rparr>) ow now_ms)) (\<lambda>_.
     and_then (resolve_active L keys (oi_key_id ow) (oi_owner_id ow) now_ms max_future_clock_skew_ms) (\<lambda>key.
     and_then (ensure_pinned_public_key L (oi_key_id ow) (oi_non_exportable_public_key ow) key) (\<lambda>_.
     and_then (sign_record E L (json_of_challenge c) ''owner_signature'' OWNER_CHALLENGE_SIGNATURE_DOMAIN
         key signer) (\<lambda>signature.
       Ok (c\<lparr>oc_owner_signature := signature\<rparr>)))))"

definition sign_human_approval ::
  "platform \<Rightarrow> ('e, 'p, 's) signature_library \<Rightarrow> human_approval \<Rightarrow> owner_challenge \<Rightarrow> owner_identity
     \<Rightarrow> human_key_registry \<Rightarrow> verification_key_registry \<Rightarrow> authority_signer \<Rightarrow> challenge_context
     \<Rightarrow> authority_crypto_error + human_approval" where
  "sign_human_approval E L a c ow human_keys keys signer cx =
     and_then (verify_owner_challenge E L c ow keys cx) (\<lambda>_.
     and_then (map_err StructuralIdentity
       (validate_approval E (a\<lparr>ha_signature := ''pending-signature''\<rparr>) c ow human_keys (cc_now_ms cx))) (\<lambda>_.
     and_then (resolve_active L keys (ha_key_id a) (ha_subject_id a) (cc_now_ms cx)
         (cc_max_future_clock_skew_ms cx)) (\<lambda>key.
     and_then (ok_or (map_of (hr_keys human_keys) (ha_key_id a)) (KeyNotFound (ha_key_id a))) (\<lambda>enrolled.
     and_then (ensure_pinned_public_key L (ha_key_id a) (hk_public_key enrolled) key) (\<lambda>_.
     and_then (sign_record E L (json_of_approval a) ''signature'' HUMAN_APPROVAL_SIGNATURE_DOMAIN
         key signer) (\<lambda>signature.
       Ok (a\<lparr>ha_signature := signature\<rparr>)))))))"

definition sign_capability ::
  "platform \<Rightarrow> ('e, 'p, 's) signature_library \<Rightarrow> authority_capability \<Rightarrow> verification_key_registry
     \<Rightarrow> authority_signer \<Rightarrow> u64 \<Rightarrow> u64 \<Rightarrow> authority_crypto_error + authority_capability" where
  "sign_capability E L c keys signer now_ms max_future_clock_skew_ms =
     and_then (validate_structural (c\<lparr>ac_signature := ''pending-signature''\<rparr>) now_ms
         max_future_clock_skew_ms) (\<lambda>_.
     and_then (resolve_active L keys (ac_issuer_key_id c) (ac_issuer_subject_id c) now_ms
         max_future_clock_skew_ms) (\<lambda>key.
     and_then (check (ac_algorithm c = vk_algorithm key)
         (ContextMismatch ''capability.algorithm'' (Shown (vk_algorithm key)) (Shown (ac_algorithm c)))) (\<lambda>_.
     and_then (sign_record E L (json_of_capability c) ''signature'' AUTHORITY_CAPABILITY_SIGNATURE_DOMAIN
         key signer) (\<lambda>signature.
       Ok (c\<lparr>ac_signature := signature\<rparr>)))))"

section \<open>Verification against a replay ledger\<close>

text \<open>The claims that the three entry points consume.\<close>

definition challenge_claim :: "owner_challenge \<Rightarrow> owner_identity \<Rightarrow> verified_authority \<Rightarrow> replay_claim" where
  "challenge_claim c ow authority =
     \<lparr>rc_schema = REPLAY_CLAIM_SCHEMA, rc_namespace = ''owner-challenge'',
      rc_issuer_subject_id = oi_owner_id ow, rc_key_id = oi_key_id ow,
      rc_subject_id = oc_decision_subject_id c, rc_nonce = oc_nonce c,
      rc_object_digest = va_signed_body_digest authority, rc_issued_at = 0,
      rc_expires_at = oc_expires_at c\<rparr>"

definition approval_claim :: "human_approval \<Rightarrow> owner_challenge \<Rightarrow> verified_authority \<Rightarrow> replay_claim" where
  "approval_claim a c authority =
     \<lparr>rc_schema = REPLAY_CLAIM_SCHEMA, rc_namespace = ''human-approval'',
      rc_issuer_subject_id = ha_subject_id a, rc_key_id = ha_key_id a,
      rc_subject_id = ha_subject_id a, rc_nonce = oc_nonce c,
      rc_object_digest = va_signed_body_digest authority, rc_issued_at = 0,
      rc_expires_at = oc_expires_at c\<rparr>"

definition capability_claim :: "authority_capability \<Rightarrow> verified_authority \<Rightarrow> replay_claim" where
  "capability_claim c authority =
     \<lparr>rc_schema = REPLAY_CLAIM_SCHEMA, rc_namespace = ''authority-capability'',
      rc_issuer_subject_id = ac_issuer_subject_id c, rc_key_id = ac_issuer_key_id c,
      rc_subject_id = ac_subject_id c, rc_nonce = ac_nonce c,
      rc_object_digest = va_signed_body_digest authority, rc_issued_at = ac_issued_at c,
      rc_expires_at = ac_expires_at c\<rparr>"

type_synonym ('s, 'io) ledger_consume =
  "'s \<Rightarrow> 'io \<Rightarrow> replay_claim \<Rightarrow> u64 \<Rightarrow> u64 \<Rightarrow> 's \<times> (replay_ledger_error + replay_receipt)"

text \<open>The common tail: \<open>replay_ledger.consume(&claim, ..)?\<close> after the verification.\<close>

definition verified_once ::
  "('l, 'io) ledger_consume \<Rightarrow> 'l \<Rightarrow> 'io \<Rightarrow> authority_crypto_error + verified_authority
     \<Rightarrow> (verified_authority \<Rightarrow> replay_claim) \<Rightarrow> u64 \<Rightarrow> u64
     \<Rightarrow> 'l \<times> (authority_crypto_error + verified_authority_once)" where
  "verified_once consume s io verified claim now_ms max_future_clock_skew_ms =
     (case verified of
        Inl e \<Rightarrow> (s, Err e)
      | Inr authority \<Rightarrow>
          (case consume s io (claim authority) now_ms max_future_clock_skew_ms of
             (s', Inl e) \<Rightarrow> (s', Err (Replay e))
           | (s', Inr replay) \<Rightarrow> (s', Ok \<lparr>vo_authority = authority, vo_replay = replay\<rparr>)))"

definition verify_owner_challenge_once ::
  "platform \<Rightarrow> ('e, 'p, 's) signature_library \<Rightarrow> ('l, 'io) ledger_consume \<Rightarrow> 'l \<Rightarrow> 'io \<Rightarrow> owner_challenge
     \<Rightarrow> owner_identity \<Rightarrow> verification_key_registry \<Rightarrow> challenge_context
     \<Rightarrow> 'l \<times> (authority_crypto_error + verified_authority_once)" where
  "verify_owner_challenge_once E L consume s io c ow keys cx =
     verified_once consume s io (verify_owner_challenge E L c ow keys cx) (challenge_claim c ow)
       (cc_now_ms cx) (cc_max_future_clock_skew_ms cx)"

definition verify_human_approval_once ::
  "platform \<Rightarrow> ('e, 'p, 's) signature_library \<Rightarrow> ('l, 'io) ledger_consume \<Rightarrow> 'l \<Rightarrow> 'io \<Rightarrow> human_approval
     \<Rightarrow> owner_challenge \<Rightarrow> owner_identity \<Rightarrow> human_key_registry \<Rightarrow> verification_key_registry
     \<Rightarrow> challenge_context \<Rightarrow> 'l \<times> (authority_crypto_error + verified_authority_once)" where
  "verify_human_approval_once E L consume s io a c ow human_keys keys cx =
     verified_once consume s io (verify_human_approval E L a c ow human_keys keys cx) (approval_claim a c)
       (cc_now_ms cx) (cc_max_future_clock_skew_ms cx)"

definition verify_capability_once ::
  "platform \<Rightarrow> ('e, 'p, 's) signature_library \<Rightarrow> ('l, 'io) ledger_consume \<Rightarrow> 'l \<Rightarrow> 'io
     \<Rightarrow> authority_capability \<Rightarrow> verification_key_registry \<Rightarrow> capability_context
     \<Rightarrow> 'l \<times> (authority_crypto_error + verified_authority_once)" where
  "verify_capability_once E L consume s io c keys cx =
     verified_once consume s io (verify_capability E L c keys cx) (capability_claim c)
       (pc_now_ms cx) (pc_max_future_clock_skew_ms cx)"

end
