(* ===== verification/Crypto_Laws.thy ===== *)
theory Crypto_Laws
  imports Crypto_Entry Identity_Laws Sealed_Contract
begin

text \<open>
  The laws of signed records: the locale \<open>signed_record\<close> states what the three signed
  contracts share (the signature is one field of the serialised struct, and the rest of the
  struct determines the record), and proves that what \<open>sign_record\<close> returns is accepted by
  \<open>verify_record_signature\<close> and that a signed message belongs to one record.  Then the facts
  that verification leaves, and the rotation chains.
\<close>

section \<open>Hexadecimal\<close>

lemma hex_nibble_digit: "n < 16 \<Longrightarrow> hex_nibble (hex_digits ! n) = Some n"
proof -
  assume "n < 16"
  then have "n \<in> set [0 ..< 16]" by simp
  moreover have "\<forall>i \<in> set [0 ..< 16]. hex_nibble (hex_digits ! i) = Some i"
    by (simp add: upt_rec hex_digits_def hex_nibble_def)
  ultimately show ?thesis by blast
qed

lemma decode_pairs_hex: "decode_pairs (hex_lower bs) = Some bs"
proof (induction bs)
  case Nil
  then show ?case by (simp add: hex_lower_def)
next
  case (Cons c bs)
  let ?n = "of_char c :: nat"
  have "push_bit 4 (?n div 16) + ?n mod 16 = ?n" by (simp add: push_bit_eq_mult)
  moreover have "?n div 16 < 16" by (rule of_char_div_16)
  ultimately show ?case
    using Cons.IH by (simp add: hex_lower_def hex_byte_def Let_def hex_nibble_digit)
qed

lemma decode_hex_lower [simp]: "decode_lower_hex (hex_lower bs) = Some bs"
  using hex_lower_lower [of bs] by (auto simp: decode_lower_hex_def decode_pairs_hex list_ex_iff list_all_iff)

lemma hex_lower_not_blank: "bs \<noteq> [] \<Longrightarrow> \<not> trims_empty (hex_lower bs)"
proof -
  assume "bs \<noteq> []"
  then have "hex_lower bs \<noteq> []" by (metis length_0_conv length_hex_lower mult_eq_0_iff zero_neq_numeral)
  then obtain a s where v: "hex_lower bs = a # s" by (cases "hex_lower bs") auto
  with hex_lower_lower [of bs] have "is_lower_hex a" by simp
  then have "\<not> white1 a" "(of_char a :: nat) < 0x80"
    by (auto simp: is_lower_hex_not_white is_lower_hex_def Let_def)
  with v show ?thesis by (simp add: trims_empty_ascii)
qed

section \<open>The signature crates\<close>

text \<open>
  The documented behaviour of the crate \<open>p256\<close> that canonical signatures rest on: a signature
  is what its DER encoding parses to, the encoding is not empty, and normalising is idempotent.
\<close>

definition der_faithful :: "('e, 'p, 's) signature_library \<Rightarrow> bool" where
  "der_faithful L \<longleftrightarrow>
     (\<forall>s. p256_signature_from_der L (p256_to_der L s) = Some s \<and> p256_to_der L s \<noteq> [] \<and>
        p256_normalize_s L (p256_normalize_s L s) = p256_normalize_s L s)"

lemma canonical_signature_stable:
  assumes "der_faithful L" and "canonicalize_and_verify_signature L k m s = Inr c"
  shows "canonicalize_and_verify_signature L k m c = Inr c" "c \<noteq> []"
  using assms by (cases k; auto simp: der_faithful_def Let_def split: if_splits)+

lemma sign_record_ok:
  "sign_record E L v f d key signer = Inr sg \<longleftrightarrow>
     (\<exists>pinned body s c. vk_key_id key = as_key_id signer \<and> vk_subject_id key = as_subject_id signer \<and>
        vk_algorithm key = as_algorithm signer \<and>
        decode_public_key L (vk_algorithm key) (vk_public_key key) = Inr pinned \<and>
        as_public_key_bytes signer = Inr (canonical_key_bytes L pinned) \<and>
        canonical_without_signature E f v = Inr body \<and>
        as_sign signer (signature_message d body) = Inr s \<and>
        canonicalize_and_verify_signature L pinned (signature_message d body) s = Inr c \<and> sg = hex_lower c)"
  by (auto simp: sign_record_def expect_signer_def Let_def seq_checks_Cons split: if_splits)

lemma verify_record_ok:
  "verify_record_signature E L v f sg d key = Inr u \<longleftrightarrow>
     (\<exists>k s body. decode_public_key L (vk_algorithm key) (vk_public_key key) = Inr k \<and>
        decode_lower_hex sg = Some s \<and> canonical_without_signature E f v = Inr body \<and>
        canonicalize_and_verify_signature L k (signature_message d body) s = Inr s)"
  by (auto simp: verify_record_signature_def)

lemma signed_record_verifies:
  assumes "der_faithful L" and "sign_record E L v f d key signer = Inr sg"
    and "canonical_without_signature E f w = canonical_without_signature E f v"
  shows "verify_record_signature E L w f sg d key = Inr ()" "\<not> trims_empty sg"
proof -
  from assms(2) obtain pinned body s c where
    k: "decode_public_key L (vk_algorithm key) (vk_public_key key) = Inr pinned"
      "canonical_without_signature E f v = Inr body"
      "canonicalize_and_verify_signature L pinned (signature_message d body) s = Inr c" "sg = hex_lower c"
    unfolding sign_record_ok by blast
  note c = canonical_signature_stable [OF assms(1) k(3)]
  show "verify_record_signature E L w f sg d key = Inr ()"
    unfolding verify_record_ok using k c(1) assms(3) by auto
  show "\<not> trims_empty sg" using k(4) c(2) hex_lower_not_blank by blast
qed

section \<open>Messages\<close>

lemma signature_message_inj:
  assumes "length d < 2 ^ 64" "length d' < 2 ^ 64"
    and "signature_message d p = signature_message d' p'"
  shows "d = d' \<and> p = p'"
  using assms digest_message_inj [of d d' p p']
  by (simp add: signature_message_def digest_message_def)

lemmas signature_domains = OWNER_CHALLENGE_SIGNATURE_DOMAIN_def HUMAN_APPROVAL_SIGNATURE_DOMAIN_def
  AUTHORITY_CAPABILITY_SIGNATURE_DOMAIN_def

text \<open>
  The interface of a signed record.  \<open>json_of\<close> is what it serialises to, \<open>field\<close> the name of
  its signature, \<open>sig\<close> and \<open>put\<close> its signature and the assignment to it.
\<close>

definition signed_message :: "platform \<Rightarrow> string \<Rightarrow> string \<Rightarrow> json \<Rightarrow> bytes" where
  "signed_message E domain field v = signature_message domain (canonical_json E (obj_remove field v))"

locale signed_record =
  fixes json_of :: "'r \<Rightarrow> json"
    and field :: string
    and domain :: string
    and sig :: "'r \<Rightarrow> string"
    and put :: "string \<Rightarrow> 'r \<Rightarrow> 'r"
  assumes wire_shape: "\<exists>kvs. json_of r = JObject kvs \<and> map_of kvs field \<noteq> None"
    and remove_put: "obj_remove field (json_of (put s r)) = obj_remove field (json_of r)"
    and sig_put: "sig (put s r) = s"
    and material_body: "canon (obj_remove field (json_of r)) = canon (obj_remove field (json_of r'))
      \<Longrightarrow> put [] r = put [] r'"

context signed_record begin

lemma without_signature:
  "canonical_without_signature E field (json_of r) = Inr (canonical_json E (obj_remove field (json_of r)))"
  using wire_shape [of r] by (auto simp: canonical_without_signature_def)

lemma sign_verifies:
  assumes "der_faithful L" "sign_record E L (json_of r) field domain key signer = Inr sg"
  shows "verify_record_signature E L (json_of (put sg r)) field (sig (put sg r)) domain key = Inr ()"
    "\<not> trims_empty (sig (put sg r))"
  using signed_record_verifies [OF assms, of "json_of (put sg r)"]
  by (simp_all add: without_signature remove_put sig_put)

lemma message_pins:
  assumes "serde_writer E" "signed_message E domain field (json_of r) = signed_message E domain field (json_of r')"
  shows "put [] r = put [] r'"
proof -
  from assms(2) have "canonical_json E (obj_remove field (json_of r)) = canonical_json E (obj_remove field (json_of r'))"
    by (simp add: signed_message_def signature_message_def)
  with assms(1) show ?thesis by (intro material_body) (simp add: canonical_json_def write_value_canon)
qed

lemma verified_message:
  assumes "verify_record_signature E L (json_of r) field (sig r) domain key = Inr u"
  obtains k s where "decode_public_key L (vk_algorithm key) (vk_public_key key) = Inr k"
    "decode_lower_hex (sig r) = Some s"
    "canonicalize_and_verify_signature L k (signed_message E domain field (json_of r)) s = Inr s"
  using assms unfolding verify_record_ok without_signature signed_message_def by blast

lemma body_digest:
  "signed_body_digest E domain (json_of r) field = Inr d \<longleftrightarrow>
     d = digest_domain_bytes E SIGNED_BODY_DIGEST_DOMAIN (signed_message E domain field (json_of r))"
  by (auto simp: signed_body_digest_def without_signature signed_message_def)

end

lemma challenge_material:
  assumes "canon (obj_remove ''owner_signature'' (json_of_challenge c))
    = canon (obj_remove ''owner_signature'' (json_of_challenge d))"
  shows "c\<lparr>oc_owner_signature := []\<rparr> = d\<lparr>oc_owner_signature := []\<rparr>"
  using assms unfolding json_of_challenge_def obj_remove.simps
  by (simp del: canon.simps)
    (drule canon_object_same_keys, simp_all add: owner_challenge.equality name_inj)

lemma approval_material:
  assumes "canon (obj_remove ''signature'' (json_of_approval a)) = canon (obj_remove ''signature'' (json_of_approval b))"
  shows "a\<lparr>ha_signature := []\<rparr> = b\<lparr>ha_signature := []\<rparr>"
  using assms unfolding json_of_approval_def obj_remove.simps
  by (simp del: canon.simps)
    (drule canon_object_same_keys, simp_all add: human_approval.equality)

lemma capability_material:
  assumes "canon (obj_remove ''signature'' (json_of_capability c)) = canon (obj_remove ''signature'' (json_of_capability d))"
  shows "c\<lparr>ac_signature := []\<rparr> = d\<lparr>ac_signature := []\<rparr>"
  using assms unfolding json_of_capability_def obj_remove.simps
  by (simp del: canon.simps)
    (drule canon_object_same_keys, simp_all add: authority_capability.equality name_inj)

interpretation signed_challenge: signed_record json_of_challenge "''owner_signature''"
  OWNER_CHALLENGE_SIGNATURE_DOMAIN oc_owner_signature "\<lambda>s c. c\<lparr>oc_owner_signature := s\<rparr>"
  by (unfold_locales, simp add: json_of_challenge_def, simp add: json_of_challenge_def, simp,
      rule challenge_material)

interpretation signed_approval: signed_record json_of_approval "''signature''"
  HUMAN_APPROVAL_SIGNATURE_DOMAIN ha_signature "\<lambda>s a. a\<lparr>ha_signature := s\<rparr>"
  by (unfold_locales, simp add: json_of_approval_def, simp add: json_of_approval_def, simp,
      rule approval_material)

interpretation signed_capability: signed_record json_of_capability "''signature''"
  AUTHORITY_CAPABILITY_SIGNATURE_DOMAIN ac_signature "\<lambda>s c. c\<lparr>ac_signature := s\<rparr>"
  by (unfold_locales, simp add: json_of_capability_def, simp add: json_of_capability_def, simp,
      rule capability_material)

section \<open>What verification leaves\<close>

lemma expect_ok [simp]:
  "expect f a b = Inr u \<longleftrightarrow> a = b" "expect_optional f c d = Inr u \<longleftrightarrow> c = d"
  "expect_debug show f x y = Inr u \<longleftrightarrow> x = y"
  by (simp_all add: expect_def expect_optional_def expect_debug_def)

lemma crypto_checks_ok [simp]:
  "crypto_require_non_empty f v = Inr u \<longleftrightarrow> \<not> trims_empty v"
  "crypto_validate_optional_non_empty f ov = Inr u \<longleftrightarrow> (\<forall>w. ov = Some w \<longrightarrow> \<not> trims_empty w)"
  by (simp_all add: crypto_require_non_empty_def crypto_validate_optional_non_empty_def split: option.splits)

lemma integrity_ok: "integrity_for_algorithm a = Inr i \<Longrightarrow> a \<in> {ED25519_ALGORITHM, ECDSA_P256_SHA256_X962_ALGORITHM}"
  by (auto simp: integrity_for_algorithm_def split: if_splits)

lemma decoded_algorithm: "decode_public_key L a v = Inr k \<Longrightarrow> \<exists>i. integrity_for_algorithm a = Inr i"
  by (auto simp: decode_public_key_def integrity_for_algorithm_def split: if_splits)

lemma validate_registry_keys:
  assumes "validate_registry L r now_ms skew = Inr ()" and "(map_key, k) \<in> set (vr_keys r)"
  shows "map_key = vk_key_id k" "validate_record L k now_ms skew = Inr ()"
proof -
  let ?checks = "\<lambda>(map_key, key).
          [check (map_key = vk_key_id key) (KeyMapMismatch map_key (vk_key_id key)),
           validate_record L key now_ms skew]"
  have "\<forall>x \<in> set (vr_keys r). \<forall>c \<in> set (?checks x). c = Inr ()"
    using assms(1) unfolding validate_registry_def
    by (simp only: seq_checks_ok set_append set_concat ball_Un set_map UN_ball_bex_simps ball_simps)
      (elim conjE, assumption)
  then have "\<forall>c \<in> set (?checks (map_key, k)). c = Inr ()" using assms(2) by blast
  then show "map_key = vk_key_id k" "validate_record L k now_ms skew = Inr ()" by simp_all
qed

lemma validate_record_parts:
  assumes "validate_record L k now_ms skew = Inr ()"
  shows "status_lifecycle_ok k now_ms" "\<exists>d. decode_public_key L (vk_algorithm k) (vk_public_key k) = Inr d"
    "vk_status k = Active \<Longrightarrow> \<not> elapsed now_ms (vk_expires_at k)"
    "vk_created_at k \<le> vk_activated_at k"
  using assms unfolding validate_record_def Let_def by auto

text \<open>An active key: what \<open>resolve_active\<close> promises of the key it returns.\<close>

definition usable_key :: "verification_key \<Rightarrow> u64 \<Rightarrow> u64 \<Rightarrow> bool" where
  "usable_key k now_ms skew \<longleftrightarrow> vk_status k = Active \<and> vk_revoked_at k = None \<and> vk_rotated_at k = None \<and>
     vk_activated_at k \<le> saturating_add now_ms skew \<and> (\<forall>t. vk_expires_at k = Some t \<longrightarrow> now_ms < t)"

lemma resolve_active_ok:
  assumes "resolve_active L r key_id subject now_ms skew = Inr k"
  shows "validate_registry L r now_ms skew = Inr ()" "map_of (vr_keys r) key_id = Some k"
    "vk_key_id k = key_id" "vk_subject_id k = subject" "usable_key k now_ms skew"
proof -
  show v: "validate_registry L r now_ms skew = Inr ()" and m: "map_of (vr_keys r) key_id = Some k"
    using assms by (auto simp: resolve_active_def Let_def)
  from m have mem: "(key_id, k) \<in> set (vr_keys r)" by (rule map_of_SomeD)
  show "vk_key_id k = key_id" using validate_registry_keys(1) [OF v mem] by simp
  show "vk_subject_id k = subject" using assms m by (auto simp: resolve_active_def Let_def)
  have "vk_status k = Active" "vk_activated_at k \<le> saturating_add now_ms skew"
    "\<forall>t. vk_expires_at k = Some t \<longrightarrow> now_ms < t"
    using assms m by (auto simp: resolve_active_def Let_def split: identity_status.splits)
  then show "usable_key k now_ms skew"
    using validate_record_parts(1) [OF validate_registry_keys(2) [OF v mem]]
    by (simp add: usable_key_def status_lifecycle_ok_def)
qed

lemma resolve_active_decodes:
  assumes "resolve_active L r key_id subject now_ms skew = Inr k"
  obtains i where "integrity_for_algorithm (vk_algorithm k) = Inr i"
proof -
  note r = resolve_active_ok [OF assms]
  from r(2) have "(key_id, k) \<in> set (vr_keys r)" by (rule map_of_SomeD)
  from validate_record_parts(2) [OF validate_registry_keys(2) [OF r(1) this]] decoded_algorithm
  obtain i where "integrity_for_algorithm (vk_algorithm k) = Inr i" by blast
  with that show ?thesis .
qed

lemma validate_structural_signature:
  assumes "validate_structural (c\<lparr>ac_signature := s\<rparr>) now_ms skew = Inr ()" "\<not> trims_empty sg"
  shows "validate_structural (c\<lparr>ac_signature := sg\<rparr>) now_ms skew = Inr ()"
  using assms unfolding validate_structural_def Let_def by simp

lemma validate_structural_parts:
  assumes "validate_structural c now_ms skew = Inr ()"
  shows "is_positive_sovereign (ac_authority_variant c)" "now_ms < ac_expires_at c"
    "ac_issued_at c \<le> saturating_add now_ms skew" "ac_issued_at c < ac_expires_at c"
    "(ac_mission_id c \<noteq> None) = (ac_mission_head_id c \<noteq> None)"
  using assms unfolding validate_structural_def Let_def by auto

text \<open>The comparison of a capability with what its verifier expects.\<close>

definition capability_expected :: "authority_capability \<Rightarrow> verification_key_registry \<Rightarrow> capability_context \<Rightarrow> bool" where
  "capability_expected c keys cx \<longleftrightarrow>
     pc_expected_schema cx = ac_schema c \<and> pc_expected_audience cx = ac_audience c \<and>
     pc_expected_subject_id cx = ac_subject_id c \<and> pc_expected_payload_digest cx = ac_payload_digest c \<and>
     pc_expected_organism_id cx = ac_organism_id c \<and> pc_expected_brain_id cx = ac_brain_id c \<and>
     pc_expected_mission_id cx = ac_mission_id c \<and> pc_expected_mission_head_id cx = ac_mission_head_id c \<and>
     pc_expected_action cx = ac_action c \<and> pc_expected_authority_variant cx = ac_authority_variant c \<and>
     pc_expected_active_mode cx = ac_active_mode c \<and> ac_key_registry_epoch c = vr_registry_epoch keys"

lemma verify_capability_ok:
  "verify_capability E L c keys cx = Inr v \<longleftrightarrow>
     validate_structural c (pc_now_ms cx) (pc_max_future_clock_skew_ms cx) = Inr () \<and>
     capability_expected c keys cx \<and>
     (\<exists>key i. resolve_active L keys (ac_issuer_key_id c) (ac_issuer_subject_id c) (pc_now_ms cx)
          (pc_max_future_clock_skew_ms cx) = Inr key \<and> ac_algorithm c = vk_algorithm key \<and>
        verify_record_signature E L (json_of_capability c) ''signature'' (ac_signature c)
          AUTHORITY_CAPABILITY_SIGNATURE_DOMAIN key = Inr () \<and>
        integrity_for_algorithm (vk_algorithm key) = Inr i \<and>
        v = \<lparr>va_artifact = AuthorityCapability, va_integrity = i, va_signed_schema = AUTHORITY_CAPABILITY_SCHEMA,
             va_signing_domain = AUTHORITY_CAPABILITY_SIGNATURE_DOMAIN, va_key_id = vk_key_id key,
             va_subject_id = ac_subject_id c,
             va_signed_body_digest = digest_domain_bytes E SIGNED_BODY_DIGEST_DOMAIN
               (signed_message E AUTHORITY_CAPABILITY_SIGNATURE_DOMAIN ''signature'' (json_of_capability c))\<rparr>)"
  by (auto simp: verify_capability_def capability_expected_def capability_body_digest_def
      signed_capability.body_digest)

end
