(* ===== verification/Crypto_Rotation.thy ===== *)
theory Crypto_Rotation
  imports Crypto_Authority
begin

text \<open>
  The rotation chains of a key registry: \<open>rotates_in keys k n t\<close> says that \<open>n\<close> rotations,
  each to a key of the same subject, lead from \<open>k\<close> to the key \<open>t\<close> that is not rotated.  The
  loop of the code accepts exactly the keys with such a chain.
\<close>

inductive rotates_in ::
  "(string \<times> verification_key) list \<Rightarrow> verification_key \<Rightarrow> nat \<Rightarrow> verification_key \<Rightarrow> bool" for keys where
  stop: "vk_status k \<noteq> Rotated \<Longrightarrow> rotates_in keys k 0 k"
| step: "vk_status k = Rotated \<Longrightarrow> vk_replacement_key_id k = Some i \<Longrightarrow> map_of keys i = Some k' \<Longrightarrow>
    vk_subject_id k' = vk_subject_id k \<Longrightarrow> rotates_in keys k' n t \<Longrightarrow> rotates_in keys k (Suc n) t"

inductive_cases rotates_rotatedE: "rotates_in keys k n t"

lemma rotates_in_end: "rotates_in keys k n t \<Longrightarrow> vk_status t \<noteq> Rotated \<and> vk_subject_id t = vk_subject_id k"
  by (induction rule: rotates_in.induct) auto

lemma rotates_in_unique:
  "rotates_in keys k n t \<Longrightarrow> rotates_in keys k m t' \<Longrightarrow> n = m \<and> t = t'"
proof (induction arbitrary: m t' rule: rotates_in.induct)
  case (stop k)
  then show ?case by (auto elim: rotates_rotatedE)
next
  case (step k i k' n t)
  from step.prems step.hyps obtain m' where "m = Suc m'" "rotates_in keys k' m' t'"
    by (auto elim: rotates_rotatedE)
  with step.IH show ?case by simp
qed

lemma rotation_walk_sound:
  "rotation_walk keys seen k = Inr () \<Longrightarrow> \<exists>n t. rotates_in keys k n t"
proof (induction keys seen k rule: rotation_walk.induct)
  case (1 keys seen k)
  show ?case
  proof (cases "vk_status k = Rotated")
    case False
    then show ?thesis by (blast intro: rotates_in.stop)
  next
    case True
    with "1.prems" obtain i k' where k': "vk_key_id k \<notin> set seen" "vk_replacement_key_id k = Some i"
      "map_of keys i = Some k'" "vk_subject_id k' = vk_subject_id k"
      "rotation_walk keys (vk_key_id k # seen) k' = Inr ()"
      by (subst (asm) rotation_walk.simps) (auto split: if_splits option.splits)
    with "1.IH" [of i k'] True obtain n t where "rotates_in keys k' n t" by auto
    with k' True show ?thesis by (blast intro: rotates_in.step)
  qed
qed

text \<open>Every key that was seen has a longer chain than the current one.\<close>

lemma rotation_walk_complete:
  assumes named: "\<forall>(i, k) \<in> set keys. vk_key_id k = i"
  shows "rotates_in keys k n t \<Longrightarrow> map_of keys (vk_key_id k) = Some k \<Longrightarrow>
    \<forall>i \<in> set seen. \<exists>q m u. map_of keys i = Some q \<and> rotates_in keys q m u \<and> n < m \<Longrightarrow>
    rotation_walk keys seen k = Inr ()"
proof (induction arbitrary: seen rule: rotates_in.induct)
  case (stop k)
  then show ?case by (simp add: rotation_walk.simps)
next
  case (step k i k' n t)
  from step.hyps have chain: "rotates_in keys k (Suc n) t" by (rule rotates_in.step)
  have fresh: "vk_key_id k \<notin> set seen"
  proof
    assume "vk_key_id k \<in> set seen"
    with step.prems obtain m u where "rotates_in keys k m u" "Suc n < m" by auto
    with rotates_in_unique [OF chain] show False by auto
  qed
  from step.hyps(3) named have "vk_key_id k' = i" by (auto dest: map_of_SomeD)
  then have "map_of keys (vk_key_id k') = Some k'" using step.hyps(3) by simp
  moreover have "\<exists>q m u. map_of keys j = Some q \<and> rotates_in keys q m u \<and> n < m" if "j \<in> set (vk_key_id k # seen)" for j
    using that chain step.prems by (metis Suc_lessD lessI set_ConsD)
  ultimately have "rotation_walk keys (vk_key_id k # seen) k' = Inr ()" by (intro step.IH) auto
  with step.hyps fresh show ?case by (simp add: rotation_walk.simps)
qed

text \<open>A chain is shorter than the registry.\<close>

lemma chain_keys:
  "rotates_in keys k n t \<Longrightarrow> k \<in> snd ` set keys \<Longrightarrow> m \<le> n \<Longrightarrow> \<exists>q \<in> snd ` set keys. rotates_in keys q m t"
proof (induction arbitrary: m rule: rotates_in.induct)
  case (stop k)
  then show ?case by (auto intro: rotates_in.stop)
next
  case (step k i k' n t)
  show ?case
  proof (cases "m = Suc n")
    case True
    with step.hyps step.prems(1) show ?thesis by (blast intro: rotates_in.step)
  next
    case False
    from step.hyps(3) have "k' \<in> snd ` set keys" by (force dest: map_of_SomeD)
    with step.IH [of m] step.prems(2) False show ?thesis by simp
  qed
qed

lemma rotates_in_bound:
  assumes "rotates_in keys k n t" "k \<in> snd ` set keys"
  shows "n < length keys"
proof -
  let ?f = "\<lambda>q. THE m. \<exists>u. rotates_in keys q m u"
  have f: "?f q = m" if "rotates_in keys q m u" for q m u
  proof (rule the_equality)
    show "\<exists>u. rotates_in keys q m u" using that by (rule exI)
  next
    fix l assume "\<exists>u. rotates_in keys q l u"
    then obtain u' where "rotates_in keys q l u'" ..
    from rotates_in_unique [OF this that] show "l = m" by simp
  qed
  have "{0 ..< Suc n} \<subseteq> ?f ` (snd ` set keys)"
  proof
    fix m assume "m \<in> {0 ..< Suc n}"
    then have "m \<le> n" by simp
    from chain_keys [OF assms this] obtain q where "q \<in> snd ` set keys" "rotates_in keys q m t" by blast
    from f [OF this(2), symmetric] this(1) show "m \<in> ?f ` (snd ` set keys)" by (rule image_eqI)
  qed
  then have "card {0 ..< Suc n} \<le> card (?f ` (snd ` set keys))" by (intro card_mono) simp_all
  also have "\<dots> \<le> card (snd ` set keys)" by (rule card_image_le) simp
  also have "\<dots> \<le> card (set keys)" by (rule card_image_le) simp
  also have "\<dots> \<le> length keys" by (rule card_length)
  finally show ?thesis by simp
qed

lemma validate_rotation_chains_ok:
  "validate_rotation_chains r = Inr () \<longleftrightarrow>
     (\<forall>x \<in> set (vr_keys r). rotation_walk (vr_keys r) [] (snd x) = Inr ())"
proof -
  have "(if vk_status k \<noteq> Rotated then Inr () else rotation_walk (vr_keys r) [] k) = rotation_walk (vr_keys r) [] k" for k
    by (simp add: rotation_walk.simps)
  then show ?thesis by (simp add: validate_rotation_chains_def case_prod_beta)
qed

end
