(* ===== verification/Crypto_Properties.thy ===== *)
theory Crypto_Properties
  imports Crypto_Laws Crypto_Rotation
begin

text \<open>
  The entry points that verify once, over the life of one durable replay ledger: a run of
  verifications of challenges, approvals and capabilities, with failed appends, crashes and
  reopenings in between.
\<close>

text \<open>What a verification against any replay ledger accepted was fresh.\<close>

context replay_ledger begin

lemma verified_once_fresh:
  assumes "verified_once consume s io verified claim now_ms skew = (s', Inr out)"
  shows "verified = Inr (vo_authority out)" "scope (claim (vo_authority out)) \<notin> consumed s"
    "consumed s' = insert (scope (claim (vo_authority out))) (consumed s)"
    "rr_scope_digest (vo_replay out) = scope (claim (vo_authority out))"
    "validate_at (claim (vo_authority out)) now_ms skew = Inr ()"
proof -
  obtain authority where v: "verified = Inr authority"
    using assms by (cases verified) (simp_all add: verified_once_def)
  then obtain replay where c: "consume s io (claim authority) now_ms skew = (s', Inr replay)"
    and out: "out = \<lparr>vo_authority = authority, vo_replay = replay\<rparr>"
    using assms by (auto simp: verified_once_def split: prod.splits sum.splits)
  show "verified = Inr (vo_authority out)" using v out by simp
  show "scope (claim (vo_authority out)) \<notin> consumed s"
    "consumed s' = insert (scope (claim (vo_authority out))) (consumed s)"
    "rr_scope_digest (vo_replay out) = scope (claim (vo_authority out))"
    "validate_at (claim (vo_authority out)) now_ms skew = Inr ()"
    using accept_fresh [OF c] accept_adds [OF c] accept_receipt [OF c] accept_valid [OF c] out by simp_all
qed

end

section \<open>Runs\<close>

datatype authority_event =
    VerifyChallenge append_io owner_challenge owner_identity verification_key_registry challenge_context
  | VerifyApproval append_io human_approval owner_challenge owner_identity human_key_registry
      verification_key_registry challenge_context
  | VerifyCapability append_io authority_capability verification_key_registry capability_context
  | ReopenLedger open_env

text \<open>An accepted event leaves the event, with the signed records it presented, and what was returned.\<close>

type_synonym accepted_authority = "authority_event \<times> verified_authority_once"

text \<open>What an event presents, read from the records themselves and not from the claim made of them: the
  kind of artifact, its issuer, the key and the nonce.  A challenge is signed with the key of its
  owner, and an approval answers the nonce of its challenge.\<close>

fun presented :: "authority_event \<Rightarrow> (verified_artifact \<times> string \<times> string \<times> string) option" where
  "presented (VerifyChallenge io c ow keys cx) = 
     Some (OwnerChallenge, oc_issuer_subject_id c, oi_key_id ow, oc_nonce c)"
| "presented (VerifyApproval io a c ow human_keys keys cx) =
     Some (HumanApproval, ha_subject_id a, ha_key_id a, oc_nonce c)"
| "presented (VerifyCapability io c keys cx) =
     Some (AuthorityCapability, ac_issuer_subject_id c, ac_issuer_key_id c, ac_nonce c)"
| "presented (ReopenLedger env) = None"

text \<open>The verification an event asks for, and the claim on the ledger that goes with it.\<close>

fun verification ::
  "platform \<Rightarrow> ('e, 'p, 's) signature_library \<Rightarrow> authority_event
     \<Rightarrow> (authority_crypto_error + verified_authority) option" where
  "verification E L (VerifyChallenge io c ow keys cx) = Some (verify_owner_challenge E L c ow keys cx)"
| "verification E L (VerifyApproval io a c ow human_keys keys cx) = Some (verify_human_approval E L a c ow human_keys keys cx)"
| "verification E L (VerifyCapability io c keys cx) = Some (verify_capability E L c keys cx)"
| "verification E L (ReopenLedger env) = None"

fun event_claim :: "authority_event \<Rightarrow> (verified_authority \<Rightarrow> replay_claim) option" where
  "event_claim (VerifyChallenge io c ow keys cx) = Some (challenge_claim c ow)"
| "event_claim (VerifyApproval io a c ow human_keys keys cx) = Some (approval_claim a c)"
| "event_claim (VerifyCapability io c keys cx) = Some (capability_claim c)"
| "event_claim (ReopenLedger env) = None"

definition accepted ::
  "authority_event \<Rightarrow> (persistent_ledger \<times> bytes) \<times> (authority_crypto_error + verified_authority_once)
     \<Rightarrow> ledger_system \<times> accepted_authority list" where
  "accepted ev res =
     (case res of
        ((h, f), Inl e) \<Rightarrow> ((Some h, f), [])
      | ((h, f), Inr out) \<Rightarrow> ((Some h, f), [(ev, out)]))"

fun authority_step ::
  "platform \<Rightarrow> ('e, 'p, 's) signature_library \<Rightarrow> (bytes \<Rightarrow> string + ledger_record) \<Rightarrow> ledger_system
     \<Rightarrow> authority_event \<Rightarrow> ledger_system \<times> accepted_authority list" where
  "authority_step E L parse (Some h, f) (VerifyChallenge io c ow keys cx) =
     accepted (VerifyChallenge io c ow keys cx)
       (verify_owner_challenge_once E L (persistent_consume E) (h, f) io c ow keys cx)"
| "authority_step E L parse (Some h, f) (VerifyApproval io a c ow human_keys keys cx) =
     accepted (VerifyApproval io a c ow human_keys keys cx)
       (verify_human_approval_once E L (persistent_consume E) (h, f) io a c ow human_keys keys cx)"
| "authority_step E L parse (Some h, f) (VerifyCapability io c keys cx) =
     accepted (VerifyCapability io c keys cx)
       (verify_capability_once E L (persistent_consume E) (h, f) io c keys cx)"
| "authority_step E L parse (h, f) (ReopenLedger env) =
     (fst (system_step E parse (h, f) (EReopen env)), [])"
| "authority_step E L parse (None, f) _ = ((None, f), [])"

fun authority_run ::
  "platform \<Rightarrow> ('e, 'p, 's) signature_library \<Rightarrow> (bytes \<Rightarrow> string + ledger_record) \<Rightarrow> ledger_system
     \<Rightarrow> authority_event list \<Rightarrow> ledger_system \<times> accepted_authority list" where
  "authority_run E L parse s [] = (s, [])"
| "authority_run E L parse s (ev # evs) =
     (let (s', as) = authority_step E L parse s ev; (s'', as') = authority_run E L parse s' evs
      in (s'', as @ as'))"

text \<open>An acceptance stands for its event: the verification of the event succeeded with what was
  returned, and the receipt is for the scope that the event claims.\<close>

definition stands_for :: "platform \<Rightarrow> ('e, 'p, 's) signature_library \<Rightarrow> accepted_authority \<Rightarrow> bool" where
  "stands_for E L x \<longleftrightarrow> verification E L (fst x) = Some (Inr (vo_authority (snd x))) \<and>
     (\<exists>claim. event_claim (fst x) = Some claim \<and>
        rr_scope_digest (vo_replay (snd x)) = scope_digest E (claim (vo_authority (snd x))))"

text \<open>Acceptances that present the same artifact have receipts for one scope: the claims carry exactly
  the fields of the records that name the artifact.\<close>

lemma verified_challenge_issuer:
  "verify_owner_challenge E L c ow keys cx = Inr v \<Longrightarrow> oc_issuer_subject_id c = oi_owner_id ow"
  using validate_challenge_parts(1) by (fastforce simp: verify_owner_challenge_def)

lemma presented_scope:
  assumes "stands_for E L x" "stands_for E L y" "presented (fst x) = presented (fst y)"
  shows "rr_scope_digest (vo_replay (snd x)) = rr_scope_digest (vo_replay (snd y))"
proof -
  obtain ev out where x: "x = (ev, out)" by fastforce
  obtain ew out' where y: "y = (ew, out')" by fastforce
  show ?thesis
    using assms unfolding x y stands_for_def
    by (cases ev; cases ew) (auto dest!: verified_challenge_issuer intro!: scope_digest_cong
        simp: challenge_claim_def approval_claim_def capability_claim_def)
qed

text \<open>A run of verifications is a run of its ledger.\<close>

lemma verified_once_run:
  assumes "accepted ev (verified_once (persistent_consume E) (h, f) io verified claim now_ms skew) = (s', as)"
    and "verification E L ev = Some verified" "event_claim ev = Some claim"
  shows "(\<exists>evs. system_run E parse (Some h, f) evs = (s', map (vo_replay \<circ> snd) as)) \<and>
    (\<forall>x \<in> set as. fst x = ev \<and> stands_for E L x)"
proof
  show "\<exists>evs. system_run E parse (Some h, f) evs = (s', map (vo_replay \<circ> snd) as)"
  proof (cases verified)
    case (Inl e)
    with assms(1) have "system_run E parse (Some h, f) [] = (s', map (vo_replay \<circ> snd) as)"
      by (simp add: verified_once_def accepted_def)
    then show ?thesis ..
  next
    case (Inr authority)
    with assms(1) have "system_run E parse (Some h, f) [EConsume io (claim authority) now_ms skew]
        = (s', map (vo_replay \<circ> snd) as)"
      by (auto simp: verified_once_def accepted_def split: prod.splits sum.splits)
    then show ?thesis ..
  qed
  show "\<forall>x \<in> set as. fst x = ev \<and> stands_for E L x"
    using assms durable.verified_once_fresh(1,4)
    by (fastforce simp: accepted_def stands_for_def split: prod.splits sum.splits)
qed

lemma authority_step_run:
  assumes "authority_step E L parse s ev = (s', as)"
  shows "(\<exists>evs. system_run E parse s evs = (s', map (vo_replay \<circ> snd) as)) \<and>
    (\<forall>x \<in> set as. fst x = ev \<and> stands_for E L x)"
proof -
  obtain ho f where s: "s = (ho, f)" by (cases s)
  show ?thesis
  proof (cases ev)
    case (ReopenLedger env)
    with assms s have "s' = fst (system_step E parse s (EReopen env))" "as = []" by (cases ho; simp)+
    moreover have "snd (system_step E parse s (EReopen env)) = []"
      unfolding s by (cases ho) (auto split: sum.splits)
    ultimately have "system_run E parse s [EReopen env] = (s', map (vo_replay \<circ> snd) as)"
      by (cases "system_step E parse s (EReopen env)") (simp add: Let_def)
    then have "\<exists>evs. system_run E parse s evs = (s', map (vo_replay \<circ> snd) as)" ..
    with \<open>as = []\<close> show ?thesis by simp
  next
    case v: (VerifyChallenge io c ow keys cx)
    show ?thesis
    proof (cases ho)
      case (Some h)
      with assms s v have "accepted ev (verified_once (persistent_consume E) (h, f) io
          (verify_owner_challenge E L c ow keys cx) (challenge_claim c ow) (cc_now_ms cx)
          (cc_max_future_clock_skew_ms cx)) = (s', as)" by (simp add: verify_owner_challenge_once_def)
      from verified_once_run [OF this, of L parse] v s Some show ?thesis by simp
    qed (use assms s v in \<open>auto intro: exI [of _ "[]"]\<close>)
  next
    case v: (VerifyApproval io a c ow human_keys keys cx)
    show ?thesis
    proof (cases ho)
      case (Some h)
      with assms s v have "accepted ev (verified_once (persistent_consume E) (h, f) io
          (verify_human_approval E L a c ow human_keys keys cx) (approval_claim a c) (cc_now_ms cx)
          (cc_max_future_clock_skew_ms cx)) = (s', as)" by (simp add: verify_human_approval_once_def)
      from verified_once_run [OF this, of L parse] v s Some show ?thesis by simp
    qed (use assms s v in \<open>auto intro: exI [of _ "[]"]\<close>)
  next
    case v: (VerifyCapability io c keys cx)
    show ?thesis
    proof (cases ho)
      case (Some h)
      with assms s v have "accepted ev (verified_once (persistent_consume E) (h, f) io
          (verify_capability E L c keys cx) (capability_claim c) (pc_now_ms cx)
          (pc_max_future_clock_skew_ms cx)) = (s', as)" by (simp add: verify_capability_once_def)
      from verified_once_run [OF this, of L parse] v s Some show ?thesis by simp
    qed (use assms s v in \<open>auto intro: exI [of _ "[]"]\<close>)
  qed
qed

lemma system_run_append:
  "system_run E parse s (evs @ evs') =
     (let (s', rs) = system_run E parse s evs; (s'', rs') = system_run E parse s' evs' in (s'', rs @ rs'))"
  by (induction evs arbitrary: s) (simp_all add: Let_def split_beta)

lemma authority_run_system:
  "authority_run E L parse s evs = (s', as) \<Longrightarrow>
     (\<exists>levs. system_run E parse s levs = (s', map (vo_replay \<circ> snd) as)) \<and>
     (\<forall>x \<in> set as. fst x \<in> set evs \<and> stands_for E L x)"
proof (induction evs arbitrary: s as)
  case Nil
  then show ?case by (auto intro: exI [of _ "[]"])
next
  case (Cons ev evs)
  obtain s1 as1 where st: "authority_step E L parse s ev = (s1, as1)" by fastforce
  with Cons.prems obtain as2 where run: "authority_run E L parse s1 evs = (s', as2)" "as = as1 @ as2"
    by (auto simp: Let_def split: prod.splits)
  from authority_step_run [OF st] Cons.IH [OF run(1)] obtain l1 l2 where
    "system_run E parse s l1 = (s1, map (vo_replay \<circ> snd) as1)"
    "system_run E parse s1 l2 = (s', map (vo_replay \<circ> snd) as2)" by blast
  then have "system_run E parse s (l1 @ l2) = (s', map (vo_replay \<circ> snd) as)"
    by (simp add: system_run_append run(2))
  then have "\<exists>levs. system_run E parse s levs = (s', map (vo_replay \<circ> snd) as)" ..
  moreover have "\<forall>x \<in> set as. fst x \<in> set (ev # evs) \<and> stands_for E L x"
    unfolding run(2) set_append
    using authority_step_run [OF st] Cons.IH [OF run(1)] by auto
  ultimately show ?case ..
qed


text \<open>
  The properties of \<open>crypto_authority.rs\<close>: rotation chains end, what is signed verifies, what
  verifies was signed for exactly this record by a usable key, a human approval rests on two
  signatures, and nothing is accepted twice over the life of a durable ledger.
\<close>

section \<open>Rotation\<close>

text \<open>C36: The rotation check terminates on every registry and accepts exactly those in which each
  key leads, in fewer rotations than there are keys and through keys of its own subject, to a key
  that is not rotated; cycles, missing targets and a change of subject are refused.\<close>
theorem rotation_chains_resolve:
  assumes "\<forall>(i, k) \<in> set (vr_keys r). vk_key_id k = i" and "distinct (map fst (vr_keys r))"
  shows "validate_rotation_chains r = Inr () \<longleftrightarrow>
    (\<forall>(i, k) \<in> set (vr_keys r). \<exists>n t. n < length (vr_keys r) \<and> rotates_in (vr_keys r) k n t \<and>
       vk_status t \<noteq> Rotated \<and> vk_subject_id t = vk_subject_id k)"
proof -
  have "rotation_walk (vr_keys r) [] k = Inr () \<longleftrightarrow>
      (\<exists>n t. n < length (vr_keys r) \<and> rotates_in (vr_keys r) k n t \<and>
       vk_status t \<noteq> Rotated \<and> vk_subject_id t = vk_subject_id k)" if k: "(i, k) \<in> set (vr_keys r)" for i k
  proof
    assume "rotation_walk (vr_keys r) [] k = Inr ()"
    then obtain n t where c: "rotates_in (vr_keys r) k n t" using rotation_walk_sound by blast
    moreover from k have "k \<in> snd ` set (vr_keys r)" by force
    ultimately show "\<exists>n t. n < length (vr_keys r) \<and> rotates_in (vr_keys r) k n t \<and>
       vk_status t \<noteq> Rotated \<and> vk_subject_id t = vk_subject_id k"
      using rotates_in_bound rotates_in_end by blast
  next
    assume "\<exists>n t. n < length (vr_keys r) \<and> rotates_in (vr_keys r) k n t \<and>
       vk_status t \<noteq> Rotated \<and> vk_subject_id t = vk_subject_id k"
    then obtain n t where c: "rotates_in (vr_keys r) k n t" by blast
    from assms k have "map_of (vr_keys r) (vk_key_id k) = Some k" by auto
    from rotation_walk_complete [OF assms(1) c this, of "[]"]
    show "rotation_walk (vr_keys r) [] k = Inr ()" by simp
  qed
  then show ?thesis unfolding validate_rotation_chains_ok by fastforce
qed

section \<open>Signing and verifying\<close>

lemma sign_then_verify:
  assumes "der_faithful L" and "sign_capability E L c keys signer now_ms skew = Inr c'"
    and "capability_expected c keys cx" "pc_now_ms cx = now_ms" "pc_max_future_clock_skew_ms cx = skew"
  shows "c' = c\<lparr>ac_signature := ac_signature c'\<rparr>"
    "(\<exists>v. verify_capability E L c' keys cx = Inr v \<and> va_artifact v = AuthorityCapability \<and>
       va_key_id v = ac_issuer_key_id c \<and> va_subject_id v = ac_subject_id c)"
proof -
  from assms(2) obtain key sg where st: "validate_structural (c\<lparr>ac_signature := ''pending-signature''\<rparr>) now_ms skew = Inr ()"
    and key: "resolve_active L keys (ac_issuer_key_id c) (ac_issuer_subject_id c) now_ms skew = Inr key"
      "ac_algorithm c = vk_algorithm key"
    and sg: "sign_record E L (json_of_capability c) ''signature'' AUTHORITY_CAPABILITY_SIGNATURE_DOMAIN key signer = Inr sg"
    and c': "c' = c\<lparr>ac_signature := sg\<rparr>"
    by (auto simp: sign_capability_def)
  note sv = signed_capability.sign_verifies [OF assms(1) sg]
  from sv(2) have "validate_structural c' now_ms skew = Inr ()"
    unfolding c' by (intro validate_structural_signature [OF st]) simp
  moreover obtain i where "integrity_for_algorithm (vk_algorithm key) = Inr i"
    using key(1) by (rule resolve_active_decodes)
  moreover have "capability_expected c' keys cx"
    using assms(3) by (simp add: capability_expected_def c')
  ultimately show "\<exists>v. verify_capability E L c' keys cx = Inr v \<and> va_artifact v = AuthorityCapability \<and>
       va_key_id v = ac_issuer_key_id c \<and> va_subject_id v = ac_subject_id c"
    unfolding verify_capability_ok using key sv(1) resolve_active_ok(3) [OF key(1)] assms(4,5)
    by (auto simp: c')
  show "c' = c\<lparr>ac_signature := ac_signature c'\<rparr>" by (simp add: c')
qed

text \<open>C35: What is signed verifies: a capability that \<open>sign_capability\<close> returned is the given one
  with a signature, and at the same time under the same keys every verifier that expects its
  fields accepts it.\<close>
theorem signed_capability_verifies:
  assumes "der_faithful L" and "sign_capability E L c keys signer now_ms skew = Inr c'"
    and "capability_expected c keys cx" "pc_now_ms cx = now_ms" "pc_max_future_clock_skew_ms cx = skew"
  shows "c' = c\<lparr>ac_signature := ac_signature c'\<rparr> \<and>
    (\<exists>v. verify_capability E L c' keys cx = Inr v \<and> va_artifact v = AuthorityCapability \<and>
       va_key_id v = ac_issuer_key_id c \<and> va_subject_id v = ac_subject_id c)"
  using sign_then_verify [OF assms] by blast

text \<open>C33: An accepted capability was signed as it is: it is in its time window, grants positive
  sovereign authority, is what the verifier expects, and its issuer's key is active under its
  subject; the key verifies the signature over a message that no capability with another field,
  no challenge and no approval has.\<close>
theorem verified_capability_is_signed:
  assumes "serde_writer E" and "verify_capability E L c keys cx = Inr v"
  shows "is_positive_sovereign (ac_authority_variant c) \<and> pc_now_ms cx < ac_expires_at c \<and>
    ac_issued_at c \<le> saturating_add (pc_now_ms cx) (pc_max_future_clock_skew_ms cx) \<and>
    capability_expected c keys cx \<and>
    (\<exists>key k s m. map_of (vr_keys keys) (ac_issuer_key_id c) = Some key \<and>
       vk_subject_id key = ac_issuer_subject_id c \<and> va_key_id v = vk_key_id key \<and>
       usable_key key (pc_now_ms cx) (pc_max_future_clock_skew_ms cx) \<and>
       decode_public_key L (vk_algorithm key) (vk_public_key key) = Inr k \<and>
       decode_lower_hex (ac_signature c) = Some s \<and>
       canonicalize_and_verify_signature L k m s = Inr s \<and>
       (\<forall>c'. signed_message E AUTHORITY_CAPABILITY_SIGNATURE_DOMAIN ''signature'' (json_of_capability c') = m
          \<longleftrightarrow> c'\<lparr>ac_signature := []\<rparr> = c\<lparr>ac_signature := []\<rparr>) \<and>
       (\<forall>d. signed_message E OWNER_CHALLENGE_SIGNATURE_DOMAIN ''owner_signature'' (json_of_challenge d) \<noteq> m) \<and>
       (\<forall>a. signed_message E HUMAN_APPROVAL_SIGNATURE_DOMAIN ''signature'' (json_of_approval a) \<noteq> m))"
proof -
  let ?m = "signed_message E AUTHORITY_CAPABILITY_SIGNATURE_DOMAIN ''signature'' (json_of_capability c)"
  from assms(2) obtain key i where st: "validate_structural c (pc_now_ms cx) (pc_max_future_clock_skew_ms cx) = Inr ()"
    and ex: "capability_expected c keys cx"
    and key: "resolve_active L keys (ac_issuer_key_id c) (ac_issuer_subject_id c) (pc_now_ms cx)
        (pc_max_future_clock_skew_ms cx) = Inr key"
    and sg: "verify_record_signature E L (json_of_capability c) ''signature'' (ac_signature c)
        AUTHORITY_CAPABILITY_SIGNATURE_DOMAIN key = Inr ()" and v: "va_key_id v = vk_key_id key"
    unfolding verify_capability_ok by fastforce
  from sg obtain k s where ks: "decode_public_key L (vk_algorithm key) (vk_public_key key) = Inr k"
    "decode_lower_hex (ac_signature c) = Some s" "canonicalize_and_verify_signature L k ?m s = Inr s"
    by (rule signed_capability.verified_message)
  have same: "signed_message E AUTHORITY_CAPABILITY_SIGNATURE_DOMAIN ''signature'' (json_of_capability c') = ?m
      \<longleftrightarrow> c'\<lparr>ac_signature := []\<rparr> = c\<lparr>ac_signature := []\<rparr>" for c'
  proof
    assume "c'\<lparr>ac_signature := []\<rparr> = c\<lparr>ac_signature := []\<rparr>"
    then have "json_of_capability (c'\<lparr>ac_signature := []\<rparr>) = json_of_capability (c\<lparr>ac_signature := []\<rparr>)" by simp
    then show "signed_message E AUTHORITY_CAPABILITY_SIGNATURE_DOMAIN ''signature'' (json_of_capability c') = ?m"
      using signed_capability.remove_put unfolding signed_message_def by metis
  qed (rule signed_capability.message_pins [OF assms(1)])
  have other: "signed_message E OWNER_CHALLENGE_SIGNATURE_DOMAIN ''owner_signature'' (json_of_challenge d) \<noteq> ?m"
    "signed_message E HUMAN_APPROVAL_SIGNATURE_DOMAIN ''signature'' (json_of_approval a) \<noteq> ?m" for d a
    unfolding signed_message_def
    by (auto dest!: signature_message_inj [rotated -1] simp: signature_domains)
  from validate_structural_parts [OF st] ex resolve_active_ok [OF key] v ks same other show ?thesis by blast
qed

lemma verify_challenge_parts:
  assumes "verify_owner_challenge E L c ow keys cx = Inr v"
  obtains key w where "validate_challenge c ow (cc_now_ms cx) = Inr w"
    "cc_expected_audience cx = oc_audience c" "cc_expected_decision_subject_id cx = oc_decision_subject_id c"
    "cc_expected_payload_digest cx = oc_payload_digest c" "cc_expected_brain_id cx = oc_brain_id c"
    "cc_expected_active_mode cx = oc_active_mode c"
    "resolve_active L keys (oi_key_id ow) (oi_owner_id ow) (cc_now_ms cx) (cc_max_future_clock_skew_ms cx) = Inr key"
    "ensure_pinned_public_key L (oi_key_id ow) (oi_non_exportable_public_key ow) key = Inr ()"
    "verify_record_signature E L (json_of_challenge c) ''owner_signature'' (oc_owner_signature c)
       OWNER_CHALLENGE_SIGNATURE_DOMAIN key = Inr ()"
  using assms by (auto simp: verify_owner_challenge_def)

lemma verify_approval_parts:
  assumes "verify_human_approval E L a c ow human_keys keys cx = Inr v"
  obtains w x key enrolled where "verify_owner_challenge E L c ow keys cx = Inr w"
    "validate_approval E a c ow human_keys (cc_now_ms cx) = Inr x"
    "resolve_active L keys (ha_key_id a) (ha_subject_id a) (cc_now_ms cx) (cc_max_future_clock_skew_ms cx) = Inr key"
    "map_of (hr_keys human_keys) (ha_key_id a) = Some enrolled"
    "ensure_pinned_public_key L (ha_key_id a) (hk_public_key enrolled) key = Inr ()"
    "verify_record_signature E L (json_of_approval a) ''signature'' (ha_signature a)
       HUMAN_APPROVAL_SIGNATURE_DOMAIN key = Inr ()"
  using assms by (auto simp: verify_human_approval_def)

text \<open>A key of the registry that is pinned elsewhere and verifies a signature over a message.\<close>

definition signed_by ::
  "('e, 'p, 's) signature_library \<Rightarrow> verification_key \<Rightarrow> string \<Rightarrow> string \<Rightarrow> bytes \<Rightarrow> bool" where
  "signed_by L key pinned signature m \<longleftrightarrow>
     (\<exists>k p s. decode_public_key L (vk_algorithm key) (vk_public_key key) = Inr k \<and>
        decode_public_key L (vk_algorithm key) pinned = Inr p \<and>
        canonical_key_bytes L p = canonical_key_bytes L k \<and>
        decode_lower_hex signature = Some s \<and> canonicalize_and_verify_signature L k m s = Inr s)"

lemma pinned_ok:
  "ensure_pinned_public_key L i pinned key = Inr () \<longleftrightarrow>
     (\<exists>p k. decode_public_key L (vk_algorithm key) pinned = Inr p \<and>
        decode_public_key L (vk_algorithm key) (vk_public_key key) = Inr k \<and>
        canonical_key_bytes L p = canonical_key_bytes L k)"
  by (auto simp: ensure_pinned_public_key_def)

lemma signed_byI:
  assumes "ensure_pinned_public_key L i pinned key = Inr ()"
    and "decode_public_key L (vk_algorithm key) (vk_public_key key) = Inr k"
    "decode_lower_hex signature = Some s" "canonicalize_and_verify_signature L k m s = Inr s"
  shows "signed_by L key pinned signature m"
  using assms by (auto simp: signed_by_def pinned_ok)

text \<open>A verified human approval rests on two signatures: the owner signed exactly this
  challenge with the key pinned for the owner, and the human whom the challenge names signed
  exactly this approval, which carries the digest of the challenge, with the key enrolled for
  that human; both keys are active, and the challenge is unexpired and the one the verifier
  expects.\<close>
theorem approval_rests_on_two_signatures:
  assumes "serde_writer E" and "verify_human_approval E L a c ow human_keys keys cx = Inr v"
  shows "cc_now_ms cx < oc_expires_at c \<and> cc_expected_payload_digest cx = oc_payload_digest c \<and>
    cc_expected_brain_id cx = oc_brain_id c \<and> ha_canonical_challenge_digest a = challenge_digest E c \<and>
    ha_subject_id a = oc_decision_subject_id c \<and>
    (\<exists>owner_key human_key enrolled m n.
       map_of (vr_keys keys) (oi_key_id ow) = Some owner_key \<and> vk_subject_id owner_key = oi_owner_id ow \<and>
       usable_key owner_key (cc_now_ms cx) (cc_max_future_clock_skew_ms cx) \<and>
       signed_by L owner_key (oi_non_exportable_public_key ow) (oc_owner_signature c) m \<and>
       (\<forall>d. signed_message E OWNER_CHALLENGE_SIGNATURE_DOMAIN ''owner_signature'' (json_of_challenge d) = m
          \<longrightarrow> d\<lparr>oc_owner_signature := []\<rparr> = c\<lparr>oc_owner_signature := []\<rparr>) \<and>
       map_of (vr_keys keys) (ha_key_id a) = Some human_key \<and> vk_subject_id human_key = ha_subject_id a \<and>
       usable_key human_key (cc_now_ms cx) (cc_max_future_clock_skew_ms cx) \<and>
       map_of (hr_keys human_keys) (ha_key_id a) = Some enrolled \<and> hk_status enrolled = Active \<and>
       signed_by L human_key (hk_public_key enrolled) (ha_signature a) n \<and>
       (\<forall>b. signed_message E HUMAN_APPROVAL_SIGNATURE_DOMAIN ''signature'' (json_of_approval b) = n
          \<longrightarrow> b\<lparr>ha_signature := []\<rparr> = a\<lparr>ha_signature := []\<rparr>))"
proof -
  from assms(2) obtain w x key enrolled where vc: "verify_owner_challenge E L c ow keys cx = Inr w"
    and ap: "validate_approval E a c ow human_keys (cc_now_ms cx) = Inr x"
    and key: "resolve_active L keys (ha_key_id a) (ha_subject_id a) (cc_now_ms cx)
        (cc_max_future_clock_skew_ms cx) = Inr key"
    and en: "map_of (hr_keys human_keys) (ha_key_id a) = Some enrolled"
    and pin: "ensure_pinned_public_key L (ha_key_id a) (hk_public_key enrolled) key = Inr ()"
    and sg: "verify_record_signature E L (json_of_approval a) ''signature'' (ha_signature a)
       HUMAN_APPROVAL_SIGNATURE_DOMAIN key = Inr ()" by (rule verify_approval_parts)
  from sg pin obtain n where n: "n = signed_message E HUMAN_APPROVAL_SIGNATURE_DOMAIN ''signature'' (json_of_approval a)"
    "signed_by L key (hk_public_key enrolled) (ha_signature a) n"
    by (elim signed_approval.verified_message) (blast intro: signed_byI)
  from vc obtain okey y where ch: "validate_challenge c ow (cc_now_ms cx) = Inr y"
    and ex: "cc_expected_payload_digest cx = oc_payload_digest c" "cc_expected_brain_id cx = oc_brain_id c"
    and okey: "resolve_active L keys (oi_key_id ow) (oi_owner_id ow) (cc_now_ms cx)
        (cc_max_future_clock_skew_ms cx) = Inr okey"
    and opin: "ensure_pinned_public_key L (oi_key_id ow) (oi_non_exportable_public_key ow) okey = Inr ()"
    and osg: "verify_record_signature E L (json_of_challenge c) ''owner_signature'' (oc_owner_signature c)
       OWNER_CHALLENGE_SIGNATURE_DOMAIN okey = Inr ()" by (rule verify_challenge_parts)
  from osg opin obtain m where m: "m = signed_message E OWNER_CHALLENGE_SIGNATURE_DOMAIN ''owner_signature'' (json_of_challenge c)"
    "signed_by L okey (oi_non_exportable_public_key ow) (oc_owner_signature c) m"
    by (elim signed_challenge.verified_message) (blast intro: signed_byI)
  from ap obtain k where k: "ha_canonical_challenge_digest a = challenge_digest E c"
    "ha_subject_id a = oc_decision_subject_id c" "active_key human_keys (ha_key_id a) (cc_now_ms cx) = Inr k"
    by (rule validate_approval_parts)
  then have "hk_status enrolled = Active" using en by (simp add: active_key_ok)
  with validate_challenge_parts(5) [OF ch] ex k(1,2) en n(2) m(2) resolve_active_ok(2,4,5) [OF key]
    resolve_active_ok(2,4,5) [OF okey] signed_challenge.message_pins [OF assms(1)]
    signed_approval.message_pins [OF assms(1)] show ?thesis unfolding n(1) m(1) by blast
qed

section \<open>Once\<close>

text \<open>C34: No authority is accepted twice: over any run of verifications of challenges, approvals and
  capabilities against one durable ledger, with failed appends, crashes and reopenings, every
  acceptance is of an artifact that was presented and verified, and no two acceptances are of
  artifacts of one kind with the same issuer, key and nonce in the records presented, whatever else
  the records say.\<close>
theorem authority_used_once:
  assumes "serde_writer E" "parses_canonical E parse"
    and "authority_run E L parse (None, []) evs = (s, outs)"
  shows "distinct (map (presented \<circ> fst) outs) \<and>
    (\<forall>(ev, out) \<in> set outs. ev \<in> set evs \<and> presented ev \<noteq> None \<and>
       verification E L ev = Some (Inr (vo_authority out)))"
proof -
  let ?digest = "\<lambda>x :: accepted_authority. rr_scope_digest (vo_replay (snd x))"
  from authority_run_system [OF assms(3)] obtain levs where
    run: "system_run E parse (None, []) levs = (s, map (vo_replay \<circ> snd) outs)"
    and st: "\<forall>x \<in> set outs. fst x \<in> set evs \<and> stands_for E L x" by blast
  from system_run_inv [OF assms(1,2) durable_inv_init run]
  have "distinct (map ?digest outs)" by (simp add: o_def)
  then have d: "distinct outs" "inj_on ?digest (set outs)" by (simp_all add: distinct_map)
  have same: "?digest x = ?digest y" if "x \<in> set outs" "y \<in> set outs" "presented (fst x) = presented (fst y)" for x y
    using presented_scope [OF _ _ that(3)] st that(1,2) by blast
  have "inj_on (presented \<circ> fst) (set outs)"
    by (rule inj_onI, rule inj_onD [OF d(2) same]) simp_all
  with d(1) have "distinct (map (presented \<circ> fst) outs)" by (simp add: distinct_map)
  moreover have "ev \<in> set evs \<and> presented ev \<noteq> None \<and> verification E L ev = Some (Inr (vo_authority out))"
    if "(ev, out) \<in> set outs" for ev out
  proof -
    from st that have "ev \<in> set evs" and v: "verification E L ev = Some (Inr (vo_authority out))"
      unfolding stands_for_def by fastforce+
    moreover from v have "presented ev \<noteq> None" by (cases ev) simp_all
    ultimately show ?thesis by blast
  qed
  ultimately show ?thesis by blast
qed

end
