(* ===== verification/Crypto_Witnesses.thy ===== *)
theory Crypto_Witnesses
  imports Crypto_Properties Reference_Platform
begin

text \<open>
  A concrete signature library, three keys (issuer, owner, human) of one registry, a signer for
  each, and a capability, a challenge and an approval that they sign: the properties of
  \<open>crypto_authority.rs\<close> are applied to them.
\<close>

section \<open>A signature library\<close>

definition toy_signature :: "bytes \<Rightarrow> bytes \<Rightarrow> bytes" where
  "toy_signature k m = hex_lower (sha256 reference_platform (k @ m))"

definition toy_library :: "(bytes, bytes, bytes) signature_library" where
  "toy_library = \<lparr>ed_from_bytes = Some, ed_as_bytes = id, ed_verify_strict = (\<lambda>k m s. s = toy_signature k m),
     p256_from_sec1_bytes = Some, p256_to_sec1_point = id,
     p256_signature_from_der = (\<lambda>s. if s = [] then None else Some (tl s)), p256_normalize_s = id,
     p256_verify = (\<lambda>k m s. s = toy_signature k m), p256_to_der = (\<lambda>s. CHR 0x30 # s)\<rparr>"

lemma toy_library_faithful: "der_faithful toy_library"
  by (simp add: der_faithful_def toy_library_def)

lemma toy_signature_length: "length (toy_signature k m) = 64"
  using sha256_width_reference by (simp add: toy_signature_def sha256_width_def)

definition toy_key :: "string \<Rightarrow> string \<Rightarrow> bytes \<Rightarrow> verification_key" where
  "toy_key i subject k = \<lparr>vk_key_id = i, vk_subject_id = subject, vk_algorithm = ED25519_ALGORITHM,
     vk_public_key = hex_lower k, vk_created_at = 1, vk_activated_at = 2, vk_expires_at = Some 1000,
     vk_revoked_at = None, vk_rotated_at = None, vk_replacement_key_id = None, vk_status = Active\<rparr>"

definition toy_signer :: "string \<Rightarrow> string \<Rightarrow> bytes \<Rightarrow> authority_signer" where
  "toy_signer i subject k = \<lparr>as_key_id = i, as_subject_id = subject, as_algorithm = ED25519_ALGORITHM,
     as_public_key_bytes = Inr k, as_sign = (\<lambda>m. Inr (toy_signature k m))\<rparr>"

definition public :: "char \<Rightarrow> bytes" where "public c = replicate 32 c"

definition old_key :: verification_key where
  "old_key = (toy_key ''old'' ''issuer'' (public CHR ''z''))\<lparr>vk_rotated_at := Some 5,
     vk_replacement_key_id := Some ''ik'', vk_status := Rotated\<rparr>"

definition toy_registry :: verification_key_registry where
  "toy_registry = \<lparr>vr_schema = VERIFICATION_KEY_REGISTRY_SCHEMA, vr_registry_epoch = 1,
     vr_keys = [(''hk'', toy_key ''hk'' ''human'' (public CHR ''h'')),
       (''ik'', toy_key ''ik'' ''issuer'' (public CHR ''i'')), (''ok'', toy_key ''ok'' ''owner'' (public CHR ''o'')),
       (''old'', old_key)]\<rparr>"

lemma toy_decodes [simp]:
  "decode_public_key toy_library ED25519_ALGORITHM (hex_lower (public c)) = Inr (Ed25519Key (public c))"
  by (simp add: decode_public_key_def decode_lower_hex_fixed_def toy_library_def public_def)

lemma public_not_blank [simp]: "\<not> trims_empty (hex_lower (public c))"
  by (rule hex_lower_not_blank) (simp add: public_def)

lemmas literal_not_blank = trims_empty_ascii white1_def

lemma ED25519_not_blank: "\<not> trims_empty ED25519_ALGORITHM"
  by (simp add: ED25519_ALGORITHM_def literal_not_blank del: trims_empty.simps)

lemma toy_key_valid:
  assumes "\<not> trims_empty i" "\<not> trims_empty subject"
  shows "validate_record toy_library (toy_key i subject (public c)) 50 10 = Inr ()"
  using assms
  by (simp add: validate_record_def toy_key_def status_lifecycle_ok_def elapsed_def saturating_add_def
      ED25519_not_blank Let_def)

lemma old_key_valid: "validate_record toy_library old_key 50 10 = Inr ()"
  by (simp add: validate_record_def old_key_def toy_key_def status_lifecycle_ok_def elapsed_def
      saturating_add_def ED25519_not_blank literal_not_blank Let_def del: trims_empty.simps)

lemma unrotated_walk: "vk_status k \<noteq> Rotated \<Longrightarrow> rotation_walk keys seen k = Inr ()"
  by (subst rotation_walk.simps) simp

lemma toy_rotations: "validate_rotation_chains toy_registry = Inr ()"
proof -
  have "rotation_walk (vr_keys toy_registry) [] old_key = Inr ()"
    by (subst rotation_walk.simps) (simp add: toy_registry_def old_key_def toy_key_def unrotated_walk)
  then show ?thesis
    by (simp add: validate_rotation_chains_ok) (simp add: toy_registry_def toy_key_def unrotated_walk)
qed

lemma toy_registry_valid: "validate_registry toy_library toy_registry 50 10 = Inr ()"
proof -
  have "vr_keys toy_registry \<noteq> []" "vr_schema toy_registry = VERIFICATION_KEY_REGISTRY_SCHEMA"
    by (simp_all add: toy_registry_def)
  moreover have "\<forall>(i, k) \<in> set (vr_keys toy_registry). i = vk_key_id k \<and> validate_record toy_library k 50 10 = Inr ()"
    by (simp add: toy_registry_def toy_key_valid old_key_valid literal_not_blank
        del: trims_empty.simps) (simp add: toy_key_def old_key_def)
  ultimately show ?thesis using toy_rotations by (auto simp: validate_registry_def)
qed

lemma toy_resolves:
  assumes "map_of (vr_keys toy_registry) i = Some (toy_key i subject (public c))"
  shows "resolve_active toy_library toy_registry i subject 50 10 = Inr (toy_key i subject (public c))"
  using assms toy_registry_valid
  by (simp add: resolve_active_def Let_def) (simp add: toy_key_def saturating_add_def)

lemma toy_keys:
  "resolve_active toy_library toy_registry ''ik'' ''issuer'' 50 10 = Inr (toy_key ''ik'' ''issuer'' (public CHR ''i''))"
  "resolve_active toy_library toy_registry ''ok'' ''owner'' 50 10 = Inr (toy_key ''ok'' ''owner'' (public CHR ''o''))"
  "resolve_active toy_library toy_registry ''hk'' ''human'' 50 10 = Inr (toy_key ''hk'' ''human'' (public CHR ''h''))"
  by (rule toy_resolves; simp add: toy_registry_def)+

lemma toy_signs:
  assumes "canonical_without_signature reference_platform f v = Inr body"
  obtains sg where "sign_record reference_platform toy_library v f d (toy_key i subject (public c))
    (toy_signer i subject (public c)) = Inr sg"
proof -
  have "\<exists>sg. sign_record reference_platform toy_library v f d (toy_key i subject (public c))
      (toy_signer i subject (public c)) = Inr sg"
    unfolding sign_record_ok using assms toy_signature_length
    by (simp add: toy_key_def toy_signer_def) (simp add: toy_library_def)
  with that show ?thesis by blast
qed

section \<open>A signed capability\<close>

definition toy_capability :: authority_capability where
  "toy_capability = \<lparr>ac_schema = AUTHORITY_CAPABILITY_SCHEMA, ac_capability_id = ''cap'',
     ac_issuer_subject_id = ''issuer'', ac_issuer_key_id = ''ik'', ac_algorithm = ED25519_ALGORITHM,
     ac_subject_id = ''s'', ac_audience = ''a'', ac_organism_id = ''o'', ac_brain_id = ''b'',
     ac_mission_id = None, ac_mission_head_id = None, ac_action = ''mission.land'',
     ac_authority_variant = Policy, ac_active_mode = PolicyAutonomous, ac_payload_digest = ''p'',
     ac_policy_registry_digest = ''d'', ac_constitution_digest = ''d'', ac_key_registry_epoch = 1,
     ac_issued_at = 40, ac_expires_at = 100, ac_nonce = ''n'', ac_signature = []\<rparr>"

definition toy_context :: capability_context where
  "toy_context = \<lparr>pc_now_ms = 50, pc_max_future_clock_skew_ms = 10,
     pc_expected_schema = AUTHORITY_CAPABILITY_SCHEMA, pc_expected_audience = ''a'',
     pc_expected_subject_id = ''s'', pc_expected_payload_digest = ''p'', pc_expected_organism_id = ''o'',
     pc_expected_brain_id = ''b'', pc_expected_mission_id = None, pc_expected_mission_head_id = None,
     pc_expected_action = ''mission.land'', pc_expected_authority_variant = Policy,
     pc_expected_active_mode = PolicyAutonomous\<rparr>"

lemma toy_capability_named:
  assumes "\<not> trims_empty i"
  obtains c where "sign_capability reference_platform toy_library (toy_capability\<lparr>ac_capability_id := i\<rparr>) toy_registry
      (toy_signer ''ik'' ''issuer'' (public CHR ''i'')) 50 10 = Inr c"
proof -
  let ?c = "toy_capability\<lparr>ac_capability_id := i\<rparr>"
  obtain sg where sg: "sign_record reference_platform toy_library (json_of_capability ?c) ''signature''
      AUTHORITY_CAPABILITY_SIGNATURE_DOMAIN (toy_key ''ik'' ''issuer'' (public CHR ''i''))
      (toy_signer ''ik'' ''issuer'' (public CHR ''i'')) = Inr sg"
    using toy_signs [OF signed_capability.without_signature] by blast
  have st: "validate_structural (?c\<lparr>ac_signature := ''pending-signature''\<rparr>) 50 10 = Inr ()"
    using assms
    by (simp add: validate_structural_def toy_capability_def is_positive_sovereign_def saturating_add_def
        integrity_for_algorithm_def ED25519_ALGORITHM_def literal_not_blank Let_def del: trims_empty.simps)
  have f: "ac_issuer_key_id ?c = ''ik''" "ac_issuer_subject_id ?c = ''issuer''"
    "ac_algorithm ?c = vk_algorithm (toy_key ''ik'' ''issuer'' (public CHR ''i''))"
    by (simp_all add: toy_capability_def toy_key_def)
  have "sign_capability reference_platform toy_library ?c toy_registry
      (toy_signer ''ik'' ''issuer'' (public CHR ''i'')) 50 10 = Inr (?c\<lparr>ac_signature := sg\<rparr>)"
    unfolding sign_capability_def st f(1,2) toy_keys(1) using sg f(3) by simp
  with that show ?thesis .
qed

lemma toy_capability_signed:
  obtains c where "sign_capability reference_platform toy_library toy_capability toy_registry
      (toy_signer ''ik'' ''issuer'' (public CHR ''i'')) 50 10 = Inr c"
proof -
  have "toy_capability\<lparr>ac_capability_id := ''cap''\<rparr> = toy_capability" by (simp add: toy_capability_def)
  with toy_capability_named [of "''cap''"] that show ?thesis
    by (simp add: literal_not_blank del: trims_empty.simps) blast
qed

lemma toy_capability_expected: "capability_expected toy_capability toy_registry toy_context"
  by (simp add: capability_expected_def toy_capability_def toy_registry_def toy_context_def)

lemma toy_context_time: "pc_now_ms toy_context = 50" "pc_max_future_clock_skew_ms toy_context = 10"
  by (simp_all add: toy_context_def)

lemma signed_capability_verifies_witness:
  "\<exists>c v. sign_capability reference_platform toy_library toy_capability toy_registry
      (toy_signer ''ik'' ''issuer'' (public CHR ''i'')) 50 10 = Inr c \<and>
    verify_capability reference_platform toy_library c toy_registry toy_context = Inr v"
proof -
  obtain c where c: "sign_capability reference_platform toy_library toy_capability toy_registry
      (toy_signer ''ik'' ''issuer'' (public CHR ''i'')) 50 10 = Inr c" by (rule toy_capability_signed)
  from signed_capability_verifies [OF toy_library_faithful this toy_capability_expected toy_context_time] c
  show ?thesis by blast
qed

lemma rotation_chains_resolve_witness:
  "\<exists>n t. n < length (vr_keys toy_registry) \<and> rotates_in (vr_keys toy_registry) old_key n t \<and>
     vk_status t \<noteq> Rotated \<and> vk_subject_id t = ''issuer''"
proof -
  have named: "\<forall>(i, k) \<in> set (vr_keys toy_registry). vk_key_id k = i" "distinct (map fst (vr_keys toy_registry))"
    by (simp_all add: toy_registry_def toy_key_def old_key_def)
  have "(''old'', old_key) \<in> set (vr_keys toy_registry)" "vk_subject_id old_key = ''issuer''"
    by (simp_all add: toy_registry_def old_key_def toy_key_def)
  with rotation_chains_resolve [OF named] toy_rotations show ?thesis by fastforce
qed

lemma verified_capability_is_signed_witness:
  "\<exists>(c :: authority_capability) s. decode_lower_hex (ac_signature c) = Some s \<and> s \<noteq> [] \<and> pc_now_ms toy_context < ac_expires_at c"
proof -
  obtain c where c: "sign_capability reference_platform toy_library toy_capability toy_registry
      (toy_signer ''ik'' ''issuer'' (public CHR ''i'')) 50 10 = Inr c" by (rule toy_capability_signed)
  obtain v where "verify_capability reference_platform toy_library c toy_registry toy_context = Inr v"
    using sign_then_verify [OF toy_library_faithful c toy_capability_expected toy_context_time] by blast
  from verified_capability_is_signed [OF serde_writer_reference this] obtain k m s where
    "pc_now_ms toy_context < ac_expires_at c" "decode_lower_hex (ac_signature c) = Some s"
    "canonicalize_and_verify_signature toy_library k m s = Inr s" by blast
  moreover from this(3) toy_library_faithful have "s \<noteq> []" using canonical_signature_stable(2) by blast
  ultimately show ?thesis by blast
qed

section \<open>A signed challenge and a signed approval\<close>

definition toy_owner :: owner_identity where
  "toy_owner = sample_owner\<lparr>oi_non_exportable_public_key := hex_lower (public CHR ''o'')\<rparr>"

definition toy_human :: human_key where
  "toy_human = sample_key\<lparr>hk_public_key := hex_lower (public CHR ''h'')\<rparr>"

definition toy_humans :: human_key_registry where
  "toy_humans = \<lparr>hr_owner_id = ''owner'', hr_registry_epoch = 1, hr_keys = [(''hk'', toy_human)]\<rparr>"

definition toy_challenge_context :: challenge_context where
  "toy_challenge_context = \<lparr>cc_now_ms = 50, cc_max_future_clock_skew_ms = 10,
     cc_expected_schema = OWNER_CHALLENGE_SIGNED_SCHEMA, cc_expected_audience = ''a'',
     cc_expected_decision_subject_id = ''human'', cc_expected_payload_digest = ''d'',
     cc_expected_brain_id = ''b'', cc_expected_mission_id = None, cc_expected_mission_head_id = None,
     cc_expected_active_mode = HumanGated\<rparr>"

definition toy_challenge :: "string \<Rightarrow> owner_challenge" where
  "toy_challenge sg = sample_challenge\<lparr>oc_owner_signature := sg\<rparr>"

definition toy_approval :: "string \<Rightarrow> string \<Rightarrow> human_approval" where
  "toy_approval sg sg' = (sample_approval reference_platform)
     \<lparr>ha_canonical_challenge_digest := challenge_digest reference_platform (toy_challenge sg), ha_signature := sg'\<rparr>"

lemma toy_owner_valid: "validate_owner toy_owner = Inr ()"
  by (simp add: validate_owner_def toy_owner_def sample_owner_def identity_required_def literal_not_blank
      del: trims_empty.simps)

lemma toy_challenge_valid:
  assumes "\<not> trims_empty sg"
  shows "validate_challenge (toy_challenge sg) toy_owner 50 = Inr opaque_signature_unverified"
  using assms toy_owner_valid
  by (simp add: validate_challenge_def toy_challenge_def sample_challenge_def challenge_required_def
      challenge_optional_def identity_required_def literal_not_blank del: trims_empty.simps)
    (simp add: toy_owner_def sample_owner_def)

lemma toy_humans_valid:
  "validate_key_registry toy_humans 50 = Inr ()" "active_key toy_humans ''hk'' 50 = Inr toy_human"
proof -
  have k: "validate_key_record toy_human 50 = Inr ()"
    by (simp add: validate_key_record_def toy_human_def sample_key_def identity_required_def
        map_filter_simps literal_not_blank del: trims_empty.simps)
  then show "validate_key_registry toy_humans 50 = Inr ()"
    by (simp add: validate_key_registry_def toy_humans_def literal_not_blank del: trims_empty.simps)
      (simp add: toy_human_def sample_key_def)
  from k show "active_key toy_humans ''hk'' 50 = Inr toy_human"
    by (simp add: active_key_ok toy_humans_def) (simp add: toy_human_def sample_key_def)
qed

lemma toy_approval_valid:
  assumes "\<not> trims_empty sg" "\<not> trims_empty sg'"
  shows "\<exists>v. validate_approval reference_platform (toy_approval sg sg') (toy_challenge sg) toy_owner toy_humans 50 = Inr v"
proof -
  have "\<not> trims_empty (challenge_digest reference_platform (toy_challenge sg))"
    unfolding challenge_digest_def
    by (rule digest_syntax_not_blank [OF digest_canonical_syntax [OF sha256_width_reference]])
  moreover have "hr_owner_id toy_humans = oi_owner_id toy_owner" "hk_subject_id toy_human = ''human''"
    by (simp_all add: toy_humans_def toy_owner_def sample_owner_def toy_approval_def sample_approval_def
        toy_human_def sample_key_def)
  moreover have "oc_challenge_id (toy_challenge sg) = ''ch''" "oc_decision_subject_id (toy_challenge sg) = ''human''"
    by (simp_all add: toy_challenge_def sample_challenge_def)
  ultimately show ?thesis
    using toy_challenge_valid [OF assms(1)] toy_humans_valid assms(2)
    by (simp add: validate_approval_def toy_approval_def sample_approval_def identity_required_def
        literal_not_blank del: trims_empty.simps)
qed

lemma toy_signed:
  obtains sg sg' where "verify_human_approval reference_platform toy_library (toy_approval sg sg') (toy_challenge sg)
      toy_owner toy_humans toy_registry toy_challenge_context
    = Inr \<lparr>va_artifact = HumanApproval, va_integrity = VerifiedEd25519,
        va_signed_schema = HUMAN_APPROVAL_SIGNED_SCHEMA, va_signing_domain = HUMAN_APPROVAL_SIGNATURE_DOMAIN,
        va_key_id = ''hk'', va_subject_id = ''human'',
        va_signed_body_digest = digest_domain_bytes reference_platform SIGNED_BODY_DIGEST_DOMAIN
          (signed_message reference_platform HUMAN_APPROVAL_SIGNATURE_DOMAIN ''signature''
            (json_of_approval (toy_approval sg sg')))\<rparr>"
proof -
  let ?o = "toy_key ''ok'' ''owner'' (public CHR ''o'')" and ?h = "toy_key ''hk'' ''human'' (public CHR ''h'')"
  obtain sg where "sign_record reference_platform toy_library (json_of_challenge (toy_challenge [])) ''owner_signature''
      OWNER_CHALLENGE_SIGNATURE_DOMAIN ?o (toy_signer ''ok'' ''owner'' (public CHR ''o'')) = Inr sg"
    using toy_signs [OF signed_challenge.without_signature] by blast
  from signed_challenge.sign_verifies [OF toy_library_faithful this]
  have c: "verify_record_signature reference_platform toy_library (json_of_challenge (toy_challenge sg)) ''owner_signature''
      (oc_owner_signature (toy_challenge sg)) OWNER_CHALLENGE_SIGNATURE_DOMAIN ?o = Inr ()" "\<not> trims_empty sg"
    by (simp_all add: toy_challenge_def)
  obtain sg' where "sign_record reference_platform toy_library (json_of_approval (toy_approval sg [])) ''signature''
      HUMAN_APPROVAL_SIGNATURE_DOMAIN ?h (toy_signer ''hk'' ''human'' (public CHR ''h'')) = Inr sg'"
    using toy_signs [OF signed_approval.without_signature] by blast
  from signed_approval.sign_verifies [OF toy_library_faithful this]
  have a: "verify_record_signature reference_platform toy_library (json_of_approval (toy_approval sg sg')) ''signature''
      (ha_signature (toy_approval sg sg')) HUMAN_APPROVAL_SIGNATURE_DOMAIN ?h = Inr ()" "\<not> trims_empty sg'"
    by (simp_all add: toy_approval_def)
  have alg: "vk_algorithm ?o = ED25519_ALGORITHM" "vk_algorithm ?h = ED25519_ALGORITHM"
    "vk_public_key ?o = hex_lower (public CHR ''o'')" "vk_public_key ?h = hex_lower (public CHR ''h'')"
    "vk_key_id ?h = ''hk''" "vk_subject_id ?h = ''human''"
    by (simp_all add: toy_key_def)
  have ids: "oi_key_id toy_owner = ''ok''" "oi_owner_id toy_owner = ''owner''"
    "ha_key_id (toy_approval sg sg') = ''hk''" "ha_subject_id (toy_approval sg sg') = ''human''"
    "cc_now_ms toy_challenge_context = 50" "cc_max_future_clock_skew_ms toy_challenge_context = 10"
    by (simp_all add: toy_owner_def sample_owner_def toy_approval_def sample_approval_def toy_challenge_context_def)
  have pins: "ensure_pinned_public_key toy_library ''ok'' (oi_non_exportable_public_key toy_owner) ?o = Inr ()"
    "ensure_pinned_public_key toy_library ''hk'' (hk_public_key toy_human) ?h = Inr ()"
    by (simp_all add: pinned_ok alg toy_owner_def toy_human_def)
  have i: "integrity_for_algorithm ED25519_ALGORITHM = Inr VerifiedEd25519" by (simp add: integrity_for_algorithm_def)
  have en: "map_of (hr_keys toy_humans) ''hk'' = Some toy_human" by (simp add: toy_humans_def)
  obtain w where vc: "verify_owner_challenge reference_platform toy_library (toy_challenge sg) toy_owner toy_registry
      toy_challenge_context = Inr w"
    using toy_challenge_valid [OF c(2)] toy_keys(2) pins(1) c(1) i alg(1)
    unfolding verify_owner_challenge_def ids
    by (simp add: signed_body_digest_def signed_challenge.without_signature)
      (simp add: toy_challenge_context_def toy_challenge_def sample_challenge_def)
  obtain x where "validate_approval reference_platform (toy_approval sg sg') (toy_challenge sg) toy_owner toy_humans 50 = Inr x"
    using toy_approval_valid [OF c(2) a(2)] by blast
  with vc toy_keys(3) en pins(2) a(1) i alg(2) show ?thesis
    by (intro that [of sg sg']) (simp add: verify_human_approval_def ids signed_approval.body_digest alg)
qed

lemma approval_rests_on_two_signatures_witness:
  "\<exists>sg sg' enrolled. map_of (hr_keys toy_humans) ''hk'' = Some enrolled \<and> hk_status enrolled = Active \<and>
     ha_canonical_challenge_digest (toy_approval sg sg') = challenge_digest reference_platform (toy_challenge sg)"
proof -
  obtain sg sg' v where "verify_human_approval reference_platform toy_library (toy_approval sg sg') (toy_challenge sg)
      toy_owner toy_humans toy_registry toy_challenge_context = Inr v" using toy_signed by blast
  from approval_rests_on_two_signatures [OF serde_writer_reference this] show ?thesis
    by (simp add: toy_approval_def sample_approval_def) blast
qed

section \<open>A run\<close>

lemma toy_claim_valid:
  assumes "verify_capability reference_platform toy_library c toy_registry toy_context = Inr v"
    and "c = toy_capability\<lparr>ac_capability_id := i, ac_signature := ac_signature c\<rparr>"
  shows "validate_at (capability_claim c v) 50 10 = Inr ()"
proof -
  from assms(1) have "\<exists>p. va_signed_body_digest v = digest_domain_bytes reference_platform SIGNED_BODY_DIGEST_DOMAIN p"
    unfolding verify_capability_ok by auto
  then have "digest_syntax (va_signed_body_digest v)"
    using digest_domain_bytes_syntax [OF sha256_width_reference] by auto
  then have "\<not> trims_empty (va_signed_body_digest v)" by (rule digest_syntax_not_blank)
  moreover have "rc_issuer_subject_id (capability_claim c v) = ''issuer''" "rc_key_id (capability_claim c v) = ''ik''"
    "rc_subject_id (capability_claim c v) = ''s''" "rc_nonce (capability_claim c v) = ''n''"
    "rc_issued_at (capability_claim c v) = 40" "rc_expires_at (capability_claim c v) = 100"
    by (subst assms(2), simp add: capability_claim_def toy_capability_def)+
  moreover have "rc_namespace (capability_claim c v) = ''authority-capability''"
    "rc_schema (capability_claim c v) = REPLAY_CLAIM_SCHEMA"
    "rc_object_digest (capability_claim c v) = va_signed_body_digest v"
    by (simp_all add: capability_claim_def)
  ultimately show ?thesis
    by (simp add: validate_at_def validate_static_def claim_required_def saturating_add_def literal_not_blank Let_def
        del: trims_empty.simps)
qed

lemma toy_capability_verifies:
  assumes "\<not> trims_empty i"
  obtains c v where "c = toy_capability\<lparr>ac_capability_id := i, ac_signature := ac_signature c\<rparr>"
    "verify_capability reference_platform toy_library c toy_registry toy_context = Inr v"
    "validate_at (capability_claim c v) 50 10 = Inr ()"
proof -
  let ?c = "toy_capability\<lparr>ac_capability_id := i\<rparr>"
  have "capability_expected ?c toy_registry toy_context"
    using toy_capability_expected by (simp add: capability_expected_def)
  moreover obtain c where c: "sign_capability reference_platform toy_library ?c toy_registry
      (toy_signer ''ik'' ''issuer'' (public CHR ''i'')) 50 10 = Inr c" by (rule toy_capability_named [OF assms])
  ultimately have sv: "c = ?c\<lparr>ac_signature := ac_signature c\<rparr>"
    "\<exists>v. verify_capability reference_platform toy_library c toy_registry toy_context = Inr v"
    using sign_then_verify [OF toy_library_faithful c _ toy_context_time] by blast+
  then obtain v where v: "verify_capability reference_platform toy_library c toy_registry toy_context = Inr v" by blast
  show ?thesis by (rule that [OF sv(1) v toy_claim_valid [OF v sv(1)]])
qed

text \<open>A capability is presented, then another one with its nonce, then the first one again: the first
  presentation is the only one accepted.\<close>

lemma authority_used_once_witness:
  "\<exists>c d. let events = [ReopenLedger good_open, VerifyCapability good_append c toy_registry toy_context,
         VerifyCapability good_append d toy_registry toy_context, VerifyCapability good_append c toy_registry toy_context];
       outs = snd (authority_run reference_platform toy_library (inverse_parse reference_platform) (None, []) events)
     in ac_capability_id c \<noteq> ac_capability_id d \<and> ac_nonce c = ac_nonce d \<and>
       map fst outs = [VerifyCapability good_append c toy_registry toy_context] \<and>
       distinct (map (presented \<circ> fst) outs)"
proof -
  obtain c v where c: "c = toy_capability\<lparr>ac_capability_id := ''c'', ac_signature := ac_signature c\<rparr>"
    and v: "verify_capability reference_platform toy_library c toy_registry toy_context = Inr v"
      "validate_at (capability_claim c v) 50 10 = Inr ()"
    by (rule toy_capability_verifies [of "''c''"]) (simp_all add: literal_not_blank del: trims_empty.simps)
  obtain d w where d: "d = toy_capability\<lparr>ac_capability_id := ''d'', ac_signature := ac_signature d\<rparr>"
    and w: "verify_capability reference_platform toy_library d toy_registry toy_context = Inr w"
      "validate_at (capability_claim d w) 50 10 = Inr ()"
    by (rule toy_capability_verifies [of "''d''"]) (simp_all add: literal_not_blank del: trims_empty.simps)
  have fields: "ac_issuer_subject_id d = ac_issuer_subject_id c" "ac_issuer_key_id d = ac_issuer_key_id c"
    "ac_nonce d = ac_nonce c" "ac_capability_id c \<noteq> ac_capability_id d"
    by (subst c, subst d, simp add: toy_capability_def)+
  then have scope: "scope_digest reference_platform (capability_claim d w) = scope_digest reference_platform (capability_claim c v)"
    by (intro scope_digest_cong) (simp_all add: capability_claim_def)
  let ?evs = "[ReopenLedger good_open, VerifyCapability good_append c toy_registry toy_context,
         VerifyCapability good_append d toy_registry toy_context, VerifyCapability good_append c toy_registry toy_context]"
  obtain s outs where run: "authority_run reference_platform toy_library (inverse_parse reference_platform) (None, []) ?evs
      = (s, outs)" by fastforce
  from run have "map fst outs = [VerifyCapability good_append c toy_registry toy_context]"
    using v w scope
    by (simp add: ledger_open_def good_open_def replay_records_def verify_capability_once_def verified_once_def
        accepted_def persistent_consume_def good_append_def toy_context_time Let_def)
      auto
  moreover have "distinct (map (presented \<circ> fst) outs)"
    using authority_used_once [OF serde_writer_reference parses_canonical_inverse [OF serde_writer_reference] run] by blast
  ultimately show ?thesis using run fields by (intro exI [of _ c] exI [of _ d]) (simp add: Let_def)
qed

end
