(* ===== verification/Autonomy_Base.thy ===== *)
theory Autonomy_Base
  imports Action_Policy Sealed_Contract
begin

text \<open>
  \<open>m1nd-control/src/autonomy.rs\<close>, the vocabulary its contracts share: schemas and digest
  domains, the errors, the small field checks that every validator repeats, and the digest of a
  versioned core.  An error that the code builds from a \<open>CanonicalError\<close> cannot occur: the
  contracts hold strings, integers, booleans and enums only, which always serialise.  A
  \<open>BTreeSet\<close> of strings is the list of its elements in the order of traversal.
\<close>

section \<open>Constants\<close>

type_synonym u16 = "16 word"

definition SAFETY_KERNEL_SCHEMA :: string where
  "SAFETY_KERNEL_SCHEMA = ''m1nd-safety-kernel-v1''"
definition CONSTITUTION_SCHEMA :: string where
  "CONSTITUTION_SCHEMA = ''m1nd-constitution-store-v1''"
definition CONSTITUTION_AMENDMENT_SCHEMA :: string where
  "CONSTITUTION_AMENDMENT_SCHEMA = ''m1nd-constitution-amendment-v1''"
definition INDEPENDENCE_SPEC_SCHEMA :: string where
  "INDEPENDENCE_SPEC_SCHEMA = ''m1nd-independence-spec-v1''"
definition AUTONOMY_EPOCH_SCHEMA :: string where
  "AUTONOMY_EPOCH_SCHEMA = ''m1nd-autonomy-epoch-v1''"
definition AUTONOMY_GRANT_SCHEMA :: string where
  "AUTONOMY_GRANT_SCHEMA = ''m1nd-autonomy-grant-v1''"
definition SOVEREIGN_ACTION_INTENT_SCHEMA :: string where
  "SOVEREIGN_ACTION_INTENT_SCHEMA = ''m1nd-sovereign-action-intent-v1''"
definition SENTINEL_VERDICT_SCHEMA :: string where
  "SENTINEL_VERDICT_SCHEMA = ''m1nd-sentinel-verdict-v1''"
definition SENTINEL_RED_OUTBOX_SCHEMA :: string where
  "SENTINEL_RED_OUTBOX_SCHEMA = ''m1nd-sentinel-red-outbox-v1''"
definition RED_LATCH_RECEIPT_SCHEMA :: string where
  "RED_LATCH_RECEIPT_SCHEMA = ''m1nd-red-latch-receipt-v1''"
definition SAFETY_ACTION_INTENT_SCHEMA :: string where
  "SAFETY_ACTION_INTENT_SCHEMA = ''m1nd-safety-action-intent-v1''"
definition SAFETY_CAPABILITY_SCHEMA :: string where
  "SAFETY_CAPABILITY_SCHEMA = ''m1nd-safety-capability-v1''"
definition AUTHORITY_DECISION_SCHEMA :: string where
  "AUTHORITY_DECISION_SCHEMA = ''m1nd-authority-decision-v1''"
definition AUTONOMY_CAPABILITY_SCHEMA :: string where
  "AUTONOMY_CAPABILITY_SCHEMA = ''m1nd-autonomy-capability-v1''"
definition AUTONOMY_ACTIVATION_RECEIPT_SCHEMA :: string where
  "AUTONOMY_ACTIVATION_RECEIPT_SCHEMA = ''m1nd-autonomy-activation-receipt-v1''"
definition SAFETY_KERNEL_DIGEST_DOMAIN :: string where
  "SAFETY_KERNEL_DIGEST_DOMAIN = ''m1nd-safety-kernel-v1''"
definition CONSTITUTION_DIGEST_DOMAIN :: string where
  "CONSTITUTION_DIGEST_DOMAIN = ''m1nd-constitution-v1''"
definition CONSTITUTION_AMENDMENT_DIGEST_DOMAIN :: string where
  "CONSTITUTION_AMENDMENT_DIGEST_DOMAIN = ''m1nd-constitution-amendment-v1''"
definition INDEPENDENCE_SPEC_DIGEST_DOMAIN :: string where
  "INDEPENDENCE_SPEC_DIGEST_DOMAIN = ''m1nd-independence-spec-v1''"
definition AUTONOMY_GRANT_DIGEST_DOMAIN :: string where
  "AUTONOMY_GRANT_DIGEST_DOMAIN = ''m1nd-autonomy-grant-v1''"
definition AUTONOMY_GRANTS_DIGEST_DOMAIN :: string where
  "AUTONOMY_GRANTS_DIGEST_DOMAIN = ''m1nd-autonomy-grants-v1''"
definition SOVEREIGN_INTENT_DIGEST_DOMAIN :: string where
  "SOVEREIGN_INTENT_DIGEST_DOMAIN = ''m1nd-sovereign-intent-v1''"
definition SENTINEL_VERDICT_DIGEST_DOMAIN :: string where
  "SENTINEL_VERDICT_DIGEST_DOMAIN = ''m1nd-sentinel-verdict-v1''"
definition SENTINEL_RED_OUTBOX_RECORD_DIGEST_DOMAIN :: string where
  "SENTINEL_RED_OUTBOX_RECORD_DIGEST_DOMAIN = ''m1nd-sentinel-red-outbox-record-v1''"
definition RED_LATCH_RECEIPT_DIGEST_DOMAIN :: string where
  "RED_LATCH_RECEIPT_DIGEST_DOMAIN = ''m1nd-red-latch-receipt-v1''"
definition SAFETY_ACTION_INTENT_DIGEST_DOMAIN :: string where
  "SAFETY_ACTION_INTENT_DIGEST_DOMAIN = ''m1nd-safety-action-intent-v1''"
definition SAFETY_EFFECTS_DIGEST_DOMAIN :: string where
  "SAFETY_EFFECTS_DIGEST_DOMAIN = ''m1nd-safety-negative-effects-v1''"
definition SAFETY_CAPABILITY_DIGEST_DOMAIN :: string where
  "SAFETY_CAPABILITY_DIGEST_DOMAIN = ''m1nd-safety-capability-v1''"
definition AUTHORITY_DECISION_DIGEST_DOMAIN :: string where
  "AUTHORITY_DECISION_DIGEST_DOMAIN = ''m1nd-authority-decision-v1''"
definition AUTONOMY_CAPABILITY_DIGEST_DOMAIN :: string where
  "AUTONOMY_CAPABILITY_DIGEST_DOMAIN = ''m1nd-autonomy-capability-v1''"
definition AUTONOMY_ACTIVATION_RECEIPT_DIGEST_DOMAIN :: string where
  "AUTONOMY_ACTIVATION_RECEIPT_DIGEST_DOMAIN = ''m1nd-autonomy-activation-receipt-v1''"
definition AUTONOMY_EPOCH_REFERENCE_DIGEST_DOMAIN :: string where
  "AUTONOMY_EPOCH_REFERENCE_DIGEST_DOMAIN = ''m1nd-autonomy-epoch-reference-v1''"
definition IMMUTABLE_VERIFIER_SEATS :: u16 where
  "IMMUTABLE_VERIFIER_SEATS = 4"
definition IMMUTABLE_QUORUM_THRESHOLD :: u16 where
  "IMMUTABLE_QUORUM_THRESHOLD = 3"
definition IMMUTABLE_FAILURE_DOMAINS :: u16 where
  "IMMUTABLE_FAILURE_DOMAINS = 3"

text \<open>\<open>CANONICALIZATION_VERSION\<close> of \<open>canonical.rs\<close>, the version every intent pins.\<close>

definition CANONICALIZATION_VERSION :: string where
  "CANONICALIZATION_VERSION = ''m1nd-canonical-json-v1''"

text \<open>The set of custody floors of \<open>release.rs\<close> that a ceremony has ratified.\<close>

definition SECURE_ENCLAVE_CUSTODY_FLOOR_V1 :: string where
  "SECURE_ENCLAVE_CUSTODY_FLOOR_V1 = ''secure-enclave-single-host-v1''"
definition RATIFIED_CUSTODY_FLOORS :: "string list" where
  "RATIFIED_CUSTODY_FLOORS = [SECURE_ENCLAVE_CUSTODY_FLOOR_V1]"

definition is_ratified_custody_floor :: "string \<Rightarrow> bool" where
  "is_ratified_custody_floor floor \<longleftrightarrow> floor \<in> set RATIFIED_CUSTODY_FLOORS"

section \<open>Results\<close>

datatype autonomy_integrity = AutonomyOpaqueSignature

record autonomy_validation =
  av_computed_digest :: string
  av_integrity :: autonomy_integrity

definition autonomy_opaque :: "string \<Rightarrow> autonomy_validation" where
  "autonomy_opaque computed = \<lparr>av_computed_digest = computed, av_integrity = AutonomyOpaqueSignature\<rparr>"

datatype autonomy_error =
    Schema string string
  | EmptyRequired string
  | EmptyCollection string
  | InvalidDigest string
  | EmptySignature string
  | InvalidTimeOrder string u64 u64
  | Expired string u64 u64
  | IssuedInFuture string u64 u64
  | DigestMismatch string string string
  | BindingMismatch string
  | EpochMismatch string u64 u64
  | ModeMismatch string active_mode active_mode
  | AuthorityMismatch authority_variant authority_variant
  | KernelFloor string
  | ConstitutionInvariant string
  | Invariant string
  | SelfAuthorization string
  | NonIndependentQuorum
  | InsufficientQuorum nat nat
  | QuorumNotUnanimouslyResolvable
  | ActionOutsideGrant string
  | RiskOutsideGrant risk_class
  | ScopeOutsideGrant
  | BudgetExceeded u64 u64
  | PositiveEffectInSafety effect
  | SafetyAllowListMismatch
  | CyclicIntentField string
  | InvalidActivationTransition active_mode active_mode

section \<open>Field checks\<close>

definition au_require_schema :: "string \<Rightarrow> string \<Rightarrow> string \<Rightarrow> autonomy_error + unit" where
  "au_require_schema contract actual expected =
     (if actual \<noteq> expected then Err (Schema contract actual) else Ok ())"

definition au_require_non_empty :: "string \<Rightarrow> string \<Rightarrow> autonomy_error + unit" where
  "au_require_non_empty field value = (if trims_empty value then Err (EmptyRequired field) else Ok ())"

definition au_validate_optional_non_empty :: "string \<Rightarrow> string option \<Rightarrow> autonomy_error + unit" where
  "au_validate_optional_non_empty field value =
     (case value of
        Some v \<Rightarrow> if trims_empty v then Err (EmptyRequired field) else Ok ()
      | None \<Rightarrow> Ok ())"

definition au_require_non_empty_option :: "string \<Rightarrow> string option \<Rightarrow> autonomy_error + unit" where
  "au_require_non_empty_option field value =
     (case value of
        Some v \<Rightarrow> if \<not> trims_empty v then Ok () else Err (EmptyRequired field)
      | None \<Rightarrow> Err (EmptyRequired field))"

definition au_require_digest :: "string \<Rightarrow> string \<Rightarrow> autonomy_error + unit" where
  "au_require_digest field value =
     (if length value \<noteq> 64 \<or> \<not> list_all is_lower_hex value then Err (InvalidDigest field) else Ok ())"

definition au_require_digest_equality :: "string \<Rightarrow> string \<Rightarrow> string \<Rightarrow> autonomy_error + unit" where
  "au_require_digest_equality field expected observed = seq_checks
     [au_require_digest field expected, au_require_digest field observed,
      check (\<not> expected \<noteq> observed) (DigestMismatch field expected observed)]"

definition au_require_signature :: "string \<Rightarrow> string \<Rightarrow> autonomy_error + unit" where
  "au_require_signature field signature =
     (if signature = [] then Err (EmptySignature field) else Ok ())"

definition au_require_time_window :: "string \<Rightarrow> u64 \<Rightarrow> u64 \<Rightarrow> u64 \<Rightarrow> autonomy_error + unit" where
  "au_require_time_window contract issued_at expires_at now_ms =
     (if issued_at \<ge> expires_at then Err (InvalidTimeOrder contract issued_at expires_at)
      else if issued_at > now_ms then Err (IssuedInFuture contract issued_at now_ms)
      else if now_ms \<ge> expires_at then Err (Expired contract expires_at now_ms)
      else Ok ())"

text \<open>The loops \<open>for (field, value) in [...] { check(field, value)?; }\<close> of the validators.\<close>

definition au_required :: "(string \<times> string) list \<Rightarrow> (autonomy_error + unit) list" where
  "au_required fs = map (\<lambda>(f, v). au_require_non_empty f v) fs"

definition au_digests :: "(string \<times> string) list \<Rightarrow> (autonomy_error + unit) list" where
  "au_digests fs = map (\<lambda>(f, v). au_require_digest f v) fs"

definition au_digest_pairs :: "(string \<times> string \<times> string) list \<Rightarrow> (autonomy_error + unit) list" where
  "au_digest_pairs fs = map (\<lambda>(f, e, v). au_require_digest_equality f e v) fs"

definition au_optional_digest :: "string \<Rightarrow> string option \<Rightarrow> autonomy_error + unit" where
  "au_optional_digest field value = (case value of Some d \<Rightarrow> au_require_digest field d | None \<Rightarrow> Ok ())"

text \<open>The end of every validator: \<open>Ok(AutonomyStructuralValidation::opaque(computed))\<close>.\<close>

definition au_accept :: "(autonomy_error + unit) list \<Rightarrow> string \<Rightarrow> autonomy_error + autonomy_validation" where
  "au_accept checks computed = and_then (seq_checks checks) (\<lambda>_. Ok (autonomy_opaque computed))"

text \<open>A validator called for its error only: \<open>x.validate(...)?;\<close>.\<close>

definition au_discard :: "autonomy_error + 'a \<Rightarrow> autonomy_error + unit" where
  "au_discard r = and_then r (\<lambda>_. Ok ())"

section \<open>Digests\<close>

definition json_u16 :: "u16 \<Rightarrow> json" where
  "json_u16 n = JNumber (uint n)"

text \<open>
  A versioned core is hashed with the canonicalization version in front of its canonical bytes,
  and the length of the version in front of that.
\<close>

definition versioned_payload :: "string \<Rightarrow> bytes \<Rightarrow> bytes" where
  "versioned_payload version canonical = be_bytes (of_nat (length version)) @ version @ canonical"

definition digest_versioned_core :: "platform \<Rightarrow> string \<Rightarrow> string \<Rightarrow> json \<Rightarrow> string" where
  "digest_versioned_core E domain version core =
     digest_domain_bytes E domain (versioned_payload version (canonical_json E core))"

instantiation active_mode :: linorder
begin

definition less_eq_active_mode :: "active_mode \<Rightarrow> active_mode \<Rightarrow> bool" where
  "less_eq_active_mode a b \<longleftrightarrow> mode_rank a \<le> mode_rank b"

definition less_active_mode :: "active_mode \<Rightarrow> active_mode \<Rightarrow> bool" where
  "less_active_mode a b \<longleftrightarrow> mode_rank a < mode_rank b"

instance
proof
  fix a b :: active_mode
  show "a \<le> b \<Longrightarrow> b \<le> a \<Longrightarrow> a = b"
    unfolding less_eq_active_mode_def by (cases a; cases b) simp_all
qed (auto simp: less_eq_active_mode_def less_active_mode_def)

end

instantiation risk_class :: linorder
begin

definition less_eq_risk_class :: "risk_class \<Rightarrow> risk_class \<Rightarrow> bool" where
  "less_eq_risk_class a b \<longleftrightarrow> risk_rank a \<le> risk_rank b"

definition less_risk_class :: "risk_class \<Rightarrow> risk_class \<Rightarrow> bool" where
  "less_risk_class a b \<longleftrightarrow> risk_rank a < risk_rank b"

instance
proof
  fix a b :: risk_class
  show "a \<le> b \<Longrightarrow> b \<le> a \<Longrightarrow> a = b"
    unfolding less_eq_risk_class_def by (cases a; cases b) simp_all
qed (auto simp: less_eq_risk_class_def less_risk_class_def)

end

definition json_of_modes :: "active_mode set \<Rightarrow> json" where
  "json_of_modes ms = JArray (map (\<lambda>m. JString (mode_name m)) (sorted_list_of_set ms))"

definition json_of_risks :: "risk_class set \<Rightarrow> json" where
  "json_of_risks rs = JArray (map (\<lambda>r. JString (risk_name r)) (sorted_list_of_set rs))"

lemma au_checks_ok [simp]:
  "au_require_schema c a e = Inr u \<longleftrightarrow> a = e"
  "au_require_non_empty f v = Inr u \<longleftrightarrow> \<not> trims_empty v"
  "au_require_digest f v = Inr u \<longleftrightarrow> digest_syntax v"
  "au_require_signature f v = Inr u \<longleftrightarrow> v \<noteq> []"
  "au_require_time_window f i ex n = Inr u \<longleftrightarrow> i < ex \<and> i \<le> n \<and> n < ex"
  by (auto simp: au_require_schema_def au_require_non_empty_def au_require_digest_def
      au_require_signature_def au_require_time_window_def digest_syntax_def)

lemma au_optional_ok [simp]:
  "au_validate_optional_non_empty f ov = Inr u \<longleftrightarrow> (\<forall>w. ov = Some w \<longrightarrow> \<not> trims_empty w)"
  "au_require_non_empty_option f ov = Inr u \<longleftrightarrow> (\<exists>w. ov = Some w \<and> \<not> trims_empty w)"
  "au_optional_digest f ov = Inr u \<longleftrightarrow> (\<forall>w. ov = Some w \<longrightarrow> digest_syntax w)"
  by (auto simp: au_validate_optional_non_empty_def au_require_non_empty_option_def
      au_optional_digest_def split: option.splits)

lemma au_digest_equality_ok [simp]:
  "au_require_digest_equality f e v = Inr u \<longleftrightarrow> digest_syntax e \<and> v = e"
  by (auto simp: au_require_digest_equality_def)

lemma au_loops_ok [simp]:
  "(\<forall>c \<in> set (au_required fs). c = Inr ()) \<longleftrightarrow> (\<forall>(f, v) \<in> set fs. \<not> trims_empty v)"
  "(\<forall>c \<in> set (au_digests fs). c = Inr ()) \<longleftrightarrow> (\<forall>(f, v) \<in> set fs. digest_syntax v)"
  "(\<forall>c \<in> set (au_digest_pairs ps). c = Inr ()) \<longleftrightarrow> (\<forall>(f, e, v) \<in> set ps. digest_syntax e \<and> v = e)"
  by (auto simp: au_required_def au_digests_def au_digest_pairs_def)

lemma au_accept_ok [simp]:
  "au_accept cs d = Inr v \<longleftrightarrow> (\<forall>c \<in> set cs. c = Inr ()) \<and> v = autonomy_opaque d"
  by (auto simp: au_accept_def)

lemma au_discard_ok [simp]: "au_discard r = Inr u \<longleftrightarrow> (\<exists>v. r = Inr v)"
  by (auto simp: au_discard_def)

end
