(* ===== verification/Autonomy_Constitution.thy ===== *)
theory Autonomy_Constitution
  imports Autonomy_Base
begin

text \<open>
  \<open>m1nd-control/src/autonomy.rs\<close>: the safety kernel with its immutable floors, the specification
  of the independent verifiers, the constitution and its amendment.  A validator is the list of
  its checks in the order of the code.
\<close>

section \<open>Safety kernel\<close>

record safety_kernel_core =
  kn_kernel_id :: string
  kn_verifier_binary_digest :: string
  kn_canonicalization_version :: string
  kn_pinned_external_root_key :: string
  kn_verified_boot_policy_digest :: string
  kn_immutable_invariants_digest :: string
  kn_minimum_verifier_seats :: u16
  kn_minimum_quorum_threshold :: u16
  kn_minimum_failure_domains :: u16
  kn_proposer_executor_nonvoting :: bool
  kn_sentinel_required_and_nonvoting :: bool
  kn_sentinel_red_absolute_veto :: bool
  kn_sentinel_outbox_antirollback_required :: bool
  kn_sentinel_identity_key_binary_policy_digest :: string
  kn_safety_actuator_identity_key_binary_policy_digest :: string
  kn_required_sentinel_unavailable_fail_closed :: bool
  kn_audit_wal_tamper_detection_required :: bool
  kn_epoch_freeze_and_rollback_required :: bool
  kn_old_runtime_approval_required :: bool
  kn_allowed_negative_effects :: "effect set"

definition json_of_safety_kernel_core :: "safety_kernel_core \<Rightarrow> json" where
  "json_of_safety_kernel_core x = JObject
    [(''kernel_id'', JString (kn_kernel_id x)),
     (''verifier_binary_digest'', JString (kn_verifier_binary_digest x)),
     (''canonicalization_version'', JString (kn_canonicalization_version x)),
     (''pinned_external_root_key'', JString (kn_pinned_external_root_key x)),
     (''verified_boot_policy_digest'', JString (kn_verified_boot_policy_digest x)),
     (''immutable_invariants_digest'', JString (kn_immutable_invariants_digest x)),
     (''minimum_verifier_seats'', json_u16 (kn_minimum_verifier_seats x)),
     (''minimum_quorum_threshold'', json_u16 (kn_minimum_quorum_threshold x)),
     (''minimum_failure_domains'', json_u16 (kn_minimum_failure_domains x)),
     (''proposer_executor_nonvoting'', JBool (kn_proposer_executor_nonvoting x)),
     (''sentinel_required_and_nonvoting'', JBool (kn_sentinel_required_and_nonvoting x)),
     (''sentinel_red_absolute_veto'', JBool (kn_sentinel_red_absolute_veto x)),
     (''sentinel_outbox_antirollback_required'', JBool (kn_sentinel_outbox_antirollback_required x)),
     (''sentinel_identity_key_binary_policy_digest'', JString (kn_sentinel_identity_key_binary_policy_digest x)),
     (''safety_actuator_identity_key_binary_policy_digest'', JString (kn_safety_actuator_identity_key_binary_policy_digest x)),
     (''required_sentinel_unavailable_fail_closed'', JBool (kn_required_sentinel_unavailable_fail_closed x)),
     (''audit_wal_tamper_detection_required'', JBool (kn_audit_wal_tamper_detection_required x)),
     (''epoch_freeze_and_rollback_required'', JBool (kn_epoch_freeze_and_rollback_required x)),
     (''old_runtime_approval_required'', JBool (kn_old_runtime_approval_required x)),
     (''allowed_negative_effects'', json_of_effects (kn_allowed_negative_effects x))]"

record safety_kernel =
  sk_schema :: string
  sk_core :: safety_kernel_core
  sk_kernel_digest :: string
  sk_external_root_signature :: string

definition json_of_safety_kernel :: "safety_kernel \<Rightarrow> json" where
  "json_of_safety_kernel x = JObject
    [(''schema'', JString (sk_schema x)),
     (''core'', json_of_safety_kernel_core (sk_core x)),
     (''kernel_digest'', JString (sk_kernel_digest x)),
     (''external_root_signature'', JString (sk_external_root_signature x))]"

definition canonical_negative_effects :: "effect set" where
  "canonical_negative_effects =
     {FreezeIssuance, EpochFence, EpochBump, RevokeCapability, AbortPrepared, DemoteGrant,
      RollbackSignedCandidate}"

definition compute_kernel_digest :: "platform \<Rightarrow> safety_kernel \<Rightarrow> string" where
  "compute_kernel_digest E k =
     digest_canonical E SAFETY_KERNEL_DIGEST_DOMAIN (json_of_safety_kernel_core (sk_core k))"

definition seal_kernel :: "platform \<Rightarrow> safety_kernel \<Rightarrow> safety_kernel" where
  "seal_kernel E k = k\<lparr>sk_kernel_digest := compute_kernel_digest E k\<rparr>"

definition kernel_switches :: "safety_kernel_core \<Rightarrow> (bool \<times> string) list" where
  "kernel_switches c =
    [(kn_proposer_executor_nonvoting c, ''proposer and executor must remain non-voting''),
     (kn_sentinel_required_and_nonvoting c,
      ''the independent sentinel must remain required and non-voting''),
     (kn_sentinel_red_absolute_veto c, ''sentinel RED must remain an absolute veto''),
     (kn_sentinel_outbox_antirollback_required c, ''sentinel outbox anti-rollback is mandatory''),
     (kn_required_sentinel_unavailable_fail_closed c,
      ''required sentinel unavailability must fail closed''),
     (kn_audit_wal_tamper_detection_required c, ''audit/WAL tamper detection is mandatory''),
     (kn_epoch_freeze_and_rollback_required c, ''epoch freeze and rollback are mandatory''),
     (kn_old_runtime_approval_required c, ''governance adoption requires old-runtime approval'')]"

definition kernel_checks :: "platform \<Rightarrow> safety_kernel \<Rightarrow> (autonomy_error + unit) list" where
  "kernel_checks E k =
     (let c = sk_core k in
      [au_require_schema ''SafetyKernelV1'' (sk_schema k) SAFETY_KERNEL_SCHEMA,
       au_require_non_empty ''kernel_id'' (kn_kernel_id c),
       au_require_non_empty ''canonicalization_version'' (kn_canonicalization_version c),
       check (\<not> kn_canonicalization_version c \<noteq> CANONICALIZATION_VERSION)
         (KernelFloor ''canonicalization version must equal the runtime-pinned version''),
       au_require_non_empty ''pinned_external_root_key'' (kn_pinned_external_root_key c)]
      @ au_digests
         [(''verifier_binary_digest'', kn_verifier_binary_digest c),
          (''verified_boot_policy_digest'', kn_verified_boot_policy_digest c),
          (''immutable_invariants_digest'', kn_immutable_invariants_digest c),
          (''sentinel_identity_key_binary_policy_digest'', kn_sentinel_identity_key_binary_policy_digest c),
          (''safety_actuator_identity_key_binary_policy_digest'',
           kn_safety_actuator_identity_key_binary_policy_digest c)]
      @ [check (\<not> kn_minimum_verifier_seats c \<noteq> IMMUTABLE_VERIFIER_SEATS)
           (KernelFloor ''verifier seats must be pinned to four''),
         check (\<not> kn_minimum_quorum_threshold c \<noteq> IMMUTABLE_QUORUM_THRESHOLD)
           (KernelFloor ''quorum threshold must be pinned to three-of-four''),
         check (\<not> kn_minimum_failure_domains c \<noteq> IMMUTABLE_FAILURE_DOMAINS)
           (KernelFloor ''at least three independent failure domains are immutable'')]
      @ map (\<lambda>(enabled, rule). check enabled (KernelFloor rule)) (kernel_switches c)
      @ [check (\<not> kn_allowed_negative_effects c \<noteq> canonical_negative_effects) SafetyAllowListMismatch,
         au_require_digest ''kernel_digest'' (sk_kernel_digest k),
         au_require_digest_equality ''kernel_digest'' (compute_kernel_digest E k) (sk_kernel_digest k),
         au_require_signature ''external_root_signature'' (sk_external_root_signature k)])"

definition validate_kernel :: "platform \<Rightarrow> safety_kernel \<Rightarrow> autonomy_error + autonomy_validation" where
  "validate_kernel E k = au_accept (kernel_checks E k) (compute_kernel_digest E k)"

section \<open>Independent verifiers\<close>

record verifier_seat =
  vs_principal_id :: string
  vs_key_id :: string
  vs_failure_domain :: string
  vs_parent_session_context_digest :: string

definition json_of_verifier_seat :: "verifier_seat \<Rightarrow> json" where
  "json_of_verifier_seat x = JObject
    [(''principal_id'', JString (vs_principal_id x)),
     (''key_id'', JString (vs_key_id x)),
     (''failure_domain'', JString (vs_failure_domain x)),
     (''parent_session_context_digest'', JString (vs_parent_session_context_digest x))]"

record independence_core =
  nc_constitution_epoch :: u64
  nc_voting_verifiers :: "verifier_seat list"
  nc_quorum_threshold :: u16
  nc_minimum_failure_domains :: u16
  nc_blind_isolation_policy_digest :: string
  nc_nonvoting_sentinel_id :: string
  nc_proposer_executor_nonvoting :: bool
  nc_sentinel_nonvoting :: bool

definition json_of_independence_core :: "independence_core \<Rightarrow> json" where
  "json_of_independence_core x = JObject
    [(''constitution_epoch'', json_u64 (nc_constitution_epoch x)),
     (''voting_verifiers'', JArray (map json_of_verifier_seat (nc_voting_verifiers x))),
     (''quorum_threshold'', json_u16 (nc_quorum_threshold x)),
     (''minimum_failure_domains'', json_u16 (nc_minimum_failure_domains x)),
     (''blind_isolation_policy_digest'', JString (nc_blind_isolation_policy_digest x)),
     (''nonvoting_sentinel_id'', JString (nc_nonvoting_sentinel_id x)),
     (''proposer_executor_nonvoting'', JBool (nc_proposer_executor_nonvoting x)),
     (''sentinel_nonvoting'', JBool (nc_sentinel_nonvoting x))]"

record independence_spec =
  ns_schema :: string
  ns_core :: independence_core
  ns_independence_spec_digest :: string

definition json_of_independence_spec :: "independence_spec \<Rightarrow> json" where
  "json_of_independence_spec x = JObject
    [(''schema'', JString (ns_schema x)),
     (''core'', json_of_independence_core (ns_core x)),
     (''independence_spec_digest'', JString (ns_independence_spec_digest x))]"

definition compute_independence_digest :: "platform \<Rightarrow> independence_spec \<Rightarrow> string" where
  "compute_independence_digest E s =
     digest_canonical E INDEPENDENCE_SPEC_DIGEST_DOMAIN (json_of_independence_core (ns_core s))"

definition seal_independence :: "platform \<Rightarrow> independence_spec \<Rightarrow> independence_spec" where
  "seal_independence E s = s\<lparr>ns_independence_spec_digest := compute_independence_digest E s\<rparr>"

text \<open>
  The four \<open>BTreeSet\<close>s of the loop over the seats: principals, keys, contexts and domains seen
  so far.
\<close>

record seats_seen =
  sn_principals :: "string set"
  sn_keys :: "string set"
  sn_contexts :: "string set"
  sn_domains :: "string set"

definition seats_empty :: seats_seen where
  "seats_empty = \<lparr>sn_principals = {}, sn_keys = {}, sn_contexts = {}, sn_domains = {}\<rparr>"

fun seats_loop :: "verifier_seat list \<Rightarrow> seats_seen \<Rightarrow> autonomy_error + seats_seen" where
  "seats_loop [] seen = Ok seen"
| "seats_loop (seat # rest) seen =
     and_then (seq_checks
       [au_require_non_empty ''verifier.principal_id'' (vs_principal_id seat),
        au_require_non_empty ''verifier.key_id'' (vs_key_id seat),
        au_require_non_empty ''verifier.failure_domain'' (vs_failure_domain seat),
        au_require_digest ''verifier.parent_session_context_digest''
          (vs_parent_session_context_digest seat),
        check (\<not> (vs_principal_id seat \<in> sn_principals seen \<or> vs_key_id seat \<in> sn_keys seen \<or>
          vs_parent_session_context_digest seat \<in> sn_contexts seen)) NonIndependentQuorum])
     (\<lambda>_. seats_loop rest
        \<lparr>sn_principals = insert (vs_principal_id seat) (sn_principals seen),
         sn_keys = insert (vs_key_id seat) (sn_keys seen),
         sn_contexts = insert (vs_parent_session_context_digest seat) (sn_contexts seen),
         sn_domains = insert (vs_failure_domain seat) (sn_domains seen)\<rparr>)"

definition independence_floor_checks ::
  "safety_kernel_core \<Rightarrow> independence_spec \<Rightarrow> (autonomy_error + unit) list" where
  "independence_floor_checks kc s =
     (let c = ns_core s in
      [au_require_schema ''IndependenceSpecV1'' (ns_schema s) INDEPENDENCE_SPEC_SCHEMA,
       check (\<not> length (nc_voting_verifiers c) \<noteq> unat (kn_minimum_verifier_seats kc))
         (KernelFloor ''constitution must preserve the four frozen voting seats''),
       check (\<not> (nc_quorum_threshold c < kn_minimum_quorum_threshold kc \<or>
         unat (nc_quorum_threshold c) > length (nc_voting_verifiers c)))
         (KernelFloor ''constitution cannot reduce the three-of-four quorum''),
       check (\<not> nc_minimum_failure_domains c < kn_minimum_failure_domains kc)
         (KernelFloor ''constitution cannot reduce failure-domain diversity''),
       check (\<not> (\<not> nc_proposer_executor_nonvoting c \<or> \<not> nc_sentinel_nonvoting c))
         (KernelFloor ''proposer, executor, and sentinel remain non-voting''),
       au_require_non_empty ''nonvoting_sentinel_id'' (nc_nonvoting_sentinel_id c),
       au_require_digest ''blind_isolation_policy_digest'' (nc_blind_isolation_policy_digest c)])"

definition validate_against_kernel ::
  "platform \<Rightarrow> independence_spec \<Rightarrow> safety_kernel \<Rightarrow> autonomy_error + unit" where
  "validate_against_kernel E s kern =
     (let c = ns_core s in
      and_then (seq_checks (au_discard (validate_kernel E kern)
        # independence_floor_checks (sk_core kern) s)) (\<lambda>_.
      and_then (seats_loop (nc_voting_verifiers c) seats_empty) (\<lambda>seen.
      seq_checks
        [check (\<not> card (sn_domains seen) < unat (nc_minimum_failure_domains c)) NonIndependentQuorum,
         check (nc_nonvoting_sentinel_id c \<notin> sn_principals seen) NonIndependentQuorum,
         au_require_digest ''independence_spec_digest'' (ns_independence_spec_digest s),
         au_require_digest_equality ''independence_spec_digest'' (compute_independence_digest E s)
           (ns_independence_spec_digest s)])))"

definition verifier_principals :: "independence_spec \<Rightarrow> string set" where
  "verifier_principals s = set (map vs_principal_id (nc_voting_verifiers (ns_core s)))"

section \<open>Constitution\<close>

record constitution_core =
  kc_constitution_epoch :: u64
  kc_previous_constitution_digest :: "string option"
  kc_effective_at :: u64
  kc_expires_at :: u64
  kc_allowed_autonomy_modes :: "active_mode set"
  kc_objectives :: "string list"
  kc_non_goals :: "string list"
  kc_resource_scope_digest :: string
  kc_risk_budget_action_policy_digest :: string
  kc_independence_spec_digest :: string
  kc_metric_specs_digest :: string
  kc_canary_requirements_digest :: string
  kc_rollback_requirements_digest :: string
  kc_amendment_rules_digest :: string
  kc_previous_governance_runtime_digest :: string
  kc_adopting_governance_runtime_digest :: string
  kc_old_runtime_approval_digest :: "string option"
  kc_issuer_subject_id :: string

definition json_of_constitution_core :: "constitution_core \<Rightarrow> json" where
  "json_of_constitution_core x = JObject
    [(''constitution_epoch'', json_u64 (kc_constitution_epoch x)),
     (''previous_constitution_digest'', json_opt JString (kc_previous_constitution_digest x)),
     (''effective_at'', json_u64 (kc_effective_at x)),
     (''expires_at'', json_u64 (kc_expires_at x)),
     (''allowed_autonomy_modes'', json_of_modes (kc_allowed_autonomy_modes x)),
     (''objectives'', JArray (map JString (kc_objectives x))),
     (''non_goals'', JArray (map JString (kc_non_goals x))),
     (''resource_scope_digest'', JString (kc_resource_scope_digest x)),
     (''risk_budget_action_policy_digest'', JString (kc_risk_budget_action_policy_digest x)),
     (''independence_spec_digest'', JString (kc_independence_spec_digest x)),
     (''metric_specs_digest'', JString (kc_metric_specs_digest x)),
     (''canary_requirements_digest'', JString (kc_canary_requirements_digest x)),
     (''rollback_requirements_digest'', JString (kc_rollback_requirements_digest x)),
     (''amendment_rules_digest'', JString (kc_amendment_rules_digest x)),
     (''previous_governance_runtime_digest'', JString (kc_previous_governance_runtime_digest x)),
     (''adopting_governance_runtime_digest'', JString (kc_adopting_governance_runtime_digest x)),
     (''old_runtime_approval_digest'', json_opt JString (kc_old_runtime_approval_digest x)),
     (''issuer_subject_id'', JString (kc_issuer_subject_id x))]"

record constitution_store =
  ks_schema :: string
  ks_core :: constitution_core
  ks_constitution_digest :: string
  ks_signature :: string

definition json_of_constitution_store :: "constitution_store \<Rightarrow> json" where
  "json_of_constitution_store x = JObject
    [(''schema'', JString (ks_schema x)),
     (''core'', json_of_constitution_core (ks_core x)),
     (''constitution_digest'', JString (ks_constitution_digest x)),
     (''signature'', JString (ks_signature x))]"

definition compute_constitution_digest :: "platform \<Rightarrow> constitution_store \<Rightarrow> string" where
  "compute_constitution_digest E s =
     digest_canonical E CONSTITUTION_DIGEST_DOMAIN (json_of_constitution_core (ks_core s))"

definition seal_constitution :: "platform \<Rightarrow> constitution_store \<Rightarrow> constitution_store" where
  "seal_constitution E s = s\<lparr>ks_constitution_digest := compute_constitution_digest E s\<rparr>"

definition bootstrap_check :: "constitution_core \<Rightarrow> autonomy_error + unit" where
  "bootstrap_check c =
     (if kc_constitution_epoch c = 0 then
        check (\<not> (kc_previous_constitution_digest c \<noteq> None \<or> kc_old_runtime_approval_digest c \<noteq> None))
          (ConstitutionInvariant
            ''bootstrap constitution cannot claim a previous constitution/runtime approval'')
      else
        check (\<not> (kc_previous_constitution_digest c = None \<or> kc_old_runtime_approval_digest c = None))
          (ConstitutionInvariant
            ''non-bootstrap constitution requires previous digest and old-runtime approval''))"

definition constitution_checks ::
  "platform \<Rightarrow> constitution_store \<Rightarrow> independence_spec \<Rightarrow> safety_kernel \<Rightarrow> u64 \<Rightarrow>
   (autonomy_error + unit) list" where
  "constitution_checks E s independence kern now_ms =
     (let c = ks_core s in
      [au_require_schema ''ConstitutionStoreV1'' (ks_schema s) CONSTITUTION_SCHEMA,
       au_require_time_window ''ConstitutionStoreV1'' (kc_effective_at c) (kc_expires_at c) now_ms,
       check (kc_allowed_autonomy_modes c \<noteq> {}) (EmptyCollection ''allowed_autonomy_modes''),
       check (HumanGated \<in> kc_allowed_autonomy_modes c)
         (ConstitutionInvariant ''HUMAN_GATED must remain an allowed fail-closed mode''),
       au_require_non_empty ''issuer_subject_id'' (kc_issuer_subject_id c)]
      @ au_digests
         [(''resource_scope_digest'', kc_resource_scope_digest c),
          (''risk_budget_action_policy_digest'', kc_risk_budget_action_policy_digest c),
          (''independence_spec_digest'', kc_independence_spec_digest c),
          (''metric_specs_digest'', kc_metric_specs_digest c),
          (''canary_requirements_digest'', kc_canary_requirements_digest c),
          (''rollback_requirements_digest'', kc_rollback_requirements_digest c),
          (''amendment_rules_digest'', kc_amendment_rules_digest c),
          (''previous_governance_runtime_digest'', kc_previous_governance_runtime_digest c),
          (''adopting_governance_runtime_digest'', kc_adopting_governance_runtime_digest c)]
      @ [au_optional_digest ''previous_constitution_digest'' (kc_previous_constitution_digest c),
         au_optional_digest ''old_runtime_approval_digest'' (kc_old_runtime_approval_digest c),
         bootstrap_check c,
         check (\<not> (kc_constitution_epoch c > 0 \<and>
           kc_previous_governance_runtime_digest c = kc_adopting_governance_runtime_digest c))
           (ConstitutionInvariant ''a governance runtime cannot approve its own adoption''),
         validate_against_kernel E independence kern,
         check (\<not> nc_constitution_epoch (ns_core independence) \<noteq> kc_constitution_epoch c)
           (EpochMismatch ''independence.constitution_epoch'' (kc_constitution_epoch c)
             (nc_constitution_epoch (ns_core independence))),
         au_require_digest_equality ''independence_spec_digest''
           (ns_independence_spec_digest independence) (kc_independence_spec_digest c),
         au_require_digest ''constitution_digest'' (ks_constitution_digest s),
         au_require_digest_equality ''constitution_digest'' (compute_constitution_digest E s)
           (ks_constitution_digest s),
         au_require_signature ''constitution.signature'' (ks_signature s)])"

definition validate_constitution ::
  "platform \<Rightarrow> constitution_store \<Rightarrow> independence_spec \<Rightarrow> safety_kernel \<Rightarrow> u64 \<Rightarrow>
   autonomy_error + autonomy_validation" where
  "validate_constitution E s independence kern now_ms =
     au_accept (constitution_checks E s independence kern now_ms) (compute_constitution_digest E s)"

section \<open>Amendment\<close>

record amendment_core =
  am_amendment_id :: string
  am_previous_constitution_digest :: string
  am_previous_constitution_epoch :: u64
  am_proposed_constitution_digest :: string
  am_proposed_constitution_epoch :: u64
  am_proposer_subject_id :: string
  am_proposed_runtime_subject_id :: string
  am_approval_issuer_subject_id :: string
  am_previous_runtime_digest :: string
  am_proposed_runtime_digest :: string
  am_old_runtime_approval_digest :: string
  am_authority_decision_digest :: string
  am_prepare_receipt_digest :: string
  am_canary_receipts_digest :: string
  am_rollback_plan_digest :: string
  am_prepared_at :: u64
  am_activates_at :: u64

definition json_of_amendment_core :: "amendment_core \<Rightarrow> json" where
  "json_of_amendment_core x = JObject
    [(''amendment_id'', JString (am_amendment_id x)),
     (''previous_constitution_digest'', JString (am_previous_constitution_digest x)),
     (''previous_constitution_epoch'', json_u64 (am_previous_constitution_epoch x)),
     (''proposed_constitution_digest'', JString (am_proposed_constitution_digest x)),
     (''proposed_constitution_epoch'', json_u64 (am_proposed_constitution_epoch x)),
     (''proposer_subject_id'', JString (am_proposer_subject_id x)),
     (''proposed_runtime_subject_id'', JString (am_proposed_runtime_subject_id x)),
     (''approval_issuer_subject_id'', JString (am_approval_issuer_subject_id x)),
     (''previous_runtime_digest'', JString (am_previous_runtime_digest x)),
     (''proposed_runtime_digest'', JString (am_proposed_runtime_digest x)),
     (''old_runtime_approval_digest'', JString (am_old_runtime_approval_digest x)),
     (''authority_decision_digest'', JString (am_authority_decision_digest x)),
     (''prepare_receipt_digest'', JString (am_prepare_receipt_digest x)),
     (''canary_receipts_digest'', JString (am_canary_receipts_digest x)),
     (''rollback_plan_digest'', JString (am_rollback_plan_digest x)),
     (''prepared_at'', json_u64 (am_prepared_at x)),
     (''activates_at'', json_u64 (am_activates_at x))]"

record constitution_amendment =
  ma_schema :: string
  ma_core :: amendment_core
  ma_amendment_digest :: string
  ma_old_runtime_signature :: string

definition json_of_constitution_amendment :: "constitution_amendment \<Rightarrow> json" where
  "json_of_constitution_amendment x = JObject
    [(''schema'', JString (ma_schema x)),
     (''core'', json_of_amendment_core (ma_core x)),
     (''amendment_digest'', JString (ma_amendment_digest x)),
     (''old_runtime_signature'', JString (ma_old_runtime_signature x))]"

definition compute_amendment_digest :: "platform \<Rightarrow> constitution_amendment \<Rightarrow> string" where
  "compute_amendment_digest E a =
     digest_canonical E CONSTITUTION_AMENDMENT_DIGEST_DOMAIN (json_of_amendment_core (ma_core a))"

definition seal_amendment :: "platform \<Rightarrow> constitution_amendment \<Rightarrow> constitution_amendment" where
  "seal_amendment E a = a\<lparr>ma_amendment_digest := compute_amendment_digest E a\<rparr>"

text \<open>
  The step of the epoch is \<open>previous.core.constitution_epoch + 1\<close> on \<open>u64\<close>, which wraps in a
  release build.
\<close>

definition amendment_step ::
  "amendment_core \<Rightarrow> constitution_store \<Rightarrow> constitution_store \<Rightarrow> (autonomy_error + unit) list" where
  "amendment_step a previous proposed =
     (let p = ks_core previous; q = ks_core proposed in
      [check (\<not> (am_previous_constitution_epoch a \<noteq> kc_constitution_epoch p \<or>
         am_proposed_constitution_epoch a \<noteq> kc_constitution_epoch q \<or>
         kc_constitution_epoch q \<noteq> kc_constitution_epoch p + 1))
         (ConstitutionInvariant
           ''amendment epochs must form one monotonic previous-to-proposed step''),
       check (\<not> (kc_previous_constitution_digest q \<noteq> Some (ks_constitution_digest previous) \<or>
         kc_old_runtime_approval_digest q \<noteq> Some (am_old_runtime_approval_digest a) \<or>
         kc_previous_governance_runtime_digest q \<noteq> am_previous_runtime_digest a \<or>
         kc_adopting_governance_runtime_digest q \<noteq> am_proposed_runtime_digest a \<or>
         kc_effective_at q \<noteq> am_activates_at a))
         (ConstitutionInvariant
           ''proposed constitution does not bind the exact amendment/old-runtime facts'')])"

definition amendment_checks ::
  "platform \<Rightarrow> constitution_amendment \<Rightarrow> constitution_store \<Rightarrow> constitution_store \<Rightarrow>
   independence_spec \<Rightarrow> safety_kernel \<Rightarrow> u64 \<Rightarrow> (autonomy_error + unit) list" where
  "amendment_checks E m previous proposed proposed_independence kern now_ms =
     (let a = ma_core m in
      [au_require_schema ''ConstitutionAmendmentV1'' (ma_schema m) CONSTITUTION_AMENDMENT_SCHEMA]
      @ au_required
         [(''amendment_id'', am_amendment_id a), (''proposer_subject_id'', am_proposer_subject_id a),
          (''proposed_runtime_subject_id'', am_proposed_runtime_subject_id a),
          (''approval_issuer_subject_id'', am_approval_issuer_subject_id a)]
      @ [check (\<not> am_proposed_runtime_subject_id a = am_approval_issuer_subject_id a)
           (SelfAuthorization (am_proposed_runtime_subject_id a)),
         check (\<not> (am_prepared_at a \<ge> am_activates_at a \<or> now_ms < am_activates_at a))
           (ConstitutionInvariant ''amendment requires a completed delay before activation'')]
      @ au_digests
         [(''previous_constitution_digest'', am_previous_constitution_digest a),
          (''proposed_constitution_digest'', am_proposed_constitution_digest a),
          (''previous_runtime_digest'', am_previous_runtime_digest a),
          (''proposed_runtime_digest'', am_proposed_runtime_digest a),
          (''old_runtime_approval_digest'', am_old_runtime_approval_digest a),
          (''authority_decision_digest'', am_authority_decision_digest a),
          (''prepare_receipt_digest'', am_prepare_receipt_digest a),
          (''canary_receipts_digest'', am_canary_receipts_digest a),
          (''rollback_plan_digest'', am_rollback_plan_digest a)]
      @ au_digest_pairs
         [(''previous_constitution_digest'', ks_constitution_digest previous,
           am_previous_constitution_digest a),
          (''proposed_constitution_digest'', ks_constitution_digest proposed,
           am_proposed_constitution_digest a)]
      @ amendment_step a previous proposed
      @ [au_discard (validate_constitution E proposed proposed_independence kern now_ms),
         au_require_digest ''amendment_digest'' (ma_amendment_digest m),
         au_require_digest_equality ''amendment_digest'' (compute_amendment_digest E m)
           (ma_amendment_digest m),
         au_require_signature ''old_runtime_signature'' (ma_old_runtime_signature m)])"

definition validate_amendment ::
  "platform \<Rightarrow> constitution_amendment \<Rightarrow> constitution_store \<Rightarrow> constitution_store \<Rightarrow>
   independence_spec \<Rightarrow> safety_kernel \<Rightarrow> u64 \<Rightarrow> autonomy_error + autonomy_validation" where
  "validate_amendment E m previous proposed proposed_independence kern now_ms =
     au_accept (amendment_checks E m previous proposed proposed_independence kern now_ms)
       (compute_amendment_digest E m)"

end
