(* ===== verification/Autonomy_Grants.thy ===== *)
theory Autonomy_Grants
  imports Autonomy_Constitution
begin

text \<open>
  \<open>m1nd-control/src/autonomy.rs\<close>: budgets and scoped grants, the digest of a set of grants, the
  autonomy epoch, the reference to an intent core, and the sovereign action intent with its
  validators.
\<close>

section \<open>Grants\<close>

datatype grant_status = Active | Revoked | Demoted

fun grant_status_name :: "grant_status \<Rightarrow> string" where
  "grant_status_name Active = ''ACTIVE''" | "grant_status_name Revoked = ''REVOKED''"
| "grant_status_name Demoted = ''DEMOTED''"

record budget_envelope =
  be_unit :: string
  be_limit :: u64
  be_consumed :: u64
  be_reset_epoch :: u64

definition json_of_budget_envelope :: "budget_envelope \<Rightarrow> json" where
  "json_of_budget_envelope x = JObject
    [(''unit'', JString (be_unit x)),
     (''limit'', json_u64 (be_limit x)),
     (''consumed'', json_u64 (be_consumed x)),
     (''reset_epoch'', json_u64 (be_reset_epoch x))]"

text \<open>\<open>u64::checked_sub\<close>.\<close>

definition checked_sub :: "u64 \<Rightarrow> u64 \<Rightarrow> u64 option" where
  "checked_sub a b = (if b \<le> a then Some (a - b) else None)"

definition budget_remaining :: "budget_envelope \<Rightarrow> autonomy_error + u64" where
  "budget_remaining b =
     and_then (au_require_non_empty ''budget.unit'' (be_unit b)) (\<lambda>_.
     ok_or (checked_sub (be_limit b) (be_consumed b))
       (Invariant ''grant budget consumption exceeds its limit''))"

record grant_core =
  gc_grant_id :: string
  gc_subject_id :: string
  gc_role_id :: string
  gc_mode :: active_mode
  gc_max_tier :: autonomy_tier
  gc_action_classes :: "string list"
  gc_risk_domains :: "risk_class set"
  gc_resource_environment_scope_digest :: string
  gc_budget :: budget_envelope
  gc_constitution_epoch :: u64
  gc_autonomy_epoch :: u64
  gc_issued_at :: u64
  gc_expires_at :: u64
  gc_promotion_receipt_id :: string
  gc_status :: grant_status

definition json_of_grant_core :: "grant_core \<Rightarrow> json" where
  "json_of_grant_core x = JObject
    [(''grant_id'', JString (gc_grant_id x)),
     (''subject_id'', JString (gc_subject_id x)),
     (''role_id'', JString (gc_role_id x)),
     (''mode'', JString (mode_name (gc_mode x))),
     (''max_tier'', JString (tier_name (gc_max_tier x))),
     (''action_classes'', JArray (map JString (gc_action_classes x))),
     (''risk_domains'', json_of_risks (gc_risk_domains x)),
     (''resource_environment_scope_digest'', JString (gc_resource_environment_scope_digest x)),
     (''budget'', json_of_budget_envelope (gc_budget x)),
     (''constitution_epoch'', json_u64 (gc_constitution_epoch x)),
     (''autonomy_epoch'', json_u64 (gc_autonomy_epoch x)),
     (''issued_at'', json_u64 (gc_issued_at x)),
     (''expires_at'', json_u64 (gc_expires_at x)),
     (''promotion_receipt_id'', JString (gc_promotion_receipt_id x)),
     (''status'', JString (grant_status_name (gc_status x)))]"

record autonomy_grant =
  ag_schema :: string
  ag_core :: grant_core
  ag_grant_digest :: string
  ag_owner_signature :: string

definition json_of_autonomy_grant :: "autonomy_grant \<Rightarrow> json" where
  "json_of_autonomy_grant x = JObject
    [(''schema'', JString (ag_schema x)),
     (''core'', json_of_grant_core (ag_core x)),
     (''grant_digest'', JString (ag_grant_digest x)),
     (''owner_signature'', JString (ag_owner_signature x))]"

definition compute_grant_digest :: "platform \<Rightarrow> autonomy_grant \<Rightarrow> string" where
  "compute_grant_digest E g =
     digest_canonical E AUTONOMY_GRANT_DIGEST_DOMAIN (json_of_grant_core (ag_core g))"

definition seal_grant :: "platform \<Rightarrow> autonomy_grant \<Rightarrow> autonomy_grant" where
  "seal_grant E g = g\<lparr>ag_grant_digest := compute_grant_digest E g\<rparr>"

definition validate_grant_at :: "platform \<Rightarrow> autonomy_grant \<Rightarrow> u64 \<Rightarrow> autonomy_error + unit" where
  "validate_grant_at E g now_ms =
     (let c = ag_core g in seq_checks
      ([au_require_schema ''AutonomyGrantV1'' (ag_schema g) AUTONOMY_GRANT_SCHEMA]
       @ au_required
          [(''grant_id'', gc_grant_id c), (''subject_id'', gc_subject_id c), (''role_id'', gc_role_id c),
           (''promotion_receipt_id'', gc_promotion_receipt_id c)]
       @ [check (gc_action_classes c \<noteq> []) (EmptyCollection ''action_classes''),
          check (gc_risk_domains c \<noteq> {}) (EmptyCollection ''risk_domains''),
          au_require_digest ''resource_environment_scope_digest'' (gc_resource_environment_scope_digest c),
          au_discard (budget_remaining (gc_budget c)),
          au_require_time_window ''AutonomyGrantV1'' (gc_issued_at c) (gc_expires_at c) now_ms,
          check (\<not> gc_status c \<noteq> Active)
            (Invariant ''only ACTIVE autonomy grants authorize positive work''),
          check (\<not> (gc_mode c = HumanGated \<and> tier_rank (gc_max_tier c) > tier_rank A1Propose))
            (Invariant ''HUMAN_GATED grants cannot exceed A1_PROPOSE''),
          au_require_digest ''grant_digest'' (ag_grant_digest g),
          au_require_digest_equality ''grant_digest'' (compute_grant_digest E g) (ag_grant_digest g),
          au_require_signature ''grant.owner_signature'' (ag_owner_signature g)]))"

definition authorize_scope ::
  "autonomy_grant \<Rightarrow> string \<Rightarrow> risk_class \<Rightarrow> string \<Rightarrow> u64 \<Rightarrow> autonomy_tier \<Rightarrow> autonomy_error + unit" where
  "authorize_scope g action_class risk scope_digest requested tier =
     (let c = ag_core g in
      and_then (seq_checks
        [check (action_class \<in> set (gc_action_classes c)) (ActionOutsideGrant action_class),
         check (risk \<in> gc_risk_domains c) (RiskOutsideGrant risk),
         check (\<not> gc_resource_environment_scope_digest c \<noteq> scope_digest) ScopeOutsideGrant]) (\<lambda>_.
      and_then (budget_remaining (gc_budget c)) (\<lambda>remaining. seq_checks
        [check (\<not> requested > remaining) (BudgetExceeded requested remaining),
         check (\<not> tier_rank tier > tier_rank (gc_max_tier c))
           (Invariant ''effective tier exceeds the scoped grant tier'')])))"

text \<open>
  The \<open>BTreeMap\<close> from identifier to digest is the association list of its entries in the order
  of traversal.
\<close>

fun grants_by_id ::
  "autonomy_grant list \<Rightarrow> (string \<times> string) list \<Rightarrow> autonomy_error + (string \<times> string) list" where
  "grants_by_id [] by_id = Ok by_id"
| "grants_by_id (g # gs) by_id =
     and_then (seq_checks
       [au_require_digest ''grant_digest'' (ag_grant_digest g),
        check (map_of by_id (gc_grant_id (ag_core g)) = None)
          (Invariant ''autonomy grant ids must be unique'')])
     (\<lambda>_. grants_by_id gs (insort_key fst (gc_grant_id (ag_core g), ag_grant_digest g) by_id))"

definition json_of_entries :: "(string \<times> string) list \<Rightarrow> json" where
  "json_of_entries kvs = JObject (map (\<lambda>(k, v). (k, JString v)) kvs)"

definition compute_grants_digest :: "platform \<Rightarrow> autonomy_grant list \<Rightarrow> autonomy_error + string" where
  "compute_grants_digest E grants =
     and_then (grants_by_id grants [])
       (\<lambda>by_id. Ok (digest_canonical E AUTONOMY_GRANTS_DIGEST_DOMAIN (json_of_entries by_id)))"

section \<open>The autonomy epoch\<close>

datatype safety_state = Healthy | Frozen | PendingRed | Recovering

fun safety_state_name :: "safety_state \<Rightarrow> string" where
  "safety_state_name Healthy = ''HEALTHY''" | "safety_state_name Frozen = ''FROZEN''"
| "safety_state_name PendingRed = ''PENDING_RED''" | "safety_state_name Recovering = ''RECOVERING''"

record autonomy_epoch =
  ae_schema :: string
  ae_autonomy_epoch :: u64
  ae_active_mode :: active_mode
  ae_activation_receipt_id :: "string option"
  ae_constitution_digest :: string
  ae_constitution_epoch :: u64
  ae_grants_digest :: string
  ae_issuance_frozen :: bool
  ae_safety_state :: safety_state
  ae_protected_root_signature :: string

definition json_of_autonomy_epoch :: "autonomy_epoch \<Rightarrow> json" where
  "json_of_autonomy_epoch x = JObject
    [(''schema'', JString (ae_schema x)),
     (''autonomy_epoch'', json_u64 (ae_autonomy_epoch x)),
     (''active_mode'', JString (mode_name (ae_active_mode x))),
     (''activation_receipt_id'', json_opt JString (ae_activation_receipt_id x)),
     (''constitution_digest'', JString (ae_constitution_digest x)),
     (''constitution_epoch'', json_u64 (ae_constitution_epoch x)),
     (''grants_digest'', JString (ae_grants_digest x)),
     (''issuance_frozen'', JBool (ae_issuance_frozen x)),
     (''safety_state'', JString (safety_state_name (ae_safety_state x))),
     (''protected_root_signature'', JString (ae_protected_root_signature x))]"

definition compute_epoch_reference_digest :: "platform \<Rightarrow> autonomy_epoch \<Rightarrow> string" where
  "compute_epoch_reference_digest E ep =
     digest_canonical E AUTONOMY_EPOCH_REFERENCE_DIGEST_DOMAIN (json_of_autonomy_epoch ep)"

definition epoch_grant_checks ::
  "platform \<Rightarrow> autonomy_epoch \<Rightarrow> u64 \<Rightarrow> autonomy_grant \<Rightarrow> (autonomy_error + unit) list" where
  "epoch_grant_checks E ep now_ms g =
     (let c = ag_core g in
      [validate_grant_at E g now_ms,
       check (\<not> gc_mode c \<noteq> ae_active_mode ep)
         (ModeMismatch ''grant.mode'' (ae_active_mode ep) (gc_mode c)),
       check (\<not> gc_constitution_epoch c \<noteq> ae_constitution_epoch ep)
         (EpochMismatch ''grant.constitution_epoch'' (ae_constitution_epoch ep) (gc_constitution_epoch c)),
       check (\<not> gc_autonomy_epoch c \<noteq> ae_autonomy_epoch ep)
         (EpochMismatch ''grant.autonomy_epoch'' (ae_autonomy_epoch ep) (gc_autonomy_epoch c))])"

definition safety_state_check :: "autonomy_epoch \<Rightarrow> autonomy_error + unit" where
  "safety_state_check ep =
     (case ae_safety_state ep of
        Healthy \<Rightarrow>
          if ae_issuance_frozen ep then Err (Invariant ''HEALTHY epoch cannot have issuance frozen'')
          else Ok ()
      | _ \<Rightarrow>
          if \<not> ae_issuance_frozen ep then Err (Invariant ''non-HEALTHY epoch must freeze issuance'')
          else Ok ())"

definition validate_common ::
  "platform \<Rightarrow> autonomy_epoch \<Rightarrow> constitution_store \<Rightarrow> autonomy_grant list \<Rightarrow> u64 \<Rightarrow>
   autonomy_error + unit" where
  "validate_common E ep constitution grants now_ms =
     (let c = ks_core constitution in
      and_then (seq_checks
        [au_require_schema ''AutonomyEpochV1'' (ae_schema ep) AUTONOMY_EPOCH_SCHEMA,
         au_require_digest ''constitution_digest'' (ae_constitution_digest ep),
         au_require_digest ''grants_digest'' (ae_grants_digest ep),
         au_require_digest_equality ''constitution_digest'' (ks_constitution_digest constitution)
           (ae_constitution_digest ep),
         check (\<not> ae_constitution_epoch ep \<noteq> kc_constitution_epoch c)
           (EpochMismatch ''constitution_epoch'' (kc_constitution_epoch c) (ae_constitution_epoch ep)),
         check (ae_active_mode ep \<in> kc_allowed_autonomy_modes c)
           (ConstitutionInvariant ''active mode is not permitted by the active constitution'')]) (\<lambda>_.
      and_then (compute_grants_digest E grants) (\<lambda>grants_digest. seq_checks
        ([au_require_digest_equality ''grants_digest'' grants_digest (ae_grants_digest ep),
          check (\<not> (ae_active_mode ep \<noteq> HumanGated \<and> grants = []))
            (EmptyCollection ''autonomous_mode_grants'')]
         @ concat (map (epoch_grant_checks E ep now_ms) grants)
         @ [safety_state_check ep,
            if ae_autonomy_epoch ep > 0
            then au_require_non_empty_option ''activation_receipt_id'' (ae_activation_receipt_id ep)
            else Ok (),
            au_require_signature ''protected_root_signature'' (ae_protected_root_signature ep)]))))"

definition validate_bootstrap ::
  "platform \<Rightarrow> autonomy_epoch \<Rightarrow> constitution_store \<Rightarrow> autonomy_grant list \<Rightarrow> u64 \<Rightarrow>
   autonomy_error + unit" where
  "validate_bootstrap E ep constitution grants now_ms = seq_checks
     [validate_common E ep constitution grants now_ms,
      check (\<not> (ae_autonomy_epoch ep \<noteq> 0 \<or> ae_active_mode ep \<noteq> HumanGated \<or>
        ae_activation_receipt_id ep \<noteq> None))
        (Invariant ''authoritative bootstrap is epoch zero HUMAN_GATED with no activation receipt'')]"

section \<open>Intent references\<close>

record intent_core_ref =
  ir_intent_digest :: string
  ir_canonicalization_version :: string
  ir_content_address :: string

definition json_of_intent_core_ref :: "intent_core_ref \<Rightarrow> json" where
  "json_of_intent_core_ref x = JObject
    [(''intent_digest'', JString (ir_intent_digest x)),
     (''canonicalization_version'', JString (ir_canonicalization_version x)),
     (''content_address'', JString (ir_content_address x))]"

definition for_sovereign_digest :: "string \<Rightarrow> intent_core_ref" where
  "for_sovereign_digest d = \<lparr>ir_intent_digest = d, ir_canonicalization_version = CANONICALIZATION_VERSION,
     ir_content_address = ''intent:sha256:'' @ d\<rparr>"

definition for_safety_digest :: "string \<Rightarrow> intent_core_ref" where
  "for_safety_digest d = \<lparr>ir_intent_digest = d, ir_canonicalization_version = CANONICALIZATION_VERSION,
     ir_content_address = ''intent:safety:sha256:'' @ d\<rparr>"

definition validate_intent_ref :: "intent_core_ref \<Rightarrow> bool \<Rightarrow> autonomy_error + unit" where
  "validate_intent_ref r safety = seq_checks
     [au_require_digest ''intent_ref.intent_digest'' (ir_intent_digest r),
      check (\<not> ir_canonicalization_version r \<noteq> CANONICALIZATION_VERSION)
        (Invariant ''intent ref canonicalization version is not runtime-pinned''),
      check (\<not> ir_content_address r \<noteq>
          (if safety then ''intent:safety:sha256:'' @ ir_intent_digest r
           else ''intent:sha256:'' @ ir_intent_digest r))
        (BindingMismatch ''intent_ref.content_address'')]"

section \<open>Sovereign intents\<close>

record sovereign_core =
  sc_action_class :: string
  sc_semantic_action_id :: string
  sc_action_payload_digest :: string
  sc_issuer_subject_id :: string
  sc_decision_subject_id :: string
  sc_caller_subject_id :: string
  sc_audience :: string
  sc_proposer_subject_id :: string
  sc_executor_subject_id :: "string option"
  sc_promotion_target_subject_id :: "string option"
  sc_ratification_target_subject_id :: "string option"
  sc_delegation_grant_digest :: "string option"
  sc_required_authority_variant :: authority_variant
  sc_action_policy_registry_digest :: string
  sc_classifier_decision_digest :: string
  sc_applicable_grant_id :: "string option"
  sc_applicable_grant_digest :: "string option"
  sc_organism_id :: string
  sc_repo_id :: string
  sc_brain_id :: string
  sc_mission_id :: "string option"
  sc_mission_head_id :: "string option"
  sc_block_id :: "string option"
  sc_candidate_digest :: "string option"
  sc_promotion_subject_id :: "string option"
  sc_active_mode :: active_mode
  sc_effective_tier :: autonomy_tier
  sc_risk_class :: risk_class
  sc_risk_scope_digest :: string
  sc_resource_environment_scope_digest :: string
  sc_requested_budget :: u64
  sc_constitution_digest :: string
  sc_constitution_epoch :: u64
  sc_autonomy_epoch :: u64
  sc_expected_store_epoch :: u64
  sc_expected_store_version :: u64
  sc_expected_boundary_version :: u64
  sc_expected_contract_version :: u64
  sc_metric_spec_digest :: string
  sc_evidence_digest :: string
  sc_rollout_plan_digest :: string
  sc_rollback_plan_digest :: string
  sc_nonce :: string
  sc_issued_at :: u64
  sc_expires_at :: u64

definition json_of_sovereign_core :: "sovereign_core \<Rightarrow> json" where
  "json_of_sovereign_core x = JObject
    [(''action_class'', JString (sc_action_class x)),
     (''semantic_action_id'', JString (sc_semantic_action_id x)),
     (''action_payload_digest'', JString (sc_action_payload_digest x)),
     (''issuer_subject_id'', JString (sc_issuer_subject_id x)),
     (''decision_subject_id'', JString (sc_decision_subject_id x)),
     (''caller_subject_id'', JString (sc_caller_subject_id x)),
     (''audience'', JString (sc_audience x)),
     (''proposer_subject_id'', JString (sc_proposer_subject_id x)),
     (''executor_subject_id'', json_opt JString (sc_executor_subject_id x)),
     (''promotion_target_subject_id'', json_opt JString (sc_promotion_target_subject_id x)),
     (''ratification_target_subject_id'', json_opt JString (sc_ratification_target_subject_id x)),
     (''delegation_grant_digest'', json_opt JString (sc_delegation_grant_digest x)),
     (''required_authority_variant'', JString (variant_name (sc_required_authority_variant x))),
     (''action_policy_registry_digest'', JString (sc_action_policy_registry_digest x)),
     (''classifier_decision_digest'', JString (sc_classifier_decision_digest x)),
     (''applicable_grant_id'', json_opt JString (sc_applicable_grant_id x)),
     (''applicable_grant_digest'', json_opt JString (sc_applicable_grant_digest x)),
     (''organism_id'', JString (sc_organism_id x)),
     (''repo_id'', JString (sc_repo_id x)),
     (''brain_id'', JString (sc_brain_id x)),
     (''mission_id'', json_opt JString (sc_mission_id x)),
     (''mission_head_id'', json_opt JString (sc_mission_head_id x)),
     (''block_id'', json_opt JString (sc_block_id x)),
     (''candidate_digest'', json_opt JString (sc_candidate_digest x)),
     (''promotion_subject_id'', json_opt JString (sc_promotion_subject_id x)),
     (''active_mode'', JString (mode_name (sc_active_mode x))),
     (''effective_tier'', JString (tier_name (sc_effective_tier x))),
     (''risk_class'', JString (risk_name (sc_risk_class x))),
     (''risk_scope_digest'', JString (sc_risk_scope_digest x)),
     (''resource_environment_scope_digest'', JString (sc_resource_environment_scope_digest x)),
     (''requested_budget'', json_u64 (sc_requested_budget x)),
     (''constitution_digest'', JString (sc_constitution_digest x)),
     (''constitution_epoch'', json_u64 (sc_constitution_epoch x)),
     (''autonomy_epoch'', json_u64 (sc_autonomy_epoch x)),
     (''expected_store_epoch'', json_u64 (sc_expected_store_epoch x)),
     (''expected_store_version'', json_u64 (sc_expected_store_version x)),
     (''expected_boundary_version'', json_u64 (sc_expected_boundary_version x)),
     (''expected_contract_version'', json_u64 (sc_expected_contract_version x)),
     (''metric_spec_digest'', JString (sc_metric_spec_digest x)),
     (''evidence_digest'', JString (sc_evidence_digest x)),
     (''rollout_plan_digest'', JString (sc_rollout_plan_digest x)),
     (''rollback_plan_digest'', JString (sc_rollback_plan_digest x)),
     (''nonce'', JString (sc_nonce x)),
     (''issued_at'', json_u64 (sc_issued_at x)),
     (''expires_at'', json_u64 (sc_expires_at x))]"

record sovereign_intent =
  si_schema :: string
  si_core :: sovereign_core
  si_intent_digest :: string
  si_intent_core_ref :: intent_core_ref

definition json_of_sovereign_intent :: "sovereign_intent \<Rightarrow> json" where
  "json_of_sovereign_intent x = JObject
    [(''schema'', JString (si_schema x)),
     (''core'', json_of_sovereign_core (si_core x)),
     (''intent_digest'', JString (si_intent_digest x)),
     (''intent_core_ref'', json_of_intent_core_ref (si_intent_core_ref x))]"

definition compute_sovereign_digest :: "platform \<Rightarrow> sovereign_intent \<Rightarrow> string" where
  "compute_sovereign_digest E i =
     digest_versioned_core E SOVEREIGN_INTENT_DIGEST_DOMAIN CANONICALIZATION_VERSION
       (json_of_sovereign_core (si_core i))"

definition seal_sovereign :: "platform \<Rightarrow> sovereign_intent \<Rightarrow> sovereign_intent" where
  "seal_sovereign E i =
     (let d = compute_sovereign_digest E i in
      i\<lparr>si_intent_digest := d, si_intent_core_ref := for_sovereign_digest d\<rparr>)"

text \<open>
  The second test repeats what the first loop has already rejected: the executor cannot be the
  target of the ratification.
\<close>

definition self_authorization_target :: "sovereign_core \<Rightarrow> string \<Rightarrow> bool" where
  "self_authorization_target c target \<longleftrightarrow>
     target \<in> {sc_issuer_subject_id c, sc_decision_subject_id c, sc_proposer_subject_id c} \<or>
     sc_executor_subject_id c = Some target"

definition validate_no_self_authorization :: "sovereign_core \<Rightarrow> autonomy_error + unit" where
  "validate_no_self_authorization c = seq_checks
     (map (\<lambda>target. check (\<not> self_authorization_target c target) (SelfAuthorization target))
        (List.map_filter id [sc_promotion_target_subject_id c, sc_ratification_target_subject_id c])
      @ [if sc_action_class c = ''ratify'' then
           (case (sc_executor_subject_id c, sc_ratification_target_subject_id c) of
              (Some executor, Some target) \<Rightarrow> check (\<not> executor = target) (SelfAuthorization executor)
            | _ \<Rightarrow> Ok ())
         else Ok ()])"

definition is_catalog_action :: "string \<Rightarrow> bool" where
  "is_catalog_action a =
     (case action_id_new a of Inl _ \<Rightarrow> False | Inr action \<Rightarrow> is_semantic_catalog_id action)"

text \<open>The digest and the reference of an intent, checked by both of its validators.\<close>

definition intent_digest_checks :: "platform \<Rightarrow> sovereign_intent \<Rightarrow> (autonomy_error + unit) list" where
  "intent_digest_checks E i =
     [au_require_digest ''intent_digest'' (si_intent_digest i),
      au_require_digest_equality ''intent_digest'' (compute_sovereign_digest E i) (si_intent_digest i),
      validate_intent_ref (si_intent_core_ref i) False,
      au_require_digest_equality ''intent_core_ref.intent_digest'' (si_intent_digest i)
        (ir_intent_digest (si_intent_core_ref i))]"

definition validate_canonical_core ::
  "platform \<Rightarrow> sovereign_intent \<Rightarrow> u64 \<Rightarrow> autonomy_error + autonomy_validation" where
  "validate_canonical_core E i now_ms =
     (let c = si_core i in au_accept
      ([au_require_schema ''SovereignActionIntentV1'' (si_schema i) SOVEREIGN_ACTION_INTENT_SCHEMA,
        au_require_time_window ''SovereignActionIntentV1'' (sc_issued_at c) (sc_expires_at c) now_ms,
        validate_no_self_authorization c,
        check (is_catalog_action (sc_semantic_action_id c))
          (Invariant ''sovereign intent semantic_action_id is not a canonical G2 action id'')]
       @ intent_digest_checks E i)
      (compute_sovereign_digest E i))"

definition validate_grant_binding :: "sovereign_core \<Rightarrow> autonomy_grant \<Rightarrow> autonomy_error + unit" where
  "validate_grant_binding c g =
     (let k = ag_core g in seq_checks
      [check (\<not> (sc_applicable_grant_id c \<noteq> Some (gc_grant_id k) \<or>
         sc_applicable_grant_digest c \<noteq> Some (ag_grant_digest g))) (BindingMismatch ''applicable_grant''),
       check (\<not> gc_subject_id k \<noteq> sc_decision_subject_id c) (BindingMismatch ''grant.subject_id''),
       check (\<not> gc_mode k \<noteq> sc_active_mode c)
         (ModeMismatch ''grant.mode'' (sc_active_mode c) (gc_mode k)),
       check (\<not> (gc_constitution_epoch k \<noteq> sc_constitution_epoch c \<or>
         gc_autonomy_epoch k \<noteq> sc_autonomy_epoch c)) (BindingMismatch ''grant.epochs''),
       authorize_scope g (sc_action_class c) (sc_risk_class c)
         (sc_resource_environment_scope_digest c) (sc_requested_budget c) (sc_effective_tier c)])"

definition sovereign_field_checks :: "sovereign_core \<Rightarrow> (autonomy_error + unit) list" where
  "sovereign_field_checks c =
     au_required
       [(''action_class'', sc_action_class c), (''semantic_action_id'', sc_semantic_action_id c),
        (''issuer_subject_id'', sc_issuer_subject_id c),
        (''decision_subject_id'', sc_decision_subject_id c),
        (''caller_subject_id'', sc_caller_subject_id c), (''audience'', sc_audience c),
        (''proposer_subject_id'', sc_proposer_subject_id c), (''organism_id'', sc_organism_id c),
        (''repo_id'', sc_repo_id c), (''brain_id'', sc_brain_id c), (''nonce'', sc_nonce c)]
     @ map (\<lambda>(f, v). au_validate_optional_non_empty f v)
       [(''executor_subject_id'', sc_executor_subject_id c),
        (''promotion_target_subject_id'', sc_promotion_target_subject_id c),
        (''ratification_target_subject_id'', sc_ratification_target_subject_id c),
        (''mission_id'', sc_mission_id c), (''mission_head_id'', sc_mission_head_id c),
        (''block_id'', sc_block_id c), (''promotion_subject_id'', sc_promotion_subject_id c),
        (''applicable_grant_id'', sc_applicable_grant_id c)]
     @ au_digests
       [(''action_payload_digest'', sc_action_payload_digest c),
        (''action_policy_registry_digest'', sc_action_policy_registry_digest c),
        (''classifier_decision_digest'', sc_classifier_decision_digest c),
        (''risk_scope_digest'', sc_risk_scope_digest c),
        (''resource_environment_scope_digest'', sc_resource_environment_scope_digest c),
        (''constitution_digest'', sc_constitution_digest c),
        (''metric_spec_digest'', sc_metric_spec_digest c), (''evidence_digest'', sc_evidence_digest c),
        (''rollout_plan_digest'', sc_rollout_plan_digest c),
        (''rollback_plan_digest'', sc_rollback_plan_digest c)]
     @ map (\<lambda>(f, v). au_optional_digest f v)
       [(''delegation_grant_digest'', sc_delegation_grant_digest c),
        (''candidate_digest'', sc_candidate_digest c),
        (''applicable_grant_digest'', sc_applicable_grant_digest c)]"

definition intent_epoch_checks :: "sovereign_core \<Rightarrow> autonomy_epoch \<Rightarrow> u64 \<Rightarrow> (autonomy_error + unit) list" where
  "intent_epoch_checks c ep now_ms =
     [au_require_time_window ''SovereignActionIntentV1'' (sc_issued_at c) (sc_expires_at c) now_ms,
      check (sc_required_authority_variant c \<in> {Human, Policy, AgentQuorum})
        (Invariant ''sovereign positive intent requires HUMAN, POLICY, or AGENT_QUORUM authority''),
      check (\<not> sc_active_mode c \<noteq> ae_active_mode ep)
        (ModeMismatch ''intent.active_mode'' (ae_active_mode ep) (sc_active_mode c)),
      check (\<not> sc_constitution_epoch c \<noteq> ae_constitution_epoch ep)
        (EpochMismatch ''intent.constitution_epoch'' (ae_constitution_epoch ep) (sc_constitution_epoch c)),
      check (\<not> sc_autonomy_epoch c \<noteq> ae_autonomy_epoch ep)
        (EpochMismatch ''intent.autonomy_epoch'' (ae_autonomy_epoch ep) (sc_autonomy_epoch c)),
      au_require_digest_equality ''intent.constitution_digest'' (ae_constitution_digest ep)
        (sc_constitution_digest c),
      check (\<not> (ae_issuance_frozen ep \<or> ae_safety_state ep \<noteq> Healthy))
        (Invariant
          ''positive intent is forbidden while issuance is frozen or safety is non-HEALTHY''),
      check (\<not> (sc_caller_subject_id c \<noteq> sc_decision_subject_id c \<and> sc_delegation_grant_digest c = None))
        (Invariant ''caller/decision subject divergence requires an explicit delegation grant''),
      validate_no_self_authorization c]"

text \<open>The last arm of the code's match, \<open>unreachable!\<close>, is excluded by an earlier check.\<close>

definition intent_grant_check ::
  "platform \<Rightarrow> sovereign_core \<Rightarrow> autonomy_grant option \<Rightarrow> u64 \<Rightarrow> autonomy_error + unit" where
  "intent_grant_check E c grant now_ms =
     (if sc_required_authority_variant c = Human then
        check (\<not> (grant \<noteq> None \<or> sc_applicable_grant_id c \<noteq> None \<or> sc_applicable_grant_digest c \<noteq> None))
          (Invariant ''HUMAN authority cannot be smuggled through an autonomy grant'')
      else
        and_then (check (\<not> (sc_applicable_grant_id c = None \<or> sc_applicable_grant_digest c = None))
          (Invariant ''autonomous positive intent requires grant id and digest'')) (\<lambda>_.
        and_then (ok_or grant (Invariant ''autonomous positive intent requires an exact scoped grant'')) (\<lambda>g.
        seq_checks [validate_grant_at E g now_ms, validate_grant_binding c g])))"

definition validate_sovereign ::
  "platform \<Rightarrow> sovereign_intent \<Rightarrow> autonomy_epoch \<Rightarrow> autonomy_grant option \<Rightarrow> u64 \<Rightarrow>
   autonomy_error + autonomy_validation" where
  "validate_sovereign E i ep grant now_ms =
     (let c = si_core i in au_accept
      ([au_require_schema ''SovereignActionIntentV1'' (si_schema i) SOVEREIGN_ACTION_INTENT_SCHEMA,
        au_discard (validate_canonical_core E i now_ms)]
       @ sovereign_field_checks c
       @ intent_epoch_checks c ep now_ms
       @ [intent_grant_check E c grant now_ms]
       @ intent_digest_checks E i)
      (compute_sovereign_digest E i))"

text \<open>Generic admission of a JSON intent core by a durable store.\<close>

definition FORBIDDEN :: "string list" where
  "FORBIDDEN =
    [''intent_digest'', ''intent_core_ref'', ''sentinel_verdict_digest'', ''verdict_digest'',
     ''votes'', ''decision_digest'', ''authority_decision'', ''capability_id'',
     ''capability_digest'', ''transaction_id'', ''transaction_digest'']"

definition reject_cyclic_json_fields :: "json \<Rightarrow> autonomy_error + unit" where
  "reject_cyclic_json_fields value =
     (case value of
        JObject kvs \<Rightarrow> seq_checks
          (map (\<lambda>f. check (\<not> f \<in> set (map fst kvs)) (CyclicIntentField f)) FORBIDDEN)
      | _ \<Rightarrow> Err (Invariant ''intent core must be a JSON object''))"

end
