(* ===== verification/Autonomy_Sentinel.thy ===== *)
theory Autonomy_Sentinel
  imports Autonomy_Grants
begin

text \<open>
  \<open>m1nd-control/src/autonomy.rs\<close>: the sentinel's verdict on an intent, the outbox of RED
  verdicts, the latch that freezes the system on RED, and the safety intent and safety
  capability that act on the latch.
\<close>

section \<open>Sentinel verdicts\<close>

datatype sentinel_verdict = Green | Red

fun sentinel_verdict_name :: "sentinel_verdict \<Rightarrow> string" where
  "sentinel_verdict_name Green = ''GREEN''" | "sentinel_verdict_name Red = ''RED''"

record sentinel_core =
  nl_verdict_id :: string
  nl_sentinel_identity_key_binary_policy_digest :: string
  nl_intent_digest :: string
  nl_intent_core_ref :: intent_core_ref
  nl_intent_canonicalization_version :: string
  nl_metric_evidence_rollback_digest :: string
  nl_risk_scope_digest :: string
  nl_constitution_epoch :: u64
  nl_autonomy_epoch :: u64
  nl_nonce :: string
  nl_issued_at :: u64
  nl_expires_at :: u64
  nl_verdict :: sentinel_verdict

definition json_of_sentinel_core :: "sentinel_core \<Rightarrow> json" where
  "json_of_sentinel_core x = JObject
    [(''verdict_id'', JString (nl_verdict_id x)),
     (''sentinel_identity_key_binary_policy_digest'', JString (nl_sentinel_identity_key_binary_policy_digest x)),
     (''intent_digest'', JString (nl_intent_digest x)),
     (''intent_core_ref'', json_of_intent_core_ref (nl_intent_core_ref x)),
     (''intent_canonicalization_version'', JString (nl_intent_canonicalization_version x)),
     (''metric_evidence_rollback_digest'', JString (nl_metric_evidence_rollback_digest x)),
     (''risk_scope_digest'', JString (nl_risk_scope_digest x)),
     (''constitution_epoch'', json_u64 (nl_constitution_epoch x)),
     (''autonomy_epoch'', json_u64 (nl_autonomy_epoch x)),
     (''nonce'', JString (nl_nonce x)),
     (''issued_at'', json_u64 (nl_issued_at x)),
     (''expires_at'', json_u64 (nl_expires_at x)),
     (''verdict'', JString (sentinel_verdict_name (nl_verdict x)))]"

record sentinel_record =
  sr_schema :: string
  sr_core :: sentinel_core
  sr_verdict_digest :: string
  sr_signature :: string

definition json_of_sentinel_record :: "sentinel_record \<Rightarrow> json" where
  "json_of_sentinel_record x = JObject
    [(''schema'', JString (sr_schema x)),
     (''core'', json_of_sentinel_core (sr_core x)),
     (''verdict_digest'', JString (sr_verdict_digest x)),
     (''signature'', JString (sr_signature x))]"

definition compute_verdict_digest :: "platform \<Rightarrow> sentinel_record \<Rightarrow> string" where
  "compute_verdict_digest E v =
     digest_canonical E SENTINEL_VERDICT_DIGEST_DOMAIN (json_of_sentinel_core (sr_core v))"

definition seal_verdict :: "platform \<Rightarrow> sentinel_record \<Rightarrow> sentinel_record" where
  "seal_verdict E v = v\<lparr>sr_verdict_digest := compute_verdict_digest E v\<rparr>"

definition validate_verdict ::
  "platform \<Rightarrow> sentinel_record \<Rightarrow> sovereign_intent \<Rightarrow> safety_kernel \<Rightarrow> u64 \<Rightarrow>
   autonomy_error + autonomy_validation" where
  "validate_verdict E v intent kern now_ms =
     (let c = sr_core v; i = si_core intent in au_accept
      ([au_discard (validate_canonical_core E intent now_ms),
        au_require_schema ''SentinelVerdictV1'' (sr_schema v) SENTINEL_VERDICT_SCHEMA,
        au_require_non_empty ''verdict_id'' (nl_verdict_id c),
        au_require_non_empty ''sentinel.nonce'' (nl_nonce c),
        au_require_time_window ''SentinelVerdictV1'' (nl_issued_at c) (nl_expires_at c) now_ms]
       @ au_digests
          [(''sentinel_identity_key_binary_policy_digest'', nl_sentinel_identity_key_binary_policy_digest c),
           (''sentinel.intent_digest'', nl_intent_digest c),
           (''metric_evidence_rollback_digest'', nl_metric_evidence_rollback_digest c),
           (''sentinel.risk_scope_digest'', nl_risk_scope_digest c)]
       @ au_digest_pairs
          [(''sentinel_identity_key_binary_policy_digest'',
            kn_sentinel_identity_key_binary_policy_digest (sk_core kern),
            nl_sentinel_identity_key_binary_policy_digest c),
           (''sentinel.intent_digest'', si_intent_digest intent, nl_intent_digest c),
           (''sentinel.risk_scope_digest'', sc_risk_scope_digest i, nl_risk_scope_digest c)]
       @ [check (\<not> nl_intent_canonicalization_version c \<noteq> CANONICALIZATION_VERSION)
            (BindingMismatch ''sentinel.intent_canonicalization_version''),
          check (\<not> nl_intent_core_ref c \<noteq> si_intent_core_ref intent)
            (BindingMismatch ''sentinel.intent_core_ref''),
          check (\<not> (nl_constitution_epoch c \<noteq> sc_constitution_epoch i \<or>
            nl_autonomy_epoch c \<noteq> sc_autonomy_epoch i \<or> nl_nonce c \<noteq> sc_nonce i))
            (BindingMismatch ''sentinel.epoch_or_nonce''),
          au_require_digest ''verdict_digest'' (sr_verdict_digest v),
          au_require_digest_equality ''verdict_digest'' (compute_verdict_digest E v) (sr_verdict_digest v),
          au_require_signature ''sentinel.signature'' (sr_signature v)])
      (compute_verdict_digest E v))"

section \<open>The RED outbox\<close>

datatype red_outbox_state = OutboxPending | LatchAcknowledged | ActuatorAcknowledged | OutboxTerminal

fun red_outbox_state_name :: "red_outbox_state \<Rightarrow> string" where
  "red_outbox_state_name OutboxPending = ''PENDING''"
| "red_outbox_state_name LatchAcknowledged = ''LATCH_ACKNOWLEDGED''"
| "red_outbox_state_name ActuatorAcknowledged = ''ACTUATOR_ACKNOWLEDGED''"
| "red_outbox_state_name OutboxTerminal = ''TERMINAL''"

record red_outbox_core =
  xc_red_verdict_digest :: string
  xc_source_intent_digest :: string
  xc_outbox_epoch :: u64
  xc_previous_outbox_root_digest :: "string option"
  xc_signed_outbox_root_digest :: string
  xc_protected_latest_outbox_epoch :: u64
  xc_delivery_attempt :: u64
  xc_journal_latch_ack :: bool
  xc_actuator_ack :: bool
  xc_terminal_safety_transaction_id :: "string option"
  xc_state :: red_outbox_state

definition json_of_red_outbox_core :: "red_outbox_core \<Rightarrow> json" where
  "json_of_red_outbox_core x = JObject
    [(''red_verdict_digest'', JString (xc_red_verdict_digest x)),
     (''source_intent_digest'', JString (xc_source_intent_digest x)),
     (''outbox_epoch'', json_u64 (xc_outbox_epoch x)),
     (''previous_outbox_root_digest'', json_opt JString (xc_previous_outbox_root_digest x)),
     (''signed_outbox_root_digest'', JString (xc_signed_outbox_root_digest x)),
     (''protected_latest_outbox_epoch'', json_u64 (xc_protected_latest_outbox_epoch x)),
     (''delivery_attempt'', json_u64 (xc_delivery_attempt x)),
     (''journal_latch_ack'', JBool (xc_journal_latch_ack x)),
     (''actuator_ack'', JBool (xc_actuator_ack x)),
     (''terminal_safety_transaction_id'', json_opt JString (xc_terminal_safety_transaction_id x)),
     (''state'', JString (red_outbox_state_name (xc_state x)))]"

record red_outbox =
  xb_schema :: string
  xb_core :: red_outbox_core
  xb_record_digest :: string
  xb_root_signature :: string

definition json_of_red_outbox :: "red_outbox \<Rightarrow> json" where
  "json_of_red_outbox x = JObject
    [(''schema'', JString (xb_schema x)),
     (''core'', json_of_red_outbox_core (xb_core x)),
     (''record_digest'', JString (xb_record_digest x)),
     (''root_signature'', JString (xb_root_signature x))]"

definition compute_outbox_digest :: "platform \<Rightarrow> red_outbox \<Rightarrow> string" where
  "compute_outbox_digest E x =
     digest_canonical E SENTINEL_RED_OUTBOX_RECORD_DIGEST_DOMAIN (json_of_red_outbox_core (xb_core x))"

definition seal_outbox :: "platform \<Rightarrow> red_outbox \<Rightarrow> red_outbox" where
  "seal_outbox E x = x\<lparr>xb_record_digest := compute_outbox_digest E x\<rparr>"

definition some_non_empty :: "string option \<Rightarrow> bool" where
  "some_non_empty x = (case x of Some v \<Rightarrow> v \<noteq> [] | None \<Rightarrow> False)"

definition red_outbox_state_valid :: "red_outbox_core \<Rightarrow> bool" where
  "red_outbox_state_valid c =
     (case xc_state c of
        OutboxPending \<Rightarrow>
          \<not> xc_journal_latch_ack c \<and> \<not> xc_actuator_ack c \<and> xc_terminal_safety_transaction_id c = None
      | LatchAcknowledged \<Rightarrow>
          xc_journal_latch_ack c \<and> \<not> xc_actuator_ack c \<and> xc_terminal_safety_transaction_id c = None
      | ActuatorAcknowledged \<Rightarrow>
          xc_journal_latch_ack c \<and> xc_actuator_ack c \<and> xc_terminal_safety_transaction_id c = None
      | OutboxTerminal \<Rightarrow>
          xc_journal_latch_ack c \<and> xc_actuator_ack c \<and>
          some_non_empty (xc_terminal_safety_transaction_id c))"

definition validate_red_outbox_state :: "red_outbox_core \<Rightarrow> autonomy_error + unit" where
  "validate_red_outbox_state c = check (red_outbox_state_valid c)
     (Invariant ''RED outbox state contradicts its durable acknowledgements'')"

text \<open>The successor epoch is \<open>previous + 1\<close> on \<open>u64\<close>, which wraps in a release build.\<close>

definition outbox_chain_check :: "red_outbox_core \<Rightarrow> red_outbox option \<Rightarrow> autonomy_error + unit" where
  "outbox_chain_check c expected_previous =
     (case expected_previous of
        None \<Rightarrow> check (\<not> (xc_outbox_epoch c \<noteq> 1 \<or> xc_previous_outbox_root_digest c \<noteq> None))
          (Invariant ''first RED outbox record is epoch one with no previous root'')
      | Some previous \<Rightarrow> check (\<not> (xc_outbox_epoch c \<noteq> xc_outbox_epoch (xb_core previous) + 1 \<or>
          xc_previous_outbox_root_digest c \<noteq> Some (xc_signed_outbox_root_digest (xb_core previous))))
          (Invariant ''RED outbox records must form a gapless signed root chain''))"

definition validate_outbox ::
  "platform \<Rightarrow> red_outbox \<Rightarrow> sentinel_record \<Rightarrow> sovereign_intent \<Rightarrow> red_outbox option \<Rightarrow>
   autonomy_error + autonomy_validation" where
  "validate_outbox E x verdict intent expected_previous =
     (let c = xb_core x in au_accept
      ([au_require_schema ''SentinelRedOutboxV1'' (xb_schema x) SENTINEL_RED_OUTBOX_SCHEMA,
        check (\<not> nl_verdict (sr_core verdict) \<noteq> Red)
          (Invariant ''only RED sentinel verdicts enter the durable RED outbox'')]
       @ au_digest_pairs
          [(''outbox.red_verdict_digest'', sr_verdict_digest verdict, xc_red_verdict_digest c),
           (''outbox.source_intent_digest'', si_intent_digest intent, xc_source_intent_digest c)]
       @ [au_require_digest ''signed_outbox_root_digest'' (xc_signed_outbox_root_digest c),
          check (\<not> (xc_outbox_epoch c = 0 \<or> xc_protected_latest_outbox_epoch c < xc_outbox_epoch c \<or>
            xc_delivery_attempt c = 0))
            (Invariant ''RED outbox epochs must be positive and protected against rollback''),
          outbox_chain_check c expected_previous,
          validate_red_outbox_state c,
          au_require_digest ''outbox.record_digest'' (xb_record_digest x),
          au_require_digest_equality ''outbox.record_digest'' (compute_outbox_digest E x) (xb_record_digest x),
          au_require_signature ''outbox.root_signature'' (xb_root_signature x)])
      (compute_outbox_digest E x))"

section \<open>Negative effects\<close>

text \<open>The first effect of the set, in its order, that is not negative.\<close>

definition compute_safety_effects_digest :: "platform \<Rightarrow> effect set \<Rightarrow> autonomy_error + string" where
  "compute_safety_effects_digest E effects =
     (if effects = {} then Err (EmptyCollection ''negative_effects'')
      else and_then (seq_checks (map (\<lambda>e. check (\<not> \<not> is_negative_safety e) (PositiveEffectInSafety e))
               (sorted_list_of_set effects)))
             (\<lambda>_. Ok (digest_canonical E SAFETY_EFFECTS_DIGEST_DOMAIN (json_of_effects effects))))"

definition validate_safety_effects :: "platform \<Rightarrow> effect set \<Rightarrow> safety_kernel \<Rightarrow> autonomy_error + unit" where
  "validate_safety_effects E effects kern = seq_checks
     [au_discard (compute_safety_effects_digest E effects),
      check (\<not> effects \<noteq> kn_allowed_negative_effects (sk_core kern)) SafetyAllowListMismatch]"

section \<open>The RED latch\<close>

datatype red_latch_state = LatchPending | LatchCommitting | LatchTerminal

fun red_latch_state_name :: "red_latch_state \<Rightarrow> string" where
  "red_latch_state_name LatchPending = ''PENDING''"
| "red_latch_state_name LatchCommitting = ''COMMITTING''"
| "red_latch_state_name LatchTerminal = ''TERMINAL''"

record red_latch_core =
  lc_latch_receipt_id :: string
  lc_red_verdict_digest :: string
  lc_source_intent_digest :: string
  lc_sentinel_outbox_epoch :: u64
  lc_sentinel_outbox_root_digest :: string
  lc_latched_at :: u64
  lc_protected_time_evidence_digest :: string
  lc_constitution_epoch :: u64
  lc_autonomy_epoch :: u64
  lc_latch_epoch :: u64
  lc_exact_affected_scope_digest :: string
  lc_allowed_negative_actions_digest :: string
  lc_rollback_candidate_plan_digest :: string
  lc_immutable_negative_mandate_digest :: string
  lc_committing_transaction_id :: "string option"
  lc_commit_marker_digest :: "string option"
  lc_terminal_safety_transaction_id :: "string option"
  lc_state :: red_latch_state

definition json_of_red_latch_core :: "red_latch_core \<Rightarrow> json" where
  "json_of_red_latch_core x = JObject
    [(''latch_receipt_id'', JString (lc_latch_receipt_id x)),
     (''red_verdict_digest'', JString (lc_red_verdict_digest x)),
     (''source_intent_digest'', JString (lc_source_intent_digest x)),
     (''sentinel_outbox_epoch'', json_u64 (lc_sentinel_outbox_epoch x)),
     (''sentinel_outbox_root_digest'', JString (lc_sentinel_outbox_root_digest x)),
     (''latched_at'', json_u64 (lc_latched_at x)),
     (''protected_time_evidence_digest'', JString (lc_protected_time_evidence_digest x)),
     (''constitution_epoch'', json_u64 (lc_constitution_epoch x)),
     (''autonomy_epoch'', json_u64 (lc_autonomy_epoch x)),
     (''latch_epoch'', json_u64 (lc_latch_epoch x)),
     (''exact_affected_scope_digest'', JString (lc_exact_affected_scope_digest x)),
     (''allowed_negative_actions_digest'', JString (lc_allowed_negative_actions_digest x)),
     (''rollback_candidate_plan_digest'', JString (lc_rollback_candidate_plan_digest x)),
     (''immutable_negative_mandate_digest'', JString (lc_immutable_negative_mandate_digest x)),
     (''committing_transaction_id'', json_opt JString (lc_committing_transaction_id x)),
     (''commit_marker_digest'', json_opt JString (lc_commit_marker_digest x)),
     (''terminal_safety_transaction_id'', json_opt JString (lc_terminal_safety_transaction_id x)),
     (''state'', JString (red_latch_state_name (lc_state x)))]"

record red_latch =
  rl_schema :: string
  rl_core :: red_latch_core
  rl_latch_receipt_digest :: string
  rl_owner_kernel_signature :: string

definition json_of_red_latch :: "red_latch \<Rightarrow> json" where
  "json_of_red_latch x = JObject
    [(''schema'', JString (rl_schema x)),
     (''core'', json_of_red_latch_core (rl_core x)),
     (''latch_receipt_digest'', JString (rl_latch_receipt_digest x)),
     (''owner_kernel_signature'', JString (rl_owner_kernel_signature x))]"

definition compute_latch_digest :: "platform \<Rightarrow> red_latch \<Rightarrow> string" where
  "compute_latch_digest E l =
     digest_canonical E RED_LATCH_RECEIPT_DIGEST_DOMAIN (json_of_red_latch_core (rl_core l))"

definition seal_latch :: "platform \<Rightarrow> red_latch \<Rightarrow> red_latch" where
  "seal_latch E l = l\<lparr>rl_latch_receipt_digest := compute_latch_digest E l\<rparr>"

definition red_latch_state_valid :: "red_latch_core \<Rightarrow> bool" where
  "red_latch_state_valid c =
     (case lc_state c of
        LatchPending \<Rightarrow> lc_committing_transaction_id c = None \<and> lc_commit_marker_digest c = None \<and>
          lc_terminal_safety_transaction_id c = None
      | LatchCommitting \<Rightarrow> some_non_empty (lc_committing_transaction_id c) \<and>
          lc_commit_marker_digest c \<noteq> None \<and> lc_terminal_safety_transaction_id c = None
      | LatchTerminal \<Rightarrow> some_non_empty (lc_committing_transaction_id c) \<and>
          lc_commit_marker_digest c \<noteq> None \<and>
          lc_terminal_safety_transaction_id c = lc_committing_transaction_id c)"

definition validate_red_latch_state :: "red_latch_core \<Rightarrow> autonomy_error + unit" where
  "validate_red_latch_state c = seq_checks
     [check (red_latch_state_valid c)
        (Invariant ''RED latch state contradicts its commit claim/marker/terminal transaction''),
      au_optional_digest ''latch.commit_marker_digest'' (lc_commit_marker_digest c)]"

definition validate_latch ::
  "platform \<Rightarrow> red_latch \<Rightarrow> red_outbox \<Rightarrow> sentinel_record \<Rightarrow> sovereign_intent \<Rightarrow> safety_kernel \<Rightarrow>
   autonomy_error + autonomy_validation" where
  "validate_latch E l outbox verdict intent kern =
     (let c = rl_core l; i = si_core intent in
      and_then (seq_checks
       ([au_require_schema ''RedLatchReceiptV1'' (rl_schema l) RED_LATCH_RECEIPT_SCHEMA,
         au_require_non_empty ''latch_receipt_id'' (lc_latch_receipt_id c),
         check (\<not> nl_verdict (sr_core verdict) \<noteq> Red)
           (Invariant ''a RED latch requires a RED sentinel verdict'')]
        @ au_digest_pairs
           [(''latch.red_verdict_digest'', sr_verdict_digest verdict, lc_red_verdict_digest c),
            (''latch.source_intent_digest'', si_intent_digest intent, lc_source_intent_digest c),
            (''latch.sentinel_outbox_root_digest'', xc_signed_outbox_root_digest (xb_core outbox),
             lc_sentinel_outbox_root_digest c)]
        @ [check (\<not> (lc_sentinel_outbox_epoch c \<noteq> xc_outbox_epoch (xb_core outbox) \<or>
             lc_constitution_epoch c \<noteq> sc_constitution_epoch i \<or>
             lc_autonomy_epoch c \<noteq> sc_autonomy_epoch i \<or> lc_latch_epoch c = 0))
             (BindingMismatch ''latch.epochs'')]
        @ au_digests
           [(''protected_time_evidence_digest'', lc_protected_time_evidence_digest c),
            (''exact_affected_scope_digest'', lc_exact_affected_scope_digest c),
            (''allowed_negative_actions_digest'', lc_allowed_negative_actions_digest c),
            (''rollback_candidate_plan_digest'', lc_rollback_candidate_plan_digest c),
            (''immutable_negative_mandate_digest'', lc_immutable_negative_mandate_digest c)])) (\<lambda>_.
      and_then (compute_safety_effects_digest E (kn_allowed_negative_effects (sk_core kern))) (\<lambda>expected.
      au_accept
        [au_require_digest_equality ''allowed_negative_actions_digest'' expected
           (lc_allowed_negative_actions_digest c),
         validate_red_latch_state c,
         au_require_digest ''latch_receipt_digest'' (rl_latch_receipt_digest l),
         au_require_digest_equality ''latch_receipt_digest'' (compute_latch_digest E l)
           (rl_latch_receipt_digest l),
         au_require_signature ''latch.owner_kernel_signature'' (rl_owner_kernel_signature l)]
        (compute_latch_digest E l))))"

section \<open>Safety intents\<close>

record safety_intent_core =
  fc_safety_attempt_id :: string
  fc_attempt_sequence :: u64
  fc_rebased_from_attempt_digest :: "string option"
  fc_source_intent_digest :: string
  fc_source_intent_core_ref :: intent_core_ref
  fc_sentinel_red_verdict_digest :: string
  fc_red_latch_receipt_digest :: string
  fc_actuator_identity_key_binary_policy_digest :: string
  fc_expected_constitution_epoch :: u64
  fc_expected_autonomy_epoch :: u64
  fc_affected_grants_scope_digest :: string
  fc_negative_effects :: "effect set"
  fc_allowed_negative_actions_digest :: string
  fc_rollback_candidate_plan_digest :: string
  fc_nonce :: string
  fc_attempt_idempotency_key :: string
  fc_issued_at :: u64
  fc_valid_while_latch_pending :: bool

definition json_of_safety_intent_core :: "safety_intent_core \<Rightarrow> json" where
  "json_of_safety_intent_core x = JObject
    [(''safety_attempt_id'', JString (fc_safety_attempt_id x)),
     (''attempt_sequence'', json_u64 (fc_attempt_sequence x)),
     (''rebased_from_attempt_digest'', json_opt JString (fc_rebased_from_attempt_digest x)),
     (''source_intent_digest'', JString (fc_source_intent_digest x)),
     (''source_intent_core_ref'', json_of_intent_core_ref (fc_source_intent_core_ref x)),
     (''sentinel_red_verdict_digest'', JString (fc_sentinel_red_verdict_digest x)),
     (''red_latch_receipt_digest'', JString (fc_red_latch_receipt_digest x)),
     (''actuator_identity_key_binary_policy_digest'', JString (fc_actuator_identity_key_binary_policy_digest x)),
     (''expected_constitution_epoch'', json_u64 (fc_expected_constitution_epoch x)),
     (''expected_autonomy_epoch'', json_u64 (fc_expected_autonomy_epoch x)),
     (''affected_grants_scope_digest'', JString (fc_affected_grants_scope_digest x)),
     (''negative_effects'', json_of_effects (fc_negative_effects x)),
     (''allowed_negative_actions_digest'', JString (fc_allowed_negative_actions_digest x)),
     (''rollback_candidate_plan_digest'', JString (fc_rollback_candidate_plan_digest x)),
     (''nonce'', JString (fc_nonce x)),
     (''attempt_idempotency_key'', JString (fc_attempt_idempotency_key x)),
     (''issued_at'', json_u64 (fc_issued_at x)),
     (''valid_while_latch_pending'', JBool (fc_valid_while_latch_pending x))]"

record safety_intent =
  sf_schema :: string
  sf_core :: safety_intent_core
  sf_safety_intent_digest :: string
  sf_safety_intent_core_ref :: intent_core_ref

definition json_of_safety_intent :: "safety_intent \<Rightarrow> json" where
  "json_of_safety_intent x = JObject
    [(''schema'', JString (sf_schema x)),
     (''core'', json_of_safety_intent_core (sf_core x)),
     (''safety_intent_digest'', JString (sf_safety_intent_digest x)),
     (''safety_intent_core_ref'', json_of_intent_core_ref (sf_safety_intent_core_ref x))]"

definition compute_safety_intent_digest :: "platform \<Rightarrow> safety_intent \<Rightarrow> string" where
  "compute_safety_intent_digest E s =
     digest_versioned_core E SAFETY_ACTION_INTENT_DIGEST_DOMAIN CANONICALIZATION_VERSION
       (json_of_safety_intent_core (sf_core s))"

definition seal_safety_intent :: "platform \<Rightarrow> safety_intent \<Rightarrow> safety_intent" where
  "seal_safety_intent E s =
     (let d = compute_safety_intent_digest E s in
      s\<lparr>sf_safety_intent_digest := d, sf_safety_intent_core_ref := for_safety_digest d\<rparr>)"

definition attempt_checks :: "safety_intent_core \<Rightarrow> (autonomy_error + unit) list" where
  "attempt_checks c =
     [check (\<not> fc_attempt_sequence c = 0) (Invariant ''safety attempt sequence starts at one''),
      check (\<not> (fc_attempt_sequence c = 1 \<and> fc_rebased_from_attempt_digest c \<noteq> None))
        (Invariant ''first safety attempt cannot be rebased''),
      check (\<not> (fc_attempt_sequence c > 1 \<and> fc_rebased_from_attempt_digest c = None))
        (Invariant ''retried safety attempt must identify the prior attempt digest''),
      au_optional_digest ''rebased_from_attempt_digest'' (fc_rebased_from_attempt_digest c)]"

definition safety_intent_pairs ::
  "safety_intent_core \<Rightarrow> sovereign_intent \<Rightarrow> sentinel_record \<Rightarrow> red_latch \<Rightarrow> safety_kernel \<Rightarrow>
   (string \<times> string \<times> string) list" where
  "safety_intent_pairs c source_intent red_verdict latch kern =
     (let l = rl_core latch in
     [(''safety.source_intent_digest'', si_intent_digest source_intent, fc_source_intent_digest c),
      (''safety.sentinel_red_verdict_digest'', sr_verdict_digest red_verdict,
       fc_sentinel_red_verdict_digest c),
      (''safety.red_latch_receipt_digest'', rl_latch_receipt_digest latch, fc_red_latch_receipt_digest c),
      (''safety.actuator_identity_key_binary_policy_digest'',
       kn_safety_actuator_identity_key_binary_policy_digest (sk_core kern),
       fc_actuator_identity_key_binary_policy_digest c),
      (''safety.affected_grants_scope_digest'', lc_exact_affected_scope_digest l,
       fc_affected_grants_scope_digest c),
      (''safety.allowed_negative_actions_digest'', lc_allowed_negative_actions_digest l,
       fc_allowed_negative_actions_digest c),
      (''safety.rollback_candidate_plan_digest'', lc_rollback_candidate_plan_digest l,
       fc_rollback_candidate_plan_digest c)])"

definition validate_safety_intent ::
  "platform \<Rightarrow> safety_intent \<Rightarrow> sovereign_intent \<Rightarrow> sentinel_record \<Rightarrow> red_latch \<Rightarrow> safety_kernel \<Rightarrow>
   u64 \<Rightarrow> u64 \<Rightarrow> autonomy_error + autonomy_validation" where
  "validate_safety_intent E s source_intent red_verdict latch kern constitution_epoch autonomy_epoch =
     (let c = sf_core s in
      and_then (seq_checks
       ([au_require_schema ''SafetyActionIntentV1'' (sf_schema s) SAFETY_ACTION_INTENT_SCHEMA]
        @ au_required
           [(''safety_attempt_id'', fc_safety_attempt_id c), (''safety.nonce'', fc_nonce c),
            (''attempt_idempotency_key'', fc_attempt_idempotency_key c)]
        @ attempt_checks c
        @ au_digest_pairs (safety_intent_pairs c source_intent red_verdict latch kern)
        @ [check (\<not> fc_source_intent_core_ref c \<noteq> si_intent_core_ref source_intent)
             (BindingMismatch ''safety.source_intent_core_ref''),
           check (\<not> (nl_verdict (sr_core red_verdict) \<noteq> Red \<or> lc_state (rl_core latch) \<noteq> LatchPending \<or>
             \<not> fc_valid_while_latch_pending c))
             (Invariant ''safety intent is valid only for an unresolved PENDING RED latch''),
           check (\<not> (fc_expected_constitution_epoch c \<noteq> constitution_epoch \<or>
             fc_expected_autonomy_epoch c \<noteq> autonomy_epoch)) (BindingMismatch ''safety.expected_epochs''),
           validate_safety_effects E (fc_negative_effects c) kern])) (\<lambda>_.
      and_then (compute_safety_effects_digest E (fc_negative_effects c)) (\<lambda>expected.
      au_accept
        [au_require_digest_equality ''safety.allowed_negative_actions_digest'' expected
           (fc_allowed_negative_actions_digest c),
         au_require_digest ''safety_intent_digest'' (sf_safety_intent_digest s),
         au_require_digest_equality ''safety_intent_digest'' (compute_safety_intent_digest E s)
           (sf_safety_intent_digest s),
         validate_intent_ref (sf_safety_intent_core_ref s) True,
         au_require_digest_equality ''safety_intent_core_ref.intent_digest'' (sf_safety_intent_digest s)
           (ir_intent_digest (sf_safety_intent_core_ref s))]
        (compute_safety_intent_digest E s))))"

text \<open>The copies of the two attempts with everything cleared that a retry may change.\<close>

definition retry_mandate :: "safety_intent_core \<Rightarrow> safety_intent_core" where
  "retry_mandate c = c\<lparr>fc_safety_attempt_id := [], fc_attempt_sequence := 0,
     fc_rebased_from_attempt_digest := None, fc_nonce := [], fc_attempt_idempotency_key := [],
     fc_expected_autonomy_epoch := 0, fc_issued_at := 0\<rparr>"

definition validate_retry :: "safety_intent \<Rightarrow> safety_intent \<Rightarrow> autonomy_error + unit" where
  "validate_retry s previous =
     (let c = sf_core s; p = sf_core previous in seq_checks
      [check (\<not> (fc_attempt_sequence c \<noteq> fc_attempt_sequence p + 1 \<or>
         fc_rebased_from_attempt_digest c \<noteq> Some (sf_safety_intent_digest previous)))
         (BindingMismatch ''safety.retry_sequence''),
       check (\<not> retry_mandate c \<noteq> retry_mandate p) (BindingMismatch ''safety.retry_immutable_mandate'')])"

section \<open>Safety capabilities\<close>

record safety_capability_core =
  yc_capability_id :: string
  yc_safety_intent_digest :: string
  yc_safety_intent_core_ref :: intent_core_ref
  yc_safety_attempt_id :: string
  yc_source_intent_digest :: string
  yc_sentinel_red_verdict_digest :: string
  yc_red_latch_receipt_digest :: string
  yc_actuator_identity_key_binary_policy_digest :: string
  yc_expected_constitution_epoch :: u64
  yc_expected_autonomy_epoch :: u64
  yc_affected_grants_scope_digest :: string
  yc_negative_effects :: "effect set"
  yc_allowed_negative_actions_digest :: string
  yc_rollback_candidate_plan_digest :: string
  yc_nonce :: string
  yc_idempotency_key :: string
  yc_issued_at :: u64
  yc_expires_at :: u64

definition json_of_safety_capability_core :: "safety_capability_core \<Rightarrow> json" where
  "json_of_safety_capability_core x = JObject
    [(''capability_id'', JString (yc_capability_id x)),
     (''safety_intent_digest'', JString (yc_safety_intent_digest x)),
     (''safety_intent_core_ref'', json_of_intent_core_ref (yc_safety_intent_core_ref x)),
     (''safety_attempt_id'', JString (yc_safety_attempt_id x)),
     (''source_intent_digest'', JString (yc_source_intent_digest x)),
     (''sentinel_red_verdict_digest'', JString (yc_sentinel_red_verdict_digest x)),
     (''red_latch_receipt_digest'', JString (yc_red_latch_receipt_digest x)),
     (''actuator_identity_key_binary_policy_digest'', JString (yc_actuator_identity_key_binary_policy_digest x)),
     (''expected_constitution_epoch'', json_u64 (yc_expected_constitution_epoch x)),
     (''expected_autonomy_epoch'', json_u64 (yc_expected_autonomy_epoch x)),
     (''affected_grants_scope_digest'', JString (yc_affected_grants_scope_digest x)),
     (''negative_effects'', json_of_effects (yc_negative_effects x)),
     (''allowed_negative_actions_digest'', JString (yc_allowed_negative_actions_digest x)),
     (''rollback_candidate_plan_digest'', JString (yc_rollback_candidate_plan_digest x)),
     (''nonce'', JString (yc_nonce x)),
     (''idempotency_key'', JString (yc_idempotency_key x)),
     (''issued_at'', json_u64 (yc_issued_at x)),
     (''expires_at'', json_u64 (yc_expires_at x))]"

record safety_capability =
  sy_schema :: string
  sy_core :: safety_capability_core
  sy_capability_digest :: string
  sy_actuator_signature :: string

definition json_of_safety_capability :: "safety_capability \<Rightarrow> json" where
  "json_of_safety_capability x = JObject
    [(''schema'', JString (sy_schema x)),
     (''core'', json_of_safety_capability_core (sy_core x)),
     (''capability_digest'', JString (sy_capability_digest x)),
     (''actuator_signature'', JString (sy_actuator_signature x))]"

definition compute_safety_capability_digest :: "platform \<Rightarrow> safety_capability \<Rightarrow> string" where
  "compute_safety_capability_digest E p =
     digest_canonical E SAFETY_CAPABILITY_DIGEST_DOMAIN (json_of_safety_capability_core (sy_core p))"

definition seal_safety_capability :: "platform \<Rightarrow> safety_capability \<Rightarrow> safety_capability" where
  "seal_safety_capability E p = p\<lparr>sy_capability_digest := compute_safety_capability_digest E p\<rparr>"

definition safety_capability_pairs ::
  "safety_capability_core \<Rightarrow> safety_intent \<Rightarrow> red_latch \<Rightarrow> safety_kernel \<Rightarrow>
   (string \<times> string \<times> string) list" where
  "safety_capability_pairs c safety latch kern =
     (let s = sf_core safety in
     [(''safety_capability.safety_intent_digest'', sf_safety_intent_digest safety,
       yc_safety_intent_digest c),
      (''safety_capability.source_intent_digest'', fc_source_intent_digest s, yc_source_intent_digest c),
      (''safety_capability.sentinel_red_verdict_digest'', fc_sentinel_red_verdict_digest s,
       yc_sentinel_red_verdict_digest c),
      (''safety_capability.red_latch_receipt_digest'', rl_latch_receipt_digest latch,
       yc_red_latch_receipt_digest c),
      (''safety_capability.actuator_identity_key_binary_policy_digest'',
       kn_safety_actuator_identity_key_binary_policy_digest (sk_core kern),
       yc_actuator_identity_key_binary_policy_digest c),
      (''safety_capability.affected_grants_scope_digest'', fc_affected_grants_scope_digest s,
       yc_affected_grants_scope_digest c),
      (''safety_capability.allowed_negative_actions_digest'', fc_allowed_negative_actions_digest s,
       yc_allowed_negative_actions_digest c),
      (''safety_capability.rollback_candidate_plan_digest'', fc_rollback_candidate_plan_digest s,
       yc_rollback_candidate_plan_digest c)])"

definition validate_safety_capability ::
  "platform \<Rightarrow> safety_capability \<Rightarrow> safety_intent \<Rightarrow> red_latch \<Rightarrow> safety_kernel \<Rightarrow> u64 \<Rightarrow>
   autonomy_error + autonomy_validation" where
  "validate_safety_capability E p safety latch kern now_ms =
     (let c = sy_core p; s = sf_core safety in au_accept
      ([au_require_schema ''SafetyCapabilityV1'' (sy_schema p) SAFETY_CAPABILITY_SCHEMA]
       @ au_required
          [(''safety.capability_id'', yc_capability_id c), (''safety.capability.nonce'', yc_nonce c),
           (''safety.idempotency_key'', yc_idempotency_key c)]
       @ [au_require_time_window ''SafetyCapabilityV1'' (yc_issued_at c) (yc_expires_at c) now_ms]
       @ au_digest_pairs (safety_capability_pairs c safety latch kern)
       @ [check (\<not> (yc_safety_intent_core_ref c \<noteq> sf_safety_intent_core_ref safety \<or>
            yc_safety_attempt_id c \<noteq> fc_safety_attempt_id s \<or>
            yc_expected_constitution_epoch c \<noteq> fc_expected_constitution_epoch s \<or>
            yc_expected_autonomy_epoch c \<noteq> fc_expected_autonomy_epoch s \<or>
            yc_nonce c \<noteq> fc_nonce s \<or> yc_idempotency_key c \<noteq> fc_attempt_idempotency_key s \<or>
            yc_negative_effects c \<noteq> fc_negative_effects s))
            (BindingMismatch ''safety_capability.intent_bindings''),
          check (\<not> lc_state (rl_core latch) \<noteq> LatchPending)
            (Invariant ''safety capability can only prepare against a PENDING RED latch''),
          validate_safety_effects E (yc_negative_effects c) kern,
          au_require_digest ''safety.capability_digest'' (sy_capability_digest p),
          au_require_digest_equality ''safety.capability_digest'' (compute_safety_capability_digest E p)
            (sy_capability_digest p),
          au_require_signature ''safety.actuator_signature'' (sy_actuator_signature p)])
      (compute_safety_capability_digest E p))"

end
