(* ===== verification/Autonomy_Decision.thy ===== *)
theory Autonomy_Decision
  imports Autonomy_Sentinel
begin

text \<open>
  \<open>m1nd-control/src/autonomy.rs\<close>: the votes of the independent verifiers and their evidence, the
  binding of a decision to its intent, the four variants of an authority decision, and the two
  validators: positive decisions and the negative-only safety decision.
\<close>

section \<open>Quorum evidence\<close>

datatype vote_disposition = Approve | Dissent | Abstain

fun vote_disposition_name :: "vote_disposition \<Rightarrow> string" where
  "vote_disposition_name Approve = ''APPROVE''" | "vote_disposition_name Dissent = ''DISSENT''"
| "vote_disposition_name Abstain = ''ABSTAIN''"

record quorum_vote =
  qv_verifier_principal_id :: string
  qv_verifier_key_id :: string
  qv_failure_domain :: string
  qv_parent_session_context_digest :: string
  qv_intent_digest :: string
  qv_constitution_digest :: string
  qv_candidate_digest :: "string option"
  qv_evidence_digest :: string
  qv_rollout_plan_digest :: string
  qv_rollback_plan_digest :: string
  qv_disposition :: vote_disposition
  qv_signature :: string

definition json_of_quorum_vote :: "quorum_vote \<Rightarrow> json" where
  "json_of_quorum_vote x = JObject
    [(''verifier_principal_id'', JString (qv_verifier_principal_id x)),
     (''verifier_key_id'', JString (qv_verifier_key_id x)),
     (''failure_domain'', JString (qv_failure_domain x)),
     (''parent_session_context_digest'', JString (qv_parent_session_context_digest x)),
     (''intent_digest'', JString (qv_intent_digest x)),
     (''constitution_digest'', JString (qv_constitution_digest x)),
     (''candidate_digest'', json_opt JString (qv_candidate_digest x)),
     (''evidence_digest'', JString (qv_evidence_digest x)),
     (''rollout_plan_digest'', JString (qv_rollout_plan_digest x)),
     (''rollback_plan_digest'', JString (qv_rollback_plan_digest x)),
     (''disposition'', JString (vote_disposition_name (qv_disposition x))),
     (''signature'', JString (qv_signature x))]"

record quorum_evidence =
  qe_independence_spec :: independence_spec
  qe_votes :: "quorum_vote list"
  qe_sentinel_verdict_digest :: string

definition json_of_quorum_evidence :: "quorum_evidence \<Rightarrow> json" where
  "json_of_quorum_evidence x = JObject
    [(''independence_spec'', json_of_independence_spec (qe_independence_spec x)),
     (''votes'', JArray (map json_of_quorum_vote (qe_votes x))),
     (''sentinel_verdict_digest'', JString (qe_sentinel_verdict_digest x))]"

text \<open>
  The \<open>BTreeMap\<close> of the seats by principal, collected from a list: a later seat replaces an
  earlier one of the same principal.
\<close>

definition quorum_seats :: "verifier_seat list \<Rightarrow> string \<Rightarrow> verifier_seat option" where
  "quorum_seats seats = map_of (rev (map (\<lambda>s. (vs_principal_id s, s)) seats))"

definition seat_count :: "verifier_seat list \<Rightarrow> nat" where
  "seat_count seats = length (remdups (map vs_principal_id seats))"

text \<open>What the loop over the votes carries: who voted, the domains that approved, approvals.\<close>

record tally =
  ta_voted :: "string set"
  ta_approval_domains :: "string set"
  ta_approvals :: nat

definition tally_empty :: tally where
  "tally_empty = \<lparr>ta_voted = {}, ta_approval_domains = {}, ta_approvals = 0\<rparr>"

definition vote_checks ::
  "(string \<Rightarrow> verifier_seat option) \<Rightarrow> sovereign_intent \<Rightarrow> tally \<Rightarrow> quorum_vote \<Rightarrow>
   (autonomy_error + unit) list" where
  "vote_checks seats intent t v =
     (let c = si_core intent in
      [case seats (qv_verifier_principal_id v) of
         None \<Rightarrow> Err NonIndependentQuorum
       | Some seat \<Rightarrow> check (\<not> (qv_verifier_principal_id v \<in> ta_voted t \<or>
           qv_verifier_key_id v \<noteq> vs_key_id seat \<or> qv_failure_domain v \<noteq> vs_failure_domain seat \<or>
           qv_parent_session_context_digest v \<noteq> vs_parent_session_context_digest seat))
           NonIndependentQuorum]
      @ au_digest_pairs
         [(''vote.intent_digest'', si_intent_digest intent, qv_intent_digest v),
          (''vote.constitution_digest'', sc_constitution_digest c, qv_constitution_digest v),
          (''vote.evidence_digest'', sc_evidence_digest c, qv_evidence_digest v),
          (''vote.rollout_plan_digest'', sc_rollout_plan_digest c, qv_rollout_plan_digest v),
          (''vote.rollback_plan_digest'', sc_rollback_plan_digest c, qv_rollback_plan_digest v)]
      @ [check (\<not> qv_candidate_digest v \<noteq> sc_candidate_digest c)
           (BindingMismatch ''vote.candidate_digest''),
         au_require_signature ''quorum.vote.signature'' (qv_signature v)])"

fun votes_loop ::
  "(string \<Rightarrow> verifier_seat option) \<Rightarrow> sovereign_intent \<Rightarrow> quorum_vote list \<Rightarrow> tally \<Rightarrow>
   autonomy_error + tally" where
  "votes_loop seats intent [] t = Ok t"
| "votes_loop seats intent (v # rest) t =
     and_then (seq_checks (vote_checks seats intent t v)) (\<lambda>_.
       case qv_disposition v of
         Approve \<Rightarrow> votes_loop seats intent rest
           \<lparr>ta_voted = insert (qv_verifier_principal_id v) (ta_voted t),
            ta_approval_domains = insert (qv_failure_domain v) (ta_approval_domains t),
            ta_approvals = ta_approvals t + 1\<rparr>
       | _ \<Rightarrow> Err QuorumNotUnanimouslyResolvable)"

text \<open>\<open>subject.is_some_and(|subject| seats.contains_key(subject))\<close>\<close>

definition holds_seat :: "(string \<Rightarrow> verifier_seat option) \<Rightarrow> string option \<Rightarrow> bool" where
  "holds_seat seats subject = (case subject of Some s \<Rightarrow> seats s \<noteq> None | None \<Rightarrow> False)"

definition validate_quorum ::
  "platform \<Rightarrow> quorum_evidence \<Rightarrow> sovereign_intent \<Rightarrow> constitution_store \<Rightarrow> safety_kernel \<Rightarrow> string \<Rightarrow>
   autonomy_error + unit" where
  "validate_quorum E q intent constitution kern sentinel_verdict_digest =
     (let s = qe_independence_spec q; c = si_core intent;
          voters = nc_voting_verifiers (ns_core s); seats = quorum_seats voters in
      and_then (seq_checks
        [validate_against_kernel E s kern,
         au_require_digest_equality ''quorum.independence_spec_digest''
           (kc_independence_spec_digest (ks_core constitution)) (ns_independence_spec_digest s),
         check (\<not> nc_constitution_epoch (ns_core s) \<noteq> sc_constitution_epoch c)
           (EpochMismatch ''quorum.constitution_epoch'' (sc_constitution_epoch c)
             (nc_constitution_epoch (ns_core s))),
         au_require_digest_equality ''quorum.sentinel_verdict_digest'' sentinel_verdict_digest
           (qe_sentinel_verdict_digest q),
         check (\<not> (seats (sc_proposer_subject_id c) \<noteq> None \<or>
             holds_seat seats (sc_executor_subject_id c) \<or>
             holds_seat seats (sc_promotion_target_subject_id c) \<or>
             holds_seat seats (sc_ratification_target_subject_id c)))
           (SelfAuthorization (sc_proposer_subject_id c)),
         check (\<not> length (qe_votes q) > seat_count voters) NonIndependentQuorum]) (\<lambda>_.
      and_then (votes_loop seats intent (qe_votes q) tally_empty) (\<lambda>t. seq_checks
        [check (\<not> ta_approvals t < unat (nc_quorum_threshold (ns_core s)))
           (InsufficientQuorum (ta_approvals t) (unat (nc_quorum_threshold (ns_core s)))),
         check (\<not> card (ta_approval_domains t) < unat (nc_minimum_failure_domains (ns_core s)))
           NonIndependentQuorum])))"

section \<open>The binding of a decision to its intent\<close>

record decision_binding =
  db_decision_id :: string
  db_intent_digest :: string
  db_intent_core_ref :: intent_core_ref
  db_intent_canonicalization_version :: string
  db_required_authority_variant :: authority_variant
  db_issuer_subject_id :: string
  db_decision_subject_id :: string
  db_caller_subject_id :: string
  db_audience :: string
  db_proposer_subject_id :: string
  db_executor_subject_id :: "string option"
  db_promotion_target_subject_id :: "string option"
  db_ratification_target_subject_id :: "string option"
  db_delegation_grant_digest :: "string option"
  db_action_policy_registry_digest :: string
  db_classifier_decision_digest :: string
  db_constitution_digest :: string
  db_constitution_epoch :: u64
  db_autonomy_epoch :: u64
  db_active_mode :: active_mode
  db_grant_id :: "string option"
  db_effective_tier :: "autonomy_tier option"
  db_action_class :: string
  db_semantic_action_id :: string
  db_risk_class :: risk_class
  db_risk_scope_digest :: string
  db_resource_environment_scope_digest :: string
  db_requested_budget :: u64
  db_sentinel_required :: bool
  db_sentinel_verdict_digest :: "string option"
  db_action_payload_digest :: string

definition json_of_decision_binding :: "decision_binding \<Rightarrow> json" where
  "json_of_decision_binding x = JObject
    [(''decision_id'', JString (db_decision_id x)),
     (''intent_digest'', JString (db_intent_digest x)),
     (''intent_core_ref'', json_of_intent_core_ref (db_intent_core_ref x)),
     (''intent_canonicalization_version'', JString (db_intent_canonicalization_version x)),
     (''required_authority_variant'', JString (variant_name (db_required_authority_variant x))),
     (''issuer_subject_id'', JString (db_issuer_subject_id x)),
     (''decision_subject_id'', JString (db_decision_subject_id x)),
     (''caller_subject_id'', JString (db_caller_subject_id x)),
     (''audience'', JString (db_audience x)),
     (''proposer_subject_id'', JString (db_proposer_subject_id x)),
     (''executor_subject_id'', json_opt JString (db_executor_subject_id x)),
     (''promotion_target_subject_id'', json_opt JString (db_promotion_target_subject_id x)),
     (''ratification_target_subject_id'', json_opt JString (db_ratification_target_subject_id x)),
     (''delegation_grant_digest'', json_opt JString (db_delegation_grant_digest x)),
     (''action_policy_registry_digest'', JString (db_action_policy_registry_digest x)),
     (''classifier_decision_digest'', JString (db_classifier_decision_digest x)),
     (''constitution_digest'', JString (db_constitution_digest x)),
     (''constitution_epoch'', json_u64 (db_constitution_epoch x)),
     (''autonomy_epoch'', json_u64 (db_autonomy_epoch x)),
     (''active_mode'', JString (mode_name (db_active_mode x))),
     (''grant_id'', json_opt JString (db_grant_id x)),
     (''effective_tier'', json_opt (\<lambda>x. JString (tier_name x)) (db_effective_tier x)),
     (''action_class'', JString (db_action_class x)),
     (''semantic_action_id'', JString (db_semantic_action_id x)),
     (''risk_class'', JString (risk_name (db_risk_class x))),
     (''risk_scope_digest'', JString (db_risk_scope_digest x)),
     (''resource_environment_scope_digest'', JString (db_resource_environment_scope_digest x)),
     (''requested_budget'', json_u64 (db_requested_budget x)),
     (''sentinel_required'', JBool (db_sentinel_required x)),
     (''sentinel_verdict_digest'', json_opt JString (db_sentinel_verdict_digest x)),
     (''action_payload_digest'', JString (db_action_payload_digest x))]"

definition binding_strings ::
  "decision_binding \<Rightarrow> sovereign_intent \<Rightarrow> (string \<times> string \<times> string) list" where
  "binding_strings b intent =
     (let i = si_core intent in
       [(''decision.intent_digest'', si_intent_digest intent, db_intent_digest b),
        (''decision.issuer_subject_id'', sc_issuer_subject_id i, db_issuer_subject_id b),
        (''decision.decision_subject_id'', sc_decision_subject_id i, db_decision_subject_id b),
        (''decision.caller_subject_id'', sc_caller_subject_id i, db_caller_subject_id b),
        (''decision.audience'', sc_audience i, db_audience b),
        (''decision.proposer_subject_id'', sc_proposer_subject_id i, db_proposer_subject_id b),
        (''decision.action_policy_registry_digest'', sc_action_policy_registry_digest i, db_action_policy_registry_digest b),
        (''decision.classifier_decision_digest'', sc_classifier_decision_digest i, db_classifier_decision_digest b),
        (''decision.constitution_digest'', sc_constitution_digest i, db_constitution_digest b),
        (''decision.action_class'', sc_action_class i, db_action_class b),
        (''decision.semantic_action_id'', sc_semantic_action_id i, db_semantic_action_id b),
        (''decision.risk_scope_digest'', sc_risk_scope_digest i, db_risk_scope_digest b),
        (''decision.resource_environment_scope_digest'', sc_resource_environment_scope_digest i, db_resource_environment_scope_digest b),
        (''decision.action_payload_digest'', sc_action_payload_digest i, db_action_payload_digest b)])"

definition binding_fields_differ :: "decision_binding \<Rightarrow> sovereign_intent \<Rightarrow> authority_variant \<Rightarrow> bool" where
  "binding_fields_differ b intent authority \<longleftrightarrow>
     (let i = si_core intent in
      db_intent_core_ref b \<noteq> si_intent_core_ref intent \<or>
      db_intent_canonicalization_version b \<noteq> CANONICALIZATION_VERSION \<or>
      db_required_authority_variant b \<noteq> authority \<or>
      db_required_authority_variant b \<noteq> sc_required_authority_variant i \<or>
      db_executor_subject_id b \<noteq> sc_executor_subject_id i \<or>
      db_promotion_target_subject_id b \<noteq> sc_promotion_target_subject_id i \<or>
      db_ratification_target_subject_id b \<noteq> sc_ratification_target_subject_id i \<or>
      db_delegation_grant_digest b \<noteq> sc_delegation_grant_digest i \<or>
      db_constitution_epoch b \<noteq> sc_constitution_epoch i \<or>
      db_autonomy_epoch b \<noteq> sc_autonomy_epoch i \<or>
      db_active_mode b \<noteq> sc_active_mode i \<or>
      db_risk_class b \<noteq> sc_risk_class i \<or>
      db_requested_budget b \<noteq> sc_requested_budget i)"

definition sentinel_binding_check ::
  "decision_binding \<Rightarrow> sentinel_record option \<Rightarrow> autonomy_error + unit" where
  "sentinel_binding_check b sentinel =
     (case (db_sentinel_required b, sentinel) of
        (True, Some verdict) \<Rightarrow>
          check (\<not> (nl_verdict (sr_core verdict) \<noteq> Green \<or>
            db_sentinel_verdict_digest b \<noteq> Some (sr_verdict_digest verdict)))
            (BindingMismatch ''decision.sentinel_verdict_digest'')
      | (True, None) \<Rightarrow> Err (Invariant ''sentinel-required decision has no exact GREEN verdict'')
      | (False, None) \<Rightarrow>
          if db_sentinel_verdict_digest b = None then Ok ()
          else Err (BindingMismatch ''decision.sentinel_exemption'')
      | (False, Some _) \<Rightarrow> Err (BindingMismatch ''decision.sentinel_exemption''))"

definition validate_decision_binding ::
  "decision_binding \<Rightarrow> sovereign_intent \<Rightarrow> authority_variant \<Rightarrow> sentinel_record option \<Rightarrow>
   autonomy_error + unit" where
  "validate_decision_binding b intent authority sentinel =
     (let i = si_core intent; autonomous = authority \<in> {Policy, AgentQuorum} in seq_checks
      ([au_require_non_empty ''decision_id'' (db_decision_id b)]
       @ map (\<lambda>(f, expected, observed). check (\<not> expected \<noteq> observed) (BindingMismatch f))
           (binding_strings b intent)
       @ [check (\<not> binding_fields_differ b intent authority) (BindingMismatch ''decision.intent_bindings''),
          check (\<not> (db_grant_id b \<noteq> (if autonomous then sc_applicable_grant_id i else None) \<or>
            db_effective_tier b \<noteq> (if autonomous then Some (sc_effective_tier i) else None)))
            (BindingMismatch ''decision.grant_or_tier''),
          sentinel_binding_check b sentinel]))"

definition from_intent :: "sovereign_intent \<Rightarrow> string \<Rightarrow> bool \<Rightarrow> string option \<Rightarrow> decision_binding" where
  "from_intent intent decision_id sentinel_required sentinel_verdict_digest =
     (let c = si_core intent;
          autonomous = sc_required_authority_variant c \<in> {Policy, AgentQuorum} in
       \<lparr>db_decision_id = decision_id,
        db_intent_digest = si_intent_digest intent,
        db_intent_core_ref = si_intent_core_ref intent,
        db_intent_canonicalization_version = CANONICALIZATION_VERSION,
        db_required_authority_variant = sc_required_authority_variant c,
        db_issuer_subject_id = sc_issuer_subject_id c,
        db_decision_subject_id = sc_decision_subject_id c,
        db_caller_subject_id = sc_caller_subject_id c,
        db_audience = sc_audience c,
        db_proposer_subject_id = sc_proposer_subject_id c,
        db_executor_subject_id = sc_executor_subject_id c,
        db_promotion_target_subject_id = sc_promotion_target_subject_id c,
        db_ratification_target_subject_id = sc_ratification_target_subject_id c,
        db_delegation_grant_digest = sc_delegation_grant_digest c,
        db_action_policy_registry_digest = sc_action_policy_registry_digest c,
        db_classifier_decision_digest = sc_classifier_decision_digest c,
        db_constitution_digest = sc_constitution_digest c,
        db_constitution_epoch = sc_constitution_epoch c,
        db_autonomy_epoch = sc_autonomy_epoch c,
        db_active_mode = sc_active_mode c,
        db_grant_id = (if autonomous then sc_applicable_grant_id c else None),
        db_effective_tier = (if autonomous then Some (sc_effective_tier c) else None),
        db_action_class = sc_action_class c,
        db_semantic_action_id = sc_semantic_action_id c,
        db_risk_class = sc_risk_class c,
        db_risk_scope_digest = sc_risk_scope_digest c,
        db_resource_environment_scope_digest = sc_resource_environment_scope_digest c,
        db_requested_budget = sc_requested_budget c,
        db_sentinel_required = sentinel_required,
        db_sentinel_verdict_digest = sentinel_verdict_digest,
        db_action_payload_digest = sc_action_payload_digest c\<rparr>)"

section \<open>Authority decisions\<close>

record human_authority_core =
  hc_binding :: decision_binding
  hc_human_approval_digest :: string
  hc_human_decision_digest :: string
  hc_human_key_id :: string

definition json_of_human_authority_core :: "human_authority_core \<Rightarrow> json" where
  "json_of_human_authority_core x = JObject
    [(''binding'', json_of_decision_binding (hc_binding x)),
     (''human_approval_digest'', JString (hc_human_approval_digest x)),
     (''human_decision_digest'', JString (hc_human_decision_digest x)),
     (''human_key_id'', JString (hc_human_key_id x))]"

record human_authority =
  hu_schema :: string
  hu_core :: human_authority_core
  hu_decision_digest :: string
  hu_owner_signature :: string

definition json_of_human_authority :: "human_authority \<Rightarrow> json" where
  "json_of_human_authority x = JObject
    [(''schema'', JString (hu_schema x)),
     (''core'', json_of_human_authority_core (hu_core x)),
     (''decision_digest'', JString (hu_decision_digest x)),
     (''owner_signature'', JString (hu_owner_signature x))]"

record policy_authority_core =
  pa_binding :: decision_binding
  pa_policy_digest :: string
  pa_matched_clauses_digest :: string
  pa_risk_budget_scope_digest :: string
  pa_proof_receipts_digest :: string
  pa_sentinel_exemption_clause_digest :: "string option"

definition json_of_policy_authority_core :: "policy_authority_core \<Rightarrow> json" where
  "json_of_policy_authority_core x = JObject
    [(''binding'', json_of_decision_binding (pa_binding x)),
     (''policy_digest'', JString (pa_policy_digest x)),
     (''matched_clauses_digest'', JString (pa_matched_clauses_digest x)),
     (''risk_budget_scope_digest'', JString (pa_risk_budget_scope_digest x)),
     (''proof_receipts_digest'', JString (pa_proof_receipts_digest x)),
     (''sentinel_exemption_clause_digest'', json_opt JString (pa_sentinel_exemption_clause_digest x))]"

record policy_authority =
  po_schema :: string
  po_core :: policy_authority_core
  po_decision_digest :: string
  po_owner_signature :: string

definition json_of_policy_authority :: "policy_authority \<Rightarrow> json" where
  "json_of_policy_authority x = JObject
    [(''schema'', JString (po_schema x)),
     (''core'', json_of_policy_authority_core (po_core x)),
     (''decision_digest'', JString (po_decision_digest x)),
     (''owner_signature'', JString (po_owner_signature x))]"

record quorum_authority_core =
  qa_binding :: decision_binding
  qa_quorum :: quorum_evidence
  qa_evidence_rollout_rollback_digest :: string

definition json_of_quorum_authority_core :: "quorum_authority_core \<Rightarrow> json" where
  "json_of_quorum_authority_core x = JObject
    [(''binding'', json_of_decision_binding (qa_binding x)),
     (''quorum'', json_of_quorum_evidence (qa_quorum x)),
     (''evidence_rollout_rollback_digest'', JString (qa_evidence_rollout_rollback_digest x))]"

record quorum_authority =
  qu_schema :: string
  qu_core :: quorum_authority_core
  qu_decision_digest :: string
  qu_owner_signature :: string

definition json_of_quorum_authority :: "quorum_authority \<Rightarrow> json" where
  "json_of_quorum_authority x = JObject
    [(''schema'', JString (qu_schema x)),
     (''core'', json_of_quorum_authority_core (qu_core x)),
     (''decision_digest'', JString (qu_decision_digest x)),
     (''owner_signature'', JString (qu_owner_signature x))]"

record safety_authority_core =
  ya_decision_id :: string
  ya_safety_intent_digest :: string
  ya_safety_intent_core_ref :: intent_core_ref
  ya_safety_capability_digest :: string
  ya_sentinel_red_verdict_digest :: string
  ya_red_latch_receipt_digest :: string
  ya_negative_effects :: "effect set"
  ya_positive_authority_decision_forbidden :: bool
  ya_issuer_subject_id :: string

definition json_of_safety_authority_core :: "safety_authority_core \<Rightarrow> json" where
  "json_of_safety_authority_core x = JObject
    [(''decision_id'', JString (ya_decision_id x)),
     (''safety_intent_digest'', JString (ya_safety_intent_digest x)),
     (''safety_intent_core_ref'', json_of_intent_core_ref (ya_safety_intent_core_ref x)),
     (''safety_capability_digest'', JString (ya_safety_capability_digest x)),
     (''sentinel_red_verdict_digest'', JString (ya_sentinel_red_verdict_digest x)),
     (''red_latch_receipt_digest'', JString (ya_red_latch_receipt_digest x)),
     (''negative_effects'', json_of_effects (ya_negative_effects x)),
     (''positive_authority_decision_forbidden'', JBool (ya_positive_authority_decision_forbidden x)),
     (''issuer_subject_id'', JString (ya_issuer_subject_id x))]"

record safety_authority =
  yu_schema :: string
  yu_core :: safety_authority_core
  yu_decision_digest :: string
  yu_safety_kernel_signature :: string

definition json_of_safety_authority :: "safety_authority \<Rightarrow> json" where
  "json_of_safety_authority x = JObject
    [(''schema'', JString (yu_schema x)),
     (''core'', json_of_safety_authority_core (yu_core x)),
     (''decision_digest'', JString (yu_decision_digest x)),
     (''safety_kernel_signature'', JString (yu_safety_kernel_signature x))]"

datatype authority_decision =
    HumanDecision human_authority
  | PolicyDecision policy_authority
  | QuorumDecision quorum_authority
  | SafetyDecision safety_authority

text \<open>Adjacently tagged: the kind and the decision are two fields of one object.\<close>

fun json_of_authority_decision :: "authority_decision \<Rightarrow> json" where
  "json_of_authority_decision (HumanDecision d) = JObject
     [(''authority_kind'', JString ''HUMAN''), (''authority_decision'', json_of_human_authority d)]"
| "json_of_authority_decision (PolicyDecision d) = JObject
     [(''authority_kind'', JString ''POLICY''), (''authority_decision'', json_of_policy_authority d)]"
| "json_of_authority_decision (QuorumDecision d) = JObject
     [(''authority_kind'', JString ''AGENT_QUORUM''), (''authority_decision'', json_of_quorum_authority d)]"
| "json_of_authority_decision (SafetyDecision d) = JObject
     [(''authority_kind'', JString ''SAFETY''), (''authority_decision'', json_of_safety_authority d)]"

fun decision_variant :: "authority_decision \<Rightarrow> authority_variant" where
  "decision_variant (HumanDecision _) = Human"
| "decision_variant (PolicyDecision _) = Policy"
| "decision_variant (QuorumDecision _) = AgentQuorum"
| "decision_variant (SafetyDecision _) = SafetyKernel"

fun decision_digest :: "authority_decision \<Rightarrow> string" where
  "decision_digest (HumanDecision d) = hu_decision_digest d"
| "decision_digest (PolicyDecision d) = po_decision_digest d"
| "decision_digest (QuorumDecision d) = qu_decision_digest d"
| "decision_digest (SafetyDecision d) = yu_decision_digest d"

fun positive_binding :: "authority_decision \<Rightarrow> decision_binding option" where
  "positive_binding (HumanDecision d) = Some (hc_binding (hu_core d))"
| "positive_binding (PolicyDecision d) = Some (pa_binding (po_core d))"
| "positive_binding (QuorumDecision d) = Some (qa_binding (qu_core d))"
| "positive_binding (SafetyDecision _) = None"

text \<open>\<open>digest_canonical(AUTHORITY_DECISION_DIGEST_DOMAIN, &decision.core)\<close> of each variant.\<close>

fun decision_core_json :: "authority_decision \<Rightarrow> json" where
  "decision_core_json (HumanDecision d) = json_of_human_authority_core (hu_core d)"
| "decision_core_json (PolicyDecision d) = json_of_policy_authority_core (po_core d)"
| "decision_core_json (QuorumDecision d) = json_of_quorum_authority_core (qu_core d)"
| "decision_core_json (SafetyDecision d) = json_of_safety_authority_core (yu_core d)"

definition compute_decision_digest :: "platform \<Rightarrow> authority_decision \<Rightarrow> string" where
  "compute_decision_digest E d = digest_canonical E AUTHORITY_DECISION_DIGEST_DOMAIN (decision_core_json d)"

fun put_decision_digest :: "string \<Rightarrow> authority_decision \<Rightarrow> authority_decision" where
  "put_decision_digest s (HumanDecision d) = HumanDecision (d\<lparr>hu_decision_digest := s\<rparr>)"
| "put_decision_digest s (PolicyDecision d) = PolicyDecision (d\<lparr>po_decision_digest := s\<rparr>)"
| "put_decision_digest s (QuorumDecision d) = QuorumDecision (d\<lparr>qu_decision_digest := s\<rparr>)"
| "put_decision_digest s (SafetyDecision d) = SafetyDecision (d\<lparr>yu_decision_digest := s\<rparr>)"

definition seal_authority_decision :: "platform \<Rightarrow> authority_decision \<Rightarrow> authority_decision" where
  "seal_authority_decision E d = put_decision_digest (compute_decision_digest E d) d"

text \<open>The arms of the match in \<open>validate_positive_decision\<close>: the checks of each variant.\<close>

fun decision_arm_checks ::
  "platform \<Rightarrow> authority_decision \<Rightarrow> sovereign_intent \<Rightarrow> constitution_store \<Rightarrow> safety_kernel \<Rightarrow>
   sentinel_record option \<Rightarrow> (autonomy_error + unit) list" where
  "decision_arm_checks E (HumanDecision d) intent constitution kern sentinel =
     [au_require_schema ''AuthorityDecisionV1::Human'' (hu_schema d) AUTHORITY_DECISION_SCHEMA,
      validate_decision_binding (hc_binding (hu_core d)) intent Human sentinel]
     @ au_digests
        [(''human_approval_digest'', hc_human_approval_digest (hu_core d)),
         (''human_decision_digest'', hc_human_decision_digest (hu_core d))]
     @ [au_require_non_empty ''human_key_id'' (hc_human_key_id (hu_core d))]"
| "decision_arm_checks E (PolicyDecision d) intent constitution kern sentinel =
     [au_require_schema ''AuthorityDecisionV1::Policy'' (po_schema d) AUTHORITY_DECISION_SCHEMA,
      validate_decision_binding (pa_binding (po_core d)) intent Policy sentinel,
      check (\<not> db_active_mode (pa_binding (po_core d)) \<noteq> PolicyAutonomous)
        (Invariant ''POLICY decision is authoritative only in POLICY_AUTONOMOUS'')]
     @ au_digests
        [(''policy_digest'', pa_policy_digest (po_core d)),
         (''matched_clauses_digest'', pa_matched_clauses_digest (po_core d)),
         (''risk_budget_scope_digest'', pa_risk_budget_scope_digest (po_core d)),
         (''proof_receipts_digest'', pa_proof_receipts_digest (po_core d))]
     @ [case (db_sentinel_required (pa_binding (po_core d)), pa_sentinel_exemption_clause_digest (po_core d)) of
          (False, Some digest) \<Rightarrow> au_require_digest ''sentinel_exemption_clause_digest'' digest
        | (True, None) \<Rightarrow> Ok ()
        | _ \<Rightarrow> Err (Invariant
            ''policy sentinel exemption must exist exactly when sentinel is not required'')]"
| "decision_arm_checks E (QuorumDecision d) intent constitution kern sentinel =
     [au_require_schema ''AuthorityDecisionV1::AgentQuorum'' (qu_schema d) AUTHORITY_DECISION_SCHEMA,
      validate_decision_binding (qa_binding (qu_core d)) intent AgentQuorum sentinel,
      check (\<not> db_active_mode (qa_binding (qu_core d)) = HumanGated)
        (Invariant ''AGENT_QUORUM cannot create sovereign authority in HUMAN_GATED''),
      and_then (ok_or sentinel
          (Invariant ''agent quorum requires the exact independent GREEN sentinel verdict''))
        (\<lambda>verdict. validate_quorum E (qa_quorum (qu_core d)) intent constitution kern
           (sr_verdict_digest verdict)),
      au_require_digest ''evidence_rollout_rollback_digest''
        (qa_evidence_rollout_rollback_digest (qu_core d))]"
| "decision_arm_checks E (SafetyDecision d) intent constitution kern sentinel =
     [Err (Invariant ''SAFETY authority is negative-only and cannot validate as positive'')]"

fun decision_signature :: "authority_decision \<Rightarrow> string" where
  "decision_signature (HumanDecision d) = hu_owner_signature d"
| "decision_signature (PolicyDecision d) = po_owner_signature d"
| "decision_signature (QuorumDecision d) = qu_owner_signature d"
| "decision_signature (SafetyDecision d) = yu_safety_kernel_signature d"

definition constitution_binding_check ::
  "decision_binding option \<Rightarrow> constitution_store \<Rightarrow> autonomy_error + unit" where
  "constitution_binding_check binding constitution =
     (case binding of
        Some b \<Rightarrow> check (\<not> (db_constitution_digest b \<noteq> ks_constitution_digest constitution \<or>
          db_constitution_epoch b \<noteq> kc_constitution_epoch (ks_core constitution)))
          (BindingMismatch ''decision.active_constitution'')
      | None \<Rightarrow> Ok ())"

definition validate_positive_decision ::
  "platform \<Rightarrow> authority_decision \<Rightarrow> sovereign_intent \<Rightarrow> constitution_store \<Rightarrow> safety_kernel \<Rightarrow>
   sentinel_record option \<Rightarrow> u64 \<Rightarrow> autonomy_error + autonomy_validation" where
  "validate_positive_decision E d intent constitution kern sentinel now_ms = au_accept
     ([au_discard (validate_canonical_core E intent now_ms),
       case sentinel of
         Some verdict \<Rightarrow> au_discard (validate_verdict E verdict intent kern now_ms)
       | None \<Rightarrow> Ok ()]
      @ decision_arm_checks E d intent constitution kern sentinel
      @ [au_require_digest ''decision_digest'' (decision_digest d),
         au_require_digest_equality ''decision_digest'' (compute_decision_digest E d) (decision_digest d),
         au_require_signature ''authority_decision.owner_signature'' (decision_signature d),
         constitution_binding_check (positive_binding d) constitution])
     (compute_decision_digest E d)"

definition validate_safety_decision ::
  "platform \<Rightarrow> safety_authority \<Rightarrow> safety_intent \<Rightarrow> safety_capability \<Rightarrow> red_latch \<Rightarrow> safety_kernel \<Rightarrow>
   autonomy_error + autonomy_validation" where
  "validate_safety_decision E d safety capability latch kern =
     (let c = yu_core d in au_accept
      ([au_require_schema ''AuthorityDecisionV1::Safety'' (yu_schema d) AUTHORITY_DECISION_SCHEMA,
        au_require_non_empty ''safety.decision_id'' (ya_decision_id c),
        au_require_non_empty ''safety.decision.issuer_subject_id'' (ya_issuer_subject_id c),
        check (ya_positive_authority_decision_forbidden c)
          (Invariant ''SAFETY decision must explicitly forbid positive authority'')]
       @ au_digest_pairs
          [(''safety_decision.safety_intent_digest'', sf_safety_intent_digest safety,
            ya_safety_intent_digest c),
           (''safety_decision.safety_capability_digest'', sy_capability_digest capability,
            ya_safety_capability_digest c),
           (''safety_decision.sentinel_red_verdict_digest'',
            fc_sentinel_red_verdict_digest (sf_core safety), ya_sentinel_red_verdict_digest c),
           (''safety_decision.red_latch_receipt_digest'', rl_latch_receipt_digest latch,
            ya_red_latch_receipt_digest c)]
       @ [check (\<not> (ya_safety_intent_core_ref c \<noteq> sf_safety_intent_core_ref safety \<or>
            ya_negative_effects c \<noteq> fc_negative_effects (sf_core safety)))
            (BindingMismatch ''safety_decision.intent_bindings''),
          validate_safety_effects E (ya_negative_effects c) kern,
          au_require_digest ''safety.decision_digest'' (yu_decision_digest d),
          au_require_digest_equality ''safety.decision_digest''
            (compute_decision_digest E (SafetyDecision d)) (yu_decision_digest d),
          au_require_signature ''safety_decision.safety_kernel_signature''
            (yu_safety_kernel_signature d)])
      (compute_decision_digest E (SafetyDecision d)))"

fun validate_safety_authority ::
  "platform \<Rightarrow> authority_decision \<Rightarrow> safety_intent \<Rightarrow> safety_capability \<Rightarrow> red_latch \<Rightarrow> safety_kernel \<Rightarrow>
   autonomy_error + autonomy_validation" where
  "validate_safety_authority E (SafetyDecision d) safety capability latch kern =
     validate_safety_decision E d safety capability latch kern"
| "validate_safety_authority E d safety capability latch kern =
     Err (Invariant ''positive authority variant cannot enter a safety transaction'')"

end
