(* ===== verification/Autonomy_Capability.thy ===== *)
theory Autonomy_Capability
  imports Autonomy_Decision
begin

text \<open>
  \<open>m1nd-control/src/autonomy.rs\<close>: the capability that a POLICY or AGENT_QUORUM decision mints
  for one intent under one grant, and the receipt that activates a new autonomy epoch.
\<close>

section \<open>Autonomy capabilities\<close>

record autonomy_capability_core =
  ap_capability_id :: string
  ap_intent_digest :: string
  ap_intent_core_ref :: intent_core_ref
  ap_intent_canonicalization_version :: string
  ap_decision_digest :: string
  ap_decision_policy_digest :: string
  ap_required_authority_variant :: authority_variant
  ap_action_policy_registry_digest :: string
  ap_classifier_decision_digest :: string
  ap_constitution_digest :: string
  ap_constitution_epoch :: u64
  ap_autonomy_epoch :: u64
  ap_organism_id :: string
  ap_repo_id :: string
  ap_issuer_subject_id :: string
  ap_decision_subject_id :: string
  ap_caller_subject_id :: string
  ap_proposer_subject_id :: string
  ap_executor_subject_id :: "string option"
  ap_promotion_target_subject_id :: "string option"
  ap_ratification_target_subject_id :: "string option"
  ap_delegation_grant_digest :: "string option"
  ap_audience :: string
  ap_active_mode :: active_mode
  ap_activation_receipt_id :: "string option"
  ap_grant_id :: string
  ap_grant_digest :: string
  ap_effective_tier :: autonomy_tier
  ap_action_class :: string
  ap_semantic_action_id :: string
  ap_risk_class :: risk_class
  ap_risk_scope_digest :: string
  ap_sentinel_verdict_digest :: "string option"
  ap_brain_id :: string
  ap_mission_id :: "string option"
  ap_mission_head_id :: "string option"
  ap_block_id :: "string option"
  ap_candidate_digest :: "string option"
  ap_promotion_subject_id :: "string option"
  ap_resource_environment_scope_digest :: string
  ap_requested_budget :: u64
  ap_expected_store_epoch :: u64
  ap_expected_store_version :: u64
  ap_expected_boundary_version :: u64
  ap_expected_contract_version :: u64
  ap_idempotency_key :: string
  ap_payload_digest :: string
  ap_nonce :: string
  ap_issued_at :: u64
  ap_expires_at :: u64

definition json_of_autonomy_capability_core :: "autonomy_capability_core \<Rightarrow> json" where
  "json_of_autonomy_capability_core x = JObject
    [(''capability_id'', JString (ap_capability_id x)),
     (''intent_digest'', JString (ap_intent_digest x)),
     (''intent_core_ref'', json_of_intent_core_ref (ap_intent_core_ref x)),
     (''intent_canonicalization_version'', JString (ap_intent_canonicalization_version x)),
     (''decision_digest'', JString (ap_decision_digest x)),
     (''decision_policy_digest'', JString (ap_decision_policy_digest x)),
     (''required_authority_variant'', JString (variant_name (ap_required_authority_variant x))),
     (''action_policy_registry_digest'', JString (ap_action_policy_registry_digest x)),
     (''classifier_decision_digest'', JString (ap_classifier_decision_digest x)),
     (''constitution_digest'', JString (ap_constitution_digest x)),
     (''constitution_epoch'', json_u64 (ap_constitution_epoch x)),
     (''autonomy_epoch'', json_u64 (ap_autonomy_epoch x)),
     (''organism_id'', JString (ap_organism_id x)),
     (''repo_id'', JString (ap_repo_id x)),
     (''issuer_subject_id'', JString (ap_issuer_subject_id x)),
     (''decision_subject_id'', JString (ap_decision_subject_id x)),
     (''caller_subject_id'', JString (ap_caller_subject_id x)),
     (''proposer_subject_id'', JString (ap_proposer_subject_id x)),
     (''executor_subject_id'', json_opt JString (ap_executor_subject_id x)),
     (''promotion_target_subject_id'', json_opt JString (ap_promotion_target_subject_id x)),
     (''ratification_target_subject_id'', json_opt JString (ap_ratification_target_subject_id x)),
     (''delegation_grant_digest'', json_opt JString (ap_delegation_grant_digest x)),
     (''audience'', JString (ap_audience x)),
     (''active_mode'', JString (mode_name (ap_active_mode x))),
     (''activation_receipt_id'', json_opt JString (ap_activation_receipt_id x)),
     (''grant_id'', JString (ap_grant_id x)),
     (''grant_digest'', JString (ap_grant_digest x)),
     (''effective_tier'', JString (tier_name (ap_effective_tier x))),
     (''action_class'', JString (ap_action_class x)),
     (''semantic_action_id'', JString (ap_semantic_action_id x)),
     (''risk_class'', JString (risk_name (ap_risk_class x))),
     (''risk_scope_digest'', JString (ap_risk_scope_digest x)),
     (''sentinel_verdict_digest'', json_opt JString (ap_sentinel_verdict_digest x)),
     (''brain_id'', JString (ap_brain_id x)),
     (''mission_id'', json_opt JString (ap_mission_id x)),
     (''mission_head_id'', json_opt JString (ap_mission_head_id x)),
     (''block_id'', json_opt JString (ap_block_id x)),
     (''candidate_digest'', json_opt JString (ap_candidate_digest x)),
     (''promotion_subject_id'', json_opt JString (ap_promotion_subject_id x)),
     (''resource_environment_scope_digest'', JString (ap_resource_environment_scope_digest x)),
     (''requested_budget'', json_u64 (ap_requested_budget x)),
     (''expected_store_epoch'', json_u64 (ap_expected_store_epoch x)),
     (''expected_store_version'', json_u64 (ap_expected_store_version x)),
     (''expected_boundary_version'', json_u64 (ap_expected_boundary_version x)),
     (''expected_contract_version'', json_u64 (ap_expected_contract_version x)),
     (''idempotency_key'', JString (ap_idempotency_key x)),
     (''payload_digest'', JString (ap_payload_digest x)),
     (''nonce'', JString (ap_nonce x)),
     (''issued_at'', json_u64 (ap_issued_at x)),
     (''expires_at'', json_u64 (ap_expires_at x))]"

record autonomy_capability =
  au_schema :: string
  au_core :: autonomy_capability_core
  au_capability_digest :: string
  au_owner_signature :: string

definition json_of_autonomy_capability :: "autonomy_capability \<Rightarrow> json" where
  "json_of_autonomy_capability x = JObject
    [(''schema'', JString (au_schema x)),
     (''core'', json_of_autonomy_capability_core (au_core x)),
     (''capability_digest'', JString (au_capability_digest x)),
     (''owner_signature'', JString (au_owner_signature x))]"

definition compute_capability_digest :: "platform \<Rightarrow> autonomy_capability \<Rightarrow> string" where
  "compute_capability_digest E a =
     digest_canonical E AUTONOMY_CAPABILITY_DIGEST_DOMAIN (json_of_autonomy_capability_core (au_core a))"

definition seal_capability :: "platform \<Rightarrow> autonomy_capability \<Rightarrow> autonomy_capability" where
  "seal_capability E a = a\<lparr>au_capability_digest := compute_capability_digest E a\<rparr>"

text \<open>The digest of the policy, or of the independence specification, that took the decision.\<close>

fun decision_policy_digest :: "authority_decision \<Rightarrow> string option" where
  "decision_policy_digest (PolicyDecision d) = Some (pa_policy_digest (po_core d))"
| "decision_policy_digest (QuorumDecision d) =
     Some (ns_independence_spec_digest (qe_independence_spec (qa_quorum (qu_core d))))"
| "decision_policy_digest _ = None"

definition capability_decision_check ::
  "autonomy_capability_core \<Rightarrow> authority_decision \<Rightarrow> autonomy_error + unit" where
  "capability_decision_check c decision =
     (if positive_binding decision = None then
        Err (Invariant ''SAFETY decision cannot mint a positive autonomy capability'')
      else and_then (ok_or (decision_policy_digest decision)
          (Invariant ''autonomy capability requires POLICY or AGENT_QUORUM decision''))
        (\<lambda>expected. au_require_digest_equality ''capability.decision_policy_digest'' expected
           (ap_decision_policy_digest c)))"

definition capability_strings ::
  "autonomy_capability_core \<Rightarrow> authority_decision \<Rightarrow> sovereign_intent \<Rightarrow> autonomy_grant \<Rightarrow>
   (string \<times> string \<times> string) list" where
  "capability_strings c decision intent g =
     (let i = si_core intent in
       [(''capability.intent_digest'', si_intent_digest intent, ap_intent_digest c),
        (''capability.decision_digest'', decision_digest decision, ap_decision_digest c),
        (''capability.action_policy_registry_digest'', sc_action_policy_registry_digest i, ap_action_policy_registry_digest c),
        (''capability.classifier_decision_digest'', sc_classifier_decision_digest i, ap_classifier_decision_digest c),
        (''capability.constitution_digest'', sc_constitution_digest i, ap_constitution_digest c),
        (''capability.organism_id'', sc_organism_id i, ap_organism_id c),
        (''capability.repo_id'', sc_repo_id i, ap_repo_id c),
        (''capability.issuer_subject_id'', sc_issuer_subject_id i, ap_issuer_subject_id c),
        (''capability.decision_subject_id'', sc_decision_subject_id i, ap_decision_subject_id c),
        (''capability.caller_subject_id'', sc_caller_subject_id i, ap_caller_subject_id c),
        (''capability.proposer_subject_id'', sc_proposer_subject_id i, ap_proposer_subject_id c),
        (''capability.audience'', sc_audience i, ap_audience c),
        (''capability.grant_id'', gc_grant_id (ag_core g), ap_grant_id c),
        (''capability.grant_digest'', ag_grant_digest g, ap_grant_digest c),
        (''capability.action_class'', sc_action_class i, ap_action_class c),
        (''capability.semantic_action_id'', sc_semantic_action_id i, ap_semantic_action_id c),
        (''capability.risk_scope_digest'', sc_risk_scope_digest i, ap_risk_scope_digest c),
        (''capability.brain_id'', sc_brain_id i, ap_brain_id c),
        (''capability.resource_environment_scope_digest'', sc_resource_environment_scope_digest i, ap_resource_environment_scope_digest c),
        (''capability.payload_digest'', sc_action_payload_digest i, ap_payload_digest c),
        (''capability.nonce'', sc_nonce i, ap_nonce c)])"

definition capability_fields_differ ::
  "autonomy_capability_core \<Rightarrow> authority_decision \<Rightarrow> sovereign_intent \<Rightarrow> autonomy_epoch \<Rightarrow> bool" where
  "capability_fields_differ c decision intent ep \<longleftrightarrow>
     (let i = si_core intent in
      ap_intent_core_ref c \<noteq> si_intent_core_ref intent \<or>
      ap_intent_canonicalization_version c \<noteq> CANONICALIZATION_VERSION \<or>
      ap_required_authority_variant c \<noteq> decision_variant decision \<or>
      ap_required_authority_variant c \<noteq> sc_required_authority_variant i \<or>
      ap_constitution_epoch c \<noteq> sc_constitution_epoch i \<or>
      ap_autonomy_epoch c \<noteq> sc_autonomy_epoch i \<or>
      ap_active_mode c \<noteq> sc_active_mode i \<or>
      ap_active_mode c \<noteq> ae_active_mode ep \<or>
      ap_executor_subject_id c \<noteq> sc_executor_subject_id i \<or>
      ap_promotion_target_subject_id c \<noteq> sc_promotion_target_subject_id i \<or>
      ap_ratification_target_subject_id c \<noteq> sc_ratification_target_subject_id i \<or>
      ap_delegation_grant_digest c \<noteq> sc_delegation_grant_digest i \<or>
      ap_effective_tier c \<noteq> sc_effective_tier i \<or>
      ap_risk_class c \<noteq> sc_risk_class i \<or>
      ap_mission_id c \<noteq> sc_mission_id i \<or>
      ap_mission_head_id c \<noteq> sc_mission_head_id i \<or>
      ap_block_id c \<noteq> sc_block_id i \<or>
      ap_candidate_digest c \<noteq> sc_candidate_digest i \<or>
      ap_promotion_subject_id c \<noteq> sc_promotion_subject_id i \<or>
      ap_requested_budget c \<noteq> sc_requested_budget i \<or>
      ap_expected_store_epoch c \<noteq> sc_expected_store_epoch i \<or>
      ap_expected_store_version c \<noteq> sc_expected_store_version i \<or>
      ap_expected_boundary_version c \<noteq> sc_expected_boundary_version i \<or>
      ap_expected_contract_version c \<noteq> sc_expected_contract_version i)"

definition capability_binding_check ::
  "authority_decision \<Rightarrow> sovereign_intent \<Rightarrow> autonomy_error + unit" where
  "capability_binding_check decision intent =
     (case positive_binding decision of
        Some b \<Rightarrow> check (\<not> b \<noteq> from_intent intent (db_decision_id b) (db_sentinel_required b)
            (db_sentinel_verdict_digest b))
          (BindingMismatch ''capability.authority_decision_binding'')
      | None \<Rightarrow> Ok ())"

definition capability_sentinel_check ::
  "autonomy_capability_core \<Rightarrow> sovereign_intent \<Rightarrow> sentinel_record option \<Rightarrow> u64 \<Rightarrow> autonomy_error + unit" where
  "capability_sentinel_check c intent sentinel now_ms =
     (let i = si_core intent in
      case sentinel of
        Some verdict \<Rightarrow>
          (let v = sr_core verdict in seq_checks
           [au_require_time_window ''SentinelVerdictV1'' (nl_issued_at v) (nl_expires_at v) now_ms,
            check (\<not> (ap_sentinel_verdict_digest c \<noteq> Some (sr_verdict_digest verdict) \<or>
              nl_verdict v \<noteq> Green \<or> nl_intent_digest v \<noteq> si_intent_digest intent \<or>
              nl_intent_core_ref v \<noteq> si_intent_core_ref intent \<or>
              nl_constitution_epoch v \<noteq> sc_constitution_epoch i \<or>
              nl_autonomy_epoch v \<noteq> sc_autonomy_epoch i \<or> nl_nonce v \<noteq> sc_nonce i))
              (BindingMismatch ''capability.sentinel_verdict_digest'')])
      | None \<Rightarrow> check (ap_sentinel_verdict_digest c = None)
          (BindingMismatch ''capability.sentinel_verdict_digest''))"

definition validate_autonomy_capability ::
  "platform \<Rightarrow> autonomy_capability \<Rightarrow> authority_decision \<Rightarrow> sovereign_intent \<Rightarrow> autonomy_grant \<Rightarrow>
   autonomy_epoch \<Rightarrow> sentinel_record option \<Rightarrow> u64 \<Rightarrow> autonomy_error + autonomy_validation" where
  "validate_autonomy_capability E a decision intent g ep sentinel now_ms =
     (let c = au_core a; i = si_core intent in au_accept
      ([au_require_schema ''AutonomyCapabilityV1'' (au_schema a) AUTONOMY_CAPABILITY_SCHEMA,
        au_discard (validate_canonical_core E intent now_ms),
        capability_decision_check c decision]
       @ au_required
          [(''capability_id'', ap_capability_id c),
           (''organism_id'', ap_organism_id c),
           (''repo_id'', ap_repo_id c),
           (''capability.issuer_subject_id'', ap_issuer_subject_id c),
           (''capability.decision_subject_id'', ap_decision_subject_id c),
           (''capability.caller_subject_id'', ap_caller_subject_id c),
           (''capability.proposer_subject_id'', ap_proposer_subject_id c),
           (''capability.audience'', ap_audience c),
           (''capability.grant_id'', ap_grant_id c),
           (''capability.action_class'', ap_action_class c),
           (''capability.semantic_action_id'', ap_semantic_action_id c),
           (''capability.brain_id'', ap_brain_id c),
           (''capability.idempotency_key'', ap_idempotency_key c),
           (''capability.nonce'', ap_nonce c)]
       @ [check (is_catalog_action (ap_semantic_action_id c))
            (Invariant ''autonomy capability semantic_action_id is not a canonical G2 action id''),
          au_require_time_window ''AutonomyCapabilityV1'' (ap_issued_at c) (ap_expires_at c) now_ms,
          check (\<not> (ap_issued_at c < sc_issued_at i \<or> ap_expires_at c > sc_expires_at i))
            (Invariant ''capability lifetime must be inside its immutable intent lifetime''),
          check (\<not> (ae_issuance_frozen ep \<or> ae_safety_state ep \<noteq> Healthy))
            (Invariant ''positive capability mint/validation is fenced by safety state'')]
       @ map (\<lambda>(f, expected, observed). check (\<not> expected \<noteq> observed) (BindingMismatch f))
           (capability_strings c decision intent g)
       @ [check (\<not> capability_fields_differ c decision intent ep)
            (BindingMismatch ''capability.intent_bindings''),
          check (\<not> ap_activation_receipt_id c \<noteq> ae_activation_receipt_id ep)
            (BindingMismatch ''capability.activation_receipt_id''),
          capability_binding_check decision intent,
          validate_grant_at E g now_ms,
          validate_grant_binding i g,
          capability_sentinel_check c intent sentinel now_ms,
          au_require_digest ''capability_digest'' (au_capability_digest a),
          au_require_digest_equality ''capability_digest'' (compute_capability_digest E a)
            (au_capability_digest a),
          au_require_signature ''capability.owner_signature'' (au_owner_signature a)])
      (compute_capability_digest E a))"

section \<open>Activation receipts\<close>

record activation_core =
  tc_receipt_id :: string
  tc_previous_mode_epoch_digest :: string
  tc_previous_mode :: active_mode
  tc_previous_constitution_epoch :: u64
  tc_previous_autonomy_epoch :: u64
  tc_previous_activation_receipt_id :: "string option"
  tc_target_constitution_digest :: string
  tc_target_constitution_epoch :: u64
  tc_activated_autonomy_epoch :: u64
  tc_activated_mode :: active_mode
  tc_grants_digest :: string
  tc_release_candidate_digest :: string
  tc_gate_receipts_digest :: string
  tc_g9_canary_receipts_digest :: string
  tc_authority_decision_digest :: string
  tc_prior_authority_variant :: authority_variant
  tc_custody_floor :: string
  tc_rollback_plan_digest :: string
  tc_activates_at :: u64
  tc_issuer_subject_id :: string

definition json_of_activation_core :: "activation_core \<Rightarrow> json" where
  "json_of_activation_core x = JObject
    [(''receipt_id'', JString (tc_receipt_id x)),
     (''previous_mode_epoch_digest'', JString (tc_previous_mode_epoch_digest x)),
     (''previous_mode'', JString (mode_name (tc_previous_mode x))),
     (''previous_constitution_epoch'', json_u64 (tc_previous_constitution_epoch x)),
     (''previous_autonomy_epoch'', json_u64 (tc_previous_autonomy_epoch x)),
     (''previous_activation_receipt_id'', json_opt JString (tc_previous_activation_receipt_id x)),
     (''target_constitution_digest'', JString (tc_target_constitution_digest x)),
     (''target_constitution_epoch'', json_u64 (tc_target_constitution_epoch x)),
     (''activated_autonomy_epoch'', json_u64 (tc_activated_autonomy_epoch x)),
     (''activated_mode'', JString (mode_name (tc_activated_mode x))),
     (''grants_digest'', JString (tc_grants_digest x)),
     (''release_candidate_digest'', JString (tc_release_candidate_digest x)),
     (''gate_receipts_digest'', JString (tc_gate_receipts_digest x)),
     (''g9_canary_receipts_digest'', JString (tc_g9_canary_receipts_digest x)),
     (''authority_decision_digest'', JString (tc_authority_decision_digest x)),
     (''prior_authority_variant'', JString (variant_name (tc_prior_authority_variant x))),
     (''custody_floor'', JString (tc_custody_floor x)),
     (''rollback_plan_digest'', JString (tc_rollback_plan_digest x)),
     (''activates_at'', json_u64 (tc_activates_at x)),
     (''issuer_subject_id'', JString (tc_issuer_subject_id x))]"

record activation_receipt =
  at_schema :: string
  at_core :: activation_core
  at_receipt_digest :: string
  at_signature :: string

definition json_of_activation_receipt :: "activation_receipt \<Rightarrow> json" where
  "json_of_activation_receipt x = JObject
    [(''schema'', JString (at_schema x)),
     (''core'', json_of_activation_core (at_core x)),
     (''receipt_digest'', JString (at_receipt_digest x)),
     (''signature'', JString (at_signature x))]"

record activation_context =
  ax_exact_release_candidate_digest :: string
  ax_authority_decision :: authority_decision
  ax_now_ms :: u64

definition compute_activation_digest :: "platform \<Rightarrow> activation_receipt \<Rightarrow> string" where
  "compute_activation_digest E r =
     digest_canonical E AUTONOMY_ACTIVATION_RECEIPT_DIGEST_DOMAIN
       (json_of_activation_core ((at_core r)\<lparr>tc_receipt_id := []\<rparr>))"

definition seal_activation :: "platform \<Rightarrow> activation_receipt \<Rightarrow> activation_receipt" where
  "seal_activation E r =
     (let d = compute_activation_digest E r in
      r\<lparr>at_receipt_digest := d, at_core := (at_core r)\<lparr>tc_receipt_id := ''autonomy-activation:'' @ d\<rparr>\<rparr>)"

fun activation_step :: "active_mode \<Rightarrow> active_mode \<Rightarrow> autonomy_error + unit" where
  "activation_step HumanGated PolicyAutonomous = Ok ()"
| "activation_step PolicyAutonomous FullAutonomy = Ok ()"
| "activation_step previous target = Err (InvalidActivationTransition previous target)"

fun required_prior_authority :: "active_mode \<Rightarrow> authority_variant" where
  "required_prior_authority HumanGated = Human"
| "required_prior_authority PolicyAutonomous = Human"
| "required_prior_authority FullAutonomy = AgentQuorum"

definition activation_previous_differs :: "activation_core \<Rightarrow> autonomy_epoch \<Rightarrow> bool" where
  "activation_previous_differs c previous \<longleftrightarrow>
     tc_previous_mode c \<noteq> ae_active_mode previous \<or>
     tc_previous_constitution_epoch c \<noteq> ae_constitution_epoch previous \<or>
     tc_previous_autonomy_epoch c \<noteq> ae_autonomy_epoch previous \<or>
     tc_previous_activation_receipt_id c \<noteq> ae_activation_receipt_id previous"

text \<open>The successor epoch is \<open>previous + 1\<close> on \<open>u64\<close>, which wraps in a release build.\<close>

definition activation_target_differs ::
  "activation_core \<Rightarrow> autonomy_epoch \<Rightarrow> autonomy_epoch \<Rightarrow> constitution_store \<Rightarrow> bool" where
  "activation_target_differs c previous target constitution \<longleftrightarrow>
     tc_target_constitution_epoch c \<noteq> kc_constitution_epoch (ks_core constitution) \<or>
     tc_activated_autonomy_epoch c \<noteq> ae_autonomy_epoch previous + 1 \<or>
     ae_autonomy_epoch target \<noteq> tc_activated_autonomy_epoch c \<or>
     ae_constitution_epoch target \<noteq> tc_target_constitution_epoch c \<or>
     ae_constitution_digest target \<noteq> tc_target_constitution_digest c \<or>
     ae_active_mode target \<noteq> tc_activated_mode c \<or>
     ae_grants_digest target \<noteq> tc_grants_digest c \<or>
     ae_activation_receipt_id target \<noteq> Some (tc_receipt_id c)"

definition activation_head_checks ::
  "platform \<Rightarrow> activation_receipt \<Rightarrow> autonomy_epoch \<Rightarrow> constitution_store \<Rightarrow> activation_context \<Rightarrow>
   (autonomy_error + unit) list" where
  "activation_head_checks E r previous constitution context =
     (let c = at_core r in
      [au_require_schema ''AutonomyActivationReceiptV1'' (at_schema r) AUTONOMY_ACTIVATION_RECEIPT_SCHEMA,
       au_require_non_empty ''activation.receipt_id'' (tc_receipt_id c),
       au_require_non_empty ''activation.issuer_subject_id'' (tc_issuer_subject_id c),
       au_require_non_empty ''activation.custody_floor'' (tc_custody_floor c),
       check (is_ratified_custody_floor (tc_custody_floor c))
         (Invariant ''activation custody_floor is outside the ratified closed set''),
       check (\<not> ax_now_ms context < tc_activates_at c)
         (Invariant ''activation receipt is not effective yet''),
       au_require_digest_equality ''activation.previous_mode_epoch_digest''
         (compute_epoch_reference_digest E previous) (tc_previous_mode_epoch_digest c),
       au_require_digest_equality ''activation.target_constitution_digest''
         (ks_constitution_digest constitution) (tc_target_constitution_digest c)])"

definition activation_tail_checks ::
  "platform \<Rightarrow> activation_receipt \<Rightarrow> autonomy_epoch \<Rightarrow> autonomy_epoch \<Rightarrow> constitution_store \<Rightarrow>
   autonomy_grant list \<Rightarrow> activation_context \<Rightarrow> string \<Rightarrow> (autonomy_error + unit) list" where
  "activation_tail_checks E r previous target constitution grants context grants_digest =
     (let c = at_core r; decision = ax_authority_decision context;
          prior = required_prior_authority (ae_active_mode previous) in
      au_digest_pairs
        [(''activation.grants_digest'', grants_digest, tc_grants_digest c),
         (''activation.release_candidate_digest'', ax_exact_release_candidate_digest context,
          tc_release_candidate_digest c),
         (''activation.authority_decision_digest'', decision_digest decision,
          tc_authority_decision_digest c)]
      @ au_digests
        [(''activation.gate_receipts_digest'', tc_gate_receipts_digest c),
         (''activation.g9_canary_receipts_digest'', tc_g9_canary_receipts_digest c),
         (''activation.rollback_plan_digest'', tc_rollback_plan_digest c)]
      @ [check (\<not> activation_previous_differs c previous)
           (BindingMismatch ''activation.previous_mode_epoch''),
         check (\<not> activation_target_differs c previous target constitution)
           (BindingMismatch ''activation.target_mode_epoch''),
         activation_step (ae_active_mode previous) (ae_active_mode target),
         validate_common E target constitution grants (ax_now_ms context),
         check (\<not> (tc_prior_authority_variant c \<noteq> prior \<or> decision_variant decision \<noteq> prior))
           (AuthorityMismatch prior (decision_variant decision)),
         au_require_digest ''activation.receipt_digest'' (at_receipt_digest r),
         au_require_digest_equality ''activation.receipt_digest'' (compute_activation_digest E r)
           (at_receipt_digest r),
         check (\<not> tc_receipt_id c \<noteq> ''autonomy-activation:'' @ compute_activation_digest E r)
           (BindingMismatch ''activation.receipt_id''),
         au_require_signature ''activation.signature'' (at_signature r)])"

definition validate_activation ::
  "platform \<Rightarrow> activation_receipt \<Rightarrow> autonomy_epoch \<Rightarrow> autonomy_epoch \<Rightarrow> constitution_store \<Rightarrow>
   autonomy_grant list \<Rightarrow> activation_context \<Rightarrow> autonomy_error + autonomy_validation" where
  "validate_activation E r previous target constitution grants context =
     and_then (seq_checks (activation_head_checks E r previous constitution context)) (\<lambda>_.
     and_then (compute_grants_digest E grants) (\<lambda>grants_digest.
     au_accept
       (activation_tail_checks E r previous target constitution grants context grants_digest)
       (compute_activation_digest E r)))"

end
