(* ===== verification/Runtime_Data.thy ===== *)
theory Runtime_Data
  imports Autonomy_Capability "HOL-Library.Finite_Map"
begin

text \<open>
  \<open>m1nd-control/src/autonomy_runtime.rs\<close>, the records: the state of the autonomy runtime, the
  protected root that anchors it, the records of its journal, the evidence of the tiers, the
  receipts of recovery and admission, and the errors.  A \<open>BTreeMap\<close> is a finite map, serialised
  in the order of its keys, a \<open>BTreeSet\<close> of strings a finite set; a \<open>PathBuf\<close> is a string.  The
  serialisers are those that serde derives; none of these records can fail to serialise.
\<close>

section \<open>Constants\<close>

definition AUTONOMY_RUNTIME_STATE_SCHEMA :: string where
  "AUTONOMY_RUNTIME_STATE_SCHEMA = ''m1nd-autonomy-runtime-state-v1''"
definition AUTONOMY_PROTECTED_ROOT_SCHEMA :: string where
  "AUTONOMY_PROTECTED_ROOT_SCHEMA = ''m1nd-autonomy-protected-root-v1''"
definition AUTONOMY_JOURNAL_RECORD_SCHEMA :: string where
  "AUTONOMY_JOURNAL_RECORD_SCHEMA = ''m1nd-autonomy-journal-record-v1''"
definition INTENT_CORE_ENTRY_SCHEMA :: string where
  "INTENT_CORE_ENTRY_SCHEMA = ''m1nd-intent-core-entry-v1''"
definition TIER_EVIDENCE_SCHEMA :: string where
  "TIER_EVIDENCE_SCHEMA = ''m1nd-autonomy-tier-evidence-v1''"
definition PENDING_RED_RUNTIME_SCHEMA :: string where
  "PENDING_RED_RUNTIME_SCHEMA = ''m1nd-pending-red-runtime-v1''"
definition AUTONOMY_ADMISSION_RECEIPT_SCHEMA :: string where
  "AUTONOMY_ADMISSION_RECEIPT_SCHEMA = ''m1nd-autonomy-admission-receipt-v1''"
definition AUTONOMY_RECOVERY_RECEIPT_SCHEMA :: string where
  "AUTONOMY_RECOVERY_RECEIPT_SCHEMA = ''m1nd-autonomy-recovery-receipt-v1''"
definition AUTONOMY_RUNTIME_STATE_DIGEST_DOMAIN :: string where
  "AUTONOMY_RUNTIME_STATE_DIGEST_DOMAIN = ''m1nd-autonomy-runtime-state-v1''"
definition AUTONOMY_PROTECTED_ROOT_DIGEST_DOMAIN :: string where
  "AUTONOMY_PROTECTED_ROOT_DIGEST_DOMAIN = ''m1nd-autonomy-protected-root-v1''"
definition AUTONOMY_JOURNAL_RECORD_DIGEST_DOMAIN :: string where
  "AUTONOMY_JOURNAL_RECORD_DIGEST_DOMAIN = ''m1nd-autonomy-journal-record-v1''"
definition INTENT_OBJECT_DIGEST_DOMAIN :: string where
  "INTENT_OBJECT_DIGEST_DOMAIN = ''m1nd-intent-object-v1''"
definition INTENT_STORE_ROOT_DIGEST_DOMAIN :: string where
  "INTENT_STORE_ROOT_DIGEST_DOMAIN = ''m1nd-intent-store-root-v1''"
definition TIER_EVIDENCE_DIGEST_DOMAIN :: string where
  "TIER_EVIDENCE_DIGEST_DOMAIN = ''m1nd-autonomy-tier-evidence-v1''"
definition TIER_EVIDENCE_SET_DIGEST_DOMAIN :: string where
  "TIER_EVIDENCE_SET_DIGEST_DOMAIN = ''m1nd-autonomy-tier-evidence-set-v1''"
definition RED_COMMIT_MARKER_DIGEST_DOMAIN :: string where
  "RED_COMMIT_MARKER_DIGEST_DOMAIN = ''m1nd-red-commit-marker-v1''"
definition AUTONOMY_ADMISSION_RECEIPT_DIGEST_DOMAIN :: string where
  "AUTONOMY_ADMISSION_RECEIPT_DIGEST_DOMAIN = ''m1nd-autonomy-admission-receipt-v1''"
definition AUTONOMY_RECOVERY_RECEIPT_DIGEST_DOMAIN :: string where
  "AUTONOMY_RECOVERY_RECEIPT_DIGEST_DOMAIN = ''m1nd-autonomy-recovery-receipt-v1''"
definition QUORUM_VOTE_VERIFICATION_DIGEST_DOMAIN :: string where
  "QUORUM_VOTE_VERIFICATION_DIGEST_DOMAIN = ''m1nd-quorum-vote-verification-material-v1''"
definition JOURNAL_FILE_NAME :: string where
  "JOURNAL_FILE_NAME = ''autonomy-journal.jsonl''"
definition INTENT_OBJECT_DIRECTORY :: string where
  "INTENT_OBJECT_DIRECTORY = ''intent-objects''"
definition MAX_DEFAULT_INTENT_BYTES :: u64 where
  "MAX_DEFAULT_INTENT_BYTES = 8 * 1024 * 1024"

section \<open>Serialised collections\<close>

definition json_list :: "('a \<Rightarrow> json) \<Rightarrow> 'a list \<Rightarrow> json" where
  "json_list f xs = JArray (map f xs)"

definition json_fmap :: "('a \<Rightarrow> json) \<Rightarrow> (string, 'a) fmap \<Rightarrow> json" where
  "json_fmap f m = JObject (map (map_prod id f) (sorted_list_of_fmap m))"

definition json_fset :: "string fset \<Rightarrow> json" where
  "json_fset s = JArray (map JString (sorted_list_of_fset s))"

text \<open>\<open>u64::to_string\<close> and \<open>str::parse::<u64>\<close>, which also reads a plus sign and leading zeros.\<close>

fun decimal_digits :: "nat \<Rightarrow> string" where
  "decimal_digits n =
     (if n < 10 then [char_of (48 + n)] else decimal_digits (n div 10) @ [char_of (48 + n mod 10)])"

definition u64_to_string :: "u64 \<Rightarrow> string" where
  "u64_to_string n = decimal_digits (unat n)"

definition decimal_value :: "string \<Rightarrow> nat" where
  "decimal_value s = foldl (\<lambda>acc c. 10 * acc + (of_char c - 48)) 0 s"

definition is_decimal_digit :: "char \<Rightarrow> bool" where
  "is_decimal_digit c = (let n = of_char c :: nat in 48 \<le> n \<and> n \<le> 57)"

definition parse_u64 :: "string \<Rightarrow> u64 option" where
  "parse_u64 s =
    (let digits = (case s of c # rest \<Rightarrow> if c = CHR ''+'' then rest else s
  | [] \<Rightarrow> s) in
      if digits = [] \<or> \<not> list_all is_decimal_digit digits \<or> 2 ^ 64 \<le> decimal_value digits then None
      else Some (of_nat (decimal_value digits)))"

section \<open>Configuration and protected root\<close>

datatype runtime_assurance =
    SoftwareTestOnlyNotProduction | ProtectedProduction

text \<open>The derived order: software below protected production.\<close>

fun assurance_rank :: "runtime_assurance \<Rightarrow> nat" where
  "assurance_rank SoftwareTestOnlyNotProduction = 0"
| "assurance_rank ProtectedProduction = 1"

record runtime_config =
  fg_root :: string
  fg_durability_domain_id :: string
  fg_organism_id :: string
  fg_repo_id :: string
  fg_brain_id :: string
  fg_required_assurance :: runtime_assurance
  fg_max_intent_bytes :: u64

definition production_config :: "string \<Rightarrow> string \<Rightarrow> string \<Rightarrow> string \<Rightarrow> string \<Rightarrow> runtime_config" where
  "production_config root durability_domain_id organism_id repo_id brain_id =
     \<lparr>fg_root = root, fg_durability_domain_id = durability_domain_id, fg_organism_id = organism_id,
      fg_repo_id = repo_id, fg_brain_id = brain_id, fg_required_assurance = ProtectedProduction,
      fg_max_intent_bytes = MAX_DEFAULT_INTENT_BYTES\<rparr>"

definition software_test_only :: "string \<Rightarrow> string \<Rightarrow> string \<Rightarrow> string \<Rightarrow> string \<Rightarrow> runtime_config" where
  "software_test_only root durability_domain_id organism_id repo_id brain_id =
     \<lparr>fg_root = root, fg_durability_domain_id = durability_domain_id, fg_organism_id = organism_id,
      fg_repo_id = repo_id, fg_brain_id = brain_id,
      fg_required_assurance = SoftwareTestOnlyNotProduction,
      fg_max_intent_bytes = MAX_DEFAULT_INTENT_BYTES\<rparr>"

datatype root_phase =
    RootPrepared | RootCommitted

fun root_phase_name :: "root_phase \<Rightarrow> string" where
  "root_phase_name RootPrepared = ''PREPARED''"
| "root_phase_name RootCommitted = ''COMMITTED''"

record protected_root =
  pr_schema :: string
  pr_phase :: root_phase
  pr_transition_id :: string
  pr_journal_sequence :: u64
  pr_journal_record_digest :: string
  pr_state_digest :: string
  pr_state_generation :: u64
  pr_autonomy_epoch :: u64
  pr_constitution_epoch :: u64
  pr_intent_store_root_digest :: string
  pr_sentinel_outbox_epoch :: u64
  pr_red_latch_epoch :: u64
  pr_root_digest :: string

definition json_of_protected_root :: "protected_root \<Rightarrow> json" where
  "json_of_protected_root x = JObject
    [(''schema'', JString (pr_schema x)),
     (''phase'', JString (root_phase_name (pr_phase x))),
     (''transition_id'', JString (pr_transition_id x)),
     (''journal_sequence'', json_u64 (pr_journal_sequence x)),
     (''journal_record_digest'', JString (pr_journal_record_digest x)),
     (''state_digest'', JString (pr_state_digest x)),
     (''state_generation'', json_u64 (pr_state_generation x)),
     (''autonomy_epoch'', json_u64 (pr_autonomy_epoch x)),
     (''constitution_epoch'', json_u64 (pr_constitution_epoch x)),
     (''intent_store_root_digest'', JString (pr_intent_store_root_digest x)),
     (''sentinel_outbox_epoch'', json_u64 (pr_sentinel_outbox_epoch x)),
     (''red_latch_epoch'', json_u64 (pr_red_latch_epoch x)),
     (''root_digest'', JString (pr_root_digest x))]"

definition compute_root_digest :: "platform \<Rightarrow> protected_root \<Rightarrow> string" where
  "compute_root_digest E r =
     digest_canonical E AUTONOMY_PROTECTED_ROOT_DIGEST_DOMAIN (json_of_protected_root (r\<lparr>pr_root_digest := []\<rparr>))"

definition seal_root :: "platform \<Rightarrow> protected_root \<Rightarrow> protected_root" where
  "seal_root E r = r\<lparr>pr_root_digest := compute_root_digest E r\<rparr>"

section \<open>Artifacts and their verifier\<close>

datatype artifact_kind =
    KindSafetyKernel | KindConstitution | KindAutonomyEpoch | KindAutonomyGrant
  | KindActivationReceipt | KindRecoveryReceipt | KindAuthorityDecision | KindQuorumVote
  | KindAutonomyCapability | KindSentinelVerdict | KindSentinelRedOutbox | KindRedLatchReceipt
  | KindSafetyCapability | KindTierEvidence

record verification_request =
  vq_kind :: artifact_kind
  vq_artifact_digest :: string
  vq_subject_id :: string
  vq_signature :: string
  vq_canonical_bytes :: bytes
  vq_identity_key_binary_policy_digest :: "string option"
  vq_now_ms :: u64

text \<open>The trait \<open>AutonomyArtifactVerifier\<close>.\<close>

record artifact_verifier =
  av_assurance :: runtime_assurance
  av_verify :: "verification_request \<Rightarrow> string + unit"

text \<open>The material of a vote: the vote without its signature.\<close>

definition json_of_vote_material :: "quorum_vote \<Rightarrow> json" where
  "json_of_vote_material x = JObject
    [(''verifier_principal_id'', JString (qv_verifier_principal_id x)),
     (''verifier_key_id'', JString (qv_verifier_key_id x)),
     (''failure_domain'', JString (qv_failure_domain x)),
     (''parent_session_context_digest'', JString (qv_parent_session_context_digest x)),
     (''intent_digest'', JString (qv_intent_digest x)),
     (''constitution_digest'', JString (qv_constitution_digest x)),
     (''candidate_digest'', json_opt JString (qv_candidate_digest x)),
     (''evidence_digest'', JString (qv_evidence_digest x)),
     (''rollout_plan_digest'', JString (qv_rollout_plan_digest x)),
     (''rollback_plan_digest'', JString (qv_rollback_plan_digest x)),
     (''disposition'', JString (vote_disposition_name (qv_disposition x)))]"

section \<open>Stored intents and tier evidence\<close>

datatype stored_intent_kind =
    StoredSovereign | StoredSafety

fun stored_intent_kind_name :: "stored_intent_kind \<Rightarrow> string" where
  "stored_intent_kind_name StoredSovereign = ''SOVEREIGN''"
| "stored_intent_kind_name StoredSafety = ''SAFETY''"

record intent_entry =
  ie_schema :: string
  ie_intent_digest :: string
  ie_content_address :: string
  ie_canonicalization_version :: string
  ie_kind :: stored_intent_kind
  ie_canonical_bytes_digest :: string
  ie_byte_len :: u64

definition json_of_intent_entry :: "intent_entry \<Rightarrow> json" where
  "json_of_intent_entry x = JObject
    [(''schema'', JString (ie_schema x)),
     (''intent_digest'', JString (ie_intent_digest x)),
     (''content_address'', JString (ie_content_address x)),
     (''canonicalization_version'', JString (ie_canonicalization_version x)),
     (''kind'', JString (stored_intent_kind_name (ie_kind x))),
     (''canonical_bytes_digest'', JString (ie_canonical_bytes_digest x)),
     (''byte_len'', json_u64 (ie_byte_len x))]"

record tier_evidence =
  te_schema :: string
  te_subject_id :: string
  te_tier :: autonomy_tier
  te_evaluator_subject_id :: string
  te_proposer_subject_id :: string
  te_executor_subject_id :: "string option"
  te_verifier_principals :: "string fset"
  te_failure_domains :: "string fset"
  te_previous_evidence_digest :: "string option"
  te_exact_release_candidate_digest :: string
  te_shadow_receipt_digest :: string
  te_canary_receipt_digest :: string
  te_rollback_receipt_digest :: string
  te_metric_receipt_digest :: string
  te_recorded_at :: u64
  te_evidence_digest :: string
  te_evaluator_signature :: string

definition json_of_tier_evidence :: "tier_evidence \<Rightarrow> json" where
  "json_of_tier_evidence x = JObject
    [(''schema'', JString (te_schema x)),
     (''subject_id'', JString (te_subject_id x)),
     (''tier'', JString (tier_name (te_tier x))),
     (''evaluator_subject_id'', JString (te_evaluator_subject_id x)),
     (''proposer_subject_id'', JString (te_proposer_subject_id x)),
     (''executor_subject_id'', json_opt JString (te_executor_subject_id x)),
     (''verifier_principals'', json_fset (te_verifier_principals x)),
     (''failure_domains'', json_fset (te_failure_domains x)),
     (''previous_evidence_digest'', json_opt JString (te_previous_evidence_digest x)),
     (''exact_release_candidate_digest'', JString (te_exact_release_candidate_digest x)),
     (''shadow_receipt_digest'', JString (te_shadow_receipt_digest x)),
     (''canary_receipt_digest'', JString (te_canary_receipt_digest x)),
     (''rollback_receipt_digest'', JString (te_rollback_receipt_digest x)),
     (''metric_receipt_digest'', JString (te_metric_receipt_digest x)),
     (''recorded_at'', json_u64 (te_recorded_at x)),
     (''evidence_digest'', JString (te_evidence_digest x)),
     (''evaluator_signature'', JString (te_evaluator_signature x))]"

definition compute_evidence_digest :: "platform \<Rightarrow> tier_evidence \<Rightarrow> string" where
  "compute_evidence_digest E t = digest_canonical E TIER_EVIDENCE_DIGEST_DOMAIN
     (json_of_tier_evidence (t\<lparr>te_evidence_digest := [], te_evaluator_signature := []\<rparr>))"

definition seal_evidence :: "platform \<Rightarrow> tier_evidence \<Rightarrow> tier_evidence" where
  "seal_evidence E t = t\<lparr>te_evidence_digest := compute_evidence_digest E t\<rparr>"

section \<open>The state\<close>

record pending_red =
  pq_schema :: string
  pq_source_intent_digest :: string
  pq_verdict :: sentinel_record
  pq_outbox :: red_outbox
  pq_latch :: "red_latch option"

definition json_of_pending_red :: "pending_red \<Rightarrow> json" where
  "json_of_pending_red x = JObject
    [(''schema'', JString (pq_schema x)),
     (''source_intent_digest'', JString (pq_source_intent_digest x)),
     (''verdict'', json_of_sentinel_record (pq_verdict x)),
     (''outbox'', json_of_red_outbox (pq_outbox x)),
     (''latch'', json_opt json_of_red_latch (pq_latch x))]"

record recovery_core =
  vc_receipt_id :: string
  vc_frozen_state_digest :: string
  vc_frozen_epoch_reference_digest :: string
  vc_frozen_autonomy_epoch :: u64
  vc_last_valid_mode :: active_mode
  vc_required_authority_variant :: authority_variant
  vc_recovery_intent_digest :: string
  vc_authority_decision_digest :: string
  vc_sentinel_verdict_digest :: string
  vc_terminal_red_latch_receipt_digest :: string
  vc_remediation_evidence_digest :: string
  vc_rollback_validation_digest :: string
  vc_target_autonomy_epoch :: u64
  vc_target_constitution_digest :: string
  vc_target_constitution_epoch :: u64
  vc_issuer_subject_id :: string
  vc_issued_at :: u64

definition json_of_recovery_core :: "recovery_core \<Rightarrow> json" where
  "json_of_recovery_core x = JObject
    [(''receipt_id'', JString (vc_receipt_id x)),
     (''frozen_state_digest'', JString (vc_frozen_state_digest x)),
     (''frozen_epoch_reference_digest'', JString (vc_frozen_epoch_reference_digest x)),
     (''frozen_autonomy_epoch'', json_u64 (vc_frozen_autonomy_epoch x)),
     (''last_valid_mode'', JString (mode_name (vc_last_valid_mode x))),
     (''required_authority_variant'', JString (variant_name (vc_required_authority_variant x))),
     (''recovery_intent_digest'', JString (vc_recovery_intent_digest x)),
     (''authority_decision_digest'', JString (vc_authority_decision_digest x)),
     (''sentinel_verdict_digest'', JString (vc_sentinel_verdict_digest x)),
     (''terminal_red_latch_receipt_digest'', JString (vc_terminal_red_latch_receipt_digest x)),
     (''remediation_evidence_digest'', JString (vc_remediation_evidence_digest x)),
     (''rollback_validation_digest'', JString (vc_rollback_validation_digest x)),
     (''target_autonomy_epoch'', json_u64 (vc_target_autonomy_epoch x)),
     (''target_constitution_digest'', JString (vc_target_constitution_digest x)),
     (''target_constitution_epoch'', json_u64 (vc_target_constitution_epoch x)),
     (''issuer_subject_id'', JString (vc_issuer_subject_id x)),
     (''issued_at'', json_u64 (vc_issued_at x))]"

record recovery_receipt =
  vr_schema :: string
  vr_core :: recovery_core
  vr_receipt_digest :: string
  vr_signature :: string

definition json_of_recovery_receipt :: "recovery_receipt \<Rightarrow> json" where
  "json_of_recovery_receipt x = JObject
    [(''schema'', JString (vr_schema x)),
     (''core'', json_of_recovery_core (vr_core x)),
     (''receipt_digest'', JString (vr_receipt_digest x)),
     (''signature'', JString (vr_signature x))]"

definition compute_recovery_digest :: "platform \<Rightarrow> recovery_receipt \<Rightarrow> string" where
  "compute_recovery_digest E r = digest_canonical E AUTONOMY_RECOVERY_RECEIPT_DIGEST_DOMAIN
     (json_of_recovery_core ((vr_core r)\<lparr>vc_receipt_id := []\<rparr>))"

definition seal_recovery :: "platform \<Rightarrow> recovery_receipt \<Rightarrow> recovery_receipt" where
  "seal_recovery E r =
     (let d = compute_recovery_digest E r in
      r\<lparr>vr_receipt_digest := d, vr_core := (vr_core r)\<lparr>vc_receipt_id := ''autonomy-recovery:'' @ d\<rparr>\<rparr>)"

record runtime_state =
  rs_schema :: string
  rs_durability_domain_id :: string
  rs_generation :: u64
  rs_kernel :: safety_kernel
  rs_independence_spec :: independence_spec
  rs_constitution :: constitution_store
  rs_autonomy_epoch :: autonomy_epoch
  rs_active_grants :: "autonomy_grant list"
  rs_activation_receipts :: "(string, activation_receipt) fmap"
  rs_recovery_receipts :: "(string, recovery_receipt) fmap"
  rs_tier_evidence :: "(string, tier_evidence list) fmap"
  rs_intent_index :: "(string, intent_entry) fmap"
  rs_intent_store_root_digest :: string
  rs_consumed_capability_digests :: "string fset"
  rs_sentinel_outbox_tail :: "red_outbox option"
  rs_last_red_latch_epoch :: u64
  rs_terminal_red_latches :: "(string, red_latch) fmap"
  rs_last_valid_mode_before_freeze :: "active_mode option"
  rs_pending_red :: "pending_red option"
  rs_state_digest :: string

definition json_of_runtime_state :: "runtime_state \<Rightarrow> json" where
  "json_of_runtime_state x = JObject
    [(''schema'', JString (rs_schema x)),
     (''durability_domain_id'', JString (rs_durability_domain_id x)),
     (''generation'', json_u64 (rs_generation x)),
     (''kernel'', json_of_safety_kernel (rs_kernel x)),
     (''independence_spec'', json_of_independence_spec (rs_independence_spec x)),
     (''constitution'', json_of_constitution_store (rs_constitution x)),
     (''autonomy_epoch'', json_of_autonomy_epoch (rs_autonomy_epoch x)),
     (''active_grants'', json_list json_of_autonomy_grant (rs_active_grants x)),
     (''activation_receipts'', json_fmap json_of_activation_receipt (rs_activation_receipts x)),
     (''recovery_receipts'', json_fmap json_of_recovery_receipt (rs_recovery_receipts x)),
     (''tier_evidence'', json_fmap (json_list json_of_tier_evidence) (rs_tier_evidence x)),
     (''intent_index'', json_fmap json_of_intent_entry (rs_intent_index x)),
     (''intent_store_root_digest'', JString (rs_intent_store_root_digest x)),
     (''consumed_capability_digests'', json_fset (rs_consumed_capability_digests x)),
     (''sentinel_outbox_tail'', json_opt json_of_red_outbox (rs_sentinel_outbox_tail x)),
     (''last_red_latch_epoch'', json_u64 (rs_last_red_latch_epoch x)),
     (''terminal_red_latches'', json_fmap json_of_red_latch (rs_terminal_red_latches x)),
     (''last_valid_mode_before_freeze'', json_opt (\<lambda>x. JString (mode_name x)) (rs_last_valid_mode_before_freeze x)),
     (''pending_red'', json_opt json_of_pending_red (rs_pending_red x)),
     (''state_digest'', JString (rs_state_digest x))]"

definition compute_state_digest :: "platform \<Rightarrow> runtime_state \<Rightarrow> string" where
  "compute_state_digest E s = digest_canonical E AUTONOMY_RUNTIME_STATE_DIGEST_DOMAIN
     (json_of_runtime_state (s\<lparr>rs_state_digest := []\<rparr>))"

definition compute_intent_store_root :: "platform \<Rightarrow> (string, intent_entry) fmap \<Rightarrow> string" where
  "compute_intent_store_root E entries =
     digest_canonical E INTENT_STORE_ROOT_DIGEST_DOMAIN (json_fmap json_of_intent_entry entries)"

definition seal_state :: "platform \<Rightarrow> runtime_state \<Rightarrow> runtime_state" where
  "seal_state E s =
     (let t = s\<lparr>rs_intent_store_root_digest := compute_intent_store_root E (rs_intent_index s)\<rparr> in
      t\<lparr>rs_state_digest := compute_state_digest E t\<rparr>)"

definition latest_tier_evidence :: "runtime_state \<Rightarrow> string \<Rightarrow> tier_evidence option" where
  "latest_tier_evidence s subject =
     (case fmlookup (rs_tier_evidence s) subject of
        Some lane \<Rightarrow> if lane = [] then None else Some (last lane)
      | None \<Rightarrow> None)"

definition compute_tier_evidence_set_digest ::
  "platform \<Rightarrow> (string, tier_evidence list) fmap \<Rightarrow> string" where
  "compute_tier_evidence_set_digest E lanes = digest_canonical E TIER_EVIDENCE_SET_DIGEST_DOMAIN
     (json_fmap (json_list (\<lambda>t. JString (te_evidence_digest t))) lanes)"

section \<open>The journal\<close>

datatype transition_kind =
    Bootstrap | IntentStored | TierEvidenceRecorded | ModeActivated | CapabilityConsumed
  | SentinelRedPersisted | RedLatched | RedSafetyCommitted | RecoveredFromFrozen

fun transition_kind_name :: "transition_kind \<Rightarrow> string" where
  "transition_kind_name Bootstrap = ''BOOTSTRAP''"
| "transition_kind_name IntentStored = ''INTENT_STORED''"
| "transition_kind_name TierEvidenceRecorded = ''TIER_EVIDENCE_RECORDED''"
| "transition_kind_name ModeActivated = ''MODE_ACTIVATED''"
| "transition_kind_name CapabilityConsumed = ''CAPABILITY_CONSUMED''"
| "transition_kind_name SentinelRedPersisted = ''SENTINEL_RED_PERSISTED''"
| "transition_kind_name RedLatched = ''RED_LATCHED''"
| "transition_kind_name RedSafetyCommitted = ''RED_SAFETY_COMMITTED''"
| "transition_kind_name RecoveredFromFrozen = ''RECOVERED_FROM_FROZEN''"

datatype journal_payload =
    Prepare string transition_kind "string option" runtime_state
  | Commit string string string
  | Abort string string string

text \<open>Internally tagged by \<open>phase\<close>.\<close>

fun json_of_journal_payload :: "journal_payload \<Rightarrow> json" where
  "json_of_journal_payload (Prepare transition_id kind previous_state_digest next_state) = JObject
     [(''phase'', JString ''PREPARE''), (''transition_id'', JString transition_id),
      (''transition_kind'', JString (transition_kind_name kind)),
      (''previous_state_digest'', json_opt JString previous_state_digest),
      (''next_state'', json_of_runtime_state next_state)]"
| "json_of_journal_payload (Commit transition_id prepare_record_digest committed_state_digest) = JObject
     [(''phase'', JString ''COMMIT''), (''transition_id'', JString transition_id),
      (''prepare_record_digest'', JString prepare_record_digest),
      (''committed_state_digest'', JString committed_state_digest)]"
| "json_of_journal_payload (Abort transition_id prepare_record_digest reason) = JObject
     [(''phase'', JString ''ABORT''), (''transition_id'', JString transition_id),
      (''prepare_record_digest'', JString prepare_record_digest), (''reason'', JString reason)]"

record journal_record =
  jr_schema :: string
  jr_sequence :: u64
  jr_previous_record_digest :: "string option"
  jr_payload :: journal_payload
  jr_record_digest :: string

definition json_of_journal_record :: "journal_record \<Rightarrow> json" where
  "json_of_journal_record x = JObject
    [(''schema'', JString (jr_schema x)), (''sequence'', json_u64 (jr_sequence x)),
     (''previous_record_digest'', json_opt JString (jr_previous_record_digest x)),
     (''payload'', json_of_journal_payload (jr_payload x)),
     (''record_digest'', JString (jr_record_digest x))]"

definition compute_journal_digest :: "platform \<Rightarrow> journal_record \<Rightarrow> string" where
  "compute_journal_digest E r = digest_canonical E AUTONOMY_JOURNAL_RECORD_DIGEST_DOMAIN
     (json_of_journal_record (r\<lparr>jr_record_digest := []\<rparr>))"

definition seal_journal_record :: "platform \<Rightarrow> journal_record \<Rightarrow> journal_record" where
  "seal_journal_record E r = r\<lparr>jr_record_digest := compute_journal_digest E r\<rparr>"

record admission_receipt =
  dr_schema :: string
  dr_intent_digest :: string
  dr_decision_digest :: string
  dr_capability_digest :: string
  dr_authority_variant :: authority_variant
  dr_committed_state_digest :: string
  dr_protected_root_digest :: string
  dr_receipt_digest :: string

definition json_of_admission_receipt :: "admission_receipt \<Rightarrow> json" where
  "json_of_admission_receipt x = JObject
    [(''schema'', JString (dr_schema x)),
     (''intent_digest'', JString (dr_intent_digest x)),
     (''decision_digest'', JString (dr_decision_digest x)),
     (''capability_digest'', JString (dr_capability_digest x)),
     (''authority_variant'', JString (variant_name (dr_authority_variant x))),
     (''committed_state_digest'', JString (dr_committed_state_digest x)),
     (''protected_root_digest'', JString (dr_protected_root_digest x)),
     (''receipt_digest'', JString (dr_receipt_digest x))]"

definition seal_admission :: "platform \<Rightarrow> admission_receipt \<Rightarrow> admission_receipt" where
  "seal_admission E r = r\<lparr>dr_receipt_digest := digest_canonical E AUTONOMY_ADMISSION_RECEIPT_DIGEST_DOMAIN
     (json_of_admission_receipt (r\<lparr>dr_receipt_digest := []\<rparr>))\<rparr>"

section \<open>Errors\<close>

text \<open>
  An error of \<open>std::io\<close> is the operation, the path and its message; \<open>RtCanonical\<close> is kept for the
  correspondence and never built.
\<close>

datatype runtime_error =
    RtEmptyConfiguration string
  | RtEmptyRequired string
  | RtInvalidDigest string
  | RtSymlinkRefused string
  | RtIo string string string
  | RtProtectedBackend string string
  | RtVerification artifact_kind string
  | RtAssuranceTooLow string runtime_assurance runtime_assurance
  | RtCorruptJournal nat string
  | RtCorruptProtectedRoot string
  | RtAntiRollback string
  | RtConcurrentModification u64 u64
  | RtPoisoned
  | RtNotBootstrapped
  | RtAlreadyBootstrapped
  | RtInvalidState string
  | RtTierSequence string autonomy_tier autonomy_tier
  | RtInvalidTierEvidence string
  | RtSelfPromotion string
  | RtIntentMissing string
  | RtIntentCorrupt string string
  | RtIntentTooLarge u64 u64
  | RtIntentCollision string
  | RtPositiveAuthorityFrozen
  | RtCapabilityReplay string
  | RtActivationReplay string
  | RtMissingPromotionEvidence string
  | RtNoPendingRed
  | RtInvalidRedTransition string
  | RtInvalidRecovery string
  | RtRecoveryReplay string
  | RtContract autonomy_error
  | RtCanonical string
  | RtJson string

end
