(* ===== verification/Runtime_Checks.thy ===== *)
theory Runtime_Checks
  imports Runtime_Data
begin

text \<open>
  \<open>m1nd-control/src/autonomy_runtime.rs\<close>, its validators: the evidence of a tier, the
  signatures of the artifacts of a state (the verifier is a parameter), the state itself, the
  shape of a recovery, and the evidence behind the grants of an activation.
\<close>

section \<open>Helpers\<close>

definition rt_require_non_empty :: "string \<Rightarrow> string \<Rightarrow> runtime_error + unit" where
  "rt_require_non_empty field value = check (\<not> trims_empty value) (RtEmptyRequired field)"

definition rt_require_digest :: "string \<Rightarrow> string \<Rightarrow> runtime_error + unit" where
  "rt_require_digest field value = check (digest_syntax value) (RtInvalidDigest field)"

definition rt_contract :: "autonomy_error + 'a \<Rightarrow> runtime_error + unit" where
  "rt_contract r = (case r of Inl e \<Rightarrow> Err (RtContract e) | Inr _ \<Rightarrow> Ok ())"

definition ensure_assurance ::
  "string \<Rightarrow> runtime_assurance \<Rightarrow> runtime_assurance \<Rightarrow> runtime_error + unit" where
  "ensure_assurance component required actual =
     check (\<not> assurance_rank actual < assurance_rank required) (RtAssuranceTooLow component required actual)"

fun next_tier :: "autonomy_tier \<Rightarrow> autonomy_tier option" where
  "next_tier A0Observe = Some A1Propose"
| "next_tier A1Propose = Some A2Execute"
| "next_tier A2Execute = Some A3AutonomousLand"
| "next_tier A3AutonomousLand = Some A4AutonomousGovern"
| "next_tier A4AutonomousGovern = Some A5FullAutonomy"
| "next_tier A5FullAutonomy = None"

fun recovery_authority_for_mode :: "active_mode \<Rightarrow> authority_variant" where
  "recovery_authority_for_mode HumanGated = Human"
| "recovery_authority_for_mode PolicyAutonomous = Human"
| "recovery_authority_for_mode FullAutonomy = AgentQuorum"

definition same_red_mandate :: "red_latch \<Rightarrow> red_latch \<Rightarrow> bool" where
  "same_red_mandate left right \<longleftrightarrow>
     (let l = rl_core left; r = rl_core right in
      lc_latch_receipt_id l = lc_latch_receipt_id r \<and>
      lc_red_verdict_digest l = lc_red_verdict_digest r \<and>
      lc_source_intent_digest l = lc_source_intent_digest r \<and>
      lc_protected_time_evidence_digest l = lc_protected_time_evidence_digest r \<and>
      lc_constitution_epoch l = lc_constitution_epoch r \<and>
      lc_autonomy_epoch l = lc_autonomy_epoch r \<and>
      lc_latch_epoch l = lc_latch_epoch r \<and>
      lc_exact_affected_scope_digest l = lc_exact_affected_scope_digest r \<and>
      lc_allowed_negative_actions_digest l = lc_allowed_negative_actions_digest r \<and>
      lc_rollback_candidate_plan_digest l = lc_rollback_candidate_plan_digest r \<and>
      lc_immutable_negative_mandate_digest l = lc_immutable_negative_mandate_digest r)"

definition red_commit_marker_digest :: "platform \<Rightarrow> string \<Rightarrow> string \<Rightarrow> string \<Rightarrow> u64 \<Rightarrow> string" where
  "red_commit_marker_digest E transaction_id safety_decision_digest previous_state_digest next_autonomy_epoch =
     digest_canonical E RED_COMMIT_MARKER_DIGEST_DOMAIN (JObject
       [(''transaction_id'', JString transaction_id),
        (''safety_decision_digest'', JString safety_decision_digest),
        (''previous_state_digest'', JString previous_state_digest),
        (''next_autonomy_epoch'', json_u64 next_autonomy_epoch)])"

definition target_epoch_reference_digest :: "platform \<Rightarrow> autonomy_epoch \<Rightarrow> string" where
  "target_epoch_reference_digest E ep =
     digest_canonical E ''m1nd-autonomy-epoch-reference-v1'' (json_of_autonomy_epoch ep)"

section \<open>Protected root\<close>

definition validate_root :: "platform \<Rightarrow> protected_root \<Rightarrow> runtime_error + unit" where
  "validate_root E r = seq_checks
     [check (\<not> pr_schema r \<noteq> AUTONOMY_PROTECTED_ROOT_SCHEMA) (RtCorruptProtectedRoot ''unsupported schema''),
      rt_require_non_empty ''protected_root.transition_id'' (pr_transition_id r),
      rt_require_digest ''protected_root.journal_record_digest'' (pr_journal_record_digest r),
      rt_require_digest ''protected_root.state_digest'' (pr_state_digest r),
      rt_require_digest ''protected_root.intent_store_root_digest'' (pr_intent_store_root_digest r),
      rt_require_digest ''protected_root.root_digest'' (pr_root_digest r),
      check (\<not> compute_root_digest E r \<noteq> pr_root_digest r) (RtCorruptProtectedRoot ''self-digest mismatch'')]"

definition outbox_epoch_of :: "runtime_state \<Rightarrow> u64" where
  "outbox_epoch_of s = (case rs_sentinel_outbox_tail s of None \<Rightarrow> 0 | Some x \<Rightarrow> xc_outbox_epoch (xb_core x))"

definition protected_root_for_record ::
  "platform \<Rightarrow> root_phase \<Rightarrow> string \<Rightarrow> journal_record \<Rightarrow> runtime_state \<Rightarrow> protected_root" where
  "protected_root_for_record E phase transition_id r s = seal_root E
     \<lparr>pr_schema = AUTONOMY_PROTECTED_ROOT_SCHEMA, pr_phase = phase, pr_transition_id = transition_id,
      pr_journal_sequence = jr_sequence r, pr_journal_record_digest = jr_record_digest r,
      pr_state_digest = rs_state_digest s, pr_state_generation = rs_generation s,
      pr_autonomy_epoch = ae_autonomy_epoch (rs_autonomy_epoch s),
      pr_constitution_epoch = ae_constitution_epoch (rs_autonomy_epoch s),
      pr_intent_store_root_digest = rs_intent_store_root_digest s,
      pr_sentinel_outbox_epoch = outbox_epoch_of s,
      pr_red_latch_epoch = rs_last_red_latch_epoch s, pr_root_digest = []\<rparr>"

definition validate_root_state_projection :: "protected_root \<Rightarrow> runtime_state \<Rightarrow> runtime_error + unit" where
  "validate_root_state_projection root s =
     check (\<not> (pr_state_digest root \<noteq> rs_state_digest s \<or> pr_state_generation root \<noteq> rs_generation s \<or>
         pr_autonomy_epoch root \<noteq> ae_autonomy_epoch (rs_autonomy_epoch s) \<or>
         pr_constitution_epoch root \<noteq> ae_constitution_epoch (rs_autonomy_epoch s) \<or>
         pr_intent_store_root_digest root \<noteq> rs_intent_store_root_digest s \<or>
         pr_sentinel_outbox_epoch root \<noteq> outbox_epoch_of s \<or>
         pr_red_latch_epoch root \<noteq> rs_last_red_latch_epoch s))
       (RtAntiRollback ''protected root projection differs from journal state'')"

section \<open>Tier evidence\<close>

text \<open>Subjects that may not judge: the evaluated subject nowhere, proposer and executor in no seat.\<close>

definition evidence_self_promotes :: "tier_evidence \<Rightarrow> bool" where
  "evidence_self_promotes t \<longleftrightarrow>
     te_subject_id t = te_evaluator_subject_id t \<or> te_subject_id t = te_proposer_subject_id t \<or>
     te_executor_subject_id t = Some (te_subject_id t) \<or> te_subject_id t |\<in>| te_verifier_principals t"

definition evidence_seats_interested :: "tier_evidence \<Rightarrow> bool" where
  "evidence_seats_interested t \<longleftrightarrow>
     te_proposer_subject_id t |\<in>| te_verifier_principals t \<or>
     (case te_executor_subject_id t of None \<Rightarrow> False | Some x \<Rightarrow> x |\<in>| te_verifier_principals t)"

definition evidence_sequence_check ::
  "tier_evidence \<Rightarrow> tier_evidence option \<Rightarrow> runtime_error + unit" where
  "evidence_sequence_check t previous =
     (case previous of
        None \<Rightarrow> check (\<not> (te_tier t \<noteq> A0Observe \<or> te_previous_evidence_digest t \<noteq> None))
          (RtTierSequence (te_subject_id t) A0Observe (te_tier t))
      | Some p \<Rightarrow> and_then (ok_or (next_tier (te_tier p))
            (RtInvalidTierEvidence ''A5 is terminal for shadow/canary evidence''))
          (\<lambda>expected. check (\<not> (te_tier t \<noteq> expected \<or>
              te_previous_evidence_digest t \<noteq> Some (te_evidence_digest p)))
            (RtTierSequence (te_subject_id t) expected (te_tier t))))"

definition validate_evidence ::
  "platform \<Rightarrow> tier_evidence \<Rightarrow> tier_evidence option \<Rightarrow> runtime_error + unit" where
  "validate_evidence E t previous = seq_checks
     ([check (\<not> te_schema t \<noteq> TIER_EVIDENCE_SCHEMA) (RtInvalidTierEvidence ''unsupported schema''),
       rt_require_non_empty ''tier_evidence.subject_id'' (te_subject_id t),
       rt_require_non_empty ''tier_evidence.evaluator_subject_id'' (te_evaluator_subject_id t),
       rt_require_non_empty ''tier_evidence.proposer_subject_id'' (te_proposer_subject_id t)]
      @ map (\<lambda>(f, d). rt_require_digest f d)
         [(''tier_evidence.exact_release_candidate_digest'', te_exact_release_candidate_digest t),
          (''tier_evidence.shadow_receipt_digest'', te_shadow_receipt_digest t),
          (''tier_evidence.canary_receipt_digest'', te_canary_receipt_digest t),
          (''tier_evidence.rollback_receipt_digest'', te_rollback_receipt_digest t),
          (''tier_evidence.metric_receipt_digest'', te_metric_receipt_digest t),
          (''tier_evidence.evidence_digest'', te_evidence_digest t)]
      @ [check (\<not> te_evaluator_signature t = []) (RtInvalidTierEvidence ''evaluator signature is empty''),
         check (\<not> evidence_self_promotes t) (RtSelfPromotion (te_subject_id t)),
         check (\<not> evidence_seats_interested t)
           (RtInvalidTierEvidence ''proposer/executor cannot occupy a verifier seat''),
         check (\<not> (tier_rank (te_tier t) \<ge> tier_rank A4AutonomousGovern \<and>
             (fcard (te_verifier_principals t) \<noteq> 4 \<or> fcard (te_failure_domains t) < 3)))
           (RtInvalidTierEvidence ''A4/A5 evidence requires four verifier seats and three failure domains''),
         evidence_sequence_check t previous,
         check (\<not> compute_evidence_digest E t \<noteq> te_evidence_digest t)
           (RtInvalidTierEvidence ''evidence digest mismatch'')])"

section \<open>Signatures\<close>

definition verify_artifact ::
  "platform \<Rightarrow> artifact_verifier \<Rightarrow> artifact_kind \<Rightarrow> string \<Rightarrow> string \<Rightarrow> string \<Rightarrow> json \<Rightarrow> string option \<Rightarrow>
   u64 \<Rightarrow> runtime_error + unit" where
  "verify_artifact E V kind artifact_digest subject_id signature artifact policy now_ms = seq_checks
     [rt_require_digest ''artifact_digest'' artifact_digest,
      rt_require_non_empty ''artifact.subject_id'' subject_id,
      case policy of
        Some d \<Rightarrow> rt_require_digest ''artifact.identity_key_binary_policy_digest'' d
      | None \<Rightarrow> Ok (),
      check (\<not> signature = []) (RtVerification kind ''empty signature''),
      map_err (RtVerification kind) (av_verify V
        \<lparr>vq_kind = kind, vq_artifact_digest = artifact_digest, vq_subject_id = subject_id,
         vq_signature = signature, vq_canonical_bytes = canonical_json E artifact,
         vq_identity_key_binary_policy_digest = policy, vq_now_ms = now_ms\<rparr>)]"

text \<open>One call for each kind of artifact; the two pinned identities are literals of the source.\<close>

definition verify_constitution ::
  "platform \<Rightarrow> artifact_verifier \<Rightarrow> constitution_store \<Rightarrow> u64 \<Rightarrow> runtime_error + unit" where
  "verify_constitution E V c now_ms = verify_artifact E V KindConstitution (ks_constitution_digest c)
     (kc_issuer_subject_id (ks_core c)) (ks_signature c) (json_of_constitution_store c) None now_ms"

definition verify_epoch ::
  "platform \<Rightarrow> artifact_verifier \<Rightarrow> autonomy_epoch \<Rightarrow> string \<Rightarrow> u64 \<Rightarrow> runtime_error + unit" where
  "verify_epoch E V ep subject_id now_ms = verify_artifact E V KindAutonomyEpoch
     (target_epoch_reference_digest E ep) subject_id (ae_protected_root_signature ep)
     (json_of_autonomy_epoch ep) None now_ms"

definition verify_grant :: "platform \<Rightarrow> artifact_verifier \<Rightarrow> autonomy_grant \<Rightarrow> u64 \<Rightarrow> runtime_error + unit" where
  "verify_grant E V g now_ms = verify_artifact E V KindAutonomyGrant (ag_grant_digest g)
     (gc_subject_id (ag_core g)) (ag_owner_signature g) (json_of_autonomy_grant g) None now_ms"

definition verify_activation ::
  "platform \<Rightarrow> artifact_verifier \<Rightarrow> activation_receipt \<Rightarrow> u64 \<Rightarrow> runtime_error + unit" where
  "verify_activation E V r now_ms = verify_artifact E V KindActivationReceipt (at_receipt_digest r)
     (tc_issuer_subject_id (at_core r)) (at_signature r) (json_of_activation_receipt r) None now_ms"

definition verify_recovery ::
  "platform \<Rightarrow> artifact_verifier \<Rightarrow> recovery_receipt \<Rightarrow> u64 \<Rightarrow> runtime_error + unit" where
  "verify_recovery E V r now_ms = verify_artifact E V KindRecoveryReceipt (vr_receipt_digest r)
     (vc_issuer_subject_id (vr_core r)) (vr_signature r) (json_of_recovery_receipt r) None now_ms"

definition verify_evidence ::
  "platform \<Rightarrow> artifact_verifier \<Rightarrow> tier_evidence \<Rightarrow> u64 \<Rightarrow> runtime_error + unit" where
  "verify_evidence E V t now_ms = verify_artifact E V KindTierEvidence (te_evidence_digest t)
     (te_evaluator_subject_id t) (te_evaluator_signature t) (json_of_tier_evidence t) None now_ms"

definition verify_decision ::
  "platform \<Rightarrow> artifact_verifier \<Rightarrow> authority_decision \<Rightarrow> string \<Rightarrow> string option \<Rightarrow> u64 \<Rightarrow> runtime_error + unit" where
  "verify_decision E V d subject_id policy now_ms = verify_artifact E V KindAuthorityDecision
     (decision_digest d) subject_id (decision_signature d) (json_of_authority_decision d) policy now_ms"

definition verify_sentinel ::
  "platform \<Rightarrow> artifact_verifier \<Rightarrow> sentinel_record \<Rightarrow> safety_kernel \<Rightarrow> u64 \<Rightarrow> runtime_error + unit" where
  "verify_sentinel E V v kern now_ms = verify_artifact E V KindSentinelVerdict (sr_verdict_digest v)
     ''pinned-sentinel'' (sr_signature v) (json_of_sentinel_record v)
     (Some (kn_sentinel_identity_key_binary_policy_digest (sk_core kern))) now_ms"

definition verify_outbox ::
  "platform \<Rightarrow> artifact_verifier \<Rightarrow> red_outbox \<Rightarrow> safety_kernel \<Rightarrow> u64 \<Rightarrow> runtime_error + unit" where
  "verify_outbox E V x kern now_ms = verify_artifact E V KindSentinelRedOutbox (xb_record_digest x)
     ''pinned-sentinel'' (xb_root_signature x) (json_of_red_outbox x)
     (Some (kn_sentinel_identity_key_binary_policy_digest (sk_core kern))) now_ms"

definition verify_latch ::
  "platform \<Rightarrow> artifact_verifier \<Rightarrow> red_latch \<Rightarrow> safety_kernel \<Rightarrow> u64 \<Rightarrow> runtime_error + unit" where
  "verify_latch E V l kern now_ms = verify_artifact E V KindRedLatchReceipt (rl_latch_receipt_digest l)
     ''safety-kernel'' (rl_owner_kernel_signature l) (json_of_red_latch l) (Some (sk_kernel_digest kern)) now_ms"

definition map_values :: "(string, 'a) fmap \<Rightarrow> 'a list" where
  "map_values m = map snd (sorted_list_of_fmap m)"

definition pending_red_requests ::
  "platform \<Rightarrow> artifact_verifier \<Rightarrow> pending_red option \<Rightarrow> safety_kernel \<Rightarrow> u64 \<Rightarrow> (runtime_error + unit) list" where
  "pending_red_requests E V pending kern now_ms =
     (case pending of
        None \<Rightarrow> []
      | Some p \<Rightarrow> verify_sentinel E V (pq_verdict p) kern now_ms
          # (case pq_latch p of None \<Rightarrow> [] | Some l \<Rightarrow> [verify_latch E V l kern now_ms]))"

definition verify_state_artifacts ::
  "platform \<Rightarrow> artifact_verifier \<Rightarrow> runtime_state \<Rightarrow> u64 \<Rightarrow> runtime_error + unit" where
  "verify_state_artifacts E V s now_ms =
     (let kern = rs_kernel s in seq_checks
      ([verify_artifact E V KindSafetyKernel (sk_kernel_digest kern)
          (kn_pinned_external_root_key (sk_core kern)) (sk_external_root_signature kern)
          (json_of_safety_kernel kern) None now_ms,
        verify_constitution E V (rs_constitution s) now_ms,
        verify_epoch E V (rs_autonomy_epoch s) (kc_issuer_subject_id (ks_core (rs_constitution s))) now_ms]
       @ map (\<lambda>g. verify_grant E V g now_ms) (rs_active_grants s)
       @ map (\<lambda>r. verify_activation E V r now_ms) (map_values (rs_activation_receipts s))
       @ map (\<lambda>r. verify_recovery E V r now_ms) (map_values (rs_recovery_receipts s))
       @ map (\<lambda>t. verify_evidence E V t now_ms) (concat (map_values (rs_tier_evidence s)))
       @ (case rs_sentinel_outbox_tail s of None \<Rightarrow> [] | Some x \<Rightarrow> [verify_outbox E V x kern now_ms])
       @ map (\<lambda>l. verify_latch E V l kern now_ms) (map_values (rs_terminal_red_latches s))
       @ pending_red_requests E V (rs_pending_red s) kern now_ms))"

end
