(* ===== verification/Runtime_State.thy ===== *)
theory Runtime_State
  imports Runtime_Checks
begin

text \<open>
  \<open>m1nd-control/src/autonomy_runtime.rs\<close>: what the runtime demands of a state before it commits
  it or opens on it (\<open>validate_state\<close>), of the votes of a quorum, of a recovery from the frozen
  state, and of the evidence behind the grants of an activation.
\<close>

section \<open>The state\<close>

definition intent_entry_checks :: "string \<times> intent_entry \<Rightarrow> (runtime_error + unit) list" where
  "intent_entry_checks kv =
     (let e = snd kv in
      [check (\<not> (ie_schema e \<noteq> INTENT_CORE_ENTRY_SCHEMA \<or> fst kv \<noteq> ie_intent_digest e \<or>
          ie_canonicalization_version e \<noteq> CANONICALIZATION_VERSION))
         (RtInvalidState ''intent index key/schema/canonicalization mismatch''),
       rt_require_digest ''intent_entry.intent_digest'' (ie_intent_digest e),
       rt_require_digest ''intent_entry.canonical_bytes_digest'' (ie_canonical_bytes_digest e)])"

fun evidence_lane :: "platform \<Rightarrow> string \<Rightarrow> tier_evidence option \<Rightarrow> tier_evidence list \<Rightarrow> runtime_error + unit" where
  "evidence_lane E subject previous [] = Ok ()"
| "evidence_lane E subject previous (t # ts) =
     and_then (check (\<not> te_subject_id t \<noteq> subject) (RtInvalidState ''tier-evidence lane subject mismatch'')) (\<lambda>_.
     and_then (validate_evidence E t previous) (\<lambda>_. evidence_lane E subject (Some t) ts))"

definition lane_checks :: "platform \<Rightarrow> string \<times> tier_evidence list \<Rightarrow> (runtime_error + unit) list" where
  "lane_checks E kv =
     [check (\<not> snd kv = []) (RtInvalidState ''empty tier-evidence lane''),
      evidence_lane E (fst kv) None (snd kv)]"

definition activation_entry_check :: "string \<times> activation_receipt \<Rightarrow> runtime_error + unit" where
  "activation_entry_check kv = check (\<not> fst kv \<noteq> tc_receipt_id (at_core (snd kv)))
     (RtInvalidState ''activation receipt map key mismatch'')"

definition recovery_entry_check :: "platform \<Rightarrow> string \<times> recovery_receipt \<Rightarrow> runtime_error + unit" where
  "recovery_entry_check E kv =
     (let r = snd kv in check
       (\<not> (fst kv \<noteq> vc_receipt_id (vr_core r) \<or> vr_schema r \<noteq> AUTONOMY_RECOVERY_RECEIPT_SCHEMA \<or>
          compute_recovery_digest E r \<noteq> vr_receipt_digest r \<or>
          vc_receipt_id (vr_core r) \<noteq> ''autonomy-recovery:'' @ vr_receipt_digest r \<or>
          vr_signature r = []))
       (RtInvalidState ''recovery receipt map contains an invalid receipt''))"

text \<open>The loop over the terminal latches; its accumulator is the largest epoch so far.\<close>

fun terminal_latches_loop :: "(string \<times> red_latch) list \<Rightarrow> u64 \<Rightarrow> runtime_error + u64" where
  "terminal_latches_loop [] maximum = Ok maximum"
| "terminal_latches_loop ((latch_epoch, l) # rest) maximum =
     and_then (ok_or (parse_u64 latch_epoch)
       (RtInvalidState ''terminal RED latch map key is not a canonical epoch'')) (\<lambda>parsed_epoch.
     and_then (seq_checks
       [check (\<not> (parsed_epoch \<noteq> lc_latch_epoch (rl_core l) \<or> lc_state (rl_core l) \<noteq> LatchTerminal \<or>
            rl_owner_kernel_signature l = []))
          (RtInvalidState ''terminal RED latch history is invalid''),
        rt_require_digest ''terminal_red_latch.receipt_digest'' (rl_latch_receipt_digest l)]) (\<lambda>_.
     terminal_latches_loop rest (max maximum parsed_epoch)))"

definition pending_red_check :: "runtime_state \<Rightarrow> u64 \<Rightarrow> runtime_error + u64" where
  "pending_red_check s maximum =
     (let ep = rs_autonomy_epoch s in
      case rs_pending_red s of
        None \<Rightarrow> and_then (check (\<not> ae_safety_state ep = PendingRed)
            (RtInvalidState ''PENDING_RED epoch lacks its durable RED pipeline'')) (\<lambda>_. Ok maximum)
      | Some p \<Rightarrow> and_then (check
            (\<not> (pq_schema p \<noteq> PENDING_RED_RUNTIME_SCHEMA \<or> nl_verdict (sr_core (pq_verdict p)) \<noteq> Red \<or>
               pq_source_intent_digest p \<noteq> nl_intent_digest (sr_core (pq_verdict p)) \<or>
               rs_sentinel_outbox_tail s \<noteq> Some (pq_outbox p) \<or> \<not> ae_issuance_frozen ep \<or>
               ae_safety_state ep \<noteq> PendingRed))
            (RtInvalidState ''pending RED pipeline is not exactly bound to the epoch/outbox'')) (\<lambda>_.
          case pq_latch p of
            None \<Rightarrow> Ok maximum
          | Some l \<Rightarrow> and_then (check (\<not> rs_last_red_latch_epoch s \<noteq> lc_latch_epoch (rl_core l))
                (RtInvalidState ''protected RED latch watermark differs from pending latch''))
              (\<lambda>_. Ok (max maximum (lc_latch_epoch (rl_core l))))))"

definition latest_latch_retained :: "runtime_state \<Rightarrow> bool" where
  "latest_latch_retained s \<longleftrightarrow>
     fmlookup (rs_terminal_red_latches s) (u64_to_string (rs_last_red_latch_epoch s)) \<noteq> None"

definition frozen_mode_check :: "runtime_state \<Rightarrow> runtime_error + unit" where
  "frozen_mode_check s =
     (case rs_last_valid_mode_before_freeze s of
        Some _ \<Rightarrow> check (\<not> (ae_safety_state (rs_autonomy_epoch s) \<noteq> Frozen \<or> rs_pending_red s \<noteq> None \<or>
            \<not> latest_latch_retained s))
          (RtInvalidState ''last valid mode exists outside a terminal FROZEN state'')
      | None \<Rightarrow> check (\<not> ae_safety_state (rs_autonomy_epoch s) = Frozen)
          (RtInvalidState ''terminal FROZEN state lost its last valid authority mode''))"

definition lineage_recognised :: "runtime_state \<Rightarrow> string \<Rightarrow> bool" where
  "lineage_recognised s lineage \<longleftrightarrow>
     fmlookup (rs_activation_receipts s) lineage \<noteq> None \<or> fmlookup (rs_recovery_receipts s) lineage \<noteq> None \<or>
     (\<exists>l \<in> set (map_values (rs_terminal_red_latches s)). lineage = ''red-latch:'' @ rl_latch_receipt_digest l)"

definition lineage_check :: "runtime_state \<Rightarrow> runtime_error + unit" where
  "lineage_check s =
     (if ae_autonomy_epoch (rs_autonomy_epoch s) > 0 then
        and_then (ok_or (ae_activation_receipt_id (rs_autonomy_epoch s))
          (RtInvalidState ''non-bootstrap epoch lacks an authority-lineage receipt''))
        (\<lambda>lineage. check (lineage_recognised s lineage)
          (RtInvalidState ''active epoch authority-lineage receipt is not retained''))
      else Ok ())"

definition state_head_checks ::
  "platform \<Rightarrow> runtime_config \<Rightarrow> runtime_state \<Rightarrow> u64 \<Rightarrow> (runtime_error + unit) list" where
  "state_head_checks E cfg s now_ms =
     [check (\<not> rs_schema s \<noteq> AUTONOMY_RUNTIME_STATE_SCHEMA) (RtInvalidState ''unsupported schema''),
      check (\<not> rs_durability_domain_id s \<noteq> fg_durability_domain_id cfg)
        (RtInvalidState ''durability-domain binding mismatch''),
      rt_contract (validate_kernel E (rs_kernel s)),
      rt_contract (validate_constitution E (rs_constitution s) (rs_independence_spec s) (rs_kernel s) now_ms),
      rt_contract (validate_common E (rs_autonomy_epoch s) (rs_constitution s) (rs_active_grants s) now_ms),
      check (\<not> compute_intent_store_root E (rs_intent_index s) \<noteq> rs_intent_store_root_digest s)
        (RtInvalidState ''intent-store root digest mismatch'')]
     @ concat (map intent_entry_checks (sorted_list_of_fmap (rs_intent_index s)))
     @ concat (map (lane_checks E) (sorted_list_of_fmap (rs_tier_evidence s)))
     @ map activation_entry_check (sorted_list_of_fmap (rs_activation_receipts s))
     @ map (recovery_entry_check E) (sorted_list_of_fmap (rs_recovery_receipts s))"

definition validate_state :: "platform \<Rightarrow> runtime_config \<Rightarrow> runtime_state \<Rightarrow> u64 \<Rightarrow> runtime_error + unit" where
  "validate_state E cfg s now_ms =
     and_then (seq_checks (state_head_checks E cfg s now_ms)) (\<lambda>_.
     and_then (terminal_latches_loop (sorted_list_of_fmap (rs_terminal_red_latches s)) 0) (\<lambda>maximum.
     and_then (pending_red_check s maximum) (\<lambda>maximum. seq_checks
       [check (\<not> rs_last_red_latch_epoch s \<noteq> maximum)
          (RtInvalidState ''RED latch watermark does not equal the latest durable latch''),
        frozen_mode_check s,
        lineage_check s,
        rt_require_digest ''runtime.state_digest'' (rs_state_digest s),
        check (\<not> compute_state_digest E s \<noteq> rs_state_digest s)
          (RtInvalidState ''state self-digest mismatch'')])))"

section \<open>Quorum\<close>

definition verify_vote :: "platform \<Rightarrow> artifact_verifier \<Rightarrow> quorum_vote \<Rightarrow> u64 \<Rightarrow> runtime_error + unit" where
  "verify_vote E V v now_ms = verify_artifact E V KindQuorumVote
     (digest_canonical E QUORUM_VOTE_VERIFICATION_DIGEST_DOMAIN (json_of_vote_material v))
     (qv_verifier_principal_id v) (qv_signature v) (json_of_vote_material v) None now_ms"

definition validate_quorum_runtime ::
  "platform \<Rightarrow> artifact_verifier \<Rightarrow> quorum_evidence \<Rightarrow> sovereign_intent \<Rightarrow> sentinel_record option \<Rightarrow>
   runtime_state \<Rightarrow> u64 \<Rightarrow> runtime_error + unit" where
  "validate_quorum_runtime E V q intent sentinel s now_ms =
     and_then (ok_or sentinel (RtInvalidState ''agent quorum path requires the exact GREEN sentinel verdict''))
     (\<lambda>verdict. seq_checks
       (rt_contract (validate_quorum E q intent (rs_constitution s) (rs_kernel s) (sr_verdict_digest verdict))
        # map (\<lambda>v. verify_vote E V v now_ms) (qe_votes q)))"

text \<open>The runtime re-checks the quorum of an \<open>AGENT_QUORUM\<close> decision.\<close>

definition quorum_arm ::
  "platform \<Rightarrow> artifact_verifier \<Rightarrow> authority_decision \<Rightarrow> sovereign_intent \<Rightarrow> sentinel_record option \<Rightarrow>
   runtime_state \<Rightarrow> u64 \<Rightarrow> runtime_error + unit" where
  "quorum_arm E V decision intent sentinel s now_ms =
     (case decision of
        QuorumDecision d \<Rightarrow> validate_quorum_runtime E V (qa_quorum (qu_core d)) intent sentinel s now_ms
      | _ \<Rightarrow> Ok ())"

section \<open>Recovery\<close>

definition recovery_intent_differs :: "runtime_state \<Rightarrow> active_mode \<Rightarrow> sovereign_intent \<Rightarrow> bool" where
  "recovery_intent_differs s last_mode intent \<longleftrightarrow>
     (let i = si_core intent in
      sc_action_class i \<noteq> ''autonomy.recover'' \<or> sc_active_mode i \<noteq> last_mode \<or>
      sc_required_authority_variant i \<noteq> recovery_authority_for_mode last_mode \<or>
      sc_constitution_digest i \<noteq> ks_constitution_digest (rs_constitution s) \<or>
      sc_constitution_epoch i \<noteq> ae_constitution_epoch (rs_autonomy_epoch s) \<or>
      sc_autonomy_epoch i \<noteq> ae_autonomy_epoch (rs_autonomy_epoch s) \<or>
      sc_issuer_subject_id i \<noteq> sc_decision_subject_id i \<or>
      sc_caller_subject_id i \<noteq> sc_decision_subject_id i \<or>
      sc_applicable_grant_id i \<noteq> None \<or> sc_applicable_grant_digest i \<noteq> None \<or>
      sc_promotion_target_subject_id i \<noteq> None \<or> sc_ratification_target_subject_id i \<noteq> None \<or>
      sc_promotion_subject_id i \<noteq> None)"

definition validate_recovery_intent_shape :: "runtime_state \<Rightarrow> sovereign_intent \<Rightarrow> runtime_error + unit" where
  "validate_recovery_intent_shape s intent =
     and_then (check (\<not> (ae_safety_state (rs_autonomy_epoch s) \<noteq> Frozen \<or>
         \<not> ae_issuance_frozen (rs_autonomy_epoch s) \<or> rs_pending_red s \<noteq> None \<or> rs_active_grants s \<noteq> []))
       (RtInvalidRecovery ''recovery intent requires terminal FROZEN state with zero grants'')) (\<lambda>_.
     and_then (ok_or (rs_last_valid_mode_before_freeze s)
       (RtInvalidRecovery ''last valid authority mode was not preserved at freeze'')) (\<lambda>last_mode. seq_checks
       [check (latest_latch_retained s)
          (RtInvalidRecovery ''latest terminal RED latch is not durably retained''),
        check (\<not> recovery_intent_differs s last_mode intent)
          (RtInvalidRecovery ''recovery intent does not bind the last authority and exact frozen epoch'')]))"

definition recovery_receipt_digests :: "recovery_receipt \<Rightarrow> (string \<times> string) list" where
  "recovery_receipt_digests r =
     (let c = vr_core r in
      [(''recovery.frozen_state_digest'', vc_frozen_state_digest c),
       (''recovery.frozen_epoch_reference_digest'', vc_frozen_epoch_reference_digest c),
       (''recovery.recovery_intent_digest'', vc_recovery_intent_digest c),
       (''recovery.authority_decision_digest'', vc_authority_decision_digest c),
       (''recovery.sentinel_verdict_digest'', vc_sentinel_verdict_digest c),
       (''recovery.terminal_red_latch_receipt_digest'', vc_terminal_red_latch_receipt_digest c),
       (''recovery.remediation_evidence_digest'', vc_remediation_evidence_digest c),
       (''recovery.rollback_validation_digest'', vc_rollback_validation_digest c),
       (''recovery.target_constitution_digest'', vc_target_constitution_digest c),
       (''recovery.receipt_digest'', vr_receipt_digest r)])"

definition recovery_receipt_differs ::
  "platform \<Rightarrow> runtime_state \<Rightarrow> sovereign_intent \<Rightarrow> authority_decision \<Rightarrow> sentinel_record \<Rightarrow>
   recovery_receipt \<Rightarrow> active_mode \<Rightarrow> red_latch \<Rightarrow> u64 \<Rightarrow> bool" where
  "recovery_receipt_differs E s intent decision sentinel r last_mode latch expected_target_epoch \<longleftrightarrow>
     (let c = vr_core r; i = si_core intent in
      lc_state (rl_core latch) \<noteq> LatchTerminal \<or>
      vc_frozen_state_digest c \<noteq> rs_state_digest s \<or>
      vc_frozen_epoch_reference_digest c \<noteq> target_epoch_reference_digest E (rs_autonomy_epoch s) \<or>
      vc_frozen_autonomy_epoch c \<noteq> ae_autonomy_epoch (rs_autonomy_epoch s) \<or>
      vc_last_valid_mode c \<noteq> last_mode \<or>
      vc_required_authority_variant c \<noteq> recovery_authority_for_mode last_mode \<or>
      decision_variant decision \<noteq> vc_required_authority_variant c \<or>
      vc_recovery_intent_digest c \<noteq> si_intent_digest intent \<or>
      vc_authority_decision_digest c \<noteq> decision_digest decision \<or>
      vc_sentinel_verdict_digest c \<noteq> sr_verdict_digest sentinel \<or>
      vc_terminal_red_latch_receipt_digest c \<noteq> rl_latch_receipt_digest latch \<or>
      vc_remediation_evidence_digest c \<noteq> sc_action_payload_digest i \<or>
      vc_remediation_evidence_digest c \<noteq> sc_evidence_digest i \<or>
      vc_rollback_validation_digest c \<noteq> sc_rollback_plan_digest i \<or>
      vc_target_autonomy_epoch c \<noteq> expected_target_epoch \<or>
      vc_target_constitution_digest c \<noteq> ks_constitution_digest (rs_constitution s) \<or>
      vc_target_constitution_epoch c \<noteq> kc_constitution_epoch (ks_core (rs_constitution s)) \<or>
      vc_issuer_subject_id c \<noteq> sc_issuer_subject_id i \<or>
      vc_issuer_subject_id c \<noteq> sc_decision_subject_id i)"

definition recovery_target_differs ::
  "runtime_state \<Rightarrow> recovery_receipt \<Rightarrow> autonomy_epoch \<Rightarrow> u64 \<Rightarrow> string \<Rightarrow> bool" where
  "recovery_target_differs s r target expected_target_epoch empty_grants \<longleftrightarrow>
     ae_autonomy_epoch target \<noteq> expected_target_epoch \<or> ae_active_mode target \<noteq> HumanGated \<or>
     ae_activation_receipt_id target \<noteq> Some (vc_receipt_id (vr_core r)) \<or>
     ae_constitution_digest target \<noteq> ks_constitution_digest (rs_constitution s) \<or>
     ae_constitution_epoch target \<noteq> kc_constitution_epoch (ks_core (rs_constitution s)) \<or>
     ae_grants_digest target \<noteq> empty_grants \<or>
     ae_issuance_frozen target \<or> ae_safety_state target \<noteq> Healthy"

definition recovery_head_checks :: "platform \<Rightarrow> recovery_receipt \<Rightarrow> u64 \<Rightarrow> (runtime_error + unit) list" where
  "recovery_head_checks E r now_ms =
     (let c = vr_core r in
      [check (\<not> vr_schema r \<noteq> AUTONOMY_RECOVERY_RECEIPT_SCHEMA)
         (RtInvalidRecovery ''unsupported recovery receipt schema''),
       rt_require_non_empty ''recovery.receipt_id'' (vc_receipt_id c),
       rt_require_non_empty ''recovery.issuer_subject_id'' (vc_issuer_subject_id c)]
      @ map (\<lambda>(f, d). rt_require_digest f d) (recovery_receipt_digests r)
      @ [check (\<not> (vr_signature r = [] \<or> vc_issued_at c > now_ms))
           (RtInvalidRecovery ''recovery receipt is unsigned or not yet effective''),
         check (\<not> (compute_recovery_digest E r \<noteq> vr_receipt_digest r \<or>
             vc_receipt_id c \<noteq> ''autonomy-recovery:'' @ compute_recovery_digest E r))
           (RtInvalidRecovery ''recovery receipt id/digest mismatch'')])"

definition validate_recovery_receipt ::
  "platform \<Rightarrow> runtime_state \<Rightarrow> sovereign_intent \<Rightarrow> authority_decision \<Rightarrow> sentinel_record \<Rightarrow>
   recovery_receipt \<Rightarrow> autonomy_epoch \<Rightarrow> u64 \<Rightarrow> runtime_error + unit" where
  "validate_recovery_receipt E s intent decision sentinel r target now_ms =
     and_then (seq_checks (recovery_head_checks E r now_ms)) (\<lambda>_.
     and_then (ok_or (rs_last_valid_mode_before_freeze s) (RtInvalidRecovery ''last valid mode is absent'')) (\<lambda>last_mode.
     and_then (ok_or (fmlookup (rs_terminal_red_latches s) (u64_to_string (rs_last_red_latch_epoch s)))
       (RtInvalidRecovery ''latest terminal RED latch is absent'')) (\<lambda>latch.
     and_then (ok_or (checked_add (ae_autonomy_epoch (rs_autonomy_epoch s)) 1)
       (RtInvalidRecovery ''autonomy epoch overflow'')) (\<lambda>expected_target_epoch.
     and_then (check (\<not> recovery_receipt_differs E s intent decision sentinel r last_mode latch expected_target_epoch)
       (RtInvalidRecovery ''recovery receipt does not bind the frozen state, last authority, evidence, and target'')) (\<lambda>_.
     and_then (map_err RtContract (compute_grants_digest E [])) (\<lambda>empty_grants. seq_checks
       [check (\<not> recovery_target_differs s r target expected_target_epoch empty_grants)
          (RtInvalidRecovery ''recovery target must be the exact next HUMAN_GATED/A0 healthy epoch''),
        rt_contract (validate_common E target (rs_constitution s) [] now_ms)]))))))"

section \<open>Evidence behind grants\<close>

definition grant_cap_check :: "autonomy_grant \<Rightarrow> runtime_error + unit" where
  "grant_cap_check g =
     (let tier = tier_rank (gc_max_tier (ag_core g)) in
      case gc_mode (ag_core g) of
        HumanGated \<Rightarrow> check (\<not> tier > tier_rank A1Propose)
          (RtMissingPromotionEvidence ''HUMAN_GATED cannot activate execution tiers'')
      | PolicyAutonomous \<Rightarrow> check (\<not> tier > tier_rank A3AutonomousLand)
          (RtMissingPromotionEvidence ''POLICY_AUTONOMOUS is capped at A3 in this ratified rollout'')
      | FullAutonomy \<Rightarrow> Ok ())"

definition grant_evidence_of :: "runtime_state \<Rightarrow> autonomy_grant \<Rightarrow> tier_evidence option" where
  "grant_evidence_of s g =
     (case fmlookup (rs_tier_evidence s) (gc_subject_id (ag_core g)) of
        None \<Rightarrow> None
      | Some lane \<Rightarrow> find (\<lambda>t. te_tier t = gc_max_tier (ag_core g)) lane)"

definition grant_evidence_check :: "runtime_state \<Rightarrow> string \<Rightarrow> autonomy_grant \<Rightarrow> runtime_error + unit" where
  "grant_evidence_check s exact_candidate g =
     and_then (ok_or (grant_evidence_of s g) (RtMissingPromotionEvidence ''subject lacks tier evidence''))
     (\<lambda>t. seq_checks
       [check (\<not> (te_exact_release_candidate_digest t \<noteq> exact_candidate \<or>
            gc_promotion_receipt_id (ag_core g) \<noteq> te_evidence_digest t))
          (RtMissingPromotionEvidence ''grant is not bound to exact candidate/evidence''),
        grant_cap_check g])"

definition validate_target_grant_evidence ::
  "platform \<Rightarrow> runtime_state \<Rightarrow> autonomy_grant list \<Rightarrow> string \<Rightarrow> activation_receipt \<Rightarrow> runtime_error + unit" where
  "validate_target_grant_evidence E s target_grants exact_candidate r = seq_checks
     (check (\<not> compute_tier_evidence_set_digest E (rs_tier_evidence s) \<noteq> tc_g9_canary_receipts_digest (at_core r))
        (RtMissingPromotionEvidence ''activation receipt does not bind the exact accumulated G9 evidence set'')
      # map (grant_evidence_check s exact_candidate) target_grants)"

end
