(* ===== verification/Runtime_Journal.thy ===== *)
theory Runtime_Journal
  imports Runtime_State Log_Bytes
begin

text \<open>
  \<open>m1nd-control/src/autonomy_runtime.rs\<close>: the store, its hash-chained journal and the two-phase
  commit.  A transition writes a \<open>PREPARE\<close> record, moves the protected root to it by
  compare-and-swap, writes the \<open>COMMIT\<close> record and moves the root again; recovery reads the
  journal, compares it with the root and finishes or aborts what was interrupted.

  The backend of the protected root, the verifier and the JSON parsers are parameters; what the
  calls on the journal file did is an argument.  The journal and the objects are the contents of
  the files, the store's other fields those of the struct.
\<close>

section \<open>The store\<close>

text \<open>The trait \<open>ProtectedAutonomyRootBackend\<close> over a backend state \<open>'b\<close>.\<close>

record 'b root_backend =
  rb_assurance :: runtime_assurance
  rb_load :: "'b \<Rightarrow> string + protected_root option"
  rb_compare_and_swap :: "'b \<Rightarrow> protected_root option \<Rightarrow> protected_root \<Rightarrow> 'b \<times> (string + unit)"

record 'b runtime_env =
  ve_platform :: platform
  ve_verifier :: artifact_verifier
  ve_backend :: "'b root_backend"
  ve_parse_record :: "bytes \<Rightarrow> string + journal_record"
  ve_parse_sovereign :: "bytes \<Rightarrow> string + sovereign_intent"
  ve_parse_safety :: "bytes \<Rightarrow> string + safety_intent"

record 'b runtime_store =
  sx_config :: runtime_config
  sx_backend :: 'b
  sx_journal :: bytes
  sx_objects :: "string \<Rightarrow> bytes option"
  sx_next_sequence :: u64
  sx_tail_digest :: "string option"
  sx_known_len :: u64
  sx_protected_root :: "protected_root option"
  sx_state :: "runtime_state option"
  sx_poisoned :: bool

text \<open>
  A method on \<open>&mut self\<close>: it returns the store it leaves behind, also when it fails.  \<open>rt_then\<close>
  is \<open>?\<close> followed by the rest of the method, \<open>rt_pure\<close> a call that leaves the store alone,
  \<open>rt_poisoning\<close> sets \<open>poisoned\<close> before the error is returned.
\<close>

type_synonym ('b, 'a) rt = "'b runtime_store \<Rightarrow> 'b runtime_store \<times> (runtime_error + 'a)"

definition rt_then :: "('b, 'a) rt \<Rightarrow> ('a \<Rightarrow> ('b, 'c) rt) \<Rightarrow> ('b, 'c) rt" where
  "rt_then m f s = (case m s of (s', Inl e) \<Rightarrow> (s', Err e) | (s', Inr x) \<Rightarrow> f x s')"

definition rt_pure :: "runtime_error + 'a \<Rightarrow> ('b, 'a) rt" where
  "rt_pure r s = (s, r)"

definition rt_poisoning :: "('b, 'a) rt \<Rightarrow> ('b, 'a) rt" where
  "rt_poisoning m s = (case m s of (s', Inl e) \<Rightarrow> (s'\<lparr>sx_poisoned := True\<rparr>, Err e) | (s', Inr x) \<Rightarrow> (s', Ok x))"

definition journal_path :: "'b runtime_store \<Rightarrow> string" where
  "journal_path s = fg_root (sx_config s) @ ''/autonomy-journal.jsonl''"

definition ensure_usable :: "'b runtime_store \<Rightarrow> runtime_error + unit" where
  "ensure_usable s = check (\<not> sx_poisoned s) RtPoisoned"

definition current_state :: "'b runtime_store \<Rightarrow> runtime_error + runtime_state" where
  "current_state s = ok_or (sx_state s) RtNotBootstrapped"

definition ensure_positive_unfrozen :: "'b runtime_store \<Rightarrow> runtime_error + unit" where
  "ensure_positive_unfrozen s =
     and_then (ensure_usable s) (\<lambda>_. and_then (current_state s) (\<lambda>t.
       check (\<not> (ae_issuance_frozen (rs_autonomy_epoch t) \<or>
         ae_safety_state (rs_autonomy_epoch t) \<noteq> Healthy \<or> rs_pending_red t \<noteq> None))
         RtPositiveAuthorityFrozen))"

section \<open>Appending\<close>

text \<open>
  What the calls on the file did: reading its length failed, the write failed after some bytes,
  the sync failed.
\<close>

record journal_io =
  jo_stat_failed :: "string option"
  jo_write_failed :: "(nat \<times> string) option"
  jo_sync_failed :: "string option"

definition journal_line :: "platform \<Rightarrow> journal_record \<Rightarrow> bytes" where
  "journal_line E r = canonical_json E (json_of_journal_record r)"

definition next_journal_record :: "platform \<Rightarrow> 'b runtime_store \<Rightarrow> journal_payload \<Rightarrow> journal_record" where
  "next_journal_record E s payload = seal_journal_record E
     \<lparr>jr_schema = AUTONOMY_JOURNAL_RECORD_SCHEMA, jr_sequence = sx_next_sequence s,
      jr_previous_record_digest = sx_tail_digest s, jr_payload = payload, jr_record_digest = []\<rparr>"

definition append_record ::
  "platform \<Rightarrow> journal_io \<Rightarrow> journal_payload \<Rightarrow> ('b, journal_record) rt" where
  "append_record E io payload s =
     (case jo_stat_failed io of
        Some e \<Rightarrow> (s, Err (RtIo ''read_journal_length_before_append'' (journal_path s) e))
      | None \<Rightarrow>
        let observed_len = of_nat (length (sx_journal s)) in
        if observed_len \<noteq> sx_known_len s then
          (s\<lparr>sx_poisoned := True\<rparr>, Err (RtConcurrentModification (sx_known_len s) observed_len))
        else
          let r = next_journal_record E s payload; bs = journal_line E r @ [newline] in
          (case jo_write_failed io of
             Some (n, e) \<Rightarrow> (s\<lparr>sx_journal := sx_journal s @ take n bs, sx_poisoned := True\<rparr>,
                 Err (RtIo ''append_journal_record'' (journal_path s) e))
           | None \<Rightarrow>
             (case jo_sync_failed io of
                Some e \<Rightarrow> (s\<lparr>sx_journal := sx_journal s @ bs, sx_poisoned := True\<rparr>,
                    Err (RtIo ''sync_journal_record'' (journal_path s) e))
              | None \<Rightarrow>
                  (s\<lparr>sx_journal := sx_journal s @ bs,
                     sx_known_len := saturating_add (sx_known_len s) (of_nat (length bs)),
                     sx_next_sequence := saturating_add (sx_next_sequence s) 1,
                     sx_tail_digest := Some (jr_record_digest r)\<rparr>, Ok r))))"

definition append_commit ::
  "platform \<Rightarrow> journal_io \<Rightarrow> string \<Rightarrow> string \<Rightarrow> string \<Rightarrow> ('b, journal_record) rt" where
  "append_commit E io transition_id prepare_record_digest committed_state_digest =
     append_record E io (Commit transition_id prepare_record_digest committed_state_digest)"

fun prepare_transition_id :: "journal_payload \<Rightarrow> string option" where
  "prepare_transition_id (Prepare transition_id _ _ _) = Some transition_id"
| "prepare_transition_id _ = None"

definition append_abort :: "platform \<Rightarrow> journal_io \<Rightarrow> journal_record \<Rightarrow> string \<Rightarrow> ('b, journal_record) rt" where
  "append_abort E io prepare reason =
     rt_then (rt_pure (ok_or (prepare_transition_id (jr_payload prepare))
       (RtCorruptJournal (unat (jr_sequence prepare)) ''attempted to abort a non-PREPARE record'')))
     (\<lambda>transition_id. append_record E io (Abort transition_id (jr_record_digest prepare) reason))"

section \<open>Replay\<close>

record prepared_replay =
  pp_record :: journal_record
  pp_state :: runtime_state

record commit_replay =
  cr_record :: journal_record
  cr_prepare_record_digest :: string
  cr_state :: runtime_state

record journal_replay =
  jp_next_sequence :: u64
  jp_tail_digest :: "string option"
  jp_known_len :: u64
  jp_latest_commit :: "commit_replay option"
  jp_commits_by_prepare :: "(string, commit_replay) fmap"
  jp_pending :: "prepared_replay option"

definition empty_replay :: journal_replay where
  "empty_replay = \<lparr>jp_next_sequence = 1, jp_tail_digest = None, jp_known_len = 0,
     jp_latest_commit = None, jp_commits_by_prepare = fmempty, jp_pending = None\<rparr>"

definition committed_digest :: "journal_replay \<Rightarrow> string option" where
  "committed_digest p = map_option (\<lambda>c. rs_state_digest (cr_state c)) (jp_latest_commit p)"

fun replay_payload ::
  "platform \<Rightarrow> nat \<Rightarrow> journal_record \<Rightarrow> journal_payload \<Rightarrow> journal_replay \<Rightarrow> runtime_error + journal_replay" where
  "replay_payload E n r (Prepare transition_id kind previous_state_digest next_state) p =
     and_then (seq_checks
       [rt_require_non_empty ''journal.transition_id'' transition_id,
        check (jp_pending p = None) (RtCorruptJournal n ''nested PREPARE without COMMIT/ABORT''),
        check (\<not> previous_state_digest \<noteq> committed_digest p)
          (RtCorruptJournal n ''PREPARE previous state is not the latest committed state''),
        check (\<not> compute_state_digest E next_state \<noteq> rs_state_digest next_state)
          (RtCorruptJournal n ''prepared state self-digest mismatch'')])
     (\<lambda>_. Ok (p\<lparr>jp_pending := Some \<lparr>pp_record = r, pp_state = next_state\<rparr>\<rparr>))"
| "replay_payload E n r (Commit transition_id prepare_record_digest committed_state_digest) p =
     and_then (ok_or (jp_pending p) (RtCorruptJournal n ''COMMIT without PREPARE'')) (\<lambda>q.
     and_then (check
       (\<not> (Some transition_id \<noteq> prepare_transition_id (jr_payload (pp_record q)) \<or>
          prepare_record_digest \<noteq> jr_record_digest (pp_record q) \<or>
          committed_state_digest \<noteq> rs_state_digest (pp_state q)))
       (RtCorruptJournal n ''COMMIT does not bind its exact PREPARE/state'')) (\<lambda>_.
     let c = \<lparr>cr_record = r, cr_prepare_record_digest = prepare_record_digest, cr_state = pp_state q\<rparr> in
     Ok (p\<lparr>jp_pending := None, jp_latest_commit := Some c,
           jp_commits_by_prepare := fmupd prepare_record_digest c (jp_commits_by_prepare p)\<rparr>)))"
| "replay_payload E n r (Abort transition_id prepare_record_digest reason) p =
     and_then (ok_or (jp_pending p) (RtCorruptJournal n ''ABORT without PREPARE'')) (\<lambda>q.
     and_then (check
       (\<not> (Some transition_id \<noteq> prepare_transition_id (jr_payload (pp_record q)) \<or>
          prepare_record_digest \<noteq> jr_record_digest (pp_record q) \<or> trims_empty reason))
       (RtCorruptJournal n ''ABORT does not bind its exact PREPARE/reason''))
     (\<lambda>_. Ok (p\<lparr>jp_pending := None\<rparr>)))"

definition replay_journal_line ::
  "platform \<Rightarrow> (bytes \<Rightarrow> string + journal_record) \<Rightarrow> nat \<Rightarrow> bytes \<Rightarrow> journal_replay \<Rightarrow>
   runtime_error + journal_replay" where
  "replay_journal_line E parse n line p =
     and_then (map_err (\<lambda>e. RtCorruptJournal n (''invalid JSON: '' @ e)) (parse line)) (\<lambda>r.
     and_then (seq_checks
       [check (\<not> journal_line E r \<noteq> line) (RtCorruptJournal n ''record is not canonical JSON''),
        check (\<not> (jr_schema r \<noteq> AUTONOMY_JOURNAL_RECORD_SCHEMA \<or> jr_sequence r \<noteq> jp_next_sequence p \<or>
            jr_previous_record_digest r \<noteq> jp_tail_digest p \<or> compute_journal_digest E r \<noteq> jr_record_digest r))
          (RtCorruptJournal n ''schema/sequence/chain/self-digest mismatch'')]) (\<lambda>_.
     and_then (replay_payload E n r (jr_payload r) p) (\<lambda>q.
       Ok (q\<lparr>jp_next_sequence := saturating_add (jp_next_sequence p) 1,
             jp_tail_digest := Some (jr_record_digest r)\<rparr>))))"

fun replay_journal_lines ::
  "platform \<Rightarrow> (bytes \<Rightarrow> string + journal_record) \<Rightarrow> nat \<Rightarrow> nat \<Rightarrow> bytes list \<Rightarrow> journal_replay \<Rightarrow>
   runtime_error + journal_replay" where
  "replay_journal_lines E parse n_lines i [] p = Ok p"
| "replay_journal_lines E parse n_lines i (l # ls) p =
     (if l = [] then
        (if i + 1 = n_lines then replay_journal_lines E parse n_lines (i + 1) ls p
         else Err (RtCorruptJournal (i + 1) ''blank journal record''))
      else and_then (replay_journal_line E parse (i + 1) l p)
             (replay_journal_lines E parse n_lines (i + 1) ls))"

definition replay_journal ::
  "platform \<Rightarrow> (bytes \<Rightarrow> string + journal_record) \<Rightarrow> bytes \<Rightarrow> runtime_error + journal_replay" where
  "replay_journal E parse bs =
     (if bs \<noteq> [] \<and> last bs \<noteq> newline then
        Err (RtCorruptJournal (length (filter (\<lambda>b. b = newline) bs) + 1) ''unterminated or torn tail record'')
      else
        let lines = split_newline bs in
        and_then (replay_journal_lines E parse (length lines) 0 lines empty_replay)
          (\<lambda>p. Ok (p\<lparr>jp_known_len := of_nat (length bs)\<rparr>)))"

section \<open>Two-phase commit\<close>

definition swap_root :: "'b runtime_env \<Rightarrow> string \<Rightarrow> protected_root option \<Rightarrow> protected_root \<Rightarrow> ('b, unit) rt" where
  "swap_root env operation expected next_root s =
     (case rb_compare_and_swap (ve_backend env) (sx_backend s) expected next_root of
        (b', Inl e) \<Rightarrow> (s\<lparr>sx_backend := b'\<rparr>, Err (RtProtectedBackend operation e))
      | (b', Inr _) \<Rightarrow> (s\<lparr>sx_backend := b', sx_protected_root := Some next_root\<rparr>, Ok ()))"

definition transition_id_of ::
  "platform \<Rightarrow> transition_kind \<Rightarrow> string option \<Rightarrow> string \<Rightarrow> u64 \<Rightarrow> string" where
  "transition_id_of E kind previous_state_digest next_digest next_sequence =
     ''autonomy-transition:'' @ digest_canonical E ''m1nd-autonomy-transition-id-v1''
       (JArray [JString (transition_kind_name kind), json_opt JString previous_state_digest,
          JString next_digest, json_u64 next_sequence])"

text \<open>The files of the two appends of a transition.\<close>

type_synonym transition_io = "journal_io \<times> journal_io"

definition commit_transition ::
  "'b runtime_env \<Rightarrow> transition_io \<Rightarrow> transition_kind \<Rightarrow> runtime_state \<Rightarrow> u64 \<Rightarrow> ('b, unit) rt" where
  "commit_transition env io kind next_state now_ms s =
     (let E = ve_platform env; V = ve_verifier env; next_state = seal_state E next_state;
          previous = map_option rs_state_digest (sx_state s);
          tid = transition_id_of E kind previous (rs_state_digest next_state) (sx_next_sequence s) in
      rt_then (rt_pure (ensure_usable s)) (\<lambda>_.
      rt_then (rt_pure (validate_state E (sx_config s) next_state now_ms)) (\<lambda>_.
      rt_then (rt_pure (verify_state_artifacts E V next_state now_ms)) (\<lambda>_.
      rt_then (append_record E (fst io) (Prepare tid kind previous next_state)) (\<lambda>prepare.
      rt_then (rt_poisoning (swap_root env ''prepare_compare_and_swap'' (sx_protected_root s)
        (protected_root_for_record E RootPrepared tid prepare next_state))) (\<lambda>_.
      rt_then (rt_poisoning (append_commit E (snd io) tid (jr_record_digest prepare)
        (rs_state_digest next_state))) (\<lambda>commit.
      rt_then (rt_poisoning (swap_root env ''commit_compare_and_swap''
        (Some (protected_root_for_record E RootPrepared tid prepare next_state))
        (protected_root_for_record E RootCommitted tid commit next_state))) (\<lambda>_ s'.
      (s'\<lparr>sx_state := Some next_state\<rparr>, Ok ())))))))) s)"

section \<open>Recovery\<close>

definition recover_without_root :: "'b runtime_env \<Rightarrow> journal_io \<Rightarrow> journal_replay \<Rightarrow> ('b, unit) rt" where
  "recover_without_root env io replay =
     rt_then (rt_pure (check (jp_latest_commit replay = None)
       (RtAntiRollback ''durable commits exist but protected root is absent''))) (\<lambda>_.
     rt_then (case jp_pending replay of
         None \<Rightarrow> rt_pure (Ok ())
       | Some q \<Rightarrow> rt_then (append_abort (ve_platform env) io (pp_record q)
           ''prepare never reached protected storage'') (\<lambda>_. rt_pure (Ok ()))) (\<lambda>_ s.
     (s\<lparr>sx_state := None\<rparr>, Ok ())))"

definition recover_committed :: "'b runtime_env \<Rightarrow> journal_io \<Rightarrow> protected_root \<Rightarrow> journal_replay \<Rightarrow> ('b, unit) rt" where
  "recover_committed env io root replay =
     rt_then (rt_pure (ok_or (jp_latest_commit replay)
       (RtAntiRollback ''protected committed root has no journal commit''))) (\<lambda>c.
     rt_then (rt_pure (check
       (\<not> (jr_record_digest (cr_record c) \<noteq> pr_journal_record_digest root \<or>
          jr_sequence (cr_record c) \<noteq> pr_journal_sequence root \<or>
          rs_state_digest (cr_state c) \<noteq> pr_state_digest root))
       (RtAntiRollback ''protected committed root does not equal the latest journal commit''))) (\<lambda>_.
     rt_then (rt_pure (validate_root_state_projection root (cr_state c))) (\<lambda>_.
     rt_then (\<lambda>s. (s\<lparr>sx_state := Some (cr_state c)\<rparr>, Ok ())) (\<lambda>_.
     (case jp_pending replay of
        None \<Rightarrow> rt_pure (Ok ())
      | Some q \<Rightarrow>
          rt_then (rt_pure (check
            ((case jr_payload (pp_record q) of Prepare _ _ previous _ \<Rightarrow> previous | _ \<Rightarrow> None) =
             Some (rs_state_digest (cr_state c)))
            (RtAntiRollback ''dangling prepare is not based on the protected committed state''))) (\<lambda>_.
          rt_then (append_abort (ve_platform env) io (pp_record q)
            ''protected root remained on prior commit'') (\<lambda>_. rt_pure (Ok ()))))))))"

text \<open>A root that stayed \<open>PREPARED\<close>: the commit record is there, or it is written now.\<close>

definition recover_prepared ::
  "'b runtime_env \<Rightarrow> journal_io \<Rightarrow> protected_root \<Rightarrow> journal_replay \<Rightarrow> u64 \<Rightarrow> ('b, unit) rt" where
  "recover_prepared env io root replay now_ms =
     (let E = ve_platform env; V = ve_verifier env in
      case fmlookup (jp_commits_by_prepare replay) (pr_journal_record_digest root) of
        Some c \<Rightarrow>
          rt_then (rt_pure (validate_root_state_projection root (cr_state c))) (\<lambda>_.
          rt_then (swap_root env ''recover_commit_compare_and_swap'' (Some root)
            (protected_root_for_record E RootCommitted (pr_transition_id root) (cr_record c) (cr_state c))) (\<lambda>_ s.
          (s\<lparr>sx_state := Some (cr_state c)\<rparr>, Ok ())))
      | None \<Rightarrow>
          rt_then (rt_pure (ok_or (jp_pending replay)
            (RtAntiRollback ''protected PREPARED root has neither prepare nor commit''))) (\<lambda>q.
          rt_then (rt_pure (check
            (\<not> (jr_record_digest (pp_record q) \<noteq> pr_journal_record_digest root \<or>
               jr_sequence (pp_record q) \<noteq> pr_journal_sequence root \<or>
               rs_state_digest (pp_state q) \<noteq> pr_state_digest root))
            (RtAntiRollback ''protected PREPARED root does not match journal prepare''))) (\<lambda>_.
          rt_then (rt_pure (validate_root_state_projection root (pp_state q))) (\<lambda>_.
          rt_then (\<lambda>s. rt_pure (validate_state E (sx_config s) (pp_state q) now_ms) s) (\<lambda>_.
          rt_then (rt_pure (verify_state_artifacts E V (pp_state q) now_ms)) (\<lambda>_.
          rt_then (append_commit E io (pr_transition_id root) (jr_record_digest (pp_record q))
            (rs_state_digest (pp_state q))) (\<lambda>commit.
          rt_then (swap_root env ''recover_forward_compare_and_swap'' (Some root)
            (protected_root_for_record E RootCommitted (pr_transition_id root) commit (pp_state q))) (\<lambda>_ s.
          (s\<lparr>sx_state := Some (pp_state q)\<rparr>, Ok ())))))))))"

definition recover ::
  "'b runtime_env \<Rightarrow> journal_io \<Rightarrow> journal_replay \<Rightarrow> u64 \<Rightarrow> ('b, unit) rt" where
  "recover env io replay now_ms s =
     (case sx_protected_root s of
        None \<Rightarrow> recover_without_root env io replay s
      | Some root \<Rightarrow>
          if pr_phase root = RootCommitted then recover_committed env io root replay s
          else recover_prepared env io root replay now_ms s)"

end
