(* ===== verification/Runtime_Operations.thy ===== *)
theory Runtime_Operations
  imports Runtime_Journal
begin

text \<open>
  \<open>m1nd-control/src/autonomy_runtime.rs\<close>: the operations of the store.  Each one checks its
  arguments against the committed state, builds the next state and commits it; the part up to the
  next state is a function \<open>..._next\<close> of its own.
\<close>

section \<open>Intent objects\<close>

text \<open>
  An object is absent or its bytes; one that cannot be read (a symbolic link, an I/O error) is
  taken as absent here.
\<close>

definition read_limited ::
  "'b runtime_store \<Rightarrow> string \<Rightarrow> runtime_error + bytes" where
  "read_limited s digest =
     (case sx_objects s digest of
        None \<Rightarrow> Err (RtIo ''stat_intent_object'' digest ''not found'')
      | Some bs \<Rightarrow>
          if of_nat (length bs) > fg_max_intent_bytes (sx_config s)
          then Err (RtIntentTooLarge (of_nat (length bs)) (fg_max_intent_bytes (sx_config s)))
          else Ok bs)"

text \<open>
  A failed write of an object: whether the rename had already happened, and the error.  The
  error of a refused read is an argument too.
\<close>

record object_io =
  ob_read_failed :: "runtime_error option"
  ob_write_failed :: "(bool \<times> runtime_error) option"

definition store_object :: "object_io \<Rightarrow> string \<Rightarrow> bytes \<Rightarrow> ('b, unit) rt" where
  "store_object io digest bs s =
     (let stored = s\<lparr>sx_objects := (sx_objects s)(digest := Some bs)\<rparr> in
      case sx_objects s digest of
        Some _ \<Rightarrow>
          (case ob_read_failed io of
             Some e \<Rightarrow> (s, Err e)
           | None \<Rightarrow> rt_pure (and_then (read_limited s digest) (\<lambda>existing.
               check (\<not> existing \<noteq> bs) (RtIntentCollision digest))) s)
      | None \<Rightarrow>
          (case ob_write_failed io of
             Some (renamed, e) \<Rightarrow> (if renamed then stored else s, Err e)
           | None \<Rightarrow> (stored, Ok ())))"

definition persist_intent_object ::
  "platform \<Rightarrow> object_io \<Rightarrow> stored_intent_kind \<Rightarrow> string \<Rightarrow> string \<Rightarrow> json \<Rightarrow> ('b, intent_entry) rt" where
  "persist_intent_object E io kind intent_digest content_address intent s =
     (let bs = canonical_json E intent; len = of_nat (length bs); limit = fg_max_intent_bytes (sx_config s) in
      rt_then (rt_pure (seq_checks
        [rt_require_digest ''intent_digest'' intent_digest,
         check (\<not> len > limit) (RtIntentTooLarge len limit)])) (\<lambda>_.
      rt_then (store_object io intent_digest bs) (\<lambda>_. rt_pure (Ok
        \<lparr>ie_schema = INTENT_CORE_ENTRY_SCHEMA, ie_intent_digest = intent_digest,
         ie_content_address = content_address, ie_canonicalization_version = CANONICALIZATION_VERSION,
         ie_kind = kind, ie_canonical_bytes_digest = digest_domain_bytes E INTENT_OBJECT_DIGEST_DOMAIN bs,
         ie_byte_len = len\<rparr>))) s)"

definition index_persisted_intent ::
  "'b runtime_env \<Rightarrow> transition_io \<Rightarrow> intent_entry \<Rightarrow> u64 \<Rightarrow> ('b, unit) rt" where
  "index_persisted_intent env io entry now_ms s =
     rt_then (rt_pure (current_state s)) (\<lambda>t.
       case fmlookup (rs_intent_index t) (ie_intent_digest entry) of
         Some existing \<Rightarrow>
           rt_pure (check (\<not> existing \<noteq> entry) (RtIntentCollision (ie_intent_digest entry)))
       | None \<Rightarrow> commit_transition env io IntentStored
           (seal_state (ve_platform env) (t\<lparr>rs_generation := saturating_add (rs_generation t) 1,
              rs_intent_index := fmupd (ie_intent_digest entry) entry (rs_intent_index t)\<rparr>)) now_ms) s"

definition resolve_intent_bytes ::
  "'b runtime_env \<Rightarrow> 'b runtime_store \<Rightarrow> string \<Rightarrow> stored_intent_kind \<Rightarrow> runtime_error + bytes" where
  "resolve_intent_bytes env s digest kind =
     and_then (current_state s) (\<lambda>t.
     and_then (ok_or (fmlookup (rs_intent_index t) digest) (RtIntentMissing digest)) (\<lambda>entry.
     and_then (seq_checks
       [check (\<not> ie_kind entry \<noteq> kind) (RtIntentCorrupt digest ''stored intent kind mismatch''),
        rt_require_digest ''intent_digest'' digest]) (\<lambda>_.
     and_then (read_limited s digest) (\<lambda>bs.
     and_then (check (\<not> (of_nat (length bs) \<noteq> ie_byte_len entry \<or>
         digest_domain_bytes (ve_platform env) INTENT_OBJECT_DIGEST_DOMAIN bs \<noteq> ie_canonical_bytes_digest entry))
       (RtIntentCorrupt digest ''byte length or content digest mismatch'')) (\<lambda>_. Ok bs)))))"

definition resolve_sovereign_intent ::
  "'b runtime_env \<Rightarrow> 'b runtime_store \<Rightarrow> string \<Rightarrow> u64 \<Rightarrow> runtime_error + sovereign_intent" where
  "resolve_sovereign_intent env s digest now_ms =
     (let E = ve_platform env in
      and_then (resolve_intent_bytes env s digest StoredSovereign) (\<lambda>bs.
      and_then (map_err RtJson (ve_parse_sovereign env bs)) (\<lambda>intent.
      and_then (seq_checks
        [check (\<not> canonical_json E (json_of_sovereign_intent intent) \<noteq> bs)
           (RtIntentCorrupt digest ''object is not canonical JSON''),
         rt_contract (validate_canonical_core E intent now_ms),
         check (\<not> si_intent_digest intent \<noteq> digest)
           (RtIntentCorrupt digest ''embedded sovereign intent digest mismatch'')])
      (\<lambda>_. Ok intent))))"

definition resolve_safety_intent ::
  "'b runtime_env \<Rightarrow> 'b runtime_store \<Rightarrow> string \<Rightarrow> runtime_error + safety_intent" where
  "resolve_safety_intent env s digest =
     and_then (resolve_intent_bytes env s digest StoredSafety) (\<lambda>bs.
     and_then (map_err RtJson (ve_parse_safety env bs)) (\<lambda>intent.
     and_then (check
       (\<not> (canonical_json (ve_platform env) (json_of_safety_intent intent) \<noteq> bs \<or>
          sf_safety_intent_digest intent \<noteq> digest))
       (RtIntentCorrupt digest ''non-canonical safety intent or embedded digest mismatch''))
     (\<lambda>_. Ok intent)))"

definition verify_all_intent_objects ::
  "'b runtime_env \<Rightarrow> 'b runtime_store \<Rightarrow> runtime_state \<Rightarrow> u64 \<Rightarrow> runtime_error + unit" where
  "verify_all_intent_objects env s t now_ms = seq_checks (map (\<lambda>(digest, entry).
     case ie_kind entry of
       StoredSovereign \<Rightarrow> and_then (resolve_sovereign_intent env s digest now_ms) (\<lambda>_. Ok ())
     | StoredSafety \<Rightarrow> and_then (resolve_safety_intent env s digest) (\<lambda>_. Ok ()))
     (sorted_list_of_fmap (rs_intent_index t)))"

section \<open>Opening\<close>

text \<open>
  What is left on disk and in protected storage when the process ends.  \<open>env_failed\<close> is the error
  of a call before the replay (a symbolic link, a directory, the file itself, its first sync).
\<close>

record 'b runtime_disk =
  dk_backend :: 'b
  dk_journal :: bytes
  dk_objects :: "string \<Rightarrow> bytes option"

definition disk_of :: "'b runtime_store \<Rightarrow> 'b runtime_disk" where
  "disk_of s = \<lparr>dk_backend = sx_backend s, dk_journal = sx_journal s, dk_objects = sx_objects s\<rparr>"

definition open_config_checks :: "'b runtime_env \<Rightarrow> runtime_config \<Rightarrow> (runtime_error + unit) list" where
  "open_config_checks env cfg =
     [check (\<not> trims_empty (fg_durability_domain_id cfg)) (RtEmptyConfiguration ''durability_domain_id''),
      check (\<not> trims_empty (fg_organism_id cfg)) (RtEmptyConfiguration ''organism_id''),
      check (\<not> trims_empty (fg_repo_id cfg)) (RtEmptyConfiguration ''repo_id''),
      check (\<not> trims_empty (fg_brain_id cfg)) (RtEmptyConfiguration ''brain_id''),
      ensure_assurance ''protected-root backend'' (fg_required_assurance cfg) (rb_assurance (ve_backend env)),
      ensure_assurance ''artifact verifier'' (fg_required_assurance cfg) (av_assurance (ve_verifier env))]"

definition loaded_store ::
  "runtime_config \<Rightarrow> 'b runtime_disk \<Rightarrow> journal_replay \<Rightarrow> protected_root option \<Rightarrow> 'b runtime_store" where
  "loaded_store cfg d replay root =
     \<lparr>sx_config = cfg, sx_backend = dk_backend d, sx_journal = dk_journal d, sx_objects = dk_objects d,
      sx_next_sequence = jp_next_sequence replay, sx_tail_digest = jp_tail_digest replay,
      sx_known_len = jp_known_len replay, sx_protected_root = root, sx_state = None, sx_poisoned = False\<rparr>"

definition check_opened_state :: "'b runtime_env \<Rightarrow> u64 \<Rightarrow> 'b runtime_store \<Rightarrow> runtime_error + unit" where
  "check_opened_state env now_ms s =
     (case sx_state s of
        None \<Rightarrow> Ok ()
      | Some t \<Rightarrow> seq_checks
          [validate_state (ve_platform env) (sx_config s) t now_ms,
           verify_state_artifacts (ve_platform env) (ve_verifier env) t now_ms,
           verify_all_intent_objects env s t now_ms])"

text \<open>\<open>open\<close> on what is on disk; it returns what it leaves there, and the store unless it failed.\<close>

definition runtime_open ::
  "'b runtime_env \<Rightarrow> journal_io \<Rightarrow> runtime_error option \<Rightarrow> runtime_config \<Rightarrow> 'b runtime_disk \<Rightarrow> u64 \<Rightarrow>
   'b runtime_disk \<times> (runtime_error + 'b runtime_store)" where
  "runtime_open env io env_failed cfg d now_ms =
     (case and_then (seq_checks (open_config_checks env cfg)) (\<lambda>_.
           and_then (case env_failed of Some e \<Rightarrow> Err e | None \<Rightarrow> Ok ()) (\<lambda>_.
           and_then (replay_journal (ve_platform env) (ve_parse_record env) (dk_journal d)) (\<lambda>replay.
           and_then (map_err (RtProtectedBackend ''load'') (rb_load (ve_backend env) (dk_backend d))) (\<lambda>root.
           and_then (case root of None \<Rightarrow> Ok () | Some r \<Rightarrow> validate_root (ve_platform env) r)
             (\<lambda>_. Ok (replay, loaded_store cfg d replay root)))))) of
        Inl e \<Rightarrow> (d, Err e)
      | Inr (replay, s) \<Rightarrow>
          (case recover env io replay now_ms s of
             (s', Inl e) \<Rightarrow> (disk_of s', Err e)
           | (s', Inr _) \<Rightarrow>
             (case check_opened_state env now_ms s' of
                Inl e \<Rightarrow> (disk_of s', Err e)
              | Inr _ \<Rightarrow> (disk_of s', Ok s'))))"

section \<open>Bootstrap\<close>

definition bootstrap_state ::
  "platform \<Rightarrow> runtime_config \<Rightarrow> safety_kernel \<Rightarrow> independence_spec \<Rightarrow> constitution_store \<Rightarrow>
   autonomy_epoch \<Rightarrow> runtime_state" where
  "bootstrap_state E cfg kern independence constitution ep = seal_state E
     \<lparr>rs_schema = AUTONOMY_RUNTIME_STATE_SCHEMA, rs_durability_domain_id = fg_durability_domain_id cfg,
      rs_generation = 1, rs_kernel = kern, rs_independence_spec = independence,
      rs_constitution = constitution, rs_autonomy_epoch = ep, rs_active_grants = [],
      rs_activation_receipts = fmempty, rs_recovery_receipts = fmempty, rs_tier_evidence = fmempty,
      rs_intent_index = fmempty, rs_intent_store_root_digest = compute_intent_store_root E fmempty,
      rs_consumed_capability_digests = {||}, rs_sentinel_outbox_tail = None, rs_last_red_latch_epoch = 0,
      rs_terminal_red_latches = fmempty, rs_last_valid_mode_before_freeze = None, rs_pending_red = None,
      rs_state_digest = []\<rparr>"

definition bootstrap_next ::
  "'b runtime_env \<Rightarrow> 'b runtime_store \<Rightarrow> safety_kernel \<Rightarrow> independence_spec \<Rightarrow> constitution_store \<Rightarrow>
   autonomy_epoch \<Rightarrow> u64 \<Rightarrow> runtime_error + runtime_state" where
  "bootstrap_next env s kern independence constitution ep now_ms =
     (let E = ve_platform env; t = bootstrap_state E (sx_config s) kern independence constitution ep in
      and_then (seq_checks
        [ensure_usable s,
         check (\<not> (sx_state s \<noteq> None \<or> sx_protected_root s \<noteq> None)) RtAlreadyBootstrapped,
         rt_contract (validate_kernel E kern),
         rt_contract (validate_constitution E constitution independence kern now_ms),
         rt_contract (validate_bootstrap E ep constitution [] now_ms),
         validate_state E (sx_config s) t now_ms,
         verify_state_artifacts E (ve_verifier env) t now_ms]) (\<lambda>_. Ok t))"

text \<open>An operation: from the next state it computes to the commit of that state.\<close>

definition commit_next ::
  "'b runtime_env \<Rightarrow> transition_io \<Rightarrow> transition_kind \<Rightarrow> ('b runtime_store \<Rightarrow> runtime_error + runtime_state) \<Rightarrow>
   u64 \<Rightarrow> ('b, unit) rt" where
  "commit_next env io kind next_of now_ms s =
     rt_then (rt_pure (next_of s)) (\<lambda>t. commit_transition env io kind t now_ms) s"

definition runtime_bootstrap ::
  "'b runtime_env \<Rightarrow> transition_io \<Rightarrow> safety_kernel \<Rightarrow> independence_spec \<Rightarrow> constitution_store \<Rightarrow>
   autonomy_epoch \<Rightarrow> u64 \<Rightarrow> ('b, unit) rt" where
  "runtime_bootstrap env io kern independence constitution ep now_ms =
     commit_next env io Bootstrap (\<lambda>s. bootstrap_next env s kern independence constitution ep now_ms) now_ms"

section \<open>Evidence and intents\<close>

definition bump :: "runtime_state \<Rightarrow> runtime_state" where
  "bump t = t\<lparr>rs_generation := saturating_add (rs_generation t) 1\<rparr>"

definition record_evidence_next ::
  "'b runtime_env \<Rightarrow> 'b runtime_store \<Rightarrow> tier_evidence \<Rightarrow> u64 \<Rightarrow> runtime_error + runtime_state" where
  "record_evidence_next env s evidence now_ms =
     (let E = ve_platform env in
      and_then (ensure_positive_unfrozen s) (\<lambda>_.
      and_then (current_state s) (\<lambda>t.
      and_then (seq_checks
        [validate_evidence E evidence (latest_tier_evidence t (te_subject_id evidence)),
         verify_evidence E (ve_verifier env) evidence now_ms]) (\<lambda>_.
      let lane = (case fmlookup (rs_tier_evidence t) (te_subject_id evidence) of
          None \<Rightarrow> [] | Some lane \<Rightarrow> lane) in
      Ok (seal_state E ((bump t)\<lparr>rs_tier_evidence :=
        fmupd (te_subject_id evidence) (lane @ [evidence]) (rs_tier_evidence t)\<rparr>))))))"

definition record_tier_evidence ::
  "'b runtime_env \<Rightarrow> transition_io \<Rightarrow> tier_evidence \<Rightarrow> u64 \<Rightarrow> ('b, unit) rt" where
  "record_tier_evidence env io evidence now_ms =
     commit_next env io TierEvidenceRecorded (\<lambda>s. record_evidence_next env s evidence now_ms) now_ms"

definition persist_and_index ::
  "'b runtime_env \<Rightarrow> object_io \<Rightarrow> transition_io \<Rightarrow> stored_intent_kind \<Rightarrow> string \<Rightarrow> string \<Rightarrow> json \<Rightarrow> u64 \<Rightarrow>
   ('b, intent_entry) rt" where
  "persist_and_index env oio io kind intent_digest content_address intent now_ms =
     rt_then (persist_intent_object (ve_platform env) oio kind intent_digest content_address intent) (\<lambda>entry.
     rt_then (index_persisted_intent env io entry now_ms) (\<lambda>_. rt_pure (Ok entry)))"

definition persist_sovereign_intent ::
  "'b runtime_env \<Rightarrow> object_io \<Rightarrow> transition_io \<Rightarrow> sovereign_intent \<Rightarrow> u64 \<Rightarrow> ('b, intent_entry) rt" where
  "persist_sovereign_intent env oio io intent now_ms s =
     rt_then (rt_pure (seq_checks
       [ensure_positive_unfrozen s,
        rt_contract (validate_canonical_core (ve_platform env) intent now_ms)])) (\<lambda>_.
     persist_and_index env oio io StoredSovereign (si_intent_digest intent)
       (ir_content_address (si_intent_core_ref intent)) (json_of_sovereign_intent intent) now_ms) s"

definition persist_recovery_intent ::
  "'b runtime_env \<Rightarrow> object_io \<Rightarrow> transition_io \<Rightarrow> sovereign_intent \<Rightarrow> u64 \<Rightarrow> ('b, intent_entry) rt" where
  "persist_recovery_intent env oio io intent now_ms s =
     rt_then (rt_pure (seq_checks
       [ensure_usable s,
        rt_contract (validate_canonical_core (ve_platform env) intent now_ms),
        and_then (current_state s) (\<lambda>t. validate_recovery_intent_shape t intent)])) (\<lambda>_.
     persist_and_index env oio io StoredSovereign (si_intent_digest intent)
       (ir_content_address (si_intent_core_ref intent)) (json_of_sovereign_intent intent) now_ms) s"

text \<open>The pending RED with its latch, as \<open>persist_safety_intent\<close> and the safety commit read it.\<close>

definition pending_latched :: "runtime_state \<Rightarrow> runtime_error + (pending_red \<times> red_latch)" where
  "pending_latched t =
     and_then (ok_or (rs_pending_red t) RtNoPendingRed) (\<lambda>p.
     and_then (ok_or (pq_latch p) RtNoPendingRed) (\<lambda>l. Ok (p, l)))"

definition persist_safety_intent ::
  "'b runtime_env \<Rightarrow> object_io \<Rightarrow> transition_io \<Rightarrow> safety_intent \<Rightarrow> u64 \<Rightarrow> ('b, intent_entry) rt" where
  "persist_safety_intent env oio io intent now_ms s =
     rt_then (rt_pure
       (and_then (ensure_usable s) (\<lambda>_.
        and_then (current_state s) (\<lambda>t.
        and_then (pending_latched t) (\<lambda>(p, l).
        and_then (resolve_sovereign_intent env s (pq_source_intent_digest p) now_ms) (\<lambda>source.
        rt_contract (validate_safety_intent (ve_platform env) intent source (pq_verdict p) l (rs_kernel t)
          (ae_constitution_epoch (rs_autonomy_epoch t)) (ae_autonomy_epoch (rs_autonomy_epoch t))))))))) (\<lambda>_.
     persist_and_index env oio io StoredSafety (sf_safety_intent_digest intent)
       (ir_content_address (sf_safety_intent_core_ref intent)) (json_of_safety_intent intent) now_ms) s"

end
