(* ===== verification/Runtime_Transitions.thy ===== *)
theory Runtime_Transitions
  imports Runtime_Operations
begin

text \<open>
  \<open>m1nd-control/src/autonomy_runtime.rs\<close>, the transitions of authority: activating a mode,
  consuming a capability, the RED pipeline (persist, latch, commit) and the recovery from the
  frozen state.
\<close>

section \<open>Activation\<close>

definition promoted_subjects :: "autonomy_grant list \<Rightarrow> string set" where
  "promoted_subjects grants = (\<lambda>g. gc_subject_id (ag_core g)) ` set grants"

definition activation_self_promotes :: "autonomy_grant list \<Rightarrow> activation_receipt \<Rightarrow> sovereign_intent \<Rightarrow> bool" where
  "activation_self_promotes grants r intent \<longleftrightarrow>
     (let promoted = promoted_subjects grants; i = si_core intent in
      tc_issuer_subject_id (at_core r) \<in> promoted \<or> sc_proposer_subject_id i \<in> promoted \<or>
      (case sc_executor_subject_id i of None \<Rightarrow> False | Some x \<Rightarrow> x \<in> promoted))"

record activation_request =
  aq_intent_digest :: string
  aq_decision :: authority_decision
  aq_sentinel :: "sentinel_record option"
  aq_receipt :: activation_receipt
  aq_constitution :: constitution_store
  aq_independence :: independence_spec
  aq_epoch :: autonomy_epoch
  aq_grants :: "autonomy_grant list"
  aq_candidate_digest :: string

definition activation_request_checks ::
  "'b runtime_env \<Rightarrow> runtime_state \<Rightarrow> sovereign_intent \<Rightarrow> activation_request \<Rightarrow> u64 \<Rightarrow>
   (runtime_error + unit) list" where
  "activation_request_checks env t intent q now_ms =
     (let E = ve_platform env; V = ve_verifier env; i = si_core intent; r = aq_receipt q;
          issuer = tc_issuer_subject_id (at_core r) in
      [check (\<not> (sc_action_class i \<noteq> ''autonomy.activate'' \<or>
          sc_candidate_digest i \<noteq> Some (aq_candidate_digest q)))
         (RtMissingPromotionEvidence
           ''activation authority intent does not bind autonomy.activate and the exact candidate''),
       rt_contract (validate_sovereign E intent (rs_autonomy_epoch t) None now_ms),
       rt_contract (validate_positive_decision E (aq_decision q) intent (rs_constitution t) (rs_kernel t)
         (aq_sentinel q) now_ms),
       rt_contract (validate_activation E r (rs_autonomy_epoch t) (aq_epoch q) (aq_constitution q) (aq_grants q)
         \<lparr>ax_exact_release_candidate_digest = aq_candidate_digest q,
          ax_authority_decision = aq_decision q, ax_now_ms = now_ms\<rparr>),
       check (\<not> (issuer \<noteq> sc_issuer_subject_id i \<or> issuer \<noteq> sc_decision_subject_id i))
         (RtMissingPromotionEvidence
           ''activation receipt issuer is not the exact prior-mode decision subject''),
       check (\<not> activation_self_promotes (aq_grants q) r intent) (RtSelfPromotion issuer),
       validate_target_grant_evidence E t (aq_grants q) (aq_candidate_digest q) r,
       rt_contract (validate_constitution E (aq_constitution q) (aq_independence q) (rs_kernel t) now_ms),
       verify_decision E V (aq_decision q) issuer None now_ms,
       verify_activation E V r now_ms,
       verify_constitution E V (aq_constitution q) now_ms]
      @ map (\<lambda>g. verify_grant E V g now_ms) (aq_grants q)
      @ [verify_epoch E V (aq_epoch q) issuer now_ms])"

definition activate_next ::
  "'b runtime_env \<Rightarrow> 'b runtime_store \<Rightarrow> activation_request \<Rightarrow> u64 \<Rightarrow> runtime_error + runtime_state" where
  "activate_next env s q now_ms =
     and_then (ensure_positive_unfrozen s) (\<lambda>_.
     and_then (current_state s) (\<lambda>t.
     let receipt_id = tc_receipt_id (at_core (aq_receipt q)) in
     and_then (check (fmlookup (rs_activation_receipts t) receipt_id = None) (RtActivationReplay receipt_id)) (\<lambda>_.
     and_then (resolve_sovereign_intent env s (aq_intent_digest q) now_ms) (\<lambda>intent.
     and_then (seq_checks (activation_request_checks env t intent q now_ms)) (\<lambda>_.
     Ok (seal_state (ve_platform env) ((bump t)
       \<lparr>rs_independence_spec := aq_independence q, rs_constitution := aq_constitution q,
        rs_autonomy_epoch := aq_epoch q, rs_active_grants := aq_grants q,
        rs_activation_receipts := fmupd receipt_id (aq_receipt q) (rs_activation_receipts t)\<rparr>)))))))"

definition activate_mode ::
  "'b runtime_env \<Rightarrow> transition_io \<Rightarrow> activation_request \<Rightarrow> u64 \<Rightarrow> ('b, unit) rt" where
  "activate_mode env io q now_ms =
     commit_next env io ModeActivated (\<lambda>s. activate_next env s q now_ms) now_ms"

section \<open>Consumption\<close>

record consume_request =
  nq_intent_digest :: string
  nq_decision :: authority_decision
  nq_capability :: autonomy_capability
  nq_sentinel :: "sentinel_record option"

definition consume_checks ::
  "'b runtime_env \<Rightarrow> runtime_state \<Rightarrow> sovereign_intent \<Rightarrow> autonomy_grant \<Rightarrow> consume_request \<Rightarrow> u64 \<Rightarrow>
   (runtime_error + unit) list" where
  "consume_checks env t intent g q now_ms =
     (let E = ve_platform env; V = ve_verifier env; a = nq_capability q in
      [rt_contract (validate_sovereign E intent (rs_autonomy_epoch t) (Some g) now_ms),
       rt_contract (validate_positive_decision E (nq_decision q) intent (rs_constitution t) (rs_kernel t)
         (nq_sentinel q) now_ms),
       rt_contract (validate_autonomy_capability E a (nq_decision q) intent g (rs_autonomy_epoch t)
         (nq_sentinel q) now_ms),
       quorum_arm E V (nq_decision q) intent (nq_sentinel q) t now_ms,
       verify_decision E V (nq_decision q) (sc_issuer_subject_id (si_core intent)) None now_ms,
       verify_artifact E V KindAutonomyCapability (au_capability_digest a) (ap_issuer_subject_id (au_core a))
         (au_owner_signature a) (json_of_autonomy_capability a) None now_ms]
      @ (case nq_sentinel q of None \<Rightarrow> [] | Some v \<Rightarrow> [verify_sentinel E V v (rs_kernel t) now_ms]))"

definition foreign_identity :: "runtime_config \<Rightarrow> sovereign_intent \<Rightarrow> bool" where
  "foreign_identity cfg intent \<longleftrightarrow>
     sc_organism_id (si_core intent) \<noteq> fg_organism_id cfg \<or> sc_repo_id (si_core intent) \<noteq> fg_repo_id cfg \<or>
     sc_brain_id (si_core intent) \<noteq> fg_brain_id cfg"

text \<open>The intent and the next state; the intent is needed for the receipt.\<close>

definition consume_next ::
  "'b runtime_env \<Rightarrow> 'b runtime_store \<Rightarrow> consume_request \<Rightarrow> u64 \<Rightarrow>
   runtime_error + (sovereign_intent \<times> runtime_state)" where
  "consume_next env s q now_ms =
     (let d = au_capability_digest (nq_capability q) in
      and_then (ensure_positive_unfrozen s) (\<lambda>_.
      and_then (current_state s) (\<lambda>t.
      and_then (check (\<not> d |\<in>| rs_consumed_capability_digests t) (RtCapabilityReplay d)) (\<lambda>_.
      and_then (resolve_sovereign_intent env s (nq_intent_digest q) now_ms) (\<lambda>intent.
      and_then (check (\<not> foreign_identity (sx_config s) intent)
        (RtInvalidState ''sovereign intent identity differs from the installed autonomy owner'')) (\<lambda>_.
      and_then (ok_or (find (\<lambda>g. gc_grant_id (ag_core g) = ap_grant_id (au_core (nq_capability q)))
          (rs_active_grants t))
        (RtInvalidState ''capability grant is not active in the protected epoch'')) (\<lambda>g.
      and_then (seq_checks (consume_checks env t intent g q now_ms)) (\<lambda>_.
      Ok (intent, seal_state (ve_platform env) ((bump t)
        \<lparr>rs_consumed_capability_digests := finsert d (rs_consumed_capability_digests t)\<rparr>))))))))))"

definition admission_of ::
  "'b runtime_env \<Rightarrow> sovereign_intent \<Rightarrow> consume_request \<Rightarrow> runtime_state \<Rightarrow> protected_root \<Rightarrow> admission_receipt" where
  "admission_of env intent q t root = seal_admission (ve_platform env)
     \<lparr>dr_schema = AUTONOMY_ADMISSION_RECEIPT_SCHEMA, dr_intent_digest = si_intent_digest intent,
      dr_decision_digest = decision_digest (nq_decision q),
      dr_capability_digest = au_capability_digest (nq_capability q),
      dr_authority_variant = decision_variant (nq_decision q),
      dr_committed_state_digest = rs_state_digest t, dr_protected_root_digest = pr_root_digest root,
      dr_receipt_digest = []\<rparr>"

text \<open>
  After a commit both the state and the root are there, so that the source's \<open>expect\<close> cannot
  fail; its absent root is the error of an absent state here.
\<close>

definition consume_autonomy_capability ::
  "'b runtime_env \<Rightarrow> transition_io \<Rightarrow> consume_request \<Rightarrow> u64 \<Rightarrow> ('b, admission_receipt) rt" where
  "consume_autonomy_capability env io q now_ms s =
     rt_then (rt_pure (consume_next env s q now_ms)) (\<lambda>(intent, t).
     rt_then (commit_transition env io CapabilityConsumed t now_ms) (\<lambda>_ s'.
     rt_pure (and_then (current_state s') (\<lambda>t'.
       and_then (ok_or (sx_protected_root s') RtNotBootstrapped) (\<lambda>root.
       Ok (admission_of env intent q t' root)))) s')) s"

section \<open>RED\<close>

definition red_checks ::
  "'b runtime_env \<Rightarrow> runtime_state \<Rightarrow> sovereign_intent \<Rightarrow> sentinel_record \<Rightarrow> red_outbox \<Rightarrow> u64 \<Rightarrow>
   (runtime_error + unit) list" where
  "red_checks env t source verdict outbox now_ms =
     (let E = ve_platform env; V = ve_verifier env in
      [rt_contract (validate_verdict E verdict source (rs_kernel t) now_ms),
       check (\<not> nl_verdict (sr_core verdict) \<noteq> Red)
         (RtInvalidRedTransition ''only a RED verdict enters the durable outbox''),
       rt_contract (validate_outbox E outbox verdict source (rs_sentinel_outbox_tail t)),
       check (\<not> xc_state (xb_core outbox) \<noteq> OutboxPending)
         (RtInvalidRedTransition ''first delivery record must be PENDING''),
       verify_sentinel E V verdict (rs_kernel t) now_ms,
       verify_outbox E V outbox (rs_kernel t) now_ms])"

definition sentinel_red_next ::
  "'b runtime_env \<Rightarrow> 'b runtime_store \<Rightarrow> string \<Rightarrow> sentinel_record \<Rightarrow> red_outbox \<Rightarrow> u64 \<Rightarrow>
   runtime_error + runtime_state" where
  "sentinel_red_next env s source_intent_digest verdict outbox now_ms =
     and_then (ensure_usable s) (\<lambda>_.
     and_then (current_state s) (\<lambda>t.
     and_then (seq_checks
       [check (\<not> ae_safety_state (rs_autonomy_epoch t) = Frozen)
          (RtInvalidRedTransition ''terminally FROZEN state must recover before accepting another RED''),
        check (\<not> rs_pending_red t \<noteq> None)
          (RtInvalidRedTransition ''an unresolved RED already owns the positive-authority fence'')]) (\<lambda>_.
     and_then (resolve_sovereign_intent env s source_intent_digest now_ms) (\<lambda>source.
     and_then (seq_checks (red_checks env t source verdict outbox now_ms)) (\<lambda>_.
     Ok (seal_state (ve_platform env) ((bump t)
       \<lparr>rs_autonomy_epoch := (rs_autonomy_epoch t)\<lparr>ae_issuance_frozen := True, ae_safety_state := PendingRed\<rparr>,
        rs_sentinel_outbox_tail := Some outbox,
        rs_pending_red := Some \<lparr>pq_schema = PENDING_RED_RUNTIME_SCHEMA,
          pq_source_intent_digest = source_intent_digest, pq_verdict = verdict, pq_outbox = outbox,
          pq_latch = None\<rparr>\<rparr>)))))))"

definition persist_sentinel_red ::
  "'b runtime_env \<Rightarrow> transition_io \<Rightarrow> string \<Rightarrow> sentinel_record \<Rightarrow> red_outbox \<Rightarrow> u64 \<Rightarrow> ('b, unit) rt" where
  "persist_sentinel_red env io source_intent_digest verdict outbox now_ms =
     commit_next env io SentinelRedPersisted
       (\<lambda>s. sentinel_red_next env s source_intent_digest verdict outbox now_ms) now_ms"

definition latch_checks ::
  "'b runtime_env \<Rightarrow> runtime_state \<Rightarrow> pending_red \<Rightarrow> sovereign_intent \<Rightarrow> red_outbox \<Rightarrow> red_latch \<Rightarrow> u64 \<Rightarrow>
   (runtime_error + unit) list" where
  "latch_checks env t p source outbox latch now_ms =
     (let E = ve_platform env; V = ve_verifier env in
      [rt_contract (validate_outbox E outbox (pq_verdict p) source (rs_sentinel_outbox_tail t)),
       check (\<not> xc_state (xb_core outbox) \<noteq> LatchAcknowledged)
         (RtInvalidRedTransition ''owner latch append requires a LATCH_ACKNOWLEDGED outbox record''),
       rt_contract (validate_latch E latch outbox (pq_verdict p) source (rs_kernel t)),
       check (\<not> lc_state (rl_core latch) \<noteq> LatchPending)
         (RtInvalidRedTransition ''new RED latch must be PENDING''),
       verify_outbox E V outbox (rs_kernel t) now_ms,
       verify_latch E V latch (rs_kernel t) now_ms])"

definition latch_red_next ::
  "'b runtime_env \<Rightarrow> 'b runtime_store \<Rightarrow> red_outbox \<Rightarrow> red_latch \<Rightarrow> u64 \<Rightarrow> runtime_error + runtime_state" where
  "latch_red_next env s outbox latch now_ms =
     and_then (ensure_usable s) (\<lambda>_.
     and_then (current_state s) (\<lambda>t.
     and_then (ok_or (rs_pending_red t) RtNoPendingRed) (\<lambda>p.
     and_then (check (pq_latch p = None) (RtInvalidRedTransition ''RED is already latched'')) (\<lambda>_.
     and_then (resolve_sovereign_intent env s (pq_source_intent_digest p) now_ms) (\<lambda>source.
     and_then (seq_checks (latch_checks env t p source outbox latch now_ms)) (\<lambda>_.
     Ok (seal_state (ve_platform env) ((bump t)
       \<lparr>rs_sentinel_outbox_tail := Some outbox,
        rs_last_red_latch_epoch := lc_latch_epoch (rl_core latch),
        rs_pending_red := Some (p\<lparr>pq_outbox := outbox, pq_latch := Some latch\<rparr>)\<rparr>))))))))"

definition latch_sentinel_red ::
  "'b runtime_env \<Rightarrow> transition_io \<Rightarrow> red_outbox \<Rightarrow> red_latch \<Rightarrow> u64 \<Rightarrow> ('b, unit) rt" where
  "latch_sentinel_red env io outbox latch now_ms =
     commit_next env io RedLatched (\<lambda>s. latch_red_next env s outbox latch now_ms) now_ms"

record safety_request =
  yq_safety_intent_digest :: string
  yq_capability :: safety_capability
  yq_decision :: authority_decision
  yq_outbox :: red_outbox
  yq_latch :: red_latch
  yq_transaction_id :: string

definition terminal_latch_differs ::
  "platform \<Rightarrow> runtime_state \<Rightarrow> red_latch \<Rightarrow> safety_request \<Rightarrow> bool" where
  "terminal_latch_differs E t pending_latch q \<longleftrightarrow>
     (let l = rl_core (yq_latch q); tid = yq_transaction_id q;
          marker = red_commit_marker_digest E tid (decision_digest (yq_decision q)) (rs_state_digest t)
            (saturating_add (ae_autonomy_epoch (rs_autonomy_epoch t)) 1) in
      lc_state l \<noteq> LatchTerminal \<or> lc_committing_transaction_id l \<noteq> Some tid \<or>
      lc_terminal_safety_transaction_id l \<noteq> Some tid \<or> lc_commit_marker_digest l \<noteq> Some marker \<or>
      \<not> same_red_mandate pending_latch (yq_latch q))"

definition safety_checks ::
  "'b runtime_env \<Rightarrow> runtime_state \<Rightarrow> pending_red \<Rightarrow> red_latch \<Rightarrow> sovereign_intent \<Rightarrow> safety_intent \<Rightarrow>
   safety_request \<Rightarrow> u64 \<Rightarrow> (runtime_error + unit) list" where
  "safety_checks env t p l source safety q now_ms =
     (let E = ve_platform env; V = ve_verifier env; kern = rs_kernel t; a = yq_capability q in
      [rt_contract (validate_safety_intent E safety source (pq_verdict p) l kern
         (ae_constitution_epoch (rs_autonomy_epoch t)) (ae_autonomy_epoch (rs_autonomy_epoch t))),
       rt_contract (validate_safety_capability E a safety l kern now_ms),
       rt_contract (validate_safety_authority E (yq_decision q) safety a l kern),
       check (\<not> sy_capability_digest a |\<in>| rs_consumed_capability_digests t)
         (RtCapabilityReplay (sy_capability_digest a)),
       rt_contract (validate_outbox E (yq_outbox q) (pq_verdict p) source (rs_sentinel_outbox_tail t)),
       check (\<not> (xc_state (xb_core (yq_outbox q)) \<noteq> OutboxTerminal \<or>
           xc_terminal_safety_transaction_id (xb_core (yq_outbox q)) \<noteq> Some (yq_transaction_id q)))
         (RtInvalidRedTransition ''terminal outbox does not acknowledge the winning safety transaction''),
       rt_contract (validate_latch E (yq_latch q) (yq_outbox q) (pq_verdict p) source kern),
       check (\<not> terminal_latch_differs E t l q)
         (RtInvalidRedTransition ''terminal latch changes the immutable RED mandate or commit claim''),
       check (fmlookup (rs_terminal_red_latches t) (u64_to_string (lc_latch_epoch (rl_core (yq_latch q)))) = None)
         (RtInvalidRedTransition ''terminal RED latch epoch is already committed''),
       verify_artifact E V KindSafetyCapability (sy_capability_digest a) ''pinned-safety-actuator''
         (sy_actuator_signature a) (json_of_safety_capability a)
         (Some (kn_safety_actuator_identity_key_binary_policy_digest (sk_core kern))) now_ms,
       verify_decision E V (yq_decision q) ''safety-kernel'' (Some (sk_kernel_digest kern)) now_ms,
       verify_outbox E V (yq_outbox q) kern now_ms,
       verify_latch E V (yq_latch q) kern now_ms])"

text \<open>The state after the RED: a new epoch in \<open>HUMAN_GATED\<close>, frozen, with no grant left.\<close>

definition frozen_state ::
  "platform \<Rightarrow> runtime_state \<Rightarrow> safety_request \<Rightarrow> string \<Rightarrow> runtime_state" where
  "frozen_state E t q empty_grants =
     (let latch = yq_latch q; ep = rs_autonomy_epoch t in
      seal_state E ((bump t)
       \<lparr>rs_consumed_capability_digests :=
          finsert (sy_capability_digest (yq_capability q)) (rs_consumed_capability_digests t),
        rs_autonomy_epoch := ep\<lparr>ae_autonomy_epoch := saturating_add (ae_autonomy_epoch ep) 1,
          ae_active_mode := HumanGated,
          ae_activation_receipt_id := Some (''red-latch:'' @ rl_latch_receipt_digest latch),
          ae_issuance_frozen := True, ae_safety_state := Frozen, ae_grants_digest := empty_grants\<rparr>,
        rs_active_grants := [],
        rs_sentinel_outbox_tail := Some (yq_outbox q),
        rs_last_red_latch_epoch := lc_latch_epoch (rl_core latch),
        rs_terminal_red_latches := fmupd (u64_to_string (lc_latch_epoch (rl_core latch))) latch
          (rs_terminal_red_latches t),
        rs_last_valid_mode_before_freeze := Some (ae_active_mode ep),
        rs_pending_red := None\<rparr>))"

definition red_safety_next ::
  "'b runtime_env \<Rightarrow> 'b runtime_store \<Rightarrow> safety_request \<Rightarrow> u64 \<Rightarrow> runtime_error + runtime_state" where
  "red_safety_next env s q now_ms =
     (let E = ve_platform env in
      and_then (seq_checks
        [ensure_usable s, rt_require_non_empty ''terminal_transaction_id'' (yq_transaction_id q)]) (\<lambda>_.
      and_then (current_state s) (\<lambda>t.
      and_then (pending_latched t) (\<lambda>(p, l).
      and_then (check (\<not> lc_state (rl_core l) \<noteq> LatchPending)
        (RtInvalidRedTransition ''only a PENDING latch can linearize a safety transaction'')) (\<lambda>_.
      and_then (resolve_sovereign_intent env s (pq_source_intent_digest p) now_ms) (\<lambda>source.
      and_then (resolve_safety_intent env s (yq_safety_intent_digest q)) (\<lambda>safety.
      and_then (seq_checks (safety_checks env t p l source safety q now_ms)) (\<lambda>_.
      and_then (map_err RtContract (compute_grants_digest E [])) (\<lambda>empty_grants.
      Ok (frozen_state E t q empty_grants))))))))))"

definition commit_red_safety_transition ::
  "'b runtime_env \<Rightarrow> transition_io \<Rightarrow> safety_request \<Rightarrow> u64 \<Rightarrow> ('b, unit) rt" where
  "commit_red_safety_transition env io q now_ms =
     commit_next env io RedSafetyCommitted (\<lambda>s. red_safety_next env s q now_ms) now_ms"

section \<open>Recovery from the frozen state\<close>

record recovery_request =
  zq_intent_digest :: string
  zq_decision :: authority_decision
  zq_sentinel :: sentinel_record
  zq_receipt :: recovery_receipt
  zq_epoch :: autonomy_epoch

definition recovery_checks ::
  "'b runtime_env \<Rightarrow> runtime_state \<Rightarrow> sovereign_intent \<Rightarrow> recovery_request \<Rightarrow> u64 \<Rightarrow>
   (runtime_error + unit) list" where
  "recovery_checks env t intent q now_ms =
     (let E = ve_platform env; V = ve_verifier env; sentinel = zq_sentinel q;
          issuer = vc_issuer_subject_id (vr_core (zq_receipt q)) in
      [validate_recovery_intent_shape t intent,
       rt_contract (validate_verdict E sentinel intent (rs_kernel t) now_ms),
       check (\<not> nl_verdict (sr_core sentinel) \<noteq> Green)
         (RtInvalidRecovery ''recovery requires a fresh exact GREEN sentinel verdict''),
       rt_contract (validate_positive_decision E (zq_decision q) intent (rs_constitution t) (rs_kernel t)
         (Some sentinel) now_ms),
       quorum_arm E V (zq_decision q) intent (Some sentinel) t now_ms,
       validate_recovery_receipt E t intent (zq_decision q) sentinel (zq_receipt q) (zq_epoch q) now_ms,
       verify_decision E V (zq_decision q) issuer None now_ms,
       verify_sentinel E V sentinel (rs_kernel t) now_ms,
       verify_recovery E V (zq_receipt q) now_ms,
       verify_epoch E V (zq_epoch q) issuer now_ms])"

definition recover_next ::
  "'b runtime_env \<Rightarrow> 'b runtime_store \<Rightarrow> recovery_request \<Rightarrow> u64 \<Rightarrow> runtime_error + runtime_state" where
  "recover_next env s q now_ms =
     (let receipt_id = vc_receipt_id (vr_core (zq_receipt q)) in
      and_then (ensure_usable s) (\<lambda>_.
      and_then (current_state s) (\<lambda>t.
      and_then (check (fmlookup (rs_recovery_receipts t) receipt_id = None) (RtRecoveryReplay receipt_id)) (\<lambda>_.
      and_then (resolve_sovereign_intent env s (zq_intent_digest q) now_ms) (\<lambda>intent.
      and_then (seq_checks (recovery_checks env t intent q now_ms)) (\<lambda>_.
      Ok (seal_state (ve_platform env) ((bump t)
        \<lparr>rs_autonomy_epoch := zq_epoch q, rs_active_grants := [], rs_tier_evidence := fmempty,
         rs_last_valid_mode_before_freeze := None,
         rs_recovery_receipts := fmupd receipt_id (zq_receipt q) (rs_recovery_receipts t)\<rparr>))))))))"

definition recover_from_frozen ::
  "'b runtime_env \<Rightarrow> transition_io \<Rightarrow> recovery_request \<Rightarrow> u64 \<Rightarrow> ('b, unit) rt" where
  "recover_from_frozen env io q now_ms =
     commit_next env io RecoveredFromFrozen (\<lambda>s. recover_next env s q now_ms) now_ms"

section \<open>Accessors\<close>

definition store_assurance :: "'b runtime_env \<Rightarrow> runtime_assurance" where
  "store_assurance env =
     (let b = rb_assurance (ve_backend env); v = av_assurance (ve_verifier env) in
      if assurance_rank b \<le> assurance_rank v then b else v)"

definition owner_scope :: "'b runtime_store \<Rightarrow> string \<times> string \<times> string" where
  "owner_scope s = (fg_organism_id (sx_config s), fg_repo_id (sx_config s), fg_brain_id (sx_config s))"

end
