(* ===== verification/Autonomy_Digests.thy ===== *)
theory Autonomy_Digests
  imports Autonomy_Capability Policy_Laws
begin

text \<open>
  The serialised contracts of \<open>autonomy.rs\<close> determine the contracts: each \<open>json_of\<close> function is
  injective up to the order of the keys, so equal digests mean equal records or a hash
  collision.  Every contract with a digest of its own interprets the locale
  \<open>sealed_contract\<close>.
\<close>

section \<open>Enums, sets and small integers\<close>

lemma autonomy_name_inj [simp]:
  "grant_status_name a = grant_status_name b \<longleftrightarrow> a = b"
  "safety_state_name c = safety_state_name d \<longleftrightarrow> c = d"
  "sentinel_verdict_name e = sentinel_verdict_name f \<longleftrightarrow> e = f"
  "red_outbox_state_name g = red_outbox_state_name h \<longleftrightarrow> g = h"
  "red_latch_state_name i = red_latch_state_name j \<longleftrightarrow> i = j"
  "vote_disposition_name k = vote_disposition_name l \<longleftrightarrow> k = l"
  subgoal by (cases a; cases b; simp)
  subgoal by (cases c; cases d; simp)
  subgoal by (cases e; cases f; simp)
  subgoal by (cases g; cases h; simp)
  subgoal by (cases i; cases j; simp)
  subgoal by (cases k; cases l; simp)
  done

lemma canon_json_u16 [simp]: "canon (json_u16 a) = canon (json_u16 b) \<longleftrightarrow> a = b"
  by (simp add: json_u16_def word_uint_eq_iff)

lemma finite_modes [simp]: "finite (ms :: active_mode set)"
proof (rule finite_subset)
  have "m \<in> {HumanGated, PolicyAutonomous, FullAutonomy}" for m by (cases m) simp_all
  then show "ms \<subseteq> {HumanGated, PolicyAutonomous, FullAutonomy}" by blast
qed simp

lemma finite_risks [simp]: "finite (rs :: risk_class set)"
proof (rule finite_subset)
  have "r \<in> {Low, Medium, High, Critical}" for r by (cases r) simp_all
  then show "rs \<subseteq> {Low, Medium, High, Critical}" by blast
qed simp

lemma json_of_modes_canon [simp]: "canon (json_of_modes ms) = canon (json_of_modes ns) \<longleftrightarrow> ms = ns"
proof -
  have "canon (json_of_modes ms) = canon (json_of_modes ns) \<longleftrightarrow>
      sorted_list_of_set ms = sorted_list_of_set ns"
    unfolding json_of_modes_def by (rule canon_json_array) (simp add: name_inj)
  also have "\<dots> \<longleftrightarrow> ms = ns" by (metis finite_modes sorted_list_of_set.set_sorted_key_list_of_set)
  finally show ?thesis .
qed

lemma json_of_risks_canon [simp]: "canon (json_of_risks rs) = canon (json_of_risks ss) \<longleftrightarrow> rs = ss"
proof -
  have "canon (json_of_risks rs) = canon (json_of_risks ss) \<longleftrightarrow>
      sorted_list_of_set rs = sorted_list_of_set ss"
    unfolding json_of_risks_def by (rule canon_json_array) (simp add: name_inj)
  also have "\<dots> \<longleftrightarrow> rs = ss" by (metis finite_risks sorted_list_of_set.set_sorted_key_list_of_set)
  finally show ?thesis .
qed

lemma canon_json_strings [simp]:
  "canon (JArray (map JString xs)) = canon (JArray (map JString ys)) \<longleftrightarrow> xs = ys"
  by (rule canon_json_array) simp

lemmas canon_JArray = canon.simps(5)

lemmas contract_field_canon = name_inj json_of_effects_canon json_of_tier_canon

section \<open>Records\<close>

lemma json_of_safety_kernel_core_canon [simp]: "canon (json_of_safety_kernel_core x) = canon (json_of_safety_kernel_core y) \<longleftrightarrow> x = y"
proof
  assume "canon (json_of_safety_kernel_core x) = canon (json_of_safety_kernel_core y)"
  from canon_object_same_keys [OF this [unfolded json_of_safety_kernel_core_def]]
  show "x = y" by (simp add: contract_field_canon safety_kernel_core.equality del: canon_JArray)
qed simp

lemma json_of_safety_kernel_canon [simp]: "canon (json_of_safety_kernel x) = canon (json_of_safety_kernel y) \<longleftrightarrow> x = y"
proof
  assume "canon (json_of_safety_kernel x) = canon (json_of_safety_kernel y)"
  from canon_object_same_keys [OF this [unfolded json_of_safety_kernel_def]]
  show "x = y" by (simp add: contract_field_canon safety_kernel.equality del: canon_JArray)
qed simp

lemma json_of_verifier_seat_canon [simp]: "canon (json_of_verifier_seat x) = canon (json_of_verifier_seat y) \<longleftrightarrow> x = y"
proof
  assume "canon (json_of_verifier_seat x) = canon (json_of_verifier_seat y)"
  from canon_object_same_keys [OF this [unfolded json_of_verifier_seat_def]]
  show "x = y" by (simp add: contract_field_canon verifier_seat.equality del: canon_JArray)
qed simp

lemma json_of_independence_core_canon [simp]: "canon (json_of_independence_core x) = canon (json_of_independence_core y) \<longleftrightarrow> x = y"
proof
  assume "canon (json_of_independence_core x) = canon (json_of_independence_core y)"
  from canon_object_same_keys [OF this [unfolded json_of_independence_core_def]]
  show "x = y" by (simp add: contract_field_canon independence_core.equality canon_json_array [OF json_of_verifier_seat_canon] del: canon_JArray)
qed simp

lemma json_of_independence_spec_canon [simp]: "canon (json_of_independence_spec x) = canon (json_of_independence_spec y) \<longleftrightarrow> x = y"
proof
  assume "canon (json_of_independence_spec x) = canon (json_of_independence_spec y)"
  from canon_object_same_keys [OF this [unfolded json_of_independence_spec_def]]
  show "x = y" by (simp add: contract_field_canon independence_spec.equality del: canon_JArray)
qed simp

lemma json_of_constitution_core_canon [simp]: "canon (json_of_constitution_core x) = canon (json_of_constitution_core y) \<longleftrightarrow> x = y"
proof
  assume "canon (json_of_constitution_core x) = canon (json_of_constitution_core y)"
  from canon_object_same_keys [OF this [unfolded json_of_constitution_core_def]]
  show "x = y" by (simp add: contract_field_canon constitution_core.equality del: canon_JArray)
qed simp

lemma json_of_constitution_store_canon [simp]: "canon (json_of_constitution_store x) = canon (json_of_constitution_store y) \<longleftrightarrow> x = y"
proof
  assume "canon (json_of_constitution_store x) = canon (json_of_constitution_store y)"
  from canon_object_same_keys [OF this [unfolded json_of_constitution_store_def]]
  show "x = y" by (simp add: contract_field_canon constitution_store.equality del: canon_JArray)
qed simp

lemma json_of_amendment_core_canon [simp]: "canon (json_of_amendment_core x) = canon (json_of_amendment_core y) \<longleftrightarrow> x = y"
proof
  assume "canon (json_of_amendment_core x) = canon (json_of_amendment_core y)"
  from canon_object_same_keys [OF this [unfolded json_of_amendment_core_def]]
  show "x = y" by (simp add: contract_field_canon amendment_core.equality del: canon_JArray)
qed simp

lemma json_of_budget_envelope_canon [simp]: "canon (json_of_budget_envelope x) = canon (json_of_budget_envelope y) \<longleftrightarrow> x = y"
proof
  assume "canon (json_of_budget_envelope x) = canon (json_of_budget_envelope y)"
  from canon_object_same_keys [OF this [unfolded json_of_budget_envelope_def]]
  show "x = y" by (simp add: contract_field_canon budget_envelope.equality del: canon_JArray)
qed simp

lemma json_of_grant_core_canon [simp]: "canon (json_of_grant_core x) = canon (json_of_grant_core y) \<longleftrightarrow> x = y"
proof
  assume "canon (json_of_grant_core x) = canon (json_of_grant_core y)"
  from canon_object_same_keys [OF this [unfolded json_of_grant_core_def]]
  show "x = y" by (simp add: contract_field_canon grant_core.equality del: canon_JArray)
qed simp

lemma json_of_autonomy_grant_canon [simp]: "canon (json_of_autonomy_grant x) = canon (json_of_autonomy_grant y) \<longleftrightarrow> x = y"
proof
  assume "canon (json_of_autonomy_grant x) = canon (json_of_autonomy_grant y)"
  from canon_object_same_keys [OF this [unfolded json_of_autonomy_grant_def]]
  show "x = y" by (simp add: contract_field_canon autonomy_grant.equality del: canon_JArray)
qed simp

lemma json_of_autonomy_epoch_canon [simp]: "canon (json_of_autonomy_epoch x) = canon (json_of_autonomy_epoch y) \<longleftrightarrow> x = y"
proof
  assume "canon (json_of_autonomy_epoch x) = canon (json_of_autonomy_epoch y)"
  from canon_object_same_keys [OF this [unfolded json_of_autonomy_epoch_def]]
  show "x = y" by (simp add: contract_field_canon autonomy_epoch.equality del: canon_JArray)
qed simp

lemma json_of_intent_core_ref_canon [simp]: "canon (json_of_intent_core_ref x) = canon (json_of_intent_core_ref y) \<longleftrightarrow> x = y"
proof
  assume "canon (json_of_intent_core_ref x) = canon (json_of_intent_core_ref y)"
  from canon_object_same_keys [OF this [unfolded json_of_intent_core_ref_def]]
  show "x = y" by (simp add: contract_field_canon intent_core_ref.equality del: canon_JArray)
qed simp

lemma json_of_sovereign_core_canon [simp]: "canon (json_of_sovereign_core x) = canon (json_of_sovereign_core y) \<longleftrightarrow> x = y"
proof
  assume "canon (json_of_sovereign_core x) = canon (json_of_sovereign_core y)"
  from canon_object_same_keys [OF this [unfolded json_of_sovereign_core_def]]
  show "x = y" by (simp add: contract_field_canon sovereign_core.equality del: canon_JArray)
qed simp

lemma json_of_sovereign_intent_canon [simp]: "canon (json_of_sovereign_intent x) = canon (json_of_sovereign_intent y) \<longleftrightarrow> x = y"
proof
  assume "canon (json_of_sovereign_intent x) = canon (json_of_sovereign_intent y)"
  from canon_object_same_keys [OF this [unfolded json_of_sovereign_intent_def]]
  show "x = y" by (simp add: contract_field_canon sovereign_intent.equality del: canon_JArray)
qed simp

lemma json_of_sentinel_core_canon [simp]: "canon (json_of_sentinel_core x) = canon (json_of_sentinel_core y) \<longleftrightarrow> x = y"
proof
  assume "canon (json_of_sentinel_core x) = canon (json_of_sentinel_core y)"
  from canon_object_same_keys [OF this [unfolded json_of_sentinel_core_def]]
  show "x = y" by (simp add: contract_field_canon sentinel_core.equality del: canon_JArray)
qed simp

lemma json_of_sentinel_record_canon [simp]: "canon (json_of_sentinel_record x) = canon (json_of_sentinel_record y) \<longleftrightarrow> x = y"
proof
  assume "canon (json_of_sentinel_record x) = canon (json_of_sentinel_record y)"
  from canon_object_same_keys [OF this [unfolded json_of_sentinel_record_def]]
  show "x = y" by (simp add: contract_field_canon sentinel_record.equality del: canon_JArray)
qed simp

lemma json_of_red_outbox_core_canon [simp]: "canon (json_of_red_outbox_core x) = canon (json_of_red_outbox_core y) \<longleftrightarrow> x = y"
proof
  assume "canon (json_of_red_outbox_core x) = canon (json_of_red_outbox_core y)"
  from canon_object_same_keys [OF this [unfolded json_of_red_outbox_core_def]]
  show "x = y" by (simp add: contract_field_canon red_outbox_core.equality del: canon_JArray)
qed simp

lemma json_of_red_outbox_canon [simp]: "canon (json_of_red_outbox x) = canon (json_of_red_outbox y) \<longleftrightarrow> x = y"
proof
  assume "canon (json_of_red_outbox x) = canon (json_of_red_outbox y)"
  from canon_object_same_keys [OF this [unfolded json_of_red_outbox_def]]
  show "x = y" by (simp add: contract_field_canon red_outbox.equality del: canon_JArray)
qed simp

lemma json_of_red_latch_core_canon [simp]: "canon (json_of_red_latch_core x) = canon (json_of_red_latch_core y) \<longleftrightarrow> x = y"
proof
  assume "canon (json_of_red_latch_core x) = canon (json_of_red_latch_core y)"
  from canon_object_same_keys [OF this [unfolded json_of_red_latch_core_def]]
  show "x = y" by (simp add: contract_field_canon red_latch_core.equality del: canon_JArray)
qed simp

lemma json_of_red_latch_canon [simp]: "canon (json_of_red_latch x) = canon (json_of_red_latch y) \<longleftrightarrow> x = y"
proof
  assume "canon (json_of_red_latch x) = canon (json_of_red_latch y)"
  from canon_object_same_keys [OF this [unfolded json_of_red_latch_def]]
  show "x = y" by (simp add: contract_field_canon red_latch.equality del: canon_JArray)
qed simp

lemma json_of_safety_intent_core_canon [simp]: "canon (json_of_safety_intent_core x) = canon (json_of_safety_intent_core y) \<longleftrightarrow> x = y"
proof
  assume "canon (json_of_safety_intent_core x) = canon (json_of_safety_intent_core y)"
  from canon_object_same_keys [OF this [unfolded json_of_safety_intent_core_def]]
  show "x = y" by (simp add: contract_field_canon safety_intent_core.equality del: canon_JArray)
qed simp

lemma json_of_safety_intent_canon [simp]: "canon (json_of_safety_intent x) = canon (json_of_safety_intent y) \<longleftrightarrow> x = y"
proof
  assume "canon (json_of_safety_intent x) = canon (json_of_safety_intent y)"
  from canon_object_same_keys [OF this [unfolded json_of_safety_intent_def]]
  show "x = y" by (simp add: contract_field_canon safety_intent.equality del: canon_JArray)
qed simp

lemma json_of_safety_capability_core_canon [simp]: "canon (json_of_safety_capability_core x) = canon (json_of_safety_capability_core y) \<longleftrightarrow> x = y"
proof
  assume "canon (json_of_safety_capability_core x) = canon (json_of_safety_capability_core y)"
  from canon_object_same_keys [OF this [unfolded json_of_safety_capability_core_def]]
  show "x = y" by (simp add: contract_field_canon safety_capability_core.equality del: canon_JArray)
qed simp

lemma json_of_safety_capability_canon [simp]: "canon (json_of_safety_capability x) = canon (json_of_safety_capability y) \<longleftrightarrow> x = y"
proof
  assume "canon (json_of_safety_capability x) = canon (json_of_safety_capability y)"
  from canon_object_same_keys [OF this [unfolded json_of_safety_capability_def]]
  show "x = y" by (simp add: contract_field_canon safety_capability.equality del: canon_JArray)
qed simp

lemma json_of_quorum_vote_canon [simp]: "canon (json_of_quorum_vote x) = canon (json_of_quorum_vote y) \<longleftrightarrow> x = y"
proof
  assume "canon (json_of_quorum_vote x) = canon (json_of_quorum_vote y)"
  from canon_object_same_keys [OF this [unfolded json_of_quorum_vote_def]]
  show "x = y" by (simp add: contract_field_canon quorum_vote.equality del: canon_JArray)
qed simp

lemma json_of_quorum_evidence_canon [simp]: "canon (json_of_quorum_evidence x) = canon (json_of_quorum_evidence y) \<longleftrightarrow> x = y"
proof
  assume "canon (json_of_quorum_evidence x) = canon (json_of_quorum_evidence y)"
  from canon_object_same_keys [OF this [unfolded json_of_quorum_evidence_def]]
  show "x = y" by (simp add: contract_field_canon quorum_evidence.equality canon_json_array [OF json_of_quorum_vote_canon] del: canon_JArray)
qed simp

lemma json_of_decision_binding_canon [simp]: "canon (json_of_decision_binding x) = canon (json_of_decision_binding y) \<longleftrightarrow> x = y"
proof
  assume "canon (json_of_decision_binding x) = canon (json_of_decision_binding y)"
  from canon_object_same_keys [OF this [unfolded json_of_decision_binding_def]]
  show "x = y" by (simp add: contract_field_canon decision_binding.equality del: canon_JArray)
qed simp

lemma json_of_human_authority_core_canon [simp]: "canon (json_of_human_authority_core x) = canon (json_of_human_authority_core y) \<longleftrightarrow> x = y"
proof
  assume "canon (json_of_human_authority_core x) = canon (json_of_human_authority_core y)"
  from canon_object_same_keys [OF this [unfolded json_of_human_authority_core_def]]
  show "x = y" by (simp add: contract_field_canon human_authority_core.equality del: canon_JArray)
qed simp

lemma json_of_policy_authority_core_canon [simp]: "canon (json_of_policy_authority_core x) = canon (json_of_policy_authority_core y) \<longleftrightarrow> x = y"
proof
  assume "canon (json_of_policy_authority_core x) = canon (json_of_policy_authority_core y)"
  from canon_object_same_keys [OF this [unfolded json_of_policy_authority_core_def]]
  show "x = y" by (simp add: contract_field_canon policy_authority_core.equality del: canon_JArray)
qed simp

lemma json_of_quorum_authority_core_canon [simp]: "canon (json_of_quorum_authority_core x) = canon (json_of_quorum_authority_core y) \<longleftrightarrow> x = y"
proof
  assume "canon (json_of_quorum_authority_core x) = canon (json_of_quorum_authority_core y)"
  from canon_object_same_keys [OF this [unfolded json_of_quorum_authority_core_def]]
  show "x = y" by (simp add: contract_field_canon quorum_authority_core.equality del: canon_JArray)
qed simp

lemma json_of_safety_authority_core_canon [simp]: "canon (json_of_safety_authority_core x) = canon (json_of_safety_authority_core y) \<longleftrightarrow> x = y"
proof
  assume "canon (json_of_safety_authority_core x) = canon (json_of_safety_authority_core y)"
  from canon_object_same_keys [OF this [unfolded json_of_safety_authority_core_def]]
  show "x = y" by (simp add: contract_field_canon safety_authority_core.equality del: canon_JArray)
qed simp

lemma json_of_autonomy_capability_core_canon [simp]: "canon (json_of_autonomy_capability_core x) = canon (json_of_autonomy_capability_core y) \<longleftrightarrow> x = y"
proof
  assume "canon (json_of_autonomy_capability_core x) = canon (json_of_autonomy_capability_core y)"
  from canon_object_same_keys [OF this [unfolded json_of_autonomy_capability_core_def]]
  show "x = y" by (simp add: contract_field_canon autonomy_capability_core.equality del: canon_JArray)
qed simp

lemma json_of_autonomy_capability_canon [simp]: "canon (json_of_autonomy_capability x) = canon (json_of_autonomy_capability y) \<longleftrightarrow> x = y"
proof
  assume "canon (json_of_autonomy_capability x) = canon (json_of_autonomy_capability y)"
  from canon_object_same_keys [OF this [unfolded json_of_autonomy_capability_def]]
  show "x = y" by (simp add: contract_field_canon autonomy_capability.equality del: canon_JArray)
qed simp

lemma json_of_activation_core_canon [simp]: "canon (json_of_activation_core x) = canon (json_of_activation_core y) \<longleftrightarrow> x = y"
proof
  assume "canon (json_of_activation_core x) = canon (json_of_activation_core y)"
  from canon_object_same_keys [OF this [unfolded json_of_activation_core_def]]
  show "x = y" by (simp add: contract_field_canon activation_core.equality del: canon_JArray)
qed simp

lemma json_of_activation_receipt_canon [simp]: "canon (json_of_activation_receipt x) = canon (json_of_activation_receipt y) \<longleftrightarrow> x = y"
proof
  assume "canon (json_of_activation_receipt x) = canon (json_of_activation_receipt y)"
  from canon_object_same_keys [OF this [unfolded json_of_activation_receipt_def]]
  show "x = y" by (simp add: contract_field_canon activation_receipt.equality del: canon_JArray)
qed simp

section \<open>Sealed contracts\<close>

text \<open>
  Each of these contracts hashes its core, so its digest field is outside the hashed value and
  the core is what the digest protects.
\<close>

interpretation kernel_contract: sealed_contract compute_kernel_digest SAFETY_KERNEL_DIGEST_DOMAIN
  "\<lambda>x. json_of_safety_kernel_core (sk_core x)" sk_kernel_digest "\<lambda>d x. x\<lparr>sk_kernel_digest := d\<rparr>" sk_core
  by unfold_locales (simp_all add: compute_kernel_digest_def)

interpretation independence_contract: sealed_contract compute_independence_digest INDEPENDENCE_SPEC_DIGEST_DOMAIN
  "\<lambda>x. json_of_independence_core (ns_core x)" ns_independence_spec_digest "\<lambda>d x. x\<lparr>ns_independence_spec_digest := d\<rparr>" ns_core
  by unfold_locales (simp_all add: compute_independence_digest_def)

interpretation constitution_contract: sealed_contract compute_constitution_digest CONSTITUTION_DIGEST_DOMAIN
  "\<lambda>x. json_of_constitution_core (ks_core x)" ks_constitution_digest "\<lambda>d x. x\<lparr>ks_constitution_digest := d\<rparr>" ks_core
  by unfold_locales (simp_all add: compute_constitution_digest_def)

interpretation amendment_contract: sealed_contract compute_amendment_digest CONSTITUTION_AMENDMENT_DIGEST_DOMAIN
  "\<lambda>x. json_of_amendment_core (ma_core x)" ma_amendment_digest "\<lambda>d x. x\<lparr>ma_amendment_digest := d\<rparr>" ma_core
  by unfold_locales (simp_all add: compute_amendment_digest_def)

interpretation grant_contract: sealed_contract compute_grant_digest AUTONOMY_GRANT_DIGEST_DOMAIN
  "\<lambda>x. json_of_grant_core (ag_core x)" ag_grant_digest "\<lambda>d x. x\<lparr>ag_grant_digest := d\<rparr>" ag_core
  by unfold_locales (simp_all add: compute_grant_digest_def)

interpretation verdict_contract: sealed_contract compute_verdict_digest SENTINEL_VERDICT_DIGEST_DOMAIN
  "\<lambda>x. json_of_sentinel_core (sr_core x)" sr_verdict_digest "\<lambda>d x. x\<lparr>sr_verdict_digest := d\<rparr>" sr_core
  by unfold_locales (simp_all add: compute_verdict_digest_def)

interpretation outbox_contract: sealed_contract compute_outbox_digest SENTINEL_RED_OUTBOX_RECORD_DIGEST_DOMAIN
  "\<lambda>x. json_of_red_outbox_core (xb_core x)" xb_record_digest "\<lambda>d x. x\<lparr>xb_record_digest := d\<rparr>" xb_core
  by unfold_locales (simp_all add: compute_outbox_digest_def)

interpretation latch_contract: sealed_contract compute_latch_digest RED_LATCH_RECEIPT_DIGEST_DOMAIN
  "\<lambda>x. json_of_red_latch_core (rl_core x)" rl_latch_receipt_digest "\<lambda>d x. x\<lparr>rl_latch_receipt_digest := d\<rparr>" rl_core
  by unfold_locales (simp_all add: compute_latch_digest_def)

interpretation safety_capability_contract: sealed_contract compute_safety_capability_digest SAFETY_CAPABILITY_DIGEST_DOMAIN
  "\<lambda>x. json_of_safety_capability_core (sy_core x)" sy_capability_digest "\<lambda>d x. x\<lparr>sy_capability_digest := d\<rparr>" sy_core
  by unfold_locales (simp_all add: compute_safety_capability_digest_def)

interpretation capability_contract: sealed_contract compute_capability_digest AUTONOMY_CAPABILITY_DIGEST_DOMAIN
  "\<lambda>x. json_of_autonomy_capability_core (au_core x)" au_capability_digest "\<lambda>d x. x\<lparr>au_capability_digest := d\<rparr>" au_core
  by unfold_locales (simp_all add: compute_capability_digest_def)

text \<open>The receipt of an activation is hashed with its own identifier cleared.\<close>

interpretation activation_contract: sealed_contract compute_activation_digest
  AUTONOMY_ACTIVATION_RECEIPT_DIGEST_DOMAIN
  "\<lambda>r. json_of_activation_core ((at_core r)\<lparr>tc_receipt_id := []\<rparr>)" at_receipt_digest
  "\<lambda>d r. r\<lparr>at_receipt_digest := d\<rparr>" "\<lambda>r. (at_core r)\<lparr>tc_receipt_id := []\<rparr>"
  by unfold_locales (simp_all add: compute_activation_digest_def)

section \<open>Versioned cores\<close>

text \<open>
  Intents are hashed with the canonicalization version in front of their canonical bytes; the
  laws of a sealed contract hold for this digest too, with a collision on the versioned bytes.
\<close>

definition versioned_collision :: "platform \<Rightarrow> string \<Rightarrow> json \<Rightarrow> json \<Rightarrow> bool" where
  "versioned_collision E domain v w \<longleftrightarrow>
     collides E
       (digest_message domain (versioned_payload CANONICALIZATION_VERSION (canonical_json E v)))
       (digest_message domain (versioned_payload CANONICALIZATION_VERSION (canonical_json E w)))"

lemma digest_versioned_core_eq:
  assumes "serde_writer E"
    and "digest_versioned_core E d CANONICALIZATION_VERSION v = digest_versioned_core E d CANONICALIZATION_VERSION w"
  shows "canon v = canon w \<or> versioned_collision E d v w"
proof (cases "canonical_json E v = canonical_json E w")
  case True
  with assms(1) show ?thesis by (simp add: canonical_json_def write_value_canon)
next
  case False
  with assms(2) show ?thesis
    by (simp add: versioned_collision_def collides_def digest_versioned_core_def digest_domain_bytes_def
        hex_lower_inj digest_message_same_domain versioned_payload_def)
qed

locale versioned_contract =
  fixes compute :: "platform \<Rightarrow> 'c \<Rightarrow> string"
    and domain :: string
    and core :: "'c \<Rightarrow> 'b"
    and core_json :: "'b \<Rightarrow> json"
    and stored :: "'c \<Rightarrow> string"
    and reference :: "'c \<Rightarrow> intent_core_ref"
    and seal :: "platform \<Rightarrow> 'c \<Rightarrow> 'c"
    and safety :: bool
  assumes compute_core:
      "compute E c = digest_versioned_core E domain CANONICALIZATION_VERSION (core_json (core c))"
    and core_json_inj: "canon (core_json b) = canon (core_json b') \<Longrightarrow> b = b'"
    and seal_core: "core (seal E c) = core c"
    and seal_stored: "stored (seal E c) = compute E c"
    and seal_reference: "reference (seal E c) =
      (if safety then for_safety_digest (compute E c) else for_sovereign_digest (compute E c))"

context versioned_contract begin

lemma compute_syntax: "sha256_width E \<Longrightarrow> digest_syntax (compute E c)"
  by (simp add: compute_core digest_versioned_core_def digest_domain_bytes_syntax)

lemma compute_eq_core:
  assumes "serde_writer E" and "compute E c = compute E c'"
  shows "core c = core c' \<or> versioned_collision E domain (core_json (core c)) (core_json (core c'))"
  using digest_versioned_core_eq [OF assms(1)] core_json_inj assms(2) unfolding compute_core by blast

text \<open>A sealed intent carries the digest of its core and a reference that its validator accepts.\<close>

lemma seal_valid:
  assumes "sha256_width E"
  shows "stored (seal E c) = compute E (seal E c)"
    and "validate_intent_ref (reference (seal E c)) safety = Inr ()"
    and "ir_intent_digest (reference (seal E c)) = stored (seal E c)"
proof -
  show "stored (seal E c) = compute E (seal E c)" by (simp add: seal_stored compute_core seal_core)
  from compute_syntax [OF assms]
  show "validate_intent_ref (reference (seal E c)) safety = Inr ()"
    by (simp add: validate_intent_ref_def seal_reference for_safety_digest_def for_sovereign_digest_def)
  show "ir_intent_digest (reference (seal E c)) = stored (seal E c)"
    by (simp add: seal_reference seal_stored for_safety_digest_def for_sovereign_digest_def)
qed

end

interpretation sovereign_contract: versioned_contract compute_sovereign_digest SOVEREIGN_INTENT_DIGEST_DOMAIN
  si_core json_of_sovereign_core si_intent_digest si_intent_core_ref seal_sovereign False
  by unfold_locales (simp_all add: compute_sovereign_digest_def seal_sovereign_def Let_def)

interpretation safety_contract: versioned_contract compute_safety_intent_digest
  SAFETY_ACTION_INTENT_DIGEST_DOMAIN sf_core json_of_safety_intent_core sf_safety_intent_digest
  sf_safety_intent_core_ref seal_safety_intent True
  by unfold_locales (simp_all add: compute_safety_intent_digest_def seal_safety_intent_def Let_def)

section \<open>Decisions\<close>

lemma canon_object_keys:
  assumes "canon (JObject kvs) = canon (JObject lws)"
  shows "set (map fst kvs) = set (map fst lws)"
proof -
  let ?s = "\<lambda>kvs. sort_key fst (map (map_prod id canon) kvs) :: (string \<times> json) list"
  have keys: "set (map fst (?s kvs)) = set (map fst kvs)" for kvs
    by (simp add: image_image)
  from assms have "?s kvs = ?s lws" by simp
  then have "set (map fst (?s kvs)) = set (map fst (?s lws))" by (rule arg_cong)
  then show ?thesis unfolding keys .
qed

end
