(* ===== verification/Autonomy_Laws.thy ===== *)
theory Autonomy_Laws
  imports Autonomy_Digests
begin

text \<open>
  The contract of \<open>autonomy.rs\<close>, validator by validator: what an accepted kernel, specification,
  constitution, amendment, grant, intent, verdict, outbox record, latch, decision, capability or
  activation implies.  Each lemma names the facts that the properties use.
\<close>

declare ball_Un [simp]

section \<open>Kernel and independent verifiers\<close>

lemma validate_kernel_parts:
  assumes "validate_kernel E k = Inr v"
  shows "kn_minimum_verifier_seats (sk_core k) = 4" "kn_minimum_quorum_threshold (sk_core k) = 3"
    "kn_minimum_failure_domains (sk_core k) = 3"
    "kn_allowed_negative_effects (sk_core k) = canonical_negative_effects"
    "kn_proposer_executor_nonvoting (sk_core k)" "kn_sentinel_red_absolute_veto (sk_core k)"
    "sk_kernel_digest k = compute_kernel_digest E k"
  using assms unfolding validate_kernel_def kernel_checks_def
  by (simp_all add: Let_def kernel_switches_def IMMUTABLE_VERIFIER_SEATS_def
      IMMUTABLE_QUORUM_THRESHOLD_def IMMUTABLE_FAILURE_DOMAINS_def)

lemma seats_loop_ok:
  "seats_loop seats seen = Inr seen' \<Longrightarrow>
     distinct (map vs_principal_id seats) \<and> distinct (map vs_key_id seats) \<and>
     distinct (map vs_parent_session_context_digest seats) \<and>
     sn_principals seen' = sn_principals seen \<union> set (map vs_principal_id seats) \<and>
     sn_domains seen' = sn_domains seen \<union> set (map vs_failure_domain seats) \<and>
     set (map vs_principal_id seats) \<inter> sn_principals seen = {} \<and>
     set (map vs_key_id seats) \<inter> sn_keys seen = {} \<and>
     set (map vs_parent_session_context_digest seats) \<inter> sn_contexts seen = {}"
proof (induction seats arbitrary: seen)
  case (Cons seat seats)
  let ?next = "\<lparr>sn_principals = insert (vs_principal_id seat) (sn_principals seen),
         sn_keys = insert (vs_key_id seat) (sn_keys seen),
         sn_contexts = insert (vs_parent_session_context_digest seat) (sn_contexts seen),
         sn_domains = insert (vs_failure_domain seat) (sn_domains seen)\<rparr>"
  from Cons.prems have "seats_loop seats ?next = Inr seen'"
    and new: "vs_principal_id seat \<notin> sn_principals seen" "vs_key_id seat \<notin> sn_keys seen"
      "vs_parent_session_context_digest seat \<notin> sn_contexts seen"
    by auto
  from Cons.IH [OF this(1)] new show ?case by auto
qed simp

text \<open>What an accepted specification guarantees, whatever the kernel it was checked against.\<close>

definition independent_seats :: "independence_spec \<Rightarrow> bool" where
  "independent_seats s \<longleftrightarrow>
     (let c = ns_core s; seats = nc_voting_verifiers c in
      length seats = 4 \<and> distinct (map vs_principal_id seats) \<and> distinct (map vs_key_id seats) \<and>
      distinct (map vs_parent_session_context_digest seats) \<and>
      3 \<le> card (set (map vs_failure_domain seats)) \<and>
      nc_nonvoting_sentinel_id c \<notin> set (map vs_principal_id seats) \<and>
      3 \<le> unat (nc_quorum_threshold c) \<and> unat (nc_quorum_threshold c) \<le> 4 \<and>
      3 \<le> unat (nc_minimum_failure_domains c))"

lemma validate_against_kernel_parts:
  assumes "validate_against_kernel E s kern = Inr u"
  shows "independent_seats s" and "\<exists>v. validate_kernel E kern = Inr v"
    and "ns_independence_spec_digest s = compute_independence_digest E s"
proof -
  let ?c = "ns_core s" and ?k = "sk_core kern"
  from assms obtain seen v where k: "validate_kernel E kern = Inr v"
    and floors: "\<forall>c \<in> set (independence_floor_checks ?k s). c = Inr ()"
    and loop: "seats_loop (nc_voting_verifiers ?c) seats_empty = Inr seen"
    and tail: "\<not> card (sn_domains seen) < unat (nc_minimum_failure_domains ?c)"
      "nc_nonvoting_sentinel_id ?c \<notin> sn_principals seen"
    and d: "ns_independence_spec_digest s = compute_independence_digest E s"
    unfolding validate_against_kernel_def by (auto simp: Let_def)
  from validate_kernel_parts [OF k] floors
  have fl: "length (nc_voting_verifiers ?c) = 4" "\<not> nc_quorum_threshold ?c < 3"
      "\<not> length (nc_voting_verifiers ?c) < unat (nc_quorum_threshold ?c)"
      "\<not> nc_minimum_failure_domains ?c < 3"
    unfolding independence_floor_checks_def by (auto simp: Let_def)
  then have "3 \<le> unat (nc_quorum_threshold ?c)" "3 \<le> unat (nc_minimum_failure_domains ?c)"
    by (simp_all add: word_less_nat_alt)
  with fl tail seats_loop_ok [OF loop] show "independent_seats s"
    by (simp add: independent_seats_def Let_def seats_empty_def)
  show "\<exists>v. validate_kernel E kern = Inr v" using k by blast
  show "ns_independence_spec_digest s = compute_independence_digest E s" by (rule d)
qed

section \<open>Constitution and amendment\<close>

lemma validate_constitution_parts:
  assumes "validate_constitution E s independence kern now_ms = Inr v"
  shows "HumanGated \<in> kc_allowed_autonomy_modes (ks_core s)"
    "validate_against_kernel E independence kern = Inr ()"
    "nc_constitution_epoch (ns_core independence) = kc_constitution_epoch (ks_core s)"
    "kc_independence_spec_digest (ks_core s) = ns_independence_spec_digest independence"
    "kc_effective_at (ks_core s) \<le> now_ms" "now_ms < kc_expires_at (ks_core s)"
    "ks_constitution_digest s = compute_constitution_digest E s"
    "kc_constitution_epoch (ks_core s) = 0 \<longleftrightarrow> kc_previous_constitution_digest (ks_core s) = None"
    "0 < kc_constitution_epoch (ks_core s) \<Longrightarrow>
       kc_previous_governance_runtime_digest (ks_core s) \<noteq> kc_adopting_governance_runtime_digest (ks_core s)"
  using assms unfolding validate_constitution_def constitution_checks_def
  by (auto simp: Let_def bootstrap_check_def split: if_splits)

lemma validate_amendment_parts:
  assumes "validate_amendment E m previous proposed independence kern now_ms = Inr v"
  shows "am_proposed_runtime_subject_id (ma_core m) \<noteq> am_approval_issuer_subject_id (ma_core m)"
    "am_prepared_at (ma_core m) < am_activates_at (ma_core m)" "am_activates_at (ma_core m) \<le> now_ms"
    "kc_constitution_epoch (ks_core proposed) = kc_constitution_epoch (ks_core previous) + 1"
    "kc_previous_constitution_digest (ks_core proposed) = Some (ks_constitution_digest previous)"
    "kc_effective_at (ks_core proposed) = am_activates_at (ma_core m)"
    "kc_previous_governance_runtime_digest (ks_core proposed) = am_previous_runtime_digest (ma_core m)"
    "\<exists>w. validate_constitution E proposed independence kern now_ms = Inr w"
  using assms unfolding validate_amendment_def amendment_checks_def
  by (auto simp: Let_def amendment_step_def)

section \<open>Grants and epochs\<close>

lemma budget_remaining_ok [simp]:
  "budget_remaining b = Inr r \<longleftrightarrow>
     \<not> trims_empty (be_unit b) \<and> be_consumed b \<le> be_limit b \<and> r = be_limit b - be_consumed b"
  by (auto simp: budget_remaining_def checked_sub_def)

lemma validate_grant_parts:
  assumes "validate_grant_at E g now_ms = Inr u"
  shows "gc_status (ag_core g) = Active" "gc_issued_at (ag_core g) \<le> now_ms"
    "now_ms < gc_expires_at (ag_core g)" "ag_grant_digest g = compute_grant_digest E g"
    "be_consumed (gc_budget (ag_core g)) \<le> be_limit (gc_budget (ag_core g))"
    "digest_syntax (ag_grant_digest g)"
  using assms unfolding validate_grant_at_def by (auto simp: Let_def)

lemma authorize_scope_ok:
  assumes "authorize_scope g action risk scope requested tier = Inr u"
  shows "action \<in> set (gc_action_classes (ag_core g))" "risk \<in> gc_risk_domains (ag_core g)"
    "gc_resource_environment_scope_digest (ag_core g) = scope"
    "unat requested + unat (be_consumed (gc_budget (ag_core g))) \<le> unat (be_limit (gc_budget (ag_core g)))"
    "tier_rank tier \<le> tier_rank (gc_max_tier (ag_core g))"
proof -
  let ?b = "gc_budget (ag_core g)"
  from assms have le: "be_consumed ?b \<le> be_limit ?b" "requested \<le> be_limit ?b - be_consumed ?b"
    unfolding authorize_scope_def by (auto simp: Let_def not_less)
  then have "unat requested \<le> unat (be_limit ?b) - unat (be_consumed ?b)"
    by (simp add: word_le_nat_alt unat_sub)
  with le(1) show "unat requested + unat (be_consumed ?b) \<le> unat (be_limit ?b)"
    by (simp add: word_le_nat_alt)
qed (use assms in \<open>auto simp: authorize_scope_def Let_def\<close>)

lemma validate_grant_binding_ok:
  assumes "validate_grant_binding c g = Inr u"
  shows "sc_applicable_grant_id c = Some (gc_grant_id (ag_core g))"
    "sc_applicable_grant_digest c = Some (ag_grant_digest g)"
    "gc_subject_id (ag_core g) = sc_decision_subject_id c" "gc_mode (ag_core g) = sc_active_mode c"
    "gc_autonomy_epoch (ag_core g) = sc_autonomy_epoch c"
    "authorize_scope g (sc_action_class c) (sc_risk_class c) (sc_resource_environment_scope_digest c)
       (sc_requested_budget c) (sc_effective_tier c) = Inr ()"
  using assms unfolding validate_grant_binding_def by (auto simp: Let_def)

lemma validate_common_parts:
  assumes "validate_common E ep constitution grants now_ms = Inr u"
  shows "ae_active_mode ep \<in> kc_allowed_autonomy_modes (ks_core constitution)"
    "ae_constitution_epoch ep = kc_constitution_epoch (ks_core constitution)"
    "ae_constitution_digest ep = ks_constitution_digest constitution"
    "ae_safety_state ep = Healthy \<longleftrightarrow> \<not> ae_issuance_frozen ep"
    "compute_grants_digest E grants = Inr (ae_grants_digest ep)"
    "ae_active_mode ep \<noteq> HumanGated \<Longrightarrow> grants \<noteq> []"
    "\<And>g. g \<in> set grants \<Longrightarrow> validate_grant_at E g now_ms = Inr () \<and>
       gc_mode (ag_core g) = ae_active_mode ep \<and> gc_autonomy_epoch (ag_core g) = ae_autonomy_epoch ep \<and>
       gc_constitution_epoch (ag_core g) = ae_constitution_epoch ep"
    "0 < ae_autonomy_epoch ep \<Longrightarrow> ae_activation_receipt_id ep \<noteq> None"
  using assms unfolding validate_common_def
  by (auto simp: Let_def safety_state_check_def epoch_grant_checks_def
      split: safety_state.splits if_splits)

section \<open>Intents, verdicts and the RED pipeline\<close>

lemma validate_canonical_core_parts:
  assumes "validate_canonical_core E i now_ms = Inr v"
  shows "sc_issued_at (si_core i) \<le> now_ms" "now_ms < sc_expires_at (si_core i)"
    "si_intent_digest i = compute_sovereign_digest E i"
    "validate_no_self_authorization (si_core i) = Inr ()"
    "ir_intent_digest (si_intent_core_ref i) = si_intent_digest i"
  using assms unfolding validate_canonical_core_def intent_digest_checks_def by (auto simp: Let_def)

lemma validate_verdict_parts:
  assumes "validate_verdict E v intent kern now_ms = Inr w"
  shows "nl_intent_digest (sr_core v) = si_intent_digest intent"
    "nl_autonomy_epoch (sr_core v) = sc_autonomy_epoch (si_core intent)"
    "nl_issued_at (sr_core v) \<le> now_ms" "now_ms < nl_expires_at (sr_core v)"
    "sr_verdict_digest v = compute_verdict_digest E v"
    "nl_sentinel_identity_key_binary_policy_digest (sr_core v) =
       kn_sentinel_identity_key_binary_policy_digest (sk_core kern)"
  using assms unfolding validate_verdict_def by (auto simp: Let_def)

lemma validate_outbox_parts:
  assumes "validate_outbox E x verdict intent previous = Inr w"
  shows "nl_verdict (sr_core verdict) = Red"
    "xc_red_verdict_digest (xb_core x) = sr_verdict_digest verdict"
    "xc_outbox_epoch (xb_core x) \<noteq> 0"
    "xc_outbox_epoch (xb_core x) \<le> xc_protected_latest_outbox_epoch (xb_core x)"
    "outbox_chain_check (xb_core x) previous = Inr ()"
    "red_outbox_state_valid (xb_core x)"
  using assms unfolding validate_outbox_def
  by (auto simp: Let_def validate_red_outbox_state_def)

lemma validate_latch_parts:
  assumes "validate_latch E l outbox verdict intent kern = Inr w"
  shows "nl_verdict (sr_core verdict) = Red"
    "lc_red_verdict_digest (rl_core l) = sr_verdict_digest verdict"
    "lc_source_intent_digest (rl_core l) = si_intent_digest intent"
    "lc_latch_epoch (rl_core l) \<noteq> 0" "red_latch_state_valid (rl_core l)"
    "compute_safety_effects_digest E (kn_allowed_negative_effects (sk_core kern)) =
       Inr (lc_allowed_negative_actions_digest (rl_core l))"
  using assms unfolding validate_latch_def
  by (auto simp: Let_def validate_red_latch_state_def)

lemma validate_safety_effects_ok:
  assumes "validate_safety_effects E effects kern = Inr u"
  shows "effects = kn_allowed_negative_effects (sk_core kern)" "effects \<noteq> {}"
    "\<forall>e \<in> effects. is_negative_safety e"
  using assms unfolding validate_safety_effects_def compute_safety_effects_digest_def
  by (auto split: if_splits)

end
