(* ===== verification/Autonomy_Authority.thy ===== *)
theory Autonomy_Authority
  imports Autonomy_Laws
begin

text \<open>
  The contract of the authority decisions of \<open>autonomy.rs\<close>: the tally of the votes, the binding
  of a decision to its intent, and what accepted positive decisions, safety decisions,
  capabilities and activations imply.
\<close>

section \<open>Votes\<close>

lemma quorum_seats_SomeD:
  "quorum_seats seats p = Some s \<Longrightarrow> s \<in> set seats \<and> vs_principal_id s = p"
  unfolding quorum_seats_def by (drule map_of_SomeD) auto

lemma quorum_seats_None: "quorum_seats seats p = None \<longleftrightarrow> p \<notin> set (map vs_principal_id seats)"
  by (force simp: quorum_seats_def map_of_eq_None_iff)

lemma holds_seat_iff: "holds_seat (quorum_seats seats) subject \<longleftrightarrow>
    (\<exists>s. subject = Some s \<and> s \<in> set (map vs_principal_id seats))"
  by (simp add: holds_seat_def quorum_seats_None split: option.split)

text \<open>A vote that approves the intent, cast from the seat of its verifier.\<close>

definition vote_for :: "verifier_seat list \<Rightarrow> sovereign_intent \<Rightarrow> quorum_vote \<Rightarrow> bool" where
  "vote_for seats intent v \<longleftrightarrow>
     qv_disposition v = Approve \<and> qv_intent_digest v = si_intent_digest intent \<and>
     qv_constitution_digest v = sc_constitution_digest (si_core intent) \<and>
     qv_candidate_digest v = sc_candidate_digest (si_core intent) \<and>
     (\<exists>s \<in> set seats. vs_principal_id s = qv_verifier_principal_id v \<and> vs_key_id s = qv_verifier_key_id v \<and>
        vs_failure_domain s = qv_failure_domain v \<and>
        vs_parent_session_context_digest s = qv_parent_session_context_digest v)"

lemma vote_checks_ok:
  assumes "seq_checks (vote_checks (quorum_seats seats) intent t v) = Inr u" and "qv_disposition v = Approve"
  shows "vote_for seats intent v" "qv_verifier_principal_id v \<notin> ta_voted t"
proof -
  from assms(1) obtain s where s: "quorum_seats seats (qv_verifier_principal_id v) = Some s"
    and f: "qv_verifier_principal_id v \<notin> ta_voted t" "qv_verifier_key_id v = vs_key_id s"
      "qv_failure_domain v = vs_failure_domain s"
      "qv_parent_session_context_digest v = vs_parent_session_context_digest s"
    unfolding vote_checks_def by (auto simp: Let_def split: option.splits)
  show "qv_verifier_principal_id v \<notin> ta_voted t" by (rule f(1))
  from assms f quorum_seats_SomeD [OF s] show "vote_for seats intent v"
    unfolding vote_checks_def vote_for_def by (force simp: Let_def)
qed

lemma votes_loop_ok:
  "votes_loop (quorum_seats seats) intent votes t = Inr t' \<Longrightarrow>
     (\<forall>v \<in> set votes. vote_for seats intent v) \<and>
     distinct (map qv_verifier_principal_id votes) \<and>
     set (map qv_verifier_principal_id votes) \<inter> ta_voted t = {} \<and>
     ta_approvals t' = ta_approvals t + length votes \<and>
     ta_approval_domains t' = ta_approval_domains t \<union> set (map qv_failure_domain votes)"
proof (induction votes arbitrary: t)
  case (Cons v votes)
  let ?t = "\<lparr>ta_voted = insert (qv_verifier_principal_id v) (ta_voted t),
            ta_approval_domains = insert (qv_failure_domain v) (ta_approval_domains t),
            ta_approvals = ta_approvals t + 1\<rparr>"
  from Cons.prems have ok: "seq_checks (vote_checks (quorum_seats seats) intent t v) = Inr ()"
    and ap: "qv_disposition v = Approve" and rest: "votes_loop (quorum_seats seats) intent votes ?t = Inr t'"
    by (auto split: vote_disposition.splits simp del: seq_checks_ok)
  from Cons.IH [OF rest] vote_checks_ok [OF ok ap] show ?case by auto
qed simp

lemma validate_quorum_parts:
  assumes "validate_quorum E q intent constitution kern d = Inr u"
  defines "s \<equiv> qe_independence_spec q"
  defines "seats \<equiv> nc_voting_verifiers (ns_core s)"
  shows "independent_seats s" "qe_sentinel_verdict_digest q = d"
    "\<forall>v \<in> set (qe_votes q). vote_for seats intent v"
    "distinct (map qv_verifier_principal_id (qe_votes q))"
    "unat (nc_quorum_threshold (ns_core s)) \<le> length (qe_votes q)"
    "unat (nc_minimum_failure_domains (ns_core s)) \<le> card (set (map qv_failure_domain (qe_votes q)))"
    "sc_proposer_subject_id (si_core intent) \<notin> set (map vs_principal_id seats)"
    "\<not> holds_seat (quorum_seats seats) (sc_executor_subject_id (si_core intent))"
    "\<not> holds_seat (quorum_seats seats) (sc_promotion_target_subject_id (si_core intent))"
    "\<not> holds_seat (quorum_seats seats) (sc_ratification_target_subject_id (si_core intent))"
    "kc_independence_spec_digest (ks_core constitution) = ns_independence_spec_digest s"
proof -
  from assms(1) obtain t where head: "validate_against_kernel E s kern = Inr ()"
      "qe_sentinel_verdict_digest q = d"
      "quorum_seats seats (sc_proposer_subject_id (si_core intent)) = None"
      "\<not> holds_seat (quorum_seats seats) (sc_executor_subject_id (si_core intent))"
      "\<not> holds_seat (quorum_seats seats) (sc_promotion_target_subject_id (si_core intent))"
      "\<not> holds_seat (quorum_seats seats) (sc_ratification_target_subject_id (si_core intent))"
      "kc_independence_spec_digest (ks_core constitution) = ns_independence_spec_digest s"
    and loop: "votes_loop (quorum_seats seats) intent (qe_votes q) tally_empty = Inr t"
    and tail: "\<not> ta_approvals t < unat (nc_quorum_threshold (ns_core s))"
      "\<not> card (ta_approval_domains t) < unat (nc_minimum_failure_domains (ns_core s))"
    unfolding validate_quorum_def s_def seats_def by (auto simp: Let_def)
  note votes = votes_loop_ok [OF loop]
  show "independent_seats s" by (rule validate_against_kernel_parts(1) [OF head(1)])
  show "sc_proposer_subject_id (si_core intent) \<notin> set (map vs_principal_id seats)"
    using head(3) by (simp only: quorum_seats_None not_not simp_thms)
  show "unat (nc_quorum_threshold (ns_core s)) \<le> length (qe_votes q)"
    "unat (nc_minimum_failure_domains (ns_core s)) \<le> card (set (map qv_failure_domain (qe_votes q)))"
    using votes tail by (simp_all add: tally_empty_def)
  show "\<forall>v \<in> set (qe_votes q). vote_for seats intent v" "distinct (map qv_verifier_principal_id (qe_votes q))"
    using votes by blast+
  show "qe_sentinel_verdict_digest q = d"
    "\<not> holds_seat (quorum_seats seats) (sc_executor_subject_id (si_core intent))"
    "\<not> holds_seat (quorum_seats seats) (sc_promotion_target_subject_id (si_core intent))"
    "\<not> holds_seat (quorum_seats seats) (sc_ratification_target_subject_id (si_core intent))"
    "kc_independence_spec_digest (ks_core constitution) = ns_independence_spec_digest s"
    by (rule head)+
qed

section \<open>Decisions\<close>

lemma sentinel_binding_ok:
  "sentinel_binding_check b sentinel = Inr u \<longleftrightarrow>
     (if db_sentinel_required b
      then \<exists>v. sentinel = Some v \<and> nl_verdict (sr_core v) = Green \<and>
        db_sentinel_verdict_digest b = Some (sr_verdict_digest v)
      else sentinel = None \<and> db_sentinel_verdict_digest b = None)"
  by (auto simp: sentinel_binding_check_def split: option.splits bool.splits if_splits)

text \<open>
  An accepted binding is the one the intent itself dictates: only the identifier of the decision
  and the sentinel's part are the decider's own.
\<close>

lemma validate_decision_binding_parts:
  assumes "validate_decision_binding b intent authority sentinel = Inr u"
  shows "authority = sc_required_authority_variant (si_core intent)"
    "b = from_intent intent (db_decision_id b) (db_sentinel_required b) (db_sentinel_verdict_digest b)"
    "sentinel_binding_check b sentinel = Inr ()"
proof -
  let ?i = "si_core intent"
  from assms have strings: "\<forall>(f, e, v) \<in> set (binding_strings b intent). e = v"
    and fields: "\<not> binding_fields_differ b intent authority"
    and grant: "db_grant_id b = (if authority \<in> {Policy, AgentQuorum} then sc_applicable_grant_id ?i else None)"
      "db_effective_tier b = (if authority \<in> {Policy, AgentQuorum} then Some (sc_effective_tier ?i) else None)"
    and sentinel: "sentinel_binding_check b sentinel = Inr ()"
    unfolding validate_decision_binding_def by (auto simp: Let_def)
  note strings = strings [unfolded binding_strings_def Let_def, simplified]
  note fields = fields [unfolded binding_fields_differ_def Let_def de_Morgan_disj not_not]
  show "sentinel_binding_check b sentinel = Inr ()" by (rule sentinel)
  from fields have req: "db_required_authority_variant b = authority"
    "db_required_authority_variant b = sc_required_authority_variant ?i" by blast+
  then show auth: "authority = sc_required_authority_variant ?i" by metis
  show "b = from_intent intent (db_decision_id b) (db_sentinel_required b) (db_sentinel_verdict_digest b)"
    using strings fields [unfolded auth] grant [unfolded auth] by (intro decision_binding.equality) (simp_all add: from_intent_def Let_def)
qed

lemma from_intent_own [simp]:
  "db_decision_id (from_intent intent decision_id required digest) = decision_id"
  "db_sentinel_required (from_intent intent decision_id required digest) = required"
  "db_sentinel_verdict_digest (from_intent intent decision_id required digest) = digest"
  by (simp_all add: from_intent_def Let_def)

text \<open>Conversely \<open>from_intent\<close> builds a binding that its validator accepts.\<close>

lemma from_intent_accepted:
  "validate_decision_binding (from_intent intent decision_id required digest) intent
     (sc_required_authority_variant (si_core intent)) sentinel = Inr () \<longleftrightarrow>
   \<not> trims_empty decision_id \<and>
   sentinel_binding_check (from_intent intent decision_id required digest) sentinel = Inr ()"
proof -
  let ?b = "from_intent intent decision_id required digest"
  have "\<forall>(f, e, v) \<in> set (binding_strings ?b intent). e = v"
    by (simp add: binding_strings_def Let_def from_intent_def)
  moreover have "\<not> binding_fields_differ ?b intent (sc_required_authority_variant (si_core intent))"
    by (simp add: binding_fields_differ_def Let_def from_intent_def)
  moreover have "db_grant_id ?b = (if sc_required_authority_variant (si_core intent) \<in> {Policy, AgentQuorum}
       then sc_applicable_grant_id (si_core intent) else None)"
    "db_effective_tier ?b = (if sc_required_authority_variant (si_core intent) \<in> {Policy, AgentQuorum}
       then Some (sc_effective_tier (si_core intent)) else None)"
    by (simp_all add: from_intent_def Let_def)
  ultimately show ?thesis
    unfolding validate_decision_binding_def by (auto simp: Let_def split_beta)
qed

text \<open>What every accepted positive decision implies, whatever its variant.\<close>

lemma positive_decision_parts:
  assumes "validate_positive_decision E d intent constitution kern sentinel now_ms = Inr v"
  shows "\<exists>w. validate_canonical_core E intent now_ms = Inr w"
    "\<And>r. sentinel = Some r \<Longrightarrow> \<exists>w. validate_verdict E r intent kern now_ms = Inr w"
    "\<forall>c \<in> set (decision_arm_checks E d intent constitution kern sentinel). c = Inr ()"
    "decision_digest d = compute_decision_digest E d"
    "constitution_binding_check (positive_binding d) constitution = Inr ()"
  using assms unfolding validate_positive_decision_def by auto

lemma quorum_arm_parts:
  assumes "\<forall>c \<in> set (decision_arm_checks E (QuorumDecision d) intent constitution kern sentinel). c = Inr ()"
  obtains r where "sentinel = Some r" "nl_verdict (sr_core r) = Green"
    "validate_decision_binding (qa_binding (qu_core d)) intent AgentQuorum sentinel = Inr ()"
    "db_active_mode (qa_binding (qu_core d)) \<noteq> HumanGated"
    "validate_quorum E (qa_quorum (qu_core d)) intent constitution kern (sr_verdict_digest r) = Inr ()"
proof -
  let ?b = "qa_binding (qu_core d)"
  from assms have b: "validate_decision_binding ?b intent AgentQuorum sentinel = Inr ()"
    and m: "db_active_mode ?b \<noteq> HumanGated"
    and q: "and_then (ok_or sentinel
          (Invariant ''agent quorum requires the exact independent GREEN sentinel verdict''))
        (\<lambda>verdict. validate_quorum E (qa_quorum (qu_core d)) intent constitution kern
           (sr_verdict_digest verdict)) = Inr ()" by auto
  from q obtain r where r: "sentinel = Some r"
    and v: "validate_quorum E (qa_quorum (qu_core d)) intent constitution kern (sr_verdict_digest r) = Inr ()"
    by (cases sentinel) auto
  have "nl_verdict (sr_core r) = Green"
    using validate_decision_binding_parts(3) [OF b] r
    by (simp add: sentinel_binding_ok split: if_splits)
  from that [OF r this b m v] show ?thesis .
qed

lemma validate_safety_decision_parts:
  assumes "validate_safety_decision E y safety capability latch kern = Inr v"
  shows "ya_negative_effects (yu_core y) = fc_negative_effects (sf_core safety)"
    "validate_safety_effects E (ya_negative_effects (yu_core y)) kern = Inr ()"
    "ya_positive_authority_decision_forbidden (yu_core y)"
    "ya_sentinel_red_verdict_digest (yu_core y) = fc_sentinel_red_verdict_digest (sf_core safety)"
    "ya_red_latch_receipt_digest (yu_core y) = rl_latch_receipt_digest latch"
  using assms unfolding validate_safety_decision_def by (auto simp: Let_def)

section \<open>Capabilities\<close>

lemma validate_autonomy_capability_parts:
  assumes "validate_autonomy_capability E a decision intent g ep sentinel now_ms = Inr v"
  shows "capability_decision_check (au_core a) decision = Inr ()"
    "ap_issued_at (au_core a) \<le> now_ms" "now_ms < ap_expires_at (au_core a)"
    "sc_issued_at (si_core intent) \<le> ap_issued_at (au_core a)"
    "ap_expires_at (au_core a) \<le> sc_expires_at (si_core intent)"
    "\<not> ae_issuance_frozen ep" "ae_safety_state ep = Healthy"
    "\<forall>(f, e, o') \<in> set (capability_strings (au_core a) decision intent g). e = o'"
    "\<not> capability_fields_differ (au_core a) decision intent ep"
    "capability_binding_check decision intent = Inr ()"
    "validate_grant_at E g now_ms = Inr ()" "validate_grant_binding (si_core intent) g = Inr ()"
    "capability_sentinel_check (au_core a) intent sentinel now_ms = Inr ()"
    "au_capability_digest a = compute_capability_digest E a"
    "\<exists>w. validate_canonical_core E intent now_ms = Inr w"
  using assms unfolding validate_autonomy_capability_def
  by (auto simp: Let_def not_less)

lemma capability_decision_ok:
  assumes "capability_decision_check c decision = Inr u"
  shows "decision_variant decision \<in> {Policy, AgentQuorum}"
  using assms unfolding capability_decision_check_def
  by (cases decision) auto

lemma capability_fields:
  assumes "validate_autonomy_capability E a decision intent g ep sentinel now_ms = Inr v"
  shows "ap_requested_budget (au_core a) = sc_requested_budget (si_core intent)"
    "ap_effective_tier (au_core a) = sc_effective_tier (si_core intent)"
    "ap_risk_class (au_core a) = sc_risk_class (si_core intent)"
    "ap_active_mode (au_core a) = sc_active_mode (si_core intent)"
    "ap_autonomy_epoch (au_core a) = sc_autonomy_epoch (si_core intent)"
  using validate_autonomy_capability_parts(9) [OF assms]
  unfolding capability_fields_differ_def Let_def by blast+

lemma capability_named:
  assumes "validate_autonomy_capability E a decision intent g ep sentinel now_ms = Inr v"
  shows "ap_intent_digest (au_core a) = si_intent_digest intent"
    "ap_decision_digest (au_core a) = decision_digest decision"
    "ap_grant_digest (au_core a) = ag_grant_digest g"
    "ap_action_class (au_core a) = sc_action_class (si_core intent)"
    "ap_resource_environment_scope_digest (au_core a) =
       sc_resource_environment_scope_digest (si_core intent)"
  using validate_autonomy_capability_parts(8) [OF assms]
  unfolding capability_strings_def Let_def by simp_all

section \<open>Activations\<close>

lemma activation_step_ok:
  "activation_step m m' = Inr u \<longleftrightarrow>
     m = HumanGated \<and> m' = PolicyAutonomous \<or> m = PolicyAutonomous \<and> m' = FullAutonomy"
  by (cases m; cases m') auto

lemma validate_activation_parts:
  assumes "validate_activation E r previous target constitution grants context = Inr v"
  shows "activation_step (ae_active_mode previous) (ae_active_mode target) = Inr ()"
    "ae_autonomy_epoch target = ae_autonomy_epoch previous + 1"
    "decision_variant (ax_authority_decision context) =
       required_prior_authority (ae_active_mode previous)"
    "validate_common E target constitution grants (ax_now_ms context) = Inr ()"
    "ae_activation_receipt_id target = Some (tc_receipt_id (at_core r))"
    "tc_previous_activation_receipt_id (at_core r) = ae_activation_receipt_id previous"
proof -
  from assms obtain gd where t: "\<forall>c \<in> set (activation_tail_checks E r previous target constitution grants context gd). c = Inr ()"
    unfolding validate_activation_def by auto
  then have t': "\<not> activation_previous_differs (at_core r) previous"
    "\<not> activation_target_differs (at_core r) previous target constitution"
    "decision_variant (ax_authority_decision context) = required_prior_authority (ae_active_mode previous)"
    unfolding activation_tail_checks_def by (auto simp: Let_def)
  then show "ae_autonomy_epoch target = ae_autonomy_epoch previous + 1"
    "ae_activation_receipt_id target = Some (tc_receipt_id (at_core r))"
    "tc_previous_activation_receipt_id (at_core r) = ae_activation_receipt_id previous"
    "decision_variant (ax_authority_decision context) = required_prior_authority (ae_active_mode previous)"
    unfolding activation_target_differs_def activation_previous_differs_def by auto
  from t show "activation_step (ae_active_mode previous) (ae_active_mode target) = Inr ()"
    "validate_common E target constitution grants (ax_now_ms context) = Inr ()"
    unfolding activation_tail_checks_def by (auto simp: Let_def)
qed

end
