(* ===== verification/Runtime_Laws.thy ===== *)
theory Runtime_Laws
  imports Runtime_Transitions Autonomy_Authority
begin

text \<open>
  Laws of the durable runtime that its properties share: how a method of the store composes, what
  a successful commit establishes, what a failed one leaves alone, and what the validator of a
  state guarantees, written out as facts about the state.
\<close>

section \<open>Methods\<close>

lemma rt_then_ok:
  "rt_then m f s = (s'', Inr y) \<longleftrightarrow> (\<exists>s' x. m s = (s', Inr x) \<and> f x s' = (s'', Inr y))"
  by (auto simp: rt_then_def split: prod.splits sum.splits)

lemma rt_pure_eq: "rt_pure r s = (s', x) \<longleftrightarrow> s' = s \<and> r = x"
  by (auto simp: rt_pure_def)

lemma rt_poisoning_ok: "rt_poisoning m s = (s', Inr x) \<longleftrightarrow> m s = (s', Inr x)"
  by (auto simp: rt_poisoning_def split: prod.splits sum.splits)

lemmas rt_ok = rt_then_ok rt_pure_eq rt_poisoning_ok

text \<open>
  A method keeps what \<open>P\<close> says of the store before and after, whatever its result.
\<close>

definition rt_keeps :: "('b runtime_store \<Rightarrow> 'c) \<Rightarrow> ('b, 'a) rt \<Rightarrow> bool" where
  "rt_keeps P m \<longleftrightarrow> (\<forall>s. P (fst (m s)) = P s)"

lemma rt_keepsD: "rt_keeps P m \<Longrightarrow> m s = (s', r) \<Longrightarrow> P s' = P s"
  unfolding rt_keeps_def by (metis fst_conv)

lemma rt_keeps_then: "rt_keeps P m \<Longrightarrow> (\<And>x. rt_keeps P (f x)) \<Longrightarrow> rt_keeps P (rt_then m f)"
  by (auto simp: rt_keeps_def rt_then_def split: prod.splits sum.splits) (metis fst_conv)+

lemma rt_keeps_pure [simp]: "rt_keeps P (rt_pure r)"
  by (simp add: rt_keeps_def rt_pure_def)

lemma rt_keeps_poisoning:
  "rt_keeps P m \<Longrightarrow> (\<And>s. P (s\<lparr>sx_poisoned := True\<rparr>) = P s) \<Longrightarrow> rt_keeps P (rt_poisoning m)"
  unfolding rt_keeps_def rt_poisoning_def by (auto split: prod.splits sum.splits) (metis fst_conv)+

definition rt_frame :: "'b runtime_store \<Rightarrow> runtime_config \<times> (string \<Rightarrow> bytes option) \<times> runtime_state option" where
  "rt_frame s = (sx_config s, sx_objects s, sx_state s)"

lemma append_record_keeps [simp]: "rt_keeps rt_frame (append_record E io payload)"
  by (auto simp: rt_keeps_def append_record_def rt_frame_def Let_def split: option.splits)

lemma append_commit_keeps [simp]: "rt_keeps rt_frame (append_commit E io tid d c)"
  by (simp add: append_commit_def [abs_def])

lemma swap_root_keeps [simp]: "rt_keeps rt_frame (swap_root env operation expected next_root)"
  by (auto simp: rt_keeps_def swap_root_def rt_frame_def split: prod.splits sum.splits)

lemma poisoning_keeps [simp]: "rt_keeps rt_frame m \<Longrightarrow> rt_keeps rt_frame (rt_poisoning m)"
  by (rule rt_keeps_poisoning) (auto simp: rt_frame_def)

lemmas record_frame = rt_keepsD [OF append_record_keeps]
  and commit_frame = rt_keepsD [OF append_commit_keeps]
  and swap_frame = rt_keepsD [OF swap_root_keeps]

section \<open>Sealing\<close>

lemma seal_state_fields [simp]:
  "rs_pending_red (seal_state E t) = rs_pending_red t" "rs_autonomy_epoch (seal_state E t) = rs_autonomy_epoch t"
  "rs_kernel (seal_state E t) = rs_kernel t" "rs_constitution (seal_state E t) = rs_constitution t"
  "rs_active_grants (seal_state E t) = rs_active_grants t" "rs_tier_evidence (seal_state E t) = rs_tier_evidence t"
  "rs_consumed_capability_digests (seal_state E t) = rs_consumed_capability_digests t"
  "rs_intent_index (seal_state E t) = rs_intent_index t"
  "rs_last_valid_mode_before_freeze (seal_state E t) = rs_last_valid_mode_before_freeze t"
  "rs_terminal_red_latches (seal_state E t) = rs_terminal_red_latches t"
  "rs_activation_receipts (seal_state E t) = rs_activation_receipts t"
  "rs_recovery_receipts (seal_state E t) = rs_recovery_receipts t"
  "rs_last_red_latch_epoch (seal_state E t) = rs_last_red_latch_epoch t"
  "rs_sentinel_outbox_tail (seal_state E t) = rs_sentinel_outbox_tail t"
  "rs_generation (seal_state E t) = rs_generation t"
  by (simp_all add: seal_state_def Let_def)

lemma seal_state_idem [simp]: "seal_state E (seal_state E t) = seal_state E t"
  by (simp add: seal_state_def compute_state_digest_def Let_def)

lemma seal_state_digest [simp]: "rs_state_digest (seal_state E t) = compute_state_digest E (seal_state E t)"
  by (simp add: seal_state_def compute_state_digest_def Let_def)

lemma bump_fields [simp]:
  "rs_pending_red (bump t) = rs_pending_red t" "rs_autonomy_epoch (bump t) = rs_autonomy_epoch t"
  "rs_consumed_capability_digests (bump t) = rs_consumed_capability_digests t"
  "rs_intent_index (bump t) = rs_intent_index t" "rs_tier_evidence (bump t) = rs_tier_evidence t"
  "rs_last_valid_mode_before_freeze (bump t) = rs_last_valid_mode_before_freeze t"
  "rs_kernel (bump t) = rs_kernel t" "rs_constitution (bump t) = rs_constitution t"
  "rs_active_grants (bump t) = rs_active_grants t"
  "rs_terminal_red_latches (bump t) = rs_terminal_red_latches t"
  by (simp_all add: bump_def)

section \<open>Commit\<close>

lemma rt_then_pure_ok:
  "rt_then (rt_pure r) f s = (s', Inr y) \<longleftrightarrow> (\<exists>x. r = Inr x \<and> f x s = (s', Inr y))"
  by (auto simp: rt_ok)

lemma rt_then_poisoning_ok: "rt_then (rt_poisoning m) f s = (s', Inr y) \<longleftrightarrow> rt_then m f s = (s', Inr y)"
  by (auto simp: rt_ok)

text \<open>The names of a commit: the sealed state, the transition, its \<open>PREPARE\<close> and the two roots.\<close>

definition transition_prepare ::
  "'b runtime_env \<Rightarrow> transition_kind \<Rightarrow> runtime_state \<Rightarrow> 'b runtime_store \<Rightarrow> journal_payload" where
  "transition_prepare env kind t s =
     (let E = ve_platform env; previous = map_option rs_state_digest (sx_state s) in
      Prepare (transition_id_of E kind previous (rs_state_digest (seal_state E t)) (sx_next_sequence s))
        kind previous (seal_state E t))"

definition transition_name ::
  "'b runtime_env \<Rightarrow> transition_kind \<Rightarrow> runtime_state \<Rightarrow> 'b runtime_store \<Rightarrow> string" where
  "transition_name env kind t s =
     transition_id_of (ve_platform env) kind (map_option rs_state_digest (sx_state s))
       (rs_state_digest (seal_state (ve_platform env) t)) (sx_next_sequence s)"

lemma commit_transition_steps:
  assumes "commit_transition env io kind t now s = (s', Inr ())"
  obtains s1 s2 s3 s4 prepare commit E tid nt where
    "E = ve_platform env" "nt = seal_state E t" "tid = transition_name env kind t s"
    "ensure_usable s = Inr ()" "validate_state E (sx_config s) nt now = Inr ()"
    "verify_state_artifacts E (ve_verifier env) nt now = Inr ()"
    "append_record E (fst io) (transition_prepare env kind t s) s = (s1, Inr prepare)"
    "swap_root env ''prepare_compare_and_swap'' (sx_protected_root s)
       (protected_root_for_record E RootPrepared tid prepare nt) s1 = (s2, Inr ())"
    "append_commit E (snd io) tid (jr_record_digest prepare) (rs_state_digest nt) s2 = (s3, Inr commit)"
    "swap_root env ''commit_compare_and_swap''
       (Some (protected_root_for_record E RootPrepared tid prepare nt))
       (protected_root_for_record E RootCommitted tid commit nt) s3 = (s4, Inr ())"
    "s' = s4\<lparr>sx_state := Some nt\<rparr>"
  using assms unfolding commit_transition_def Let_def rt_then_pure_ok rt_then_poisoning_ok
    transition_prepare_def transition_name_def
  by (clarsimp simp: rt_ok)

lemma commit_transition_ok:
  assumes "commit_transition env io kind t now s = (s', Inr ())"
  shows "\<not> sx_poisoned s" "sx_state s' = Some (seal_state (ve_platform env) t)"
    "sx_config s' = sx_config s" "sx_objects s' = sx_objects s"
    "validate_state (ve_platform env) (sx_config s) (seal_state (ve_platform env) t) now = Inr ()"
    "verify_state_artifacts (ve_platform env) (ve_verifier env) (seal_state (ve_platform env) t) now = Inr ()"
proof (atomize (full), goal_cases)
  case 1
  from assms show ?case
  proof (rule commit_transition_steps, goal_cases)
    case (1 s1 s2 s3 s4 prepare commit E tid nt)
    have "rt_frame s1 = rt_frame s" "rt_frame s2 = rt_frame s1" "rt_frame s3 = rt_frame s2" "rt_frame s4 = rt_frame s3"
      using 1(7-10) by (simp_all add: record_frame commit_frame swap_frame)
    with 1 show ?case by (simp add: ensure_usable_def rt_frame_def)
  qed
qed

text \<open>A commit that failed left the state in memory alone.\<close>

lemma rt_then_err_frame:
  "rt_keeps P m \<Longrightarrow> (\<And>x u u'. f x u = (u', Inl e) \<Longrightarrow> P u' = P u) \<Longrightarrow> rt_then m f s = (s', Inl e) \<Longrightarrow> P s' = P s"
  unfolding rt_then_def by (auto split: prod.splits sum.splits) (metis rt_keepsD)+

lemma commit_transition_err:
  "commit_transition env io kind t now s = (s', Inl e) \<Longrightarrow> rt_frame s' = rt_frame s"
  unfolding commit_transition_def Let_def
  by (erule rt_then_err_frame [rotated 2], simp)+ simp

lemma commit_transition_frame:
  "commit_transition env io kind t now s = (s', r) \<Longrightarrow> sx_config s' = sx_config s \<and> sx_objects s' = sx_objects s"
  using commit_transition_err [of env io kind t now s s'] commit_transition_ok(3,4) [of env io kind t now s s']
  by (cases r) (auto simp: rt_frame_def)

lemma commit_next_ok:
  assumes "commit_next env io kind next_of now s = (s', Inr ())"
  obtains t where "next_of s = Inr t" "commit_transition env io kind t now s = (s', Inr ())"
  using assms unfolding commit_next_def by (auto simp: rt_ok)

lemma commit_next_err: "commit_next env io kind next_of now s = (s', Inl e) \<Longrightarrow> rt_frame s' = rt_frame s"
  unfolding commit_next_def rt_then_def rt_pure_def
  by (auto split: sum.splits dest: commit_transition_err)


text \<open>
  The runtime as a system: the calls a client can make, the stores they can lead to, the type of
  a state (\<open>typed_state\<close>, what the components of a state owe one another) and the fence, a small
  automaton that the RED pipeline and every other call refine.
\<close>

section \<open>Calls\<close>

datatype runtime_call =
    CallBootstrap safety_kernel independence_spec constitution_store autonomy_epoch
  | CallEvidence tier_evidence
  | CallSovereign sovereign_intent
  | CallRecoveryIntent sovereign_intent
  | CallSafetyIntent safety_intent
  | CallActivate activation_request
  | CallConsume consume_request
  | CallRed string sentinel_record red_outbox
  | CallLatch red_outbox red_latch
  | CallSafety safety_request
  | CallRecover recovery_request

definition no_result :: "('b, 'a) rt \<Rightarrow> ('b, unit) rt" where
  "no_result m = rt_then m (\<lambda>_. rt_pure (Ok ()))"

fun run_call ::
  "'b runtime_env \<Rightarrow> object_io \<Rightarrow> transition_io \<Rightarrow> runtime_call \<Rightarrow> u64 \<Rightarrow> ('b, unit) rt" where
  "run_call env oio io (CallBootstrap kern independence constitution ep) now =
     runtime_bootstrap env io kern independence constitution ep now"
| "run_call env oio io (CallEvidence t) now = record_tier_evidence env io t now"
| "run_call env oio io (CallSovereign i) now = no_result (persist_sovereign_intent env oio io i now)"
| "run_call env oio io (CallRecoveryIntent i) now = no_result (persist_recovery_intent env oio io i now)"
| "run_call env oio io (CallSafetyIntent i) now = no_result (persist_safety_intent env oio io i now)"
| "run_call env oio io (CallActivate q) now = activate_mode env io q now"
| "run_call env oio io (CallConsume q) now = no_result (consume_autonomy_capability env io q now)"
| "run_call env oio io (CallRed d v x) now = persist_sentinel_red env io d v x now"
| "run_call env oio io (CallLatch x l) now = latch_sentinel_red env io x l now"
| "run_call env oio io (CallSafety q) now = commit_red_safety_transition env io q now"
| "run_call env oio io (CallRecover q) now = recover_from_frozen env io q now"

fun call_kind :: "runtime_call \<Rightarrow> transition_kind" where
  "call_kind (CallBootstrap _ _ _ _) = Bootstrap"
| "call_kind (CallEvidence _) = TierEvidenceRecorded"
| "call_kind (CallSovereign _) = IntentStored"
| "call_kind (CallRecoveryIntent _) = IntentStored"
| "call_kind (CallSafetyIntent _) = IntentStored"
| "call_kind (CallActivate _) = ModeActivated"
| "call_kind (CallConsume _) = CapabilityConsumed"
| "call_kind (CallRed _ _ _) = SentinelRedPersisted"
| "call_kind (CallLatch _ _) = RedLatched"
| "call_kind (CallSafety _) = RedSafetyCommitted"
| "call_kind (CallRecover _) = RecoveredFromFrozen"

text \<open>The state a call builds from the store it finds, when it builds one.\<close>

definition index_next :: "platform \<Rightarrow> runtime_state \<Rightarrow> intent_entry \<Rightarrow> runtime_state" where
  "index_next E t e = seal_state E ((bump t)\<lparr>rs_intent_index := fmupd (ie_intent_digest e) e (rs_intent_index t)\<rparr>)"

definition indexes :: "platform \<Rightarrow> stored_intent_kind \<Rightarrow> string \<Rightarrow> runtime_state \<Rightarrow> runtime_state \<Rightarrow> bool" where
  "indexes E kind d t t' \<longleftrightarrow> (\<exists>e. ie_kind e = kind \<and> ie_intent_digest e = d \<and>
     fmlookup (rs_intent_index t) d = None \<and> t' = index_next E t e)"

fun builds :: "'b runtime_env \<Rightarrow> 'b runtime_store \<Rightarrow> runtime_call \<Rightarrow> u64 \<Rightarrow> runtime_state \<Rightarrow> bool" where
  "builds env s (CallBootstrap kern independence constitution ep) now t' \<longleftrightarrow>
     bootstrap_next env s kern independence constitution ep now = Inr t'"
| "builds env s (CallEvidence t) now t' \<longleftrightarrow> record_evidence_next env s t now = Inr t'"
| "builds env s (CallSovereign i) now t' \<longleftrightarrow> ensure_positive_unfrozen s = Inr () \<and>
     (\<exists>t. sx_state s = Some t \<and> indexes (ve_platform env) StoredSovereign (si_intent_digest i) t t')"
| "builds env s (CallRecoveryIntent i) now t' \<longleftrightarrow>
     (\<exists>t. sx_state s = Some t \<and> validate_recovery_intent_shape t i = Inr () \<and>
        indexes (ve_platform env) StoredSovereign (si_intent_digest i) t t')"
| "builds env s (CallSafetyIntent i) now t' \<longleftrightarrow>
     (\<exists>t. sx_state s = Some t \<and> (\<exists>pl. pending_latched t = Inr pl) \<and>
        indexes (ve_platform env) StoredSafety (sf_safety_intent_digest i) t t')"
| "builds env s (CallActivate q) now t' \<longleftrightarrow> activate_next env s q now = Inr t'"
| "builds env s (CallConsume q) now t' \<longleftrightarrow> (\<exists>i. consume_next env s q now = Inr (i, t'))"
| "builds env s (CallRed d v x) now t' \<longleftrightarrow> sentinel_red_next env s d v x now = Inr t'"
| "builds env s (CallLatch x l) now t' \<longleftrightarrow> latch_red_next env s x l now = Inr t'"
| "builds env s (CallSafety q) now t' \<longleftrightarrow> red_safety_next env s q now = Inr t'"
| "builds env s (CallRecover q) now t' \<longleftrightarrow> recover_next env s q now = Inr t'"

text \<open>
  What a call does to a store: at most objects were added, or it wrote the object of an intent
  and ran the commit of the state it built, whose result it returns.
\<close>

definition call_effect ::
  "'b runtime_env \<Rightarrow> transition_io \<Rightarrow> runtime_call \<Rightarrow> u64 \<Rightarrow> 'b runtime_store \<Rightarrow>
   'b runtime_store \<times> (runtime_error + unit) \<Rightarrow> bool" where
  "call_effect env io c now s sr \<longleftrightarrow>
     (\<exists>objs. sx_objects s \<subseteq>\<^sub>m objs \<and> fst sr = s\<lparr>sx_objects := objs\<rparr> \<and>
        (snd sr = Inr () \<longrightarrow> call_kind c = IntentStored \<and> sx_state s \<noteq> None)) \<or>
     (\<exists>objs t' r'. sx_objects s \<subseteq>\<^sub>m objs \<and> builds env s c now t' \<and>
        commit_transition env io (call_kind c) t' now (s\<lparr>sx_objects := objs\<rparr>) = (fst sr, r') \<and>
        (snd sr = Inr () \<longleftrightarrow> r' = Inr ()))"

lemma call_effect_nothing [intro]: "call_effect env io c now s (s, Inl e)"
  unfolding call_effect_def by (rule disjI1, rule exI [of _ "sx_objects s"]) simp

lemma call_effect_commit [intro]:
  assumes "builds env s c now t'" and "sx_objects s \<subseteq>\<^sub>m objs"
    and "commit_transition env io (call_kind c) t' now (s\<lparr>sx_objects := objs\<rparr>) = (s', r')"
    and "r = Inr () \<longleftrightarrow> r' = Inr ()"
  shows "call_effect env io c now s (s', r)"
  using assms unfolding call_effect_def by auto

lemma call_effect_commit_next:
  assumes "\<And>t'. next_of s = Inr t' \<Longrightarrow> builds env s c now t'"
  shows "call_effect env io c now s (commit_next env io (call_kind c) next_of now s)"
proof (cases "next_of s")
  case (Inl e)
  then show ?thesis by (auto simp: commit_next_def rt_then_def rt_pure_def)
next
  case (Inr t')
  obtain s' r where c: "commit_transition env io (call_kind c) t' now s = (s', r)" by fastforce
  then have "commit_transition env io (call_kind c) t' now (s\<lparr>sx_objects := sx_objects s\<rparr>) = (s', r)" by simp
  from call_effect_commit [OF assms [OF Inr] map_le_refl this refl] Inr c show ?thesis
    by (simp add: commit_next_def rt_then_def rt_pure_def)
qed

lemma store_object_effect: "\<exists>objs. sx_objects s \<subseteq>\<^sub>m objs \<and> fst (store_object oio d bs s) = s\<lparr>sx_objects := objs\<rparr>"
proof -
  let ?new = "(sx_objects s)(d := Some bs)"
  have "fst (store_object oio d bs s) = s \<or> sx_objects s d = None \<and> fst (store_object oio d bs s) = s\<lparr>sx_objects := ?new\<rparr>"
    by (auto simp: store_object_def rt_pure_def Let_def split: option.splits)
  then show ?thesis
  proof (elim disjE conjE)
    assume "fst (store_object oio d bs s) = s"
    then show ?thesis by (intro exI [of _ "sx_objects s"]) simp
  next
    assume "sx_objects s d = None" "fst (store_object oio d bs s) = s\<lparr>sx_objects := ?new\<rparr>"
    then show ?thesis by (intro exI [of _ ?new]) (auto simp: map_le_def)
  qed
qed

lemma persist_object_effect:
  assumes "persist_intent_object E oio kind d addr j s = (s', r)"
  shows "\<exists>objs. sx_objects s \<subseteq>\<^sub>m objs \<and> s' = s\<lparr>sx_objects := objs\<rparr>" "r = Inr e \<Longrightarrow> ie_kind e = kind \<and> ie_intent_digest e = d"
proof -
  have "\<exists>objs. sx_objects s \<subseteq>\<^sub>m objs \<and> fst (store_object oio d (canonical_json E j) s) = s\<lparr>sx_objects := objs\<rparr>"
    by (rule store_object_effect)
  then show "\<exists>objs. sx_objects s \<subseteq>\<^sub>m objs \<and> s' = s\<lparr>sx_objects := objs\<rparr>"
    using assms by (auto simp: persist_intent_object_def Let_def rt_then_def rt_pure_def
        split: sum.splits prod.splits intro: exI [of _ "sx_objects s"])
  show "r = Inr e \<Longrightarrow> ie_kind e = kind \<and> ie_intent_digest e = d"
    using assms by (auto simp: persist_intent_object_def Let_def rt_ok)
qed

lemma persist_and_index_effect:
  assumes s: "sx_state s = Some t" and kind: "call_kind c = IntentStored"
    and builds: "\<And>t'. indexes (ve_platform env) k d t t' \<Longrightarrow> builds env s c now t'"
  shows "call_effect env io c now s (no_result (persist_and_index env oio io k d addr j now) s)"
proof -
  obtain s1 r1 where one: "persist_intent_object (ve_platform env) oio k d addr j s = (s1, r1)" by fastforce
  obtain objs where s1: "s1 = s\<lparr>sx_objects := objs\<rparr>" and more: "sx_objects s \<subseteq>\<^sub>m objs" using persist_object_effect(1) [OF one] by blast
  show ?thesis
  proof (cases r1)
    case (Inl e)
    with one s1 more show ?thesis
      by (auto simp: call_effect_def no_result_def persist_and_index_def rt_then_def)
  next
    case (Inr e)
    note e = persist_object_effect(2) [OF one Inr]
    show ?thesis
    proof (cases "fmlookup (rs_intent_index t) d")
      case None
      with e have t': "builds env s c now (index_next (ve_platform env) t e)"
        by (auto intro!: builds simp: indexes_def)
      obtain s2 r2 where two: "commit_transition env io IntentStored (index_next (ve_platform env) t e) now s1 = (s2, r2)"
        by fastforce
      have "index_persisted_intent env io e now s1 = (s2, r2)"
        using two None e s s1
        by (simp add: index_persisted_intent_def rt_then_def rt_pure_def current_state_def index_next_def bump_def)
      with one Inr have "no_result (persist_and_index env oio io k d addr j now) s = (s2, r2)"
        by (cases r2) (auto simp: no_result_def persist_and_index_def rt_then_def rt_pure_def)
      with call_effect_commit [OF t' more, of io s2 r2 r2] two s1 kind show ?thesis by simp
    next
      case (Some old)
      have "\<exists>r. index_persisted_intent env io e now s1 = (s1, r)"
        using Some e s s1
        by (simp add: index_persisted_intent_def rt_then_def rt_pure_def current_state_def)
      then obtain r where "index_persisted_intent env io e now s1 = (s1, r)" by blast
      with one Inr have "fst (no_result (persist_and_index env oio io k d addr j now) s) = s1"
        by (cases r) (auto simp: no_result_def persist_and_index_def rt_then_def rt_pure_def)
      with s1 more s kind show ?thesis by (auto simp: call_effect_def)
    qed
  qed
qed

lemma guarded_persist_effect:
  assumes m: "m s = rt_then (rt_pure r) (\<lambda>_. persist_and_index env oio io k d addr j now) s"
    and kind: "call_kind c = IntentStored"
    and ok: "\<And>u. r = Inr u \<Longrightarrow> \<exists>t. sx_state s = Some t \<and>
      (\<forall>t'. indexes (ve_platform env) k d t t' \<longrightarrow> builds env s c now t')"
  shows "call_effect env io c now s (no_result m s)"
proof (cases r)
  case (Inl e)
  with m show ?thesis by (auto simp: no_result_def rt_then_def rt_pure_def)
next
  case (Inr u)
  then obtain t where t: "sx_state s = Some t"
    "\<And>t'. indexes (ve_platform env) k d t t' \<Longrightarrow> builds env s c now t'" using ok by blast
  have "no_result m s = no_result (persist_and_index env oio io k d addr j now) s"
    using m Inr by (simp add: no_result_def rt_then_def rt_pure_def)
  then show ?thesis using persist_and_index_effect [OF t(1) kind t(2)] by simp
qed

lemma current_state_ok [simp]: "current_state s = Inr t \<longleftrightarrow> sx_state s = Some t"
  by (auto simp: current_state_def)

lemma unfrozen_state: "ensure_positive_unfrozen s = Inr () \<Longrightarrow> \<exists>t. sx_state s = Some t"
  by (auto simp: ensure_positive_unfrozen_def)

lemma consume_effect:
  "call_effect env io (CallConsume q) now s (no_result (consume_autonomy_capability env io q now) s)"
proof (cases "consume_next env s q now")
  case (Inl e)
  then show ?thesis by (auto simp: no_result_def consume_autonomy_capability_def rt_then_def rt_pure_def)
next
  case (Inr it)
  obtain i t' where it: "it = (i, t')" by fastforce
  with Inr have b: "builds env s (CallConsume q) now t'" by auto
  obtain s' r' where c: "commit_transition env io CapabilityConsumed t' now s = (s', r')" by fastforce
  have root: "sx_protected_root s' \<noteq> None" if "r' = Inr ()"
    using c that
    by (auto elim!: commit_transition_steps simp: swap_root_def split: prod.splits sum.splits)
  let ?r = "snd (no_result (consume_autonomy_capability env io q now) s)"
  have "fst (no_result (consume_autonomy_capability env io q now) s) = s' \<and> (?r = Inr () \<longleftrightarrow> r' = Inr ())"
    using Inr it c root commit_transition_ok(2) [of env io CapabilityConsumed t' now s s']
    by (cases r') (auto simp: no_result_def consume_autonomy_capability_def rt_then_def rt_pure_def current_state_def)
  with c have s': "commit_transition env io (call_kind (CallConsume q)) t' now (s\<lparr>sx_objects := sx_objects s\<rparr>) =
      (fst (no_result (consume_autonomy_capability env io q now) s), r')" "?r = Inr () \<longleftrightarrow> r' = Inr ()"
    by simp_all
  show ?thesis using call_effect_commit [OF b map_le_refl s'] by simp
qed

lemma call_effect_commit_kind:
  "call_kind c = k \<Longrightarrow> (\<And>t'. f s = Inr t' \<Longrightarrow> builds env s c now t') \<Longrightarrow>
    call_effect env io c now s (commit_next env io k f now s)"
  using call_effect_commit_next by blast

lemmas call_definitions = runtime_bootstrap_def record_tier_evidence_def activate_mode_def
  persist_sentinel_red_def latch_sentinel_red_def commit_red_safety_transition_def recover_from_frozen_def

theorem run_call_effect: "call_effect env io c now s (run_call env oio io c now s)"
proof (cases c)
  case (CallSovereign i)
  show ?thesis unfolding CallSovereign run_call.simps
    by (rule guarded_persist_effect [OF persist_sovereign_intent_def])
      (auto dest: unfrozen_state)
next
  case (CallRecoveryIntent i)
  show ?thesis unfolding CallRecoveryIntent run_call.simps
    by (rule guarded_persist_effect [OF persist_recovery_intent_def]) auto
next
  case (CallSafetyIntent i)
  show ?thesis unfolding CallSafetyIntent run_call.simps
    by (rule guarded_persist_effect [OF persist_safety_intent_def]) auto
next
  case (CallConsume q)
  then show ?thesis by (simp add: consume_effect)
qed (simp only: run_call.simps call_definitions, rule call_effect_commit_kind; simp)+

end
