(* ===== verification/Runtime_Disk.thy ===== *)
theory Runtime_Disk
  imports Runtime_Laws
begin

text \<open>
  What is on disk between two processes.  The journal and the protected root of a store denote one
  state, \<open>disk_ok\<close>; the lemmas follow the appends and compare-and-swaps of a commit and of a
  recovery, each of which may fail, tear the journal or be reported failed after it was done, and
  show how that state moves: never elsewhere than from the old state to the new one.

  The laws of the protected root are the locale \<open>root_backend\<close>, interpreted on the backend of the
  source's own tests.
\<close>

section \<open>The protected root\<close>

text \<open>A compare-and-swap that is reported failed may still have been done.\<close>

locale protected_root_backend =
  fixes B :: "'b root_backend"
  assumes swapped: "rb_compare_and_swap B b expected next_root = (b', Inr ()) \<Longrightarrow>
      rb_load B b = Inr expected \<and> rb_load B b' = Inr (Some next_root)"
    and unsure: "rb_compare_and_swap B b expected next_root = (b', Inl e) \<Longrightarrow>
      rb_load B b' = rb_load B b \<or> rb_load B b = Inr expected \<and> rb_load B b' = Inr (Some next_root)"

text \<open>\<open>SharedProtectedBackend\<close>, with its injected failure.\<close>

record shared_backend =
  hb_root :: "protected_root option"
  hb_cas_calls :: u64
  hb_fail_on_call :: "u64 option"

definition shared_compare_and_swap ::
  "shared_backend \<Rightarrow> protected_root option \<Rightarrow> protected_root \<Rightarrow> shared_backend \<times> (string + unit)" where
  "shared_compare_and_swap b expected next_root =
     (let calls = saturating_add (hb_cas_calls b) 1; b = b\<lparr>hb_cas_calls := calls\<rparr> in
      if hb_fail_on_call b = Some calls
      then (b\<lparr>hb_fail_on_call := None\<rparr>, Err ''injected protected CAS interruption'')
      else if hb_root b \<noteq> expected then (b, Err ''compare-and-swap mismatch'')
      else (b\<lparr>hb_root := Some next_root\<rparr>, Ok ()))"

definition shared_protected_backend :: "shared_backend root_backend" where
  "shared_protected_backend = \<lparr>rb_assurance = SoftwareTestOnlyNotProduction, rb_load = (\<lambda>b. Ok (hb_root b)),
     rb_compare_and_swap = shared_compare_and_swap\<rparr>"

interpretation shared_root: protected_root_backend shared_protected_backend
  by unfold_locales
    (auto simp: shared_protected_backend_def shared_compare_and_swap_def Let_def split: if_splits)

lemma protected_root_fields [simp]:
  "pr_phase (protected_root_for_record E phase tid r t) = phase"
  "pr_transition_id (protected_root_for_record E phase tid r t) = tid"
  "pr_journal_record_digest (protected_root_for_record E phase tid r t) = jr_record_digest r"
  "pr_journal_sequence (protected_root_for_record E phase tid r t) = jr_sequence r"
  "pr_state_digest (protected_root_for_record E phase tid r t) = rs_state_digest t"
  by (simp_all add: protected_root_for_record_def seal_root_def)

section \<open>The journal\<close>

definition parses_journal :: "'b runtime_env \<Rightarrow> bool" where
  "parses_journal env \<longleftrightarrow> (\<forall>r. ve_parse_record env (journal_line (ve_platform env) r) = Inr r)"

lemma journal_line_good:
  assumes "serde_writer E"
  shows "journal_line E r \<noteq> [] \<and> newline \<notin> set (journal_line E r)"
proof
  show "journal_line E r \<noteq> []"
    by (simp add: journal_line_def canonical_json_def json_of_journal_record_def)
  show "newline \<notin> set (journal_line E r)"
    unfolding journal_line_def newline_def by (rule canonical_json_no_newline [OF assms])
qed

fun run_lines ::
  "'b runtime_env \<Rightarrow> nat \<Rightarrow> bytes list \<Rightarrow> journal_replay \<Rightarrow> runtime_error + journal_replay" where
  "run_lines env i [] p = Ok p"
| "run_lines env i (l # ls) p =
     and_then (replay_journal_line (ve_platform env) (ve_parse_record env) (i + 1) l p) (run_lines env (i + 1) ls)"

lemma run_lines_snoc:
  "run_lines env i (ls @ [l]) p = and_then (run_lines env i ls p)
     (replay_journal_line (ve_platform env) (ve_parse_record env) (i + length ls + 1) l)"
proof (induction ls arbitrary: i p)
  case Nil
  show ?case by (cases "replay_journal_line (ve_platform env) (ve_parse_record env) (i + 1) l p") auto
next
  case (Cons k ls)
  show ?case by (cases "replay_journal_line (ve_platform env) (ve_parse_record env) (i + 1) k p") (auto simp: Cons.IH)
qed

lemma replay_journal_lines_eq:
  "[] \<notin> set ls \<Longrightarrow> n = i + length ls + 1 \<Longrightarrow>
     replay_journal_lines (ve_platform env) (ve_parse_record env) n i (ls @ [[]]) p = run_lines env i ls p"
proof (induction ls arbitrary: i p)
  case Nil
  then show ?case by simp
next
  case (Cons l ls)
  then show ?case
    by (cases "replay_journal_line (ve_platform env) (ve_parse_record env) (i + 1) l p") auto
qed

definition journal_reads :: "'b runtime_env \<Rightarrow> bytes \<Rightarrow> journal_replay \<Rightarrow> bool" where
  "journal_reads env bs p \<longleftrightarrow> (\<exists>ls. bs = log_bytes ls \<and> good_lines ls \<and> run_lines env 0 ls empty_replay = Inr p)"

definition journal_torn :: "bytes \<Rightarrow> bool" where
  "journal_torn bs \<longleftrightarrow> bs \<noteq> [] \<and> last bs \<noteq> newline"

lemma journal_reads_empty: "journal_reads env [] empty_replay"
  unfolding journal_reads_def by (rule exI [of _ "[]"]) (simp add: good_lines_def)

lemma journal_reads_replay:
  assumes "journal_reads env bs p"
  shows "replay_journal (ve_platform env) (ve_parse_record env) bs = Inr (p\<lparr>jp_known_len := of_nat (length bs)\<rparr>)"
proof -
  obtain ls where ls: "bs = log_bytes ls" "good_lines ls" "run_lines env 0 ls empty_replay = Inr p"
    using assms by (auto simp: journal_reads_def)
  have "\<not> (bs \<noteq> [] \<and> last bs \<noteq> newline)" using log_bytes_last ls(1) by blast
  with ls show ?thesis
    by (auto simp: replay_journal_def Let_def split_newline_log replay_journal_lines_eq good_lines_nonempty)
qed

lemma journal_torn_replay:
  "journal_torn bs \<Longrightarrow> \<exists>e. replay_journal E parse bs = Inl e"
  by (auto simp: journal_torn_def replay_journal_def)

lemma journal_reads_same: "journal_reads env bs p \<Longrightarrow> journal_reads env bs q \<Longrightarrow> p\<lparr>jp_known_len := n\<rparr> = q\<lparr>jp_known_len := n\<rparr>"
  using journal_reads_replay [of env bs p] journal_reads_replay [of env bs q]
  by (cases p; cases q) auto

text \<open>The next record of a store that has read its journal, and the journal with it.\<close>

definition tracks :: "'b runtime_store \<Rightarrow> journal_replay \<Rightarrow> bool" where
  "tracks s p \<longleftrightarrow> sx_next_sequence s = jp_next_sequence p \<and> sx_tail_digest s = jp_tail_digest p"

definition advanced :: "platform \<Rightarrow> journal_record \<Rightarrow> journal_replay \<Rightarrow> journal_replay \<Rightarrow> journal_replay" where
  "advanced E r p q = q\<lparr>jp_next_sequence := saturating_add (jp_next_sequence p) 1, jp_tail_digest := Some (jr_record_digest r)\<rparr>"

lemma next_record_fields [simp]:
  "jr_schema (next_journal_record E s payload) = AUTONOMY_JOURNAL_RECORD_SCHEMA"
  "jr_sequence (next_journal_record E s payload) = sx_next_sequence s"
  "jr_previous_record_digest (next_journal_record E s payload) = sx_tail_digest s"
  "jr_payload (next_journal_record E s payload) = payload"
  "compute_journal_digest E (next_journal_record E s payload) = jr_record_digest (next_journal_record E s payload)"
  by (simp_all add: next_journal_record_def seal_journal_record_def compute_journal_digest_def)

lemma journal_reads_append:
  assumes "serde_writer (ve_platform env)" "parses_journal env" "journal_reads env (sx_journal s) p" "tracks s p"
    and "r = next_journal_record (ve_platform env) s payload"
    and "\<And>n. replay_payload (ve_platform env) n r payload p = Inr q"
  shows "journal_reads env (sx_journal s @ journal_line (ve_platform env) r @ [newline]) (advanced (ve_platform env) r p q)"
proof -
  obtain ls where ls: "sx_journal s = log_bytes ls" "good_lines ls" "run_lines env 0 ls empty_replay = Inr p"
    using assms(3) by (auto simp: journal_reads_def)
  let ?l = "journal_line (ve_platform env) r"
  have "replay_journal_line (ve_platform env) (ve_parse_record env) n ?l p = Inr (advanced (ve_platform env) r p q)" for n
    using assms(2,4,5,6) by (simp add: replay_journal_line_def parses_journal_def tracks_def advanced_def)
  with ls have "run_lines env 0 (ls @ [?l]) empty_replay = Inr (advanced (ve_platform env) r p q)"
    by (simp add: run_lines_snoc)
  moreover have "good_lines (ls @ [?l])"
    using ls(2) journal_line_good [OF assms(1), of r] by (simp add: good_lines_def)
  ultimately show ?thesis
    using ls(1) unfolding journal_reads_def by (intro exI [of _ "ls @ [?l]"]) simp
qed

lemma partial_line:
  assumes "newline \<notin> set l" and "bs = [] \<or> last bs = newline"
  shows "bs @ take n (l @ [newline]) = bs \<or> journal_torn (bs @ take n (l @ [newline])) \<or>
    bs @ take n (l @ [newline]) = bs @ l @ [newline]"
proof (cases "n = 0 \<or> l = [] \<or> length l < n")
  case True
  then show ?thesis by (cases n) auto
next
  case False
  then have n: "take n (l @ [newline]) = take n l" "take n l \<noteq> []" by auto
  then have "last (take n l) \<in> set l" by (meson in_set_takeD last_in_set)
  with assms(1) n show ?thesis by (auto simp: journal_torn_def)
qed

end
