(* ===== verification/Runtime_Typed.thy ===== *)
theory Runtime_Typed
  imports Runtime_Laws
begin

text \<open>
  The type of a runtime state: what \<open>validate_state\<close> makes of its components, written as facts
  about the state rather than as checks, and the proof that every state a store ever presents has
  it - whatever was on disk when the store was opened, and whatever calls were made since.
\<close>

section \<open>The type\<close>

text \<open>The RED fence and the epoch agree.\<close>

definition fence_coherent :: "runtime_state \<Rightarrow> bool" where
  "fence_coherent t \<longleftrightarrow>
     (let ep = rs_autonomy_epoch t in
      (ae_safety_state ep = Healthy \<longleftrightarrow> \<not> ae_issuance_frozen ep) \<and>
      (rs_pending_red t \<noteq> None \<longleftrightarrow> ae_safety_state ep = PendingRed) \<and>
      (rs_last_valid_mode_before_freeze t \<noteq> None \<longleftrightarrow> ae_safety_state ep = Frozen) \<and>
      (\<forall>p. rs_pending_red t = Some p \<longrightarrow> nl_verdict (sr_core (pq_verdict p)) = Red \<and>
         pq_source_intent_digest p = nl_intent_digest (sr_core (pq_verdict p)) \<and>
         rs_sentinel_outbox_tail t = Some (pq_outbox p)) \<and>
      (ae_safety_state ep = Frozen \<longrightarrow> latest_latch_retained t))"

text \<open>The evidence of a subject climbs the tiers from \<open>A0\<close> on, a link at a time.\<close>

definition lane_climbs :: "platform \<Rightarrow> string \<Rightarrow> tier_evidence list \<Rightarrow> bool" where
  "lane_climbs E subject lane \<longleftrightarrow> lane \<noteq> [] \<and> length lane \<le> 6 \<and>
     (\<forall>i < length lane. let t = lane ! i in
        te_subject_id t = subject \<and> tier_rank (te_tier t) = i \<and>
        te_previous_evidence_digest t = (if i = 0 then None else Some (te_evidence_digest (lane ! (i - 1)))) \<and>
        te_evidence_digest t = compute_evidence_digest E t \<and> \<not> evidence_self_promotes t)"

text \<open>The terminal latches are kept under their epochs, none above the watermark.\<close>

definition latches_recorded :: "runtime_state \<Rightarrow> bool" where
  "latches_recorded t \<longleftrightarrow>
     (\<forall>k l. fmlookup (rs_terminal_red_latches t) k = Some l \<longrightarrow>
        parse_u64 k = Some (lc_latch_epoch (rl_core l)) \<and> lc_state (rl_core l) = LatchTerminal \<and>
        lc_latch_epoch (rl_core l) \<le> rs_last_red_latch_epoch t)"

definition grants_current :: "platform \<Rightarrow> runtime_state \<Rightarrow> bool" where
  "grants_current E t \<longleftrightarrow>
     (let ep = rs_autonomy_epoch t in
      compute_grants_digest E (rs_active_grants t) = Inr (ae_grants_digest ep) \<and>
      ae_active_mode ep \<in> kc_allowed_autonomy_modes (ks_core (rs_constitution t)) \<and>
      ae_constitution_digest ep = ks_constitution_digest (rs_constitution t) \<and>
      (ae_active_mode ep \<noteq> HumanGated \<longrightarrow> rs_active_grants t \<noteq> []) \<and>
      (\<forall>g \<in> set (rs_active_grants t). gc_mode (ag_core g) = ae_active_mode ep \<and>
         gc_autonomy_epoch (ag_core g) = ae_autonomy_epoch ep))"

definition indexed_by_key :: "runtime_state \<Rightarrow> bool" where
  "indexed_by_key t \<longleftrightarrow>
     (\<forall>k e. fmlookup (rs_intent_index t) k = Some e \<longrightarrow> ie_intent_digest e = k) \<and>
     (\<forall>k r. fmlookup (rs_activation_receipts t) k = Some r \<longrightarrow> tc_receipt_id (at_core r) = k) \<and>
     (\<forall>k r. fmlookup (rs_recovery_receipts t) k = Some r \<longrightarrow> vc_receipt_id (vr_core r) = k)"

definition lineage_kept :: "runtime_state \<Rightarrow> bool" where
  "lineage_kept t \<longleftrightarrow> (0 < ae_autonomy_epoch (rs_autonomy_epoch t) \<longrightarrow>
     (\<exists>l. ae_activation_receipt_id (rs_autonomy_epoch t) = Some l \<and> lineage_recognised t l))"

definition self_sealed :: "platform \<Rightarrow> runtime_state \<Rightarrow> bool" where
  "self_sealed E t \<longleftrightarrow> rs_state_digest t = compute_state_digest E t \<and>
     rs_intent_store_root_digest t = compute_intent_store_root E (rs_intent_index t)"

definition typed_state :: "platform \<Rightarrow> runtime_config \<Rightarrow> runtime_state \<Rightarrow> bool" where
  "typed_state E cfg t \<longleftrightarrow> rs_durability_domain_id t = fg_durability_domain_id cfg \<and>
     fence_coherent t \<and> (\<forall>k lane. fmlookup (rs_tier_evidence t) k = Some lane \<longrightarrow> lane_climbs E k lane) \<and>
     latches_recorded t \<and> grants_current E t \<and> indexed_by_key t \<and> lineage_kept t \<and> self_sealed E t"

section \<open>What the validator gives\<close>

lemma sorted_fmap_entry: "fmlookup m k = Some v \<Longrightarrow> (k, v) \<in> set (sorted_list_of_fmap m)"
  for m :: "(string, 'a) fmap"
  unfolding sorted_list_of_fmap_def by (auto intro!: image_eqI [of _ _ k] dest: fmdomI)

lemma next_tier_rank: "next_tier a = Some b \<Longrightarrow> tier_rank b = Suc (tier_rank a)"
  by (cases a) auto

lemma tier_rank_bound: "tier_rank a \<le> 5"
  by (cases a) auto

lemma validate_evidence_parts:
  assumes "validate_evidence E t previous = Inr u"
  shows "te_evidence_digest t = compute_evidence_digest E t" "\<not> evidence_self_promotes t"
    "evidence_sequence_check t previous = Inr ()"
  using assms unfolding validate_evidence_def by auto

lemma sequence_check_ok:
  assumes "evidence_sequence_check t previous = Inr u"
  shows "tier_rank (te_tier t) = (case previous of None \<Rightarrow> 0 | Some p \<Rightarrow> Suc (tier_rank (te_tier p)))"
    "te_previous_evidence_digest t = map_option te_evidence_digest previous"
  using assms unfolding evidence_sequence_check_def
  by (auto split: option.splits dest: next_tier_rank)

lemma evidence_lane_ok:
  assumes "evidence_lane E subject previous lane = Inr u" and "i < length lane"
  shows "te_subject_id (lane ! i) = subject \<and>
    tier_rank (te_tier (lane ! i)) = (case previous of None \<Rightarrow> 0 | Some p \<Rightarrow> Suc (tier_rank (te_tier p))) + i \<and>
    te_previous_evidence_digest (lane ! i) =
      (if i = 0 then map_option te_evidence_digest previous else Some (te_evidence_digest (lane ! (i - 1)))) \<and>
    te_evidence_digest (lane ! i) = compute_evidence_digest E (lane ! i) \<and> \<not> evidence_self_promotes (lane ! i)"
  using assms
proof (induction lane arbitrary: previous i)
  case Nil
  then show ?case by simp
next
  case (Cons t ts)
  from Cons.prems(1) have t: "te_subject_id t = subject" "validate_evidence E t previous = Inr ()"
    and rest: "evidence_lane E subject (Some t) ts = Inr u" by auto
  note parts = validate_evidence_parts [OF t(2)]
  note seq = sequence_check_ok [OF parts(3)]
  show ?case
  proof (cases i)
    case 0
    with t parts seq show ?thesis by simp
  next
    case (Suc j)
    with Cons.prems(2) have "j < length ts" by simp
    from Cons.IH [OF rest this] Suc seq(1) show ?thesis by (cases j) auto
  qed
qed

lemma evidence_lane_climbs:
  assumes "evidence_lane E subject None lane = Inr u" and "lane \<noteq> []"
  shows "lane_climbs E subject lane"
proof -
  have "tier_rank (te_tier (lane ! (length lane - 1))) = length lane - 1"
    using evidence_lane_ok [OF assms(1), of "length lane - 1"] assms(2) by simp
  with tier_rank_bound [of "te_tier (lane ! (length lane - 1))"] have "length lane \<le> 6" by simp
  with assms(2) evidence_lane_ok [OF assms(1)] show ?thesis
    by (auto simp: lane_climbs_def Let_def)
qed

lemma terminal_latches_ok:
  assumes "terminal_latches_loop ls a = Inr m"
  shows "a \<le> m \<and> (\<forall>(k, l) \<in> set ls. parse_u64 k = Some (lc_latch_epoch (rl_core l)) \<and>
    lc_state (rl_core l) = LatchTerminal \<and> lc_latch_epoch (rl_core l) \<le> m)"
  using assms
proof (induction ls a rule: terminal_latches_loop.induct)
  case (1 maximum)
  then show ?case by simp
next
  case (2 k l rest maximum)
  then obtain e where e: "parse_u64 k = Some e" "e = lc_latch_epoch (rl_core l)"
      "lc_state (rl_core l) = LatchTerminal" "terminal_latches_loop rest (max maximum e) = Inr m"
    by auto
  with 2 have "max maximum e \<le> m" by auto
  with 2 e show ?case by auto
qed

lemma pending_red_ok:
  assumes "pending_red_check t m = Inr m'"
  shows "m \<le> m'" "rs_pending_red t \<noteq> None \<longleftrightarrow> ae_safety_state (rs_autonomy_epoch t) = PendingRed"
    "\<And>p. rs_pending_red t = Some p \<Longrightarrow> nl_verdict (sr_core (pq_verdict p)) = Red \<and>
       pq_source_intent_digest p = nl_intent_digest (sr_core (pq_verdict p)) \<and>
       rs_sentinel_outbox_tail t = Some (pq_outbox p)"
  using assms unfolding pending_red_check_def by (auto simp: Let_def split: option.splits)

lemma frozen_mode_ok:
  assumes "frozen_mode_check t = Inr u"
  shows "rs_last_valid_mode_before_freeze t \<noteq> None \<longleftrightarrow> ae_safety_state (rs_autonomy_epoch t) = Frozen"
    "ae_safety_state (rs_autonomy_epoch t) = Frozen \<Longrightarrow> latest_latch_retained t"
  using assms unfolding frozen_mode_check_def by (auto split: option.splits)

lemma state_head_ok:
  assumes "\<forall>c \<in> set (state_head_checks E cfg t now). c = Inr ()"
  shows "rs_durability_domain_id t = fg_durability_domain_id cfg"
    "\<exists>v. validate_common E (rs_autonomy_epoch t) (rs_constitution t) (rs_active_grants t) now = Inr v"
    "rs_intent_store_root_digest t = compute_intent_store_root E (rs_intent_index t)" "indexed_by_key t"
    "fmlookup (rs_tier_evidence t) k = Some lane \<Longrightarrow> lane_climbs E k lane"
proof -
  show "rs_durability_domain_id t = fg_durability_domain_id cfg"
    "\<exists>v. validate_common E (rs_autonomy_epoch t) (rs_constitution t) (rs_active_grants t) now = Inr v"
    "rs_intent_store_root_digest t = compute_intent_store_root E (rs_intent_index t)"
    using assms by (auto simp: state_head_checks_def rt_contract_def split: sum.splits)
  have part: "c = Inr ()" if "c \<in> set (intent_entry_checks kv)" "kv \<in> set (sorted_list_of_fmap (rs_intent_index t))" for c kv
    using assms that by (auto simp: state_head_checks_def)
  have "ie_intent_digest e = k" if "fmlookup (rs_intent_index t) k = Some e" for k e
    using part [OF _ sorted_fmap_entry [OF that], of "hd (intent_entry_checks (k, e))"]
    by (simp add: intent_entry_checks_def Let_def)
  moreover have "tc_receipt_id (at_core r) = k" if "fmlookup (rs_activation_receipts t) k = Some r" for k r
    using assms sorted_fmap_entry [OF that]
    by (fastforce simp: state_head_checks_def activation_entry_check_def)
  moreover have "vc_receipt_id (vr_core r) = k" if "fmlookup (rs_recovery_receipts t) k = Some r" for k r
    using assms sorted_fmap_entry [OF that]
    by (fastforce simp: state_head_checks_def recovery_entry_check_def Let_def)
  ultimately show "indexed_by_key t" by (simp add: indexed_by_key_def)
  show "fmlookup (rs_tier_evidence t) k = Some lane \<Longrightarrow> lane_climbs E k lane"
  proof -
    assume "fmlookup (rs_tier_evidence t) k = Some lane"
    from sorted_fmap_entry [OF this] assms have "\<forall>c \<in> set (lane_checks E (k, lane)). c = Inr ()"
      by (auto simp: state_head_checks_def)
    then show "lane_climbs E k lane"
      by (auto simp: lane_checks_def intro: evidence_lane_climbs)
  qed
qed

theorem validate_state_typed:
  assumes "validate_state E cfg t now = Inr u"
  shows "typed_state E cfg t"
proof -
  from assms obtain m m' where head: "\<forall>c \<in> set (state_head_checks E cfg t now). c = Inr ()"
    and latches: "terminal_latches_loop (sorted_list_of_fmap (rs_terminal_red_latches t)) 0 = Inr m"
    and pending: "pending_red_check t m = Inr m'"
    and tail: "rs_last_red_latch_epoch t = m'" "frozen_mode_check t = Inr ()" "lineage_check t = Inr ()"
      "compute_state_digest E t = rs_state_digest t"
    unfolding validate_state_def by auto
  note head' = state_head_ok [OF head]
  obtain v where common: "validate_common E (rs_autonomy_epoch t) (rs_constitution t) (rs_active_grants t) now = Inr v"
    using head'(2) by blast
  note common' = validate_common_parts [OF common]
  have "latches_recorded t"
    using terminal_latches_ok [OF latches] pending_red_ok(1) [OF pending] tail(1)
    unfolding latches_recorded_def by (fastforce dest: sorted_fmap_entry)
  moreover have "fence_coherent t"
    using common'(4) pending_red_ok(2,3) [OF pending] frozen_mode_ok [OF tail(2)]
    unfolding fence_coherent_def Let_def by blast
  moreover have "grants_current E t"
    using common' unfolding grants_current_def Let_def by blast
  moreover have "lineage_kept t"
    using tail(3) by (auto simp: lineage_kept_def lineage_check_def split: if_splits)
  ultimately show ?thesis
    using head'(1,3,4,5) tail(4) by (auto simp: typed_state_def self_sealed_def)
qed

section \<open>Every state a store presents\<close>

inductive reachable_store :: "'b runtime_env \<Rightarrow> runtime_config \<Rightarrow> 'b runtime_store \<Rightarrow> bool" for env cfg where
  opened: "runtime_open env io failed cfg d now = (d', Inr s) \<Longrightarrow> reachable_store env cfg s"
| called: "reachable_store env cfg s \<Longrightarrow> run_call env oio io c now s = (s', r) \<Longrightarrow> reachable_store env cfg s'"

lemma call_effect_state:
  assumes "call_effect env io c now s (s', r)"
  shows "sx_config s' = sx_config s \<and>
    (sx_state s' = sx_state s \<or>
     (\<exists>t'. sx_state s' = Some (seal_state (ve_platform env) t') \<and> builds env s c now t' \<and> r = Inr () \<and>
        validate_state (ve_platform env) (sx_config s) (seal_state (ve_platform env) t') now = Inr () \<and>
        verify_state_artifacts (ve_platform env) (ve_verifier env) (seal_state (ve_platform env) t') now = Inr ()))"
  using assms unfolding call_effect_def
proof (elim disjE exE conjE)
  fix objs assume "fst (s', r) = s\<lparr>sx_objects := objs\<rparr>"
  then show ?thesis by simp
next
  fix objs t' r' assume c: "builds env s c now t'" "(snd (s', r) = Inr ()) = (r' = Inr ())"
    "commit_transition env io (call_kind c) t' now (s\<lparr>sx_objects := objs\<rparr>) = (fst (s', r), r')"
  show ?thesis
  proof (cases r')
    case (Inl e)
    with c(3) show ?thesis using commit_transition_err by (fastforce simp: rt_frame_def)
  next
    case (Inr u)
    with c show ?thesis using commit_transition_ok [of env io "call_kind c" t' now "s\<lparr>sx_objects := objs\<rparr>" s'] by auto
  qed
qed

lemma run_call_state:
  "run_call env oio io c now s = (s', r) \<Longrightarrow> sx_config s' = sx_config s \<and>
    (sx_state s' = sx_state s \<or>
     (\<exists>t'. sx_state s' = Some (seal_state (ve_platform env) t') \<and> builds env s c now t' \<and> r = Inr () \<and>
        validate_state (ve_platform env) (sx_config s) (seal_state (ve_platform env) t') now = Inr () \<and>
        verify_state_artifacts (ve_platform env) (ve_verifier env) (seal_state (ve_platform env) t') now = Inr ()))"
  using call_effect_state run_call_effect by metis

lemma config_set: "rt_keeps sx_config (\<lambda>s. (s\<lparr>sx_state := t\<rparr>, r))"
  by (simp add: rt_keeps_def)

lemma frame_config: "rt_keeps rt_frame m \<Longrightarrow> rt_keeps sx_config m"
  by (auto simp: rt_keeps_def rt_frame_def)

lemma append_abort_keeps [simp]: "rt_keeps rt_frame (append_abort E io q reason)"
  unfolding append_abort_def by (intro rt_keeps_then append_record_keeps rt_keeps_pure)

lemmas config_steps = rt_keeps_then config_set rt_keeps_pure frame_config [OF append_abort_keeps]
  frame_config [OF append_record_keeps] frame_config [OF append_commit_keeps] frame_config [OF swap_root_keeps]

lemma checked_config: "rt_keeps sx_config (\<lambda>s. rt_pure (f s) s)"
  by (simp add: rt_keeps_def rt_pure_def)

lemma recover_config: "rt_keeps sx_config (recover env io replay now)"
proof -
  have "rt_keeps sx_config (recover_without_root env io replay)"
    unfolding recover_without_root_def by (cases "jp_pending replay") (auto intro!: config_steps)
  moreover have "rt_keeps sx_config (recover_committed env io root replay)" for root
    unfolding recover_committed_def by (cases "jp_pending replay") (auto intro!: config_steps)
  moreover have "rt_keeps sx_config (recover_prepared env io root replay now)" for root
    unfolding recover_prepared_def Let_def
    by (cases "fmlookup (jp_commits_by_prepare replay) (pr_journal_record_digest root)")
      (auto intro!: config_steps checked_config)
  ultimately show ?thesis by (auto simp: recover_def [abs_def] rt_keeps_def split: option.splits)
qed

lemma runtime_open_ok:
  assumes "runtime_open env io failed cfg d now = (d', Inr s)"
  obtains replay root s0 where "replay_journal (ve_platform env) (ve_parse_record env) (dk_journal d) = Inr replay"
    "rb_load (ve_backend env) (dk_backend d) = Inr root"
    "recover env io replay now (loaded_store cfg d replay root) = (s, Inr ())"
    "check_opened_state env now s = Inr ()" "d' = disk_of s" "sx_config s = cfg"
    "\<forall>r. root = Some r \<longrightarrow> validate_root (ve_platform env) r = Inr ()"
    "\<forall>c \<in> set (open_config_checks env cfg). c = Inr ()"
proof -
  from assms obtain replay root where r: "replay_journal (ve_platform env) (ve_parse_record env) (dk_journal d) = Inr replay"
    "rb_load (ve_backend env) (dk_backend d) = Inr root"
    "recover env io replay now (loaded_store cfg d replay root) = (s, Inr ())"
    "check_opened_state env now s = Inr ()" "d' = disk_of s"
    "(case root of None \<Rightarrow> Ok () | Some r \<Rightarrow> validate_root (ve_platform env) r) = Inr ()"
    "\<forall>c \<in> set (open_config_checks env cfg). c = Inr ()"
    unfolding runtime_open_def by (auto split: sum.splits prod.splits option.splits)
  moreover have "sx_config s = cfg"
    using rt_keepsD [OF recover_config r(3)] by (simp add: loaded_store_def)
  ultimately show ?thesis by (intro that) (auto split: option.splits)
qed

lemma reachable_config: "reachable_store env cfg s \<Longrightarrow> sx_config s = cfg"
  by (induction rule: reachable_store.induct) (auto elim: runtime_open_ok dest: run_call_state)

lemma reachable_validated:
  assumes "reachable_store env cfg s" and "sx_state s = Some t"
  shows "\<exists>now. validate_state (ve_platform env) cfg t now = Inr () \<and>
    verify_state_artifacts (ve_platform env) (ve_verifier env) t now = Inr ()"
  using assms
proof (induction arbitrary: t)
  case (opened io failed d now d' s)
  from opened(1) show ?case
    by (rule runtime_open_ok) (use opened(2) in \<open>auto simp: check_opened_state_def\<close>)
next
  case (called s oio io c now s' r)
  then show ?case
    using run_call_state [OF called(2)] reachable_config [OF called(1)] by auto
qed

theorem reachable_state_typed:
  assumes "reachable_store env cfg s" and "sx_state s = Some t"
  shows "typed_state (ve_platform env) cfg t"
  using reachable_validated [OF assms] validate_state_typed by blast

end
