(* ===== verification/Runtime_Recovery.thy ===== *)
theory Runtime_Recovery
  imports Runtime_Disk Runtime_Typed
begin

text \<open>
  The two-phase commit is atomic: the journal and the protected root together denote one state,
  a commit moves it from the old state to the new one in a single compare-and-swap, and recovery
  reads that state, whatever the crash left behind.
\<close>

section \<open>The state a disk denotes\<close>

text \<open>
  The shapes a root and a journal can have together: no root and no commit; a \<open>COMMITTED\<close> root on
  the latest commit; a \<open>PREPARED\<close> root whose \<open>PREPARE\<close> is the journal's last; a \<open>PREPARED\<close> root
  whose \<open>COMMIT\<close> reached the journal.
\<close>

inductive settled :: "platform \<Rightarrow> journal_replay \<Rightarrow> protected_root option \<Rightarrow> runtime_state option \<Rightarrow> bool" for E p where
  vacant: "jp_latest_commit p = None \<Longrightarrow> settled E p None None"
| committed: "jp_latest_commit p = Some c \<Longrightarrow>
    settled E p (Some (protected_root_for_record E RootCommitted tid (cr_record c) (cr_state c))) (Some (cr_state c))"

inductive anchored_at :: "platform \<Rightarrow> journal_replay \<Rightarrow> protected_root option \<Rightarrow> runtime_state option \<Rightarrow> bool" for E p where
  at_rest: "settled E p root v \<Longrightarrow> anchored_at E p root v"
| underway: "jp_pending p = Some q \<Longrightarrow> fmlookup (jp_commits_by_prepare p) (jr_record_digest (pp_record q)) = None \<Longrightarrow>
    prepare_transition_id (jr_payload (pp_record q)) = Some tid \<Longrightarrow>
    anchored_at E p (Some (protected_root_for_record E RootPrepared tid (pp_record q) (pp_state q))) (Some (pp_state q))"
| landed: "jp_pending p = None \<Longrightarrow> fmlookup (jp_commits_by_prepare p) (jr_record_digest prepare) = Some c \<Longrightarrow>
    jp_latest_commit p = Some c \<Longrightarrow>
    anchored_at E p (Some (protected_root_for_record E RootPrepared tid prepare (cr_state c))) (Some (cr_state c))"

lemma settled_cong:
  "settled E p root v \<Longrightarrow> jp_latest_commit p' = jp_latest_commit p \<Longrightarrow> settled E p' root v"
  by (induction rule: settled.induct) (auto intro: settled.intros)

lemma anchored_cong:
  "anchored_at E p root v \<Longrightarrow> jp_latest_commit p' = jp_latest_commit p \<Longrightarrow> jp_pending p' = jp_pending p \<Longrightarrow>
     jp_commits_by_prepare p' = jp_commits_by_prepare p \<Longrightarrow> anchored_at E p' root v"
  by (induction rule: anchored_at.induct) (auto intro: anchored_at.intros settled_cong)

lemma settled_digest: "settled E p root v \<Longrightarrow> committed_digest p = map_option rs_state_digest v"
  by (induction rule: settled.induct) (auto simp: committed_digest_def)

definition disk_ok :: "'b runtime_env \<Rightarrow> 'b runtime_disk \<Rightarrow> runtime_state option \<Rightarrow> bool" where
  "disk_ok env d v \<longleftrightarrow> (\<exists>p root. journal_reads env (dk_journal d) p \<and>
     rb_load (ve_backend env) (dk_backend d) = Inr root \<and> anchored_at (ve_platform env) p root v)"

text \<open>A torn journal is refused by every later replay.\<close>

definition disk_holds :: "'b runtime_env \<Rightarrow> 'b runtime_disk \<Rightarrow> runtime_state option \<Rightarrow> bool" where
  "disk_holds env d v \<longleftrightarrow> disk_ok env d v \<or> journal_torn (dk_journal d)"

text \<open>A store in step with its disk, holding the state \<open>v\<close>.\<close>

definition in_step :: "'b runtime_env \<Rightarrow> 'b runtime_store \<Rightarrow> runtime_state option \<Rightarrow> bool" where
  "in_step env s v \<longleftrightarrow> sx_state s = v \<and> (\<exists>p. journal_reads env (sx_journal s) p \<and> tracks s p \<and> jp_pending p = None \<and>
     rb_load (ve_backend env) (sx_backend s) = Inr (sx_protected_root s) \<and>
     settled (ve_platform env) p (sx_protected_root s) v)"

lemma in_step_disk: "in_step env s v \<Longrightarrow> disk_ok env (disk_of s) v"
  unfolding in_step_def disk_ok_def disk_of_def by (auto intro: at_rest)

section \<open>An append\<close>

lemma append_record_outcome:
  assumes E: "serde_writer (ve_platform env)" "parses_journal env"
    and s: "journal_reads env (sx_journal s) p" "tracks s p"
    and ok: "\<And>n. replay_payload (ve_platform env) n (next_journal_record (ve_platform env) s payload) payload p = Inr q"
    and run: "append_record (ve_platform env) io payload s = (s', res)"
  defines "r \<equiv> next_journal_record (ve_platform env) s payload"
  defines "p' \<equiv> advanced (ve_platform env) r p q"
  shows "sx_backend s' = sx_backend s \<and> sx_protected_root s' = sx_protected_root s \<and> rt_frame s' = rt_frame s \<and>
    (case res of
       Inr r' \<Rightarrow> r' = r \<and> journal_reads env (sx_journal s') p' \<and> tracks s' p' \<and> sx_poisoned s' = sx_poisoned s
     | Inl e \<Rightarrow> s' = s \<or> sx_poisoned s' \<and>
         (sx_journal s' = sx_journal s \<or> journal_torn (sx_journal s') \<or> journal_reads env (sx_journal s') p'))"
proof -
  let ?bs = "journal_line (ve_platform env) r @ [newline]"
  have full: "journal_reads env (sx_journal s @ ?bs) p'"
    using journal_reads_append [OF E s, of r payload q] ok by (simp add: r_def p'_def)
  have "\<not> journal_torn (sx_journal s)"
    using journal_reads_replay [OF s(1)] journal_torn_replay by (metis Inl_Inr_False)
  then have ends: "sx_journal s = [] \<or> last (sx_journal s) = newline" by (auto simp: journal_torn_def)
  have part: "sx_journal s @ take n ?bs = sx_journal s \<or> journal_torn (sx_journal s @ take n ?bs) \<or>
      journal_reads env (sx_journal s @ take n ?bs) p'" for n
    using partial_line [OF conjunct2 [OF journal_line_good [OF E(1)]] ends, of n r] full by auto
  show ?thesis
    using run full part s(2)
    by (auto simp: append_record_def rt_frame_def Let_def r_def [symmetric] tracks_def p'_def advanced_def
        split: option.splits if_splits)
qed

text \<open>What replaying the three kinds of record does.\<close>

lemma transition_id_nonblank: "\<not> trims_empty (transition_id_of E k d n m)"
  by (simp add: transition_id_of_def trims_empty_ascii white1_def del: trims_empty.simps)

definition prepared_on :: "journal_record \<Rightarrow> runtime_state \<Rightarrow> journal_replay \<Rightarrow> journal_replay" where
  "prepared_on r t p = p\<lparr>jp_pending := Some \<lparr>pp_record = r, pp_state = t\<rparr>\<rparr>"

lemma replay_prepare:
  assumes "jp_pending p = None" and "committed_digest p = map_option rs_state_digest (sx_state s)"
  shows "replay_payload (ve_platform env) n r (transition_prepare env k t s) p =
    Inr (prepared_on r (seal_state (ve_platform env) t) p)"
  using assms transition_id_nonblank
  by (simp add: transition_prepare_def Let_def rt_require_non_empty_def prepared_on_def del: seal_state_digest)
    (simp add: check_def)

definition commit_of :: "journal_record \<Rightarrow> prepared_replay \<Rightarrow> commit_replay" where
  "commit_of r q = \<lparr>cr_record = r, cr_prepare_record_digest = jr_record_digest (pp_record q), cr_state = pp_state q\<rparr>"

definition committed_on :: "journal_record \<Rightarrow> prepared_replay \<Rightarrow> journal_replay \<Rightarrow> journal_replay" where
  "committed_on r q p = p\<lparr>jp_pending := None, jp_latest_commit := Some (commit_of r q),
     jp_commits_by_prepare := fmupd (jr_record_digest (pp_record q)) (commit_of r q) (jp_commits_by_prepare p)\<rparr>"

lemma replay_commit:
  assumes "jp_pending p = Some q" and "prepare_transition_id (jr_payload (pp_record q)) = Some tid"
  shows "replay_payload E n r (Commit tid (jr_record_digest (pp_record q)) (rs_state_digest (pp_state q))) p =
    Inr (committed_on r q p)"
  using assms by (simp add: committed_on_def commit_of_def Let_def)

lemma replay_abort:
  assumes "jp_pending p = Some q" and "prepare_transition_id (jr_payload (pp_record q)) = Some tid"
    and "\<not> trims_empty reason"
  shows "replay_payload E n r (Abort tid (jr_record_digest (pp_record q)) reason) p = Inr (p\<lparr>jp_pending := None\<rparr>)"
  using assms by simp

section \<open>A compare-and-swap\<close>

lemma swap_root_outcome:
  assumes "protected_root_backend (ve_backend env)" and "swap_root env operation expected n s = (s', res)"
  shows "sx_journal s' = sx_journal s \<and> sx_next_sequence s' = sx_next_sequence s \<and>
    sx_tail_digest s' = sx_tail_digest s \<and> sx_poisoned s' = sx_poisoned s \<and> rt_frame s' = rt_frame s \<and>
    (case res of
       Inr _ \<Rightarrow> sx_protected_root s' = Some n \<and> rb_load (ve_backend env) (sx_backend s') = Inr (Some n)
     | Inl _ \<Rightarrow> rb_load (ve_backend env) (sx_backend s') \<in> {rb_load (ve_backend env) (sx_backend s), Inr (Some n)})"
proof -
  obtain b' r where cas: "rb_compare_and_swap (ve_backend env) (sx_backend s) expected n = (b', r)" by fastforce
  have "case r of Inr _ \<Rightarrow> rb_load (ve_backend env) b' = Inr (Some n)
      | Inl _ \<Rightarrow> rb_load (ve_backend env) b' \<in> {rb_load (ve_backend env) (sx_backend s), Inr (Some n)}"
  proof (cases r)
    case (Inl e)
    from protected_root_backend.unsure [OF assms(1) cas [unfolded Inl]] Inl show ?thesis by auto
  next
    case (Inr u)
    then have "r = Inr ()" by simp
    from protected_root_backend.swapped [OF assms(1) cas [unfolded this]] Inr show ?thesis by simp
  qed
  with assms(2) cas show ?thesis
    by (cases r) (auto simp: swap_root_def rt_frame_def)
qed

section \<open>From \<open>PREPARED\<close> to \<open>COMMITTED\<close>\<close>

text \<open>The second half of a commit, and what recovery does to finish one.\<close>

definition half_done ::
  "'b runtime_env \<Rightarrow> 'b runtime_store \<Rightarrow> journal_replay \<Rightarrow> prepared_replay \<Rightarrow> string \<Rightarrow> bool" where
  "half_done env s p q tid \<longleftrightarrow> serde_writer (ve_platform env) \<and> parses_journal env \<and>
     protected_root_backend (ve_backend env) \<and> journal_reads env (sx_journal s) p \<and> tracks s p \<and>
     jp_pending p = Some q \<and> fmlookup (jp_commits_by_prepare p) (jr_record_digest (pp_record q)) = None \<and>
     prepare_transition_id (jr_payload (pp_record q)) = Some tid \<and>
     rb_load (ve_backend env) (sx_backend s) =
       Inr (Some (protected_root_for_record (ve_platform env) RootPrepared tid (pp_record q) (pp_state q)))"

lemma half_doneD:
  assumes "half_done env s p q tid"
  shows "serde_writer (ve_platform env)" "parses_journal env" "protected_root_backend (ve_backend env)"
    "journal_reads env (sx_journal s) p" "tracks s p" "jp_pending p = Some q"
    "fmlookup (jp_commits_by_prepare p) (jr_record_digest (pp_record q)) = None"
    "prepare_transition_id (jr_payload (pp_record q)) = Some tid"
    "rb_load (ve_backend env) (sx_backend s) =
       Inr (Some (protected_root_for_record (ve_platform env) RootPrepared tid (pp_record q) (pp_state q)))"
  using assms by (simp_all add: half_done_def)

lemma half_done_denotes:
  assumes "half_done env s p q tid"
  shows "disk_ok env (disk_of s) (Some (pp_state q))"
  unfolding disk_ok_def disk_of_def
  using half_doneD [OF assms] underway [OF half_doneD(6-8) [OF assms]] by auto

lemma append_commit_outcome:
  assumes h: "half_done env s p q tid" and "append_commit (ve_platform env) io tid (jr_record_digest (pp_record q)) (rs_state_digest (pp_state q)) s = (s1, res)"
  shows "(\<forall>e. res = Inl e \<longrightarrow> disk_holds env (disk_of s1) (Some (pp_state q))) \<and>
    (\<forall>r. res = Inr r \<longrightarrow> tracks s1 (advanced (ve_platform env) r p (committed_on r q p)) \<and>
       journal_reads env (sx_journal s1) (advanced (ve_platform env) r p (committed_on r q p)) \<and>
       sx_backend s1 = sx_backend s \<and> sx_poisoned s1 = sx_poisoned s)"
proof -
  note hd = half_doneD [OF h]
  note out = append_record_outcome [OF hd(1,2,4,5) replay_commit [OF hd(6,8)] assms(2) [unfolded append_commit_def]]
  have landed: "anchored_at (ve_platform env) (advanced (ve_platform env) r p (committed_on r q p))
      (Some (protected_root_for_record (ve_platform env) RootPrepared tid (pp_record q) (pp_state q))) (Some (pp_state q))" for r
    using anchored_at.landed [of "advanced (ve_platform env) r p (committed_on r q p)" "pp_record q" "commit_of r q" "ve_platform env" tid]
    by (simp add: advanced_def committed_on_def commit_of_def)
  show ?thesis
  proof (intro conjI allI impI)
    fix e assume "res = Inl e"
    with out have "sx_backend s1 = sx_backend s" and
      "s1 = s \<or> sx_journal s1 = sx_journal s \<or> journal_torn (sx_journal s1) \<or>
       (\<exists>r. journal_reads env (sx_journal s1) (advanced (ve_platform env) r p (committed_on r q p)))" by auto
    then show "disk_holds env (disk_of s1) (Some (pp_state q))"
      using half_done_denotes [OF h] hd(9) landed unfolding disk_holds_def disk_ok_def disk_of_def by auto
  qed (use out in auto)
qed

lemma half_done_finish:
  assumes h: "half_done env s p q tid" and "append_commit (ve_platform env) io tid (jr_record_digest (pp_record q)) (rs_state_digest (pp_state q)) s = (s1, Inr r)"
    and "swap_root env operation (Some (protected_root_for_record (ve_platform env) RootPrepared tid (pp_record q) (pp_state q)))
      (protected_root_for_record (ve_platform env) RootCommitted tid r (pp_state q)) s1 = (s2, res)"
  shows "disk_holds env (disk_of s2) (Some (pp_state q)) \<and> sx_poisoned s2 = sx_poisoned s \<and>
    (res = Inr () \<longrightarrow> in_step env (s2\<lparr>sx_state := Some (pp_state q)\<rparr>) (Some (pp_state q)))"
proof -
  let ?p = "advanced (ve_platform env) r p (committed_on r q p)"
  let ?n = "protected_root_for_record (ve_platform env) RootCommitted tid r (pp_state q)"
  have one: "tracks s1 ?p" "journal_reads env (sx_journal s1) ?p" "sx_backend s1 = sx_backend s" "sx_poisoned s1 = sx_poisoned s"
    using append_commit_outcome [OF h assms(2)] by simp_all
  note swap = swap_root_outcome [OF half_doneD(3) [OF h] assms(3)]
  have rest: "settled (ve_platform env) ?p (Some ?n) (Some (pp_state q))"
    using committed [of ?p "commit_of r q" "ve_platform env" tid]
    by (simp add: advanced_def committed_on_def commit_of_def)
  have landed: "anchored_at (ve_platform env) ?p
      (Some (protected_root_for_record (ve_platform env) RootPrepared tid (pp_record q) (pp_state q))) (Some (pp_state q))"
    using anchored_at.landed [of ?p "pp_record q" "commit_of r q" "ve_platform env" tid]
    by (simp add: advanced_def committed_on_def commit_of_def)
  have "rb_load (ve_backend env) (sx_backend s2) \<in> {rb_load (ve_backend env) (sx_backend s), Inr (Some ?n)}"
    using swap one(3) by (cases res) auto
  then have "disk_ok env (disk_of s2) (Some (pp_state q))"
    using swap one(2) half_doneD(9) [OF h] landed at_rest [OF rest] unfolding disk_ok_def disk_of_def by auto
  moreover have "in_step env (s2\<lparr>sx_state := Some (pp_state q)\<rparr>) (Some (pp_state q))" if "res = Inr ()"
    using that swap one(1,2) rest unfolding in_step_def
    by (auto simp: tracks_def advanced_def committed_on_def intro!: exI [of _ ?p])
  ultimately show ?thesis using swap one(4) by (simp add: disk_holds_def)
qed

section \<open>A commit\<close>

text \<open>
  The digest of the \<open>PREPARE\<close> a commit is about to write is not that of an earlier one: SHA-256
  does not collide on these records, whose sequence numbers differ.
\<close>

definition prepare_of :: "'b runtime_env \<Rightarrow> transition_kind \<Rightarrow> runtime_state \<Rightarrow> 'b runtime_store \<Rightarrow> journal_record" where
  "prepare_of env k t s = next_journal_record (ve_platform env) s (transition_prepare env k t s)"

definition prepare_fresh :: "'b runtime_env \<Rightarrow> transition_kind \<Rightarrow> runtime_state \<Rightarrow> 'b runtime_store \<Rightarrow> bool" where
  "prepare_fresh env k t s \<longleftrightarrow> (\<forall>p. journal_reads env (sx_journal s) p \<longrightarrow>
     fmlookup (jp_commits_by_prepare p) (jr_record_digest (prepare_of env k t s)) = None)"

lemma disk_of_poisoned [simp]: "disk_of (s\<lparr>sx_poisoned := b\<rparr>) = disk_of s" "disk_of (s\<lparr>sx_state := v\<rparr>) = disk_of s"
  by (simp_all add: disk_of_def)

lemma commit_second_half:
  assumes half: "half_done env s p q tid"
    and run: "rt_then (rt_poisoning (append_commit (ve_platform env) io tid (jr_record_digest (pp_record q)) (rs_state_digest (pp_state q))))
      (\<lambda>commit. rt_then (rt_poisoning (swap_root env operation
         (Some (protected_root_for_record (ve_platform env) RootPrepared tid (pp_record q) (pp_state q)))
         (protected_root_for_record (ve_platform env) RootCommitted tid commit (pp_state q))))
       (\<lambda>_ s'. (s'\<lparr>sx_state := Some (pp_state q)\<rparr>, Ok ()))) s = (s', res)"
  shows "res = Inr () \<and> in_step env s' (Some (pp_state q)) \<and> sx_poisoned s' = sx_poisoned s \<or>
    res \<noteq> Inr () \<and> sx_poisoned s' \<and> disk_holds env (disk_of s') (Some (pp_state q))"
proof -
  obtain s1 r1 where one: "append_commit (ve_platform env) io tid (jr_record_digest (pp_record q)) (rs_state_digest (pp_state q)) s = (s1, r1)"
    by fastforce
  show ?thesis
  proof (cases r1)
    case (Inl e)
    with one run append_commit_outcome [OF half one] show ?thesis
      by (auto simp: rt_then_def rt_poisoning_def)
  next
    case (Inr c)
    obtain s2 r2 where two: "swap_root env operation
         (Some (protected_root_for_record (ve_platform env) RootPrepared tid (pp_record q) (pp_state q)))
         (protected_root_for_record (ve_platform env) RootCommitted tid c (pp_state q)) s1 = (s2, r2)" by fastforce
    note fin = half_done_finish [OF half one [unfolded Inr] two]
    show ?thesis
    proof (cases r2)
      case (Inl e)
      with one \<open>r1 = Inr c\<close> two run fin show ?thesis by (auto simp: rt_then_def rt_poisoning_def)
    next
      case (Inr u)
      with one \<open>r1 = Inr c\<close> two run fin show ?thesis by (auto simp: rt_then_def rt_poisoning_def)
    qed
  qed
qed

theorem commit_outcome:
  assumes E: "serde_writer (ve_platform env)" "parses_journal env" "protected_root_backend (ve_backend env)"
    and s: "in_step env s v" and fresh: "prepare_fresh env k t s"
    and run: "commit_transition env io k t now s = (s', res)"
  defines "nt \<equiv> seal_state (ve_platform env) t"
  shows "res = Inr () \<and> in_step env s' (Some nt) \<and> sx_poisoned s' = sx_poisoned s \<or>
    res \<noteq> Inr () \<and> (s' = s \<or> sx_poisoned s' \<and> (disk_holds env (disk_of s') v \<or> disk_holds env (disk_of s') (Some nt)))"
proof -
  let ?E = "ve_platform env" and ?prep = "transition_prepare env k t s" and ?tid = "transition_name env k t s"
  let ?r = "prepare_of env k t s"
  let ?R = "protected_root_for_record ?E RootPrepared ?tid ?r nt"
  obtain p where p: "sx_state s = v" "journal_reads env (sx_journal s) p" "tracks s p" "jp_pending p = None"
      "rb_load (ve_backend env) (sx_backend s) = Inr (sx_protected_root s)"
      "settled ?E p (sx_protected_root s) v"
    using s by (auto simp: in_step_def)
  let ?q = "\<lparr>pp_record = ?r, pp_state = nt\<rparr>"
  let ?p = "advanced ?E ?r p (prepared_on ?r nt p)"
  have replayed: "replay_payload ?E n ?r ?prep p = Inr (prepared_on ?r nt p)" for n
    unfolding nt_def by (rule replay_prepare [OF p(4)]) (simp add: settled_digest [OF p(6)] p(1))
  have rest: "settled ?E ?p (sx_protected_root s) v"
    by (rule settled_cong [OF p(6)]) (simp add: advanced_def prepared_on_def)
  show ?thesis
  proof (cases "ensure_usable s = Inr () \<and> validate_state ?E (sx_config s) nt now = Inr () \<and>
      verify_state_artifacts ?E (ve_verifier env) nt now = Inr ()")
    case False
    with run show ?thesis
      by (auto simp: commit_transition_def Let_def rt_then_def rt_pure_def nt_def split: sum.splits)
  next
    case True
    obtain s1 r1 where one: "append_record ?E (fst io) ?prep s = (s1, r1)" by fastforce
    note out = append_record_outcome [OF E(1,2) p(2,3) replayed [unfolded prepare_of_def] one, folded prepare_of_def]
    show ?thesis
    proof (cases r1)
      case (Inl e)
      with True one run have "s' = s1 \<and> res = Inl e"
        by (simp add: commit_transition_def Let_def rt_then_def rt_pure_def nt_def transition_prepare_def)
      with out Inl p(2,5) at_rest [OF p(6)] at_rest [OF rest] show ?thesis
        unfolding disk_holds_def disk_ok_def disk_of_def by auto
    next
      case (Inr r)
      with out have r: "r = ?r" and s1: "journal_reads env (sx_journal s1) ?p" "tracks s1 ?p"
        "sx_poisoned s1 = sx_poisoned s" "sx_backend s1 = sx_backend s" by auto
      obtain s2 r2 where two: "swap_root env ''prepare_compare_and_swap'' (sx_protected_root s) ?R s1 = (s2, r2)" by fastforce
      note swap = swap_root_outcome [OF E(3) two]
      have running: "s' = s2\<lparr>sx_poisoned := True\<rparr> \<and> res = r2" if "r2 = Inl e" for e
        using True one Inr r two run that
        by (simp add: commit_transition_def Let_def rt_then_def rt_pure_def rt_poisoning_def nt_def
            transition_prepare_def transition_name_def)
      have half: "half_done env s2 ?p ?q ?tid" if "rb_load (ve_backend env) (sx_backend s2) = Inr (Some ?R)"
        using that swap s1 E fresh p(2)
        by (auto simp: half_done_def tracks_def advanced_def prepared_on_def prepare_fresh_def
            transition_prepare_def transition_name_def Let_def prepare_of_def)
      show ?thesis
      proof (cases r2)
        case (Inl e)
        with swap s1(4) p(5) have "rb_load (ve_backend env) (sx_backend s2) \<in> {Inr (sx_protected_root s), Inr (Some ?R)}"
          by simp
        then have "disk_ok env (disk_of s2) v \<or> disk_ok env (disk_of s2) (Some nt)"
          using half_done_denotes [OF half] at_rest [OF rest] swap s1(1)
          unfolding disk_ok_def [of env _ v] disk_of_def by auto
        with running [OF Inl] Inl show ?thesis by (auto simp: disk_holds_def)
      next
        case (Inr u)
        with half swap have half: "half_done env s2 ?p ?q ?tid" by simp
        have "rt_then (rt_poisoning (append_commit ?E (snd io) ?tid (jr_record_digest ?r) (rs_state_digest nt)))
            (\<lambda>commit. rt_then (rt_poisoning (swap_root env ''commit_compare_and_swap'' (Some ?R)
               (protected_root_for_record ?E RootCommitted ?tid commit nt)))
             (\<lambda>_ s'. (s'\<lparr>sx_state := Some nt\<rparr>, Ok ()))) s2 = (s', res)"
          using True one \<open>r1 = Inr r\<close> r two Inr run
          by (simp add: commit_transition_def Let_def rt_then_def [of "rt_pure _"] rt_then_def [of "append_record _ _ _"]
              rt_then_def [of "rt_poisoning (swap_root _ ''prepare_compare_and_swap'' _ _)"]
              rt_pure_def rt_poisoning_def [of "swap_root _ ''prepare_compare_and_swap'' _ _"] nt_def
              transition_prepare_def transition_name_def)
        note second = commit_second_half [OF half, simplified, OF this]
        have "sx_poisoned s2 = sx_poisoned s" using swap s1(3) by simp
        with second show ?thesis by blast
      qed
    qed
  qed
qed

end
