(* ===== verification/Runtime_Reopen.thy ===== *)
theory Runtime_Reopen
  imports Runtime_Recovery
begin

text \<open>
  Recovery reads the state the disk denotes: opening a store yields exactly that state, in step
  with the disk, and an opening that fails or is interrupted leaves the denoted state alone.
\<close>

section \<open>Aborting an interrupted \<open>PREPARE\<close>\<close>

lemma append_abort_outcome:
  assumes E: "serde_writer (ve_platform env)" "parses_journal env"
    and s: "journal_reads env (sx_journal s) p" "tracks s p" "jp_pending p = Some q"
    and root: "rb_load (ve_backend env) (sx_backend s) = Inr root" "settled (ve_platform env) p root v"
    and reason: "\<not> trims_empty reason"
    and run: "append_abort (ve_platform env) io (pp_record q) reason s = (s', res)"
  shows "disk_holds env (disk_of s') v \<and> sx_protected_root s' = sx_protected_root s \<and> sx_state s' = sx_state s \<and>
    (\<forall>r. res = Inr r \<longrightarrow> (\<exists>p'. journal_reads env (sx_journal s') p' \<and> tracks s' p' \<and> jp_pending p' = None \<and>
       sx_backend s' = sx_backend s \<and> settled (ve_platform env) p' root v))"
proof (cases "prepare_transition_id (jr_payload (pp_record q))")
  case None
  with run have "s' = s" "\<exists>e. res = Inl e"
    by (auto simp: append_abort_def rt_then_def rt_pure_def)
  with s(1) root at_rest [OF root(2)] show ?thesis
    by (auto simp: disk_holds_def disk_ok_def disk_of_def)
next
  case (Some tid)
  let ?r = "next_journal_record (ve_platform env) s (Abort tid (jr_record_digest (pp_record q)) reason)"
  let ?p = "advanced (ve_platform env) ?r p (p\<lparr>jp_pending := None\<rparr>)"
  from Some run have "append_record (ve_platform env) io (Abort tid (jr_record_digest (pp_record q)) reason) s = (s', res)"
    by (simp add: append_abort_def rt_then_def rt_pure_def)
  note out = append_record_outcome [OF E s(1,2) replay_abort [OF s(3) Some reason] this]
  have rest: "settled (ve_platform env) ?p root v"
    by (rule settled_cong [OF root(2)]) (simp add: advanced_def)
  show ?thesis
  proof (cases res)
    case (Inl e)
    with out s(1) root at_rest [OF root(2)] at_rest [OF rest] show ?thesis
      by (auto simp: disk_holds_def disk_ok_def disk_of_def rt_frame_def)
  next
    case (Inr r)
    with out root at_rest [OF rest] rest show ?thesis
      by (auto simp: disk_holds_def disk_ok_def disk_of_def rt_frame_def advanced_def intro!: exI [of _ ?p])
  qed
qed

section \<open>Recovery\<close>

text \<open>The store as it is when \<open>open\<close> calls \<open>recover\<close>.\<close>

definition loaded :: "'b runtime_env \<Rightarrow> 'b runtime_store \<Rightarrow> journal_replay \<Rightarrow> bool" where
  "loaded env s p \<longleftrightarrow> serde_writer (ve_platform env) \<and> parses_journal env \<and>
     protected_root_backend (ve_backend env) \<and> journal_reads env (sx_journal s) p \<and> tracks s p \<and>
     rb_load (ve_backend env) (sx_backend s) = Inr (sx_protected_root s)"

definition recovers :: "'b runtime_env \<Rightarrow> 'b runtime_store \<times> (runtime_error + unit) \<Rightarrow> runtime_state option \<Rightarrow> bool" where
  "recovers env sr v \<longleftrightarrow> disk_holds env (disk_of (fst sr)) v \<and> (snd sr = Inr () \<longrightarrow> in_step env (fst sr) v)"

lemma loaded_holds:
  "loaded env s p \<Longrightarrow> anchored_at (ve_platform env) p (sx_protected_root s) v \<Longrightarrow> disk_holds env (disk_of s) v"
  by (auto simp: loaded_def disk_holds_def disk_ok_def disk_of_def)

lemma recover_vacant:
  assumes l: "loaded env s p" and r: "sx_protected_root s = None" "settled (ve_platform env) p None v"
  shows "recovers env (recover_without_root env io p s) v"
proof -
  from r(2) have v: "v = None" "jp_latest_commit p = None" by (auto elim: settled.cases)
  show ?thesis
  proof (cases "jp_pending p")
    case None
    with l r v show ?thesis
      by (auto simp: recovers_def recover_without_root_def rt_then_def rt_pure_def check_def in_step_def loaded_def
          tracks_def disk_holds_def intro!: in_step_disk [of env "s\<lparr>sx_state := None\<rparr>", simplified])
  next
    case (Some q)
    let ?reason = "''prepare never reached protected storage''"
    obtain s1 r1 where one: "append_abort (ve_platform env) io (pp_record q) ?reason s = (s1, r1)" by fastforce
    have "\<not> trims_empty ?reason" by (simp add: trims_empty_ascii white1_def del: trims_empty.simps)
    from append_abort_outcome [OF _ _ _ _ Some _ r(2) this one] l r(1)
    have out: "disk_holds env (disk_of s1) v \<and> sx_protected_root s1 = None \<and> sx_state s1 = sx_state s \<and>
      (\<forall>r. r1 = Inr r \<longrightarrow> (\<exists>p'. journal_reads env (sx_journal s1) p' \<and> tracks s1 p' \<and> jp_pending p' = None \<and>
         sx_backend s1 = sx_backend s \<and> settled (ve_platform env) p' None v))"
      by (simp add: loaded_def)
    with Some one v l r(1) show ?thesis
      by (cases r1) (auto simp: recovers_def recover_without_root_def rt_then_def rt_pure_def in_step_def loaded_def tracks_def)
  qed
qed

lemma recover_settled:
  assumes l: "loaded env s p" and r: "sx_protected_root s = Some root" "settled (ve_platform env) p (Some root) v"
  shows "recovers env (recover_committed env io root p s) v"
proof -
  from r(2) obtain c where c: "v = Some (cr_state c)" "jp_latest_commit p = Some c" by (auto elim: settled.cases)
  have kept: "recovers env (s, Inl e) v" for e
    using loaded_holds [OF l] at_rest r by (simp add: recovers_def)
  let ?s = "s\<lparr>sx_state := Some (cr_state c)\<rparr>"
  have kept': "recovers env (?s, Inl e) v" for e
    using kept by (simp add: recovers_def)
  show ?thesis
  proof (cases "jp_pending p")
    case None
    have "in_step env ?s v"
      using l r c None by (auto simp: in_step_def loaded_def tracks_def)
    with None c kept in_step_disk [OF this] show ?thesis
      by (auto simp: recover_committed_def rt_then_def rt_pure_def check_def recovers_def disk_holds_def split: sum.splits)
  next
    case (Some q)
    let ?reason = "''protected root remained on prior commit''"
    obtain s1 r1 where one: "append_abort (ve_platform env) io (pp_record q) ?reason ?s = (s1, r1)" by fastforce
    have "\<not> trims_empty ?reason" by (simp add: trims_empty_ascii white1_def del: trims_empty.simps)
    from append_abort_outcome [OF _ _ _ _ Some _ r(2) this one] l r(1)
    have out: "disk_holds env (disk_of s1) v \<and> sx_protected_root s1 = Some root \<and> sx_state s1 = Some (cr_state c) \<and>
      (\<forall>r. r1 = Inr r \<longrightarrow> (\<exists>p'. journal_reads env (sx_journal s1) p' \<and> tracks s1 p' \<and> jp_pending p' = None \<and>
         sx_backend s1 = sx_backend s \<and> settled (ve_platform env) p' (Some root) v))"
      by (simp add: loaded_def tracks_def)
    then have fin: "recovers env (s1, case r1 of Inl e \<Rightarrow> Inl e | Inr _ \<Rightarrow> Inr ()) v"
      using c l r(1) by (auto simp: recovers_def in_step_def loaded_def split: sum.splits)
    with Some one c kept kept' show ?thesis
      by (cases r1) (auto simp: recover_committed_def rt_then_def rt_pure_def check_def split: sum.splits journal_payload.splits)
  qed
qed

lemma recover_underway:
  assumes l: "loaded env s p" and q: "jp_pending p = Some q"
    and fresh: "fmlookup (jp_commits_by_prepare p) (jr_record_digest (pp_record q)) = None"
    and named: "prepare_transition_id (jr_payload (pp_record q)) = Some tid"
    and root: "sx_protected_root s = Some root"
      "root = protected_root_for_record (ve_platform env) RootPrepared tid (pp_record q) (pp_state q)"
  shows "recovers env (recover_prepared env io root p now s) (Some (pp_state q))"
proof -
  let ?E = "ve_platform env"
  have half: "half_done env s p q tid"
    using l q fresh named root by (auto simp: half_done_def loaded_def)
  have kept: "recovers env (s, Inl e) (Some (pp_state q))" for e
    using half_done_denotes [OF half] by (simp add: recovers_def disk_holds_def)
  obtain s1 r1 where one: "append_commit ?E io tid (jr_record_digest (pp_record q)) (rs_state_digest (pp_state q)) s = (s1, r1)"
    by fastforce
  show ?thesis
  proof (cases r1)
    case (Inl e)
    with append_commit_outcome [OF half one] have "recovers env (s1, Inl e) (Some (pp_state q))"
      by (simp add: recovers_def)
    with one Inl q fresh root(2) kept show ?thesis
      by (auto simp: recover_prepared_def Let_def rt_then_def rt_pure_def check_def split: sum.splits)
  next
    case (Inr c)
    obtain s2 r2 where two: "swap_root env ''recover_forward_compare_and_swap'' (Some root)
         (protected_root_for_record ?E RootCommitted tid c (pp_state q)) s1 = (s2, r2)" by fastforce
    from half_done_finish [OF half one [unfolded Inr] two [unfolded root(2)]]
    have "recovers env (case r2 of Inl e \<Rightarrow> (s2, Inl e) | Inr _ \<Rightarrow> (s2\<lparr>sx_state := Some (pp_state q)\<rparr>, Inr ())) (Some (pp_state q))"
      by (cases r2) (auto simp: recovers_def)
    with one Inr two q fresh root(2) kept show ?thesis
      by (cases r2) (auto simp: recover_prepared_def Let_def rt_then_def rt_pure_def check_def split: sum.splits)
  qed
qed

lemma recover_landed:
  assumes l: "loaded env s p" and none: "jp_pending p = None"
    and found: "fmlookup (jp_commits_by_prepare p) (jr_record_digest prepare) = Some c" "jp_latest_commit p = Some c"
    and root: "sx_protected_root s = Some root"
      "root = protected_root_for_record (ve_platform env) RootPrepared tid prepare (cr_state c)"
  shows "recovers env (recover_prepared env io root p now s) (Some (cr_state c))"
proof -
  let ?E = "ve_platform env"
  let ?n = "protected_root_for_record ?E RootCommitted tid (cr_record c) (cr_state c)"
  have reads: "journal_reads env (sx_journal s) p" and contract: "protected_root_backend (ve_backend env)"
    and load: "rb_load (ve_backend env) (sx_backend s) = Inr (Some root)"
    using l root(1) by (simp_all add: loaded_def)
  have here: "anchored_at ?E p (Some root) (Some (cr_state c))" unfolding root(2) by (rule landed [OF none found])
  have there: "settled ?E p (Some ?n) (Some (cr_state c))" by (rule committed [OF found(2)])
  have kept: "recovers env (s, Inl e) (Some (cr_state c))" for e
    using loaded_holds [OF l] here root(1) by (simp add: recovers_def)
  obtain s1 r1 where one: "swap_root env ''recover_commit_compare_and_swap'' (Some root) ?n s = (s1, r1)" by fastforce
  note swap = swap_root_outcome [OF contract one]
  have "rb_load (ve_backend env) (sx_backend s1) \<in> {Inr (Some root), Inr (Some ?n)}"
    using swap load by (cases r1) auto
  then have holds: "disk_holds env (disk_of s1) (Some (cr_state c))"
    using swap reads here at_rest [OF there] by (auto simp: disk_holds_def disk_ok_def disk_of_def)
  have "recovers env (case r1 of Inl e \<Rightarrow> (s1, Inl e) | Inr _ \<Rightarrow> (s1\<lparr>sx_state := Some (cr_state c)\<rparr>, Inr ())) (Some (cr_state c))"
  proof (cases r1)
    case (Inl e)
    with holds show ?thesis by (simp add: recovers_def)
  next
    case (Inr u)
    with swap reads l none there have "in_step env (s1\<lparr>sx_state := Some (cr_state c)\<rparr>) (Some (cr_state c))"
      unfolding in_step_def by (auto simp: tracks_def loaded_def)
    with Inr holds show ?thesis by (simp add: recovers_def)
  qed
  with one found(1) root(2) kept show ?thesis
    by (cases r1) (auto simp: recover_prepared_def Let_def rt_then_def rt_pure_def split: sum.splits)
qed

theorem recover_denoted:
  assumes "loaded env s p" and "anchored_at (ve_platform env) p (sx_protected_root s) v"
  shows "recovers env (recover env io p now s) v"
  using assms(2)
proof (cases rule: anchored_at.cases)
  case at_rest
  then show ?thesis
  proof (cases "sx_protected_root s")
    case None
    with at_rest show ?thesis using recover_vacant [OF assms(1)] by (simp add: recover_def)
  next
    case (Some root)
    with at_rest have "pr_phase root = RootCommitted" by (auto elim: settled.cases)
    with at_rest Some show ?thesis using recover_settled [OF assms(1)] by (simp add: recover_def)
  qed
next
  case (underway q tid)
  then show ?thesis using recover_underway [OF assms(1)] by (auto simp: recover_def)
next
  case (landed prepare c tid)
  then show ?thesis using recover_landed [OF assms(1)] by (auto simp: recover_def)
qed

section \<open>Opening\<close>

text \<open>Recovery does not look at the length of the journal.\<close>

lemma recover_known_len [simp]:
  "recover_without_root env io (p\<lparr>jp_known_len := n\<rparr>) = recover_without_root env io p"
  "recover_committed env io root (p\<lparr>jp_known_len := n\<rparr>) = recover_committed env io root p"
  "recover_prepared env io root (p\<lparr>jp_known_len := n\<rparr>) now = recover_prepared env io root p now"
  by (simp_all add: recover_without_root_def recover_committed_def recover_prepared_def Let_def cong: option.case_cong)

lemma torn_open:
  assumes "journal_torn (dk_journal d)"
  shows "\<exists>e. runtime_open env io failed cfg d now = (d, Inl e)"
proof -
  obtain e where "replay_journal (ve_platform env) (ve_parse_record env) (dk_journal d) = Inl e"
    using journal_torn_replay [OF assms] by blast
  then show ?thesis
    by (auto simp: runtime_open_def and_then_def split: sum.splits option.splits)
qed

theorem runtime_open_denoted:
  assumes E: "serde_writer (ve_platform env)" "parses_journal env" "protected_root_backend (ve_backend env)"
    and d: "disk_holds env d v" and run: "runtime_open env io failed cfg d now = (d', res)"
  shows "disk_holds env d' v \<and> (\<forall>s. res = Inr s \<longrightarrow> in_step env s v \<and> d' = disk_of s)"
proof (cases "journal_torn (dk_journal d)")
  case True
  from torn_open [OF this, of env io failed cfg now] run True show ?thesis by (auto simp: disk_holds_def)
next
  case False
  with d obtain p root where p: "journal_reads env (dk_journal d) p" "rb_load (ve_backend env) (dk_backend d) = Inr root"
      "anchored_at (ve_platform env) p root v"
    by (auto simp: disk_holds_def disk_ok_def)
  let ?p = "p\<lparr>jp_known_len := of_nat (length (dk_journal d))\<rparr>"
  let ?s = "loaded_store cfg d ?p root"
  note replay = journal_reads_replay [OF p(1)]
  have "loaded env ?s p"
    using E p(1,2) by (simp add: loaded_def loaded_store_def tracks_def)
  moreover have "recover env io ?p now = recover env io p now" by (simp add: fun_eq_iff recover_def cong: option.case_cong if_cong)
  moreover have "anchored_at (ve_platform env) p (sx_protected_root ?s) v" using p(3) by (simp add: loaded_store_def)
  ultimately have rec: "recovers env (recover env io ?p now ?s) v" using recover_denoted by metis
  obtain s1 r1 where one: "recover env io ?p now ?s = (s1, r1)" by fastforce
  have "(d', res) = (d, res) \<and> (\<exists>e. res = Inl e) \<or> d' = disk_of s1 \<and> (\<forall>s. res = Inr s \<longrightarrow> s = s1 \<and> r1 = Inr ())"
    using run replay p(2) one
    by (auto simp: runtime_open_def and_then_def split: sum.splits option.splits prod.splits)
  with rec one d show ?thesis by (auto simp: recovers_def)
qed

end
