(* ===== verification/Runtime_Machine.thy ===== *)
theory Runtime_Machine
  imports Runtime_Reopen
begin

text \<open>
  The life of a store: calls, crashes and openings in any order.  A crash ends the process between
  calls; one in the middle of a call is a call whose remaining appends and compare-and-swaps failed,
  followed by a crash.  The state the machine denotes only ever grows.
\<close>

datatype 'b machine = Down "'b runtime_disk" | Up "'b runtime_store"

definition call_fresh :: "'b runtime_env \<Rightarrow> 'b runtime_store \<Rightarrow> runtime_call \<Rightarrow> u64 \<Rightarrow> bool" where
  "call_fresh env s c now \<longleftrightarrow> (\<forall>t'. builds env s c now t' \<longrightarrow> prepare_fresh env (call_kind c) t' s)"

inductive machine_step :: "'b runtime_env \<Rightarrow> runtime_config \<Rightarrow> 'b machine \<Rightarrow> 'b machine \<Rightarrow> bool" for env cfg where
  calls: "run_call env oio io c now s = (s', r) \<Longrightarrow> call_fresh env s c now \<Longrightarrow>
    machine_step env cfg (Up s) (Up s')"
| crashes: "machine_step env cfg (Up s) (Down (disk_of s))"
| opens: "runtime_open env io failed cfg d now = (d', Inr s) \<Longrightarrow> machine_step env cfg (Down d) (Up s)"
| fails_to_open: "runtime_open env io failed cfg d now = (d', Inl e) \<Longrightarrow> machine_step env cfg (Down d) (Down d')"

inductive_cases machine_step_upE: "machine_step env cfg (Up s) m"
inductive_cases machine_step_downE: "machine_step env cfg (Down d) m"

abbreviation machine_life :: "'b runtime_env \<Rightarrow> runtime_config \<Rightarrow> 'b machine \<Rightarrow> 'b machine \<Rightarrow> bool" where
  "machine_life env cfg \<equiv> (machine_step env cfg)\<^sup>*\<^sup>*"

text \<open>The state a machine denotes: that of its disk, and of memory too unless the store is poisoned.\<close>

fun machine_holds :: "'b runtime_env \<Rightarrow> 'b machine \<Rightarrow> runtime_state option \<Rightarrow> bool" where
  "machine_holds env (Up s) v = (if sx_poisoned s then disk_holds env (disk_of s) v else in_step env s v)"
| "machine_holds env (Down d) v = disk_holds env d v"

lemma machine_holds_disk: "machine_holds env (Up s) v \<Longrightarrow> disk_holds env (disk_of s) v"
  using in_step_disk by (auto simp: disk_holds_def split: if_splits)

lemma prepare_fresh_objects [simp]:
  "prepare_fresh env k t (s\<lparr>sx_objects := objs\<rparr>) = prepare_fresh env k t s"
  by (simp add: prepare_fresh_def prepare_of_def next_journal_record_def transition_prepare_def)

lemma in_step_objects [simp]: "in_step env (s\<lparr>sx_objects := objs\<rparr>) v = in_step env s v"
  by (simp add: in_step_def tracks_def)

lemma disk_holds_objects [simp]: "disk_holds env (disk_of (s\<lparr>sx_objects := objs\<rparr>)) v = disk_holds env (disk_of s) v"
  by (simp add: disk_holds_def disk_ok_def disk_of_def)

section \<open>States only grow\<close>

text \<open>
  Nothing that was recorded is lost: the kernel and the domain never change, and consumed
  capabilities, receipts, latches and indexed intents stay.
\<close>

definition extends :: "runtime_state \<Rightarrow> runtime_state \<Rightarrow> bool" where
  "extends t t' \<longleftrightarrow> rs_kernel t' = rs_kernel t \<and> rs_durability_domain_id t' = rs_durability_domain_id t \<and>
     rs_generation t \<le> rs_generation t' \<and>
     rs_consumed_capability_digests t |\<subseteq>| rs_consumed_capability_digests t' \<and>
     fmlookup (rs_intent_index t) \<subseteq>\<^sub>m fmlookup (rs_intent_index t') \<and>
     fmlookup (rs_activation_receipts t) \<subseteq>\<^sub>m fmlookup (rs_activation_receipts t') \<and>
     fmlookup (rs_recovery_receipts t) \<subseteq>\<^sub>m fmlookup (rs_recovery_receipts t') \<and>
     fmlookup (rs_terminal_red_latches t) \<subseteq>\<^sub>m fmlookup (rs_terminal_red_latches t')"

fun extends_opt :: "runtime_state option \<Rightarrow> runtime_state option \<Rightarrow> bool" where
  "extends_opt None _ = True"
| "extends_opt (Some t) None = False"
| "extends_opt (Some t) (Some t') = extends t t'"

lemma extends_refl [simp]: "extends t t"
  by (simp add: extends_def)

lemma extends_trans: "extends a b \<Longrightarrow> extends b c \<Longrightarrow> extends a c"
  unfolding extends_def by (auto intro: map_le_trans order_trans)

lemma extends_opt_refl [simp]: "extends_opt v v"
  by (cases v) auto

lemma extends_opt_trans: "extends_opt u v \<Longrightarrow> extends_opt v w \<Longrightarrow> extends_opt u w"
  by (cases u; cases v; cases w) (auto intro: extends_trans)

lemma saturating_add_ge: "a \<le> saturating_add a b"
proof -
  have "unat a < 2 ^ LENGTH(64)" by (rule unsigned_less)
  then show ?thesis unfolding word_le_nat_alt unat_saturating_add by simp
qed

lemma fmupd_extends: "fmlookup m k = None \<Longrightarrow> fmlookup m \<subseteq>\<^sub>m fmlookup (fmupd k v m)"
  by (auto simp: map_le_def fmlookup_dom'_iff)

lemma sealed_domain [simp]: "rs_durability_domain_id (seal_state E t) = rs_durability_domain_id t"
  "rs_durability_domain_id (bump t) = rs_durability_domain_id t" "rs_activation_receipts (bump t) = rs_activation_receipts t"
  "rs_recovery_receipts (bump t) = rs_recovery_receipts t" "rs_generation (bump t) = saturating_add (rs_generation t) 1"
  by (simp_all add: seal_state_def bump_def Let_def)

lemma indexes_extends: "indexes E k d t t' \<Longrightarrow> extends t (seal_state E' t')"
  by (auto simp: indexes_def index_next_def extends_def saturating_add_ge fmupd_extends)

lemma builds_extends:
  assumes "builds env s c now t'"
  shows "extends_opt (sx_state s) (Some (seal_state E t'))"
proof (cases c)
  case (CallSafety q)
  with assms obtain t where t: "sx_state s = Some t"
    and new: "fmlookup (rs_terminal_red_latches t) (u64_to_string (lc_latch_epoch (rl_core (yq_latch q)))) = None"
    and t': "\<exists>g. t' = frozen_state (ve_platform env) t q g"
    by (auto simp: red_safety_next_def Let_def safety_checks_def)
  then show ?thesis
    by (auto simp: extends_def frozen_state_def Let_def saturating_add_ge fmupd_extends)
next
  case (CallBootstrap kern independence constitution ep)
  with assms show ?thesis by (auto simp: bootstrap_next_def Let_def)
next
  case (CallEvidence x)
  with assms show ?thesis by (auto simp: record_evidence_next_def Let_def extends_def saturating_add_ge)
next
  case (CallActivate q)
  with assms show ?thesis
    by (auto simp: activate_next_def Let_def extends_def saturating_add_ge intro!: fmupd_extends)
next
  case (CallConsume q)
  with assms show ?thesis by (auto simp: consume_next_def Let_def extends_def saturating_add_ge)
next
  case (CallRed d v x)
  with assms show ?thesis by (auto simp: sentinel_red_next_def extends_def saturating_add_ge)
next
  case (CallLatch x l)
  with assms show ?thesis by (auto simp: latch_red_next_def extends_def saturating_add_ge)
next
  case (CallRecover q)
  with assms show ?thesis
    by (auto simp: recover_next_def Let_def extends_def saturating_add_ge intro!: fmupd_extends)
qed (use assms in \<open>auto simp: indexes_extends\<close>)

section \<open>Steps of the machine\<close>

lemma poisoned_unusable [simp]:
  "sx_poisoned s \<Longrightarrow> ensure_usable s = Inl RtPoisoned" "sx_poisoned s \<Longrightarrow> ensure_positive_unfrozen s = Inl RtPoisoned"
  by (simp_all add: ensure_usable_def ensure_positive_unfrozen_def)

lemma poisoned_call: "sx_poisoned s \<Longrightarrow> run_call env oio io c now s = (s, Inl RtPoisoned)"
  by (cases c) (simp_all add: call_definitions commit_next_def rt_then_def rt_pure_def no_result_def
    persist_sovereign_intent_def persist_recovery_intent_def persist_safety_intent_def seq_checks_Cons
    consume_autonomy_capability_def bootstrap_next_def record_evidence_next_def activate_next_def consume_next_def
    sentinel_red_next_def latch_red_next_def red_safety_next_def recover_next_def Let_def)

lemma call_denoted:
  assumes E: "serde_writer (ve_platform env)" "parses_journal env" "protected_root_backend (ve_backend env)"
    and s: "machine_holds env (Up s) v" and run: "run_call env oio io c now s = (s', r)"
    and fresh: "call_fresh env s c now"
  shows "\<exists>v'. machine_holds env (Up s') v' \<and> extends_opt v v' \<and>
    (r = Inr () \<longrightarrow> \<not> sx_poisoned s \<and> (v' = v \<or> (\<exists>t'. builds env s c now t' \<and> v' = Some (seal_state (ve_platform env) t'))))"
proof -
  have "call_effect env io c now s (s', r)" using run_call_effect [of env io c now s oio] run by simp
  then consider objs where "s' = s\<lparr>sx_objects := objs\<rparr>" "r = Inr () \<longrightarrow> sx_state s \<noteq> None"
    | objs t' r' where "builds env s c now t'" "r = Inr () \<longleftrightarrow> r' = Inr ()"
      "commit_transition env io (call_kind c) t' now (s\<lparr>sx_objects := objs\<rparr>) = (s', r')"
    unfolding call_effect_def by auto
  then show ?thesis
  proof cases
    case 1
    then show ?thesis using s run poisoned_call [of s env oio io c now] by (intro exI [of _ v]) auto
  next
    case (2 objs t' r')
    show ?thesis
    proof (cases "sx_poisoned s")
      case True
      with 2(3) have "s' = s\<lparr>sx_objects := objs\<rparr>" "r' \<noteq> Inr ()"
        by (auto simp: commit_transition_def Let_def rt_then_def rt_pure_def ensure_usable_def check_def)
      with 2(2) s True show ?thesis by (intro exI [of _ v]) auto
    next
      case False
      with s have i: "in_step env s v" by simp
      then have held: "in_step env (s\<lparr>sx_objects := objs\<rparr>) v" by simp
      from i have "sx_state s = v" by (simp add: in_step_def)
      have "prepare_fresh env (call_kind c) t' (s\<lparr>sx_objects := objs\<rparr>)"
        using fresh 2(1) by (simp add: call_fresh_def)
      from commit_outcome [OF E held(1) this 2(3)] builds_extends [OF 2(1), of "ve_platform env"] False held \<open>sx_state s = v\<close> 2(1,2)
      show ?thesis
        by (elim disjE conjE) (auto intro: exI [of _ v] exI [of _ "Some (seal_state (ve_platform env) t')"])
    qed
  qed
qed

lemma machine_step_denoted:
  assumes E: "serde_writer (ve_platform env)" "parses_journal env" "protected_root_backend (ve_backend env)"
    and step: "machine_step env cfg m m'" and m: "machine_holds env m v"
  shows "\<exists>v'. machine_holds env m' v' \<and> extends_opt v v'"
  using step
proof cases
  case (calls oio io c now s s' r)
  with call_denoted [OF E _ calls(3,4)] m show ?thesis by blast
next
  case (crashes s)
  then have "machine_holds env m' v" using machine_holds_disk m by simp
  then show ?thesis by (intro exI [of _ v]) simp
next
  case (opens io failed d now d' s)
  with m runtime_open_denoted [OF E _ opens(3)] have "in_step env s v" by auto
  then have "machine_holds env m' v" using opens(2) in_step_disk [of env s v] by (simp add: disk_holds_def)
  then show ?thesis by (intro exI [of _ v]) simp
next
  case (fails_to_open io failed d now d' e)
  with runtime_open_denoted [OF E _ fails_to_open(3)] m show ?thesis
    by (intro exI [of _ v]) simp
qed

theorem machine_life_denoted:
  assumes E: "serde_writer (ve_platform env)" "parses_journal env" "protected_root_backend (ve_backend env)"
    and "machine_life env cfg m m'" and "machine_holds env m v"
  shows "\<exists>v'. machine_holds env m' v' \<and> extends_opt v v'"
  using assms(4,5)
proof (induction rule: rtranclp_induct)
  case base
  then show ?case by (intro exI [of _ v]) simp
next
  case (step m' m'')
  then show ?case using machine_step_denoted [OF E] extends_opt_trans by metis
qed

text \<open>Objects are never overwritten.\<close>

fun machine_objects :: "'b machine \<Rightarrow> string \<Rightarrow> bytes option" where
  "machine_objects (Up s) = sx_objects s"
| "machine_objects (Down d) = dk_objects d"

lemma call_objects:
  assumes "run_call env oio io c now s = (s', r)"
  shows "sx_objects s \<subseteq>\<^sub>m sx_objects s'"
proof -
  have "call_effect env io c now s (s', r)" using run_call_effect [of env io c now s oio] assms by simp
  then show ?thesis
    unfolding call_effect_def by (auto dest: commit_transition_frame)
qed

lemma frame_objects: "rt_keeps rt_frame m \<Longrightarrow> rt_keeps sx_objects m"
  by (auto simp: rt_keeps_def rt_frame_def)

lemma recover_objects: "rt_keeps sx_objects (recover env io replay now)"
proof -
  have state: "rt_keeps sx_objects (\<lambda>s. (s\<lparr>sx_state := t\<rparr>, r))" for t and r :: "runtime_error + unit"
    by (simp add: rt_keeps_def)
  have checked: "rt_keeps sx_objects (\<lambda>s. rt_pure (f s) s)" for f :: "'b runtime_store \<Rightarrow> runtime_error + unit"
    by (simp add: rt_keeps_def rt_pure_def)
  note steps = rt_keeps_then rt_keeps_pure state checked frame_objects [OF append_abort_keeps]
    frame_objects [OF append_commit_keeps] frame_objects [OF swap_root_keeps]
  have "rt_keeps sx_objects (recover_without_root env io replay)"
    unfolding recover_without_root_def by (cases "jp_pending replay") (auto intro!: steps)
  moreover have "rt_keeps sx_objects (recover_committed env io root replay)" for root
    unfolding recover_committed_def by (cases "jp_pending replay") (auto intro!: steps)
  moreover have "rt_keeps sx_objects (recover_prepared env io root replay now)" for root
    unfolding recover_prepared_def Let_def
    by (cases "fmlookup (jp_commits_by_prepare replay) (pr_journal_record_digest root)") (auto intro!: steps)
  ultimately show ?thesis by (auto simp: recover_def [abs_def] rt_keeps_def split: option.splits)
qed

lemma runtime_open_objects:
  assumes "runtime_open env io failed cfg d now = (d', res)"
  shows "dk_objects d' = dk_objects d \<and> (\<forall>s. res = Inr s \<longrightarrow> sx_objects s = dk_objects d)"
proof -
  have key: "recover env io p now (loaded_store cfg d p root) = (s1, r1) \<Longrightarrow> sx_objects s1 = dk_objects d" for p root s1 r1
    using rt_keepsD [OF recover_objects, of env io p now "loaded_store cfg d p root" s1 r1] by (simp add: loaded_store_def)
  show ?thesis
    using assms by (auto simp: runtime_open_def disk_of_def split: sum.splits prod.splits dest!: key)
qed

lemma machine_life_objects:
  "machine_life env cfg m m' \<Longrightarrow> machine_objects m \<subseteq>\<^sub>m machine_objects m'"
proof (induction rule: rtranclp_induct)
  case (step m' m'')
  from step.hyps(2) have "machine_objects m' \<subseteq>\<^sub>m machine_objects m''"
    by cases (use call_objects runtime_open_objects in \<open>fastforce simp: disk_of_def\<close>)+
  with step.IH show ?case by (rule map_le_trans)
qed simp


text \<open>
  The runtime makes progress: on a usable store in step with its disk, with files and a protected
  root that do as they are told, a commit of a valid state succeeds and the store can be opened
  again on what it wrote.
\<close>

section \<open>Obliging storage\<close>

text \<open>A protected root whose compare-and-swap succeeds whenever the expected root is there.\<close>

locale obliging_backend = protected_root_backend +
  fixes obliging :: "'a \<Rightarrow> bool"
  assumes obliges: "obliging b \<Longrightarrow> rb_load B b = Inr expected \<Longrightarrow>
      \<exists>b'. rb_compare_and_swap B b expected next_root = (b', Inr ()) \<and> obliging b'"
begin

lemma swaps:
  assumes "obliging b" and "rb_load B b = Inr expected"
  obtains b' where "rb_compare_and_swap B b expected next_root = (b', Inr ())" "obliging b'"
    "rb_load B b' = Inr (Some next_root)"
  using obliges [OF assms] swapped by blast

end

definition no_fault :: "shared_backend \<Rightarrow> bool" where
  "no_fault b \<longleftrightarrow> hb_fail_on_call b = None"

interpretation shared_obliging: obliging_backend shared_protected_backend no_fault
  by unfold_locales
    (auto simp: no_fault_def shared_protected_backend_def shared_compare_and_swap_def Let_def)

definition quiet_io :: journal_io where
  "quiet_io = \<lparr>jo_stat_failed = None, jo_write_failed = None, jo_sync_failed = None\<rparr>"

definition ready :: "('b \<Rightarrow> bool) \<Rightarrow> 'b runtime_store \<Rightarrow> bool" where
  "ready obliging s \<longleftrightarrow> \<not> sx_poisoned s \<and> sx_known_len s = of_nat (length (sx_journal s)) \<and> obliging (sx_backend s)"

text \<open>The journal stays below the 64 bits its length is counted in.\<close>

definition journal_room :: "'b runtime_env \<Rightarrow> transition_kind \<Rightarrow> runtime_state \<Rightarrow> 'b runtime_store \<Rightarrow> bool" where
  "journal_room env k t s \<longleftrightarrow>
     length (sx_journal s @ journal_line (ve_platform env) (prepare_of env k t s)) + 1 < 2 ^ 64"

lemma saturating_of_nat:
  assumes "a + b < 2 ^ 64"
  shows "saturating_add (of_nat a) (of_nat b) = (of_nat (a + b) :: u64)"
proof -
  have w: "unat (of_nat n :: u64) = n" if "n < 2 ^ 64" for n
    using that by (simp add: unsigned_of_nat take_bit_nat_eq_self)
  have "unat (saturating_add (of_nat a) (of_nat b) :: u64) = a + b"
    using assms w [of a] w [of b] by (simp add: unat_saturating_add)
  from trans [OF this sym [OF w [OF assms]]] show ?thesis unfolding word_unat_eq_iff .
qed

lemma append_quiet:
  fixes s :: "'b runtime_store" and E payload
  assumes "sx_known_len s = of_nat (length (sx_journal s))"
  defines "r \<equiv> next_journal_record E s payload"
  defines "bs \<equiv> journal_line E r @ [newline]"
  shows "append_record E quiet_io payload s =
    (s\<lparr>sx_journal := sx_journal s @ bs, sx_known_len := saturating_add (sx_known_len s) (of_nat (length bs)),
       sx_next_sequence := saturating_add (sx_next_sequence s) 1, sx_tail_digest := Some (jr_record_digest r)\<rparr>, Inr r)"
  using assms(1) by (simp add: append_record_def quiet_io_def Let_def r_def bs_def)

section \<open>A commit succeeds\<close>

lemma commit_succeeds:
  assumes B: "obliging_backend (ve_backend env) obliging"
    and s: "in_step env s v" "ready obliging s" "journal_room env k t s"
    and ok: "validate_state (ve_platform env) (sx_config s) (seal_state (ve_platform env) t) now = Inr ()"
      "verify_state_artifacts (ve_platform env) (ve_verifier env) (seal_state (ve_platform env) t) now = Inr ()"
  shows "\<exists>s'. commit_transition env (quiet_io, quiet_io) k t now s = (s', Inr ()) \<and> obliging (sx_backend s')"
proof -
  let ?E = "ve_platform env" and ?tid = "transition_name env k t s" and ?r = "prepare_of env k t s"
  let ?nt = "seal_state ?E t"
  let ?R = "protected_root_for_record ?E RootPrepared ?tid ?r ?nt"
  let ?bs = "journal_line ?E ?r @ [newline]"
  let ?s1 = "s\<lparr>sx_journal := sx_journal s @ ?bs, sx_known_len := of_nat (length (sx_journal s @ ?bs)),
       sx_next_sequence := saturating_add (sx_next_sequence s) 1, sx_tail_digest := Some (jr_record_digest ?r)\<rparr>"
  have known: "sx_known_len s = of_nat (length (sx_journal s))" and usable: "ensure_usable s = Inr ()"
    using s(2) by (simp_all add: ready_def ensure_usable_def)
  have one: "append_record ?E quiet_io (transition_prepare env k t s) s = (?s1, Inr ?r)"
    using append_quiet [OF known, of ?E "transition_prepare env k t s"] s(3)
    by (simp add: prepare_of_def journal_room_def known saturating_of_nat del: of_nat_add of_nat_Suc)
  obtain b1 where b1: "rb_compare_and_swap (ve_backend env) (sx_backend s) (sx_protected_root s) ?R = (b1, Inr ())"
    "obliging b1" "rb_load (ve_backend env) b1 = Inr (Some ?R)"
    using obliging_backend.swaps [OF B] s by (metis in_step_def ready_def)
  let ?s2 = "?s1\<lparr>sx_backend := b1, sx_protected_root := Some ?R\<rparr>"
  have two: "swap_root env ''prepare_compare_and_swap'' (sx_protected_root s) ?R ?s1 = (?s2, Inr ())"
    using b1(1) by (simp add: swap_root_def)
  let ?payload = "Commit ?tid (jr_record_digest ?r) (rs_state_digest ?nt)"
  let ?c = "next_journal_record ?E ?s2 ?payload"
  obtain s3 where three: "append_record ?E quiet_io ?payload ?s2 = (s3, Inr ?c)" and s3: "sx_backend s3 = b1"
    using append_quiet [of ?s2 ?E ?payload] by simp
  let ?R' = "protected_root_for_record ?E RootCommitted ?tid ?c ?nt"
  obtain b2 where "rb_compare_and_swap (ve_backend env) b1 (Some ?R) ?R' = (b2, Inr ())" and b2: "obliging b2"
    using obliging_backend.swaps [OF B b1(2,3)] by metis
  then have four: "swap_root env ''commit_compare_and_swap'' (Some ?R) ?R' s3 =
      (s3\<lparr>sx_backend := b2, sx_protected_root := Some ?R'\<rparr>, Inr ())"
    using s3 by (simp add: swap_root_def)
  have "commit_transition env (quiet_io, quiet_io) k t now s =
      (s3\<lparr>sx_backend := b2, sx_protected_root := Some ?R', sx_state := Some ?nt\<rparr>, Inr ())"
    using usable ok one two three four
    by (simp add: commit_transition_def Let_def rt_then_def rt_pure_def rt_poisoning_def append_commit_def
        transition_prepare_def transition_name_def)
  with b2 show ?thesis by simp
qed

text \<open>The root a commit leaves.\<close>

lemma commit_root:
  assumes "commit_transition env io k t now s = (s', Inr ())"
  obtains c tid where "sx_protected_root s' = Some (protected_root_for_record (ve_platform env) RootCommitted tid c
      (seal_state (ve_platform env) t))"
    "jr_record_digest c = compute_journal_digest (ve_platform env) c" "\<not> trims_empty tid"
  using assms
proof (rule commit_transition_steps, goal_cases)
  case (1 s1 s2 s3 s4 prepare commit E tid nt)
  have "commit = next_journal_record E s2 (Commit tid (jr_record_digest prepare) (rs_state_digest nt))"
    using 1(10) by (auto simp: append_commit_def append_record_def Let_def split: option.splits if_splits)
  then have "jr_record_digest commit = compute_journal_digest (ve_platform env) commit" using 1(2) by simp
  moreover have "sx_protected_root s' = Some (protected_root_for_record (ve_platform env) RootCommitted tid commit
      (seal_state (ve_platform env) t))"
    using 1 by (auto simp: swap_root_def split: prod.splits sum.splits)
  moreover have "\<not> trims_empty tid" using 1(4) transition_id_nonblank by (simp add: transition_name_def)
  ultimately show ?case using 1(1) by blast
qed

text \<open>The two lines a commit appends.\<close>

lemma append_record_line:
  "append_record E io payload s = (s', Inr r) \<Longrightarrow> r = next_journal_record E s payload \<and>
     sx_journal s' = sx_journal s @ journal_line E r @ [newline] \<and>
     sx_next_sequence s' = saturating_add (sx_next_sequence s) 1 \<and> sx_tail_digest s' = Some (jr_record_digest r) \<and>
     sx_protected_root s' = sx_protected_root s"
  by (auto simp: append_record_def Let_def split: option.splits if_splits)

lemma swap_root_line:
  "swap_root env operation expected n s = (s', Inr u) \<Longrightarrow> sx_journal s' = sx_journal s \<and>
     sx_next_sequence s' = sx_next_sequence s \<and> sx_tail_digest s' = sx_tail_digest s"
  by (auto simp: swap_root_def split: prod.splits sum.splits)

lemma commit_journal:
  assumes "commit_transition env io k t now s = (s', Inr ())"
  obtains c where "sx_journal s' = sx_journal s @ journal_line (ve_platform env) (prepare_of env k t s) @ [newline] @
      journal_line (ve_platform env) c @ [newline]"
    "jr_payload c = Commit (transition_name env k t s) (jr_record_digest (prepare_of env k t s))
       (rs_state_digest (seal_state (ve_platform env) t))"
    "jr_schema c = AUTONOMY_JOURNAL_RECORD_SCHEMA" "jr_previous_record_digest c = Some (jr_record_digest (prepare_of env k t s))"
    "jr_record_digest c = compute_journal_digest (ve_platform env) c" "sx_tail_digest s' = Some (jr_record_digest c)"
    "sx_next_sequence s' = saturating_add (saturating_add (sx_next_sequence s) 1) 1"
  using assms
proof (rule commit_transition_steps, goal_cases)
  case (1 s1 s2 s3 s4 prepare commit E tid nt)
  note one = append_record_line [OF 1(8)] and two = swap_root_line [OF 1(9)]
    and three = append_record_line [OF 1(10) [unfolded append_commit_def]] and four = swap_root_line [OF 1(11)]
  have p: "prepare = prepare_of env k t s" using one 1(2) by (simp add: prepare_of_def)
  show ?case
    by (rule 1(1) [of commit]) (use p one two three four 1(2-4,12) in simp_all)
qed

section \<open>Opening succeeds\<close>

lemma resolve_frame:
  assumes "rt_frame s = rt_frame s'"
  shows "resolve_intent_bytes env s = resolve_intent_bytes env s'"
    "resolve_sovereign_intent env s = resolve_sovereign_intent env s'"
    "resolve_safety_intent env s = resolve_safety_intent env s'"
proof -
  have same: "sx_config s = sx_config s'" "sx_objects s = sx_objects s'" "sx_state s = sx_state s'"
    using assms by (simp_all add: rt_frame_def)
  have "read_limited s = read_limited s'" "current_state s = current_state s'"
    unfolding fun_eq_iff read_limited_def current_state_def same by simp_all
  then show bs: "resolve_intent_bytes env s = resolve_intent_bytes env s'"
    by (simp add: fun_eq_iff resolve_intent_bytes_def)
  show "resolve_sovereign_intent env s = resolve_sovereign_intent env s'"
    "resolve_safety_intent env s = resolve_safety_intent env s'"
    unfolding fun_eq_iff resolve_sovereign_intent_def resolve_safety_intent_def bs by simp_all
qed

lemma verify_all_frame:
  assumes "rt_frame s = rt_frame s'"
  shows "verify_all_intent_objects env s t now = verify_all_intent_objects env s' t now"
  unfolding verify_all_intent_objects_def resolve_frame(2,3) [OF assms] ..

lemma disk_of_fields:
  "dk_journal (disk_of s) = sx_journal s" "dk_backend (disk_of s) = sx_backend s" "dk_objects (disk_of s) = sx_objects s"
  by (simp_all add: disk_of_def)

lemma committed_root_valid:
  assumes W: "sha256_width (ve_platform env)"
    and root: "root = protected_root_for_record (ve_platform env) RootCommitted tid c t"
      "jr_record_digest c = compute_journal_digest (ve_platform env) c" "\<not> trims_empty tid"
    and ok: "validate_state (ve_platform env) cfg t now = Inr ()"
  shows "validate_root (ve_platform env) root = Inr ()"
proof -
  have "digest_syntax (rs_state_digest t)" and "rs_intent_store_root_digest t = compute_intent_store_root (ve_platform env) (rs_intent_index t)"
    using ok by (auto simp: validate_state_def state_head_checks_def rt_require_digest_def)
  moreover have "digest_syntax (compute_intent_store_root (ve_platform env) m)" "digest_syntax (compute_journal_digest (ve_platform env) c)"
    "digest_syntax (compute_root_digest (ve_platform env) x)" for m x
    by (simp_all add: compute_intent_store_root_def compute_journal_digest_def compute_root_digest_def digest_canonical_syntax [OF W])
  ultimately show ?thesis using root
    by (simp add: validate_root_def protected_root_for_record_def seal_root_def rt_require_digest_def
        rt_require_non_empty_def compute_root_digest_def digest_canonical_syntax [OF W])
qed

lemma open_succeeds:
  assumes W: "sha256_width (ve_platform env)"
    and s: "in_step env s (Some t)"
    and root: "sx_protected_root s = Some (protected_root_for_record (ve_platform env) RootCommitted tid c t)"
      "jr_record_digest c = compute_journal_digest (ve_platform env) c" "\<not> trims_empty tid"
    and cfg: "\<forall>x \<in> set (open_config_checks env (sx_config s)). x = Inr ()"
    and ok: "validate_state (ve_platform env) (sx_config s) t now = Inr ()"
      "verify_state_artifacts (ve_platform env) (ve_verifier env) t now = Inr ()"
      "verify_all_intent_objects env s t now = Inr ()"
  shows "\<exists>s'. runtime_open env io None (sx_config s) (disk_of s) now = (disk_of s', Inr s') \<and> sx_state s' = Some t \<and>
    rt_frame s' = rt_frame s \<and> sx_backend s' = sx_backend s \<and> sx_journal s' = sx_journal s \<and> \<not> sx_poisoned s' \<and>
    sx_next_sequence s' = sx_next_sequence s \<and> sx_tail_digest s' = sx_tail_digest s \<and> sx_known_len s' = of_nat (length (sx_journal s))"
proof -
  let ?root = "protected_root_for_record (ve_platform env) RootCommitted tid c t"
  obtain p where p: "journal_reads env (sx_journal s) p" "tracks s p" "jp_pending p = None"
    "rb_load (ve_backend env) (sx_backend s) = Inr (sx_protected_root s)" "settled (ve_platform env) p (sx_protected_root s) (Some t)"
    using s by (auto simp: in_step_def)
  let ?p = "p\<lparr>jp_known_len := of_nat (length (sx_journal s))\<rparr>"
  let ?s = "loaded_store (sx_config s) (disk_of s) ?p (Some ?root)"
  let ?s' = "?s\<lparr>sx_state := Some t\<rparr>"
  obtain d where d: "jp_latest_commit p = Some d" "cr_state d = t" "jr_record_digest (cr_record d) = jr_record_digest c"
      "jr_sequence (cr_record d) = jr_sequence c"
    using p(5) root(1)
    by (auto elim!: settled.cases) (metis protected_root_fields(3,4))
  have proj: "validate_root_state_projection ?root t = Inr ()"
    by (simp add: validate_root_state_projection_def protected_root_for_record_def seal_root_def)
  have rec: "recover env io ?p now ?s = (?s', Inr ())"
    using d p(3) proj by (simp add: recover_def recover_committed_def rt_then_def rt_pure_def loaded_store_def)
  have checked: "seq_checks (open_config_checks env (sx_config s)) = Inr ()" using cfg by simp
  have frame: "rt_frame ?s' = rt_frame s" using s by (simp add: rt_frame_def loaded_store_def disk_of_def in_step_def)
  have "check_opened_state env now ?s' = Inr ()"
    using ok verify_all_frame [OF frame] by (simp add: check_opened_state_def loaded_store_def)
  moreover have "validate_root (ve_platform env) ?root = Inr ()" by (rule committed_root_valid [OF W refl root(2,3) ok(1)])
  ultimately have "runtime_open env io None (sx_config s) (disk_of s) now = (disk_of ?s', Inr ?s')"
    using journal_reads_replay [OF p(1)] p(4) root(1) rec
    by (simp add: runtime_open_def disk_of_fields checked)
  moreover have "sx_state s = Some t" using s by (simp add: in_step_def)
  ultimately show ?thesis
    using p(2) by (intro exI [of _ ?s']) (simp add: loaded_store_def disk_of_fields rt_frame_def tracks_def)
qed

text \<open>What \<open>open\<close> itself demands of a state at the time it is called: the configuration checks, the
  state's own validation, the verifier's word on its artifacts, and every indexed intent object,
  sovereign intents with their expiry.\<close>

definition passes_open_checks :: "'b runtime_env \<Rightarrow> 'b runtime_store \<Rightarrow> runtime_state \<Rightarrow> u64 \<Rightarrow> bool" where
  "passes_open_checks env s t now_ms \<longleftrightarrow>
     (\<forall>c \<in> set (open_config_checks env (sx_config s)). c = Inr ()) \<and>
     validate_state (ve_platform env) (sx_config s) t now_ms = Inr () \<and>
     verify_state_artifacts (ve_platform env) (ve_verifier env) t now_ms = Inr () \<and>
     verify_all_intent_objects env s t now_ms = Inr ()"

lemma opened_passes:
  assumes "runtime_open env io failed (sx_config s) (disk_of s) now = (d, Inr s')"
    and "in_step env s (Some t)" "sx_state s' = Some t"
  shows "passes_open_checks env s t now"
proof -
  from assms(1,3) have "check_opened_state env now s' = Inr ()" "sx_config s' = sx_config s"
    "\<forall>c \<in> set (open_config_checks env (sx_config s)). c = Inr ()" by (auto elim: runtime_open_ok)
  moreover have "rt_frame s' = rt_frame s"
    using calculation(2) runtime_open_objects [OF assms(1)] assms(2,3) by (simp add: rt_frame_def disk_of_fields in_step_def)
  ultimately show ?thesis
    using assms(3) verify_all_frame [of s' s] by (simp add: passes_open_checks_def check_opened_state_def)
qed

text \<open>C8: A commit reaches the disk: on a usable store in step with its disk, with files that can be
  written and synced, a protected root that swaps what it is asked to and a journal below 64 bits, a
  commit of a valid and signed state is acknowledged, and from then on what it left on disk stands
  for exactly that state.  Opening it at whatever later time succeeds exactly if the state passes
  the checks that \<open>open\<close> makes at that time (the configuration, the state, its signed artifacts and
  every indexed intent object with its expiry), which the commit itself does not all make; an
  opening that succeeds yields a store that holds exactly the committed state, and one that is
  refused leaves a disk that still holds it.\<close>
theorem commit_then_open:
  assumes "serde_writer (ve_platform env)" "sha256_width (ve_platform env)" "parses_journal env"
    and "obliging_backend (ve_backend env) obliging"
    and "in_step env s v" "ready obliging s" "journal_room env k t s" "prepare_fresh env k t s"
    and "validate_state (ve_platform env) (sx_config s) (seal_state (ve_platform env) t) now = Inr ()"
    and "verify_state_artifacts (ve_platform env) (ve_verifier env) (seal_state (ve_platform env) t) now = Inr ()"
  shows "\<exists>s'. commit_transition env (quiet_io, quiet_io) k t now s = (s', Inr ()) \<and>
    in_step env s' (Some (seal_state (ve_platform env) t)) \<and>
    (\<forall>later d res. runtime_open env quiet_io None (sx_config s) (disk_of s') later = (d, res) \<longrightarrow>
       disk_holds env d (Some (seal_state (ve_platform env) t)) \<and>
       (\<forall>s''. res = Inr s'' \<longrightarrow> d = disk_of s'' \<and> in_step env s'' (Some (seal_state (ve_platform env) t))) \<and>
       ((\<exists>s''. res = Inr s'') \<longleftrightarrow> passes_open_checks env s' (seal_state (ve_platform env) t) later))"
proof -
  let ?t = "seal_state (ve_platform env) t"
  have B: "protected_root_backend (ve_backend env)" using assms(4) by (rule obliging_backend.axioms)
  obtain s' where s': "commit_transition env (quiet_io, quiet_io) k t now s = (s', Inr ())"
    using commit_succeeds [OF assms(4-7,9,10)] by blast
  have cfg: "sx_config s' = sx_config s" using commit_transition_ok(2-4) [OF s'] by simp
  have step: "in_step env s' (Some ?t)" using commit_outcome [OF assms(1,3) B assms(5,8) s'] by simp
  obtain c tid where root: "sx_protected_root s' = Some (protected_root_for_record (ve_platform env) RootCommitted tid c ?t)"
    "jr_record_digest c = compute_journal_digest (ve_platform env) c" "\<not> trims_empty tid"
    by (rule commit_root [OF s'])
  have "disk_holds env (disk_of s') (Some ?t)" using in_step_disk [OF step] by (simp add: disk_holds_def)
  note opened = runtime_open_denoted [OF assms(1,3) B this]
  have "(\<exists>s''. res = Inr s'') \<longleftrightarrow> passes_open_checks env s' ?t later"
    if run: "runtime_open env quiet_io None (sx_config s) (disk_of s') later = (d, res)" for later d res
  proof
    assume "\<exists>s''. res = Inr s''"
    then obtain s'' where s'': "res = Inr s''" by blast
    with opened [OF run] have "sx_state s'' = Some ?t" by (auto simp: in_step_def)
    with run s'' step cfg show "passes_open_checks env s' ?t later" by (intro opened_passes) simp_all
  next
    assume "passes_open_checks env s' ?t later"
    with open_succeeds [OF assms(2) step root, of later quiet_io] run cfg show "\<exists>s''. res = Inr s''"
      by (auto simp: passes_open_checks_def)
  qed
  with opened s' step show ?thesis by blast
qed

end
