(* ===== verification/Runtime_Sample_Platform.thy ===== *)
theory Runtime_Sample_Platform
  imports Runtime_Machine Reference_Platform
begin

text \<open>
  A platform for the samples of the runtime: the reference platform with a hash that returns the
  end of its message, so that journal records of different sequence numbers have different digests,
  and a bound on the length of what it writes, so that a journal of known records is short.
\<close>

section \<open>A hash of the tail\<close>

definition tail_hash :: "bytes \<Rightarrow> bytes" where
  "tail_hash m = drop (length m) (replicate 32 (CHR 0x00) @ m)"

definition tail_platform :: platform where
  "tail_platform = reference_platform\<lparr>sha256 := tail_hash\<rparr>"

lemma tail_hash_length: "length (tail_hash m) = 32"
  by (simp add: tail_hash_def)

lemma tail_hash_end: "tail_hash (m @ [a, b]) ! 30 = a"
  unfolding tail_hash_def by (subst nth_drop) (simp_all add: nth_append)

lemma sha256_width_tail: "sha256_width tail_platform"
  by (simp add: sha256_width_def tail_platform_def tail_hash_length)

lemma serde_writer_tail: "serde_writer tail_platform"
proof -
  have writers: "write_string tail_platform = write_string reference_platform" "write_number tail_platform = write_number reference_platform"
    by (simp_all add: tail_platform_def)
  show ?thesis using serde_writer_reference unfolding serde_writer_def writers .
qed

lemma tail_writers [simp]:
  "write_string tail_platform = ref_string" "write_number tail_platform = ref_number"
  "sha256 tail_platform = tail_hash"
  by (simp_all add: tail_platform_def reference_platform_def)

lemma ref_number_digit: "n < 10 \<Longrightarrow> ref_number (int n) = [ref_digit n]"
  by (simp add: ref_number_def) (subst ref_decimal.simps, simp)

lemma journal_keys_sorted:
  "sort_key fst [(''schema'', a), (''sequence'', b), (''previous_record_digest'', c), (''payload'', d), (''record_digest'', e)] =
   [(''payload'', d), (''previous_record_digest'', c), (''record_digest'', e), (''schema'', a), (''sequence'', b :: bytes)]"
  by (simp add: sort_key_def)

lemma record_bytes_end:
  assumes "unat (jr_sequence r) < 10"
  shows "\<exists>m. canonical_json tail_platform (json_of_journal_record r) = m @ [ref_digit (unat (jr_sequence r)), CHR ''}'']"
proof -
  have "uint (jr_sequence r) = int (unat (jr_sequence r))" by simp
  then have "write_value tail_platform (json_u64 (jr_sequence r)) = [ref_digit (unat (jr_sequence r))]"
    using ref_number_digit [OF assms] by (simp add: json_u64_def)
  then show ?thesis
    by (simp add: canonical_json_def json_of_journal_record_def journal_keys_sorted write_entry_def)
qed

lemma tail_digest_sequence:
  assumes "compute_journal_digest tail_platform r = compute_journal_digest tail_platform r'"
    and "unat (jr_sequence r) < 10" "unat (jr_sequence r') < 10"
  shows "jr_sequence r = jr_sequence r'"
proof -
  let ?r = "r\<lparr>jr_record_digest := []\<rparr>" and ?r' = "r'\<lparr>jr_record_digest := []\<rparr>"
  obtain m where m: "canonical_json tail_platform (json_of_journal_record ?r) = m @ [ref_digit (unat (jr_sequence r)), CHR ''}'']"
    using record_bytes_end [of ?r] assms(2) by auto
  obtain m' where m': "canonical_json tail_platform (json_of_journal_record ?r') = m' @ [ref_digit (unat (jr_sequence r')), CHR ''}'']"
    using record_bytes_end [of ?r'] assms(3) by auto
  have "tail_hash (digest_message AUTONOMY_JOURNAL_RECORD_DIGEST_DOMAIN (m @ [ref_digit (unat (jr_sequence r)), CHR ''}''])) =
      tail_hash (digest_message AUTONOMY_JOURNAL_RECORD_DIGEST_DOMAIN (m' @ [ref_digit (unat (jr_sequence r')), CHR ''}'']))"
    using assms(1) m m' by (simp add: compute_journal_digest_def digest_canonical_def digest_domain_bytes_def hex_lower_inj)
  then have "ref_digit (unat (jr_sequence r)) = ref_digit (unat (jr_sequence r'))"
    unfolding digest_message_def append_assoc [symmetric] by (metis tail_hash_end)
  then have "unat (jr_sequence r) = unat (jr_sequence r')"
    using ref_digit_cases assms(2,3) by (metis add_left_cancel)
  then show ?thesis by (simp add: word_unat_eq_iff)
qed

section \<open>Freshness\<close>

text \<open>The commits of a journal are keyed by the digests of records with smaller sequence numbers.\<close>

definition commits_behind :: "platform \<Rightarrow> journal_replay \<Rightarrow> bool" where
  "commits_behind E p \<longleftrightarrow>
     (\<forall>q. jp_pending p = Some q \<longrightarrow> jr_record_digest (pp_record q) = compute_journal_digest E (pp_record q) \<and>
        unat (jr_sequence (pp_record q)) < unat (jp_next_sequence p)) \<and>
     (\<forall>k c. fmlookup (jp_commits_by_prepare p) k = Some c \<longrightarrow>
        (\<exists>r. k = compute_journal_digest E r \<and> unat (jr_sequence r) < unat (jp_next_sequence p)))"

lemma replay_line_behind:
  assumes "replay_journal_line E parse n l p = Inr q" and "commits_behind E p" and "unat (jp_next_sequence p) + 1 < 2 ^ 64"
  shows "commits_behind E q \<and> unat (jp_next_sequence q) = unat (jp_next_sequence p) + 1"
proof -
  from assms(1) obtain r q' where r: "jr_sequence r = jp_next_sequence p" "compute_journal_digest E r = jr_record_digest r"
    and q': "replay_payload E n r (jr_payload r) p = Inr q'"
      "q = q'\<lparr>jp_next_sequence := saturating_add (jp_next_sequence p) 1, jp_tail_digest := Some (jr_record_digest r)\<rparr>"
    by (auto simp: replay_journal_line_def)
  have n: "unat (saturating_add (jp_next_sequence p) 1) = unat (jp_next_sequence p) + 1"
    using assms(3) by (simp add: unat_saturating_add)
  show ?thesis
    using assms(2) q' r n
    by (cases "jr_payload r") (auto simp: commits_behind_def Let_def less_Suc_eq; metis)+
qed

lemma run_lines_behind:
  assumes "run_lines env i ls p = Inr q" and "commits_behind (ve_platform env) p"
    and "unat (jp_next_sequence p) + length ls < 2 ^ 64"
  shows "commits_behind (ve_platform env) q \<and> unat (jp_next_sequence q) = unat (jp_next_sequence p) + length ls"
  using assms
proof (induction ls arbitrary: i p)
  case Nil
  then show ?case by simp
next
  case (Cons l ls)
  then obtain p' where p': "replay_journal_line (ve_platform env) (ve_parse_record env) (i + 1) l p = Inr p'"
    "run_lines env (i + 1) ls p' = Inr q" by (auto simp: and_then_def split: sum.splits)
  have "unat (jp_next_sequence p) + 1 < 2 ^ 64" using Cons.prems(3) by simp
  from replay_line_behind [OF p'(1) Cons.prems(2) this] Cons.IH [OF p'(2)] Cons.prems(3) show ?case by simp
qed

lemma journal_reads_behind:
  assumes "journal_reads env bs p" and "length bs < 2 ^ 63"
  shows "commits_behind (ve_platform env) p"
proof -
  obtain ls where ls: "bs = log_bytes ls" "run_lines env 0 ls empty_replay = Inr p"
    using assms(1) by (auto simp: journal_reads_def)
  have "length ls \<le> length (log_bytes ls)" by (induction ls) (simp_all add: log_bytes_def)
  with ls(1) assms(2) have "unat (jp_next_sequence empty_replay) + length ls < 2 ^ 64" by (simp add: empty_replay_def)
  moreover have "commits_behind (ve_platform env) empty_replay" by (simp add: commits_behind_def empty_replay_def)
  ultimately show ?thesis using run_lines_behind [OF ls(2)] by blast
qed

lemma tail_prepare_fresh:
  assumes "ve_platform env = tail_platform" and "unat (sx_next_sequence s) < 10"
    and "journal_reads env (sx_journal s) p" "tracks s p" and "length (sx_journal s) < 2 ^ 63"
  shows "prepare_fresh env k t s"
  unfolding prepare_fresh_def
proof (intro allI impI)
  fix p' assume p': "journal_reads env (sx_journal s) p'"
  have n: "jp_next_sequence p' = sx_next_sequence s"
    using journal_reads_same [OF p' assms(3), of 0] assms(4) by (cases p; cases p') (simp add: tracks_def)
  show "fmlookup (jp_commits_by_prepare p') (jr_record_digest (prepare_of env k t s)) = None"
  proof (rule ccontr)
    assume "fmlookup (jp_commits_by_prepare p') (jr_record_digest (prepare_of env k t s)) \<noteq> None"
    with journal_reads_behind [OF p' assms(5)] obtain r where
      r: "jr_record_digest (prepare_of env k t s) = compute_journal_digest tail_platform r" "unat (jr_sequence r) < unat (sx_next_sequence s)"
      unfolding commits_behind_def n assms(1) by blast
    have "compute_journal_digest tail_platform (prepare_of env k t s) = compute_journal_digest tail_platform r"
      using r(1) assms(1) by (simp add: prepare_of_def)
    from tail_digest_sequence [OF this] r(2) assms(2) show False by (simp add: prepare_of_def)
  qed
qed

section \<open>Lengths\<close>

fun jweight :: "json \<Rightarrow> nat" where
  "jweight JNull = 4"
| "jweight (JBool b) = 5"
| "jweight (JNumber n) = (if 0 \<le> n \<and> n < 2 ^ 64 then 20 else length (ref_number n))"
| "jweight (JString s) = 2 * length s + 2"
| "jweight (JArray vs) = 2 + sum_list (map (\<lambda>v. jweight v + 1) vs)"
| "jweight (JObject kvs) = 2 + sum_list (map (\<lambda>(k, v). 2 * length k + jweight v + 4) kvs)"

lemma jweight_u64 [simp]: "jweight (json_u64 n) = 20"
proof -
  have "uint n < 2 ^ LENGTH(64)" by (rule unsigned_less)
  then show ?thesis by (simp add: json_u64_def)
qed

lemma ref_decimal_length: "n < 10 ^ Suc k \<Longrightarrow> length (ref_decimal n) \<le> Suc k"
proof (induction k arbitrary: n)
  case 0
  then show ?case by (simp add: ref_decimal.simps)
next
  case (Suc k)
  then have "n div 10 < 10 ^ Suc k" by (simp add: less_mult_imp_div_less mult.commute)
  with Suc.IH show ?case by (subst ref_decimal.simps) auto
qed

lemma ref_number_length: "0 \<le> n \<Longrightarrow> n < 2 ^ 64 \<Longrightarrow> length (ref_number n) \<le> 20"
  using ref_decimal_length [of "nat n" 19] by (simp add: ref_number_def)

lemma ref_string_length: "length (ref_string s) \<le> 2 * length s + 2"
proof -
  have "length (concat (map ref_escape s)) \<le> 2 * length s"
    by (induction s) (auto simp: ref_escape_def)
  then show ?thesis by (simp add: ref_string_def)
qed

lemma interspersed_length: "length (intersperse_concat [c] xs) \<le> sum_list (map (\<lambda>x. length x + 1) xs)"
  by (induction "[c]" xs rule: intersperse_concat.induct) auto

lemma sum_list_sort_key: "sum_list (map f (sort_key k xs)) = (sum_list (map f xs) :: nat)"
  by (metis mset_map mset_sort sum_mset_sum_list)

lemma write_value_length: "length (write_value tail_platform v) \<le> jweight v"
proof (induction v)
  case (JNumber n)
  then show ?case using ref_number_length [of n] by simp
next
  case (JString s)
  then show ?case using ref_string_length by simp
next
  case (JArray vs)
  have "sum_list (map (\<lambda>x. length x + 1) (map (write_value tail_platform) vs)) \<le> sum_list (map (\<lambda>v. jweight v + 1) vs)"
    unfolding map_map o_def by (rule sum_list_mono) (use JArray in auto)
  with interspersed_length [of "CHR '',''" "map (write_value tail_platform) vs"] show ?case by simp
next
  case (JObject kvs)
  let ?es = "map (map_prod id (write_value tail_platform)) kvs"
  have "sum_list (map (\<lambda>x. length x + 1) (map (write_entry tail_platform) (sort_key fst ?es))) =
      sum_list (map ((\<lambda>x. length x + 1) \<circ> write_entry tail_platform) ?es)"
    by (simp only: list.map_comp sum_list_sort_key)
  also have "\<dots> \<le> sum_list (map (\<lambda>(k, v). 2 * length k + jweight v + 4) kvs)"
    unfolding map_map o_def
  proof (rule sum_list_mono)
    fix kv assume kv: "kv \<in> set kvs"
    obtain k v where "kv = (k, v)" by fastforce
    with kv JObject [of kv v] ref_string_length [of k]
    show "length (write_entry tail_platform (map_prod id (write_value tail_platform) kv)) + 1 \<le>
        (case kv of (k, v) \<Rightarrow> 2 * length k + jweight v + 4)"
      by (auto simp: write_entry_def)
  qed
  finally show ?case
    using interspersed_length [of "CHR '',''" "map (write_entry tail_platform) (sort_key fst ?es)"] by simp
qed auto

lemma journal_line_length: "length (journal_line tail_platform r) \<le> jweight (json_of_journal_record r)"
  using write_value_length by (simp add: journal_line_def canonical_json_def)

end
