(* ===== verification/Runtime_Fence.thy ===== *)
theory Runtime_Fence
  imports Runtime_Typed
begin

text \<open>
  The fence: a five-state automaton whose moves are the kinds of transition of the journal.  The
  runtime refines it - the kinds of the calls that succeed spell a word the automaton accepts -
  so that what holds of its words holds of every history of the store.
\<close>

section \<open>The automaton\<close>

datatype fence = Unborn | Opened | Raised | Latched | Shut

fun fence_step :: "transition_kind \<Rightarrow> fence \<Rightarrow> fence option" where
  "fence_step Bootstrap Unborn = Some Opened"
| "fence_step IntentStored f = (if f = Unborn then None else Some f)"
| "fence_step TierEvidenceRecorded Opened = Some Opened"
| "fence_step ModeActivated Opened = Some Opened"
| "fence_step CapabilityConsumed Opened = Some Opened"
| "fence_step SentinelRedPersisted Opened = Some Raised"
| "fence_step RedLatched Raised = Some Latched"
| "fence_step RedSafetyCommitted Latched = Some Shut"
| "fence_step RecoveredFromFrozen Shut = Some Opened"
| "fence_step _ _ = None"

fun fence_of :: "runtime_state option \<Rightarrow> fence" where
  "fence_of None = Unborn"
| "fence_of (Some t) =
     (case rs_pending_red t of
        Some p \<Rightarrow> if pq_latch p = None then Raised else Latched
      | None \<Rightarrow> if ae_safety_state (rs_autonomy_epoch t) = Frozen then Shut else Opened)"

text \<open>Words of an automaton, for any automaton; and the words a machine that refines it spells.\<close>

fun word_run :: "('k \<Rightarrow> 'f \<Rightarrow> 'f option) \<Rightarrow> 'k list \<Rightarrow> 'f \<Rightarrow> 'f option" where
  "word_run step [] f = Some f"
| "word_run step (k # ks) f = (case step k f of None \<Rightarrow> None | Some g \<Rightarrow> word_run step ks g)"

lemma word_run_append:
  "word_run step (ks @ ls) f = (case word_run step ks f of None \<Rightarrow> None | Some g \<Rightarrow> word_run step ls g)"
  by (induction ks arbitrary: f) (auto split: option.splits)

fun machine_run :: "('c \<Rightarrow> 's \<Rightarrow> 's \<times> 'k option) \<Rightarrow> 'c list \<Rightarrow> 's \<Rightarrow> 's \<times> 'k list" where
  "machine_run act [] s = (s, [])"
| "machine_run act (c # cs) s =
     (let (s1, k) = act c s; (s2, ks) = machine_run act cs s1 in
      (s2, (case k of None \<Rightarrow> ks | Some k \<Rightarrow> k # ks)))"

locale refines_automaton =
  fixes step :: "'k \<Rightarrow> 'f \<Rightarrow> 'f option" and act :: "'c \<Rightarrow> 's \<Rightarrow> 's \<times> 'k option"
    and good :: "'s \<Rightarrow> bool" and view :: "'s \<Rightarrow> 'f"
  assumes good_step: "good s \<Longrightarrow> act c s = (s', r) \<Longrightarrow> good s'"
    and silent: "good s \<Longrightarrow> act c s = (s', None) \<Longrightarrow> view s' = view s"
    and moves: "good s \<Longrightarrow> act c s = (s', Some k) \<Longrightarrow> step k (view s) = Some (view s')"
begin

lemma run_refines:
  "good s \<Longrightarrow> machine_run act cs s = (s', ks) \<Longrightarrow> word_run step ks (view s) = Some (view s') \<and> good s'"
proof (induction cs arbitrary: s s' ks)
  case Nil
  then show ?case by simp
next
  case (Cons c cs)
  obtain s1 k where act: "act c s = (s1, k)" by fastforce
  obtain s2 ls where rest: "machine_run act cs s1 = (s2, ls)" by fastforce
  from good_step [OF Cons.prems(1) act] Cons.IH rest
  have ih: "word_run step ls (view s1) = Some (view s2)" "good s2" by blast+
  show ?case
  proof (cases k)
    case None
    with act rest Cons.prems silent [of s c s1] ih show ?thesis by auto
  next
    case (Some j)
    with act rest Cons.prems moves [of s c s1 j] ih show ?thesis by auto
  qed
qed

end

section \<open>The runtime refines it\<close>

lemma unfrozen_open:
  assumes "ensure_positive_unfrozen s = Inr ()"
  shows "fence_of (sx_state s) = Opened \<and> \<not> sx_poisoned s"
    "\<exists>t. sx_state s = Some t \<and> ae_safety_state (rs_autonomy_epoch t) = Healthy \<and> rs_pending_red t = None"
  using assms by (auto simp: ensure_positive_unfrozen_def ensure_usable_def)

lemma fence_of_index [simp]: "fence_of (Some (index_next E t e)) = fence_of (Some t)"
  by (simp add: index_next_def)

lemma fence_of_seal [simp]: "fence_of (Some (seal_state E t)) = fence_of (Some t)"
  by simp

lemma fence_born [simp]: "fence_of (Some t) \<noteq> Unborn"
  by (auto split: option.splits)

lemma fence_stored:
  "indexes E k d t t' \<Longrightarrow> fence_step IntentStored (fence_of (Some t)) = Some (fence_of (Some (seal_state E' t')))"
  unfolding indexes_def by (auto simp del: fence_of.simps)

lemma builds_fence:
  assumes "builds env s c now t'" and "\<And>t. sx_state s = Some t \<Longrightarrow> typed_state E cfg t"
    and "typed_state E cfg (seal_state E' t')"
  shows "fence_step (call_kind c) (fence_of (sx_state s)) = Some (fence_of (Some (seal_state E' t')))"
proof -
  from assms(3) have post: "fence_coherent (seal_state E' t')" by (simp add: typed_state_def)
  have pre: "fence_coherent t" if "sx_state s = Some t" for t
    using assms(2) [OF that] by (simp add: typed_state_def)
  have reopened: "fence_of (Some (seal_state E' t')) = Opened"
    if "rs_pending_red t' = None" "rs_last_valid_mode_before_freeze t' = None"
    using post that by (simp add: fence_coherent_def Let_def)
  show ?thesis
  proof (cases c)
    case (CallBootstrap kern independence constitution ep)
    with assms(1) have "sx_state s = None" and t': "t' = bootstrap_state (ve_platform env) (sx_config s) kern independence constitution ep"
      by (auto simp: bootstrap_next_def Let_def)
    with reopened CallBootstrap show ?thesis by (simp add: bootstrap_state_def)
  next
    case (CallEvidence x)
    with assms(1) show ?thesis
      using unfrozen_open [of s] by (auto simp: record_evidence_next_def Let_def)
  next
    case (CallSovereign i)
    with assms(1) show ?thesis by (auto dest: fence_stored [of _ _ _ _ _ E'] simp del: fence_of.simps)
  next
    case (CallRecoveryIntent i)
    with assms(1) show ?thesis by (auto dest: fence_stored [of _ _ _ _ _ E'] simp del: fence_of.simps)
  next
    case (CallSafetyIntent i)
    with assms(1) show ?thesis by (auto dest: fence_stored [of _ _ _ _ _ E'] simp del: fence_of.simps)
  next
    case (CallActivate q)
    with assms(1) have u: "ensure_positive_unfrozen s = Inr ()" by (auto simp: activate_next_def)
    obtain t where t: "sx_state s = Some t" "ae_safety_state (rs_autonomy_epoch t) = Healthy" "rs_pending_red t = None"
      using unfrozen_open(2) [OF u] by blast
    with pre have "rs_last_valid_mode_before_freeze t = None" by (simp add: fence_coherent_def Let_def)
    with t assms(1) CallActivate reopened u show ?thesis
      using unfrozen_open(1) [OF u] by (auto simp: activate_next_def Let_def)
  next
    case (CallConsume q)
    with assms(1) show ?thesis
      using unfrozen_open [of s] by (auto simp: consume_next_def Let_def)
  next
    case (CallRed d v x)
    with assms(1) show ?thesis by (auto simp: sentinel_red_next_def)
  next
    case (CallLatch x l)
    with assms(1) show ?thesis by (auto simp: latch_red_next_def)
  next
    case (CallSafety q)
    with assms(1) show ?thesis
      by (auto simp: red_safety_next_def Let_def pending_latched_def frozen_state_def)
  next
    case (CallRecover q)
    with assms(1) obtain t intent where t: "sx_state s = Some t" "validate_recovery_intent_shape t intent = Inr ()"
      and t': "t' = seal_state (ve_platform env) ((bump t)
        \<lparr>rs_autonomy_epoch := zq_epoch q, rs_active_grants := [], rs_tier_evidence := fmempty,
         rs_last_valid_mode_before_freeze := None,
         rs_recovery_receipts := fmupd (vc_receipt_id (vr_core (zq_receipt q))) (zq_receipt q) (rs_recovery_receipts t)\<rparr>)"
      by (auto simp: recover_next_def Let_def recovery_checks_def)
    from t(2) have "ae_safety_state (rs_autonomy_epoch t) = Frozen" "rs_pending_red t = None"
      by (auto simp: validate_recovery_intent_shape_def)
    with t t' reopened CallRecover show ?thesis by simp
  qed
qed

text \<open>A call at a time, with what the outside did to it; the kind of the call if it succeeded.\<close>

fun runtime_act ::
  "'b runtime_env \<Rightarrow> object_io \<times> transition_io \<times> runtime_call \<times> u64 \<Rightarrow> 'b runtime_store \<Rightarrow>
   'b runtime_store \<times> transition_kind option" where
  "runtime_act env (oio, io, c, now) s =
     (case run_call env oio io c now s of
        (s', Inl e) \<Rightarrow> (s', None)
      | (s', Inr _) \<Rightarrow> (s', Some (call_kind c)))"

lemma run_call_silent:
  assumes "run_call env oio io c now s = (s', Inl e)"
  shows "sx_state s' = sx_state s"
  using run_call_state [OF assms] by auto

lemma run_call_moves:
  assumes "reachable_store env cfg s" and run: "run_call env oio io c now s = (s', Inr ())"
  shows "fence_step (call_kind c) (fence_of (sx_state s)) = Some (fence_of (sx_state s'))"
proof -
  have typed: "typed_state (ve_platform env) cfg t" if "sx_state s = Some t" for t
    by (rule reachable_state_typed [OF assms(1) that])
  have "call_effect env io c now s (s', Inr ())" using run_call_effect [of env io c now s oio] run by simp
  then consider objs where "s' = s\<lparr>sx_objects := objs\<rparr>" "call_kind c = IntentStored" "sx_state s \<noteq> None"
    | t' where "builds env s c now t'" "sx_state s' = Some (seal_state (ve_platform env) t')"
    unfolding call_effect_def by (auto dest: commit_transition_ok)
  then show ?thesis
  proof cases
    case 1
    then show ?thesis by (auto simp del: fence_of.simps)
  next
    case (2 t')
    have "reachable_store env cfg s'" using assms by (rule called)
    from builds_fence [OF 2(1) typed reachable_state_typed [OF this 2(2)]] 2(2) show ?thesis by simp
  qed
qed

interpretation fenced: refines_automaton fence_step "runtime_act env" "reachable_store env cfg"
    "\<lambda>s. fence_of (sx_state s)" for env :: "'b runtime_env" and cfg
proof
  fix s s' :: "'b runtime_store" and c :: "object_io \<times> transition_io \<times> runtime_call \<times> u64"
    and k :: "transition_kind option" and j :: transition_kind
  obtain oio io call now where c: "c = (oio, io, call, now)" by (cases c)
  assume s: "reachable_store env cfg s"
  show "reachable_store env cfg s'" if "runtime_act env c s = (s', k)"
    using that s by (auto simp: c split: prod.splits sum.splits intro: called)
  show "fence_of (sx_state s') = fence_of (sx_state s)" if "runtime_act env c s = (s', None)"
    using that by (auto simp: c split: prod.splits sum.splits dest: run_call_silent)
  show "fence_step j (fence_of (sx_state s)) = Some (fence_of (sx_state s'))"
    if "runtime_act env c s = (s', Some j)"
    using that run_call_moves [OF s, of oio io call now s'] by (auto simp: c split: prod.splits sum.splits)
qed

section \<open>What a word of the automaton can be\<close>

definition fenced_off :: "fence \<Rightarrow> bool" where
  "fenced_off f \<longleftrightarrow> f \<in> {Raised, Latched, Shut}"

lemma fenced_word:
  "word_run fence_step ks f = Some g \<Longrightarrow> fenced_off f \<Longrightarrow> RecoveredFromFrozen \<notin> set ks \<Longrightarrow>
     set ks \<subseteq> {IntentStored, RedLatched, RedSafetyCommitted} \<and> fenced_off g"
proof (induction ks arbitrary: f)
  case Nil
  then show ?case by simp
next
  case (Cons k ks)
  then show ?case
    by (cases k; cases f) (auto simp: fenced_off_def split: option.splits if_splits)
qed

lemma raised_after: "word_run fence_step (ks @ [SentinelRedPersisted]) f = Some g \<Longrightarrow> fenced_off g"
proof -
  assume "word_run fence_step (ks @ [SentinelRedPersisted]) f = Some g"
  then obtain h where "fence_step SentinelRedPersisted h = Some g"
    by (auto simp: word_run_append split: option.splits)
  then show "fenced_off g" by (cases h) (auto simp: fenced_off_def)
qed

end
