(* ===== verification/Runtime_Digests.thy ===== *)
theory Runtime_Digests
  imports Runtime_Disk Autonomy_Digests
begin

text \<open>
  The serialised form of the runtime's records determines them: equal canonical JSON, equal record.
  So a line of the journal has one reading, and a parser that inverts the writer exists.
\<close>

section \<open>Lists, sets and maps\<close>

lemma json_list_canon:
  assumes "\<And>v w. canon (f v) = canon (f w) \<longleftrightarrow> v = w"
  shows "canon (json_list f xs) = canon (json_list f ys) \<longleftrightarrow> xs = ys"
  unfolding json_list_def by (rule canon_json_array [OF assms])

lemma json_fset_canon [simp]: "canon (json_fset s) = canon (json_fset t) \<longleftrightarrow> s = t"
proof -
  have "canon (json_fset s) = canon (json_fset t) \<longleftrightarrow> sorted_list_of_fset s = sorted_list_of_fset t"
    unfolding json_fset_def by (rule canon_json_strings)
  also have "\<dots> \<longleftrightarrow> s = t" by (metis sorted_list_of_fset_simps(2))
  finally show ?thesis .
qed

lemma json_fmap_canon:
  assumes f: "\<And>v w. canon (f v) = canon (f w) \<longleftrightarrow> v = w"
  shows "canon (json_fmap f m) = canon (json_fmap f n) \<longleftrightarrow> m = n"
proof
  assume eq: "canon (json_fmap f m) = canon (json_fmap f n)"
  let ?kvs = "\<lambda>m. map (map_prod id f) (sorted_list_of_fmap m)"
  have keys: "map fst (?kvs m) = sorted_list_of_fset (fmdom m)" for m :: "(string, 'a) fmap"
    by (simp add: sorted_list_of_fmap_def o_def)
  have "fset (fmdom m) = fset (fmdom n)"
    using canon_object_keys [OF eq [unfolded json_fmap_def]] unfolding keys by simp
  then have dom: "fmdom m = fmdom n" by (simp add: fset_inject)
  then have "map fst (?kvs m) = map fst (?kvs n)" by (simp only: keys)
  from canon_object_same_keys [OF eq [unfolded json_fmap_def] this]
  have "map (canon \<circ> snd) (?kvs m) = map (canon \<circ> snd) (?kvs n)"
    unfolding keys by (simp add: sorted_list_of_fset.rep_eq)
  then have "map (\<lambda>k. canon (f (the (fmlookup m k)))) (sorted_list_of_fset (fmdom m)) =
      map (\<lambda>k. canon (f (the (fmlookup n k)))) (sorted_list_of_fset (fmdom m))"
    by (simp add: sorted_list_of_fmap_def o_def dom)
  then have same_values: "the (fmlookup m k) = the (fmlookup n k)" if "k |\<in>| fmdom m" for k
    using that f by simp
  show "m = n"
  proof (rule fmap_ext)
    fix k show "fmlookup m k = fmlookup n k"
    proof (cases "k |\<in>| fmdom m")
      case True
      then obtain v where "fmlookup m k = Some v" by (auto simp: fmlookup_dom_iff)
      moreover from True dom have "k |\<in>| fmdom n" by simp
      then obtain w where "fmlookup n k = Some w" by (auto simp: fmlookup_dom_iff)
      ultimately show ?thesis using same_values [OF True] by simp
    next
      case False
      with dom show ?thesis by (simp add: fmdom_notD)
    qed
  qed
qed simp

section \<open>Records\<close>

lemma stored_intent_kind_name_inj [simp]: "stored_intent_kind_name a = stored_intent_kind_name b \<longleftrightarrow> a = b"
  by (cases a; cases b) simp_all

lemma transition_kind_name_inj [simp]: "transition_kind_name a = transition_kind_name b \<longleftrightarrow> a = b"
  by (cases a; cases b) simp_all

lemma json_opt_mode [simp]: "canon (json_opt (\<lambda>x. JString (mode_name x)) a) = canon (json_opt (\<lambda>x. JString (mode_name x)) b) \<longleftrightarrow> a = b"
  by (rule canon_json_opt) (simp_all add: name_inj)

lemma record_not_null: "canon (json_of_red_latch l) \<noteq> JNull" "canon (json_of_red_outbox b) \<noteq> JNull"
    "canon (json_of_pending_red p) \<noteq> JNull"
  by (simp_all add: json_of_red_latch_def json_of_red_outbox_def json_of_pending_red_def)

lemma json_opt_record [simp]:
  "canon (json_opt json_of_red_latch a) = canon (json_opt json_of_red_latch b) \<longleftrightarrow> a = b"
  "canon (json_opt json_of_red_outbox c) = canon (json_opt json_of_red_outbox d) \<longleftrightarrow> c = d"
  by (rule canon_json_opt; simp add: record_not_null del: canon.simps)+

lemma json_of_intent_entry_canon [simp]: "canon (json_of_intent_entry x) = canon (json_of_intent_entry y) \<longleftrightarrow> x = y"
proof
  assume "canon (json_of_intent_entry x) = canon (json_of_intent_entry y)"
  from canon_object_same_keys [OF this [unfolded json_of_intent_entry_def]]
  show "x = y" by (simp add: contract_field_canon intent_entry.equality del: canon_JArray)
qed simp

lemma json_of_tier_evidence_canon [simp]: "canon (json_of_tier_evidence x) = canon (json_of_tier_evidence y) \<longleftrightarrow> x = y"
proof
  assume "canon (json_of_tier_evidence x) = canon (json_of_tier_evidence y)"
  from canon_object_same_keys [OF this [unfolded json_of_tier_evidence_def]]
  show "x = y" by (simp add: contract_field_canon tier_evidence.equality del: canon_JArray)
qed simp

lemma json_of_pending_red_canon [simp]: "canon (json_of_pending_red x) = canon (json_of_pending_red y) \<longleftrightarrow> x = y"
proof
  assume "canon (json_of_pending_red x) = canon (json_of_pending_red y)"
  from canon_object_same_keys [OF this [unfolded json_of_pending_red_def]]
  show "x = y" by (simp add: contract_field_canon pending_red.equality del: canon_JArray)
qed simp

lemma json_of_recovery_core_canon [simp]: "canon (json_of_recovery_core x) = canon (json_of_recovery_core y) \<longleftrightarrow> x = y"
proof
  assume "canon (json_of_recovery_core x) = canon (json_of_recovery_core y)"
  from canon_object_same_keys [OF this [unfolded json_of_recovery_core_def]]
  show "x = y" by (simp add: contract_field_canon recovery_core.equality del: canon_JArray)
qed simp

lemma json_of_recovery_receipt_canon [simp]: "canon (json_of_recovery_receipt x) = canon (json_of_recovery_receipt y) \<longleftrightarrow> x = y"
proof
  assume "canon (json_of_recovery_receipt x) = canon (json_of_recovery_receipt y)"
  from canon_object_same_keys [OF this [unfolded json_of_recovery_receipt_def]]
  show "x = y" by (simp add: contract_field_canon recovery_receipt.equality del: canon_JArray)
qed simp

lemma json_opt_pending [simp]:
  "canon (json_opt json_of_pending_red a) = canon (json_opt json_of_pending_red b) \<longleftrightarrow> a = b"
  by (rule canon_json_opt; simp add: record_not_null del: canon.simps)

lemmas runtime_collections = json_list_canon [OF json_of_autonomy_grant_canon]
  json_fmap_canon [OF json_of_activation_receipt_canon] json_fmap_canon [OF json_of_recovery_receipt_canon]
  json_fmap_canon [OF json_list_canon [OF json_of_tier_evidence_canon]]
  json_fmap_canon [OF json_of_intent_entry_canon] json_fmap_canon [OF json_of_red_latch_canon]

lemma json_of_runtime_state_canon [simp]: "canon (json_of_runtime_state x) = canon (json_of_runtime_state y) \<longleftrightarrow> x = y"
proof
  assume "canon (json_of_runtime_state x) = canon (json_of_runtime_state y)"
  from canon_object_same_keys [OF this [unfolded json_of_runtime_state_def]]
  show "x = y" by (simp add: contract_field_canon runtime_state.equality runtime_collections del: canon_JArray)
qed simp

lemma json_of_journal_payload_canon [simp]:
  "canon (json_of_journal_payload x) = canon (json_of_journal_payload y) \<longleftrightarrow> x = y"
proof
  assume eq: "canon (json_of_journal_payload x) = canon (json_of_journal_payload y)"
  show "x = y"
  proof (cases x; cases y)
    fix a1 b1 c1 d1 a2 b2 c2 d2 assume xy: "x = Prepare a1 b1 c1 d1" "y = Prepare a2 b2 c2 d2"
    from canon_object_same_keys [OF eq [unfolded xy json_of_journal_payload.simps]]
    show ?thesis by (simp add: xy)
  next
    fix a1 b1 c1 d1 a2 b2 c2 assume xy: "x = Prepare a1 b1 c1 d1" "y = Commit a2 b2 c2"
    from canon_object_keys [OF eq [unfolded xy json_of_journal_payload.simps]]
    show ?thesis by (auto simp: insert_eq_iff)
  next
    fix a1 b1 c1 d1 a2 b2 c2 assume xy: "x = Prepare a1 b1 c1 d1" "y = Abort a2 b2 c2"
    from canon_object_keys [OF eq [unfolded xy json_of_journal_payload.simps]]
    show ?thesis by (auto simp: insert_eq_iff)
  next
    fix a1 b1 c1 a2 b2 c2 d2 assume xy: "x = Commit a1 b1 c1" "y = Prepare a2 b2 c2 d2"
    from canon_object_keys [OF eq [unfolded xy json_of_journal_payload.simps]]
    show ?thesis by (auto simp: insert_eq_iff)
  next
    fix a1 b1 c1 a2 b2 c2 assume xy: "x = Commit a1 b1 c1" "y = Commit a2 b2 c2"
    from canon_object_same_keys [OF eq [unfolded xy json_of_journal_payload.simps]]
    show ?thesis by (simp add: xy)
  next
    fix a1 b1 c1 a2 b2 c2 assume xy: "x = Commit a1 b1 c1" "y = Abort a2 b2 c2"
    from canon_object_keys [OF eq [unfolded xy json_of_journal_payload.simps]]
    show ?thesis by (auto simp: insert_eq_iff)
  next
    fix a1 b1 c1 a2 b2 c2 d2 assume xy: "x = Abort a1 b1 c1" "y = Prepare a2 b2 c2 d2"
    from canon_object_keys [OF eq [unfolded xy json_of_journal_payload.simps]]
    show ?thesis by (auto simp: insert_eq_iff)
  next
    fix a1 b1 c1 a2 b2 c2 assume xy: "x = Abort a1 b1 c1" "y = Commit a2 b2 c2"
    from canon_object_keys [OF eq [unfolded xy json_of_journal_payload.simps]]
    show ?thesis by (auto simp: insert_eq_iff)
  next
    fix a1 b1 c1 a2 b2 c2 assume xy: "x = Abort a1 b1 c1" "y = Abort a2 b2 c2"
    from canon_object_same_keys [OF eq [unfolded xy json_of_journal_payload.simps]]
    show ?thesis by (simp add: xy)
  qed
qed simp

lemma json_of_journal_record_canon [simp]: "canon (json_of_journal_record x) = canon (json_of_journal_record y) \<longleftrightarrow> x = y"
proof
  assume "canon (json_of_journal_record x) = canon (json_of_journal_record y)"
  from canon_object_same_keys [OF this [unfolded json_of_journal_record_def]]
  show "x = y" by (simp add: contract_field_canon journal_record.equality del: canon_JArray)
qed simp

section \<open>The journal parser\<close>

definition inverse_parse_journal :: "platform \<Rightarrow> bytes \<Rightarrow> string + journal_record" where
  "inverse_parse_journal E b =
     (if b \<in> range (journal_line E) then Ok (inv (journal_line E) b) else Err ''not a record'')"

lemma journal_line_inj:
  assumes "serde_writer E"
  shows "inj (journal_line E)"
  using write_value_canon [OF assms] by (auto simp: inj_def journal_line_def canonical_json_def)

lemma parses_journal_inverse:
  assumes "serde_writer (ve_platform env)" and "ve_parse_record env = inverse_parse_journal (ve_platform env)"
  shows "parses_journal env"
  using assms(2) journal_line_inj [OF assms(1)] by (simp add: parses_journal_def inverse_parse_journal_def inv_f_f)

end
