(* ===== verification/Runtime_Properties.thy ===== *)
theory Runtime_Properties
  imports Runtime_Machine Runtime_Fence Runtime_Digests
begin

text \<open>
  What the durable runtime promises: states of one type, a fence no authority passes, commits that
  are atomic over crashes, capabilities that are consumed once and histories that forget nothing;
  and two promises it does not keep, about raising the fence under a strict verifier and about
  opening a store whose intents have expired.
\<close>

section \<open>The type of a state\<close>

text \<open>C6: Whatever was on disk when a store was opened and whatever calls were made since, the
  state it presents is well formed: its fence, its pending RED, its outbox tail and its preserved
  mode agree, the evidence of every subject climbs the tiers from A0 by digest-linked steps that
  nobody certified for themselves, latches and receipts are kept under their own keys, the active
  grants are those of the epoch, and the state seals itself.\<close>
theorem store_state_is_typed:
  assumes "reachable_store env cfg s" and "sx_state s = Some t"
  shows "typed_state (ve_platform env) cfg t"
  using reachable_validated [OF assms] validate_state_typed by blast

section \<open>The fence\<close>

text \<open>C2: The runtime refines the fence: in any sequence of calls on a reachable store, with any
  failures of the journal and the protected root, the kinds of the calls that succeeded spell a
  word that the automaton \<open>fence_step\<close> accepts from the fence of the first state to that of the
  last.\<close>
theorem runtime_refines_fence:
  assumes "reachable_store env cfg s" and "machine_run (runtime_act env) cs s = (s', ks)"
  shows "word_run fence_step ks (fence_of (sx_state s)) = Some (fence_of (sx_state s'))"
  using fenced.run_refines [OF assms] by blast

text \<open>C3: Once a RED has been persisted, nothing but storing intents, latching and committing the
  safety transition succeeds until the store is recovered from the frozen state: no mode is
  activated, no capability consumed, no evidence recorded, no second RED accepted; and the epoch
  of the last state freezes issuance.\<close>
theorem no_authority_behind_fence:
  assumes "reachable_store env cfg s"
    and "machine_run (runtime_act env) cs s = (s', ks @ SentinelRedPersisted # ls)"
    and "RecoveredFromFrozen \<notin> set ls"
  shows "set ls \<subseteq> {IntentStored, RedLatched, RedSafetyCommitted} \<and>
    (\<exists>t. sx_state s' = Some t \<and> ae_issuance_frozen (rs_autonomy_epoch t))"
proof -
  have run: "word_run fence_step (ks @ SentinelRedPersisted # ls) (fence_of (sx_state s)) = Some (fence_of (sx_state s'))"
    and s': "reachable_store env cfg s'"
    using fenced.run_refines [OF assms(1,2)] by blast+
  then obtain f where f: "word_run fence_step (ks @ [SentinelRedPersisted]) (fence_of (sx_state s)) = Some f"
    "word_run fence_step ls f = Some (fence_of (sx_state s'))"
    by (auto simp: word_run_append split: option.splits)
  from fenced_word [OF f(2) raised_after [OF f(1)] assms(3)]
  have ls: "set ls \<subseteq> {IntentStored, RedLatched, RedSafetyCommitted}" and off: "fenced_off (fence_of (sx_state s'))"
    by blast+
  obtain t where t: "sx_state s' = Some t"
    using off by (cases "sx_state s'") (auto simp: fenced_off_def)
  have "fence_coherent t" using reachable_state_typed [OF s' t] by (simp add: typed_state_def)
  with off t have "ae_issuance_frozen (rs_autonomy_epoch t)"
    by (auto simp: fence_coherent_def Let_def fenced_off_def split: option.splits if_splits)
  with ls t show ?thesis by blast
qed

section \<open>Activation\<close>

lemma find_tier:
  assumes "lane_climbs E k lane" and "find (\<lambda>t. te_tier t = m) lane = Some x"
  shows "tier_rank m < length lane \<and> x = lane ! tier_rank m"
proof -
  from assms(2) obtain i where i: "i < length lane" "te_tier (lane ! i) = m" "x = lane ! i"
    by (auto simp: find_Some_iff)
  with assms(1) have "tier_rank m = i" by (auto simp: lane_climbs_def Let_def)
  with i show ?thesis by simp
qed

definition climbed :: "platform \<Rightarrow> runtime_state \<Rightarrow> string \<Rightarrow> autonomy_grant \<Rightarrow> bool" where
  "climbed E t candidate g \<longleftrightarrow>
     (let c = ag_core g; n = tier_rank (gc_max_tier c) in
      (gc_mode c = PolicyAutonomous \<longrightarrow> n \<le> tier_rank A3AutonomousLand) \<and>
      (\<exists>lane. fmlookup (rs_tier_evidence t) (gc_subject_id c) = Some lane \<and>
         lane_climbs E (gc_subject_id c) lane \<and> n < length lane \<and>
         te_exact_release_candidate_digest (lane ! n) = candidate \<and>
         gc_promotion_receipt_id c = te_evidence_digest (lane ! n)))"

lemma grant_evidence_climbed:
  assumes "grant_evidence_check t candidate g = Inr ()"
    and lanes: "\<And>k lane. fmlookup (rs_tier_evidence t) k = Some lane \<Longrightarrow> lane_climbs E k lane"
  shows "climbed E t candidate g"
proof -
  from assms(1) obtain x where x: "grant_evidence_of t g = Some x" "te_exact_release_candidate_digest x = candidate"
    "gc_promotion_receipt_id (ag_core g) = te_evidence_digest x" "grant_cap_check g = Inr ()"
    by (auto simp: grant_evidence_check_def)
  then obtain lane where lane: "fmlookup (rs_tier_evidence t) (gc_subject_id (ag_core g)) = Some lane"
    "find (\<lambda>t. te_tier t = gc_max_tier (ag_core g)) lane = Some x"
    by (auto simp: grant_evidence_of_def split: option.splits)
  note found = find_tier [OF lanes [OF lane(1)] lane(2)]
  have "gc_mode (ag_core g) = PolicyAutonomous \<longrightarrow> tier_rank (gc_max_tier (ag_core g)) \<le> tier_rank A3AutonomousLand"
    using x(4) by (auto simp: grant_cap_check_def Let_def)
  with x(2,3) lane(1) lanes [OF lane(1)] found show ?thesis by (auto simp: climbed_def Let_def)
qed

text \<open>C7: A successful activation arms only grants whose subject has climbed every tier up to the
  grant's: the lane of its evidence reaches that tier from A0, the entry of that tier is for the
  very release candidate and is the promotion receipt the grant names, no grant in
  \<open>POLICY_AUTONOMOUS\<close> exceeds A3, and the issuer of the activation is not a subject it promotes.\<close>
theorem activated_grants_have_climbed:
  assumes "reachable_store env cfg s" and "activate_mode env io q now s = (s', Inr ())"
  shows "\<exists>t. sx_state s' = Some t \<and> rs_active_grants t = aq_grants q \<and>
    (\<forall>g \<in> set (aq_grants q). climbed (ve_platform env) t (aq_candidate_digest q) g \<and>
       tc_issuer_subject_id (at_core (aq_receipt q)) \<noteq> gc_subject_id (ag_core g))"
proof -
  obtain t' where t': "activate_next env s q now = Inr t'"
    and commit: "commit_transition env io ModeActivated t' now s = (s', Inr ())"
    using assms(2) unfolding activate_mode_def by (rule commit_next_ok)
  from t' obtain t intent where t: "sx_state s = Some t"
    and checks: "\<forall>c \<in> set (activation_request_checks env t intent q now). c = Inr ()"
    and fields: "rs_active_grants t' = aq_grants q" "rs_tier_evidence t' = rs_tier_evidence t"
    by (auto simp: activate_next_def Let_def)
  have "run_call env oio io (CallActivate q) now s = (s', Inr ())" for oio using assms(2) by simp
  then have "reachable_store env cfg s'" using called [OF assms(1)] by blast
  from reachable_state_typed [OF this commit_transition_ok(2) [OF commit]]
  have lanes: "fmlookup (rs_tier_evidence t) k = Some lane \<Longrightarrow> lane_climbs (ve_platform env) k lane" for k lane
    by (simp add: typed_state_def fields)
  from checks have evidence: "validate_target_grant_evidence (ve_platform env) t (aq_grants q) (aq_candidate_digest q) (aq_receipt q) = Inr ()"
    and others: "\<not> activation_self_promotes (aq_grants q) (aq_receipt q) intent"
    by (simp_all add: activation_request_checks_def Let_def)
  have "climbed (ve_platform env) t (aq_candidate_digest q) g" if "g \<in> set (aq_grants q)" for g
    using evidence that by (intro grant_evidence_climbed lanes) (auto simp: validate_target_grant_evidence_def)
  then have "climbed (ve_platform env) (seal_state (ve_platform env) t') (aq_candidate_digest q) g"
    if "g \<in> set (aq_grants q)" for g using that fields by (simp add: climbed_def Let_def)
  moreover have "tc_issuer_subject_id (at_core (aq_receipt q)) \<noteq> gc_subject_id (ag_core g)" if "g \<in> set (aq_grants q)" for g
    using others that by (auto simp: activation_self_promotes_def promoted_subjects_def Let_def)
  ultimately show ?thesis using commit_transition_ok(2) [OF commit] fields(1) by auto
qed

section \<open>Atomicity\<close>

text \<open>The attempts to open a store again, up to the first that succeeds.\<close>

inductive reopens :: "'b runtime_env \<Rightarrow> runtime_config \<Rightarrow> 'b runtime_disk \<Rightarrow> 'b runtime_store \<Rightarrow> bool" for env cfg where
  attempt: "runtime_open env io failed cfg d now = (d', Inr s) \<Longrightarrow> reopens env cfg d s"
| retry: "runtime_open env io failed cfg d now = (d', Inl e) \<Longrightarrow> reopens env cfg d' s \<Longrightarrow> reopens env cfg d s"

lemma reopens_denoted:
  assumes E: "serde_writer (ve_platform env)" "parses_journal env" "protected_root_backend (ve_backend env)"
    and "reopens env cfg d s"
  shows "(disk_holds env d v \<longrightarrow> in_step env s v) \<and> \<not> journal_torn (dk_journal d)"
  using assms(4)
proof induction
  case (attempt io failed d now d' s)
  with runtime_open_denoted [OF E _ attempt] torn_open [of d env io failed cfg now] show ?case by auto
next
  case (retry io failed d now d' e s)
  have "\<not> journal_torn (dk_journal d)"
    using torn_open [of d env io failed cfg now] retry.hyps(1) retry.IH by auto
  with runtime_open_denoted [OF E _ retry.hyps(1), of v] retry.IH show ?case by blast
qed

text \<open>C1: A commit is atomic over crashes: however its appends and compare-and-swaps end - not at
  all, in the middle of a line, or done but reported failed - and however often opening the store
  fails afterwards, the first opening that succeeds yields the state before the commit or the state
  of the commit, in step with its disk, and the latter if the commit was acknowledged.\<close>
theorem two_phase_commit_atomic:
  assumes "serde_writer (ve_platform env)" "parses_journal env" "protected_root_backend (ve_backend env)"
    and "in_step env s v" and "prepare_fresh env k t s"
    and "commit_transition env io k t now s = (s', r)" and "reopens env cfg (disk_of s') s''"
  shows "(sx_state s'' = v \<or> sx_state s'' = Some (seal_state (ve_platform env) t)) \<and>
    (r = Inr () \<longrightarrow> sx_state s'' = Some (seal_state (ve_platform env) t)) \<and> in_step env s'' (sx_state s'')"
proof -
  have reads: "in_step env s'' w" if "disk_holds env (disk_of s') w" for w
    using reopens_denoted [OF assms(1-3,7), of w] that by blast
  have state: "in_step env s'' w \<Longrightarrow> sx_state s'' = w" for w by (simp add: in_step_def)
  have stays: "in_step env x w \<Longrightarrow> disk_holds env (disk_of x) w" for x w
    using in_step_disk by (auto simp: disk_holds_def)
  from commit_outcome [OF assms(1-6)] show ?thesis
  proof (elim disjE conjE)
    assume r: "r = Inr ()" and s': "in_step env s' (Some (seal_state (ve_platform env) t))"
    from reads [OF stays [OF s']] state r show ?thesis by metis
  next
    assume r: "r \<noteq> Inr ()" and "s' = s"
    with reads [OF stays] assms(4) state show ?thesis by metis
  next
    assume r: "r \<noteq> Inr ()" and "disk_holds env (disk_of s') v"
    with reads state show ?thesis by metis
  next
    assume r: "r \<noteq> Inr ()" and "disk_holds env (disk_of s') (Some (seal_state (ve_platform env) t))"
    with reads state show ?thesis by metis
  qed
qed

section \<open>Histories\<close>

lemma history_grows:
  assumes "serde_writer (ve_platform env)" "parses_journal env" "protected_root_backend (ve_backend env)"
    and "in_step env s (Some t)" "\<not> sx_poisoned s"
    and "machine_life env cfg (Up s) (Up s')" and "\<not> sx_poisoned s'"
  shows "\<exists>t'. sx_state s' = Some t' \<and> extends t t'"
proof -
  from machine_life_denoted [OF assms(1-3,6), of "Some t"] assms(4,5,7)
  obtain v where v: "in_step env s' v" "extends_opt (Some t) v" by auto
  then show ?thesis by (cases v) (auto simp: in_step_def)
qed

text \<open>C5: A history forgets nothing: whatever calls, failures, crashes and openings lie between two
  usable stores, the kernel and the durability domain of the first state are those of the second,
  and every consumed capability, activation and recovery receipt, terminal latch and indexed intent
  of the first is in the second.\<close>
theorem history_forgets_nothing:
  assumes "serde_writer (ve_platform env)" "parses_journal env" "protected_root_backend (ve_backend env)"
    and "in_step env s (Some t)" "\<not> sx_poisoned s"
    and "machine_life env cfg (Up s) (Up s')" and "\<not> sx_poisoned s'"
  shows "\<exists>t'. sx_state s' = Some t' \<and> extends t t'"
  using assms by (rule history_grows)

text \<open>C4: A capability is consumed once: after an acknowledged consumption, no later consumption of
  a capability with the same digest succeeds on the store that comes of it, over any calls,
  failures, crashes and openings in between; and the refused call leaves that store unchanged.\<close>
theorem capability_consumed_once:
  assumes "serde_writer (ve_platform env)" "parses_journal env" "protected_root_backend (ve_backend env)"
    and "in_step env s v" and "call_fresh env s (CallConsume q) now"
    and "consume_autonomy_capability env io q now s = (s1, Inr receipt)"
    and "machine_life env cfg (Up s1) (Up s2)"
    and "au_capability_digest (nq_capability q') = au_capability_digest (nq_capability q)"
  shows "\<exists>e. consume_autonomy_capability env io' q' now' s2 = (s2, Inl e)"
proof -
  let ?d = "au_capability_digest (nq_capability q)"
  from assms(6) obtain i t' where t': "consume_next env s q now = Inr (i, t')"
    and c: "commit_transition env io CapabilityConsumed t' now s = (s1, Inr ())"
    by (auto simp: consume_autonomy_capability_def rt_ok)
  have "prepare_fresh env CapabilityConsumed t' s" using assms(5) t' by (auto simp: call_fresh_def)
  from commit_outcome [OF assms(1-4) this c] commit_transition_ok(1) [OF c]
  have s1: "in_step env s1 (Some (seal_state (ve_platform env) t'))" "\<not> sx_poisoned s1" by simp_all
  have d: "?d |\<in>| rs_consumed_capability_digests (seal_state (ve_platform env) t')"
    using t' by (auto simp: consume_next_def Let_def)
  have "\<exists>e. consume_next env s2 q' now' = Inl e"
  proof (cases "sx_poisoned s2")
    case True
    then show ?thesis by (simp add: consume_next_def)
  next
    case False
    from history_grows [OF assms(1-3) s1 assms(7) False] obtain u where "sx_state s2 = Some u"
      "extends (seal_state (ve_platform env) t') u" by blast
    with d have u: "sx_state s2 = Some u" "?d |\<in>| rs_consumed_capability_digests u" by (auto simp: extends_def)
    then show ?thesis using assms(8)
      by (cases "ensure_positive_unfrozen s2") (auto simp: consume_next_def current_state_def check_def)
  qed
  then show ?thesis by (auto simp: consume_autonomy_capability_def rt_then_def rt_pure_def)
qed


text \<open>
  Three promises the runtime does not keep.  The RED fence changes the epoch but keeps the signature
  of the epoch before, which the commit then verifies again; opening a store validates every stored
  intent at the current time; and so does each step of the RED pipeline, so that a RED whose source
  intent has expired can be neither latched nor closed.
\<close>

section \<open>The signature of the fenced epoch\<close>

text \<open>A verifier that honours signatures: one signature of one subject is good for one epoch.\<close>

definition signs_one_epoch :: "artifact_verifier \<Rightarrow> bool" where
  "signs_one_epoch V \<longleftrightarrow> (\<forall>a b. vq_kind a = KindAutonomyEpoch \<and> vq_kind b = KindAutonomyEpoch \<and>
     vq_subject_id a = vq_subject_id b \<and> vq_signature a = vq_signature b \<and>
     av_verify V a = Inr () \<and> av_verify V b = Inr () \<longrightarrow> vq_canonical_bytes a = vq_canonical_bytes b)"

lemma verified_epochs_agree:
  assumes "serde_writer E" and "signs_one_epoch V"
    and "verify_epoch E V ep subject now = Inr ()" and "verify_epoch E V ep' subject now' = Inr ()"
    and "ae_protected_root_signature ep = ae_protected_root_signature ep'"
  shows "ep = ep'"
proof -
  let ?request = "\<lambda>ep now. \<lparr>vq_kind = KindAutonomyEpoch, vq_artifact_digest = target_epoch_reference_digest E ep,
      vq_subject_id = subject, vq_signature = ae_protected_root_signature ep,
      vq_canonical_bytes = canonical_json E (json_of_autonomy_epoch ep),
      vq_identity_key_binary_policy_digest = None, vq_now_ms = now\<rparr>"
  have "av_verify V (?request ep now) = Inr ()" "av_verify V (?request ep' now') = Inr ()"
    using assms(3,4) by (auto simp: verify_epoch_def verify_artifact_def)
  then have "vq_canonical_bytes (?request ep now) = vq_canonical_bytes (?request ep' now')"
    using assms(5) assms(2) [unfolded signs_one_epoch_def, rule_format, of "?request ep now" "?request ep' now'"] by simp
  then have "canon (json_of_autonomy_epoch ep) = canon (json_of_autonomy_epoch ep')"
    using write_value_canon [OF assms(1)] by (simp add: canonical_json_def)
  then show ?thesis by simp
qed

lemma state_epoch_verified:
  "verify_state_artifacts E V t now = Inr () \<Longrightarrow>
     verify_epoch E V (rs_autonomy_epoch t) (kc_issuer_subject_id (ks_core (rs_constitution t))) now = Inr ()"
  by (auto simp: verify_state_artifacts_def Let_def)

text \<open>C14: With a verifier that accepts one signature for one epoch only, a RED is never persisted:
  on every reachable store the call fails and leaves the state unfenced, because the fenced epoch
  is presented with the signature of the healthy one.\<close>
theorem red_fence_cannot_be_raised:
  assumes "serde_writer (ve_platform env)" and "signs_one_epoch (ve_verifier env)"
    and "reachable_store env cfg s" and "persist_sentinel_red env io d v x now s = (s', r)"
  shows "r \<noteq> Inr () \<and> sx_state s' = sx_state s"
proof (cases r)
  case (Inl e)
  with assms(4) commit_next_err [of env io SentinelRedPersisted _ now s s' e] show ?thesis
    by (auto simp: persist_sentinel_red_def rt_frame_def)
next
  case (Inr u)
  with assms(4) obtain t' where t': "sentinel_red_next env s d v x now = Inr t'"
    and c: "commit_transition env io SentinelRedPersisted t' now s = (s', Inr ())"
    unfolding persist_sentinel_red_def by (auto elim: commit_next_ok)
  then obtain t where t: "sx_state s = Some t" "ae_safety_state (rs_autonomy_epoch t) \<noteq> Frozen" "rs_pending_red t = None"
    and ep: "rs_autonomy_epoch t' = (rs_autonomy_epoch t)\<lparr>ae_issuance_frozen := True, ae_safety_state := PendingRed\<rparr>"
      "rs_constitution t' = rs_constitution t"
    by (auto simp: sentinel_red_next_def)
  obtain past where past: "verify_state_artifacts (ve_platform env) (ve_verifier env) t past = Inr ()"
    using reachable_validated [OF assms(3) t(1)] by blast
  have "rs_autonomy_epoch t = rs_autonomy_epoch t'"
    using verified_epochs_agree [OF assms(1,2) state_epoch_verified [OF past]]
      state_epoch_verified [OF commit_transition_ok(6) [OF c]] ep by simp
  then have "rs_autonomy_epoch t = (rs_autonomy_epoch t)\<lparr>ae_issuance_frozen := True, ae_safety_state := PendingRed\<rparr>"
    using ep(1) by (rule trans)
  from arg_cong [OF this, of ae_safety_state] have "ae_safety_state (rs_autonomy_epoch t) = PendingRed" by simp
  moreover have "fence_coherent t"
    using reachable_state_typed [OF assms(3) t(1)] by (simp add: typed_state_def)
  ultimately show ?thesis using t(3) by (simp add: fence_coherent_def Let_def)
qed

section \<open>Expired intents\<close>

lemma resolved_intent_live:
  assumes "resolve_sovereign_intent env s d now = Inr i"
  shows "\<exists>bs. sx_objects s d = Some bs \<and> ve_parse_sovereign env bs = Inr i \<and> now < sc_expires_at (si_core i)"
proof -
  from assms obtain bs v where bs: "read_limited s d = Inr bs" "ve_parse_sovereign env bs = Inr i"
    and v: "validate_canonical_core (ve_platform env) i now = Inr v"
    by (auto simp: resolve_sovereign_intent_def resolve_intent_bytes_def Let_def rt_contract_def split: sum.splits)
  from bs(1) have "sx_objects s d = Some bs" by (auto simp: read_limited_def split: option.splits if_splits)
  with bs(2) validate_canonical_core_parts(2) [OF v] show ?thesis by blast
qed

lemma verified_intent_live:
  assumes "verify_all_intent_objects env s t now = Inr ()"
    and "fmlookup (rs_intent_index t) k = Some e" "ie_kind e = StoredSovereign"
  shows "\<exists>bs i. sx_objects s k = Some bs \<and> ve_parse_sovereign env bs = Inr i \<and> now < sc_expires_at (si_core i)"
proof -
  from assms(1) have "\<forall>c \<in> set (map (\<lambda>(digest, entry). case ie_kind entry of
       StoredSovereign \<Rightarrow> and_then (resolve_sovereign_intent env s digest now) (\<lambda>_. Ok ())
     | StoredSafety \<Rightarrow> and_then (resolve_safety_intent env s digest) (\<lambda>_. Ok ()))
     (sorted_list_of_fmap (rs_intent_index t))). c = Inr ()"
    by (simp add: verify_all_intent_objects_def)
  with sorted_fmap_entry [OF assms(2)] assms(3) obtain i where "resolve_sovereign_intent env s k now = Inr i" by fastforce
  from resolved_intent_live [OF this] show ?thesis by blast
qed

text \<open>C13: Once a sovereign intent was indexed, the store cannot be opened any more when that intent
  has expired: over any calls, failures, crashes and openings the index keeps the entry and the
  object keeps its bytes, and opening validates it at the current time.\<close>
theorem expired_intent_blocks_open:
  assumes "serde_writer (ve_platform env)" "parses_journal env" "protected_root_backend (ve_backend env)"
    and "machine_holds env m (Some t)" and "machine_life env cfg m (Down d)"
    and "fmlookup (rs_intent_index t) k = Some e" "ie_kind e = StoredSovereign"
    and "machine_objects m k = Some bs" "ve_parse_sovereign env bs = Inr i"
    and "sc_expires_at (si_core i) \<le> now"
  shows "\<exists>d' err. runtime_open env io failed cfg d now = (d', Inl err)"
proof -
  obtain d' r where run: "runtime_open env io failed cfg d now = (d', r)" by fastforce
  from machine_life_denoted [OF assms(1-3,5,4)] obtain v where v: "disk_holds env d v" "extends_opt (Some t) v" by auto
  then obtain t' where t': "v = Some t'" "extends t t'" by (cases v) auto
  from machine_life_objects [OF assms(5)] assms(8) have obj: "dk_objects d k = Some bs" by (metis domI map_le_def machine_objects.simps(2))
  have False if "r = Inr s" for s
  proof -
    from runtime_open_denoted [OF assms(1-3) v(1) run] that t' have s: "sx_state s = Some t'" by (auto simp: in_step_def)
    from t'(2) assms(6) have e: "fmlookup (rs_intent_index t') k = Some e"
      unfolding extends_def map_le_def by (metis domI)
    have "check_opened_state env now s = Inr ()" using run that by (auto elim: runtime_open_ok)
    with s have "verify_all_intent_objects env s t' now = Inr ()" by (simp add: check_opened_state_def)
    from verified_intent_live [OF this e assms(7)] obj assms(9,10) runtime_open_objects [OF run] that show False by auto
  qed
  with run show ?thesis by (cases r) auto
qed

text \<open>A RED whose source intent has expired is neither latched nor closed: the fence stays as it is.\<close>

lemma expired_source_pins_fence:
  assumes "reachable_store env cfg s" and "sx_state s = Some t" "rs_pending_red t = Some p"
    and "sx_objects s (pq_source_intent_digest p) = Some bs" "ve_parse_sovereign env bs = Inr i"
    and "sc_expires_at (si_core i) \<le> now" and "run_call env oio io c now s = (s', Inr ())"
  shows "fence_of (sx_state s') = fence_of (sx_state s) \<and> call_kind c = IntentStored"
proof -
  have dead: "\<nexists>j. resolve_sovereign_intent env s (pq_source_intent_digest p) now = Inr j"
    using resolved_intent_live assms(4-6) by fastforce
  have step: "fence_step (call_kind c) (fence_of (sx_state s)) = Some (fence_of (sx_state s'))"
    by (rule run_call_moves [OF assms(1,7)])
  have fenced: "fence_of (sx_state s) \<in> {Raised, Latched}" using assms(2,3) by simp
  have idle: "\<not> builds env s c now t'" if "call_kind c \<in> {RedLatched, RedSafetyCommitted}" for t'
    using that dead assms(2,3)
    by (cases c) (auto simp: latch_red_next_def red_safety_next_def pending_latched_def Let_def)
  have "call_effect env io c now s (s', Inr ())" using run_call_effect [of env io c now s oio] assms(7) by simp
  then have made: "call_kind c = IntentStored \<or> (\<exists>t'. builds env s c now t')" by (auto simp: call_effect_def)
  have "call_kind c \<notin> {RedLatched, RedSafetyCommitted}"
  proof
    assume kind: "call_kind c \<in> {RedLatched, RedSafetyCommitted}"
    then have "call_kind c \<noteq> IntentStored" by auto
    with made idle [OF kind] show False by blast
  qed
  with step fenced show ?thesis by (cases "call_kind c"; cases "fence_of (sx_state s)") auto
qed

end
