(* ===== verification/Autonomy_Samples.thy ===== *)
theory Autonomy_Samples
  imports Autonomy_Laws Reference_Platform
begin

text \<open>
  A small constitutional world on which the properties of \<open>autonomy.rs\<close> are applied: a kernel,
  four verifiers in three failure domains, a bootstrap constitution and its amendment, a grant
  in \<open>POLICY_AUTONOMOUS\<close>, an intent under it, a GREEN verdict, a quorum decision and its
  capability, and the records of a RED incident.  Every record is sealed by the model's own
  functions, so the digests are those of the platform it is used with.
\<close>

definition aut_hash :: string where
  "aut_hash = replicate 64 CHR ''a''"

lemma replicate_hash: "is_lower_hex c \<Longrightarrow> digest_syntax (replicate 64 c)"
  by (simp add: digest_syntax_def list_all_iff)

lemma aut_hash_syntax [simp]: "digest_syntax aut_hash"
  unfolding aut_hash_def by (rule replicate_hash) (simp add: is_lower_hex_def)

text \<open>A literal that starts with a printable ASCII character is not blank.\<close>

declare trims_empty.simps [simp del] trims_empty_ascii [simp] white1_def [simp]

section \<open>Kernel, verifiers and constitution\<close>

definition aut_kernel_core :: safety_kernel_core where
  "aut_kernel_core = \<lparr>kn_kernel_id = ''k'', kn_verifier_binary_digest = aut_hash,
     kn_canonicalization_version = CANONICALIZATION_VERSION, kn_pinned_external_root_key = ''root'',
     kn_verified_boot_policy_digest = aut_hash, kn_immutable_invariants_digest = aut_hash,
     kn_minimum_verifier_seats = 4, kn_minimum_quorum_threshold = 3, kn_minimum_failure_domains = 3,
     kn_proposer_executor_nonvoting = True, kn_sentinel_required_and_nonvoting = True,
     kn_sentinel_red_absolute_veto = True, kn_sentinel_outbox_antirollback_required = True,
     kn_sentinel_identity_key_binary_policy_digest = aut_hash,
     kn_safety_actuator_identity_key_binary_policy_digest = aut_hash,
     kn_required_sentinel_unavailable_fail_closed = True, kn_audit_wal_tamper_detection_required = True,
     kn_epoch_freeze_and_rollback_required = True, kn_old_runtime_approval_required = True,
     kn_allowed_negative_effects = canonical_negative_effects\<rparr>"

definition aut_kernel :: "platform \<Rightarrow> safety_kernel" where
  "aut_kernel E = seal_kernel E \<lparr>sk_schema = SAFETY_KERNEL_SCHEMA, sk_core = aut_kernel_core,
     sk_kernel_digest = [], sk_external_root_signature = ''sig''\<rparr>"

lemma aut_kernel_core [simp]: "sk_core (aut_kernel E) = aut_kernel_core"
  by (simp add: aut_kernel_def seal_kernel_def)

lemma aut_kernel_valid:
  assumes "sha256_width E"
  shows "\<exists>v. validate_kernel E (aut_kernel E) = Inr v"
proof -
  have "digest_syntax (compute_kernel_digest E (aut_kernel E))"
    by (rule kernel_contract.compute_syntax [OF assms])
  moreover have "sk_kernel_digest (aut_kernel E) = compute_kernel_digest E (aut_kernel E)"
    by (simp add: aut_kernel_def seal_kernel_def compute_kernel_digest_def)
  moreover have "sk_schema (aut_kernel E) = SAFETY_KERNEL_SCHEMA" "sk_external_root_signature (aut_kernel E) \<noteq> []"
    by (simp_all add: aut_kernel_def seal_kernel_def)
  ultimately show ?thesis
    by (simp add: validate_kernel_def kernel_checks_def Let_def kernel_switches_def
        IMMUTABLE_VERIFIER_SEATS_def IMMUTABLE_QUORUM_THRESHOLD_def IMMUTABLE_FAILURE_DOMAINS_def)
      (simp add: aut_kernel_core_def CANONICALIZATION_VERSION_def)
qed

definition aut_seat :: "char \<Rightarrow> string \<Rightarrow> verifier_seat" where
  "aut_seat c domain = \<lparr>vs_principal_id = [c], vs_key_id = [c], vs_failure_domain = domain,
     vs_parent_session_context_digest = replicate 64 c\<rparr>"

definition aut_seats :: "verifier_seat list" where
  "aut_seats = [aut_seat CHR ''a'' ''d1'', aut_seat CHR ''b'' ''d2'', aut_seat CHR ''c'' ''d3'',
     aut_seat CHR ''d'' ''d3'']"

definition aut_spec :: "platform \<Rightarrow> u64 \<Rightarrow> independence_spec" where
  "aut_spec E epoch = seal_independence E \<lparr>ns_schema = INDEPENDENCE_SPEC_SCHEMA,
     ns_core = \<lparr>nc_constitution_epoch = epoch, nc_voting_verifiers = aut_seats, nc_quorum_threshold = 3,
       nc_minimum_failure_domains = 3, nc_blind_isolation_policy_digest = aut_hash,
       nc_nonvoting_sentinel_id = ''sentinel'', nc_proposer_executor_nonvoting = True,
       nc_sentinel_nonvoting = True\<rparr>,
     ns_independence_spec_digest = []\<rparr>"

lemma aut_spec_fields:
  "nc_voting_verifiers (ns_core (aut_spec E epoch)) = aut_seats"
  "nc_constitution_epoch (ns_core (aut_spec E epoch)) = epoch"
  "nc_quorum_threshold (ns_core (aut_spec E epoch)) = 3"
  "nc_minimum_failure_domains (ns_core (aut_spec E epoch)) = 3"
  "nc_nonvoting_sentinel_id (ns_core (aut_spec E epoch)) = ''sentinel''"
  "ns_independence_spec_digest (aut_spec E epoch) = compute_independence_digest E (aut_spec E epoch)"
  by (simp_all add: aut_spec_def seal_independence_def compute_independence_digest_def)

lemma aut_seats_loop:
  "\<exists>seen. seats_loop aut_seats seats_empty = Inr seen \<and> sn_principals seen = {''a'', ''b'', ''c'', ''d''} \<and>
     sn_domains seen = {''d1'', ''d2'', ''d3''}"
proof -
  have hex: "digest_syntax (replicate 64 CHR ''a'')" "digest_syntax (replicate 64 CHR ''b'')"
      "digest_syntax (replicate 64 CHR ''c'')" "digest_syntax (replicate 64 CHR ''d'')"
    by (rule replicate_hash; simp add: is_lower_hex_def)+
  show ?thesis
    unfolding aut_seats_def seats_empty_def
    by (simp add: aut_seat_def hex insert_commute)
qed

lemma aut_spec_valid:
  assumes "sha256_width E"
  shows "validate_against_kernel E (aut_spec E epoch) (aut_kernel E) = Inr ()"
proof -
  obtain v where k: "validate_kernel E (aut_kernel E) = Inr v" using aut_kernel_valid [OF assms] by blast
  obtain seen where loop: "seats_loop aut_seats seats_empty = Inr seen"
    and seen: "sn_principals seen = {''a'', ''b'', ''c'', ''d''}" "sn_domains seen = {''d1'', ''d2'', ''d3''}"
    using aut_seats_loop by blast
  have d: "digest_syntax (compute_independence_digest E (aut_spec E epoch))"
    by (rule independence_contract.compute_syntax [OF assms])
  have "\<forall>c \<in> set (independence_floor_checks aut_kernel_core (aut_spec E epoch)). c = Inr ()"
    by (simp add: independence_floor_checks_def Let_def aut_spec_fields)
      (simp add: aut_spec_def seal_independence_def aut_kernel_core_def aut_seats_def)
  with k loop seen d show ?thesis
    by (simp add: validate_against_kernel_def Let_def aut_spec_fields)
qed

section \<open>Constitution and amendment\<close>

definition aut_constitution_core :: "platform \<Rightarrow> constitution_core" where
  "aut_constitution_core E = \<lparr>kc_constitution_epoch = 0, kc_previous_constitution_digest = None,
     kc_effective_at = 10, kc_expires_at = 1000,
     kc_allowed_autonomy_modes = {HumanGated, PolicyAutonomous, FullAutonomy},
     kc_objectives = [], kc_non_goals = [], kc_resource_scope_digest = aut_hash,
     kc_risk_budget_action_policy_digest = aut_hash,
     kc_independence_spec_digest = ns_independence_spec_digest (aut_spec E 0),
     kc_metric_specs_digest = aut_hash, kc_canary_requirements_digest = aut_hash,
     kc_rollback_requirements_digest = aut_hash, kc_amendment_rules_digest = aut_hash,
     kc_previous_governance_runtime_digest = aut_hash,
     kc_adopting_governance_runtime_digest = aut_hash,
     kc_old_runtime_approval_digest = None, kc_issuer_subject_id = ''owner''\<rparr>"

definition aut_constitution :: "platform \<Rightarrow> constitution_store" where
  "aut_constitution E = seal_constitution E \<lparr>ks_schema = CONSTITUTION_SCHEMA,
     ks_core = aut_constitution_core E, ks_constitution_digest = [], ks_signature = ''sig''\<rparr>"

lemma aut_constitution_fields:
  "ks_core (aut_constitution E) = aut_constitution_core E"
  "ks_constitution_digest (aut_constitution E) = compute_constitution_digest E (aut_constitution E)"
  "ks_schema (aut_constitution E) = CONSTITUTION_SCHEMA" "ks_signature (aut_constitution E) = ''sig''"
  by (simp_all add: aut_constitution_def seal_constitution_def compute_constitution_digest_def)

lemma aut_spec_digest: "sha256_width E \<Longrightarrow> digest_syntax (compute_independence_digest E (aut_spec E n))"
  by (rule independence_contract.compute_syntax)

lemma aut_constitution_digest: "sha256_width E \<Longrightarrow> digest_syntax (ks_constitution_digest (aut_constitution E))"
  unfolding aut_constitution_fields by (rule constitution_contract.compute_syntax)

lemma aut_constitution_valid:
  assumes "sha256_width E" and "10 \<le> now" "now < 1000"
  shows "\<exists>v. validate_constitution E (aut_constitution E) (aut_spec E 0) (aut_kernel E) now = Inr v"
  using aut_spec_valid [OF assms(1), of 0] aut_spec_digest [OF assms(1), of 0]
    aut_constitution_digest [OF assms(1)] assms(2,3)
  unfolding validate_constitution_def constitution_checks_def
  by (simp add: Let_def aut_constitution_fields aut_spec_fields bootstrap_check_def)
    (simp add: aut_constitution_core_def aut_spec_fields)

text \<open>The amendment of the bootstrap constitution: epoch one, adopted by a new runtime.\<close>

definition aut_constitution_core2 :: "platform \<Rightarrow> constitution_core" where
  "aut_constitution_core2 E = (aut_constitution_core E)\<lparr>kc_constitution_epoch := 1,
     kc_previous_constitution_digest := Some (ks_constitution_digest (aut_constitution E)),
     kc_effective_at := 50, kc_independence_spec_digest := ns_independence_spec_digest (aut_spec E 1),
     kc_adopting_governance_runtime_digest := replicate 64 CHR ''b'',
     kc_old_runtime_approval_digest := Some aut_hash\<rparr>"

definition aut_constitution2 :: "platform \<Rightarrow> constitution_store" where
  "aut_constitution2 E = seal_constitution E \<lparr>ks_schema = CONSTITUTION_SCHEMA,
     ks_core = aut_constitution_core2 E, ks_constitution_digest = [], ks_signature = ''sig''\<rparr>"

lemma aut_constitution2_fields:
  "ks_core (aut_constitution2 E) = aut_constitution_core2 E"
  "ks_constitution_digest (aut_constitution2 E) = compute_constitution_digest E (aut_constitution2 E)"
  "ks_schema (aut_constitution2 E) = CONSTITUTION_SCHEMA" "ks_signature (aut_constitution2 E) = ''sig''"
  by (simp_all add: aut_constitution2_def seal_constitution_def compute_constitution_digest_def)

lemma aut_hash_b [simp]: "digest_syntax (replicate 64 CHR ''b'')" "aut_hash \<noteq> replicate 64 CHR ''b''"
proof -
  show "digest_syntax (replicate 64 CHR ''b'')"
    by (rule replicate_hash) (simp add: is_lower_hex_def)
  have "hd aut_hash \<noteq> hd (replicate 64 CHR ''b'')" by (simp add: aut_hash_def)
  then show "aut_hash \<noteq> replicate 64 CHR ''b''" by metis
qed

lemma aut_constitution2_valid:
  assumes "sha256_width E" and "50 \<le> now" "now < 1000"
  shows "\<exists>v. validate_constitution E (aut_constitution2 E) (aut_spec E 1) (aut_kernel E) now = Inr v"
proof -
  have d: "digest_syntax (compute_constitution_digest E (aut_constitution2 E))"
    by (rule constitution_contract.compute_syntax [OF assms(1)])
  show ?thesis
    using aut_spec_valid [OF assms(1), of 1] aut_spec_digest [OF assms(1), of 1] d
      aut_constitution_digest [OF assms(1)] assms(2,3)
    unfolding validate_constitution_def constitution_checks_def
    by (simp add: Let_def aut_constitution2_fields aut_spec_fields bootstrap_check_def)
      (simp add: aut_constitution_core_def aut_constitution_core2_def aut_spec_fields)
qed

definition aut_amendment_core :: "platform \<Rightarrow> amendment_core" where
  "aut_amendment_core E = \<lparr>am_amendment_id = ''am'',
     am_previous_constitution_digest = ks_constitution_digest (aut_constitution E),
     am_previous_constitution_epoch = 0,
     am_proposed_constitution_digest = ks_constitution_digest (aut_constitution2 E),
     am_proposed_constitution_epoch = 1, am_proposer_subject_id = ''pr'',
     am_proposed_runtime_subject_id = ''new'', am_approval_issuer_subject_id = ''old'',
     am_previous_runtime_digest = aut_hash,
     am_proposed_runtime_digest = replicate 64 CHR ''b'',
     am_old_runtime_approval_digest = aut_hash, am_authority_decision_digest = aut_hash,
     am_prepare_receipt_digest = aut_hash, am_canary_receipts_digest = aut_hash,
     am_rollback_plan_digest = aut_hash, am_prepared_at = 20, am_activates_at = 50\<rparr>"

definition aut_amendment :: "platform \<Rightarrow> constitution_amendment" where
  "aut_amendment E = seal_amendment E \<lparr>ma_schema = CONSTITUTION_AMENDMENT_SCHEMA, ma_core = aut_amendment_core E,
     ma_amendment_digest = [], ma_old_runtime_signature = ''sig''\<rparr>"

lemma aut_amendment_fields:
  "ma_core (aut_amendment E) = aut_amendment_core E" "ma_schema (aut_amendment E) = CONSTITUTION_AMENDMENT_SCHEMA"
  "ma_old_runtime_signature (aut_amendment E) = ''sig''" "ma_amendment_digest (aut_amendment E) = compute_amendment_digest E (aut_amendment E)"
  by (simp_all add: aut_amendment_def seal_amendment_def compute_amendment_digest_def)

lemma aut_amendment_digest: "sha256_width E \<Longrightarrow> digest_syntax (compute_amendment_digest E (aut_amendment E))"
  by (rule amendment_contract.compute_syntax)

lemma aut_amendment_valid:
  assumes "sha256_width E" and "50 \<le> now" "now < 1000"
  shows "\<exists>v. validate_amendment E (aut_amendment E) (aut_constitution E) (aut_constitution2 E)
    (aut_spec E 1) (aut_kernel E) now = Inr v"
proof -
  obtain v where v: "validate_constitution E (aut_constitution2 E) (aut_spec E 1) (aut_kernel E) now = Inr v"
    using aut_constitution2_valid [OF assms] by blast
  have d2: "digest_syntax (ks_constitution_digest (aut_constitution2 E))"
    unfolding aut_constitution2_fields by (rule constitution_contract.compute_syntax [OF assms(1)])
  show ?thesis
    using v d2 aut_amendment_digest [OF assms(1)] aut_constitution_digest [OF assms(1)] assms(2)
    unfolding validate_amendment_def amendment_checks_def amendment_step_def
    by (simp add: Let_def aut_amendment_fields)
      (simp add: aut_amendment_core_def aut_constitution_fields(1) aut_constitution2_fields(1)
        aut_constitution_core_def aut_constitution_core2_def not_less)
qed

section \<open>A grant in \<open>POLICY_AUTONOMOUS\<close> and its epoch\<close>

definition aut_grant_core :: "platform \<Rightarrow> grant_core" where
  "aut_grant_core E = \<lparr>gc_grant_id = ''grant'', gc_subject_id = ''agent'', gc_role_id = ''ro'',
     gc_mode = PolicyAutonomous, gc_max_tier = A3AutonomousLand,
     gc_action_classes = [''land''], gc_risk_domains = {Low},
     gc_resource_environment_scope_digest = aut_hash,
     gc_budget = \<lparr>be_unit = ''tokens'', be_limit = 100, be_consumed = 40, be_reset_epoch = 0\<rparr>,
     gc_constitution_epoch = 0, gc_autonomy_epoch = 1, gc_issued_at = 10,
     gc_expires_at = 900, gc_promotion_receipt_id = ''pr'', gc_status = grant_status.Active\<rparr>"

definition aut_grant :: "platform \<Rightarrow> autonomy_grant" where
  "aut_grant E = seal_grant E \<lparr>ag_schema = AUTONOMY_GRANT_SCHEMA, ag_core = aut_grant_core E,
     ag_grant_digest = [], ag_owner_signature = ''sig''\<rparr>"

lemma aut_grant_fields:
  "ag_core (aut_grant E) = aut_grant_core E" "ag_schema (aut_grant E) = AUTONOMY_GRANT_SCHEMA"
  "ag_owner_signature (aut_grant E) = ''sig''" "ag_grant_digest (aut_grant E) = compute_grant_digest E (aut_grant E)"
  by (simp_all add: aut_grant_def seal_grant_def compute_grant_digest_def)

lemma aut_grant_digest: "sha256_width E \<Longrightarrow> digest_syntax (compute_grant_digest E (aut_grant E))"
  by (rule grant_contract.compute_syntax)

lemma aut_grant_valid:
  assumes "sha256_width E" and "10 \<le> now" "now < 900"
  shows "validate_grant_at E (aut_grant E) now = Inr ()"
  using aut_grant_digest [OF assms(1)] assms(2,3)
  unfolding validate_grant_at_def
  by (simp add: Let_def aut_grant_fields) (simp add: aut_grant_core_def)

definition aut_epoch :: "platform \<Rightarrow> autonomy_epoch" where
  "aut_epoch E = \<lparr>ae_schema = AUTONOMY_EPOCH_SCHEMA, ae_autonomy_epoch = 1,
     ae_active_mode = PolicyAutonomous, ae_activation_receipt_id = Some ''ar'',
     ae_constitution_digest = ks_constitution_digest (aut_constitution E), ae_constitution_epoch = 0,
     ae_grants_digest = digest_canonical E AUTONOMY_GRANTS_DIGEST_DOMAIN
       (json_of_entries [(''grant'', ag_grant_digest (aut_grant E))]),
     ae_issuance_frozen = False, ae_safety_state = Healthy, ae_protected_root_signature = ''sig''\<rparr>"

lemma aut_grants_digest:
  assumes "sha256_width E"
  shows "compute_grants_digest E [aut_grant E] = Inr (ae_grants_digest (aut_epoch E))"
  using aut_grant_digest [OF assms]
  by (simp add: compute_grants_digest_def aut_grant_fields aut_grant_core_def aut_epoch_def)

lemma aut_epoch_valid:
  assumes "sha256_width E" and "10 \<le> now" "now < 900"
  shows "validate_common E (aut_epoch E) (aut_constitution E) [aut_grant E] now = Inr ()"
proof -
  have "digest_syntax (ae_grants_digest (aut_epoch E))"
    unfolding aut_epoch_def by (simp add: digest_canonical_syntax [OF assms(1)])
  then show ?thesis
    using aut_grants_digest [OF assms(1)] aut_grant_valid [OF assms] aut_constitution_digest [OF assms(1)]
    unfolding validate_common_def epoch_grant_checks_def safety_state_check_def
    by (simp add: Let_def)
      (simp add: aut_epoch_def aut_grant_fields(1) aut_grant_core_def aut_constitution_fields(1)
        aut_constitution_core_def)
qed


text \<open>
  The sample world of \<open>Autonomy_Samples\<close>, continued: a sovereign intent under the grant, the
  sentinel's GREEN verdict, three of four votes, the quorum decision and the capability.
\<close>

section \<open>Intent\<close>

definition aut_intent_core :: "platform \<Rightarrow> sovereign_core" where
  "aut_intent_core E = \<lparr>sc_action_class = ''land'', sc_semantic_action_id = ''mission.land'',
     sc_action_payload_digest = aut_hash, sc_issuer_subject_id = ''owner'',
     sc_decision_subject_id = ''agent'', sc_caller_subject_id = ''agent'',
     sc_audience = ''au'', sc_proposer_subject_id = ''proposer'',
     sc_executor_subject_id = Some ''executor'', sc_promotion_target_subject_id = None,
     sc_ratification_target_subject_id = None, sc_delegation_grant_digest = None,
     sc_required_authority_variant = AgentQuorum,
     sc_action_policy_registry_digest = aut_hash, sc_classifier_decision_digest = aut_hash,
     sc_applicable_grant_id = Some ''grant'',
     sc_applicable_grant_digest = Some (ag_grant_digest (aut_grant E)),
     sc_organism_id = ''or'', sc_repo_id = ''re'', sc_brain_id = ''br'',
     sc_mission_id = None, sc_mission_head_id = None, sc_block_id = None,
     sc_candidate_digest = None, sc_promotion_subject_id = None,
     sc_active_mode = PolicyAutonomous, sc_effective_tier = A3AutonomousLand,
     sc_risk_class = Low, sc_risk_scope_digest = aut_hash,
     sc_resource_environment_scope_digest = aut_hash, sc_requested_budget = 60,
     sc_constitution_digest = ks_constitution_digest (aut_constitution E),
     sc_constitution_epoch = 0, sc_autonomy_epoch = 1, sc_expected_store_epoch = 0,
     sc_expected_store_version = 0, sc_expected_boundary_version = 0,
     sc_expected_contract_version = 0, sc_metric_spec_digest = aut_hash,
     sc_evidence_digest = aut_hash, sc_rollout_plan_digest = aut_hash,
     sc_rollback_plan_digest = aut_hash, sc_nonce = ''no'', sc_issued_at = 20,
     sc_expires_at = 500\<rparr>"

definition aut_intent :: "platform \<Rightarrow> sovereign_intent" where
  "aut_intent E = seal_sovereign E \<lparr>si_schema = SOVEREIGN_ACTION_INTENT_SCHEMA,
     si_core = aut_intent_core E, si_intent_digest = [], si_intent_core_ref = for_sovereign_digest []\<rparr>"

lemma aut_intent_fields:
  "si_core (aut_intent E) = aut_intent_core E" "si_schema (aut_intent E) = SOVEREIGN_ACTION_INTENT_SCHEMA"
  by (simp_all add: aut_intent_def seal_sovereign_def Let_def)

lemma aut_intent_digest:
  assumes "sha256_width E"
  shows "digest_syntax (si_intent_digest (aut_intent E))"
    "si_intent_digest (aut_intent E) = compute_sovereign_digest E (aut_intent E)"
    "validate_intent_ref (si_intent_core_ref (aut_intent E)) False = Inr ()"
    "ir_intent_digest (si_intent_core_ref (aut_intent E)) = si_intent_digest (aut_intent E)"
proof -
  let ?i = "\<lparr>si_schema = SOVEREIGN_ACTION_INTENT_SCHEMA, si_core = aut_intent_core E,
      si_intent_digest = [], si_intent_core_ref = for_sovereign_digest []\<rparr>"
  note valid = sovereign_contract.seal_valid [OF assms, of ?i, folded aut_intent_def]
  from valid show "si_intent_digest (aut_intent E) = compute_sovereign_digest E (aut_intent E)"
    "validate_intent_ref (si_intent_core_ref (aut_intent E)) False = Inr ()"
    "ir_intent_digest (si_intent_core_ref (aut_intent E)) = si_intent_digest (aut_intent E)" by blast+
  then show "digest_syntax (si_intent_digest (aut_intent E))"
    using sovereign_contract.compute_syntax [OF assms] by simp
qed

lemma aut_action_id [simp]: "is_catalog_action ''mission.land''"
  by (simp add: is_catalog_action_def action_id_new_def policy_require_non_empty_def
      is_semantic_catalog_id_def catalog_char_def)

lemma aut_intent_self: "validate_no_self_authorization (aut_intent_core E) = Inr ()"
  by (simp add: validate_no_self_authorization_def aut_intent_core_def map_filter_simps)

lemma aut_intent_canonical:
  assumes "sha256_width E" and "20 \<le> now" "now < 500"
  shows "\<exists>v. validate_canonical_core E (aut_intent E) now = Inr v"
proof -
  have "sc_issued_at (aut_intent_core E) = 20" "sc_expires_at (aut_intent_core E) = 500"
    "sc_semantic_action_id (aut_intent_core E) = ''mission.land''"
    by (simp_all add: aut_intent_core_def)
  then show ?thesis
    using aut_intent_digest [OF assms(1)] assms(2,3)
    by (simp add: validate_canonical_core_def intent_digest_checks_def Let_def aut_intent_fields
        aut_intent_self)
qed

lemma aut_grant_binding: "validate_grant_binding (aut_intent_core E) (aut_grant E) = Inr ()"
  by (simp add: validate_grant_binding_def Let_def authorize_scope_def aut_grant_fields(1))
    (simp add: aut_intent_core_def aut_grant_core_def)

lemma aut_intent_valid:
  assumes "sha256_width E" and "20 \<le> now" "now < 500"
  shows "\<exists>v. validate_sovereign E (aut_intent E) (aut_epoch E) (Some (aut_grant E)) now = Inr v"
proof -
  have now: "10 \<le> now" "now < 900"
    using assms(2,3) order_trans [of 10 20 now] less_trans [of now 500 900] by simp_all
  have g: "digest_syntax (ag_grant_digest (aut_grant E))"
    using aut_grant_digest [OF assms(1)] by (simp add: aut_grant_fields)
  have "\<forall>c \<in> set (sovereign_field_checks (aut_intent_core E)). c = Inr ()"
    using g aut_constitution_digest [OF assms(1)]
    by (simp add: sovereign_field_checks_def aut_intent_core_def)
  moreover have "\<forall>c \<in> set (intent_epoch_checks (aut_intent_core E) (aut_epoch E) now). c = Inr ()"
    using aut_constitution_digest [OF assms(1)] assms(2,3)
    by (simp add: intent_epoch_checks_def aut_intent_self)
      (simp add: aut_intent_core_def aut_epoch_def)
  moreover have "intent_grant_check E (aut_intent_core E) (Some (aut_grant E)) now = Inr ()"
    using aut_grant_valid [OF assms(1) now] aut_grant_binding
    by (simp add: intent_grant_check_def) (simp add: aut_intent_core_def)
  moreover obtain v where "validate_canonical_core E (aut_intent E) now = Inr v"
    using aut_intent_canonical [OF assms] by blast
  ultimately show ?thesis
    using aut_intent_digest [OF assms(1)]
    by (simp add: validate_sovereign_def intent_digest_checks_def Let_def aut_intent_fields)
qed

section \<open>Verdict and votes\<close>

definition aut_green_core :: "platform \<Rightarrow> sentinel_core" where
  "aut_green_core E = \<lparr>nl_verdict_id = ''ve'', nl_sentinel_identity_key_binary_policy_digest = aut_hash,
     nl_intent_digest = si_intent_digest (aut_intent E),
     nl_intent_core_ref = si_intent_core_ref (aut_intent E),
     nl_intent_canonicalization_version = CANONICALIZATION_VERSION,
     nl_metric_evidence_rollback_digest = aut_hash, nl_risk_scope_digest = aut_hash,
     nl_constitution_epoch = 0, nl_autonomy_epoch = 1, nl_nonce = ''no'', nl_issued_at = 25,
     nl_expires_at = 400, nl_verdict = Green\<rparr>"

definition aut_green :: "platform \<Rightarrow> sentinel_record" where
  "aut_green E = seal_verdict E \<lparr>sr_schema = SENTINEL_VERDICT_SCHEMA, sr_core = aut_green_core E,
     sr_verdict_digest = [], sr_signature = ''sig''\<rparr>"

lemma aut_green_fields:
  "sr_core (aut_green E) = aut_green_core E" "sr_schema (aut_green E) = SENTINEL_VERDICT_SCHEMA"
  "sr_signature (aut_green E) = ''sig''" "sr_verdict_digest (aut_green E) = compute_verdict_digest E (aut_green E)"
  by (simp_all add: aut_green_def seal_verdict_def compute_verdict_digest_def)

lemma aut_green_digest: "sha256_width E \<Longrightarrow> digest_syntax (compute_verdict_digest E (aut_green E))"
  by (rule verdict_contract.compute_syntax)

lemma aut_green_valid:
  assumes "sha256_width E" and "25 \<le> now" "now < 400"
  shows "\<exists>v. validate_verdict E (aut_green E) (aut_intent E) (aut_kernel E) now = Inr v"
proof -
  have "20 \<le> now" "now < 500"
    using assms(2,3) order_trans [of 20 25 now] less_trans [of now 400 500] by simp_all
  then obtain v where "validate_canonical_core E (aut_intent E) now = Inr v"
    using aut_intent_canonical [OF assms(1)] by blast
  then show ?thesis
    using aut_green_digest [OF assms(1)] aut_intent_digest(1) [OF assms(1)] assms(2,3)
    by (simp add: validate_verdict_def Let_def aut_green_fields aut_intent_fields)
      (simp add: aut_green_core_def aut_intent_core_def aut_kernel_core_def)
qed

definition aut_vote :: "platform \<Rightarrow> char \<Rightarrow> string \<Rightarrow> quorum_vote" where
  "aut_vote E c domain = \<lparr>qv_verifier_principal_id = [c], qv_verifier_key_id = [c], qv_failure_domain = domain,
     qv_parent_session_context_digest = replicate 64 c,
     qv_intent_digest = si_intent_digest (aut_intent E),
     qv_constitution_digest = ks_constitution_digest (aut_constitution E),
     qv_candidate_digest = None, qv_evidence_digest = aut_hash,
     qv_rollout_plan_digest = aut_hash, qv_rollback_plan_digest = aut_hash,
     qv_disposition = Approve, qv_signature = ''sig''\<rparr>"

definition aut_evidence :: "platform \<Rightarrow> quorum_evidence" where
  "aut_evidence E = \<lparr>qe_independence_spec = aut_spec E 0,
     qe_votes = [aut_vote E CHR ''a'' ''d1'', aut_vote E CHR ''b'' ''d2'', aut_vote E CHR ''c'' ''d3''],
     qe_sentinel_verdict_digest = sr_verdict_digest (aut_green E)\<rparr>"

lemma aut_vote_checks:
  assumes "sha256_width E" and "seats [c] = Some (aut_seat c domain)" and "[c] \<notin> ta_voted t"
  shows "seq_checks (vote_checks seats (aut_intent E) t (aut_vote E c domain)) = Inr ()"
  using aut_intent_digest(1) [OF assms(1)] aut_constitution_digest [OF assms(1)] assms(2,3)
  by (simp add: vote_checks_def Let_def aut_intent_fields)
    (simp add: aut_vote_def aut_seat_def aut_intent_core_def)

lemma aut_seat_of:
  "quorum_seats aut_seats ''a'' = Some (aut_seat CHR ''a'' ''d1'')"
  "quorum_seats aut_seats ''b'' = Some (aut_seat CHR ''b'' ''d2'')"
  "quorum_seats aut_seats ''c'' = Some (aut_seat CHR ''c'' ''d3'')"
  "quorum_seats aut_seats ''proposer'' = None" "quorum_seats aut_seats ''executor'' = None"
  by (simp_all add: quorum_seats_def aut_seats_def) (simp_all add: aut_seat_def)

lemma aut_evidence_valid:
  assumes "sha256_width E"
  shows "validate_quorum E (aut_evidence E) (aut_intent E) (aut_constitution E) (aut_kernel E)
    (sr_verdict_digest (aut_green E)) = Inr ()"
proof -
  have ap: "qv_disposition (aut_vote E c domain) = Approve"
    "qv_verifier_principal_id (aut_vote E c domain) = [c]" "qv_failure_domain (aut_vote E c domain) = domain"
    for c domain by (simp_all add: aut_vote_def)
  obtain t where loop: "votes_loop (quorum_seats aut_seats) (aut_intent E) (qe_votes (aut_evidence E)) tally_empty = Inr t"
    and t: "ta_approvals t = 3" "ta_approval_domains t = {''d1'', ''d2'', ''d3''}"
  proof -
    have "\<exists>t. votes_loop (quorum_seats aut_seats) (aut_intent E) (qe_votes (aut_evidence E)) tally_empty = Inr t \<and>
        ta_approvals t = 3 \<and> ta_approval_domains t = {''d1'', ''d2'', ''d3''}"
      by (simp add: aut_evidence_def ap aut_vote_checks [OF assms] aut_seat_of tally_empty_def insert_commute)
    with that show ?thesis by blast
  qed
  have q: "qe_independence_spec (aut_evidence E) = aut_spec E 0" "length (qe_votes (aut_evidence E)) = 3"
    "qe_sentinel_verdict_digest (aut_evidence E) = sr_verdict_digest (aut_green E)"
    by (simp_all add: aut_evidence_def)
  have i: "sc_constitution_epoch (aut_intent_core E) = 0" "sc_proposer_subject_id (aut_intent_core E) = ''proposer''"
    "sc_executor_subject_id (aut_intent_core E) = Some ''executor''"
    "sc_promotion_target_subject_id (aut_intent_core E) = None"
    "sc_ratification_target_subject_id (aut_intent_core E) = None"
    by (simp_all add: aut_intent_core_def)
  have c: "kc_independence_spec_digest (aut_constitution_core E) = compute_independence_digest E (aut_spec E 0)"
    by (simp add: aut_constitution_core_def aut_spec_fields)
  have n: "seat_count aut_seats = 4" by (simp add: seat_count_def aut_seats_def aut_seat_def)
  have d: "digest_syntax (sr_verdict_digest (aut_green E))"
    using aut_green_digest [OF assms] by (simp add: aut_green_fields)
  show ?thesis
    unfolding validate_quorum_def Let_def q aut_spec_fields aut_intent_fields aut_constitution_fields(1)
    by (simp add: loop t i c n d q aut_spec_fields aut_spec_valid [OF assms] aut_spec_digest [OF assms]
        holds_seat_def aut_seat_of)
qed

end
