(* ===== verification/Autonomy_Properties.thy ===== *)
theory Autonomy_Properties
  imports Autonomy_Authority
begin

text \<open>
  What the contracts of \<open>autonomy.rs\<close> add up to: the independence of a quorum, the negative-only
  safety path, the bounds of a capability and the mandate its digest pins, and three histories -
  the constitutions that follow one another by amendment, the records of the RED outbox, and the
  activations that climb from \<open>HUMAN_GATED\<close> - that no accepted step can leave.
\<close>

section \<open>Decisions\<close>

text \<open>The subjects an intent is about; none of them may vote on it.\<close>

definition interested :: "sovereign_intent \<Rightarrow> string set" where
  "interested intent = {sc_proposer_subject_id (si_core intent)} \<union>
     set_option (sc_executor_subject_id (si_core intent)) \<union>
     set_option (sc_promotion_target_subject_id (si_core intent)) \<union>
     set_option (sc_ratification_target_subject_id (si_core intent))"

lemma voters_seated:
  assumes "\<forall>v \<in> set votes. vote_for seats intent v"
  shows "set (map qv_verifier_principal_id votes) \<subseteq> set (map vs_principal_id seats)"
  using assms unfolding vote_for_def by force

lemma quorum_disinterested:
  assumes "validate_quorum E q intent constitution kern d = Inr u"
  shows "interested intent \<inter> set (map qv_verifier_principal_id (qe_votes q)) = {}"
  using validate_quorum_parts(7-10) [OF assms] voters_seated [OF validate_quorum_parts(3) [OF assms]]
  unfolding interested_def holds_seat_iff by (auto split: option.splits)

text \<open>C37: An accepted \<open>AGENT_QUORUM\<close> decision carries a GREEN verdict on this very intent and at
  least three approving votes on it from distinct seated verifiers, in at least three failure
  domains; neither the proposer, the executor, a promotion or ratification target nor the sentinel
  is among the voters, and the intent is not in \<open>HUMAN_GATED\<close> mode.\<close>
theorem quorum_decision_is_independent:
  assumes "validate_positive_decision E (QuorumDecision d) intent constitution kern sentinel now_ms = Inr v"
  defines "q \<equiv> qa_quorum (qu_core d)"
  defines "c \<equiv> ns_core (qe_independence_spec q)"
  defines "voters \<equiv> set (map qv_verifier_principal_id (qe_votes q))"
  shows "(\<exists>r. sentinel = Some r \<and> nl_verdict (sr_core r) = Green \<and>
      nl_intent_digest (sr_core r) = si_intent_digest intent \<and>
      qe_sentinel_verdict_digest q = sr_verdict_digest r) \<and>
    (\<forall>v \<in> set (qe_votes q). vote_for (nc_voting_verifiers c) intent v) \<and>
    3 \<le> card voters \<and>
    3 \<le> card (set (map qv_failure_domain (qe_votes q))) \<and>
    voters \<inter> (interested intent \<union> {nc_nonvoting_sentinel_id c}) = {} \<and>
    sc_active_mode (si_core intent) \<noteq> HumanGated"
proof -
  note p = positive_decision_parts [OF assms(1)]
  obtain r where r: "sentinel = Some r" "nl_verdict (sr_core r) = Green"
    and b: "validate_decision_binding (qa_binding (qu_core d)) intent AgentQuorum sentinel = Inr ()"
      "db_active_mode (qa_binding (qu_core d)) \<noteq> HumanGated"
    and q: "validate_quorum E q intent constitution kern (sr_verdict_digest r) = Inr ()"
    using quorum_arm_parts [OF p(3)] unfolding q_def by blast
  note parts = validate_quorum_parts [OF q, folded c_def]
  from p(2) [OF r(1)] validate_verdict_parts(1) have "nl_intent_digest (sr_core r) = si_intent_digest intent"
    by blast
  with r parts(2) have green: "\<exists>r. sentinel = Some r \<and> nl_verdict (sr_core r) = Green \<and>
      nl_intent_digest (sr_core r) = si_intent_digest intent \<and>
      qe_sentinel_verdict_digest q = sr_verdict_digest r" by blast
  have votes: "\<forall>v \<in> set (qe_votes q). vote_for (nc_voting_verifiers c) intent v" by (rule parts(3))
  have spec: "3 \<le> unat (nc_quorum_threshold c)" "3 \<le> unat (nc_minimum_failure_domains c)"
    "nc_nonvoting_sentinel_id c \<notin> set (map vs_principal_id (nc_voting_verifiers c))"
    using parts(1) unfolding independent_seats_def c_def [symmetric] Let_def by blast+
  have "card voters = length (qe_votes q)"
    using distinct_card [OF parts(4)] by (simp add: voters_def)
  with spec parts(5) have three: "3 \<le> card voters" by linarith
  from spec parts(6) have domains: "3 \<le> card (set (map qv_failure_domain (qe_votes q)))" by linarith
  have voters: "voters \<inter> (interested intent \<union> {nc_nonvoting_sentinel_id c}) = {}"
    using quorum_disinterested [OF q] voters_seated [OF parts(3)] spec(3) unfolding voters_def by blast
  have "db_active_mode (qa_binding (qu_core d)) = sc_active_mode (si_core intent)"
    using arg_cong [OF validate_decision_binding_parts(2) [OF b(1)], of db_active_mode]
    by (simp add: from_intent_def Let_def)
  with b(2) have gated: "sc_active_mode (si_core intent) \<noteq> HumanGated" by simp
  from green votes three domains voters gated show ?thesis by blast
qed

text \<open>A decision that a safety transaction accepts is negative: its effects are exactly those
  the kernel allows and the safety intent asks for, each of them negative, and the same decision
  neither validates as a positive decision nor mints a capability, for any intent, verdict or
  grant at any time.\<close>
theorem safety_decision_is_negative_only:
  assumes "validate_safety_authority E d safety capability latch kern = Inr v"
  shows "(\<exists>y. d = SafetyDecision y \<and>
      ya_negative_effects (yu_core y) = kn_allowed_negative_effects (sk_core kern) \<and>
      ya_negative_effects (yu_core y) = fc_negative_effects (sf_core safety) \<and>
      ya_negative_effects (yu_core y) \<noteq> {} \<and> (\<forall>e \<in> ya_negative_effects (yu_core y). is_negative_safety e)) \<and>
    validate_positive_decision E d intent constitution kern' sentinel now_ms \<noteq> Inr w \<and>
    validate_autonomy_capability E a d intent g ep sentinel now_ms \<noteq> Inr w"
proof -
  from assms obtain y where d: "d = SafetyDecision y"
    and y: "validate_safety_decision E y safety capability latch kern = Inr v" by (cases d) auto
  note parts = validate_safety_decision_parts [OF y]
  from d parts(1) validate_safety_effects_ok [OF parts(2)]
  have negative: "\<exists>y. d = SafetyDecision y \<and>
      ya_negative_effects (yu_core y) = kn_allowed_negative_effects (sk_core kern) \<and>
      ya_negative_effects (yu_core y) = fc_negative_effects (sf_core safety) \<and>
      ya_negative_effects (yu_core y) \<noteq> {} \<and> (\<forall>e \<in> ya_negative_effects (yu_core y). is_negative_safety e)"
    by blast
  have positive: "validate_positive_decision E d intent constitution kern' sentinel now_ms \<noteq> Inr w"
    using positive_decision_parts(3) [of E d intent constitution kern' sentinel now_ms w] d by auto
  have mints: "validate_autonomy_capability E a d intent g ep sentinel now_ms \<noteq> Inr w"
    using capability_decision_ok [OF validate_autonomy_capability_parts(1)] d by fastforce
  from negative positive mints show ?thesis by blast
qed

section \<open>Capabilities\<close>

text \<open>C38: A capability is accepted only inside what its grant authorises at that moment: the grant is
  active, issued and not expired, what the capability asks for and what the grant has already
  consumed fit into the limit as natural numbers, and its tier, action, risk, scope, mode and digest are
  the grant's; its own lifetime lies inside the intent's and holds the present, and the decision is a
  policy's or a quorum's, taken while the epoch is healthy and issuance is not fenced.  Nothing
  is claimed of the expiry that the capability carries against the grant's: it is the acceptance that
  the grant bounds in time.\<close>
theorem capability_within_grant:
  assumes "validate_autonomy_capability E a decision intent g ep sentinel now_ms = Inr v"
  defines "c \<equiv> au_core a" and "b \<equiv> gc_budget (ag_core g)" and "i \<equiv> si_core intent"
  shows "unat (ap_requested_budget c) + unat (be_consumed b) \<le> unat (be_limit b) \<and>
    tier_rank (ap_effective_tier c) \<le> tier_rank (gc_max_tier (ag_core g)) \<and>
    ap_action_class c \<in> set (gc_action_classes (ag_core g)) \<and>
    ap_risk_class c \<in> gc_risk_domains (ag_core g) \<and>
    ap_resource_environment_scope_digest c = gc_resource_environment_scope_digest (ag_core g) \<and>
    ap_grant_digest c = compute_grant_digest E g \<and>
    gc_mode (ag_core g) = ap_active_mode c \<and>
    sc_issued_at i \<le> ap_issued_at c \<and>
    ap_issued_at c \<le> now_ms \<and>
    now_ms < ap_expires_at c \<and>
    ap_expires_at c \<le> sc_expires_at i \<and>
    gc_status (ag_core g) = grant_status.Active \<and>
    gc_issued_at (ag_core g) \<le> now_ms \<and>
    now_ms < gc_expires_at (ag_core g) \<and>
    decision_variant decision \<in> {Policy, AgentQuorum} \<and>
    ae_safety_state ep = Healthy \<and>
    \<not> ae_issuance_frozen ep"
proof -
  note parts = validate_autonomy_capability_parts [OF assms(1), folded c_def i_def]
  note fields = capability_fields [OF assms(1), folded c_def i_def]
  note named = capability_named [OF assms(1), folded c_def i_def]
  note grant = validate_grant_parts [OF parts(11)]
  note binding = validate_grant_binding_ok [OF parts(12)]
  note scope = authorize_scope_ok [OF binding(6)]
  have budget: "unat (ap_requested_budget c) + unat (be_consumed b) \<le> unat (be_limit b)"
    using scope(4) fields(1) by (simp add: b_def)
  have tier: "tier_rank (ap_effective_tier c) \<le> tier_rank (gc_max_tier (ag_core g))"
    using scope(5) fields(2) by simp
  have action: "ap_action_class c \<in> set (gc_action_classes (ag_core g))" using scope(1) named(4) by simp
  have risk: "ap_risk_class c \<in> gc_risk_domains (ag_core g)" using scope(2) fields(3) by simp
  have scp: "ap_resource_environment_scope_digest c = gc_resource_environment_scope_digest (ag_core g)"
    using scope(3) named(5) by simp
  have grt: "ap_grant_digest c = compute_grant_digest E g" using named(3) grant(4) by simp
  have mode: "gc_mode (ag_core g) = ap_active_mode c" using binding(4) fields(4) by simp
  have variant: "decision_variant decision \<in> {Policy, AgentQuorum}" by (rule capability_decision_ok [OF parts(1)])
  from budget tier action risk scp grt mode parts(1-10) variant grant(1-3) show ?thesis
    using assms(1) by (blast dest: validate_autonomy_capability_parts)
qed

text \<open>The digest of a capability pins the whole mandate: two accepted capabilities with one
  digest have the same core and were minted by decisions with one digest for the same intent
  under the same grant, or a collision of the hash is exhibited.\<close>
theorem capability_pins_mandate:
  assumes "serde_writer E"
    and "validate_autonomy_capability E a decision intent g ep sentinel now_ms = Inr v"
    and "validate_autonomy_capability E a' decision' intent' g' ep' sentinel' now_ms' = Inr w"
    and "au_capability_digest a = au_capability_digest a'"
  shows "au_core a = au_core a' \<and> decision_digest decision = decision_digest decision' \<and>
      si_core intent = si_core intent' \<and> ag_core g = ag_core g'
    \<or> canonical_collision E AUTONOMY_CAPABILITY_DIGEST_DOMAIN
        (json_of_autonomy_capability_core (au_core a)) (json_of_autonomy_capability_core (au_core a'))
    \<or> versioned_collision E SOVEREIGN_INTENT_DIGEST_DOMAIN
        (json_of_sovereign_core (si_core intent)) (json_of_sovereign_core (si_core intent'))
    \<or> canonical_collision E AUTONOMY_GRANT_DIGEST_DOMAIN
        (json_of_grant_core (ag_core g)) (json_of_grant_core (ag_core g'))"
proof -
  note one = validate_autonomy_capability_parts [OF assms(2)] and two = validate_autonomy_capability_parts [OF assms(3)]
  have capability: "au_core a = au_core a' \<or> canonical_collision E AUTONOMY_CAPABILITY_DIGEST_DOMAIN
      (json_of_autonomy_capability_core (au_core a)) (json_of_autonomy_capability_core (au_core a'))"
    by (rule capability_contract.tamper_evident [OF assms(1) one(14) two(14) assms(4)])
  show ?thesis
  proof (cases "au_core a = au_core a'")
    case True
    with capability_named [OF assms(2)] capability_named [OF assms(3)]
    have same: "si_intent_digest intent = si_intent_digest intent'"
      "decision_digest decision = decision_digest decision'" "ag_grant_digest g = ag_grant_digest g'"
      by simp_all
    from one(15) two(15) have "si_intent_digest intent = compute_sovereign_digest E intent"
      "si_intent_digest intent' = compute_sovereign_digest E intent'"
      by (blast dest: validate_canonical_core_parts(3))+
    with same(1) have "compute_sovereign_digest E intent = compute_sovereign_digest E intent'" by simp
    note intent = sovereign_contract.compute_eq_core [OF assms(1) this]
    note grant = grant_contract.tamper_evident [OF assms(1) validate_grant_parts(4) [OF one(11)]
        validate_grant_parts(4) [OF two(11)] same(3)]
    from True same(2) intent grant show ?thesis by blast
  next
    case False
    with capability show ?thesis by blast
  qed
qed


text \<open>
  Three histories of accepted steps of \<open>autonomy.rs\<close>: the constitutions that follow one another by
  amendment, the records of the RED outbox, and the activations that climb from \<open>HUMAN_GATED\<close>.
  Their counters are \<open>u64\<close>, and each successor is \<open>previous + 1\<close>: the histories show that a
  counter that wraps is refused by another check of the same validator.
\<close>

section \<open>Counters\<close>

text \<open>A counter that is \<open>n\<close> and whose successor is not zero becomes \<open>n + 1\<close>, without a wrap.\<close>

lemma unat_successor:
  fixes e :: u64
  assumes "e + 1 \<noteq> 0"
  shows "unat (e + 1) = Suc (unat e)"
  using assms unatSuc [of e] by (simp add: add.commute)

section \<open>Constitutions\<close>

text \<open>
  \<open>governed E kern n c\<close>: the constitution \<open>c\<close> is reached by \<open>n\<close> accepted amendments from an accepted
  bootstrap constitution, each validated against the same immutable kernel.
\<close>

inductive governed :: "platform \<Rightarrow> safety_kernel \<Rightarrow> nat \<Rightarrow> constitution_store \<Rightarrow> bool"
  for E kern where
  bootstrap: "validate_constitution E c independence kern now_ms = Inr v \<Longrightarrow>
    kc_constitution_epoch (ks_core c) = 0 \<Longrightarrow> governed E kern 0 c"
| amended: "governed E kern n previous \<Longrightarrow>
    validate_amendment E m previous proposed independence kern now_ms = Inr v \<Longrightarrow>
    governed E kern (Suc n) proposed"

inductive_cases governed_bootstrap: "governed E kern 0 c"
inductive_cases governed_amended: "governed E kern (Suc n) c"

lemma accepted_constitution:
  assumes "validate_constitution E c independence kern now_ms = Inr v"
  shows "HumanGated \<in> kc_allowed_autonomy_modes (ks_core c) \<and>
    (\<exists>s. kc_independence_spec_digest (ks_core c) = compute_independence_digest E s \<and> independent_seats s \<and>
       nc_constitution_epoch (ns_core s) = kc_constitution_epoch (ks_core c))"
  using validate_constitution_parts(1-4) [OF assms]
    validate_against_kernel_parts(1,3) [OF validate_constitution_parts(2) [OF assms]] by metis

text \<open>C39: However often a constitution is amended, it keeps the kernel's floors - the human gate
  stays an allowed mode, and it names a specification of four independent verifiers with a quorum
  of at least three - and its epoch is the number of the amendments as a natural number: the
  counter never wraps.\<close>
theorem amendments_keep_floors:
  assumes "governed E kern n c"
  shows "HumanGated \<in> kc_allowed_autonomy_modes (ks_core c) \<and>
    (\<exists>s. kc_independence_spec_digest (ks_core c) = compute_independence_digest E s \<and> independent_seats s) \<and>
    unat (kc_constitution_epoch (ks_core c)) = n"
proof -
  have "HumanGated \<in> kc_allowed_autonomy_modes (ks_core c) \<and>
      (\<exists>s. kc_independence_spec_digest (ks_core c) = compute_independence_digest E s \<and> independent_seats s) \<and>
      unat (kc_constitution_epoch (ks_core c)) = n"
    using assms
  proof induction
    case (bootstrap c independence now_ms v)
    with accepted_constitution [OF bootstrap(1)] show ?case by auto
  next
    case (amended n previous m proposed independence now_ms v)
    note step = validate_amendment_parts [OF amended.hyps(2)]
    obtain w where w: "validate_constitution E proposed independence kern now_ms = Inr w" using step(8) by blast
    have "kc_constitution_epoch (ks_core previous) + 1 \<noteq> 0"
      using validate_constitution_parts(8) [OF w] step(4,5) by simp
    from unat_successor [OF this] amended.IH step(4)
    have "unat (kc_constitution_epoch (ks_core proposed)) = Suc n" by simp
    with accepted_constitution [OF w] show ?case by blast
  qed
  then show ?thesis by simp
qed

section \<open>The RED outbox\<close>

text \<open>\<open>outbox_log E xs\<close>: the records \<open>xs\<close>, the newest first, were accepted one after another.\<close>

inductive outbox_log :: "platform \<Rightarrow> red_outbox list \<Rightarrow> bool" for E where
  first_record: "validate_outbox E x verdict intent None = Inr v \<Longrightarrow> outbox_log E [x]"
| next_record: "outbox_log E (p # xs) \<Longrightarrow> validate_outbox E x verdict intent (Some p) = Inr v \<Longrightarrow>
    outbox_log E (x # p # xs)"

text \<open>The RED outbox is gapless: the records accepted one after another carry the epochs
  1, 2, 3 and so on as natural numbers, each names the signed root of its predecessor, each is
  below the protected high-water mark, and the \<open>u64\<close> counter never wraps.\<close>
theorem outbox_gapless:
  assumes "outbox_log E xs"
  shows "map (\<lambda>x. unat (xc_outbox_epoch (xb_core x))) (rev xs) = [1..<Suc (length xs)] \<and>
    map (\<lambda>x. xc_previous_outbox_root_digest (xb_core x)) (rev xs) =
      None # map (\<lambda>x. Some (xc_signed_outbox_root_digest (xb_core x))) (rev (tl xs)) \<and>
    (\<forall>x \<in> set xs. xc_outbox_epoch (xb_core x) \<le> xc_protected_latest_outbox_epoch (xb_core x))"
proof -
  have "xs \<noteq> [] \<and> unat (xc_outbox_epoch (xb_core (hd xs))) = length xs \<and>
      map (\<lambda>x. unat (xc_outbox_epoch (xb_core x))) (rev xs) = [1..<Suc (length xs)] \<and>
      map (\<lambda>x. xc_previous_outbox_root_digest (xb_core x)) (rev xs) =
        None # map (\<lambda>x. Some (xc_signed_outbox_root_digest (xb_core x))) (rev (tl xs)) \<and>
      (\<forall>x \<in> set xs. xc_outbox_epoch (xb_core x) \<le> xc_protected_latest_outbox_epoch (xb_core x))"
    using assms
  proof induction
    case (first_record x verdict intent v)
    from validate_outbox_parts(4,5) [OF first_record] show ?case by (simp add: outbox_chain_check_def)
  next
    case (next_record p xs x verdict intent v)
    note parts = validate_outbox_parts [OF next_record.hyps(2)]
    from parts(5) have step: "xc_outbox_epoch (xb_core x) = xc_outbox_epoch (xb_core p) + 1"
      "xc_previous_outbox_root_digest (xb_core x) = Some (xc_signed_outbox_root_digest (xb_core p))"
      by (simp_all add: outbox_chain_check_def)
    with parts(3) unat_successor have "unat (xc_outbox_epoch (xb_core x)) = Suc (unat (xc_outbox_epoch (xb_core p)))"
      by metis
    with next_record.IH step parts(4) show ?case by simp
  qed
  then show ?thesis by simp
qed

section \<open>Activations\<close>

text \<open>
  \<open>activations E s ds e\<close>: accepted activation receipts lead from the epoch \<open>s\<close> to the epoch \<open>e\<close>,
  with the decisions \<open>ds\<close>, the last one first.
\<close>

inductive activations :: "platform \<Rightarrow> autonomy_epoch \<Rightarrow> authority_decision list \<Rightarrow> autonomy_epoch \<Rightarrow> bool"
  for E s where
  none_yet: "activations E s [] s"
| activated: "activations E s ds previous \<Longrightarrow>
    validate_activation E r previous target constitution grants context = Inr v \<Longrightarrow>
    activations E s (ax_authority_decision context # ds) target"

text \<open>C40: From \<open>HUMAN_GATED\<close> at most two activations are ever accepted, to \<open>POLICY_AUTONOMOUS\<close>
  and then to \<open>FULL_AUTONOMY\<close>: no step is skipped, none leads back, each rests on a human
  decision, and the autonomy epoch (a \<open>u64\<close>) has advanced by their number.\<close>
theorem activation_ladder:
  assumes "activations E s ds e" and "ae_active_mode s = HumanGated"
  shows "length ds \<le> 2 \<and>
    ae_active_mode e = [HumanGated, PolicyAutonomous, FullAutonomy] ! length ds \<and>
    (\<forall>d \<in> set ds. decision_variant d = Human) \<and>
    ae_autonomy_epoch e = ae_autonomy_epoch s + of_nat (length ds)"
proof -
  have "length ds \<le> 2 \<and> ae_active_mode e = [HumanGated, PolicyAutonomous, FullAutonomy] ! length ds \<and>
      (\<forall>d \<in> set ds. decision_variant d = Human) \<and>
      ae_autonomy_epoch e = ae_autonomy_epoch s + of_nat (length ds)"
    using assms
  proof induction
    case none_yet
    then show ?case by simp
  next
    case (activated ds previous r target store grants cx v)
    note parts = validate_activation_parts [OF activated.hyps(2)]
    from activated.IH activated.prems have ih: "length ds \<le> 2"
      "ae_active_mode previous = [HumanGated, PolicyAutonomous, FullAutonomy] ! length ds"
      "\<forall>d \<in> set ds. decision_variant d = Human"
      "ae_autonomy_epoch previous = ae_autonomy_epoch s + of_nat (length ds)" by blast+
    from ih(1) consider "length ds = 0" | "length ds = 1" | "length ds = 2" by linarith
    then show ?case
      using parts(1-3) ih unfolding activation_step_ok by cases auto
  qed
  then show ?thesis by simp
qed

end
