(* ===== verification/Autonomy_Witnesses.thy ===== *)
theory Autonomy_Witnesses
  imports Autonomy_Samples Autonomy_Properties
begin

text \<open>
  The properties of \<open>Autonomy_Properties\<close>, each applied to the sample world
  on the reference platform: a quorum of three of four seats, the capability it mints, a safety
  decision, an amended constitution, two records of the RED outbox and one activation.
\<close>

declare trims_empty.simps [simp del]

section \<open>The quorum's decision\<close>

lemma decision_digest_wellformed: "sha256_width E \<Longrightarrow> digest_syntax (compute_decision_digest E d)"
  unfolding compute_decision_digest_def by (rule digest_canonical_syntax)

definition aut_quorum_core :: "platform \<Rightarrow> quorum_authority_core" where
  "aut_quorum_core E = \<lparr>qa_binding = from_intent (aut_intent E) ''d'' True (Some (sr_verdict_digest (aut_green E))),
     qa_quorum = aut_evidence E, qa_evidence_rollout_rollback_digest = aut_hash\<rparr>"

definition aut_quorum :: "platform \<Rightarrow> quorum_authority" where
  "aut_quorum E = (let d = \<lparr>qu_schema = AUTHORITY_DECISION_SCHEMA, qu_core = aut_quorum_core E,
     qu_decision_digest = [], qu_owner_signature = ''sig''\<rparr> in
     d\<lparr>qu_decision_digest := compute_decision_digest E (QuorumDecision d)\<rparr>)"

lemma aut_quorum_fields:
  "qu_core (aut_quorum E) = aut_quorum_core E" "qu_schema (aut_quorum E) = AUTHORITY_DECISION_SCHEMA"
  "qu_owner_signature (aut_quorum E) = ''sig''"
  "qu_decision_digest (aut_quorum E) = compute_decision_digest E (QuorumDecision (aut_quorum E))"
  by (simp_all add: aut_quorum_def Let_def compute_decision_digest_def)

lemma aut_quorum_valid:
  assumes "sha256_width E" and "25 \<le> now" "now < 400"
  shows "\<exists>v. validate_positive_decision E (QuorumDecision (aut_quorum E)) (aut_intent E)
    (aut_constitution E) (aut_kernel E) (Some (aut_green E)) now = Inr v"
proof -
  have now: "20 \<le> now" "now < 500"
    using assms(2,3) order_trans [of 20 25 now] less_trans [of now 400 500] by simp_all
  obtain v where v: "validate_canonical_core E (aut_intent E) now = Inr v"
    using aut_intent_canonical [OF assms(1) now] by blast
  obtain w where w: "validate_verdict E (aut_green E) (aut_intent E) (aut_kernel E) now = Inr w"
    using aut_green_valid [OF assms] by blast
  have core: "sc_required_authority_variant (aut_intent_core E) = AgentQuorum"
    "sc_active_mode (aut_intent_core E) = PolicyAutonomous"
    "sc_constitution_digest (aut_intent_core E) = ks_constitution_digest (aut_constitution E)"
    "sc_constitution_epoch (aut_intent_core E) = 0" by (simp_all add: aut_intent_core_def)
  have green: "nl_verdict (sr_core (aut_green E)) = Green" by (simp add: aut_green_fields aut_green_core_def)
  let ?b = "qa_binding (aut_quorum_core E)"
  have b: "?b = from_intent (aut_intent E) ''d'' True (Some (sr_verdict_digest (aut_green E)))"
    by (simp add: aut_quorum_core_def)
  have bind: "validate_decision_binding ?b (aut_intent E) AgentQuorum (Some (aut_green E)) = Inr ()"
    unfolding b using from_intent_accepted [of "aut_intent E" "''d''" True
        "Some (sr_verdict_digest (aut_green E))" "Some (aut_green E)"] green core
    by (simp add: aut_intent_fields(1) sentinel_binding_ok)
  have fields: "db_active_mode ?b = PolicyAutonomous"
    "db_constitution_digest ?b = ks_constitution_digest (aut_constitution E)" "db_constitution_epoch ?b = 0"
    unfolding b by (simp_all add: from_intent_def Let_def aut_intent_fields core)
  have rest: "qa_quorum (aut_quorum_core E) = aut_evidence E"
    "qa_evidence_rollout_rollback_digest (aut_quorum_core E) = aut_hash"
    "kc_constitution_epoch (aut_constitution_core E) = 0"
    by (simp_all add: aut_quorum_core_def aut_constitution_core_def)
  show ?thesis
    using decision_digest_wellformed [OF assms(1), of "QuorumDecision (aut_quorum E)"]
    by (simp add: validate_positive_decision_def v w aut_quorum_fields bind fields rest
        aut_evidence_valid [OF assms(1)] constitution_binding_check_def aut_constitution_fields(1))
qed

lemma quorum_decision_is_independent_witness:
  "3 \<le> card (set (map qv_verifier_principal_id
     (qe_votes (qa_quorum (qu_core (aut_quorum reference_platform))))))"
proof -
  obtain v where "validate_positive_decision reference_platform (QuorumDecision (aut_quorum reference_platform))
      (aut_intent reference_platform) (aut_constitution reference_platform) (aut_kernel reference_platform)
      (Some (aut_green reference_platform)) 30 = Inr v"
    using aut_quorum_valid [OF sha256_width_reference, of 30] by auto
  from quorum_decision_is_independent [OF this] show ?thesis by blast
qed

section \<open>The capability\<close>

definition aut_capability_core :: "platform \<Rightarrow> autonomy_capability_core" where
  "aut_capability_core E = (let i = aut_intent_core E in
     \<lparr>ap_capability_id = ''ca'', ap_intent_digest = si_intent_digest (aut_intent E),
     ap_intent_core_ref = si_intent_core_ref (aut_intent E),
     ap_intent_canonicalization_version = CANONICALIZATION_VERSION,
     ap_decision_digest = decision_digest (QuorumDecision (aut_quorum E)),
     ap_decision_policy_digest = ns_independence_spec_digest (aut_spec E 0),
     ap_required_authority_variant = sc_required_authority_variant i,
     ap_action_policy_registry_digest = sc_action_policy_registry_digest i,
     ap_classifier_decision_digest = sc_classifier_decision_digest i,
     ap_constitution_digest = sc_constitution_digest i,
     ap_constitution_epoch = sc_constitution_epoch i,
     ap_autonomy_epoch = sc_autonomy_epoch i, ap_organism_id = sc_organism_id i,
     ap_repo_id = sc_repo_id i, ap_issuer_subject_id = sc_issuer_subject_id i,
     ap_decision_subject_id = sc_decision_subject_id i,
     ap_caller_subject_id = sc_caller_subject_id i,
     ap_proposer_subject_id = sc_proposer_subject_id i,
     ap_executor_subject_id = sc_executor_subject_id i,
     ap_promotion_target_subject_id = sc_promotion_target_subject_id i,
     ap_ratification_target_subject_id = sc_ratification_target_subject_id i,
     ap_delegation_grant_digest = sc_delegation_grant_digest i, ap_audience = sc_audience i,
     ap_active_mode = sc_active_mode i, ap_activation_receipt_id = Some ''ar'',
     ap_grant_id = ''grant'', ap_grant_digest = ag_grant_digest (aut_grant E),
     ap_effective_tier = sc_effective_tier i, ap_action_class = sc_action_class i,
     ap_semantic_action_id = sc_semantic_action_id i, ap_risk_class = sc_risk_class i,
     ap_risk_scope_digest = sc_risk_scope_digest i,
     ap_sentinel_verdict_digest = Some (sr_verdict_digest (aut_green E)),
     ap_brain_id = sc_brain_id i, ap_mission_id = sc_mission_id i,
     ap_mission_head_id = sc_mission_head_id i, ap_block_id = sc_block_id i,
     ap_candidate_digest = sc_candidate_digest i,
     ap_promotion_subject_id = sc_promotion_subject_id i,
     ap_resource_environment_scope_digest = sc_resource_environment_scope_digest i,
     ap_requested_budget = sc_requested_budget i,
     ap_expected_store_epoch = sc_expected_store_epoch i,
     ap_expected_store_version = sc_expected_store_version i,
     ap_expected_boundary_version = sc_expected_boundary_version i,
     ap_expected_contract_version = sc_expected_contract_version i,
     ap_idempotency_key = ''id'', ap_payload_digest = sc_action_payload_digest i,
     ap_nonce = sc_nonce i, ap_issued_at = 26, ap_expires_at = 450\<rparr>)"

definition aut_capability :: "platform \<Rightarrow> autonomy_capability" where
  "aut_capability E = seal_capability E \<lparr>au_schema = AUTONOMY_CAPABILITY_SCHEMA, au_core = aut_capability_core E,
     au_capability_digest = [], au_owner_signature = ''sig''\<rparr>"

lemma aut_capability_fields:
  "au_core (aut_capability E) = aut_capability_core E" "au_schema (aut_capability E) = AUTONOMY_CAPABILITY_SCHEMA"
  "au_owner_signature (aut_capability E) = ''sig''"
  "au_capability_digest (aut_capability E) = compute_capability_digest E (aut_capability E)"
  by (simp_all add: aut_capability_def seal_capability_def compute_capability_digest_def)

lemma aut_capability_valid:
  assumes "sha256_width E"
  shows "\<exists>v. validate_autonomy_capability E (aut_capability E) (QuorumDecision (aut_quorum E))
    (aut_intent E) (aut_grant E) (aut_epoch E) (Some (aut_green E)) 30 = Inr v"
proof -
  let ?c = "aut_capability_core E" and ?d = "QuorumDecision (aut_quorum E)"
  obtain v where v: "validate_canonical_core E (aut_intent E) 30 = Inr v"
    using aut_intent_canonical [OF assms, of 30] by auto
  have g: "validate_grant_at E (aut_grant E) 30 = Inr ()" using aut_grant_valid [OF assms, of 30] by simp
  have q: "qe_independence_spec (qa_quorum (aut_quorum_core E)) = aut_spec E 0"
    "qa_binding (aut_quorum_core E) = from_intent (aut_intent E) ''d'' True (Some (sr_verdict_digest (aut_green E)))"
    by (simp_all add: aut_quorum_core_def aut_evidence_def)
  have binding: "capability_binding_check ?d (aut_intent E) = Inr ()"
    by (simp add: capability_binding_check_def aut_quorum_fields q)
  have decision: "capability_decision_check ?c ?d = Inr ()"
    using aut_spec_digest [OF assms, of 0]
    by (simp add: capability_decision_check_def aut_quorum_fields q)
      (simp add: aut_capability_core_def Let_def aut_spec_fields)
  have strings: "\<forall>(f, e, o') \<in> set (capability_strings ?c ?d (aut_intent E) (aut_grant E)). e = o'"
    by (simp add: capability_strings_def Let_def aut_intent_fields aut_grant_fields
        aut_capability_core_def aut_grant_core_def)
  have strings': "\<forall>p \<in> set (capability_strings ?c ?d (aut_intent E) (aut_grant E)).
      (case p of (f, e, o') \<Rightarrow> check (e = o') (BindingMismatch f)) = Inr ()"
    using strings by fastforce
  have fields: "\<not> capability_fields_differ ?c ?d (aut_intent E) (aut_epoch E)"
    by (simp add: capability_fields_differ_def Let_def aut_intent_fields)
      (simp add: aut_capability_core_def Let_def aut_epoch_def aut_intent_core_def)
  have sentinel: "capability_sentinel_check ?c (aut_intent E) (Some (aut_green E)) 30 = Inr ()"
    by (simp add: capability_sentinel_check_def Let_def aut_green_fields(1) aut_intent_fields)
      (simp add: aut_capability_core_def aut_green_core_def aut_intent_core_def Let_def)
  have plain: "\<not> trims_empty (ap_capability_id ?c)" "\<not> trims_empty (ap_organism_id ?c)"
    "\<not> trims_empty (ap_repo_id ?c)" "\<not> trims_empty (ap_issuer_subject_id ?c)"
    "\<not> trims_empty (ap_decision_subject_id ?c)" "\<not> trims_empty (ap_caller_subject_id ?c)"
    "\<not> trims_empty (ap_proposer_subject_id ?c)" "\<not> trims_empty (ap_audience ?c)"
    "\<not> trims_empty (ap_grant_id ?c)" "\<not> trims_empty (ap_action_class ?c)"
    "\<not> trims_empty (ap_semantic_action_id ?c)" "\<not> trims_empty (ap_brain_id ?c)"
    "\<not> trims_empty (ap_idempotency_key ?c)" "\<not> trims_empty (ap_nonce ?c)"
    "ap_semantic_action_id ?c = ''mission.land''" "ap_issued_at ?c = 26" "ap_expires_at ?c = 450"
    "ap_activation_receipt_id ?c = Some ''ar''"
    by (simp_all add: aut_capability_core_def Let_def aut_intent_core_def)
  have world: "\<not> ae_issuance_frozen (aut_epoch E)" "ae_safety_state (aut_epoch E) = Healthy"
    "ae_activation_receipt_id (aut_epoch E) = Some ''ar''" "sc_issued_at (aut_intent_core E) = 20"
    "sc_expires_at (aut_intent_core E) = 500"
    by (simp_all add: aut_epoch_def aut_intent_core_def)
  have d: "digest_syntax (compute_capability_digest E (aut_capability E))"
    by (rule capability_contract.compute_syntax [OF assms])
  show ?thesis
    unfolding validate_autonomy_capability_def Let_def aut_capability_fields aut_intent_fields(1)
    by (simp add: v g d binding decision strings' fields sentinel plain world aut_grant_binding)
qed

lemma capability_within_grant_witness:
  "unat (ap_requested_budget (au_core (aut_capability reference_platform))) +
     unat (be_consumed (gc_budget (ag_core (aut_grant reference_platform)))) \<le>
     unat (be_limit (gc_budget (ag_core (aut_grant reference_platform)))) \<and>
   ap_action_class (au_core (aut_capability reference_platform)) \<in> set (gc_action_classes (ag_core (aut_grant reference_platform))) \<and>
   ap_expires_at (au_core (aut_capability reference_platform)) \<le> sc_expires_at (si_core (aut_intent reference_platform)) \<and>
   30 < gc_expires_at (ag_core (aut_grant reference_platform))"
  using aut_capability_valid [OF sha256_width_reference] capability_within_grant by blast

lemma capability_pins_mandate_witness:
  "\<exists>v. validate_autonomy_capability reference_platform (aut_capability reference_platform) (QuorumDecision (aut_quorum reference_platform))
     (aut_intent reference_platform) (aut_grant reference_platform) (aut_epoch reference_platform) (Some (aut_green reference_platform)) 30 = Inr v"
proof -
  obtain v where v: "validate_autonomy_capability reference_platform (aut_capability reference_platform)
      (QuorumDecision (aut_quorum reference_platform)) (aut_intent reference_platform) (aut_grant reference_platform)
      (aut_epoch reference_platform) (Some (aut_green reference_platform)) 30 = Inr v"
    using aut_capability_valid [OF sha256_width_reference] by blast
  from capability_pins_mandate [OF serde_writer_reference v v refl] v show ?thesis by blast
qed

section \<open>A RED incident\<close>

text \<open>The decision only binds the records it names; its validator reads no more of them than this.\<close>

definition aut_red_core :: "platform \<Rightarrow> sentinel_core" where
  "aut_red_core E = \<lparr>nl_verdict_id = ''ve'', nl_sentinel_identity_key_binary_policy_digest = aut_hash,
     nl_intent_digest = si_intent_digest (aut_intent E),
     nl_intent_core_ref = si_intent_core_ref (aut_intent E),
     nl_intent_canonicalization_version = CANONICALIZATION_VERSION,
     nl_metric_evidence_rollback_digest = aut_hash, nl_risk_scope_digest = aut_hash,
     nl_constitution_epoch = 0, nl_autonomy_epoch = 1, nl_nonce = ''no'', nl_issued_at = 25,
     nl_expires_at = 400, nl_verdict = Red\<rparr>"

definition aut_red :: "platform \<Rightarrow> sentinel_record" where
  "aut_red E = seal_verdict E \<lparr>sr_schema = SENTINEL_VERDICT_SCHEMA, sr_core = aut_red_core E,
     sr_verdict_digest = [], sr_signature = ''sig''\<rparr>"

definition aut_latch_core :: "platform \<Rightarrow> red_latch_core" where
  "aut_latch_core E = \<lparr>lc_latch_receipt_id = ''la'', lc_red_verdict_digest = sr_verdict_digest (aut_red E),
     lc_source_intent_digest = si_intent_digest (aut_intent E),
     lc_sentinel_outbox_epoch = 1, lc_sentinel_outbox_root_digest = aut_hash,
     lc_latched_at = 0, lc_protected_time_evidence_digest = aut_hash,
     lc_constitution_epoch = 0, lc_autonomy_epoch = 1, lc_latch_epoch = 1,
     lc_exact_affected_scope_digest = aut_hash,
     lc_allowed_negative_actions_digest = aut_hash,
     lc_rollback_candidate_plan_digest = aut_hash,
     lc_immutable_negative_mandate_digest = aut_hash, lc_committing_transaction_id = None,
     lc_commit_marker_digest = None, lc_terminal_safety_transaction_id = None,
     lc_state = LatchPending\<rparr>"

definition aut_latch :: "platform \<Rightarrow> red_latch" where
  "aut_latch E = seal_latch E \<lparr>rl_schema = RED_LATCH_RECEIPT_SCHEMA, rl_core = aut_latch_core E,
     rl_latch_receipt_digest = [], rl_owner_kernel_signature = ''sig''\<rparr>"

definition aut_safety_core :: "platform \<Rightarrow> safety_intent_core" where
  "aut_safety_core E = \<lparr>fc_safety_attempt_id = ''sa'', fc_attempt_sequence = 1,
     fc_rebased_from_attempt_digest = None,
     fc_source_intent_digest = si_intent_digest (aut_intent E),
     fc_source_intent_core_ref = si_intent_core_ref (aut_intent E),
     fc_sentinel_red_verdict_digest = sr_verdict_digest (aut_red E),
     fc_red_latch_receipt_digest = rl_latch_receipt_digest (aut_latch E),
     fc_actuator_identity_key_binary_policy_digest = aut_hash,
     fc_expected_constitution_epoch = 0, fc_expected_autonomy_epoch = 1,
     fc_affected_grants_scope_digest = aut_hash,
     fc_negative_effects = canonical_negative_effects,
     fc_allowed_negative_actions_digest = aut_hash,
     fc_rollback_candidate_plan_digest = aut_hash, fc_nonce = ''no'',
     fc_attempt_idempotency_key = ''at'', fc_issued_at = 0,
     fc_valid_while_latch_pending = True\<rparr>"

definition aut_safety :: "platform \<Rightarrow> safety_intent" where
  "aut_safety E = seal_safety_intent E \<lparr>sf_schema = SAFETY_ACTION_INTENT_SCHEMA, sf_core = aut_safety_core E,
     sf_safety_intent_digest = [], sf_safety_intent_core_ref = for_safety_digest []\<rparr>"

definition aut_actuator_core :: "platform \<Rightarrow> safety_capability_core" where
  "aut_actuator_core E = \<lparr>yc_capability_id = ''ca'',
     yc_safety_intent_digest = sf_safety_intent_digest (aut_safety E),
     yc_safety_intent_core_ref = sf_safety_intent_core_ref (aut_safety E),
     yc_safety_attempt_id = ''sa'', yc_source_intent_digest = aut_hash,
     yc_sentinel_red_verdict_digest = sr_verdict_digest (aut_red E),
     yc_red_latch_receipt_digest = rl_latch_receipt_digest (aut_latch E),
     yc_actuator_identity_key_binary_policy_digest = aut_hash,
     yc_expected_constitution_epoch = 0, yc_expected_autonomy_epoch = 1,
     yc_affected_grants_scope_digest = aut_hash,
     yc_negative_effects = canonical_negative_effects,
     yc_allowed_negative_actions_digest = aut_hash,
     yc_rollback_candidate_plan_digest = aut_hash, yc_nonce = ''no'',
     yc_idempotency_key = ''id'', yc_issued_at = 0, yc_expires_at = 400\<rparr>"

definition aut_actuator :: "platform \<Rightarrow> safety_capability" where
  "aut_actuator E = seal_safety_capability E \<lparr>sy_schema = SAFETY_CAPABILITY_SCHEMA, sy_core = aut_actuator_core E,
     sy_capability_digest = [], sy_actuator_signature = ''sig''\<rparr>"

definition aut_stop_core :: "platform \<Rightarrow> safety_authority_core" where
  "aut_stop_core E = \<lparr>ya_decision_id = ''d'',
     ya_safety_intent_digest = sf_safety_intent_digest (aut_safety E),
     ya_safety_intent_core_ref = sf_safety_intent_core_ref (aut_safety E),
     ya_safety_capability_digest = sy_capability_digest (aut_actuator E),
     ya_sentinel_red_verdict_digest = sr_verdict_digest (aut_red E),
     ya_red_latch_receipt_digest = rl_latch_receipt_digest (aut_latch E),
     ya_negative_effects = canonical_negative_effects,
     ya_positive_authority_decision_forbidden = True, ya_issuer_subject_id = ''k''\<rparr>"

definition aut_stop :: "platform \<Rightarrow> safety_authority" where
  "aut_stop E = (let d = \<lparr>yu_schema = AUTHORITY_DECISION_SCHEMA, yu_core = aut_stop_core E,
     yu_decision_digest = [], yu_safety_kernel_signature = ''sig''\<rparr> in
     d\<lparr>yu_decision_digest := compute_decision_digest E (SafetyDecision d)\<rparr>)"

lemma aut_stop_valid:
  assumes "sha256_width E"
  shows "\<exists>v. validate_safety_authority E (SafetyDecision (aut_stop E)) (aut_safety E) (aut_actuator E)
    (aut_latch E) (aut_kernel E) = Inr v"
proof -
  have core: "yu_core (aut_stop E) = aut_stop_core E" "yu_schema (aut_stop E) = AUTHORITY_DECISION_SCHEMA"
    "yu_safety_kernel_signature (aut_stop E) = ''sig''"
    "yu_decision_digest (aut_stop E) = compute_decision_digest E (SafetyDecision (aut_stop E))"
    by (simp_all add: aut_stop_def Let_def compute_decision_digest_def)
  have "digest_syntax (sf_safety_intent_digest (aut_safety E))"
    unfolding aut_safety_def safety_contract.seal_valid(1) [OF assms] by (rule safety_contract.compute_syntax [OF assms])
  moreover have "digest_syntax (sy_capability_digest (aut_actuator E))"
    "digest_syntax (sr_verdict_digest (aut_red E))" "digest_syntax (rl_latch_receipt_digest (aut_latch E))"
    unfolding aut_actuator_def aut_red_def aut_latch_def seal_safety_capability_def seal_verdict_def seal_latch_def
    by (simp_all add: safety_capability_contract.compute_syntax verdict_contract.compute_syntax
        latch_contract.compute_syntax assms)
  moreover have "sf_core (aut_safety E) = aut_safety_core E"
    unfolding aut_safety_def seal_safety_intent_def by (simp add: Let_def)
  moreover have "\<forall>e \<in> canonical_negative_effects. is_negative_safety e" "canonical_negative_effects \<noteq> {}"
    by (simp_all add: canonical_negative_effects_def is_negative_safety_def)
  then have "validate_safety_effects E canonical_negative_effects (aut_kernel E) = Inr ()"
    by (simp add: validate_safety_effects_def compute_safety_effects_digest_def aut_kernel_core_def)
  ultimately show ?thesis
    using decision_digest_wellformed [OF assms, of "SafetyDecision (aut_stop E)"]
    by (simp add: validate_safety_decision_def Let_def core)
      (simp add: aut_stop_core_def aut_safety_core_def)
qed

lemma safety_decision_is_negative_only_witness:
  "\<nexists>w. validate_positive_decision reference_platform (SafetyDecision (aut_stop reference_platform))
     (aut_intent reference_platform) (aut_constitution reference_platform) (aut_kernel reference_platform)
     (Some (aut_green reference_platform)) 30 = Inr w"
  using aut_stop_valid [OF sha256_width_reference] safety_decision_is_negative_only by blast

section \<open>Histories\<close>

lemma amendments_keep_floors_witness:
  "unat (kc_constitution_epoch (ks_core (aut_constitution2 reference_platform))) = Suc 0"
proof -
  obtain v where "validate_constitution reference_platform (aut_constitution reference_platform)
      (aut_spec reference_platform 0) (aut_kernel reference_platform) 20 = Inr v"
    using aut_constitution_valid [OF sha256_width_reference, of 20] by auto
  then have start: "governed reference_platform (aut_kernel reference_platform) 0 (aut_constitution reference_platform)"
    by (rule bootstrap) (simp add: aut_constitution_fields aut_constitution_core_def)
  obtain w where "validate_amendment reference_platform (aut_amendment reference_platform)
      (aut_constitution reference_platform) (aut_constitution2 reference_platform)
      (aut_spec reference_platform 1) (aut_kernel reference_platform) 60 = Inr w"
    using aut_amendment_valid [OF sha256_width_reference, of 60] by auto
  from amendments_keep_floors [OF amended [OF start this]] show ?thesis by blast
qed

definition aut_first_core :: "platform \<Rightarrow> red_outbox_core" where
  "aut_first_core E = \<lparr>xc_red_verdict_digest = sr_verdict_digest (aut_red E),
     xc_source_intent_digest = si_intent_digest (aut_intent E), xc_outbox_epoch = 1,
     xc_previous_outbox_root_digest = None, xc_signed_outbox_root_digest = aut_hash,
     xc_protected_latest_outbox_epoch = 2, xc_delivery_attempt = 1,
     xc_journal_latch_ack = False, xc_actuator_ack = False,
     xc_terminal_safety_transaction_id = None, xc_state = OutboxPending\<rparr>"

definition aut_first :: "platform \<Rightarrow> red_outbox" where
  "aut_first E = seal_outbox E \<lparr>xb_schema = SENTINEL_RED_OUTBOX_SCHEMA, xb_core = aut_first_core E,
     xb_record_digest = [], xb_root_signature = ''sig''\<rparr>"

lemma aut_first_fields:
  "xb_core (aut_first E) = aut_first_core E" "xb_schema (aut_first E) = SENTINEL_RED_OUTBOX_SCHEMA"
  "xb_root_signature (aut_first E) = ''sig''" "xb_record_digest (aut_first E) = compute_outbox_digest E (aut_first E)"
  by (simp_all add: aut_first_def seal_outbox_def compute_outbox_digest_def)

lemma aut_first_digest: "sha256_width E \<Longrightarrow> digest_syntax (compute_outbox_digest E (aut_first E))"
  by (rule outbox_contract.compute_syntax)

definition aut_second_core :: "platform \<Rightarrow> red_outbox_core" where
  "aut_second_core E = \<lparr>xc_red_verdict_digest = sr_verdict_digest (aut_red E),
     xc_source_intent_digest = si_intent_digest (aut_intent E), xc_outbox_epoch = 2,
     xc_previous_outbox_root_digest = Some aut_hash,
     xc_signed_outbox_root_digest = aut_hash, xc_protected_latest_outbox_epoch = 2,
     xc_delivery_attempt = 1, xc_journal_latch_ack = False, xc_actuator_ack = False,
     xc_terminal_safety_transaction_id = None, xc_state = OutboxPending\<rparr>"

definition aut_second :: "platform \<Rightarrow> red_outbox" where
  "aut_second E = seal_outbox E \<lparr>xb_schema = SENTINEL_RED_OUTBOX_SCHEMA, xb_core = aut_second_core E,
     xb_record_digest = [], xb_root_signature = ''sig''\<rparr>"

lemma aut_second_fields:
  "xb_core (aut_second E) = aut_second_core E" "xb_schema (aut_second E) = SENTINEL_RED_OUTBOX_SCHEMA"
  "xb_root_signature (aut_second E) = ''sig''" "xb_record_digest (aut_second E) = compute_outbox_digest E (aut_second E)"
  by (simp_all add: aut_second_def seal_outbox_def compute_outbox_digest_def)

lemma aut_second_digest: "sha256_width E \<Longrightarrow> digest_syntax (compute_outbox_digest E (aut_second E))"
  by (rule outbox_contract.compute_syntax)

lemma aut_red_parts:
  assumes "sha256_width E"
  shows "nl_verdict (sr_core (aut_red E)) = Red" "digest_syntax (sr_verdict_digest (aut_red E))"
  unfolding aut_red_def seal_verdict_def
  by (simp_all add: verdict_contract.compute_syntax assms aut_red_core_def)

lemma outbox_gapless_witness:
  "map (\<lambda>x. unat (xc_outbox_epoch (xb_core x))) (rev [aut_second reference_platform, aut_first reference_platform]) =
   [1..<Suc (length [aut_second reference_platform, aut_first reference_platform])]"
proof -
  let ?E = reference_platform
  note facts = aut_red_parts [OF sha256_width_reference] aut_intent_digest(1) [OF sha256_width_reference]
    aut_first_digest [OF sha256_width_reference] aut_second_digest [OF sha256_width_reference]
  have "\<exists>v. validate_outbox ?E (aut_first ?E) (aut_red ?E) (aut_intent ?E) None = Inr v"
    using facts by (simp add: validate_outbox_def Let_def aut_first_fields outbox_chain_check_def
        validate_red_outbox_state_def red_outbox_state_valid_def) (simp add: aut_first_core_def)
  then have "outbox_log ?E [aut_first ?E]" using first_record by blast
  moreover have "\<exists>v. validate_outbox ?E (aut_second ?E) (aut_red ?E) (aut_intent ?E) (Some (aut_first ?E)) = Inr v"
    using facts by (simp add: validate_outbox_def Let_def aut_first_fields aut_second_fields outbox_chain_check_def
        validate_red_outbox_state_def red_outbox_state_valid_def) (simp add: aut_first_core_def aut_second_core_def)
  ultimately have "outbox_log ?E [aut_second ?E, aut_first ?E]" using next_record by blast
  from outbox_gapless [OF this] show ?thesis by blast
qed

section \<open>Activation\<close>

text \<open>The bootstrap epoch, and the epoch its first activation leads to.\<close>

definition aut_gated :: "platform \<Rightarrow> autonomy_epoch" where
  "aut_gated E = (aut_epoch E)\<lparr>ae_autonomy_epoch := 0, ae_active_mode := HumanGated,
     ae_activation_receipt_id := None\<rparr>"

definition aut_receipt_core :: "platform \<Rightarrow> activation_core" where
  "aut_receipt_core E = \<lparr>tc_receipt_id = [],
     tc_previous_mode_epoch_digest = compute_epoch_reference_digest E (aut_gated E),
     tc_previous_mode = HumanGated, tc_previous_constitution_epoch = 0,
     tc_previous_autonomy_epoch = 0, tc_previous_activation_receipt_id = None,
     tc_target_constitution_digest = ks_constitution_digest (aut_constitution E),
     tc_target_constitution_epoch = 0, tc_activated_autonomy_epoch = 1,
     tc_activated_mode = PolicyAutonomous,
     tc_grants_digest = ae_grants_digest (aut_epoch E),
     tc_release_candidate_digest = aut_hash, tc_gate_receipts_digest = aut_hash,
     tc_g9_canary_receipts_digest = aut_hash, tc_authority_decision_digest = aut_hash,
     tc_prior_authority_variant = Human, tc_custody_floor = SECURE_ENCLAVE_CUSTODY_FLOOR_V1,
     tc_rollback_plan_digest = aut_hash, tc_activates_at = 15, tc_issuer_subject_id = ''k''\<rparr>"

definition aut_receipt :: "platform \<Rightarrow> activation_receipt" where
  "aut_receipt E = seal_activation E \<lparr>at_schema = AUTONOMY_ACTIVATION_RECEIPT_SCHEMA,
     at_core = aut_receipt_core E, at_receipt_digest = [], at_signature = ''sig''\<rparr>"

definition aut_active :: "platform \<Rightarrow> autonomy_epoch" where
  "aut_active E = (aut_epoch E)\<lparr>ae_activation_receipt_id := Some (tc_receipt_id (at_core (aut_receipt E)))\<rparr>"

definition aut_owner :: "platform \<Rightarrow> human_authority" where
  "aut_owner E = \<lparr>hu_schema = AUTHORITY_DECISION_SCHEMA,
     hu_core = \<lparr>hc_binding = from_intent (aut_intent E) ''d'' False None, hc_human_approval_digest = aut_hash,
       hc_human_decision_digest = aut_hash, hc_human_key_id = ''k''\<rparr>,
     hu_decision_digest = aut_hash, hu_owner_signature = ''sig''\<rparr>"

lemma aut_receipt_fields:
  "at_core (aut_receipt E) = (aut_receipt_core E)\<lparr>tc_receipt_id :=
     ''autonomy-activation:'' @ compute_activation_digest E (aut_receipt E)\<rparr>"
  "at_schema (aut_receipt E) = AUTONOMY_ACTIVATION_RECEIPT_SCHEMA" "at_signature (aut_receipt E) = ''sig''"
  "at_receipt_digest (aut_receipt E) = compute_activation_digest E (aut_receipt E)"
  by (simp_all add: aut_receipt_def seal_activation_def compute_activation_digest_def Let_def)

lemma aut_active_valid:
  assumes "sha256_width E"
  shows "validate_common E (aut_active E) (aut_constitution E) [aut_grant E] 30 = Inr ()"
  using aut_epoch_valid [OF assms, of 30] unfolding aut_active_def aut_receipt_fields(1)
  by (simp add: validate_common_def Let_def epoch_grant_checks_def safety_state_check_def split: if_splits)

lemma aut_receipt_valid:
  assumes "sha256_width E"
  shows "\<exists>v. validate_activation E (aut_receipt E) (aut_gated E) (aut_active E) (aut_constitution E)
    [aut_grant E] \<lparr>ax_exact_release_candidate_digest = aut_hash,
      ax_authority_decision = HumanDecision (aut_owner E), ax_now_ms = 30\<rparr> = Inr v"
proof -
  let ?x = "\<lparr>ax_exact_release_candidate_digest = aut_hash,
      ax_authority_decision = HumanDecision (aut_owner E), ax_now_ms = 30\<rparr>"
  have d: "digest_syntax (compute_activation_digest E (aut_receipt E))"
    by (rule activation_contract.compute_syntax [OF assms])
  have g: "digest_syntax (ae_grants_digest (aut_epoch E))" "digest_syntax (compute_epoch_reference_digest E (aut_gated E))"
    by (simp_all add: aut_epoch_def compute_epoch_reference_digest_def digest_canonical_syntax [OF assms])
  have kc: "kc_constitution_epoch (aut_constitution_core E) = 0" by (simp add: aut_constitution_core_def)
  have previous: "\<not> activation_previous_differs (at_core (aut_receipt E)) (aut_gated E)"
    by (simp add: activation_previous_differs_def aut_receipt_fields)
      (simp add: aut_receipt_core_def aut_gated_def aut_epoch_def)
  have target: "\<not> activation_target_differs (at_core (aut_receipt E)) (aut_gated E) (aut_active E) (aut_constitution E)"
    by (simp add: activation_target_differs_def aut_active_def aut_receipt_fields aut_constitution_fields(1) kc)
      (simp add: aut_receipt_core_def aut_gated_def aut_epoch_def)
  have modes: "ae_active_mode (aut_gated E) = HumanGated" "ae_active_mode (aut_active E) = PolicyAutonomous"
    by (simp_all add: aut_gated_def aut_active_def aut_epoch_def)
  have "\<forall>c \<in> set (activation_head_checks E (aut_receipt E) (aut_gated E) (aut_constitution E) ?x). c = Inr ()"
    using g aut_constitution_digest [OF assms]
    by (simp add: activation_head_checks_def Let_def aut_receipt_fields)
      (simp add: aut_receipt_core_def is_ratified_custody_floor_def RATIFIED_CUSTODY_FLOORS_def
        SECURE_ENCLAVE_CUSTODY_FLOOR_V1_def)
  moreover have "\<forall>c \<in> set (activation_tail_checks E (aut_receipt E) (aut_gated E) (aut_active E)
      (aut_constitution E) [aut_grant E] ?x (ae_grants_digest (aut_epoch E))). c = Inr ()"
    using g d aut_active_valid [OF assms]
    by (simp add: activation_tail_checks_def Let_def previous target modes aut_receipt_fields(2-4))
      (simp add: aut_receipt_fields(1) aut_receipt_core_def aut_owner_def)
  ultimately show ?thesis
    using aut_grants_digest [OF assms] by (simp add: validate_activation_def)
qed

lemma activation_ladder_witness:
  "ae_active_mode (aut_active reference_platform) =
     [HumanGated, PolicyAutonomous, FullAutonomy] ! length [HumanDecision (aut_owner reference_platform)]"
proof -
  let ?E = reference_platform
  obtain v where v: "validate_activation ?E (aut_receipt ?E) (aut_gated ?E) (aut_active ?E) (aut_constitution ?E)
    [aut_grant ?E] \<lparr>ax_exact_release_candidate_digest = aut_hash,
      ax_authority_decision = HumanDecision (aut_owner ?E), ax_now_ms = 30\<rparr> = Inr v"
    using aut_receipt_valid [OF sha256_width_reference] by blast
  have "activations ?E (aut_gated ?E) [HumanDecision (aut_owner ?E)] (aut_active ?E)"
    using activated [OF none_yet v] by simp
  moreover have "ae_active_mode (aut_gated ?E) = HumanGated" by (simp add: aut_gated_def)
  ultimately show ?thesis using activation_ladder by blast
qed

end
