(* ===== verification/Runtime_Samples.thy ===== *)
theory Runtime_Samples
  imports Runtime_Sample_Platform Runtime_Properties Autonomy_Witnesses
begin

text \<open>
  Stores to apply the properties of the runtime to: the environment of the source's own tests (the
  shared backend, a verifier that accepts), parsers that invert the writer, and a state built from
  the sample world of \<open>Autonomy_Samples\<close>, committed to an empty disk and opened again.
\<close>

declare trims_empty.simps [simp del] trims_empty_ascii [simp] white1_def [simp]

section \<open>Environment\<close>

text \<open>The verifier accepts every signature, but epochs only in the given bytes.\<close>

definition sample_verifier :: "bytes set \<Rightarrow> artifact_verifier" where
  "sample_verifier epochs = \<lparr>av_assurance = SoftwareTestOnlyNotProduction,
     av_verify = (\<lambda>q. if vq_kind q = KindAutonomyEpoch \<and> vq_canonical_bytes q \<notin> epochs
       then Err ''unsigned epoch'' else Ok ())\<rparr>"

definition sample_parse :: "sovereign_intent \<Rightarrow> bytes \<Rightarrow> string + sovereign_intent" where
  "sample_parse i bs =
     (if bs = canonical_json tail_platform (json_of_sovereign_intent i) then Ok i else Err ''not the sample intent'')"

definition sample_env :: "bytes set \<Rightarrow> sovereign_intent \<Rightarrow> shared_backend runtime_env" where
  "sample_env epochs i = \<lparr>ve_platform = tail_platform, ve_verifier = sample_verifier epochs,
     ve_backend = shared_protected_backend,
     ve_parse_record = inverse_parse_journal tail_platform,
     ve_parse_sovereign = sample_parse i, ve_parse_safety = (\<lambda>bs. Err ''no safety intent'')\<rparr>"

definition sample_config :: runtime_config where
  "sample_config = (software_test_only ''autonomy'' ''dd'' ''or'' ''re'' ''br'')\<lparr>fg_max_intent_bytes := - 1\<rparr>"

lemma sample_env_fields [simp]:
  "ve_platform (sample_env X i) = tail_platform" "ve_verifier (sample_env X i) = sample_verifier X"
  "ve_backend (sample_env X i) = shared_protected_backend" "ve_parse_sovereign (sample_env X i) = sample_parse i"
  by (simp_all add: sample_env_def)

lemma sample_config_fields [simp]:
  "fg_durability_domain_id sample_config = ''dd''" "fg_organism_id sample_config = ''or''"
  "fg_repo_id sample_config = ''re''" "fg_brain_id sample_config = ''br''"
  "fg_required_assurance sample_config = SoftwareTestOnlyNotProduction" "fg_max_intent_bytes sample_config = - 1"
  by (simp_all add: sample_config_def software_test_only_def)

lemma sample_parses [simp]: "parses_journal (sample_env X i)"
  by (rule parses_journal_inverse) (simp_all add: sample_env_def serde_writer_tail)

lemma sample_config_open: "\<forall>c \<in> set (open_config_checks (sample_env X i) sample_config). c = Inr ()"
  by (simp add: open_config_checks_def ensure_assurance_def sample_verifier_def shared_protected_backend_def)

lemmas sample_ready = serde_writer_tail sample_parses shared_root.protected_root_backend_axioms
  shared_obliging.obliging_backend_axioms sha256_width_tail

section \<open>Signatures\<close>

lemma sample_artifact:
  assumes "digest_syntax d" "\<not> trims_empty subject" "signature \<noteq> []" "\<forall>p. policy = Some p \<longrightarrow> digest_syntax p"
    and "kind = KindAutonomyEpoch \<longrightarrow> canonical_json E artifact \<in> X"
  shows "verify_artifact E (sample_verifier X) kind d subject signature artifact policy now = Inr ()"
  using assms by (cases policy)
    (auto simp: verify_artifact_def rt_require_digest_def rt_require_non_empty_def sample_verifier_def)

section \<open>Intents\<close>

definition sample_entry :: "sovereign_intent \<Rightarrow> intent_entry" where
  "sample_entry i = (let bs = canonical_json tail_platform (json_of_sovereign_intent i) in
     \<lparr>ie_schema = INTENT_CORE_ENTRY_SCHEMA, ie_intent_digest = si_intent_digest i,
      ie_content_address = ir_content_address (si_intent_core_ref i),
      ie_canonicalization_version = CANONICALIZATION_VERSION, ie_kind = StoredSovereign,
      ie_canonical_bytes_digest = digest_domain_bytes tail_platform INTENT_OBJECT_DIGEST_DOMAIN bs,
      ie_byte_len = of_nat (length bs)\<rparr>)"

definition sample_index :: "sovereign_intent \<Rightarrow> (string, intent_entry) fmap" where
  "sample_index i = fmupd (si_intent_digest i) (sample_entry i) fmempty"

definition sample_objects :: "sovereign_intent \<Rightarrow> string \<Rightarrow> bytes option" where
  "sample_objects i d = (if d = si_intent_digest i then Some (canonical_json tail_platform (json_of_sovereign_intent i)) else None)"

lemma sorted_single [simp]: "sorted_list_of_fmap (fmupd k v fmempty) = [(k, v)]"
  by (simp add: sorted_list_of_fmap_def sorted_list_of_fset.rep_eq)

lemma sorted_none [simp]: "sorted_list_of_fmap fmempty = []"
  by (simp add: sorted_list_of_fmap_def sorted_list_of_fset.rep_eq)

lemma map_values_none [simp]: "map_values fmempty = []"
  by (simp add: map_values_def)

text \<open>A store that presents the sample intent can resolve it while it is live.\<close>

definition presents :: "sovereign_intent \<Rightarrow> 'b runtime_store \<Rightarrow> runtime_state \<Rightarrow> bool" where
  "presents i s t \<longleftrightarrow> sx_config s = sample_config \<and> sx_objects s = sample_objects i \<and> sx_state s = Some t \<and>
     rs_intent_index t = sample_index i \<and> digest_syntax (si_intent_digest i)"

lemma sample_resolves:
  assumes "presents i s t" and "validate_canonical_core tail_platform i now = Inr v"
  shows "resolve_sovereign_intent (sample_env X i) s (si_intent_digest i) now = Inr i"
proof -
  have "resolve_intent_bytes (sample_env X i) s (si_intent_digest i) StoredSovereign =
      Inr (canonical_json tail_platform (json_of_sovereign_intent i))"
    using assms(1) word_order.extremum [of "of_nat (length (canonical_json tail_platform (json_of_sovereign_intent i))) :: u64"]
    by (simp add: resolve_intent_bytes_def current_state_def presents_def sample_index_def sample_entry_def Let_def
        rt_require_digest_def read_limited_def sample_objects_def not_less)
  with assms(2) show ?thesis
    by (simp add: resolve_sovereign_intent_def sample_parse_def rt_contract_def)
qed

lemma sample_intents_verified:
  assumes "presents i s t" and "validate_canonical_core tail_platform i now = Inr v"
  shows "verify_all_intent_objects (sample_env X i) s t now = Inr ()"
proof -
  have "sorted_list_of_fmap (rs_intent_index t) = [(si_intent_digest i, sample_entry i)]"
    using assms(1) by (simp add: presents_def sample_index_def)
  moreover have "ie_kind (sample_entry i) = StoredSovereign" by (simp add: sample_entry_def Let_def)
  ultimately show ?thesis using sample_resolves [OF assms] by (simp add: verify_all_intent_objects_def)
qed

section \<open>States\<close>

text \<open>A state over the sample kernel and constitution, without a RED in its past.\<close>

definition sample_state ::
  "autonomy_epoch \<Rightarrow> autonomy_grant list \<Rightarrow> (string, activation_receipt) fmap \<Rightarrow>
   (string, tier_evidence list) fmap \<Rightarrow> sovereign_intent \<Rightarrow> runtime_state" where
  "sample_state ep grants receipts lanes i = seal_state tail_platform
     \<lparr>rs_schema = AUTONOMY_RUNTIME_STATE_SCHEMA, rs_durability_domain_id = ''dd'', rs_generation = 1,
      rs_kernel = aut_kernel tail_platform, rs_independence_spec = aut_spec tail_platform 0,
      rs_constitution = aut_constitution tail_platform, rs_autonomy_epoch = ep, rs_active_grants = grants,
      rs_activation_receipts = receipts, rs_recovery_receipts = fmempty, rs_tier_evidence = lanes,
      rs_intent_index = sample_index i, rs_intent_store_root_digest = [],
      rs_consumed_capability_digests = {||}, rs_sentinel_outbox_tail = None, rs_last_red_latch_epoch = 0,
      rs_terminal_red_latches = fmempty, rs_last_valid_mode_before_freeze = None, rs_pending_red = None,
      rs_state_digest = []\<rparr>"

text \<open>What all states of the samples have in common.\<close>

definition sample_based :: "sovereign_intent \<Rightarrow> runtime_state \<Rightarrow> bool" where
  "sample_based i t \<longleftrightarrow> rs_schema t = AUTONOMY_RUNTIME_STATE_SCHEMA \<and> rs_durability_domain_id t = ''dd'' \<and>
     rs_kernel t = aut_kernel tail_platform \<and> rs_independence_spec t = aut_spec tail_platform 0 \<and>
     rs_constitution t = aut_constitution tail_platform \<and> rs_recovery_receipts t = fmempty \<and>
     rs_intent_index t = sample_index i \<and> rs_last_red_latch_epoch t = 0 \<and> rs_terminal_red_latches t = fmempty \<and>
     rs_last_valid_mode_before_freeze t = None"

lemma seal_sample_fields [simp]:
  "rs_schema (seal_state E t) = rs_schema t" "rs_independence_spec (seal_state E t) = rs_independence_spec t"
  by (simp_all add: seal_state_def Let_def)

lemma seal_checks [simp]:
  "lineage_check (seal_state E t) = lineage_check t" "pending_red_check (seal_state E t) n = pending_red_check t n"
  "frozen_mode_check (seal_state E t) = frozen_mode_check t"
  by (simp_all add: lineage_check_def lineage_recognised_def pending_red_check_def frozen_mode_check_def
      latest_latch_retained_def Let_def cong: option.case_cong)

lemma sample_based_seal [simp]: "sample_based i (seal_state E t) = sample_based i t"
  by (simp add: sample_based_def)

lemma sample_state_fields [simp]:
  "sample_based i (sample_state ep grants receipts lanes i)"
  "rs_autonomy_epoch (sample_state ep grants receipts lanes i) = ep"
  "rs_active_grants (sample_state ep grants receipts lanes i) = grants"
  "rs_activation_receipts (sample_state ep grants receipts lanes i) = receipts"
  "rs_tier_evidence (sample_state ep grants receipts lanes i) = lanes"
  "rs_consumed_capability_digests (sample_state ep grants receipts lanes i) = {||}"
  "rs_pending_red (sample_state ep grants receipts lanes i) = None"
  "rs_sentinel_outbox_tail (sample_state ep grants receipts lanes i) = None"
  "rs_intent_index (sample_state ep grants receipts lanes i) = sample_index i"
  "seal_state tail_platform (sample_state ep grants receipts lanes i) = sample_state ep grants receipts lanes i"
  by (simp_all add: sample_state_def sample_based_def)

lemma sample_state_valid:
  assumes t: "sample_based i t" and i: "digest_syntax (si_intent_digest i)" and now: "10 \<le> now" "now < 1000"
    and ep: "validate_common tail_platform (rs_autonomy_epoch t) (aut_constitution tail_platform) (rs_active_grants t) now = Inr ()"
      "ae_safety_state (rs_autonomy_epoch t) \<noteq> Frozen" "lineage_check t = Inr ()"
    and lanes: "\<forall>kv \<in> set (sorted_list_of_fmap (rs_tier_evidence t)). \<forall>c \<in> set (lane_checks tail_platform kv). c = Inr ()"
    and receipts: "\<forall>kv \<in> set (sorted_list_of_fmap (rs_activation_receipts t)). activation_entry_check kv = Inr ()"
    and red: "pending_red_check t 0 = Inr 0"
  shows "validate_state tail_platform sample_config (seal_state tail_platform t) now = Inr ()"
proof -
  let ?E = tail_platform and ?t = "seal_state tail_platform t"
  obtain v where k: "validate_kernel ?E (aut_kernel ?E) = Inr v" using aut_kernel_valid [OF sha256_width_tail] by blast
  obtain w where c: "validate_constitution ?E (aut_constitution ?E) (aut_spec ?E 0) (aut_kernel ?E) now = Inr w"
    using aut_constitution_valid [OF sha256_width_tail now] by blast
  have d: "digest_syntax (digest_domain_bytes ?E x bs)" for x bs
    by (rule digest_domain_bytes_syntax [OF sha256_width_tail])
  have "\<forall>c \<in> set (intent_entry_checks (si_intent_digest i, sample_entry i)). c = Inr ()"
    using i d by (simp add: intent_entry_checks_def sample_entry_def Let_def rt_require_digest_def)
  then have entries: "\<forall>kv \<in> set (sorted_list_of_fmap (sample_index i)). \<forall>c \<in> set (intent_entry_checks kv). c = Inr ()"
    by (simp add: sample_index_def)
  have head: "\<forall>c \<in> set (state_head_checks ?E sample_config ?t now). c = Inr ()"
    using t k c ep(1) entries lanes receipts
    by (auto simp: state_head_checks_def sample_based_def rt_contract_def seal_state_def Let_def)
  have state: "rs_last_red_latch_epoch ?t = 0" "rs_terminal_red_latches ?t = fmempty" "frozen_mode_check ?t = Inr ()"
    "lineage_check ?t = Inr ()" "pending_red_check ?t 0 = Inr 0"
    using t ep(2,3) red by (simp_all add: sample_based_def) (simp add: frozen_mode_check_def)
  have "digest_syntax (rs_state_digest ?t)" unfolding seal_state_digest compute_state_digest_def
    by (rule digest_canonical_syntax [OF sha256_width_tail])
  with head state show ?thesis by (simp add: validate_state_def rt_require_digest_def)
qed

lemma sample_signed:
  assumes t: "sample_based i t"
    and ep: "ae_protected_root_signature (rs_autonomy_epoch t) \<noteq> []"
      "canonical_json tail_platform (json_of_autonomy_epoch (rs_autonomy_epoch t)) \<in> X"
    and grants: "\<forall>g \<in> set (rs_active_grants t). verify_grant tail_platform (sample_verifier X) g now = Inr ()"
    and receipts: "\<forall>r \<in> set (map_values (rs_activation_receipts t)). verify_activation tail_platform (sample_verifier X) r now = Inr ()"
    and lanes: "\<forall>r \<in> set (concat (map_values (rs_tier_evidence t))). verify_evidence tail_platform (sample_verifier X) r now = Inr ()"
    and outbox: "\<forall>x. rs_sentinel_outbox_tail t = Some x \<longrightarrow> verify_outbox tail_platform (sample_verifier X) x (aut_kernel tail_platform) now = Inr ()"
    and red: "\<forall>c \<in> set (pending_red_requests tail_platform (sample_verifier X) (rs_pending_red t) (aut_kernel tail_platform) now). c = Inr ()"
  shows "verify_state_artifacts tail_platform (sample_verifier X) (seal_state tail_platform t) now = Inr ()"
proof -
  let ?E = tail_platform
  obtain v where "validate_kernel ?E (aut_kernel ?E) = Inr v" using aut_kernel_valid [OF sha256_width_tail] by blast
  then have "digest_syntax (sk_kernel_digest (aut_kernel ?E))" "sk_external_root_signature (aut_kernel ?E) \<noteq> []"
    by (simp_all add: aut_kernel_def seal_kernel_def kernel_contract.compute_syntax [OF sha256_width_tail])
  then have kernel: "verify_artifact ?E (sample_verifier X) KindSafetyKernel (sk_kernel_digest (aut_kernel ?E))
      (kn_pinned_external_root_key (sk_core (aut_kernel ?E))) (sk_external_root_signature (aut_kernel ?E))
      (json_of_safety_kernel (aut_kernel ?E)) None now = Inr ()"
    by (intro sample_artifact) (simp_all add: aut_kernel_core_def)
  have constitution: "verify_constitution ?E (sample_verifier X) (aut_constitution ?E) now = Inr ()"
    unfolding verify_constitution_def using aut_constitution_digest [OF sha256_width_tail]
    by (intro sample_artifact) (simp_all add: aut_constitution_fields aut_constitution_core_def)
  have epoch: "verify_epoch ?E (sample_verifier X) (rs_autonomy_epoch t) (kc_issuer_subject_id (ks_core (aut_constitution ?E))) now = Inr ()"
    unfolding verify_epoch_def target_epoch_reference_digest_def
    using ep digest_canonical_syntax [OF sha256_width_tail]
    by (intro sample_artifact) (simp_all add: aut_constitution_fields aut_constitution_core_def)
  with t kernel constitution epoch grants receipts lanes outbox red show ?thesis
    by (auto simp: verify_state_artifacts_def Let_def sample_based_def split: option.splits)
qed


text \<open>
  From an empty disk to an open store that holds a given state of the samples: the journal has
  room for it, the commit succeeds, and the store opens again.
\<close>

section \<open>Room in the journal\<close>

lemma digest_length [simp]: "length (digest_canonical tail_platform d v) = 64"
  by (simp add: digest_canonical_def digest_domain_bytes_def tail_hash_length)

lemma computed_lengths [simp]:
  "length (compute_state_digest tail_platform t) = 64" "length (compute_journal_digest tail_platform r) = 64"
  "length (transition_name (sample_env X i) k t s) = 84"
  by (simp_all add: compute_state_digest_def compute_journal_digest_def transition_name_def transition_id_of_def)

definition roomy :: "'b runtime_store \<Rightarrow> bool" where
  "roomy s \<longleftrightarrow> length (sx_journal s) \<le> unat (sx_next_sequence s) * 2 ^ 42 \<and> unat (sx_next_sequence s) < 10 \<and>
     (\<forall>d. sx_tail_digest s = Some d \<longrightarrow> length d = 64) \<and> (\<forall>t. sx_state s = Some t \<longrightarrow> length (rs_state_digest t) = 64)"

lemma roomy_length: "roomy s \<Longrightarrow> length (sx_journal s) < 2 ^ 50"
  by (simp add: roomy_def)

definition light :: "runtime_state \<Rightarrow> bool" where
  "light t \<longleftrightarrow> jweight (json_of_runtime_state (seal_state tail_platform t)) < 2 ^ 40"

lemma kind_name_length: "length (transition_kind_name k) \<le> 30"
  by (cases k) simp_all

lemma weight_opt: "(\<And>d. x = Some d \<Longrightarrow> length d = 64) \<Longrightarrow> jweight (json_opt JString x) \<le> 130"
  by (cases x) (auto simp: json_opt_def)

lemma prepare_length:
  assumes "roomy s" and "light t"
  shows "length (journal_line tail_platform (prepare_of (sample_env X i) k t s)) < 2 ^ 41"
proof -
  let ?r = "prepare_of (sample_env X i) k t s"
  have "jweight (json_opt JString (sx_tail_digest s)) \<le> 130"
    "jweight (json_opt JString (map_option rs_state_digest (sx_state s))) \<le> 130"
    using assms(1) by (auto simp: roomy_def intro!: weight_opt)
  moreover have "length (transition_id_of tail_platform k x y n) = 84" for x y n by (simp add: transition_id_of_def)
  ultimately have "jweight (json_of_journal_record ?r) < 2 ^ 41"
    using assms(2) kind_name_length [of k]
    by (simp add: json_of_journal_record_def prepare_of_def transition_prepare_def Let_def light_def AUTONOMY_JOURNAL_RECORD_SCHEMA_def
        next_journal_record_def seal_journal_record_def)
  with journal_line_length [of ?r] show ?thesis by (rule le_less_trans)
qed

lemma commit_length:
  assumes "jr_payload c = Commit (transition_name (sample_env X i) k t s) (jr_record_digest (prepare_of (sample_env X i) k t s))
       (rs_state_digest (seal_state tail_platform t))"
    "jr_schema c = AUTONOMY_JOURNAL_RECORD_SCHEMA" "jr_previous_record_digest c = Some (jr_record_digest (prepare_of (sample_env X i) k t s))"
    "jr_record_digest c = compute_journal_digest tail_platform c"
  shows "length (journal_line tail_platform c) < 2 ^ 41"
proof -
  have "jweight (json_of_journal_record c) < 2 ^ 41"
    using assms by (simp add: json_of_journal_record_def json_opt_def AUTONOMY_JOURNAL_RECORD_SCHEMA_def prepare_of_def
        next_journal_record_def seal_journal_record_def)
  with journal_line_length [of c] show ?thesis by (rule le_less_trans)
qed

section \<open>Committing\<close>

text \<open>A usable store of the samples, in step with its disk.\<close>

definition sample_up :: "bytes set \<Rightarrow> sovereign_intent \<Rightarrow> shared_backend runtime_store \<Rightarrow> runtime_state option \<Rightarrow> bool" where
  "sample_up X i s v \<longleftrightarrow> in_step (sample_env X i) s v \<and> ready no_fault s \<and> roomy s \<and>
     sx_config s = sample_config \<and> sx_objects s = sample_objects i"

lemma sample_up_fresh:
  assumes "sample_up X i s v"
  shows "prepare_fresh (sample_env X i) k t s"
  using assms tail_prepare_fresh [of "sample_env X i" s] by (auto simp: sample_up_def in_step_def roomy_def)

lemma sample_up_calls: "sample_up X i s v \<Longrightarrow> call_fresh (sample_env X i) s c now"
  using sample_up_fresh by (auto simp: call_fresh_def)

lemma sample_commits:
  assumes s: "sample_up X i s v" and "light t"
    and ok: "validate_state tail_platform sample_config (seal_state tail_platform t) now = Inr ()"
      "verify_state_artifacts tail_platform (sample_verifier X) (seal_state tail_platform t) now = Inr ()"
  obtains s' where "commit_transition (sample_env X i) (quiet_io, quiet_io) k t now s = (s', Inr ())"
    "in_step (sample_env X i) s' (Some (seal_state tail_platform t))" "\<not> sx_poisoned s'"
    "sx_config s' = sample_config" "sx_objects s' = sample_objects i" "no_fault (sx_backend s')"
proof -
  let ?env = "sample_env X i"
  have "journal_room ?env k t s"
    using prepare_length [OF _ assms(2), of s X i k] roomy_length [of s] s by (simp add: journal_room_def sample_up_def)
  then obtain s' where s': "commit_transition ?env (quiet_io, quiet_io) k t now s = (s', Inr ())" "no_fault (sx_backend s')"
    using commit_succeeds [of ?env no_fault s v k t now] s ok sample_ready(4) by (auto simp: sample_up_def)
  have "in_step ?env s v" using s by (simp add: sample_up_def)
  from commit_outcome [OF _ _ _ this sample_up_fresh [OF s] s'(1)] sample_ready(1-3) have
    "in_step ?env s' (Some (seal_state tail_platform t))" "sx_poisoned s' = sx_poisoned s" by auto
  with s' commit_transition_ok(3,4) [OF s'(1)] s show ?thesis
    by (intro that) (auto simp: sample_up_def ready_def)
qed

text \<open>Committed and opened again, it can be called.\<close>

lemma sample_reopens:
  assumes s: "sample_up X i s v" and "light t" and "unat (sx_next_sequence s) \<le> 5"
    and ok: "validate_state tail_platform sample_config (seal_state tail_platform t) now = Inr ()"
      "verify_state_artifacts tail_platform (sample_verifier X) (seal_state tail_platform t) now = Inr ()"
    and t: "rs_intent_index t = sample_index i" "digest_syntax (si_intent_digest i)" "validate_canonical_core tail_platform i now = Inr u"
  obtains s' s'' where "commit_transition (sample_env X i) (quiet_io, quiet_io) k t now s = (s', Inr ())"
    "runtime_open (sample_env X i) quiet_io None sample_config (disk_of s') now = (disk_of s'', Inr s'')"
    "sample_up X i s'' (Some (seal_state tail_platform t))" "presents i s'' (seal_state tail_platform t)"
proof -
  let ?env = "sample_env X i" and ?t = "seal_state tail_platform t"
  obtain s' where s': "commit_transition ?env (quiet_io, quiet_io) k t now s = (s', Inr ())"
    "in_step ?env s' (Some ?t)" "\<not> sx_poisoned s'" "sx_config s' = sample_config" "sx_objects s' = sample_objects i" "no_fault (sx_backend s')"
    using sample_commits [OF s assms(2) ok] by metis
  obtain c tid where root: "sx_protected_root s' = Some (protected_root_for_record tail_platform RootCommitted tid c ?t)"
    "jr_record_digest c = compute_journal_digest tail_platform c" "\<not> trims_empty tid"
    by (rule commit_root [OF s'(1)]) simp
  obtain c' where journal: "sx_journal s' = sx_journal s @ journal_line tail_platform (prepare_of ?env k t s) @ [newline] @
      journal_line tail_platform c' @ [newline]" "sx_tail_digest s' = Some (jr_record_digest c')"
      "jr_record_digest c' = compute_journal_digest tail_platform c'" "length (journal_line tail_platform c') < 2 ^ 41"
      "sx_next_sequence s' = saturating_add (saturating_add (sx_next_sequence s) 1) 1"
    using commit_journal [OF s'(1)] commit_length by (metis sample_env_fields(1))
  have up: "presents i s' ?t" using s' t by (simp add: presents_def in_step_def)
  have env: "ve_platform ?env = tail_platform" "ve_verifier ?env = sample_verifier X" by simp_all
  from open_succeeds [of ?env s' ?t tid c, where io = quiet_io and now = now] obtain s'' where
    s'': "runtime_open ?env quiet_io None sample_config (disk_of s') now = (disk_of s'', Inr s'')" "rt_frame s'' = rt_frame s'"
      "sx_backend s'' = sx_backend s'" "sx_journal s'' = sx_journal s'" "\<not> sx_poisoned s''" "sx_next_sequence s'' = sx_next_sequence s'"
      "sx_tail_digest s'' = sx_tail_digest s'" "sx_known_len s'' = of_nat (length (sx_journal s'))"
    using s' root sample_config_open [of X i] ok sample_intents_verified [OF up t(3)] sha256_width_tail by auto
  have seq: "unat (sx_next_sequence s') = unat (sx_next_sequence s) + 2"
    using journal(5) assms(3) by (simp add: unat_saturating_add)
  have "roomy s" using s by (simp add: sample_up_def)
  then have "length (sx_journal s') \<le> unat (sx_next_sequence s') * 2 ^ 42"
    using prepare_length [OF _ assms(2), of s X i k] journal(1,4) seq by (simp add: roomy_def)
  then have "roomy s''"
    using s'' seq assms(3) journal(2,3) s'(2) by (simp add: roomy_def rt_frame_def in_step_def)
  moreover have "in_step ?env s'' (Some ?t)"
    using runtime_open_denoted [OF _ _ _ _ s''(1)] in_step_disk [OF s'(2)] sample_ready(1-3) by (simp add: disk_holds_def)
  ultimately have "sample_up X i s'' (Some ?t)"
    using s'' s'(4-6) by (simp add: sample_up_def ready_def rt_frame_def)
  moreover have "presents i s'' ?t" using up s''(2) by (simp add: presents_def rt_frame_def)
  ultimately show ?thesis using that s'(1) s''(1) by blast
qed

text \<open>From the empty disk.\<close>

definition sample_blank :: "sovereign_intent \<Rightarrow> shared_backend runtime_store" where
  "sample_blank i = loaded_store sample_config
     \<lparr>dk_backend = \<lparr>hb_root = None, hb_cas_calls = 0, hb_fail_on_call = None\<rparr>, dk_journal = [], dk_objects = sample_objects i\<rparr>
     empty_replay None"

lemma sample_blank_up: "sample_up X i (sample_blank i) None"
proof -
  have "in_step (sample_env X i) (sample_blank i) None"
    unfolding in_step_def using journal_reads_empty [of "sample_env X i"]
    by (auto simp: sample_blank_def loaded_store_def tracks_def shared_protected_backend_def empty_replay_def
        intro!: exI [of _ empty_replay] vacant)
  then show ?thesis
    by (simp add: sample_up_def ready_def roomy_def sample_blank_def loaded_store_def empty_replay_def no_fault_def)
qed

lemma sample_store:
  assumes "light t" and ok: "validate_state tail_platform sample_config (seal_state tail_platform t) now = Inr ()"
      "verify_state_artifacts tail_platform (sample_verifier X) (seal_state tail_platform t) now = Inr ()"
    and t: "rs_intent_index t = sample_index i" "digest_syntax (si_intent_digest i)" "validate_canonical_core tail_platform i now = Inr u"
  obtains s where "reachable_store (sample_env X i) sample_config s" "sample_up X i s (Some (seal_state tail_platform t))"
    "presents i s (seal_state tail_platform t)"
proof -
  have "unat (sx_next_sequence (sample_blank i)) \<le> 5" by (simp add: sample_blank_def loaded_store_def empty_replay_def)
  from sample_reopens [OF sample_blank_up assms(1) this ok t, where k = Bootstrap] that opened show ?thesis by metis
qed

end
