(* ===== verification/Runtime_Sample_Worlds.thy ===== *)
theory Runtime_Sample_Worlds
  imports Runtime_Samples
begin

text \<open>
  The autonomous world of the samples as a state of the runtime, and what a RED and a consumption
  make of it: each is short enough for the journal, valid and signed.
\<close>

section \<open>Weights\<close>

lemma weight_list:
  assumes "\<And>x. x \<in> set xs \<Longrightarrow> jweight (f x) + 1 \<le> n"
  shows "jweight (JArray (map f xs)) \<le> 2 + length xs * n"
proof -
  have "sum_list (map (\<lambda>x. jweight (f x) + 1) xs) \<le> sum_list (map (\<lambda>_. n) xs)"
    by (rule sum_list_mono) (rule assms)
  then show ?thesis by (simp add: o_def sum_list_triv)
qed

lemma weight_modes: "jweight (json_of_modes ms) \<le> 1000"
proof -
  have "ms \<subseteq> {HumanGated, PolicyAutonomous, FullAutonomy}"
  proof
    fix m show "m \<in> {HumanGated, PolicyAutonomous, FullAutonomy}" by (cases m) auto
  qed
  then have "card ms \<le> card {HumanGated, PolicyAutonomous, FullAutonomy}" by (intro card_mono) auto
  moreover have "jweight (JString (mode_name m)) + 1 \<le> 100" for m by (cases m) simp_all
  ultimately show ?thesis
    using weight_list [of "sorted_list_of_set ms" "\<lambda>m. JString (mode_name m)" 100] by (simp add: json_of_modes_def)
qed

lemma weight_risks: "jweight (json_of_risks rs) \<le> 1000"
proof -
  have "rs \<subseteq> {Low, Medium, High, Critical}"
  proof
    fix r show "r \<in> {Low, Medium, High, Critical}" by (cases r) auto
  qed
  then have "card rs \<le> card {Low, Medium, High, Critical}" by (intro card_mono) auto
  moreover have "jweight (JString (risk_name r)) + 1 \<le> 100" for r by (cases r) simp_all
  ultimately show ?thesis
    using weight_list [of "sorted_list_of_set rs" "\<lambda>r. JString (risk_name r)" 100] by (simp add: json_of_risks_def)
qed

lemma weight_effects: "card es \<le> 20 \<Longrightarrow> jweight (json_of_effects es) \<le> 3000"
proof -
  assume "card es \<le> 20"
  moreover have "jweight (JString (effect_name e)) + 1 \<le> 100" for e by (cases e) simp_all
  ultimately show ?thesis
    using weight_list [of "sorted_list_of_set es" "\<lambda>e. JString (effect_name e)" 100] by (simp add: json_of_effects_def)
qed

lemma weight_u16 [simp]: "jweight (json_u16 n) = 20"
proof -
  have "uint n < 2 ^ LENGTH(16)" by (rule unsigned_less)
  then show ?thesis by (simp add: json_u16_def)
qed

lemma aut_hash_length [simp]: "length aut_hash = 64"
  by (simp add: aut_hash_def)

lemma syntax_length: "digest_syntax d \<Longrightarrow> length d = 64"
  by (simp add: digest_syntax_def)

lemmas record_lengths = syntax_length [OF aut_constitution_digest [OF sha256_width_tail]]
  syntax_length [OF kernel_contract.compute_syntax [OF sha256_width_tail]]
  syntax_length [OF independence_contract.compute_syntax [OF sha256_width_tail]]
  syntax_length [OF constitution_contract.compute_syntax [OF sha256_width_tail]]
  syntax_length [OF grant_contract.compute_syntax [OF sha256_width_tail]]
  syntax_length [OF verdict_contract.compute_syntax [OF sha256_width_tail]]
  syntax_length [OF outbox_contract.compute_syntax [OF sha256_width_tail]]
  syntax_length [OF activation_contract.compute_syntax [OF sha256_width_tail]]
  syntax_length [OF capability_contract.compute_syntax [OF sha256_width_tail]]
  syntax_length [OF sovereign_contract.compute_syntax [OF sha256_width_tail]]
  syntax_length [OF aut_intent_digest(1) [OF sha256_width_tail]]

lemma kernel_weight: "jweight (json_of_safety_kernel (aut_kernel tail_platform)) \<le> 2 ^ 20"
proof -
  have "card canonical_negative_effects \<le> 20" by (simp add: canonical_negative_effects_def card_insert_if)
  from weight_effects [OF this] show ?thesis
    by (simp add: json_of_safety_kernel_def json_of_safety_kernel_core_def aut_kernel_def seal_kernel_def aut_kernel_core_def
        record_lengths SAFETY_KERNEL_SCHEMA_def CANONICALIZATION_VERSION_def)
qed

lemma spec_weight: "jweight (json_of_independence_spec (aut_spec tail_platform n)) \<le> 2 ^ 20"
  by (simp add: json_of_independence_spec_def json_of_independence_core_def aut_spec_def seal_independence_def
      record_lengths INDEPENDENCE_SPEC_SCHEMA_def json_of_verifier_seat_def aut_seats_def aut_seat_def)

lemma constitution_weight: "jweight (json_of_constitution_store (aut_constitution tail_platform)) \<le> 2 ^ 20"
  using weight_modes [of "{HumanGated, PolicyAutonomous, FullAutonomy}"]
  by (simp add: json_of_constitution_store_def json_of_constitution_core_def aut_constitution_fields aut_constitution_core_def
      aut_spec_fields record_lengths CONSTITUTION_SCHEMA_def json_opt_def)

lemma epoch_weight:
  "length (ae_schema ep) \<le> 100 \<Longrightarrow> length (ae_constitution_digest ep) = 64 \<Longrightarrow> length (ae_grants_digest ep) = 64 \<Longrightarrow>
   length (ae_protected_root_signature ep) \<le> 100 \<Longrightarrow> (\<And>r. ae_activation_receipt_id ep = Some r \<Longrightarrow> length r \<le> 200) \<Longrightarrow>
   jweight (json_of_autonomy_epoch ep) \<le> 2 ^ 20"
  by (cases "ae_activation_receipt_id ep"; cases "ae_active_mode ep"; cases "ae_safety_state ep")
    (auto simp: json_of_autonomy_epoch_def json_opt_def)

lemma grant_weight:
  "ag_core g = (aut_grant_core tail_platform)\<lparr>gc_promotion_receipt_id := p\<rparr> \<Longrightarrow> length p \<le> 64 \<Longrightarrow>
   ag_schema g = AUTONOMY_GRANT_SCHEMA \<Longrightarrow> ag_owner_signature g = ''sig'' \<Longrightarrow> length (ag_grant_digest g) = 64 \<Longrightarrow>
   jweight (json_of_autonomy_grant g) \<le> 2 ^ 20"
  using weight_risks [of "{Low}"]
  by (simp add: json_of_autonomy_grant_def json_of_grant_core_def json_of_budget_envelope_def aut_grant_core_def
      AUTONOMY_GRANT_SCHEMA_def)

lemma intent_entry_weight: "jweight (json_of_intent_entry (sample_entry (aut_intent tail_platform))) \<le> 2 ^ 20"
  by (simp add: json_of_intent_entry_def sample_entry_def Let_def record_lengths INTENT_CORE_ENTRY_SCHEMA_def
      CANONICALIZATION_VERSION_def digest_domain_bytes_def tail_hash_length aut_intent_def seal_sovereign_def
      for_sovereign_digest_def)

text \<open>A state is light when its parts are.\<close>

lemma sample_light:
  assumes t: "sample_based i t" and i: "digest_syntax (si_intent_digest i)" "jweight (json_of_intent_entry (sample_entry i)) \<le> 2 ^ 20"
    and "jweight (json_of_autonomy_epoch (rs_autonomy_epoch t)) \<le> 2 ^ 20"
      "jweight (json_list json_of_autonomy_grant (rs_active_grants t)) \<le> 2 ^ 30"
      "jweight (json_fmap json_of_activation_receipt (rs_activation_receipts t)) \<le> 2 ^ 30"
      "jweight (json_fmap (json_list json_of_tier_evidence) (rs_tier_evidence t)) \<le> 2 ^ 30"
      "jweight (json_fset (rs_consumed_capability_digests t)) \<le> 2 ^ 30"
      "jweight (json_opt json_of_red_outbox (rs_sentinel_outbox_tail t)) \<le> 2 ^ 30"
      "jweight (json_opt json_of_pending_red (rs_pending_red t)) \<le> 2 ^ 30"
  shows "light t"
proof -
  have index: "jweight (json_fmap json_of_intent_entry (sample_index i)) \<le> 2 ^ 21"
    using i syntax_length [OF i(1)] by (simp add: json_fmap_def sample_index_def)
  have fields: "rs_intent_index t = sample_index i" "rs_recovery_receipts t = fmempty"
    "rs_terminal_red_latches t = fmempty" "rs_last_valid_mode_before_freeze t = None" "rs_kernel t = aut_kernel tail_platform"
    "rs_independence_spec t = aut_spec tail_platform 0" "rs_constitution t = aut_constitution tail_platform"
    "length (rs_schema t) = length AUTONOMY_RUNTIME_STATE_SCHEMA" "length (rs_durability_domain_id t) = 2"
    using t by (simp_all add: sample_based_def)
  have "length (rs_intent_store_root_digest (seal_state tail_platform t)) = 64"
    by (simp add: seal_state_def Let_def compute_intent_store_root_def)
  with assms(4-) index kernel_weight spec_weight [of 0] constitution_weight show ?thesis
    unfolding light_def json_of_runtime_state_def
    by (simp add: fields json_fmap_def [of _ fmempty] json_opt_def [of _ None] AUTONOMY_RUNTIME_STATE_SCHEMA_def)
qed

section \<open>The autonomous world\<close>

definition sample_receipt :: activation_receipt where
  "sample_receipt = (aut_receipt tail_platform)\<lparr>at_core := (aut_receipt_core tail_platform)\<lparr>tc_receipt_id := ''ar''\<rparr>\<rparr>"

definition auto_state :: runtime_state where
  "auto_state = sample_state (aut_epoch tail_platform) [aut_grant tail_platform] (fmupd ''ar'' sample_receipt fmempty) fmempty
     (aut_intent tail_platform)"

lemma receipt_weight:
  "at_core r = (aut_receipt_core tail_platform)\<lparr>tc_receipt_id := x, tc_g9_canary_receipts_digest := y, tc_authority_decision_digest := z,
     tc_grants_digest := u, tc_previous_mode_epoch_digest := v\<rparr> \<Longrightarrow>
   length x \<le> 200 \<Longrightarrow> length y = 64 \<Longrightarrow> length z = 64 \<Longrightarrow> length u = 64 \<Longrightarrow> length v = 64 \<Longrightarrow>
   at_schema r = AUTONOMY_ACTIVATION_RECEIPT_SCHEMA \<Longrightarrow> at_signature r = ''sig'' \<Longrightarrow> length (at_receipt_digest r) = 64 \<Longrightarrow>
   jweight (json_of_activation_receipt r) \<le> 2 ^ 20"
  by (simp add: json_of_activation_receipt_def json_of_activation_core_def aut_receipt_core_def record_lengths
      AUTONOMY_ACTIVATION_RECEIPT_SCHEMA_def json_opt_def SECURE_ENCLAVE_CUSTODY_FLOOR_V1_def)

lemma sample_receipt_weight: "jweight (json_of_activation_receipt sample_receipt) \<le> 2 ^ 20"
  by (rule receipt_weight [where x = "''ar''" and y = aut_hash and z = aut_hash and u = "ae_grants_digest (aut_epoch tail_platform)"
        and v = "compute_epoch_reference_digest tail_platform (aut_gated tail_platform)"])
    (simp_all add: sample_receipt_def aut_receipt_fields aut_receipt_core_def record_lengths aut_epoch_def compute_epoch_reference_digest_def)

text \<open>The parts of a state in the autonomous epoch, whether its safety state is healthy or not.\<close>

lemma auto_common:
  assumes "10 \<le> now" "now < 900"
  shows "validate_common tail_platform (aut_epoch tail_platform) (aut_constitution tail_platform) [aut_grant tail_platform] now = Inr ()"
    "validate_common tail_platform ((aut_epoch tail_platform)\<lparr>ae_issuance_frozen := True, ae_safety_state := PendingRed\<rparr>)
       (aut_constitution tail_platform) [aut_grant tail_platform] now = Inr ()"
  using aut_epoch_valid [OF sha256_width_tail assms]
  by (auto simp: validate_common_def Let_def epoch_grant_checks_def safety_state_check_def aut_epoch_def)

lemma auto_epoch_fields [simp]:
  "ae_autonomy_epoch (aut_epoch E) = 1" "ae_activation_receipt_id (aut_epoch E) = Some ''ar''" "ae_safety_state (aut_epoch E) = Healthy"
  "ae_protected_root_signature (aut_epoch E) = ''sig''" "ae_issuance_frozen (aut_epoch E) = False"
  "ae_schema (aut_epoch E) = AUTONOMY_EPOCH_SCHEMA" "ae_active_mode (aut_epoch E) = PolicyAutonomous"
  "ae_constitution_digest (aut_epoch E) = ks_constitution_digest (aut_constitution E)"
  by (simp_all add: aut_epoch_def)

lemma auto_epoch_weight:
  "jweight (json_of_autonomy_epoch ((aut_epoch tail_platform)\<lparr>ae_issuance_frozen := b, ae_safety_state := x\<rparr>)) \<le> 2 ^ 20"
  by (rule epoch_weight) (simp_all add: AUTONOMY_EPOCH_SCHEMA_def record_lengths, simp add: aut_epoch_def)

lemma auto_grant_light: "jweight (json_list json_of_autonomy_grant [aut_grant tail_platform]) \<le> 2 ^ 30"
proof -
  have "ag_core (aut_grant tail_platform) = (aut_grant_core tail_platform)\<lparr>gc_promotion_receipt_id := ''pr''\<rparr>"
    unfolding aut_grant_fields by (simp add: aut_grant_core_def)
  then have "jweight (json_of_autonomy_grant (aut_grant tail_platform)) \<le> 2 ^ 20"
    by (rule grant_weight) (simp_all add: aut_grant_fields record_lengths)
  then show ?thesis by (simp add: json_list_def)
qed

lemma auto_receipt_light: "jweight (json_fmap json_of_activation_receipt (fmupd ''ar'' sample_receipt fmempty)) \<le> 2 ^ 30"
  using sample_receipt_weight by (simp add: json_fmap_def)

lemma auto_grant_signed: "verify_grant tail_platform (sample_verifier X) (aut_grant tail_platform) now = Inr ()"
  unfolding verify_grant_def using aut_grant_digest [OF sha256_width_tail]
  by (intro sample_artifact) (simp_all add: aut_grant_fields, simp add: aut_grant_core_def)

lemma sample_receipt_signed: "verify_activation tail_platform (sample_verifier X) sample_receipt now = Inr ()"
  unfolding verify_activation_def
  by (intro sample_artifact) (simp_all add: sample_receipt_def aut_receipt_fields activation_contract.compute_syntax [OF sha256_width_tail],
    simp add: aut_receipt_core_def)

text \<open>The shape all its states share.\<close>

definition auto_shaped :: "runtime_state \<Rightarrow> bool" where
  "auto_shaped t \<longleftrightarrow> sample_based (aut_intent tail_platform) t \<and> rs_active_grants t = [aut_grant tail_platform] \<and>
     rs_activation_receipts t = fmupd ''ar'' sample_receipt fmempty \<and> rs_tier_evidence t = fmempty"

lemma auto_shaped_state [simp]: "auto_shaped auto_state"
  by (simp add: auto_shaped_def auto_state_def)

lemma auto_healthy:
  assumes t: "auto_shaped t" "rs_autonomy_epoch t = aut_epoch tail_platform" "rs_pending_red t = None" "rs_sentinel_outbox_tail t = None"
    and now: "10 \<le> now" "now < 900"
    and X: "canonical_json tail_platform (json_of_autonomy_epoch (aut_epoch tail_platform)) \<in> X"
  shows "validate_state tail_platform sample_config (seal_state tail_platform t) now = Inr ()"
    "verify_state_artifacts tail_platform (sample_verifier X) (seal_state tail_platform t) now = Inr ()"
proof -
  have n: "now < 1000" using now(2) by (rule less_trans) simp
  have s: "sample_based (aut_intent tail_platform) t" "rs_active_grants t = [aut_grant tail_platform]"
    "rs_activation_receipts t = fmupd ''ar'' sample_receipt fmempty" "rs_tier_evidence t = fmempty"
    using t(1) by (simp_all add: auto_shaped_def)
  show "validate_state tail_platform sample_config (seal_state tail_platform t) now = Inr ()"
    by (rule sample_state_valid [OF s(1) aut_intent_digest(1) [OF sha256_width_tail] now(1) n])
      (simp_all add: s t auto_common(1) [OF now] lineage_check_def lineage_recognised_def activation_entry_check_def
        sample_receipt_def pending_red_check_def)
  show "verify_state_artifacts tail_platform (sample_verifier X) (seal_state tail_platform t) now = Inr ()"
    by (rule sample_signed [OF s(1)]) (simp_all add: s t X auto_grant_signed map_values_def sample_receipt_signed pending_red_requests_def)
qed

lemma auto_light:
  assumes t: "auto_shaped t" and ep: "rs_autonomy_epoch t = (aut_epoch tail_platform)\<lparr>ae_issuance_frozen := b, ae_safety_state := x\<rparr>"
    and parts: "jweight (json_fset (rs_consumed_capability_digests t)) \<le> 2 ^ 30"
      "jweight (json_opt json_of_red_outbox (rs_sentinel_outbox_tail t)) \<le> 2 ^ 30" "jweight (json_opt json_of_pending_red (rs_pending_red t)) \<le> 2 ^ 30"
  shows "light t"
proof (rule sample_light [OF _ aut_intent_digest(1) [OF sha256_width_tail] intent_entry_weight _ _ _ _ parts])
  show "sample_based (aut_intent tail_platform) t" using t by (simp add: auto_shaped_def)
  show "jweight (json_of_autonomy_epoch (rs_autonomy_epoch t)) \<le> 2 ^ 20" unfolding ep by (rule auto_epoch_weight)
  show "jweight (json_list json_of_autonomy_grant (rs_active_grants t)) \<le> 2 ^ 30"
    using t auto_grant_light by (simp add: auto_shaped_def)
  show "jweight (json_fmap json_of_activation_receipt (rs_activation_receipts t)) \<le> 2 ^ 30"
    using t auto_receipt_light by (simp add: auto_shaped_def)
  show "jweight (json_fmap (json_list json_of_tier_evidence) (rs_tier_evidence t)) \<le> 2 ^ 30"
    using t by (simp add: auto_shaped_def json_fmap_def)
qed

lemma fset_light: "jweight (json_fset {||}) \<le> 2 ^ 30" "length d = 64 \<Longrightarrow> jweight (json_fset {|d|}) \<le> 2 ^ 30"
  by (simp_all add: json_fset_def sorted_list_of_fset.rep_eq)

lemma none_light: "jweight (json_opt f None) \<le> 2 ^ 30"
  by (simp add: json_opt_def)

lemma auto_intent_live: "20 \<le> now \<Longrightarrow> now < 500 \<Longrightarrow> \<exists>v. validate_canonical_core tail_platform (aut_intent tail_platform) now = Inr v"
  by (rule aut_intent_canonical [OF sha256_width_tail])

lemma auto_epoch_same: "(aut_epoch E)\<lparr>ae_issuance_frozen := False, ae_safety_state := Healthy\<rparr> = aut_epoch E"
  by (simp add: aut_epoch_def)

lemma auto_state_light: "light auto_state"
  by (rule auto_light [where b = False and x = Healthy], simp)
    (simp_all add: auto_state_def auto_epoch_same fset_light [simplified] none_light [simplified])

text \<open>A store of the autonomous world.\<close>

lemma auto_store:
  assumes X: "canonical_json tail_platform (json_of_autonomy_epoch (aut_epoch tail_platform)) \<in> X"
  obtains s where "reachable_store (sample_env X (aut_intent tail_platform)) sample_config s"
    "sample_up X (aut_intent tail_platform) s (Some auto_state)" "presents (aut_intent tail_platform) s auto_state"
proof -
  have sealed: "seal_state tail_platform auto_state = auto_state" by (simp add: auto_state_def)
  have parts: "rs_autonomy_epoch auto_state = aut_epoch tail_platform" "rs_pending_red auto_state = None"
    "rs_sentinel_outbox_tail auto_state = None" "rs_intent_index auto_state = sample_index (aut_intent tail_platform)"
    by (simp_all add: auto_state_def)
  obtain v where v: "validate_canonical_core tail_platform (aut_intent tail_platform) 30 = Inr v"
    using auto_intent_live [of 30] by auto
  note ok = auto_healthy [OF auto_shaped_state parts(1-3) _ _ X, of 30]
  from sample_store [OF auto_state_light ok(1) ok(2) parts(4) aut_intent_digest(1) [OF sha256_width_tail] v] that sealed show ?thesis by auto
qed

end
