(* ===== verification/Runtime_Witnesses.thy ===== *)
theory Runtime_Witnesses
  imports Runtime_Sample_Worlds
begin

text \<open>
  Two calls on a store of the autonomous world that succeed: a RED verdict is persisted, and the
  capability of the samples is consumed.
\<close>

abbreviation "sample_intent \<equiv> aut_intent tail_platform"
abbreviation "sample_digest \<equiv> si_intent_digest (aut_intent tail_platform)"
abbreviation "lenient_env \<equiv> sample_env UNIV (aut_intent tail_platform)"

section \<open>RED\<close>

lemma aut_red_fields:
  "sr_core (aut_red E) = aut_red_core E" "sr_schema (aut_red E) = SENTINEL_VERDICT_SCHEMA"
  "sr_signature (aut_red E) = ''sig''" "sr_verdict_digest (aut_red E) = compute_verdict_digest E (aut_red E)"
  by (simp_all add: aut_red_def seal_verdict_def compute_verdict_digest_def)

lemma aut_red_digest: "sha256_width E \<Longrightarrow> digest_syntax (compute_verdict_digest E (aut_red E))"
  by (rule verdict_contract.compute_syntax)

lemma aut_red_valid:
  assumes "sha256_width E" and "25 \<le> now" "now < 400"
  shows "\<exists>v. validate_verdict E (aut_red E) (aut_intent E) (aut_kernel E) now = Inr v"
proof -
  have "20 \<le> now" "now < 500"
    using assms(2,3) order_trans [of 20 25 now] less_trans [of now 400 500] by simp_all
  then obtain v where "validate_canonical_core E (aut_intent E) now = Inr v"
    using aut_intent_canonical [OF assms(1)] by blast
  then show ?thesis
    using aut_red_digest [OF assms(1)] aut_intent_digest(1) [OF assms(1)] assms(2,3)
    by (simp add: validate_verdict_def Let_def aut_red_fields aut_intent_fields)
      (simp add: aut_red_core_def aut_intent_core_def aut_kernel_core_def)
qed

lemma aut_first_valid:
  "\<exists>v. validate_outbox tail_platform (aut_first tail_platform) (aut_red tail_platform) sample_intent None = Inr v"
  using aut_red_parts [OF sha256_width_tail] aut_intent_digest(1) [OF sha256_width_tail] aut_first_digest [OF sha256_width_tail]
  by (simp add: validate_outbox_def Let_def aut_first_fields outbox_chain_check_def
      validate_red_outbox_state_def red_outbox_state_valid_def) (simp add: aut_first_core_def)

lemma red_signed:
  "verify_sentinel tail_platform (sample_verifier X) (aut_red tail_platform) (aut_kernel tail_platform) now = Inr ()"
  "verify_outbox tail_platform (sample_verifier X) (aut_first tail_platform) (aut_kernel tail_platform) now = Inr ()"
  unfolding verify_sentinel_def verify_outbox_def
  using aut_red_digest [OF sha256_width_tail] aut_first_digest [OF sha256_width_tail]
  by (auto intro!: sample_artifact simp: aut_red_fields aut_first_fields aut_kernel_core_def)

definition sample_pending :: pending_red where
  "sample_pending = \<lparr>pq_schema = PENDING_RED_RUNTIME_SCHEMA, pq_source_intent_digest = sample_digest,
     pq_verdict = aut_red tail_platform, pq_outbox = aut_first tail_platform, pq_latch = None\<rparr>"

definition red_state :: "runtime_state \<Rightarrow> runtime_state" where
  "red_state t = (bump t)\<lparr>rs_autonomy_epoch := (rs_autonomy_epoch t)\<lparr>ae_issuance_frozen := True, ae_safety_state := PendingRed\<rparr>,
     rs_sentinel_outbox_tail := Some (aut_first tail_platform), rs_pending_red := Some sample_pending\<rparr>"

lemma sample_verdict_weight: "jweight (json_of_sentinel_record (aut_red tail_platform)) \<le> 2 ^ 20"
  by (simp add: json_of_sentinel_record_def json_of_sentinel_core_def aut_red_fields record_lengths SENTINEL_VERDICT_SCHEMA_def)
    (simp add: aut_red_core_def record_lengths CANONICALIZATION_VERSION_def json_of_intent_core_ref_def aut_intent_def
      seal_sovereign_def Let_def for_sovereign_digest_def)

lemma sample_outbox_weight: "jweight (json_of_red_outbox (aut_first tail_platform)) \<le> 2 ^ 20"
  by (simp add: json_of_red_outbox_def json_of_red_outbox_core_def aut_first_fields record_lengths SENTINEL_RED_OUTBOX_SCHEMA_def)
    (simp add: aut_first_core_def record_lengths json_opt_def aut_red_fields)

lemma red_state_light: "light (red_state auto_state)"
proof (rule auto_light [where b = True and x = PendingRed])
  show "auto_shaped (red_state auto_state)"
    using auto_shaped_state by (simp add: auto_shaped_def red_state_def sample_based_def bump_def)
  show "jweight (json_opt json_of_red_outbox (rs_sentinel_outbox_tail (red_state auto_state))) \<le> 2 ^ 30"
    using sample_outbox_weight by (simp add: red_state_def json_opt_def)
  show "jweight (json_opt json_of_pending_red (rs_pending_red (red_state auto_state))) \<le> 2 ^ 30"
    using sample_outbox_weight sample_verdict_weight
    by (simp add: red_state_def json_opt_def json_of_pending_red_def sample_pending_def PENDING_RED_RUNTIME_SCHEMA_def record_lengths)
qed (simp_all add: red_state_def auto_state_def fset_light [simplified])

lemma red_state_ok:
  "validate_state tail_platform sample_config (seal_state tail_platform (red_state auto_state)) 30 = Inr ()"
  "verify_state_artifacts tail_platform (sample_verifier UNIV) (seal_state tail_platform (red_state auto_state)) 30 = Inr ()"
proof -
  let ?t = "red_state auto_state"
  have s: "sample_based sample_intent ?t" "rs_active_grants ?t = [aut_grant tail_platform]"
    "rs_activation_receipts ?t = fmupd ''ar'' sample_receipt fmempty" "rs_tier_evidence ?t = fmempty"
    "rs_autonomy_epoch ?t = (aut_epoch tail_platform)\<lparr>ae_issuance_frozen := True, ae_safety_state := PendingRed\<rparr>"
    "rs_pending_red ?t = Some sample_pending" "rs_sentinel_outbox_tail ?t = Some (aut_first tail_platform)"
    by (simp_all add: red_state_def auto_state_def sample_based_def bump_def sample_state_def)
  have "nl_verdict (sr_core (aut_red tail_platform)) = Red" "nl_intent_digest (sr_core (aut_red tail_platform)) = sample_digest"
    by (simp_all add: aut_red_fields aut_red_core_def)
  then show "validate_state tail_platform sample_config (seal_state tail_platform ?t) 30 = Inr ()"
    by (intro sample_state_valid [OF s(1) aut_intent_digest(1) [OF sha256_width_tail]])
      (simp_all add: s auto_common(2) lineage_check_def lineage_recognised_def activation_entry_check_def
        sample_receipt_def pending_red_check_def sample_pending_def)
  show "verify_state_artifacts tail_platform (sample_verifier UNIV) (seal_state tail_platform ?t) 30 = Inr ()"
    by (rule sample_signed [OF s(1)])
      (simp_all add: s auto_grant_signed map_values_def sample_receipt_signed pending_red_requests_def red_signed sample_pending_def)
qed

lemma red_persisted:
  assumes "sample_up UNIV sample_intent s (Some auto_state)" and "presents sample_intent s auto_state"
  shows "\<exists>s'. persist_sentinel_red lenient_env (quiet_io, quiet_io) sample_digest (aut_red tail_platform) (aut_first tail_platform) 30 s = (s', Inr ())"
proof -
  have state: "sx_state s = Some auto_state" "ensure_usable s = Inr ()"
    using assms by (simp_all add: presents_def sample_up_def ready_def ensure_usable_def)
  obtain u where u: "validate_canonical_core tail_platform sample_intent 30 = Inr u" using auto_intent_live [of 30] by auto
  obtain v where v: "validate_verdict tail_platform (aut_red tail_platform) sample_intent (aut_kernel tail_platform) 30 = Inr v"
    using aut_red_valid [OF sha256_width_tail, of 30] by auto
  obtain w where w: "validate_outbox tail_platform (aut_first tail_platform) (aut_red tail_platform) sample_intent None = Inr w"
    using aut_first_valid by blast
  have fields: "rs_kernel auto_state = aut_kernel tail_platform" "rs_pending_red auto_state = None"
    "rs_sentinel_outbox_tail auto_state = None" "rs_autonomy_epoch auto_state = aut_epoch tail_platform"
    by (simp_all add: auto_state_def sample_state_def)
  have "nl_verdict (sr_core (aut_red tail_platform)) = Red" "xc_state (xb_core (aut_first tail_platform)) = OutboxPending"
    by (simp_all add: aut_red_fields aut_red_core_def aut_first_fields aut_first_core_def)
  then have "\<forall>c \<in> set (red_checks lenient_env auto_state sample_intent (aut_red tail_platform) (aut_first tail_platform) 30). c = Inr ()"
    using v w by (simp add: red_checks_def rt_contract_def fields red_signed)
  then have next_state: "sentinel_red_next lenient_env s sample_digest (aut_red tail_platform) (aut_first tail_platform) 30 =
      Inr (seal_state tail_platform (red_state auto_state))"
    using state sample_resolves [OF assms(2) u] by (simp add: sentinel_red_next_def current_state_def fields red_state_def sample_pending_def)
  have "light (seal_state tail_platform (red_state auto_state))" using red_state_light by (simp add: light_def)
  from sample_commits [OF assms(1) this, of 30 SentinelRedPersisted] red_state_ok
  obtain s' where "commit_transition lenient_env (quiet_io, quiet_io) SentinelRedPersisted (seal_state tail_platform (red_state auto_state)) 30 s = (s', Inr ())"
    by auto
  with next_state show ?thesis by (simp add: persist_sentinel_red_def commit_next_def rt_then_def rt_pure_def)
qed

section \<open>Consumption\<close>

definition sample_consume :: consume_request where
  "sample_consume = \<lparr>nq_intent_digest = sample_digest, nq_decision = QuorumDecision (aut_quorum tail_platform),
     nq_capability = aut_capability tail_platform, nq_sentinel = Some (aut_green tail_platform)\<rparr>"

definition spent_state :: runtime_state where
  "spent_state = (bump auto_state)\<lparr>rs_consumed_capability_digests := {|au_capability_digest (aut_capability tail_platform)|}\<rparr>"

lemma spent_shaped [simp]: "auto_shaped spent_state"
  using auto_shaped_state by (simp add: auto_shaped_def spent_state_def sample_based_def bump_def)

lemma spent_fields:
  "rs_autonomy_epoch spent_state = aut_epoch tail_platform" "rs_pending_red spent_state = None" "rs_sentinel_outbox_tail spent_state = None"
  by (simp_all add: spent_state_def auto_state_def bump_def)

lemma spent_light: "light spent_state"
  by (rule auto_light [where b = False and x = Healthy], simp)
    (simp_all add: spent_fields auto_epoch_same none_light [simplified],
     simp add: spent_state_def fset_light [simplified] aut_capability_fields record_lengths)

lemma quorum_votes_signed:
  "v \<in> set (qe_votes (aut_evidence tail_platform)) \<Longrightarrow> verify_vote tail_platform (sample_verifier X) v now = Inr ()"
  unfolding verify_vote_def
  by (intro sample_artifact) (auto simp: digest_canonical_syntax [OF sha256_width_tail] aut_evidence_def aut_vote_def)

lemma consume_checked:
  "\<forall>c \<in> set (consume_checks lenient_env auto_state sample_intent (aut_grant tail_platform) sample_consume 30). c = Inr ()"
proof -
  let ?E = tail_platform and ?d = "QuorumDecision (aut_quorum tail_platform)"
  obtain a b c where a: "validate_sovereign ?E sample_intent (aut_epoch ?E) (Some (aut_grant ?E)) 30 = Inr a"
    and b: "validate_positive_decision ?E ?d sample_intent (aut_constitution ?E) (aut_kernel ?E) (Some (aut_green ?E)) 30 = Inr b"
    and c: "validate_autonomy_capability ?E (aut_capability ?E) ?d sample_intent (aut_grant ?E) (aut_epoch ?E) (Some (aut_green ?E)) 30 = Inr c"
    using aut_intent_valid [OF sha256_width_tail, of 30] aut_quorum_valid [OF sha256_width_tail, of 30]
      aut_capability_valid [OF sha256_width_tail] by auto
  have fields: "rs_autonomy_epoch auto_state = aut_epoch ?E" "rs_constitution auto_state = aut_constitution ?E"
    "rs_kernel auto_state = aut_kernel ?E"
    by (simp_all add: auto_state_def sample_state_def)
  have q: "qa_quorum (qu_core (aut_quorum ?E)) = aut_evidence ?E" by (simp add: aut_quorum_fields aut_quorum_core_def)
  have quorum: "quorum_arm ?E (sample_verifier UNIV) ?d sample_intent (Some (aut_green ?E)) auto_state 30 = Inr ()"
    using aut_evidence_valid [OF sha256_width_tail] quorum_votes_signed
    by (simp add: quorum_arm_def validate_quorum_runtime_def q fields rt_contract_def)
  have decision: "verify_decision ?E (sample_verifier UNIV) ?d (sc_issuer_subject_id (si_core sample_intent)) None 30 = Inr ()"
    unfolding verify_decision_def using decision_digest_wellformed [OF sha256_width_tail]
    by (intro sample_artifact) (simp_all add: aut_quorum_fields aut_intent_fields aut_intent_core_def)
  have capability: "verify_artifact ?E (sample_verifier UNIV) KindAutonomyCapability (au_capability_digest (aut_capability ?E))
      (ap_issuer_subject_id (au_core (aut_capability ?E))) (au_owner_signature (aut_capability ?E))
      (json_of_autonomy_capability (aut_capability ?E)) None 30 = Inr ()"
    using capability_contract.compute_syntax [OF sha256_width_tail]
    by (intro sample_artifact) (simp_all add: aut_capability_fields aut_capability_core_def aut_intent_core_def Let_def)
  have green: "verify_sentinel ?E (sample_verifier UNIV) (aut_green ?E) (aut_kernel ?E) 30 = Inr ()"
    unfolding verify_sentinel_def using aut_green_digest [OF sha256_width_tail]
    by (intro sample_artifact) (simp_all add: aut_green_fields aut_kernel_core_def)
  show ?thesis
    using a b c quorum decision capability green
    by (simp add: consume_checks_def sample_consume_def fields rt_contract_def)
qed

lemma consumed:
  assumes "sample_up UNIV sample_intent s (Some auto_state)" and "presents sample_intent s auto_state"
  shows "\<exists>s' receipt. consume_autonomy_capability lenient_env (quiet_io, quiet_io) sample_consume 30 s = (s', Inr receipt)"
proof -
  have state: "sx_state s = Some auto_state" "ensure_usable s = Inr ()" "sx_config s = sample_config"
    using assms by (simp_all add: presents_def sample_up_def ready_def ensure_usable_def)
  obtain u where u: "validate_canonical_core tail_platform sample_intent 30 = Inr u" using auto_intent_live [of 30] by auto
  have fields: "rs_pending_red auto_state = None" "rs_autonomy_epoch auto_state = aut_epoch tail_platform"
    "rs_active_grants auto_state = [aut_grant tail_platform]" "rs_consumed_capability_digests auto_state = {||}"
    by (simp_all add: auto_state_def)
  have own: "\<not> foreign_identity sample_config sample_intent"
    "ap_grant_id (au_core (aut_capability tail_platform)) = gc_grant_id (ag_core (aut_grant tail_platform))"
    by (simp_all add: foreign_identity_def aut_intent_fields aut_intent_core_def aut_capability_fields aut_capability_core_def
        Let_def aut_grant_fields aut_grant_core_def)
  have next_state: "consume_next lenient_env s sample_consume 30 = Inr (sample_intent, seal_state tail_platform spent_state)"
    using state sample_resolves [OF assms(2) u] consume_checked own
    by (simp add: consume_next_def Let_def current_state_def ensure_positive_unfrozen_def fields spent_state_def sample_consume_def)
  have "light (seal_state tail_platform spent_state)" using spent_light by (simp add: light_def)
  from sample_commits [OF assms(1) this, of 30 CapabilityConsumed] auto_healthy [OF spent_shaped spent_fields, of 30 UNIV]
  obtain s' where s': "commit_transition lenient_env (quiet_io, quiet_io) CapabilityConsumed (seal_state tail_platform spent_state) 30 s = (s', Inr ())"
    by auto
  obtain c tid where "sx_protected_root s' = Some (protected_root_for_record tail_platform RootCommitted tid c
      (seal_state tail_platform (seal_state tail_platform spent_state)))"
    by (rule commit_root [OF s']) simp
  with next_state s' commit_transition_ok(2) [OF s'] show ?thesis
    by (simp add: consume_autonomy_capability_def rt_then_def rt_pure_def current_state_def)
qed


text \<open>
  The properties of the runtime, each applied to a store of the samples: one that was committed to
  an empty disk and opened again, a RED persisted on it, a capability consumed on it, and what it
  leaves on disk when it goes down.
\<close>

lemma lenient_store:
  obtains s where "reachable_store lenient_env sample_config s" "sample_up UNIV sample_intent s (Some auto_state)"
    "presents sample_intent s auto_state"
  using auto_store [of UNIV] by blast

lemma store_state_is_typed_witness: "typed_state tail_platform sample_config auto_state"
proof -
  obtain s where "reachable_store lenient_env sample_config s" "presents sample_intent s auto_state"
    using lenient_store by blast
  with store_state_is_typed [of lenient_env sample_config s auto_state] show ?thesis by (simp add: presents_def)
qed

section \<open>The fence\<close>

text \<open>The call that persists a RED, and a run of it alone.\<close>

definition red_call :: "object_io \<times> transition_io \<times> runtime_call \<times> u64" where
  "red_call = (\<lparr>ob_read_failed = None, ob_write_failed = None\<rparr>, (quiet_io, quiet_io),
     CallRed sample_digest (aut_red tail_platform) (aut_first tail_platform), 30)"

lemma red_run:
  obtains s s' where "reachable_store lenient_env sample_config s" "sx_state s = Some auto_state"
    "machine_run (runtime_act lenient_env) [red_call] s = (s', [SentinelRedPersisted])"
proof -
  obtain s where s: "reachable_store lenient_env sample_config s" "sample_up UNIV sample_intent s (Some auto_state)"
    "presents sample_intent s auto_state" using lenient_store by blast
  obtain s' where "persist_sentinel_red lenient_env (quiet_io, quiet_io) sample_digest (aut_red tail_platform)
      (aut_first tail_platform) 30 s = (s', Inr ())" using red_persisted [OF s(2,3)] by blast
  then have "machine_run (runtime_act lenient_env) [red_call] s = (s', [SentinelRedPersisted])"
    by (simp add: red_call_def)
  with that s(1,3) show ?thesis by (simp add: presents_def)
qed

lemma auto_opened: "fence_of (Some auto_state) = Opened"
  by (simp add: auto_state_def)

lemma runtime_refines_fence_witness: "\<exists>f. word_run fence_step [SentinelRedPersisted] Opened = Some f"
proof -
  obtain s s' where s: "reachable_store lenient_env sample_config s" "sx_state s = Some auto_state"
    "machine_run (runtime_act lenient_env) [red_call] s = (s', [SentinelRedPersisted])" by (rule red_run)
  from runtime_refines_fence [OF s(1,3)] s(2) auto_opened show ?thesis by auto
qed

lemma no_authority_behind_fence_witness:
  "\<exists>s s' t. reachable_store lenient_env sample_config s \<and>
     machine_run (runtime_act lenient_env) [red_call] s = (s', [SentinelRedPersisted]) \<and>
     sx_state s' = Some t \<and> ae_issuance_frozen (rs_autonomy_epoch t)"
proof -
  obtain s s' where s: "reachable_store lenient_env sample_config s"
    "machine_run (runtime_act lenient_env) [red_call] s = (s', [SentinelRedPersisted])" by (rule red_run)
  from no_authority_behind_fence [OF s(1), of "[red_call]" s' "[]" "[]"] s show ?thesis by auto
qed

section \<open>Commits\<close>

lemma auto_ready:
  "light auto_state" "seal_state tail_platform auto_state = auto_state" "rs_intent_index auto_state = sample_index sample_intent"
  "validate_state tail_platform sample_config auto_state 30 = Inr ()"
  "verify_state_artifacts tail_platform (sample_verifier UNIV) auto_state 30 = Inr ()"
proof -
  show sealed: "seal_state tail_platform auto_state = auto_state" and "rs_intent_index auto_state = sample_index sample_intent"
    by (simp_all add: auto_state_def)
  have parts: "rs_autonomy_epoch auto_state = aut_epoch tail_platform" "rs_pending_red auto_state = None"
    "rs_sentinel_outbox_tail auto_state = None" by (simp_all add: auto_state_def)
  show "validate_state tail_platform sample_config auto_state 30 = Inr ()"
    "verify_state_artifacts tail_platform (sample_verifier UNIV) auto_state 30 = Inr ()"
    using auto_healthy [OF auto_shaped_state parts, of 30 UNIV] sealed by simp_all
  show "light auto_state" by (rule auto_state_light)
qed

lemma blank_opens:
  obtains s' s'' where "commit_transition lenient_env (quiet_io, quiet_io) Bootstrap auto_state 30 (sample_blank sample_intent) = (s', Inr ())"
    "runtime_open lenient_env quiet_io None sample_config (disk_of s') 30 = (disk_of s'', Inr s'')"
proof -
  have "unat (sx_next_sequence (sample_blank sample_intent)) \<le> 5" by (simp add: sample_blank_def loaded_store_def empty_replay_def)
  moreover obtain v where "validate_canonical_core tail_platform sample_intent 30 = Inr v" using auto_intent_live [of 30] by auto
  ultimately show ?thesis
    using sample_reopens [OF sample_blank_up auto_ready(1), of sample_intent 30 UNIV _ Bootstrap] auto_ready
      aut_intent_digest(1) [OF sha256_width_tail] that by (metis (no_types, lifting))
qed

lemma blank_step:
  "in_step lenient_env (sample_blank sample_intent) None" "prepare_fresh lenient_env k t (sample_blank sample_intent)"
  using sample_blank_up [of UNIV sample_intent] sample_up_fresh [OF sample_blank_up] by (simp_all add: sample_up_def)

lemma two_phase_commit_atomic_witness:
  "\<exists>s' s''. commit_transition lenient_env (quiet_io, quiet_io) Bootstrap auto_state 30 (sample_blank sample_intent) = (s', Inr ()) \<and>
     reopens lenient_env sample_config (disk_of s') s'' \<and> sx_state s'' = Some auto_state"
proof -
  obtain s' s'' where s: "commit_transition lenient_env (quiet_io, quiet_io) Bootstrap auto_state 30 (sample_blank sample_intent) = (s', Inr ())"
    "runtime_open lenient_env quiet_io None sample_config (disk_of s') 30 = (disk_of s'', Inr s'')" by (rule blank_opens)
  have up: "reopens lenient_env sample_config (disk_of s') s''" using s(2) by (rule attempt)
  from two_phase_commit_atomic [OF _ _ _ blank_step s(1) up] sample_ready(1-3) auto_ready(2) s(1) up show ?thesis by auto
qed

text \<open>The intent of the samples expires at 500.\<close>

lemma sample_intent_entry:
  "fmlookup (rs_intent_index auto_state) sample_digest = Some (sample_entry sample_intent)"
  "ie_kind (sample_entry sample_intent) = StoredSovereign"
  "ve_parse_sovereign lenient_env (canonical_json tail_platform (json_of_sovereign_intent sample_intent)) = Inr sample_intent"
  "sc_expires_at (si_core sample_intent) \<le> 600"
  by (simp_all add: auto_state_def sample_index_def sample_entry_def sample_parse_def aut_intent_fields aut_intent_core_def Let_def)

text \<open>What the bootstrap commit of the samples left is opened at 30, and refused after the expiry of the
  intent that the committed state indexes.\<close>

lemma commit_then_open_witness:
  "\<exists>s' s''. commit_transition lenient_env (quiet_io, quiet_io) Bootstrap auto_state 30 (sample_blank sample_intent) = (s', Inr ()) \<and>
     runtime_open lenient_env quiet_io None sample_config (disk_of s') 30 = (disk_of s'', Inr s'') \<and>
     in_step lenient_env s'' (Some auto_state) \<and>
     (\<forall>d t. runtime_open lenient_env quiet_io None sample_config (disk_of s') 600 \<noteq> (d, Inr t))"
proof -
  let ?s = "sample_blank sample_intent" and ?open = "runtime_open lenient_env quiet_io None sample_config"
  have s: "ready no_fault ?s" "roomy ?s" "sx_config ?s = sample_config" "sx_objects ?s = sample_objects sample_intent"
    using sample_blank_up [of UNIV sample_intent] by (simp_all add: sample_up_def)
  have room: "journal_room lenient_env Bootstrap auto_state ?s"
    using prepare_length [OF s(2) auto_ready(1), of UNIV sample_intent Bootstrap] roomy_length [OF s(2)] by (simp add: journal_room_def)
  have "\<exists>s'. commit_transition lenient_env (quiet_io, quiet_io) Bootstrap auto_state 30 ?s = (s', Inr ()) \<and>
      in_step lenient_env s' (Some auto_state) \<and>
      (\<forall>later d res. ?open (disk_of s') later = (d, res) \<longrightarrow>
         disk_holds lenient_env d (Some auto_state) \<and>
         (\<forall>s''. res = Inr s'' \<longrightarrow> d = disk_of s'' \<and> in_step lenient_env s'' (Some auto_state)) \<and>
         ((\<exists>s''. res = Inr s'') \<longleftrightarrow> passes_open_checks lenient_env s' auto_state later))"
    using commit_then_open [of lenient_env no_fault, OF _ _ _ _ blank_step(1) s(1) room blank_step(2), of 30]
      sample_ready auto_ready s(3) by simp
  then obtain s' where
    commit: "commit_transition lenient_env (quiet_io, quiet_io) Bootstrap auto_state 30 ?s = (s', Inr ())"
    and step: "in_step lenient_env s' (Some auto_state)"
    and opened: "\<And>later d s''. ?open (disk_of s') later = (d, Inr s'') \<Longrightarrow> d = disk_of s'' \<and> in_step lenient_env s'' (Some auto_state)"
      "\<And>later d res. ?open (disk_of s') later = (d, res)
        \<Longrightarrow> (\<exists>s''. res = Inr s'') \<longleftrightarrow> passes_open_checks lenient_env s' auto_state later" by blast
  have shown: "presents sample_intent s' auto_state"
    using commit_transition_ok(2-4) [OF commit] step s auto_ready(3) aut_intent_digest(1) [OF sha256_width_tail]
    by (simp add: presents_def in_step_def)
  obtain v where "validate_canonical_core tail_platform sample_intent 30 = Inr v" using auto_intent_live [of 30] by auto
  from sample_intents_verified [OF shown this] have "passes_open_checks lenient_env s' auto_state 30"
    using commit_transition_ok(2-4) [OF commit] s(3) auto_ready sample_ready sample_config_open
    by (simp add: passes_open_checks_def)
  moreover obtain d res where run: "?open (disk_of s') 30 = (d, res)" by fastforce
  ultimately obtain s'' where "res = Inr s''" using opened(2) by blast
  with run opened(1) have "?open (disk_of s') 30 = (disk_of s'', Inr s'')" "in_step lenient_env s'' (Some auto_state)" by blast+
  moreover have "\<not> passes_open_checks lenient_env s' auto_state 600"
    using verified_intent_live [OF _ sample_intent_entry(1,2), of lenient_env s' 600] sample_intent_entry(3,4) shown
    by (auto simp: passes_open_checks_def presents_def sample_objects_def)
  then have "\<forall>d t. ?open (disk_of s') 600 \<noteq> (d, Inr t)" using opened(2) by blast
  ultimately show ?thesis using commit by blast
qed

section \<open>Histories\<close>

text \<open>A store on which the capability of the samples was consumed.\<close>

lemma consume_run:
  obtains s s' receipt where "sample_up UNIV sample_intent s (Some auto_state)"
    "consume_autonomy_capability lenient_env (quiet_io, quiet_io) sample_consume 30 s = (s', Inr receipt)"
proof -
  obtain s where s: "sample_up UNIV sample_intent s (Some auto_state)" "presents sample_intent s auto_state" using lenient_store by blast
  with consumed [OF s] that show ?thesis by blast
qed

lemma history_forgets_nothing_witness:
  "\<exists>t. extends auto_state t \<and> au_capability_digest (aut_capability tail_platform) |\<in>| rs_consumed_capability_digests t"
proof -
  obtain s s' receipt where s: "sample_up UNIV sample_intent s (Some auto_state)"
    "consume_autonomy_capability lenient_env (quiet_io, quiet_io) sample_consume 30 s = (s', Inr receipt)" by (rule consume_run)
  obtain t' i where t': "consume_next lenient_env s sample_consume 30 = Inr (i, t')"
    "commit_transition lenient_env (quiet_io, quiet_io) CapabilityConsumed t' 30 s = (s', Inr ())"
    using s(2) by (auto simp: consume_autonomy_capability_def rt_ok)
  have "run_call lenient_env oio (quiet_io, quiet_io) (CallConsume sample_consume) 30 s = (s', Inr ())" for oio
    using s(2) by (simp add: no_result_def rt_then_def rt_pure_def)
  then have life: "machine_life lenient_env sample_config (Up s) (Up s')"
    using machine_step.calls sample_up_calls [OF s(1)] by blast
  have up: "in_step lenient_env s (Some auto_state)" "\<not> sx_poisoned s" using s(1) by (simp_all add: sample_up_def ready_def)
  have fresh: "prepare_fresh lenient_env CapabilityConsumed t' s" by (rule sample_up_fresh [OF s(1)])
  from commit_outcome [OF _ _ _ up(1) fresh t'(2)] sample_ready(1-3) up(2) have usable: "\<not> sx_poisoned s'" by auto
  from history_forgets_nothing [OF _ _ _ up life usable] sample_ready(1-3)
  obtain t where t: "sx_state s' = Some t" "extends auto_state t" by auto
  have "au_capability_digest (aut_capability tail_platform) |\<in>| rs_consumed_capability_digests t"
    using t(1) commit_transition_ok(2) [OF t'(2)] t'(1) by (auto simp: consume_next_def Let_def sample_consume_def)
  with t(2) show ?thesis by blast
qed

lemma capability_consumed_once_witness:
  "\<exists>s e. consume_autonomy_capability lenient_env (quiet_io, quiet_io) sample_consume 40 s = (s, Inl e)"
proof -
  obtain s s' receipt where s: "sample_up UNIV sample_intent s (Some auto_state)"
    "consume_autonomy_capability lenient_env (quiet_io, quiet_io) sample_consume 30 s = (s', Inr receipt)" by (rule consume_run)
  have up: "in_step lenient_env s (Some auto_state)" using s(1) by (simp add: sample_up_def)
  have "\<exists>e. consume_autonomy_capability lenient_env (quiet_io, quiet_io) sample_consume 40 s' = (s', Inl e)"
    by (rule capability_consumed_once [OF _ _ _ up sample_up_calls [OF s(1)] s(2) rtranclp.rtrancl_refl refl])
      (use sample_ready(1-3) in simp_all)
  then show ?thesis by blast
qed

section \<open>Promises not kept\<close>

text \<open>A verifier that honours one epoch only.\<close>

abbreviation "strict_env \<equiv> sample_env {canonical_json tail_platform (json_of_autonomy_epoch (aut_epoch tail_platform))} (aut_intent tail_platform)"

lemma strict_signs_one_epoch: "signs_one_epoch (sample_verifier {b})"
  by (auto simp: signs_one_epoch_def sample_verifier_def split: if_splits)

lemma red_fence_cannot_be_raised_witness:
  "\<exists>s s' r. sx_state s = Some auto_state \<and> persist_sentinel_red strict_env (quiet_io, quiet_io) sample_digest (aut_red tail_platform)
     (aut_first tail_platform) 30 s = (s', r) \<and> r \<noteq> Inr () \<and> sx_state s' = Some auto_state"
proof -
  obtain s where s: "reachable_store strict_env sample_config s" "presents sample_intent s auto_state"
    using auto_store [of "{canonical_json tail_platform (json_of_autonomy_epoch (aut_epoch tail_platform))}"] by blast
  obtain s' r where run: "persist_sentinel_red strict_env (quiet_io, quiet_io) sample_digest (aut_red tail_platform)
     (aut_first tail_platform) 30 s = (s', r)" by fastforce
  from red_fence_cannot_be_raised [OF _ _ s(1) run] serde_writer_tail strict_signs_one_epoch run s(2)
  show ?thesis by (auto simp: presents_def)
qed

lemma expired_intent_blocks_open_witness:
  "\<exists>d d' err. disk_holds lenient_env d (Some auto_state) \<and> runtime_open lenient_env quiet_io None sample_config d 600 = (d', Inl err)"
proof -
  obtain s where s: "sample_up UNIV sample_intent s (Some auto_state)" "presents sample_intent s auto_state" using lenient_store by blast
  have holds: "machine_holds lenient_env (Up s) (Some auto_state)" using s(1) by (simp add: sample_up_def ready_def)
  have down: "machine_life lenient_env sample_config (Up s) (Down (disk_of s))" by (rule r_into_rtranclp) (rule crashes)
  have object: "machine_objects (Up s) sample_digest = Some (canonical_json tail_platform (json_of_sovereign_intent sample_intent))"
    using s(2) by (simp add: presents_def sample_objects_def)
  from expired_intent_blocks_open [OF _ _ _ holds down sample_intent_entry(1,2) object sample_intent_entry(3,4), of quiet_io None]
    sample_ready(1-3) in_step_disk [of lenient_env s "Some auto_state"] s(1)
  show ?thesis by (auto simp: disk_holds_def sample_up_def)
qed

end
