(* ===== verification/Runtime_Promotion.thy ===== *)
theory Runtime_Promotion
  imports Runtime_Witnesses
begin

text \<open>
  A promotion that succeeds: an agent with evidence for the tiers A0 to A3, the owner's intent to
  activate \<open>POLICY_AUTONOMOUS\<close> in the bootstrap epoch, the human decision on it, and the receipt,
  the grant and the epoch the activation commits.
\<close>

section \<open>Four tiers of evidence\<close>

definition climb :: "autonomy_tier \<Rightarrow> string option \<Rightarrow> tier_evidence" where
  "climb tier previous = seal_evidence tail_platform
     \<lparr>te_schema = TIER_EVIDENCE_SCHEMA, te_subject_id = ''agent'', te_tier = tier,
      te_evaluator_subject_id = ''judge'', te_proposer_subject_id = ''proposer'', te_executor_subject_id = None,
      te_verifier_principals = {||}, te_failure_domains = {||}, te_previous_evidence_digest = previous,
      te_exact_release_candidate_digest = aut_hash, te_shadow_receipt_digest = aut_hash,
      te_canary_receipt_digest = aut_hash, te_rollback_receipt_digest = aut_hash,
      te_metric_receipt_digest = aut_hash, te_recorded_at = 10, te_evidence_digest = [],
      te_evaluator_signature = ''sig''\<rparr>"

lemma climb_fields [simp]:
  "te_schema (climb t p) = TIER_EVIDENCE_SCHEMA" "te_subject_id (climb t p) = ''agent''" "te_tier (climb t p) = t"
  "te_evaluator_subject_id (climb t p) = ''judge''" "te_proposer_subject_id (climb t p) = ''proposer''"
  "te_executor_subject_id (climb t p) = None" "te_verifier_principals (climb t p) = {||}"
  "te_failure_domains (climb t p) = {||}" "te_previous_evidence_digest (climb t p) = p"
  "te_exact_release_candidate_digest (climb t p) = aut_hash" "te_shadow_receipt_digest (climb t p) = aut_hash"
  "te_canary_receipt_digest (climb t p) = aut_hash" "te_rollback_receipt_digest (climb t p) = aut_hash"
  "te_metric_receipt_digest (climb t p) = aut_hash" "te_evaluator_signature (climb t p) = ''sig''"
  "te_evidence_digest (climb t p) = compute_evidence_digest tail_platform (climb t p)"
  by (simp_all add: climb_def seal_evidence_def compute_evidence_digest_def)

lemma evidence_digest [simp]: "digest_syntax (compute_evidence_digest tail_platform x)"
  unfolding compute_evidence_digest_def by (rule digest_canonical_syntax [OF sha256_width_tail])

lemma climb_valid:
  assumes "tier_rank t < tier_rank A4AutonomousGovern" and "evidence_sequence_check (climb t p) previous = Inr ()"
  shows "validate_evidence tail_platform (climb t p) previous = Inr ()"
  using assms by (simp add: validate_evidence_def rt_require_non_empty_def rt_require_digest_def evidence_self_promotes_def
      evidence_seats_interested_def)

definition climb0 :: tier_evidence where "climb0 = climb A0Observe None"
definition climb1 :: tier_evidence where "climb1 = climb A1Propose (Some (te_evidence_digest climb0))"
definition climb2 :: tier_evidence where "climb2 = climb A2Execute (Some (te_evidence_digest climb1))"
definition climb3 :: tier_evidence where "climb3 = climb A3AutonomousLand (Some (te_evidence_digest climb2))"

definition climb_lane :: "tier_evidence list" where "climb_lane = [climb0, climb1, climb2, climb3]"

lemma climb_chain:
  "validate_evidence tail_platform climb0 None = Inr ()" "validate_evidence tail_platform climb1 (Some climb0) = Inr ()"
  "validate_evidence tail_platform climb2 (Some climb1) = Inr ()" "validate_evidence tail_platform climb3 (Some climb2) = Inr ()"
  unfolding climb3_def climb2_def climb1_def climb0_def
  by (rule climb_valid; simp add: evidence_sequence_check_def)+

lemma climb_lane_valid: "\<forall>c \<in> set (lane_checks tail_platform (''agent'', climb_lane)). c = Inr ()"
  using climb_chain by (simp add: lane_checks_def climb_lane_def) (simp add: climb0_def climb1_def climb2_def climb3_def)

lemma climb_signed: "t \<in> set climb_lane \<Longrightarrow> verify_evidence tail_platform (sample_verifier X) t now = Inr ()"
  unfolding verify_evidence_def
  by (intro sample_artifact) (auto simp: climb_lane_def climb0_def climb1_def climb2_def climb3_def)

lemma evidence_length [simp]: "length (compute_evidence_digest tail_platform x) = 64"
  by (simp add: compute_evidence_digest_def)

lemma tier_name_length: "length (tier_name t) \<le> 100"
  by (cases t) simp_all

lemma climb_weight:
  assumes "\<And>d. p = Some d \<Longrightarrow> length d = 64"
  shows "jweight (json_of_tier_evidence (climb t p)) \<le> 2 ^ 20"
  using weight_opt [of p, OF assms] tier_name_length [of t]
  by (simp add: json_of_tier_evidence_def TIER_EVIDENCE_SCHEMA_def json_fset_def sorted_list_of_fset.rep_eq json_opt_def [of _ None])

lemma climb_lane_light: "jweight (json_fmap (json_list json_of_tier_evidence) (fmupd ''agent'' climb_lane fmempty)) \<le> 2 ^ 30"
proof -
  have "jweight (json_of_tier_evidence climb0) \<le> 2 ^ 20" unfolding climb0_def by (rule climb_weight) simp
  moreover have "jweight (json_of_tier_evidence climb1) \<le> 2 ^ 20"
    unfolding climb1_def by (rule climb_weight) (simp add: climb0_def)
  moreover have "jweight (json_of_tier_evidence climb2) \<le> 2 ^ 20"
    unfolding climb2_def by (rule climb_weight) (simp add: climb1_def)
  moreover have "jweight (json_of_tier_evidence climb3) \<le> 2 ^ 20"
    unfolding climb3_def by (rule climb_weight) (simp add: climb2_def)
  ultimately show ?thesis by (simp add: json_fmap_def json_list_def climb_lane_def)
qed

section \<open>Epochs and grant\<close>

definition gated_epoch :: autonomy_epoch where
  "gated_epoch = (aut_epoch tail_platform)\<lparr>ae_autonomy_epoch := 0, ae_active_mode := HumanGated, ae_activation_receipt_id := None,
     ae_grants_digest := digest_canonical tail_platform AUTONOMY_GRANTS_DIGEST_DOMAIN (json_of_entries [])\<rparr>"

lemma gated_common:
  assumes "10 \<le> now" "now < 900"
  shows "validate_common tail_platform gated_epoch (aut_constitution tail_platform) [] now = Inr ()"
proof -
  have "compute_grants_digest tail_platform [] = Inr (ae_grants_digest gated_epoch)"
    by (simp add: compute_grants_digest_def gated_epoch_def)
  moreover have "digest_syntax (ae_grants_digest gated_epoch)"
    by (simp add: gated_epoch_def digest_canonical_syntax [OF sha256_width_tail])
  ultimately show ?thesis using auto_common(1) [OF assms] aut_constitution_digest [OF sha256_width_tail]
    by (auto simp: validate_common_def Let_def safety_state_check_def gated_epoch_def aut_constitution_fields(1) aut_constitution_core_def)
qed

definition up_grant :: autonomy_grant where
  "up_grant = seal_grant tail_platform \<lparr>ag_schema = AUTONOMY_GRANT_SCHEMA,
     ag_core = (aut_grant_core tail_platform)\<lparr>gc_promotion_receipt_id := te_evidence_digest climb3\<rparr>,
     ag_grant_digest = [], ag_owner_signature = ''sig''\<rparr>"

lemma up_grant_fields:
  "ag_core up_grant = (aut_grant_core tail_platform)\<lparr>gc_promotion_receipt_id := te_evidence_digest climb3\<rparr>"
  "ag_schema up_grant = AUTONOMY_GRANT_SCHEMA" "ag_owner_signature up_grant = ''sig''"
  "ag_grant_digest up_grant = compute_grant_digest tail_platform up_grant" "digest_syntax (ag_grant_digest up_grant)"
  by (simp_all add: up_grant_def seal_grant_def compute_grant_digest_def grant_contract.compute_syntax [OF sha256_width_tail])
    (simp add: digest_canonical_syntax [OF sha256_width_tail])

lemma climb3_digest: "digest_syntax (te_evidence_digest climb3)" "\<not> trims_empty (te_evidence_digest climb3)"
  by (simp_all add: climb3_def digest_syntax_not_blank)

lemma up_grant_valid:
  assumes "10 \<le> now" "now < 900"
  shows "validate_grant_at tail_platform up_grant now = Inr ()"
  using aut_grant_valid [OF sha256_width_tail assms] climb3_digest up_grant_fields
  by (simp add: validate_grant_at_def Let_def aut_grant_fields)

definition up_grants_digest :: string where
  "up_grants_digest = digest_canonical tail_platform AUTONOMY_GRANTS_DIGEST_DOMAIN (json_of_entries [(''grant'', ag_grant_digest up_grant)])"

lemma up_grants: "compute_grants_digest tail_platform [up_grant] = Inr up_grants_digest" "digest_syntax up_grants_digest"
  using up_grant_fields
  by (simp_all add: compute_grants_digest_def up_grants_digest_def aut_grant_core_def digest_canonical_syntax [OF sha256_width_tail])

section \<open>Intent and decision\<close>

definition up_intent :: sovereign_intent where
  "up_intent = seal_sovereign tail_platform \<lparr>si_schema = SOVEREIGN_ACTION_INTENT_SCHEMA,
     si_core = (aut_intent_core tail_platform)\<lparr>sc_action_class := ''autonomy.activate'', sc_decision_subject_id := ''owner'',
       sc_caller_subject_id := ''owner'', sc_required_authority_variant := Human, sc_applicable_grant_id := None,
       sc_applicable_grant_digest := None, sc_candidate_digest := Some aut_hash, sc_active_mode := HumanGated,
       sc_effective_tier := A0Observe, sc_autonomy_epoch := 0\<rparr>,
     si_intent_digest = [], si_intent_core_ref = for_sovereign_digest []\<rparr>"

lemma up_intent_fields:
  "si_core up_intent = (aut_intent_core tail_platform)\<lparr>sc_action_class := ''autonomy.activate'', sc_decision_subject_id := ''owner'',
       sc_caller_subject_id := ''owner'', sc_required_authority_variant := Human, sc_applicable_grant_id := None,
       sc_applicable_grant_digest := None, sc_candidate_digest := Some aut_hash, sc_active_mode := HumanGated,
       sc_effective_tier := A0Observe, sc_autonomy_epoch := 0\<rparr>"
  "si_schema up_intent = SOVEREIGN_ACTION_INTENT_SCHEMA"
  by (simp_all add: up_intent_def seal_sovereign_def Let_def)

lemma up_intent_digest:
  "digest_syntax (si_intent_digest up_intent)" "si_intent_digest up_intent = compute_sovereign_digest tail_platform up_intent"
  "validate_intent_ref (si_intent_core_ref up_intent) False = Inr ()"
  "ir_intent_digest (si_intent_core_ref up_intent) = si_intent_digest up_intent"
proof -
  note valid = sovereign_contract.seal_valid [OF sha256_width_tail, folded up_intent_def, of "\<lparr>si_schema = SOVEREIGN_ACTION_INTENT_SCHEMA,
     si_core = (aut_intent_core tail_platform)\<lparr>sc_action_class := ''autonomy.activate'', sc_decision_subject_id := ''owner'',
       sc_caller_subject_id := ''owner'', sc_required_authority_variant := Human, sc_applicable_grant_id := None,
       sc_applicable_grant_digest := None, sc_candidate_digest := Some aut_hash, sc_active_mode := HumanGated,
       sc_effective_tier := A0Observe, sc_autonomy_epoch := 0\<rparr>,
     si_intent_digest = [], si_intent_core_ref = for_sovereign_digest []\<rparr>", folded up_intent_def]
  from valid show "si_intent_digest up_intent = compute_sovereign_digest tail_platform up_intent"
    "validate_intent_ref (si_intent_core_ref up_intent) False = Inr ()"
    "ir_intent_digest (si_intent_core_ref up_intent) = si_intent_digest up_intent" by blast+
  then show "digest_syntax (si_intent_digest up_intent)" using sovereign_contract.compute_syntax [OF sha256_width_tail] by simp
qed

lemma up_self: "validate_no_self_authorization (si_core up_intent) = Inr ()"
  unfolding up_intent_fields by (simp add: validate_no_self_authorization_def aut_intent_core_def map_filter_simps)

lemma up_canonical:
  assumes "20 \<le> now" "now < 500"
  shows "\<exists>v. validate_canonical_core tail_platform up_intent now = Inr v"
proof -
  have "sc_issued_at (si_core up_intent) = 20" "sc_expires_at (si_core up_intent) = 500"
    "sc_semantic_action_id (si_core up_intent) = ''mission.land''"
    unfolding up_intent_fields by (simp_all add: aut_intent_core_def)
  then show ?thesis using up_intent_digest assms
    by (simp add: validate_canonical_core_def intent_digest_checks_def Let_def up_intent_fields(2) up_self)
qed

lemma up_sovereign:
  assumes "20 \<le> now" "now < 500"
  shows "\<exists>v. validate_sovereign tail_platform up_intent gated_epoch None now = Inr v"
proof -
  obtain v where v: "validate_canonical_core tail_platform up_intent now = Inr v" using up_canonical [OF assms] by blast
  have "\<forall>c \<in> set (sovereign_field_checks (si_core up_intent)). c = Inr ()"
    using aut_constitution_digest [OF sha256_width_tail] unfolding up_intent_fields
    by (simp add: sovereign_field_checks_def aut_intent_core_def)
  moreover have "\<forall>c \<in> set (intent_epoch_checks (si_core up_intent) gated_epoch now). c = Inr ()"
    using aut_constitution_digest [OF sha256_width_tail] assms
    by (simp add: intent_epoch_checks_def up_self) (simp add: up_intent_fields(1) aut_intent_core_def gated_epoch_def aut_epoch_def)
  moreover have "intent_grant_check tail_platform (si_core up_intent) None now = Inr ()"
    unfolding up_intent_fields by (simp add: intent_grant_check_def)
  ultimately show ?thesis using v up_intent_digest
    by (simp add: validate_sovereign_def intent_digest_checks_def Let_def up_intent_fields(2))
qed

definition up_decision :: human_authority where
  "up_decision = (let d = \<lparr>hu_schema = AUTHORITY_DECISION_SCHEMA,
     hu_core = \<lparr>hc_binding = from_intent up_intent ''d'' False None, hc_human_approval_digest = aut_hash,
       hc_human_decision_digest = aut_hash, hc_human_key_id = ''k''\<rparr>,
     hu_decision_digest = [], hu_owner_signature = ''sig''\<rparr> in
     d\<lparr>hu_decision_digest := compute_decision_digest tail_platform (HumanDecision d)\<rparr>)"

lemma up_decision_fields:
  "hu_schema up_decision = AUTHORITY_DECISION_SCHEMA" "hc_binding (hu_core up_decision) = from_intent up_intent ''d'' False None"
  "hc_human_approval_digest (hu_core up_decision) = aut_hash" "hc_human_decision_digest (hu_core up_decision) = aut_hash"
  "hc_human_key_id (hu_core up_decision) = ''k''" "hu_owner_signature up_decision = ''sig''"
  "hu_decision_digest up_decision = compute_decision_digest tail_platform (HumanDecision up_decision)"
  by (simp_all add: up_decision_def Let_def compute_decision_digest_def)

lemma up_decision_valid:
  "\<exists>v. validate_positive_decision tail_platform (HumanDecision up_decision) up_intent (aut_constitution tail_platform)
     (aut_kernel tail_platform) None 30 = Inr v"
proof -
  obtain v where v: "validate_canonical_core tail_platform up_intent 30 = Inr v" using up_canonical [of 30] by auto
  have i: "sc_required_authority_variant (si_core up_intent) = Human"
    "sc_constitution_digest (si_core up_intent) = ks_constitution_digest (aut_constitution tail_platform)"
    "sc_constitution_epoch (si_core up_intent) = 0"
    unfolding up_intent_fields by (simp_all add: aut_intent_core_def)
  have b: "db_constitution_digest (from_intent up_intent ''d'' False None) = ks_constitution_digest (aut_constitution tail_platform)"
    "db_constitution_epoch (from_intent up_intent ''d'' False None) = 0"
    "\<not> db_sentinel_required (from_intent up_intent ''d'' False None)"
    "db_sentinel_verdict_digest (from_intent up_intent ''d'' False None) = None"
    by (simp_all add: from_intent_def Let_def i)
  have "validate_decision_binding (from_intent up_intent ''d'' False None) up_intent Human None = Inr ()"
    using from_intent_accepted [of up_intent "''d''" False None None] i b by (simp add: sentinel_binding_ok)
  then show ?thesis using v b decision_digest_wellformed [OF sha256_width_tail, of "HumanDecision up_decision"]
    by (simp add: validate_positive_decision_def up_decision_fields constitution_binding_check_def aut_constitution_fields(1))
      (simp add: aut_constitution_core_def)
qed

section \<open>Receipt and target epoch\<close>

definition up_lanes :: "(string, tier_evidence list) fmap" where
  "up_lanes = fmupd ''agent'' climb_lane fmempty"

definition up_receipt :: activation_receipt where
  "up_receipt = seal_activation tail_platform \<lparr>at_schema = AUTONOMY_ACTIVATION_RECEIPT_SCHEMA,
     at_core = (aut_receipt_core tail_platform)\<lparr>
       tc_previous_mode_epoch_digest := compute_epoch_reference_digest tail_platform gated_epoch,
       tc_grants_digest := up_grants_digest,
       tc_g9_canary_receipts_digest := compute_tier_evidence_set_digest tail_platform up_lanes,
       tc_authority_decision_digest := decision_digest (HumanDecision up_decision), tc_issuer_subject_id := ''owner''\<rparr>,
     at_receipt_digest = [], at_signature = ''sig''\<rparr>"

definition up_receipt_id :: string where
  "up_receipt_id = ''autonomy-activation:'' @ compute_activation_digest tail_platform up_receipt"

lemma up_receipt_fields:
  "at_core up_receipt = (aut_receipt_core tail_platform)\<lparr>tc_receipt_id := up_receipt_id,
       tc_previous_mode_epoch_digest := compute_epoch_reference_digest tail_platform gated_epoch,
       tc_grants_digest := up_grants_digest,
       tc_g9_canary_receipts_digest := compute_tier_evidence_set_digest tail_platform up_lanes,
       tc_authority_decision_digest := decision_digest (HumanDecision up_decision), tc_issuer_subject_id := ''owner''\<rparr>"
  "at_schema up_receipt = AUTONOMY_ACTIVATION_RECEIPT_SCHEMA" "at_signature up_receipt = ''sig''"
  "at_receipt_digest up_receipt = compute_activation_digest tail_platform up_receipt"
  by (simp_all add: up_receipt_def up_receipt_id_def seal_activation_def compute_activation_digest_def Let_def)

definition up_epoch :: autonomy_epoch where
  "up_epoch = (aut_epoch tail_platform)\<lparr>ae_activation_receipt_id := Some up_receipt_id, ae_grants_digest := up_grants_digest\<rparr>"

lemma up_receipt_id_not_blank: "\<not> trims_empty up_receipt_id"
  by (simp add: up_receipt_id_def)

lemma up_epoch_valid: "validate_common tail_platform up_epoch (aut_constitution tail_platform) [up_grant] 30 = Inr ()"
proof -
  have g: "gc_mode (ag_core up_grant) = PolicyAutonomous" "gc_constitution_epoch (ag_core up_grant) = 0" "gc_autonomy_epoch (ag_core up_grant) = 1"
    by (simp_all add: up_grant_fields aut_grant_core_def)
  show ?thesis
    using up_grants up_grant_valid [of 30] aut_constitution_digest [OF sha256_width_tail] up_receipt_id_not_blank
    unfolding validate_common_def epoch_grant_checks_def safety_state_check_def
    by (simp add: Let_def g) (simp add: up_epoch_def aut_epoch_def aut_constitution_fields(1) aut_constitution_core_def)
qed

lemma up_lanes_digest: "digest_syntax (compute_tier_evidence_set_digest tail_platform up_lanes)"
  unfolding compute_tier_evidence_set_digest_def by (rule digest_canonical_syntax [OF sha256_width_tail])

lemma up_activation:
  "\<exists>v. validate_activation tail_platform up_receipt gated_epoch up_epoch (aut_constitution tail_platform) [up_grant]
     \<lparr>ax_exact_release_candidate_digest = aut_hash, ax_authority_decision = HumanDecision up_decision, ax_now_ms = 30\<rparr> = Inr v"
proof -
  let ?E = tail_platform
  let ?x = "\<lparr>ax_exact_release_candidate_digest = aut_hash, ax_authority_decision = HumanDecision up_decision, ax_now_ms = 30\<rparr>"
  have d: "digest_syntax (compute_activation_digest ?E up_receipt)"
    by (rule activation_contract.compute_syntax [OF sha256_width_tail])
  have g: "digest_syntax (compute_epoch_reference_digest ?E gated_epoch)"
    by (simp add: compute_epoch_reference_digest_def digest_canonical_syntax [OF sha256_width_tail])
  have h: "digest_syntax (hu_decision_digest up_decision)"
    unfolding up_decision_fields by (rule decision_digest_wellformed [OF sha256_width_tail])
  have kc: "kc_constitution_epoch (aut_constitution_core ?E) = 0" by (simp add: aut_constitution_core_def)
  have previous: "\<not> activation_previous_differs (at_core up_receipt) gated_epoch"
    by (simp add: activation_previous_differs_def up_receipt_fields) (simp add: aut_receipt_core_def gated_epoch_def aut_epoch_def)
  have target: "\<not> activation_target_differs (at_core up_receipt) gated_epoch up_epoch (aut_constitution ?E)"
    by (simp add: activation_target_differs_def up_receipt_fields aut_constitution_fields(1) kc)
      (simp add: aut_receipt_core_def gated_epoch_def up_epoch_def aut_epoch_def)
  have modes: "ae_active_mode gated_epoch = HumanGated" "ae_active_mode up_epoch = PolicyAutonomous"
    by (simp_all add: gated_epoch_def up_epoch_def)
  have "\<forall>c \<in> set (activation_head_checks ?E up_receipt gated_epoch (aut_constitution ?E) ?x). c = Inr ()"
    using g aut_constitution_digest [OF sha256_width_tail] up_receipt_id_not_blank
    by (simp add: activation_head_checks_def Let_def up_receipt_fields)
      (simp add: aut_receipt_core_def is_ratified_custody_floor_def RATIFIED_CUSTODY_FLOORS_def SECURE_ENCLAVE_CUSTODY_FLOOR_V1_def)
  moreover have "\<forall>c \<in> set (activation_tail_checks ?E up_receipt gated_epoch up_epoch (aut_constitution ?E) [up_grant] ?x up_grants_digest). c = Inr ()"
    using g d h up_epoch_valid up_grants(2) up_lanes_digest
    by (simp add: activation_tail_checks_def Let_def previous target modes up_receipt_fields(2-4))
      (simp add: up_receipt_fields(1) aut_receipt_core_def up_receipt_id_def)
  ultimately show ?thesis using up_grants(1) by (simp add: validate_activation_def)
qed

section \<open>The stores\<close>

abbreviation "up_env \<equiv> sample_env UNIV up_intent"

definition gated_state :: runtime_state where
  "gated_state = sample_state gated_epoch [] fmempty up_lanes up_intent"

lemma up_entry_weight: "jweight (json_of_intent_entry (sample_entry up_intent)) \<le> 2 ^ 20"
  by (simp add: json_of_intent_entry_def sample_entry_def Let_def record_lengths INTENT_CORE_ENTRY_SCHEMA_def syntax_length [OF up_intent_digest(1)]
      CANONICALIZATION_VERSION_def digest_domain_bytes_def tail_hash_length)
    (simp add: up_intent_def seal_sovereign_def for_sovereign_digest_def Let_def record_lengths CANONICALIZATION_VERSION_def)

lemma gated_light: "light gated_state"
proof (rule sample_light [OF _ up_intent_digest(1) up_entry_weight])
  show "jweight (json_of_autonomy_epoch (rs_autonomy_epoch gated_state)) \<le> 2 ^ 20"
    unfolding gated_state_def sample_state_fields
    by (rule epoch_weight) (simp_all add: gated_epoch_def AUTONOMY_EPOCH_SCHEMA_def record_lengths)
  show "jweight (json_fmap (json_list json_of_tier_evidence) (rs_tier_evidence gated_state)) \<le> 2 ^ 30"
    using climb_lane_light by (simp add: gated_state_def up_lanes_def)
qed (simp_all add: gated_state_def json_list_def json_fmap_def fset_light [simplified] none_light [simplified])

lemma gated_ok:
  "validate_state tail_platform sample_config (seal_state tail_platform gated_state) 30 = Inr ()"
  "verify_state_artifacts tail_platform (sample_verifier UNIV) (seal_state tail_platform gated_state) 30 = Inr ()"
proof -
  have t: "sample_based up_intent gated_state" "rs_autonomy_epoch gated_state = gated_epoch" "rs_active_grants gated_state = []"
    "rs_activation_receipts gated_state = fmempty" "rs_tier_evidence gated_state = up_lanes" "rs_pending_red gated_state = None"
    "rs_sentinel_outbox_tail gated_state = None"
    by (simp_all add: gated_state_def)
  have "ae_safety_state gated_epoch = Healthy" "ae_autonomy_epoch gated_epoch = 0" "ae_protected_root_signature gated_epoch = ''sig''"
    by (simp_all add: gated_epoch_def)
  then show "validate_state tail_platform sample_config (seal_state tail_platform gated_state) 30 = Inr ()"
    using climb_lane_valid gated_common [of 30]
    by (intro sample_state_valid [OF t(1) up_intent_digest(1)]) (simp_all add: t lineage_check_def pending_red_check_def up_lanes_def)
  show "verify_state_artifacts tail_platform (sample_verifier UNIV) (seal_state tail_platform gated_state) 30 = Inr ()"
    using climb_signed \<open>ae_protected_root_signature gated_epoch = ''sig''\<close>
    by (intro sample_signed [OF t(1)]) (simp_all add: t pending_red_requests_def up_lanes_def map_values_def)
qed

definition up_request :: activation_request where
  "up_request = \<lparr>aq_intent_digest = si_intent_digest up_intent, aq_decision = HumanDecision up_decision, aq_sentinel = None,
     aq_receipt = up_receipt, aq_constitution = aut_constitution tail_platform, aq_independence = aut_spec tail_platform 0,
     aq_epoch = up_epoch, aq_grants = [up_grant], aq_candidate_digest = aut_hash\<rparr>"

definition up_state :: runtime_state where
  "up_state = (bump gated_state)\<lparr>rs_independence_spec := aut_spec tail_platform 0, rs_constitution := aut_constitution tail_platform,
     rs_autonomy_epoch := up_epoch, rs_active_grants := [up_grant], rs_activation_receipts := fmupd up_receipt_id up_receipt fmempty\<rparr>"

lemma up_state_fields:
  "sample_based up_intent up_state" "rs_autonomy_epoch up_state = up_epoch" "rs_active_grants up_state = [up_grant]"
  "rs_activation_receipts up_state = fmupd up_receipt_id up_receipt fmempty" "rs_tier_evidence up_state = up_lanes"
  "rs_pending_red up_state = None" "rs_sentinel_outbox_tail up_state = None" "rs_consumed_capability_digests up_state = {||}"
  by (simp_all add: up_state_def gated_state_def sample_based_def bump_def sample_state_def)

lemma up_signed:
  "verify_grant tail_platform (sample_verifier X) up_grant now = Inr ()"
  "verify_activation tail_platform (sample_verifier X) up_receipt now = Inr ()"
  "verify_decision tail_platform (sample_verifier X) (HumanDecision up_decision) ''owner'' None now = Inr ()"
  "verify_constitution tail_platform (sample_verifier X) (aut_constitution tail_platform) now = Inr ()"
  "verify_epoch tail_platform (sample_verifier UNIV) up_epoch ''owner'' now = Inr ()"
  unfolding verify_grant_def verify_activation_def verify_decision_def verify_constitution_def verify_epoch_def target_epoch_reference_digest_def
  using up_grant_fields(5) aut_constitution_digest [OF sha256_width_tail]
  by (auto intro!: sample_artifact simp: up_grant_fields(1-3) up_receipt_fields activation_contract.compute_syntax [OF sha256_width_tail]
      up_decision_fields decision_digest_wellformed [OF sha256_width_tail] digest_canonical_syntax [OF sha256_width_tail]
      aut_constitution_fields(1,4) aut_constitution_core_def up_epoch_def aut_grant_core_def)

lemma up_light: "light up_state"
proof (rule sample_light [OF up_state_fields(1) up_intent_digest(1) up_entry_weight])
  have d: "length up_receipt_id = 84" "length (hu_decision_digest up_decision) = 64" "length up_grants_digest = 64"
    by (simp_all add: up_receipt_id_def record_lengths up_decision_fields compute_decision_digest_def up_grants_digest_def)
  show "jweight (json_of_autonomy_epoch (rs_autonomy_epoch up_state)) \<le> 2 ^ 20"
    unfolding up_state_fields by (rule epoch_weight) (auto simp: up_epoch_def AUTONOMY_EPOCH_SCHEMA_def record_lengths d)
  have "jweight (json_of_autonomy_grant up_grant) \<le> 2 ^ 20"
    by (rule grant_weight [OF up_grant_fields(1)]) (simp_all add: up_grant_fields(2-4) record_lengths, simp add: climb3_def)
  then show "jweight (json_list json_of_autonomy_grant (rs_active_grants up_state)) \<le> 2 ^ 30"
    by (simp add: up_state_fields json_list_def)
  have "jweight (json_of_activation_receipt up_receipt) \<le> 2 ^ 20"
    by (simp add: json_of_activation_receipt_def json_of_activation_core_def up_receipt_fields aut_receipt_core_def record_lengths
        AUTONOMY_ACTIVATION_RECEIPT_SCHEMA_def json_opt_def SECURE_ENCLAVE_CUSTODY_FLOOR_V1_def d compute_epoch_reference_digest_def
        compute_tier_evidence_set_digest_def)
  then show "jweight (json_fmap json_of_activation_receipt (rs_activation_receipts up_state)) \<le> 2 ^ 30"
    using d by (simp add: up_state_fields json_fmap_def)
  show "jweight (json_fmap (json_list json_of_tier_evidence) (rs_tier_evidence up_state)) \<le> 2 ^ 30"
    using climb_lane_light by (simp add: up_state_fields up_lanes_def)
qed (simp_all add: up_state_fields fset_light [simplified] none_light [simplified])

lemma up_ok:
  "validate_state tail_platform sample_config (seal_state tail_platform up_state) 30 = Inr ()"
  "verify_state_artifacts tail_platform (sample_verifier UNIV) (seal_state tail_platform up_state) 30 = Inr ()"
proof -
  have e: "ae_safety_state up_epoch = Healthy" "ae_protected_root_signature up_epoch = ''sig''" "ae_activation_receipt_id up_epoch = Some up_receipt_id"
    by (simp_all add: up_epoch_def)
  show "validate_state tail_platform sample_config (seal_state tail_platform up_state) 30 = Inr ()"
    using climb_lane_valid up_epoch_valid e
    by (intro sample_state_valid [OF up_state_fields(1) up_intent_digest(1)])
      (simp_all add: up_state_fields lineage_check_def lineage_recognised_def pending_red_check_def up_lanes_def activation_entry_check_def up_receipt_fields)
  show "verify_state_artifacts tail_platform (sample_verifier UNIV) (seal_state tail_platform up_state) 30 = Inr ()"
    using climb_signed e up_signed
    by (intro sample_signed [OF up_state_fields(1)]) (simp_all add: up_state_fields pending_red_requests_def up_lanes_def map_values_def)
qed

lemma up_evidence:
  "validate_target_grant_evidence tail_platform gated_state [up_grant] aut_hash up_receipt = Inr ()"
proof -
  have "find (\<lambda>t. te_tier t = A3AutonomousLand) climb_lane = Some climb3"
    by (simp add: climb_lane_def climb0_def climb1_def climb2_def climb3_def)
  then have "grant_evidence_of gated_state up_grant = Some climb3"
    by (simp add: grant_evidence_of_def gated_state_def up_grant_fields up_lanes_def aut_grant_core_def)
  then show ?thesis
    by (simp add: validate_target_grant_evidence_def grant_evidence_check_def grant_cap_check_def up_grant_fields(1) up_receipt_fields(1)
        aut_grant_core_def Let_def gated_state_def) (simp add: climb3_def)
qed

lemma up_checked: "\<forall>c \<in> set (activation_request_checks up_env gated_state up_intent up_request 30). c = Inr ()"
proof -
  obtain a b c d where "validate_sovereign tail_platform up_intent gated_epoch None 30 = Inr a"
    "validate_positive_decision tail_platform (HumanDecision up_decision) up_intent (aut_constitution tail_platform) (aut_kernel tail_platform) None 30 = Inr b"
    "validate_activation tail_platform up_receipt gated_epoch up_epoch (aut_constitution tail_platform) [up_grant]
     \<lparr>ax_exact_release_candidate_digest = aut_hash, ax_authority_decision = HumanDecision up_decision, ax_now_ms = 30\<rparr> = Inr c"
    "validate_constitution tail_platform (aut_constitution tail_platform) (aut_spec tail_platform 0) (aut_kernel tail_platform) 30 = Inr d"
    using up_sovereign [of 30] up_decision_valid up_activation aut_constitution_valid [OF sha256_width_tail, of 30] by auto
  moreover have "rs_autonomy_epoch gated_state = gated_epoch" "rs_constitution gated_state = aut_constitution tail_platform"
    "rs_kernel gated_state = aut_kernel tail_platform"
    by (simp_all add: gated_state_def sample_state_def)
  moreover have "tc_issuer_subject_id (at_core up_receipt) = ''owner''" by (simp add: up_receipt_fields)
  moreover have "\<not> activation_self_promotes [up_grant] up_receipt up_intent"
    by (simp add: activation_self_promotes_def promoted_subjects_def up_grant_fields up_receipt_fields up_intent_fields Let_def)
      (simp add: aut_grant_core_def aut_intent_core_def)
  moreover have "sc_action_class (si_core up_intent) = ''autonomy.activate''" "sc_candidate_digest (si_core up_intent) = Some aut_hash"
    "sc_issuer_subject_id (si_core up_intent) = ''owner''" "sc_decision_subject_id (si_core up_intent) = ''owner''"
    by (simp_all add: up_intent_fields) (simp add: aut_intent_core_def)
  ultimately show ?thesis
    using up_signed up_evidence by (simp add: activation_request_checks_def up_request_def rt_contract_def Let_def)
qed

lemma promoted:
  obtains s s' where "reachable_store up_env sample_config s" "activate_mode up_env (quiet_io, quiet_io) up_request 30 s = (s', Inr ())"
proof -
  obtain u where u: "validate_canonical_core tail_platform up_intent 30 = Inr u" using up_canonical [of 30] by auto
  have sealed: "seal_state tail_platform gated_state = gated_state" "rs_intent_index gated_state = sample_index up_intent"
    by (simp_all add: gated_state_def)
  obtain s where s: "reachable_store up_env sample_config s" "sample_up UNIV up_intent s (Some gated_state)" "presents up_intent s gated_state"
    using sample_store [OF gated_light gated_ok sealed(2) up_intent_digest(1) u] sealed(1) by metis
  have state: "sx_state s = Some gated_state" "ensure_positive_unfrozen s = Inr ()"
    using s(2,3) by (simp_all add: presents_def sample_up_def ready_def ensure_usable_def ensure_positive_unfrozen_def current_state_def
        gated_state_def gated_epoch_def)
  have fresh: "rs_activation_receipts gated_state = fmempty" "tc_receipt_id (at_core up_receipt) = up_receipt_id"
    by (simp_all add: gated_state_def up_receipt_fields)
  have next_state: "activate_next up_env s up_request 30 = Inr (seal_state tail_platform up_state)"
    using state sample_resolves [OF s(3) u] up_checked fresh
    by (simp add: activate_next_def Let_def current_state_def) (simp add: up_request_def up_state_def fresh)
  have "light (seal_state tail_platform up_state)" using up_light by (simp add: light_def)
  from sample_commits [OF s(2) this, of 30 ModeActivated] up_ok
  obtain s' where "commit_transition up_env (quiet_io, quiet_io) ModeActivated (seal_state tail_platform up_state) 30 s = (s', Inr ())" by auto
  with next_state have "activate_mode up_env (quiet_io, quiet_io) up_request 30 s = (s', Inr ())"
    by (simp add: activate_mode_def commit_next_def rt_then_def rt_pure_def)
  with that s(1) show ?thesis by blast
qed

lemma activated_grants_have_climbed_witness:
  "\<exists>t. rs_active_grants t = [up_grant] \<and> climbed tail_platform t aut_hash up_grant"
proof -
  obtain s s' where s: "reachable_store up_env sample_config s" "activate_mode up_env (quiet_io, quiet_io) up_request 30 s = (s', Inr ())"
    by (rule promoted)
  from activated_grants_have_climbed [OF s] show ?thesis by (auto simp: up_request_def)
qed

end
