(* ===== verification/Action_Catalog.thy ===== *)
theory Action_Catalog
  imports Action_Policy
begin

text \<open>
  \<open>m1nd-control/src/action_catalog.rs\<close>: the inventory of semantic actions with their ingresses,
  complete effects, risk class and authority floor, its self-digest, \<open>validate\<close> with every error
  branch in the order of the code, and the built-in catalog \<open>m1nd10_action_catalog\<close> entry by entry.
\<close>

section \<open>Entries\<close>

definition ACTION_CATALOG_SCHEMA :: string where
  "ACTION_CATALOG_SCHEMA = ''m1nd-action-catalog-v1''"
definition ACTION_CATALOG_DIGEST_DOMAIN :: string where
  "ACTION_CATALOG_DIGEST_DOMAIN = ''m1nd-action-catalog-v1''"
definition M1ND10_ACTION_CATALOG_VERSION :: string where
  "M1ND10_ACTION_CATALOG_VERSION = ''m1nd10-g2-2026-07-18.4''"

text \<open>The variant \<open>Ordinary\<close> of the floors; the name alone is the authority variant.\<close>

datatype authority_floor =
    FloorOrdinary | ScopedGrantA2 | PositiveSovereign | ServiceIdentity | SafetyOnly

record catalog_entry =
  ce_action :: action_id
  ce_ingresses :: "ingress set"
  ce_complete_effects :: "effect set"
  ce_risk_class :: risk_class
  ce_authority_floor :: authority_floor

record action_catalog =
  ct_schema :: string
  ct_catalog_version :: string
  ct_entries :: "catalog_entry list"
  ct_catalog_digest :: string

record catalog_validation =
  cl_entry_count :: nat
  cl_action_count :: nat
  cl_ingress_count :: nat
  cl_computed_catalog_digest :: string

datatype catalog_error =
    CatalogSchema string
  | CatalogEmptyRequired string
  | NoEntries
  | InvalidSemanticActionId action_id
  | DuplicateAction action_id
  | EntriesNotStrictlySorted action_id action_id
  | EmptyIngresses action_id
  | EmptyEffects action_id
  | NonSafetyEffectInSafetyAction action_id effect
  | SafetyEffectOutsideSafetyAction action_id effect
  | SovereignEffectWithoutPositiveFloor action_id
  | PositiveFloorWithoutSovereignEffect action_id
  | PositiveSovereignMustBeCritical action_id
  | SafetyOnlyMustBeCritical action_id
  | CriticalActionHasInsufficientFloor action_id
  | ElevatedEffectInOrdinaryAction action_id effect
  | ExecutableReplacementWithoutPositiveFloor action_id
  | ServiceIdentityWithoutServiceIngress action_id
  | CatalogDigestMismatch string string

text \<open>The derived \<open>Ord\<close> of an ingress, by which its \<open>BTreeSet\<close> is written.\<close>

lemma ingress_rank_inj: "ingress_rank a = ingress_rank b \<Longrightarrow> a = b"
  by (cases a; cases b; simp)

instantiation ingress :: linorder
begin

definition less_eq_ingress :: "ingress \<Rightarrow> ingress \<Rightarrow> bool" where
  "less_eq_ingress a b \<longleftrightarrow> ingress_rank a \<le> ingress_rank b"

definition less_ingress :: "ingress \<Rightarrow> ingress \<Rightarrow> bool" where
  "less_ingress a b \<longleftrightarrow> ingress_rank a < ingress_rank b"

instance
  by standard (auto simp: less_eq_ingress_def less_ingress_def intro: ingress_rank_inj)

end

section \<open>Serialisation and digest\<close>

fun floor_name :: "authority_floor \<Rightarrow> string" where
  "floor_name FloorOrdinary = ''ORDINARY''"
| "floor_name ScopedGrantA2 = ''SCOPED_GRANT_A2''"
| "floor_name PositiveSovereign = ''POSITIVE_SOVEREIGN''"
| "floor_name ServiceIdentity = ''SERVICE_IDENTITY''"
| "floor_name SafetyOnly = ''SAFETY_ONLY''"

definition json_of_catalog_entry :: "catalog_entry \<Rightarrow> json" where
  "json_of_catalog_entry e = JObject
    [(''action'', JString (ce_action e)),
     (''ingresses'', JArray (map (\<lambda>i. JString (ingress_name i)) (sorted_list_of_set (ce_ingresses e)))),
     (''complete_effects'', json_of_effects (ce_complete_effects e)),
     (''risk_class'', JString (risk_name (ce_risk_class e))),
     (''authority_floor'', JString (floor_name (ce_authority_floor e)))]"

definition json_of_catalog :: "action_catalog \<Rightarrow> json" where
  "json_of_catalog c = JObject
    [(''schema'', JString (ct_schema c)),
     (''catalog_version'', JString (ct_catalog_version c)),
     (''entries'', JArray (map json_of_catalog_entry (ct_entries c))),
     (''catalog_digest'', JString (ct_catalog_digest c))]"

definition compute_catalog_digest :: "platform \<Rightarrow> action_catalog \<Rightarrow> string" where
  "compute_catalog_digest E c =
     digest_canonical E ACTION_CATALOG_DIGEST_DOMAIN (obj_remove ''catalog_digest'' (json_of_catalog c))"

definition seal_catalog :: "platform \<Rightarrow> action_catalog \<Rightarrow> action_catalog" where
  "seal_catalog E c = c\<lparr>ct_catalog_digest := compute_catalog_digest E c\<rparr>"

section \<open>Validation\<close>

definition catalog_require_non_empty :: "string \<Rightarrow> string \<Rightarrow> catalog_error + unit" where
  "catalog_require_non_empty field value = check (\<not> trims_empty value) (CatalogEmptyRequired field)"

definition validate_semantic_action_id :: "action_id \<Rightarrow> catalog_error + unit" where
  "validate_semantic_action_id a = check (is_semantic_catalog_id a) (InvalidSemanticActionId a)"

definition effect_requires_elevated_authority :: "effect \<Rightarrow> bool" where
  "effect_requires_elevated_authority e \<longleftrightarrow>
     e \<in> {SourceFilesystemWrite, HostFilesystemWrite, ProcessSpawn, ProcessSignal,
          ExecutableReplacement, NetworkAccess, NetworkExpose}"

definition service_capable :: "ingress \<Rightarrow> bool" where
  "service_capable i \<longleftrightarrow> i \<in> {Rest, Cli, Hook, BackgroundJob, Recovery, Migration}"

definition no_effect :: "(effect \<Rightarrow> bool) \<Rightarrow> effect set \<Rightarrow> (effect \<Rightarrow> catalog_error) \<Rightarrow> catalog_error + unit" where
  "no_effect p es err = (case first_effect p es of Some e \<Rightarrow> Err (err e) | None \<Rightarrow> Ok ())"

text \<open>The three arms of the \<open>match\<close> on the floor; the last one is for the three other floors.\<close>

definition floor_checks :: "catalog_entry \<Rightarrow> (catalog_error + unit) list" where
  "floor_checks e =
     (let a = ce_action e; es = ce_complete_effects e; risk = ce_risk_class e; fl = ce_authority_floor e in
      case fl of
        SafetyOnly \<Rightarrow>
          [no_effect (\<lambda>x. \<not> is_negative_safety x) es (NonSafetyEffectInSafetyAction a),
           check (risk = Critical) (SafetyOnlyMustBeCritical a)]
      | PositiveSovereign \<Rightarrow>
          [no_effect is_negative_safety es (SafetyEffectOutsideSafetyAction a),
           check (SovereignMutation \<in> es) (PositiveFloorWithoutSovereignEffect a),
           check (risk = Critical) (PositiveSovereignMustBeCritical a)]
      | _ \<Rightarrow>
          [no_effect is_negative_safety es (SafetyEffectOutsideSafetyAction a),
           check (SovereignMutation \<notin> es) (SovereignEffectWithoutPositiveFloor a),
           check (risk \<noteq> Critical) (CriticalActionHasInsufficientFloor a),
           (if fl = FloorOrdinary
            then no_effect effect_requires_elevated_authority es (ElevatedEffectInOrdinaryAction a)
            else Ok ()),
           check (\<not> (fl = ServiceIdentity \<and> \<not> (\<exists>i \<in> ce_ingresses e. service_capable i)))
             (ServiceIdentityWithoutServiceIngress a)])"

definition validate_entry_authority :: "catalog_entry \<Rightarrow> catalog_error + unit" where
  "validate_entry_authority e = seq_checks (floor_checks e @
     [check (\<not> (ExecutableReplacement \<in> ce_complete_effects e \<and> ce_authority_floor e \<noteq> PositiveSovereign))
        (ExecutableReplacementWithoutPositiveFloor (ce_action e))])"

definition order_check :: "action_id option \<Rightarrow> action_id \<Rightarrow> catalog_error + unit" where
  "order_check previous a =
     (case previous of None \<Rightarrow> Ok () | Some p \<Rightarrow> check (\<not> p \<ge> a) (EntriesNotStrictlySorted p a))"

text \<open>The loop over the entries, with the locals \<open>actions\<close>, \<open>all_ingresses\<close> and \<open>previous\<close>.\<close>

fun entries_loop ::
  "catalog_entry list \<Rightarrow> action_id set \<Rightarrow> ingress set \<Rightarrow> action_id option
     \<Rightarrow> catalog_error + action_id set \<times> ingress set" where
  "entries_loop [] actions all_ingresses previous = Ok (actions, all_ingresses)"
| "entries_loop (e # es) actions all_ingresses previous =
     and_then (seq_checks
       [validate_semantic_action_id (ce_action e),
        check (ce_ingresses e \<noteq> {}) (EmptyIngresses (ce_action e)),
        check (ce_complete_effects e \<noteq> {}) (EmptyEffects (ce_action e)),
        check (ce_action e \<notin> actions) (DuplicateAction (ce_action e)),
        order_check previous (ce_action e),
        validate_entry_authority e])
       (\<lambda>_. entries_loop es (insert (ce_action e) actions) (all_ingresses \<union> ce_ingresses e)
              (Some (ce_action e)))"

definition validate_catalog :: "platform \<Rightarrow> action_catalog \<Rightarrow> catalog_error + catalog_validation" where
  "validate_catalog E c =
     and_then (seq_checks
       [check (ct_schema c = ACTION_CATALOG_SCHEMA) (CatalogSchema (ct_schema c)),
        catalog_require_non_empty ''catalog_version'' (ct_catalog_version c),
        catalog_require_non_empty ''catalog_digest'' (ct_catalog_digest c),
        check (ct_entries c \<noteq> []) NoEntries])
     (\<lambda>_. and_then (entries_loop (ct_entries c) {} {} None) (\<lambda>(actions, all_ingresses).
        let computed = compute_catalog_digest E c in
        if ct_catalog_digest c \<noteq> computed
        then Err (CatalogDigestMismatch computed (ct_catalog_digest c))
        else Ok \<lparr>cl_entry_count = length (ct_entries c), cl_action_count = card actions,
                 cl_ingress_count = card all_ingresses, cl_computed_catalog_digest = computed\<rparr>))"

section \<open>The built-in catalog\<close>

text \<open>\<open>ActionId::new\<close> refuses a blank identifier, which the code excludes with \<open>expect\<close>.\<close>

definition entry ::
  "string \<Rightarrow> ingress list \<Rightarrow> effect list \<Rightarrow> risk_class \<Rightarrow> authority_floor \<Rightarrow> catalog_entry" where
  "entry action ingresses complete_effects risk fl =
     \<lparr>ce_action = action, ce_ingresses = set ingresses, ce_complete_effects = set complete_effects,
      ce_risk_class = risk, ce_authority_floor = fl\<rparr>"

definition catalog_entries_1 :: "catalog_entry list" where
  "catalog_entries_1 =
    [entry ''authority.authorize'' [Mcp, Rest]
       [RuntimeStoreWrite, CoordinationRecord] High FloorOrdinary,
     entry ''brain.bootstrap'' [Mcp, Rest]
       [GraphMutation, RuntimeStoreWrite, HostFilesystemWrite, SovereignMutation] Critical PositiveSovereign,
     entry ''brain.bootstrap.birth'' [Mcp, Rest, Cli]
       [GraphMutation, RuntimeStoreWrite, HostFilesystemWrite, SovereignMutation] Critical PositiveSovereign,
     entry ''brain.promote'' [Mcp]
       [GraphMutation, RuntimeStoreWrite, HostFilesystemWrite, SovereignMutation] Critical PositiveSovereign,
     entry ''graph.ingest.preview'' [Mcp]
       [Read] Low FloorOrdinary,
     entry ''graph.ingest.merge_existing'' [Mcp]
       [GraphMutation, RuntimeStoreWrite] High ScopedGrantA2,
     entry ''graph.ingest.refresh_declared_root'' [Mcp]
       [GraphMutation, RuntimeStoreWrite] High ScopedGrantA2,
     entry ''graph.ingest.change_roots'' [Mcp]
       [GraphMutation, RuntimeStoreWrite, SovereignMutation] Critical PositiveSovereign,
     entry ''graph.ingest.replace'' [Mcp]
       [GraphMutation, RuntimeStoreWrite, SovereignMutation] Critical PositiveSovereign,
     entry ''graph.audit.replace'' [Mcp, Hook]
       [GraphMutation, RuntimeStoreWrite, SovereignMutation] Critical PositiveSovereign,
     entry ''graph.federate.replace'' [Mcp]
       [GraphMutation, RuntimeStoreWrite, SovereignMutation] Critical PositiveSovereign,
     entry ''graph.federate_auto.preview'' [Mcp]
       [Read] Low FloorOrdinary,
     entry ''graph.federate_auto.execute'' [Mcp]
       [GraphMutation, RuntimeStoreWrite, SovereignMutation] Critical PositiveSovereign,
     entry ''graph.learn'' [Mcp]
       [GraphMutation, RuntimeStoreWrite] High ScopedGrantA2,
     entry ''query.activate'' [Mcp]
       [Read, GraphMutation, RuntimeStoreWrite] Medium FloorOrdinary,
     entry ''query.missing'' [Mcp]
       [Read, GraphMutation, RuntimeStoreWrite] Medium FloorOrdinary,
     entry ''query.orient'' [Mcp]
       [Read, GraphMutation, RuntimeStoreWrite, CoordinationRecord] Medium FloorOrdinary,
     entry ''query.north'' [Mcp]
       [Read, GraphMutation, RuntimeStoreWrite, CoordinationRecord] Medium FloorOrdinary]"

definition catalog_entries_2 :: "catalog_entry list" where
  "catalog_entries_2 =
    [entry ''query.seek'' [Mcp]
       [Read, GraphMutation, RuntimeStoreWrite] Medium FloorOrdinary,
     entry ''query.scan'' [Mcp]
       [Read, RuntimeStoreWrite, CoordinationRecord] Medium FloorOrdinary,
     entry ''query.scan_all'' [Mcp]
       [Read, RuntimeStoreWrite, CoordinationRecord] Medium FloorOrdinary,
     entry ''query.taint_trace'' [Mcp]
       [Read, RuntimeStoreWrite] Medium FloorOrdinary,
     entry ''query.twins'' [Mcp]
       [Read, RuntimeStoreWrite] Medium FloorOrdinary,
     entry ''query.refactor_plan'' [Mcp]
       [Read, RuntimeStoreWrite] Medium FloorOrdinary,
     entry ''query.read'' [Mcp]
       [Read] Low FloorOrdinary,
     entry ''evidence.query'' [Mcp, Rest]
       [Read] Low FloorOrdinary,
     entry ''store.persist.status'' [Mcp]
       [Read] Low FloorOrdinary,
     entry ''store.persist.save_runtime'' [Mcp]
       [RuntimeStoreWrite] Medium FloorOrdinary,
     entry ''store.persist.save_explicit_path'' [Mcp]
       [HostFilesystemWrite] High ScopedGrantA2,
     entry ''store.persist.checkpoint'' [Mcp]
       [RuntimeStoreWrite] Medium FloorOrdinary,
     entry ''store.persist.load_replace'' [Mcp, Recovery]
       [Read, GraphMutation, RuntimeStoreWrite, SovereignMutation] Critical PositiveSovereign,
     entry ''memory.memorize.default'' [Mcp]
       [GraphMutation, RuntimeStoreWrite] Medium FloorOrdinary,
     entry ''memory.memorize.explicit_path'' [Mcp]
       [GraphMutation, RuntimeStoreWrite, HostFilesystemWrite] High ScopedGrantA2,
     entry ''boot_memory.read'' [Mcp]
       [Read] Low FloorOrdinary,
     entry ''boot_memory.set'' [Mcp]
       [RuntimeStoreWrite] Medium ScopedGrantA2,
     entry ''boot_memory.delete'' [Mcp]
       [RuntimeStoreWrite] Medium ScopedGrantA2,
     entry ''documents.resolve.refresh_cache'' [Mcp]
       [Read, RuntimeStoreWrite] Medium FloorOrdinary,
     entry ''documents.bindings.refresh_cache'' [Mcp]
       [Read, RuntimeStoreWrite] Medium FloorOrdinary,
     entry ''documents.drift.refresh_cache'' [Mcp]
       [Read, RuntimeStoreWrite] Medium FloorOrdinary,
     entry ''source.apply.single'' [Mcp]
       [SourceFilesystemWrite, RuntimeStoreWrite, CoordinationRecord] High ScopedGrantA2,
     entry ''source.apply.batch'' [Mcp]
       [SourceFilesystemWrite, RuntimeStoreWrite, CoordinationRecord] High ScopedGrantA2]"

definition catalog_entries_3 :: "catalog_entry list" where
  "catalog_entries_3 =
    [entry ''source.edit.commit'' [Mcp]
       [SourceFilesystemWrite, RuntimeStoreWrite, CoordinationRecord] High ScopedGrantA2,
     entry ''source.edit.preview'' [Mcp]
       [Read, CoordinationRecord] Low FloorOrdinary,
     entry ''source.surgical_context.mark_proof_ready'' [Mcp]
       [Read, CoordinationRecord] Medium FloorOrdinary,
     entry ''source.transplant.single'' [Mcp]
       [SourceFilesystemWrite, RuntimeStoreWrite, CoordinationRecord] High ScopedGrantA2,
     entry ''source.transplant.commit'' [Mcp]
       [SourceFilesystemWrite, RuntimeStoreWrite, CoordinationRecord] High ScopedGrantA2,
     entry ''source.transplant.preview'' [Mcp]
       [Read, CoordinationRecord] Low FloorOrdinary,
     entry ''xray.apply.dry_run'' [Mcp]
       [Read] Medium FloorOrdinary,
     entry ''xray.apply.commit'' [Mcp]
       [SourceFilesystemWrite, RuntimeStoreWrite, CoordinationRecord] High ScopedGrantA2,
     entry ''xray.retag.dry_run'' [Mcp]
       [Read, RuntimeStoreWrite, CoordinationRecord] Medium FloorOrdinary,
     entry ''xray.retag.commit'' [Mcp]
       [GraphMutation, RuntimeStoreWrite, CoordinationRecord] High ScopedGrantA2,
     entry ''xray.paint.dry_run'' [Mcp]
       [Read, RuntimeStoreWrite, CoordinationRecord] Medium FloorOrdinary,
     entry ''xray.paint.commit'' [Mcp]
       [GraphMutation, RuntimeStoreWrite, CoordinationRecord] High ScopedGrantA2,
     entry ''system_blocks.seed_import.force'' [Mcp]
       [RuntimeStoreWrite, SovereignMutation] Critical PositiveSovereign,
     entry ''system_blocks.skeleton_candidate'' [Mcp]
       [RuntimeStoreWrite, CoordinationRecord, ProcessSpawn, HostFilesystemWrite, NetworkAccess] High ScopedGrantA2,
     entry ''system_blocks.candidate_naming'' [Mcp, Rest]
       [RuntimeStoreWrite, CoordinationRecord, ProcessSpawn, HostFilesystemWrite, NetworkAccess] High ScopedGrantA2,
     entry ''system_blocks.ratify'' [Mcp]
       [RuntimeStoreWrite, SovereignMutation] Critical PositiveSovereign,
     entry ''system_blocks.receipt_import'' [Mcp]
       [RuntimeStoreWrite, SovereignMutation] Critical PositiveSovereign,
     entry ''system_blocks.reconcile'' [Mcp]
       [RuntimeStoreWrite, CoordinationRecord] High ScopedGrantA2,
     entry ''system_blocks.archive'' [Mcp]
       [RuntimeStoreWrite, SovereignMutation] Critical PositiveSovereign]"

definition catalog_entries_4 :: "catalog_entry list" where
  "catalog_entries_4 =
    [entry ''system_blocks.restore'' [Mcp, Recovery]
       [RuntimeStoreWrite, SovereignMutation] Critical PositiveSovereign,
     entry ''system_blocks.delete.permanent'' [Mcp]
       [RuntimeStoreWrite, SovereignMutation] Critical PositiveSovereign,
     entry ''system_blocks.candidate_edit'' [Mcp]
       [RuntimeStoreWrite, CoordinationRecord] High ScopedGrantA2,
     entry ''system_blocks.lease.acquire'' [Mcp]
       [CoordinationRecord, RuntimeStoreWrite] Low FloorOrdinary,
     entry ''system_blocks.lease.refresh'' [Mcp]
       [CoordinationRecord, RuntimeStoreWrite] Low FloorOrdinary,
     entry ''system_blocks.lease.release'' [Mcp]
       [CoordinationRecord, RuntimeStoreWrite] Low FloorOrdinary,
     entry ''mission.start'' [Mcp]
       [MissionStateWrite, RuntimeStoreWrite] Medium FloorOrdinary,
     entry ''mission.event'' [Mcp]
       [MissionStateWrite, RuntimeStoreWrite] Medium FloorOrdinary,
     entry ''mission.next'' [Mcp]
       [MissionStateWrite, RuntimeStoreWrite] Medium FloorOrdinary,
     entry ''mission.verify'' [Mcp]
       [MissionStateWrite, RuntimeStoreWrite, CoordinationRecord] Medium FloorOrdinary,
     entry ''mission.handoff'' [Mcp]
       [MissionStateWrite, RuntimeStoreWrite, CoordinationRecord] Medium FloorOrdinary,
     entry ''mission.close'' [Mcp]
       [MissionStateWrite, RuntimeStoreWrite] Medium FloorOrdinary,
     entry ''mission.close_with_memory'' [Mcp]
       [MissionStateWrite, RuntimeStoreWrite, GraphMutation] High ScopedGrantA2,
     entry ''mission.post.ordinary'' [Mcp]
       [MissionStateWrite, RuntimeStoreWrite, CoordinationRecord] Medium FloorOrdinary,
     entry ''mission.post.landed'' [Mcp]
       [MissionStateWrite, RuntimeStoreWrite, CoordinationRecord, SovereignMutation] Critical PositiveSovereign,
     entry ''mission.post.archive'' [Mcp]
       [MissionStateWrite, RuntimeStoreWrite, CoordinationRecord, SovereignMutation] Critical PositiveSovereign,
     entry ''mission.service.land_intent'' [Mcp, Rest]
       [Read] Low FloorOrdinary,
     entry ''mission.service.mission_transition'' [Mcp, Rest]
       [MissionStateWrite, RuntimeStoreWrite, CoordinationRecord] Medium FloorOrdinary,
     entry ''mission.service.execution_dispatch'' [Mcp, Rest]
       [MissionStateWrite, RuntimeStoreWrite, CoordinationRecord] High ScopedGrantA2]"

definition catalog_entries_5 :: "catalog_entry list" where
  "catalog_entries_5 =
    [entry ''mission.service.execution_started'' [Mcp, Rest]
       [MissionStateWrite, RuntimeStoreWrite, CoordinationRecord] High ServiceIdentity,
     entry ''mission.service.execution_terminal'' [Mcp, Rest]
       [MissionStateWrite, RuntimeStoreWrite, CoordinationRecord] High ServiceIdentity,
     entry ''mission.service.land'' [Mcp, Rest]
       [MissionStateWrite, RuntimeStoreWrite, CoordinationRecord, SovereignMutation] Critical PositiveSovereign,
     entry ''mission.spawn'' [Mcp, Rest]
       [MissionStateWrite, RuntimeStoreWrite, CoordinationRecord, HostFilesystemWrite, ProcessSpawn, NetworkAccess] High ScopedGrantA2,
     entry ''mission.curation_spawn'' [Rest]
       [RuntimeStoreWrite, CoordinationRecord, HostFilesystemWrite, ProcessSpawn, NetworkAccess] High ScopedGrantA2,
     entry ''delegation.delegate'' [Mcp]
       [Read, RuntimeStoreWrite, CoordinationRecord] Medium FloorOrdinary,
     entry ''delegation.debrief'' [Mcp]
       [GraphMutation, RuntimeStoreWrite, CoordinationRecord] High ScopedGrantA2,
     entry ''runner.mission.execute'' [Rest, BackgroundJob]
       [SourceFilesystemWrite, HostFilesystemWrite, RuntimeStoreWrite, MissionStateWrite, CoordinationRecord, ProcessSpawn, NetworkAccess] High ServiceIdentity,
     entry ''runner.naming.execute'' [Rest, BackgroundJob]
       [HostFilesystemWrite, RuntimeStoreWrite, CoordinationRecord, ProcessSpawn, NetworkAccess] High ServiceIdentity,
     entry ''runner.curation.execute'' [Rest, BackgroundJob]
       [HostFilesystemWrite, RuntimeStoreWrite, CoordinationRecord, ProcessSpawn, NetworkAccess] High ServiceIdentity,
     entry ''daemon.start'' [Mcp]
       [RuntimeStoreWrite, CoordinationRecord] High ScopedGrantA2,
     entry ''daemon.stop'' [Mcp]
       [RuntimeStoreWrite, CoordinationRecord] Medium ScopedGrantA2,
     entry ''daemon.tick'' [Mcp, BackgroundJob]
       [GraphMutation, RuntimeStoreWrite, CoordinationRecord] High ServiceIdentity,
     entry ''daemon.alerts_ack'' [Mcp]
       [RuntimeStoreWrite, CoordinationRecord] Medium FloorOrdinary,
     entry ''auto_ingest.start_existing_roots'' [Mcp]
       [RuntimeStoreWrite, CoordinationRecord] High ScopedGrantA2]"

definition catalog_entries_6 :: "catalog_entry list" where
  "catalog_entries_6 =
    [entry ''auto_ingest.change_roots'' [Mcp]
       [RuntimeStoreWrite, CoordinationRecord, SovereignMutation] Critical PositiveSovereign,
     entry ''auto_ingest.stop'' [Mcp]
       [RuntimeStoreWrite, CoordinationRecord] Medium ScopedGrantA2,
     entry ''auto_ingest.tick'' [Mcp, BackgroundJob]
       [GraphMutation, RuntimeStoreWrite, CoordinationRecord] High ServiceIdentity,
     entry ''runtime.instance.save'' [Rest]
       [RuntimeStoreWrite] High ScopedGrantA2,
     entry ''runtime.target.save'' [Rest]
       [RuntimeStoreWrite, NetworkAccess] High ScopedGrantA2,
     entry ''runtime.delete_state.permanent'' [Rest, Recovery]
       [RuntimeStoreWrite, HostFilesystemWrite, SovereignMutation] Critical PositiveSovereign,
     entry ''runtime.runnerd.announce'' [Rest]
       [RuntimeStoreWrite, CoordinationRecord] Low FloorOrdinary,
     entry ''runtime.http.event_log_append'' [Rest]
       [RuntimeStoreWrite, CoordinationRecord] Low FloorOrdinary,
     entry ''runtime.owner.boot'' [Cli]
       [HostFilesystemWrite, RuntimeStoreWrite, GraphMutation, CoordinationRecord] High ServiceIdentity,
     entry ''runtime.owner.shutdown'' [Cli]
       [RuntimeStoreWrite, CoordinationRecord] Medium ServiceIdentity,
     entry ''runtime.instance.heartbeat'' [BackgroundJob]
       [RuntimeStoreWrite, CoordinationRecord] Low ServiceIdentity,
     entry ''runtime.instance.gc'' [BackgroundJob]
       [RuntimeStoreWrite, CoordinationRecord] Medium ServiceIdentity,
     entry ''runtime.agent_memory.reload'' [Cli, BackgroundJob]
       [GraphMutation, RuntimeStoreWrite] High ServiceIdentity,
     entry ''runtime.presence.track_agent'' [Mcp, Rest]
       [RuntimeStoreWrite, CoordinationRecord] Low FloorOrdinary,
     entry ''runtime.session.handshake'' [Mcp, Rest]
       [RuntimeStoreWrite, CoordinationRecord] Low FloorOrdinary,
     entry ''runtime.root.self_heal'' [Cli, BackgroundJob]
       [RuntimeStoreWrite, CoordinationRecord] Medium ServiceIdentity,
     entry ''runtime.project_brain.evict_persist'' [BackgroundJob]
       [RuntimeStoreWrite] Medium ServiceIdentity,
     entry ''runtime.runner.secret_init'' [Cli]
       [HostFilesystemWrite] High ServiceIdentity,
     entry ''runtime.runner.heartbeat'' [BackgroundJob]
       [NetworkAccess, CoordinationRecord] Low ServiceIdentity,
     entry ''runtime.server.open_browser'' [Cli]
       [ProcessSpawn] High ScopedGrantA2]"

definition catalog_entries_7 :: "catalog_entry list" where
  "catalog_entries_7 =
    [entry ''runtime.network_expose'' [Cli]
       [NetworkExpose, SovereignMutation] Critical PositiveSovereign,
     entry ''trail.save'' [Mcp]
       [RuntimeStoreWrite, CoordinationRecord] Medium FloorOrdinary,
     entry ''trail.resume'' [Mcp]
       [GraphMutation, RuntimeStoreWrite, CoordinationRecord] High ScopedGrantA2,
     entry ''trail.merge'' [Mcp]
       [RuntimeStoreWrite, CoordinationRecord] High ScopedGrantA2,
     entry ''perspective.start'' [Mcp]
       [RuntimeStoreWrite, CoordinationRecord] Medium FloorOrdinary,
     entry ''perspective.routes'' [Mcp]
       [Read, RuntimeStoreWrite] Low FloorOrdinary,
     entry ''perspective.inspect'' [Mcp]
       [Read, RuntimeStoreWrite] Low FloorOrdinary,
     entry ''perspective.peek'' [Mcp]
       [Read, RuntimeStoreWrite] Low FloorOrdinary,
     entry ''perspective.follow'' [Mcp]
       [Read, RuntimeStoreWrite, CoordinationRecord] Medium FloorOrdinary,
     entry ''perspective.suggest'' [Mcp]
       [Read, RuntimeStoreWrite] Low FloorOrdinary,
     entry ''perspective.affinity'' [Mcp]
       [Read, RuntimeStoreWrite] Low FloorOrdinary,
     entry ''perspective.branch'' [Mcp]
       [RuntimeStoreWrite, CoordinationRecord] Medium FloorOrdinary,
     entry ''perspective.back'' [Mcp]
       [RuntimeStoreWrite, CoordinationRecord] Medium FloorOrdinary,
     entry ''perspective.close'' [Mcp]
       [RuntimeStoreWrite, CoordinationRecord] Medium FloorOrdinary,
     entry ''lock.create'' [Mcp]
       [RuntimeStoreWrite, CoordinationRecord] Medium FloorOrdinary,
     entry ''lock.watch'' [Mcp]
       [Read, RuntimeStoreWrite] Low FloorOrdinary,
     entry ''lock.diff'' [Mcp]
       [Read, RuntimeStoreWrite] Low FloorOrdinary,
     entry ''lock.rebase'' [Mcp]
       [RuntimeStoreWrite, CoordinationRecord] Medium FloorOrdinary,
     entry ''lock.release'' [Mcp]
       [RuntimeStoreWrite, CoordinationRecord] Medium FloorOrdinary,
     entry ''antibody.create'' [Mcp]
       [RuntimeStoreWrite, GraphMutation] Medium ScopedGrantA2,
     entry ''antibody.enable'' [Mcp]
       [RuntimeStoreWrite, GraphMutation] Medium ScopedGrantA2,
     entry ''antibody.disable'' [Mcp]
       [RuntimeStoreWrite, GraphMutation] Medium ScopedGrantA2]"

definition catalog_entries_8 :: "catalog_entry list" where
  "catalog_entries_8 =
    [entry ''antibody.delete'' [Mcp]
       [RuntimeStoreWrite, GraphMutation] Medium ScopedGrantA2,
     entry ''calibration.predict'' [Mcp]
       [RuntimeStoreWrite] Medium ScopedGrantA2,
     entry ''calibration.envelope'' [Mcp]
       [RuntimeStoreWrite] Medium ScopedGrantA2,
     entry ''graph.ghost_edges'' [Mcp]
       [GraphMutation, RuntimeStoreWrite] High ScopedGrantA2,
     entry ''graph.runtime_overlay'' [Mcp]
       [GraphMutation, RuntimeStoreWrite] High ScopedGrantA2,
     entry ''cli.startup.install_bwrap_compat'' [Cli]
       [HostFilesystemWrite] High ScopedGrantA2,
     entry ''cli.inbox_sweep.distribute'' [Cli]
       [HostFilesystemWrite] Medium ScopedGrantA2,
     entry ''cli.init'' [Cli]
       [HostFilesystemWrite] High ScopedGrantA2,
     entry ''cli.install_skills'' [Cli]
       [HostFilesystemWrite] High ScopedGrantA2,
     entry ''cli.host.skills_apply'' [Cli]
       [HostFilesystemWrite] High ScopedGrantA2,
     entry ''cli.host.config_apply'' [Cli]
       [HostFilesystemWrite] High ScopedGrantA2,
     entry ''cli.host.doctrine_apply'' [Cli]
       [HostFilesystemWrite] High ScopedGrantA2,
     entry ''cli.host.hooks_apply'' [Cli]
       [HostFilesystemWrite] High ScopedGrantA2,
     entry ''cli.demo.execute'' [Cli]
       [HostFilesystemWrite, ProcessSpawn, NetworkAccess] High ScopedGrantA2,
     entry ''cli.smoke.execute'' [Cli]
       [HostFilesystemWrite, ProcessSpawn, NetworkAccess] High ScopedGrantA2,
     entry ''release.update.verify'' [Cli]
       [HostFilesystemWrite, ProcessSpawn, NetworkAccess] High ScopedGrantA2,
     entry ''cli.agent.trust'' [Cli]
       [HostFilesystemWrite, RuntimeStoreWrite, GraphMutation, ProcessSpawn] High ScopedGrantA2,
     entry ''cli.agent.orient'' [Cli]
       [Read, HostFilesystemWrite, RuntimeStoreWrite, GraphMutation, ProcessSpawn] High ScopedGrantA2]"

definition catalog_entries_9 :: "catalog_entry list" where
  "catalog_entries_9 =
    [entry ''cli.agent.first_minute'' [Cli]
       [HostFilesystemWrite, RuntimeStoreWrite, GraphMutation, ProcessSpawn, NetworkAccess] High ScopedGrantA2,
     entry ''cli.agent.kickstart'' [Cli]
       [HostFilesystemWrite, RuntimeStoreWrite, GraphMutation, ProcessSpawn, NetworkAccess] High ScopedGrantA2,
     entry ''release.self_update.apply'' [Cli]
       [HostFilesystemWrite, ExecutableReplacement, ProcessSpawn, ProcessSignal, NetworkAccess, SovereignMutation] Critical PositiveSovereign,
     entry ''release.self_update.restart'' [Cli]
       [HostFilesystemWrite, ExecutableReplacement, ProcessSpawn, ProcessSignal, SovereignMutation] Critical PositiveSovereign,
     entry ''release.self_update.rollback'' [Cli, Recovery]
       [HostFilesystemWrite, ExecutableReplacement, ProcessSignal, SovereignMutation] Critical PositiveSovereign,
     entry ''hook.session_start.first_minute'' [Hook]
       [HostFilesystemWrite, RuntimeStoreWrite, GraphMutation, ProcessSpawn, NetworkAccess] High ServiceIdentity,
     entry ''hook.task_start.first_minute'' [Hook]
       [HostFilesystemWrite, RuntimeStoreWrite, GraphMutation, ProcessSpawn, NetworkAccess] High ServiceIdentity,
     entry ''hook.agent_spawn.first_minute'' [Hook]
       [HostFilesystemWrite, RuntimeStoreWrite, GraphMutation, ProcessSpawn, NetworkAccess] High ServiceIdentity,
     entry ''hook.kickstart'' [Hook]
       [HostFilesystemWrite, RuntimeStoreWrite, GraphMutation, ProcessSpawn, NetworkAccess] High ServiceIdentity,
     entry ''runtime.isolated_agent.start'' [Cli, Hook]
       [HostFilesystemWrite, ProcessSpawn] High ServiceIdentity,
     entry ''runtime.isolated_agent.stop'' [Cli, Hook]
       [HostFilesystemWrite, ProcessSignal] High ServiceIdentity,
     entry ''migration.medulla.apply'' [Migration]
       [HostFilesystemWrite, RuntimeStoreWrite, GraphMutation, SovereignMutation] Critical PositiveSovereign]"

definition catalog_entries_10 :: "catalog_entry list" where
  "catalog_entries_10 =
    [entry ''migration.medulla.rollback'' [Migration, Recovery]
       [HostFilesystemWrite, RuntimeStoreWrite, GraphMutation, SovereignMutation] Critical PositiveSovereign,
     entry ''safety.freeze_issuance'' [BackgroundJob, Recovery]
       [FreezeIssuance] Critical SafetyOnly,
     entry ''safety.epoch_fence'' [BackgroundJob, Recovery]
       [EpochFence] Critical SafetyOnly,
     entry ''safety.epoch_bump'' [BackgroundJob, Recovery]
       [EpochBump] Critical SafetyOnly,
     entry ''safety.revoke_capability'' [BackgroundJob, Recovery]
       [RevokeCapability] Critical SafetyOnly,
     entry ''safety.abort_prepared'' [BackgroundJob, Recovery]
       [AbortPrepared] Critical SafetyOnly,
     entry ''safety.demote_grant'' [BackgroundJob, Recovery]
       [DemoteGrant] Critical SafetyOnly,
     entry ''safety.rollback_signed_candidate'' [BackgroundJob, Recovery]
       [RollbackSignedCandidate] Critical SafetyOnly]"

definition catalog_entries :: "catalog_entry list" where
  "catalog_entries = catalog_entries_1 @ catalog_entries_2 @ catalog_entries_3 @ catalog_entries_4 @ catalog_entries_5 @
     catalog_entries_6 @ catalog_entries_7 @ catalog_entries_8 @ catalog_entries_9 @ catalog_entries_10"

text \<open>\<open>sort_by\<close> on the identifiers is stable, and so is \<open>sort_key\<close>.\<close>

definition m1nd10_action_catalog :: "platform \<Rightarrow> catalog_error + action_catalog" where
  "m1nd10_action_catalog E =
     (let catalog = seal_catalog E
        \<lparr>ct_schema = ACTION_CATALOG_SCHEMA, ct_catalog_version = M1ND10_ACTION_CATALOG_VERSION,
         ct_entries = sort_key ce_action catalog_entries, ct_catalog_digest = []\<rparr> in
      and_then (validate_catalog E catalog) (\<lambda>_. Ok catalog))"

end
