(* ===== verification/Action_Routes.thy ===== *)
theory Action_Routes
  imports Action_Catalog
begin

text \<open>
  \<open>m1nd-mcp/src/action_routes.rs\<close>: from the name of a tool and its JSON arguments to one semantic
  action of the built-in catalog.  A \<open>match\<close> on string literals is a lookup in an association list,
  whose order is that of the arms.  A catalog error is carried as the error itself where the code
  carries its display string.
\<close>

section \<open>Tables\<close>

definition MCP_TOOL_ROUTE_NAMES :: "string list" where
  "MCP_TOOL_ROUTE_NAMES =
    [''orient'', ''north'', ''cockpit'', ''delegate'', ''debrief'', ''evidence_query'',
     ''am_i_stale'', ''activate'', ''impact'', ''missing'', ''why'', ''warmup'',
     ''counterfactual'', ''predict'', ''fingerprint'', ''drift'', ''learn'', ''ingest'',
     ''document_resolve'', ''document_provider_health'', ''document_bindings'',
     ''document_drift'', ''auto_ingest_start'', ''auto_ingest_stop'', ''auto_ingest_status'',
     ''auto_ingest_tick'', ''health'', ''session_handshake'', ''trust_selftest'',
     ''recovery_playbook'', ''doctor'', ''perspective_start'', ''perspective_routes'',
     ''perspective_inspect'', ''perspective_peek'', ''perspective_follow'',
     ''perspective_suggest'', ''perspective_affinity'', ''perspective_branch'',
     ''perspective_back'', ''perspective_compare'', ''perspective_list'', ''perspective_close'',
     ''seek'', ''focus'', ''scan'', ''timeline'', ''diverge'', ''lock_create'', ''lock_watch'',
     ''lock_diff'', ''lock_rebase'', ''lock_release'', ''trail_save'', ''trail_resume'',
     ''trail_merge'', ''trail_list'', ''hypothesize'', ''differential'', ''trace'',
     ''validate_plan'', ''federate'', ''antibody_scan'', ''antibody_list'', ''antibody_create'',
     ''flow_simulate'', ''epidemic'', ''tremor'', ''trust'', ''layers'', ''layer_inspect'',
     ''ghost_edges'', ''calibrate_predict'', ''calibrate_envelope'', ''taint_trace'', ''twins'',
     ''refactor_plan'', ''runtime_overlay'', ''heuristics_surface'', ''surgical_context'',
     ''apply'', ''view'', ''batch_view'', ''surgical_context_v2'', ''apply_batch'',
     ''edit_preview'', ''edit_commit'', ''transplant'', ''transplant_preview'',
     ''transplant_commit'', ''search'', ''glob'', ''scan_all'', ''cross_verify'',
     ''soul_check'', ''soul_read'', ''coverage_session'', ''external_references'',
     ''federate_auto'', ''help'', ''mission_start'', ''mission_next'', ''mission_event'',
     ''mission_verify'', ''mission_handoff'', ''mission_close'', ''report'', ''audit'',
     ''daemon_start'', ''daemon_stop'', ''daemon_status'', ''daemon_tick'', ''alerts_list'',
     ''alerts_ack'', ''panoramic'', ''persist'', ''boot_memory'', ''brain_birth'', ''metrics'',
     ''type_trace'', ''diagram'', ''memorize'', ''promote'', ''xray_retag'', ''xray_orient'',
     ''xray_gate'', ''xray_apply'', ''xray_paint'', ''xray_ledger'', ''system_blocks_snapshot'',
     ''skeleton_candidate'', ''system_blocks_seed_import'', ''system_blocks_ratify'',
     ''system_blocks_reconcile'', ''receipt_recompute'', ''system_blocks_archive'',
     ''system_blocks_delete'', ''candidate_edit'', ''candidate_lease'', ''candidate_naming'',
     ''mission_service'', ''external_mutation_service'', ''graph_ingest_preview'',
     ''authority_session_challenge'', ''authority_session_authenticate'',
     ''authority_authorize'', ''mission_spawn'']"

definition PURE_READ_TOOLS :: "string list" where
  "PURE_READ_TOOLS =
    [''cockpit'', ''am_i_stale'', ''impact'', ''why'', ''warmup'', ''counterfactual'',
     ''predict'', ''fingerprint'', ''drift'', ''document_provider_health'',
     ''auto_ingest_status'', ''health'', ''trust_selftest'', ''recovery_playbook'', ''doctor'',
     ''perspective_compare'', ''perspective_list'', ''focus'', ''timeline'', ''diverge'',
     ''trail_list'', ''hypothesize'', ''differential'', ''trace'', ''validate_plan'',
     ''antibody_scan'', ''antibody_list'', ''flow_simulate'', ''epidemic'', ''tremor'',
     ''trust'', ''layers'', ''layer_inspect'', ''heuristics_surface'', ''view'', ''batch_view'',
     ''search'', ''glob'', ''cross_verify'', ''soul_check'', ''soul_read'',
     ''coverage_session'', ''external_references'', ''help'', ''report'', ''daemon_status'',
     ''alerts_list'', ''panoramic'', ''metrics'', ''type_trace'', ''diagram'', ''xray_orient'',
     ''xray_gate'', ''xray_ledger'', ''system_blocks_snapshot'', ''receipt_recompute'']"

definition fixed_routes :: "(string \<times> action_id) list" where
  "fixed_routes =
    [(''orient'', ''query.orient''), (''north'', ''query.north''),
     (''delegate'', ''delegation.delegate''), (''debrief'', ''delegation.debrief''),
     (''evidence_query'', ''evidence.query''), (''activate'', ''query.activate''),
     (''missing'', ''query.missing''), (''learn'', ''graph.learn''),
     (''document_resolve'', ''documents.resolve.refresh_cache''),
     (''document_bindings'', ''documents.bindings.refresh_cache''),
     (''document_drift'', ''documents.drift.refresh_cache''),
     (''auto_ingest_stop'', ''auto_ingest.stop''), (''auto_ingest_tick'', ''auto_ingest.tick''),
     (''session_handshake'', ''runtime.session.handshake''),
     (''perspective_start'', ''perspective.start''),
     (''perspective_routes'', ''perspective.routes''),
     (''perspective_inspect'', ''perspective.inspect''),
     (''perspective_peek'', ''perspective.peek''),
     (''perspective_follow'', ''perspective.follow''),
     (''perspective_suggest'', ''perspective.suggest''),
     (''perspective_affinity'', ''perspective.affinity''),
     (''perspective_branch'', ''perspective.branch''),
     (''perspective_back'', ''perspective.back''),
     (''perspective_close'', ''perspective.close''), (''lock_create'', ''lock.create''),
     (''lock_watch'', ''lock.watch''), (''lock_diff'', ''lock.diff''),
     (''lock_rebase'', ''lock.rebase''), (''lock_release'', ''lock.release''),
     (''seek'', ''query.seek''), (''scan'', ''query.scan''), (''trail_save'', ''trail.save''),
     (''trail_resume'', ''trail.resume''), (''trail_merge'', ''trail.merge''),
     (''federate'', ''graph.federate.replace''), (''antibody_create'', ''antibody.create''),
     (''ghost_edges'', ''graph.ghost_edges''), (''calibrate_predict'', ''calibration.predict''),
     (''calibrate_envelope'', ''calibration.envelope''),
     (''taint_trace'', ''query.taint_trace''), (''twins'', ''query.twins''),
     (''refactor_plan'', ''query.refactor_plan''),
     (''runtime_overlay'', ''graph.runtime_overlay''), (''surgical_context'', ''query.read''),
     (''apply'', ''source.apply.single''),
     (''surgical_context_v2'', ''source.surgical_context.mark_proof_ready''),
     (''apply_batch'', ''source.apply.batch''), (''edit_preview'', ''source.edit.preview''),
     (''edit_commit'', ''source.edit.commit''), (''transplant'', ''source.transplant.single''),
     (''transplant_commit'', ''source.transplant.commit''),
     (''transplant_preview'', ''source.transplant.preview''),
     (''scan_all'', ''query.scan_all''), (''mission_start'', ''mission.start''),
     (''mission_next'', ''mission.next''), (''mission_event'', ''mission.event''),
     (''mission_verify'', ''mission.verify''), (''mission_handoff'', ''mission.handoff''),
     (''audit'', ''graph.audit.replace''), (''daemon_start'', ''daemon.start''),
     (''daemon_stop'', ''daemon.stop''), (''daemon_tick'', ''daemon.tick''),
     (''alerts_ack'', ''daemon.alerts_ack''), (''promote'', ''brain.promote''),
     (''brain_birth'', ''brain.bootstrap.birth''),
     (''skeleton_candidate'', ''system_blocks.skeleton_candidate''),
     (''system_blocks_seed_import'', ''system_blocks.seed_import.force''),
     (''system_blocks_ratify'', ''system_blocks.ratify''),
     (''receipt_import'', ''system_blocks.receipt_import''),
     (''system_blocks_reconcile'', ''system_blocks.reconcile''),
     (''system_blocks_delete'', ''system_blocks.delete.permanent''),
     (''candidate_edit'', ''system_blocks.candidate_edit''),
     (''candidate_naming'', ''system_blocks.candidate_naming''),
     (''mission_spawn'', ''mission.spawn''),
     (''authority_session_challenge'', ''runtime.session.handshake''),
     (''authority_session_authenticate'', ''runtime.session.handshake''),
     (''authority_authorize'', ''authority.authorize''),
     (''graph_ingest_preview'', ''graph.ingest.preview'')]"

definition fixed_mcp_action :: "string \<Rightarrow> action_id option" where
  "fixed_mcp_action tool =
     (case map_of fixed_routes tool of
        Some a \<Rightarrow> Some a
      | None \<Rightarrow> if tool \<in> set PURE_READ_TOOLS then Some ''query.read'' else None)"

definition possible_routes :: "(string \<times> action_id list) list" where
  "possible_routes =
    [(''ingest'',
      [''brain.bootstrap'', ''graph.ingest.change_roots'', ''graph.ingest.merge_existing'',
       ''graph.ingest.refresh_declared_root'', ''graph.ingest.replace'']),
     (''auto_ingest_start'',
      [''auto_ingest.change_roots'', ''auto_ingest.start_existing_roots'']),
     (''federate_auto'',
      [''graph.federate_auto.preview'', ''graph.federate_auto.execute'']),
     (''mission_close'',
      [''mission.close'', ''mission.close_with_memory'']),
     (''persist'',
      [''store.persist.status'', ''store.persist.save_runtime'', ''store.persist.checkpoint'',
       ''store.persist.load_replace'']),
     (''boot_memory'',
      [''boot_memory.read'', ''boot_memory.set'', ''boot_memory.delete'']),
     (''memorize'',
      [''memory.memorize.default'']),
     (''xray_retag'',
      [''xray.retag.dry_run'', ''xray.retag.commit'']),
     (''xray_apply'',
      [''xray.apply.dry_run'', ''xray.apply.commit'']),
     (''xray_paint'',
      [''xray.paint.dry_run'', ''xray.paint.commit'']),
     (''system_blocks_archive'',
      [''system_blocks.archive'', ''system_blocks.restore'']),
     (''candidate_lease'',
      [''system_blocks.lease.acquire'', ''system_blocks.lease.refresh'',
       ''system_blocks.lease.release'']),
     (''mission_post'',
      [''mission.post.ordinary'', ''mission.post.landed'', ''mission.post.archive'']),
     (''mission_service'',
      [''mission.service.land_intent'', ''mission.service.mission_transition'',
       ''mission.service.execution_dispatch'', ''mission.service.execution_started'',
       ''mission.service.execution_terminal'', ''mission.service.land'']),
     (''external_mutation_service'',
      [''system_blocks.ratify'', ''brain.promote'', ''source.edit.commit'',
       ''graph.ingest.replace'', ''graph.ingest.merge_existing'']),
     (''graph_ingest_preview'',
      [''graph.ingest.preview'']),
     (''authority_session_challenge'',
      [''runtime.session.handshake'']),
     (''authority_session_authenticate'',
      [''runtime.session.handshake'']),
     (''authority_authorize'',
      [''authority.authorize''])]"

section \<open>Names and arguments\<close>

definition strip_prefix :: "string \<Rightarrow> string \<Rightarrow> string option" where
  "strip_prefix p s = (if take (length p) s = p then Some (drop (length p) s) else None)"

definition bare_tool_name :: "string \<Rightarrow> string" where
  "bare_tool_name tool =
     (case strip_prefix ''m1nd.'' tool of
        Some s \<Rightarrow> s
      | None \<Rightarrow> (case strip_prefix ''m1nd_'' tool of Some s \<Rightarrow> s | None \<Rightarrow> tool))"

text \<open>\<open>Value::get\<close> with a string: an object's member, nothing of any other value.\<close>

fun json_get :: "json \<Rightarrow> string \<Rightarrow> json option" where
  "json_get (JObject kvs) k = map_of kvs k"
| "json_get _ k = None"

fun as_str :: "json \<Rightarrow> string option" where
  "as_str (JString s) = Some s"
| "as_str _ = None"

fun as_bool :: "json \<Rightarrow> bool option" where
  "as_bool (JBool b) = Some b"
| "as_bool _ = None"

definition string_field :: "json \<Rightarrow> string \<Rightarrow> string option" where
  "string_field arguments field = Option.bind (json_get arguments field) as_str"

definition nonempty_string :: "json \<Rightarrow> string \<Rightarrow> bool" where
  "nonempty_string arguments field =
     (case string_field arguments field of Some v \<Rightarrow> \<not> trims_empty v | None \<Rightarrow> False)"

definition unwrap_or :: "'a option \<Rightarrow> 'a \<Rightarrow> 'a" where
  "unwrap_or x d = (case x of Some v \<Rightarrow> v | None \<Rightarrow> d)"

definition bool_field :: "json \<Rightarrow> string \<Rightarrow> bool \<Rightarrow> bool" where
  "bool_field arguments field fallback =
     unwrap_or (Option.bind (json_get arguments field) as_bool) fallback"

section \<open>Routing\<close>

record trusted_facts =
  tf_ingest_changes_roots :: "bool option"
  tf_auto_ingest_changes_roots :: "bool option"

record classified_action =
  cm_tool_name :: string
  cm_action :: action_id
  cm_effects :: "effect set"
  cm_risk_class :: risk_class
  cm_authority_floor :: authority_floor

datatype route_error =
    UnknownTool string
  | MissingTrustedFact string string
  | UnsupportedSelector string string string
  | CatalogActionMissing action_id
  | CatalogIngressMismatch action_id
  | RouteCatalog catalog_error

definition unsupported :: "string \<Rightarrow> string \<Rightarrow> string option \<Rightarrow> route_error + 'a" where
  "unsupported tool field observed =
     Err (UnsupportedSelector tool field (unwrap_or observed ''<missing-or-non-string>''))"

definition possible_mcp_actions :: "string \<Rightarrow> action_id list option" where
  "possible_mcp_actions tool =
     (let bare = bare_tool_name tool in
      case map_of possible_routes bare of
        Some actions \<Rightarrow> Some actions
      | None \<Rightarrow> map_option (\<lambda>a. [a]) (fixed_mcp_action bare))"

text \<open>The lookup that three functions of the module repeat: the entry of an action, reachable from MCP.\<close>

definition catalog_route :: "action_catalog \<Rightarrow> action_id \<Rightarrow> route_error + catalog_entry" where
  "catalog_route c action =
     and_then (ok_or (find (\<lambda>e. ce_action e = action) (ct_entries c)) (CatalogActionMissing action))
       (\<lambda>e. if Mcp \<notin> ce_ingresses e then Err (CatalogIngressMismatch action) else Ok e)"

fun route_effects_loop ::
  "action_catalog \<Rightarrow> action_id list \<Rightarrow> effect set \<Rightarrow> route_error + effect set" where
  "route_effects_loop c [] effects = Ok effects"
| "route_effects_loop c (a # actions) effects =
     and_then (catalog_route c a) (\<lambda>e. route_effects_loop c actions (effects \<union> ce_complete_effects e))"

definition possible_mcp_effects :: "platform \<Rightarrow> string \<Rightarrow> route_error + effect set" where
  "possible_mcp_effects E tool =
     (let bare = bare_tool_name tool in
      and_then (ok_or (possible_mcp_actions bare) (UnknownTool bare)) (\<lambda>actions.
      and_then (map_err RouteCatalog (m1nd10_action_catalog E)) (\<lambda>catalog.
        route_effects_loop catalog actions {})))"

fun route_floors_loop ::
  "action_catalog \<Rightarrow> action_id list \<Rightarrow> authority_floor set \<Rightarrow> route_error + authority_floor set" where
  "route_floors_loop c [] floors = Ok floors"
| "route_floors_loop c (a # actions) floors =
     and_then (catalog_route c a) (\<lambda>e. route_floors_loop c actions (insert (ce_authority_floor e) floors))"

definition possible_mcp_authority_floors :: "platform \<Rightarrow> string \<Rightarrow> route_error + authority_floor set" where
  "possible_mcp_authority_floors E tool =
     (let bare = bare_tool_name tool in
      and_then (ok_or (possible_mcp_actions bare) (UnknownTool bare)) (\<lambda>actions.
      and_then (map_err RouteCatalog (m1nd10_action_catalog E)) (\<lambda>catalog.
        route_floors_loop catalog actions {})))"

section \<open>Classification\<close>

definition classify_ingest :: "json \<Rightarrow> trusted_facts \<Rightarrow> route_error + action_id" where
  "classify_ingest arguments trusted =
     (if nonempty_string arguments ''project_root'' then Ok ''brain.bootstrap''
      else let mode = unwrap_or (string_field arguments ''mode'') ''replace'' in
        if mode = ''replace'' then Ok ''graph.ingest.replace''
        else if mode = ''refresh'' then Ok ''graph.ingest.refresh_declared_root''
        else if mode = ''merge'' then
          (case tf_ingest_changes_roots trusted of
             Some True \<Rightarrow> Ok ''graph.ingest.change_roots''
           | Some False \<Rightarrow> Ok ''graph.ingest.merge_existing''
           | None \<Rightarrow> Err (MissingTrustedFact ''ingest'' ''ingest_changes_roots''))
        else Err (UnsupportedSelector ''ingest'' ''mode'' mode))"

definition classify_auto_ingest :: "trusted_facts \<Rightarrow> route_error + action_id" where
  "classify_auto_ingest trusted =
     (case tf_auto_ingest_changes_roots trusted of
        Some True \<Rightarrow> Ok ''auto_ingest.change_roots''
      | Some False \<Rightarrow> Ok ''auto_ingest.start_existing_roots''
      | None \<Rightarrow> Err (MissingTrustedFact ''auto_ingest_start'' ''auto_ingest_changes_roots''))"

text \<open>
  A \<open>match\<close> on an optional string whose arms are literals and whose last arm is
  \<open>other => unsupported(tool, field, other)\<close>.
\<close>

definition select_action ::
  "(string \<times> action_id) list \<Rightarrow> string \<Rightarrow> string \<Rightarrow> string option \<Rightarrow> route_error + action_id" where
  "select_action arms tool field observed =
     (case Option.bind observed (map_of arms) of
        Some a \<Rightarrow> Ok a
      | None \<Rightarrow> unsupported tool field observed)"

definition persist_arms :: "(string \<times> action_id) list" where
  "persist_arms =
    [(''status'', ''store.persist.status''), (''save'', ''store.persist.save_runtime''),
     (''checkpoint'', ''store.persist.checkpoint''), (''load'', ''store.persist.load_replace'')]"

definition classify_persist :: "json \<Rightarrow> route_error + action_id" where
  "classify_persist arguments =
     select_action persist_arms ''persist'' ''action'' (string_field arguments ''action'')"

definition boot_memory_arms :: "(string \<times> action_id) list" where
  "boot_memory_arms =
    [(''set'', ''boot_memory.set''), (''delete'', ''boot_memory.delete''),
     (''get'', ''boot_memory.read''), (''list'', ''boot_memory.read''), (''status'', ''boot_memory.read'')]"

definition archive_arms :: "(string \<times> action_id) list" where
  "archive_arms = [(''archive'', ''system_blocks.archive''), (''restore'', ''system_blocks.restore'')]"

definition lease_arms :: "(string \<times> action_id) list" where
  "lease_arms =
    [(''acquire'', ''system_blocks.lease.acquire''), (''refresh'', ''system_blocks.lease.refresh''),
     (''release'', ''system_blocks.lease.release'')]"

definition mission_service_arms :: "(string \<times> action_id) list" where
  "mission_service_arms =
    [(''land_intent'', ''mission.service.land_intent''),
     (''mission_transition'', ''mission.service.mission_transition''),
     (''execution_dispatch'', ''mission.service.execution_dispatch''),
     (''execution_started'', ''mission.service.execution_started''),
     (''execution_terminal'', ''mission.service.execution_terminal''),
     (''land'', ''mission.service.land'')]"

definition external_arms :: "(string \<times> action_id) list" where
  "external_arms =
    [(''system_blocks_ratify'', ''system_blocks.ratify''), (''brain_promote'', ''brain.promote''),
     (''source_edit_commit'', ''source.edit.commit''), (''graph_ingest_replace'', ''graph.ingest.replace''),
     (''graph_ingest_merge_existing'', ''graph.ingest.merge_existing'')]"

text \<open>The phase of a posted letter; any phase but the two terminal ones is ordinary.\<close>

definition letter_phase :: "json \<Rightarrow> string option" where
  "letter_phase arguments =
     Option.bind (Option.bind (json_get arguments ''letter'') (\<lambda>l. json_get l ''phase'')) as_str"

definition classify_post :: "json \<Rightarrow> route_error + action_id" where
  "classify_post arguments =
     (case letter_phase arguments of
        Some p \<Rightarrow>
          if p = ''landed'' then Ok ''mission.post.landed''
          else if p = ''archived'' then Ok ''mission.post.archive''
          else Ok ''mission.post.ordinary''
      | None \<Rightarrow> unsupported ''mission_post'' ''letter.phase'' None)"

text \<open>
  The two actions of a semantic prefix; the code matches on the three prefixes it is called with
  and marks any other as unreachable.
\<close>

definition classify_dry_run_or_commit :: "string \<Rightarrow> json \<Rightarrow> string \<Rightarrow> route_error + action_id" where
  "classify_dry_run_or_commit tool arguments semantic_prefix =
     (let mode = unwrap_or (string_field arguments ''mode'') ''dry_run'' in
      if mode = ''dry_run'' then Ok (semantic_prefix @ ''.dry_run'')
      else if mode = ''commit'' then Ok (semantic_prefix @ ''.commit'')
      else Err (UnsupportedSelector tool ''mode'' mode))"

definition select_mcp_action :: "string \<Rightarrow> json \<Rightarrow> trusted_facts \<Rightarrow> route_error + action_id" where
  "select_mcp_action bare arguments trusted =
     (if bare = ''ingest'' then classify_ingest arguments trusted
      else if bare = ''auto_ingest_start'' then classify_auto_ingest trusted
      else if bare = ''federate_auto'' then
        Ok (if bool_field arguments ''execute'' False
            then ''graph.federate_auto.execute'' else ''graph.federate_auto.preview'')
      else if bare = ''mission_close'' then
        Ok (if bool_field arguments ''write_light_memory'' False
            then ''mission.close_with_memory'' else ''mission.close'')
      else if bare = ''persist'' then classify_persist arguments
      else if bare = ''boot_memory'' then
        select_action boot_memory_arms bare ''action'' (string_field arguments ''action'')
      else if bare = ''memorize'' then Ok ''memory.memorize.default''
      else if bare = ''xray_retag'' then classify_dry_run_or_commit bare arguments ''xray.retag''
      else if bare = ''xray_apply'' then classify_dry_run_or_commit bare arguments ''xray.apply''
      else if bare = ''xray_paint'' then classify_dry_run_or_commit bare arguments ''xray.paint''
      else if bare = ''system_blocks_archive'' then
        select_action archive_arms bare ''mode'' (string_field arguments ''mode'')
      else if bare = ''candidate_lease'' then
        select_action lease_arms bare ''action'' (string_field arguments ''action'')
      else if bare = ''mission_post'' then classify_post arguments
      else if bare = ''mission_service'' then
        select_action mission_service_arms bare ''action'' (string_field arguments ''action'')
      else if bare = ''external_mutation_service'' then
        select_action external_arms bare ''action'' (string_field arguments ''action'')
      else ok_or (fixed_mcp_action bare) (UnknownTool bare))"

definition resolve_catalog_action :: "platform \<Rightarrow> string \<Rightarrow> action_id \<Rightarrow> route_error + classified_action" where
  "resolve_catalog_action E tool_name action =
     and_then (map_err RouteCatalog (m1nd10_action_catalog E)) (\<lambda>catalog.
     and_then (catalog_route catalog action) (\<lambda>e.
       Ok \<lparr>cm_tool_name = tool_name, cm_action = ce_action e, cm_effects = ce_complete_effects e,
           cm_risk_class = ce_risk_class e, cm_authority_floor = ce_authority_floor e\<rparr>))"

definition classify_mcp_action ::
  "platform \<Rightarrow> string \<Rightarrow> json \<Rightarrow> trusted_facts \<Rightarrow> route_error + classified_action" where
  "classify_mcp_action E tool arguments trusted =
     (let bare = bare_tool_name tool in
      and_then (select_mcp_action bare arguments trusted) (\<lambda>action. resolve_catalog_action E bare action))"


text \<open>
  \<open>enforce_generic_action_policy\<close> of \<open>m1nd-mcp/src/server.rs\<close>: the policy boundary every generic
  call over REST or MCP crosses before a brain is resolved.  A refusal carries its cause where the
  code carries a sentence built from it.
\<close>

definition GENERIC_A2_LOCAL_ADMITTED_ACTIONS :: "action_id list" where
  "GENERIC_A2_LOCAL_ADMITTED_ACTIONS = [''graph.ingest.refresh_declared_root'']"

fun generic_dispatch_floor_is_available :: "authority_floor \<Rightarrow> bool" where
  "generic_dispatch_floor_is_available FloorOrdinary = True"
| "generic_dispatch_floor_is_available ScopedGrantA2 = False"
| "generic_dispatch_floor_is_available PositiveSovereign = False"
| "generic_dispatch_floor_is_available ServiceIdentity = False"
| "generic_dispatch_floor_is_available SafetyOnly = False"

text \<open>\<open>legacy_mutation_refusal\<close>: the three retired raw mutations.\<close>

datatype legacy_ingress = RawMissionPost | ReceiptImport | RawLanded

definition legacy_mutation_refusal :: "string \<Rightarrow> legacy_ingress option" where
  "legacy_mutation_refusal action =
     map_of [(''mission_post'', RawMissionPost), (''receipt_import'', ReceiptImport), (''landed'', RawLanded)]
       action"

datatype gate_refusal =
    LegacyMutation legacy_ingress
  | FloorsUnresolved route_error
  | ClassificationRefused route_error
  | AuthorityRequired "action_id option" "authority_floor set"

text \<open>\<open>TrustedMcpRouteFacts::default()\<close>.\<close>

definition no_facts :: trusted_facts where
  "no_facts = \<lparr>tf_ingest_changes_roots = None, tf_auto_ingest_changes_roots = None\<rparr>"

text \<open>The exact action, when there is one, and the floors of every action the call may turn out to be.\<close>

definition gate_floors ::
  "platform \<Rightarrow> string \<Rightarrow> json \<Rightarrow> gate_refusal + action_id option \<times> authority_floor set" where
  "gate_floors E bare params =
     (case classify_mcp_action E bare params no_facts of
        Inr c \<Rightarrow> Ok (Some (cm_action c), {cm_authority_floor c})
      | Inl (MissingTrustedFact _ _) \<Rightarrow>
          and_then (map_err FloorsUnresolved (possible_mcp_authority_floors E bare))
            (\<lambda>floors. Ok (None, floors))
      | Inl error \<Rightarrow> Err (ClassificationRefused error))"

definition enforce_generic_action_policy :: "platform \<Rightarrow> string \<Rightarrow> json \<Rightarrow> gate_refusal + unit" where
  "enforce_generic_action_policy E tool_name params =
     (let bare = bare_tool_name tool_name in
      case legacy_mutation_refusal bare of
        Some refusal \<Rightarrow> Err (LegacyMutation refusal)
      | None \<Rightarrow>
          and_then (gate_floors E bare params) (\<lambda>(action, floors).
            if (\<exists>exact \<in> set_option action. exact \<in> set GENERIC_A2_LOCAL_ADMITTED_ACTIONS) then Ok ()
            else let unavailable = {f \<in> floors. \<not> generic_dispatch_floor_is_available f} in
              if unavailable = {} then Ok () else Err (AuthorityRequired action unavailable)))"

end
