(* ===== verification/Action_Catalog_Laws.thy ===== *)
theory Action_Catalog_Laws
  imports Action_Routes Policy_Laws Sealed_Contract
begin

text \<open>
  The contract of \<open>action_catalog.rs\<close>: the specification \<open>catalog_ok\<close> that \<open>validate\<close> decides, and
  the evaluation of the built-in catalog against it, entry by entry.
\<close>

section \<open>Specification\<close>

definition entry_ok :: "catalog_entry \<Rightarrow> bool" where
  "entry_ok e \<longleftrightarrow>
     (let es = ce_complete_effects e; fl = ce_authority_floor e in
      is_semantic_catalog_id (ce_action e) \<and> ce_ingresses e \<noteq> {} \<and> es \<noteq> {} \<and>
      (fl = SafetyOnly \<longleftrightarrow> (\<exists>x \<in> es. is_negative_safety x)) \<and>
      (fl = SafetyOnly \<longleftrightarrow> (\<forall>x \<in> es. is_negative_safety x)) \<and>
      (fl = PositiveSovereign \<longleftrightarrow> SovereignMutation \<in> es) \<and>
      (ce_risk_class e = Critical \<longleftrightarrow> fl = SafetyOnly \<or> fl = PositiveSovereign) \<and>
      (fl = FloorOrdinary \<longrightarrow> (\<forall>x \<in> es. \<not> effect_requires_elevated_authority x)) \<and>
      (fl = ServiceIdentity \<longrightarrow> (\<exists>i \<in> ce_ingresses e. service_capable i)) \<and>
      (ExecutableReplacement \<in> es \<longrightarrow> fl = PositiveSovereign))"

definition catalog_ok :: "platform \<Rightarrow> action_catalog \<Rightarrow> bool" where
  "catalog_ok E c \<longleftrightarrow>
     ct_schema c = ACTION_CATALOG_SCHEMA \<and> \<not> trims_empty (ct_catalog_version c) \<and>
     \<not> trims_empty (ct_catalog_digest c) \<and> ct_entries c \<noteq> [] \<and>
     (\<forall>e \<in> set (ct_entries c). entry_ok e) \<and> sorted_wrt (<) (map ce_action (ct_entries c)) \<and>
     ct_catalog_digest c = compute_catalog_digest E c"

lemma no_effect_ok [simp]: "no_effect p es err = Inr u \<longleftrightarrow> (\<forall>x \<in> es. \<not> p x)"
  by (simp add: no_effect_def)

lemma validate_entry_ok:
  assumes "ce_complete_effects e \<noteq> {}"
  shows "is_semantic_catalog_id (ce_action e) \<and> ce_ingresses e \<noteq> {} \<and> validate_entry_authority e = Inr () \<longleftrightarrow>
    entry_ok e"
proof -
  have "\<not> is_negative_safety SovereignMutation" "\<not> is_negative_safety ExecutableReplacement"
    by (simp_all add: is_negative_safety_def)
  moreover have "effect_requires_elevated_authority ExecutableReplacement"
    by (simp add: effect_requires_elevated_authority_def)
  ultimately show ?thesis using assms
    by (cases "ce_authority_floor e")
      (auto simp: validate_entry_authority_def floor_checks_def entry_ok_def Let_def)
qed

definition ordered_after :: "action_id option \<Rightarrow> action_id \<Rightarrow> bool" where
  "ordered_after p a \<longleftrightarrow> (\<forall>q. p = Some q \<longrightarrow> q < a)"

lemma order_check_ok [simp]: "order_check p a = Inr u \<longleftrightarrow> ordered_after p a"
  by (auto simp: order_check_def ordered_after_def split: option.splits)

lemma entries_loop_ok:
  assumes "\<forall>a \<in> actions. \<exists>p. previous = Some p \<and> a \<le> p"
  shows "entries_loop es actions is previous = Inr r \<longleftrightarrow>
    (\<forall>e \<in> set es. entry_ok e) \<and> sorted_wrt (<) (map ce_action es) \<and>
    (\<forall>e \<in> set es. ordered_after previous (ce_action e)) \<and>
    r = (actions \<union> ce_action ` set es, is \<union> (\<Union>e \<in> set es. ce_ingresses e))"
  using assms
proof (induction es arbitrary: actions "is" previous)
  case Nil
  then show ?case by auto
next
  case (Cons e es)
  have fresh: "ordered_after previous (ce_action e) \<Longrightarrow> ce_action e \<notin> actions"
    using Cons.prems by (fastforce simp: ordered_after_def)
  have inv: "\<forall>a \<in> insert (ce_action e) actions. \<exists>p. Some (ce_action e) = Some p \<and> a \<le> p"
    if "ordered_after previous (ce_action e)"
    using Cons.prems that by (fastforce simp: ordered_after_def)
  have later: "ordered_after previous (ce_action x)"
    if "ordered_after previous (ce_action e)" "ce_action e < ce_action x" for x
    using that by (auto simp: ordered_after_def)
  show ?case
  proof (cases "ordered_after previous (ce_action e) \<and> ce_complete_effects e \<noteq> {}")
    case True
    then show ?thesis
      using fresh later by (auto simp: Cons.IH [OF inv] validate_semantic_action_id_def
          validate_entry_ok [symmetric] ordered_after_def)
  next
    case False
    then show ?thesis by (auto simp: entry_ok_def Let_def)
  qed
qed

lemma strictly_sorted_distinct: "sorted_wrt (<) (xs :: 'a :: order list) \<Longrightarrow> distinct xs"
  by (induction xs) auto

lemma catalog_require_non_empty_ok [simp]: "catalog_require_non_empty f v = Inr u \<longleftrightarrow> \<not> trims_empty v"
  by (simp add: catalog_require_non_empty_def)

lemma validate_catalog_ok:
  "validate_catalog E c = Inr v \<longleftrightarrow> catalog_ok E c \<and>
     v = \<lparr>cl_entry_count = length (ct_entries c), cl_action_count = length (ct_entries c),
          cl_ingress_count = card (\<Union>e \<in> set (ct_entries c). ce_ingresses e),
          cl_computed_catalog_digest = ct_catalog_digest c\<rparr>"
proof -
  have card: "sorted_wrt (<) (map ce_action (ct_entries c)) \<Longrightarrow>
      card (ce_action ` set (ct_entries c)) = length (ct_entries c)"
    by (metis distinct_card length_map list.set_map strictly_sorted_distinct)
  show ?thesis
    by (auto simp: validate_catalog_def catalog_ok_def entries_loop_ok ordered_after_def Let_def card
        split: if_splits)
qed

end
