(* ===== verification/Action_Builtin.thy ===== *)
theory Action_Builtin
  imports Action_Catalog_Laws
begin

text \<open>
  The built-in catalog evaluated: every entry meets the specification of an entry, no two have one
  action, so \<open>m1nd10_action_catalog\<close> returns a catalog, and the entry of an action is found in it.
\<close>

section \<open>Comparing literals\<close>

text \<open>
  Comparisons that simplification evaluates one character at a time, stopping at the first
  difference: \<open>fresh_in True s ts\<close> says that \<open>s\<close> is not in \<open>ts\<close>.
\<close>

fun differ :: "bool \<Rightarrow> string \<Rightarrow> string \<Rightarrow> bool" where
  "differ False s t = True"
| "differ True (a # s) (b # t) = differ (a = b) s t"
| "differ True [] [] = False"
| "differ True [] (b # t) = True"
| "differ True (a # s) [] = True"

fun fresh_in :: "bool \<Rightarrow> string \<Rightarrow> string list \<Rightarrow> bool" where
  "fresh_in False s ts = False"
| "fresh_in True s [] = True"
| "fresh_in True s (t # ts) = fresh_in (differ True s t) s ts"

fun all_fresh :: "bool \<Rightarrow> string list \<Rightarrow> bool" where
  "all_fresh False ts = False"
| "all_fresh True [] = True"
| "all_fresh True (s # ts) = all_fresh (fresh_in True s ts) ts"

fun all_known :: "bool \<Rightarrow> string list \<Rightarrow> string list \<Rightarrow> bool" where
  "all_known True ss ts = False"
| "all_known False [] ts = True"
| "all_known False (s # ss) ts = all_known (fresh_in True s ts) ss ts"

lemma differ_iff: "differ b s t \<longleftrightarrow> b \<longrightarrow> s \<noteq> t"
  by (induction b s t rule: differ.induct) auto

lemma fresh_in_iff: "fresh_in b s ts \<longleftrightarrow> b \<and> s \<notin> set ts"
  by (induction b s ts rule: fresh_in.induct) (auto simp: differ_iff)

lemma all_fresh_iff: "all_fresh b ts \<longleftrightarrow> b \<and> distinct ts"
  by (induction b ts rule: all_fresh.induct) (auto simp: fresh_in_iff)

lemma all_known_iff: "all_known b ss ts \<longleftrightarrow> \<not> b \<and> set ss \<subseteq> set ts"
  by (induction b ss ts rule: all_known.induct) (auto simp: fresh_in_iff)

section \<open>The entries one by one\<close>

lemma entry_fields [simp]:
  "ce_action (entry a is es r f) = a" "ce_ingresses (entry a is es r f) = set is"
  "ce_complete_effects (entry a is es r f) = set es" "ce_risk_class (entry a is es r f) = r"
  "ce_authority_floor (entry a is es r f) = f"
  by (simp_all add: entry_def)

lemmas entry_evaluation = entry_ok_def is_negative_safety_def effect_requires_elevated_authority_def
  service_capable_def is_semantic_catalog_id_def catalog_char_def Let_def

lemma catalog_entries_1_ok: "list_all entry_ok catalog_entries_1"
  by (simp add: catalog_entries_1_def entry_evaluation)

lemma catalog_entries_2_ok: "list_all entry_ok catalog_entries_2"
  by (simp add: catalog_entries_2_def entry_evaluation)

lemma catalog_entries_3_ok: "list_all entry_ok catalog_entries_3"
  by (simp add: catalog_entries_3_def entry_evaluation)

lemma catalog_entries_4_ok: "list_all entry_ok catalog_entries_4"
  by (simp add: catalog_entries_4_def entry_evaluation)

lemma catalog_entries_5_ok: "list_all entry_ok catalog_entries_5"
  by (simp add: catalog_entries_5_def entry_evaluation)

lemma catalog_entries_6_ok: "list_all entry_ok catalog_entries_6"
  by (simp add: catalog_entries_6_def entry_evaluation)

lemma catalog_entries_7_ok: "list_all entry_ok catalog_entries_7"
  by (simp add: catalog_entries_7_def entry_evaluation)

lemma catalog_entries_8_ok: "list_all entry_ok catalog_entries_8"
  by (simp add: catalog_entries_8_def entry_evaluation)

lemma catalog_entries_9_ok: "list_all entry_ok catalog_entries_9"
  by (simp add: catalog_entries_9_def entry_evaluation)

lemma catalog_entries_10_ok: "list_all entry_ok catalog_entries_10"
  by (simp add: catalog_entries_10_def entry_evaluation)

lemmas catalog_chunks =
  catalog_entries_1_def catalog_entries_2_def catalog_entries_3_def catalog_entries_4_def catalog_entries_5_def
  catalog_entries_6_def catalog_entries_7_def catalog_entries_8_def catalog_entries_9_def catalog_entries_10_def

lemma catalog_entries_ok: "e \<in> set catalog_entries \<Longrightarrow> entry_ok e"
  using catalog_entries_1_ok catalog_entries_2_ok catalog_entries_3_ok catalog_entries_4_ok catalog_entries_5_ok
    catalog_entries_6_ok catalog_entries_7_ok catalog_entries_8_ok catalog_entries_9_ok catalog_entries_10_ok
  unfolding catalog_entries_def list_all_iff by (auto simp del: entry_fields)

lemma catalog_actions_distinct: "distinct (map ce_action catalog_entries)"
proof -
  have "all_fresh True (map ce_action catalog_entries)" by (simp add: catalog_entries_def catalog_chunks)
  then show ?thesis by (simp add: all_fresh_iff)
qed

lemma catalog_size: "length catalog_entries = 174"
  by (simp add: catalog_entries_def catalog_chunks)

section \<open>The catalog\<close>

definition builtin_catalog :: "platform \<Rightarrow> action_catalog" where
  "builtin_catalog E = seal_catalog E
     \<lparr>ct_schema = ACTION_CATALOG_SCHEMA, ct_catalog_version = M1ND10_ACTION_CATALOG_VERSION,
      ct_entries = sort_key ce_action catalog_entries, ct_catalog_digest = []\<rparr>"

lemma builtin_fields [simp]:
  "ct_schema (builtin_catalog E) = ACTION_CATALOG_SCHEMA"
  "ct_catalog_version (builtin_catalog E) = M1ND10_ACTION_CATALOG_VERSION"
  "ct_entries (builtin_catalog E) = sort_key ce_action catalog_entries"
  by (simp_all add: builtin_catalog_def seal_catalog_def)

lemma catalog_digest_ignores_itself [simp]:
  "compute_catalog_digest E (c\<lparr>ct_catalog_digest := d\<rparr>) = compute_catalog_digest E c"
  by (simp add: compute_catalog_digest_def json_of_catalog_def)

lemma strictly_sorted_entries: "sorted_wrt (<) (map ce_action (sort_key ce_action catalog_entries))"
proof -
  have "sorted (map ce_action (sort_key ce_action catalog_entries))" by simp
  moreover have "distinct (map ce_action (sort_key ce_action catalog_entries))"
    using catalog_actions_distinct by (simp add: distinct_map)
  ultimately show ?thesis using strict_sorted_iff by blast
qed

lemma builtin_ok:
  assumes "sha256_width E"
  shows "catalog_ok E (builtin_catalog E)"
proof -
  have version: "\<not> trims_empty M1ND10_ACTION_CATALOG_VERSION"
    by (simp add: M1ND10_ACTION_CATALOG_VERSION_def white1_def white2_def white3_def)
  have "ct_catalog_digest (builtin_catalog E) = compute_catalog_digest E (builtin_catalog E)"
    unfolding builtin_catalog_def seal_catalog_def catalog_digest_ignores_itself by simp
  moreover have "digest_syntax (compute_catalog_digest E (builtin_catalog E))"
    unfolding compute_catalog_digest_def by (rule digest_canonical_syntax [OF assms])
  moreover have "sort_key ce_action catalog_entries \<noteq> []"
    using catalog_size by (metis length_0_conv length_sort zero_neq_numeral)
  ultimately show ?thesis
    using digest_syntax_not_blank catalog_entries_ok strictly_sorted_entries version
    by (simp add: catalog_ok_def)
qed

lemma builtin_returned:
  assumes "sha256_width E"
  shows "m1nd10_action_catalog E = Inr (builtin_catalog E)"
proof -
  obtain v where "validate_catalog E (builtin_catalog E) = Inr v"
    using builtin_ok [OF assms] validate_catalog_ok by blast
  then show ?thesis
    unfolding m1nd10_action_catalog_def builtin_catalog_def [symmetric] Let_def by simp
qed

lemma find_hit: "find P xs = Some x \<Longrightarrow> x \<in> set xs \<and> P x"
  by (induction xs) (auto split: if_splits)

lemma find_entry:
  "find (\<lambda>e. ce_action e = a) (sort_key ce_action catalog_entries) = Some e \<longleftrightarrow>
     e \<in> set catalog_entries \<and> ce_action e = a"
proof -
  have inj: "inj_on ce_action (set catalog_entries)" using catalog_actions_distinct by (simp only: distinct_map)
  let ?f = "find (\<lambda>e. ce_action e = a) (sort_key ce_action catalog_entries)"
  have sound: "e \<in> set catalog_entries \<and> ce_action e = a" if "?f = Some e" for e
    using find_hit [OF that] by simp
  have "?f = Some e" if e: "e \<in> set catalog_entries" "ce_action e = a"
  proof (cases ?f)
    case None
    with e show ?thesis by (auto simp: find_None_iff)
  next
    case (Some e')
    with sound e inj show ?thesis by (auto dest: inj_onD)
  qed
  with sound show ?thesis by blast
qed

end
