(* ===== verification/Action_Routes_Laws.thy ===== *)
theory Action_Routes_Laws
  imports Action_Builtin
begin

text \<open>
  The contract of \<open>action_routes.rs\<close> over the built-in catalog: every action a tool can select has
  an entry that MCP reaches, what is selected is among the possible actions of the tool, and the
  owner's facts only decide calls that were refused without them.
\<close>

section \<open>Routed actions\<close>

definition mcp_ids :: "catalog_entry list \<Rightarrow> string list" where
  "mcp_ids es = concat (map (\<lambda>e. if Mcp \<in> ce_ingresses e then [ce_action e] else []) es)"

lemma mcp_ids_set: "set (mcp_ids es) = ce_action ` {e \<in> set es. Mcp \<in> ce_ingresses e}"
  by (auto simp: mcp_ids_def)

definition routed_actions :: "action_id list" where
  "routed_actions = ''query.read'' # map snd fixed_routes @ concat (map snd possible_routes)"

lemma routed_actions_reachable: "set routed_actions \<subseteq> set (mcp_ids catalog_entries)"
proof -
  have "all_known False routed_actions (mcp_ids catalog_entries)"
    by (simp add: routed_actions_def fixed_routes_def possible_routes_def mcp_ids_def catalog_entries_def
        catalog_chunks)
  then show ?thesis by (simp add: all_known_iff)
qed

definition routed_tools :: "string list" where
  "routed_tools = map fst possible_routes @ map fst fixed_routes @ PURE_READ_TOOLS"

lemma routed_tools_bare: "list_all (\<lambda>t. bare_tool_name t = t) routed_tools"
  by (simp add: routed_tools_def possible_routes_def fixed_routes_def PURE_READ_TOOLS_def
      bare_tool_name_def strip_prefix_def)

lemma catalog_route_ok:
  "catalog_route (builtin_catalog E) a = Inr e \<longleftrightarrow>
     e \<in> set catalog_entries \<and> ce_action e = a \<and> Mcp \<in> ce_ingresses e"
  by (auto simp: catalog_route_def find_entry split: if_splits)

lemma routed_entry:
  assumes "a \<in> set routed_actions"
  obtains e where "catalog_route (builtin_catalog E) a = Inr e"
  using subsetD [OF routed_actions_reachable assms] by (auto simp: mcp_ids_set catalog_route_ok)

lemma route_effects_loop_ok:
  assumes "set acts \<subseteq> set routed_actions"
  shows "\<exists>fs. route_effects_loop (builtin_catalog E) acts es = Inr fs \<and> es \<subseteq> fs \<and>
    (\<forall>e. catalog_route (builtin_catalog E) (ce_action e) = Inr e \<and> ce_action e \<in> set acts \<longrightarrow> ce_complete_effects e \<subseteq> fs)"
  using assms
proof (induction acts arbitrary: es)
  case (Cons a acts)
  then have "a \<in> set routed_actions" by simp
  then obtain e where e: "catalog_route (builtin_catalog E) a = Inr e" by (rule routed_entry)
  then have act: "ce_action e = a" by (simp add: catalog_route_ok)
  from Cons obtain fs where fs: "route_effects_loop (builtin_catalog E) acts (es \<union> ce_complete_effects e) = Inr fs"
    "es \<union> ce_complete_effects e \<subseteq> fs"
    "\<forall>e. catalog_route (builtin_catalog E) (ce_action e) = Inr e \<and> ce_action e \<in> set acts \<longrightarrow> ce_complete_effects e \<subseteq> fs"
    by (metis (no_types, lifting) list.set_intros(2) subset_code(1))
  have "ce_complete_effects x \<subseteq> fs"
    if "catalog_route (builtin_catalog E) (ce_action x) = Inr x" "ce_action x \<in> set (a # acts)" for x
    using that fs(2,3) e by (cases "ce_action x = a") auto
  with fs e show ?case by auto
qed simp

lemma route_floors_loop_ok:
  assumes "set acts \<subseteq> set routed_actions"
  shows "\<exists>fs. route_floors_loop (builtin_catalog E) acts gs = Inr fs \<and> gs \<subseteq> fs \<and>
    (\<forall>e. catalog_route (builtin_catalog E) (ce_action e) = Inr e \<and> ce_action e \<in> set acts \<longrightarrow> ce_authority_floor e \<in> fs)"
  using assms
proof (induction acts arbitrary: gs)
  case (Cons a acts)
  then have "a \<in> set routed_actions" by simp
  then obtain e where e: "catalog_route (builtin_catalog E) a = Inr e" by (rule routed_entry)
  from Cons obtain fs where fs: "route_floors_loop (builtin_catalog E) acts (insert (ce_authority_floor e) gs) = Inr fs"
    "insert (ce_authority_floor e) gs \<subseteq> fs"
    "\<forall>e. catalog_route (builtin_catalog E) (ce_action e) = Inr e \<and> ce_action e \<in> set acts \<longrightarrow> ce_authority_floor e \<in> fs"
    by (metis (no_types, lifting) list.set_intros(2) subset_code(1))
  have "ce_authority_floor x \<in> fs"
    if "catalog_route (builtin_catalog E) (ce_action x) = Inr x" "ce_action x \<in> set (a # acts)" for x
    using that fs(2,3) e by (cases "ce_action x = a") auto
  with fs e show ?case by auto
qed simp

section \<open>Selection\<close>

lemma map_of_in: "map_of kvs k = Some v \<Longrightarrow> v \<in> snd ` set kvs \<and> k \<in> fst ` set kvs"
  by (induction kvs) (auto split: if_splits)

lemma fixed_routed:
  assumes "fixed_mcp_action t = Some a"
  shows "a \<in> set routed_actions \<and> t \<in> set routed_tools"
proof (cases "map_of fixed_routes t")
  case None
  with assms have "t \<in> set PURE_READ_TOOLS" "a = ''query.read''"
    by (simp_all add: fixed_mcp_action_def split: if_splits)
  then show ?thesis by (simp add: routed_actions_def routed_tools_def)
next
  case (Some b)
  with assms have "a = b" by (simp add: fixed_mcp_action_def)
  with map_of_in [OF Some] show ?thesis by (simp add: routed_actions_def routed_tools_def)
qed

lemma possible_routed:
  assumes "possible_mcp_actions t = Some acts"
  shows "set acts \<subseteq> set routed_actions"
proof (cases "map_of possible_routes (bare_tool_name t)")
  case None
  with assms obtain a where "fixed_mcp_action (bare_tool_name t) = Some a" "acts = [a]"
    by (auto simp: possible_mcp_actions_def Let_def)
  then show ?thesis using fixed_routed by auto
next
  case (Some bs)
  with assms have "acts = bs" by (simp add: possible_mcp_actions_def Let_def)
  with map_of_in [OF Some] have "acts \<in> snd ` set possible_routes" by simp
  then show ?thesis unfolding routed_actions_def by force
qed

lemma select_action_ok:
  "select_action arms tool field s = Inr a \<Longrightarrow> a \<in> snd ` set arms"
  by (auto simp: select_action_def unsupported_def bind_eq_Some_conv dest: map_of_in split: option.splits)

lemma select_action_err:
  "select_action arms tool field s = Inl e \<Longrightarrow> \<exists>o'. e = UnsupportedSelector tool field o'"
  by (auto simp: select_action_def unsupported_def split: option.splits)

definition selector_tools :: "string list" where
  "selector_tools =
    [''ingest'', ''auto_ingest_start'', ''federate_auto'', ''mission_close'', ''persist'', ''boot_memory'',
     ''memorize'', ''xray_retag'', ''xray_apply'', ''xray_paint'', ''system_blocks_archive'',
     ''candidate_lease'', ''mission_post'', ''mission_service'', ''external_mutation_service'']"

lemma select_fixed:
  "b \<notin> set selector_tools \<Longrightarrow> select_mcp_action b args facts = ok_or (fixed_mcp_action b) (UnknownTool b)"
  by (simp add: select_mcp_action_def selector_tools_def)

text \<open>A lookup that is evaluated like \<open>differ\<close>; the flag says that the last key was another one.\<close>

fun arm_of :: "bool \<Rightarrow> 'a \<Rightarrow> string \<Rightarrow> (string \<times> 'a) list \<Rightarrow> 'a option" where
  "arm_of False v k kvs = Some v"
| "arm_of True v k [] = None"
| "arm_of True v k ((l, w) # kvs) = arm_of (differ True l k) w k kvs"

lemma arm_of_eq: "arm_of b v k kvs = (if b then map_of kvs k else Some v)"
  by (induction b v k kvs rule: arm_of.induct) (auto simp: differ_iff)

definition both_tables :: "string list" where
  "both_tables = [''graph_ingest_preview'', ''authority_session_challenge'',
     ''authority_session_authenticate'', ''authority_authorize'']"

lemma possible_tools: "fst ` set possible_routes \<subseteq> set selector_tools \<union> set both_tables"
proof -
  have "all_known False (map fst possible_routes) (selector_tools @ both_tables)"
    by (simp add: possible_routes_def selector_tools_def both_tables_def)
  then show ?thesis by (simp add: all_known_iff)
qed

text \<open>Outside the tools with selectors the two tables agree.\<close>

lemma tables_agree:
  assumes "b \<in> set both_tables"
  shows "map_of possible_routes b = map_option (\<lambda>a. [a]) (map_of fixed_routes b)"
proof -
  have "list_all (\<lambda>b. arm_of True [] b possible_routes = map_option (\<lambda>a. [a]) (arm_of True [] b fixed_routes))
      both_tables"
    by (simp add: both_tables_def possible_routes_def fixed_routes_def)
  with assms show ?thesis by (simp add: list_all_iff arm_of_eq)
qed

lemma possible_fixed:
  assumes "b \<notin> set selector_tools" and "bare_tool_name b = b"
  shows "possible_mcp_actions b = map_option (\<lambda>a. [a]) (fixed_mcp_action b)"
proof (cases "map_of possible_routes b")
  case (Some acts)
  then have "b \<in> fst ` set possible_routes" using map_of_in by metis
  with assms(1) possible_tools have "b \<in> set both_tables" by blast
  then have "map_of possible_routes b = map_option (\<lambda>a. [a]) (map_of fixed_routes b)" by (rule tables_agree)
  with Some assms(2) show ?thesis by (auto simp: possible_mcp_actions_def fixed_mcp_action_def)
qed (simp add: possible_mcp_actions_def assms(2))

lemma possible_lookup: "map_of possible_routes b = arm_of True [] b possible_routes"
  by (simp add: arm_of_eq)

lemmas selection = select_mcp_action_def classify_ingest_def classify_auto_ingest_def classify_persist_def
  classify_post_def classify_dry_run_or_commit_def unsupported_def Let_def

lemmas arm_tables = persist_arms_def boot_memory_arms_def archive_arms_def lease_arms_def
  mission_service_arms_def external_arms_def

lemma selector_selects:
  assumes "b \<in> set selector_tools" and "select_mcp_action b args facts = Inr a"
  shows "\<exists>acts. map_of possible_routes b = Some acts \<and> a \<in> set acts"
proof -
  have "a \<in> set (the (arm_of True [] b possible_routes)) \<and> arm_of True [] b possible_routes \<noteq> None"
    using assms unfolding selector_tools_def
    by (auto simp: selection possible_routes_def arm_tables split: if_splits option.splits bool.splits
        dest!: select_action_ok)
  then show ?thesis unfolding possible_lookup by auto
qed

lemma selector_tools_bare: "b \<in> set selector_tools \<Longrightarrow> bare_tool_name b = b"
  by (auto simp: selector_tools_def bare_tool_name_def strip_prefix_def)

lemma selected_bare:
  assumes "select_mcp_action b args facts = Inr a"
  shows "bare_tool_name b = b"
proof (cases "b \<in> set selector_tools")
  case False
  with assms have "b \<in> set routed_tools" by (simp add: select_fixed fixed_routed)
  with routed_tools_bare show ?thesis by (simp add: list_all_iff)
qed (rule selector_tools_bare)

lemma selected_possible:
  assumes "select_mcp_action b args facts = Inr a"
  shows "\<exists>acts. possible_mcp_actions b = Some acts \<and> a \<in> set acts"
proof (cases "b \<in> set selector_tools")
  case True
  with selector_selects [OF True assms] selector_tools_bare show ?thesis
    by (auto simp: possible_mcp_actions_def)
next
  case False
  with assms possible_fixed [OF False selected_bare [OF assms]] show ?thesis by (simp add: select_fixed)
qed

lemma selector_possible: "b \<in> set selector_tools \<Longrightarrow> possible_mcp_actions b \<noteq> None"
proof -
  have "list_all (\<lambda>b. arm_of True [] b possible_routes \<noteq> None) selector_tools"
    by (simp add: selector_tools_def possible_routes_def)
  then show "b \<in> set selector_tools \<Longrightarrow> possible_mcp_actions b \<noteq> None"
    by (auto simp: list_all_iff possible_lookup possible_mcp_actions_def selector_tools_bare)
qed

text \<open>The two refusals of a tool with selectors: its selector, or a fact of the owner.\<close>

fun selector_refusal :: "string \<Rightarrow> route_error \<Rightarrow> bool" where
  "selector_refusal b (MissingTrustedFact t f) = (t = b)"
| "selector_refusal b (UnsupportedSelector t f s) = (t = b)"
| "selector_refusal b e = False"

lemma select_action_refusal: "select_action arms tool field s = Inl e \<Longrightarrow> selector_refusal tool e"
  using select_action_err by fastforce

lemma classify_refusals:
  "classify_ingest args facts = Inl e \<Longrightarrow> selector_refusal ''ingest'' e"
  "classify_auto_ingest facts = Inl e \<Longrightarrow> selector_refusal ''auto_ingest_start'' e"
  "classify_persist args = Inl e \<Longrightarrow> selector_refusal ''persist'' e"
  "classify_post args = Inl e \<Longrightarrow> selector_refusal ''mission_post'' e"
  "classify_dry_run_or_commit tool args prefix = Inl e \<Longrightarrow> selector_refusal tool e"
  subgoal by (simp add: classify_ingest_def Let_def split: if_splits option.splits bool.splits) auto
  subgoal by (simp add: classify_auto_ingest_def split: option.splits bool.splits) auto
  subgoal unfolding classify_persist_def by (rule select_action_refusal)
  subgoal by (simp add: classify_post_def unsupported_def split: option.splits if_splits) auto
  subgoal by (simp add: classify_dry_run_or_commit_def Let_def split: if_splits) auto
  done

lemma selector_refused:
  assumes "b \<in> set selector_tools" and "select_mcp_action b args facts = Inl e"
  shows "selector_refusal b e"
proof -
  have "list_all (\<lambda>b. select_mcp_action b args facts = Inl e \<longrightarrow> selector_refusal b e) selector_tools"
    by (simp add: selector_tools_def select_mcp_action_def classify_refusals select_action_refusal)
  with assms show ?thesis by (simp add: list_all_iff)
qed

lemma selection_refused:
  assumes "select_mcp_action b args facts = Inl e"
  shows "e = UnknownTool b \<and> b \<notin> set selector_tools \<and> fixed_mcp_action b = None \<or>
    b \<in> set selector_tools \<and> selector_refusal b e"
  using assms selector_refused by (cases "b \<in> set selector_tools") (auto simp: select_fixed)

lemma ingest_facts_decide:
  "classify_ingest args facts = Inr a \<Longrightarrow>
     classify_ingest args no_facts = Inr a \<or> (\<exists>t f. classify_ingest args no_facts = Inl (MissingTrustedFact t f))"
  by (simp add: classify_ingest_def no_facts_def Let_def split: if_splits)

lemma facts_decide:
  assumes "select_mcp_action b args facts = Inr a"
  shows "select_mcp_action b args no_facts = Inr a \<or>
    (\<exists>t f. select_mcp_action b args no_facts = Inl (MissingTrustedFact t f))"
proof -
  consider "b = ''ingest''" | "b = ''auto_ingest_start''" | "b \<noteq> ''ingest'' \<and> b \<noteq> ''auto_ingest_start''"
    by blast
  then show ?thesis
  proof cases
    case 1
    with assms ingest_facts_decide show ?thesis by (simp add: select_mcp_action_def)
  next
    case 2
    then show ?thesis by (simp add: select_mcp_action_def classify_auto_ingest_def no_facts_def)
  next
    case 3
    then have "select_mcp_action b args no_facts = select_mcp_action b args facts"
      unfolding select_mcp_action_def by (simp only: if_False simp_thms)
    with assms show ?thesis by simp
  qed
qed

section \<open>Classification\<close>

lemma classified_entry:
  assumes "sha256_width E"
  shows "classify_mcp_action E tool args facts = Inr c \<longleftrightarrow>
    (\<exists>a e. select_mcp_action (bare_tool_name tool) args facts = Inr a \<and>
      catalog_route (builtin_catalog E) a = Inr e \<and>
      c = \<lparr>cm_tool_name = bare_tool_name tool, cm_action = a, cm_effects = ce_complete_effects e,
        cm_risk_class = ce_risk_class e, cm_authority_floor = ce_authority_floor e\<rparr>)"
  by (auto simp: classify_mcp_action_def resolve_catalog_action_def builtin_returned [OF assms] Let_def
      catalog_route_ok)

lemma selected_routed: "select_mcp_action b args facts = Inr a \<Longrightarrow> a \<in> set routed_actions"
  using selected_possible possible_routed by blast

lemma possible_floors_known:
  assumes "sha256_width E" and "possible_mcp_actions (bare_tool_name tool) = Some acts"
  shows "\<exists>fs. possible_mcp_authority_floors E tool = Inr fs \<and>
    (\<forall>e. catalog_route (builtin_catalog E) (ce_action e) = Inr e \<and> ce_action e \<in> set acts \<longrightarrow> ce_authority_floor e \<in> fs)"
  using route_floors_loop_ok [OF possible_routed [OF assms(2)], of E "{}"]
  by (simp add: possible_mcp_authority_floors_def assms(2) builtin_returned [OF assms(1)] Let_def)

lemma possible_effects_known:
  assumes "sha256_width E" and "possible_mcp_actions (bare_tool_name tool) = Some acts"
  shows "\<exists>es. possible_mcp_effects E tool = Inr es \<and>
    (\<forall>e. catalog_route (builtin_catalog E) (ce_action e) = Inr e \<and> ce_action e \<in> set acts \<longrightarrow> ce_complete_effects e \<subseteq> es)"
  using route_effects_loop_ok [OF possible_routed [OF assms(2)], of E "{}"]
  by (simp add: possible_mcp_effects_def assms(2) builtin_returned [OF assms(1)] Let_def)

end
