(* ===== verification/Action_Properties.thy ===== *)
theory Action_Properties
  imports Action_Routes_Laws
begin

text \<open>
  What the action catalog, the routes and the generic gate promise together: the built-in catalog is
  valid, every advertised tool is routed into it, and a generic call that passes the gate reaches no
  elevated effect, whatever the facts of the owner turn out to be.
\<close>

section \<open>The catalog\<close>

text \<open>\<open>validate\<close> accepts an action catalog exactly when it meets the specification - schema and
  self-digest, strictly sorted actions, and entries whose floor, risk and effects agree: sovereign
  effects exactly under the sovereign floor, negative safety effects exactly under the safety floor,
  critical risk exactly under one of the two, no elevated effect under the ordinary floor - and it
  returns the counts of the catalog.\<close>
theorem catalog_validate_decides:
  "validate_catalog E c = Inr v \<longleftrightarrow> catalog_ok E c \<and>
     v = \<lparr>cl_entry_count = length (ct_entries c), cl_action_count = length (ct_entries c),
          cl_ingress_count = card (\<Union>e \<in> set (ct_entries c). ce_ingresses e),
          cl_computed_catalog_digest = ct_catalog_digest c\<rparr>"
  by (rule validate_catalog_ok)

lemma safety_entries_internal:
  "list_all (\<lambda>e. ce_authority_floor e = SafetyOnly \<longrightarrow> ce_ingresses e \<subseteq> {BackgroundJob, Recovery}) catalog_entries"
  by (simp add: catalog_entries_def catalog_chunks)

lemma replacements_off_the_wire:
  "list_all (\<lambda>e. ExecutableReplacement \<in> ce_complete_effects e \<longrightarrow> ce_ingresses e \<subseteq> {Cli, Recovery}) catalog_entries"
  by (simp add: catalog_entries_def catalog_chunks)

text \<open>C18: The built-in catalog is built without an error and holds the 174 entries of the source, each
  within the specification of an entry; its negative safety effects are reached from background jobs
  and recovery only, and no executable is replaced over MCP or REST.\<close>
theorem builtin_catalog_returned:
  assumes "sha256_width E"
  shows "\<exists>c. m1nd10_action_catalog E = Inr c \<and> catalog_ok E c \<and> length (ct_entries c) = 174 \<and>
    set (ct_entries c) = set catalog_entries \<and>
    (\<forall>e \<in> set (ct_entries c).
      ((\<exists>x \<in> ce_complete_effects e. is_negative_safety x) \<longrightarrow> ce_ingresses e \<subseteq> {BackgroundJob, Recovery}) \<and>
      (ExecutableReplacement \<in> ce_complete_effects e \<longrightarrow> ce_ingresses e \<subseteq> {Cli, Recovery}))"
proof -
  have "ce_ingresses e \<subseteq> {BackgroundJob, Recovery}"
    if "e \<in> set catalog_entries" "x \<in> ce_complete_effects e" "is_negative_safety x" for e x
  proof -
    have "ce_authority_floor e = SafetyOnly"
      using catalog_entries_ok [OF that(1)] that(2,3) unfolding entry_ok_def Let_def by blast
    with that(1) safety_entries_internal show ?thesis unfolding list_all_iff by blast
  qed
  moreover have "ce_ingresses e \<subseteq> {Cli, Recovery}"
    if "e \<in> set catalog_entries" "ExecutableReplacement \<in> ce_complete_effects e" for e
    using replacements_off_the_wire that unfolding list_all_iff by blast
  ultimately show ?thesis
    using builtin_ok [OF assms] builtin_returned [OF assms] catalog_size by auto
qed

section \<open>Routes\<close>

text \<open>C16: What a call is classified as is among what its tool can be: whatever the arguments and the
  facts of the owner, the action is one of the possible actions of the tool, its effects are in the
  union of their effects and its floor among their floors - and both unions are computed without an
  error.\<close>
theorem classification_stays_possible:
  assumes "sha256_width E" and "classify_mcp_action E tool args facts = Inr c"
  shows "\<exists>acts es fs. possible_mcp_actions tool = Some acts \<and> cm_action c \<in> set acts \<and>
    possible_mcp_effects E tool = Inr es \<and> cm_effects c \<subseteq> es \<and>
    possible_mcp_authority_floors E tool = Inr fs \<and> cm_authority_floor c \<in> fs"
proof -
  let ?b = "bare_tool_name tool"
  obtain a e where sel: "select_mcp_action ?b args facts = Inr a"
    and e: "catalog_route (builtin_catalog E) a = Inr e"
    and c: "cm_action c = a" "cm_effects c = ce_complete_effects e" "cm_authority_floor c = ce_authority_floor e"
    using assms(2) unfolding classified_entry [OF assms(1)] by auto
  have bare: "bare_tool_name ?b = ?b" by (rule selected_bare [OF sel])
  obtain acts where acts: "possible_mcp_actions ?b = Some acts" "a \<in> set acts"
    using selected_possible [OF sel] by blast
  have route: "catalog_route (builtin_catalog E) (ce_action e) = Inr e" "ce_action e \<in> set acts"
    using e acts(2) by (auto simp: catalog_route_ok)
  obtain es where es: "possible_mcp_effects E tool = Inr es" "ce_complete_effects e \<subseteq> es"
    using possible_effects_known [OF assms(1) acts(1)] route by metis
  obtain fs where fs: "possible_mcp_authority_floors E tool = Inr fs" "ce_authority_floor e \<in> fs"
    using possible_floors_known [OF assms(1) acts(1)] route by metis
  have "possible_mcp_actions tool = Some acts"
    using acts(1) bare by (simp add: possible_mcp_actions_def)
  with es fs acts(2) c show ?thesis by simp
qed

lemma advertised_routed: "set MCP_TOOL_ROUTE_NAMES \<subseteq> set (selector_tools @ map fst fixed_routes @ PURE_READ_TOOLS)"
proof -
  have "all_known False MCP_TOOL_ROUTE_NAMES (selector_tools @ map fst fixed_routes @ PURE_READ_TOOLS)"
    by (simp add: MCP_TOOL_ROUTE_NAMES_def selector_tools_def fixed_routes_def PURE_READ_TOOLS_def)
  then show ?thesis by (simp add: all_known_iff)
qed

lemma fixed_known: "t \<in> set (map fst fixed_routes @ PURE_READ_TOOLS) \<Longrightarrow> fixed_mcp_action t \<noteq> None"
  by (auto simp: fixed_mcp_action_def map_of_eq_None_iff split: option.splits)

text \<open>C17: Routing is total and fails closed: the classification of an advertised tool fails only with a
  selector the tool does not know or a fact the owner did not prove, never for a missing route, a
  missing entry or an entry MCP does not reach; and a name that is no route is refused as unknown.\<close>
theorem classification_fails_closed:
  assumes "sha256_width E" and "classify_mcp_action E tool args facts = Inl e"
  shows "if bare_tool_name tool \<in> set MCP_TOOL_ROUTE_NAMES then selector_refusal (bare_tool_name tool) e
    else e = UnknownTool (bare_tool_name tool) \<or> selector_refusal (bare_tool_name tool) e"
proof -
  let ?b = "bare_tool_name tool"
  have "select_mcp_action ?b args facts = Inl e"
  proof (cases "select_mcp_action ?b args facts")
    case (Inr a)
    then obtain x where "catalog_route (builtin_catalog E) a = Inr x"
      using selected_routed routed_entry by metis
    with Inr assms show ?thesis
      by (simp add: classify_mcp_action_def resolve_catalog_action_def builtin_returned Let_def)
  qed (use assms(2) in \<open>simp add: classify_mcp_action_def Let_def\<close>)
  note refused = selection_refused [OF this]
  have "?b \<notin> set MCP_TOOL_ROUTE_NAMES" if "?b \<notin> set selector_tools" "fixed_mcp_action ?b = None"
    using advertised_routed fixed_known that unfolding set_append by blast
  with refused show ?thesis by auto
qed

section \<open>The generic gate\<close>

lemma refresh_entry:
  "entry ''graph.ingest.refresh_declared_root'' [Mcp] [GraphMutation, RuntimeStoreWrite] High ScopedGrantA2
     \<in> set catalog_entries"
  by (simp add: catalog_entries_def catalog_entries_1_def)

lemma refresh_effects:
  assumes "e \<in> set catalog_entries" and "ce_action e = ''graph.ingest.refresh_declared_root''"
  shows "ce_complete_effects e = {GraphMutation, RuntimeStoreWrite}"
proof -
  have "inj_on ce_action (set catalog_entries)" using catalog_actions_distinct by (simp only: distinct_map)
  from inj_onD [OF this _ assms(1) refresh_entry] assms(2) have "e = entry ''graph.ingest.refresh_declared_root'' [Mcp] [GraphMutation, RuntimeStoreWrite] High ScopedGrantA2"
    by simp
  then show ?thesis by simp
qed

lemma ordinary_effects:
  assumes "e \<in> set catalog_entries" and "ce_authority_floor e = FloorOrdinary" and "x \<in> ce_complete_effects e"
  shows "\<not> effect_requires_elevated_authority x \<and> x \<noteq> SovereignMutation \<and> \<not> is_negative_safety x"
  using catalog_entries_ok [OF assms(1)] assms(2,3) by (auto simp: entry_ok_def Let_def)

lemma available_floor: "generic_dispatch_floor_is_available f \<longleftrightarrow> f = FloorOrdinary"
  by (cases f) simp_all

lemma gate_floors_cover:
  assumes "sha256_width E" and "gate_floors E b params = Inr (action, floors)" and "bare_tool_name b = b"
    and "select_mcp_action b params facts = Inr a" and "catalog_route (builtin_catalog E) a = Inr e"
  shows "ce_authority_floor e \<in> floors \<and> (action = None \<or> action = Some a)"
proof -
  from facts_decide [OF assms(4)] show ?thesis
  proof
    assume "select_mcp_action b params no_facts = Inr a"
    then have "classify_mcp_action E b params no_facts = Inr
        \<lparr>cm_tool_name = b, cm_action = a, cm_effects = ce_complete_effects e,
         cm_risk_class = ce_risk_class e, cm_authority_floor = ce_authority_floor e\<rparr>"
      using assms(3,5) by (simp add: classified_entry [OF assms(1)])
    with assms(2) show ?thesis by (auto simp: gate_floors_def)
  next
    assume "\<exists>t f. select_mcp_action b params no_facts = Inl (MissingTrustedFact t f)"
    then obtain t f where "classify_mcp_action E b params no_facts = Inl (MissingTrustedFact t f)"
      using assms(3) by (auto simp: classify_mcp_action_def)
    with assms(2) have floors: "possible_mcp_authority_floors E b = Inr floors" "action = None"
      by (auto simp: gate_floors_def)
    obtain acts where acts: "possible_mcp_actions b = Some acts" "a \<in> set acts"
      using selected_possible [OF assms(4)] by blast
    have route: "catalog_route (builtin_catalog E) (ce_action e) = Inr e" "ce_action e \<in> set acts"
      using assms(5) acts(2) by (auto simp: catalog_route_ok)
    have "possible_mcp_actions (bare_tool_name b) = Some acts" using acts(1) assms(3) by simp
    from possible_floors_known [OF assms(1) this] floors(1) route have "ce_authority_floor e \<in> floors"
      by (metis sum.inject(2))
    with floors(2) show ?thesis by simp
  qed
qed

lemma gate_admits:
  assumes "sha256_width E" and "enforce_generic_action_policy E tool params = Inr ()"
    and "classify_mcp_action E tool params facts = Inr c"
  shows "legacy_mutation_refusal (bare_tool_name tool) = None \<and>
    (cm_authority_floor c = FloorOrdinary \<or> cm_action c = ''graph.ingest.refresh_declared_root'') \<and>
    (\<forall>x \<in> cm_effects c. \<not> effect_requires_elevated_authority x \<and> x \<noteq> SovereignMutation \<and> \<not> is_negative_safety x)"
proof -
  let ?b = "bare_tool_name tool" and ?r = "''graph.ingest.refresh_declared_root''"
  obtain a e where sel: "select_mcp_action ?b params facts = Inr a"
    and e: "catalog_route (builtin_catalog E) a = Inr e"
    and c: "cm_action c = a" "cm_effects c = ce_complete_effects e" "cm_authority_floor c = ce_authority_floor e"
    using assms(3) unfolding classified_entry [OF assms(1)] by auto
  have entry: "e \<in> set catalog_entries" "ce_action e = a" using e by (auto simp: catalog_route_ok)
  have legacy: "legacy_mutation_refusal ?b = None"
    using assms(2) by (auto simp: enforce_generic_action_policy_def Let_def split: option.splits)
  obtain action floors where gate: "gate_floors E ?b params = Inr (action, floors)"
    and admitted: "action = Some ?r \<or> (\<forall>f \<in> floors. generic_dispatch_floor_is_available f)"
    using assms(2) legacy
    by (auto simp: enforce_generic_action_policy_def GENERIC_A2_LOCAL_ADMITTED_ACTIONS_def Let_def split: if_splits)
  note cover = gate_floors_cover [OF assms(1) gate selected_bare [OF sel] sel e]
  have floor: "ce_authority_floor e = FloorOrdinary \<or> a = ?r" using admitted cover available_floor by auto
  have "\<not> effect_requires_elevated_authority x \<and> x \<noteq> SovereignMutation \<and> \<not> is_negative_safety x"
    if x: "x \<in> ce_complete_effects e" for x
  proof (cases "a = ?r")
    case True
    with refresh_effects entry x show ?thesis
      by (auto simp: effect_requires_elevated_authority_def is_negative_safety_def)
  qed (use floor ordinary_effects entry x in blast)
  with legacy floor c show ?thesis by simp
qed

text \<open>C15: A generic call that passes the gate is no retired raw mutation, and whatever the facts of the
  owner turn out to be, what it is classified as has the ordinary floor or is the one refresh admitted
  by name; it writes no source or host file, spawns or signals no process, opens no network, replaces
  no executable, and has no sovereign and no safety effect.\<close>
theorem generic_gate_admits_ordinary:
  assumes "sha256_width E" and "enforce_generic_action_policy E tool params = Inr ()"
    and "classify_mcp_action E tool params facts = Inr c"
  shows "legacy_mutation_refusal (bare_tool_name tool) = None \<and>
    (cm_authority_floor c = FloorOrdinary \<or> cm_action c = ''graph.ingest.refresh_declared_root'') \<and>
    (\<forall>x \<in> cm_effects c. \<not> effect_requires_elevated_authority x \<and> x \<noteq> SovereignMutation \<and> \<not> is_negative_safety x)"
  using assms by (rule gate_admits)

section \<open>Witnesses\<close>

definition sample_facts :: trusted_facts where
  "sample_facts = \<lparr>tf_ingest_changes_roots = Some True, tf_auto_ingest_changes_roots = Some False\<rparr>"

lemma orient_entry:
  "entry ''query.orient'' [Mcp] [Read, GraphMutation, RuntimeStoreWrite, CoordinationRecord] Medium FloorOrdinary
     \<in> set catalog_entries"
  by (simp add: catalog_entries_def catalog_chunks)

lemma change_roots_entry:
  "entry ''graph.ingest.change_roots'' [Mcp] [GraphMutation, RuntimeStoreWrite, SovereignMutation]
     Critical PositiveSovereign \<in> set catalog_entries"
  by (simp add: catalog_entries_def catalog_entries_1_def)

text \<open>A merge with a fact of the owner, and one without.\<close>

definition merge_arguments :: json where
  "merge_arguments = JObject [(''mode'', JString ''merge''), (''paths'', JArray [JString ''src''])]"

lemma merge_selected:
  "select_mcp_action ''ingest'' merge_arguments facts =
     (case tf_ingest_changes_roots facts of
        Some True \<Rightarrow> Inr ''graph.ingest.change_roots''
      | Some False \<Rightarrow> Inr ''graph.ingest.merge_existing''
      | None \<Rightarrow> Inl (MissingTrustedFact ''ingest'' ''ingest_changes_roots''))"
  by (simp add: select_mcp_action_def classify_ingest_def merge_arguments_def nonempty_string_def
      string_field_def unwrap_or_def Let_def)

lemma bare_sample: "bare_tool_name ''m1nd.ingest'' = ''ingest''" "bare_tool_name ''m1nd.orient'' = ''orient''"
  "bare_tool_name ''orient'' = ''orient''"
  by (simp_all add: bare_tool_name_def strip_prefix_def)

lemma classified_by_entry:
  assumes "sha256_width E" and "select_mcp_action (bare_tool_name tool) args facts = Inr (ce_action e)"
    and "e \<in> set catalog_entries" "Mcp \<in> ce_ingresses e"
  shows "classify_mcp_action E tool args facts = Inr
     \<lparr>cm_tool_name = bare_tool_name tool, cm_action = ce_action e, cm_effects = ce_complete_effects e,
      cm_risk_class = ce_risk_class e, cm_authority_floor = ce_authority_floor e\<rparr>"
  using assms(2-4) unfolding classified_entry [OF assms(1)] catalog_route_ok by blast

lemma builtin_catalog_returned_witness:
  "\<exists>c. m1nd10_action_catalog reference_platform = Inr c \<and> length (ct_entries c) = 174"
  using builtin_catalog_returned [OF sha256_width_reference] by blast

lemma classification_stays_possible_witness:
  "\<exists>c acts. classify_mcp_action reference_platform ''m1nd.ingest'' merge_arguments sample_facts = Inr c \<and>
     possible_mcp_actions ''m1nd.ingest'' = Some acts \<and> cm_action c \<in> set acts \<and> SovereignMutation \<in> cm_effects c"
proof -
  have "select_mcp_action (bare_tool_name ''m1nd.ingest'') merge_arguments sample_facts =
      Inr ''graph.ingest.change_roots''"
    by (simp add: bare_sample merge_selected sample_facts_def)
  then obtain c where c: "classify_mcp_action reference_platform ''m1nd.ingest'' merge_arguments sample_facts = Inr c"
    "SovereignMutation \<in> cm_effects c"
    using classified_by_entry [OF sha256_width_reference _ change_roots_entry] by simp
  with classification_stays_possible [OF sha256_width_reference c(1)] show ?thesis by blast
qed

lemma classification_fails_closed_witness:
  "selector_refusal ''ingest'' (MissingTrustedFact ''ingest'' ''ingest_changes_roots'') \<and>
   classify_mcp_action reference_platform ''m1nd.ingest'' merge_arguments no_facts =
     Inl (MissingTrustedFact ''ingest'' ''ingest_changes_roots'')"
proof -
  have refused: "classify_mcp_action reference_platform ''m1nd.ingest'' merge_arguments no_facts =
      Inl (MissingTrustedFact ''ingest'' ''ingest_changes_roots'')"
    by (simp add: classify_mcp_action_def bare_sample merge_selected no_facts_def Let_def)
  from classification_fails_closed [OF sha256_width_reference this] refused show ?thesis
    by (auto simp: bare_sample split: if_splits)
qed

lemma orient_classified:
  "\<exists>c. classify_mcp_action reference_platform tool JNull facts = Inr c \<and> cm_authority_floor c = FloorOrdinary \<and>
     cm_action c = ''query.orient'' \<and> Read \<in> cm_effects c"
  if "bare_tool_name tool = ''orient''"
proof -
  have "select_mcp_action ''orient'' JNull facts = Inr ''query.orient''"
    by (simp add: select_fixed selector_tools_def fixed_mcp_action_def fixed_routes_def)
  with that classified_by_entry [OF sha256_width_reference _ orient_entry, of tool JNull facts] show ?thesis
    by simp
qed

lemma generic_gate_admits_ordinary_witness:
  "enforce_generic_action_policy reference_platform ''m1nd.orient'' JNull = Inr () \<and>
   (\<exists>c. classify_mcp_action reference_platform ''m1nd.orient'' JNull sample_facts = Inr c \<and>
      Read \<in> cm_effects c \<and> (\<forall>x \<in> cm_effects c. \<not> effect_requires_elevated_authority x))"
proof -
  obtain d where d: "classify_mcp_action reference_platform ''orient'' JNull no_facts = Inr d"
    "cm_authority_floor d = FloorOrdinary" "cm_action d = ''query.orient''"
    using orient_classified [of "''orient''" no_facts] bare_sample by auto
  then have gate: "enforce_generic_action_policy reference_platform ''m1nd.orient'' JNull = Inr ()"
    by (simp add: enforce_generic_action_policy_def bare_sample legacy_mutation_refusal_def gate_floors_def Let_def)
  obtain c where c: "classify_mcp_action reference_platform ''m1nd.orient'' JNull sample_facts = Inr c"
    "Read \<in> cm_effects c"
    using orient_classified [of "''m1nd.orient''" sample_facts] bare_sample by auto
  with generic_gate_admits_ordinary [OF sha256_width_reference gate c(1)] gate show ?thesis by blast
qed

end
