(* ===== verification/Action_Consumers.thy ===== *)
theory Action_Consumers
  imports Action_Routes
begin

text \<open>
  \<open>m1nd-mcp/src/action_consumers.rs\<close>: for every pair of an action of the built-in catalog and an
  ingress, whether and by whom a call is consumed.  The registry is a full matrix; its validator
  accepts no other.  Errors are their codes; the sentences of their details are left out.
\<close>

section \<open>Data\<close>

definition ACTION_CONSUMER_REGISTRY_SCHEMA :: string where
  "ACTION_CONSUMER_REGISTRY_SCHEMA = ''m1nd-action-consumer-registry-v1''"
definition ACTION_CONSUMER_REGISTRY_DIGEST_DOMAIN :: string where
  "ACTION_CONSUMER_REGISTRY_DIGEST_DOMAIN = ''m1nd-action-consumer-registry-v1''"
definition ACTION_CONSUMER_REGISTRY_VERSION :: string where
  "ACTION_CONSUMER_REGISTRY_VERSION = ''m1nd10-g2-consumers-2026-07-19.1''"
definition ACTION_CONSUMER_CONTRACT_SCHEMA :: string where
  "ACTION_CONSUMER_CONTRACT_SCHEMA = ''m1nd-action-consumer-contract-v1''"
definition EXPECTED_M1ND10_ACTION_CATALOG_DIGEST :: string where
  "EXPECTED_M1ND10_ACTION_CATALOG_DIGEST =
     ''fc1ca39db27b1cd03b8e69cfe260ebf6c77753609626f484ac39dd33f7a1def7''"
definition EXPECTED_M1ND10_ACTION_COUNT :: nat where
  "EXPECTED_M1ND10_ACTION_COUNT = 174"
definition MISSION_SERVICE_CONTRACT_VERSION :: string where
  "MISSION_SERVICE_CONTRACT_VERSION = ''m1nd-mission-service-transport-request-v1''"
definition EXTERNAL_MUTATION_SERVICE_CONTRACT_VERSION :: string where
  "EXTERNAL_MUTATION_SERVICE_CONTRACT_VERSION = ''m1nd-external-mutation-consumer-v1''"

definition ALL_ACTION_INGRESSES :: "ingress list" where
  "ALL_ACTION_INGRESSES = [Mcp, Rest, Cli, Hook, BackgroundJob, Recovery, Migration]"

datatype typed_consumer = MissionService | ExternalMutationService

datatype consumer_transport = RestTransport | McpStreamableHttp

fun accepts_floor :: "typed_consumer \<Rightarrow> authority_floor \<Rightarrow> bool" where
  "accepts_floor MissionService fl =
     (fl \<in> {FloorOrdinary, ScopedGrantA2, PositiveSovereign, ServiceIdentity})"
| "accepts_floor ExternalMutationService fl = (fl \<in> {FloorOrdinary, ScopedGrantA2, PositiveSovereign})"

definition is_positive_mutation_consumer :: "typed_consumer \<Rightarrow> bool" where
  "is_positive_mutation_consumer c \<longleftrightarrow> c = ExternalMutationService"

datatype disabled_reason = NotDeclared | NoExactConsumer

datatype disposition =
    EnabledGenericOrdinary
  | EnabledGenericScopedA2Local
  | EnabledTypedConsumer typed_consumer string consumer_transport
  | PolicyDisabled disabled_reason

record consumer_cell =
  cc_action :: action_id
  cc_ingress :: ingress
  cc_declared_ingress :: bool
  cc_expected_effects :: "effect set"
  cc_risk_class :: risk_class
  cc_authority_floor :: authority_floor
  cc_disposition :: disposition

record consumer_registry =
  cg_schema :: string
  cg_registry_version :: string
  cg_action_catalog_version :: string
  cg_action_catalog_digest :: string
  cg_cells :: "consumer_cell list"
  cg_registry_digest :: string

record registry_validation =
  gv_action_count :: nat
  gv_ingress_count :: nat
  gv_cell_count :: nat
  gv_declared_cell_count :: nat
  gv_typed_consumer_cell_count :: nat
  gv_computed_registry_digest :: string

record consumer_contract =
  cx_schema :: string
  cx_action :: action_id
  cx_ingress :: ingress
  cx_expected_effects :: "effect set"
  cx_risk_class :: risk_class
  cx_authority_floor :: authority_floor
  cx_consumer_id :: typed_consumer
  cx_contract_version :: string
  cx_transport :: consumer_transport
  cx_action_catalog_version :: string
  cx_action_catalog_digest :: string
  cx_consumer_registry_version :: string
  cx_consumer_registry_digest :: string

record policy_disabled =
  pd_action :: string
  pd_ingress :: ingress
  pd_reason :: disabled_reason
  pd_action_catalog_digest :: "string option"
  pd_consumer_registry_digest :: "string option"

datatype registry_error =
    CatalogInvalid | CatalogDrift | RegistryShape | RegistryDigestMismatch | DuplicateCell | MissingCell
  | CellCatalogMismatch | DispositionMismatch | DuplicateConsumerDeclaration | ConsumerActionMissing
  | ConsumerIngressMismatch | ConsumerFloorMismatch | ConsumerEffectsMismatch | ConsumerRiskMismatch
  | ConsumerAuthorityDomainMismatch

section \<open>Declarations\<close>

record consumer_declaration =
  dn_action :: action_id
  dn_ingress :: ingress
  dn_expected_effects :: "effect set"
  dn_expected_risk_class :: risk_class
  dn_expected_authority_floor :: authority_floor
  dn_consumer_id :: typed_consumer
  dn_contract_version :: string
  dn_transport :: consumer_transport

text \<open>The code declares nothing on an ingress other than \<open>Rest\<close> and \<open>Mcp\<close>, and would panic there.\<close>

definition typed_declaration ::
  "string \<Rightarrow> ingress \<Rightarrow> effect list \<Rightarrow> risk_class \<Rightarrow> authority_floor \<Rightarrow> typed_consumer \<Rightarrow> string
     \<Rightarrow> consumer_declaration" where
  "typed_declaration action ing effects risk fl consumer version =
     \<lparr>dn_action = action, dn_ingress = ing, dn_expected_effects = set effects,
      dn_expected_risk_class = risk, dn_expected_authority_floor = fl, dn_consumer_id = consumer,
      dn_contract_version = version,
      dn_transport = (case ing of Rest \<Rightarrow> RestTransport | _ \<Rightarrow> McpStreamableHttp)\<rparr>"

definition mission_declarations :: "ingress \<Rightarrow> consumer_declaration list" where
  "mission_declarations ing =
    [typed_declaration ''mission.service.land_intent'' ing [Read] Low FloorOrdinary
       MissionService MISSION_SERVICE_CONTRACT_VERSION,
     typed_declaration ''mission.service.mission_transition'' ing
       [MissionStateWrite, RuntimeStoreWrite, CoordinationRecord] Medium FloorOrdinary
       MissionService MISSION_SERVICE_CONTRACT_VERSION,
     typed_declaration ''mission.service.execution_dispatch'' ing
       [MissionStateWrite, RuntimeStoreWrite, CoordinationRecord] High ScopedGrantA2
       MissionService MISSION_SERVICE_CONTRACT_VERSION,
     typed_declaration ''mission.service.execution_started'' ing
       [MissionStateWrite, RuntimeStoreWrite, CoordinationRecord] High ServiceIdentity
       MissionService MISSION_SERVICE_CONTRACT_VERSION,
     typed_declaration ''mission.service.execution_terminal'' ing
       [MissionStateWrite, RuntimeStoreWrite, CoordinationRecord] High ServiceIdentity
       MissionService MISSION_SERVICE_CONTRACT_VERSION,
     typed_declaration ''mission.service.land'' ing
       [MissionStateWrite, RuntimeStoreWrite, CoordinationRecord, SovereignMutation] Critical
       PositiveSovereign MissionService MISSION_SERVICE_CONTRACT_VERSION]"

definition external_declarations :: "consumer_declaration list" where
  "external_declarations =
    [typed_declaration ''system_blocks.ratify'' Mcp [RuntimeStoreWrite, SovereignMutation] Critical
       PositiveSovereign ExternalMutationService EXTERNAL_MUTATION_SERVICE_CONTRACT_VERSION,
     typed_declaration ''brain.promote'' Mcp
       [GraphMutation, RuntimeStoreWrite, HostFilesystemWrite, SovereignMutation] Critical
       PositiveSovereign ExternalMutationService EXTERNAL_MUTATION_SERVICE_CONTRACT_VERSION,
     typed_declaration ''source.edit.commit'' Mcp
       [SourceFilesystemWrite, RuntimeStoreWrite, CoordinationRecord] High
       ScopedGrantA2 ExternalMutationService EXTERNAL_MUTATION_SERVICE_CONTRACT_VERSION,
     typed_declaration ''graph.ingest.preview'' Mcp [Read] Low
       FloorOrdinary ExternalMutationService EXTERNAL_MUTATION_SERVICE_CONTRACT_VERSION,
     typed_declaration ''graph.ingest.replace'' Mcp [GraphMutation, RuntimeStoreWrite, SovereignMutation]
       Critical PositiveSovereign ExternalMutationService EXTERNAL_MUTATION_SERVICE_CONTRACT_VERSION,
     typed_declaration ''graph.ingest.merge_existing'' Mcp [GraphMutation, RuntimeStoreWrite] High
       ScopedGrantA2 ExternalMutationService EXTERNAL_MUTATION_SERVICE_CONTRACT_VERSION]"

definition typed_consumer_declarations :: "consumer_declaration list" where
  "typed_consumer_declarations =
     concat (map mission_declarations [Mcp, Rest]) @ external_declarations"

text \<open>The checks of one declaration against the entry of its action.\<close>

definition declaration_checks :: "consumer_declaration \<Rightarrow> catalog_entry \<Rightarrow> (registry_error + unit) list" where
  "declaration_checks d e =
    [check (dn_ingress d \<in> ce_ingresses e) ConsumerIngressMismatch,
     check (\<not> (ce_authority_floor e = SafetyOnly \<and> is_positive_mutation_consumer (dn_consumer_id d)))
       ConsumerAuthorityDomainMismatch,
     check (accepts_floor (dn_consumer_id d) (ce_authority_floor e)) ConsumerAuthorityDomainMismatch,
     check ((dn_ingress d, dn_transport d) \<in> {(Rest, RestTransport), (Mcp, McpStreamableHttp)})
       ConsumerIngressMismatch,
     check (ce_authority_floor e = dn_expected_authority_floor d) ConsumerFloorMismatch,
     check (ce_complete_effects e = dn_expected_effects d) ConsumerEffectsMismatch,
     check (ce_risk_class e = dn_expected_risk_class d) ConsumerRiskMismatch,
     check (\<not> trims_empty (dn_contract_version d)) RegistryShape]"

definition entries_by_action :: "action_catalog \<Rightarrow> action_id \<Rightarrow> catalog_entry option" where
  "entries_by_action c = map_of (rev (map (\<lambda>e. (ce_action e, e)) (ct_entries c)))"

fun declarations_loop ::
  "(action_id \<Rightarrow> catalog_entry option) \<Rightarrow> consumer_declaration list \<Rightarrow> (action_id \<times> ingress) set
     \<Rightarrow> registry_error + unit" where
  "declarations_loop entries [] seen = Ok ()"
| "declarations_loop entries (d # ds) seen =
     (if (dn_action d, dn_ingress d) \<in> seen then Err DuplicateConsumerDeclaration
      else and_then (ok_or (entries (dn_action d)) ConsumerActionMissing) (\<lambda>e.
        and_then (seq_checks (declaration_checks d e)) (\<lambda>_.
          declarations_loop entries ds (insert (dn_action d, dn_ingress d) seen))))"

definition validate_typed_consumer_declarations ::
  "action_catalog \<Rightarrow> consumer_declaration list \<Rightarrow> registry_error + unit" where
  "validate_typed_consumer_declarations c ds = declarations_loop (entries_by_action c) ds {}"

type_synonym declarations = "action_id \<times> ingress \<Rightarrow> consumer_declaration option"

definition declaration_map :: "action_catalog \<Rightarrow> registry_error + declarations" where
  "declaration_map c =
     and_then (validate_typed_consumer_declarations c typed_consumer_declarations)
       (\<lambda>_. Ok (map_of (rev (map (\<lambda>d. ((dn_action d, dn_ingress d), d)) typed_consumer_declarations))))"

definition expected_disposition :: "catalog_entry \<Rightarrow> ingress \<Rightarrow> declarations \<Rightarrow> disposition" where
  "expected_disposition e ing declared =
     (case declared (ce_action e, ing) of
        Some d \<Rightarrow> EnabledTypedConsumer (dn_consumer_id d) (dn_contract_version d) (dn_transport d)
      | None \<Rightarrow>
          if ing \<notin> ce_ingresses e then PolicyDisabled NotDeclared
          else if ce_authority_floor e = FloorOrdinary then EnabledGenericOrdinary
          else if ce_action e \<in> set GENERIC_A2_LOCAL_ADMITTED_ACTIONS then EnabledGenericScopedA2Local
          else PolicyDisabled NoExactConsumer)"

section \<open>Serialisation and digest\<close>

fun typed_consumer_name :: "typed_consumer \<Rightarrow> string" where
  "typed_consumer_name MissionService = ''mission_service''"
| "typed_consumer_name ExternalMutationService = ''external_mutation_service''"

fun consumer_transport_name :: "consumer_transport \<Rightarrow> string" where
  "consumer_transport_name RestTransport = ''rest''"
| "consumer_transport_name McpStreamableHttp = ''mcp_streamable_http''"

fun disabled_reason_name :: "disabled_reason \<Rightarrow> string" where
  "disabled_reason_name NotDeclared = ''not_declared''"
| "disabled_reason_name NoExactConsumer = ''no_exact_consumer''"

fun json_of_disposition :: "disposition \<Rightarrow> json" where
  "json_of_disposition EnabledGenericOrdinary =
     JObject [(''disposition'', JString ''enabled_generic_ordinary'')]"
| "json_of_disposition EnabledGenericScopedA2Local =
     JObject [(''disposition'', JString ''enabled_generic_scoped_a2_local'')]"
| "json_of_disposition (EnabledTypedConsumer c v t) =
     JObject [(''disposition'', JString ''enabled_typed_consumer''),
       (''consumer_id'', JString (typed_consumer_name c)), (''contract_version'', JString v),
       (''transport'', JString (consumer_transport_name t))]"
| "json_of_disposition (PolicyDisabled r) =
     JObject [(''disposition'', JString ''policy_disabled''), (''reason'', JString (disabled_reason_name r))]"

definition json_of_cell :: "consumer_cell \<Rightarrow> json" where
  "json_of_cell c = JObject
    [(''action'', JString (cc_action c)), (''ingress'', JString (ingress_name (cc_ingress c))),
     (''declared_ingress'', JBool (cc_declared_ingress c)),
     (''expected_effects'', json_of_effects (cc_expected_effects c)),
     (''risk_class'', JString (risk_name (cc_risk_class c))),
     (''authority_floor'', JString (floor_name (cc_authority_floor c))),
     (''disposition'', json_of_disposition (cc_disposition c))]"

definition json_of_consumer_registry :: "consumer_registry \<Rightarrow> json" where
  "json_of_consumer_registry r = JObject
    [(''schema'', JString (cg_schema r)), (''registry_version'', JString (cg_registry_version r)),
     (''action_catalog_version'', JString (cg_action_catalog_version r)),
     (''action_catalog_digest'', JString (cg_action_catalog_digest r)),
     (''cells'', JArray (map json_of_cell (cg_cells r))),
     (''registry_digest'', JString (cg_registry_digest r))]"

definition compute_registry_digest :: "platform \<Rightarrow> consumer_registry \<Rightarrow> string" where
  "compute_registry_digest E r =
     digest_canonical E ACTION_CONSUMER_REGISTRY_DIGEST_DOMAIN
       (obj_remove ''registry_digest'' (json_of_consumer_registry r))"

section \<open>Validation\<close>

definition registry_cell :: "consumer_registry \<Rightarrow> action_id \<Rightarrow> ingress \<Rightarrow> consumer_cell option" where
  "registry_cell r action ing = find (\<lambda>c. cc_action c = action \<and> cc_ingress c = ing) (cg_cells r)"

definition catalog_pin_check :: "action_catalog \<Rightarrow> registry_error + unit" where
  "catalog_pin_check c =
     check (length (ct_entries c) = EXPECTED_M1ND10_ACTION_COUNT \<and>
         ct_catalog_version c = M1ND10_ACTION_CATALOG_VERSION \<and>
         ct_catalog_digest c = EXPECTED_M1ND10_ACTION_CATALOG_DIGEST) CatalogDrift"

text \<open>The catalog both functions start from: built, validated and pinned.\<close>

definition pinned_catalog :: "platform \<Rightarrow> registry_error + action_catalog" where
  "pinned_catalog E =
     and_then (map_err (\<lambda>_. CatalogInvalid) (m1nd10_action_catalog E)) (\<lambda>c.
     and_then (map_err (\<lambda>_. CatalogInvalid) (validate_catalog E c)) (\<lambda>_.
     and_then (catalog_pin_check c) (\<lambda>_. Ok c)))"

fun observed_loop ::
  "consumer_cell list \<Rightarrow> (action_id \<times> ingress \<Rightarrow> consumer_cell option)
     \<Rightarrow> registry_error + (action_id \<times> ingress \<Rightarrow> consumer_cell option)" where
  "observed_loop [] observed = Ok observed"
| "observed_loop (c # cs) observed =
     (if observed (cc_action c, cc_ingress c) \<noteq> None then Err DuplicateCell
      else observed_loop cs (observed((cc_action c, cc_ingress c) \<mapsto> c)))"

definition cell_checks ::
  "declarations \<Rightarrow> catalog_entry \<Rightarrow> ingress \<Rightarrow> consumer_cell \<Rightarrow> (registry_error + unit) list" where
  "cell_checks declared e ing c =
    [check (cc_declared_ingress c = (ing \<in> ce_ingresses e) \<and> cc_expected_effects c = ce_complete_effects e \<and>
       cc_risk_class c = ce_risk_class e \<and> cc_authority_floor c = ce_authority_floor e) CellCatalogMismatch,
     check (cc_disposition c = expected_disposition e ing declared) DispositionMismatch]"

fun is_typed :: "disposition \<Rightarrow> bool" where
  "is_typed (EnabledTypedConsumer _ _ _) = True"
| "is_typed _ = False"

text \<open>The two nested loops over the entries and the ingresses, with their two counters.\<close>

fun matrix_loop ::
  "(action_id \<times> ingress \<Rightarrow> consumer_cell option) \<Rightarrow> declarations \<Rightarrow> (catalog_entry \<times> ingress) list
     \<Rightarrow> nat \<times> nat \<Rightarrow> registry_error + nat \<times> nat" where
  "matrix_loop observed declared [] counts = Ok counts"
| "matrix_loop observed declared ((e, ing) # rest) counts =
     and_then (ok_or (observed (ce_action e, ing)) MissingCell) (\<lambda>c.
     and_then (seq_checks (cell_checks declared e ing c)) (\<lambda>_.
       matrix_loop observed declared rest
         (fst counts + (if ing \<in> ce_ingresses e then 1 else 0),
          snd counts + (if is_typed (cc_disposition c) then 1 else 0))))"

definition matrix_positions :: "action_catalog \<Rightarrow> (catalog_entry \<times> ingress) list" where
  "matrix_positions c = List.product (ct_entries c) ALL_ACTION_INGRESSES"

definition validate_consumer_registry :: "platform \<Rightarrow> consumer_registry \<Rightarrow> registry_error + registry_validation" where
  "validate_consumer_registry E r =
     and_then (check (cg_schema r = ACTION_CONSUMER_REGISTRY_SCHEMA \<and>
       cg_registry_version r = ACTION_CONSUMER_REGISTRY_VERSION) RegistryShape) (\<lambda>_.
     and_then (pinned_catalog E) (\<lambda>catalog.
     and_then (seq_checks
       [check (cg_action_catalog_version r = ct_catalog_version catalog \<and>
          cg_action_catalog_digest r = ct_catalog_digest catalog) CatalogDrift,
        check (cg_registry_digest r = compute_registry_digest E r) RegistryDigestMismatch,
        check (length (cg_cells r) = length (ct_entries catalog) * length ALL_ACTION_INGRESSES) MissingCell]) (\<lambda>_.
     and_then (declaration_map catalog) (\<lambda>declared.
     and_then (observed_loop (cg_cells r) Map.empty) (\<lambda>observed.
     and_then (matrix_loop observed declared (matrix_positions catalog) (0, 0)) (\<lambda>counts.
       Ok \<lparr>gv_action_count = length (ct_entries catalog), gv_ingress_count = length ALL_ACTION_INGRESSES,
           gv_cell_count = length (cg_cells r), gv_declared_cell_count = fst counts,
           gv_typed_consumer_cell_count = snd counts,
           gv_computed_registry_digest = compute_registry_digest E r\<rparr>))))))"

section \<open>The registry and the contracts\<close>

definition matrix_cell :: "declarations \<Rightarrow> catalog_entry \<times> ingress \<Rightarrow> consumer_cell" where
  "matrix_cell declared p = (case p of (e, ing) \<Rightarrow>
     \<lparr>cc_action = ce_action e, cc_ingress = ing, cc_declared_ingress = (ing \<in> ce_ingresses e),
      cc_expected_effects = ce_complete_effects e, cc_risk_class = ce_risk_class e,
      cc_authority_floor = ce_authority_floor e, cc_disposition = expected_disposition e ing declared\<rparr>)"

definition seal_consumer_registry :: "platform \<Rightarrow> consumer_registry \<Rightarrow> consumer_registry" where
  "seal_consumer_registry E r = r\<lparr>cg_registry_digest := compute_registry_digest E r\<rparr>"

definition m1nd10_action_consumer_registry :: "platform \<Rightarrow> registry_error + consumer_registry" where
  "m1nd10_action_consumer_registry E =
     and_then (pinned_catalog E) (\<lambda>catalog.
     and_then (declaration_map catalog) (\<lambda>declared.
       let registry = seal_consumer_registry E
         \<lparr>cg_schema = ACTION_CONSUMER_REGISTRY_SCHEMA,
          cg_registry_version = ACTION_CONSUMER_REGISTRY_VERSION,
          cg_action_catalog_version = ct_catalog_version catalog,
          cg_action_catalog_digest = ct_catalog_digest catalog,
          cg_cells = map (matrix_cell declared) (matrix_positions catalog), cg_registry_digest = []\<rparr> in
       and_then (validate_consumer_registry E registry) (\<lambda>_. Ok registry)))"

definition action_consumer_registry_digest :: "platform \<Rightarrow> registry_error + string" where
  "action_consumer_registry_digest E =
     and_then (m1nd10_action_consumer_registry E) (\<lambda>r. Ok (cg_registry_digest r))"

definition disabled :: "action_id \<Rightarrow> ingress \<Rightarrow> disabled_reason \<Rightarrow> consumer_registry option \<Rightarrow> policy_disabled" where
  "disabled action ing reason registry =
     \<lparr>pd_action = action, pd_ingress = ing, pd_reason = reason,
      pd_action_catalog_digest = map_option cg_action_catalog_digest registry,
      pd_consumer_registry_digest = map_option cg_registry_digest registry\<rparr>"

definition external_consumer_contract ::
  "platform \<Rightarrow> action_id \<Rightarrow> ingress \<Rightarrow> policy_disabled + consumer_contract" where
  "external_consumer_contract E action ing =
     and_then (map_err (\<lambda>_. disabled action ing NoExactConsumer None) (m1nd10_action_consumer_registry E))
     (\<lambda>registry.
       and_then (ok_or (registry_cell registry action ing) (disabled action ing NotDeclared (Some registry)))
       (\<lambda>cell.
         case cc_disposition cell of
           EnabledTypedConsumer consumer version transport \<Rightarrow>
             Ok \<lparr>cx_schema = ACTION_CONSUMER_CONTRACT_SCHEMA, cx_action = cc_action cell,
                 cx_ingress = cc_ingress cell, cx_expected_effects = cc_expected_effects cell,
                 cx_risk_class = cc_risk_class cell, cx_authority_floor = cc_authority_floor cell,
                 cx_consumer_id = consumer, cx_contract_version = version, cx_transport = transport,
                 cx_action_catalog_version = cg_action_catalog_version registry,
                 cx_action_catalog_digest = cg_action_catalog_digest registry,
                 cx_consumer_registry_version = cg_registry_version registry,
                 cx_consumer_registry_digest = cg_registry_digest registry\<rparr>
         | PolicyDisabled reason \<Rightarrow> Err (disabled action ing reason (Some registry))
         | EnabledGenericOrdinary \<Rightarrow> Err (disabled action ing NoExactConsumer (Some registry))
         | EnabledGenericScopedA2Local \<Rightarrow> Err (disabled action ing NoExactConsumer (Some registry))))"

end
