(* ===== verification/Action_Consumers_Laws.thy ===== *)
theory Action_Consumers_Laws
  imports Action_Properties Action_Consumers
begin

text \<open>
  The contract of \<open>action_consumers.rs\<close>: under the pinned digest the declarations fit the built-in
  catalog, and \<open>validate\<close> accepts the registries whose cells are the matrix of the catalog, in any
  order, and no other.
\<close>

section \<open>The catalog and the declarations\<close>

text \<open>The digest that the code pins is that of the catalog it is compiled with.\<close>

definition catalog_pinned :: "platform \<Rightarrow> bool" where
  "catalog_pinned E \<longleftrightarrow> compute_catalog_digest E (builtin_catalog E) = EXPECTED_M1ND10_ACTION_CATALOG_DIGEST"

lemma pinned_catalog_ok:
  assumes "sha256_width E" and "catalog_pinned E"
  shows "pinned_catalog E = Inr (builtin_catalog E)"
proof -
  obtain v where "validate_catalog E (builtin_catalog E) = Inr v"
    using builtin_ok [OF assms(1)] validate_catalog_ok by blast
  moreover have "ct_catalog_digest (builtin_catalog E) = EXPECTED_M1ND10_ACTION_CATALOG_DIGEST"
    using assms(2) builtin_ok [OF assms(1)] by (simp add: catalog_pinned_def catalog_ok_def)
  ultimately show ?thesis
    by (simp add: pinned_catalog_def builtin_returned [OF assms(1)] catalog_pin_check_def catalog_size
        EXPECTED_M1ND10_ACTION_COUNT_def)
qed

definition keyed_entries :: "(action_id \<times> catalog_entry) list" where
  "keyed_entries = map (\<lambda>e. (ce_action e, e)) catalog_entries"

lemma keyed_entry: "map_of keyed_entries a = Some e \<longleftrightarrow> e \<in> set catalog_entries \<and> ce_action e = a"
proof -
  have "distinct (map fst keyed_entries)"
    using catalog_actions_distinct by (simp add: keyed_entries_def o_def)
  then show ?thesis by (auto simp: map_of_eq_Some_iff keyed_entries_def)
qed

lemma map_of_same_set:
  assumes "distinct (map fst xs)" and "distinct (map fst ys)" and "set xs = set ys"
  shows "map_of xs = map_of ys"
  using assms by (intro ext) (metis map_of_eq_Some_iff not_Some_eq)

lemma entries_by_action_ok: "entries_by_action (builtin_catalog E) = map_of keyed_entries"
proof -
  let ?s = "map (\<lambda>e. (ce_action e, e)) (sort_key ce_action catalog_entries)"
  have "distinct (map fst (rev ?s))"
    using catalog_actions_distinct by (simp add: o_def distinct_map rev_map [symmetric])
  moreover have "distinct (map fst keyed_entries)"
    using catalog_actions_distinct by (simp add: keyed_entries_def o_def)
  moreover have "set (rev ?s) = set keyed_entries" by (simp add: keyed_entries_def)
  ultimately show ?thesis unfolding entries_by_action_def builtin_fields by (rule map_of_same_set)
qed

lemma declarations_loop_ok:
  "declarations_loop entries ds seen = Inr () \<longleftrightarrow>
     distinct (map (\<lambda>d. (dn_action d, dn_ingress d)) ds) \<and>
     (\<forall>d \<in> set ds. (dn_action d, dn_ingress d) \<notin> seen \<and>
        (\<exists>e. entries (dn_action d) = Some e \<and> (\<forall>c \<in> set (declaration_checks d e). c = Inr ())))"
  by (induction ds arbitrary: seen) (auto simp: image_iff, metis+)

text \<open>The declarations fit their entries, evaluated one by one.\<close>

definition declared_consumers :: declarations where
  "declared_consumers = map_of (rev (map (\<lambda>d. ((dn_action d, dn_ingress d), d)) typed_consumer_declarations))"

definition blank_entry :: catalog_entry where
  "blank_entry = entry [] [] [] Low FloorOrdinary"

lemma declarations_fit:
  "list_all (\<lambda>d. case arm_of True blank_entry (dn_action d) keyed_entries of
      Some e \<Rightarrow> list_all (\<lambda>c. c = Inr ()) (declaration_checks d e) | None \<Rightarrow> False) typed_consumer_declarations"
  by (simp add: typed_consumer_declarations_def mission_declarations_def external_declarations_def
      typed_declaration_def keyed_entries_def catalog_entries_def catalog_chunks declaration_checks_def
      is_positive_mutation_consumer_def MISSION_SERVICE_CONTRACT_VERSION_def
      EXTERNAL_MUTATION_SERVICE_CONTRACT_VERSION_def white1_def white2_def white3_def)

lemma declarations_distinct:
  "distinct (map (\<lambda>d. (dn_action d, dn_ingress d)) typed_consumer_declarations)"
  by (simp add: typed_consumer_declarations_def mission_declarations_def external_declarations_def
      typed_declaration_def)

lemma declarations_ok: "declaration_map (builtin_catalog E) = Inr declared_consumers"
proof -
  have "\<exists>e. map_of keyed_entries (dn_action d) = Some e \<and> (\<forall>c \<in> set (declaration_checks d e). c = Inr ())"
    if "d \<in> set typed_consumer_declarations" for d
    using declarations_fit that by (auto simp: list_all_iff arm_of_eq split: option.splits)
  then show ?thesis
    using declarations_distinct
    by (simp add: declaration_map_def validate_typed_consumer_declarations_def entries_by_action_ok
        declarations_loop_ok declared_consumers_def)
qed

section \<open>The matrix\<close>

definition cell_key :: "consumer_cell \<Rightarrow> action_id \<times> ingress" where
  "cell_key c = (cc_action c, cc_ingress c)"

definition builtin_matrix :: "consumer_cell list" where
  "builtin_matrix = map (matrix_cell declared_consumers)
     (List.product (sort_key ce_action catalog_entries) ALL_ACTION_INGRESSES)"

lemma observed_loop_ok:
  "observed_loop cs m = Inr m' \<longleftrightarrow> distinct (map cell_key cs) \<and> cell_key ` set cs \<inter> dom m = {} \<and>
     m' = m ++ map_of (map (\<lambda>c. (cell_key c, c)) cs)"
proof (induction cs arbitrary: m)
  case (Cons c cs)
  have swap: "m(k \<mapsto> v) ++ map_of (map (\<lambda>c. (cell_key c, c)) cs) = m ++ (map_of (map (\<lambda>c. (cell_key c, c)) cs))(k \<mapsto> v)"
    if "k \<notin> cell_key ` set cs" for k v
    using that by (simp add: map_add_upd_left dom_map_of_conv_image_fst image_image)
  have step: "observed_loop (c # cs) m = Inr m' \<longleftrightarrow>
      cell_key c \<notin> dom m \<and> observed_loop cs (m(cell_key c \<mapsto> c)) = Inr m'"
    by (simp add: cell_key_def domIff)
  show ?case
  proof (cases "cell_key c \<in> cell_key ` set cs")
    case True
    then show ?thesis unfolding step Cons.IH by auto
  next
    case False
    have whole: "m ++ map_of (map (\<lambda>c. (cell_key c, c)) (c # cs)) =
        (m ++ map_of (map (\<lambda>c. (cell_key c, c)) cs))(cell_key c \<mapsto> c)"
      by (simp only: list.map map_of.simps fst_conv snd_conv map_add_upd)
    show ?thesis unfolding step Cons.IH swap [OF False] whole using False by auto
  qed
qed auto

lemma cell_checks_ok:
  assumes "cell_key c = (ce_action e, ing)"
  shows "(\<forall>k \<in> set (cell_checks declared e ing c). k = Inr ()) \<longleftrightarrow> c = matrix_cell declared (e, ing)"
  using assms by (cases c) (auto simp: cell_checks_def matrix_cell_def cell_key_def)

lemma matrix_loop_ok:
  assumes "\<And>k c. observed k = Some c \<Longrightarrow> cell_key c = k"
  shows "(\<exists>n. matrix_loop observed declared ps counts = Inr n) \<longleftrightarrow>
    (\<forall>p \<in> set ps. observed (cell_key (matrix_cell declared p)) = Some (matrix_cell declared p))"
proof (induction ps arbitrary: counts)
  case (Cons p ps)
  obtain e ing where p: "p = (e, ing)" by fastforce
  have key: "cell_key (matrix_cell declared p) = (ce_action e, ing)"
    by (simp add: p matrix_cell_def cell_key_def)
  show ?case
  proof (cases "observed (ce_action e, ing)")
    case None
    then show ?thesis using key by (simp add: p)
  next
    case (Some c)
    from cell_checks_ok [OF assms [OF Some]] show ?thesis
      using key Some Cons.IH by (auto simp: p)
  qed
qed simp

lemma registry_matrix_ok:
  assumes "length cells = length ps" and "distinct (map (\<lambda>p. cell_key (matrix_cell declared p)) ps)"
  shows "(\<exists>observed n. observed_loop cells Map.empty = Inr observed \<and>
      matrix_loop observed declared ps counts = Inr n) \<longleftrightarrow>
    mset cells = mset (map (matrix_cell declared) ps)" (is "?L \<longleftrightarrow> mset cells = mset ?M")
proof -
  let ?keyed = "map (\<lambda>c. (cell_key c, c)) cells"
  have keys: "map cell_key ?M = map (\<lambda>p. cell_key (matrix_cell declared p)) ps" by simp
  have observed: "observed_loop cells Map.empty = Inr m \<longleftrightarrow> distinct (map cell_key cells) \<and> m = map_of ?keyed" for m
    by (simp add: observed_loop_ok)
  have lookup: "map_of ?keyed k = Some c \<longleftrightarrow> c \<in> set cells \<and> cell_key c = k"
    if "distinct (map cell_key cells)" for k c
    using that by (auto simp: map_of_eq_Some_iff o_def)
  have accepted: "?L \<longleftrightarrow> distinct (map cell_key cells) \<and> set ?M \<subseteq> set cells"
  proof (cases "distinct (map cell_key cells)")
    case True
    have "(\<exists>n. matrix_loop (map_of ?keyed) declared ps counts = Inr n) \<longleftrightarrow> set ?M \<subseteq> set cells"
      using matrix_loop_ok [of "map_of ?keyed"] lookup [OF True] by auto
    with True observed show ?thesis by auto
  qed (simp add: observed)
  have d: "distinct ?M" using assms(2) keys by (metis distinct_map)
  show ?thesis
  proof
    assume ?L
    then have c: "distinct cells" "set ?M \<subseteq> set cells" using accepted by (auto simp: distinct_map)
    moreover have "card (set cells) = card (set ?M)"
      using c(1) d assms(1) by (simp only: distinct_card length_map)
    ultimately have "set ?M = set cells" by (metis card_subset_eq finite_set)
    with c(1) d show "mset cells = mset ?M" by (simp only: set_eq_iff_mset_eq_distinct)
  next
    assume eq: "mset cells = mset ?M"
    then have "set cells = set ?M" by (rule mset_eq_setD)
    moreover have "mset (map cell_key cells) = mset (map cell_key ?M)" using eq by (simp only: mset_map)
    then have "distinct (map cell_key cells)" using assms(2) keys by (metis mset_eq_imp_distinct_iff)
    ultimately show ?L using accepted by simp
  qed
qed

lemma builtin_matrix_keys:
  "distinct (map (\<lambda>p. cell_key (matrix_cell declared p))
     (List.product (sort_key ce_action catalog_entries) ALL_ACTION_INGRESSES))"
proof -
  have key: "cell_key (matrix_cell declared p) = map_prod ce_action id p" for p
    by (cases p) (simp add: matrix_cell_def cell_key_def)
  have "inj_on ce_action (set catalog_entries)" "distinct catalog_entries"
    using catalog_actions_distinct by (simp_all only: distinct_map)
  moreover have "distinct ALL_ACTION_INGRESSES" by (simp add: ALL_ACTION_INGRESSES_def)
  ultimately show ?thesis
    unfolding key distinct_map by (auto simp: distinct_product inj_on_def)
qed

lemma validate_registry_ok:
  assumes "sha256_width E" and "catalog_pinned E"
  shows "(\<exists>v. validate_consumer_registry E r = Inr v) \<longleftrightarrow>
    cg_schema r = ACTION_CONSUMER_REGISTRY_SCHEMA \<and> cg_registry_version r = ACTION_CONSUMER_REGISTRY_VERSION \<and>
    cg_action_catalog_version r = M1ND10_ACTION_CATALOG_VERSION \<and>
    cg_action_catalog_digest r = EXPECTED_M1ND10_ACTION_CATALOG_DIGEST \<and>
    cg_registry_digest r = compute_registry_digest E r \<and> mset (cg_cells r) = mset builtin_matrix"
proof -
  let ?ps = "List.product (sort_key ce_action catalog_entries) ALL_ACTION_INGRESSES"
  have digest: "ct_catalog_digest (builtin_catalog E) = EXPECTED_M1ND10_ACTION_CATALOG_DIGEST"
    using assms(2) builtin_ok [OF assms(1)] by (simp add: catalog_pinned_def catalog_ok_def)
  have size: "length ?ps = length catalog_entries * length ALL_ACTION_INGRESSES" by simp
  have cells: "mset (cg_cells r) = mset builtin_matrix \<longleftrightarrow> length (cg_cells r) = length ?ps \<and>
      (\<exists>observed n. observed_loop (cg_cells r) Map.empty = Inr observed \<and>
         matrix_loop observed declared_consumers ?ps (0, 0) = Inr n)"
    using registry_matrix_ok [OF _ builtin_matrix_keys, of "cg_cells r" declared_consumers "(0, 0)"]
    unfolding builtin_matrix_def by (metis length_map size_mset)
  show ?thesis
    unfolding cells unfolding validate_consumer_registry_def matrix_positions_def size
    by (simp add: pinned_catalog_ok [OF assms] declarations_ok digest) blast
qed

lemma consumer_registry_built:
  assumes "sha256_width E" and "catalog_pinned E"
  obtains r where "m1nd10_action_consumer_registry E = Inr r" "cg_cells r = builtin_matrix"
    "\<exists>v. validate_consumer_registry E r = Inr v"
proof -
  let ?r = "seal_consumer_registry E
         \<lparr>cg_schema = ACTION_CONSUMER_REGISTRY_SCHEMA,
          cg_registry_version = ACTION_CONSUMER_REGISTRY_VERSION,
          cg_action_catalog_version = ct_catalog_version (builtin_catalog E),
          cg_action_catalog_digest = ct_catalog_digest (builtin_catalog E),
          cg_cells = builtin_matrix, cg_registry_digest = []\<rparr>"
  have digest: "ct_catalog_digest (builtin_catalog E) = EXPECTED_M1ND10_ACTION_CATALOG_DIGEST"
    using assms(2) builtin_ok [OF assms(1)] by (simp add: catalog_pinned_def catalog_ok_def)
  have ignores: "compute_registry_digest E (x\<lparr>cg_registry_digest := d\<rparr>) = compute_registry_digest E x" for x d
    by (simp add: compute_registry_digest_def json_of_consumer_registry_def)
  have sealed: "cg_registry_digest ?r = compute_registry_digest E ?r"
    unfolding seal_consumer_registry_def ignores by simp
  have ok: "\<exists>v. validate_consumer_registry E ?r = Inr v"
    using sealed unfolding validate_registry_ok [OF assms] by (simp add: seal_consumer_registry_def digest)
  then have "m1nd10_action_consumer_registry E = Inr ?r"
    by (auto simp: m1nd10_action_consumer_registry_def pinned_catalog_ok [OF assms] declarations_ok Let_def
        builtin_matrix_def matrix_positions_def)
  with ok show ?thesis by (intro that [of ?r]) (simp_all add: seal_consumer_registry_def)
qed

section \<open>Properties\<close>

text \<open>C19: The registry of consumers is built without an error, one cell for each action and ingress, and
  \<open>validate\<close> accepts a registry exactly when it is bound to the pinned catalog, seals itself, and its
  cells are those of the built-in one in some order: no cell is missing, added, doubled or changed.\<close>
theorem consumer_registry_is_the_matrix:
  assumes "sha256_width E" and "catalog_pinned E"
  shows "(\<exists>r. m1nd10_action_consumer_registry E = Inr r \<and> cg_cells r = builtin_matrix) \<and>
    ((\<exists>v. validate_consumer_registry E r = Inr v) \<longleftrightarrow>
     cg_schema r = ACTION_CONSUMER_REGISTRY_SCHEMA \<and> cg_registry_version r = ACTION_CONSUMER_REGISTRY_VERSION \<and>
     cg_action_catalog_version r = M1ND10_ACTION_CATALOG_VERSION \<and>
     cg_action_catalog_digest r = EXPECTED_M1ND10_ACTION_CATALOG_DIGEST \<and>
     cg_registry_digest r = compute_registry_digest E r \<and> mset (cg_cells r) = mset builtin_matrix)"
  using consumer_registry_built [OF assms] validate_registry_ok [OF assms] by metis

lemma declared_fits:
  assumes "declared_consumers (a, ing) = Some d"
  shows "d \<in> set typed_consumer_declarations \<and> dn_action d = a \<and> dn_ingress d = ing \<and>
    (\<exists>e \<in> set catalog_entries. ce_action e = a \<and> (\<forall>c \<in> set (declaration_checks d e). c = Inr ()))"
proof -
  have d: "d \<in> set typed_consumer_declarations" "dn_action d = a" "dn_ingress d = ing"
    using map_of_SomeD [OF assms [unfolded declared_consumers_def]] by auto
  with declarations_fit obtain e where "map_of keyed_entries a = Some e"
    "\<forall>c \<in> set (declaration_checks d e). c = Inr ()"
    by (auto simp: list_all_iff arm_of_eq split: option.splits)
  with d keyed_entry show ?thesis by blast
qed

lemma contract_cell:
  assumes "sha256_width E" "catalog_pinned E" and "external_consumer_contract E a ing = Inr c"
  obtains e d where "e \<in> set catalog_entries" "ce_action e = a" "declared_consumers (a, ing) = Some d"
    "cx_action c = a" "cx_ingress c = ing" "cx_expected_effects c = ce_complete_effects e"
    "cx_risk_class c = ce_risk_class e" "cx_authority_floor c = ce_authority_floor e"
    "cx_consumer_id c = dn_consumer_id d" "cx_transport c = dn_transport d"
proof -
  obtain r where r: "m1nd10_action_consumer_registry E = Inr r" "cg_cells r = builtin_matrix"
    by (rule consumer_registry_built [OF assms(1,2)])
  have "registry_cell r a ing \<noteq> None" using assms(3) r(1) by (auto simp: external_consumer_contract_def)
  then obtain cell where cell: "registry_cell r a ing = Some cell" by blast
  have c: "\<exists>k v t. cc_disposition cell = EnabledTypedConsumer k v t \<and> cx_consumer_id c = k \<and> cx_transport c = t"
    "cx_action c = cc_action cell" "cx_ingress c = cc_ingress cell"
    "cx_expected_effects c = cc_expected_effects cell" "cx_risk_class c = cc_risk_class cell"
    "cx_authority_floor c = cc_authority_floor cell"
    using assms(3) unfolding external_consumer_contract_def r(1) cell map_err_simps and_then_simps ok_or_simps
    by (cases "cc_disposition cell"; auto)+
  have hit: "cell \<in> set builtin_matrix" "cc_action cell = a" "cc_ingress cell = ing"
    using find_hit [OF cell [unfolded registry_cell_def]] r(2) by auto
  then obtain e where e: "e \<in> set catalog_entries" "cell = matrix_cell declared_consumers (e, ing)"
    by (auto simp: builtin_matrix_def matrix_cell_def)
  with hit(2) have "ce_action e = a" by (simp add: matrix_cell_def)
  moreover obtain d where "declared_consumers (a, ing) = Some d"
      "cx_consumer_id c = dn_consumer_id d" "cx_transport c = dn_transport d"
    using c(1) e(2) calculation
    by (auto simp: matrix_cell_def expected_disposition_def split: option.splits if_splits)
  ultimately show ?thesis using that c(2-6) e hit by (simp add: matrix_cell_def)
qed

text \<open>A typed consumer contract that the registry hands out is for an entry of the catalog on an
  ingress it declares: it carries the effects, risk and floor of that entry, over the transport of the
  ingress, to a consumer that accepts the floor, and never for a safety action.\<close>
theorem typed_contract_matches_catalog:
  assumes "sha256_width E" and "catalog_pinned E" and "external_consumer_contract E a ing = Inr c"
  shows "\<exists>e \<in> set catalog_entries. ce_action e = a \<and> ing \<in> ce_ingresses e \<and>
    cx_action c = a \<and> cx_ingress c = ing \<and> cx_expected_effects c = ce_complete_effects e \<and>
    cx_risk_class c = ce_risk_class e \<and> cx_authority_floor c = ce_authority_floor e \<and>
    accepts_floor (cx_consumer_id c) (ce_authority_floor e) \<and> ce_authority_floor e \<noteq> SafetyOnly \<and>
    (ing, cx_transport c) \<in> {(Rest, RestTransport), (Mcp, McpStreamableHttp)}"
proof -
  obtain e d where e: "e \<in> set catalog_entries" "ce_action e = a"
    and d: "declared_consumers (a, ing) = Some d"
    and c: "cx_action c = a" "cx_ingress c = ing" "cx_expected_effects c = ce_complete_effects e"
    "cx_risk_class c = ce_risk_class e" "cx_authority_floor c = ce_authority_floor e"
    "cx_consumer_id c = dn_consumer_id d" "cx_transport c = dn_transport d"
    by (rule contract_cell [OF assms])
  obtain e' where e': "e' \<in> set catalog_entries" "ce_action e' = a"
      "\<forall>k \<in> set (declaration_checks d e'). k = Inr ()" and ing: "dn_ingress d = ing"
    using declared_fits [OF d] by blast
  have "e' = e" using e e' keyed_entry by (metis option.inject)
  with e' ing have fits: "ing \<in> ce_ingresses e" "accepts_floor (dn_consumer_id d) (ce_authority_floor e)"
    "(ing, dn_transport d) \<in> {(Rest, RestTransport), (Mcp, McpStreamableHttp)}"
    by (auto simp: declaration_checks_def)
  moreover have "ce_authority_floor e \<noteq> SafetyOnly"
    using fits(2) by (cases "dn_consumer_id d") auto
  ultimately show ?thesis using e c by auto
qed

text \<open>The generic gate and the typed consumers do not overlap above the ordinary floor: what a
  generic call that passes the gate is classified as has the ordinary floor, or has no typed consumer on
  any ingress.\<close>
theorem gate_and_consumers_disjoint:
  assumes "sha256_width E" and "catalog_pinned E"
    and "enforce_generic_action_policy E tool params = Inr ()"
    and "classify_mcp_action E tool params facts = Inr c"
  shows "cm_authority_floor c = FloorOrdinary \<or> (\<forall>ing. \<exists>d. external_consumer_contract E (cm_action c) ing = Inl d)"
proof -
  have "declared_consumers (''graph.ingest.refresh_declared_root'', ing) = None" for ing
  proof -
    have "list_all (\<lambda>d. dn_action d \<noteq> ''graph.ingest.refresh_declared_root'') typed_consumer_declarations"
      by (simp add: typed_consumer_declarations_def mission_declarations_def external_declarations_def
          typed_declaration_def)
    then show ?thesis
      using declared_fits [of "''graph.ingest.refresh_declared_root''" ing]
      by (cases "declared_consumers (''graph.ingest.refresh_declared_root'', ing)") (auto simp: list_all_iff)
  qed
  then have "external_consumer_contract E ''graph.ingest.refresh_declared_root'' ing \<noteq> Inr k" for ing k
    using contract_cell [OF assms(1,2)] by (metis option.distinct(1))
  then have "\<exists>d. external_consumer_contract E ''graph.ingest.refresh_declared_root'' ing = Inl d" for ing
    by (cases "external_consumer_contract E ''graph.ingest.refresh_declared_root'' ing") auto
  with gate_admits [OF assms(1,3,4)] show ?thesis by auto
qed

section \<open>Witnesses\<close>

text \<open>A platform whose hash is the pinned digest of every message.\<close>

definition pinned_platform :: platform where
  "pinned_platform = reference_platform\<lparr>sha256 := \<lambda>_. map char_of
    [252, 28, 163, 157, 178, 123, 28, 208, 59, 142, 105, 207, 226, 96, 235, 246, 199, 119, 83, 96, 150, 38, 244, 132, 172, 57, 221, 51, 247, 161, 222, 247 :: nat]\<rparr>"

lemma pinned_platform_width: "sha256_width pinned_platform"
  by (simp add: sha256_width_def pinned_platform_def)

lemma pinned_platform_pinned: "catalog_pinned pinned_platform"
  by (simp add: catalog_pinned_def compute_catalog_digest_def digest_canonical_def digest_domain_bytes_def
      pinned_platform_def hex_lower_def hex_byte_def hex_digits_def EXPECTED_M1ND10_ACTION_CATALOG_DIGEST_def)

lemma consumer_registry_is_the_matrix_witness:
  "\<exists>r. m1nd10_action_consumer_registry pinned_platform = Inr r \<and> cg_cells r = builtin_matrix"
  using consumer_registry_is_the_matrix [OF pinned_platform_width pinned_platform_pinned] by blast

lemma contract_of_declared:
  assumes "sha256_width E" "catalog_pinned E" and "declared_consumers (a, ing) = Some d"
  shows "\<exists>c. external_consumer_contract E a ing = Inr c"
proof -
  obtain r where r: "m1nd10_action_consumer_registry E = Inr r" "cg_cells r = builtin_matrix"
    by (rule consumer_registry_built [OF assms(1,2)])
  obtain e where e: "e \<in> set catalog_entries" "ce_action e = a" using declared_fits [OF assms(3)] by blast
  have "ing \<in> set ALL_ACTION_INGRESSES" by (cases ing) (simp_all add: ALL_ACTION_INGRESSES_def)
  with e(1) have "matrix_cell declared_consumers (e, ing) \<in> set (cg_cells r)"
    unfolding r(2) builtin_matrix_def set_map set_product by (intro imageI) simp
  moreover have "cc_action (matrix_cell declared_consumers (e, ing)) = a"
      "cc_ingress (matrix_cell declared_consumers (e, ing)) = ing"
    using e(2) by (simp_all add: matrix_cell_def)
  ultimately have "registry_cell r a ing \<noteq> None" unfolding registry_cell_def find_None_iff by blast
  then obtain cell where cell: "registry_cell r a ing = Some cell" by blast
  then have "cell \<in> set builtin_matrix" "cc_action cell = a" "cc_ingress cell = ing"
    using find_hit [OF cell [unfolded registry_cell_def]] r(2) by auto
  then have "cc_disposition cell = EnabledTypedConsumer (dn_consumer_id d) (dn_contract_version d) (dn_transport d)"
    using assms(3) by (auto simp: builtin_matrix_def matrix_cell_def expected_disposition_def)
  then show ?thesis by (simp add: external_consumer_contract_def r(1) cell)
qed

lemma replace_declared:
  "declared_consumers (''graph.ingest.replace'', Mcp) =
     Some (typed_declaration ''graph.ingest.replace'' Mcp [GraphMutation, RuntimeStoreWrite, SovereignMutation]
       Critical PositiveSovereign ExternalMutationService EXTERNAL_MUTATION_SERVICE_CONTRACT_VERSION)"
  by (simp add: declared_consumers_def typed_consumer_declarations_def mission_declarations_def
      external_declarations_def typed_declaration_def)

lemma typed_contract_matches_catalog_witness:
  "\<exists>c. external_consumer_contract pinned_platform ''graph.ingest.replace'' Mcp = Inr c \<and>
     cx_transport c = McpStreamableHttp \<and> cx_authority_floor c \<noteq> SafetyOnly"
proof -
  obtain c where c: "external_consumer_contract pinned_platform ''graph.ingest.replace'' Mcp = Inr c"
    using contract_of_declared [OF pinned_platform_width pinned_platform_pinned replace_declared] by blast
  from typed_contract_matches_catalog [OF pinned_platform_width pinned_platform_pinned this] c show ?thesis
    by auto
qed

text \<open>The refresh of a declared root is admitted by name, and has no typed consumer.\<close>

definition refresh_arguments :: json where
  "refresh_arguments = JObject [(''mode'', JString ''refresh'')]"

lemma refresh_classified:
  assumes "bare_tool_name tool = ''ingest''"
  shows "\<exists>c. classify_mcp_action pinned_platform tool refresh_arguments facts = Inr c \<and>
    cm_action c = ''graph.ingest.refresh_declared_root'' \<and> cm_authority_floor c = ScopedGrantA2"
proof -
  have "select_mcp_action ''ingest'' refresh_arguments facts = Inr ''graph.ingest.refresh_declared_root''"
    by (simp add: select_mcp_action_def classify_ingest_def refresh_arguments_def nonempty_string_def
        string_field_def unwrap_or_def Let_def)
  with assms classified_by_entry [OF pinned_platform_width _ refresh_entry, of tool refresh_arguments facts]
  show ?thesis by simp
qed

lemma gate_and_consumers_disjoint_witness:
  "enforce_generic_action_policy pinned_platform ''m1nd.ingest'' refresh_arguments = Inr () \<and>
   (\<exists>d. external_consumer_contract pinned_platform ''graph.ingest.refresh_declared_root'' Mcp = Inl d)"
proof -
  have bare: "bare_tool_name ''m1nd.ingest'' = ''ingest''" "bare_tool_name ''ingest'' = ''ingest''"
    by (simp_all add: bare_tool_name_def strip_prefix_def)
  obtain d where "classify_mcp_action pinned_platform ''ingest'' refresh_arguments no_facts = Inr d"
    "cm_action d = ''graph.ingest.refresh_declared_root''"
    using refresh_classified [OF bare(2)] by blast
  then have gate: "enforce_generic_action_policy pinned_platform ''m1nd.ingest'' refresh_arguments = Inr ()"
    by (simp add: enforce_generic_action_policy_def bare legacy_mutation_refusal_def gate_floors_def
        GENERIC_A2_LOCAL_ADMITTED_ACTIONS_def Let_def)
  obtain c where c: "classify_mcp_action pinned_platform ''m1nd.ingest'' refresh_arguments sample_facts = Inr c"
    "cm_action c = ''graph.ingest.refresh_declared_root''" "cm_authority_floor c = ScopedGrantA2"
    using refresh_classified [OF bare(1)] by blast
  with gate_and_consumers_disjoint [OF pinned_platform_width pinned_platform_pinned gate c(1)] gate show ?thesis
    by auto
qed

end
