(* ===== verification/Release.thy ===== *)
theory Release
  imports Mission_Contracts Runtime_Digests
begin

text \<open>
  \<open>m1nd-control/src/release.rs\<close>: the release candidate, the receipts of its gates, the independent
  adversarial review and metric specifications, each sealed by the digest of its core, with their
  validators; and the convergence of an evidence set on one candidate.  An error that the code words
  with \<open>format!\<close> carries the words' arguments.
\<close>

section \<open>Data\<close>

definition RELEASE_CANDIDATE_SCHEMA :: string where
  "RELEASE_CANDIDATE_SCHEMA = ''m1nd-release-candidate-manifest-v1''"
definition RELEASE_CANDIDATE_DIGEST_DOMAIN :: string where
  "RELEASE_CANDIDATE_DIGEST_DOMAIN = ''m1nd-release-candidate-manifest-v1''"
definition GATE_RECEIPT_SCHEMA :: string where
  "GATE_RECEIPT_SCHEMA = ''m1nd-gate-receipt-v1''"
definition GATE_RECEIPT_DIGEST_DOMAIN :: string where
  "GATE_RECEIPT_DIGEST_DOMAIN = ''m1nd-gate-receipt-v1''"
definition INDEPENDENT_REVIEW_RECEIPT_SCHEMA :: string where
  "INDEPENDENT_REVIEW_RECEIPT_SCHEMA = ''m1nd-independent-adversarial-review-receipt-v1''"
definition INDEPENDENT_REVIEW_RECEIPT_DIGEST_DOMAIN :: string where
  "INDEPENDENT_REVIEW_RECEIPT_DIGEST_DOMAIN = ''m1nd-independent-adversarial-review-receipt-v1''"
definition METRIC_SPEC_SCHEMA :: string where
  "METRIC_SPEC_SCHEMA = ''m1nd-metric-spec-v1''"
definition METRIC_SPEC_DIGEST_DOMAIN :: string where
  "METRIC_SPEC_DIGEST_DOMAIN = ''m1nd-metric-spec-v1''"

datatype gate_id = G0 | G1 | G2 | G3 | G4 | G5 | G6 | G7 | G8 | G9 | G10

definition GATE_ID_ALL :: "gate_id list" where
  "GATE_ID_ALL = [G0, G1, G2, G3, G4, G5, G6, G7, G8, G9, G10]"

fun gate_name :: "gate_id \<Rightarrow> string" where
  "gate_name G0 = ''G0''" | "gate_name G1 = ''G1''" | "gate_name G2 = ''G2''" | "gate_name G3 = ''G3''"
| "gate_name G4 = ''G4''" | "gate_name G5 = ''G5''" | "gate_name G6 = ''G6''" | "gate_name G7 = ''G7''"
| "gate_name G8 = ''G8''" | "gate_name G9 = ''G9''" | "gate_name G10 = ''G10''"

datatype gate_verdict = GatePass | GateFail | GateNotRun | GateNotProven

fun gate_verdict_name :: "gate_verdict \<Rightarrow> string" where
  "gate_verdict_name GatePass = ''PASS''" | "gate_verdict_name GateFail = ''FAIL''"
| "gate_verdict_name GateNotRun = ''NOT_RUN''" | "gate_verdict_name GateNotProven = ''NOT_PROVEN''"

datatype finding_severity = P0 | P1 | P2 | P3 | Info

fun severity_name :: "finding_severity \<Rightarrow> string" where
  "severity_name P0 = ''P0''" | "severity_name P1 = ''P1''" | "severity_name P2 = ''P2''"
| "severity_name P3 = ''P3''" | "severity_name Info = ''Info''"

datatype finding_status = FindingOpen | FindingClosed

fun finding_status_name :: "finding_status \<Rightarrow> string" where
  "finding_status_name FindingOpen = ''OPEN''" | "finding_status_name FindingClosed = ''CLOSED''"

record release_finding =
  rf_finding_id :: string
  rf_severity :: finding_severity
  rf_status :: finding_status
  rf_statement :: string
  rf_evidence_digest :: string

definition json_of_release_finding :: "release_finding \<Rightarrow> json" where
  "json_of_release_finding x = JObject
    [(''finding_id'', JString (rf_finding_id x)),
     (''severity'', JString (severity_name (rf_severity x))),
     (''status'', JString (finding_status_name (rf_status x))),
     (''statement'', JString (rf_statement x)),
     (''evidence_digest'', JString (rf_evidence_digest x))]"

record candidate_core =
  rk_repo_commits :: "(string, string) fmap"
  rk_artifact_digests :: "(string, string) fmap"
  rk_schema_policy_versions :: "(string, string) fmap"
  rk_tool_catalog_digest :: string
  rk_safety_kernel_digest :: string
  rk_previous_governance_runtime_digest :: string
  rk_constitution_epoch_digest :: string
  rk_autonomy_epoch_grants_digest :: string
  rk_independence_quorum_policy_digest :: string
  rk_intended_active_mode :: active_mode
  rk_compatibility_manifest_digest :: string
  rk_rollback_plan_digest :: string
  rk_harness_fixture_threat_digests :: "(string, string) fmap"
  rk_build_environment_digest :: string
  rk_built_at :: u64

definition json_of_candidate_core :: "candidate_core \<Rightarrow> json" where
  "json_of_candidate_core x = JObject
    [(''repo_commits'', json_fmap JString (rk_repo_commits x)),
     (''artifact_digests'', json_fmap JString (rk_artifact_digests x)),
     (''schema_policy_versions'', json_fmap JString (rk_schema_policy_versions x)),
     (''tool_catalog_digest'', JString (rk_tool_catalog_digest x)),
     (''safety_kernel_digest'', JString (rk_safety_kernel_digest x)),
     (''previous_governance_runtime_digest'', JString (rk_previous_governance_runtime_digest x)),
     (''constitution_epoch_digest'', JString (rk_constitution_epoch_digest x)),
     (''autonomy_epoch_grants_digest'', JString (rk_autonomy_epoch_grants_digest x)),
     (''independence_quorum_policy_digest'', JString (rk_independence_quorum_policy_digest x)),
     (''intended_active_mode'', JString (mode_name (rk_intended_active_mode x))),
     (''compatibility_manifest_digest'', JString (rk_compatibility_manifest_digest x)),
     (''rollback_plan_digest'', JString (rk_rollback_plan_digest x)),
     (''harness_fixture_threat_digests'', json_fmap JString (rk_harness_fixture_threat_digests x)),
     (''build_environment_digest'', JString (rk_build_environment_digest x)),
     (''built_at'', json_u64 (rk_built_at x))]"

record release_candidate =
  rc_schema :: string
  rc_core :: candidate_core
  rc_candidate_digest :: string
  rc_provenance_signature :: string

definition json_of_release_candidate :: "release_candidate \<Rightarrow> json" where
  "json_of_release_candidate x = JObject
    [(''schema'', JString (rc_schema x)),
     (''core'', json_of_candidate_core (rc_core x)),
     (''candidate_digest'', JString (rc_candidate_digest x)),
     (''provenance_signature'', JString (rc_provenance_signature x))]"

record gate_core =
  gk_candidate_digest :: string
  gk_gate_id :: gate_id
  gk_custody_floor :: string
  gk_spec_version :: string
  gk_metric_spec_digest :: "string option"
  gk_harness_fixture_digest :: string
  gk_environment_digest :: string
  gk_provider_id :: string
  gk_provider_key_version :: string
  gk_input_digests :: "(string, string) fmap"
  gk_command :: string
  gk_started_at :: u64
  gk_ended_at :: u64
  gk_exit_code :: "i32 option"
  gk_verdict :: gate_verdict
  gk_findings :: "release_finding list"
  gk_artifact_digests :: "(string, string) fmap"

definition json_of_gate_core :: "gate_core \<Rightarrow> json" where
  "json_of_gate_core x = JObject
    [(''candidate_digest'', JString (gk_candidate_digest x)),
     (''gate_id'', JString (gate_name (gk_gate_id x))),
     (''custody_floor'', JString (gk_custody_floor x)),
     (''spec_version'', JString (gk_spec_version x)),
     (''metric_spec_digest'', json_opt JString (gk_metric_spec_digest x)),
     (''harness_fixture_digest'', JString (gk_harness_fixture_digest x)),
     (''environment_digest'', JString (gk_environment_digest x)),
     (''provider_id'', JString (gk_provider_id x)),
     (''provider_key_version'', JString (gk_provider_key_version x)),
     (''input_digests'', json_fmap JString (gk_input_digests x)),
     (''command'', JString (gk_command x)),
     (''started_at'', json_u64 (gk_started_at x)),
     (''ended_at'', json_u64 (gk_ended_at x)),
     (''exit_code'', json_opt json_i32 (gk_exit_code x)),
     (''verdict'', JString (gate_verdict_name (gk_verdict x))),
     (''findings'', json_list json_of_release_finding (gk_findings x)),
     (''artifact_digests'', json_fmap JString (gk_artifact_digests x))]"

record gate_receipt =
  gr_schema :: string
  gr_core :: gate_core
  gr_receipt_id :: string
  gr_receipt_digest :: string
  gr_signature :: string

definition json_of_gate_receipt :: "gate_receipt \<Rightarrow> json" where
  "json_of_gate_receipt x = JObject
    [(''schema'', JString (gr_schema x)),
     (''core'', json_of_gate_core (gr_core x)),
     (''receipt_id'', JString (gr_receipt_id x)),
     (''receipt_digest'', JString (gr_receipt_digest x)),
     (''signature'', JString (gr_signature x))]"

record review_core =
  wk_candidate_digest :: string
  wk_threat_matrix_digest :: string
  wk_provider_id :: string
  wk_provider_model_version :: string
  wk_provider_key_version :: string
  wk_reviewed_inputs_digest :: string
  wk_binding_changes :: "string list"
  wk_started_at :: u64
  wk_ended_at :: u64
  wk_verdict :: gate_verdict
  wk_findings :: "release_finding list"

definition json_of_review_core :: "review_core \<Rightarrow> json" where
  "json_of_review_core x = JObject
    [(''candidate_digest'', JString (wk_candidate_digest x)),
     (''threat_matrix_digest'', JString (wk_threat_matrix_digest x)),
     (''provider_id'', JString (wk_provider_id x)),
     (''provider_model_version'', JString (wk_provider_model_version x)),
     (''provider_key_version'', JString (wk_provider_key_version x)),
     (''reviewed_inputs_digest'', JString (wk_reviewed_inputs_digest x)),
     (''binding_changes'', json_list JString (wk_binding_changes x)),
     (''started_at'', json_u64 (wk_started_at x)),
     (''ended_at'', json_u64 (wk_ended_at x)),
     (''verdict'', JString (gate_verdict_name (wk_verdict x))),
     (''findings'', json_list json_of_release_finding (wk_findings x))]"

record review_receipt =
  wr_schema :: string
  wr_core :: review_core
  wr_receipt_id :: string
  wr_receipt_digest :: string
  wr_signature :: string

definition json_of_review_receipt :: "review_receipt \<Rightarrow> json" where
  "json_of_review_receipt x = JObject
    [(''schema'', JString (wr_schema x)),
     (''core'', json_of_review_core (wr_core x)),
     (''receipt_id'', JString (wr_receipt_id x)),
     (''receipt_digest'', JString (wr_receipt_digest x)),
     (''signature'', JString (wr_signature x))]"

record metric_core =
  mk_metric_id :: string
  mk_question :: string
  mk_corpus_or_cohort_digest :: string
  mk_ground_truth_protocol :: string
  mk_unit :: string
  mk_numerator :: string
  mk_denominator :: string
  mk_minimum_n :: u64
  mk_strata :: "string list"
  mk_environment_digest :: string
  mk_workload_and_seeds_digest :: string
  mk_confidence_interval :: string
  mk_pass_threshold :: string
  mk_non_inferiority_margin :: "string option"
  mk_command :: string
  mk_artifact_retention :: string

definition json_of_metric_core :: "metric_core \<Rightarrow> json" where
  "json_of_metric_core x = JObject
    [(''metric_id'', JString (mk_metric_id x)),
     (''question'', JString (mk_question x)),
     (''corpus_or_cohort_digest'', JString (mk_corpus_or_cohort_digest x)),
     (''ground_truth_protocol'', JString (mk_ground_truth_protocol x)),
     (''unit'', JString (mk_unit x)),
     (''numerator'', JString (mk_numerator x)),
     (''denominator'', JString (mk_denominator x)),
     (''minimum_n'', json_u64 (mk_minimum_n x)),
     (''strata'', json_list JString (mk_strata x)),
     (''environment_digest'', JString (mk_environment_digest x)),
     (''workload_and_seeds_digest'', JString (mk_workload_and_seeds_digest x)),
     (''confidence_interval'', JString (mk_confidence_interval x)),
     (''pass_threshold'', JString (mk_pass_threshold x)),
     (''non_inferiority_margin'', json_opt JString (mk_non_inferiority_margin x)),
     (''command'', JString (mk_command x)),
     (''artifact_retention'', JString (mk_artifact_retention x))]"

record metric_spec =
  ms_schema :: string
  ms_core :: metric_core
  ms_metric_spec_id :: string
  ms_metric_spec_digest :: string
  ms_ratification_signature :: string

definition json_of_metric_spec :: "metric_spec \<Rightarrow> json" where
  "json_of_metric_spec x = JObject
    [(''schema'', JString (ms_schema x)),
     (''core'', json_of_metric_core (ms_core x)),
     (''metric_spec_id'', JString (ms_metric_spec_id x)),
     (''metric_spec_digest'', JString (ms_metric_spec_digest x)),
     (''ratification_signature'', JString (ms_ratification_signature x))]"

record release_evidence =
  re_candidate :: release_candidate
  re_gate_receipts :: "gate_receipt list"
  re_independent_review :: review_receipt

datatype release_disposition = StructurallyValidNotCryptographicallyVerified

text \<open>The texts of \<open>InvalidContract\<close>, of \<open>InvalidVerdict\<close>, and the name of a piece of evidence.\<close>

datatype release_fault =
    RequiredFieldEmpty string | FloorOutsideRatifiedSet string string | NotADigest string
  | SignatureEmpty string | RequiredMapEmpty string | MapKeyEmpty string | MapValueEmpty string string
  | DuplicateFindingId string | MinimumNNotPositive

datatype verdict_fault =
    PassRequiresExitZero | NotRunClaimsExitCode | ReviewIsNotPass | GateIsNotPass gate_id

datatype release_evidence_name = IndependentReview | GateEvidence gate_id

datatype release_error =
    InvalidContract release_fault
  | InvalidSchema string
  | ReleaseDigestMismatch string
  | IdentifierMismatch string
  | InvalidReleaseWindow
  | InvalidVerdict verdict_fault
  | CandidateMismatch release_evidence_name
  | DuplicateGate gate_id
  | MissingGates "gate_id list"
  | OpenBlockingFinding release_evidence_name

section \<open>Checks\<close>

definition release_require_schema :: "string \<Rightarrow> string \<Rightarrow> string \<Rightarrow> release_error + unit" where
  "release_require_schema artifact observed expected = check (observed = expected) (InvalidSchema artifact)"

definition release_require_non_empty :: "string \<Rightarrow> string \<Rightarrow> release_error + unit" where
  "release_require_non_empty field value =
     check (\<not> trims_empty value) (InvalidContract (RequiredFieldEmpty field))"

definition require_ratified_custody_floor :: "string \<Rightarrow> string \<Rightarrow> release_error + unit" where
  "require_ratified_custody_floor field value = seq_checks
     [release_require_non_empty field value,
      check (is_ratified_custody_floor value) (InvalidContract (FloorOutsideRatifiedSet field value))]"

text \<open>\<open>u8::is_ascii_hexdigit\<close>, which also accepts capitals.\<close>

definition is_ascii_hexdigit :: "char \<Rightarrow> bool" where
  "is_ascii_hexdigit c = (let n = of_char c :: nat in
     48 \<le> n \<and> n \<le> 57 \<or> 65 \<le> n \<and> n \<le> 70 \<or> 97 \<le> n \<and> n \<le> 102)"

definition release_require_digest :: "string \<Rightarrow> string \<Rightarrow> release_error + unit" where
  "release_require_digest field value =
     check (\<not> (length value \<noteq> 64 \<or> \<not> list_all is_ascii_hexdigit value)) (InvalidContract (NotADigest field))"

definition release_require_signature :: "string \<Rightarrow> string \<Rightarrow> release_error + unit" where
  "release_require_signature field signature = check (signature \<noteq> []) (InvalidContract (SignatureEmpty field))"

definition require_non_empty_map :: "string \<Rightarrow> (string, string) fmap \<Rightarrow> release_error + unit" where
  "require_non_empty_map field m = check (fmdom m \<noteq> {||}) (InvalidContract (RequiredMapEmpty field))"

text \<open>The body of the loop over a map, whose entries come in the order of their keys.\<close>

definition named_value_check :: "string \<Rightarrow> bool \<Rightarrow> string \<times> string \<Rightarrow> release_error + unit" where
  "named_value_check field digest_values entry = (case entry of (name, value) \<Rightarrow> seq_checks
     [check (\<not> trims_empty name) (InvalidContract (MapKeyEmpty field)),
      (if digest_values then release_require_digest field value
       else check (\<not> trims_empty value) (InvalidContract (MapValueEmpty field name)))])"

definition validate_named_values :: "string \<Rightarrow> (string, string) fmap \<Rightarrow> bool \<Rightarrow> release_error + unit" where
  "validate_named_values field m digest_values =
     seq_checks (map (named_value_check field digest_values) (sorted_list_of_fmap m))"

fun findings_loop :: "release_finding list \<Rightarrow> string set \<Rightarrow> release_error + unit" where
  "findings_loop [] ids = Ok ()"
| "findings_loop (f # fs) ids =
     and_then (seq_checks
       [release_require_non_empty ''finding_id'' (rf_finding_id f),
        release_require_non_empty ''finding.statement'' (rf_statement f),
        release_require_digest ''finding.evidence_digest'' (rf_evidence_digest f),
        check (rf_finding_id f \<notin> ids) (InvalidContract (DuplicateFindingId (rf_finding_id f)))])
       (\<lambda>_. findings_loop fs (insert (rf_finding_id f) ids))"

definition validate_findings :: "release_finding list \<Rightarrow> release_error + unit" where
  "validate_findings findings = findings_loop findings {}"

definition has_open_p0_or_p1 :: "release_finding list \<Rightarrow> bool" where
  "has_open_p0_or_p1 findings \<longleftrightarrow>
     (\<exists>f \<in> set findings. rf_status f = FindingOpen \<and> rf_severity f \<in> {P0, P1})"

section \<open>The candidate\<close>

definition compute_candidate_digest :: "platform \<Rightarrow> candidate_core \<Rightarrow> string" where
  "compute_candidate_digest E c = digest_canonical E RELEASE_CANDIDATE_DIGEST_DOMAIN (json_of_candidate_core c)"

definition candidate_digests :: "release_candidate \<Rightarrow> (string \<times> string) list" where
  "candidate_digests r = (let c = rc_core r in
    [(''candidate_digest'', rc_candidate_digest r),
     (''tool_catalog_digest'', rk_tool_catalog_digest c),
     (''safety_kernel_digest'', rk_safety_kernel_digest c),
     (''previous_governance_runtime_digest'', rk_previous_governance_runtime_digest c),
     (''constitution_epoch_digest'', rk_constitution_epoch_digest c),
     (''autonomy_epoch_grants_digest'', rk_autonomy_epoch_grants_digest c),
     (''independence_quorum_policy_digest'', rk_independence_quorum_policy_digest c),
     (''compatibility_manifest_digest'', rk_compatibility_manifest_digest c),
     (''rollback_plan_digest'', rk_rollback_plan_digest c),
     (''build_environment_digest'', rk_build_environment_digest c)])"

definition validate_candidate :: "platform \<Rightarrow> release_candidate \<Rightarrow> release_error + release_disposition" where
  "validate_candidate E r =
     (let c = rc_core r in
      and_then (seq_checks (
       [release_require_schema ''release candidate'' (rc_schema r) RELEASE_CANDIDATE_SCHEMA,
        require_non_empty_map ''repo_commits'' (rk_repo_commits c),
        require_non_empty_map ''artifact_digests'' (rk_artifact_digests c),
        require_non_empty_map ''schema_policy_versions'' (rk_schema_policy_versions c),
        require_non_empty_map ''harness_fixture_threat_digests'' (rk_harness_fixture_threat_digests c),
        validate_named_values ''repo_commits'' (rk_repo_commits c) False,
        validate_named_values ''artifact_digests'' (rk_artifact_digests c) True,
        validate_named_values ''schema_policy_versions'' (rk_schema_policy_versions c) False,
        validate_named_values ''harness_fixture_threat_digests'' (rk_harness_fixture_threat_digests c) True]
       @ map (\<lambda>(field, digest). release_require_digest field digest) (candidate_digests r)
       @ [release_require_signature ''provenance_signature'' (rc_provenance_signature r),
          check (compute_candidate_digest E c = rc_candidate_digest r) (ReleaseDigestMismatch ''candidate_digest'')]))
      (\<lambda>_. Ok StructurallyValidNotCryptographicallyVerified))"

definition seal_candidate :: "platform \<Rightarrow> candidate_core \<Rightarrow> string \<Rightarrow> release_error + release_candidate" where
  "seal_candidate E core sig =
     (let r = \<lparr>rc_schema = RELEASE_CANDIDATE_SCHEMA, rc_core = core,
        rc_candidate_digest = compute_candidate_digest E core, rc_provenance_signature = sig\<rparr> in
      and_then (validate_candidate E r) (\<lambda>_. Ok r))"

section \<open>Gate receipts\<close>

definition compute_gate_digest :: "platform \<Rightarrow> gate_core \<Rightarrow> string" where
  "compute_gate_digest E c = digest_canonical E GATE_RECEIPT_DIGEST_DOMAIN (json_of_gate_core c)"

definition gate_verdict_check :: "gate_core \<Rightarrow> release_error + unit" where
  "gate_verdict_check c =
     (case gk_verdict c of
        GatePass \<Rightarrow> check (gk_exit_code c = Some 0) (InvalidVerdict PassRequiresExitZero)
      | GateNotRun \<Rightarrow> check (gk_exit_code c = None) (InvalidVerdict NotRunClaimsExitCode)
      | _ \<Rightarrow> Ok ())"

definition validate_gate :: "platform \<Rightarrow> gate_receipt \<Rightarrow> release_error + release_disposition" where
  "validate_gate E r =
     (let c = gr_core r in
      and_then (seq_checks
       [release_require_schema ''gate receipt'' (gr_schema r) GATE_RECEIPT_SCHEMA,
        release_require_digest ''candidate_digest'' (gk_candidate_digest c),
        require_ratified_custody_floor ''custody_floor'' (gk_custody_floor c),
        release_require_non_empty ''spec_version'' (gk_spec_version c),
        (case gk_metric_spec_digest c of Some d \<Rightarrow> release_require_digest ''metric_spec_digest'' d | None \<Rightarrow> Ok ()),
        release_require_digest ''harness_fixture_digest'' (gk_harness_fixture_digest c),
        release_require_digest ''environment_digest'' (gk_environment_digest c),
        release_require_non_empty ''provider_id'' (gk_provider_id c),
        release_require_non_empty ''provider_key_version'' (gk_provider_key_version c),
        release_require_non_empty ''command'' (gk_command c),
        require_non_empty_map ''input_digests'' (gk_input_digests c),
        require_non_empty_map ''artifact_digests'' (gk_artifact_digests c),
        validate_named_values ''input_digests'' (gk_input_digests c) True,
        validate_named_values ''artifact_digests'' (gk_artifact_digests c) True,
        validate_findings (gk_findings c),
        check (\<not> gk_ended_at c < gk_started_at c) InvalidReleaseWindow,
        gate_verdict_check c,
        release_require_digest ''receipt_digest'' (gr_receipt_digest r),
        check (gr_receipt_id r = ''gate:'' @ gr_receipt_digest r) (IdentifierMismatch ''receipt_id''),
        release_require_signature ''signature'' (gr_signature r),
        check (compute_gate_digest E c = gr_receipt_digest r) (ReleaseDigestMismatch ''receipt_digest'')])
      (\<lambda>_. Ok StructurallyValidNotCryptographicallyVerified))"

definition seal_gate :: "platform \<Rightarrow> gate_core \<Rightarrow> string \<Rightarrow> release_error + gate_receipt" where
  "seal_gate E core sig =
     (let d = compute_gate_digest E core;
          r = \<lparr>gr_schema = GATE_RECEIPT_SCHEMA, gr_core = core, gr_receipt_id = ''gate:'' @ d,
               gr_receipt_digest = d, gr_signature = sig\<rparr> in
      and_then (validate_gate E r) (\<lambda>_. Ok r))"

definition gate_has_open_p0_or_p1 :: "gate_receipt \<Rightarrow> bool" where
  "gate_has_open_p0_or_p1 r = has_open_p0_or_p1 (gk_findings (gr_core r))"

section \<open>The independent review\<close>

definition compute_review_digest :: "platform \<Rightarrow> review_core \<Rightarrow> string" where
  "compute_review_digest E c = digest_canonical E INDEPENDENT_REVIEW_RECEIPT_DIGEST_DOMAIN (json_of_review_core c)"

definition validate_review_receipt :: "platform \<Rightarrow> review_receipt \<Rightarrow> release_error + release_disposition" where
  "validate_review_receipt E r =
     (let c = wr_core r in
      and_then (seq_checks
       [release_require_schema ''independent review receipt'' (wr_schema r) INDEPENDENT_REVIEW_RECEIPT_SCHEMA,
        release_require_digest ''candidate_digest'' (wk_candidate_digest c),
        release_require_digest ''threat_matrix_digest'' (wk_threat_matrix_digest c),
        release_require_digest ''reviewed_inputs_digest'' (wk_reviewed_inputs_digest c),
        release_require_digest ''receipt_digest'' (wr_receipt_digest r),
        release_require_non_empty ''provider_id'' (wk_provider_id c),
        release_require_non_empty ''provider_model_version'' (wk_provider_model_version c),
        release_require_non_empty ''provider_key_version'' (wk_provider_key_version c),
        validate_findings (wk_findings c),
        check (\<not> wk_ended_at c < wk_started_at c) InvalidReleaseWindow,
        release_require_signature ''signature'' (wr_signature r),
        check (wr_receipt_id r = ''iar:'' @ wr_receipt_digest r) (IdentifierMismatch ''receipt_id''),
        check (compute_review_digest E c = wr_receipt_digest r) (ReleaseDigestMismatch ''receipt_digest'')])
      (\<lambda>_. Ok StructurallyValidNotCryptographicallyVerified))"

definition seal_review_receipt :: "platform \<Rightarrow> review_core \<Rightarrow> string \<Rightarrow> release_error + review_receipt" where
  "seal_review_receipt E core sig =
     (let d = compute_review_digest E core;
          r = \<lparr>wr_schema = INDEPENDENT_REVIEW_RECEIPT_SCHEMA, wr_core = core, wr_receipt_id = ''iar:'' @ d,
               wr_receipt_digest = d, wr_signature = sig\<rparr> in
      and_then (validate_review_receipt E r) (\<lambda>_. Ok r))"

definition review_has_open_p0_or_p1 :: "review_receipt \<Rightarrow> bool" where
  "review_has_open_p0_or_p1 r = has_open_p0_or_p1 (wk_findings (wr_core r))"

section \<open>Metric specifications\<close>

definition compute_metric_digest :: "platform \<Rightarrow> metric_core \<Rightarrow> string" where
  "compute_metric_digest E c = digest_canonical E METRIC_SPEC_DIGEST_DOMAIN (json_of_metric_core c)"

definition metric_texts :: "metric_core \<Rightarrow> (string \<times> string) list" where
  "metric_texts c =
    [(''metric_id'', mk_metric_id c), (''question'', mk_question c),
     (''ground_truth_protocol'', mk_ground_truth_protocol c), (''unit'', mk_unit c),
     (''numerator'', mk_numerator c), (''denominator'', mk_denominator c),
     (''confidence_interval'', mk_confidence_interval c), (''pass_threshold'', mk_pass_threshold c),
     (''command'', mk_command c), (''artifact_retention'', mk_artifact_retention c)]"

definition validate_metric :: "platform \<Rightarrow> metric_spec \<Rightarrow> release_error + release_disposition" where
  "validate_metric E r =
     (let c = ms_core r in
      and_then (seq_checks (
       release_require_schema ''metric spec'' (ms_schema r) METRIC_SPEC_SCHEMA
       # map (\<lambda>(field, value). release_require_non_empty field value) (metric_texts c)
       @ [release_require_digest ''corpus_or_cohort_digest'' (mk_corpus_or_cohort_digest c),
          release_require_digest ''environment_digest'' (mk_environment_digest c),
          release_require_digest ''workload_and_seeds_digest'' (mk_workload_and_seeds_digest c),
          check (mk_minimum_n c \<noteq> 0) (InvalidContract MinimumNNotPositive),
          release_require_digest ''metric_spec_digest'' (ms_metric_spec_digest r),
          check (ms_metric_spec_id r = ''metric:'' @ ms_metric_spec_digest r) (IdentifierMismatch ''metric_spec_id''),
          release_require_signature ''ratification_signature'' (ms_ratification_signature r),
          check (compute_metric_digest E c = ms_metric_spec_digest r) (ReleaseDigestMismatch ''metric_spec_digest'')]))
      (\<lambda>_. Ok StructurallyValidNotCryptographicallyVerified))"

definition seal_metric :: "platform \<Rightarrow> metric_core \<Rightarrow> string \<Rightarrow> release_error + metric_spec" where
  "seal_metric E core sig =
     (let d = compute_metric_digest E core;
          r = \<lparr>ms_schema = METRIC_SPEC_SCHEMA, ms_core = core, ms_metric_spec_id = ''metric:'' @ d,
               ms_metric_spec_digest = d, ms_ratification_signature = sig\<rparr> in
      and_then (validate_metric E r) (\<lambda>_. Ok r))"

section \<open>Convergence\<close>

text \<open>The loop over the receipts, with the local set \<open>observed\<close>.\<close>

fun receipts_loop ::
  "platform \<Rightarrow> string \<Rightarrow> gate_receipt list \<Rightarrow> gate_id set \<Rightarrow> release_error + gate_id set" where
  "receipts_loop E candidate [] observed = Ok observed"
| "receipts_loop E candidate (r # rs) observed =
     (let gate = gk_gate_id (gr_core r) in
      and_then (validate_gate E r) (\<lambda>_.
      and_then (seq_checks
       [check (gk_candidate_digest (gr_core r) = candidate) (CandidateMismatch (GateEvidence gate)),
        check (gate \<notin> observed) (DuplicateGate gate),
        check (gk_verdict (gr_core r) = GatePass) (InvalidVerdict (GateIsNotPass gate)),
        check (\<not> gate_has_open_p0_or_p1 r) (OpenBlockingFinding (GateEvidence gate))])
      (\<lambda>_. receipts_loop E candidate rs (insert gate observed))))"

definition validate_convergence :: "platform \<Rightarrow> release_evidence \<Rightarrow> release_error + release_disposition" where
  "validate_convergence E s =
     (let candidate = rc_candidate_digest (re_candidate s); review = re_independent_review s in
      and_then (validate_candidate E (re_candidate s)) (\<lambda>_.
      and_then (validate_review_receipt E review) (\<lambda>_.
      and_then (seq_checks
       [check (wk_candidate_digest (wr_core review) = candidate) (CandidateMismatch IndependentReview),
        check (wk_verdict (wr_core review) = GatePass) (InvalidVerdict ReviewIsNotPass),
        check (\<not> review_has_open_p0_or_p1 review) (OpenBlockingFinding IndependentReview)]) (\<lambda>_.
      and_then (receipts_loop E candidate (re_gate_receipts s) {}) (\<lambda>observed.
        let missing = filter (\<lambda>g. g \<notin> observed) GATE_ID_ALL in
        if missing \<noteq> [] then Err (MissingGates missing)
        else Ok StructurallyValidNotCryptographicallyVerified)))))"

end
