(* ===== verification/Release_Properties.thy ===== *)
theory Release_Properties
  imports Release
begin

text \<open>
  The contract of \<open>release.rs\<close>: the four sealed contracts as instances of \<open>sealed_contract\<close>, and what
  convergence decides: one passed receipt for each of the eleven gates, all on one candidate.
\<close>

section \<open>The serialised cores determine the cores\<close>

lemma gate_name_inj: "gate_name a = gate_name b \<longleftrightarrow> a = b"
  by (cases a; cases b; simp)

lemma gate_verdict_name_inj: "gate_verdict_name a = gate_verdict_name b \<longleftrightarrow> a = b"
  by (cases a; cases b; simp)

lemma severity_name_inj: "severity_name a = severity_name b \<longleftrightarrow> a = b"
  by (cases a; cases b; simp)

lemma finding_status_name_inj: "finding_status_name a = finding_status_name b \<longleftrightarrow> a = b"
  by (cases a; cases b; simp)

lemmas release_names = gate_name_inj gate_verdict_name_inj severity_name_inj finding_status_name_inj

lemma json_of_release_finding_canon:
  "canon (json_of_release_finding x) = canon (json_of_release_finding y) \<longleftrightarrow> x = y"
proof
  assume "canon (json_of_release_finding x) = canon (json_of_release_finding y)"
  from canon_object_same_keys [OF this [unfolded json_of_release_finding_def]]
  show "x = y" by (simp add: release_names release_finding.equality)
qed simp

lemma string_map_canon: "canon (json_fmap JString m) = canon (json_fmap JString n) \<longleftrightarrow> m = n"
  by (rule json_fmap_canon) simp

lemmas release_fields = release_names name_inj string_map_canon json_list_canon [OF json_of_release_finding_canon]
  json_list_canon [of JString]

lemma json_of_candidate_core_canon:
  "canon (json_of_candidate_core x) = canon (json_of_candidate_core y) \<Longrightarrow> x = y"
proof -
  assume "canon (json_of_candidate_core x) = canon (json_of_candidate_core y)"
  from canon_object_same_keys [OF this [unfolded json_of_candidate_core_def]]
  show "x = y" by (simp add: release_fields candidate_core.equality)
qed

lemma json_of_gate_core_canon: "canon (json_of_gate_core x) = canon (json_of_gate_core y) \<Longrightarrow> x = y"
proof -
  assume "canon (json_of_gate_core x) = canon (json_of_gate_core y)"
  from canon_object_same_keys [OF this [unfolded json_of_gate_core_def]]
  show "x = y" by (simp add: release_fields gate_core.equality)
qed

lemma json_of_review_core_canon: "canon (json_of_review_core x) = canon (json_of_review_core y) \<Longrightarrow> x = y"
proof -
  assume "canon (json_of_review_core x) = canon (json_of_review_core y)"
  from canon_object_same_keys [OF this [unfolded json_of_review_core_def]]
  show "x = y" by (simp add: release_fields review_core.equality)
qed

lemma json_of_metric_core_canon: "canon (json_of_metric_core x) = canon (json_of_metric_core y) \<Longrightarrow> x = y"
proof -
  assume "canon (json_of_metric_core x) = canon (json_of_metric_core y)"
  from canon_object_same_keys [OF this [unfolded json_of_metric_core_def]]
  show "x = y" by (simp add: release_fields metric_core.equality)
qed

section \<open>Sealed contracts\<close>

interpretation candidate_contract: sealed_contract "\<lambda>E r. compute_candidate_digest E (rc_core r)"
  RELEASE_CANDIDATE_DIGEST_DOMAIN "\<lambda>r. json_of_candidate_core (rc_core r)" rc_candidate_digest
  "\<lambda>d r. r\<lparr>rc_candidate_digest := d\<rparr>" rc_core
  by unfold_locales (simp_all add: compute_candidate_digest_def json_of_candidate_core_canon)

interpretation gate_contract: sealed_contract "\<lambda>E r. compute_gate_digest E (gr_core r)"
  GATE_RECEIPT_DIGEST_DOMAIN "\<lambda>r. json_of_gate_core (gr_core r)" gr_receipt_digest
  "\<lambda>d r. r\<lparr>gr_receipt_digest := d\<rparr>" gr_core
  by unfold_locales (simp_all add: compute_gate_digest_def json_of_gate_core_canon)

interpretation review_contract: sealed_contract "\<lambda>E r. compute_review_digest E (wr_core r)"
  INDEPENDENT_REVIEW_RECEIPT_DIGEST_DOMAIN "\<lambda>r. json_of_review_core (wr_core r)" wr_receipt_digest
  "\<lambda>d r. r\<lparr>wr_receipt_digest := d\<rparr>" wr_core
  by unfold_locales (simp_all add: compute_review_digest_def json_of_review_core_canon)

interpretation metric_contract: sealed_contract "\<lambda>E r. compute_metric_digest E (ms_core r)"
  METRIC_SPEC_DIGEST_DOMAIN "\<lambda>r. json_of_metric_core (ms_core r)" ms_metric_spec_digest
  "\<lambda>d r. r\<lparr>ms_metric_spec_digest := d\<rparr>" ms_core
  by unfold_locales (simp_all add: compute_metric_digest_def json_of_metric_core_canon)

section \<open>Convergence\<close>

lemma accepted_candidate:
  "validate_candidate E r = Inr v \<Longrightarrow> compute_candidate_digest E (rc_core r) = rc_candidate_digest r"
  by (simp add: validate_candidate_def Let_def)

lemma accepted_gate:
  assumes "validate_gate E r = Inr v"
  shows "compute_gate_digest E (gr_core r) = gr_receipt_digest r"
    "gk_verdict (gr_core r) = GatePass \<Longrightarrow> gk_exit_code (gr_core r) = Some 0"
    "is_ratified_custody_floor (gk_custody_floor (gr_core r))"
  using assms by (auto simp: validate_gate_def gate_verdict_check_def require_ratified_custody_floor_def Let_def)

definition receipt_gate :: "gate_receipt \<Rightarrow> gate_id" where
  "receipt_gate r = gk_gate_id (gr_core r)"

definition receipt_counts :: "platform \<Rightarrow> string \<Rightarrow> gate_receipt \<Rightarrow> bool" where
  "receipt_counts E candidate r \<longleftrightarrow>
     (\<exists>v. validate_gate E r = Inr v) \<and> gk_candidate_digest (gr_core r) = candidate \<and>
     gk_verdict (gr_core r) = GatePass \<and> gk_exit_code (gr_core r) = Some 0 \<and>
     \<not> has_open_p0_or_p1 (gk_findings (gr_core r))"

lemma receipts_loop_ok:
  "receipts_loop E candidate rs observed = Inr seen \<longleftrightarrow>
     (\<forall>r \<in> set rs. receipt_counts E candidate r) \<and> distinct (map receipt_gate rs) \<and>
     receipt_gate ` set rs \<inter> observed = {} \<and> seen = receipt_gate ` set rs \<union> observed"
  by (induction rs arbitrary: observed)
    (auto simp: receipt_counts_def receipt_gate_def gate_has_open_p0_or_p1_def Let_def dest: accepted_gate)

lemma gates_complete: "set GATE_ID_ALL = UNIV" "distinct GATE_ID_ALL"
proof -
  have "g \<in> set GATE_ID_ALL" for g by (cases g) (simp_all add: GATE_ID_ALL_def)
  then show "set GATE_ID_ALL = UNIV" by blast
qed (simp add: GATE_ID_ALL_def)

lemma all_gates_once:
  "distinct xs \<and> set xs = UNIV \<longleftrightarrow> mset xs = mset GATE_ID_ALL"
  by (metis gates_complete mset_eq_imp_distinct_iff mset_eq_setD set_eq_iff_mset_eq_distinct)

lemma convergence_ok:
  "(\<exists>v. validate_convergence E s = Inr v) \<longleftrightarrow>
     (\<exists>v. validate_candidate E (re_candidate s) = Inr v) \<and>
     (\<exists>v. validate_review_receipt E (re_independent_review s) = Inr v) \<and>
     (let review = wr_core (re_independent_review s); candidate = rc_candidate_digest (re_candidate s) in
      wk_candidate_digest review = candidate \<and> wk_verdict review = GatePass \<and>
      \<not> has_open_p0_or_p1 (wk_findings review) \<and>
      mset (map receipt_gate (re_gate_receipts s)) = mset GATE_ID_ALL \<and>
      (\<forall>r \<in> set (re_gate_receipts s). receipt_counts E candidate r))"
proof -
  have missing: "filter (\<lambda>g. g \<notin> S) GATE_ID_ALL = [] \<longleftrightarrow> S = UNIV" for S
    using gates_complete(1) by (auto simp: filter_empty_conv)
  show ?thesis
    unfolding all_gates_once [symmetric]
    by (auto simp: validate_convergence_def receipts_loop_ok missing review_has_open_p0_or_p1_def Let_def)
qed


text \<open>
  What convergence promises, and a candidate with its eleven receipts and its review that converges.
\<close>

section \<open>Properties\<close>

text \<open>C20: An evidence set converges exactly when its candidate and its review are valid, the review is
  of this candidate, passed and without an open P0 or P1 finding, and the receipts are one for each of
  the eleven gates, each valid, of this candidate, passed with exit code zero and without an open P0 or
  P1 finding.\<close>
theorem convergence_decides:
  "(\<exists>v. validate_convergence E s = Inr v) \<longleftrightarrow>
     (\<exists>v. validate_candidate E (re_candidate s) = Inr v) \<and>
     (\<exists>v. validate_review_receipt E (re_independent_review s) = Inr v) \<and>
     (let review = wr_core (re_independent_review s); candidate = rc_candidate_digest (re_candidate s) in
      wk_candidate_digest review = candidate \<and> wk_verdict review = GatePass \<and>
      \<not> has_open_p0_or_p1 (wk_findings review) \<and>
      mset (map receipt_gate (re_gate_receipts s)) = mset GATE_ID_ALL \<and>
      (\<forall>r \<in> set (re_gate_receipts s). receipt_counts E candidate r))"
  by (rule convergence_ok)

text \<open>Evidence serves one candidate: two sets that converge and share a gate receipt, or share the
  review, are for the same candidate core, or exhibit a hash collision between two cores.\<close>
theorem evidence_serves_one_candidate:
  assumes "serde_writer E"
    and "validate_convergence E s = Inr v" and "validate_convergence E s' = Inr v'"
    and "set (re_gate_receipts s) \<inter> set (re_gate_receipts s') \<noteq> {} \<or>
      re_independent_review s = re_independent_review s'"
  shows "rc_core (re_candidate s) = rc_core (re_candidate s') \<or>
    canonical_collision E RELEASE_CANDIDATE_DIGEST_DOMAIN
      (json_of_candidate_core (rc_core (re_candidate s))) (json_of_candidate_core (rc_core (re_candidate s')))"
proof -
  note s = convergence_ok [of E s, unfolded Let_def] and s' = convergence_ok [of E s', unfolded Let_def]
  have "rc_candidate_digest (re_candidate s) = rc_candidate_digest (re_candidate s')"
    using assms(4)
  proof
    assume "set (re_gate_receipts s) \<inter> set (re_gate_receipts s') \<noteq> {}"
    then obtain r where "r \<in> set (re_gate_receipts s)" "r \<in> set (re_gate_receipts s')" by blast
    with assms(2,3) s s' show ?thesis by (metis receipt_counts_def)
  next
    assume "re_independent_review s = re_independent_review s'"
    with assms(2,3) s s' show ?thesis by metis
  qed
  moreover have "rc_candidate_digest (re_candidate s) = compute_candidate_digest E (rc_core (re_candidate s))"
    "rc_candidate_digest (re_candidate s') = compute_candidate_digest E (rc_core (re_candidate s'))"
    using assms(2,3) s s' accepted_candidate by metis+
  ultimately show ?thesis using candidate_contract.tamper_evident [OF assms(1)] by metis
qed

section \<open>A candidate that converges\<close>

definition sample_hex :: string where
  "sample_hex = replicate 64 CHR ''a''"

definition one_entry :: "string \<Rightarrow> (string, string) fmap" where
  "one_entry v = fmupd ''m1nd'' v fmempty"

definition sample_candidate_core :: candidate_core where
  "sample_candidate_core = \<lparr>rk_repo_commits = one_entry ''c0ffee'', rk_artifact_digests = one_entry sample_hex,
     rk_schema_policy_versions = one_entry ''v1'', rk_tool_catalog_digest = sample_hex,
     rk_safety_kernel_digest = sample_hex, rk_previous_governance_runtime_digest = sample_hex,
     rk_constitution_epoch_digest = sample_hex, rk_autonomy_epoch_grants_digest = sample_hex,
     rk_independence_quorum_policy_digest = sample_hex, rk_intended_active_mode = HumanGated,
     rk_compatibility_manifest_digest = sample_hex, rk_rollback_plan_digest = sample_hex,
     rk_harness_fixture_threat_digests = one_entry sample_hex, rk_build_environment_digest = sample_hex,
     rk_built_at = 7\<rparr>"

definition sample_candidate_digest :: string where
  "sample_candidate_digest = compute_candidate_digest reference_platform sample_candidate_core"

definition sample_candidate :: "string \<Rightarrow> release_candidate" where
  "sample_candidate sg = \<lparr>rc_schema = RELEASE_CANDIDATE_SCHEMA, rc_core = sample_candidate_core,
     rc_candidate_digest = sample_candidate_digest, rc_provenance_signature = sg\<rparr>"

definition sample_finding :: release_finding where
  "sample_finding = \<lparr>rf_finding_id = ''F1'', rf_severity = P2, rf_status = FindingOpen,
     rf_statement = ''slow start'', rf_evidence_digest = sample_hex\<rparr>"

definition sample_gate_core :: "gate_id \<Rightarrow> gate_core" where
  "sample_gate_core g = \<lparr>gk_candidate_digest = sample_candidate_digest, gk_gate_id = g,
     gk_custody_floor = SECURE_ENCLAVE_CUSTODY_FLOOR_V1, gk_spec_version = ''v1'', gk_metric_spec_digest = None,
     gk_harness_fixture_digest = sample_hex, gk_environment_digest = sample_hex, gk_provider_id = ''ci'',
     gk_provider_key_version = ''k1'', gk_input_digests = one_entry sample_hex, gk_command = ''make gate'',
     gk_started_at = 8, gk_ended_at = 9, gk_exit_code = Some 0, gk_verdict = GatePass,
     gk_findings = [sample_finding], gk_artifact_digests = one_entry sample_hex\<rparr>"

definition sample_gate :: "gate_id \<Rightarrow> gate_receipt" where
  "sample_gate g = (let d = compute_gate_digest reference_platform (sample_gate_core g) in
     \<lparr>gr_schema = GATE_RECEIPT_SCHEMA, gr_core = sample_gate_core g, gr_receipt_id = ''gate:'' @ d,
      gr_receipt_digest = d, gr_signature = ''sig''\<rparr>)"

definition sample_review_core :: review_core where
  "sample_review_core = \<lparr>wk_candidate_digest = sample_candidate_digest, wk_threat_matrix_digest = sample_hex,
     wk_provider_id = ''auditor'', wk_provider_model_version = ''m1'', wk_provider_key_version = ''k1'',
     wk_reviewed_inputs_digest = sample_hex, wk_binding_changes = [], wk_started_at = 8, wk_ended_at = 9,
     wk_verdict = GatePass, wk_findings = []\<rparr>"

definition sample_review_receipt :: review_receipt where
  "sample_review_receipt = (let d = compute_review_digest reference_platform sample_review_core in
     \<lparr>wr_schema = INDEPENDENT_REVIEW_RECEIPT_SCHEMA, wr_core = sample_review_core, wr_receipt_id = ''iar:'' @ d,
      wr_receipt_digest = d, wr_signature = ''sig''\<rparr>)"

definition sample_evidence :: "string \<Rightarrow> release_evidence" where
  "sample_evidence sg = \<lparr>re_candidate = sample_candidate sg, re_gate_receipts = map sample_gate GATE_ID_ALL,
     re_independent_review = sample_review_receipt\<rparr>"

lemma hex_require [simp]: "digest_syntax v \<Longrightarrow> release_require_digest f v = Inr ()"
  by (auto simp: release_require_digest_def digest_syntax_def list_all_iff is_lower_hex_def is_ascii_hexdigit_def
      Let_def)

lemma sample_hex_syntax [simp]: "digest_syntax sample_hex"
  by (simp add: digest_syntax_def sample_hex_def is_lower_hex_def Let_def list_all_iff)

lemma sample_digests [simp]:
  "digest_syntax sample_candidate_digest" "digest_syntax (compute_gate_digest reference_platform c)"
  "digest_syntax (compute_review_digest reference_platform w)"
  by (simp_all add: sample_candidate_digest_def compute_candidate_digest_def compute_gate_digest_def
      compute_review_digest_def digest_canonical_syntax [OF sha256_width_reference])

lemma one_entry_list [simp]: "sorted_list_of_fmap (one_entry v) = [(''m1nd'', v)]"
  by (simp add: one_entry_def sorted_list_of_fmap_def sorted_list_of_fset.rep_eq)

lemma one_entry_simps [simp]:
  "require_non_empty_map f (one_entry v) = Inr ()"
  "validate_named_values f (one_entry v) b = named_value_check f b (''m1nd'', v)"
  subgoal by (simp add: require_non_empty_map_def one_entry_def)
  subgoal by (cases "named_value_check f b (''m1nd'', v)") (simp_all add: validate_named_values_def seq_checks_Cons)
  done

lemmas release_checks = release_require_schema_def release_require_non_empty_def release_require_signature_def
  require_ratified_custody_floor_def named_value_check_def validate_findings_def gate_verdict_check_def
  is_ratified_custody_floor_def RATIFIED_CUSTODY_FLOORS_def SECURE_ENCLAVE_CUSTODY_FLOOR_V1_def
  white1_def white2_def white3_def Let_def

lemma sample_candidate_valid: "sg \<noteq> [] \<Longrightarrow> \<exists>v. validate_candidate reference_platform (sample_candidate sg) = Inr v"
  by (simp add: validate_candidate_def sample_candidate_def candidate_digests_def sample_candidate_core_def
      sample_candidate_digest_def [unfolded sample_candidate_core_def, symmetric] release_checks)

lemma sample_gate_counts: "receipt_counts reference_platform sample_candidate_digest (sample_gate g)"
  by (simp add: receipt_counts_def validate_gate_def sample_gate_def sample_gate_core_def sample_finding_def
      has_open_p0_or_p1_def release_checks)

lemma sample_review_valid: "\<exists>v. validate_review_receipt reference_platform sample_review_receipt = Inr v"
  by (simp add: validate_review_receipt_def sample_review_receipt_def sample_review_core_def release_checks)

lemma sample_converges: "sg \<noteq> [] \<Longrightarrow> \<exists>v. validate_convergence reference_platform (sample_evidence sg) = Inr v"
  unfolding convergence_ok Let_def
  using sample_candidate_valid [of sg] sample_review_valid sample_gate_counts
  by (simp add: sample_evidence_def sample_candidate_def sample_review_receipt_def sample_review_core_def
      has_open_p0_or_p1_def receipt_gate_def sample_gate_def sample_gate_core_def o_def Let_def)

lemma evidence_serves_one_candidate_witness:
  "\<exists>v v'. validate_convergence reference_platform (sample_evidence ''first'') = Inr v \<and>
     validate_convergence reference_platform (sample_evidence ''second'') = Inr v' \<and>
     (rc_core (re_candidate (sample_evidence ''first'')) = rc_core (re_candidate (sample_evidence ''second'')) \<or>
      canonical_collision reference_platform RELEASE_CANDIDATE_DIGEST_DOMAIN
        (json_of_candidate_core (rc_core (re_candidate (sample_evidence ''first''))))
        (json_of_candidate_core (rc_core (re_candidate (sample_evidence ''second'')))))"
proof -
  obtain v v' where "validate_convergence reference_platform (sample_evidence ''first'') = Inr v"
    "validate_convergence reference_platform (sample_evidence ''second'') = Inr v'"
    using sample_converges by (metis list.distinct(1))
  moreover have "re_independent_review (sample_evidence ''first'') = re_independent_review (sample_evidence ''second'')"
    by (simp add: sample_evidence_def)
  ultimately show ?thesis
    using evidence_serves_one_candidate [OF serde_writer_reference] by blast
qed

text \<open>The sample evidence converges, and without the receipt of its first gate it does not.\<close>
lemma convergence_decides_witness:
  "(\<exists>v. validate_convergence reference_platform (sample_evidence ''first'') = Inr v) \<and>
   \<not> (\<exists>v. validate_convergence reference_platform
       (sample_evidence ''first'' \<lparr>re_gate_receipts := map sample_gate (tl GATE_ID_ALL)\<rparr>) = Inr v)"
proof
  show "\<exists>v. validate_convergence reference_platform (sample_evidence ''first'') = Inr v"
    unfolding convergence_decides Let_def
    using sample_candidate_valid [of "''first''"] sample_review_valid sample_gate_counts
    by (simp add: sample_evidence_def sample_candidate_def sample_review_receipt_def sample_review_core_def
        has_open_p0_or_p1_def receipt_gate_def sample_gate_def sample_gate_core_def o_def Let_def)
  have "size (mset (map receipt_gate (map sample_gate (tl GATE_ID_ALL)))) \<noteq> size (mset GATE_ID_ALL)"
    by (simp add: GATE_ID_ALL_def)
  then show "\<not> (\<exists>v. validate_convergence reference_platform
       (sample_evidence ''first'' \<lparr>re_gate_receipts := map sample_gate (tl GATE_ID_ALL)\<rparr>) = Inr v)"
    unfolding convergence_decides Let_def by (metis release_evidence.select_convs(2) release_evidence.surjective release_evidence.update_convs(2))
qed

end
