(* ===== verification/Organism_Manifest.thy ===== *)
theory Organism_Manifest
  imports Runtime_Digests
begin

text \<open>
  \<open>m1nd-control/src/manifest.rs\<close>: the manifest of an organism, its self digest, and \<open>verify\<close>, which
  collects every issue and reduces them to one verdict.  The sentence of an issue is the name of its
  branch.
\<close>

section \<open>Data\<close>

definition ORGANISM_MANIFEST_SCHEMA :: string where
  "ORGANISM_MANIFEST_SCHEMA = ''m1nd-organism-manifest-v1''"
definition MANIFEST_DIGEST_DOMAIN :: string where
  "MANIFEST_DIGEST_DOMAIN = ''m1nd-organism-manifest-v1''"
definition SOURCE_AUTHORITY_ID :: string where
  "SOURCE_AUTHORITY_ID = ''source''"
definition RUNTIME_BINARY_AUTHORITY_ID :: string where
  "RUNTIME_BINARY_AUTHORITY_ID = ''runtime_binary''"
definition GRAPH_AUTHORITY_ID :: string where
  "GRAPH_AUTHORITY_ID = ''graph''"
definition ARCHITECTURE_AUTHORITY_ID :: string where
  "ARCHITECTURE_AUTHORITY_ID = ''architecture''"
definition UI_BUNDLE_AUTHORITY_ID :: string where
  "UI_BUNDLE_AUTHORITY_ID = ''ui_bundle''"
definition RELEASE_AUTHORITY_ID :: string where
  "RELEASE_AUTHORITY_ID = ''release_candidate''"

datatype authority_freshness = IsFresh | IsStale | FreshnessUnknown

fun freshness_name :: "authority_freshness \<Rightarrow> string" where
  "freshness_name IsFresh = ''FRESH''" | "freshness_name IsStale = ''STALE''"
| "freshness_name FreshnessUnknown = ''UNKNOWN''"

datatype authority_status =
    IsAvailable | IsDegraded | IsUnavailable | HasDrift | StatusUnknown

fun authority_status_name :: "authority_status \<Rightarrow> string" where
  "authority_status_name IsAvailable = ''AVAILABLE''" | "authority_status_name IsDegraded = ''DEGRADED''"
| "authority_status_name IsUnavailable = ''UNAVAILABLE''" | "authority_status_name HasDrift = ''DRIFT''"
| "authority_status_name StatusUnknown = ''UNKNOWN''"

record source_fact =
  of_commit :: string
  of_dirty :: bool
  of_version :: string

definition json_of_source_fact :: "source_fact \<Rightarrow> json" where
  "json_of_source_fact x = JObject
    [(''commit'', JString (of_commit x)),
     (''dirty'', JBool (of_dirty x)),
     (''version'', JString (of_version x))]"

record runtime_fact =
  om_owner_id :: string
  om_binary_version :: string
  om_binary_sha256 :: string
  om_started_at :: u64

definition json_of_runtime_fact :: "runtime_fact \<Rightarrow> json" where
  "json_of_runtime_fact x = JObject
    [(''owner_id'', JString (om_owner_id x)),
     (''binary_version'', JString (om_binary_version x)),
     (''binary_sha256'', JString (om_binary_sha256 x)),
     (''started_at'', json_u64 (om_started_at x))]"

record graph_fact =
  og_generation :: u64
  og_snapshot_sha256 :: string
  og_node_count :: u64
  og_edge_count :: u64

definition json_of_graph_fact :: "graph_fact \<Rightarrow> json" where
  "json_of_graph_fact x = JObject
    [(''generation'', json_u64 (og_generation x)),
     (''snapshot_sha256'', JString (og_snapshot_sha256 x)),
     (''node_count'', json_u64 (og_node_count x)),
     (''edge_count'', json_u64 (og_edge_count x))]"

record architecture_fact =
  oa_store_version :: u64
  oa_skeleton_digest :: string
  oa_ratification_state :: string

definition json_of_architecture_fact :: "architecture_fact \<Rightarrow> json" where
  "json_of_architecture_fact x = JObject
    [(''store_version'', json_u64 (oa_store_version x)),
     (''skeleton_digest'', JString (oa_skeleton_digest x)),
     (''ratification_state'', JString (oa_ratification_state x))]"

record ui_fact =
  ou_bundle_version :: string
  ou_bundle_sha256 :: string
  ou_mode :: string

definition json_of_ui_fact :: "ui_fact \<Rightarrow> json" where
  "json_of_ui_fact x = JObject
    [(''bundle_version'', JString (ou_bundle_version x)),
     (''bundle_sha256'', JString (ou_bundle_sha256 x)),
     (''mode'', JString (ou_mode x))]"

record capabilities_fact =
  oc_policy_version :: string
  oc_enabled_effects :: "string fset"

definition json_of_capabilities_fact :: "capabilities_fact \<Rightarrow> json" where
  "json_of_capabilities_fact x = JObject
    [(''policy_version'', JString (oc_policy_version x)),
     (''enabled_effects'', json_fset (oc_enabled_effects x))]"

record autonomy_fact =
  oo_supported_modes :: "string fset"
  oo_mechanically_proven_modes :: "string fset"
  oo_active_mode :: string
  oo_activation_receipt_id :: string
  oo_constitution_digest :: string
  oo_constitution_epoch :: u64
  oo_safety_kernel_digest :: string
  oo_autonomy_epoch :: u64
  oo_grants_digest :: string
  oo_quorum_policy_digest :: string
  oo_max_effective_tier_projection :: string
  oo_issuance_frozen :: bool
  oo_sentinel_safety_state :: string

definition json_of_autonomy_fact :: "autonomy_fact \<Rightarrow> json" where
  "json_of_autonomy_fact x = JObject
    [(''supported_modes'', json_fset (oo_supported_modes x)),
     (''mechanically_proven_modes'', json_fset (oo_mechanically_proven_modes x)),
     (''active_mode'', JString (oo_active_mode x)),
     (''activation_receipt_id'', JString (oo_activation_receipt_id x)),
     (''constitution_digest'', JString (oo_constitution_digest x)),
     (''constitution_epoch'', json_u64 (oo_constitution_epoch x)),
     (''safety_kernel_digest'', JString (oo_safety_kernel_digest x)),
     (''autonomy_epoch'', json_u64 (oo_autonomy_epoch x)),
     (''grants_digest'', JString (oo_grants_digest x)),
     (''quorum_policy_digest'', JString (oo_quorum_policy_digest x)),
     (''max_effective_tier_projection'', JString (oo_max_effective_tier_projection x)),
     (''issuance_frozen'', JBool (oo_issuance_frozen x)),
     (''sentinel_safety_state'', JString (oo_sentinel_safety_state x))]"

record schemas_fact =
  oh_mission :: string
  oh_receipt :: string
  oh_checkpoint :: string
  oh_light :: string
  oh_system_blocks :: string

definition json_of_schemas_fact :: "schemas_fact \<Rightarrow> json" where
  "json_of_schemas_fact x = JObject
    [(''mission'', JString (oh_mission x)),
     (''receipt'', JString (oh_receipt x)),
     (''checkpoint'', JString (oh_checkpoint x)),
     (''light'', JString (oh_light x)),
     (''system_blocks'', JString (oh_system_blocks x))]"

record authority_fact =
  oy_revision :: string
  oy_digest :: string
  oy_observed_at :: u64
  oy_freshness :: authority_freshness
  oy_status :: authority_status

definition json_of_authority_fact :: "authority_fact \<Rightarrow> json" where
  "json_of_authority_fact x = JObject
    [(''revision'', JString (oy_revision x)),
     (''digest'', JString (oy_digest x)),
     (''observed_at'', json_u64 (oy_observed_at x)),
     (''freshness'', JString (freshness_name (oy_freshness x))),
     (''status'', JString (authority_status_name (oy_status x)))]"

record release_provenance =
  ov_release_candidate_digest :: string
  ov_signature :: string

definition json_of_release_provenance :: "release_provenance \<Rightarrow> json" where
  "json_of_release_provenance x = JObject
    [(''release_candidate_digest'', JString (ov_release_candidate_digest x)),
     (''signature'', JString (ov_signature x))]"

record organism_manifest =
  ob_schema :: string
  ob_organism_id :: string
  ob_repo_id :: string
  ob_brain_id :: string
  ob_project_root_fingerprint :: string
  ob_source :: source_fact
  ob_runtime :: runtime_fact
  ob_graph :: graph_fact
  ob_architecture :: architecture_fact
  ob_ui :: ui_fact
  ob_capabilities :: capabilities_fact
  ob_autonomy :: autonomy_fact
  ob_schemas :: schemas_fact
  ob_authorities :: "(string, authority_fact) fmap"
  ob_release_provenance :: release_provenance
  ob_generated_at :: u64
  ob_manifest_sha256 :: string

definition json_of_organism_manifest :: "organism_manifest \<Rightarrow> json" where
  "json_of_organism_manifest x = JObject
    [(''schema'', JString (ob_schema x)),
     (''organism_id'', JString (ob_organism_id x)),
     (''repo_id'', JString (ob_repo_id x)),
     (''brain_id'', JString (ob_brain_id x)),
     (''project_root_fingerprint'', JString (ob_project_root_fingerprint x)),
     (''source'', json_of_source_fact (ob_source x)),
     (''runtime'', json_of_runtime_fact (ob_runtime x)),
     (''graph'', json_of_graph_fact (ob_graph x)),
     (''architecture'', json_of_architecture_fact (ob_architecture x)),
     (''ui'', json_of_ui_fact (ob_ui x)),
     (''capabilities'', json_of_capabilities_fact (ob_capabilities x)),
     (''autonomy'', json_of_autonomy_fact (ob_autonomy x)),
     (''schemas'', json_of_schemas_fact (ob_schemas x)),
     (''authorities'', json_fmap json_of_authority_fact (ob_authorities x)),
     (''release_provenance'', json_of_release_provenance (ob_release_provenance x)),
     (''generated_at'', json_u64 (ob_generated_at x)),
     (''manifest_sha256'', JString (ob_manifest_sha256 x))]"

definition available_authority :: "string \<Rightarrow> string \<Rightarrow> u64 \<Rightarrow> authority_fact" where
  "available_authority revision digest observed_at =
     \<lparr>oy_revision = revision, oy_digest = digest, oy_observed_at = observed_at,
      oy_freshness = IsFresh, oy_status = IsAvailable\<rparr>"

definition unavailable_authority :: "u64 \<Rightarrow> authority_fact" where
  "unavailable_authority observed_at =
     \<lparr>oy_revision = [], oy_digest = [], oy_observed_at = observed_at,
      oy_freshness = FreshnessUnknown, oy_status = IsUnavailable\<rparr>"

datatype manifest_coherence = Coherent | Drifted | Degraded | CoherenceUnknown

datatype issue_kind = DriftIssue | DegradedIssue | UnknownIssue

datatype issue_detail =
    SchemaDiffers | DigestDiffers | SourceDirty | DigestAbsent string | VersionsDiverge
  | ActiveModeUnsupported | ProvenModesUnsupported | AuthorityDegraded | AuthorityUnavailable
  | AuthorityDrift | ObservationStale | FreshnessNotKnown | UntrustedPriorValue | ObservationIncomplete
  | ObservationMissing | RevisionDiffers | AuthorityDigestDiffers | ProvenanceUnsigned | IdentityAbsent string

record manifest_issue =
  iu_kind :: issue_kind
  iu_authority_id :: "string option"
  iu_detail :: issue_detail

record manifest_verification =
  mv_coherence :: manifest_coherence
  mv_computed_manifest_sha256 :: string
  mv_issues :: "manifest_issue list"

definition is_coherent :: "manifest_verification \<Rightarrow> bool" where
  "is_coherent v \<longleftrightarrow> mv_coherence v = Coherent"

section \<open>The self digest\<close>

definition compute_manifest_sha256 :: "platform \<Rightarrow> organism_manifest \<Rightarrow> string" where
  "compute_manifest_sha256 E m =
     digest_canonical E MANIFEST_DIGEST_DOMAIN (obj_remove ''manifest_sha256'' (json_of_organism_manifest m))"

definition seal_manifest :: "platform \<Rightarrow> organism_manifest \<Rightarrow> organism_manifest" where
  "seal_manifest E m = m\<lparr>ob_manifest_sha256 := compute_manifest_sha256 E m\<rparr>"

section \<open>Verification\<close>

text \<open>\<open>if condition { push_issue(...) }\<close>; the issues are the concatenation of such statements.\<close>

definition issue_if :: "bool \<Rightarrow> issue_kind \<Rightarrow> string option \<Rightarrow> issue_detail \<Rightarrow> manifest_issue list" where
  "issue_if c k a d = (if c then [\<lparr>iu_kind = k, iu_authority_id = a, iu_detail = d\<rparr>] else [])"

definition is_absent_status :: "authority_status \<Rightarrow> bool" where
  "is_absent_status s \<longleftrightarrow> s \<in> {IsUnavailable, StatusUnknown}"

fun status_issues :: "string \<Rightarrow> authority_status \<Rightarrow> manifest_issue list" where
  "status_issues a IsAvailable = []"
| "status_issues a IsDegraded = issue_if True DegradedIssue (Some a) AuthorityDegraded"
| "status_issues a IsUnavailable = issue_if True UnknownIssue (Some a) AuthorityUnavailable"
| "status_issues a StatusUnknown = issue_if True UnknownIssue (Some a) AuthorityUnavailable"
| "status_issues a HasDrift = issue_if True DriftIssue (Some a) AuthorityDrift"

fun freshness_issues :: "string \<Rightarrow> authority_freshness \<Rightarrow> manifest_issue list" where
  "freshness_issues a IsFresh = []"
| "freshness_issues a IsStale = issue_if True DegradedIssue (Some a) ObservationStale"
| "freshness_issues a FreshnessUnknown = issue_if True UnknownIssue (Some a) FreshnessNotKnown"

definition assess_authority_fact :: "string \<times> authority_fact \<Rightarrow> manifest_issue list" where
  "assess_authority_fact entry = (case entry of (a, f) \<Rightarrow>
     status_issues a (oy_status f) @ freshness_issues a (oy_freshness f) @
     (if is_absent_status (oy_status f)
      then issue_if (oy_revision f \<noteq> [] \<or> oy_digest f \<noteq> []) UnknownIssue (Some a) UntrustedPriorValue
      else issue_if (oy_revision f = [] \<or> oy_digest f = [] \<or> oy_observed_at f = 0) DriftIssue (Some a)
             ObservationIncomplete))"

definition required_digests :: "organism_manifest \<Rightarrow> (string \<times> string) list" where
  "required_digests m =
    [(''source.commit'', of_commit (ob_source m)), (''runtime.binary_sha256'', om_binary_sha256 (ob_runtime m)),
     (''graph.snapshot_sha256'', og_snapshot_sha256 (ob_graph m)),
     (''architecture.skeleton_digest'', oa_skeleton_digest (ob_architecture m)),
     (''ui.bundle_sha256'', ou_bundle_sha256 (ob_ui m)),
     (''release_provenance.release_candidate_digest'', ov_release_candidate_digest (ob_release_provenance m))]"

definition projections :: "organism_manifest \<Rightarrow> (string \<times> string \<times> string) list" where
  "projections m =
    [(SOURCE_AUTHORITY_ID, of_version (ob_source m), of_commit (ob_source m)),
     (RUNTIME_BINARY_AUTHORITY_ID, of_commit (ob_source m), om_binary_sha256 (ob_runtime m)),
     (GRAPH_AUTHORITY_ID, u64_to_string (og_generation (ob_graph m)), og_snapshot_sha256 (ob_graph m)),
     (ARCHITECTURE_AUTHORITY_ID, u64_to_string (oa_store_version (ob_architecture m)),
        oa_skeleton_digest (ob_architecture m)),
     (UI_BUNDLE_AUTHORITY_ID, ou_bundle_version (ob_ui m), ou_bundle_sha256 (ob_ui m)),
     (RELEASE_AUTHORITY_ID, of_version (ob_source m), ov_release_candidate_digest (ob_release_provenance m))]"

definition projection_issues ::
  "(string, authority_fact) fmap \<Rightarrow> string \<times> string \<times> string \<Rightarrow> manifest_issue list" where
  "projection_issues authorities p = (case p of (a, expected_revision, expected_digest) \<Rightarrow>
     (case fmlookup authorities a of
        None \<Rightarrow> issue_if True UnknownIssue (Some a) ObservationMissing
      | Some f \<Rightarrow>
          if is_absent_status (oy_status f) then []
          else issue_if (oy_revision f \<noteq> expected_revision) DriftIssue (Some a) RevisionDiffers @
               issue_if (oy_digest f \<noteq> expected_digest) DriftIssue (Some a) AuthorityDigestDiffers))"

definition identity_fields :: "organism_manifest \<Rightarrow> (string \<times> string) list" where
  "identity_fields m =
    [(''organism_id'', ob_organism_id m), (''repo_id'', ob_repo_id m), (''brain_id'', ob_brain_id m),
     (''project_root_fingerprint'', ob_project_root_fingerprint m),
     (''runtime.owner_id'', om_owner_id (ob_runtime m))]"

definition manifest_issues :: "platform \<Rightarrow> organism_manifest \<Rightarrow> manifest_issue list" where
  "manifest_issues E m =
     (let autonomy = ob_autonomy m in
      issue_if (ob_schema m \<noteq> ORGANISM_MANIFEST_SCHEMA) DriftIssue None SchemaDiffers
      @ issue_if (ob_manifest_sha256 m \<noteq> compute_manifest_sha256 E m) DriftIssue None DigestDiffers
      @ issue_if (of_dirty (ob_source m)) DriftIssue (Some SOURCE_AUTHORITY_ID) SourceDirty
      @ concat (map (\<lambda>(field, v). issue_if (v = []) DriftIssue None (DigestAbsent field)) (required_digests m))
      @ issue_if (of_version (ob_source m) \<noteq> om_binary_version (ob_runtime m) \<or>
          of_version (ob_source m) \<noteq> ou_bundle_version (ob_ui m)) DriftIssue None VersionsDiverge
      @ issue_if (oo_active_mode autonomy |\<notin>| oo_supported_modes autonomy) DriftIssue (Some ''autonomy'')
          ActiveModeUnsupported
      @ issue_if (\<not> oo_mechanically_proven_modes autonomy |\<subseteq>| oo_supported_modes autonomy) DriftIssue
          (Some ''autonomy'') ProvenModesUnsupported
      @ concat (map assess_authority_fact (sorted_list_of_fmap (ob_authorities m)))
      @ concat (map (projection_issues (ob_authorities m)) (projections m))
      @ issue_if (ov_signature (ob_release_provenance m) = []) UnknownIssue (Some RELEASE_AUTHORITY_ID)
          ProvenanceUnsigned
      @ concat (map (\<lambda>(field, v). issue_if (v = []) UnknownIssue None (IdentityAbsent field)) (identity_fields m)))"

definition has_issue :: "issue_kind \<Rightarrow> manifest_issue list \<Rightarrow> bool" where
  "has_issue k issues \<longleftrightarrow> (\<exists>i \<in> set issues. iu_kind i = k)"

definition coherence_of :: "manifest_issue list \<Rightarrow> manifest_coherence" where
  "coherence_of issues =
     (if has_issue DriftIssue issues then Drifted
      else if has_issue UnknownIssue issues then CoherenceUnknown
      else if has_issue DegradedIssue issues then Degraded
      else Coherent)"

definition verify_manifest :: "platform \<Rightarrow> organism_manifest \<Rightarrow> manifest_verification" where
  "verify_manifest E m =
     \<lparr>mv_coherence = coherence_of (manifest_issues E m),
      mv_computed_manifest_sha256 = compute_manifest_sha256 E m, mv_issues = manifest_issues E m\<rparr>"

section \<open>The verdict\<close>

text \<open>A fact that is observed, and one that is observed now and whole.\<close>

definition observed_whole :: "authority_fact \<Rightarrow> bool" where
  "observed_whole f \<longleftrightarrow> oy_revision f \<noteq> [] \<and> oy_digest f \<noteq> [] \<and> oy_observed_at f \<noteq> 0"

definition projected :: "string \<times> string \<times> string \<Rightarrow> authority_fact \<Rightarrow> bool" where
  "projected p f \<longleftrightarrow> oy_revision f = fst (snd p) \<and> oy_digest f = snd (snd p)"

text \<open>What agrees in the manifest itself.\<close>

definition self_consistent :: "platform \<Rightarrow> organism_manifest \<Rightarrow> bool" where
  "self_consistent E m \<longleftrightarrow>
     ob_schema m = ORGANISM_MANIFEST_SCHEMA \<and> ob_manifest_sha256 m = compute_manifest_sha256 E m \<and>
     \<not> of_dirty (ob_source m) \<and> (\<forall>p \<in> set (required_digests m). snd p \<noteq> []) \<and>
     of_version (ob_source m) = om_binary_version (ob_runtime m) \<and>
     of_version (ob_source m) = ou_bundle_version (ob_ui m) \<and>
     oo_active_mode (ob_autonomy m) |\<in>| oo_supported_modes (ob_autonomy m) \<and>
     oo_mechanically_proven_modes (ob_autonomy m) |\<subseteq>| oo_supported_modes (ob_autonomy m)"

text \<open>What every observed authority agrees with.\<close>

definition observations_agree :: "organism_manifest \<Rightarrow> bool" where
  "observations_agree m \<longleftrightarrow>
     (\<forall>a f. fmlookup (ob_authorities m) a = Some f \<and> \<not> is_absent_status (oy_status f) \<longrightarrow>
        oy_status f \<noteq> HasDrift \<and> observed_whole f) \<and>
     (\<forall>p \<in> set (projections m). \<forall>f. fmlookup (ob_authorities m) (fst p) = Some f \<and>
        \<not> is_absent_status (oy_status f) \<longrightarrow> projected p f)"

definition fully_observed :: "organism_manifest \<Rightarrow> bool" where
  "fully_observed m \<longleftrightarrow>
     (\<forall>a f. fmlookup (ob_authorities m) a = Some f \<longrightarrow> oy_status f = IsAvailable \<and> oy_freshness f = IsFresh) \<and>
     (\<forall>p \<in> set (projections m). fst p |\<in>| fmdom (ob_authorities m)) \<and>
     ov_signature (ob_release_provenance m) \<noteq> [] \<and> (\<forall>p \<in> set (identity_fields m). snd p \<noteq> [])"

lemma has_issue_simps [simp]:
  "has_issue k (issue_if c k' a d) \<longleftrightarrow> c \<and> k' = k"
  "has_issue k [] \<longleftrightarrow> False"
  "has_issue k (xs @ ys) \<longleftrightarrow> has_issue k xs \<or> has_issue k ys"
  "has_issue k (concat (map g zs)) \<longleftrightarrow> (\<exists>z \<in> set zs. has_issue k (g z))"
  by (auto simp: has_issue_def issue_if_def)

lemma fmap_entries: "set (sorted_list_of_fmap m) = {(a, f). fmlookup m a = Some f}"
  by (force simp: sorted_list_of_fmap_def fmlookup_dom_iff intro: fmdomI)

lemma authority_issues:
  "has_issue DriftIssue (assess_authority_fact (a, f)) \<longleftrightarrow>
     \<not> is_absent_status (oy_status f) \<and> (oy_status f = HasDrift \<or> \<not> observed_whole f)"
  "(\<forall>k. \<not> has_issue k (assess_authority_fact (a, f))) \<longleftrightarrow>
     oy_status f = IsAvailable \<and> oy_freshness f = IsFresh \<and> observed_whole f"
  by (cases "oy_status f"; cases "oy_freshness f";
      auto simp: assess_authority_fact_def observed_whole_def is_absent_status_def)+

lemma projection_issues_kinds:
  "has_issue DriftIssue (projection_issues m p) \<longleftrightarrow>
     (\<exists>f. fmlookup m (fst p) = Some f \<and> \<not> is_absent_status (oy_status f) \<and> \<not> projected p f)"
  "(\<forall>k. \<not> has_issue k (projection_issues m p)) \<longleftrightarrow>
     (\<exists>f. fmlookup m (fst p) = Some f \<and> (is_absent_status (oy_status f) \<or> projected p f))"
  by (cases p; auto simp: projection_issues_def projected_def split: option.splits)+

lemma drift_issues:
  "has_issue DriftIssue (manifest_issues E m) \<longleftrightarrow> \<not> self_consistent E m \<or> \<not> observations_agree m"
proof -
  have "has_issue DriftIssue (concat (map assess_authority_fact (sorted_list_of_fmap (ob_authorities m)))) \<longleftrightarrow>
      (\<exists>a f. fmlookup (ob_authorities m) a = Some f \<and> \<not> is_absent_status (oy_status f) \<and>
        (oy_status f = HasDrift \<or> \<not> observed_whole f))"
    by (auto simp: fmap_entries authority_issues(1))
  moreover have "has_issue DriftIssue (concat (map (projection_issues (ob_authorities m)) (projections m))) \<longleftrightarrow>
      (\<exists>p \<in> set (projections m). \<exists>f. fmlookup (ob_authorities m) (fst p) = Some f \<and>
        \<not> is_absent_status (oy_status f) \<and> \<not> projected p f)"
    by (simp add: projection_issues_kinds(1))
  ultimately show ?thesis
    unfolding manifest_issues_def self_consistent_def observations_agree_def Let_def has_issue_simps(3)
    by (auto simp: split_beta)
qed

definition silent :: "manifest_issue list \<Rightarrow> bool" where
  "silent issues \<longleftrightarrow> (\<forall>k. \<not> has_issue k issues)"

lemma silent_simps:
  "silent (issue_if c k a d) \<longleftrightarrow> \<not> c"
  "silent (xs @ ys) \<longleftrightarrow> silent xs \<and> silent ys"
  "silent (concat (map g zs)) \<longleftrightarrow> (\<forall>z \<in> set zs. silent (g z))"
  by (auto simp: silent_def)

definition each_available :: "organism_manifest \<Rightarrow> bool" where
  "each_available m \<longleftrightarrow> (\<forall>a f. fmlookup (ob_authorities m) a = Some f \<longrightarrow>
     oy_status f = IsAvailable \<and> oy_freshness f = IsFresh \<and> observed_whole f)"

definition each_projected :: "organism_manifest \<Rightarrow> bool" where
  "each_projected m \<longleftrightarrow> (\<forall>p \<in> set (projections m). \<exists>f. fmlookup (ob_authorities m) (fst p) = Some f \<and>
     (is_absent_status (oy_status f) \<or> projected p f))"

lemma silent_parts:
  "silent (concat (map assess_authority_fact (sorted_list_of_fmap (ob_authorities m)))) \<longleftrightarrow> each_available m"
  "silent (concat (map (projection_issues (ob_authorities m)) (projections m))) \<longleftrightarrow> each_projected m"
  unfolding silent_simps(3) fmap_entries each_available_def each_projected_def
  unfolding silent_def projection_issues_kinds(2) by (auto simp: authority_issues(2))

lemma silent_manifest:
  "silent (manifest_issues E m) \<longleftrightarrow> self_consistent E m \<and> each_available m \<and> each_projected m \<and>
     ov_signature (ob_release_provenance m) \<noteq> [] \<and> (\<forall>p \<in> set (identity_fields m). snd p \<noteq> [])"
proof -
  have named: "silent (concat (map (\<lambda>(field, v). issue_if (v = []) k None (d field)) ps)) \<longleftrightarrow> (\<forall>p \<in> set ps. snd p \<noteq> [])"
    for k d and ps :: "(string \<times> string) list"
    by (auto simp: silent_simps)
  show ?thesis
    unfolding manifest_issues_def self_consistent_def Let_def silent_simps(2) silent_simps(1) silent_parts named
    by blast
qed

lemma observed_parts:
  "each_available m \<and> each_projected m \<longleftrightarrow>
     observations_agree m \<and>
     (\<forall>a f. fmlookup (ob_authorities m) a = Some f \<longrightarrow> oy_status f = IsAvailable \<and> oy_freshness f = IsFresh) \<and>
     (\<forall>p \<in> set (projections m). fst p |\<in>| fmdom (ob_authorities m))"
  (is "?L \<longleftrightarrow> ?R")
proof -
  have available: "\<not> is_absent_status IsAvailable" "IsAvailable \<noteq> HasDrift" by (simp_all add: is_absent_status_def)
  show ?thesis
  proof
    assume l: ?L
    have fact: "oy_status f = IsAvailable \<and> oy_freshness f = IsFresh \<and> observed_whole f"
      if "fmlookup (ob_authorities m) a = Some f" for a f
      using l that unfolding each_available_def by blast
    have lookup: "\<exists>f. fmlookup (ob_authorities m) (fst p) = Some f \<and> projected p f" if "p \<in> set (projections m)" for p
      using l that fact available(1) unfolding each_projected_def by metis
    then have "projected p f" if "p \<in> set (projections m)" "fmlookup (ob_authorities m) (fst p) = Some f" for p f
      using that by fastforce
    with fact lookup available show ?R unfolding observations_agree_def fmlookup_dom_iff by (metis (no_types))
  next
    assume r: ?R
    then have "each_available m" unfolding each_available_def observations_agree_def using available by metis
    moreover have "each_projected m"
      using r unfolding each_projected_def observations_agree_def fmlookup_dom_iff by metis
    ultimately show ?L by blast
  qed
qed

lemma no_issue:
  "(\<forall>k. \<not> has_issue k (manifest_issues E m)) \<longleftrightarrow>
     self_consistent E m \<and> observations_agree m \<and> fully_observed m"
  unfolding silent_def [symmetric] silent_manifest fully_observed_def using observed_parts [of m] by blast

lemma coherence_cases:
  "coherence_of is = Coherent \<longleftrightarrow> (\<forall>k. \<not> has_issue k is)"
  "coherence_of is = Drifted \<longleftrightarrow> has_issue DriftIssue is"
  by (auto simp: coherence_of_def) (metis issue_kind.exhaust)

text \<open>C21: The verdict on a manifest is \<open>DRIFT\<close> exactly when the manifest disagrees with itself or with an
  authority that was observed, whatever else is missing or stale, and \<open>COHERENT\<close> exactly when it agrees
  with itself and every authority is available, fresh, whole and projected as observed.\<close>
theorem manifest_verdict_decides:
  "(mv_coherence (verify_manifest E m) = Drifted \<longleftrightarrow> \<not> (self_consistent E m \<and> observations_agree m)) \<and>
   (mv_coherence (verify_manifest E m) = Coherent \<longleftrightarrow>
      self_consistent E m \<and> observations_agree m \<and> fully_observed m)"
  by (simp add: verify_manifest_def coherence_cases drift_issues no_issue)

end
