(* ===== verification/Graph_Types.thy ===== *)
theory Graph_Types
  imports Control_Prelude
begin

text \<open>
  \<open>m1nd-core/src/types.rs\<close> and the interner of \<open>m1nd-core/src/graph.rs\<close>.  A float is its bit
  pattern, so that \<open>to_bits\<close> and \<open>from_bits\<close> are the identity; classification and comparison of
  \<open>f32\<close> are written out on the bits, and the rounded operations are the record \<open>f32_arith\<close>.
\<close>

unbundle bit_operations_syntax

type_synonym u32 = "32 word"
type_synonym f32 = "32 word"
type_synonym f64 = "64 word"
type_synonym node_id = "32 word"
type_synonym edge_idx = "32 word"
type_synonym interned = "32 word"

section \<open>Floats\<close>

definition f32_is_finite :: "f32 \<Rightarrow> bool" where
  "f32_is_finite v \<longleftrightarrow> v AND 0x7F800000 \<noteq> 0x7F800000"

definition f32_is_nan :: "f32 \<Rightarrow> bool" where
  "f32_is_nan v \<longleftrightarrow> \<not> f32_is_finite v \<and> v AND 0x007FFFFF \<noteq> 0"

definition f32_abs :: "f32 \<Rightarrow> f32" where
  "f32_abs v = v AND 0x7FFFFFFF"

text \<open>The value of a pattern up to a monotone map: its magnitude with its sign; both zeros are \<open>0\<close>.\<close>

definition f32_rank :: "f32 \<Rightarrow> int" where
  "f32_rank v = (if bit v 31 then - int (unat (f32_abs v)) else int (unat v))"

definition f32_lt :: "f32 \<Rightarrow> f32 \<Rightarrow> bool" where
  "f32_lt a b \<longleftrightarrow> \<not> f32_is_nan a \<and> \<not> f32_is_nan b \<and> f32_rank a < f32_rank b"

definition f32_ge :: "f32 \<Rightarrow> f32 \<Rightarrow> bool" where
  "f32_ge a b \<longleftrightarrow> \<not> f32_is_nan a \<and> \<not> f32_is_nan b \<and> f32_rank b \<le> f32_rank a"

text \<open>\<open>f32::max\<close> returns the argument that is a number.\<close>

definition f32_max :: "f32 \<Rightarrow> f32 \<Rightarrow> f32" where
  "f32_max a b = (if f32_is_nan a then b else if f32_lt a b then b else a)"

record f32_arith =
  fa_add :: "f32 \<Rightarrow> f32 \<Rightarrow> f32"
  fa_sub :: "f32 \<Rightarrow> f32 \<Rightarrow> f32"
  fa_mul :: "f32 \<Rightarrow> f32 \<Rightarrow> f32"
  fa_div :: "f32 \<Rightarrow> f32 \<Rightarrow> f32"
  fa_of_nat :: "nat \<Rightarrow> f32"

text \<open>
  \<open>FiniteF32::new\<close> of a release build, which replaces what is not finite by \<open>0.0\<close>; a debug build
  panics there.
\<close>

definition finite_f32 :: "f32 \<Rightarrow> f32" where
  "finite_f32 v = (if f32_is_finite v then v else 0)"

definition F32_ZERO :: f32 where "F32_ZERO = 0"

definition F32_ONE :: f32 where "F32_ONE = 0x3F800000"

lemma finite_f32_finite [simp]: "f32_is_finite (finite_f32 v)"
  by (simp add: finite_f32_def f32_is_finite_def)

lemma finite_f32_id [simp]: "f32_is_finite v \<Longrightarrow> finite_f32 v = v"
  by (simp add: finite_f32_def)

section \<open>Enums\<close>

datatype edge_direction = EdgeForward | EdgeBidirectional

datatype node_type =
    NtFile | NtDirectory | NtFunction | NtClass | NtStruct | NtEnum | NtType | NtModule | NtReference
  | NtConcept | NtMaterial | NtProcess | NtProduct | NtSupplier | NtRegulatory | NtSystem | NtCost
  | NtCustom "8 word"

lemma unat_of_nat_u32 [simp]: "k < 2 ^ 32 \<Longrightarrow> unat (of_nat k :: u32) = k"
  by (simp add: unsigned_of_nat take_bit_nat_eq_self)

section \<open>The string interner\<close>

record string_interner =
  in_strings :: "string list"
  in_index :: "string \<Rightarrow> interned option"

definition interner_new :: string_interner where
  "interner_new = \<lparr>in_strings = [], in_index = Map.empty\<rparr>"

definition get_or_intern :: "string_interner \<Rightarrow> string \<Rightarrow> string_interner \<times> interned" where
  "get_or_intern t s =
     (case in_index t s of
        Some idx \<Rightarrow> (t, idx)
      | None \<Rightarrow>
          let idx = of_nat (length (in_strings t)) in
          (\<lparr>in_strings = in_strings t @ [s], in_index = (in_index t)(s \<mapsto> idx)\<rparr>, idx))"

text \<open>\<open>resolve\<close> panics where \<open>try_resolve\<close> is \<open>None\<close>.\<close>

definition try_resolve :: "string_interner \<Rightarrow> interned \<Rightarrow> string option" where
  "try_resolve t idx = (if unat idx < length (in_strings t) then Some (in_strings t ! unat idx) else None)"

definition interner_lookup :: "string_interner \<Rightarrow> string \<Rightarrow> interned option" where
  "interner_lookup t s = in_index t s"

text \<open>\<open>iter().map(get_or_intern)\<close>: the interner is threaded from left to right.\<close>

fun intern_all :: "string_interner \<Rightarrow> string list \<Rightarrow> string_interner \<times> interned list" where
  "intern_all t [] = (t, [])"
| "intern_all t (s # ss) =
     (let (t1, idx) = get_or_intern t s; (t2, idxs) = intern_all t1 ss in (t2, idx # idxs))"

section \<open>What an interner promises\<close>

text \<open>A handle is the position of its string, and strings are not repeated.\<close>

definition interner_ok :: "string_interner \<Rightarrow> bool" where
  "interner_ok t \<longleftrightarrow> length (in_strings t) < 2 ^ 32 \<and> distinct (in_strings t) \<and>
     (\<forall>s idx. in_index t s = Some idx \<longleftrightarrow> try_resolve t idx = Some s)"

text \<open>\<open>t'\<close> has every string of \<open>t\<close> at its place.\<close>

definition interner_extends :: "string_interner \<Rightarrow> string_interner \<Rightarrow> bool" where
  "interner_extends t t' \<longleftrightarrow> (\<exists>more. in_strings t' = in_strings t @ more)"

lemma interner_new_ok [simp]: "interner_ok interner_new"
  by (simp add: interner_ok_def interner_new_def try_resolve_def)

lemma interner_extends_refl [simp]: "interner_extends t t"
  by (simp add: interner_extends_def)

lemma interner_extends_trans:
  "interner_extends t u \<Longrightarrow> interner_extends u v \<Longrightarrow> interner_extends t v"
  by (auto simp: interner_extends_def)

lemma try_resolve_extends:
  "interner_extends t t' \<Longrightarrow> try_resolve t idx = Some s \<Longrightarrow> try_resolve t' idx = Some s"
  by (auto simp: interner_extends_def try_resolve_def nth_append split: if_splits)

lemma resolves_length: "try_resolve t idx \<noteq> None \<longleftrightarrow> unat idx < length (in_strings t)"
  by (simp add: try_resolve_def)

lemma resolve_interned: "interner_ok t \<Longrightarrow> in_index t s = Some idx \<Longrightarrow> try_resolve t idx = Some s"
  by (auto simp: interner_ok_def)

lemma resolve_inj:
  assumes "interner_ok t" "try_resolve t a = Some s" "try_resolve t b = Some s"
  shows "a = b"
  using assms by (metis interner_ok_def option.inject)

text \<open>Interning keeps the promise as long as there are handles left.\<close>

lemma get_or_intern_ok:
  assumes ok: "interner_ok t" and room: "length (in_strings t) < 2 ^ 32 - 1"
    and step: "get_or_intern t s = (t', idx)"
  shows "interner_ok t' \<and> interner_extends t t' \<and> try_resolve t' idx = Some s \<and>
    length (in_strings t') \<le> Suc (length (in_strings t))"
proof (cases "in_index t s")
  case (Some i)
  with step have "t' = t" "idx = i" by (auto simp: get_or_intern_def)
  with Some ok show ?thesis by (auto simp: resolve_interned)
next
  case None
  let ?n = "length (in_strings t)"
  from None step have t': "t' = \<lparr>in_strings = in_strings t @ [s], in_index = (in_index t)(s \<mapsto> idx)\<rparr>"
    and idx: "idx = of_nat ?n" by (auto simp: get_or_intern_def Let_def)
  have n: "unat idx = ?n" using room by (simp add: idx)
  have fresh: "s \<notin> set (in_strings t)"
  proof
    assume "s \<in> set (in_strings t)"
    then obtain k where k: "k < ?n" "in_strings t ! k = s" by (auto simp: in_set_conv_nth)
    then have "unat (of_nat k :: interned) = k" using room by simp
    with k have "try_resolve t (of_nat k) = Some s" by (simp add: try_resolve_def)
    with ok None show False by (metis interner_ok_def option.distinct(1))
  qed
  have at: "try_resolve t' i = (if i = idx then Some s else try_resolve t i)" for i
    using n by (auto simp: try_resolve_def t' nth_append less_Suc_eq word_unat_eq_iff)
  have "try_resolve t i \<noteq> Some s" for i using fresh by (auto simp: try_resolve_def split: if_splits)
  moreover have "try_resolve t idx = None" using n by (simp add: try_resolve_def)
  ultimately have "in_index t' s' = Some i \<longleftrightarrow> try_resolve t' i = Some s'" for s' i
    using ok unfolding at interner_ok_def by (auto simp: t')
  then have "interner_ok t'" using ok fresh room unfolding interner_ok_def by (simp add: t')
  moreover have "interner_extends t t'" by (simp add: t' interner_extends_def)
  moreover have "try_resolve t' idx = Some s" by (simp add: at)
  ultimately show ?thesis by (simp add: t')
qed

lemma intern_all_ok:
  "interner_ok t \<Longrightarrow> length (in_strings t) + length ss < 2 ^ 32 \<Longrightarrow> intern_all t ss = (t', idxs) \<Longrightarrow>
   interner_ok t' \<and> interner_extends t t' \<and> map (try_resolve t') idxs = map Some ss \<and>
   length (in_strings t') \<le> length (in_strings t) + length ss"
proof (induction ss arbitrary: t idxs)
  case Nil
  then show ?case by simp
next
  case (Cons s ss)
  obtain t1 idx where s: "get_or_intern t s = (t1, idx)" by force
  obtain idxs1 where ss: "intern_all t1 ss = (t', idxs1)" "idxs = idx # idxs1"
    using Cons.prems(3) s by (auto split: prod.splits)
  have t1: "interner_ok t1" "interner_extends t t1" "try_resolve t1 idx = Some s"
    "length (in_strings t1) \<le> Suc (length (in_strings t))"
    using get_or_intern_ok [OF Cons.prems(1) _ s] Cons.prems(2) by auto
  moreover have t': "interner_ok t'" "interner_extends t1 t'" "map (try_resolve t') idxs1 = map Some ss"
    "length (in_strings t') \<le> length (in_strings t1) + length ss"
    using Cons.IH [OF t1(1) _ ss(1)] t1(4) Cons.prems(2) by auto
  ultimately show ?case
    using ss(2) by (auto intro: interner_extends_trans try_resolve_extends)
qed

end
