(* ===== verification/Graph_Store.thy ===== *)
theory Graph_Store
  imports Graph_Types
begin

text \<open>
  \<open>m1nd-core/src/graph.rs\<close>: the property graph, its staging area for new edges, and \<open>finalize\<close>, which
  turns the staged edges into a compressed sparse row graph in both directions.  Vectors are lists;
  offsets and cursors, \<open>u64\<close> in the code, count edges in memory and are natural numbers here; an
  index that the code would panic on does not occur in a graph that its operations built.
\<close>

section \<open>Data\<close>

record pending_edge =
  pe_source :: node_id
  pe_target :: node_id
  pe_weight :: f32
  pe_inhibitory :: bool
  pe_relation :: interned
  pe_direction :: edge_direction
  pe_causal_strength :: f32

record csr_graph =
  cs_offsets :: "nat list"
  cs_targets :: "node_id list"
  cs_weights :: "f32 list"
  cs_inhibitory :: "bool list"
  cs_relations :: "interned list"
  cs_directions :: "edge_direction list"
  cs_causal_strengths :: "f32 list"
  cs_rev_offsets :: "nat list"
  cs_rev_sources :: "node_id list"
  cs_rev_edge_idx :: "edge_idx list"
  cs_pending_edges :: "pending_edge list"

definition csr_empty :: csr_graph where
  "csr_empty =
     \<lparr>cs_offsets = [], cs_targets = [], cs_weights = [], cs_inhibitory = [], cs_relations = [],
      cs_directions = [], cs_causal_strengths = [], cs_rev_offsets = [], cs_rev_sources = [],
      cs_rev_edge_idx = [], cs_pending_edges = []\<rparr>"

record plasticity_node =
  pn_incoming_weight_sum :: f32
  pn_ceiling :: f32

record node_provenance =
  np_source_path :: "interned option"
  np_line_start :: u32
  np_line_end :: u32
  np_excerpt :: "interned option"
  np_namespace :: "interned option"
  np_canonical :: bool

record provenance_input =
  pi_source_path :: "string option"
  pi_line_start :: "u32 option"
  pi_line_end :: "u32 option"
  pi_excerpt :: "string option"
  pi_namespace :: "string option"
  pi_canonical :: bool

text \<open>\<open>ResolvedNodeProvenance\<close> has the fields of \<open>NodeProvenanceInput\<close>, owned instead of borrowed.\<close>

type_synonym resolved_provenance = provenance_input

definition default_provenance :: node_provenance where
  "default_provenance = \<lparr>np_source_path = None, np_line_start = 0, np_line_end = 0, np_excerpt = None,
     np_namespace = None, np_canonical = False\<rparr>"

definition default_resolved :: resolved_provenance where
  "default_resolved = \<lparr>pi_source_path = None, pi_line_start = None, pi_line_end = None, pi_excerpt = None,
     pi_namespace = None, pi_canonical = False\<rparr>"

definition resolved_is_empty :: "resolved_provenance \<Rightarrow> bool" where
  "resolved_is_empty p \<longleftrightarrow> pi_source_path p = None \<and> pi_line_start p = None \<and> pi_line_end p = None \<and>
     pi_excerpt p = None \<and> pi_namespace p = None \<and> \<not> pi_canonical p"

record node_storage =
  nd_count :: u32
  nd_activation :: "f32 list list"
  nd_pagerank :: "f32 list"
  nd_plasticity :: "plasticity_node list"
  nd_label :: "interned list"
  nd_node_type :: "node_type list"
  nd_tags :: "interned list list"
  nd_last_modified :: "f64 list"
  nd_change_frequency :: "f32 list"
  nd_provenance :: "node_provenance list"

definition nodes_new :: node_storage where
  "nodes_new = \<lparr>nd_count = 0, nd_activation = [], nd_pagerank = [], nd_plasticity = [], nd_label = [],
     nd_node_type = [], nd_tags = [], nd_last_modified = [], nd_change_frequency = [], nd_provenance = []\<rparr>"

record edge_plasticity =
  ep_original_weight :: "f32 list"
  ep_current_weight :: "f32 list"
  ep_strengthen_count :: "16 word list"
  ep_weaken_count :: "16 word list"
  ep_ltp_applied :: "bool list"
  ep_ltd_applied :: "bool list"
  ep_last_used_query :: "u32 list"

definition plasticity_new :: edge_plasticity where
  "plasticity_new = \<lparr>ep_original_weight = [], ep_current_weight = [], ep_strengthen_count = [],
     ep_weaken_count = [], ep_ltp_applied = [], ep_ltd_applied = [], ep_last_used_query = []\<rparr>"

record graph =
  gr_nodes :: node_storage
  gr_csr :: csr_graph
  gr_edge_plasticity :: edge_plasticity
  gr_strings :: string_interner
  gr_id_to_node :: "interned \<Rightarrow> node_id option"
  gr_generation :: u64
  gr_pagerank_computed :: bool
  gr_pagerank_dirty :: bool
  gr_finalized :: bool

definition graph_new :: graph where
  "graph_new = \<lparr>gr_nodes = nodes_new, gr_csr = csr_empty, gr_edge_plasticity = plasticity_new,
     gr_strings = interner_new, gr_id_to_node = Map.empty, gr_generation = 0,
     gr_pagerank_computed = False, gr_pagerank_dirty = False, gr_finalized = False\<rparr>"

datatype graph_error =
    DuplicateNode node_id
  | DanglingEdge edge_idx node_id
  | CasRetryExhausted edge_idx u32

section \<open>Reading the rows\<close>

definition csr_num_edges :: "csr_graph \<Rightarrow> nat" where
  "csr_num_edges c = (if cs_offsets c = [] then 0 else last (cs_offsets c))"

text \<open>A range of slots, as its two bounds.\<close>

definition out_range :: "csr_graph \<Rightarrow> node_id \<Rightarrow> nat \<times> nat" where
  "out_range c node = (let i = unat node in
     if i + 1 \<ge> length (cs_offsets c) then (0, 0) else (cs_offsets c ! i, cs_offsets c ! (i + 1)))"

definition in_range :: "csr_graph \<Rightarrow> node_id \<Rightarrow> nat \<times> nat" where
  "in_range c node = (let i = unat node in
     if i + 1 \<ge> length (cs_rev_offsets c) then (0, 0)
     else (cs_rev_offsets c ! i, cs_rev_offsets c ! (i + 1)))"

definition read_weight :: "csr_graph \<Rightarrow> edge_idx \<Rightarrow> f32" where
  "read_weight c edge = finite_f32 (cs_weights c ! unat edge)"

text \<open>
  The two retry loops on a weight, run by one thread: the slot holds \<open>old\<close> at every attempt, and the
  weak exchange may fail for no reason, which \<open>exchanged\<close> says by the number of attempts left after it.
  The result is what the slot holds in the end, or nothing when the attempts are used up.
\<close>

fun atomic_max_loop :: "(nat \<Rightarrow> bool) \<Rightarrow> f32 \<Rightarrow> f32 \<Rightarrow> nat \<Rightarrow> f32 option" where
  "atomic_max_loop exchanged old v 0 = None"
| "atomic_max_loop exchanged old v (Suc k) =
     (if f32_ge old v then Some old
      else if exchanged k then Some v
      else atomic_max_loop exchanged old v k)"

fun atomic_write_loop :: "(nat \<Rightarrow> bool) \<Rightarrow> f32 \<Rightarrow> nat \<Rightarrow> f32 option" where
  "atomic_write_loop exchanged v 0 = None"
| "atomic_write_loop exchanged v (Suc k) =
     (if exchanged k then Some v else atomic_write_loop exchanged v k)"

definition store_weight ::
  "edge_idx \<Rightarrow> u32 \<Rightarrow> f32 option \<Rightarrow> csr_graph \<Rightarrow> csr_graph \<times> (graph_error + unit)" where
  "store_weight edge limit outcome c =
     (case outcome of
        None \<Rightarrow> (c, Err (CasRetryExhausted edge limit))
      | Some v \<Rightarrow> (c\<lparr>cs_weights := (cs_weights c)[unat edge := v]\<rparr>, Ok ()))"

definition atomic_max_weight ::
  "(nat \<Rightarrow> bool) \<Rightarrow> edge_idx \<Rightarrow> f32 \<Rightarrow> u32 \<Rightarrow> csr_graph \<Rightarrow> csr_graph \<times> (graph_error + unit)" where
  "atomic_max_weight exchanged edge new_val max_retries c =
     store_weight edge max_retries
       (atomic_max_loop exchanged (cs_weights c ! unat edge) new_val (unat max_retries)) c"

definition atomic_write_weight ::
  "(nat \<Rightarrow> bool) \<Rightarrow> edge_idx \<Rightarrow> f32 \<Rightarrow> u32 \<Rightarrow> csr_graph \<Rightarrow> csr_graph \<times> (graph_error + unit)" where
  "atomic_write_weight exchanged edge new_val max_retries c =
     store_weight edge max_retries (atomic_write_loop exchanged new_val (unat max_retries)) c"

section \<open>Nodes and edges\<close>

definition generation_next :: "u64 \<Rightarrow> u64" where
  "generation_next gen = gen + 1"

text \<open>The end of both mutations.\<close>

definition structure_changed :: "graph \<Rightarrow> graph" where
  "structure_changed g = g\<lparr>gr_generation := generation_next (gr_generation g), gr_finalized := False,
     gr_pagerank_dirty := True\<rparr>"

definition push_node ::
  "interned \<Rightarrow> node_type \<Rightarrow> interned list \<Rightarrow> f64 \<Rightarrow> f32 \<Rightarrow> node_storage \<Rightarrow> node_storage" where
  "push_node label ty tags last_modified change_frequency d =
     d\<lparr>nd_count := nd_count d + 1, nd_label := nd_label d @ [label], nd_node_type := nd_node_type d @ [ty],
       nd_tags := nd_tags d @ [tags], nd_last_modified := nd_last_modified d @ [last_modified],
       nd_change_frequency := nd_change_frequency d @ [finite_f32 change_frequency],
       nd_activation := nd_activation d @ [replicate 4 F32_ZERO],
       nd_pagerank := nd_pagerank d @ [F32_ZERO],
       nd_plasticity := nd_plasticity d @ [\<lparr>pn_incoming_weight_sum = F32_ZERO, pn_ceiling = F32_ZERO\<rparr>],
       nd_provenance := nd_provenance d @ [default_provenance]\<rparr>"

definition add_node ::
  "string \<Rightarrow> string \<Rightarrow> node_type \<Rightarrow> string list \<Rightarrow> f64 \<Rightarrow> f32 \<Rightarrow> graph \<Rightarrow> graph \<times> (graph_error + node_id)" where
  "add_node external_id label ty tags last_modified change_frequency g =
     (let (t1, ext) = get_or_intern (gr_strings g) external_id; g1 = g\<lparr>gr_strings := t1\<rparr> in
      case gr_id_to_node g ext of
        Some existing \<Rightarrow> (g1, Err (DuplicateNode existing))
      | None \<Rightarrow>
          let node = nd_count (gr_nodes g);
              (t2, label_interned) = get_or_intern t1 label;
              (t3, tags_interned) = intern_all t2 tags in
          (structure_changed (g1\<lparr>gr_strings := t3,
             gr_nodes := push_node label_interned ty tags_interned last_modified change_frequency (gr_nodes g),
             gr_id_to_node := (gr_id_to_node g)(ext \<mapsto> node)\<rparr>), Ok node))"

definition push_plasticity :: "f32 \<Rightarrow> edge_plasticity \<Rightarrow> edge_plasticity" where
  "push_plasticity weight p =
     p\<lparr>ep_original_weight := ep_original_weight p @ [weight],
       ep_current_weight := ep_current_weight p @ [weight],
       ep_strengthen_count := ep_strengthen_count p @ [0], ep_weaken_count := ep_weaken_count p @ [0],
       ep_ltp_applied := ep_ltp_applied p @ [False], ep_ltd_applied := ep_ltd_applied p @ [False],
       ep_last_used_query := ep_last_used_query p @ [0]\<rparr>"

definition add_edge ::
  "node_id \<Rightarrow> node_id \<Rightarrow> string \<Rightarrow> f32 \<Rightarrow> edge_direction \<Rightarrow> bool \<Rightarrow> f32 \<Rightarrow> graph
     \<Rightarrow> graph \<times> (graph_error + edge_idx)" where
  "add_edge src tgt relation weight direction inhibitory causal_strength g =
     (let edge = of_nat (length (ep_original_weight (gr_edge_plasticity g))) in
      if unat src \<ge> unat (nd_count (gr_nodes g)) then (g, Err (DanglingEdge edge src))
      else if unat tgt \<ge> unat (nd_count (gr_nodes g)) then (g, Err (DanglingEdge edge tgt))
      else
        let (t1, rel) = get_or_intern (gr_strings g) relation;
            staged = \<lparr>pe_source = src, pe_target = tgt, pe_weight = weight, pe_inhibitory = inhibitory,
              pe_relation = rel, pe_direction = direction, pe_causal_strength = causal_strength\<rparr>;
            c = gr_csr g in
        (structure_changed (g\<lparr>gr_strings := t1,
           gr_edge_plasticity := push_plasticity weight (gr_edge_plasticity g),
           gr_csr := c\<lparr>cs_pending_edges := cs_pending_edges c @ [staged]\<rparr>\<rparr>), Ok edge))"

text \<open>
  The rest of \<open>m1nd-core/src/graph.rs\<close>: \<open>finalize\<close> with the harvest of a graph finalized before, the
  two counting passes and PageRank; provenance and tags.
\<close>

section \<open>Parallel vectors\<close>

text \<open>One position of the vectors of an edge plasticity, and of the six forward vectors of a graph.\<close>

record plasticity_row =
  pw_original_weight :: f32
  pw_current_weight :: f32
  pw_strengthen_count :: "16 word"
  pw_weaken_count :: "16 word"
  pw_ltp_applied :: bool
  pw_ltd_applied :: bool
  pw_last_used_query :: u32

definition plasticity_at :: "edge_plasticity \<Rightarrow> nat \<Rightarrow> plasticity_row" where
  "plasticity_at p j =
     \<lparr>pw_original_weight = ep_original_weight p ! j, pw_current_weight = ep_current_weight p ! j,
      pw_strengthen_count = ep_strengthen_count p ! j, pw_weaken_count = ep_weaken_count p ! j,
      pw_ltp_applied = ep_ltp_applied p ! j, pw_ltd_applied = ep_ltd_applied p ! j,
      pw_last_used_query = ep_last_used_query p ! j\<rparr>"

definition plasticity_put :: "nat \<Rightarrow> plasticity_row \<Rightarrow> edge_plasticity \<Rightarrow> edge_plasticity" where
  "plasticity_put j r p =
     \<lparr>ep_original_weight = (ep_original_weight p)[j := pw_original_weight r],
      ep_current_weight = (ep_current_weight p)[j := pw_current_weight r],
      ep_strengthen_count = (ep_strengthen_count p)[j := pw_strengthen_count r],
      ep_weaken_count = (ep_weaken_count p)[j := pw_weaken_count r],
      ep_ltp_applied = (ep_ltp_applied p)[j := pw_ltp_applied r],
      ep_ltd_applied = (ep_ltd_applied p)[j := pw_ltd_applied r],
      ep_last_used_query = (ep_last_used_query p)[j := pw_last_used_query r]\<rparr>"

definition plasticity_append :: "edge_plasticity \<Rightarrow> edge_plasticity \<Rightarrow> edge_plasticity" where
  "plasticity_append p q =
     \<lparr>ep_original_weight = ep_original_weight p @ ep_original_weight q,
      ep_current_weight = ep_current_weight p @ ep_current_weight q,
      ep_strengthen_count = ep_strengthen_count p @ ep_strengthen_count q,
      ep_weaken_count = ep_weaken_count p @ ep_weaken_count q,
      ep_ltp_applied = ep_ltp_applied p @ ep_ltp_applied q,
      ep_ltd_applied = ep_ltd_applied p @ ep_ltd_applied q,
      ep_last_used_query = ep_last_used_query p @ ep_last_used_query q\<rparr>"

definition plasticity_single :: "plasticity_row \<Rightarrow> edge_plasticity" where
  "plasticity_single r =
     \<lparr>ep_original_weight = [pw_original_weight r], ep_current_weight = [pw_current_weight r],
      ep_strengthen_count = [pw_strengthen_count r], ep_weaken_count = [pw_weaken_count r],
      ep_ltp_applied = [pw_ltp_applied r], ep_ltd_applied = [pw_ltd_applied r],
      ep_last_used_query = [pw_last_used_query r]\<rparr>"

text \<open>The slices \<open>[k..]\<close> of the vectors.\<close>

definition plasticity_tail :: "nat \<Rightarrow> edge_plasticity \<Rightarrow> edge_plasticity" where
  "plasticity_tail k p =
     \<lparr>ep_original_weight = drop k (ep_original_weight p), ep_current_weight = drop k (ep_current_weight p),
      ep_strengthen_count = drop k (ep_strengthen_count p), ep_weaken_count = drop k (ep_weaken_count p),
      ep_ltp_applied = drop k (ep_ltp_applied p), ep_ltd_applied = drop k (ep_ltd_applied p),
      ep_last_used_query = drop k (ep_last_used_query p)\<rparr>"

definition plasticity_zeros :: "nat \<Rightarrow> edge_plasticity" where
  "plasticity_zeros k =
     \<lparr>ep_original_weight = replicate k F32_ZERO, ep_current_weight = replicate k F32_ZERO,
      ep_strengthen_count = replicate k 0, ep_weaken_count = replicate k 0,
      ep_ltp_applied = replicate k False, ep_ltd_applied = replicate k False,
      ep_last_used_query = replicate k 0\<rparr>"

record csr_slot =
  sl_target :: node_id
  sl_weight :: f32
  sl_inhibitory :: bool
  sl_relation :: interned
  sl_direction :: edge_direction
  sl_causal_strength :: f32

definition slot_at :: "csr_graph \<Rightarrow> nat \<Rightarrow> csr_slot" where
  "slot_at c j =
     \<lparr>sl_target = cs_targets c ! j, sl_weight = cs_weights c ! j, sl_inhibitory = cs_inhibitory c ! j,
      sl_relation = cs_relations c ! j, sl_direction = cs_directions c ! j,
      sl_causal_strength = cs_causal_strengths c ! j\<rparr>"

definition slot_put :: "nat \<Rightarrow> csr_slot \<Rightarrow> csr_graph \<Rightarrow> csr_graph" where
  "slot_put j s c =
     c\<lparr>cs_targets := (cs_targets c)[j := sl_target s], cs_weights := (cs_weights c)[j := sl_weight s],
       cs_inhibitory := (cs_inhibitory c)[j := sl_inhibitory s],
       cs_relations := (cs_relations c)[j := sl_relation s],
       cs_directions := (cs_directions c)[j := sl_direction s],
       cs_causal_strengths := (cs_causal_strengths c)[j := sl_causal_strength s]\<rparr>"

section \<open>The harvest of a finalized graph\<close>

text \<open>
  The body of the two loops of \<open>rehydrate_csr_into_pending\<close>: a slot becomes a staged edge again, with
  its plasticity, unless it is the mirror of a bidirectional edge.
\<close>

definition harvest_slot ::
  "graph \<Rightarrow> nat \<Rightarrow> nat \<Rightarrow> pending_edge list \<times> edge_plasticity \<Rightarrow> pending_edge list \<times> edge_plasticity" where
  "harvest_slot g src j acc =
     (let c = gr_csr g; tgt = unat (cs_targets c ! j); direction = cs_directions c ! j in
      if direction = EdgeBidirectional \<and> src > tgt then acc
      else
        (fst acc @ [\<lparr>pe_source = of_nat src, pe_target = cs_targets c ! j,
            pe_weight = read_weight c (of_nat j), pe_inhibitory = cs_inhibitory c ! j,
            pe_relation = cs_relations c ! j, pe_direction = direction,
            pe_causal_strength = cs_causal_strengths c ! j\<rparr>],
         plasticity_append (snd acc) (plasticity_single (plasticity_at (gr_edge_plasticity g) j))))"

definition harvest_row ::
  "graph \<Rightarrow> nat \<Rightarrow> pending_edge list \<times> edge_plasticity \<Rightarrow> pending_edge list \<times> edge_plasticity" where
  "harvest_row g src =
     fold (harvest_slot g src) [cs_offsets (gr_csr g) ! src ..< cs_offsets (gr_csr g) ! (src + 1)]"

definition harvest :: "graph \<Rightarrow> pending_edge list \<times> edge_plasticity" where
  "harvest g = fold (harvest_row g) [0 ..< length (cs_offsets (gr_csr g)) - 1] ([], plasticity_new)"

definition rehydrate_csr_into_pending :: "graph \<Rightarrow> graph" where
  "rehydrate_csr_into_pending g =
     (let c = gr_csr g; harvested = harvest g in
      g\<lparr>gr_csr := c\<lparr>cs_pending_edges := fst harvested @ cs_pending_edges c\<rparr>,
        gr_edge_plasticity := plasticity_append (snd harvested)
          (plasticity_tail (csr_num_edges c) (gr_edge_plasticity g))\<rparr>)"

section \<open>The forward rows\<close>

definition bump_at :: "nat \<Rightarrow> nat list \<Rightarrow> nat list" where
  "bump_at i xs = xs[i := xs ! i + 1]"

definition count_edge :: "nat \<times> pending_edge \<Rightarrow> nat list \<Rightarrow> nat list" where
  "count_edge ie offsets =
     (let e = snd ie; counted = bump_at (unat (pe_source e) + 1) offsets in
      if pe_direction e = EdgeBidirectional then bump_at (unat (pe_target e) + 1) counted else counted)"

definition prefix_sum :: "nat \<Rightarrow> nat list \<Rightarrow> nat list" where
  "prefix_sum n offsets = fold (\<lambda>i xs. xs[i := xs ! i + xs ! (i - 1)]) [1 ..< n + 1] offsets"

record fill_state =
  fs_cursors :: "nat list"
  fs_csr :: csr_graph
  fs_mapping :: "(nat \<times> nat) list"

text \<open>One entry at the cursor of its row.\<close>

definition place_slot :: "nat \<Rightarrow> nat \<Rightarrow> csr_slot \<Rightarrow> fill_state \<Rightarrow> fill_state" where
  "place_slot orig row s st =
     (let pos = fs_cursors st ! row in
      \<lparr>fs_cursors = bump_at row (fs_cursors st), fs_csr = slot_put pos s (fs_csr st),
       fs_mapping = fs_mapping st @ [(orig, pos)]\<rparr>)"

definition slot_of_edge :: "pending_edge \<Rightarrow> node_id \<Rightarrow> csr_slot" where
  "slot_of_edge e target =
     \<lparr>sl_target = target, sl_weight = pe_weight e, sl_inhibitory = pe_inhibitory e,
      sl_relation = pe_relation e, sl_direction = pe_direction e, sl_causal_strength = pe_causal_strength e\<rparr>"

definition fill_edge :: "nat \<times> pending_edge \<Rightarrow> fill_state \<Rightarrow> fill_state" where
  "fill_edge ie st =
     (let orig = fst ie; e = snd ie;
          placed = place_slot orig (unat (pe_source e)) (slot_of_edge e (pe_target e)) st in
      if pe_direction e = EdgeBidirectional
      then place_slot orig (unat (pe_target e)) (slot_of_edge e (pe_source e)) placed
      else placed)"

definition zero_columns :: "nat \<Rightarrow> nat list \<Rightarrow> csr_graph" where
  "zero_columns slots offsets = csr_empty
     \<lparr>cs_offsets := offsets, cs_targets := replicate slots 0, cs_weights := replicate slots 0,
      cs_inhibitory := replicate slots False, cs_relations := replicate slots 0,
      cs_directions := replicate slots EdgeForward, cs_causal_strengths := replicate slots F32_ZERO\<rparr>"

definition forward_csr :: "nat \<Rightarrow> (nat \<times> pending_edge) list \<Rightarrow> csr_graph \<times> (nat \<times> nat) list" where
  "forward_csr n indexed =
     (let offsets = prefix_sum n (fold count_edge indexed (replicate (n + 1) 0));
          st = fold fill_edge indexed
            \<lparr>fs_cursors = take n offsets, fs_csr = zero_columns (last offsets) offsets, fs_mapping = []\<rparr> in
      (fs_csr st, fs_mapping st))"

definition remap_plasticity :: "edge_plasticity \<Rightarrow> nat \<Rightarrow> (nat \<times> nat) list \<Rightarrow> edge_plasticity" where
  "remap_plasticity old slots mapping =
     fold (\<lambda>(orig, pos). plasticity_put pos (plasticity_at old orig)) mapping (plasticity_zeros slots)"

section \<open>The reverse rows\<close>

definition count_row :: "csr_graph \<Rightarrow> nat \<Rightarrow> nat list \<Rightarrow> nat list" where
  "count_row c i rev_offsets =
     fold (\<lambda>tgt. bump_at (unat tgt + 1))
       (drop (cs_offsets c ! i) (take (cs_offsets c ! (i + 1)) (cs_targets c))) rev_offsets"

definition rev_slot ::
  "csr_graph \<Rightarrow> nat \<Rightarrow> nat \<Rightarrow> nat list \<times> node_id list \<times> edge_idx list
     \<Rightarrow> nat list \<times> node_id list \<times> edge_idx list" where
  "rev_slot c src j st = (case st of (cursors, sources, edges) \<Rightarrow>
     (let tgt = unat (cs_targets c ! j); pos = cursors ! tgt in
      (bump_at tgt cursors, sources[pos := of_nat src], edges[pos := of_nat j])))"

definition rev_row ::
  "csr_graph \<Rightarrow> nat \<Rightarrow> nat list \<times> node_id list \<times> edge_idx list
     \<Rightarrow> nat list \<times> node_id list \<times> edge_idx list" where
  "rev_row c src = fold (rev_slot c src) [cs_offsets c ! src ..< cs_offsets c ! (src + 1)]"

definition reverse_csr :: "nat \<Rightarrow> csr_graph \<Rightarrow> csr_graph" where
  "reverse_csr n c =
     (let rev_offsets = prefix_sum n (fold (count_row c) [0 ..< n] (replicate (n + 1) 0));
          slots = last rev_offsets;
          (_, sources, edges) = fold (rev_row c) [0 ..< n]
            (take n rev_offsets, replicate slots 0, replicate slots 0) in
      c\<lparr>cs_rev_offsets := rev_offsets, cs_rev_sources := sources, cs_rev_edge_idx := edges\<rparr>)"

section \<open>PageRank\<close>

text \<open>The literals \<open>0.85\<close> and \<open>1e-6\<close> of the call, as the nearest floats.\<close>

definition PAGERANK_DAMPING :: f32 where "PAGERANK_DAMPING = 0x3F59999A"

definition PAGERANK_CONVERGENCE :: f32 where "PAGERANK_CONVERGENCE = 0x358637BD"

definition out_degrees :: "nat \<Rightarrow> csr_graph \<Rightarrow> u32 list" where
  "out_degrees n c = map (\<lambda>i. of_nat (cs_offsets c ! (i + 1) - cs_offsets c ! i)) [0 ..< n]"

definition rank_sum :: "f32_arith \<Rightarrow> csr_graph \<Rightarrow> u32 list \<Rightarrow> f32 list \<Rightarrow> nat \<Rightarrow> f32" where
  "rank_sum F c degrees pr i = fold (\<lambda>j acc.
     let src = unat (cs_rev_sources c ! j); deg = degrees ! src in
     if deg > 0 then fa_add F acc (fa_div F (pr ! src) (fa_of_nat F (unat deg))) else acc)
     [cs_rev_offsets c ! i ..< cs_rev_offsets c ! (i + 1)] F32_ZERO"

definition rank_delta :: "f32_arith \<Rightarrow> nat \<Rightarrow> f32 list \<Rightarrow> f32 list \<Rightarrow> f32" where
  "rank_delta F n new_pr pr =
     fold (\<lambda>i acc. fa_add F acc (f32_abs (fa_sub F (new_pr ! i) (pr ! i)))) [0 ..< n] F32_ZERO"

fun pagerank_loop ::
  "f32_arith \<Rightarrow> nat \<Rightarrow> csr_graph \<Rightarrow> u32 list \<Rightarrow> f32 \<Rightarrow> f32 \<Rightarrow> f32 \<Rightarrow> nat \<Rightarrow> f32 list \<Rightarrow> f32 list" where
  "pagerank_loop F n c degrees damping base convergence 0 pr = pr"
| "pagerank_loop F n c degrees damping base convergence (Suc k) pr =
     (let new_pr = map (\<lambda>i. fa_add F base (fa_mul F damping (rank_sum F c degrees pr i))) [0 ..< n] in
      if f32_lt (rank_delta F n new_pr pr) convergence then new_pr
      else pagerank_loop F n c degrees damping base convergence k new_pr)"

definition compute_pagerank :: "f32_arith \<Rightarrow> f32 \<Rightarrow> u32 \<Rightarrow> f32 \<Rightarrow> graph \<Rightarrow> graph" where
  "compute_pagerank F damping max_iterations convergence g =
     (let n = unat (nd_count (gr_nodes g)); c = gr_csr g;
          computed = g\<lparr>gr_pagerank_computed := True, gr_pagerank_dirty := False\<rparr> in
      if n = 0 then computed
      else
        let nf = fa_of_nat F n;
            base = fa_div F (fa_sub F F32_ONE damping) nf;
            pr = pagerank_loop F n c (out_degrees n c) damping base convergence (unat max_iterations)
              (replicate n (fa_div F F32_ONE nf));
            max_pr = fold (\<lambda>x acc. f32_max acc x) pr F32_ZERO in
        if f32_lt F32_ZERO max_pr
        then computed\<lparr>gr_nodes := (gr_nodes g)
          \<lparr>nd_pagerank := map (\<lambda>rank. finite_f32 (fa_div F rank max_pr)) pr\<rparr>\<rparr>
        else computed)"

section \<open>Finalize\<close>

definition rebuild :: "graph \<Rightarrow> graph" where
  "rebuild g =
     (let n = unat (nd_count (gr_nodes g));
          indexed = sort_key (\<lambda>(_, e). pe_source e) (enumerate 0 (cs_pending_edges (gr_csr g)));
          (c, mapping) = forward_csr n indexed in
      g\<lparr>gr_csr := reverse_csr n c,
        gr_edge_plasticity := remap_plasticity (gr_edge_plasticity g) (last (cs_offsets c)) mapping\<rparr>)"

definition finalize :: "f32_arith \<Rightarrow> graph \<Rightarrow> graph" where
  "finalize F g =
     (if gr_finalized g then g
      else
        let staged = (if csr_num_edges (gr_csr g) > 0 then rehydrate_csr_into_pending g else g);
            ranked = compute_pagerank F PAGERANK_DAMPING 50 PAGERANK_CONVERGENCE (rebuild staged) in
        ranked\<lparr>gr_finalized := True\<rparr>)"

section \<open>Queries\<close>

definition resolve_id :: "graph \<Rightarrow> string \<Rightarrow> node_id option" where
  "resolve_id g external_id = Option.bind (interner_lookup (gr_strings g) external_id) (gr_id_to_node g)"

definition graph_num_edges :: "graph \<Rightarrow> nat" where
  "graph_num_edges g = csr_num_edges (gr_csr g)"

definition avg_degree :: "f32_arith \<Rightarrow> graph \<Rightarrow> f32" where
  "avg_degree F g = (if nd_count (gr_nodes g) = 0 then F32_ZERO
     else fa_div F (fa_of_nat F (csr_num_edges (gr_csr g))) (fa_of_nat F (unat (nd_count (gr_nodes g)))))"

section \<open>Tags\<close>

definition has_node :: "graph \<Rightarrow> node_id \<Rightarrow> bool" where
  "has_node g node \<longleftrightarrow> unat node < unat (nd_count (gr_nodes g))"

definition put_tags :: "node_id \<Rightarrow> interned list \<Rightarrow> graph \<Rightarrow> graph" where
  "put_tags node tags g =
     g\<lparr>gr_nodes := (gr_nodes g)\<lparr>nd_tags := (nd_tags (gr_nodes g))[unat node := tags]\<rparr>\<rparr>"

fun add_tags_loop ::
  "string list \<Rightarrow> string_interner \<Rightarrow> interned list \<Rightarrow> nat \<Rightarrow> string_interner \<times> interned list \<times> nat" where
  "add_tags_loop [] t present added = (t, present, added)"
| "add_tags_loop (tag # tags) t present added =
     (let (t1, idx) = get_or_intern t tag in
      if idx \<in> set present then add_tags_loop tags t1 present added
      else add_tags_loop tags t1 (present @ [idx]) (added + 1))"

definition add_node_tags :: "node_id \<Rightarrow> string list \<Rightarrow> graph \<Rightarrow> graph \<times> nat" where
  "add_node_tags node tags g =
     (if \<not> has_node g node then (g, 0)
      else
        let (t, present, added) = add_tags_loop tags (gr_strings g) (nd_tags (gr_nodes g) ! unat node) 0 in
        (put_tags node present (g\<lparr>gr_strings := t\<rparr>), added))"

definition remove_node_tags :: "node_id \<Rightarrow> string list \<Rightarrow> graph \<Rightarrow> graph \<times> nat" where
  "remove_node_tags node tags g =
     (if \<not> has_node g node then (g, 0)
      else
        let targets = List.map_filter (interner_lookup (gr_strings g)) tags;
            before = nd_tags (gr_nodes g) ! unat node;
            after = filter (\<lambda>tag. tag \<notin> set targets) before in
        if targets = [] then (g, 0) else (put_tags node after g, length before - length after))"

definition set_node_tags :: "node_id \<Rightarrow> string list \<Rightarrow> graph \<Rightarrow> graph \<times> nat" where
  "set_node_tags node tags g =
     (if \<not> has_node g node then (g, 0)
      else
        let (t, idxs) = intern_all (gr_strings g) tags in
        (put_tags node idxs (g\<lparr>gr_strings := t\<rparr>), length idxs))"

definition node_tags :: "graph \<Rightarrow> node_id \<Rightarrow> string list" where
  "node_tags g node =
     (if \<not> has_node g node then []
      else map (\<lambda>tag. in_strings (gr_strings g) ! unat tag) (nd_tags (gr_nodes g) ! unat node))"

section \<open>Provenance\<close>

text \<open>\<open>value.filter(|v| !v.is_empty()).map(|v| self.strings.get_or_intern(v))\<close>.\<close>

fun intern_present :: "string_interner \<Rightarrow> string option \<Rightarrow> string_interner \<times> interned option" where
  "intern_present t None = (t, None)"
| "intern_present t (Some s) =
     (if s = [] then (t, None) else let (t1, idx) = get_or_intern t s in (t1, Some idx))"

definition or_else :: "'a option \<Rightarrow> 'a option \<Rightarrow> 'a option" where
  "or_else x y = (case x of Some v \<Rightarrow> Some v | None \<Rightarrow> y)"

definition or_zero :: "u32 option \<Rightarrow> u32" where
  "or_zero x = (case x of Some v \<Rightarrow> v | None \<Rightarrow> 0)"

definition set_node_provenance :: "node_id \<Rightarrow> provenance_input \<Rightarrow> graph \<Rightarrow> graph" where
  "set_node_provenance node p g =
     (if \<not> has_node g node then g
      else
        let (t1, path) = intern_present (gr_strings g) (pi_source_path p);
            (t2, excerpt) = intern_present t1 (pi_excerpt p);
            (t3, namespace) = intern_present t2 (pi_namespace p);
            row = \<lparr>np_source_path = path, np_line_start = or_zero (pi_line_start p),
              np_line_end = or_zero (or_else (pi_line_end p) (pi_line_start p)), np_excerpt = excerpt,
              np_namespace = namespace, np_canonical = pi_canonical p\<rparr> in
        g\<lparr>gr_strings := t3,
          gr_nodes := (gr_nodes g)\<lparr>nd_provenance := (nd_provenance (gr_nodes g))[unat node := row]\<rparr>\<rparr>)"

definition positive_line :: "u32 \<Rightarrow> u32 option" where
  "positive_line l = (if l > 0 then Some l else None)"

definition resolve_node_provenance :: "graph \<Rightarrow> node_id \<Rightarrow> resolved_provenance" where
  "resolve_node_provenance g node =
     (if \<not> has_node g node then default_resolved
      else
        let p = nd_provenance (gr_nodes g) ! unat node; resolved = try_resolve (gr_strings g) in
        \<lparr>pi_source_path = Option.bind (np_source_path p) resolved,
         pi_line_start = positive_line (np_line_start p), pi_line_end = positive_line (np_line_end p),
         pi_excerpt = Option.bind (np_excerpt p) resolved,
         pi_namespace = Option.bind (np_namespace p) resolved, pi_canonical = np_canonical p\<rparr>)"

definition merged_line_end :: "u32 option \<Rightarrow> u32 option \<Rightarrow> u32 option \<Rightarrow> u32 option" where
  "merged_line_end current incoming line_start =
     (case (current, incoming) of
        (Some existing, Some extra) \<Rightarrow> Some (max existing extra)
      | (Some existing, None) \<Rightarrow> Some existing
      | (None, Some extra) \<Rightarrow> Some extra
      | (None, None) \<Rightarrow> line_start)"

definition merge_node_provenance :: "node_id \<Rightarrow> provenance_input \<Rightarrow> graph \<Rightarrow> graph" where
  "merge_node_provenance node incoming g =
     (if \<not> has_node g node then g
      else
        let current = resolve_node_provenance g node;
            line_start = or_else (pi_line_start current) (pi_line_start incoming) in
        set_node_provenance node
          \<lparr>pi_source_path = or_else (pi_source_path current) (pi_source_path incoming),
           pi_line_start = line_start,
           pi_line_end = merged_line_end (pi_line_end current)
             (or_else (pi_line_end incoming) (pi_line_start incoming)) line_start,
           pi_excerpt = or_else (pi_excerpt current) (pi_excerpt incoming),
           pi_namespace = or_else (pi_namespace current) (pi_namespace incoming),
           pi_canonical = (pi_canonical current \<or> pi_canonical incoming)\<rparr> g)"

end
