(* ===== verification/Graph_Rows.thy ===== *)
theory Graph_Rows
  imports Graph_Store
begin

text \<open>
  The counting pass behind a compressed sparse row: events with a row and a value are counted by row,
  the counts are summed up to offsets, and every event is then written at the cursor of its row.
  What the vectors are does not matter; a store with \<open>get\<close> and \<open>put\<close> is the locale \<open>slot_store\<close>.
\<close>

definition row_count :: "nat \<Rightarrow> (nat \<times> 'v) list \<Rightarrow> nat" where
  "row_count r evs = length (filter (\<lambda>e. fst e = r) evs)"

definition row_events :: "nat \<Rightarrow> (nat \<times> 'v) list \<Rightarrow> 'v list" where
  "row_events r evs = map snd (filter (\<lambda>e. fst e = r) evs)"

definition row_start :: "nat \<Rightarrow> (nat \<times> 'v) list \<Rightarrow> nat" where
  "row_start r evs = length (filter (\<lambda>e. fst e < r) evs)"

fun bucket_fill :: "(nat \<Rightarrow> 'v \<Rightarrow> 's \<Rightarrow> 's) \<Rightarrow> (nat \<times> 'v) list \<Rightarrow> nat list \<Rightarrow> 's \<Rightarrow> nat list \<times> 's" where
  "bucket_fill put [] cur s = (cur, s)"
| "bucket_fill put ((r, v) # evs) cur s = bucket_fill put evs (cur[r := cur ! r + 1]) (put (cur ! r) v s)"

lemma row_count_simps [simp]:
  "row_count r [] = 0" "row_count r ((r', v) # evs) = (if r' = r then 1 else 0) + row_count r evs"
  "row_count r (evs @ fvs) = row_count r evs + row_count r fvs"
  by (auto simp: row_count_def)

lemma row_events_simps [simp]:
  "row_events r [] = []" "row_events r ((r', v) # evs) = (if r' = r then v # row_events r evs else row_events r evs)"
  "row_events r (evs @ fvs) = row_events r evs @ row_events r fvs"
  "length (row_events r evs) = row_count r evs"
  by (auto simp: row_events_def row_count_def)

lemma row_start_0 [simp]: "row_start 0 evs = 0"
  by (simp add: row_start_def)

lemma row_start_Suc: "row_start (Suc r) evs = row_start r evs + row_count r evs"
  by (induction evs) (auto simp: row_start_def row_count_def)

lemma row_start_mono: "r \<le> r' \<Longrightarrow> row_start r evs \<le> row_start r' evs"
  by (rule lift_Suc_mono_le [where f = "\<lambda>r. row_start r evs"]) (simp_all add: row_start_Suc)

lemma row_start_le: "row_start r evs \<le> length evs"
  by (simp add: row_start_def)

lemma row_start_all: "\<forall>e \<in> set evs. fst e < n \<Longrightarrow> row_start n evs = length evs"
  by (simp add: row_start_def)

lemma row_of_index: "j < row_start n evs \<Longrightarrow> \<exists>r < n. row_start r evs \<le> j \<and> j < row_start (Suc r) evs"
proof (induction n)
  case (Suc n)
  then show ?case by (metis less_Suc_eq not_less)
qed simp

section \<open>Offsets\<close>

lemma fold_update_length [simp]: "length (fold (\<lambda>x xs. xs[g x := f x xs]) es xs) = length xs"
  by (induction es arbitrary: xs) auto

lemma fold_bump_nth:
  "i < length xs \<Longrightarrow> \<forall>e \<in> set evs. f e < length xs \<Longrightarrow>
   fold (\<lambda>e xs. xs[f e := xs ! f e + (1 :: nat)]) evs xs ! i = xs ! i + length (filter (\<lambda>e. f e = i) evs)"
  by (induction evs arbitrary: xs) (auto simp: nth_list_update)

lemma prefix_sum_nth:
  assumes "length xs = Suc n" "xs ! 0 = 0" "\<forall>r < n. xs ! Suc r = row_count r evs"
  shows "k \<le> n \<Longrightarrow> i \<le> n \<Longrightarrow> fold (\<lambda>i xs. xs[i := xs ! i + (xs ! (i - 1) :: nat)]) [1 ..< Suc k] xs ! i =
    (if i \<le> k then row_start i evs else xs ! i)"
proof (induction k arbitrary: i)
  case 0
  then show ?case using assms by simp
next
  case (Suc k)
  let ?ys = "fold (\<lambda>i xs. xs[i := xs ! i + xs ! (i - 1)]) [1 ..< Suc k] xs"
  have at: "?ys ! i = (if i \<le> k then row_start i evs else xs ! i)" if "i \<le> n" for i
    using Suc.IH Suc.prems that by simp
  have "[1 ..< Suc (Suc k)] = [1 ..< Suc k] @ [Suc k]" by simp
  then have "fold (\<lambda>i xs. xs[i := xs ! i + xs ! (i - 1)]) [1 ..< Suc (Suc k)] xs =
      ?ys[Suc k := ?ys ! Suc k + ?ys ! k]"
    by (simp del: upt_Suc)
  moreover have "?ys ! Suc k + ?ys ! k = row_start (Suc k) evs"
    using Suc.prems assms(3) at [of "Suc k"] at [of k] by (simp add: row_start_Suc del: upt_Suc)
  ultimately show ?case
    using Suc.prems assms(1) at [of i] by (auto simp: nth_list_update le_Suc_eq simp del: upt_Suc)
qed

lemma offsets_are_starts:
  assumes "length xs = Suc n" "xs ! 0 = 0" "\<forall>r < n. xs ! Suc r = row_count r evs"
  shows "fold (\<lambda>i xs. xs[i := xs ! i + (xs ! (i - 1) :: nat)]) [1 ..< n + 1] xs =
    map (\<lambda>r. row_start r evs) [0 ..< n + 1]"
proof (rule nth_equalityI)
  show "length (fold (\<lambda>i xs. xs[i := xs ! i + xs ! (i - 1)]) [1 ..< n + 1] xs) =
      length (map (\<lambda>r. row_start r evs) [0 ..< n + 1])"
    using assms(1) by simp
next
  fix i assume "i < length (fold (\<lambda>i xs. xs[i := xs ! i + (xs ! (i - 1) :: nat)]) [1 ..< n + 1] xs)"
  then have "i \<le> n" using assms(1) by simp
  then show "fold (\<lambda>i xs. xs[i := xs ! i + xs ! (i - 1)]) [1 ..< n + 1] xs ! i =
      map (\<lambda>r. row_start r evs) [0 ..< n + 1] ! i"
    using prefix_sum_nth [OF assms, of n i] by (simp del: upt_Suc add: nth_append)
qed

section \<open>The filling pass\<close>

locale slot_store =
  fixes get :: "'s \<Rightarrow> nat \<Rightarrow> 'v" and put :: "nat \<Rightarrow> 'v \<Rightarrow> 's \<Rightarrow> 's" and room :: "nat \<Rightarrow> 's \<Rightarrow> bool"
  assumes get_put: "room k s \<Longrightarrow> j < k \<Longrightarrow> get (put j v s) i = (if i = j then v else get s i)"
    and room_put: "room k s \<Longrightarrow> room k (put j v s)"
begin

text \<open>
  Row by row: the cursors bound disjoint regions in front of which nothing is left to do, so every
  region receives the values of its row in their order and nothing else changes.
\<close>

lemma bucket_fill_regions:
  assumes "room k s" "length cur = n" "\<forall>e \<in> set evs. fst e < n"
    and "\<forall>r < n. cur ! r + row_count r evs \<le> k"
    and "\<forall>r < n. \<forall>r' < n. r < r' \<longrightarrow> cur ! r + row_count r evs \<le> cur ! r'"
  shows "room k (snd (bucket_fill put evs cur s)) \<and>
    (\<forall>r < n. \<forall>i < row_count r evs. get (snd (bucket_fill put evs cur s)) (cur ! r + i) = row_events r evs ! i) \<and>
    (\<forall>j. (\<forall>r < n. \<not> (cur ! r \<le> j \<and> j < cur ! r + row_count r evs)) \<longrightarrow>
       get (snd (bucket_fill put evs cur s)) j = get s j)"
  using assms
proof (induction evs arbitrary: cur s)
  case Nil
  then show ?case by simp
next
  case (Cons e evs)
  obtain r v where e: "e = (r, v)" by force
  have r: "r < n" using Cons.prems(3) e by simp
  let ?cur = "cur[r := cur ! r + 1]" and ?s = "put (cur ! r) v s"
  have cur: "?cur ! q = cur ! q + (if q = r then 1 else 0)" if "q < n" for q
    using that Cons.prems(2) by (simp add: nth_list_update)
  have count: "row_count q (e # evs) = (if q = r then 1 else 0) + row_count q evs" for q using e by auto
  have ends: "?cur ! q + row_count q evs = cur ! q + row_count q (e # evs)" if "q < n" for q
    using cur that count by simp
  have "cur ! r + row_count r (e # evs) \<le> k" using Cons.prems(4) r by blast
  then have pos: "cur ! r < k" using count [of r] by simp
  have IH: "room k (snd (bucket_fill put evs ?cur ?s))"
    "\<forall>q < n. \<forall>i < row_count q evs. get (snd (bucket_fill put evs ?cur ?s)) (?cur ! q + i) = row_events q evs ! i"
    "\<forall>j. (\<forall>q < n. \<not> (?cur ! q \<le> j \<and> j < ?cur ! q + row_count q evs)) \<longrightarrow>
       get (snd (bucket_fill put evs ?cur ?s)) j = get ?s j"
  proof -
    have "room k ?s" using room_put Cons.prems(1) .
    moreover have "\<forall>q < n. \<forall>q' < n. q < q' \<longrightarrow> ?cur ! q + row_count q evs \<le> ?cur ! q'"
      using Cons.prems(5) ends cur by (metis le_add1 order_trans)
    ultimately show "room k (snd (bucket_fill put evs ?cur ?s))"
      "\<forall>q < n. \<forall>i < row_count q evs. get (snd (bucket_fill put evs ?cur ?s)) (?cur ! q + i) = row_events q evs ! i"
      "\<forall>j. (\<forall>q < n. \<not> (?cur ! q \<le> j \<and> j < ?cur ! q + row_count q evs)) \<longrightarrow>
         get (snd (bucket_fill put evs ?cur ?s)) j = get ?s j"
      using Cons.IH [of ?s ?cur] Cons.prems ends by auto
  qed
  have disjoint: "\<not> (?cur ! q \<le> cur ! r \<and> cur ! r < ?cur ! q + row_count q evs)" if q: "q < n" for q
  proof (cases q r rule: linorder_cases)
    case less
    then show ?thesis using Cons.prems(5) q r ends [OF q] by (metis not_less)
  next
    case equal
    then show ?thesis using cur [OF r] by simp
  next
    case greater
    then have "cur ! r + row_count r (e # evs) \<le> cur ! q" using Cons.prems(5) q r by blast
    then show ?thesis using cur [OF q] greater count [of r] by simp
  qed
  have at_pos: "get (snd (bucket_fill put evs ?cur ?s)) (cur ! r) = v"
    using IH(3) disjoint get_put [OF Cons.prems(1) pos] by auto
  have fill: "bucket_fill put (e # evs) cur s = bucket_fill put evs ?cur ?s" using e by simp
  have rows: "get (snd (bucket_fill put evs ?cur ?s)) (cur ! q + i) = row_events q (e # evs) ! i"
    if q: "q < n" and i: "i < row_count q (e # evs)" for q i
  proof (cases "q = r")
    case True
    then show ?thesis
    proof (cases i)
      case 0
      then show ?thesis using at_pos True e by simp
    next
      case (Suc i')
      then have "i' < row_count r evs" using i True e by simp
      then have "get (snd (bucket_fill put evs ?cur ?s)) (?cur ! r + i') = row_events r evs ! i'"
        using IH(2) r by blast
      then show ?thesis using Suc True e cur [OF r] by simp
    qed
  next
    case False
    then show ?thesis using IH(2) cur [OF q] e i q count [of q] by auto
  qed
  have rest: "get (snd (bucket_fill put evs ?cur ?s)) j = get s j"
    if j: "\<forall>q < n. \<not> (cur ! q \<le> j \<and> j < cur ! q + row_count q (e # evs))" for j
  proof -
    have "\<forall>q < n. \<not> (?cur ! q \<le> j \<and> j < ?cur ! q + row_count q evs)"
      using j ends cur by (metis le_add1 order_trans)
    moreover have "j \<noteq> cur ! r" using j r count [of r] by auto
    ultimately show ?thesis using IH(3) get_put [OF Cons.prems(1) pos] by simp
  qed
  show ?case using fill IH(1) rows rest by simp
qed

text \<open>From the offsets, every row holds its events.\<close>

theorem bucket_fill_rows:
  assumes "room (length evs) s" "\<forall>e \<in> set evs. fst e < n" "r < n"
  shows "map (get (snd (bucket_fill put evs (map (\<lambda>r. row_start r evs) [0 ..< n]) s)))
      [row_start r evs ..< row_start (Suc r) evs] = row_events r evs"
proof -
  let ?cur = "map (\<lambda>r. row_start r evs) [0 ..< n]"
  have "\<forall>r < n. ?cur ! r + row_count r evs \<le> length evs"
    using row_start_le [of _ evs] by (simp add: row_start_Suc [symmetric])
  moreover have "\<forall>r < n. \<forall>r' < n. r < r' \<longrightarrow> ?cur ! r + row_count r evs \<le> ?cur ! r'"
    by (simp add: row_start_Suc [symmetric] row_start_mono Suc_leI)
  ultimately have "\<forall>i < row_count r evs.
      get (snd (bucket_fill put evs ?cur s)) (row_start r evs + i) = row_events r evs ! i"
    using bucket_fill_regions [of "length evs" s ?cur n evs] assms by simp
  then show ?thesis by (intro nth_equalityI) (auto simp: row_start_Suc)
qed

lemma bucket_fill_room:
  "room k s \<Longrightarrow> room k (snd (bucket_fill put evs cur s))"
proof (induction evs arbitrary: cur s)
  case (Cons e evs)
  then show ?case using room_put by (cases e) simp
qed simp

end

text \<open>
  The two passes of \<open>finalize\<close> are counting passes: the forward one over the entries of the
  staged edges, each with its plasticity, the reverse one over the forward slots.
\<close>

section \<open>Two stores\<close>

definition columns_get :: "csr_graph \<times> edge_plasticity \<Rightarrow> nat \<Rightarrow> csr_slot \<times> plasticity_row" where
  "columns_get s j = (slot_at (fst s) j, plasticity_at (snd s) j)"

definition columns_put ::
  "nat \<Rightarrow> csr_slot \<times> plasticity_row \<Rightarrow> csr_graph \<times> edge_plasticity \<Rightarrow> csr_graph \<times> edge_plasticity" where
  "columns_put j v s = (slot_put j (fst v) (fst s), plasticity_put j (snd v) (snd s))"

definition csr_columns :: "nat \<Rightarrow> csr_graph \<Rightarrow> bool" where
  "csr_columns k c \<longleftrightarrow> length (cs_targets c) = k \<and> length (cs_weights c) = k \<and>
     length (cs_inhibitory c) = k \<and> length (cs_relations c) = k \<and> length (cs_directions c) = k \<and>
     length (cs_causal_strengths c) = k"

definition plasticity_rows :: "nat \<Rightarrow> edge_plasticity \<Rightarrow> bool" where
  "plasticity_rows k p \<longleftrightarrow> length (ep_original_weight p) = k \<and> length (ep_current_weight p) = k \<and>
     length (ep_strengthen_count p) = k \<and> length (ep_weaken_count p) = k \<and>
     length (ep_ltp_applied p) = k \<and> length (ep_ltd_applied p) = k \<and> length (ep_last_used_query p) = k"

definition columns_room :: "nat \<Rightarrow> csr_graph \<times> edge_plasticity \<Rightarrow> bool" where
  "columns_room k s \<longleftrightarrow> csr_columns k (fst s) \<and> plasticity_rows k (snd s)"

lemma slot_at_put:
  "csr_columns k c \<Longrightarrow> j < k \<Longrightarrow> slot_at (slot_put j s c) i = (if i = j then s else slot_at c i)"
  by (auto simp: slot_at_def slot_put_def csr_columns_def nth_list_update)

lemma plasticity_at_put:
  "plasticity_rows k p \<Longrightarrow> j < k \<Longrightarrow>
   plasticity_at (plasticity_put j r p) i = (if i = j then r else plasticity_at p i)"
  by (auto simp: plasticity_at_def plasticity_put_def plasticity_rows_def nth_list_update)

lemma csr_columns_put [simp]: "csr_columns k (slot_put j s c) = csr_columns k c"
  by (simp add: csr_columns_def slot_put_def)

lemma plasticity_rows_put [simp]: "plasticity_rows k (plasticity_put j r p) = plasticity_rows k p"
  by (simp add: plasticity_rows_def plasticity_put_def)

interpretation columns: slot_store columns_get columns_put columns_room
  by unfold_locales
    (auto simp: columns_get_def columns_put_def columns_room_def slot_at_put plasticity_at_put)

definition sources_get :: "node_id list \<times> edge_idx list \<Rightarrow> nat \<Rightarrow> node_id \<times> edge_idx" where
  "sources_get s j = (fst s ! j, snd s ! j)"

definition sources_put ::
  "nat \<Rightarrow> node_id \<times> edge_idx \<Rightarrow> node_id list \<times> edge_idx list \<Rightarrow> node_id list \<times> edge_idx list" where
  "sources_put j v s = ((fst s)[j := fst v], (snd s)[j := snd v])"

definition sources_room :: "nat \<Rightarrow> node_id list \<times> edge_idx list \<Rightarrow> bool" where
  "sources_room k s \<longleftrightarrow> length (fst s) = k \<and> length (snd s) = k"

interpretation sources: slot_store sources_get sources_put sources_room
  by unfold_locales (auto simp: sources_get_def sources_put_def sources_room_def nth_list_update)

section \<open>Forward\<close>

text \<open>The entries of a staged edge, by row: one at its source, and a mirror at its target.\<close>

definition edge_events ::
  "edge_plasticity \<Rightarrow> nat \<times> pending_edge \<Rightarrow> (nat \<times> csr_slot \<times> plasticity_row) list" where
  "edge_events old ie =
     (let e = snd ie; row = plasticity_at old (fst ie) in
      (unat (pe_source e), slot_of_edge e (pe_target e), row) #
      (if pe_direction e = EdgeBidirectional then [(unat (pe_target e), slot_of_edge e (pe_source e), row)] else []))"

definition all_events ::
  "edge_plasticity \<Rightarrow> (nat \<times> pending_edge) list \<Rightarrow> (nat \<times> csr_slot \<times> plasticity_row) list" where
  "all_events old indexed = concat (map (edge_events old) indexed)"

lemma all_events_simps [simp]:
  "all_events old [] = []" "all_events old (ie # ies) = edge_events old ie @ all_events old ies"
  by (auto simp: all_events_def)

lemma count_edges:
  "fold count_edge indexed xs =
   fold (\<lambda>ev xs. xs[Suc (fst ev) := xs ! Suc (fst ev) + 1]) (all_events old indexed) xs"
  by (induction indexed arbitrary: xs) (auto simp: count_edge_def edge_events_def Let_def bump_at_def)

lemma counts_nth:
  assumes "\<forall>ev \<in> set evs. fst ev < n" "r < n"
  shows "fold (\<lambda>ev xs. xs[Suc (fst ev) := xs ! Suc (fst ev) + 1]) evs (replicate (n + 1) 0) ! Suc r =
    row_count r evs"
proof -
  have "\<forall>ev \<in> set evs. Suc (fst ev) < length (replicate (n + 1) (0 :: nat))" using assms by auto
  then show ?thesis
    using fold_bump_nth [of "Suc r" "replicate (n + 1) 0" evs "\<lambda>ev. Suc (fst ev)"] assms(2)
    by (simp add: row_count_def)
qed

lemma counts_0:
  assumes "\<forall>ev \<in> set evs. fst ev < n"
  shows "fold (\<lambda>ev xs. xs[Suc (fst ev) := xs ! Suc (fst ev) + 1]) evs (replicate (n + 1) (0 :: nat)) ! 0 = 0"
proof -
  have "\<forall>ev \<in> set evs. Suc (fst ev) < length (replicate (n + 1) (0 :: nat))" using assms by auto
  then show ?thesis
    using fold_bump_nth [of 0 "replicate (n + 1) 0" evs "\<lambda>ev. Suc (fst ev)"] by (simp add: row_count_def)
qed

lemma counted_offsets:
  assumes "\<forall>ev \<in> set evs. fst ev < n"
  shows "prefix_sum n (fold (\<lambda>ev xs. xs[Suc (fst ev) := xs ! Suc (fst ev) + 1]) evs (replicate (n + 1) 0)) =
    map (\<lambda>r. row_start r evs) [0 ..< n + 1]"
  unfolding prefix_sum_def
  by (rule offsets_are_starts) (use assms counts_nth [OF assms] counts_0 [OF assms] in auto)

definition remap_step :: "edge_plasticity \<Rightarrow> nat \<times> nat \<Rightarrow> edge_plasticity \<Rightarrow> edge_plasticity" where
  "remap_step old op = plasticity_put (snd op) (plasticity_at old (fst op))"

lemma remap_plasticity_fold: "remap_plasticity old k m = fold (remap_step old) m (plasticity_zeros k)"
  unfolding remap_plasticity_def remap_step_def by (simp add: case_prod_beta')

text \<open>Filling and remapping at once is a bucket fill.\<close>

lemma fill_edge_events:
  "bucket_fill columns_put (edge_events old ie @ evs) (fs_cursors st) (fs_csr st, fold (remap_step old) (fs_mapping st) p0) =
   (let st' = fill_edge ie st in
    bucket_fill columns_put evs (fs_cursors st') (fs_csr st', fold (remap_step old) (fs_mapping st') p0))"
  by (auto simp: edge_events_def fill_edge_def place_slot_def columns_put_def remap_step_def Let_def bump_at_def)

lemma fill_is_bucket_fill:
  "bucket_fill columns_put (all_events old indexed) (fs_cursors st)
     (fs_csr st, fold (remap_step old) (fs_mapping st) p0) =
   (let st' = fold fill_edge indexed st in
    (fs_cursors st', (fs_csr st', fold (remap_step old) (fs_mapping st') p0)))"
proof (induction indexed arbitrary: st)
  case (Cons ie indexed)
  show ?case unfolding all_events_simps fill_edge_events Let_def Cons.IH by simp
qed simp

lemma events_in_rows:
  assumes "\<forall>ie \<in> set indexed. unat (pe_source (snd ie)) < n \<and> unat (pe_target (snd ie)) < n"
  shows "\<forall>ev \<in> set (all_events old indexed). fst ev < n"
  using assms by (induction indexed) (auto simp: edge_events_def Let_def)

lemma zero_columns_ok [simp]: "csr_columns k (zero_columns k offs)"
  by (simp add: csr_columns_def zero_columns_def)

lemma plasticity_zeros_ok [simp]: "plasticity_rows k (plasticity_zeros k)"
  by (simp add: plasticity_rows_def plasticity_zeros_def)

lemma fill_keeps_offsets: "cs_offsets (fs_csr (fold fill_edge indexed st)) = cs_offsets (fs_csr st)"
proof (induction indexed arbitrary: st)
  case (Cons ie indexed)
  have "cs_offsets (fs_csr (fill_edge ie st)) = cs_offsets (fs_csr st)"
    by (auto simp: fill_edge_def place_slot_def slot_put_def Let_def)
  then show ?case using Cons.IH by simp
qed simp

lemma fill_keeps_pending: "cs_pending_edges (fs_csr (fold fill_edge indexed st)) = cs_pending_edges (fs_csr st)"
proof (induction indexed arbitrary: st)
  case (Cons ie indexed)
  have "cs_pending_edges (fs_csr (fill_edge ie st)) = cs_pending_edges (fs_csr st)"
    by (auto simp: fill_edge_def place_slot_def slot_put_def Let_def)
  then show ?case using Cons.IH by simp
qed simp

theorem forward_rows:
  fixes old :: edge_plasticity
  assumes "\<forall>ie \<in> set indexed. unat (pe_source (snd ie)) < n \<and> unat (pe_target (snd ie)) < n"
    and "forward_csr n indexed = (c, mapping)"
  defines "evs \<equiv> all_events old indexed"
    and "p \<equiv> remap_plasticity old (last (cs_offsets c)) mapping"
  shows "cs_offsets c = map (\<lambda>r. row_start r evs) [0 ..< n + 1]"
    and "last (cs_offsets c) = length evs"
    and "cs_pending_edges c = [] \<and> csr_columns (length evs) c" and "plasticity_rows (length evs) p"
    and "r < n \<Longrightarrow> map (columns_get (c, p)) [cs_offsets c ! r ..< cs_offsets c ! Suc r] = row_events r evs"
proof -
  have rows: "\<forall>ev \<in> set evs. fst ev < n" unfolding evs_def by (rule events_in_rows [OF assms(1)])
  let ?offs = "map (\<lambda>r. row_start r evs) [0 ..< n + 1]"
  have offs: "prefix_sum n (fold count_edge indexed (replicate (n + 1) 0)) = ?offs"
    unfolding count_edges [where old = old] evs_def [symmetric] by (rule counted_offsets [OF rows])
  have last: "last ?offs = length evs" using row_start_all [OF rows] by simp
  let ?st = "\<lparr>fs_cursors = take n ?offs, fs_csr = zero_columns (length evs) ?offs, fs_mapping = []\<rparr>"
  let ?st' = "fold fill_edge indexed ?st"
  have c: "c = fs_csr ?st'" and m: "mapping = fs_mapping ?st'"
    using assms(2) unfolding forward_csr_def offs Let_def last by auto
  show offsets: "cs_offsets c = ?offs"
    unfolding c fill_keeps_offsets by (simp add: zero_columns_def csr_empty_def)
  then show total: "last (cs_offsets c) = length evs" using last by simp
  have pending: "cs_pending_edges c = []"
    unfolding c fill_keeps_pending by (simp add: zero_columns_def csr_empty_def)
  have cur: "take n ?offs = map (\<lambda>r. row_start r evs) [0 ..< n]"
    by (simp add: take_map)
  have p: "p = fold (remap_step old) mapping (plasticity_zeros (length evs))"
    unfolding p_def total remap_plasticity_fold ..
  have "bucket_fill columns_put evs (take n ?offs) (zero_columns (length evs) ?offs, plasticity_zeros (length evs)) =
      (fs_cursors ?st', (fs_csr ?st', fold (remap_step old) (fs_mapping ?st') (plasticity_zeros (length evs))))"
    using fill_is_bucket_fill [of old indexed ?st "plasticity_zeros (length evs)"]
    by (simp add: evs_def Let_def)
  then have fill: "snd (bucket_fill columns_put evs (map (\<lambda>r. row_start r evs) [0 ..< n])
      (zero_columns (length evs) ?offs, plasticity_zeros (length evs))) = (c, p)"
    unfolding cur p unfolding c m by simp
  have room: "columns_room (length evs) (zero_columns (length evs) ?offs, plasticity_zeros (length evs))"
    by (simp add: columns_room_def)
  have "columns_room (length evs) (c, p)"
    using columns.bucket_fill_room [OF room] fill by metis
  then show "cs_pending_edges c = [] \<and> csr_columns (length evs) c" "plasticity_rows (length evs) p"
    using pending by (auto simp: columns_room_def)
  show "map (columns_get (c, p)) [cs_offsets c ! r ..< cs_offsets c ! Suc r] = row_events r evs" if "r < n"
    using columns.bucket_fill_rows [OF room rows that] fill that unfolding offsets by (simp del: upt_Suc)
qed

section \<open>Reverse\<close>

definition row_rev_events :: "csr_graph \<Rightarrow> nat \<Rightarrow> (nat \<times> node_id \<times> edge_idx) list" where
  "row_rev_events c src =
     map (\<lambda>j. (unat (cs_targets c ! j), of_nat src, of_nat j)) [cs_offsets c ! src ..< cs_offsets c ! (src + 1)]"

definition rev_events :: "csr_graph \<Rightarrow> nat list \<Rightarrow> (nat \<times> node_id \<times> edge_idx) list" where
  "rev_events c srcs = concat (map (row_rev_events c) srcs)"

lemma slice_as_map: "hi \<le> length xs \<Longrightarrow> drop lo (take hi xs) = map ((!) xs) [lo ..< hi]"
  by (rule nth_equalityI) auto

lemma count_row_events:
  assumes "cs_offsets c ! (i + 1) \<le> length (cs_targets c)"
  shows "count_row c i xs = fold (\<lambda>ev xs. xs[Suc (fst ev) := xs ! Suc (fst ev) + 1]) (row_rev_events c i) xs"
  unfolding count_row_def slice_as_map [OF assms] row_rev_events_def
  by (simp add: fold_map comp_def bump_at_def [abs_def])

lemma count_rows_events:
  assumes "\<forall>i \<in> set srcs. cs_offsets c ! (i + 1) \<le> length (cs_targets c)"
  shows "fold (count_row c) srcs xs =
    fold (\<lambda>ev xs. xs[Suc (fst ev) := xs ! Suc (fst ev) + 1]) (rev_events c srcs) xs"
  using assms
  by (induction srcs arbitrary: xs) (simp_all add: rev_events_def count_row_events)

lemma rev_row_fill:
  "fold (rev_slot c src) js (cur, srcs, edges) =
   (let (cur', s) = bucket_fill sources_put (map (\<lambda>j. (unat (cs_targets c ! j), of_nat src, of_nat j)) js)
      cur (srcs, edges) in (cur', fst s, snd s))"
  by (induction js arbitrary: cur srcs edges)
    (simp_all add: rev_slot_def sources_put_def bump_at_def Let_def case_prod_beta')

lemma bucket_fill_append:
  "bucket_fill put (evs @ fvs) cur s = (let (cur', s') = bucket_fill put evs cur s in bucket_fill put fvs cur' s')"
  by (induction evs arbitrary: cur s) (auto simp: Let_def)

lemma rev_rows_fill:
  "fold (rev_row c) srcs (cur, ss, es) =
   (let (cur', s) = bucket_fill sources_put (rev_events c srcs) cur (ss, es) in (cur', fst s, snd s))"
proof (induction srcs arbitrary: cur ss es)
  case Nil
  then show ?case by (simp add: rev_events_def)
next
  case (Cons src srcs)
  obtain cur1 s1 where s1: "bucket_fill sources_put (row_rev_events c src) cur (ss, es) = (cur1, s1)" by (metis surj_pair)
  then have "rev_row c src (cur, ss, es) = (cur1, fst s1, snd s1)"
    unfolding rev_row_def rev_row_fill row_rev_events_def by simp
  then show ?case
    using Cons.IH [of cur1 "fst s1" "snd s1"] s1
    by (simp add: rev_events_def bucket_fill_append)
qed

theorem reverse_rows:
  assumes "length (cs_offsets c) = n + 1"
    and "\<forall>i < n. cs_offsets c ! (i + 1) \<le> length (cs_targets c)"
    and "\<forall>t \<in> set (cs_targets c). unat t < n"
  defines "evs \<equiv> rev_events c [0 ..< n]" and "c' \<equiv> reverse_csr n c"
  shows "cs_rev_offsets c' = map (\<lambda>r. row_start r evs) [0 ..< n + 1]"
    and "r < n \<Longrightarrow> map (\<lambda>k. (cs_rev_sources c' ! k, cs_rev_edge_idx c' ! k))
      [cs_rev_offsets c' ! r ..< cs_rev_offsets c' ! Suc r] = row_events r evs"
    and "length (cs_rev_sources c') = length evs" and "length (cs_rev_edge_idx c') = length evs"
proof -
  have "unat (cs_targets c ! j) < n" if "i < n" "j < cs_offsets c ! (i + 1)" for i j
    using assms(2,3) that by (meson nth_mem order_less_le_trans)
  then have rows: "\<forall>ev \<in> set evs. fst ev < n"
    by (auto simp: evs_def rev_events_def row_rev_events_def)
  let ?offs = "map (\<lambda>r. row_start r evs) [0 ..< n + 1]"
  have offs: "prefix_sum n (fold (count_row c) [0 ..< n] (replicate (n + 1) 0)) = ?offs"
    using counted_offsets [OF rows] count_rows_events [of "[0 ..< n]" c] assms(2) by (simp add: evs_def)
  have last: "last ?offs = length evs" using row_start_all [OF rows] by simp
  have cur: "take n ?offs = map (\<lambda>r. row_start r evs) [0 ..< n]" by (simp add: take_map)
  let ?z = "(replicate (length evs) 0, replicate (length evs) 0)"
  obtain cur' s where s: "bucket_fill sources_put evs (map (\<lambda>r. row_start r evs) [0 ..< n]) ?z = (cur', s)" by (metis surj_pair)
  have c': "c' = c\<lparr>cs_rev_offsets := ?offs, cs_rev_sources := fst s, cs_rev_edge_idx := snd s\<rparr>"
    unfolding c'_def reverse_csr_def offs Let_def last cur rev_rows_fill
    using s by (simp add: evs_def case_prod_beta')
  have room: "sources_room (length evs) ?z" by (simp add: sources_room_def)
  show "cs_rev_offsets c' = ?offs" unfolding c' by simp
  have "sources_room (length evs) s" using sources.bucket_fill_room [OF room] s by (metis snd_conv)
  then show "length (cs_rev_sources c') = length evs" "length (cs_rev_edge_idx c') = length evs"
    by (auto simp: c' sources_room_def)
  show "map (\<lambda>k. (cs_rev_sources c' ! k, cs_rev_edge_idx c' ! k))
      [cs_rev_offsets c' ! r ..< cs_rev_offsets c' ! Suc r] = row_events r evs" if "r < n"
    using sources.bucket_fill_rows [OF room rows that] s that
    by (simp add: c' sources_get_def [abs_def] del: upt_Suc)
qed

lemma reverse_keeps [simp]:
  "cs_offsets (reverse_csr n c) = cs_offsets c" "slot_at (reverse_csr n c) = slot_at c"
  "csr_columns k (reverse_csr n c) = csr_columns k c" "cs_pending_edges (reverse_csr n c) = cs_pending_edges c"
  "cs_targets (reverse_csr n c) = cs_targets c"
  by (simp_all add: reverse_csr_def Let_def case_prod_beta' slot_at_def [abs_def] csr_columns_def)

end
