(* ===== verification/Graph_Shapes.thy ===== *)
theory Graph_Shapes
  imports Graph_Rows "HOL-Library.Multiset"
begin

text \<open>
  What a graph says, apart from weights: its shapes are the directed edges that queries walk, a
  bidirectional edge being two.  Staging, harvesting and rebuilding are described on multisets of shapes.
\<close>

record edge_shape =
  sh_source :: nat
  sh_target :: nat
  sh_relation :: interned
  sh_inhibitory :: bool
  sh_direction :: edge_direction
  sh_causal_strength :: f32

definition mirror :: "edge_shape \<Rightarrow> edge_shape" where
  "mirror s = s\<lparr>sh_source := sh_target s, sh_target := sh_source s\<rparr>"

definition shape_arcs :: "edge_shape \<Rightarrow> edge_shape multiset" where
  "shape_arcs s = (if sh_direction s = EdgeBidirectional then {#s, mirror s#} else {#s#})"

text \<open>The shapes that the harvest takes back: not the mirrors.\<close>

definition canonical_shape :: "edge_shape \<Rightarrow> bool" where
  "canonical_shape s \<longleftrightarrow> \<not> (sh_direction s = EdgeBidirectional \<and> sh_source s > sh_target s)"

definition loop_shape :: "edge_shape \<Rightarrow> bool" where
  "loop_shape s \<longleftrightarrow> sh_direction s = EdgeBidirectional \<and> sh_source s = sh_target s"

definition pending_shape :: "pending_edge \<Rightarrow> edge_shape" where
  "pending_shape e =
     \<lparr>sh_source = unat (pe_source e), sh_target = unat (pe_target e), sh_relation = pe_relation e,
      sh_inhibitory = pe_inhibitory e, sh_direction = pe_direction e,
      sh_causal_strength = pe_causal_strength e\<rparr>"

definition slot_shape :: "nat \<Rightarrow> csr_slot \<Rightarrow> edge_shape" where
  "slot_shape r s =
     \<lparr>sh_source = r, sh_target = unat (sl_target s), sh_relation = sl_relation s,
      sh_inhibitory = sl_inhibitory s, sh_direction = sl_direction s,
      sh_causal_strength = sl_causal_strength s\<rparr>"

definition csr_row_shapes :: "csr_graph \<Rightarrow> nat \<Rightarrow> edge_shape list" where
  "csr_row_shapes c r = map (\<lambda>j. slot_shape r (slot_at c j)) [cs_offsets c ! r ..< cs_offsets c ! (r + 1)]"

definition csr_shapes :: "csr_graph \<Rightarrow> edge_shape multiset" where
  "csr_shapes c = mset (concat (map (csr_row_shapes c) [0 ..< length (cs_offsets c) - 1]))"

definition pending_arcs :: "pending_edge list \<Rightarrow> edge_shape multiset" where
  "pending_arcs es = (\<Sum>e \<in># mset es. shape_arcs (pending_shape e))"

lemma pending_arcs_simps [simp]:
  "pending_arcs [] = {#}" "pending_arcs (e # es) = shape_arcs (pending_shape e) + pending_arcs es"
  "pending_arcs (es @ fs) = pending_arcs es + pending_arcs fs"
  by (auto simp: pending_arcs_def)

lemma mirror_mirror [simp]: "mirror (mirror s) = s"
  by (simp add: mirror_def)

lemma shape_arcs_mirror: "sh_direction s = EdgeBidirectional \<Longrightarrow> shape_arcs (mirror s) = shape_arcs s"
  by (simp add: shape_arcs_def mirror_def add_mset_commute)

text \<open>Of the arcs of an edge that is no loop exactly one is canonical, and it has the arcs of the edge.\<close>

lemma harvest_edge:
  "\<not> loop_shape s \<Longrightarrow> (\<Sum>a \<in># filter_mset canonical_shape (shape_arcs s). shape_arcs a) = shape_arcs s"
  by (cases "sh_source s" "sh_target s" rule: linorder_cases)
    (auto simp: canonical_shape_def loop_shape_def shape_arcs_def mirror_def)

lemma harvest_arcs:
  assumes "\<forall>s \<in># S. \<not> loop_shape s"
  shows "(\<Sum>a \<in># filter_mset canonical_shape (\<Sum>s \<in># S. shape_arcs s). shape_arcs a) =
    (\<Sum>s \<in># S. shape_arcs s)"
  using assms by (induction S) (simp_all add: harvest_edge)

section \<open>Rebuilding\<close>

lemma rows_partition:
  "\<forall>e \<in> set evs. fst e < n \<Longrightarrow>
   mset (concat (map (\<lambda>r. map (Pair r) (row_events r evs)) [0 ..< n])) = mset evs"
proof (induction evs)
  case Nil
  have "concat (map (\<lambda>r. map (Pair r) (row_events r [])) [0 ..< n]) = []" by simp
  then show ?case by simp
next
  case (Cons e evs)
  obtain r v where e: "e = (r, v)" by force
  have "mset (concat (map (\<lambda>q. map (Pair q) (row_events q (e # evs))) qs)) =
      mset (concat (map (\<lambda>q. map (Pair q) (row_events q evs)) qs)) + (if r \<in> set qs then {#e#} else {#})"
    if "distinct qs" for qs
    using that e by (induction qs) auto
  from this [of "[0 ..< n]"] show ?case using Cons e by simp
qed

definition event_shape :: "nat \<times> csr_slot \<times> plasticity_row \<Rightarrow> edge_shape" where
  "event_shape ev = slot_shape (fst ev) (fst (snd ev))"

lemma edge_event_shapes:
  "image_mset event_shape (mset (edge_events old ie)) = shape_arcs (pending_shape (snd ie))"
  by (simp add: edge_events_def Let_def event_shape_def shape_arcs_def pending_shape_def slot_shape_def
      slot_of_edge_def mirror_def)

lemma all_event_shapes:
  "image_mset event_shape (mset (all_events old indexed)) = pending_arcs (map snd indexed)"
  by (induction indexed) (simp_all add: edge_event_shapes)

lemma pending_arcs_mset: "mset es = mset fs \<Longrightarrow> pending_arcs es = pending_arcs fs"
  by (simp add: pending_arcs_def)

definition staged_order :: "pending_edge list \<Rightarrow> (nat \<times> pending_edge) list" where
  "staged_order es = sort_key (\<lambda>(_, e). pe_source e) (enumerate 0 es)"

lemma staged_order_edges: "mset (map snd (staged_order es)) = mset es"
proof -
  have "mset (map snd (staged_order es)) = image_mset snd (mset (enumerate 0 es))"
    unfolding staged_order_def mset_map mset_sort ..
  also have "\<dots> = mset (map snd (enumerate 0 es))" by (simp only: mset_map)
  finally show ?thesis by (simp only: map_snd_enumerate)
qed

lemma staged_order_set: "ie \<in> set (staged_order es) \<Longrightarrow> snd ie \<in> set es"
  unfolding staged_order_def by (auto simp: in_set_enumerate_eq dest: nth_mem)

text \<open>What a rebuilt graph is: its offsets, the size of its vectors, and its rows.\<close>

definition staged_ok :: "graph \<Rightarrow> bool" where
  "staged_ok g \<longleftrightarrow> (\<forall>e \<in> set (cs_pending_edges (gr_csr g)).
     unat (pe_source e) < unat (nd_count (gr_nodes g)) \<and> unat (pe_target e) < unat (nd_count (gr_nodes g)))"

definition staged_events :: "graph \<Rightarrow> (nat \<times> csr_slot \<times> plasticity_row) list" where
  "staged_events g = all_events (gr_edge_plasticity g) (staged_order (cs_pending_edges (gr_csr g)))"

lemma staged_events_rows:
  "staged_ok g \<Longrightarrow> \<forall>ev \<in> set (staged_events g). fst ev < unat (nd_count (gr_nodes g))"
  unfolding staged_events_def
  by (rule events_in_rows) (auto simp: staged_ok_def dest!: staged_order_set)

theorem rebuild_rows:
  assumes "staged_ok g"
  defines "n \<equiv> unat (nd_count (gr_nodes g))" and "evs \<equiv> staged_events g" and "g' \<equiv> rebuild g"
  shows "cs_offsets (gr_csr g') = map (\<lambda>r. row_start r evs) [0 ..< n + 1]"
    and "csr_columns (length evs) (gr_csr g')" and "plasticity_rows (length evs) (gr_edge_plasticity g')"
    and "csr_num_edges (gr_csr g') = length evs" and "cs_pending_edges (gr_csr g') = []"
    and "r < n \<Longrightarrow> map (columns_get (gr_csr g', gr_edge_plasticity g'))
      [cs_offsets (gr_csr g') ! r ..< cs_offsets (gr_csr g') ! Suc r] = row_events r evs"
proof -
  obtain c m where cm: "forward_csr n (staged_order (cs_pending_edges (gr_csr g))) = (c, m)" by force
  have ends: "\<forall>ie \<in> set (staged_order (cs_pending_edges (gr_csr g))).
      unat (pe_source (snd ie)) < n \<and> unat (pe_target (snd ie)) < n"
    using assms(1) by (auto simp: staged_ok_def n_def dest!: staged_order_set)
  note rows = forward_rows [OF ends cm, where old = "gr_edge_plasticity g", folded staged_events_def, folded evs_def]
  have g': "gr_csr g' = reverse_csr n c"
    "gr_edge_plasticity g' = remap_plasticity (gr_edge_plasticity g) (last (cs_offsets c)) m"
    using cm by (simp_all add: g'_def rebuild_def n_def Let_def staged_order_def)
  show "cs_offsets (gr_csr g') = map (\<lambda>r. row_start r evs) [0 ..< n + 1]"
    unfolding g' reverse_keeps by (rule rows(1))
  then show "csr_num_edges (gr_csr g') = length evs"
    using rows(1,2) by (simp add: csr_num_edges_def g')
  show "csr_columns (length evs) (gr_csr g')" unfolding g' reverse_keeps using rows(3) by blast
  show "plasticity_rows (length evs) (gr_edge_plasticity g')" unfolding g' by (rule rows(4))
  show "cs_pending_edges (gr_csr g') = []" unfolding g' reverse_keeps using rows(3) by blast
  show "map (columns_get (gr_csr g', gr_edge_plasticity g'))
      [cs_offsets (gr_csr g') ! r ..< cs_offsets (gr_csr g') ! Suc r] = row_events r evs" if "r < n"
    using rows(5) [OF that] by (simp add: g' columns_get_def [abs_def])
qed

lemma rebuild_row_shapes:
  assumes "staged_ok g" "r < unat (nd_count (gr_nodes g))"
  shows "csr_row_shapes (gr_csr (rebuild g)) r = map (\<lambda>v. slot_shape r (fst v)) (row_events r (staged_events g))"
  unfolding rebuild_rows(6) [OF assms, symmetric] csr_row_shapes_def
  by (simp add: comp_def columns_get_def)

theorem rebuild_shapes:
  assumes "staged_ok g"
  shows "csr_shapes (gr_csr (rebuild g)) = pending_arcs (cs_pending_edges (gr_csr g))"
proof -
  let ?n = "unat (nd_count (gr_nodes g))" and ?evs = "staged_events g"
  have len: "length (cs_offsets (gr_csr (rebuild g))) - 1 = ?n"
    using rebuild_rows(1) [OF assms] by simp
  have "map (csr_row_shapes (gr_csr (rebuild g))) [0 ..< ?n] =
      map (\<lambda>r. map event_shape (map (Pair r) (row_events r ?evs))) [0 ..< ?n]"
    by (rule map_cong) (simp_all add: rebuild_row_shapes [OF assms] event_shape_def comp_def)
  then have rows: "concat (map (csr_row_shapes (gr_csr (rebuild g))) [0 ..< ?n]) =
      map event_shape (concat (map (\<lambda>r. map (Pair r) (row_events r ?evs)) [0 ..< ?n]))"
    by (simp only: map_concat map_map comp_def)
  have "csr_shapes (gr_csr (rebuild g)) =
      image_mset event_shape (mset (concat (map (\<lambda>r. map (Pair r) (row_events r ?evs)) [0 ..< ?n])))"
    unfolding csr_shapes_def len rows mset_map ..
  also have "\<dots> = image_mset event_shape (mset ?evs)"
    using rows_partition [OF staged_events_rows [OF assms]] by simp
  also have "\<dots> = pending_arcs (cs_pending_edges (gr_csr g))"
    unfolding staged_events_def all_event_shapes
    by (rule pending_arcs_mset [OF staged_order_edges])
  finally show ?thesis .
qed

text \<open>
  The harvest takes the canonical slots back, and \<open>finalize\<close> in terms of shapes: what was in the rows and
  what was staged is in the rows afterwards, unless the rows hold a bidirectional loop.
\<close>

section \<open>Well-formed edges\<close>

definition csr_ok :: "nat \<Rightarrow> csr_graph \<Rightarrow> bool" where
  "csr_ok n c \<longleftrightarrow> length (cs_offsets c) \<le> n + 1 \<and> csr_columns (csr_num_edges c) c \<and>
     (\<forall>r < length (cs_offsets c) - 1. cs_offsets c ! (r + 1) \<le> csr_num_edges c) \<and>
     (\<forall>t \<in> set (cs_targets c). unat t < n)"

definition edges_ok :: "graph \<Rightarrow> bool" where
  "edges_ok g \<longleftrightarrow> csr_ok (unat (nd_count (gr_nodes g))) (gr_csr g) \<and> staged_ok g \<and>
     plasticity_rows (csr_num_edges (gr_csr g) + length (cs_pending_edges (gr_csr g))) (gr_edge_plasticity g)"

lemma plasticity_append_ok:
  "plasticity_rows k p \<Longrightarrow> plasticity_rows m q \<Longrightarrow> plasticity_rows (k + m) (plasticity_append p q)"
  by (simp add: plasticity_rows_def plasticity_append_def)

lemma plasticity_tail_ok: "plasticity_rows (k + m) p \<Longrightarrow> plasticity_rows m (plasticity_tail k p)"
  by (simp add: plasticity_rows_def plasticity_tail_def)

lemma plasticity_single_ok [simp]: "plasticity_rows (Suc 0) (plasticity_single r)"
  by (simp add: plasticity_rows_def plasticity_single_def)

lemma plasticity_new_ok [simp]: "plasticity_rows 0 plasticity_new"
  by (simp add: plasticity_rows_def plasticity_new_def)

section \<open>The harvest\<close>

text \<open>The loop invariant: shapes, end points and plasticity of what is harvested so far.\<close>

definition harvested :: "nat \<Rightarrow> edge_shape multiset \<Rightarrow> pending_edge list \<times> edge_plasticity \<Rightarrow> bool" where
  "harvested n S acc \<longleftrightarrow> image_mset pending_shape (mset (fst acc)) = S \<and>
     (\<forall>e \<in> set (fst acc). unat (pe_source e) < n \<and> unat (pe_target e) < n) \<and>
     plasticity_rows (length (fst acc)) (snd acc)"

lemma harvest_slot_step:
  assumes "harvested n S acc" "src < n" "n \<le> 2 ^ 32" "unat (cs_targets (gr_csr g) ! j) < n"
  shows "harvested n (S + filter_mset canonical_shape {#slot_shape src (slot_at (gr_csr g) j)#}) (harvest_slot g src j acc)"
proof -
  have "unat (of_nat src :: node_id) = src" using assms(2,3) by simp
  then show ?thesis
    using assms plasticity_append_ok [of "length (fst acc)" "snd acc" 1]
    by (auto simp: harvested_def harvest_slot_def Let_def canonical_shape_def slot_shape_def slot_at_def
        pending_shape_def)
qed

lemma harvest_slots:
  assumes "src < n" "n \<le> 2 ^ 32" "\<forall>j \<in> set js. unat (cs_targets (gr_csr g) ! j) < n"
  shows "harvested n S acc \<Longrightarrow>
    harvested n (S + filter_mset canonical_shape (mset (map (\<lambda>j. slot_shape src (slot_at (gr_csr g) j)) js)))
      (fold (harvest_slot g src) js acc)"
  using assms(3)
proof (induction js arbitrary: S acc)
  case (Cons j js)
  let ?s = "slot_shape src (slot_at (gr_csr g) j)"
  have "harvested n (S + filter_mset canonical_shape {#?s#}) (harvest_slot g src j acc)"
    using harvest_slot_step Cons.prems assms(1,2) by simp
  from Cons.IH [OF this] Cons.prems(2) show ?case by (cases "canonical_shape ?s") simp_all
qed simp

lemma harvest_rows:
  assumes "n \<le> 2 ^ 32" "\<forall>r \<in> set rows. r < n \<and> cs_offsets (gr_csr g) ! (r + 1) \<le> length (cs_targets (gr_csr g))"
    and "\<forall>t \<in> set (cs_targets (gr_csr g)). unat t < n"
  shows "harvested n S acc \<Longrightarrow>
    harvested n (S + filter_mset canonical_shape (mset (concat (map (csr_row_shapes (gr_csr g)) rows))))
      (fold (harvest_row g) rows acc)"
  using assms(2)
proof (induction rows arbitrary: S acc)
  case (Cons r rows)
  let ?js = "[cs_offsets (gr_csr g) ! r ..< cs_offsets (gr_csr g) ! (r + 1)]"
  have "\<forall>j \<in> set ?js. unat (cs_targets (gr_csr g) ! j) < n"
    using Cons.prems(2) assms(3) by (auto intro!: bspec [OF assms(3)])
  then have "harvested n (S + filter_mset canonical_shape (mset (csr_row_shapes (gr_csr g) r))) (harvest_row g r acc)"
    unfolding harvest_row_def csr_row_shapes_def
    by (intro harvest_slots) (use Cons.prems assms(1) in simp_all)
  from Cons.IH [OF this] Cons.prems(2) show ?case by (simp add: ac_simps)
qed simp

lemma csr_ok_rows: "csr_ok n c \<Longrightarrow> r \<in> set [0 ..< length (cs_offsets c) - 1] \<Longrightarrow>
    r < n \<and> cs_offsets c ! (r + 1) \<le> length (cs_targets c)"
  by (auto simp: csr_ok_def csr_columns_def)

theorem harvest_shapes:
  assumes "edges_ok g"
  shows "harvested (unat (nd_count (gr_nodes g))) (filter_mset canonical_shape (csr_shapes (gr_csr g))) (harvest g)"
proof -
  let ?n = "unat (nd_count (gr_nodes g))" and ?rows = "[0 ..< length (cs_offsets (gr_csr g)) - 1]"
  have ok: "csr_ok ?n (gr_csr g)" using assms by (simp add: edges_ok_def)
  have "?n < 2 ^ LENGTH(32)" by (rule unsigned_less)
  then have "?n \<le> 2 ^ 32" by simp
  moreover have "harvested ?n {#} ([], plasticity_new)" by (simp add: harvested_def)
  ultimately have "harvested ?n ({#} + filter_mset canonical_shape (mset (concat (map (csr_row_shapes (gr_csr g)) ?rows))))
      (fold (harvest_row g) ?rows ([], plasticity_new))"
    using csr_ok_rows [OF ok] ok by (intro harvest_rows) (auto simp: csr_ok_def)
  then show ?thesis by (simp add: harvest_def csr_shapes_def)
qed

section \<open>Finalize\<close>

definition graph_arcs :: "graph \<Rightarrow> edge_shape multiset" where
  "graph_arcs g = csr_shapes (gr_csr g) + pending_arcs (cs_pending_edges (gr_csr g))"

definition staged_graph :: "graph \<Rightarrow> graph" where
  "staged_graph g = (if csr_num_edges (gr_csr g) > 0 then rehydrate_csr_into_pending g else g)"

lemma pagerank_keeps [simp]:
  "gr_csr (compute_pagerank F d m t g) = gr_csr g"
  "gr_edge_plasticity (compute_pagerank F d m t g) = gr_edge_plasticity g"
  "gr_strings (compute_pagerank F d m t g) = gr_strings g"
  "gr_id_to_node (compute_pagerank F d m t g) = gr_id_to_node g"
  "gr_generation (compute_pagerank F d m t g) = gr_generation g"
  "nd_count (gr_nodes (compute_pagerank F d m t g)) = nd_count (gr_nodes g)"
  by (simp_all add: compute_pagerank_def Let_def)

lemma rebuild_keeps [simp]:
  "gr_nodes (rebuild g) = gr_nodes g" "gr_strings (rebuild g) = gr_strings g"
  "gr_id_to_node (rebuild g) = gr_id_to_node g" "gr_generation (rebuild g) = gr_generation g"
  by (simp_all add: rebuild_def Let_def case_prod_beta')

lemma staged_keeps [simp]:
  "gr_nodes (staged_graph g) = gr_nodes g" "gr_strings (staged_graph g) = gr_strings g"
  "gr_id_to_node (staged_graph g) = gr_id_to_node g" "gr_generation (staged_graph g) = gr_generation g"
  by (simp_all add: staged_graph_def rehydrate_csr_into_pending_def Let_def)

lemma finalize_parts:
  assumes "\<not> gr_finalized g"
  shows "gr_csr (finalize F g) = gr_csr (rebuild (staged_graph g))"
    and "gr_edge_plasticity (finalize F g) = gr_edge_plasticity (rebuild (staged_graph g))"
    and "gr_strings (finalize F g) = gr_strings g" and "gr_id_to_node (finalize F g) = gr_id_to_node g"
    and "nd_count (gr_nodes (finalize F g)) = nd_count (gr_nodes g)"
    and "gr_generation (finalize F g) = gr_generation g"
    and "gr_finalized (finalize F g)"
  using assms by (simp_all add: finalize_def Let_def flip: staged_graph_def)

lemma no_edges_no_shapes:
  assumes "edges_ok g" "csr_num_edges (gr_csr g) = 0"
  shows "csr_shapes (gr_csr g) = {#}"
proof -
  have "\<forall>r \<in> set [0 ..< length (cs_offsets (gr_csr g)) - 1]. csr_row_shapes (gr_csr g) r = []"
    using assms by (auto simp: edges_ok_def csr_ok_def csr_row_shapes_def)
  then show ?thesis by (simp add: csr_shapes_def)
qed

text \<open>The staged edges of the second half: the harvest in front of what was staged.\<close>

lemma staged_graph_ok:
  assumes "edges_ok g"
  shows "staged_ok (staged_graph g)"
    and "pending_arcs (cs_pending_edges (gr_csr (staged_graph g))) =
      (\<Sum>a \<in># filter_mset canonical_shape (csr_shapes (gr_csr g)). shape_arcs a) +
      pending_arcs (cs_pending_edges (gr_csr g))"
    and "plasticity_rows (length (cs_pending_edges (gr_csr (staged_graph g)))) (gr_edge_plasticity (staged_graph g))"
proof -
  note h = harvest_shapes [OF assms, unfolded harvested_def]
  have arcs: "pending_arcs (fst (harvest g)) =
      (\<Sum>a \<in># filter_mset canonical_shape (csr_shapes (gr_csr g)). shape_arcs a)"
    using conjunct1 [OF h, symmetric] by (simp add: pending_arcs_def image_mset.compositionality comp_def)
  show "staged_ok (staged_graph g)"
    using assms h by (auto simp: staged_graph_def staged_ok_def rehydrate_csr_into_pending_def Let_def edges_ok_def)
  show "pending_arcs (cs_pending_edges (gr_csr (staged_graph g))) =
      (\<Sum>a \<in># filter_mset canonical_shape (csr_shapes (gr_csr g)). shape_arcs a) +
      pending_arcs (cs_pending_edges (gr_csr g))"
    using arcs no_edges_no_shapes [OF assms]
    by (simp add: staged_graph_def rehydrate_csr_into_pending_def Let_def)
  show "plasticity_rows (length (cs_pending_edges (gr_csr (staged_graph g)))) (gr_edge_plasticity (staged_graph g))"
    using assms h
    by (auto simp: staged_graph_def rehydrate_csr_into_pending_def Let_def edges_ok_def
        intro!: plasticity_append_ok plasticity_tail_ok)
qed

theorem finalize_shapes:
  assumes "edges_ok g" "\<not> gr_finalized g"
  shows "csr_shapes (gr_csr (finalize F g)) =
    (\<Sum>a \<in># filter_mset canonical_shape (csr_shapes (gr_csr g)). shape_arcs a) +
    pending_arcs (cs_pending_edges (gr_csr g))"
  unfolding finalize_parts [OF assms(2)] rebuild_shapes [OF staged_graph_ok(1) [OF assms(1)]]
  by (rule staged_graph_ok(2) [OF assms(1)])

text \<open>Rows that are the arcs of edges without a bidirectional loop survive.\<close>

definition loop_free :: "csr_graph \<Rightarrow> bool" where
  "loop_free c \<longleftrightarrow> (\<exists>S. csr_shapes c = (\<Sum>s \<in># S. shape_arcs s) \<and> (\<forall>s \<in># S. \<not> loop_shape s))"

theorem finalize_arcs:
  assumes "edges_ok g" "\<not> gr_finalized g" "loop_free (gr_csr g)"
  shows "csr_shapes (gr_csr (finalize F g)) = graph_arcs g"
  using assms(3) finalize_shapes [OF assms(1,2)] by (auto simp: loop_free_def graph_arcs_def harvest_arcs)

text \<open>A bidirectional loop is its own mirror: the harvest takes both of its slots, and each becomes two.\<close>

definition loop_slots :: "csr_graph \<Rightarrow> nat" where
  "loop_slots c = size (filter_mset loop_shape (csr_shapes c))"

lemma loop_canonical: "loop_shape s \<Longrightarrow> canonical_shape s"
  by (simp add: loop_shape_def canonical_shape_def)

lemma loop_arcs: "size (filter_mset loop_shape (shape_arcs s)) = (if loop_shape s then 2 else 0)"
  by (auto simp: shape_arcs_def loop_shape_def mirror_def)

theorem finalize_loops:
  assumes "edges_ok g" "\<not> gr_finalized g"
  shows "loop_slots (gr_csr (finalize F g)) =
    2 * loop_slots (gr_csr g) + size (filter_mset loop_shape (pending_arcs (cs_pending_edges (gr_csr g))))"
proof -
  have "size (filter_mset loop_shape (\<Sum>a \<in># filter_mset canonical_shape M. shape_arcs a)) =
      2 * size (filter_mset loop_shape M)" for M
  proof (induction M)
    case (add s M)
    then show ?case using loop_canonical [of s] by (auto simp: loop_arcs)
  qed simp
  then show ?thesis unfolding loop_slots_def finalize_shapes [OF assms] by simp
qed

section \<open>The graph it leaves\<close>

theorem finalize_edges_ok:
  assumes "edges_ok g"
  shows "edges_ok (finalize F g)"
proof (cases "gr_finalized g")
  case True
  then show ?thesis using assms by (simp add: finalize_def)
next
  case False
  let ?h = "staged_graph g" and ?n = "unat (nd_count (gr_nodes g))"
  have staged: "staged_ok ?h" using staged_graph_ok(1) [OF assms] .
  note rows = rebuild_rows [OF staged, simplified]
  let ?c = "gr_csr (rebuild ?h)" and ?evs = "staged_events ?h"
  have "unat (sl_target (fst (snd ev))) < ?n" if "ev \<in> set ?evs" for ev
    using that staged
    by (auto simp: staged_events_def all_events_def edge_events_def Let_def slot_of_edge_def staged_ok_def
        split: if_splits dest!: staged_order_set)
  then have targets: "unat (sl_target s) < ?n" if "(s, p) \<in> set (row_events r ?evs)" for s p r
    using that by (force simp: row_events_def)
  have at: "cs_offsets ?c ! q = row_start q ?evs" if "q \<le> ?n" for q
    unfolding rows(1) using that by (auto simp: nth_append le_less)
  have len: "row_start ?n ?evs = length ?evs" using row_start_all staged_events_rows [OF staged] by simp
  have "unat (cs_targets ?c ! j) < ?n" if j: "j < length ?evs" for j
  proof -
    obtain r where r: "r < ?n" "row_start r ?evs \<le> j" "j < row_start (Suc r) ?evs"
      using row_of_index [of j ?n ?evs] j len by auto
    then have "j \<in> set [cs_offsets ?c ! r ..< cs_offsets ?c ! Suc r]"
      using at [of r] at [of "Suc r"] by simp
    then have "columns_get (?c, gr_edge_plasticity (rebuild ?h)) j \<in> set (row_events r ?evs)"
      unfolding rows(6) [OF r(1), symmetric] by simp
    then show ?thesis
      using targets [of "slot_at ?c j" "plasticity_at (gr_edge_plasticity (rebuild ?h)) j" r]
      by (simp add: columns_get_def slot_at_def)
  qed
  moreover have "length (cs_targets ?c) = length ?evs" using rows(2) by (simp add: csr_columns_def)
  ultimately have "\<forall>t \<in> set (cs_targets ?c). unat t < ?n" by (auto simp: in_set_conv_nth)
  moreover have "\<forall>r < ?n. cs_offsets ?c ! (r + 1) \<le> length ?evs"
    using at row_start_le [of _ ?evs] by simp
  ultimately have "csr_ok ?n ?c" using rows(1,2,4) by (simp add: csr_ok_def)
  then show ?thesis
    using rows(3,4,5) by (simp add: edges_ok_def staged_ok_def finalize_parts [OF False])
qed

end
