(* ===== verification/Graph_Properties.thy ===== *)
theory Graph_Properties
  imports Graph_Shapes
begin

text \<open>
  Graphs that the operations build, with the multiset of the directed edges that were added, and the graph
  engine over any sequence of calls: every such graph is well formed and its edges are those that were
  added, identifiers name nodes one to one for good, finalize rebuilds the edges, and the reverse index is
  the transpose of the rows.
\<close>

section \<open>Well-formed graphs\<close>

definition node_columns :: "node_storage \<Rightarrow> bool" where
  "node_columns d \<longleftrightarrow> (let n = unat (nd_count d) in
     length (nd_activation d) = n \<and> length (nd_pagerank d) = n \<and> length (nd_plasticity d) = n \<and>
     length (nd_label d) = n \<and> length (nd_node_type d) = n \<and> length (nd_tags d) = n \<and>
     length (nd_last_modified d) = n \<and> length (nd_change_frequency d) = n \<and> length (nd_provenance d) = n)"

text \<open>External identifiers and positions correspond one to one.\<close>

definition ids_ok :: "string_interner \<Rightarrow> u32 \<Rightarrow> (interned \<Rightarrow> node_id option) \<Rightarrow> bool" where
  "ids_ok t n ids \<longleftrightarrow>
     (\<forall>i node. ids i = Some node \<longrightarrow> try_resolve t i \<noteq> None \<and> unat node < unat n) \<and>
     (\<forall>i j node. ids i = Some node \<longrightarrow> ids j = Some node \<longrightarrow> i = j) \<and>
     (\<forall>node. unat node < unat n \<longrightarrow> (\<exists>i. ids i = Some node))"

definition provenance_handles :: "node_provenance \<Rightarrow> interned set" where
  "provenance_handles p = set_option (np_source_path p) \<union> set_option (np_excerpt p) \<union> set_option (np_namespace p)"

definition graph_handles :: "graph \<Rightarrow> interned set" where
  "graph_handles g = set (nd_label (gr_nodes g)) \<union> (\<Union> (set ` set (nd_tags (gr_nodes g)))) \<union>
     (\<Union> (provenance_handles ` set (nd_provenance (gr_nodes g)))) \<union> (sh_relation ` set_mset (graph_arcs g))"

definition handles_resolve :: "string_interner \<Rightarrow> interned set \<Rightarrow> bool" where
  "handles_resolve t H \<longleftrightarrow> (\<forall>i \<in> H. try_resolve t i \<noteq> None)"

definition graph_ok :: "graph \<Rightarrow> bool" where
  "graph_ok g \<longleftrightarrow> edges_ok g \<and> interner_ok (gr_strings g) \<and> node_columns (gr_nodes g) \<and>
     ids_ok (gr_strings g) (nd_count (gr_nodes g)) (gr_id_to_node g) \<and>
     handles_resolve (gr_strings g) (graph_handles g) \<and>
     (gr_finalized g \<longrightarrow> cs_pending_edges (gr_csr g) = [] \<and>
       length (cs_offsets (gr_csr g)) = unat (nd_count (gr_nodes g)) + 1)"

section \<open>Building\<close>

text \<open>A directed edge by name: source, target, relation, inhibition, direction, causal strength.\<close>

type_synonym named_edge = "nat \<times> nat \<times> string option \<times> bool \<times> edge_direction \<times> f32"

definition named :: "string_interner \<Rightarrow> edge_shape \<Rightarrow> named_edge" where
  "named t s = (sh_source s, sh_target s, try_resolve t (sh_relation s), sh_inhibitory s, sh_direction s,
     sh_causal_strength s)"

definition named_arcs ::
  "node_id \<Rightarrow> node_id \<Rightarrow> string \<Rightarrow> bool \<Rightarrow> edge_direction \<Rightarrow> f32 \<Rightarrow> named_edge multiset" where
  "named_arcs src tgt relation inhibitory direction causal_strength =
     {#(unat src, unat tgt, Some relation, inhibitory, direction, causal_strength)#} +
     (if direction = EdgeBidirectional
      then {#(unat tgt, unat src, Some relation, inhibitory, direction, causal_strength)#} else {#})"

definition named_loop :: "named_edge \<Rightarrow> bool" where
  "named_loop e \<longleftrightarrow> (case e of (src, tgt, _, _, direction, _) \<Rightarrow> direction = EdgeBidirectional \<and> src = tgt)"

text \<open>There are handles for \<open>k\<close> more strings; the code truncates the length of its table to \<open>u32\<close>.\<close>

definition handles_left :: "nat \<Rightarrow> graph \<Rightarrow> bool" where
  "handles_left k g \<longleftrightarrow> length (in_strings (gr_strings g)) + k < 2 ^ 32"

text \<open>One call, with the directed edges it adds; a weight is written by one of the two atomic loops.\<close>

inductive graph_step :: "graph \<Rightarrow> named_edge multiset \<Rightarrow> graph \<Rightarrow> bool" where
  step_node: "handles_left (2 + length tags) g \<Longrightarrow> unat (nd_count (gr_nodes g)) + 1 < 2 ^ 32 \<Longrightarrow>
    add_node external_id label ty tags last_modified change_frequency g = (g', r) \<Longrightarrow> graph_step g {#} g'"
| step_edge: "handles_left 1 g \<Longrightarrow>
    add_edge src tgt relation weight direction inhibitory causal_strength g = (g', Inr edge) \<Longrightarrow>
    graph_step g (named_arcs src tgt relation inhibitory direction causal_strength) g'"
| step_dangling: "add_edge src tgt relation weight direction inhibitory causal_strength g = (g', Inl e) \<Longrightarrow>
    graph_step g {#} g'"
| step_finalize: "graph_step g {#} (finalize F g)"
| step_max: "atomic_max_weight exchanged edge v retries (gr_csr g) = (c', r) \<Longrightarrow> graph_step g {#} (g\<lparr>gr_csr := c'\<rparr>)"
| step_write: "atomic_write_weight exchanged edge v retries (gr_csr g) = (c', r) \<Longrightarrow> graph_step g {#} (g\<lparr>gr_csr := c'\<rparr>)"
| step_add_tags: "handles_left (length tags) g \<Longrightarrow> add_node_tags node tags g = (g', k) \<Longrightarrow> graph_step g {#} g'"
| step_remove_tags: "remove_node_tags node tags g = (g', k) \<Longrightarrow> graph_step g {#} g'"
| step_set_tags: "handles_left (length tags) g \<Longrightarrow> set_node_tags node tags g = (g', k) \<Longrightarrow> graph_step g {#} g'"
| step_provenance: "handles_left 3 g \<Longrightarrow> graph_step g {#} (set_node_provenance node p g)"
| step_merge: "handles_left 3 g \<Longrightarrow> graph_step g {#} (merge_node_provenance node p g)"

inductive graph_run :: "graph \<Rightarrow> named_edge multiset \<Rightarrow> graph \<Rightarrow> bool" where
  run_refl: "graph_run g {#} g"
| run_step: "graph_run g A g' \<Longrightarrow> graph_step g' B g'' \<Longrightarrow> graph_run g (A + B) g''"

text \<open>The strings grow, the columns of the nodes change, all else stays.\<close>

definition annotates :: "graph \<Rightarrow> graph \<Rightarrow> bool" where
  "annotates g g' \<longleftrightarrow> graph_ok g' \<and> interner_extends (gr_strings g) (gr_strings g') \<and> gr_csr g' = gr_csr g \<and>
     gr_id_to_node g' = gr_id_to_node g \<and> gr_finalized g' = gr_finalized g \<and>
     nd_count (gr_nodes g') = nd_count (gr_nodes g)"

section \<open>Each operation keeps a graph well formed\<close>

lemma graph_new_ok: "graph_ok graph_new"
  by (simp add: graph_ok_def graph_new_def edges_ok_def csr_ok_def csr_empty_def csr_columns_def
      csr_num_edges_def staged_ok_def plasticity_new_def plasticity_rows_def node_columns_def nodes_new_def
      ids_ok_def handles_resolve_def graph_handles_def graph_arcs_def csr_shapes_def)

lemma handles_resolve_extends:
  "interner_extends t t' \<Longrightarrow> handles_resolve t H \<Longrightarrow> handles_resolve t' H"
  by (fastforce simp: handles_resolve_def dest: try_resolve_extends)

lemma handles_resolve_Un [simp]: "handles_resolve t (H \<union> K) \<longleftrightarrow> handles_resolve t H \<and> handles_resolve t K"
  by (auto simp: handles_resolve_def)

lemma handles_resolve_subset: "handles_resolve t H \<Longrightarrow> K \<subseteq> H \<Longrightarrow> handles_resolve t K"
  by (auto simp: handles_resolve_def)

lemma handles_resolve_grow:
  assumes "interner_extends t t'" "handles_resolve t H" "handles_resolve t' K" "L \<subseteq> K \<union> H"
  shows "handles_resolve t' L"
  using handles_resolve_extends [OF assms(1,2)] assms(3,4) unfolding handles_resolve_def by blast

lemma ids_ok_extends: "interner_extends t t' \<Longrightarrow> ids_ok t n ids \<Longrightarrow> ids_ok t' n ids"
  unfolding ids_ok_def by (metis option.exhaust try_resolve_extends)

lemma get_or_intern_handle:
  assumes "interner_ok t" "length (in_strings t) + 1 < 2 ^ 32" "get_or_intern t s = (t', i)"
  shows "interner_ok t'" "interner_extends t t'" "try_resolve t' i = Some s"
    "length (in_strings t') \<le> length (in_strings t) + 1"
  using get_or_intern_ok [OF assms(1) _ assms(3)] assms(2) by auto

text \<open>Operations on the tables alone: the strings grow and the columns change, the edges stay.\<close>

lemma graph_ok_tables:
  assumes ok: "graph_ok g" and t: "interner_ok t" "interner_extends (gr_strings g) t"
    and d: "node_columns d" "nd_count d = nd_count (gr_nodes g)"
    and "handles_resolve t (set (nd_label d) \<union> (\<Union> (set ` set (nd_tags d))) \<union> (\<Union> (provenance_handles ` set (nd_provenance d))))"
  shows "annotates g (g\<lparr>gr_strings := t, gr_nodes := d\<rparr>)"
proof -
  have "handles_resolve t (sh_relation ` set_mset (graph_arcs g))"
    using ok t(2) unfolding graph_ok_def graph_handles_def by (auto intro: handles_resolve_extends)
  then show ?thesis
    using assms ids_ok_extends [OF t(2)]
    by (simp add: annotates_def graph_ok_def edges_ok_def staged_ok_def graph_handles_def graph_arcs_def)
qed

lemma annotates_refl: "graph_ok g \<Longrightarrow> annotates g g"
  by (simp add: annotates_def)

lemma graph_ok_parts:
  assumes "graph_ok g"
  shows "interner_ok (gr_strings g)" "node_columns (gr_nodes g)" "edges_ok g"
    "handles_resolve (gr_strings g) (set (nd_label (gr_nodes g)))"
    "handles_resolve (gr_strings g) (\<Union> (set ` set (nd_tags (gr_nodes g))))"
    "handles_resolve (gr_strings g) (\<Union> (provenance_handles ` set (nd_provenance (gr_nodes g))))"
    "handles_resolve (gr_strings g) (sh_relation ` set_mset (graph_arcs g))"
    "ids_ok (gr_strings g) (nd_count (gr_nodes g)) (gr_id_to_node g)"
  using assms by (auto simp: graph_ok_def graph_handles_def)

lemma tags_ok:
  assumes "graph_ok g" "interner_ok t" "interner_extends (gr_strings g) t" "handles_resolve t (set tags)"
  shows "annotates g (put_tags node tags (g\<lparr>gr_strings := t\<rparr>))"
proof -
  let ?d = "(gr_nodes g)\<lparr>nd_tags := (nd_tags (gr_nodes g))[unat node := tags]\<rparr>"
  note parts = graph_ok_parts [OF assms(1)]
  have "\<Union> (set ` set (nd_tags ?d)) \<subseteq> set tags \<union> \<Union> (set ` set (nd_tags (gr_nodes g)))"
    using set_update_subset_insert [of "nd_tags (gr_nodes g)" "unat node" tags] by auto
  then have "handles_resolve t (\<Union> (set ` set (nd_tags ?d)))"
    by (rule handles_resolve_grow [OF assms(3) parts(5) assms(4)])
  moreover have "node_columns ?d" using parts(2) by (simp add: node_columns_def Let_def)
  ultimately have "annotates g (g\<lparr>gr_strings := t, gr_nodes := ?d\<rparr>)"
    using parts assms(3) by (intro graph_ok_tables assms) (auto intro: handles_resolve_extends)
  then show ?thesis by (simp add: put_tags_def)
qed

lemma add_tags_loop_ok:
  "interner_ok t \<Longrightarrow> length (in_strings t) + length tags < 2 ^ 32 \<Longrightarrow> handles_resolve t (set present) \<Longrightarrow>
   add_tags_loop tags t present added = (t', present', k) \<Longrightarrow>
   interner_ok t' \<and> interner_extends t t' \<and> handles_resolve t' (set present')"
proof (induction tags arbitrary: t present added)
  case (Cons tag tags)
  obtain t1 idx where s: "get_or_intern t tag = (t1, idx)" by force
  note t1 = get_or_intern_handle [OF Cons.prems(1) _ s]
  have "handles_resolve t1 (set present)" "handles_resolve t1 (set (present @ [idx]))"
    using t1(2,3) Cons.prems(2,3) handles_resolve_extends by (auto simp: handles_resolve_def)
  then show ?case
    using Cons.IH [of t1 present added] Cons.IH [of t1 "present @ [idx]" "added + 1"] Cons.prems s t1
    by (auto simp: Let_def split: if_splits intro: interner_extends_trans)
qed simp

lemma intern_all_resolve:
  assumes "interner_ok t" "length (in_strings t) + length ss < 2 ^ 32" "intern_all t ss = (t', idxs)"
  shows "interner_ok t'" "interner_extends t t'" "map (try_resolve t') idxs = map Some ss"
    "handles_resolve t' (set idxs)" "length (in_strings t') \<le> length (in_strings t) + length ss"
proof -
  note ok = intern_all_ok [OF assms]
  then show "interner_ok t'" "interner_extends t t'" "map (try_resolve t') idxs = map Some ss"
    "length (in_strings t') \<le> length (in_strings t) + length ss" by auto
  from ok have m: "map (try_resolve t') idxs = map Some ss" by blast
  show "handles_resolve t' (set idxs)"
    unfolding handles_resolve_def
  proof
    fix i assume "i \<in> set idxs"
    then have "try_resolve t' i \<in> set (map Some ss)" unfolding m [symmetric] by simp
    then show "try_resolve t' i \<noteq> None" by auto
  qed
qed

lemma add_node_tags_ok:
  assumes "graph_ok g" "handles_left (length tags) g" "add_node_tags node tags g = (g', k)"
  shows "annotates g g'"
proof (cases "has_node g node")
  case True
  let ?old = "nd_tags (gr_nodes g) ! unat node"
  obtain t present added where loop: "add_tags_loop tags (gr_strings g) ?old 0 = (t, present, added)"
    by (metis prod_cases3)
  note parts = graph_ok_parts [OF assms(1)]
  have "?old \<in> set (nd_tags (gr_nodes g))"
    using True parts(2) by (simp add: has_node_def node_columns_def Let_def)
  then have "handles_resolve (gr_strings g) (set ?old)"
    by (intro handles_resolve_subset [OF parts(5)]) auto
  then have "interner_ok t \<and> interner_extends (gr_strings g) t \<and> handles_resolve t (set present)"
    using add_tags_loop_ok [OF parts(1) _ _ loop] assms(2) by (simp add: handles_left_def)
  then show ?thesis using assms True loop tags_ok by (auto simp: add_node_tags_def Let_def)
qed (use assms in \<open>simp add: add_node_tags_def annotates_refl\<close>)

lemma remove_node_tags_ok:
  assumes "graph_ok g" "remove_node_tags node tags g = (g', k)"
  shows "annotates g g'"
proof (cases "has_node g node")
  case True
  let ?old = "nd_tags (gr_nodes g) ! unat node"
  let ?after = "filter (\<lambda>tag. tag \<notin> set (List.map_filter (interner_lookup (gr_strings g)) tags)) ?old"
  note parts = graph_ok_parts [OF assms(1)]
  have "?old \<in> set (nd_tags (gr_nodes g))"
    using True parts(2) by (simp add: has_node_def node_columns_def Let_def)
  then have "handles_resolve (gr_strings g) (set ?after)"
    by (intro handles_resolve_subset [OF parts(5)]) auto
  then have "annotates g (put_tags node ?after (g\<lparr>gr_strings := gr_strings g\<rparr>))"
    using tags_ok [OF assms(1) parts(1)] by simp
  then show ?thesis using assms True by (auto simp: remove_node_tags_def Let_def annotates_refl split: if_splits)
qed (use assms in \<open>simp add: remove_node_tags_def annotates_refl\<close>)

lemma set_node_tags_ok:
  assumes "graph_ok g" "handles_left (length tags) g" "set_node_tags node tags g = (g', k)"
  shows "annotates g g'"
proof (cases "has_node g node")
  case True
  obtain t idxs where all: "intern_all (gr_strings g) tags = (t, idxs)" by force
  note t = intern_all_resolve [OF graph_ok_parts(1) [OF assms(1)] _ all]
  show ?thesis using assms True all t tags_ok by (auto simp: set_node_tags_def handles_left_def)
qed (use assms in \<open>simp add: set_node_tags_def annotates_refl\<close>)

section \<open>Provenance\<close>

lemma intern_present_ok:
  assumes "interner_ok t" "length (in_strings t) + 1 < 2 ^ 32" "intern_present t s = (t', h)"
  shows "interner_ok t'" "interner_extends t t'" "handles_resolve t' (set_option h)"
    "length (in_strings t') \<le> length (in_strings t) + 1"
proof -
  have "interner_ok t' \<and> interner_extends t t' \<and> handles_resolve t' (set_option h) \<and>
    length (in_strings t') \<le> length (in_strings t) + 1"
  proof (cases s)
    case None
    then show ?thesis using assms by (auto simp: handles_resolve_def)
  next
    case (Some v)
    obtain t1 idx where v: "get_or_intern t v = (t1, idx)" by force
    show ?thesis
      using assms Some v get_or_intern_handle [OF assms(1,2) v]
      by (auto simp: handles_resolve_def split: if_splits)
  qed
  then show "interner_ok t'" "interner_extends t t'" "handles_resolve t' (set_option h)"
    "length (in_strings t') \<le> length (in_strings t) + 1" by auto
qed

lemma set_node_provenance_ok:
  assumes "graph_ok g" "handles_left 3 g"
  shows "annotates g (set_node_provenance node p g)"
proof (cases "has_node g node")
  case True
  obtain t1 a where 1: "intern_present (gr_strings g) (pi_source_path p) = (t1, a)" by force
  obtain t2 b where 2: "intern_present t1 (pi_excerpt p) = (t2, b)" by force
  obtain t3 c where 3: "intern_present t2 (pi_namespace p) = (t3, c)" by force
  note parts = graph_ok_parts [OF assms(1)]
  have room: "length (in_strings (gr_strings g)) + 3 < 2 ^ 32" using assms(2) by (simp add: handles_left_def)
  note t1 = intern_present_ok [OF parts(1) _ 1] and t2 = intern_present_ok [OF _ _ 2] and t3 = intern_present_ok [OF _ _ 3]
  have ok1: "interner_ok t1" "interner_extends (gr_strings g) t1" "handles_resolve t1 (set_option a)"
    "length (in_strings t1) \<le> length (in_strings (gr_strings g)) + 1" using t1 room by auto
  then have ok2: "interner_ok t2" "interner_extends t1 t2" "handles_resolve t2 (set_option b)"
    "length (in_strings t2) \<le> length (in_strings (gr_strings g)) + 2" using t2 room by auto
  then have ok3: "interner_ok t3" "interner_extends t2 t3" "handles_resolve t3 (set_option c)" using t3 room by auto
  have ext: "interner_extends (gr_strings g) t3"
    using ok1(2) ok2(2) ok3(2) by (blast intro: interner_extends_trans)
  let ?row = "\<lparr>np_source_path = a, np_line_start = or_zero (pi_line_start p),
    np_line_end = or_zero (or_else (pi_line_end p) (pi_line_start p)), np_excerpt = b, np_namespace = c,
    np_canonical = pi_canonical p\<rparr>"
  let ?d = "(gr_nodes g)\<lparr>nd_provenance := (nd_provenance (gr_nodes g))[unat node := ?row]\<rparr>"
  have "handles_resolve t3 (provenance_handles ?row)"
    using ok1(3) ok2(2,3) ok3(2,3) by (auto simp: provenance_handles_def intro: handles_resolve_extends interner_extends_trans)
  moreover have "\<Union> (provenance_handles ` set (nd_provenance ?d)) \<subseteq>
      provenance_handles ?row \<union> \<Union> (provenance_handles ` set (nd_provenance (gr_nodes g)))"
    using set_update_subset_insert [of "nd_provenance (gr_nodes g)" "unat node" ?row] by auto
  ultimately have "handles_resolve t3 (\<Union> (provenance_handles ` set (nd_provenance ?d)))"
    by (rule handles_resolve_grow [OF ext parts(6)])
  moreover have "node_columns ?d" using parts(2) by (simp add: node_columns_def Let_def)
  ultimately have "annotates g (g\<lparr>gr_strings := t3, gr_nodes := ?d\<rparr>)"
    using parts ext ok3(1) by (intro graph_ok_tables assms) (auto intro: handles_resolve_extends)
  then show ?thesis using True 1 2 3 by (simp add: set_node_provenance_def Let_def)
qed (use assms in \<open>simp add: set_node_provenance_def annotates_refl\<close>)

lemma merge_node_provenance_ok:
  "graph_ok g \<Longrightarrow> handles_left 3 g \<Longrightarrow> annotates g (merge_node_provenance node p g)"
  by (simp add: merge_node_provenance_def Let_def set_node_provenance_ok annotates_refl)

section \<open>Nodes and edges\<close>

lemma csr_ok_mono: "csr_ok n c \<Longrightarrow> n \<le> m \<Longrightarrow> csr_ok m c"
  by (auto simp: csr_ok_def)

lemma unat_succ: "unat n + 1 < 2 ^ 32 \<Longrightarrow> unat (n + 1 :: u32) = unat n + 1"
  by (simp add: unat_word_ariths)

lemma node_columns_push:
  "node_columns d \<Longrightarrow> unat (nd_count d) + 1 < 2 ^ 32 \<Longrightarrow> node_columns (push_node l ty tags lm cf d)"
  by (simp add: node_columns_def push_node_def Let_def unat_succ)

lemma ids_ok_insert:
  assumes "ids_ok t n ids" "ids i = None" "try_resolve t i \<noteq> None" "unat n + 1 < 2 ^ 32"
  shows "ids_ok t (n + 1) (ids(i \<mapsto> n))"
proof -
  have less: "unat node < unat (n + 1) \<longleftrightarrow> unat node < unat n \<or> node = n" for node
    using unat_succ [OF assms(4)] by (auto simp: word_unat_eq_iff)
  have handles: "ids k = Some node \<Longrightarrow> try_resolve t k \<noteq> None \<and> unat node < unat n" for k node
    using assms(1) unfolding ids_ok_def by blast
  have unique: "ids k = Some node \<Longrightarrow> ids m = Some node \<Longrightarrow> k = m" for k m node
    using assms(1) unfolding ids_ok_def by blast
  have onto: "unat node < unat n \<Longrightarrow> \<exists>k. ids k = Some node" for node
    using assms(1) unfolding ids_ok_def by blast
  have "try_resolve t k \<noteq> None \<and> unat node < unat (n + 1)" if "(ids(i \<mapsto> n)) k = Some node" for k node
    using that handles [of k node] assms(3) less by (cases "k = i") auto
  moreover have "k = m" if "(ids(i \<mapsto> n)) k = Some node" "(ids(i \<mapsto> n)) m = Some node" for k m node
    using that handles [of k n] handles [of m n] unique [of k node m]
    by (simp split: if_splits)
  moreover have "\<exists>k. (ids(i \<mapsto> n)) k = Some node" if "unat node < unat (n + 1)" for node
  proof (cases "node = n")
    case True
    then have "(ids(i \<mapsto> n)) i = Some node" by (simp only: fun_upd_same)
    then show ?thesis ..
  next
    case False
    then have "unat node < unat n" using that less by blast
    from onto [OF this] obtain k where k: "ids k = Some node" ..
    then have "k \<noteq> i" using assms(2) by force
    with k have "(ids(i \<mapsto> n)) k = Some node" by (metis fun_upd_other)
    then show ?thesis ..
  qed
  ultimately show ?thesis unfolding ids_ok_def by blast
qed

text \<open>The branches of \<open>add_node\<close>.\<close>

lemma add_node_cases:
  assumes ok: "graph_ok g" and room: "handles_left (2 + length tags) g"
    and step: "add_node external_id label ty tags last_modified change_frequency g = (g', r)"
  obtains (duplicate) t existing where "interner_ok t" "interner_extends (gr_strings g) t"
      "g' = g\<lparr>gr_strings := t\<rparr>" "r = Inl (DuplicateNode existing)" "resolve_id g external_id = Some existing"
      "\<And>i. try_resolve t i = Some external_id \<Longrightarrow> gr_id_to_node g i = Some existing"
  | (fresh) t i l idxs where "interner_ok t" "interner_extends (gr_strings g) t"
      "try_resolve t i = Some external_id" "gr_id_to_node g i = None" "resolve_id g external_id = None"
      "handles_resolve t (insert l (set idxs))" "r = Inr (nd_count (gr_nodes g))"
      "g' = structure_changed (g\<lparr>gr_strings := t,
        gr_nodes := push_node l ty idxs last_modified change_frequency (gr_nodes g),
        gr_id_to_node := (gr_id_to_node g)(i \<mapsto> nd_count (gr_nodes g))\<rparr>)"
      "try_resolve t l = Some label" "map (try_resolve t) idxs = map Some tags"
      "length (in_strings t) \<le> length (in_strings (gr_strings g)) + 2 + length tags"
proof -
  obtain t1 i where 1: "get_or_intern (gr_strings g) external_id = (t1, i)" by force
  note parts = graph_ok_parts [OF ok]
  have room1: "length (in_strings (gr_strings g)) + 1 < 2 ^ 32" using room by (simp add: handles_left_def)
  note t1 = get_or_intern_handle [OF parts(1) room1 1]
  have known: "resolve_id g external_id = gr_id_to_node g i"
  proof (cases "in_index (gr_strings g) external_id")
    case None
    have "gr_id_to_node g i = None"
    proof (rule ccontr)
      assume "gr_id_to_node g i \<noteq> None"
      then have "try_resolve (gr_strings g) i \<noteq> None" using parts(8) by (auto simp: ids_ok_def)
      then obtain s where s: "try_resolve (gr_strings g) i = Some s" by auto
      then have "s = external_id" using try_resolve_extends [OF t1(2) s] t1(3) by simp
      with s None parts(1) show False by (metis interner_ok_def option.distinct(1))
    qed
    then show ?thesis using None by (simp add: resolve_id_def interner_lookup_def)
  next
    case (Some j)
    then show ?thesis using 1 by (simp add: resolve_id_def interner_lookup_def get_or_intern_def)
  qed
  show ?thesis
  proof (cases "gr_id_to_node g i")
    case (Some existing)
    have "gr_id_to_node g j = Some existing" if "try_resolve t1 j = Some external_id" for j
      using resolve_inj [OF t1(1) that t1(3)] Some by simp
    then show ?thesis using duplicate [of t1 existing] step 1 t1 Some known by (simp add: add_node_def)
  next
    case None
    obtain t2 l where 2: "get_or_intern t1 label = (t2, l)" by force
    obtain t3 idxs where 3: "intern_all t2 tags = (t3, idxs)" by force
    have t2: "interner_ok t2" "interner_extends t1 t2" "try_resolve t2 l = Some label"
      "length (in_strings t2) \<le> length (in_strings (gr_strings g)) + 2"
      using get_or_intern_handle [OF t1(1) _ 2] t1(4) room by (auto simp: handles_left_def)
    have t3: "interner_ok t3" "interner_extends t2 t3" "handles_resolve t3 (set idxs)"
      "map (try_resolve t3) idxs = map Some tags" "length (in_strings t3) \<le> length (in_strings t2) + length tags"
      using intern_all_resolve [OF t2(1) _ 3] t2(4) room by (auto simp: handles_left_def)
    have "interner_extends (gr_strings g) t3"
      using t1(2) t2(2) t3(2) by (blast intro: interner_extends_trans)
    moreover have "try_resolve t3 i = Some external_id"
      using t1(3) t2(2) t3(2) by (blast intro: try_resolve_extends)
    moreover have "handles_resolve t3 (insert l (set idxs))"
      using t3(3) try_resolve_extends [OF t3(2) t2(3)] by (simp add: handles_resolve_def)
    moreover have "try_resolve t3 l = Some label" using try_resolve_extends [OF t3(2) t2(3)] .
    moreover have "length (in_strings t3) \<le> length (in_strings (gr_strings g)) + 2 + length tags"
      using t2(4) t3(5) by simp
    ultimately show ?thesis
      using fresh [of t3 i l idxs] t3(1,4) step 1 2 3 None known by (simp add: add_node_def Let_def)
  qed
qed

lemma add_node_ok:
  assumes ok: "graph_ok g" and "handles_left (2 + length tags) g" and n: "unat (nd_count (gr_nodes g)) + 1 < 2 ^ 32"
    and "add_node external_id label ty tags last_modified change_frequency g = (g', r)"
  shows "graph_ok g' \<and> interner_extends (gr_strings g) (gr_strings g') \<and> gr_csr g' = gr_csr g \<and>
    gr_id_to_node g \<subseteq>\<^sub>m gr_id_to_node g'"
  using assms(1,2,4)
proof (cases rule: add_node_cases)
  case (duplicate t existing)
  note parts = graph_ok_parts [OF ok]
  have "annotates g (g\<lparr>gr_strings := t, gr_nodes := gr_nodes g\<rparr>)"
    using parts duplicate(1,2) by (intro graph_ok_tables ok) (auto intro: handles_resolve_extends)
  then show ?thesis using duplicate by (simp add: annotates_def)
next
  case (fresh t i l idxs)
  note parts = graph_ok_parts [OF ok]
  let ?d = "push_node l ty idxs last_modified change_frequency (gr_nodes g)"
  have succ: "unat (nd_count ?d) = unat (nd_count (gr_nodes g)) + 1"
    using unat_succ [OF n] by (simp add: push_node_def)
  have "edges_ok g'"
    using parts(3) csr_ok_mono [of "unat (nd_count (gr_nodes g))" "gr_csr g" "unat (nd_count ?d)"] succ
    unfolding fresh(8) by (fastforce simp: edges_ok_def staged_ok_def structure_changed_def)
  moreover have "ids_ok t (nd_count ?d) ((gr_id_to_node g)(i \<mapsto> nd_count (gr_nodes g)))"
    using ids_ok_insert [OF ids_ok_extends [OF fresh(2) parts(8)] fresh(4)] fresh(3) n by (simp add: push_node_def)
  moreover have "graph_handles g' = insert l (set idxs) \<union> graph_handles g"
    unfolding fresh(8)
    by (auto simp: graph_handles_def structure_changed_def push_node_def graph_arcs_def provenance_handles_def
        default_provenance_def)
  then have "handles_resolve t (graph_handles g')"
    using ok fresh(2,6) by (simp only: handles_resolve_Un) (auto simp: graph_ok_def intro: handles_resolve_extends)
  moreover have "node_columns ?d" using node_columns_push [OF parts(2) n] .
  ultimately show ?thesis
    using fresh(1,2,4) unfolding graph_ok_def fresh(8) by (simp add: structure_changed_def map_le_def dom_def)
qed

definition new_shape ::
  "node_id \<Rightarrow> node_id \<Rightarrow> interned \<Rightarrow> bool \<Rightarrow> edge_direction \<Rightarrow> f32 \<Rightarrow> edge_shape" where
  "new_shape src tgt rel inhibitory direction causal_strength =
     \<lparr>sh_source = unat src, sh_target = unat tgt, sh_relation = rel, sh_inhibitory = inhibitory,
      sh_direction = direction, sh_causal_strength = causal_strength\<rparr>"

lemma named_new_shape:
  "try_resolve t rel = Some relation \<Longrightarrow>
   image_mset (named t) (shape_arcs (new_shape src tgt rel inh dir cs)) = named_arcs src tgt relation inh dir cs"
  by (simp add: named_arcs_def shape_arcs_def new_shape_def named_def mirror_def)

lemma shape_arcs_relation: "a \<in># shape_arcs s \<Longrightarrow> sh_relation a = sh_relation s"
  by (auto simp: shape_arcs_def mirror_def split: if_splits)

lemma plasticity_push_ok: "plasticity_rows k p \<Longrightarrow> plasticity_rows (Suc k) (push_plasticity w p)"
  by (simp add: plasticity_rows_def push_plasticity_def)

lemma add_edge_ok:
  assumes ok: "graph_ok g" and "handles_left 1 g"
    and step: "add_edge src tgt relation weight direction inhibitory causal_strength g = (g', Inr edge)"
  obtains rel where "graph_ok g'" "interner_extends (gr_strings g) (gr_strings g')"
    "try_resolve (gr_strings g') rel = Some relation" "csr_shapes (gr_csr g') = csr_shapes (gr_csr g)"
    "graph_arcs g' = graph_arcs g + shape_arcs (new_shape src tgt rel inhibitory direction causal_strength)"
proof -
  obtain t rel where 1: "get_or_intern (gr_strings g) relation = (t, rel)" by force
  note parts = graph_ok_parts [OF ok]
  have t: "interner_ok t" "interner_extends (gr_strings g) t" "try_resolve t rel = Some relation"
    using get_or_intern_handle [OF parts(1) _ 1] assms(2) by (auto simp: handles_left_def)
  let ?e = "\<lparr>pe_source = src, pe_target = tgt, pe_weight = weight, pe_inhibitory = inhibitory,
    pe_relation = rel, pe_direction = direction, pe_causal_strength = causal_strength\<rparr>"
  let ?s = "new_shape src tgt rel inhibitory direction causal_strength"
  have g': "g' = structure_changed (g\<lparr>gr_strings := t,
      gr_edge_plasticity := push_plasticity weight (gr_edge_plasticity g),
      gr_csr := (gr_csr g)\<lparr>cs_pending_edges := cs_pending_edges (gr_csr g) @ [?e]\<rparr>\<rparr>)"
    and ends: "unat src < unat (nd_count (gr_nodes g))" "unat tgt < unat (nd_count (gr_nodes g))"
    using step 1 by (auto simp: add_edge_def Let_def split: if_splits)
  have same: "csr_row_shapes (gr_csr g') = csr_row_shapes (gr_csr g)" "csr_shapes (gr_csr g') = csr_shapes (gr_csr g)"
    unfolding g' by (simp_all add: structure_changed_def csr_shapes_def csr_row_shapes_def [abs_def] slot_at_def)
  have arcs: "graph_arcs g' = graph_arcs g + shape_arcs ?s"
    using same(2) unfolding g' by (simp add: graph_arcs_def structure_changed_def pending_shape_def new_shape_def)
  have "edges_ok g'"
    using parts(3) ends plasticity_push_ok unfolding g'
    by (auto simp: edges_ok_def structure_changed_def csr_ok_def csr_columns_def csr_num_edges_def staged_ok_def)
  moreover have "graph_handles g' = graph_handles g \<union> {rel}"
    using shape_arcs_relation [of _ ?s]
    unfolding graph_handles_def arcs
    by (auto simp: g' structure_changed_def new_shape_def shape_arcs_def image_Un)
  moreover have "handles_resolve t (graph_handles g)"
    using ok handles_resolve_extends [OF t(2)] by (simp add: graph_ok_def)
  then have "handles_resolve t (graph_handles g \<union> {rel})"
    using t(3) by (simp add: handles_resolve_def)
  ultimately have "graph_ok g'"
    using t(1) parts(2) ids_ok_extends [OF t(2) parts(8)] unfolding graph_ok_def
    by (simp add: g' structure_changed_def)
  then show ?thesis using that t arcs same by (simp add: g' structure_changed_def)
qed

section \<open>Weights and finalize\<close>

lemma store_weight_ok:
  assumes "graph_ok g" "store_weight edge limit outcome (gr_csr g) = (c', r)"
  shows "graph_ok (g\<lparr>gr_csr := c'\<rparr>) \<and> csr_shapes c' = csr_shapes (gr_csr g) \<and>
    cs_pending_edges c' = cs_pending_edges (gr_csr g)"
proof -
  obtain ws where c': "c' = (gr_csr g)\<lparr>cs_weights := ws\<rparr>" "length ws = length (cs_weights (gr_csr g))"
  proof (cases outcome)
    case None
    then show ?thesis using that [of "cs_weights (gr_csr g)"] assms(2) by (simp add: store_weight_def)
  next
    case (Some v)
    then show ?thesis
      using that [of "(cs_weights (gr_csr g))[unat edge := v]"] assms(2) by (simp add: store_weight_def)
  qed
  have same: "csr_shapes c' = csr_shapes (gr_csr g)"
    by (simp add: c' csr_shapes_def csr_row_shapes_def [abs_def] slot_at_def slot_shape_def)
  then show ?thesis using assms(1) c'
    by (auto simp: graph_ok_def edges_ok_def csr_ok_def csr_columns_def csr_num_edges_def staged_ok_def
        graph_handles_def graph_arcs_def)
qed

lemma pagerank_loop_length: "length pr = n \<Longrightarrow> length (pagerank_loop F n c deg d b cv k pr) = n"
  by (induction k arbitrary: pr) (auto simp: Let_def)

lemma pagerank_tables:
  "node_columns (gr_nodes g) \<Longrightarrow> node_columns (gr_nodes (compute_pagerank F d m t g))"
  "nd_label (gr_nodes (compute_pagerank F d m t g)) = nd_label (gr_nodes g)"
  "nd_tags (gr_nodes (compute_pagerank F d m t g)) = nd_tags (gr_nodes g)"
  "nd_provenance (gr_nodes (compute_pagerank F d m t g)) = nd_provenance (gr_nodes g)"
  by (simp_all add: compute_pagerank_def Let_def node_columns_def pagerank_loop_length)

lemma finalize_tables:
  assumes "\<not> gr_finalized g"
  shows "node_columns (gr_nodes g) \<Longrightarrow> node_columns (gr_nodes (finalize F g))"
    "nd_label (gr_nodes (finalize F g)) = nd_label (gr_nodes g)"
    "nd_tags (gr_nodes (finalize F g)) = nd_tags (gr_nodes g)"
    "nd_provenance (gr_nodes (finalize F g)) = nd_provenance (gr_nodes g)"
  using assms by (simp_all add: finalize_def Let_def pagerank_tables flip: staged_graph_def)

lemma finalize_pending:
  assumes "edges_ok g" "\<not> gr_finalized g"
  shows "cs_pending_edges (gr_csr (finalize F g)) = []"
    "length (cs_offsets (gr_csr (finalize F g))) = unat (nd_count (gr_nodes g)) + 1"
  using rebuild_rows(1,5) [OF staged_graph_ok(1) [OF assms(1)]] by (simp_all add: finalize_parts [OF assms(2)])

lemma finalize_ok:
  assumes "graph_ok g"
  shows "graph_ok (finalize F g)"
proof (cases "gr_finalized g")
  case True
  then show ?thesis using assms by (simp add: finalize_def)
next
  case False
  note parts = graph_ok_parts [OF assms]
  note pending = finalize_pending [OF parts(3) False, of F]
  have "sh_relation ` set_mset (graph_arcs (finalize F g)) \<subseteq> sh_relation ` set_mset (graph_arcs g)"
    using shape_arcs_relation unfolding graph_arcs_def pending finalize_shapes [OF parts(3) False] by fastforce
  then have "graph_handles (finalize F g) \<subseteq> graph_handles g"
    unfolding graph_handles_def finalize_tables [OF False] by blast
  then have "handles_resolve (gr_strings g) (graph_handles (finalize F g))"
    using assms by (auto simp: graph_ok_def intro: handles_resolve_subset)
  then show ?thesis
    using assms finalize_edges_ok [OF parts(3)] finalize_tables(1) [OF False parts(2)] pending
    unfolding graph_ok_def by (simp add: finalize_parts [OF False])
qed

section \<open>One call\<close>

definition keeps :: "graph \<Rightarrow> graph \<Rightarrow> bool" where
  "keeps g g' \<longleftrightarrow> graph_ok g' \<and> interner_extends (gr_strings g) (gr_strings g') \<and>
     gr_id_to_node g \<subseteq>\<^sub>m gr_id_to_node g'"

lemma annotates_keeps: "annotates g g' \<Longrightarrow> keeps g g'"
  by (simp add: annotates_def keeps_def)

lemma keeps_refl: "graph_ok g \<Longrightarrow> keeps g g"
  by (simp add: keeps_def)

lemma keeps_trans: "keeps g g' \<Longrightarrow> keeps g' g'' \<Longrightarrow> keeps g g''"
  by (auto simp: keeps_def intro: interner_extends_trans map_le_trans)

lemma dangling_same: "add_edge src tgt relation w dir inh cs g = (g', Inl e) \<Longrightarrow> g' = g"
  by (auto simp: add_edge_def Let_def case_prod_beta' split: if_splits)

lemma finalize_same_tables:
  "gr_strings (finalize F g) = gr_strings g" "gr_id_to_node (finalize F g) = gr_id_to_node g"
proof -
  have "gr_finalized g \<Longrightarrow> finalize F g = g" by (simp add: finalize_def)
  then show "gr_strings (finalize F g) = gr_strings g" "gr_id_to_node (finalize F g) = gr_id_to_node g"
    using finalize_parts [of g F] by metis+
qed

lemma add_edge_ids:
  "add_edge src tgt relation w dir inh cs g = (g', r) \<Longrightarrow> gr_id_to_node g' = gr_id_to_node g"
  by (auto simp: add_edge_def Let_def structure_changed_def split: if_splits prod.splits)

lemmas weight_writes = atomic_max_weight_def atomic_write_weight_def

text \<open>How a call may change the edges: not at all, as finalize does, or by an addition.\<close>

inductive edge_change :: "graph \<Rightarrow> named_edge multiset \<Rightarrow> graph \<Rightarrow> bool" where
  same_edges: "csr_shapes (gr_csr g') = csr_shapes (gr_csr g) \<Longrightarrow>
    cs_pending_edges (gr_csr g') = cs_pending_edges (gr_csr g) \<Longrightarrow> edge_change g {#} g'"
| finalized_edges: "\<not> gr_finalized g \<Longrightarrow> edge_change g {#} (finalize F g)"
| added_edges: "csr_shapes (gr_csr g') = csr_shapes (gr_csr g) \<Longrightarrow>
    graph_arcs g' = graph_arcs g + shape_arcs s \<Longrightarrow> image_mset (named (gr_strings g')) (shape_arcs s) = B \<Longrightarrow>
    edge_change g B g'"

lemma annotates_edges: "annotates g g' \<Longrightarrow> keeps g g' \<and> edge_change g {#} g'"
  by (auto simp: annotates_def keeps_def intro: same_edges)

lemma graph_step_cases:
  assumes "graph_ok g" and "graph_step g B g'"
  shows "keeps g g' \<and> edge_change g B g'"
  using assms(2)
proof cases
  case (step_node tags external_id label ty lm cf r)
  then show ?thesis using add_node_ok [OF assms(1)] by (auto simp: keeps_def intro!: same_edges)
next
  case (step_edge src tgt relation w dir inh cs e)
  from add_edge_ok [OF assms(1) step_edge(2,3)] obtain rel where
    "graph_ok g'" "interner_extends (gr_strings g) (gr_strings g')" "try_resolve (gr_strings g') rel = Some relation"
    "csr_shapes (gr_csr g') = csr_shapes (gr_csr g)"
    "graph_arcs g' = graph_arcs g + shape_arcs (new_shape src tgt rel inh dir cs)" .
  then show ?thesis
    using named_new_shape [of "gr_strings g'" rel relation src tgt inh dir cs] add_edge_ids [OF step_edge(3)] step_edge(1)
    by (auto simp: keeps_def intro: added_edges)
next
  case step_dangling
  from step_dangling(1) dangling_same [OF step_dangling(2)] show ?thesis
    using keeps_refl [OF assms(1)] same_edges [of g g] by simp
next
  case (step_finalize F)
  have "keeps g (finalize F g)"
    using finalize_ok [OF assms(1), of F] by (simp add: keeps_def finalize_same_tables)
  moreover have "edge_change g {#} (finalize F g)"
  proof (cases "gr_finalized g")
    case True
    then have "finalize F g = g" by (simp add: finalize_def)
    then show ?thesis by (simp add: same_edges)
  next
    case False
    then show ?thesis by (rule finalized_edges)
  qed
  ultimately show ?thesis using step_finalize by simp
next
  case (step_max ex edge v k c' r)
  then show ?thesis
    using store_weight_ok [OF assms(1)] unfolding weight_writes by (auto simp: keeps_def intro: same_edges)
next
  case (step_write ex edge v k c' r)
  then show ?thesis
    using store_weight_ok [OF assms(1)] unfolding weight_writes by (auto simp: keeps_def intro: same_edges)
next
  case step_add_tags
  then show ?thesis using annotates_edges add_node_tags_ok [OF assms(1)] by blast
next
  case step_remove_tags
  then show ?thesis using annotates_edges remove_node_tags_ok [OF assms(1)] by blast
next
  case step_set_tags
  then show ?thesis using annotates_edges set_node_tags_ok [OF assms(1)] by blast
next
  case step_provenance
  then show ?thesis using annotates_edges set_node_provenance_ok [OF assms(1)] by blast
next
  case step_merge
  then show ?thesis using annotates_edges merge_node_provenance_ok [OF assms(1)] by blast
qed

lemma graph_run_keeps: "graph_run g A g' \<Longrightarrow> graph_ok g \<Longrightarrow> keeps g g'"
proof (induction rule: graph_run.induct)
  case (run_step g A g' B g'')
  then show ?case using graph_step_cases keeps_trans keeps_def by blast
qed (simp add: keeps_refl)

section \<open>The edges\<close>

lemma named_extends:
  assumes "interner_extends t t'" "handles_resolve t (sh_relation ` set_mset M)"
  shows "image_mset (named t') M = image_mset (named t) M"
proof (rule image_mset_cong)
  fix s assume "s \<in># M"
  then obtain r where "try_resolve t (sh_relation s) = Some r" using assms(2) by (auto simp: handles_resolve_def)
  then show "named t' s = named t s" using try_resolve_extends [OF assms(1)] by (simp add: named_def)
qed

lemma named_loop_shape: "named_loop (named t s) = loop_shape s"
  by (simp add: named_loop_def named_def loop_shape_def)

lemma no_loops_named:
  "\<forall>e \<in># image_mset (named t) M. \<not> named_loop e \<Longrightarrow> \<forall>s \<in># M. \<not> loop_shape s"
  by (auto simp: named_loop_shape)

lemma pending_sum: "pending_arcs es = (\<Sum>s \<in># image_mset pending_shape (mset es). shape_arcs s)"
  by (simp add: pending_arcs_def image_mset.compositionality comp_def)

lemma pending_loops:
  assumes "\<forall>a \<in># pending_arcs es. \<not> loop_shape a" and "s \<in># image_mset pending_shape (mset es)"
  shows "\<not> loop_shape s"
proof -
  have "s \<in># shape_arcs s" by (simp add: shape_arcs_def)
  then have "s \<in># pending_arcs es" unfolding pending_sum using assms(2) by auto
  then show ?thesis using assms(1) by blast
qed

lemma loop_free_finalize:
  assumes "graph_ok g" "\<not> gr_finalized g" "loop_free (gr_csr g)" "\<forall>a \<in># graph_arcs g. \<not> loop_shape a"
  shows "csr_shapes (gr_csr (finalize F g)) = graph_arcs g \<and> loop_free (gr_csr (finalize F g)) \<and>
    graph_arcs (finalize F g) = graph_arcs g"
proof -
  have ok: "edges_ok g" using graph_ok_parts(3) [OF assms(1)] .
  have rows: "csr_shapes (gr_csr (finalize F g)) = graph_arcs g" using finalize_arcs [OF ok assms(2,3)] .
  obtain S where S: "csr_shapes (gr_csr g) = (\<Sum>s \<in># S. shape_arcs s)" "\<forall>s \<in># S. \<not> loop_shape s"
    using assms(3) by (auto simp: loop_free_def)
  let ?P = "image_mset pending_shape (mset (cs_pending_edges (gr_csr g)))"
  have "graph_arcs g = (\<Sum>s \<in># S + ?P. shape_arcs s)" by (simp add: graph_arcs_def S(1) pending_sum)
  moreover have "\<forall>s \<in># S + ?P. \<not> loop_shape s"
    using S(2) pending_loops [of "cs_pending_edges (gr_csr g)"] assms(4) by (auto simp: graph_arcs_def)
  ultimately have "loop_free (gr_csr (finalize F g))" unfolding loop_free_def rows by blast
  moreover have "graph_arcs (finalize F g) = graph_arcs g"
    using rows finalize_pending(1) [OF ok assms(2), of F] by (simp add: graph_arcs_def [of "finalize F g"])
  ultimately show ?thesis using rows by simp
qed

lemma edge_change_arcs:
  assumes "graph_ok g" "keeps g g'" "edge_change g B g'" "loop_free (gr_csr g)"
    "\<forall>a \<in># graph_arcs g. \<not> loop_shape a"
  shows "image_mset (named (gr_strings g')) (graph_arcs g') = image_mset (named (gr_strings g)) (graph_arcs g) + B \<and>
    loop_free (gr_csr g')"
proof -
  have old: "image_mset (named (gr_strings g')) (graph_arcs g) = image_mset (named (gr_strings g)) (graph_arcs g)"
    using named_extends graph_ok_parts(7) [OF assms(1)] assms(2) by (simp add: keeps_def)
  show ?thesis
    using assms(3)
  proof cases
    case same_edges
    then have "graph_arcs g' = graph_arcs g" by (simp add: graph_arcs_def)
    then show ?thesis using old assms(4) same_edges by (simp add: loop_free_def)
  next
    case (finalized_edges F)
    then show ?thesis using old loop_free_finalize [OF assms(1) finalized_edges(3) assms(4,5), of F] by simp
  next
    case added_edges
    then show ?thesis using old assms(4) by (simp add: loop_free_def)
  qed
qed

lemma new_loop_free: "loop_free (gr_csr graph_new)"
  unfolding loop_free_def by (rule exI [of _ "{#}"]) (simp add: graph_new_def csr_empty_def csr_shapes_def)

lemma new_arcs: "graph_arcs graph_new = {#}"
  by (simp add: graph_arcs_def graph_new_def csr_empty_def csr_shapes_def)

lemma run_arcs:
  "graph_run g0 A g \<Longrightarrow> g0 = graph_new \<Longrightarrow> \<forall>e \<in># A. \<not> named_loop e \<Longrightarrow>
   image_mset (named (gr_strings g)) (graph_arcs g) = A \<and> loop_free (gr_csr g)"
proof (induction rule: graph_run.induct)
  case (run_step g0 A g B g')
  have IH: "image_mset (named (gr_strings g)) (graph_arcs g) = A" "loop_free (gr_csr g)"
    using run_step by auto
  have ok: "graph_ok g" using graph_run_keeps [OF run_step(1)] run_step.prems graph_new_ok by (simp add: keeps_def)
  have "\<forall>a \<in># graph_arcs g. \<not> loop_shape a"
    using run_step.prems(2) IH(1) no_loops_named [of "gr_strings g" "graph_arcs g"] by auto
  then show ?case using edge_change_arcs [OF ok _ _ IH(2)] graph_step_cases [OF ok run_step(2)] IH(1) by blast
qed (use new_loop_free new_arcs in simp)

section \<open>The reverse index\<close>

definition slots :: "nat \<times> nat \<Rightarrow> nat list" where
  "slots r = [fst r ..< snd r]"

text \<open>The slots that point to a node, with the node they are in, in the order of the forward rows.\<close>

definition arcs_into :: "graph \<Rightarrow> node_id \<Rightarrow> (node_id \<times> edge_idx) list" where
  "arcs_into g v = concat (map (\<lambda>src. map (\<lambda>j. (of_nat src, of_nat j))
     (filter (\<lambda>j. cs_targets (gr_csr g) ! j = v) (slots (out_range (gr_csr g) (of_nat src)))))
     [0 ..< unat (nd_count (gr_nodes g))])"

definition arcs_indexed :: "graph \<Rightarrow> node_id \<Rightarrow> (node_id \<times> edge_idx) list" where
  "arcs_indexed g v = map (\<lambda>k. (cs_rev_sources (gr_csr g) ! k, cs_rev_edge_idx (gr_csr g) ! k))
     (slots (in_range (gr_csr g) v))"

definition transposed :: "graph \<Rightarrow> bool" where
  "transposed g \<longleftrightarrow> (\<forall>v. has_node g v \<longrightarrow> arcs_indexed g v = arcs_into g v)"

lemma row_events_concat: "row_events r (concat xss) = concat (map (row_events r) xss)"
  by (simp add: row_events_def [abs_def] filter_concat map_concat comp_def)

lemma row_of_rev_events:
  "row_events (unat v) (row_rev_events c src) = map (\<lambda>j. (of_nat src, of_nat j))
     (filter (\<lambda>j. cs_targets c ! j = v) [cs_offsets c ! src ..< cs_offsets c ! (src + 1)])"
  by (simp add: row_events_def row_rev_events_def filter_map comp_def flip: word_unat_eq_iff)

lemma finalize_transposed:
  assumes "graph_ok g" "\<not> gr_finalized g"
  shows "transposed (finalize F g)"
  unfolding transposed_def
proof (intro allI impI)
  fix v assume v: "has_node (finalize F g) v"
  let ?n = "unat (nd_count (gr_nodes g))" and ?c = "gr_csr (finalize F g)"
  have ok: "edges_ok g" using graph_ok_parts(3) [OF assms(1)] .
  obtain c where c: "?c = reverse_csr ?n c"
    unfolding finalize_parts [OF assms(2)] by (auto simp: rebuild_def Let_def case_prod_beta')
  have len: "length (cs_offsets c) = ?n + 1" using finalize_pending(2) [OF ok assms(2), of F] unfolding c by simp
  have "csr_ok ?n ?c"
    using finalize_edges_ok [OF ok, of F] by (simp add: edges_ok_def finalize_parts [OF assms(2)])
  then have cok: "\<forall>i < ?n. cs_offsets c ! (i + 1) \<le> length (cs_targets c)" "\<forall>t \<in> set (cs_targets c). unat t < ?n"
    using len unfolding c by (auto simp: csr_ok_def csr_columns_def)
  note rows = reverse_rows [OF len cok]
  have nodes: "nd_count (gr_nodes (finalize F g)) = nd_count (gr_nodes g)"
    by (simp add: finalize_parts [OF assms(2)])
  have node: "unat v < ?n" using v by (simp add: has_node_def finalize_parts [OF assms(2)])
  have "in_range ?c v = (cs_rev_offsets ?c ! unat v, cs_rev_offsets ?c ! Suc (unat v))"
    using node rows(1) unfolding c by (simp add: in_range_def Let_def)
  then have "arcs_indexed (finalize F g) v = row_events (unat v) (rev_events c [0 ..< ?n])"
    using rows(2) [OF node] unfolding c by (simp add: arcs_indexed_def slots_def c)
  moreover have "arcs_into (finalize F g) v = row_events (unat v) (rev_events c [0 ..< ?n])"
  proof -
    have small: "?n < 2 ^ 32" using unsigned_less [of "nd_count (gr_nodes g)", where ?'a = nat] by simp
    have "out_range ?c (of_nat src) = (cs_offsets c ! src, cs_offsets c ! (src + 1))" if "src < ?n" for src
      using that len small unfolding c by (simp add: out_range_def Let_def)
    then show ?thesis
      unfolding arcs_into_def rev_events_def row_events_concat
      by (intro arg_cong [of _ _ concat]) (simp add: nodes slots_def row_of_rev_events c)
  qed
  ultimately show "arcs_indexed (finalize F g) v = arcs_into (finalize F g) v" by simp
qed

text \<open>Every call but finalize either clears the flag or leaves the rows, up to the weights.\<close>

definition rows_same :: "graph \<Rightarrow> graph \<Rightarrow> bool" where
  "rows_same g g' \<longleftrightarrow> (gr_finalized g' \<longrightarrow> gr_finalized g \<and> nd_count (gr_nodes g') = nd_count (gr_nodes g) \<and>
     (\<exists>ws. gr_csr g' = (gr_csr g)\<lparr>cs_weights := ws\<rparr>))"

lemma rows_same_csr:
  "gr_csr g' = gr_csr g \<Longrightarrow> gr_finalized g' = gr_finalized g \<Longrightarrow>
   nd_count (gr_nodes g') = nd_count (gr_nodes g) \<Longrightarrow> rows_same g g'"
  by (auto simp: rows_same_def intro: exI [of _ "cs_weights (gr_csr g)"])

lemma annotates_rows: "annotates g g' \<Longrightarrow> rows_same g g'"
  by (simp add: annotates_def rows_same_csr)

lemma store_weight_rows:
  "store_weight edge limit outcome (gr_csr g) = (c', r) \<Longrightarrow> rows_same g (g\<lparr>gr_csr := c'\<rparr>)"
  by (cases outcome)
    (auto simp: store_weight_def rows_same_def intro: exI [of _ "cs_weights (gr_csr g)"])

lemma graph_step_rows:
  assumes "graph_ok g" and "graph_step g B g'"
  shows "rows_same g g' \<or> (\<not> gr_finalized g \<and> (\<exists>F. g' = finalize F g))"
  using assms(2)
proof cases
  case step_node
  then show ?thesis
    by (auto simp: add_node_def structure_changed_def rows_same_def Let_def split: option.splits prod.splits
        intro: exI [of _ "cs_weights (gr_csr g)"])
next
  case step_edge
  then show ?thesis
    by (auto simp: add_edge_def structure_changed_def rows_same_def Let_def split: if_splits prod.splits)
next
  case step_dangling
  from dangling_same [OF step_dangling(2)] show ?thesis by (simp add: rows_same_csr)
next
  case (step_finalize F)
  have "gr_finalized g \<Longrightarrow> finalize F g = g" by (simp add: finalize_def)
  then show ?thesis using step_finalize rows_same_csr [of g g] by metis
next
  case step_max
  then show ?thesis using store_weight_rows unfolding weight_writes by blast
next
  case step_write
  then show ?thesis using store_weight_rows unfolding weight_writes by blast
next
  case step_add_tags
  then show ?thesis using annotates_rows add_node_tags_ok [OF assms(1)] by blast
next
  case step_remove_tags
  then show ?thesis using annotates_rows remove_node_tags_ok [OF assms(1)] by blast
next
  case step_set_tags
  then show ?thesis using annotates_rows set_node_tags_ok [OF assms(1)] by blast
next
  case step_provenance
  then show ?thesis using annotates_rows set_node_provenance_ok [OF assms(1)] by blast
next
  case step_merge
  then show ?thesis using annotates_rows merge_node_provenance_ok [OF assms(1)] by blast
qed

lemma range_weights [simp]:
  "in_range (c\<lparr>cs_weights := ws\<rparr>) v = in_range c v" "out_range (c\<lparr>cs_weights := ws\<rparr>) v = out_range c v"
  by (simp_all add: in_range_def out_range_def Let_def cong: if_cong)

lemma transposed_same:
  assumes "rows_same g g'" "gr_finalized g'" "gr_finalized g \<longrightarrow> transposed g"
  shows "transposed g'"
proof -
  obtain ws where "gr_csr g' = (gr_csr g)\<lparr>cs_weights := ws\<rparr>" "nd_count (gr_nodes g') = nd_count (gr_nodes g)"
    "transposed g"
    using assms by (auto simp: rows_same_def)
  then show ?thesis
    by (simp add: transposed_def has_node_def arcs_indexed_def arcs_into_def)
qed

lemma run_transposed:
  "graph_run g0 A g \<Longrightarrow> g0 = graph_new \<Longrightarrow> gr_finalized g \<Longrightarrow> transposed g"
proof (induction rule: graph_run.induct)
  case (run_refl g)
  then show ?case by (simp add: graph_new_def)
next
  case (run_step g0 A g B g')
  have ok: "graph_ok g" using graph_run_keeps [OF run_step(1)] run_step.prems graph_new_ok by (simp add: keeps_def)
  from graph_step_rows [OF ok run_step(2)] show ?case
    using transposed_same run_step finalize_transposed [OF ok] by blast
qed

section \<open>Weights of mirrors\<close>

text \<open>
  Finalize reads the weights of the slots that the harvest keeps and no others: whatever weight was
  learned on the mirror slot of a bidirectional edge is gone after it.
\<close>

lemma mirror_weights_are_dropped:
  assumes "\<not> gr_finalized g"
    and "\<And>src j. j \<in> set [cs_offsets (gr_csr g) ! src ..< cs_offsets (gr_csr g) ! (src + 1)] \<Longrightarrow>
      \<not> (cs_directions (gr_csr g) ! j = EdgeBidirectional \<and> unat (cs_targets (gr_csr g) ! j) < src) \<Longrightarrow>
      read_weight ((gr_csr g)\<lparr>cs_weights := ws\<rparr>) (of_nat j) = read_weight (gr_csr g) (of_nat j)"
  shows "gr_csr (finalize F (g\<lparr>gr_csr := (gr_csr g)\<lparr>cs_weights := ws\<rparr>\<rparr>)) = gr_csr (finalize F g)"
proof -
  let ?h = "g\<lparr>gr_csr := (gr_csr g)\<lparr>cs_weights := ws\<rparr>\<rparr>"
  have "harvest_row ?h src acc = harvest_row g src acc" for src acc
    unfolding harvest_row_def
    by (rule fold_cong) (use assms(2) [of _ src] in \<open>auto simp: harvest_slot_def Let_def fun_eq_iff\<close>)
  then have "harvest_row ?h = harvest_row g" by (intro ext)
  then have same: "harvest ?h = harvest g" by (simp add: harvest_def)
  have "cs_pending_edges (gr_csr (staged_graph ?h)) = cs_pending_edges (gr_csr (staged_graph g))"
    "gr_edge_plasticity (staged_graph ?h) = gr_edge_plasticity (staged_graph g)"
    by (simp_all add: staged_graph_def rehydrate_csr_into_pending_def same csr_num_edges_def Let_def)
  then have "gr_csr (rebuild (staged_graph ?h)) = gr_csr (rebuild (staged_graph g))"
    by (simp add: rebuild_def Let_def case_prod_beta')
  then show ?thesis using assms(1) by (simp add: finalize_parts)
qed

section \<open>Sample runs\<close>

text \<open>Two nodes, joined both ways.\<close>

definition sample_two :: graph where
  "sample_two = fst (add_node ''b'' ''Beta'' NtClass [] 0 0
     (fst (add_node ''a'' ''Alpha'' NtFile [''core''] 0 0 graph_new)))"

definition sample_joined :: graph where
  "sample_joined = fst (add_edge 0 1 ''calls'' F32_ONE EdgeBidirectional False F32_ZERO sample_two)"

lemma sample_two_value:
  "nd_count (gr_nodes sample_two) = 2" "length (in_strings (gr_strings sample_two)) = 5"
  "resolve_id sample_two ''b'' = Some 1"
  by code_simp+

lemma step_first:
  assumes "graph_step g B g'"
  shows "graph_run g B g'"
  using run_step [OF run_refl assms] by simp

lemma sample_two_run: "graph_run graph_new {#} sample_two"
proof -
  let ?g = "fst (add_node ''a'' ''Alpha'' NtFile [''core''] 0 0 graph_new)"
  have size: "length (in_strings (gr_strings ?g)) = 3 \<and> nd_count (gr_nodes ?g) = 1" by code_simp
  have "graph_step graph_new {#} ?g"
    by (rule step_node [of "[''core'']" _ "''a''" "''Alpha''" NtFile 0 0 _ "snd (add_node ''a'' ''Alpha'' NtFile [''core''] 0 0 graph_new)"])
      (simp_all add: handles_left_def graph_new_def interner_new_def nodes_new_def)
  moreover have "graph_step ?g {#} sample_two"
    by (rule step_node [of "[]" _ "''b''" "''Beta''" NtClass 0 0 _ "snd (add_node ''b'' ''Beta'' NtClass [] 0 0 ?g)"])
      (use size in \<open>simp_all add: handles_left_def sample_two_def\<close>)
  ultimately show ?thesis using run_step [OF step_first] by fastforce
qed

lemma sample_joined_step:
  "graph_step sample_two (named_arcs 0 1 ''calls'' False EdgeBidirectional F32_ZERO) sample_joined"
proof (rule step_edge)
  show "handles_left 1 sample_two" by (simp add: handles_left_def sample_two_value)
  show "add_edge 0 1 ''calls'' F32_ONE EdgeBidirectional False F32_ZERO sample_two = (sample_joined, Inr 0)"
    unfolding sample_joined_def by (simp add: prod_eq_iff) code_simp
qed

lemma sample_joined_run:
  "graph_run graph_new (named_arcs 0 1 ''calls'' False EdgeBidirectional F32_ZERO) sample_joined"
  using run_step [OF sample_two_run sample_joined_step] by simp

section \<open>Properties\<close>

text \<open>C9: Whatever sequence of calls built a graph, finalize makes its rows the directed edges that were
  added, each as often as it was added and a bidirectional edge in both directions, with none left
  staged; provided no bidirectional edge joins a node to itself.\<close>
theorem finalize_rows_are_the_edges_added:
  assumes "graph_run graph_new A g" and "\<forall>e \<in># A. \<not> named_loop e"
  shows "gr_finalized (finalize F g) \<and> cs_pending_edges (gr_csr (finalize F g)) = [] \<and>
    image_mset (named (gr_strings (finalize F g))) (csr_shapes (gr_csr (finalize F g))) = A"
proof -
  have run: "graph_run graph_new A (finalize F g)" using run_step [OF assms(1) step_finalize] by simp
  have ok: "graph_ok (finalize F g)" using graph_run_keeps [OF run] graph_new_ok by (simp add: keeps_def)
  have "gr_finalized (finalize F g)" by (simp add: finalize_def Let_def)
  moreover from this have "cs_pending_edges (gr_csr (finalize F g)) = []" using ok by (simp add: graph_ok_def)
  ultimately show ?thesis using run_arcs [OF run refl assms(2)] by (simp add: graph_arcs_def)
qed

text \<open>C10: In every finalized graph the reverse index of a node lists exactly the slots that point to it,
  each with the node whose row holds the slot, in the order of the forward rows.\<close>
theorem reverse_index_is_the_transpose:
  assumes "graph_run graph_new A g" and "gr_finalized g" and "has_node g v"
  shows "arcs_indexed g v = arcs_into g v"
  using run_transposed [OF assms(1) refl assms(2)] assms(3) by (simp add: transposed_def)

text \<open>C11: In every graph identifiers name nodes one to one: each node has exactly one identifier, an
  identifier names at most one node, and whatever is called afterwards it keeps naming that node.\<close>
theorem identifiers_name_nodes_for_good:
  assumes "graph_run graph_new A g" and "graph_run g B g'"
  shows "(\<forall>v. has_node g v \<longrightarrow> (\<exists>!x. resolve_id g x = Some v)) \<and>
    (\<forall>x v. resolve_id g x = Some v \<longrightarrow> has_node g v \<and> resolve_id g' x = Some v)"
proof -
  have ok: "graph_ok g" using graph_run_keeps [OF assms(1)] graph_new_ok by (simp add: keeps_def)
  have keeps: "keeps g g'" using graph_run_keeps [OF assms(2) ok] .
  have id: "resolve_id h x = Some v \<longleftrightarrow> (\<exists>i. try_resolve (gr_strings h) i = Some x \<and> gr_id_to_node h i = Some v)"
    if "graph_ok h" for h x v
    using graph_ok_parts(1) [OF that]
    by (auto simp: resolve_id_def interner_lookup_def interner_ok_def Option.bind_eq_Some_conv)
  note ids = graph_ok_parts(8) [OF ok, unfolded ids_ok_def]
  have one: "\<exists>!x. resolve_id g x = Some v" if node: "has_node g v" for v
  proof -
    obtain i where i: "gr_id_to_node g i = Some v" using ids node unfolding has_node_def by blast
    then obtain x where x: "try_resolve (gr_strings g) i = Some x" using ids by blast
    have "y = x" if "resolve_id g y = Some v" for y using that i x ids unfolding id [OF ok] by (metis option.inject)
    then show ?thesis using i x id [OF ok] by blast
  qed
  moreover have "has_node g v \<and> resolve_id g' x = Some v" if x: "resolve_id g x = Some v" for x v
  proof -
    obtain i where i: "try_resolve (gr_strings g) i = Some x" "gr_id_to_node g i = Some v" using x id [OF ok] by blast
    have "try_resolve (gr_strings g') i = Some x" "gr_id_to_node g' i = Some v"
      using i keeps try_resolve_extends by (auto simp: keeps_def map_le_def dom_def)
    then show ?thesis using id [of g'] keeps i ids by (auto simp: keeps_def has_node_def)
  qed
  ultimately show ?thesis by blast
qed

text \<open>The witnesses take an arithmetic in which every rounded operation yields zero.\<close>

definition flat_arith :: f32_arith where
  "flat_arith = \<lparr>fa_add = \<lambda>_ _. 0, fa_sub = \<lambda>_ _. 0, fa_mul = \<lambda>_ _. 0, fa_div = \<lambda>_ _. 0, fa_of_nat = \<lambda>_. 0\<rparr>"

lemma finalize_rows_are_the_edges_added_witness:
  "gr_finalized (finalize flat_arith sample_joined) \<and>
   cs_pending_edges (gr_csr (finalize flat_arith sample_joined)) = [] \<and>
   image_mset (named (gr_strings (finalize flat_arith sample_joined)))
     (csr_shapes (gr_csr (finalize flat_arith sample_joined))) =
     {#(0, 1, Some ''calls'', False, EdgeBidirectional, F32_ZERO),
       (1, 0, Some ''calls'', False, EdgeBidirectional, F32_ZERO)#}"
proof -
  have "\<forall>e \<in># named_arcs 0 1 ''calls'' False EdgeBidirectional F32_ZERO. \<not> named_loop e"
    by (simp add: named_arcs_def named_loop_def)
  from finalize_rows_are_the_edges_added [OF sample_joined_run this, of flat_arith] show ?thesis
    by (simp add: named_arcs_def)
qed

lemma reverse_index_is_the_transpose_witness:
  "gr_finalized (finalize flat_arith sample_joined) \<and> has_node (finalize flat_arith sample_joined) 1 \<and>
   arcs_indexed (finalize flat_arith sample_joined) 1 = arcs_into (finalize flat_arith sample_joined) 1"
proof -
  have run: "graph_run graph_new (named_arcs 0 1 ''calls'' False EdgeBidirectional F32_ZERO)
      (finalize flat_arith sample_joined)"
    using graph_run.run_step [OF sample_joined_run step_finalize] by simp
  have fin: "gr_finalized (finalize flat_arith sample_joined)" by (simp add: finalize_def Let_def)
  have open_joined: "\<not> gr_finalized sample_joined" by code_simp
  have "nd_count (gr_nodes sample_joined) = 2" by code_simp
  then have node: "has_node (finalize flat_arith sample_joined) 1"
    by (simp add: has_node_def finalize_parts [OF open_joined])
  show ?thesis using reverse_index_is_the_transpose [OF run fin node] fin node by simp
qed

lemma identifiers_name_nodes_for_good_witness:
  "resolve_id sample_two ''b'' = Some 1 \<and> resolve_id sample_joined ''b'' = Some 1"
  using identifiers_name_nodes_for_good [OF sample_two_run step_first [OF sample_joined_step]]
    sample_two_value(3) by blast

end
