(* ===== verification/Graph_Snapshot.thy ===== *)
theory Graph_Snapshot
  imports Graph_Properties
begin

text \<open>
  \<open>m1nd-core/src/snapshot.rs\<close>: a graph as a version 4 snapshot and back, and that nothing is lost on the
  way.  The derived writer and parsers of \<open>serde_json\<close> are the record \<open>snapshot_format\<close>; the messages of
  errors are left out.  The checks for cancellation of the code succeed, as they do in
  \<open>decode_graph_json\<close>.  The laws go from the slots of the rows (each slot is found once, under its key), to
  the edges that are collected from them, the nodes by name, what reading rebuilds, and the weights that it
  restores slot by slot.
\<close>

section \<open>Data\<close>

type_synonym u8 = "8 word"

definition SNAPSHOT_VERSION :: u32 where "SNAPSHOT_VERSION = 4"

definition LEGACY_SNAPSHOT_VERSION :: u32 where "LEGACY_SNAPSHOT_VERSION = 3"

text \<open>\<open>NodeProvenanceSnapshot\<close> has the fields of \<open>ResolvedNodeProvenance\<close>.\<close>

record node_snapshot =
  ns_external_id :: string
  ns_label :: string
  ns_node_type :: u8
  ns_tags :: "string list"
  ns_last_modified :: f64
  ns_change_frequency :: f32
  ns_provenance :: resolved_provenance

record edge_snapshot =
  es_source_id :: string
  es_target_id :: string
  es_relation :: string
  es_original_weight :: f32
  es_current_weight :: f32
  es_reverse_original_weight :: "f32 option"
  es_reverse_current_weight :: "f32 option"
  es_direction :: u8
  es_inhibitory :: bool
  es_causal_strength :: f32

record edge_snapshot_v3 =
  e3_source_id :: string
  e3_target_id :: string
  e3_relation :: string
  e3_weight :: f32
  e3_direction :: u8
  e3_inhibitory :: bool
  e3_causal_strength :: f32

record graph_snapshot =
  gs_version :: u32
  gs_nodes :: "node_snapshot list"
  gs_edges :: "edge_snapshot list"

record graph_snapshot_v3 =
  g3_version :: u32
  g3_nodes :: "node_snapshot list"
  g3_edges :: "edge_snapshot_v3 list"

datatype snapshot_error =
    SnapshotGraph graph_error
  | OverlappingRanges
  | SlotsWithoutSource
  | IncompleteSlot nat
  | MissingPlasticity nat
  | OutsideNodeTable nat
  | NoReverseMirror nat
  | UnknownDirection u8
  | NonFiniteEdge
  | ForwardWithReverse
  | BidirectionalWithoutReverse
  | UnsupportedVersion u32
  | EdgesWithoutNodes
  | NonFiniteNode string
  | MissingSource string
  | MissingTarget string
  | MissingRelation string
  | NoSlot
  | PendingEdges
  | SnapshotSerde

definition edge_of_v3 :: "edge_snapshot_v3 \<Rightarrow> edge_snapshot" where
  "edge_of_v3 v = (let reverse_weight = (if e3_direction v = 1 then Some (e3_weight v) else None) in
     \<lparr>es_source_id = e3_source_id v, es_target_id = e3_target_id v, es_relation = e3_relation v,
      es_original_weight = e3_weight v, es_current_weight = e3_weight v,
      es_reverse_original_weight = reverse_weight, es_reverse_current_weight = reverse_weight,
      es_direction = e3_direction v, es_inhibitory = e3_inhibitory v,
      es_causal_strength = e3_causal_strength v\<rparr>)"

text \<open>The addition of \<open>Custom\<close> wraps in a release build and panics in a debug build.\<close>

fun node_type_to_u8 :: "node_type \<Rightarrow> u8" where
  "node_type_to_u8 NtFile = 0"
| "node_type_to_u8 NtDirectory = 1"
| "node_type_to_u8 NtFunction = 2"
| "node_type_to_u8 NtClass = 3"
| "node_type_to_u8 NtStruct = 4"
| "node_type_to_u8 NtEnum = 5"
| "node_type_to_u8 NtType = 6"
| "node_type_to_u8 NtModule = 7"
| "node_type_to_u8 NtReference = 8"
| "node_type_to_u8 NtConcept = 9"
| "node_type_to_u8 NtMaterial = 10"
| "node_type_to_u8 NtProcess = 11"
| "node_type_to_u8 NtProduct = 12"
| "node_type_to_u8 NtSupplier = 13"
| "node_type_to_u8 NtRegulatory = 14"
| "node_type_to_u8 NtSystem = 15"
| "node_type_to_u8 NtCost = 16"
| "node_type_to_u8 (NtCustom v) = 100 + v"

definition plain_node_types :: "node_type list" where
  "plain_node_types = [NtFile, NtDirectory, NtFunction, NtClass, NtStruct, NtEnum, NtType, NtModule,
     NtReference, NtConcept, NtMaterial, NtProcess, NtProduct, NtSupplier, NtRegulatory, NtSystem, NtCost]"

definition u8_to_node_type :: "u8 \<Rightarrow> node_type" where
  "u8_to_node_type v =
     (if v \<le> 16 then plain_node_types ! unat v
      else if v \<ge> 100 then NtCustom (v - 100)
      else NtCustom v)"

fun direction_u8 :: "edge_direction \<Rightarrow> u8" where
  "direction_u8 EdgeForward = 0"
| "direction_u8 EdgeBidirectional = 1"

definition f64_is_finite :: "f64 \<Rightarrow> bool" where
  "f64_is_finite v \<longleftrightarrow> v AND 0x7FF0000000000000 \<noteq> 0x7FF0000000000000"

section \<open>Slots by key\<close>

record slot_key =
  ek_source :: u32
  ek_target :: u32
  ek_relation :: u32
  ek_direction :: u8
  ek_inhibitory :: bool
  ek_causal_strength_bits :: u32

definition reversed :: "slot_key \<Rightarrow> slot_key" where
  "reversed k = k\<lparr>ek_source := ek_target k, ek_target := ek_source k\<rparr>"

fun assign_slots ::
  "nat \<Rightarrow> node_id \<Rightarrow> nat list \<Rightarrow> node_id list \<Rightarrow> bool list \<Rightarrow> snapshot_error + node_id list \<times> bool list" where
  "assign_slots edge_count source [] sources assigned = Ok (sources, assigned)"
| "assign_slots edge_count source (slot # rest) sources assigned =
     (if slot \<ge> edge_count \<or> assigned ! slot then Err OverlappingRanges
      else assign_slots edge_count source rest (sources[slot := source]) (assigned[slot := True]))"

fun assign_rows ::
  "csr_graph \<Rightarrow> nat list \<Rightarrow> node_id list \<Rightarrow> bool list \<Rightarrow> snapshot_error + node_id list \<times> bool list" where
  "assign_rows c [] sources assigned = Ok (sources, assigned)"
| "assign_rows c (source # rest) sources assigned =
     and_then (assign_slots (csr_num_edges c) (of_nat source) (slots (out_range c (of_nat source))) sources assigned)
       (\<lambda>(sources1, assigned1). assign_rows c rest sources1 assigned1)"

definition edge_slot_sources :: "graph \<Rightarrow> snapshot_error + node_id list" where
  "edge_slot_sources g = (let edge_count = csr_num_edges (gr_csr g) in
     and_then (assign_rows (gr_csr g) [0 ..< unat (nd_count (gr_nodes g))]
         (replicate edge_count 0) (replicate edge_count False))
       (\<lambda>(sources, assigned). if False \<in> set assigned then Err SlotsWithoutSource else Ok sources))"

definition edge_slot_key :: "graph \<Rightarrow> node_id list \<Rightarrow> nat \<Rightarrow> snapshot_error + slot_key" where
  "edge_slot_key g sources slot = (let c = gr_csr g in
     if slot \<ge> csr_num_edges c \<or> slot \<ge> length sources \<or> slot \<ge> length (cs_targets c) \<or>
        slot \<ge> length (cs_relations c) \<or> slot \<ge> length (cs_directions c) \<or>
        slot \<ge> length (cs_inhibitory c) \<or> slot \<ge> length (cs_causal_strengths c)
     then Err (IncompleteSlot slot)
     else Ok \<lparr>ek_source = sources ! slot, ek_target = cs_targets c ! slot, ek_relation = cs_relations c ! slot,
       ek_direction = direction_u8 (cs_directions c ! slot), ek_inhibitory = cs_inhibitory c ! slot,
       ek_causal_strength_bits = cs_causal_strengths c ! slot\<rparr>)"

text \<open>A key that is not in the map has the empty queue.\<close>

type_synonym slot_queues = "slot_key \<Rightarrow> nat list"

fun queue_slots :: "graph \<Rightarrow> node_id list \<Rightarrow> nat list \<Rightarrow> slot_queues \<Rightarrow> snapshot_error + slot_queues" where
  "queue_slots g sources [] queues = Ok queues"
| "queue_slots g sources (slot # rest) queues =
     and_then (edge_slot_key g sources slot)
       (\<lambda>key. queue_slots g sources rest (queues(key := queues key @ [slot])))"

definition edge_slot_queues :: "graph \<Rightarrow> node_id list \<Rightarrow> snapshot_error + slot_queues" where
  "edge_slot_queues g sources = queue_slots g sources [0 ..< csr_num_edges (gr_csr g)] (\<lambda>_. [])"

fun pop_front :: "bool list \<Rightarrow> nat list \<Rightarrow> nat option \<times> nat list" where
  "pop_front consumed [] = (None, [])"
| "pop_front consumed (slot # rest) =
     (if consumed ! slot then pop_front consumed rest else (Some slot, rest))"

definition pop_unconsumed_slot ::
  "slot_queues \<Rightarrow> slot_key \<Rightarrow> bool list \<Rightarrow> slot_queues \<times> nat option" where
  "pop_unconsumed_slot queues key consumed =
     (let (slot, rest) = pop_front consumed (queues key) in (queues(key := rest), slot))"

definition validate_edge_plasticity_slot :: "graph \<Rightarrow> nat \<Rightarrow> snapshot_error + unit" where
  "validate_edge_plasticity_slot g slot =
     check (\<not> (slot \<ge> length (ep_original_weight (gr_edge_plasticity g)) \<or>
       slot \<ge> length (ep_current_weight (gr_edge_plasticity g)))) (MissingPlasticity slot)"

section \<open>Writing\<close>

text \<open>The mirror of a slot: its queues and marks after it was taken, and its two weights.\<close>

definition take_mirror ::
  "graph \<Rightarrow> nat \<Rightarrow> slot_key \<Rightarrow> slot_queues \<Rightarrow> bool list
     \<Rightarrow> snapshot_error + slot_queues \<times> bool list \<times> f32 option \<times> f32 option" where
  "take_mirror g slot key queues consumed =
     (if cs_directions (gr_csr g) ! slot = EdgeBidirectional
      then (case pop_unconsumed_slot queues (reversed key) consumed of
          (_, None) \<Rightarrow> Err (NoReverseMirror slot)
        | (queues1, Some reverse_slot) \<Rightarrow>
            and_then (validate_edge_plasticity_slot g reverse_slot) (\<lambda>_.
              Ok (queues1, consumed[reverse_slot := True],
                Some (ep_original_weight (gr_edge_plasticity g) ! reverse_slot),
                Some (read_weight (gr_csr g) (of_nat reverse_slot)))))
      else Ok (queues, consumed, None, None))"

definition collect_slot ::
  "graph \<Rightarrow> string list \<Rightarrow> node_id list \<Rightarrow> nat \<Rightarrow> slot_queues \<times> bool list \<times> edge_snapshot list
     \<Rightarrow> snapshot_error + slot_queues \<times> bool list \<times> edge_snapshot list" where
  "collect_slot g node_to_ext_id sources slot st = (case st of (queues, consumed, edges) \<Rightarrow>
     if consumed ! slot then Ok st
     else
       and_then (validate_edge_plasticity_slot g slot) (\<lambda>_.
       and_then (edge_slot_key g sources slot) (\<lambda>key.
         if unat (ek_source key) \<ge> length node_to_ext_id \<or> unat (ek_target key) \<ge> length node_to_ext_id
         then Err (OutsideNodeTable slot)
         else
           and_then (take_mirror g slot key queues (consumed[slot := True]))
             (\<lambda>(queues1, consumed1, reverse_original, reverse_current).
               Ok (queues1, consumed1, edges @
                 [\<lparr>es_source_id = node_to_ext_id ! unat (ek_source key),
                   es_target_id = node_to_ext_id ! unat (ek_target key),
                   es_relation = in_strings (gr_strings g) ! unat (cs_relations (gr_csr g) ! slot),
                   es_original_weight = ep_original_weight (gr_edge_plasticity g) ! slot,
                   es_current_weight = read_weight (gr_csr g) (of_nat slot),
                   es_reverse_original_weight = reverse_original, es_reverse_current_weight = reverse_current,
                   es_direction = ek_direction key, es_inhibitory = ek_inhibitory key,
                   es_causal_strength = ek_causal_strength_bits key\<rparr>])))))"

fun collect_slots ::
  "graph \<Rightarrow> string list \<Rightarrow> node_id list \<Rightarrow> nat list \<Rightarrow> slot_queues \<times> bool list \<times> edge_snapshot list
     \<Rightarrow> snapshot_error + slot_queues \<times> bool list \<times> edge_snapshot list" where
  "collect_slots g node_to_ext_id sources [] st = Ok st"
| "collect_slots g node_to_ext_id sources (slot # rest) st =
     and_then (collect_slot g node_to_ext_id sources slot st) (collect_slots g node_to_ext_id sources rest)"

definition collect_edge_snapshots_v4 :: "graph \<Rightarrow> string list \<Rightarrow> snapshot_error + edge_snapshot list" where
  "collect_edge_snapshots_v4 g node_to_ext_id = (let edge_count = csr_num_edges (gr_csr g) in
     and_then (edge_slot_sources g) (\<lambda>sources.
     and_then (edge_slot_queues g sources) (\<lambda>queues.
     and_then (collect_slots g node_to_ext_id sources [0 ..< edge_count] (queues, replicate edge_count False, []))
       (\<lambda>(_, _, edges). Ok edges))))"

text \<open>
  The identifiers by node.  The code walks the map; its keys are handles of the interner, which are
  walked here.
\<close>

definition node_ext_ids :: "graph \<Rightarrow> string list" where
  "node_ext_ids g = fold (\<lambda>i ext. case gr_id_to_node g (of_nat i) of
       Some node \<Rightarrow> ext[unat node := in_strings (gr_strings g) ! i] | None \<Rightarrow> ext)
     [0 ..< length (in_strings (gr_strings g))] (replicate (unat (nd_count (gr_nodes g))) [])"

definition node_snapshot_of :: "graph \<Rightarrow> string list \<Rightarrow> nat \<Rightarrow> node_snapshot" where
  "node_snapshot_of g node_to_ext_id i = (let d = gr_nodes g in
     \<lparr>ns_external_id = node_to_ext_id ! i,
      ns_label = in_strings (gr_strings g) ! unat (nd_label d ! i),
      ns_node_type = node_type_to_u8 (nd_node_type d ! i),
      ns_tags = map (\<lambda>t. in_strings (gr_strings g) ! unat t) (nd_tags d ! i),
      ns_last_modified = nd_last_modified d ! i,
      ns_change_frequency = nd_change_frequency d ! i,
      ns_provenance = resolve_node_provenance g (of_nat i)\<rparr>)"

definition snapshot_of_graph :: "graph \<Rightarrow> snapshot_error + graph_snapshot" where
  "snapshot_of_graph g =
     (if cs_pending_edges (gr_csr g) \<noteq> [] then Err PendingEdges
      else
        let node_to_ext_id = node_ext_ids g;
            nodes = map (node_snapshot_of g node_to_ext_id) [0 ..< unat (nd_count (gr_nodes g))] in
        and_then (collect_edge_snapshots_v4 g node_to_ext_id) (\<lambda>edges.
          Ok \<lparr>gs_version = SNAPSHOT_VERSION, gs_nodes = nodes, gs_edges = edges\<rparr>))"

section \<open>Reading\<close>

definition validate_v4_edge :: "edge_snapshot \<Rightarrow> snapshot_error + unit" where
  "validate_v4_edge e =
     (if es_direction e > 1 then Err (UnknownDirection (es_direction e))
      else if \<not> f32_is_finite (es_original_weight e) \<or> \<not> f32_is_finite (es_current_weight e) \<or>
        \<not> f32_is_finite (es_causal_strength e) \<or>
        (\<exists>v \<in> set_option (es_reverse_original_weight e). \<not> f32_is_finite v) \<or>
        (\<exists>v \<in> set_option (es_reverse_current_weight e). \<not> f32_is_finite v)
      then Err NonFiniteEdge
      else if es_direction e = 0 then
        (if es_reverse_original_weight e = None \<and> es_reverse_current_weight e = None then Ok ()
         else Err ForwardWithReverse)
      else
        (if es_reverse_original_weight e \<noteq> None \<and> es_reverse_current_weight e \<noteq> None then Ok ()
         else Err BidirectionalWithoutReverse))"

definition restore_edge_slot :: "nat \<Rightarrow> f32 \<Rightarrow> f32 \<Rightarrow> graph \<Rightarrow> snapshot_error + graph" where
  "restore_edge_slot slot original_weight current_weight g =
     and_then (validate_edge_plasticity_slot g slot) (\<lambda>_.
       let p = gr_edge_plasticity g; c = gr_csr g in
       Ok (g\<lparr>gr_edge_plasticity := p
               \<lparr>ep_original_weight := (ep_original_weight p)[slot := finite_f32 original_weight],
                ep_current_weight := (ep_current_weight p)[slot := finite_f32 current_weight]\<rparr>,
             gr_csr := c\<lparr>cs_weights := (cs_weights c)[slot := current_weight]\<rparr>\<rparr>))"

fun read_nodes :: "node_snapshot list \<Rightarrow> graph \<Rightarrow> snapshot_error + graph" where
  "read_nodes [] g = Ok g"
| "read_nodes (node # rest) g =
     (if \<not> f64_is_finite (ns_last_modified node) \<or> \<not> f32_is_finite (ns_change_frequency node)
      then Err (NonFiniteNode (ns_external_id node))
      else
        case add_node (ns_external_id node) (ns_label node) (u8_to_node_type (ns_node_type node)) (ns_tags node)
            (ns_last_modified node) (ns_change_frequency node) g of
          (_, Inl e) \<Rightarrow> Err (SnapshotGraph e)
        | (g1, Inr node_id) \<Rightarrow> read_nodes rest (set_node_provenance node_id (ns_provenance node) g1))"

definition edge_ends :: "graph \<Rightarrow> edge_snapshot \<Rightarrow> snapshot_error + node_id \<times> node_id" where
  "edge_ends g e =
     and_then (ok_or (resolve_id g (es_source_id e)) (MissingSource (es_source_id e))) (\<lambda>source.
     and_then (ok_or (resolve_id g (es_target_id e)) (MissingTarget (es_target_id e))) (\<lambda>target.
       Ok (source, target)))"

fun read_edges :: "edge_snapshot list \<Rightarrow> graph \<Rightarrow> snapshot_error + graph" where
  "read_edges [] g = Ok g"
| "read_edges (e # rest) g =
     and_then (edge_ends g e) (\<lambda>(source, target).
       case add_edge source target (es_relation e) (finite_f32 (es_original_weight e))
           (if es_direction e = 1 then EdgeBidirectional else EdgeForward) (es_inhibitory e)
           (finite_f32 (es_causal_strength e)) g of
         (_, Inl err) \<Rightarrow> Err (SnapshotGraph err)
       | (g1, Inr _) \<Rightarrow> read_edges rest g1)"

definition restore_at ::
  "slot_key \<Rightarrow> f32 \<Rightarrow> f32 \<Rightarrow> slot_queues \<times> bool list \<times> graph
     \<Rightarrow> snapshot_error + slot_queues \<times> bool list \<times> graph" where
  "restore_at key original current st = (case st of (queues, consumed, g) \<Rightarrow>
     (case pop_unconsumed_slot queues key consumed of
        (_, None) \<Rightarrow> Err NoSlot
      | (queues1, Some slot) \<Rightarrow>
          and_then (restore_edge_slot slot original current g) (\<lambda>g1. Ok (queues1, consumed[slot := True], g1))))"

definition restore_edge ::
  "edge_snapshot \<Rightarrow> slot_queues \<times> bool list \<times> graph \<Rightarrow> snapshot_error + slot_queues \<times> bool list \<times> graph" where
  "restore_edge e st = (let g = snd (snd st) in
     and_then (edge_ends g e) (\<lambda>(source, target).
     and_then (ok_or (interner_lookup (gr_strings g) (es_relation e)) (MissingRelation (es_relation e))) (\<lambda>relation.
       let key = \<lparr>ek_source = source, ek_target = target, ek_relation = relation, ek_direction = es_direction e,
             ek_inhibitory = es_inhibitory e, ek_causal_strength_bits = es_causal_strength e\<rparr> in
       and_then (restore_at key (es_original_weight e) (es_current_weight e) st) (\<lambda>st1.
         if es_direction e = 1
         then restore_at (reversed key) (the (es_reverse_original_weight e)) (the (es_reverse_current_weight e)) st1
         else Ok st1))))"

fun restore_edges ::
  "edge_snapshot list \<Rightarrow> slot_queues \<times> bool list \<times> graph \<Rightarrow> snapshot_error + slot_queues \<times> bool list \<times> graph" where
  "restore_edges [] st = Ok st"
| "restore_edges (e # rest) st = and_then (restore_edge e st) (restore_edges rest)"

definition graph_from_snapshot_v4 :: "f32_arith \<Rightarrow> graph_snapshot \<Rightarrow> snapshot_error + graph" where
  "graph_from_snapshot_v4 F s =
     (if gs_version s \<noteq> SNAPSHOT_VERSION then Err (UnsupportedVersion (gs_version s))
      else if gs_nodes s = [] then
        (if gs_edges s = [] then Ok (finalize F graph_new) else Err EdgesWithoutNodes)
      else
        and_then (seq_checks (map validate_v4_edge (gs_edges s))) (\<lambda>_.
        and_then (read_nodes (gs_nodes s) graph_new) (\<lambda>g1.
        and_then (read_edges (gs_edges s) g1) (\<lambda>g2.
          let g = finalize F g2 in
          and_then (edge_slot_sources g) (\<lambda>sources.
          and_then (edge_slot_queues g sources) (\<lambda>queues.
          and_then (restore_edges (gs_edges s) (queues, replicate (csr_num_edges (gr_csr g)) False, g))
            (\<lambda>(_, _, h). Ok h)))))))"

section \<open>Bytes\<close>

record snapshot_format =
  sf_write :: "graph_snapshot \<Rightarrow> 8 word list"
  sf_version :: "8 word list \<Rightarrow> u32 option"
  sf_parse_v4 :: "8 word list \<Rightarrow> graph_snapshot option"
  sf_parse_v3 :: "8 word list \<Rightarrow> graph_snapshot_v3 option"

definition encode_graph_json :: "snapshot_format \<Rightarrow> graph \<Rightarrow> snapshot_error + 8 word list" where
  "encode_graph_json S g = and_then (snapshot_of_graph g) (\<lambda>s. Ok (sf_write S s))"

definition decode_graph_json :: "snapshot_format \<Rightarrow> f32_arith \<Rightarrow> 8 word list \<Rightarrow> snapshot_error + graph" where
  "decode_graph_json S F data =
     and_then (ok_or (sf_version S data) SnapshotSerde) (\<lambda>version.
       if version = SNAPSHOT_VERSION
       then and_then (ok_or (sf_parse_v4 S data) SnapshotSerde) (graph_from_snapshot_v4 F)
       else if version = LEGACY_SNAPSHOT_VERSION
       then and_then (ok_or (sf_parse_v3 S data) SnapshotSerde) (\<lambda>legacy.
         if g3_version legacy \<noteq> LEGACY_SNAPSHOT_VERSION then Err (UnsupportedVersion (g3_version legacy))
         else graph_from_snapshot_v4 F
           \<lparr>gs_version = SNAPSHOT_VERSION, gs_nodes = g3_nodes legacy, gs_edges = map edge_of_v3 (g3_edges legacy)\<rparr>)
       else Err (UnsupportedVersion version))"

section \<open>The slots of a laid out graph\<close>

definition rows_cover :: "nat \<Rightarrow> csr_graph \<Rightarrow> bool" where
  "rows_cover n c \<longleftrightarrow> length (cs_offsets c) = n + 1 \<and> cs_offsets c ! 0 = 0 \<and>
     (\<forall>i < n. cs_offsets c ! i \<le> cs_offsets c ! Suc i)"

definition row_sources :: "nat list \<Rightarrow> nat \<Rightarrow> nat list" where
  "row_sources offs n = concat (map (\<lambda>r. replicate (offs ! Suc r - offs ! r) r) [0 ..< n])"

lemma row_sources_Suc:
  "row_sources offs (Suc n) = row_sources offs n @ replicate (offs ! Suc n - offs ! n) n"
  by (simp add: row_sources_def)

lemma row_sources_walk:
  assumes "offs ! 0 = 0" "\<forall>i < n. offs ! i \<le> offs ! Suc i"
  shows "length (row_sources offs n) = offs ! n"
    and "concat (map (\<lambda>r. map (f r) [offs ! r ..< offs ! Suc r]) [0 ..< n]) =
      map (\<lambda>j. f (row_sources offs n ! j) j) [0 ..< offs ! n]"
  using assms
proof (induction n)
  case 0
  { case 1 then show ?case by (simp add: row_sources_def) next case 2 then show ?case by simp }
next
  case (Suc n)
  { case 1 then show ?case using Suc.IH(1) by (simp add: row_sources_Suc) }
  { case 2
    have len: "length (row_sources offs n) = offs ! n" and le: "offs ! n \<le> offs ! Suc n" using 2 Suc.IH(1) by auto
    have "[0 ..< offs ! Suc n] = [0 ..< offs ! n] @ [offs ! n ..< offs ! Suc n]"
      using upt_add_eq_append [of 0 "offs ! n" "offs ! Suc n - offs ! n"] le by simp
    moreover have "map (f n) [offs ! n ..< offs ! Suc n] =
        map (\<lambda>j. f (row_sources offs (Suc n) ! j) j) [offs ! n ..< offs ! Suc n]"
      using len by (auto simp: row_sources_Suc nth_append)
    moreover have "map (\<lambda>j. f (row_sources offs n ! j) j) [0 ..< offs ! n] =
        map (\<lambda>j. f (row_sources offs (Suc n) ! j) j) [0 ..< offs ! n]"
      using len by (auto simp: row_sources_Suc nth_append)
    ultimately show ?case using Suc.IH(2) 2 by simp }
qed

definition slot_sources :: "csr_graph \<Rightarrow> nat list" where
  "slot_sources c = row_sources (cs_offsets c) (length (cs_offsets c) - 1)"

definition shape_at :: "csr_graph \<Rightarrow> nat \<Rightarrow> edge_shape" where
  "shape_at c j = slot_shape (slot_sources c ! j) (slot_at c j)"

lemma rows_cover_last: "rows_cover n c \<Longrightarrow> csr_num_edges c = cs_offsets c ! n"
  by (auto simp: rows_cover_def csr_num_edges_def last_conv_nth)

lemma covered_shapes:
  assumes "rows_cover n c"
  shows "length (slot_sources c) = csr_num_edges c"
    and "csr_shapes c = mset (map (shape_at c) [0 ..< csr_num_edges c])"
proof -
  have len: "length (cs_offsets c) - 1 = n" using assms by (simp add: rows_cover_def)
  have walk: "cs_offsets c ! 0 = 0" "\<forall>i < n. cs_offsets c ! i \<le> cs_offsets c ! Suc i"
    using assms by (auto simp: rows_cover_def)
  show "length (slot_sources c) = csr_num_edges c"
    using row_sources_walk(1) [OF walk] unfolding slot_sources_def len rows_cover_last [OF assms] .
  show "csr_shapes c = mset (map (shape_at c) [0 ..< csr_num_edges c])"
    using row_sources_walk(2) [OF walk, of "\<lambda>r j. slot_shape r (slot_at c j)"]
    unfolding csr_shapes_def len csr_row_shapes_def [abs_def] shape_at_def [abs_def] slot_sources_def
      rows_cover_last [OF assms] by simp
qed

section \<open>Sources\<close>

lemma assign_slots_row:
  "length xs = lo \<Longrightarrow> m = lo + d + e \<Longrightarrow>
   assign_slots m src [lo ..< lo + d] (xs @ replicate (d + e) 0) (replicate lo True @ replicate (d + e) False) =
     Ok (xs @ replicate d src @ replicate e 0, replicate (lo + d) True @ replicate e False)"
proof (induction d arbitrary: lo xs)
  case (Suc d)
  have upt: "[lo ..< lo + Suc d] = lo # [Suc lo ..< Suc lo + d]" by (simp add: upt_rec)
  have "(xs @ replicate (Suc d + e) 0)[lo := src] = (xs @ [src]) @ replicate (d + e) 0"
    "(replicate lo True @ replicate (Suc d + e) False)[lo := True] = replicate (Suc lo) True @ replicate (d + e) False"
    using Suc.prems by (simp_all add: list_update_append replicate_app_Cons_same)
  then have "assign_slots m src (lo # [Suc lo ..< Suc lo + d]) (xs @ replicate (Suc d + e) 0)
      (replicate lo True @ replicate (Suc d + e) False) =
    assign_slots m src [Suc lo ..< Suc lo + d] ((xs @ [src]) @ replicate (d + e) 0)
      (replicate (Suc lo) True @ replicate (d + e) False)"
    using Suc.prems by (simp only: assign_slots.simps) (simp add: nth_append)
  also have "\<dots> = Ok ((xs @ [src]) @ replicate d src @ replicate e 0,
      replicate (Suc lo + d) True @ replicate e False)"
    by (rule Suc.IH) (use Suc.prems in simp_all)
  finally show ?case unfolding upt by simp
qed simp

lemma assign_rows_cover:
  assumes cover: "rows_cover n c" and n: "n < 2 ^ 32"
  shows "k \<le> n \<Longrightarrow> assign_rows c [k ..< n]
      (map of_nat (row_sources (cs_offsets c) k) @ replicate (csr_num_edges c - cs_offsets c ! k) 0)
      (replicate (cs_offsets c ! k) True @ replicate (csr_num_edges c - cs_offsets c ! k) False) =
    Ok (map of_nat (slot_sources c), replicate (csr_num_edges c) True)"
proof (induction "n - k" arbitrary: k)
  case 0
  then have "k = n" by simp
  then show ?case using cover by (simp add: rows_cover_last [OF cover] slot_sources_def rows_cover_def)
next
  case (Suc d)
  let ?o = "cs_offsets c"
  have k: "k < n" using Suc by simp
  have mono: "i \<le> j \<Longrightarrow> j \<le> n \<Longrightarrow> ?o ! i \<le> ?o ! j" for i j
  proof (induction j)
    case (Suc j)
    then show ?case using cover by (cases "i = Suc j") (auto simp: rows_cover_def le_Suc_eq intro: order_trans)
  qed simp
  have le: "?o ! k \<le> ?o ! Suc k" "?o ! Suc k \<le> csr_num_edges c"
    using mono [of k "Suc k"] mono [of "Suc k" n] k by (auto simp: rows_cover_last [OF cover])
  have range: "out_range c (of_nat k) = (?o ! k, ?o ! Suc k)"
    using cover k n by (simp add: out_range_def rows_cover_def Let_def)
  have len: "length (row_sources ?o k) = ?o ! k"
    using row_sources_walk(1) [of ?o k] cover k by (auto simp: rows_cover_def)
  have "assign_slots (csr_num_edges c) (of_nat k) [?o ! k ..< ?o ! Suc k]
      (map of_nat (row_sources ?o k) @ replicate (csr_num_edges c - ?o ! k) 0)
      (replicate (?o ! k) True @ replicate (csr_num_edges c - ?o ! k) False) =
    Ok (map of_nat (row_sources ?o (Suc k)) @ replicate (csr_num_edges c - ?o ! Suc k) 0,
      replicate (?o ! Suc k) True @ replicate (csr_num_edges c - ?o ! Suc k) False)"
    using assign_slots_row [of "map of_nat (row_sources ?o k)" "?o ! k" "csr_num_edges c" "?o ! Suc k - ?o ! k"
        "csr_num_edges c - ?o ! Suc k" "of_nat k"] le len
    by (simp add: row_sources_Suc)
  moreover have "[k ..< n] = k # [Suc k ..< n]" using k by (simp add: upt_conv_Cons)
  moreover have "d = n - Suc k" "Suc k \<le> n" using Suc k by auto
  ultimately show ?case using Suc.hyps(1) [of "Suc k"] range by (simp add: slots_def)
qed

lemma edge_slot_sources_ok:
  assumes "rows_cover (unat (nd_count (gr_nodes g))) (gr_csr g)"
  shows "edge_slot_sources g = Ok (map of_nat (slot_sources (gr_csr g)))"
proof -
  have "unat (nd_count (gr_nodes g)) < 2 ^ 32"
    using unsigned_less [of "nd_count (gr_nodes g)", where ?'a = nat] by simp
  from assign_rows_cover [OF assms this, of 0] show ?thesis
    using assms by (simp add: edge_slot_sources_def row_sources_def rows_cover_def Let_def)
qed

section \<open>Keys and queues\<close>

definition key_of_shape :: "edge_shape \<Rightarrow> slot_key" where
  "key_of_shape s = \<lparr>ek_source = of_nat (sh_source s), ek_target = of_nat (sh_target s),
     ek_relation = sh_relation s, ek_direction = direction_u8 (sh_direction s),
     ek_inhibitory = sh_inhibitory s, ek_causal_strength_bits = sh_causal_strength s\<rparr>"

definition key_at :: "csr_graph \<Rightarrow> nat \<Rightarrow> slot_key" where
  "key_at c j = key_of_shape (shape_at c j)"

lemma edge_slot_key_ok:
  assumes "rows_cover n (gr_csr g)" "csr_columns (csr_num_edges (gr_csr g)) (gr_csr g)" "j < csr_num_edges (gr_csr g)"
  shows "edge_slot_key g (map of_nat (slot_sources (gr_csr g))) j = Ok (key_at (gr_csr g) j)"
  using assms covered_shapes(1) [OF assms(1)]
  by (simp add: edge_slot_key_def Let_def csr_columns_def key_at_def key_of_shape_def shape_at_def slot_shape_def
      slot_at_def)

lemma queue_slots_ok:
  assumes "\<And>j. j \<in> set js \<Longrightarrow> edge_slot_key g sources j = Ok (K j)"
  shows "queue_slots g sources js Q = Ok (\<lambda>key. Q key @ filter (\<lambda>j. K j = key) js)"
  using assms
proof (induction js arbitrary: Q)
  case (Cons j js)
  then show ?case by (auto simp: fun_eq_iff)
qed simp

text \<open>The queues hold the open slots of each key in order, and perhaps slots that were consumed since.\<close>

definition open_slots :: "(nat \<Rightarrow> slot_key) \<Rightarrow> bool list \<Rightarrow> slot_key \<Rightarrow> nat list" where
  "open_slots K consumed key = filter (\<lambda>j. \<not> consumed ! j \<and> K j = key) [0 ..< length consumed]"

definition queues_ok :: "(nat \<Rightarrow> slot_key) \<Rightarrow> bool list \<Rightarrow> slot_queues \<Rightarrow> bool" where
  "queues_ok K consumed Q \<longleftrightarrow> (\<forall>key. filter (\<lambda>j. \<not> consumed ! j) (Q key) = open_slots K consumed key)"

lemma queues_start:
  "queues_ok K (replicate m False) (\<lambda>key. filter (\<lambda>j. K j = key) [0 ..< m])"
  by (auto simp: queues_ok_def open_slots_def intro!: filter_cong)

lemma edge_slot_queues_ok:
  assumes "rows_cover n (gr_csr g)" "csr_columns (csr_num_edges (gr_csr g)) (gr_csr g)"
  obtains Q where "edge_slot_queues g (map of_nat (slot_sources (gr_csr g))) = Ok Q"
    "queues_ok (key_at (gr_csr g)) (replicate (csr_num_edges (gr_csr g)) False) Q"
  using queue_slots_ok [of "[0 ..< csr_num_edges (gr_csr g)]" g "map of_nat (slot_sources (gr_csr g))" "key_at (gr_csr g)" "\<lambda>_. []"]
    edge_slot_key_ok [OF assms] queues_start
  by (simp add: edge_slot_queues_def)

lemma still_open:
  "j < length consumed \<Longrightarrow> (\<not> consumed[j := True] ! i) \<longleftrightarrow> (\<not> consumed ! i \<and> i \<noteq> j)"
  by (cases "i = j") auto

lemma open_slots_mark:
  "j < length consumed \<Longrightarrow> open_slots K (consumed[j := True]) key = filter (\<lambda>i. i \<noteq> j) (open_slots K consumed key)"
  by (auto simp: open_slots_def still_open intro!: filter_cong)

lemma queues_mark:
  "queues_ok K consumed Q \<Longrightarrow> j < length consumed \<Longrightarrow> queues_ok K (consumed[j := True]) Q"
  unfolding queues_ok_def
proof
  fix key assume "\<forall>key. filter (\<lambda>j. \<not> consumed ! j) (Q key) = open_slots K consumed key" and j: "j < length consumed"
  then have "filter (\<lambda>i. i \<noteq> j) (filter (\<lambda>j. \<not> consumed ! j) (Q key)) = filter (\<lambda>i. i \<noteq> j) (open_slots K consumed key)"
    by simp
  then show "filter (\<lambda>i. \<not> consumed[j := True] ! i) (Q key) = open_slots K (consumed[j := True]) key"
    unfolding open_slots_mark [OF j] by (simp add: still_open [OF j] conj_commute)
qed

lemma pop_front_open:
  "filter (\<lambda>j. \<not> consumed ! j) xs = j # js \<Longrightarrow>
   \<exists>rest. pop_front consumed xs = (Some j, rest) \<and> filter (\<lambda>j. \<not> consumed ! j) rest = js"
  by (induction xs) (auto split: if_splits)

lemma pop_ok:
  assumes "queues_ok K consumed Q" "open_slots K consumed key = j # js"
  obtains Q' where "pop_unconsumed_slot Q key consumed = (Q', Some j)" "queues_ok K (consumed[j := True]) Q'"
    "j < length consumed" "\<not> consumed ! j" "K j = key"
proof -
  have "j \<in> set (open_slots K consumed key)" using assms(2) by simp
  then have j: "j < length consumed" "\<not> consumed ! j" "K j = key" by (auto simp: open_slots_def)
  have "distinct (open_slots K consumed key)" by (simp add: open_slots_def)
  then have fresh: "filter (\<lambda>i. i \<noteq> j) (j # js) = js" using assms(2) by (auto simp: filter_id_conv)
  obtain rest where rest: "pop_front consumed (Q key) = (Some j, rest)" "filter (\<lambda>j. \<not> consumed ! j) rest = js"
    using pop_front_open [of consumed "Q key" j js] assms by (auto simp: queues_ok_def)
  have "filter (\<lambda>i. \<not> consumed[j := True] ! i) ((Q(key := rest)) key') = open_slots K (consumed[j := True]) key'" for key'
  proof (cases "key' = key")
    case True
    have "filter (\<lambda>i. \<not> consumed[j := True] ! i) rest = filter (\<lambda>i. i \<noteq> j) (filter (\<lambda>j. \<not> consumed ! j) rest)"
      by (simp add: still_open [OF j(1)] conj_commute)
    also have "\<dots> = filter (\<lambda>i. i \<noteq> j) (filter (\<lambda>i. i \<noteq> j) (j # js))" by (simp only: rest(2) fresh)
    also have "\<dots> = filter (\<lambda>i. i \<noteq> j) (j # js)" by (simp only: filter_filter conj_absorb)
    finally show ?thesis using True by (simp only: open_slots_mark [OF j(1)] assms(2) fun_upd_same)
  next
    case False
    then show ?thesis using queues_mark [OF assms(1) j(1)] by (simp add: queues_ok_def)
  qed
  then have "queues_ok K (consumed[j := True]) (Q(key := rest))" unfolding queues_ok_def by blast
  moreover have "pop_unconsumed_slot Q key consumed = (Q(key := rest), Some j)"
    by (simp add: pop_unconsumed_slot_def rest(1))
  ultimately show ?thesis using that j by blast
qed

section \<open>Counting what is open\<close>

definition open_keys :: "(nat \<Rightarrow> slot_key) \<Rightarrow> bool list \<Rightarrow> slot_key multiset" where
  "open_keys K consumed = image_mset K (mset_set {j. j < length consumed \<and> \<not> consumed ! j})"

definition used_slots :: "bool list \<Rightarrow> nat multiset" where
  "used_slots consumed = mset_set {j. j < length consumed \<and> consumed ! j}"

lemma open_slot_exists:
  assumes "key \<in># open_keys K consumed"
  obtains j js where "open_slots K consumed key = j # js"
proof -
  obtain i where "i < length consumed" "\<not> consumed ! i" "K i = key" using assms by (auto simp: open_keys_def)
  then have "i \<in> set (open_slots K consumed key)" by (simp add: open_slots_def)
  then show ?thesis using that by (cases "open_slots K consumed key") auto
qed

lemma mark_counts:
  assumes "j < length consumed" "\<not> consumed ! j"
  shows "open_keys K consumed = add_mset (K j) (open_keys K (consumed[j := True]))"
    and "used_slots (consumed[j := True]) = add_mset j (used_slots consumed)"
proof -
  have "{i. i < length consumed \<and> \<not> consumed ! i} =
      insert j {i. i < length (consumed[j := True]) \<and> \<not> consumed[j := True] ! i}"
    using assms by (auto simp: still_open)
  then show "open_keys K consumed = add_mset (K j) (open_keys K (consumed[j := True]))"
    using assms(1) by (simp add: open_keys_def still_open)
  have "{i. i < length (consumed[j := True]) \<and> consumed[j := True] ! i} =
      insert j {i. i < length consumed \<and> consumed ! i}"
    using assms by (auto simp: nth_list_update)
  then show "used_slots (consumed[j := True]) = add_mset j (used_slots consumed)"
    using assms(2) by (simp add: used_slots_def)
qed

lemma open_start: "open_keys K (replicate m False) = mset (map K [0 ..< m])"
  by (simp add: open_keys_def lessThan_def [symmetric] atLeast0LessThan cong: conj_cong)

lemma used_start: "used_slots (replicate m False) = {#}"
  by (simp add: used_slots_def cong: conj_cong)

lemma used_all:
  "\<forall>j < length consumed. consumed ! j \<Longrightarrow> used_slots consumed = mset [0 ..< length consumed]"
  by (simp add: used_slots_def lessThan_def [symmetric] atLeast0LessThan cong: conj_cong)

lemma open_none: "open_keys K consumed = {#} \<Longrightarrow> \<forall>j < length consumed. consumed ! j"
  by (auto simp: open_keys_def mset_set_empty_iff)

text \<open>The keys of one edge, and keys that are those of some edges.\<close>

definition key_arcs :: "slot_key \<Rightarrow> slot_key multiset" where
  "key_arcs k = (if ek_direction k = 1 then {#k, reversed k#} else {#k#})"

definition paired :: "slot_key multiset \<Rightarrow> bool" where
  "paired M \<longleftrightarrow> (\<exists>S. M = (\<Sum>k \<in># S. key_arcs k))"

lemma reversed_simps [simp]: "reversed (reversed k) = k" "ek_direction (reversed k) = ek_direction k"
  by (simp_all add: reversed_def)

lemma key_arcs_reversed: "ek_direction k = 1 \<Longrightarrow> key_arcs (reversed k) = key_arcs k"
  by (simp add: key_arcs_def add_mset_commute)

lemma paired_remove:
  assumes "paired M" "k \<in># M"
  obtains N where "M = key_arcs k + N" "paired N"
proof -
  obtain S where S: "M = (\<Sum>k \<in># S. key_arcs k)" using assms(1) by (auto simp: paired_def)
  then obtain s where s: "s \<in># S" "k \<in># key_arcs s" using assms(2) by auto
  then have "key_arcs s = key_arcs k"
    using key_arcs_reversed by (auto simp: key_arcs_def add_mset_commute split: if_splits)
  moreover obtain T where "S = add_mset s T" using s(1) by (metis multi_member_split)
  ultimately have "M = key_arcs k + (\<Sum>k \<in># T. key_arcs k)" using S by simp
  then show ?thesis using that by (auto simp: paired_def)
qed

section \<open>Finalized graphs are laid out\<close>

definition laid_out :: "graph \<Rightarrow> bool" where
  "laid_out g \<longleftrightarrow> rows_cover (unat (nd_count (gr_nodes g))) (gr_csr g) \<and>
     (\<exists>S. csr_shapes (gr_csr g) = (\<Sum>s \<in># S. shape_arcs s))"

lemma finalize_laid_out:
  assumes "graph_ok g" "\<not> gr_finalized g"
  shows "laid_out (finalize F g)"
proof -
  have ok: "edges_ok g" using graph_ok_parts(3) [OF assms(1)] .
  have offs: "cs_offsets (gr_csr (finalize F g)) =
      map (\<lambda>r. row_start r (staged_events (staged_graph g))) [0 ..< unat (nd_count (gr_nodes g)) + 1]"
    unfolding finalize_parts [OF assms(2)] using rebuild_rows(1) [OF staged_graph_ok(1) [OF ok]] by simp
  have "rows_cover (unat (nd_count (gr_nodes (finalize F g)))) (gr_csr (finalize F g))"
    unfolding rows_cover_def finalize_parts(5) [OF assms(2)] offs
    by (simp add: row_start_mono del: upt_Suc)
  moreover have "csr_shapes (gr_csr (finalize F g)) =
      (\<Sum>s \<in># filter_mset canonical_shape (csr_shapes (gr_csr g)) +
        image_mset pending_shape (mset (cs_pending_edges (gr_csr g))). shape_arcs s)"
    unfolding finalize_shapes [OF ok assms(2)] pending_sum by simp
  ultimately show ?thesis unfolding laid_out_def by blast
qed

lemma csr_shapes_weights [simp]: "csr_shapes (c\<lparr>cs_weights := ws\<rparr>) = csr_shapes c"
  by (simp add: csr_shapes_def csr_row_shapes_def [abs_def] slot_at_def slot_shape_def)

lemma run_laid_out:
  "graph_run g0 A g \<Longrightarrow> g0 = graph_new \<Longrightarrow> gr_finalized g \<Longrightarrow> laid_out g"
proof (induction rule: graph_run.induct)
  case (run_refl g)
  then show ?case by (simp add: graph_new_def)
next
  case (run_step g0 A g B g')
  have ok: "graph_ok g" using graph_run_keeps [OF run_step(1)] run_step.prems graph_new_ok by (simp add: keeps_def)
  from graph_step_rows [OF ok run_step(2)] show ?case
  proof
    assume "rows_same g g'"
    then obtain ws where "gr_finalized g" "nd_count (gr_nodes g') = nd_count (gr_nodes g)"
      "gr_csr g' = (gr_csr g)\<lparr>cs_weights := ws\<rparr>"
      using run_step.prems(2) by (auto simp: rows_same_def)
    moreover from this have "laid_out g" using run_step by blast
    ultimately show ?thesis by (simp add: laid_out_def rows_cover_def)
  next
    assume "\<not> gr_finalized g \<and> (\<exists>F. g' = finalize F g)"
    then show ?thesis using finalize_laid_out [OF ok] by blast
  qed
qed

lemma direction_u8_eq [simp]: "direction_u8 d = 1 \<longleftrightarrow> d = EdgeBidirectional" "direction_u8 d = 0 \<longleftrightarrow> d = EdgeForward"
  by (cases d; simp)+

lemma key_of_arcs: "image_mset key_of_shape (shape_arcs s) = key_arcs (key_of_shape s)"
  by (auto simp: shape_arcs_def key_arcs_def key_of_shape_def mirror_def reversed_def)

lemma laid_out_keys:
  assumes "rows_cover n c"
  shows "open_keys (key_at c) (replicate (csr_num_edges c) False) = image_mset key_of_shape (csr_shapes c)"
  unfolding open_start covered_shapes(2) [OF assms] by (simp add: key_at_def [abs_def] image_mset.compositionality comp_def)

lemma laid_out_paired:
  assumes "laid_out g"
  shows "paired (open_keys (key_at (gr_csr g)) (replicate (csr_num_edges (gr_csr g)) False))"
proof -
  obtain S where S: "csr_shapes (gr_csr g) = (\<Sum>s \<in># S. shape_arcs s)" using assms by (auto simp: laid_out_def)
  have "image_mset key_of_shape (\<Sum>s \<in># S. shape_arcs s) = (\<Sum>k \<in># image_mset key_of_shape S. key_arcs k)"
    by (induction S) (simp_all add: key_of_arcs)
  then show ?thesis using laid_out_keys assms S unfolding laid_out_def paired_def by metis
qed

section \<open>Edges by name, with their weights\<close>

type_synonym edge_fact = "string \<times> string \<times> string \<times> bool \<times> u8 \<times> f32 \<times> f32 \<times> f32"

definition key_fact :: "string list \<Rightarrow> string list \<Rightarrow> slot_key \<Rightarrow> f32 \<Rightarrow> f32 \<Rightarrow> edge_fact" where
  "key_fact ext strs k original current =
     (ext ! unat (ek_source k), ext ! unat (ek_target k), strs ! unat (ek_relation k), ek_inhibitory k,
      ek_direction k, ek_causal_strength_bits k, original, current)"

definition slot_fact :: "graph \<Rightarrow> nat \<Rightarrow> edge_fact" where
  "slot_fact g j = key_fact (node_ext_ids g) (in_strings (gr_strings g)) (key_at (gr_csr g) j)
     (ep_original_weight (gr_edge_plasticity g) ! j) (read_weight (gr_csr g) (of_nat j))"

text \<open>
  The directed edges of a graph: source, target, relation, inhibition, direction, causal strength, and the
  original and the current weight of the slot.
\<close>

definition edge_facts :: "graph \<Rightarrow> edge_fact multiset" where
  "edge_facts g = image_mset (slot_fact g) (mset [0 ..< csr_num_edges (gr_csr g)])"

definition edge_expand :: "edge_snapshot \<Rightarrow> edge_fact multiset" where
  "edge_expand e =
     {#(es_source_id e, es_target_id e, es_relation e, es_inhibitory e, es_direction e, es_causal_strength e,
        es_original_weight e, es_current_weight e)#} +
     (if es_direction e = 1
      then {#(es_target_id e, es_source_id e, es_relation e, es_inhibitory e, es_direction e,
        es_causal_strength e, the (es_reverse_original_weight e), the (es_reverse_current_weight e))#}
      else {#})"

text \<open>What the type \<open>FiniteF32\<close> and the names say of a written edge.\<close>

definition edge_written :: "graph \<Rightarrow> edge_snapshot \<Rightarrow> bool" where
  "edge_written g e \<longleftrightarrow> validate_v4_edge e = Ok () \<and>
     es_source_id e \<in> set (node_ext_ids g) \<and> es_target_id e \<in> set (node_ext_ids g)"

definition weights_finite :: "graph \<Rightarrow> bool" where
  "weights_finite g \<longleftrightarrow> (\<forall>w \<in> set (ep_original_weight (gr_edge_plasticity g)). f32_is_finite w) \<and>
     (\<forall>w \<in> set (cs_causal_strengths (gr_csr g)). f32_is_finite w)"

lemma read_weight_finite [simp]: "f32_is_finite (read_weight c j)"
  by (simp add: read_weight_def)

lemma length_node_ext_ids [simp]: "length (node_ext_ids g) = unat (nd_count (gr_nodes g))"
proof -
  have "length (fold (\<lambda>i ext. case gr_id_to_node g (of_nat i) of
       Some node \<Rightarrow> ext[unat node := in_strings (gr_strings g) ! i] | None \<Rightarrow> ext) is ext) = length ext" for "is" ext
    by (induction "is" arbitrary: ext) (auto split: option.splits)
  then show ?thesis by (simp add: node_ext_ids_def)
qed

lemma row_sources_less: "r \<in> set (row_sources offs n) \<Longrightarrow> r < n"
  by (auto simp: row_sources_def)

section \<open>Collecting\<close>

definition collect_inv :: "graph \<Rightarrow> slot_queues \<times> bool list \<times> edge_snapshot list \<Rightarrow> bool" where
  "collect_inv g st \<longleftrightarrow> (case st of (Q, consumed, edges) \<Rightarrow>
     length consumed = csr_num_edges (gr_csr g) \<and> queues_ok (key_at (gr_csr g)) consumed Q \<and>
     paired (open_keys (key_at (gr_csr g)) consumed) \<and>
     (\<Sum>e \<in># mset edges. edge_expand e) = image_mset (slot_fact g) (used_slots consumed) \<and>
     (\<forall>e \<in> set edges. edge_written g e))"

lemma key_at_bounds:
  assumes "graph_ok g" "laid_out g" "j < csr_num_edges (gr_csr g)"
  shows "unat (ek_source (key_at (gr_csr g) j)) < unat (nd_count (gr_nodes g))"
    and "unat (ek_target (key_at (gr_csr g) j)) < unat (nd_count (gr_nodes g))"
proof -
  let ?n = "unat (nd_count (gr_nodes g))"
  have cover: "rows_cover ?n (gr_csr g)" using assms(2) by (simp add: laid_out_def)
  have "slot_sources (gr_csr g) ! j \<in> set (slot_sources (gr_csr g))"
    using covered_shapes(1) [OF cover] assms(3) by simp
  then have "slot_sources (gr_csr g) ! j < ?n"
    using cover row_sources_less by (fastforce simp: slot_sources_def rows_cover_def)
  moreover have "?n < 2 ^ 32" using unsigned_less [of "nd_count (gr_nodes g)", where ?'a = nat] by simp
  ultimately show "unat (ek_source (key_at (gr_csr g) j)) < ?n"
    by (simp add: key_at_def key_of_shape_def shape_at_def slot_shape_def)
  have "csr_ok ?n (gr_csr g)" using graph_ok_parts(3) [OF assms(1)] by (simp add: edges_ok_def)
  then have "unat (cs_targets (gr_csr g) ! j) < ?n" using assms(3) by (simp add: csr_ok_def csr_columns_def)
  then show "unat (ek_target (key_at (gr_csr g) j)) < ?n"
    by (simp add: key_at_def key_of_shape_def shape_at_def slot_shape_def slot_at_def)
qed

lemma key_at_direction:
  "ek_direction (key_at c j) = 1 \<longleftrightarrow> cs_directions c ! j = EdgeBidirectional"
  by (simp add: key_at_def key_of_shape_def shape_at_def slot_shape_def slot_at_def)

lemma key_at_relation: "ek_relation (key_at c j) = cs_relations c ! j"
  by (simp add: key_at_def key_of_shape_def shape_at_def slot_shape_def slot_at_def)

lemma key_at_columns:
  "ek_inhibitory (key_at c j) = cs_inhibitory c ! j"
  "ek_causal_strength_bits (key_at c j) = cs_causal_strengths c ! j"
  by (simp_all add: key_at_def key_of_shape_def shape_at_def slot_shape_def slot_at_def)

text \<open>Taking the mirror of an open slot that was just marked.\<close>

lemma take_mirror_ok:
  assumes ok: "graph_ok g" and pend: "cs_pending_edges (gr_csr g) = []"
    and Q: "queues_ok (key_at (gr_csr g)) consumed Q" and len: "length consumed = csr_num_edges (gr_csr g)"
    and pair: "paired (open_keys (key_at (gr_csr g)) consumed)" and slot: "slot < length consumed" "\<not> consumed ! slot"
  defines "key \<equiv> key_at (gr_csr g) slot"
  obtains Q' consumed' ro rc where
    "take_mirror g slot key Q (consumed[slot := True]) = Ok (Q', consumed', ro, rc)"
    "length consumed' = length consumed" "queues_ok (key_at (gr_csr g)) consumed' Q'"
    "paired (open_keys (key_at (gr_csr g)) consumed')" "consumed' ! slot"
    "\<And>i. consumed ! i \<Longrightarrow> i < length consumed \<Longrightarrow> consumed' ! i"
    "cs_directions (gr_csr g) ! slot = EdgeForward \<Longrightarrow> ro = None \<and> rc = None \<and>
      used_slots consumed' = add_mset slot (used_slots consumed)"
    "cs_directions (gr_csr g) ! slot = EdgeBidirectional \<Longrightarrow> \<exists>rs < length consumed.
      key_at (gr_csr g) rs = reversed key \<and> ro = Some (ep_original_weight (gr_edge_plasticity g) ! rs) \<and>
      rc = Some (read_weight (gr_csr g) (of_nat rs)) \<and>
      used_slots consumed' = add_mset rs (add_mset slot (used_slots consumed))"
proof -
  let ?K = "key_at (gr_csr g)" and ?marked = "consumed[slot := True]"
  have "key \<in># open_keys ?K consumed" using mark_counts(1) [OF slot, of ?K] by (simp add: key_def)
  then obtain N where N: "open_keys ?K consumed = key_arcs key + N" "paired N" using paired_remove [OF pair] by blast
  have marked: "queues_ok ?K ?marked Q" using queues_mark [OF Q slot(1)] .
  have open_marked: "open_keys ?K consumed = add_mset key (open_keys ?K ?marked)"
    using mark_counts(1) [OF slot] by (simp add: key_def)
  show ?thesis
  proof (cases "cs_directions (gr_csr g) ! slot")
    case EdgeForward
    then have "key_arcs key = {#key#}" using key_at_direction [of "gr_csr g" slot] by (simp add: key_arcs_def key_def)
    then have "open_keys ?K ?marked = N" using N(1) open_marked by simp
    then show ?thesis
      using that [of Q ?marked None None] EdgeForward marked N(2) mark_counts(2) [OF slot] slot len
      by (simp add: take_mirror_def nth_list_update)
  next
    case EdgeBidirectional
    then have "key_arcs key = {#key, reversed key#}"
      using key_at_direction [of "gr_csr g" slot] by (simp add: key_arcs_def key_def)
    then have rest: "open_keys ?K ?marked = add_mset (reversed key) N" using N(1) open_marked by simp
    then obtain rs js where rs: "open_slots ?K ?marked (reversed key) = rs # js"
      using open_slot_exists [of "reversed key" ?K ?marked] by auto
    obtain Q' where Q': "pop_unconsumed_slot Q (reversed key) ?marked = (Q', Some rs)"
        "queues_ok ?K (?marked[rs := True]) Q'" "rs < length ?marked" "\<not> ?marked ! rs" "?K rs = reversed key"
      using pop_ok [OF marked rs] .
    have "add_mset (reversed key) (open_keys ?K (?marked[rs := True])) = add_mset (reversed key) N"
      using mark_counts(1) [OF Q'(3,4), of ?K] rest Q'(5) by simp
    then have "paired (open_keys ?K (?marked[rs := True]))" using N(2) by simp
    moreover have "plasticity_rows (csr_num_edges (gr_csr g)) (gr_edge_plasticity g)"
      using graph_ok_parts(3) [OF ok] pend by (simp add: edges_ok_def)
    then have "validate_edge_plasticity_slot g rs = Ok ()"
      using Q'(3) len by (simp add: validate_edge_plasticity_slot_def plasticity_rows_def)
    moreover have "used_slots (?marked[rs := True]) = add_mset rs (add_mset slot (used_slots consumed))"
      using mark_counts(2) [OF Q'(3,4)] mark_counts(2) [OF slot] by simp
    ultimately show ?thesis
      using that [of Q' "?marked[rs := True]" "Some (ep_original_weight (gr_edge_plasticity g) ! rs)"
          "Some (read_weight (gr_csr g) (of_nat rs))"] EdgeBidirectional Q' slot
      by (simp add: take_mirror_def nth_list_update)
  qed
qed

lemma collect_slot_ok:
  assumes ok: "graph_ok g" and laid: "laid_out g" and pend: "cs_pending_edges (gr_csr g) = []"
    and fin: "weights_finite g" and inv: "collect_inv g (Q, consumed, edges)"
    and slot: "slot < csr_num_edges (gr_csr g)"
  obtains Q' consumed' edges' where
    "collect_slot g (node_ext_ids g) (map of_nat (slot_sources (gr_csr g))) slot (Q, consumed, edges) =
      Ok (Q', consumed', edges')"
    "collect_inv g (Q', consumed', edges')" "consumed' ! slot"
    "\<And>i. consumed ! i \<Longrightarrow> i < length consumed \<Longrightarrow> consumed' ! i"
proof (cases "consumed ! slot")
  case True
  then show ?thesis using that [of Q consumed edges] inv by (simp add: collect_slot_def)
next
  case False
  let ?c = "gr_csr g" and ?p = "gr_edge_plasticity g" and ?key = "key_at (gr_csr g) slot"
  have cols: "csr_columns (csr_num_edges ?c) ?c" "plasticity_rows (csr_num_edges ?c) ?p"
    using graph_ok_parts(3) [OF ok] pend by (simp_all add: edges_ok_def csr_ok_def)
  have cover: "rows_cover (unat (nd_count (gr_nodes g))) ?c" using laid by (simp add: laid_out_def)
  have inv': "length consumed = csr_num_edges ?c" "queues_ok (key_at ?c) consumed Q" "paired (open_keys (key_at ?c) consumed)"
    "(\<Sum>e \<in># mset edges. edge_expand e) = image_mset (slot_fact g) (used_slots consumed)"
    "\<forall>e \<in> set edges. edge_written g e"
    using inv by (simp_all add: collect_inv_def)
  obtain Q' consumed' ro rc where take: "take_mirror g slot ?key Q (consumed[slot := True]) = Ok (Q', consumed', ro, rc)"
    "length consumed' = length consumed" "queues_ok (key_at ?c) consumed' Q'"
    "paired (open_keys (key_at ?c) consumed')" "consumed' ! slot"
    "\<And>i. consumed ! i \<Longrightarrow> i < length consumed \<Longrightarrow> consumed' ! i"
    and forward: "cs_directions ?c ! slot = EdgeForward \<Longrightarrow> ro = None \<and> rc = None \<and>
      used_slots consumed' = add_mset slot (used_slots consumed)"
    and both: "cs_directions ?c ! slot = EdgeBidirectional \<Longrightarrow> \<exists>rs < length consumed.
      key_at ?c rs = reversed ?key \<and> ro = Some (ep_original_weight ?p ! rs) \<and>
      rc = Some (read_weight ?c (of_nat rs)) \<and>
      used_slots consumed' = add_mset rs (add_mset slot (used_slots consumed))"
    using take_mirror_ok [OF ok pend inv'(2,1,3) _ False] slot inv'(1) by (metis (no_types, lifting))
  let ?e = "\<lparr>es_source_id = node_ext_ids g ! unat (ek_source ?key), es_target_id = node_ext_ids g ! unat (ek_target ?key),
    es_relation = in_strings (gr_strings g) ! unat (cs_relations ?c ! slot),
    es_original_weight = ep_original_weight ?p ! slot, es_current_weight = read_weight ?c (of_nat slot),
    es_reverse_original_weight = ro, es_reverse_current_weight = rc, es_direction = ek_direction ?key,
    es_inhibitory = ek_inhibitory ?key, es_causal_strength = ek_causal_strength_bits ?key\<rparr>"
  have step: "collect_slot g (node_ext_ids g) (map of_nat (slot_sources ?c)) slot (Q, consumed, edges) =
      Ok (Q', consumed', edges @ [?e])"
    using False slot take(1) edge_slot_key_ok [OF cover cols(1) slot] key_at_bounds [OF ok laid slot] cols(2)
    by (simp add: collect_slot_def validate_edge_plasticity_slot_def plasticity_rows_def and_then_def not_le)
  have weight: "f32_is_finite (ep_original_weight ?p ! j)" if "j < csr_num_edges ?c" for j
    using fin cols(2) that by (simp add: weights_finite_def plasticity_rows_def)
  have "f32_is_finite (ek_causal_strength_bits ?key)"
    using fin cols(1) slot by (simp add: key_at_columns weights_finite_def csr_columns_def)
  moreover have names: "es_source_id ?e \<in> set (node_ext_ids g)" "es_target_id ?e \<in> set (node_ext_ids g)"
    using key_at_bounds [OF ok laid slot] by simp_all
  moreover have expand: "edge_written g ?e \<and> used_slots consumed' + {#} = used_slots consumed' \<and>
      image_mset (slot_fact g) (used_slots consumed') = edge_expand ?e + image_mset (slot_fact g) (used_slots consumed)"
    if "f32_is_finite (ek_causal_strength_bits ?key)"
  proof (cases "cs_directions ?c ! slot")
    case EdgeForward
    moreover have "ek_direction ?key = 0"
      using EdgeForward by (simp add: key_at_def key_of_shape_def shape_at_def slot_shape_def slot_at_def)
    ultimately show ?thesis
      using forward weight [OF slot] that names
      by (simp add: edge_written_def validate_v4_edge_def edge_expand_def slot_fact_def key_fact_def key_at_relation)
  next
    case EdgeBidirectional
    then obtain rs where rs: "rs < length consumed" "key_at ?c rs = reversed ?key"
      "ro = Some (ep_original_weight ?p ! rs)" "rc = Some (read_weight ?c (of_nat rs))"
      "used_slots consumed' = add_mset rs (add_mset slot (used_slots consumed))"
      using both by blast
    moreover have "ek_direction ?key = 1" using EdgeBidirectional by (simp add: key_at_direction)
    moreover have "ek_relation ?key = cs_relations ?c ! slot" by (rule key_at_relation)
    ultimately show ?thesis
      using weight [OF slot] weight [of rs] that names inv'(1)
      by (simp add: edge_written_def validate_v4_edge_def edge_expand_def slot_fact_def key_fact_def reversed_def)
  qed
  ultimately have "collect_inv g (Q', consumed', edges @ [?e])"
    using take inv' by (simp add: collect_inv_def)
  then show ?thesis using that step take(5,6) by blast
qed

lemma collect_slots_ok:
  assumes ok: "graph_ok g" and laid: "laid_out g" and pend: "cs_pending_edges (gr_csr g) = []" and fin: "weights_finite g"
  shows "\<forall>j \<in> set js. j < csr_num_edges (gr_csr g) \<Longrightarrow> collect_inv g (Q, consumed, edges) \<Longrightarrow>
    \<exists>Q' consumed' edges'. collect_slots g (node_ext_ids g) (map of_nat (slot_sources (gr_csr g))) js (Q, consumed, edges) =
      Ok (Q', consumed', edges') \<and> collect_inv g (Q', consumed', edges') \<and> (\<forall>j \<in> set js. consumed' ! j) \<and>
      (\<forall>i < length consumed. consumed ! i \<longrightarrow> consumed' ! i)"
proof (induction js arbitrary: Q consumed edges)
  case Nil
  then show ?case by simp
next
  case (Cons slot js)
  obtain Q1 consumed1 edges1 where 1:
    "collect_slot g (node_ext_ids g) (map of_nat (slot_sources (gr_csr g))) slot (Q, consumed, edges) = Ok (Q1, consumed1, edges1)"
    "collect_inv g (Q1, consumed1, edges1)" "consumed1 ! slot"
    "\<And>i. consumed ! i \<Longrightarrow> i < length consumed \<Longrightarrow> consumed1 ! i"
    using collect_slot_ok [OF ok laid pend fin Cons.prems(2), of slot] Cons.prems(1) by auto
  have len: "length consumed1 = length consumed" "slot < length consumed1"
    using 1(2) Cons.prems by (auto simp: collect_inv_def)
  obtain Q2 consumed2 edges2 where
    "collect_slots g (node_ext_ids g) (map of_nat (slot_sources (gr_csr g))) js (Q1, consumed1, edges1) = Ok (Q2, consumed2, edges2)"
    "collect_inv g (Q2, consumed2, edges2)" "\<forall>j \<in> set js. consumed2 ! j"
    "\<forall>i < length consumed1. consumed1 ! i \<longrightarrow> consumed2 ! i"
    using Cons.IH [OF _ 1(2)] Cons.prems(1) by auto
  then show ?case using 1 len by (auto simp: and_then_def)
qed

text \<open>The written edges are the directed edges of the graph.\<close>

theorem collect_ok:
  assumes ok: "graph_ok g" and laid: "laid_out g" and pend: "cs_pending_edges (gr_csr g) = []" and fin: "weights_finite g"
  obtains edges where "collect_edge_snapshots_v4 g (node_ext_ids g) = Ok edges"
    "(\<Sum>e \<in># mset edges. edge_expand e) = edge_facts g" "\<forall>e \<in> set edges. edge_written g e"
proof -
  let ?c = "gr_csr g" and ?m = "csr_num_edges (gr_csr g)"
  have cover: "rows_cover (unat (nd_count (gr_nodes g))) ?c" using laid by (simp add: laid_out_def)
  have cols: "csr_columns ?m ?c" using graph_ok_parts(3) [OF ok] by (simp add: edges_ok_def csr_ok_def)
  obtain Q where Q: "edge_slot_queues g (map of_nat (slot_sources ?c)) = Ok Q"
    "queues_ok (key_at ?c) (replicate ?m False) Q"
    using edge_slot_queues_ok [OF cover cols] .
  have "collect_inv g (Q, replicate ?m False, [])"
    using Q(2) laid_out_paired [OF laid] by (simp add: collect_inv_def used_start)
  from collect_slots_ok [OF ok laid pend fin _ this, of "[0 ..< ?m]"] obtain Q' consumed' edges where all:
    "collect_slots g (node_ext_ids g) (map of_nat (slot_sources ?c)) [0 ..< ?m] (Q, replicate ?m False, []) =
      Ok (Q', consumed', edges)"
    "collect_inv g (Q', consumed', edges)" "\<forall>j < ?m. consumed' ! j" by auto
  then have "used_slots consumed' = mset [0 ..< ?m]"
    using used_all [of consumed'] by (simp add: collect_inv_def)
  then have "(\<Sum>e \<in># mset edges. edge_expand e) = edge_facts g" "\<forall>e \<in> set edges. edge_written g e"
    using all(2) by (simp_all add: collect_inv_def edge_facts_def)
  moreover have "collect_edge_snapshots_v4 g (node_ext_ids g) = Ok edges"
    using edge_slot_sources_ok [OF cover] Q(1) all(1) by (simp add: collect_edge_snapshots_v4_def Let_def and_then_def)
  ultimately show ?thesis using that by blast
qed

section \<open>Identifiers by node\<close>

lemma resolve_id_iff:
  assumes "graph_ok g"
  shows "resolve_id g x = Some v \<longleftrightarrow> (\<exists>i. try_resolve (gr_strings g) i = Some x \<and> gr_id_to_node g i = Some v)"
  using graph_ok_parts(1) [OF assms]
  by (auto simp: resolve_id_def interner_lookup_def interner_ok_def Option.bind_eq_Some_conv)

lemma fold_ids:
  fixes f :: "nat \<Rightarrow> node_id option"
  assumes "\<And>i. i \<in> set is \<Longrightarrow> f i = Some node \<Longrightarrow> i = i0" "f i0 = Some node" "unat node < length ext"
    "i0 \<in> set is \<or> ext ! unat node = s i0"
  shows "fold (\<lambda>i ext. case f i of Some node \<Rightarrow> ext[unat node := s i] | None \<Rightarrow> ext) is ext ! unat node = s i0"
  using assms
proof (induction "is" arbitrary: ext)
  case (Cons i "is")
  let ?ext = "case f i of Some node \<Rightarrow> ext[unat node := s i] | None \<Rightarrow> ext"
  have "unat node < length ?ext" using Cons.prems(3) by (simp split: option.splits)
  moreover have "i0 \<in> set is \<or> ?ext ! unat node = s i0"
  proof (cases "i = i0")
    case True
    then show ?thesis using Cons.prems(2,3) by simp
  next
    case False
    then have "f i \<noteq> Some node" using Cons.prems(1) [of i] by auto
    then have "?ext ! unat node = ext ! unat node"
      by (cases "f i") (simp_all add: nth_list_update_neq flip: word_unat_eq_iff)
    then show ?thesis using Cons.prems(4) False by simp
  qed
  ultimately show ?case using Cons.IH [of ?ext] Cons.prems(1,2) by simp
qed simp

lemma node_ext_ids_at:
  assumes "graph_ok g" "resolve_id g x = Some v"
  shows "node_ext_ids g ! unat v = x"
proof -
  obtain h where h: "try_resolve (gr_strings g) h = Some x" "gr_id_to_node g h = Some v"
    using assms resolve_id_iff by blast
  note ids = graph_ok_parts(8) [OF assms(1), unfolded ids_ok_def]
  have small: "length (in_strings (gr_strings g)) < 2 ^ 32" using graph_ok_parts(1) [OF assms(1)] by (simp add: interner_ok_def)
  let ?m = "length (in_strings (gr_strings g))"
  have one: "i = unat h" if "i \<in> set [0 ..< ?m]" "gr_id_to_node g (of_nat i) = Some v" for i
  proof -
    have "of_nat i = h" using ids that(2) h(2) by blast
    moreover have "unat (of_nat i :: interned) = i" using that(1) small by simp
    ultimately show ?thesis by metis
  qed
  have str: "unat h < ?m" "in_strings (gr_strings g) ! unat h = x"
    using h(1) unfolding try_resolve_def by (metis option.distinct(1), metis option.distinct(1) option.inject)
  have node: "unat v < length (replicate (unat (nd_count (gr_nodes g))) [])" using ids h(2) by simp
  have at: "gr_id_to_node g (of_nat (unat h)) = Some v" using h(2) by simp
  have "fold (\<lambda>i ext. case gr_id_to_node g (of_nat i) of
      Some node \<Rightarrow> ext[unat node := in_strings (gr_strings g) ! i] | None \<Rightarrow> ext) [0 ..< ?m]
    (replicate (unat (nd_count (gr_nodes g))) []) ! unat v = in_strings (gr_strings g) ! unat h"
    by (rule fold_ids [of _ "\<lambda>i. gr_id_to_node g (of_nat i)", OF one at node]) (use str(1) in simp_all)
  then show ?thesis by (simp only: node_ext_ids_def str(2))
qed

lemma resolve_node_ext_ids:
  assumes "graph_ok g" "has_node g v"
  shows "resolve_id g (node_ext_ids g ! unat v) = Some v"
proof -
  note ids = graph_ok_parts(8) [OF assms(1), unfolded ids_ok_def]
  obtain i where i: "gr_id_to_node g i = Some v" using ids assms(2) unfolding has_node_def by blast
  then obtain x where "try_resolve (gr_strings g) i = Some x" using ids by blast
  then have "resolve_id g x = Some v" using i resolve_id_iff [OF assms(1)] by blast
  then show ?thesis using node_ext_ids_at [OF assms(1)] by metis
qed

lemma resolve_id_keeps:
  assumes "graph_ok g" "keeps g g'" "resolve_id g x = Some v"
  shows "resolve_id g' x = Some v"
proof -
  obtain i where i: "try_resolve (gr_strings g) i = Some x" "gr_id_to_node g i = Some v"
    using assms(1,3) resolve_id_iff by blast
  then have "try_resolve (gr_strings g') i = Some x" "gr_id_to_node g' i = Some v"
    using assms(2) try_resolve_extends by (auto simp: keeps_def map_le_def dom_def)
  then show ?thesis using resolve_id_iff [of g'] assms(2) by (auto simp: keeps_def)
qed

section \<open>Nodes by name\<close>

definition node_view :: "graph \<Rightarrow> node_snapshot list" where
  "node_view g = map (node_snapshot_of g (node_ext_ids g)) [0 ..< unat (nd_count (gr_nodes g))]"

lemma resolved_string:
  "interner_extends t t' \<Longrightarrow> try_resolve t i \<noteq> None \<Longrightarrow> in_strings t' ! unat i = in_strings t ! unat i"
  by (auto simp: interner_extends_def try_resolve_def nth_append split: if_splits)

lemma resolved_same:
  "interner_extends t t' \<Longrightarrow> try_resolve t i \<noteq> None \<Longrightarrow> try_resolve t' i = try_resolve t i"
  using try_resolve_extends by fastforce

lemma of_nat_node: "k < unat (n :: u32) \<Longrightarrow> unat (of_nat k :: u32) = k"
  using unsigned_less [of n, where ?'a = nat] by simp

text \<open>A node whose columns are untouched looks the same afterwards.\<close>

lemma node_columns_same:
  assumes ok: "graph_ok g" and keeps: "keeps g g'" and i: "i < unat (nd_count (gr_nodes g))"
    and cols: "nd_label (gr_nodes g') ! i = nd_label (gr_nodes g) ! i" "nd_node_type (gr_nodes g') ! i = nd_node_type (gr_nodes g) ! i"
      "nd_tags (gr_nodes g') ! i = nd_tags (gr_nodes g) ! i" "nd_last_modified (gr_nodes g') ! i = nd_last_modified (gr_nodes g) ! i"
      "nd_change_frequency (gr_nodes g') ! i = nd_change_frequency (gr_nodes g) ! i"
  shows "node_snapshot_of g' (node_ext_ids g') i =
    (node_snapshot_of g (node_ext_ids g) i)\<lparr>ns_provenance := resolve_node_provenance g' (of_nat i)\<rparr>"
proof -
  note parts = graph_ok_parts [OF ok]
  have len: "i < length (nd_label (gr_nodes g))" "i < length (nd_tags (gr_nodes g))"
    using parts(2) i by (simp_all add: node_columns_def Let_def)
  have ext: "interner_extends (gr_strings g) (gr_strings g')" using keeps by (simp add: keeps_def)
  have node: "unat (of_nat i :: node_id) = i" using of_nat_node [OF i] .
  have "resolve_id g (node_ext_ids g ! i) = Some (of_nat i)"
    using resolve_node_ext_ids [OF ok, of "of_nat i"] i node by (simp add: has_node_def)
  then have id: "node_ext_ids g' ! i = node_ext_ids g ! i"
    using node_ext_ids_at [of g' "node_ext_ids g ! i" "of_nat i"] resolve_id_keeps [OF ok keeps] keeps node
    by (simp add: keeps_def)
  have label: "in_strings (gr_strings g') ! unat (nd_label (gr_nodes g) ! i) =
      in_strings (gr_strings g) ! unat (nd_label (gr_nodes g) ! i)"
    using resolved_string [OF ext] parts(4) len(1) by (simp add: handles_resolve_def)
  have "handles_resolve (gr_strings g) (set (nd_tags (gr_nodes g) ! i))"
    by (intro handles_resolve_subset [OF parts(5)] Union_upper imageI nth_mem len(2))
  then have tags: "map (\<lambda>t. in_strings (gr_strings g') ! unat t) (nd_tags (gr_nodes g) ! i) =
      map (\<lambda>t. in_strings (gr_strings g) ! unat t) (nd_tags (gr_nodes g) ! i)"
    using resolved_string [OF ext] by (simp add: handles_resolve_def)
  show ?thesis using id label tags cols by (simp add: node_snapshot_of_def Let_def)
qed

lemma node_provenance_same:
  assumes ok: "graph_ok g" and keeps: "keeps g g'" and i: "i < unat (nd_count (gr_nodes g))"
    and more: "unat (nd_count (gr_nodes g)) \<le> unat (nd_count (gr_nodes g'))"
    and col: "nd_provenance (gr_nodes g') ! i = nd_provenance (gr_nodes g) ! i"
  shows "resolve_node_provenance g' (of_nat i) = resolve_node_provenance g (of_nat i)"
proof -
  let ?p = "nd_provenance (gr_nodes g) ! i"
  note parts = graph_ok_parts [OF ok]
  have len: "i < length (nd_provenance (gr_nodes g))" using parts(2) i by (simp add: node_columns_def Let_def)
  have ext: "interner_extends (gr_strings g) (gr_strings g')" using keeps by (simp add: keeps_def)
  have "handles_resolve (gr_strings g) (provenance_handles ?p)"
    by (intro handles_resolve_subset [OF parts(6)] Union_upper imageI nth_mem len)
  then have same: "Option.bind h (try_resolve (gr_strings g')) = Option.bind h (try_resolve (gr_strings g))"
    if "set_option h \<subseteq> provenance_handles ?p" for h
    using that resolved_same [OF ext] by (cases h) (auto simp: handles_resolve_def)
  have "set_option (np_source_path ?p) \<subseteq> provenance_handles ?p" "set_option (np_excerpt ?p) \<subseteq> provenance_handles ?p"
    "set_option (np_namespace ?p) \<subseteq> provenance_handles ?p"
    by (auto simp: provenance_handles_def)
  note three = this [THEN same]
  show ?thesis
    using i more of_nat_node [OF i] col three by (simp add: resolve_node_provenance_def has_node_def Let_def)
qed

lemma node_snapshot_same:
  assumes "graph_ok g" "keeps g g'" "i < unat (nd_count (gr_nodes g))"
    "unat (nd_count (gr_nodes g)) \<le> unat (nd_count (gr_nodes g'))"
    "nd_label (gr_nodes g') ! i = nd_label (gr_nodes g) ! i" "nd_node_type (gr_nodes g') ! i = nd_node_type (gr_nodes g) ! i"
    "nd_tags (gr_nodes g') ! i = nd_tags (gr_nodes g) ! i" "nd_last_modified (gr_nodes g') ! i = nd_last_modified (gr_nodes g) ! i"
    "nd_change_frequency (gr_nodes g') ! i = nd_change_frequency (gr_nodes g) ! i"
    "nd_provenance (gr_nodes g') ! i = nd_provenance (gr_nodes g) ! i"
  shows "node_snapshot_of g' (node_ext_ids g') i = node_snapshot_of g (node_ext_ids g) i"
  unfolding node_columns_same [OF assms(1-3,5-9)] node_provenance_same [OF assms(1-4,10)]
  by (simp add: node_snapshot_of_def Let_def)

lemma node_view_same:
  assumes "graph_ok g" "keeps g g'" "nd_count (gr_nodes g') = nd_count (gr_nodes g)"
    "nd_label (gr_nodes g') = nd_label (gr_nodes g)" "nd_node_type (gr_nodes g') = nd_node_type (gr_nodes g)"
    "nd_tags (gr_nodes g') = nd_tags (gr_nodes g)" "nd_last_modified (gr_nodes g') = nd_last_modified (gr_nodes g)"
    "nd_change_frequency (gr_nodes g') = nd_change_frequency (gr_nodes g)"
    "nd_provenance (gr_nodes g') = nd_provenance (gr_nodes g)"
  shows "node_view g' = node_view g"
  using node_snapshot_same [OF assms(1,2)] assms(3-9) by (simp add: node_view_def)

section \<open>Provenance\<close>

text \<open>What a resolved provenance is if nothing is lost when it is set again.\<close>

definition provenance_normal :: "resolved_provenance \<Rightarrow> bool" where
  "provenance_normal p \<longleftrightarrow> pi_source_path p \<noteq> Some [] \<and> pi_excerpt p \<noteq> Some [] \<and> pi_namespace p \<noteq> Some [] \<and>
     pi_line_start p \<noteq> Some 0 \<and> pi_line_end p \<noteq> Some 0 \<and> (pi_line_end p = None \<longrightarrow> pi_line_start p = None)"

lemma intern_present_string:
  assumes "interner_ok t" "length (in_strings t) + 1 < 2 ^ 32" "intern_present t s = (t', h)" "s \<noteq> Some []"
    "interner_extends t' u"
  shows "Option.bind h (try_resolve u) = s"
proof (cases s)
  case None
  then show ?thesis using assms(3) by simp
next
  case (Some v)
  then have "get_or_intern t v = (t', the h)" "h \<noteq> None" using assms(3,4) by (auto split: prod.splits)
  then show ?thesis
    using get_or_intern_handle(3) [OF assms(1,2), of v t' "the h"] try_resolve_extends [OF assms(5)] Some by auto
qed

lemma line_round:
  "l \<noteq> Some 0 \<Longrightarrow> positive_line (or_zero l) = l"
  by (cases l) (auto simp: positive_line_def or_zero_def word_neq_0_conv)

lemma set_provenance_growth:
  assumes "graph_ok g" "handles_left 3 g"
  shows "length (in_strings (gr_strings (set_node_provenance node p g))) \<le> length (in_strings (gr_strings g)) + 3"
    and "has_node g node \<Longrightarrow> provenance_normal p \<Longrightarrow> resolve_node_provenance (set_node_provenance node p g) node = p"
proof -
  obtain t1 a where 1: "intern_present (gr_strings g) (pi_source_path p) = (t1, a)" by force
  obtain t2 b where 2: "intern_present t1 (pi_excerpt p) = (t2, b)" by force
  obtain t3 c where 3: "intern_present t2 (pi_namespace p) = (t3, c)" by force
  have room: "length (in_strings (gr_strings g)) + 3 < 2 ^ 32" using assms(2) by (simp add: handles_left_def)
  note t1 = intern_present_ok [OF graph_ok_parts(1) [OF assms(1)] _ 1]
  have ok1: "interner_ok t1" "interner_extends (gr_strings g) t1" "length (in_strings t1) \<le> length (in_strings (gr_strings g)) + 1"
    using t1 room by auto
  note t2 = intern_present_ok [OF ok1(1) _ 2]
  have ok2: "interner_ok t2" "interner_extends t1 t2" "length (in_strings t2) \<le> length (in_strings (gr_strings g)) + 2"
    using t2 ok1 room by auto
  note t3 = intern_present_ok [OF ok2(1) _ 3]
  have ok3: "interner_extends t2 t3" "length (in_strings t3) \<le> length (in_strings (gr_strings g)) + 3"
    using t3 ok2 room by auto
  have strings: "gr_strings (set_node_provenance node p g) = (if has_node g node then t3 else gr_strings g)"
    using 1 2 3 by (simp add: set_node_provenance_def Let_def)
  show "length (in_strings (gr_strings (set_node_provenance node p g))) \<le> length (in_strings (gr_strings g)) + 3"
    using strings ok3(2) by simp
  assume node: "has_node g node" and normal: "provenance_normal p"
  have len: "unat node < length (nd_provenance (gr_nodes g))"
    using graph_ok_parts(2) [OF assms(1)] node by (simp add: node_columns_def Let_def has_node_def)
  have "Option.bind a (try_resolve t3) = pi_source_path p"
    using intern_present_string [OF graph_ok_parts(1) [OF assms(1)] _ 1] normal room ok2(2) ok3(1) interner_extends_trans
    by (fastforce simp: provenance_normal_def)
  moreover have "Option.bind b (try_resolve t3) = pi_excerpt p"
    using intern_present_string [OF ok1(1) _ 2 _ ok3(1)] normal room ok1(3) by (simp add: provenance_normal_def)
  moreover have "Option.bind c (try_resolve t3) = pi_namespace p"
    using intern_present_string [OF ok2(1) _ 3, of t3] normal room ok2(3) by (simp add: provenance_normal_def)
  moreover have "positive_line (or_zero (pi_line_start p)) = pi_line_start p"
    using normal line_round by (simp add: provenance_normal_def)
  moreover have "positive_line (or_zero (or_else (pi_line_end p) (pi_line_start p))) = pi_line_end p"
    using normal line_round [of "pi_line_end p"]
    by (cases "pi_line_end p") (auto simp: provenance_normal_def or_else_def positive_line_def or_zero_def)
  ultimately show "resolve_node_provenance (set_node_provenance node p g) node = p"
    using node len 1 2 3
    by (simp add: set_node_provenance_def resolve_node_provenance_def has_node_def Let_def)
qed

section \<open>Reading nodes\<close>

lemma length_node_view [simp]: "length (node_view g) = unat (nd_count (gr_nodes g))"
  by (simp add: node_view_def)

lemma node_view_nth: "i < unat (nd_count (gr_nodes g)) \<Longrightarrow> node_view g ! i = node_snapshot_of g (node_ext_ids g) i"
  by (simp add: node_view_def)

lemma node_view_ids: "map ns_external_id (node_view g) = node_ext_ids g"
  by (rule nth_equalityI) (simp_all add: node_view_nth node_snapshot_of_def Let_def)

lemma unknown_id:
  assumes "graph_ok g" "x \<notin> set (node_ext_ids g)"
  shows "resolve_id g x = None"
proof (rule ccontr)
  assume "resolve_id g x \<noteq> None"
  then obtain v where v: "resolve_id g x = Some v" by auto
  then obtain i where "gr_id_to_node g i = Some v" using resolve_id_iff [OF assms(1)] by blast
  then have "unat v < unat (nd_count (gr_nodes g))"
    using graph_ok_parts(8) [OF assms(1)] unfolding ids_ok_def by blast
  then have "node_ext_ids g ! unat v \<in> set (node_ext_ids g)" by simp
  then show False using node_ext_ids_at [OF assms(1) v] assms(2) by simp
qed

lemma set_provenance_view:
  assumes ok: "graph_ok g" and room: "handles_left 3 g" and node: "has_node g v" and normal: "provenance_normal p"
  shows "node_view (set_node_provenance v p g) =
    (node_view g)[unat v := (node_view g ! unat v)\<lparr>ns_provenance := p\<rparr>]"
proof (rule nth_equalityI)
  let ?g = "set_node_provenance v p g"
  have same: "nd_count (gr_nodes ?g) = nd_count (gr_nodes g)" "nd_label (gr_nodes ?g) = nd_label (gr_nodes g)"
    "nd_node_type (gr_nodes ?g) = nd_node_type (gr_nodes g)" "nd_tags (gr_nodes ?g) = nd_tags (gr_nodes g)"
    "nd_last_modified (gr_nodes ?g) = nd_last_modified (gr_nodes g)"
    "nd_change_frequency (gr_nodes ?g) = nd_change_frequency (gr_nodes g)"
    "\<And>i. i \<noteq> unat v \<Longrightarrow> nd_provenance (gr_nodes ?g) ! i = nd_provenance (gr_nodes g) ! i"
    by (simp_all add: set_node_provenance_def Let_def split: prod.splits)
  show "length (node_view ?g) = length ((node_view g)[unat v := (node_view g ! unat v)\<lparr>ns_provenance := p\<rparr>])"
    by (simp add: same)
  have keeps: "keeps g ?g" using annotates_keeps set_node_provenance_ok [OF ok room] by blast
  fix i assume "i < length (node_view ?g)"
  then have i: "i < unat (nd_count (gr_nodes g))" by (simp add: same)
  show "node_view ?g ! i = (node_view g)[unat v := (node_view g ! unat v)\<lparr>ns_provenance := p\<rparr>] ! i"
  proof (cases "i = unat v")
    case True
    then have "resolve_node_provenance ?g (of_nat i) = p"
      using set_provenance_growth(2) [OF ok room node normal] by simp
    then show ?thesis
      using node_columns_same [OF ok keeps i] same i True by (simp add: node_view_nth)
  next
    case False
    then show ?thesis
      using node_snapshot_same [OF ok keeps i] same i by (simp add: node_view_nth)
  qed
qed

definition node_readable :: "node_snapshot \<Rightarrow> bool" where
  "node_readable node \<longleftrightarrow> f64_is_finite (ns_last_modified node) \<and> f32_is_finite (ns_change_frequency node) \<and>
     node_type_to_u8 (u8_to_node_type (ns_node_type node)) = ns_node_type node \<and>
     provenance_normal (ns_provenance node)"

lemma nth_push: "i < length xs \<Longrightarrow> (xs @ [x]) ! i = xs ! i" "(xs @ [x]) ! length xs = x"
  by (simp_all add: nth_append)

lemma add_node_view:
  assumes ok: "graph_ok g" and room: "handles_left (2 + length (ns_tags node)) g"
    and n: "unat (nd_count (gr_nodes g)) + 1 < 2 ^ 32" and new: "resolve_id g (ns_external_id node) = None"
    and readable: "node_readable node"
    and step: "add_node (ns_external_id node) (ns_label node) (u8_to_node_type (ns_node_type node)) (ns_tags node)
      (ns_last_modified node) (ns_change_frequency node) g = (g', r)"
  shows "r = Inr (nd_count (gr_nodes g)) \<and> nd_count (gr_nodes g') = nd_count (gr_nodes g) + 1 \<and>
    node_view g' = node_view g @ [node\<lparr>ns_provenance := default_resolved\<rparr>] \<and>
    length (in_strings (gr_strings g')) \<le> length (in_strings (gr_strings g)) + 2 + length (ns_tags node) \<and>
    nd_node_type (gr_nodes g') = nd_node_type (gr_nodes g) @ [u8_to_node_type (ns_node_type node)] \<and>
    gr_csr g' = gr_csr g \<and> gr_edge_plasticity g' = gr_edge_plasticity g \<and> \<not> gr_finalized g'"
  using ok room step
proof (cases rule: add_node_cases)
  case (duplicate t existing)
  then show ?thesis using new by simp
next
  case (fresh t i l idxs)
  let ?n = "unat (nd_count (gr_nodes g))"
  note parts = graph_ok_parts [OF ok]
  have count: "unat (nd_count (gr_nodes g')) = ?n + 1" "nd_count (gr_nodes g') = nd_count (gr_nodes g) + 1"
    using unat_succ [OF n] by (simp_all add: fresh(8) structure_changed_def push_node_def)
  have keeps: "keeps g g'" using add_node_ok [OF ok room n step] by (simp add: keeps_def)
  have cols: "length (nd_label (gr_nodes g)) = ?n" "length (nd_node_type (gr_nodes g)) = ?n" "length (nd_tags (gr_nodes g)) = ?n"
    "length (nd_last_modified (gr_nodes g)) = ?n" "length (nd_change_frequency (gr_nodes g)) = ?n"
    "length (nd_provenance (gr_nodes g)) = ?n"
    using parts(2) by (simp_all add: node_columns_def Let_def)
  have new_cols: "nd_label (gr_nodes g') = nd_label (gr_nodes g) @ [l]"
    "nd_node_type (gr_nodes g') = nd_node_type (gr_nodes g) @ [u8_to_node_type (ns_node_type node)]"
    "nd_tags (gr_nodes g') = nd_tags (gr_nodes g) @ [idxs]"
    "nd_last_modified (gr_nodes g') = nd_last_modified (gr_nodes g) @ [ns_last_modified node]"
    "nd_change_frequency (gr_nodes g') = nd_change_frequency (gr_nodes g) @ [finite_f32 (ns_change_frequency node)]"
    "nd_provenance (gr_nodes g') = nd_provenance (gr_nodes g) @ [default_provenance]" "gr_strings g' = t"
    by (simp_all add: fresh(8) structure_changed_def push_node_def)
  have old: "node_view g' ! k = node_view g ! k" if k: "k < ?n" for k
    using node_snapshot_same [OF ok keeps k] k count(1) cols by (simp add: node_view_nth new_cols nth_push)
  have node: "unat (of_nat ?n :: node_id) = ?n" by simp
  have "resolve_id g' (ns_external_id node) = Some (nd_count (gr_nodes g))"
    using keeps fresh(3) resolve_id_iff [of g'] by (auto simp: keeps_def fresh(8) structure_changed_def)
  then have id: "node_ext_ids g' ! ?n = ns_external_id node"
    using node_ext_ids_at [of g'] keeps by (simp add: keeps_def)
  have label: "in_strings t ! unat l = ns_label node" using fresh(9) by (simp add: try_resolve_def split: if_splits)
  have "map (\<lambda>tag. in_strings t ! unat tag) idxs = ns_tags node"
  proof (rule nth_equalityI)
    show len: "length (map (\<lambda>tag. in_strings t ! unat tag) idxs) = length (ns_tags node)"
      using arg_cong [OF fresh(10), of length] by simp
    fix k assume "k < length (map (\<lambda>tag. in_strings t ! unat tag) idxs)"
    then show "map (\<lambda>tag. in_strings t ! unat tag) idxs ! k = ns_tags node ! k"
      using arg_cong [OF fresh(10), of "\<lambda>xs. xs ! k"] len by (simp add: try_resolve_def split: if_splits)
  qed
  moreover have "resolve_node_provenance g' (of_nat ?n) = default_resolved"
    using cols count(1)
    by (simp add: resolve_node_provenance_def has_node_def new_cols nth_append Let_def default_provenance_def
        default_resolved_def positive_line_def)
  ultimately have "node_view g' ! ?n = node\<lparr>ns_provenance := default_resolved\<rparr>"
    using id label readable cols count(1)
    by (simp add: node_view_nth node_snapshot_of_def Let_def new_cols nth_append node_readable_def)
  then have "node_view g' = node_view g @ [node\<lparr>ns_provenance := default_resolved\<rparr>]"
    using old count(1) by (intro nth_equalityI) (auto simp: nth_append less_Suc_eq)
  then show ?thesis
    using fresh(7,11) count(2) new_cols by (simp add: fresh(8) structure_changed_def)
qed

section \<open>All nodes\<close>

lemma graph_run_trans: "graph_run g' B g'' \<Longrightarrow> graph_run g A g' \<Longrightarrow> graph_run g (A + B) g''"
proof (induction rule: graph_run.induct)
  case (run_step g' B1 g1 B2 g2)
  then show ?case using graph_run.run_step [of g "A + B1" g1 B2 g2] by (simp add: add.assoc)
qed simp

definition node_strings :: "node_snapshot \<Rightarrow> nat" where
  "node_strings node = 5 + length (ns_tags node)"

lemma read_node_ok:
  assumes ok: "graph_ok g" and room: "handles_left (node_strings node) g"
    and n: "unat (nd_count (gr_nodes g)) + 1 < 2 ^ 32" and new: "ns_external_id node \<notin> set (node_ext_ids g)"
    and readable: "node_readable node"
  obtains g' where "read_nodes (node # rest) g = read_nodes rest g'" "graph_run g {#} g'"
    "node_view g' = node_view g @ [node]" "unat (nd_count (gr_nodes g')) = unat (nd_count (gr_nodes g)) + 1"
    "length (in_strings (gr_strings g')) \<le> length (in_strings (gr_strings g)) + node_strings node"
    "nd_node_type (gr_nodes g') = nd_node_type (gr_nodes g) @ [u8_to_node_type (ns_node_type node)]"
    "gr_csr g' = gr_csr g" "gr_edge_plasticity g' = gr_edge_plasticity g" "\<not> gr_finalized g'"
proof -
  obtain g1 r where step: "add_node (ns_external_id node) (ns_label node) (u8_to_node_type (ns_node_type node)) (ns_tags node)
      (ns_last_modified node) (ns_change_frequency node) g = (g1, r)" by force
  let ?n = "nd_count (gr_nodes g)" and ?p = "ns_provenance node"
  have room1: "handles_left (2 + length (ns_tags node)) g" using room by (simp add: handles_left_def node_strings_def)
  note view = add_node_view [OF ok room1 n unknown_id [OF ok new] readable step]
  have ok1: "graph_ok g1" using add_node_ok [OF ok room1 n step] by blast
  have room2: "handles_left 3 g1" using view room by (simp add: handles_left_def node_strings_def)
  have count: "unat (nd_count (gr_nodes g1)) = unat ?n + 1" using view unat_succ [OF n] by simp
  have node: "has_node g1 ?n" using count by (simp add: has_node_def)
  have normal: "provenance_normal ?p" using readable by (simp add: node_readable_def)
  let ?g = "set_node_provenance ?n ?p g1"
  have "node_view ?g = (node_view g @ [node\<lparr>ns_provenance := default_resolved\<rparr>])[unat ?n := node]"
    using set_provenance_view [OF ok1 room2 node normal] view by (simp add: nth_append)
  then have "node_view ?g = node_view g @ [node]" by (simp add: list_update_append)
  moreover have "graph_run g {#} ?g"
    using run_step [OF run_step [OF run_refl graph_step.step_node [OF room1 n step]] graph_step.step_provenance [OF room2]]
    by simp
  moreover have "read_nodes (node # rest) g = read_nodes rest ?g"
    using readable step view by (simp add: node_readable_def)
  moreover have "nd_count (gr_nodes ?g) = nd_count (gr_nodes g1)" "nd_node_type (gr_nodes ?g) = nd_node_type (gr_nodes g1)"
    "gr_csr ?g = gr_csr g1" "gr_edge_plasticity ?g = gr_edge_plasticity g1" "gr_finalized ?g = gr_finalized g1"
    by (simp_all add: set_node_provenance_def Let_def split: prod.splits)
  moreover have "length (in_strings (gr_strings ?g)) \<le> length (in_strings (gr_strings g)) + node_strings node"
    using set_provenance_growth(1) [OF ok1 room2, of ?n ?p] view by (simp add: node_strings_def)
  ultimately show ?thesis using that [of ?g] view count by simp
qed

lemma read_nodes_ok:
  "graph_ok g \<Longrightarrow> \<forall>node \<in> set nodes. node_readable node \<Longrightarrow>
   distinct (node_ext_ids g @ map ns_external_id nodes) \<Longrightarrow> handles_left (sum_list (map node_strings nodes)) g \<Longrightarrow>
   unat (nd_count (gr_nodes g)) + length nodes < 2 ^ 32 \<Longrightarrow>
   \<exists>g'. read_nodes nodes g = Ok g' \<and> graph_run g {#} g' \<and> node_view g' = node_view g @ nodes \<and>
     length (in_strings (gr_strings g')) \<le> length (in_strings (gr_strings g)) + sum_list (map node_strings nodes) \<and>
     nd_node_type (gr_nodes g') = nd_node_type (gr_nodes g) @ map (u8_to_node_type \<circ> ns_node_type) nodes \<and>
     gr_csr g' = gr_csr g \<and> gr_edge_plasticity g' = gr_edge_plasticity g \<and> (nodes \<noteq> [] \<longrightarrow> \<not> gr_finalized g')"
proof (induction nodes arbitrary: g)
  case Nil
  then show ?case by (simp add: run_refl)
next
  case (Cons node rest)
  have room: "handles_left (node_strings node) g" using Cons.prems(4) by (simp add: handles_left_def)
  have n: "unat (nd_count (gr_nodes g)) + 1 < 2 ^ 32" using Cons.prems(5) by simp
  obtain g1 where g1: "read_nodes (node # rest) g = read_nodes rest g1" "graph_run g {#} g1"
    "node_view g1 = node_view g @ [node]" "unat (nd_count (gr_nodes g1)) = unat (nd_count (gr_nodes g)) + 1"
    "length (in_strings (gr_strings g1)) \<le> length (in_strings (gr_strings g)) + node_strings node"
    "nd_node_type (gr_nodes g1) = nd_node_type (gr_nodes g) @ [u8_to_node_type (ns_node_type node)]"
    "gr_csr g1 = gr_csr g" "gr_edge_plasticity g1 = gr_edge_plasticity g" "\<not> gr_finalized g1"
    using read_node_ok [OF Cons.prems(1) room n _ _, of rest] Cons.prems(2,3) by auto
  have ok1: "graph_ok g1" using graph_run_keeps [OF g1(2) Cons.prems(1)] by (simp add: keeps_def)
  have ids: "node_ext_ids g1 = node_ext_ids g @ [ns_external_id node]"
    using arg_cong [OF g1(3), of "map ns_external_id"] by (simp add: node_view_ids)
  have room1: "handles_left (sum_list (map node_strings rest)) g1"
    using Cons.prems(4) g1(5) by (simp add: handles_left_def)
  obtain g' where "read_nodes rest g1 = Ok g'" "graph_run g1 {#} g'" "node_view g' = node_view g1 @ rest"
    "length (in_strings (gr_strings g')) \<le> length (in_strings (gr_strings g1)) + sum_list (map node_strings rest)"
    "nd_node_type (gr_nodes g') = nd_node_type (gr_nodes g1) @ map (u8_to_node_type \<circ> ns_node_type) rest"
    "gr_csr g' = gr_csr g1" "gr_edge_plasticity g' = gr_edge_plasticity g1" "rest \<noteq> [] \<longrightarrow> \<not> gr_finalized g'"
    "rest = [] \<longrightarrow> g' = g1"
    using Cons.IH [OF ok1 _ _ room1] Cons.prems(2,3,5) ids g1(4) by (cases rest) auto
  then show ?case using g1 graph_run_trans [of g1 "{#}" g' g "{#}"] by (intro exI [of _ g']) auto
qed

section \<open>All edges\<close>

definition edge_key :: "graph \<Rightarrow> edge_snapshot \<Rightarrow> slot_key" where
  "edge_key g e = \<lparr>ek_source = the (resolve_id g (es_source_id e)), ek_target = the (resolve_id g (es_target_id e)),
     ek_relation = the (interner_lookup (gr_strings g) (es_relation e)), ek_direction = es_direction e,
     ek_inhibitory = es_inhibitory e, ek_causal_strength_bits = es_causal_strength e\<rparr>"

definition edge_known :: "graph \<Rightarrow> edge_snapshot \<Rightarrow> bool" where
  "edge_known g e \<longleftrightarrow> resolve_id g (es_source_id e) \<noteq> None \<and> resolve_id g (es_target_id e) \<noteq> None \<and>
     interner_lookup (gr_strings g) (es_relation e) \<noteq> None"

lemma lookup_iff: "interner_ok t \<Longrightarrow> interner_lookup t s = Some i \<longleftrightarrow> try_resolve t i = Some s"
  by (simp add: interner_lookup_def interner_ok_def)

lemma edge_known_keeps:
  assumes "graph_ok g" "keeps g g'" "edge_known g e"
  shows "edge_known g' e \<and> edge_key g' e = edge_key g e"
proof -
  obtain s t r where k: "resolve_id g (es_source_id e) = Some s" "resolve_id g (es_target_id e) = Some t"
    "interner_lookup (gr_strings g) (es_relation e) = Some r" using assms(3) by (auto simp: edge_known_def)
  have "interner_ok (gr_strings g)" "interner_ok (gr_strings g')" "interner_extends (gr_strings g) (gr_strings g')"
    using graph_ok_parts(1) assms(1,2) by (auto simp: keeps_def)
  then have "interner_lookup (gr_strings g') (es_relation e) = Some r"
    using k(3) try_resolve_extends by (simp add: lookup_iff)
  then show ?thesis
    using k resolve_id_keeps [OF assms(1,2)] by (simp add: edge_known_def edge_key_def)
qed

lemma keys_same:
  assumes "graph_ok g" "keeps g g'" "\<forall>e \<in> set es. edge_known g e"
  shows "(\<Sum>e \<in># mset es. key_arcs (edge_key g' e)) = (\<Sum>e \<in># mset es. key_arcs (edge_key g e))"
  using edge_known_keeps [OF assms(1,2)] assms(3) by (intro arg_cong [of _ _ sum_mset] image_mset_cong) simp

definition edge_readable :: "graph \<Rightarrow> edge_snapshot \<Rightarrow> bool" where
  "edge_readable g e \<longleftrightarrow> validate_v4_edge e = Ok () \<and> resolve_id g (es_source_id e) \<noteq> None \<and>
     resolve_id g (es_target_id e) \<noteq> None"

lemma valid_edge:
  assumes "validate_v4_edge e = Ok ()"
  shows "f32_is_finite (es_original_weight e)" "f32_is_finite (es_current_weight e)"
    "f32_is_finite (es_causal_strength e)" "es_direction e = 0 \<or> es_direction e = 1"
    "es_direction e = 1 \<Longrightarrow> \<exists>o' c. es_reverse_original_weight e = Some o' \<and> es_reverse_current_weight e = Some c \<and>
      f32_is_finite o' \<and> f32_is_finite c"
proof -
  have le: "es_direction e \<le> 1" using assms by (simp add: validate_v4_edge_def not_less split: if_splits)
  then have "unat (es_direction e) \<le> 1" by (simp add: word_le_nat_alt)
  then show "es_direction e = 0 \<or> es_direction e = 1"
    by (metis le_neq_implies_less less_one unat_1 unat_0 word_unat_eq_iff)
  show "f32_is_finite (es_original_weight e)" "f32_is_finite (es_current_weight e)" "f32_is_finite (es_causal_strength e)"
    using assms by (simp_all add: validate_v4_edge_def split: if_splits)
  show "es_direction e = 1 \<Longrightarrow> \<exists>o' c. es_reverse_original_weight e = Some o' \<and> es_reverse_current_weight e = Some c \<and>
      f32_is_finite o' \<and> f32_is_finite c"
    using assms by (auto simp: validate_v4_edge_def split: if_splits)
qed

lemma resolve_has_node: "graph_ok g \<Longrightarrow> resolve_id g x = Some v \<Longrightarrow> has_node g v"
  using graph_ok_parts(8) resolve_id_iff unfolding ids_ok_def has_node_def by blast

lemma read_edge_ok:
  assumes ok: "graph_ok g" and room: "handles_left 1 g" and readable: "edge_readable g e"
  obtains g' B where "read_edges (e # rest) g = read_edges rest g'" "graph_run g B g'" "edge_known g' e"
    "gr_nodes g' = gr_nodes g" "\<not> gr_finalized g'" "csr_shapes (gr_csr g') = csr_shapes (gr_csr g)"
    "image_mset key_of_shape (graph_arcs g') = image_mset key_of_shape (graph_arcs g) + key_arcs (edge_key g' e)"
    "length (in_strings (gr_strings g')) \<le> length (in_strings (gr_strings g)) + 1"
proof -
  obtain s t where st: "resolve_id g (es_source_id e) = Some s" "resolve_id g (es_target_id e) = Some t"
    using readable by (auto simp: edge_readable_def)
  have valid: "validate_v4_edge e = Ok ()" using readable by (simp add: edge_readable_def)
  let ?dir = "if es_direction e = 1 then EdgeBidirectional else EdgeForward"
  let ?step = "add_edge s t (es_relation e) (finite_f32 (es_original_weight e)) ?dir (es_inhibitory e)
    (finite_f32 (es_causal_strength e)) g"
  have ends: "unat s < unat (nd_count (gr_nodes g))" "unat t < unat (nd_count (gr_nodes g))"
    using resolve_has_node [OF ok] st by (auto simp: has_node_def)
  obtain t1 rel1 where intern: "get_or_intern (gr_strings g) (es_relation e) = (t1, rel1)" by force
  obtain g' edge where step: "?step = (g', Inr edge)"
    and parts: "gr_nodes g' = gr_nodes g" "\<not> gr_finalized g'" "gr_strings g' = t1" "gr_id_to_node g' = gr_id_to_node g"
    using ends intern by (auto simp: add_edge_def Let_def structure_changed_def not_le)
  from add_edge_ok [OF ok room step] obtain rel where
    "graph_ok g'" "interner_extends (gr_strings g) (gr_strings g')" "try_resolve (gr_strings g') rel = Some (es_relation e)"
    "csr_shapes (gr_csr g') = csr_shapes (gr_csr g)"
    "graph_arcs g' = graph_arcs g + shape_arcs (new_shape s t rel (es_inhibitory e) ?dir (finite_f32 (es_causal_strength e)))"
    by blast
  note g' = this
  have keeps: "keeps g g'" using g' parts(4) by (simp add: keeps_def)
  have look: "interner_lookup (gr_strings g') (es_relation e) = Some rel"
    using g'(3) lookup_iff graph_ok_parts(1) [OF g'(1)] by blast
  have ids: "resolve_id g' (es_source_id e) = Some s" "resolve_id g' (es_target_id e) = Some t"
    using resolve_id_keeps [OF ok keeps] st by auto
  have "key_of_shape (new_shape s t rel (es_inhibitory e) ?dir (finite_f32 (es_causal_strength e))) = edge_key g' e"
    using look ids valid_edge(3,4) [OF valid]
    by (auto simp: key_of_shape_def new_shape_def edge_key_def)
  then have "image_mset key_of_shape (graph_arcs g') = image_mset key_of_shape (graph_arcs g) + key_arcs (edge_key g' e)"
    by (simp add: g'(5) key_of_arcs)
  moreover have "read_edges (e # rest) g = read_edges rest g'"
    using st step by (simp add: edge_ends_def ok_or_def and_then_def)
  moreover have "edge_known g' e" using ids look by (simp add: edge_known_def)
  moreover have "length (in_strings (gr_strings g')) \<le> length (in_strings (gr_strings g)) + 1"
    using get_or_intern_handle(4) [OF graph_ok_parts(1) [OF ok] _ intern] room parts(3) by (simp add: handles_left_def)
  ultimately show ?thesis
    using that graph_run.run_step [OF run_refl graph_step.step_edge [OF room step]] parts g'(4) by fastforce
qed

lemma edge_readable_keeps:
  "graph_ok g \<Longrightarrow> keeps g g' \<Longrightarrow> edge_readable g e \<Longrightarrow> edge_readable g' e"
  using resolve_id_keeps by (fastforce simp: edge_readable_def)

lemma read_edges_ok:
  "graph_ok g \<Longrightarrow> handles_left (length edges) g \<Longrightarrow> \<forall>e \<in> set edges. edge_readable g e \<Longrightarrow>
   \<exists>g' B. read_edges edges g = Ok g' \<and> graph_run g B g' \<and> gr_nodes g' = gr_nodes g \<and>
     (gr_finalized g' \<longrightarrow> gr_finalized g) \<and> csr_shapes (gr_csr g') = csr_shapes (gr_csr g) \<and>
     (\<forall>e \<in> set edges. edge_known g' e) \<and>
     image_mset key_of_shape (graph_arcs g') =
       image_mset key_of_shape (graph_arcs g) + (\<Sum>e \<in># mset edges. key_arcs (edge_key g' e))"
proof (induction edges arbitrary: g)
  case Nil
  then show ?case using run_refl by fastforce
next
  case (Cons e rest)
  have room: "handles_left 1 g" using Cons.prems(2) by (simp add: handles_left_def)
  obtain g1 A where g1: "read_edges (e # rest) g = read_edges rest g1" "graph_run g A g1" "edge_known g1 e"
    "gr_nodes g1 = gr_nodes g" "\<not> gr_finalized g1" "csr_shapes (gr_csr g1) = csr_shapes (gr_csr g)"
    "image_mset key_of_shape (graph_arcs g1) = image_mset key_of_shape (graph_arcs g) + key_arcs (edge_key g1 e)"
    "length (in_strings (gr_strings g1)) \<le> length (in_strings (gr_strings g)) + 1"
    using read_edge_ok [OF Cons.prems(1) room, of e rest] Cons.prems(3) by auto
  have keeps1: "keeps g g1" using graph_run_keeps [OF g1(2) Cons.prems(1)] .
  then have ok1: "graph_ok g1" by (simp add: keeps_def)
  have room1: "handles_left (length rest) g1" using Cons.prems(2) g1(8) by (simp add: handles_left_def)
  have readable: "\<forall>e \<in> set rest. edge_readable g1 e" using Cons.prems(1,3) keeps1 edge_readable_keeps by simp
  obtain g' B where g': "read_edges rest g1 = Ok g'" "graph_run g1 B g'" "gr_nodes g' = gr_nodes g1"
    "gr_finalized g' \<longrightarrow> gr_finalized g1" "csr_shapes (gr_csr g') = csr_shapes (gr_csr g1)" "\<forall>e \<in> set rest. edge_known g' e"
    "image_mset key_of_shape (graph_arcs g') =
      image_mset key_of_shape (graph_arcs g1) + (\<Sum>e \<in># mset rest. key_arcs (edge_key g' e))"
    using Cons.IH [OF ok1 room1 readable] by blast
  have "keeps g1 g'" using graph_run_keeps [OF g'(2) ok1] .
  then have "edge_known g' e" "edge_key g' e = edge_key g1 e" using edge_known_keeps [OF ok1 _ g1(3)] by auto
  then show ?case
    using g1 g' graph_run_trans [OF g'(2) g1(2)] by (intro exI [of _ g'] exI [of _ "A + B"]) simp
qed

section \<open>Restoring the weights\<close>

definition reweighted :: "graph \<Rightarrow> graph \<Rightarrow> bool" where
  "reweighted g h \<longleftrightarrow> (\<exists>ws os cs. length ws = csr_num_edges (gr_csr g) \<and> length os = csr_num_edges (gr_csr g) \<and>
     length cs = csr_num_edges (gr_csr g) \<and>
     h = g\<lparr>gr_csr := (gr_csr g)\<lparr>cs_weights := ws\<rparr>, gr_edge_plasticity := (gr_edge_plasticity g)
       \<lparr>ep_original_weight := os, ep_current_weight := cs\<rparr>\<rparr>)"

lemma reweighted_tables:
  assumes "reweighted g h"
  shows "gr_nodes h = gr_nodes g" "gr_strings h = gr_strings g" "gr_id_to_node h = gr_id_to_node g"
    "gr_finalized h = gr_finalized g" "key_at (gr_csr h) = key_at (gr_csr g)" "csr_num_edges (gr_csr h) = csr_num_edges (gr_csr g)"
  using assms
  by (auto simp: reweighted_def key_at_def [abs_def] shape_at_def slot_sources_def slot_at_def slot_shape_def
      csr_num_edges_def)

lemma reweighted_same:
  assumes "reweighted g h"
  shows "gr_nodes h = gr_nodes g" "gr_strings h = gr_strings g" "gr_id_to_node h = gr_id_to_node g"
    "gr_finalized h = gr_finalized g" "key_at (gr_csr h) = key_at (gr_csr g)" "csr_num_edges (gr_csr h) = csr_num_edges (gr_csr g)"
    "node_ext_ids h = node_ext_ids g" "resolve_id h = resolve_id g" "edge_key h = edge_key g"
proof -
  note tables = reweighted_tables [OF assms]
  show ids: "node_ext_ids h = node_ext_ids g" unfolding node_ext_ids_def tables ..
  show res: "resolve_id h = resolve_id g" unfolding resolve_id_def [abs_def] tables ..
  show "edge_key h = edge_key g" unfolding edge_key_def [abs_def] res tables ..
qed (rule reweighted_tables [OF assms])+

lemma reweighted_view:
  assumes "reweighted g h"
  shows "node_view h = node_view g"
  using reweighted_same [OF assms]
  by (simp add: node_view_def node_snapshot_of_def Let_def resolve_node_provenance_def has_node_def)

text \<open>One slot is written, the facts of the others stay.\<close>

lemma restore_slot_ok:
  assumes rw: "reweighted g h" and slot: "slot < csr_num_edges (gr_csr g)" and small: "csr_num_edges (gr_csr g) < 2 ^ 32"
    and fin: "f32_is_finite original" "f32_is_finite current"
  obtains h' where "restore_edge_slot slot original current h = Ok h'" "reweighted g h'"
    "slot_fact h' slot = key_fact (node_ext_ids g) (in_strings (gr_strings g)) (key_at (gr_csr g) slot) original current"
    "\<And>j. j < csr_num_edges (gr_csr g) \<Longrightarrow> j \<noteq> slot \<Longrightarrow> slot_fact h' j = slot_fact h j"
proof -
  obtain ws os cs where lens: "length ws = csr_num_edges (gr_csr g)" "length os = csr_num_edges (gr_csr g)"
      "length cs = csr_num_edges (gr_csr g)"
    and h: "h = g\<lparr>gr_csr := (gr_csr g)\<lparr>cs_weights := ws\<rparr>, gr_edge_plasticity := (gr_edge_plasticity g)
       \<lparr>ep_original_weight := os, ep_current_weight := cs\<rparr>\<rparr>"
    using rw unfolding reweighted_def by blast
  let ?h = "g\<lparr>gr_csr := (gr_csr g)\<lparr>cs_weights := ws[slot := current]\<rparr>, gr_edge_plasticity := (gr_edge_plasticity g)
       \<lparr>ep_original_weight := os[slot := original], ep_current_weight := cs[slot := current]\<rparr>\<rparr>"
  have rw': "reweighted g ?h" unfolding reweighted_def using lens by (metis length_list_update)
  have at: "unat (of_nat j :: edge_idx) = j" if "j < csr_num_edges (gr_csr g)" for j
    using that small by simp
  have "restore_edge_slot slot original current h = Ok ?h"
    using slot lens fin by (simp add: restore_edge_slot_def validate_edge_plasticity_slot_def h and_then_def Let_def)
  moreover have "slot_fact ?h slot = key_fact (node_ext_ids g) (in_strings (gr_strings g)) (key_at (gr_csr g) slot) original current"
    unfolding slot_fact_def reweighted_same [OF rw'] using at [OF slot] slot lens fin by (simp add: read_weight_def)
  moreover have "slot_fact ?h j = slot_fact h j" if "j < csr_num_edges (gr_csr g)" "j \<noteq> slot" for j
    unfolding slot_fact_def reweighted_same [OF rw'] reweighted_same [OF rw]
    using that at [OF that(1)] by (simp add: read_weight_def h)
  ultimately show ?thesis using that rw' by blast
qed

text \<open>The state of the loop: what is open has the keys of the edges to come, what is used the facts of those done.\<close>

definition restore_inv ::
  "graph \<Rightarrow> slot_key multiset \<Rightarrow> edge_fact multiset \<Rightarrow> slot_queues \<times> bool list \<times> graph \<Rightarrow> bool" where
  "restore_inv g todo facts st \<longleftrightarrow> (case st of (Q, consumed, h) \<Rightarrow>
     reweighted g h \<and> length consumed = csr_num_edges (gr_csr g) \<and> queues_ok (key_at (gr_csr g)) consumed Q \<and>
     open_keys (key_at (gr_csr g)) consumed = todo \<and> image_mset (slot_fact h) (used_slots consumed) = facts)"

lemma used_slots_mem: "j \<in># used_slots consumed \<longleftrightarrow> j < length consumed \<and> consumed ! j"
  by (simp add: used_slots_def)

lemma restore_at_ok:
  assumes inv: "restore_inv g (add_mset key todo) facts st" and small: "csr_num_edges (gr_csr g) < 2 ^ 32"
    and fin: "f32_is_finite original" "f32_is_finite current"
  obtains st' where "restore_at key original current st = Ok st'"
    "restore_inv g todo (add_mset (key_fact (node_ext_ids g) (in_strings (gr_strings g)) key original current) facts) st'"
proof -
  obtain Q consumed h where st: "st = (Q, consumed, h)" by (cases st)
  let ?K = "key_at (gr_csr g)"
  have i: "reweighted g h" "length consumed = csr_num_edges (gr_csr g)" "queues_ok ?K consumed Q"
    "open_keys ?K consumed = add_mset key todo" "image_mset (slot_fact h) (used_slots consumed) = facts"
    using inv by (simp_all add: restore_inv_def st)
  obtain slot js where open_slot: "open_slots ?K consumed key = slot # js"
    using open_slot_exists [of key ?K consumed] i(4) by auto
  obtain Q' where Q': "pop_unconsumed_slot Q key consumed = (Q', Some slot)" "queues_ok ?K (consumed[slot := True]) Q'"
    "slot < length consumed" "\<not> consumed ! slot" "?K slot = key"
    using pop_ok [OF i(3) open_slot] .
  obtain h' where h': "restore_edge_slot slot original current h = Ok h'" "reweighted g h'"
    "slot_fact h' slot = key_fact (node_ext_ids g) (in_strings (gr_strings g)) (?K slot) original current"
    "\<And>j. j < csr_num_edges (gr_csr g) \<Longrightarrow> j \<noteq> slot \<Longrightarrow> slot_fact h' j = slot_fact h j"
    using restore_slot_ok [OF i(1) _ small fin, of slot] Q'(3) i(2) by metis
  have "image_mset (slot_fact h') (used_slots consumed) = image_mset (slot_fact h) (used_slots consumed)"
    using h'(4) Q'(4) i(2) by (intro image_mset_cong) (auto simp: used_slots_mem)
  then have "image_mset (slot_fact h') (used_slots (consumed[slot := True])) =
      add_mset (key_fact (node_ext_ids g) (in_strings (gr_strings g)) key original current) facts"
    using mark_counts(2) [OF Q'(3,4)] h'(3) i(5) Q'(5) by simp
  moreover have "open_keys ?K (consumed[slot := True]) = todo"
    using mark_counts(1) [OF Q'(3,4), of ?K] i(4) Q'(5) by simp
  ultimately have "restore_inv g todo (add_mset (key_fact (node_ext_ids g) (in_strings (gr_strings g)) key original current) facts)
      (Q', consumed[slot := True], h')"
    using Q' h'(2) i(2) by (simp add: restore_inv_def)
  moreover have "restore_at key original current st = Ok (Q', consumed[slot := True], h')"
    using Q'(1) h'(1) by (simp add: restore_at_def st and_then_def)
  ultimately show ?thesis using that by blast
qed

lemma edge_key_fact:
  assumes "graph_ok g" "edge_known g e"
  shows "key_fact (node_ext_ids g) (in_strings (gr_strings g)) (edge_key g e) o' c =
      (es_source_id e, es_target_id e, es_relation e, es_inhibitory e, es_direction e, es_causal_strength e, o', c)"
    and "key_fact (node_ext_ids g) (in_strings (gr_strings g)) (reversed (edge_key g e)) o' c =
      (es_target_id e, es_source_id e, es_relation e, es_inhibitory e, es_direction e, es_causal_strength e, o', c)"
proof -
  obtain s t r where k: "resolve_id g (es_source_id e) = Some s" "resolve_id g (es_target_id e) = Some t"
    "interner_lookup (gr_strings g) (es_relation e) = Some r" using assms(2) by (auto simp: edge_known_def)
  have "try_resolve (gr_strings g) r = Some (es_relation e)"
    using k(3) lookup_iff graph_ok_parts(1) [OF assms(1)] by blast
  then have "in_strings (gr_strings g) ! unat r = es_relation e" by (simp add: try_resolve_def split: if_splits)
  moreover have "node_ext_ids g ! unat s = es_source_id e" "node_ext_ids g ! unat t = es_target_id e"
    using node_ext_ids_at [OF assms(1)] k by auto
  ultimately show "key_fact (node_ext_ids g) (in_strings (gr_strings g)) (edge_key g e) o' c =
      (es_source_id e, es_target_id e, es_relation e, es_inhibitory e, es_direction e, es_causal_strength e, o', c)"
    "key_fact (node_ext_ids g) (in_strings (gr_strings g)) (reversed (edge_key g e)) o' c =
      (es_target_id e, es_source_id e, es_relation e, es_inhibitory e, es_direction e, es_causal_strength e, o', c)"
    using k by (simp_all add: key_fact_def edge_key_def reversed_def)
qed

lemma restore_edge_ok:
  assumes ok: "graph_ok g" and small: "csr_num_edges (gr_csr g) < 2 ^ 32" and known: "edge_known g e"
    and valid: "validate_v4_edge e = Ok ()" and inv: "restore_inv g (key_arcs (edge_key g e) + todo) facts st"
  obtains st' where "restore_edge e st = Ok st'" "restore_inv g todo (edge_expand e + facts) st'"
proof -
  let ?key = "edge_key g e" and ?fact = "key_fact (node_ext_ids g) (in_strings (gr_strings g))"
  have dir: "ek_direction ?key = es_direction e" by (simp add: edge_key_def)
  have todo: "key_arcs ?key + todo =
      add_mset ?key (if es_direction e = 1 then add_mset (reversed ?key) todo else todo)"
    by (simp add: key_arcs_def dir)
  obtain st1 where st1: "restore_at ?key (es_original_weight e) (es_current_weight e) st = Ok st1"
    "restore_inv g (if es_direction e = 1 then add_mset (reversed ?key) todo else todo)
      (add_mset (?fact ?key (es_original_weight e) (es_current_weight e)) facts) st1"
    using restore_at_ok [OF inv [unfolded todo] small valid_edge(1,2) [OF valid]] .
  have same: "reweighted g (snd (snd st))" using inv by (auto simp: restore_inv_def split: prod.splits)
  have step: "restore_edge e st = (if es_direction e = 1
      then restore_at (reversed ?key) (the (es_reverse_original_weight e)) (the (es_reverse_current_weight e)) st1
      else Ok st1)"
    using known st1(1) reweighted_same [OF same]
    by (auto simp: restore_edge_def edge_ends_def ok_or_def and_then_def edge_known_def edge_key_def Let_def)
  show ?thesis
  proof (cases "es_direction e = 1")
    case False
    then show ?thesis
      using that [of st1] st1(2) step edge_key_fact(1) [OF ok known] by (simp add: edge_expand_def)
  next
    case True
    then obtain o' c where oc: "es_reverse_original_weight e = Some o'" "es_reverse_current_weight e = Some c"
      "f32_is_finite o'" "f32_is_finite c" using valid_edge(5) [OF valid] by blast
    have inv1: "restore_inv g (add_mset (reversed ?key) todo)
        (add_mset (?fact ?key (es_original_weight e) (es_current_weight e)) facts) st1" using st1(2) True by simp
    obtain st2 where "restore_at (reversed ?key) o' c st1 = Ok st2"
      "restore_inv g todo (add_mset (?fact (reversed ?key) o' c)
        (add_mset (?fact ?key (es_original_weight e) (es_current_weight e)) facts)) st2"
      using restore_at_ok [OF inv1 small oc(3,4)] .
    then show ?thesis
      using that [of st2] step True oc edge_key_fact [OF ok known] by (simp add: edge_expand_def add_mset_commute)
  qed
qed

lemma restore_edges_ok:
  assumes ok: "graph_ok g" and small: "csr_num_edges (gr_csr g) < 2 ^ 32"
  shows "\<forall>e \<in> set edges. edge_known g e \<and> validate_v4_edge e = Ok () \<Longrightarrow>
    restore_inv g (\<Sum>e \<in># mset edges. key_arcs (edge_key g e)) facts st \<Longrightarrow>
    \<exists>st'. restore_edges edges st = Ok st' \<and> restore_inv g {#} ((\<Sum>e \<in># mset edges. edge_expand e) + facts) st'"
proof (induction edges arbitrary: facts st)
  case Nil
  then show ?case by simp
next
  case (Cons e edges)
  have inv: "restore_inv g (key_arcs (edge_key g e) + (\<Sum>e \<in># mset edges. key_arcs (edge_key g e))) facts st"
    using Cons.prems(2) by simp
  have e: "edge_known g e" "validate_v4_edge e = Ok ()" using Cons.prems(1) by auto
  obtain st1 where st1: "restore_edge e st = Ok st1"
    "restore_inv g (\<Sum>e \<in># mset edges. key_arcs (edge_key g e)) (edge_expand e + facts) st1"
    using restore_edge_ok [OF ok small e inv] .
  obtain st' where "restore_edges edges st1 = Ok st'"
    "restore_inv g {#} ((\<Sum>e \<in># mset edges. edge_expand e) + (edge_expand e + facts)) st'"
    using Cons.IH [OF _ st1(2)] Cons.prems(1) by auto
  then show ?case using st1(1) by (auto simp: and_then_def ac_simps)
qed

section \<open>Reading a snapshot\<close>

text \<open>What a snapshot must be to be read: names that are distinct and known, valid rows, room for its strings.\<close>

definition snapshot_readable :: "graph_snapshot \<Rightarrow> bool" where
  "snapshot_readable s \<longleftrightarrow> gs_version s = SNAPSHOT_VERSION \<and> gs_nodes s \<noteq> [] \<and>
     (\<forall>node \<in> set (gs_nodes s). node_readable node) \<and> distinct (map ns_external_id (gs_nodes s)) \<and>
     (\<forall>e \<in> set (gs_edges s). validate_v4_edge e = Ok () \<and>
       es_source_id e \<in> set (map ns_external_id (gs_nodes s)) \<and> es_target_id e \<in> set (map ns_external_id (gs_nodes s))) \<and>
     size (\<Sum>e \<in># mset (gs_edges s). edge_expand e) < 2 ^ 32 \<and> length (gs_nodes s) < 2 ^ 32 \<and>
     sum_list (map node_strings (gs_nodes s)) + length (gs_edges s) < 2 ^ 32"

lemma finalize_columns:
  assumes "\<not> gr_finalized g"
  shows "nd_node_type (gr_nodes (finalize F g)) = nd_node_type (gr_nodes g)"
    "nd_last_modified (gr_nodes (finalize F g)) = nd_last_modified (gr_nodes g)"
    "nd_change_frequency (gr_nodes (finalize F g)) = nd_change_frequency (gr_nodes g)"
proof -
  have "nd_node_type (gr_nodes (compute_pagerank F d m t g)) = nd_node_type (gr_nodes g)"
    "nd_last_modified (gr_nodes (compute_pagerank F d m t g)) = nd_last_modified (gr_nodes g)"
    "nd_change_frequency (gr_nodes (compute_pagerank F d m t g)) = nd_change_frequency (gr_nodes g)" for d m t g
    by (simp_all add: compute_pagerank_def Let_def)
  then show "nd_node_type (gr_nodes (finalize F g)) = nd_node_type (gr_nodes g)"
    "nd_last_modified (gr_nodes (finalize F g)) = nd_last_modified (gr_nodes g)"
    "nd_change_frequency (gr_nodes (finalize F g)) = nd_change_frequency (gr_nodes g)"
    using assms by (simp_all add: finalize_def Let_def flip: staged_graph_def)
qed

lemma finalize_view:
  assumes "graph_ok g" "\<not> gr_finalized g"
  shows "node_view (finalize F g) = node_view g"
proof (rule node_view_same)
  show "keeps g (finalize F g)"
    using finalize_ok [OF assms(1), of F] by (simp add: keeps_def finalize_same_tables)
qed (use assms finalize_columns finalize_tables finalize_parts(5) in simp_all)

lemma expand_size: "size (edge_expand e) = size (key_arcs (edge_key g e))"
  by (simp add: edge_expand_def key_arcs_def edge_key_def)

lemma expand_sizes:
  "size (\<Sum>e \<in># mset es. edge_expand e) = size (\<Sum>e \<in># mset es. key_arcs (edge_key g e))"
  by (induction es) (simp_all add: expand_size [of _ g])

lemma read_graph_ok:
  assumes s: "snapshot_readable s"
  obtains g1 g2 where "read_nodes (gs_nodes s) graph_new = Ok g1" "read_edges (gs_edges s) g1 = Ok g2"
    "graph_ok g2" "\<not> gr_finalized g2" "node_view g2 = gs_nodes s"
    "nd_node_type (gr_nodes g2) = map (u8_to_node_type \<circ> ns_node_type) (gs_nodes s)"
    "csr_shapes (gr_csr g2) = {#}" "\<forall>e \<in> set (gs_edges s). edge_known g2 e"
    "image_mset key_of_shape (graph_arcs g2) = (\<Sum>e \<in># mset (gs_edges s). key_arcs (edge_key g2 e))"
proof -
  note ok0 = graph_new_ok
  have new: "node_view graph_new = []" "node_ext_ids graph_new = []" "nd_node_type (gr_nodes graph_new) = []"
    by (simp_all add: node_view_def node_ext_ids_def graph_new_def nodes_new_def interner_new_def)
  have "handles_left (sum_list (map node_strings (gs_nodes s))) graph_new"
    using s by (simp add: snapshot_readable_def handles_left_def graph_new_def interner_new_def)
  then obtain g1 where g1: "read_nodes (gs_nodes s) graph_new = Ok g1" "graph_run graph_new {#} g1" "node_view g1 = gs_nodes s"
    "length (in_strings (gr_strings g1)) \<le> sum_list (map node_strings (gs_nodes s))"
    "nd_node_type (gr_nodes g1) = map (u8_to_node_type \<circ> ns_node_type) (gs_nodes s)"
    "gr_csr g1 = gr_csr graph_new" "\<not> gr_finalized g1"
    using read_nodes_ok [OF ok0, of "gs_nodes s"] s new
    by (auto simp: snapshot_readable_def graph_new_def nodes_new_def interner_new_def)
  have ok1: "graph_ok g1" using graph_run_keeps [OF g1(2) ok0] by (simp add: keeps_def)
  have ids: "node_ext_ids g1 = map ns_external_id (gs_nodes s)" using node_view_ids [of g1] g1(3) by simp
  have known: "resolve_id g1 x \<noteq> None" if x: "x \<in> set (map ns_external_id (gs_nodes s))" for x
  proof -
    obtain i where i: "i < unat (nd_count (gr_nodes g1))" "node_ext_ids g1 ! i = x"
      using x unfolding ids [symmetric] by (auto simp: in_set_conv_nth)
    then show ?thesis
      using resolve_node_ext_ids [OF ok1, of "of_nat i"] of_nat_node [OF i(1)] by (simp add: has_node_def)
  qed
  have "\<forall>e \<in> set (gs_edges s). edge_readable g1 e"
    using s known by (simp add: snapshot_readable_def edge_readable_def)
  moreover have "handles_left (length (gs_edges s)) g1" using s g1(4) by (simp add: snapshot_readable_def handles_left_def)
  ultimately obtain g2 B where g2: "read_edges (gs_edges s) g1 = Ok g2" "graph_run g1 B g2" "gr_nodes g2 = gr_nodes g1"
    "gr_finalized g2 \<longrightarrow> gr_finalized g1" "csr_shapes (gr_csr g2) = csr_shapes (gr_csr g1)"
    "\<forall>e \<in> set (gs_edges s). edge_known g2 e"
    "image_mset key_of_shape (graph_arcs g2) =
      image_mset key_of_shape (graph_arcs g1) + (\<Sum>e \<in># mset (gs_edges s). key_arcs (edge_key g2 e))"
    using read_edges_ok [OF ok1, of "gs_edges s"] by blast
  have keeps: "keeps g1 g2" using graph_run_keeps [OF g2(2) ok1] .
  moreover have "node_view g2 = gs_nodes s" using node_view_same [OF ok1 keeps] g2(3) g1(3) by simp
  moreover have "csr_shapes (gr_csr g2) = {#}" "graph_arcs g1 = {#}"
    using g2(5) new_arcs g1(6) by (simp_all add: graph_arcs_def)
  ultimately show ?thesis using that [OF g1(1) g2(1)] g1(5,7) g2(3,4,6,7) by (simp add: keeps_def)
qed

text \<open>Finalized from staged edges alone, the slots of a graph are those of its edges, and each edge finds
  its slots for its weights.\<close>

lemma restored_ok:
  fixes F :: f32_arith
  assumes ok2: "graph_ok g2" "\<not> gr_finalized g2" "csr_shapes (gr_csr g2) = {#}"
    and es: "\<forall>e \<in> set es. edge_known g2 e \<and> validate_v4_edge e = Ok ()"
      "image_mset key_of_shape (graph_arcs g2) = (\<Sum>e \<in># mset es. key_arcs (edge_key g2 e))"
      "size (\<Sum>e \<in># mset es. edge_expand e) < 2 ^ 32"
  defines "g \<equiv> finalize F g2"
  obtains queues Q' consumed h where "edge_slot_sources g = Ok (map of_nat (slot_sources (gr_csr g)))"
    "edge_slot_queues g (map of_nat (slot_sources (gr_csr g))) = Ok queues"
    "restore_edges es (queues, replicate (csr_num_edges (gr_csr g)) False, g) = Ok (Q', consumed, h)"
    "reweighted g h" "edge_facts h = (\<Sum>e \<in># mset es. edge_expand e)"
proof -
  let ?n = "csr_num_edges (gr_csr g)"
  have keeps: "keeps g2 g" using finalize_ok [OF ok2(1), of F] by (simp add: g_def keeps_def finalize_same_tables)
  then have ok: "graph_ok g" by (simp add: keeps_def)
  have cover: "rows_cover (unat (nd_count (gr_nodes g))) (gr_csr g)"
    using finalize_laid_out [OF ok2(1,2)] by (simp add: g_def laid_out_def)
  have cols: "csr_columns ?n (gr_csr g)" "plasticity_rows ?n (gr_edge_plasticity g)"
    using graph_ok_parts(3) [OF ok] finalize_pending(1) [OF graph_ok_parts(3) [OF ok2(1)] ok2(2), of F]
    by (simp_all add: g_def edges_ok_def csr_ok_def)
  have "csr_shapes (gr_csr g) = graph_arcs g2"
    using finalize_shapes [OF graph_ok_parts(3) [OF ok2(1)] ok2(2), of F] ok2(3) by (simp add: g_def graph_arcs_def)
  moreover have known2: "\<forall>e \<in> set es. edge_known g2 e" using es(1) by blast
  ultimately have keys: "open_keys (key_at (gr_csr g)) (replicate ?n False) = (\<Sum>e \<in># mset es. key_arcs (edge_key g e))"
    using laid_out_keys [OF cover] es(2) keys_same [OF ok2(1) keeps known2] by simp
  have "size (open_keys (key_at (gr_csr g)) (replicate ?n False)) = ?n" unfolding open_start by simp
  then have small: "?n < 2 ^ 32" using es(3) keys expand_sizes [of es g] by simp
  obtain Q where Q: "edge_slot_queues g (map of_nat (slot_sources (gr_csr g))) = Ok Q"
    "queues_ok (key_at (gr_csr g)) (replicate ?n False) Q" using edge_slot_queues_ok [OF cover cols(1)] .
  have "reweighted g g"
    unfolding reweighted_def using cols
    by (intro exI [of _ "cs_weights (gr_csr g)"] exI [of _ "ep_original_weight (gr_edge_plasticity g)"]
        exI [of _ "ep_current_weight (gr_edge_plasticity g)"]) (simp add: csr_columns_def plasticity_rows_def)
  then have inv: "restore_inv g (\<Sum>e \<in># mset es. key_arcs (edge_key g e)) {#} (Q, replicate ?n False, g)"
    using Q(2) keys by (simp add: restore_inv_def used_start)
  have "\<forall>e \<in> set es. edge_known g e \<and> validate_v4_edge e = Ok ()" using es(1) edge_known_keeps [OF ok2(1) keeps] by blast
  then obtain Q' consumed h where h: "restore_edges es (Q, replicate ?n False, g) = Ok (Q', consumed, h)"
    "restore_inv g {#} (\<Sum>e \<in># mset es. edge_expand e) (Q', consumed, h)"
    using restore_edges_ok [OF ok small _ inv] by auto
  then have rw: "reweighted g h" and none: "open_keys (key_at (gr_csr g)) consumed = {#}"
    by (simp_all add: restore_inv_def)
  have "length consumed = ?n" "image_mset (slot_fact h) (used_slots consumed) = (\<Sum>e \<in># mset es. edge_expand e)"
    using h(2) by (simp_all add: restore_inv_def)
  then have "edge_facts h = (\<Sum>e \<in># mset es. edge_expand e)"
    using used_all [OF open_none [OF none]] reweighted_same(6) [OF rw] by (simp add: edge_facts_def)
  with that [OF edge_slot_sources_ok [OF cover] Q(1) h(1) rw] show ?thesis .
qed

lemma read_ok:
  assumes s: "snapshot_readable s"
  obtains h where "graph_from_snapshot_v4 F s = Ok h" "gr_finalized h" "node_view h = gs_nodes s"
    "nd_node_type (gr_nodes h) = map (u8_to_node_type \<circ> ns_node_type) (gs_nodes s)"
    "edge_facts h = (\<Sum>e \<in># mset (gs_edges s). edge_expand e)"
proof -
  obtain g1 g2 where g1: "read_nodes (gs_nodes s) graph_new = Ok g1" and g2: "read_edges (gs_edges s) g1 = Ok g2"
    and ok: "graph_ok g2" "\<not> gr_finalized g2" and view: "node_view g2 = gs_nodes s"
    and types: "nd_node_type (gr_nodes g2) = map (u8_to_node_type \<circ> ns_node_type) (gs_nodes s)"
    and arcs: "csr_shapes (gr_csr g2) = {#}" "\<forall>e \<in> set (gs_edges s). edge_known g2 e"
      "image_mset key_of_shape (graph_arcs g2) = (\<Sum>e \<in># mset (gs_edges s). key_arcs (edge_key g2 e))"
    by (rule read_graph_ok [OF s])
  have es: "\<forall>e \<in> set (gs_edges s). edge_known g2 e \<and> validate_v4_edge e = Ok ()"
    "size (\<Sum>e \<in># mset (gs_edges s). edge_expand e) < 2 ^ 32"
    using s arcs(2) by (simp_all add: snapshot_readable_def)
  obtain Q Q' consumed h where h: "edge_slot_sources (finalize F g2) = Ok (map of_nat (slot_sources (gr_csr (finalize F g2))))"
    "edge_slot_queues (finalize F g2) (map of_nat (slot_sources (gr_csr (finalize F g2)))) = Ok Q"
    "restore_edges (gs_edges s) (Q, replicate (csr_num_edges (gr_csr (finalize F g2))) False, finalize F g2) = Ok (Q', consumed, h)"
    and rw: "reweighted (finalize F g2) h" and facts: "edge_facts h = (\<Sum>e \<in># mset (gs_edges s). edge_expand e)"
    by (rule restored_ok [OF ok arcs(1) es(1) arcs(3) es(2), of F])
  have "node_view h = gs_nodes s" unfolding reweighted_view [OF rw] finalize_view [OF ok] by (rule view)
  moreover have "gr_finalized h" using reweighted_same(4) [OF rw] by (simp add: finalize_def Let_def)
  moreover have "nd_node_type (gr_nodes h) = map (u8_to_node_type \<circ> ns_node_type) (gs_nodes s)"
    using reweighted_same(1) [OF rw] finalize_columns(1) [OF ok(2)] types by simp
  moreover have "seq_checks (map validate_v4_edge (gs_edges s)) = Ok ()" using s by (simp add: snapshot_readable_def)
  then have "graph_from_snapshot_v4 F s = Ok h"
    using s g1 g2 h
    by (simp add: graph_from_snapshot_v4_def snapshot_readable_def and_then_def Let_def del: seq_checks_ok)
  ultimately show ?thesis using that facts by blast
qed

section \<open>What is lost and what is kept\<close>

text \<open>The codes of the node types that come back.\<close>

fun encodable :: "node_type \<Rightarrow> bool" where
  "encodable (NtCustom v) \<longleftrightarrow> v < 156"
| "encodable _ \<longleftrightarrow> True"

lemma custom_code:
  assumes "v < (156 :: u8)"
  shows "\<not> 100 + v \<le> 16" "100 \<le> 100 + v" "(100 + v) - 100 = v"
proof -
  have "unat v < 156" using assms by (simp add: word_less_nat_alt)
  then have "unat (100 + v) = 100 + unat v" by (simp add: unat_word_ariths)
  then show "\<not> 100 + v \<le> 16" "100 \<le> 100 + v" by (simp_all add: word_le_nat_alt)
qed simp

lemma encodable_round: "encodable ty \<Longrightarrow> u8_to_node_type (node_type_to_u8 ty) = ty"
  using custom_code by (cases ty) (simp_all add: u8_to_node_type_def plain_node_types_def)

text \<open>
  Graphs of which a snapshot keeps everything: the floats are finite, as the type \<open>FiniteF32\<close> says of most;
  the type codes are below \<open>256\<close>; setting the provenance again changes nothing; indices fit their types.
\<close>

definition snapshot_exact :: "graph \<Rightarrow> bool" where
  "snapshot_exact g \<longleftrightarrow> (let d = gr_nodes g in
     weights_finite g \<and> (\<forall>ty \<in> set (nd_node_type d). encodable ty) \<and>
     (\<forall>v \<in> set (nd_last_modified d). f64_is_finite v) \<and> (\<forall>v \<in> set (nd_change_frequency d). f32_is_finite v) \<and>
     (\<forall>v. has_node g v \<longrightarrow> provenance_normal (resolve_node_provenance g v)) \<and>
     csr_num_edges (gr_csr g) < 2 ^ 32 \<and>
     sum_list (map (\<lambda>tags. 5 + length tags) (nd_tags d)) + csr_num_edges (gr_csr g) < 2 ^ 32)"

lemma node_ids_distinct:
  assumes "graph_ok g"
  shows "distinct (node_ext_ids g)"
  unfolding distinct_conv_nth
proof (intro allI impI)
  fix i j assume ij: "i < length (node_ext_ids g)" "j < length (node_ext_ids g)" "i \<noteq> j"
  then have "unat (of_nat i :: node_id) = i" "unat (of_nat j :: node_id) = j" using of_nat_node by auto
  moreover have "resolve_id g (node_ext_ids g ! i) = Some (of_nat i)" "resolve_id g (node_ext_ids g ! j) = Some (of_nat j)"
    using resolve_node_ext_ids [OF assms, of "of_nat i"] resolve_node_ext_ids [OF assms, of "of_nat j"] ij calculation
    by (simp_all add: has_node_def)
  ultimately show "node_ext_ids g ! i \<noteq> node_ext_ids g ! j" using ij(3) by (metis option.inject)
qed

lemma exact_node_readable:
  assumes ok: "graph_ok g" and exact: "snapshot_exact g" and i: "i < unat (nd_count (gr_nodes g))"
  shows "node_readable (node_snapshot_of g ext i) \<and>
    u8_to_node_type (ns_node_type (node_snapshot_of g ext i)) = nd_node_type (gr_nodes g) ! i"
proof -
  have len: "i < length (nd_node_type (gr_nodes g))" "i < length (nd_last_modified (gr_nodes g))"
    "i < length (nd_change_frequency (gr_nodes g))"
    using graph_ok_parts(2) [OF ok] i by (simp_all add: node_columns_def Let_def)
  then have "encodable (nd_node_type (gr_nodes g) ! i)" "f64_is_finite (nd_last_modified (gr_nodes g) ! i)"
    "f32_is_finite (nd_change_frequency (gr_nodes g) ! i)"
    using exact by (simp_all add: snapshot_exact_def Let_def)
  moreover have "provenance_normal (resolve_node_provenance g (of_nat i))"
    using exact i of_nat_node [OF i] by (simp add: snapshot_exact_def has_node_def Let_def)
  ultimately show ?thesis using encodable_round by (simp add: node_readable_def node_snapshot_of_def Let_def)
qed

lemma expand_length: "length es \<le> size (\<Sum>e \<in># mset es. edge_expand e)"
  by (induction es) (simp_all add: edge_expand_def)

lemma node_strings_sum:
  assumes "graph_ok g"
  shows "sum_list (map node_strings (node_view g)) = sum_list (map (\<lambda>tags. 5 + length tags) (nd_tags (gr_nodes g)))"
proof -
  have "map node_strings (node_view g) = map (\<lambda>tags. 5 + length tags) (nd_tags (gr_nodes g))"
    using graph_ok_parts(2) [OF assms]
    by (intro nth_equalityI) (simp_all add: node_view_nth node_strings_def node_snapshot_of_def node_columns_def Let_def)
  then show ?thesis by simp
qed

lemma written_readable:
  assumes ok: "graph_ok g" and exact: "snapshot_exact g" and some: "nd_count (gr_nodes g) \<noteq> 0"
    and edges: "(\<Sum>e \<in># mset edges. edge_expand e) = edge_facts g" "\<forall>e \<in> set edges. edge_written g e"
  shows "snapshot_readable \<lparr>gs_version = SNAPSHOT_VERSION, gs_nodes = node_view g, gs_edges = edges\<rparr>"
proof -
  have size: "size (\<Sum>e \<in># mset edges. edge_expand e) = csr_num_edges (gr_csr g)"
    unfolding edges(1) by (simp add: edge_facts_def)
  have few: "length edges \<le> csr_num_edges (gr_csr g)" using expand_length [of edges] size by simp
  have "node_view g \<noteq> []" using some by (simp add: node_view_def unat_eq_0)
  moreover have "\<forall>node \<in> set (node_view g). node_readable node"
    using exact_node_readable [OF ok exact] by (auto simp: node_view_def)
  moreover have "length (node_view g) < 2 ^ 32"
    using unsigned_less [of "nd_count (gr_nodes g)", where ?'a = nat] by simp
  moreover have "sum_list (map node_strings (node_view g)) + length edges < 2 ^ 32"
    using exact few unfolding node_strings_sum [OF ok] by (simp add: snapshot_exact_def Let_def)
  moreover have "csr_num_edges (gr_csr g) < 2 ^ 32" using exact by (simp add: snapshot_exact_def Let_def)
  ultimately show ?thesis
    using size edges(2) node_ids_distinct [OF ok]
    by (simp add: snapshot_readable_def node_view_ids edge_written_def del: set_map) 
qed

text \<open>Writing a finalized graph cannot fail, and reading back a graph without nodes gives one.\<close>

lemma snapshot_written:
  assumes ok: "graph_ok g" and laid: "laid_out g" and fin: "gr_finalized g" and weights: "weights_finite g"
  obtains edges where "snapshot_of_graph g = Ok \<lparr>gs_version = SNAPSHOT_VERSION, gs_nodes = node_view g, gs_edges = edges\<rparr>"
    "(\<Sum>e \<in># mset edges. edge_expand e) = edge_facts g" "\<forall>e \<in> set edges. edge_written g e"
proof -
  have pend: "cs_pending_edges (gr_csr g) = []" using ok fin by (simp add: graph_ok_def)
  obtain edges where edges: "collect_edge_snapshots_v4 g (node_ext_ids g) = Ok edges"
    "(\<Sum>e \<in># mset edges. edge_expand e) = edge_facts g" "\<forall>e \<in> set edges. edge_written g e"
    using collect_ok [OF ok laid pend weights] .
  then show ?thesis using that [of edges] pend by (simp add: snapshot_of_graph_def node_view_def and_then_def Let_def)
qed

lemma no_nodes_no_edges:
  assumes "laid_out g" "nd_count (gr_nodes g) = 0"
  shows "edge_facts g = {#}"
proof -
  have "csr_num_edges (gr_csr g) = 0"
    using assms rows_cover_last [of 0 "gr_csr g"] by (simp add: laid_out_def rows_cover_def)
  then show ?thesis by (simp add: edge_facts_def)
qed

lemma empty_read:
  obtains h where "graph_from_snapshot_v4 F \<lparr>gs_version = SNAPSHOT_VERSION, gs_nodes = [], gs_edges = []\<rparr> = Ok h"
    "gr_finalized h" "node_view h = []" "nd_node_type (gr_nodes h) = []" "edge_facts h = {#}"
proof -
  have new: "\<not> gr_finalized graph_new" "nd_count (gr_nodes graph_new) = 0" "nd_node_type (gr_nodes graph_new) = []"
    by (simp_all add: graph_new_def nodes_new_def)
  have "laid_out (finalize F graph_new)" by (rule finalize_laid_out [OF graph_new_ok new(1)])
  then have "edge_facts (finalize F graph_new) = {#}"
    by (rule no_nodes_no_edges) (simp add: finalize_parts(5) [OF new(1)] new(2))
  with that [of "finalize F graph_new"] show ?thesis
    using finalize_parts(5,7) [OF new(1), of F] finalize_columns(1) [OF new(1), of F] new(2,3)
    by (simp add: graph_from_snapshot_v4_def node_view_def)
qed

text \<open>C12: A snapshot keeps the graph: of every finalized graph that calls built from the empty one, and whose
  type codes, floats, provenance and sizes the format can hold, the version 4 snapshot is made without an
  error and read back without an error into a finalized graph with the same nodes in the same order (identifier,
  label, type, tags, times, provenance) and the same directed edges by name, parallel ones included, each
  slot with its own original and current weight, those of the two slots of a bidirectional edge kept
  apart.\<close>
theorem snapshot_keeps_the_graph:
  assumes "graph_run graph_new A g" and "gr_finalized g" and "snapshot_exact g"
  shows "\<exists>s h. snapshot_of_graph g = Ok s \<and> graph_from_snapshot_v4 F s = Ok h \<and> gr_finalized h \<and>
    node_view h = node_view g \<and> nd_node_type (gr_nodes h) = nd_node_type (gr_nodes g) \<and> edge_facts h = edge_facts g"
proof -
  have ok: "graph_ok g" using graph_run_keeps [OF assms(1)] graph_new_ok by (simp add: keeps_def)
  have laid: "laid_out g" using run_laid_out [OF assms(1) refl assms(2)] .
  have weights: "weights_finite g" using assms(3) by (simp add: snapshot_exact_def Let_def)
  obtain edges where s: "snapshot_of_graph g = Ok \<lparr>gs_version = SNAPSHOT_VERSION, gs_nodes = node_view g, gs_edges = edges\<rparr>"
    and edges: "(\<Sum>e \<in># mset edges. edge_expand e) = edge_facts g" "\<forall>e \<in> set edges. edge_written g e"
    by (rule snapshot_written [OF ok laid assms(2) weights])
  show ?thesis
  proof (cases "nd_count (gr_nodes g) = 0")
    case False
    have types: "map (u8_to_node_type \<circ> ns_node_type) (node_view g) = nd_node_type (gr_nodes g)"
      using exact_node_readable [OF ok assms(3)] graph_ok_parts(2) [OF ok]
      by (intro nth_equalityI) (simp_all add: node_view_nth node_columns_def Let_def)
    obtain h where "graph_from_snapshot_v4 F \<lparr>gs_version = SNAPSHOT_VERSION, gs_nodes = node_view g, gs_edges = edges\<rparr> = Ok h"
      "gr_finalized h" "node_view h = node_view g" "nd_node_type (gr_nodes h) = nd_node_type (gr_nodes g)"
      "edge_facts h = edge_facts g"
      using read_ok [OF written_readable [OF ok assms(3) False edges], of F] types edges(1)
      by (metis graph_snapshot.select_convs(2,3))
    with s show ?thesis by blast
  next
    case True
    then have none: "edge_facts g = {#}" by (rule no_nodes_no_edges [OF laid])
    with expand_length [of edges] have "edges = []" unfolding edges(1) none by simp
    moreover have "node_view g = []" "nd_node_type (gr_nodes g) = []"
      using True graph_ok_parts(2) [OF ok] by (simp_all add: node_view_def node_columns_def Let_def)
    ultimately show ?thesis using s none empty_read [of F] by metis
  qed
qed

text \<open>A custom type from \<open>156\<close> on comes back as another type: the code of \<open>Custom(156)\<close> is that of a file.\<close>

lemma high_custom_type_is_lost: "u8_to_node_type (node_type_to_u8 (NtCustom 156)) = NtFile"
  by code_simp

text \<open>The sample: two nodes, one bidirectional edge, and a weight learned on its mirror slot.\<close>

definition sample_learned :: graph where
  "sample_learned = (let g = finalize flat_arith sample_joined in
     g\<lparr>gr_csr := fst (atomic_write_weight (\<lambda>_. True) 1 0x3F000000 64 (gr_csr g))\<rparr>)"

lemma sample_learned_run:
  "graph_run graph_new (named_arcs 0 1 ''calls'' False EdgeBidirectional F32_ZERO) sample_learned"
proof -
  let ?g = "finalize flat_arith sample_joined"
  obtain c r where c: "atomic_write_weight (\<lambda>_. True) 1 0x3F000000 64 (gr_csr ?g) = (c, r)" by fastforce
  have "graph_run graph_new (named_arcs 0 1 ''calls'' False EdgeBidirectional F32_ZERO) ?g"
    using graph_run.run_step [OF sample_joined_run step_finalize] by simp
  from graph_run.run_step [OF this step_write [OF c]] show ?thesis by (simp add: sample_learned_def c Let_def)
qed

lemma sample_joined_open: "\<not> gr_finalized sample_joined"
  by code_simp

lemma sample_joined_tables:
  "in_strings (gr_strings sample_joined) = [''a'', ''Alpha'', ''core'', ''b'', ''Beta'', ''calls'']"
  "node_ext_ids sample_joined = [''a'', ''b'']" "nd_count (gr_nodes sample_joined) = 2"
  "nd_label (gr_nodes sample_joined) = [1, 4]" "nd_node_type (gr_nodes sample_joined) = [NtFile, NtClass]"
  "nd_tags (gr_nodes sample_joined) = [[2], []]" "nd_last_modified (gr_nodes sample_joined) = [0, 0]"
  "nd_change_frequency (gr_nodes sample_joined) = [0, 0]"
  "resolve_node_provenance sample_joined 0 = default_resolved" "resolve_node_provenance sample_joined 1 = default_resolved"
  by code_simp+

text \<open>Everything but the ranks is read from the graph before \<open>finalize\<close> ranked it.\<close>

lemma sample_learned_parts:
  "gr_csr sample_learned = fst (atomic_write_weight (\<lambda>_. True) 1 0x3F000000 64 (gr_csr (rebuild (staged_graph sample_joined))))"
  "gr_edge_plasticity sample_learned = gr_edge_plasticity (rebuild (staged_graph sample_joined))"
  "gr_strings sample_learned = gr_strings sample_joined" "gr_id_to_node sample_learned = gr_id_to_node sample_joined"
  "nd_count (gr_nodes sample_learned) = nd_count (gr_nodes sample_joined)" "gr_finalized sample_learned"
  "gr_nodes sample_learned = gr_nodes (finalize flat_arith sample_joined)"
  using finalize_parts [OF sample_joined_open, of flat_arith] by (simp_all add: sample_learned_def Let_def)

lemma sample_learned_view:
  "node_view sample_learned =
    [\<lparr>ns_external_id = ''a'', ns_label = ''Alpha'', ns_node_type = 0, ns_tags = [''core''], ns_last_modified = 0,
       ns_change_frequency = 0, ns_provenance = default_resolved\<rparr>,
     \<lparr>ns_external_id = ''b'', ns_label = ''Beta'', ns_node_type = 3, ns_tags = [], ns_last_modified = 0,
       ns_change_frequency = 0, ns_provenance = default_resolved\<rparr>]"
proof -
  have ok: "graph_ok sample_joined" using graph_run_keeps [OF sample_joined_run] graph_new_ok by (simp add: keeps_def)
  have ids: "node_ext_ids sample_learned = node_ext_ids (finalize flat_arith sample_joined)"
    unfolding node_ext_ids_def sample_learned_parts(3-5) finalize_parts(3-5) [OF sample_joined_open] ..
  have "node_view sample_learned = node_view (finalize flat_arith sample_joined)"
    unfolding node_view_def node_snapshot_of_def ids resolve_node_provenance_def has_node_def sample_learned_parts(3,7)
      finalize_parts(3) [OF sample_joined_open] ..
  also have "\<dots> = node_view sample_joined" by (rule finalize_view [OF ok sample_joined_open])
  finally show ?thesis
    by (simp add: node_view_def node_snapshot_of_def sample_joined_tables upt_rec Let_def)
qed

lemma sample_learned_facts:
  "edge_facts sample_learned =
    {#(''a'', ''b'', ''calls'', False, 1, 0, F32_ONE, F32_ONE), (''b'', ''a'', ''calls'', False, 1, 0, F32_ONE, 0x3F000000)#}"
proof -
  let ?c = "fst (atomic_write_weight (\<lambda>_. True) 1 0x3F000000 64 (gr_csr (rebuild (staged_graph sample_joined))))"
  have ids: "node_ext_ids sample_learned = node_ext_ids sample_joined"
    unfolding node_ext_ids_def sample_learned_parts(3-5) ..
  have "map (slot_fact sample_learned) [0 ..< csr_num_edges (gr_csr sample_learned)] =
      map (\<lambda>j. key_fact (node_ext_ids sample_joined) (in_strings (gr_strings sample_joined)) (key_at ?c j)
        (ep_original_weight (gr_edge_plasticity (rebuild (staged_graph sample_joined))) ! j) (read_weight ?c (of_nat j)))
        [0 ..< csr_num_edges ?c]"
    unfolding slot_fact_def ids sample_learned_parts(1-3) ..
  also have "\<dots> = [(''a'', ''b'', ''calls'', False, 1, 0, F32_ONE, F32_ONE), (''b'', ''a'', ''calls'', False, 1, 0, F32_ONE, 0x3F000000)]"
    by code_simp
  finally have "image_mset (slot_fact sample_learned) (mset [0 ..< csr_num_edges (gr_csr sample_learned)]) =
      mset [(''a'', ''b'', ''calls'', False, 1, 0, F32_ONE, F32_ONE), (''b'', ''a'', ''calls'', False, 1, 0, F32_ONE, 0x3F000000)]"
    unfolding mset_map [symmetric] by (rule arg_cong)
  then show ?thesis by (simp add: edge_facts_def)
qed

lemma sample_learned_exact: "snapshot_exact sample_learned"
proof -
  have csr: "csr_num_edges (gr_csr sample_learned) = 2" "cs_causal_strengths (gr_csr sample_learned) = [0, 0]"
    "ep_original_weight (gr_edge_plasticity sample_learned) = [F32_ONE, F32_ONE]"
    unfolding sample_learned_parts(1,2) by code_simp+
  have finite: "f32_is_finite F32_ONE" "f32_is_finite 0" "f64_is_finite 0" by code_simp+
  have cols: "nd_node_type (gr_nodes sample_learned) = [NtFile, NtClass]" "nd_last_modified (gr_nodes sample_learned) = [0, 0]"
    "nd_change_frequency (gr_nodes sample_learned) = [0, 0]" "nd_tags (gr_nodes sample_learned) = [[2], []]"
    using finalize_columns [OF sample_joined_open, of flat_arith] finalize_tables [OF sample_joined_open, of flat_arith]
    by (simp_all add: sample_learned_parts(7) sample_joined_tables)
  have "provenance_normal (resolve_node_provenance sample_learned v)" if "has_node sample_learned v" for v
  proof -
    from that have v: "unat v < 2" by (simp add: has_node_def sample_learned_parts(5) sample_joined_tables)
    then have "node_view sample_learned ! unat v = node_snapshot_of sample_learned (node_ext_ids sample_learned) (unat v)"
      by (simp add: node_view_def sample_learned_parts(5) sample_joined_tables)
    then have "resolve_node_provenance sample_learned v = ns_provenance (node_view sample_learned ! unat v)"
      by (simp add: node_snapshot_of_def Let_def)
    also have "\<dots> = default_resolved" using v by (auto simp: sample_learned_view less_2_cases_iff)
    finally show ?thesis by (simp add: provenance_normal_def default_resolved_def)
  qed
  then show ?thesis by (simp add: snapshot_exact_def weights_finite_def csr cols finite Let_def)
qed

text \<open>The weight learned on the mirror slot survives, beside the one of the slot it mirrors.\<close>

lemma snapshot_keeps_the_graph_witness:
  "\<exists>s h. snapshot_of_graph sample_learned = Ok s \<and> graph_from_snapshot_v4 flat_arith s = Ok h \<and>
     map ns_external_id (node_view h) = [''a'', ''b''] \<and>
     edge_facts h = {#(''a'', ''b'', ''calls'', False, 1, 0, F32_ONE, F32_ONE),
       (''b'', ''a'', ''calls'', False, 1, 0, F32_ONE, 0x3F000000)#}"
  using snapshot_keeps_the_graph [OF sample_learned_run sample_learned_parts(6) sample_learned_exact, of flat_arith]
  by (auto simp: sample_learned_view sample_learned_facts)

end
