(* ===== verification/Spec2Isabelle.thy ===== *)
theory Spec2Isabelle
  imports Reference_Platform Replay_Laws Policy_Laws Envelope Mission_Properties Identity_Laws
    Wal_Contracts Durable_Wal_Witnesses Crypto_Witnesses Runtime_Witnesses Runtime_Promotion
    Action_Consumers_Laws Release_Properties Organism_Manifest Graph_Snapshot
begin

text \<open>
  \<^bold>\<open>The authority core and the property graph of m1nd.\<close>

  m1nd runs agents on a code base and lets them change it only by authority that is signed, spent
  once and revocable.  This development models that core: the crate \<open>m1nd-control\<close> (contracts,
  digests and validators; the durable autonomy runtime) and the modules of \<open>m1nd-mcp\<close> that make its
  authority transactions durable and that decide which tool call may pass without authority.  Beside it
  stands the data structure every answer of m1nd is read from, the property graph of \<open>m1nd-core\<close>.
  Everything is translated from the sources below \<open>src/\<close>; the names of the definitions are the names
  of the code, with a suffix or an infix where HOL has the name or where two modules share one.

  \<^bold>\<open>How the parts work together.\<close>  Every contract is serialised to canonical JSON
  (\<open>canonical.rs\<close>) and sealed by a domain-separated digest over all its fields but the signature.
  Missions (\<open>mission.rs\<close>) move along a fixed transition table by signed intents; who may sign is
  decided by identities (\<open>identity.rs\<close>), by key registries and signatures (\<open>crypto_authority.rs\<close>)
  and by the action policy (\<open>policy.rs\<close>); events travel in envelopes (\<open>envelope.rs\<close>).  What is
  accepted is spent in a replay ledger (\<open>replay_ledger.rs\<close>), or, for transactions with an effect,
  prepared, made provisional and committed in a write-ahead log whose head is anchored outside the
  log (\<open>authority_wal.rs\<close> of both crates, \<open>protected_journal_head.rs\<close>).  Autonomy replaces the human
  approval by evidence, quorum and a safety kernel (\<open>autonomy.rs\<close>); its runtime
  (\<open>autonomy_runtime.rs\<close>) keeps the modes, grants, spent capabilities and the RED fence in a journal
  with a two-phase commit against a protected root.  What an action does and what it needs is the
  built-in catalog (\<open>action_catalog.rs\<close>); a tool call is routed to one of its actions
  (\<open>action_routes.rs\<close>), the generic gate (\<open>server.rs\<close>) lets only ordinary actions and one named
  exception through, and every other cell of the action by ingress matrix has a typed consumer or is
  disabled (\<open>action_consumers.rs\<close>).  The evidence for a release (\<open>release.rs\<close>) and the manifest of a
  running organism (\<open>manifest.rs\<close>) are sealed contracts with verdicts of their own.

  \<^bold>\<open>Theories, sources and what is shown.\<close>

  \<^item> \<open>Control_Prelude\<close>: Rust's \<open>Result\<close> as a sum with \<open>Inl\<close> the error, the early return of \<open>?\<close> as
    \<open>seq_checks\<close> and \<open>and_then\<close>, \<open>u64\<close> as \<open>64 word\<close> with checked and saturating arithmetic written out,
    the digest syntax.
  \<^item> \<open>Canonical\<close>, \<open>Reference_Platform\<close> (\<open>canonical.rs\<close>): JSON values, the writer that sorts the members
    of objects, the digest of a contract.  Canonical bytes are equal exactly for values equal up to
    the order of members; equal digests mean equal domain and value, or a concrete collision.
    \<open>Sealed_Contract\<close> has the locale \<open>sealed_contract\<close>: a digest function that is the contract digest
    of an injective serialisation pins every field.  \<open>Autonomy_Digests\<close> extends it to
    \<open>versioned_contract\<close>.  They are interpreted on five digests of \<open>mission.rs\<close>
    (\<open>Mission_Contracts\<close>), two of the WAL (\<open>Wal_Contracts\<close>), thirteen of \<open>autonomy.rs\<close> and four of
    \<open>release.rs\<close> (\<open>Release_Properties\<close>).
  \<^item> \<open>Log_Bytes\<close>, \<open>Replay_Ledger\<close>, \<open>Replay_Laws\<close> (\<open>replay_ledger.rs\<close>): the ledger in memory and the
    hash-chained one in a file.  The locale \<open>replay_ledger\<close> is what a client relies on (a consumed
    scope is refused for ever); both ledgers interpret it.  Runs of appends, failed appends, crashes and
    reopenings consume no scope twice, and recovery is exact.
  \<^item> \<open>Action_Policy\<close>, \<open>Policy_Laws\<close> (\<open>policy.rs\<close>): the registry and its validator, which decides a
    specification stated without loops.
  \<^item> \<open>Envelope\<close> (\<open>envelope.rs\<close>): causal envelopes, the requirement matrix, the time window.
  \<^item> \<open>Mission\<close>, \<open>Mission_Contracts\<close>, \<open>Mission_Properties\<close> (\<open>mission.rs\<close>, the advance of the head in
    \<open>mission_service.rs\<close>): the transition table, five signed contracts, histories of accepted intents as the
    step relation \<open>mission_step\<close>.
  \<^item> \<open>Identity\<close>, \<open>Identity_Laws\<close> (\<open>identity.rs\<close>): enrolled keys, challenges, approvals, decisions.
  \<^item> \<open>Authority_Wal\<close>, \<open>Wal_Contracts\<close> (\<open>m1nd-control/src/authority_wal.rs\<close>): the
    two variants of a transaction and the signed records of the log; which capability may stand behind
    which variant, and what its digest pins.
  \<^item> \<open>Protected_Head\<close> (\<open>protected_journal_head.rs\<close>): the anchor of a journal, locale \<open>protected_head\<close>,
    interpreted on the software backend of the source.  \<open>Durable_Wal\<close> and its five companions
    (\<open>m1nd-mcp/src/authority_wal.rs\<close>): append, recovery and open; lifecycle of every transaction,
    visible if and only if it was committed, exact recovery, durability of what was acknowledged, progress.
  \<^item> \<open>Crypto_Authority\<close>, \<open>Crypto_Entry\<close>, \<open>Crypto_Rotation\<close>, \<open>Crypto_Laws\<close>,
    \<open>Crypto_Properties\<close> (\<open>crypto_authority.rs\<close>): rotation chains, the three signed
    records under the locale \<open>signed_record\<close>, verification once against a ledger: runs of presentations
    (\<open>authority_run\<close>), in which no two accepted records name the same issuer, key and nonce.
  \<^item> \<open>Autonomy_Base\<close>, \<open>_Constitution\<close>, \<open>_Grants\<close>, \<open>_Sentinel\<close>, \<open>_Decision\<close>, \<open>_Capability\<close>
    (\<open>autonomy.rs\<close>): kernel, constitution and amendment, grants and epoch, sentinel verdict and RED
    outbox, quorum and authority decisions, capabilities and activation.  \<open>_Laws\<close>, \<open>_Authority\<close>
    and \<open>_Properties\<close> show what an accepted record implies and what its histories keep.
  \<^item> \<open>Runtime_Data\<close> to \<open>Runtime_Transitions\<close> (\<open>autonomy_runtime.rs\<close>, in its order): records and
    digests, validators, the state and its artifact checks, the journal with its two-phase append and
    recovery, the operations on intents and the opening of a store, the transitions.  A store is the
    record \<open>runtime_store\<close>, which carries its files (journal bytes, intent objects) and its root
    backend; every handler maps a store to a store and a result, failed branches included.
  \<^item> \<open>Runtime_Laws\<close>, \<open>Runtime_Typed\<close>: frames and effects of the calls, the
    inductive set \<open>reachable_store\<close>, and the type of the state it presents.
    \<open>Runtime_Fence\<close>: the abstract five-state automaton of the fence and the locale
    \<open>refines_automaton\<close>, a simulation proved once for runs of any step function and interpreted on
    the runtime.  \<open>Runtime_Digests\<close>, \<open>Runtime_Disk\<close>, \<open>Runtime_Recovery\<close>, \<open>Runtime_Reopen\<close>: the
    abstraction \<open>disk_holds\<close>, the one state that journal and root denote together; a commit moves it in its
    single compare-and-swap and every recovery reads it.  \<open>Runtime_Machine\<close>: histories of calls,
    crashes and openings; with working files and root a commit succeeds, and opening
    what it left succeeds exactly when the state passes the checks of \<open>open\<close> (\<open>passes_open_checks\<close>).
    \<open>Runtime_Properties\<close> has the properties, and at its end three promises the code does not keep.
  \<^item> \<open>Action_Catalog\<close>, \<open>Action_Catalog_Laws\<close>, \<open>Action_Builtin\<close> (\<open>action_catalog.rs\<close>): the catalog with all
    its entries, its validator, and a specification without loops that the validator decides.
    \<open>Action_Builtin\<close> evaluates the built-in catalog: it sorts, validates and is returned on every platform.
    Strings are compared there by \<open>differ\<close> and \<open>fresh_in\<close>, which the simplifier evaluates letter by letter.
  \<^item> \<open>Action_Routes\<close>, \<open>Action_Routes_Laws\<close>, \<open>Action_Properties\<close> (\<open>action_routes.rs\<close>,
    \<open>enforce_generic_action_policy\<close> of \<open>server.rs\<close>): every route ends at a catalogued action reachable over
    MCP, an exact classification is one of the possible ones, unknown tools and selectors are refused, and
    what the gate admits is ordinary or the one admitted action.
  \<^item> \<open>Action_Consumers\<close>, \<open>Action_Consumers_Laws\<close> (\<open>action_consumers.rs\<close>): the registry of typed consumers,
    which is the matrix of the catalog and the declarations.  The code pins the digest of its catalog; the
    hypothesis \<open>catalog_pinned\<close> says that the pin is the digest of the modelled catalog.
  \<^item> \<open>Release\<close>, \<open>Release_Properties\<close> (\<open>release.rs\<close>): candidates, gate receipts, reviews,
    metric specifications; convergence is decided by a specification on the set of receipts.
    \<open>Organism_Manifest\<close> (\<open>manifest.rs\<close>): the manifest and its verdict, characterised without its issue list.
  \<^item> \<open>Graph_Types\<close>, \<open>Graph_Store\<close> (\<open>types.rs\<close>, \<open>graph.rs\<close> of \<open>m1nd-core\<close>): the string interner, nodes,
    staged edges, \<open>finalize\<close> with the harvest of the rows of an earlier \<open>finalize\<close>, the counting passes
    of both directions and PageRank, weights, identifiers, tags and provenance.  \<open>Graph_Rows\<close>: the counting
    sort both passes are, once in a locale and interpreted for the forward and for the reverse vectors.
    \<open>Graph_Shapes\<close>: the rows as a multiset of directed edges, and what staging, harvest and rebuild do to
    it.  \<open>Graph_Properties\<close>: runs of all mutations from the empty graph, the invariant they keep, and that
    rows, reverse index and identifiers are what was added.  \<open>Graph_Snapshot\<close> (\<open>snapshot.rs\<close>): the
    snapshot of a graph and the graph rebuilt from it; each slot of the rows is found once under its
    key, written with its weights, and restored to a slot of the rebuilt rows (\<open>edge_facts\<close>, \<open>node_view\<close>: the
    edges and the nodes by name, which a snapshot keeps).
  \<^item> \<open>Reference_Platform\<close>, the \<open>_Samples\<close> and \<open>_Witnesses\<close>, the \<open>Runtime_Sample_*\<close>
    and the \<open>Runtime_Promotion\<close> theories: concrete platforms, keys, stores and
    complete runs (an empty disk to a promoted agent, a persisted RED, a spent capability), on
    which the properties with hypotheses are applied.

  \<^bold>\<open>State and effects.\<close>  Stores, ledgers and logs are records passed along; a file is the list of its
  bytes.  The outcome of each system call is an argument (\<open>None\<close> it works, \<open>Some n\<close> it fails after
  \<open>n\<close> bytes, or an error of the backend), so a statement over all arguments is one over all failures
  and over a crash at any of these points.  Loops are structural recursion; the rotation walk, the
  one loop without a structural measure, terminates by the length of the registry, as in the code.
  No fuel is used but where the code has it: the retry limit of an atomic weight and the fifty rounds of
  PageRank.

  \<^bold>\<open>Parameters and hypotheses.\<close>  Code outside \<open>src/\<close> is an argument.  \<open>platform\<close>: the SHA-256
  function, the string and the number writer of \<open>serde_json\<close>; \<open>serde_writer\<close> says that what they write can be
  read back and has no raw line break, \<open>sha256_width\<close> that a hash has 32 bytes.  No hypothesis says that the hash is
  free of collisions: where that matters the conclusion exhibits the collision, or the hypothesis
  (\<open>prepare_fresh\<close>, \<open>call_fresh\<close>) says that the digest of one new journal record is not among those of the
  commits already made.  \<open>parses_canonical\<close>, \<open>parses_wal\<close>, \<open>parses_journal\<close>: the derived parser
  reads what the derived writer wrote.  \<open>signature_library\<close> with \<open>der_faithful\<close>: Ed25519 and P-256.
  \<open>protected_head\<close>, \<open>protected_root_backend\<close>: a backend answers with what it holds and swaps
  atomically, or fails; \<open>obliging_backend\<close> adds that it does swap.  \<open>signs_one_epoch\<close>: a signature
  over one epoch is not accepted for another.  \<open>f32_arith\<close>: the rounded operations on floats; the order,
  finiteness and sign of a float are read off its bits.  \<open>snapshot_format\<close>:
  the writer and the parsers of graph snapshots, of which nothing is assumed.  Each hypothesis has an instance on which a witness runs.

  \<^bold>\<open>Machine integers.\<close>  Sequences, epochs, budgets and times are \<open>64 word\<close>.  The code adds with
  \<open>checked_add\<close>, \<open>saturating_add\<close> or with a plain \<open>+\<close> that panics or wraps by build profile; the
  model writes out which, and the laws name the bound where it matters (a journal below \<open>2 ^ 64\<close>
  records in \<open>journal_room\<close>).

  \<^bold>\<open>Not modelled.\<close>  The crates around this core.  The analyses of \<open>m1nd-core\<close> over the graph
  (spreading activation, plasticity, rankings) compute on \<open>f32\<close>, and what makes them right is a matter of
  rounding and of measured quality; of its snapshots the values are modelled, not the files nor the binary
  format.  Ingestion (\<open>m1nd-ingest\<close>) drives third-party grammars over a file system.  The runner and
  the transports are processes, sockets and threads around the calls modelled here.  Of
  \<open>mission_service.rs\<close> only the advance of the mission head is modelled: its landing, leases and
  recovery go through stores that are not part of this model.  \<open>authority_runtime.rs\<close>,
  \<open>brain_runtime.rs\<close> and \<open>external_mutation_service.rs\<close> compose the modelled parts with leases, key stores and
  the file system of the host.  Of \<open>server.rs\<close> only the generic gate is modelled.  Within the modelled
  modules the texts of error messages, the path and permission checks of the file system, locks between
  processes, and the derived parsers are left out or are arguments.
\<close>

end
